(* ===== verification/Prelude.thy ===== *)
theory Prelude
  imports Main "HOL-Library.Word" "HOL-Library.State_Monad"
begin

section \<open>Shared vocabulary of the development\<close>

text \<open>
  The machine types of the C code, the state monad the operations are written in, the
  two ways a C function can fail to return (\<open>stop\<close>), polling loops, and the small
  weakest-precondition calculus and word lemmas the component theories share.

  A C function without a loop on hardware is a program \<open>('s, 'a) state\<close> of
  HOL-Library's state monad: it always returns a value and a new state. A function that
  may wait for hardware, or whose arithmetic may trap, is a program whose value is
  \<open>stop + 'a\<close>: \<open>Inl Hang\<close> when the polling bound was used up and \<open>Inl Undef\<close> when the
  C code has undefined behaviour (division by zero).
\<close>

unbundle bit_operations_syntax

named_theorems wp_rules \<open>weakest-precondition equations of the primitive operations\<close>
named_theorems flag_simps \<open>bit-level facts about the flag words of the drivers\<close>

subsection \<open>Machine types\<close>

type_synonym u8 = "8 word"
type_synonym u16 = "16 word"
type_synonym u32 = "32 word"
type_synonym u64 = "64 word"

text \<open>
  \<open>int32_t\<close> values are kept in the same 32-bit words; \<open>sint\<close> reads them as signed
  numbers, and every signed comparison of the C code is written with it.
\<close>

type_synonym s32 = "32 word"

text \<open>A C truth value used as an integer.\<close>

definition c_bool :: "bool \<Rightarrow> s32" where
  "c_bool b = (if b then 1 else 0)"

lemma c_bool_simps [simp]:
  "c_bool True = 1" "c_bool False = 0" "(c_bool b = 0) = (\<not> b)" "(c_bool b = 1) = b"
  by (simp_all add: c_bool_def)

subsection \<open>Programs that may not return\<close>

datatype stop = Hang | Undef

type_synonym 'a res = "stop + 'a"

definition retE :: "'a \<Rightarrow> ('s, 'a res) state" where
  "retE x = State_Monad.return (Inr x)"

definition stopE :: "stop \<Rightarrow> ('s, 'a res) state" where
  "stopE w = State_Monad.return (Inl w)"

definition liftE :: "('s, 'a) state \<Rightarrow> ('s, 'a res) state" where
  "liftE m = do { x \<leftarrow> m; State_Monad.return (Inr x) }"

definition bindE :: "('s, 'a res) state \<Rightarrow> ('a \<Rightarrow> ('s, 'b res) state) \<Rightarrow> ('s, 'b res) state" where
  "bindE m f = do { r \<leftarrow> m; case r of Inl w \<Rightarrow> State_Monad.return (Inl w) | Inr x \<Rightarrow> f x }"

text \<open>\<open>c_if\<close>: a C \<open>if\<close> without an else branch.\<close>

definition c_if :: "bool \<Rightarrow> ('s, unit) state \<Rightarrow> ('s, unit) state" where
  "c_if b m = (if b then m else State_Monad.return ())"

definition c_ifE :: "bool \<Rightarrow> ('s, unit res) state \<Rightarrow> ('s, unit res) state" where
  "c_ifE b m = (if b then m else retE ())"

lemma run_retE [simp]: "run_state (retE x) s = (Inr x, s)"
  by (simp add: retE_def)

lemma run_stopE [simp]: "run_state (stopE w) s = (Inl w, s)"
  by (simp add: stopE_def)

lemma run_liftE [simp]: "run_state (liftE m) s = (case run_state m s of (x, t) \<Rightarrow> (Inr x, t))"
  by (simp add: liftE_def)

lemma run_bindE [simp]:
  "run_state (bindE m f) s =
     (case run_state m s of (Inl w, t) \<Rightarrow> (Inl w, t) | (Inr x, t) \<Rightarrow> run_state (f x) t)"
  by (auto simp: bindE_def split: prod.splits sum.splits)

lemma run_c_if [simp]:
  "run_state (c_if b m) s = (if b then run_state m s else ((), s))"
  by (simp add: c_if_def)

lemma run_c_ifE [simp]:
  "run_state (c_ifE b m) s = (if b then run_state m s else (Inr (), s))"
  by (simp add: c_ifE_def)

lemma run_update [simp]: "run_state (State_Monad.update f) s = ((), f s)"
  by (simp add: State_Monad.update_def)

subsection \<open>The weakest precondition of a program\<close>

definition wp :: "('s, 'a) state \<Rightarrow> ('a \<Rightarrow> 's \<Rightarrow> bool) \<Rightarrow> 's \<Rightarrow> bool" where
  "wp m Q s = Q (fst (run_state m s)) (snd (run_state m s))"

lemma wp_return [wp_rules]: "wp (State_Monad.return x) Q s = Q x s"
  by (simp add: wp_def)

lemma wp_bind [wp_rules]: "wp (State_Monad.bind m f) Q s = wp m (\<lambda>x. wp (f x) Q) s"
  by (simp add: wp_def split: prod.splits)

lemma wp_bind_ext: "wp (State_Monad.bind m f) Q = wp m (\<lambda>x. wp (f x) Q)"
  by (rule ext) (rule wp_bind)

lemma wp_get [wp_rules]: "wp State_Monad.get Q s = Q s s"
  by (simp add: wp_def)

lemma wp_update [wp_rules]: "wp (State_Monad.update f) Q s = Q () (f s)"
  by (simp add: wp_def)

lemma wp_if [wp_rules]: "wp (if b then m else n) Q s = (if b then wp m Q s else wp n Q s)"
  by simp

lemma wp_c_if [wp_rules]: "wp (c_if b m) Q s = (if b then wp m Q s else Q () s)"
  by (simp add: wp_def)

lemma wp_c_ifE [wp_rules]: "wp (c_ifE b m) Q s = (if b then wp m Q s else Q (Inr ()) s)"
  by (simp add: wp_def)

lemma wp_retE [wp_rules]: "wp (retE x) Q s = Q (Inr x) s"
  by (simp add: wp_def)

lemma wp_stopE [wp_rules]: "wp (stopE w) Q s = Q (Inl w) s"
  by (simp add: wp_def)

lemma wp_liftE [wp_rules]: "wp (liftE m) Q s = wp m (\<lambda>x. Q (Inr x)) s"
  by (simp add: wp_def split: prod.splits)

lemma wp_bindE [wp_rules]:
  "wp (bindE m f) Q s = wp m (\<lambda>r t. case r of Inl w \<Rightarrow> Q (Inl w) t | Inr x \<Rightarrow> wp (f x) Q t) s"
  by (simp add: wp_def split: prod.splits sum.splits)

lemma wp_bindE_liftE: "wp (bindE (liftE m) f) Q s = wp m (\<lambda>x. wp (f x) Q) s"
  by (simp add: wp_rules)

lemma wp_mono:
  assumes "wp m P s" and "\<And>x t. P x t \<Longrightarrow> Q x t"
  shows "wp m Q s"
  using assms by (auto simp: wp_def split: prod.splits)

lemma wp_bindI:
  "wp m P s \<Longrightarrow> (\<And>x t. P x t \<Longrightarrow> wp (f x) Q t) \<Longrightarrow> wp (State_Monad.bind m f) Q s"
  by (auto simp: wp_bind elim: wp_mono)

lemma wp_bindEI:
  "wp m (\<lambda>r t. case r of Inl w \<Rightarrow> Q (Inl w) t | Inr x \<Rightarrow> P x t) s \<Longrightarrow> (\<And>x t. P x t \<Longrightarrow> wp (f x) Q t)
   \<Longrightarrow> wp (bindE m f) Q s"
  by (auto simp: wp_bindE elim!: wp_mono split: sum.splits)

lemma wp_conj: "wp m P s \<Longrightarrow> wp m Q s \<Longrightarrow> wp m (\<lambda>x t. P x t \<and> Q x t) s"
  by (auto simp: wp_def split: prod.splits)

lemma wpD: "wp m Q s \<Longrightarrow> run_state m s = (x, t) \<Longrightarrow> Q x t"
  by (simp add: wp_def)

lemma wpI: "(\<And>x t. run_state m s = (x, t) \<Longrightarrow> Q x t) \<Longrightarrow> wp m Q s"
  by (simp add: wp_def)

text \<open>A program preserves a state predicate from every state that satisfies it.\<close>

definition preserves :: "('s \<Rightarrow> bool) \<Rightarrow> ('s, 'a) state \<Rightarrow> bool" where
  "preserves I m \<longleftrightarrow> (\<forall>s. I s \<longrightarrow> wp m (\<lambda>_. I) s)"

lemma preservesI: "(\<And>s. I s \<Longrightarrow> wp m (\<lambda>_. I) s) \<Longrightarrow> preserves I m"
  by (simp add: preserves_def)

lemma preservesD: "preserves I m \<Longrightarrow> I s \<Longrightarrow> wp m (\<lambda>_. I) s"
  by (simp add: preserves_def)

lemma preserves_return [intro!]: "preserves I (State_Monad.return x)"
  by (simp add: preserves_def wp_return)

lemma preserves_retE [intro!]: "preserves I (retE x)"
  by (simp add: preserves_def wp_retE)

lemma preserves_stopE [intro!]: "preserves I (stopE w)"
  by (simp add: preserves_def wp_stopE)

lemma preserves_get [intro!]: "preserves I State_Monad.get"
  by (simp add: preserves_def wp_get)

lemma preserves_bind [intro!]:
  "preserves I m \<Longrightarrow> (\<And>x. preserves I (f x)) \<Longrightarrow> preserves I (State_Monad.bind m f)"
  by (simp add: preserves_def wp_bind) (simp add: wp_def)

lemma preserves_bindE [intro!]:
  "preserves I m \<Longrightarrow> (\<And>x. preserves I (f x)) \<Longrightarrow> preserves I (bindE m f)"
  by (simp add: preserves_def wp_bindE) (simp add: wp_def split: sum.split)

lemma preserves_liftE [intro!]: "preserves I m \<Longrightarrow> preserves I (liftE m)"
  by (auto simp: preserves_def wp_def split_def)

lemma preserves_if [intro!]:
  "(b \<Longrightarrow> preserves I m) \<Longrightarrow> (\<not> b \<Longrightarrow> preserves I n) \<Longrightarrow> preserves I (if b then m else n)"
  by simp

lemma preserves_c_if [intro!]: "(b \<Longrightarrow> preserves I m) \<Longrightarrow> preserves I (c_if b m)"
  by (auto simp: c_if_def)

lemma preserves_c_ifE [intro!]: "(b \<Longrightarrow> preserves I m) \<Longrightarrow> preserves I (c_ifE b m)"
  by (auto simp: c_ifE_def)

subsection \<open>Polling loops\<close>

text \<open>
  \<open>while (!cond()) ;\<close> with a bound on the number of polls: \<open>Inr ()\<close> as soon as \<open>cond\<close>
  answers true, \<open>Inl Hang\<close> when it has answered false \<open>fuel\<close> times.
\<close>

primrec spin :: "nat \<Rightarrow> ('s, bool) state \<Rightarrow> ('s, unit res) state" where
  "spin 0 c = stopE Hang"
| "spin (Suc n) c = do { b \<leftarrow> c; if b then retE () else spin n c }"

text \<open>The state after \<open>k\<close> polls, and the answer of the poll made there.\<close>

primrec polled :: "nat \<Rightarrow> ('s, bool) state \<Rightarrow> 's \<Rightarrow> 's" where
  "polled 0 c s = s"
| "polled (Suc k) c s = polled k c (snd (run_state c s))"

definition answer :: "('s, bool) state \<Rightarrow> 's \<Rightarrow> bool" where
  "answer c s = fst (run_state c s)"

text \<open>
  The bound only cuts waiting short: the loop returns exactly when one of the first
  \<open>fuel\<close> polls answers true, and a larger bound changes no result it had.
\<close>

lemma spin_Suc_False:
  "\<not> answer c s \<Longrightarrow> run_state (spin (Suc n) c) s = run_state (spin n c) (snd (run_state c s))"
  by (cases "run_state c s") (simp add: answer_def)

lemma spin_Suc_True:
  "answer c s \<Longrightarrow> run_state (spin (Suc n) c) s = (Inr (), snd (run_state c s))"
  by (cases "run_state c s") (simp add: answer_def)

lemma spin_returns_iff:
  "fst (run_state (spin n c) s) = Inr () \<longleftrightarrow> (\<exists>k<n. answer c (polled k c s))"
proof (induction n arbitrary: s)
  case 0
  then show ?case by simp
next
  case (Suc n)
  show ?case
  proof (cases "answer c s")
    case True
    then have "\<exists>k<Suc n. answer c (polled k c s)" by (intro exI [of _ 0]) simp
    with True show ?thesis by (simp only: spin_Suc_True) simp
  next
    case False
    then have "fst (run_state (spin (Suc n) c) s) = Inr ()
        \<longleftrightarrow> (\<exists>k<n. answer c (polled k c (snd (run_state c s))))"
      by (simp del: spin.simps add: spin_Suc_False Suc.IH)
    with False show ?thesis by (simp add: Ex_less_Suc2 del: spin.simps)
  qed
qed

lemma spin_stops_only_by_hanging:
  "run_state (spin n c) s = (Inl w, t) \<Longrightarrow> w = Hang"
  by (induction n arbitrary: s) (auto split: prod.splits if_splits)

lemma spin_mono:
  "run_state (spin n c) s = (Inr (), t) \<Longrightarrow> n \<le> m \<Longrightarrow> run_state (spin m c) s = (Inr (), t)"
proof (induction n arbitrary: s m)
  case 0
  then show ?case by simp
next
  case (Suc n)
  then obtain m' where m: "m = Suc m'" and "n \<le> m'" by (cases m) auto
  with Suc show ?case by (auto split: prod.splits if_splits)
qed

lemma spin_preserves [intro!]: "preserves I c \<Longrightarrow> preserves I (spin n c)"
  by (induction n) (auto intro!: preserves_bind preserves_if)

lemma wp_spin_invariant:
  assumes "I s" and "\<And>t. I t \<Longrightarrow> wp c (\<lambda>_. I) t"
  shows "wp (spin n c) (\<lambda>r t. I t \<and> (r = Inr () \<or> r = Inl Hang)) s"
  using assms(1)
proof (induction n arbitrary: s)
  case 0
  then show ?case by (simp add: wp_def)
next
  case (Suc n)
  from assms(2) [OF Suc.prems] have I: "I (snd (run_state c s))"
    by (simp add: wp_def)
  show ?case
  proof (cases "answer c s")
    case True
    with I show ?thesis by (simp add: wp_def del: spin.simps add: spin_Suc_True)
  next
    case False
    with Suc.IH [OF I] show ?thesis by (simp add: wp_def del: spin.simps add: spin_Suc_False)
  qed
qed

text \<open>
  A poll that answers true within the bound from every state, and programs that always return.
\<close>

definition responsive :: "nat \<Rightarrow> ('s, bool) state \<Rightarrow> bool" where
  "responsive fuel c \<longleftrightarrow> (\<forall>t. \<exists>k<fuel. answer c (polled k c t))"

lemma responsive_spin: "responsive fuel c \<Longrightarrow> fst (run_state (spin fuel c) s) = Inr ()"
  by (simp add: responsive_def spin_returns_iff)

definition returns :: "('s, 'a res) state \<Rightarrow> bool" where
  "returns m \<longleftrightarrow> (\<forall>s. \<exists>x. fst (run_state m s) = Inr x)"

lemma returns_intros [intro!]:
  "returns (retE x)" "returns (liftE n)" "responsive fuel c \<Longrightarrow> returns (spin fuel c)"
  by (simp_all add: returns_def responsive_spin split_def)

lemma returns_bindE [intro!]: "returns m \<Longrightarrow> (\<And>x. returns (f x)) \<Longrightarrow> returns (bindE m f)"
  by (auto simp: returns_def split_def split: sum.splits) (metis old.sum.distinct)

lemma returns_c_ifE [intro!]: "returns m \<Longrightarrow> returns (c_ifE b m)"
  by (auto simp: c_ifE_def)

lemma returnsD: "returns m \<Longrightarrow> run_state m s = (r, t) \<Longrightarrow> \<exists>x. r = Inr x"
  unfolding returns_def by (metis fst_conv)

subsection \<open>Flag words\<close>

lemma and_exp_eq_0 [flag_simps]: "(x :: 'a::len word) AND 2 ^ n = 0 \<longleftrightarrow> \<not> bit x n"
  by (rule and_exp_eq_0_iff_not_bit)

lemma and_1_eq_0 [flag_simps]: "(x :: u32) AND 1 = 0 \<longleftrightarrow> \<not> bit x 0"
  using and_exp_eq_0 [of x 0] by simp

lemma and_2_eq_0 [flag_simps]: "(x :: u32) AND 2 = 0 \<longleftrightarrow> \<not> bit x 1"
  using and_exp_eq_0 [of x 1] by simp

lemma and_4_eq_0 [flag_simps]: "(x :: u32) AND 4 = 0 \<longleftrightarrow> \<not> bit x 2"
  using and_exp_eq_0 [of x 2] by simp

lemma and_8_eq_0 [flag_simps]: "(x :: u32) AND 8 = 0 \<longleftrightarrow> \<not> bit x 3"
  using and_exp_eq_0 [of x 3] by simp

lemma or_mask_and_mask [simp]: "((x :: 'a::len word) OR m) AND m = m"
  by (rule bit_word_eqI) (simp add: bit_simps)

lemma and_not_and [simp]: "((x :: 'a::len word) AND NOT m) AND m = 0"
  by (rule bit_word_eqI) (simp add: bit_simps)

subsection \<open>Casts that keep the value\<close>

lemma unat_byte: "unat (ucast (i :: u8) :: u32) = unat i"
  by (simp only: unsigned_ucast_eq unsigned_take_bit_eq, rule take_bit_nat_eq_self)
     (use unsigned_less [of i, where 'a = nat] in simp)

lemma unat_half: "unat (ucast (x :: u16) :: u32) = unat x"
  by (simp only: unsigned_ucast_eq unsigned_take_bit_eq, rule take_bit_nat_eq_self)
     (use unsigned_less [of x, where 'a = nat] in simp)

lemma half_bound: "unat (x :: u16) < 2 ^ 16"
  using unsigned_less [of x, where 'a = nat] by simp

end
