(* ===== verification/Machine.thy ===== *)
theory Machine
  imports Prelude
begin

section \<open>The machine the C code runs on\<close>

text \<open>
  The processor core and the devices are not code of the repository: they are the
  parameter \<open>plat\<close> of every operation. What the program does to them is the access
  history \<open>hist\<close> of the state, newest access first: loads and stores of device registers,
  \<open>lr\<close>/\<open>sr\<close> of auxiliary registers, \<open>clri\<close>/\<open>seti\<close>, \<open>kflag\<close>, \<open>nop\<close> and console output.
  What they answer is a function of the whole history and the register, so any
  deterministic device (a FIFO, a status bit that rises after a while) is an instance, and
  the order of the accesses is part of every statement about a history.

  \<open>plat\<close> also holds the build-time constants (\<open>NUM_EXC_INT\<close>, feature macros) and the
  link-time address of \<open>exc_entry_table\<close>. Data RAM is \<open>mem\<close>, byte addressed and little
  endian; driver objects live in typed heaps of the component theories, which are assumed
  not to overlap \<open>mem\<close> or each other.
\<close>

subsection \<open>Accesses and platform\<close>

datatype access =
    Mmio_rd u32 u32     \<comment> \<open>load from a device register: address, value\<close>
  | Mmio_wr u32 u32     \<comment> \<open>store to a device register: address, value\<close>
  | Aux_rd u32 u32      \<comment> \<open>\<open>lr\<close>: auxiliary register, value\<close>
  | Aux_wr u32 u32      \<comment> \<open>\<open>sr\<close>: auxiliary register, value\<close>
  | Clri u32            \<comment> \<open>interrupts disabled, with the key returned\<close>
  | Seti u32            \<comment> \<open>interrupt state set from a key\<close>
  | Kflag u32
  | Nop
  | Loop_nops u32       \<comment> \<open>a zero-overhead loop of that many \<open>nop\<close>s\<close>
  | Firq_sp u32         \<comment> \<open>stack pointer of the fast-interrupt register bank\<close>
  | Printf string "u32 list"  \<comment> \<open>console output: format and arguments\<close>

record plat =
  mmio_in :: "access list \<Rightarrow> u32 \<Rightarrow> u32"
  aux_in :: "access list \<Rightarrow> u32 \<Rightarrow> u32"
  clri_in :: "access list \<Rightarrow> u32"
  num_exc_int :: u32              \<comment> \<open>\<open>NUM_EXC_INT\<close>\<close>
  int_pri_min :: s32              \<comment> \<open>\<open>INT_PRI_MIN\<close>, a negative number\<close>
  exc_entry_table_addr :: u32     \<comment> \<open>address of \<open>exc_entry_table\<close>\<close>
  f_stack_addr :: u32             \<comment> \<open>\<open>_f_stack\<close>\<close>
  sec_present :: bool             \<comment> \<open>\<open>ARC_FEATURE_SEC_PRESENT\<close>\<close>
  rf16 :: bool                    \<comment> \<open>\<open>ARC_FEATURE_RF16\<close>\<close>
  code_density :: bool            \<comment> \<open>\<open>ARC_FEATURE_CODE_DENSITY\<close>\<close>
  firq_banked :: bool             \<comment> \<open>\<open>ARC_FEATURE_RGF_BANKED_REGS >= 16 && ARC_FEATURE_FIRQ == 1\<close>\<close>
  unit_test :: bool               \<comment> \<open>\<open>EMBARC_UNIT_TEST\<close>\<close>
  mpu_v4 :: bool                  \<comment> \<open>\<open>ARC_FEATURE_MPU_VERSION == 4\<close>, else version 2\<close>
  char_signed :: bool             \<comment> \<open>signedness of plain \<open>char\<close>\<close>

record mach =
  hist :: "access list"
  mem :: "u32 \<Rightarrow> u8"
  exc_int_handler_table :: "u32 list"

type_synonym ('a, 'r) op = "('a mach_scheme, 'r) state"

definition emit :: "access \<Rightarrow> ('a, unit) op" where
  "emit ev = State_Monad.update (\<lambda>s. s\<lparr>hist := ev # hist s\<rparr>)"

lemma run_emit [simp]: "run_state (emit ev) s = ((), s\<lparr>hist := ev # hist s\<rparr>)"
  by (simp add: emit_def)

lemma wp_emit [wp_rules]: "wp (emit ev) Q s = Q () (s\<lparr>hist := ev # hist s\<rparr>)"
  by (simp add: wp_def)

subsection \<open>Device registers\<close>

definition mmio_rd :: "plat \<Rightarrow> u32 \<Rightarrow> ('a, u32) op" where
  "mmio_rd p a = do {
     s \<leftarrow> State_Monad.get;
     emit (Mmio_rd a (mmio_in p (hist s) a));
     State_Monad.return (mmio_in p (hist s) a)
   }"

definition mmio_wr :: "u32 \<Rightarrow> u32 \<Rightarrow> ('a, unit) op" where
  "mmio_wr a v = emit (Mmio_wr a v)"

text \<open>\<open>reg |= m\<close> and \<open>reg &= m\<close>: a load, then a store.\<close>

definition mmio_or :: "plat \<Rightarrow> u32 \<Rightarrow> u32 \<Rightarrow> ('a, unit) op" where
  "mmio_or p a m = do { v \<leftarrow> mmio_rd p a; mmio_wr a (v OR m) }"

definition mmio_and :: "plat \<Rightarrow> u32 \<Rightarrow> u32 \<Rightarrow> ('a, unit) op" where
  "mmio_and p a m = do { v \<leftarrow> mmio_rd p a; mmio_wr a (v AND m) }"

lemma run_mmio_rd [simp]:
  "run_state (mmio_rd p a) s =
     (mmio_in p (hist s) a, s\<lparr>hist := Mmio_rd a (mmio_in p (hist s) a) # hist s\<rparr>)"
  by (simp add: mmio_rd_def)

lemma run_mmio_wr [simp]: "run_state (mmio_wr a v) s = ((), s\<lparr>hist := Mmio_wr a v # hist s\<rparr>)"
  by (simp add: mmio_wr_def)

lemma run_mmio_or [simp]:
  "run_state (mmio_or p a m) s =
     (let v = mmio_in p (hist s) a
      in ((), s\<lparr>hist := Mmio_wr a (v OR m) # Mmio_rd a v # hist s\<rparr>))"
  by (simp add: mmio_or_def Let_def)

lemma run_mmio_and [simp]:
  "run_state (mmio_and p a m) s =
     (let v = mmio_in p (hist s) a
      in ((), s\<lparr>hist := Mmio_wr a (v AND m) # Mmio_rd a v # hist s\<rparr>))"
  by (simp add: mmio_and_def Let_def)

lemma wp_mmio_rd [wp_rules]:
  "wp (mmio_rd p a) Q s =
     Q (mmio_in p (hist s) a) (s\<lparr>hist := Mmio_rd a (mmio_in p (hist s) a) # hist s\<rparr>)"
  by (simp add: wp_def)

lemma wp_mmio_wr [wp_rules]: "wp (mmio_wr a v) Q s = Q () (s\<lparr>hist := Mmio_wr a v # hist s\<rparr>)"
  by (simp add: wp_def)

lemma wp_mmio_rmw [wp_rules]:
  "wp (mmio_or p a m) Q s = Q () (s\<lparr>hist := Mmio_wr a (mmio_in p (hist s) a OR m)
     # Mmio_rd a (mmio_in p (hist s) a) # hist s\<rparr>)"
  "wp (mmio_and p a m) Q s = Q () (s\<lparr>hist := Mmio_wr a (mmio_in p (hist s) a AND m)
     # Mmio_rd a (mmio_in p (hist s) a) # hist s\<rparr>)"
  by (simp_all add: wp_def Let_def)

subsection \<open>The processor: auxiliary registers and special instructions (arc_builtin.h)\<close>

definition arc_aux_read :: "plat \<Rightarrow> u32 \<Rightarrow> ('a, u32) op" where
  "arc_aux_read p a = do {
     s \<leftarrow> State_Monad.get;
     emit (Aux_rd a (aux_in p (hist s) a));
     State_Monad.return (aux_in p (hist s) a)
   }"

definition arc_aux_write :: "u32 \<Rightarrow> u32 \<Rightarrow> ('a, unit) op" where
  "arc_aux_write a v = emit (Aux_wr a v)"

definition arc_kflag :: "u32 \<Rightarrow> ('a, unit) op" where
  "arc_kflag flag = emit (Kflag flag)"

definition arc_nop :: "('a, unit) op" where
  "arc_nop = emit Nop"

definition arc_clri :: "plat \<Rightarrow> ('a, u32) op" where
  "arc_clri p = do {
     s \<leftarrow> State_Monad.get;
     emit (Clri (clri_in p (hist s)));
     State_Monad.return (clri_in p (hist s))
   }"

definition arc_seti :: "u32 \<Rightarrow> ('a, unit) op" where
  "arc_seti key = emit (Seti key)"

definition embarc_printf :: "string \<Rightarrow> u32 list \<Rightarrow> ('a, unit) op" where
  "embarc_printf fmt args = emit (Printf fmt args)"

lemma run_arc_aux_read [simp]:
  "run_state (arc_aux_read p a) s =
     (aux_in p (hist s) a, s\<lparr>hist := Aux_rd a (aux_in p (hist s) a) # hist s\<rparr>)"
  by (simp add: arc_aux_read_def)

lemma run_arc_aux_write [simp]:
  "run_state (arc_aux_write a v) s = ((), s\<lparr>hist := Aux_wr a v # hist s\<rparr>)"
  by (simp add: arc_aux_write_def)

lemma run_arc_kflag [simp]: "run_state (arc_kflag f) s = ((), s\<lparr>hist := Kflag f # hist s\<rparr>)"
  by (simp add: arc_kflag_def)

lemma run_arc_nop [simp]: "run_state arc_nop s = ((), s\<lparr>hist := Nop # hist s\<rparr>)"
  by (simp add: arc_nop_def)

lemma run_arc_clri [simp]:
  "run_state (arc_clri p) s = (clri_in p (hist s), s\<lparr>hist := Clri (clri_in p (hist s)) # hist s\<rparr>)"
  by (simp add: arc_clri_def)

lemma run_arc_seti [simp]: "run_state (arc_seti k) s = ((), s\<lparr>hist := Seti k # hist s\<rparr>)"
  by (simp add: arc_seti_def)

lemma run_embarc_printf [simp]:
  "run_state (embarc_printf f as) s = ((), s\<lparr>hist := Printf f as # hist s\<rparr>)"
  by (simp add: embarc_printf_def)

lemma wp_aux [wp_rules]:
  "wp (arc_aux_read p a) Q s =
     Q (aux_in p (hist s) a) (s\<lparr>hist := Aux_rd a (aux_in p (hist s) a) # hist s\<rparr>)"
  "wp (arc_aux_write a v) R s = R () (s\<lparr>hist := Aux_wr a v # hist s\<rparr>)"
  "wp (arc_kflag f) R s = R () (s\<lparr>hist := Kflag f # hist s\<rparr>)"
  "wp arc_nop R s = R () (s\<lparr>hist := Nop # hist s\<rparr>)"
  "wp (arc_clri p) Q s = Q (clri_in p (hist s)) (s\<lparr>hist := Clri (clri_in p (hist s)) # hist s\<rparr>)"
  "wp (arc_seti k) R s = R () (s\<lparr>hist := Seti k # hist s\<rparr>)"
  "wp (embarc_printf g as) R s = R () (s\<lparr>hist := Printf g as # hist s\<rparr>)"
  by (simp_all add: wp_def)

text \<open>
  \<open>arc_find_msb\<close>: the index of the most significant set bit, counted from 1, and 0 for
  the value 0 (the \<open>fls.f; add.nz\<close> pair of the inline assembly).
\<close>

fun bit_length :: "nat \<Rightarrow> nat" where
  "bit_length n = (if n = 0 then 0 else Suc (bit_length (n div 2)))"

declare bit_length.simps [simp del]

definition arc_find_msb :: "u32 \<Rightarrow> u32" where
  "arc_find_msb v = of_nat (bit_length (unat v))"

lemma bit_length_bounds: "n > 0 \<Longrightarrow> 2 ^ (bit_length n - 1) \<le> n \<and> n < 2 ^ bit_length n"
proof (induction n rule: bit_length.induct)
  case (1 n)
  show ?case
  proof (cases "n div 2 = 0")
    case True
    with "1.prems" have "n = 1" by simp
    then show ?thesis by (simp add: bit_length.simps)
  next
    case False
    with "1.IH" "1.prems"
    have ih: "2 ^ (bit_length (n div 2) - 1) \<le> n div 2 \<and> n div 2 < 2 ^ bit_length (n div 2)"
      by simp
    from False have "bit_length (n div 2) \<noteq> 0" by (simp add: bit_length.simps [of "n div 2"])
    then have "2 ^ bit_length (n div 2) = 2 * (2::nat) ^ (bit_length (n div 2) - 1)"
      by (cases "bit_length (n div 2)") simp_all
    moreover have "2 * (n div 2) \<le> n" "n < 2 * (n div 2) + 2" by simp_all
    moreover have "bit_length n = Suc (bit_length (n div 2))"
      using "1.prems" by (simp add: bit_length.simps [of n])
    ultimately show ?thesis using ih by simp linarith
  qed
qed

lemma bit_length_le:
  assumes "n < 2 ^ k"
  shows "bit_length n \<le> k"
proof (cases "n = 0")
  case True
  then show ?thesis by (simp add: bit_length.simps)
next
  case False
  then have "2 ^ (bit_length n - 1) \<le> n" using bit_length_bounds by simp
  with assms have "(2::nat) ^ (bit_length n - 1) < 2 ^ k" by linarith
  then have "bit_length n - 1 < k" by simp
  then show ?thesis by simp
qed

subsection \<open>Data memory\<close>

definition ld8 :: "u32 \<Rightarrow> ('a, u8) op" where
  "ld8 a = do { s \<leftarrow> State_Monad.get; State_Monad.return (mem s a) }"

definition st8 :: "u32 \<Rightarrow> u8 \<Rightarrow> ('a, unit) op" where
  "st8 a v = State_Monad.update (\<lambda>s. s\<lparr>mem := (mem s)(a := v)\<rparr>)"

text \<open>Little-endian words in a byte memory.\<close>

definition get32 :: "(u32 \<Rightarrow> u8) \<Rightarrow> u32 \<Rightarrow> u32" where
  "get32 m a = ucast (m a) OR push_bit 8 (ucast (m (a + 1)))
     OR push_bit 16 (ucast (m (a + 2))) OR push_bit 24 (ucast (m (a + 3)))"

definition put32 :: "u32 \<Rightarrow> u32 \<Rightarrow> (u32 \<Rightarrow> u8) \<Rightarrow> (u32 \<Rightarrow> u8)" where
  "put32 a v m = m(a := ucast v, a + 1 := ucast (drop_bit 8 v),
     a + 2 := ucast (drop_bit 16 v), a + 3 := ucast (drop_bit 24 v))"

definition ld32 :: "u32 \<Rightarrow> ('a, u32) op" where
  "ld32 a = do { s \<leftarrow> State_Monad.get; State_Monad.return (get32 (mem s) a) }"

definition st32 :: "u32 \<Rightarrow> u32 \<Rightarrow> ('a, unit) op" where
  "st32 a v = State_Monad.update (\<lambda>s. s\<lparr>mem := put32 a v (mem s)\<rparr>)"

lemma run_mem [simp]:
  "run_state (ld8 a) s = (mem s a, s)"
  "run_state (st8 a b) s = ((), s\<lparr>mem := (mem s)(a := b)\<rparr>)"
  "run_state (ld32 a) s = (get32 (mem s) a, s)"
  "run_state (st32 a v) s = ((), s\<lparr>mem := put32 a v (mem s)\<rparr>)"
  by (simp_all add: ld8_def st8_def ld32_def st32_def)

lemma wp_mem [wp_rules]:
  "wp (ld8 a) Q8 s = Q8 (mem s a) s"
  "wp (st8 a b) R s = R () (s\<lparr>mem := (mem s)(a := b)\<rparr>)"
  "wp (ld32 a) Q s = Q (get32 (mem s) a) s"
  "wp (st32 a v) R s = R () (s\<lparr>mem := put32 a v (mem s)\<rparr>)"
  by (simp_all add: wp_def)

lemma get32_put32 [simp]: "get32 (put32 a v m) a = v"
proof (rule bit_word_eqI)
  fix n assume n: "n < LENGTH(32)"
  have d: "a + 1 \<noteq> a" "a + 2 \<noteq> a" "a + 3 \<noteq> a" "a + 2 \<noteq> a + 1" "a + 3 \<noteq> a + 1" "a + 3 \<noteq> a + 2"
    by (simp_all add: word_eq_iff_unsigned unsigned_word_eqI)
  consider "n < 8" | "8 \<le> n" "n < 16" | "16 \<le> n" "n < 24" | "24 \<le> n" by linarith
  then show "bit (get32 (put32 a v m) a) n = bit v n"
    using n d by cases (auto simp: get32_def put32_def bit_simps)
qed

lemma get32_put32_other:
  assumes "b \<notin> {a, a + 1, a + 2, a + 3}" "b + 1 \<notin> {a, a + 1, a + 2, a + 3}"
    "b + 2 \<notin> {a, a + 1, a + 2, a + 3}" "b + 3 \<notin> {a, a + 1, a + 2, a + 3}"
  shows "get32 (put32 a v m) b = get32 m b"
  using assms by (simp add: get32_def put32_def)

text \<open>Little-endian half words.\<close>

definition get16 :: "(u32 \<Rightarrow> u8) \<Rightarrow> u32 \<Rightarrow> u16" where
  "get16 m a = ucast (m a) OR push_bit 8 (ucast (m (a + 1)))"

definition put16 :: "u32 \<Rightarrow> u16 \<Rightarrow> (u32 \<Rightarrow> u8) \<Rightarrow> (u32 \<Rightarrow> u8)" where
  "put16 a v m = m(a := ucast v, a + 1 := ucast (drop_bit 8 v))"

text \<open>The bytes of memory from \<open>a\<close> on.\<close>

definition bytes_at :: "(u32 \<Rightarrow> u8) \<Rightarrow> u32 \<Rightarrow> nat \<Rightarrow> u8 list" where
  "bytes_at m a n = map (\<lambda>i. m (a + of_nat i)) [0..<n]"

lemma bytes_at_0 [simp]: "bytes_at m a 0 = []"
  by (simp add: bytes_at_def)

lemma length_bytes_at [simp]: "length (bytes_at m a n) = n"
  by (simp add: bytes_at_def)

lemma bytes_at_Suc: "bytes_at m a (Suc n) = m a # bytes_at m (a + 1) n"
  by (simp add: bytes_at_def upt_conv_Cons map_Suc_upt [symmetric] o_def algebra_simps del: upt_Suc)

text \<open>Bytes stored from an address on, and what they leave alone.\<close>

primrec put_bytes :: "u32 \<Rightarrow> u8 list \<Rightarrow> (u32 \<Rightarrow> u8) \<Rightarrow> (u32 \<Rightarrow> u8)" where
  "put_bytes a [] m = m"
| "put_bytes a (v # vs) m = put_bytes (a + 1) vs (m(a := v))"

lemma put_bytes_append: "put_bytes a (bs @ cs) m = put_bytes (a + of_nat (length bs)) cs (put_bytes a bs m)"
  by (induction bs arbitrary: a m) (simp_all add: algebra_simps)

lemma put_bytes_other: "\<forall>j < length vs. b \<noteq> a + of_nat j \<Longrightarrow> put_bytes a vs m b = m b"
proof (induction vs arbitrary: a m)
  case (Cons v vs)
  have "b \<noteq> a" using Cons.prems by force
  moreover have "\<forall>j < length vs. b \<noteq> a + 1 + of_nat j"
  proof (intro allI impI)
    fix j assume "j < length vs"
    then have "b \<noteq> a + of_nat (Suc j)" using Cons.prems by (metis Suc_less_eq length_Cons)
    then show "b \<noteq> a + 1 + of_nat j" by (simp add: algebra_simps)
  qed
  ultimately show ?case using Cons.IH by simp
qed simp

lemma bytes_at_put_bytes: "length vs \<le> 2 ^ 32 \<Longrightarrow> bytes_at (put_bytes a vs m) a (length vs) = vs"
proof (induction vs arbitrary: a m)
  case (Cons v vs)
  have "a \<noteq> a + 1 + of_nat j" if "j < length vs" for j
  proof
    assume "a = a + 1 + of_nat j"
    then have "of_nat (Suc j) = (0 :: u32)" by (simp add: algebra_simps)
    then have "2 ^ 32 dvd Suc j" by (simp only: word_of_nat_eq_0_iff len_num1 len_num0 len_bit0 mult_1_right) simp
    with that Cons.prems show False by (auto dest: dvd_imp_le)
  qed
  then have "put_bytes (a + 1) vs (m(a := v)) a = v" by (subst put_bytes_other) auto
  then show ?case using Cons by (simp add: bytes_at_Suc)
qed simp

subsection \<open>Reading a history\<close>

text \<open>The values stored to a device register, oldest first, and those stored by \<open>sr\<close>.\<close>

fun writes_to :: "u32 \<Rightarrow> access list \<Rightarrow> u32 list" where
  "writes_to a [] = []"
| "writes_to a (Mmio_wr b v # h) = (if a = b then writes_to a h @ [v] else writes_to a h)"
| "writes_to a (ev # h) = writes_to a h"

fun aux_writes_to :: "u32 \<Rightarrow> access list \<Rightarrow> u32 list" where
  "aux_writes_to a [] = []"
| "aux_writes_to a (Aux_wr b v # h) = (if a = b then aux_writes_to a h @ [v] else aux_writes_to a h)"
| "aux_writes_to a (ev # h) = aux_writes_to a h"

fun reads_of :: "u32 \<Rightarrow> access list \<Rightarrow> u32 list" where
  "reads_of a [] = []"
| "reads_of a (Mmio_rd b v # h) = (if a = b then reads_of a h @ [v] else reads_of a h)"
| "reads_of a (ev # h) = reads_of a h"

text \<open>Every store to an auxiliary register, oldest first.\<close>

fun aux_stores :: "access list \<Rightarrow> (u32 \<times> u32) list" where
  "aux_stores [] = []"
| "aux_stores (Aux_wr a v # h) = aux_stores h @ [(a, v)]"
| "aux_stores (ev # h) = aux_stores h"

text \<open>Every store to a device register, oldest first.\<close>

fun mmio_stores :: "access list \<Rightarrow> (u32 \<times> u32) list" where
  "mmio_stores [] = []"
| "mmio_stores (Mmio_wr a v # h) = mmio_stores h @ [(a, v)]"
| "mmio_stores (ev # h) = mmio_stores h"

lemma mmio_stores_append: "mmio_stores (h @ k) = mmio_stores k @ mmio_stores h"
  by (induction h rule: mmio_stores.induct) auto

lemma writes_to_append: "writes_to a (h @ k) = writes_to a k @ writes_to a h"
  by (induction a h rule: writes_to.induct) auto

lemma aux_writes_to_append: "aux_writes_to a (h @ k) = aux_writes_to a k @ aux_writes_to a h"
  by (induction a h rule: aux_writes_to.induct) auto

lemma reads_of_append: "reads_of a (h @ k) = reads_of a k @ reads_of a h"
  by (induction a h rule: reads_of.induct) auto

lemma aux_stores_append: "aux_stores (h @ k) = aux_stores k @ aux_stores h"
  by (induction h rule: aux_stores.induct) auto

text \<open>
  A program that touches nothing but the history: it may read and write devices, and
  every field of the state other than \<open>hist\<close> is what it was.
\<close>

definition hist_only :: "('a, 'r) op \<Rightarrow> bool" where
  "hist_only m \<longleftrightarrow> (\<forall>s. \<exists>h. snd (run_state m s) = s\<lparr>hist := h @ hist s\<rparr>)"

lemma hist_onlyI: "(\<And>s. \<exists>h. snd (run_state m s) = s\<lparr>hist := h @ hist s\<rparr>) \<Longrightarrow> hist_only m"
  by (simp add: hist_only_def)

lemma hist_onlyE:
  assumes "hist_only m"
  obtains h where "snd (run_state m s) = s\<lparr>hist := h @ hist s\<rparr>"
  using assms by (auto simp: hist_only_def)

lemma hist_only_prim [intro!]:
  "hist_only (State_Monad.return x)" "hist_only (emit ev)"
  "hist_only (mmio_rd p a)" "hist_only (mmio_wr a v)"
  "hist_only (mmio_or p a v)" "hist_only (mmio_and p a v)"
  "hist_only (arc_aux_read p a)" "hist_only (arc_aux_write a v)"
  "hist_only (arc_kflag v)" "hist_only arc_nop" "hist_only (arc_clri p)" "hist_only (arc_seti v)"
  "hist_only (embarc_printf f as)" "hist_only (retE y)" "hist_only (stopE w)"
  by (simp_all add: hist_only_def Let_def; metis append_Nil append_Cons mach.surjective mach.update_convs(1))+

lemma hist_only_bind [intro!]:
  assumes "hist_only m" "\<And>x. hist_only (f x)"
  shows "hist_only (State_Monad.bind m f)"
proof (rule hist_onlyI)
  fix s
  obtain h where h: "snd (run_state m s) = s\<lparr>hist := h @ hist s\<rparr>"
    using assms(1) by (rule hist_onlyE)
  obtain k where "snd (run_state (f (fst (run_state m s))) (snd (run_state m s))) =
      (snd (run_state m s))\<lparr>hist := k @ hist (snd (run_state m s))\<rparr>"
    using assms(2) by (rule hist_onlyE)
  with h show "\<exists>h. snd (run_state (State_Monad.bind m f) s) = s\<lparr>hist := h @ hist s\<rparr>"
    by (intro exI [of _ "k @ h"]) (simp add: split_def)
qed

lemma hist_only_if [intro!]:
  "(b \<Longrightarrow> hist_only m) \<Longrightarrow> (\<not> b \<Longrightarrow> hist_only n) \<Longrightarrow> hist_only (if b then m else n)"
  by simp

lemma hist_only_c_if [intro!]: "(b \<Longrightarrow> hist_only m) \<Longrightarrow> hist_only (c_if b m)"
  by (auto simp: c_if_def)

lemma hist_only_liftE [intro!]: "hist_only m \<Longrightarrow> hist_only (liftE m)"
  by (auto simp: liftE_def)

lemma hist_only_bindE [intro!]:
  "hist_only m \<Longrightarrow> (\<And>x. hist_only (f x)) \<Longrightarrow> hist_only (bindE m f)"
  unfolding bindE_def by (rule hist_only_bind) (auto split: sum.split)

lemma hist_only_spin [intro!]: "hist_only c \<Longrightarrow> hist_only (spin n c)"
  by (induction n) auto

end
