(* ===== verification/ArcIrq.thy ===== *)
theory ArcIrq
  imports Machine
begin

section \<open>Interrupt unit primitives and critical sections (arc_exception.h, arc_exception.c)\<close>

text \<open>
  The inline functions of \<open>include/arc/arc_exception.h\<close> over the interrupt unit's auxiliary
  registers and the \<open>cpu_lock\<close> family of \<open>arc/arc_exception.c\<close>, one definition per function.

  The interrupt unit is banked: \<open>AUX_IRQ_SELECT\<close> chooses the interrupt whose \<open>ENABLE\<close>,
  \<open>PRIORITY\<close> and \<open>TRIGGER\<close> registers the next accesses reach. \<open>irq_bank\<close> reads that meaning
  off a history; \<open>irq_unit\<close> is the law that the hardware answers accordingly, used as a named
  hypothesis. The locale \<open>critical_section\<close> is the lock/unlock interface the HAL's
  multi-access sequences rely on.
\<close>

subsection \<open>Register numbers (arc.h)\<close>

abbreviation (input) AUX_STATUS32 :: u32 where "AUX_STATUS32 \<equiv> 0xa"
abbreviation (input) AUX_STATUS_MASK_IE :: u32 where "AUX_STATUS_MASK_IE \<equiv> 0x80000000"
abbreviation (input) AUX_INT_VECT_BASE :: u32 where "AUX_INT_VECT_BASE \<equiv> 0x25"
abbreviation (input) AUX_INT_VECT_BASE_S :: u32 where "AUX_INT_VECT_BASE_S \<equiv> 0x26"
abbreviation (input) AUX_IRQ_CTRL :: u32 where "AUX_IRQ_CTRL \<equiv> 0xe"
abbreviation (input) AUX_IRQ_ACT :: u32 where "AUX_IRQ_ACT \<equiv> 0x43"
abbreviation (input) AUX_IRQ_CAUSE :: u32 where "AUX_IRQ_CAUSE \<equiv> 0x40a"
abbreviation (input) AUX_IRQ_SELECT :: u32 where "AUX_IRQ_SELECT \<equiv> 0x40b"
abbreviation (input) AUX_IRQ_PRIORITY :: u32 where "AUX_IRQ_PRIORITY \<equiv> 0x206"
abbreviation (input) AUX_IRQ_ENABLE :: u32 where "AUX_IRQ_ENABLE \<equiv> 0x40c"
abbreviation (input) AUX_IRQ_TRIGGER :: u32 where "AUX_IRQ_TRIGGER \<equiv> 0x40d"
abbreviation (input) AUX_IRQ_PENDING :: u32 where "AUX_IRQ_PENDING \<equiv> 0x416"
abbreviation (input) AUX_IRQ_HINT :: u32 where "AUX_IRQ_HINT \<equiv> 0x201"

subsection \<open>Inline functions of arc_exception.h\<close>

definition arc_vector_base_write :: "u32 \<Rightarrow> ('a, unit) op" where
  "arc_vector_base_write vec_base = arc_aux_write AUX_INT_VECT_BASE vec_base"

definition arc_vector_base_read :: "plat \<Rightarrow> ('a, u32) op" where
  "arc_vector_base_read p = arc_aux_read p AUX_INT_VECT_BASE"

definition arc_int_disable :: "u32 \<Rightarrow> ('a, unit) op" where
  "arc_int_disable intno = do {
     arc_aux_write AUX_IRQ_SELECT intno;
     arc_aux_write AUX_IRQ_ENABLE 0
   }"

definition arc_int_enable :: "u32 \<Rightarrow> ('a, unit) op" where
  "arc_int_enable intno = do {
     arc_aux_write AUX_IRQ_SELECT intno;
     arc_aux_write AUX_IRQ_ENABLE 1
   }"

definition arc_int_enabled :: "plat \<Rightarrow> u32 \<Rightarrow> ('a, u32) op" where
  "arc_int_enabled p intno = do {
     arc_aux_write AUX_IRQ_SELECT intno;
     arc_aux_read p AUX_IRQ_ENABLE
   }"

definition arc_int_ipm_get :: "plat \<Rightarrow> ('a, u32) op" where
  "arc_int_ipm_get p = do {
     v \<leftarrow> arc_aux_read p AUX_STATUS32;
     State_Monad.return (drop_bit 1 v AND 0x0f)
   }"

definition arc_int_ipm_set :: "plat \<Rightarrow> u32 \<Rightarrow> ('a, unit) op" where
  "arc_int_ipm_set p intpri = do {
     v \<leftarrow> arc_aux_read p AUX_STATUS32;
     let status = v AND NOT 0x1e;
     let status = status OR (push_bit 1 intpri AND 0x1e);
     arc_kflag status
   }"

definition arc_int_pri_get :: "plat \<Rightarrow> u32 \<Rightarrow> ('a, u32) op" where
  "arc_int_pri_get p intno = do {
     arc_aux_write AUX_IRQ_SELECT intno;
     v \<leftarrow> arc_aux_read p AUX_IRQ_PRIORITY;
     State_Monad.return (v AND 0xf)
   }"

definition arc_int_pri_set :: "plat \<Rightarrow> u32 \<Rightarrow> u32 \<Rightarrow> ('a, unit) op" where
  "arc_int_pri_set p intno intpri = do {
     arc_aux_write AUX_IRQ_SELECT intno;
     v \<leftarrow> arc_aux_read p AUX_IRQ_PRIORITY;
     arc_aux_write AUX_IRQ_PRIORITY (intpri OR (v AND 0xfffffff0))
   }"

definition arc_int_secure_set :: "plat \<Rightarrow> u32 \<Rightarrow> u32 \<Rightarrow> ('a, unit) op" where
  "arc_int_secure_set p intno secure = do {
     arc_aux_write AUX_IRQ_SELECT intno;
     v \<leftarrow> arc_aux_read p AUX_IRQ_PRIORITY;
     if secure \<noteq> 0 then arc_aux_write AUX_IRQ_PRIORITY (v OR 0x100)
     else arc_aux_write AUX_IRQ_PRIORITY (v AND 0xf)
   }"

definition arc_int_probe :: "plat \<Rightarrow> u32 \<Rightarrow> ('a, u32) op" where
  "arc_int_probe p intno = do {
     arc_aux_write AUX_IRQ_SELECT intno;
     arc_aux_read p AUX_IRQ_PENDING
   }"

definition arc_int_sw_trigger :: "u32 \<Rightarrow> ('a, unit) op" where
  "arc_int_sw_trigger intno = arc_aux_write AUX_IRQ_HINT intno"

definition arc_int_level_config :: "u32 \<Rightarrow> u32 \<Rightarrow> ('a, unit) op" where
  "arc_int_level_config intno level = do {
     arc_aux_write AUX_IRQ_SELECT intno;
     arc_aux_write AUX_IRQ_TRIGGER level
   }"

definition arc_int_level_get :: "plat \<Rightarrow> u32 \<Rightarrow> ('a, u32) op" where
  "arc_int_level_get p intno = do {
     arc_aux_write AUX_IRQ_SELECT intno;
     v \<leftarrow> arc_aux_read p AUX_IRQ_TRIGGER;
     State_Monad.return (v AND 0x1)
   }"

definition arc_lock :: "plat \<Rightarrow> ('a, unit) op" where
  "arc_lock p = do { _ \<leftarrow> arc_clri p; State_Monad.return () }"

definition arc_unlock :: "('a, unit) op" where
  "arc_unlock = arc_seti 0"

definition arc_locked :: "plat \<Rightarrow> ('a, u32) op" where
  "arc_locked p = do {
     v \<leftarrow> arc_aux_read p AUX_STATUS32;
     if v AND AUX_STATUS_MASK_IE \<noteq> 0 then State_Monad.return 0 else State_Monad.return 1
   }"

definition arc_lock_save :: "plat \<Rightarrow> ('a, u32) op" where
  "arc_lock_save p = arc_clri p"

definition arc_unlock_restore :: "u32 \<Rightarrow> ('a, unit) op" where
  "arc_unlock_restore status = arc_seti status"

definition arc_int_active :: "plat \<Rightarrow> ('a, u32) op" where
  "arc_int_active p = do {
     v \<leftarrow> arc_aux_read p AUX_IRQ_ACT;
     if v = 0 then State_Monad.return 0 else State_Monad.return 1
   }"

subsection \<open>The cpu_lock family of arc_exception.c\<close>

definition cpu_lock :: "plat \<Rightarrow> ('a, unit) op" where
  "cpu_lock p = arc_lock p"

definition cpu_unlock :: "('a, unit) op" where
  "cpu_unlock = arc_unlock"

definition cpu_lock_save :: "plat \<Rightarrow> ('a, u32) op" where
  "cpu_lock_save p = arc_lock_save p"

definition cpu_unlock_restore :: "u32 \<Rightarrow> ('a, unit) op" where
  "cpu_unlock_restore status = arc_unlock_restore status"

lemmas arc_irq_defs =
  arc_vector_base_write_def arc_vector_base_read_def arc_int_disable_def arc_int_enable_def
  arc_int_enabled_def arc_int_ipm_get_def arc_int_ipm_set_def arc_int_pri_get_def
  arc_int_pri_set_def arc_int_secure_set_def arc_int_probe_def arc_int_sw_trigger_def
  arc_int_level_config_def arc_int_level_get_def arc_lock_def arc_unlock_def arc_locked_def
  arc_lock_save_def arc_unlock_restore_def arc_int_active_def
  cpu_lock_def cpu_unlock_def cpu_lock_save_def cpu_unlock_restore_def

lemma run_cpu_lock_save [simp]:
  "run_state (cpu_lock_save p) s = (clri_in p (hist s), s\<lparr>hist := Clri (clri_in p (hist s)) # hist s\<rparr>)"
  by (simp add: arc_irq_defs)

lemma run_cpu_unlock_restore [simp]:
  "run_state (cpu_unlock_restore k) s = ((), s\<lparr>hist := Seti k # hist s\<rparr>)"
  by (simp add: arc_irq_defs)

lemma wp_cpu_lock [wp_rules]:
  "wp (cpu_lock_save p) Q s =
     Q (clri_in p (hist s)) (s\<lparr>hist := Clri (clri_in p (hist s)) # hist s\<rparr>)"
  "wp (cpu_unlock_restore k) R s = R () (s\<lparr>hist := Seti k # hist s\<rparr>)"
  by (simp_all add: wp_def)

subsection \<open>The banked interrupt registers, read off a history\<close>

fun irq_sel :: "access list \<Rightarrow> u32" where
  "irq_sel [] = 0"
| "irq_sel (Aux_wr a v # h) = (if a = AUX_IRQ_SELECT then v else irq_sel h)"
| "irq_sel (ev # h) = irq_sel h"

fun irq_bank :: "u32 \<Rightarrow> u32 \<Rightarrow> access list \<Rightarrow> u32" where
  "irq_bank r i [] = 0"
| "irq_bank r i (Aux_wr a v # h) = (if a = r \<and> irq_sel h = i then v else irq_bank r i h)"
| "irq_bank r i (ev # h) = irq_bank r i h"

text \<open>The hardware law: a banked register reads back the last value stored for the selected interrupt.\<close>

definition irq_unit :: "plat \<Rightarrow> bool" where
  "irq_unit p \<longleftrightarrow> (\<forall>h r. r \<in> {AUX_IRQ_ENABLE, AUX_IRQ_PRIORITY, AUX_IRQ_TRIGGER}
     \<longrightarrow> aux_in p h r = irq_bank r (irq_sel h) h)"

lemma irq_unitD:
  assumes "irq_unit p"
  shows "aux_in p h AUX_IRQ_ENABLE = irq_bank AUX_IRQ_ENABLE (irq_sel h) h"
    and "aux_in p h AUX_IRQ_PRIORITY = irq_bank AUX_IRQ_PRIORITY (irq_sel h) h"
    and "aux_in p h AUX_IRQ_TRIGGER = irq_bank AUX_IRQ_TRIGGER (irq_sel h) h"
  using assms by (simp_all add: irq_unit_def)

text \<open>
  A small platform that satisfies the law, with 32 interrupts, 16 priorities and every other
  register reading 0, and a machine at rest: the concrete input of the witnesses.
\<close>

definition sample_plat :: plat where
  "sample_plat = \<lparr>mmio_in = \<lambda>h a. 0,
     aux_in = \<lambda>h a. if a \<in> {AUX_IRQ_ENABLE, AUX_IRQ_PRIORITY, AUX_IRQ_TRIGGER}
       then irq_bank a (irq_sel h) h else 0,
     clri_in = \<lambda>h. 0x1f, num_exc_int = 32, int_pri_min = - 16,
     exc_entry_table_addr = 0, f_stack_addr = 0x8000,
     sec_present = False, rf16 = False, code_density = True, firq_banked = False,
     unit_test = False, mpu_v4 = False, char_signed = False\<rparr>"

definition sample_mach :: mach where
  "sample_mach = \<lparr>hist = [], mem = \<lambda>_. 0, exc_int_handler_table = replicate 48 0x100\<rparr>"

lemma sample_simps [simp]:
  "mmio_in sample_plat h a = 0" "num_exc_int sample_plat = 32" "int_pri_min sample_plat = - 16"
  "exc_entry_table_addr sample_plat = 0" "sec_present sample_plat = False"
  "clri_in sample_plat h = 0x1f" "mpu_v4 sample_plat = False"
  "hist sample_mach = []" "mem sample_mach = (\<lambda>_. 0)"
  "length (exc_int_handler_table sample_mach) = 48"
  by (simp_all add: sample_plat_def sample_mach_def)

lemma irq_unit_sample [simp]: "irq_unit sample_plat"
  by (simp add: irq_unit_def sample_plat_def)

subsection \<open>Critical sections\<close>

text \<open>
  The stack of interrupt keys saved and not yet restored in a history: \<open>clri\<close> pushes the key
  it returned, \<open>seti\<close> must be given the top one. \<open>None\<close> marks a history that restores a key
  out of order.
\<close>

fun open_crit :: "access list \<Rightarrow> u32 list option" where
  "open_crit [] = Some []"
| "open_crit (Clri v # h) = map_option (Cons v) (open_crit h)"
| "open_crit (Seti k # h) =
     (case open_crit h of Some (v # vs) \<Rightarrow> if k = v then Some vs else None | _ \<Rightarrow> None)"
| "open_crit (ev # h) = open_crit h"

definition crit_is :: "u32 list \<Rightarrow> ('a mach_scheme) \<Rightarrow> bool" where
  "crit_is ks s \<longleftrightarrow> open_crit (hist s) = Some ks"

text \<open>A balanced program leaves the keys held exactly as it found them.\<close>

definition balanced :: "('a, 'r) op \<Rightarrow> bool" where
  "balanced m \<longleftrightarrow> (\<forall>ks. preserves (crit_is ks) m)"

lemma balancedI: "(\<And>ks. preserves (crit_is ks) m) \<Longrightarrow> balanced m"
  by (simp add: balanced_def)

lemma balancedD: "balanced m \<Longrightarrow> preserves (crit_is ks) m"
  by (simp add: balanced_def)

lemma balanced_prim [intro!]:
  "balanced (State_Monad.return x)" "balanced (retE y)" "balanced (stopE w)"
  "balanced (mmio_rd p a)" "balanced (mmio_wr a v)" "balanced (mmio_or p a v)"
  "balanced (mmio_and p a v)" "balanced (arc_aux_read p a)" "balanced (arc_aux_write a v)"
  "balanced (arc_kflag v)" "balanced arc_nop" "balanced (embarc_printf f as)"
  "balanced (ld8 a)" "balanced (st8 a b)" "balanced (ld32 a)" "balanced (st32 a v)"
  by (simp_all add: balanced_def preserves_def crit_is_def wp_def Let_def)

lemma balanced_bind [intro!]:
  "balanced m \<Longrightarrow> (\<And>x. balanced (f x)) \<Longrightarrow> balanced (State_Monad.bind m f)"
  by (auto simp: balanced_def)

lemma balanced_bindE [intro!]:
  "balanced m \<Longrightarrow> (\<And>x. balanced (f x)) \<Longrightarrow> balanced (bindE m f)"
  by (auto simp: balanced_def)

lemma balanced_liftE [intro!]: "balanced m \<Longrightarrow> balanced (liftE m)"
  by (auto simp: balanced_def)

lemma balanced_if [intro!]:
  "(b \<Longrightarrow> balanced m) \<Longrightarrow> (\<not> b \<Longrightarrow> balanced n) \<Longrightarrow> balanced (if b then m else n)"
  by simp

lemma balanced_c_if [intro!]: "(b \<Longrightarrow> balanced m) \<Longrightarrow> balanced (c_if b m)"
  by (auto simp: balanced_def)

lemma balanced_spin [intro!]: "balanced c \<Longrightarrow> balanced (spin n c)"
  by (auto simp: balanced_def)

text \<open>
  A program that may hang is balanced when it holds no key more or less whenever it
  returns: if it hangs inside a critical section the key is still held.
\<close>

definition balancedE :: "('a, 'r res) op \<Rightarrow> bool" where
  "balancedE m \<longleftrightarrow> (\<forall>ks s. crit_is ks s \<longrightarrow> wp m (\<lambda>r t. \<forall>x. r = Inr x \<longrightarrow> crit_is ks t) s)"

lemma balancedEI:
  "(\<And>ks s. crit_is ks s \<Longrightarrow> wp m (\<lambda>r t. \<forall>x. r = Inr x \<longrightarrow> crit_is ks t) s) \<Longrightarrow> balancedE m"
  by (simp add: balancedE_def)

lemma balancedED:
  "balancedE m \<Longrightarrow> crit_is ks s \<Longrightarrow> wp m (\<lambda>r t. \<forall>x. r = Inr x \<longrightarrow> crit_is ks t) s"
  by (simp add: balancedE_def)

lemma balancedE_run:
  "balancedE m \<Longrightarrow> run_state m s = (Inr x, t) \<Longrightarrow> crit_is ks s \<Longrightarrow> crit_is ks t"
  by (drule (1) balancedED, drule (1) wpD) blast

lemma balancedE_prim [intro!]:
  "balancedE (retE y)" "balancedE (stopE w)"
  by (simp_all add: balancedE_def wp_def)

lemma balancedE_liftE [intro!]: "balanced m \<Longrightarrow> balancedE (liftE m)"
  by (simp add: balancedE_def balanced_def preserves_def wp_liftE)

lemma balancedE_bindE [intro!]:
  assumes m: "balancedE m" and f: "\<And>x. balancedE (f x)"
  shows "balancedE (bindE m f)"
proof (rule balancedEI)
  fix ks and s :: "'a mach_scheme"
  assume "crit_is ks s"
  with m have "wp m (\<lambda>r t. \<forall>x. r = Inr x \<longrightarrow> crit_is ks t) s" by (rule balancedED)
  then show "wp (bindE m f) (\<lambda>r t. \<forall>x. r = Inr x \<longrightarrow> crit_is ks t) s"
    unfolding wp_bindE
  proof (rule wp_mono)
    fix r :: "'b res" and t :: "'a mach_scheme"
    assume "\<forall>x. r = Inr x \<longrightarrow> crit_is ks t"
    then show "case r of Inl w \<Rightarrow> \<forall>x. Inl w = Inr x \<longrightarrow> crit_is ks t
        | Inr x \<Rightarrow> wp (f x) (\<lambda>r t. \<forall>x. r = Inr x \<longrightarrow> crit_is ks t) t"
      by (cases r) (auto intro: balancedED [OF f, simplified])
  qed
qed

lemma balancedE_if [intro!]:
  "(b \<Longrightarrow> balancedE m) \<Longrightarrow> (\<not> b \<Longrightarrow> balancedE n) \<Longrightarrow> balancedE (if b then m else n)"
  by simp

lemma balancedE_c_ifE [intro!]: "(b \<Longrightarrow> balancedE m) \<Longrightarrow> balancedE (c_ifE b m)"
  by (auto simp: c_ifE_def)

lemma balancedE_spin [intro!]: "balanced c \<Longrightarrow> balancedE (spin n c)"
  using balanced_spin [of c n] by (simp add: balancedE_def balanced_def preserves_def wp_def)

text \<open>
  The interface a critical section needs: a lock that pushes the key it returns and an
  unlock that pops it. What may run between them is any balanced program.
\<close>

locale critical_section =
  fixes lock :: "('a, u32) op"
    and unlock :: "u32 \<Rightarrow> ('a, unit) op"
  assumes lock_pushes: "crit_is ks s \<Longrightarrow> wp lock (\<lambda>k. crit_is (k # ks)) s"
    and unlock_pops: "crit_is (k # ks) s \<Longrightarrow> wp (unlock k) (\<lambda>_. crit_is ks) s"
begin

lemma unlock_return:
  "crit_is (k # ks) s \<Longrightarrow> wp (unlock k) (\<lambda>_. wp (State_Monad.return x) (\<lambda>_. crit_is ks)) s"
  using unlock_pops by (simp add: wp_def)

lemma section_balanced:
  assumes "\<And>k. balanced (body k)"
  shows "balanced (do { k \<leftarrow> lock; x \<leftarrow> body k; unlock k; State_Monad.return x })"
proof (rule balancedI, rule preservesI)
  fix ks and s :: "'a mach_scheme"
  assume "crit_is ks s"
  then have "wp lock (\<lambda>k. crit_is (k # ks)) s" by (rule lock_pushes)
  then show "wp (do { k \<leftarrow> lock; x \<leftarrow> body k; unlock k; State_Monad.return x }) (\<lambda>_. crit_is ks) s"
    unfolding wp_bind
  proof (rule wp_mono)
    fix k and t :: "'a mach_scheme"
    assume "crit_is (k # ks) t"
    with assms have "wp (body k) (\<lambda>_. crit_is (k # ks)) t"
      by (auto simp: balanced_def preserves_def)
    then show "wp (body k)
        (\<lambda>x. wp (unlock k) (\<lambda>xa. wp (State_Monad.return x) (\<lambda>_. crit_is ks))) t"
      by (rule wp_mono) (rule unlock_return)
  qed
qed

lemma section_balanced_unit:
  fixes body :: "u32 \<Rightarrow> ('a, unit) op"
  assumes "\<And>k. balanced (body k)"
  shows "balanced (do { k \<leftarrow> lock; body k; unlock k })"
proof -
  have "do { k \<leftarrow> lock; body k; unlock k }
      = do { k \<leftarrow> lock; x \<leftarrow> body k; unlock k; State_Monad.return x }"
    by (rule state_ext) (simp split: prod.split)
  then show ?thesis using section_balanced [OF assms] by simp
qed

lemma section_balancedE:
  fixes body :: "u32 \<Rightarrow> ('a, 'r res) op" and g :: "'r \<Rightarrow> 'b"
  assumes "\<And>k. balancedE (body k)"
  shows "balancedE (bindE (liftE lock) (\<lambda>k. bindE (body k)
           (\<lambda>x. liftE (do { unlock k; State_Monad.return (g x) }))))"
proof (rule balancedEI)
  fix ks and s :: "'a mach_scheme"
  assume "crit_is ks s"
  then have "wp lock (\<lambda>k. crit_is (k # ks)) s" by (rule lock_pushes)
  then show "wp (bindE (liftE lock) (\<lambda>k. bindE (body k)
      (\<lambda>x. liftE (do { unlock k; State_Monad.return (g x) }))))
      (\<lambda>r t. \<forall>x. r = Inr x \<longrightarrow> crit_is ks t) s"
    unfolding wp_bindE wp_liftE sum.case
  proof (rule wp_mono)
    fix k and t :: "'a mach_scheme"
    assume "crit_is (k # ks) t"
    then have "wp (body k) (\<lambda>r u. \<forall>x. r = Inr x \<longrightarrow> crit_is (k # ks) u) t"
      by (rule balancedED [OF assms])
    then show "wp (body k) (\<lambda>r t. case r of Inl w \<Rightarrow> \<forall>x. Inl w = Inr x \<longrightarrow> crit_is ks t
        | Inr x \<Rightarrow> wp (do { unlock k; State_Monad.return (g x) })
                     (\<lambda>x t. \<forall>xa. Inr x = Inr xa \<longrightarrow> crit_is ks t) t) t"
      by (rule wp_mono)
         (simp add: wp_bind unlock_return split: sum.split)
  qed
qed

end

interpretation cpu_cs: critical_section "cpu_lock_save p" cpu_unlock_restore for p
  by unfold_locales (auto simp: crit_is_def wp_def)

interpretation arc_cs: critical_section "arc_lock_save p" arc_unlock_restore for p
  by unfold_locales (auto simp: crit_is_def wp_def arc_irq_defs)

end
