(* ===== verification/ArcCache.thy ===== *)
theory ArcCache
  imports ArcIrq
begin

section \<open>Cache control (arc_cache.h, arc_cache.c)\<close>

text \<open>
  The inline operations of \<open>include/arc/arc_cache.h\<close> and the multi-line operations of
  \<open>arc/arc_cache.c\<close>. The static structs \<open>icache_config\<close> and \<open>dcache_config\<close> are fields of
  the state. \<open>line_loop\<close> is the \<open>do ... while (start_addr <= end_addr)\<close> loop the multi-line
  functions share; its bound \<open>fuel\<close> also bounds the waits for the flush status bit.

  The lemmas show which line addresses a multi-line operation issues: exactly the lines
  that intersect the range, in order (\<open>line_loop_each\<close> with \<open>lines_of\<close>), and that the loop
  never ends when the range reaches the last line of the address space.
\<close>

subsection \<open>Registers and control bits\<close>

abbreviation (input) AUX_BCR_D_CACHE :: u32 where "AUX_BCR_D_CACHE \<equiv> 0x72"
abbreviation (input) AUX_BCR_I_CACHE :: u32 where "AUX_BCR_I_CACHE \<equiv> 0x77"
abbreviation (input) AUX_IC_IVIC :: u32 where "AUX_IC_IVIC \<equiv> 0x10"
abbreviation (input) AUX_IC_CTRL :: u32 where "AUX_IC_CTRL \<equiv> 0x11"
abbreviation (input) AUX_IC_LIL :: u32 where "AUX_IC_LIL \<equiv> 0x13"
abbreviation (input) AUX_IC_IVIL :: u32 where "AUX_IC_IVIL \<equiv> 0x19"
abbreviation (input) AUX_IC_RAM_ADDR :: u32 where "AUX_IC_RAM_ADDR \<equiv> 0x1a"
abbreviation (input) AUX_IC_TAG :: u32 where "AUX_IC_TAG \<equiv> 0x1b"
abbreviation (input) AUX_IC_DATA :: u32 where "AUX_IC_DATA \<equiv> 0x1d"
abbreviation (input) AUX_DC_IVDC :: u32 where "AUX_DC_IVDC \<equiv> 0x47"
abbreviation (input) AUX_DC_CTRL :: u32 where "AUX_DC_CTRL \<equiv> 0x48"
abbreviation (input) AUX_DC_LDL :: u32 where "AUX_DC_LDL \<equiv> 0x49"
abbreviation (input) AUX_DC_IVDL :: u32 where "AUX_DC_IVDL \<equiv> 0x4a"
abbreviation (input) AUX_DC_FLSH :: u32 where "AUX_DC_FLSH \<equiv> 0x4b"
abbreviation (input) AUX_DC_FLDL :: u32 where "AUX_DC_FLDL \<equiv> 0x4c"
abbreviation (input) AUX_DC_RAM_ADDR :: u32 where "AUX_DC_RAM_ADDR \<equiv> 0x58"
abbreviation (input) AUX_DC_TAG :: u32 where "AUX_DC_TAG \<equiv> 0x59"
abbreviation (input) AUX_DC_DATA :: u32 where "AUX_DC_DATA \<equiv> 0x5b"

abbreviation (input) IC_CTRL_IC_ENABLE :: u32 where "IC_CTRL_IC_ENABLE \<equiv> 0x0"
abbreviation (input) IC_CTRL_IC_DISABLE :: u32 where "IC_CTRL_IC_DISABLE \<equiv> 0x1"
abbreviation (input) IC_CTRL_INDIRECT_ACCESS :: u32 where "IC_CTRL_INDIRECT_ACCESS \<equiv> 0x20"
abbreviation (input) IC_CTRL_OP_SUCCEEDED :: u32 where "IC_CTRL_OP_SUCCEEDED \<equiv> 0x8"
abbreviation (input) DC_CTRL_DC_DISABLE :: u32 where "DC_CTRL_DC_DISABLE \<equiv> 0x1"
abbreviation (input) DC_CTRL_INVALID_FLUSH :: u32 where "DC_CTRL_INVALID_FLUSH \<equiv> 0x40"
abbreviation (input) DC_CTRL_DISABLE_FLUSH_LOCKED :: u32 where "DC_CTRL_DISABLE_FLUSH_LOCKED \<equiv> 0x0"
abbreviation (input) DC_CTRL_FLUSH_STATUS :: u32 where "DC_CTRL_FLUSH_STATUS \<equiv> 0x100"
abbreviation (input) DC_CTRL_INDIRECT_ACCESS :: u32 where "DC_CTRL_INDIRECT_ACCESS \<equiv> 0x20"
abbreviation (input) DC_CTRL_OP_SUCCEEDED :: u32 where "DC_CTRL_OP_SUCCEEDED \<equiv> 0x4"

record cache_config =
  ver :: u8
  assoc :: u8
  line :: u16
  capacity :: u32

record cache_mach = mach +
  icache_config :: cache_config
  dcache_config :: cache_config

type_synonym ('a, 'r) cop = "('a cache_mach_scheme, 'r) state"

subsection \<open>Inline functions of arc_cache.h\<close>

definition icache_available :: "plat \<Rightarrow> ('a, u32) op" where
  "icache_available p = do {
     v \<leftarrow> arc_aux_read p AUX_BCR_I_CACHE;
     State_Monad.return (v AND 0xF)
   }"

definition icache_enable :: "plat \<Rightarrow> u32 \<Rightarrow> ('a, unit) op" where
  "icache_enable p icache_en_mask = do {
     av \<leftarrow> icache_available p;
     if av = 0 then State_Monad.return ()
     else arc_aux_write AUX_IC_CTRL icache_en_mask
   }"

definition icache_disable :: "('a, unit) op" where
  "icache_disable = arc_aux_write AUX_IC_CTRL IC_CTRL_IC_DISABLE"

definition icache_invalidate :: "('a, unit) op" where
  "icache_invalidate = do {
     arc_aux_write AUX_IC_IVIC 0;
     arc_nop; arc_nop; arc_nop
   }"

definition icache_invalidate_line :: "u32 \<Rightarrow> ('a, unit) op" where
  "icache_invalidate_line address = do {
     arc_aux_write AUX_IC_IVIL address;
     arc_nop; arc_nop; arc_nop
   }"

definition icache_lock_line :: "plat \<Rightarrow> u32 \<Rightarrow> ('a, s32) op" where
  "icache_lock_line p address = do {
     arc_aux_write AUX_IC_LIL address;
     v \<leftarrow> arc_aux_read p AUX_IC_CTRL;
     if v AND IC_CTRL_OP_SUCCEEDED \<noteq> 0 then State_Monad.return 0 else State_Monad.return (- 1)
   }"

definition icache_access_mode :: "plat \<Rightarrow> u32 \<Rightarrow> ('a, unit) op" where
  "icache_access_mode p mode = do {
     v \<leftarrow> arc_aux_read p AUX_IC_CTRL;
     if mode \<noteq> 0 then arc_aux_write AUX_IC_CTRL (v OR IC_CTRL_INDIRECT_ACCESS)
     else arc_aux_write AUX_IC_CTRL (v AND NOT IC_CTRL_INDIRECT_ACCESS)
   }"

definition dcache_available :: "plat \<Rightarrow> ('a, u32) op" where
  "dcache_available p = do {
     v \<leftarrow> arc_aux_read p AUX_BCR_D_CACHE;
     State_Monad.return (v AND 0xF)
   }"

text \<open>One evaluation of \<open>!(arc_aux_read(AUX_DC_CTRL) & DC_CTRL_FLUSH_STATUS)\<close>.\<close>

definition dc_flush_done :: "plat \<Rightarrow> ('a, bool) op" where
  "dc_flush_done p = do {
     v \<leftarrow> arc_aux_read p AUX_DC_CTRL;
     State_Monad.return (v AND DC_CTRL_FLUSH_STATUS = 0)
   }"

definition dcache_invalidate :: "plat \<Rightarrow> nat \<Rightarrow> ('a, unit res) op" where
  "dcache_invalidate p fuel =
     bindE (liftE (cpu_lock_save p)) (\<lambda>status.
     bindE (bindE (liftE (arc_aux_write AUX_DC_IVDC 1)) (\<lambda>_. spin fuel (dc_flush_done p))) (\<lambda>_.
     liftE (do { cpu_unlock_restore status; State_Monad.return () })))"

definition dcache_invalidate_line :: "u32 \<Rightarrow> ('a, unit) op" where
  "dcache_invalidate_line address = do {
     arc_aux_write AUX_DC_IVDL address;
     arc_nop; arc_nop; arc_nop
   }"

definition dcache_enable :: "u32 \<Rightarrow> ('a, unit) op" where
  "dcache_enable dcache_en_mask = arc_aux_write AUX_DC_CTRL dcache_en_mask"

definition dcache_disable :: "('a, unit) op" where
  "dcache_disable = arc_aux_write AUX_DC_CTRL DC_CTRL_DC_DISABLE"

definition dcache_flush :: "plat \<Rightarrow> nat \<Rightarrow> ('a, unit res) op" where
  "dcache_flush p fuel =
     bindE (liftE (cpu_lock_save p)) (\<lambda>status.
     bindE (bindE (liftE (arc_aux_write AUX_DC_FLSH 1)) (\<lambda>_. spin fuel (dc_flush_done p))) (\<lambda>_.
     liftE (do { cpu_unlock_restore status; State_Monad.return () })))"

definition dcache_flush_line :: "plat \<Rightarrow> nat \<Rightarrow> u32 \<Rightarrow> ('a, unit res) op" where
  "dcache_flush_line p fuel address =
     bindE (liftE (cpu_lock_save p)) (\<lambda>status.
     bindE (bindE (liftE (arc_aux_write AUX_DC_FLDL address)) (\<lambda>_. spin fuel (dc_flush_done p))) (\<lambda>_.
     liftE (do { cpu_unlock_restore status; State_Monad.return () })))"

definition dcache_lock_line :: "plat \<Rightarrow> u32 \<Rightarrow> ('a, s32) op" where
  "dcache_lock_line p address = do {
     arc_aux_write AUX_DC_LDL address;
     v \<leftarrow> arc_aux_read p AUX_DC_CTRL;
     if v AND DC_CTRL_OP_SUCCEEDED \<noteq> 0 then State_Monad.return 0 else State_Monad.return (- 1)
   }"

definition dcache_access_mode :: "plat \<Rightarrow> u32 \<Rightarrow> ('a, unit) op" where
  "dcache_access_mode p mode = do {
     v \<leftarrow> arc_aux_read p AUX_DC_CTRL;
     if mode \<noteq> 0 then arc_aux_write AUX_DC_CTRL (v OR DC_CTRL_INDIRECT_ACCESS)
     else arc_aux_write AUX_DC_CTRL (v AND NOT DC_CTRL_INDIRECT_ACCESS)
   }"

subsection \<open>The multi-line loop\<close>

text \<open>
  \<open>do { body(a); a += line } while (a <= end)\<close>; \<open>body\<close> answers false where the C code
  breaks out of the loop.
\<close>

primrec line_loop ::
  "nat \<Rightarrow> (u32 \<Rightarrow> ('s, bool res) state) \<Rightarrow> u32 \<Rightarrow> u32 \<Rightarrow> u32 \<Rightarrow> ('s, bool res) state" where
  "line_loop 0 body ln end_addr a = stopE Hang"
| "line_loop (Suc n) body ln end_addr a =
     bindE (body a) (\<lambda>ok.
       if \<not> ok then retE False
       else if a + ln \<le> end_addr then line_loop n body ln end_addr (a + ln)
       else retE True)"

definition icache_invalidate_mlines :: "plat \<Rightarrow> nat \<Rightarrow> u32 \<Rightarrow> u32 \<Rightarrow> ('a, s32 res) cop" where
  "icache_invalidate_mlines p fuel start_addr sz = do {
     s \<leftarrow> State_Monad.get;
     if sz = 0 \<or> sz > capacity (icache_config s) then retE (- 1)
     else
       let line_size = ucast (line (icache_config s));
           end_addr = start_addr + sz - 1;
           start_addr = start_addr AND NOT (line_size - 1)
       in bindE (liftE (cpu_lock_save p)) (\<lambda>status.
          bindE (line_loop fuel
                   (\<lambda>a. liftE (do { arc_aux_write AUX_IC_IVIL a; arc_nop; arc_nop; arc_nop;
                                    State_Monad.return True }))
                   line_size end_addr start_addr) (\<lambda>_.
          liftE (do { cpu_unlock_restore status; State_Monad.return 0 })))
   }"

definition icache_lock_mlines :: "plat \<Rightarrow> nat \<Rightarrow> u32 \<Rightarrow> u32 \<Rightarrow> ('a, s32 res) cop" where
  "icache_lock_mlines p fuel start_addr sz = do {
     s \<leftarrow> State_Monad.get;
     if sz = 0 \<or> sz > capacity (icache_config s) then retE (- 1)
     else
       let line_size = ucast (line (icache_config s));
           end_addr = start_addr + sz - 1;
           start_addr = start_addr AND NOT (line_size - 1)
       in bindE (liftE (cpu_lock_save p)) (\<lambda>status.
          bindE (line_loop fuel
                   (\<lambda>a. liftE (do { arc_aux_write AUX_IC_LIL a; v \<leftarrow> arc_aux_read p AUX_IC_CTRL;
                                    State_Monad.return (v AND IC_CTRL_OP_SUCCEEDED \<noteq> 0) }))
                   line_size end_addr start_addr) (\<lambda>ok.
          liftE (do { cpu_unlock_restore status;
                      State_Monad.return (if ok then 0 else - 1) })))
   }"

definition icache_direct_write :: "plat \<Rightarrow> u32 \<Rightarrow> u32 \<Rightarrow> u32 \<Rightarrow> ('a, s32) op" where
  "icache_direct_write p cache_addr tag data = do {
     v \<leftarrow> arc_aux_read p AUX_IC_CTRL;
     if v AND IC_CTRL_INDIRECT_ACCESS \<noteq> 0 then State_Monad.return (- 1)
     else do {
       arc_aux_write AUX_IC_RAM_ADDR cache_addr;
       arc_aux_write AUX_IC_TAG tag;
       arc_aux_write AUX_IC_DATA data;
       State_Monad.return 0
     }
   }"

definition icache_direct_read :: "plat \<Rightarrow> u32 \<Rightarrow> u32 \<Rightarrow> u32 \<Rightarrow> ('a, s32) op" where
  "icache_direct_read p cache_addr tag data = do {
     v \<leftarrow> arc_aux_read p AUX_IC_CTRL;
     if v AND IC_CTRL_INDIRECT_ACCESS \<noteq> 0 then State_Monad.return (- 1)
     else do {
       arc_aux_write AUX_IC_RAM_ADDR cache_addr;
       t \<leftarrow> arc_aux_read p AUX_IC_TAG;
       st32 tag t;
       d \<leftarrow> arc_aux_read p AUX_IC_DATA;
       st32 data d;
       State_Monad.return 0
     }
   }"

definition icache_indirect_read :: "plat \<Rightarrow> u32 \<Rightarrow> u32 \<Rightarrow> u32 \<Rightarrow> ('a, s32) op" where
  "icache_indirect_read p mem_addr tag data = do {
     v \<leftarrow> arc_aux_read p AUX_IC_CTRL;
     if v AND IC_CTRL_INDIRECT_ACCESS = 0 then State_Monad.return (- 1)
     else do {
       arc_aux_write AUX_IC_RAM_ADDR mem_addr;
       w \<leftarrow> arc_aux_read p AUX_IC_CTRL;
       if w AND IC_CTRL_OP_SUCCEEDED \<noteq> 0 then do {
         t \<leftarrow> arc_aux_read p AUX_IC_TAG;
         st32 tag t;
         d \<leftarrow> arc_aux_read p AUX_IC_DATA;
         st32 data d;
         State_Monad.return 0
       } else State_Monad.return (- 1)
     }
   }"

text \<open>One iteration of the data-cache loops: the line operation and the wait for completion.\<close>

definition dc_line_op :: "plat \<Rightarrow> nat \<Rightarrow> u32 \<Rightarrow> u32 \<Rightarrow> ('a, bool res) op" where
  "dc_line_op p fuel reg a =
     bindE (liftE (do { arc_aux_write reg a; arc_nop; arc_nop; arc_nop })) (\<lambda>_.
     bindE (spin fuel (dc_flush_done p)) (\<lambda>_. retE True))"

definition dcache_invalidate_mlines :: "plat \<Rightarrow> nat \<Rightarrow> u32 \<Rightarrow> u32 \<Rightarrow> ('a, s32 res) cop" where
  "dcache_invalidate_mlines p fuel start_addr sz = do {
     s \<leftarrow> State_Monad.get;
     if sz = 0 \<or> sz > capacity (dcache_config s) then retE (- 1)
     else
       let line_size = ucast (line (dcache_config s));
           end_addr = start_addr + sz - 1;
           start_addr = start_addr AND NOT (line_size - 1)
       in bindE (liftE (cpu_lock_save p)) (\<lambda>status.
          bindE (line_loop fuel (dc_line_op p fuel AUX_DC_IVDL) line_size end_addr start_addr) (\<lambda>_.
          liftE (do { cpu_unlock_restore status; State_Monad.return 0 })))
   }"

definition dcache_flush_mlines :: "plat \<Rightarrow> nat \<Rightarrow> u32 \<Rightarrow> u32 \<Rightarrow> ('a, s32 res) cop" where
  "dcache_flush_mlines p fuel start_addr sz = do {
     s \<leftarrow> State_Monad.get;
     if sz = 0 \<or> sz > capacity (dcache_config s) then retE (- 1)
     else
       let line_size = ucast (line (dcache_config s));
           end_addr = start_addr + sz - 1;
           start_addr = start_addr AND NOT (line_size - 1)
       in bindE (liftE (cpu_lock_save p)) (\<lambda>status.
          bindE (line_loop fuel (dc_line_op p fuel AUX_DC_FLDL) line_size end_addr start_addr) (\<lambda>_.
          liftE (do { cpu_unlock_restore status; State_Monad.return 0 })))
   }"

definition dcache_lock_mlines :: "plat \<Rightarrow> nat \<Rightarrow> u32 \<Rightarrow> u32 \<Rightarrow> ('a, s32 res) cop" where
  "dcache_lock_mlines p fuel start_addr sz = do {
     s \<leftarrow> State_Monad.get;
     if sz = 0 \<or> sz > capacity (dcache_config s) then retE (- 1)
     else
       let line_size = ucast (line (dcache_config s));
           end_addr = start_addr + sz - 1;
           start_addr = start_addr AND NOT (line_size - 1)
       in bindE (liftE (cpu_lock_save p)) (\<lambda>status.
          bindE (line_loop fuel
                   (\<lambda>a. liftE (do { arc_aux_write AUX_DC_LDL a; arc_nop;
                                    v \<leftarrow> arc_aux_read p AUX_DC_CTRL;
                                    State_Monad.return (v AND DC_CTRL_OP_SUCCEEDED \<noteq> 0) }))
                   line_size end_addr start_addr) (\<lambda>ok.
          liftE (do { cpu_unlock_restore status;
                      State_Monad.return (if ok then 0 else - 1) })))
   }"

definition dcache_direct_write :: "plat \<Rightarrow> u32 \<Rightarrow> u32 \<Rightarrow> u32 \<Rightarrow> ('a, s32) op" where
  "dcache_direct_write p cache_addr tag data = do {
     v \<leftarrow> arc_aux_read p AUX_DC_CTRL;
     if v AND DC_CTRL_INDIRECT_ACCESS \<noteq> 0 then State_Monad.return (- 1)
     else do {
       arc_aux_write AUX_DC_RAM_ADDR cache_addr;
       arc_aux_write AUX_DC_TAG tag;
       arc_aux_write AUX_DC_DATA data;
       State_Monad.return 0
     }
   }"

definition dcache_direct_read :: "plat \<Rightarrow> u32 \<Rightarrow> u32 \<Rightarrow> u32 \<Rightarrow> ('a, s32) op" where
  "dcache_direct_read p cache_addr tag data = do {
     v \<leftarrow> arc_aux_read p AUX_DC_CTRL;
     if v AND DC_CTRL_INDIRECT_ACCESS \<noteq> 0 then State_Monad.return (- 1)
     else do {
       arc_aux_write AUX_DC_RAM_ADDR cache_addr;
       t \<leftarrow> arc_aux_read p AUX_DC_TAG;
       st32 tag t;
       d \<leftarrow> arc_aux_read p AUX_DC_DATA;
       st32 data d;
       State_Monad.return 0
     }
   }"

definition dcache_indirect_read :: "plat \<Rightarrow> u32 \<Rightarrow> u32 \<Rightarrow> u32 \<Rightarrow> ('a, s32) op" where
  "dcache_indirect_read p mem_addr tag data = do {
     v \<leftarrow> arc_aux_read p AUX_DC_CTRL;
     if v AND DC_CTRL_INDIRECT_ACCESS = 0 then State_Monad.return (- 1)
     else do {
       arc_aux_write AUX_DC_RAM_ADDR mem_addr;
       w \<leftarrow> arc_aux_read p AUX_DC_CTRL;
       if w AND DC_CTRL_OP_SUCCEEDED \<noteq> 0 then do {
         t \<leftarrow> arc_aux_read p AUX_DC_TAG;
         st32 tag t;
         d \<leftarrow> arc_aux_read p AUX_DC_DATA;
         st32 data d;
         State_Monad.return 0
       } else State_Monad.return (- 1)
     }
   }"

text \<open>
  The shifted constants are computed in \<open>int\<close> and truncated when stored into the 8- and
  16-bit fields.
\<close>

definition arc_cache_init :: "plat \<Rightarrow> nat \<Rightarrow> ('a, unit res) cop" where
  "arc_cache_init p fuel =
     bindE (liftE (arc_aux_read p AUX_BCR_D_CACHE)) (\<lambda>build_cfg.
     bindE (liftE (State_Monad.update (\<lambda>s. s\<lparr>dcache_config := (dcache_config s)
              \<lparr>ver := ucast (build_cfg AND 0xff)\<rparr>\<rparr>))) (\<lambda>_.
     bindE (if (ucast (build_cfg AND 0xff) :: u8) \<ge> 0x04 then
              bindE (liftE (dcache_enable (DC_CTRL_DISABLE_FLUSH_LOCKED OR
                       DC_CTRL_INDIRECT_ACCESS OR DC_CTRL_INVALID_FLUSH))) (\<lambda>_.
              bindE (dcache_invalidate p fuel) (\<lambda>_.
              liftE (State_Monad.update (\<lambda>s. s\<lparr>dcache_config := (dcache_config s)
                \<lparr>assoc := ucast (push_bit (unat (drop_bit 8 build_cfg AND 0xf)) (1 :: u32)),
                 capacity := push_bit (unat (drop_bit 12 build_cfg AND 0xf)) 512,
                 line := ucast (push_bit (unat (drop_bit 16 build_cfg AND 0xf)) (16 :: u32))\<rparr>\<rparr>))))
            else retE ()) (\<lambda>_.
     bindE (liftE (arc_aux_read p AUX_BCR_I_CACHE)) (\<lambda>build_cfg.
     bindE (liftE (State_Monad.update (\<lambda>s. s\<lparr>icache_config := (icache_config s)
              \<lparr>ver := ucast (build_cfg AND 0xff)\<rparr>\<rparr>))) (\<lambda>_.
     if (ucast (build_cfg AND 0xff) :: u8) \<ge> 0x04 then
       liftE (do {
         State_Monad.update (\<lambda>s. s\<lparr>icache_config := (icache_config s)
           \<lparr>assoc := ucast (push_bit (unat (drop_bit 8 build_cfg AND 0xf)) (1 :: u32)),
            capacity := push_bit (unat (drop_bit 12 build_cfg AND 0xf)) 512,
            line := ucast (push_bit (unat (drop_bit 16 build_cfg AND 0xf)) (8 :: u32))\<rparr>\<rparr>);
         icache_enable p IC_CTRL_IC_ENABLE;
         icache_invalidate
       })
     else retE ())))))"

subsection \<open>The line loop visits the lines of the range\<close>

primrec each :: "(u32 \<Rightarrow> ('s, bool res) state) \<Rightarrow> u32 list \<Rightarrow> ('s, bool res) state" where
  "each body [] = retE True"
| "each body (a # as) = bindE (body a) (\<lambda>ok. if ok then each body as else retE False)"

definition lines_from :: "u32 \<Rightarrow> u32 \<Rightarrow> nat \<Rightarrow> u32 list" where
  "lines_from ln a n = map (\<lambda>i. a + of_nat i * ln) [0..<n]"

lemma lines_from_Suc: "lines_from ln a (Suc n) = a # lines_from ln (a + ln) n"
  by (simp add: lines_from_def upt_conv_Cons map_Suc_upt [symmetric] o_def algebra_simps
      del: upt_Suc)

lemma lines_from_0 [simp]: "lines_from ln a 0 = []"
  by (simp add: lines_from_def)

lemma neg_if: "(if \<not> b then x else y) = (if b then y else x)"
  by simp

lemma line_loop_each:
  assumes "Suc n \<le> fuel" and "unat a + n * unat ln \<le> unat end_addr"
    and "unat end_addr < unat a + Suc n * unat ln"
    and "unat end_addr + unat ln < 2 ^ 32"
  shows "line_loop fuel body ln end_addr a = each body (lines_from ln a (Suc n))"
  using assms
proof (induction n arbitrary: fuel a)
  case 0
  then obtain f where f: "fuel = Suc f" by (cases fuel) auto
  have "unat (a + ln) = unat a + unat ln"
    using 0 by (simp add: unat_word_ariths)
  with 0 have "\<not> a + ln \<le> end_addr" by (simp add: word_le_nat_alt)
  with f show ?case
    by (simp add: lines_from_Suc neg_if if_distrib cong: if_cong)
next
  case (Suc n)
  then obtain f where f: "fuel = Suc f" by (cases fuel) auto
  have ua: "unat (a + ln) = unat a + unat ln"
    using Suc.prems by (simp add: unat_word_ariths)
  with Suc.prems have "a + ln \<le> end_addr" by (simp add: word_le_nat_alt)
  moreover have "line_loop f body ln end_addr (a + ln) = each body (lines_from ln (a + ln) (Suc n))"
    using Suc.prems f ua by (intro Suc.IH) simp_all
  ultimately show ?case using f by (simp add: lines_from_Suc [of ln a] neg_if cong: if_cong)
qed

text \<open>
  When the range reaches the last line of the address space the next line address wraps to
  0, which is again below the end address: the loop has no exit.
\<close>

lemma aligned_le_last:
  assumes "k < 32" and "2 ^ k dvd unat (a :: u32)"
  shows "unat a + 2 ^ k \<le> 2 ^ 32"
proof -
  obtain q where q: "unat a = 2 ^ k * q" using assms(2) by blast
  have e: "(2::nat) ^ 32 = 2 ^ k * 2 ^ (32 - k)" using assms(1) by (simp add: power_add [symmetric])
  have "unat a < 2 ^ 32" using unsigned_less [of a] by simp
  then have "q < 2 ^ (32 - k)" unfolding q e by simp
  then have "Suc q \<le> 2 ^ (32 - k)" by simp
  then have "2 ^ k * Suc q \<le> 2 ^ k * (2::nat) ^ (32 - k)" by (rule mult_le_mono2)
  then show ?thesis unfolding q e by simp
qed

lemma line_loop_wraps_forever:
  assumes k: "k < 32" and ln: "unat ln = 2 ^ k" and last: "2 ^ 32 \<le> unat end_addr + 2 ^ k"
    and body: "\<And>b s. fst (run_state (body b) s) = Inr True"
    and a: "2 ^ k dvd unat a"
  shows "fst (run_state (line_loop n body ln end_addr a) s) = Inl Hang"
  using a
proof (induction n arbitrary: a s)
  case 0
  then show ?case by simp
next
  case (Suc n)
  have al: "2 ^ k dvd unat (a + ln)"
  proof -
    have "(2::nat) ^ k dvd 2 ^ 32" by (rule le_imp_power_dvd) (use k in simp)
    moreover have "2 ^ k dvd unat a + unat ln" using Suc.prems ln by simp
    ultimately have "(2::nat) ^ k dvd (unat a + unat ln) mod 2 ^ 32" by (rule dvd_mod [rotated])
    then show ?thesis by (simp add: unat_word_ariths)
  qed
  then have "unat (a + ln) \<le> unat end_addr"
    using aligned_le_last [OF k al] last by simp
  then have "a + ln \<le> end_addr" by (simp add: word_le_nat_alt)
  moreover obtain t where "run_state (body a) s = (Inr True, t)"
    using body [of a s] by (cases "run_state (body a) s") auto
  ultimately show ?case using Suc.IH [OF al] by simp
qed

text \<open>The first line address: the start address rounded down to a line boundary.\<close>

lemma line_base:
  assumes "k < 32" and "ln = (2 :: u32) ^ k"
  shows "unat (a AND NOT (ln - 1)) = unat a - unat a mod 2 ^ k"
proof -
  have "a AND NOT (ln - 1) = a - take_bit k a"
  proof -
    have "a AND NOT (ln - 1) = push_bit k (drop_bit k a)"
      unfolding assms(2) mask_eq_exp_minus_1 [symmetric]
      by (rule bit_word_eqI) (auto simp: bit_simps)
    then show ?thesis using bits_ident [of k a] by (simp add: algebra_simps)
  qed
  moreover have "unat (take_bit k a) = unat a mod 2 ^ k"
    by (subst unsigned_take_bit_eq) (simp add: take_bit_eq_mod)
  moreover have "take_bit k a \<le> a"
    using calculation(2) by (simp add: word_le_nat_alt)
  ultimately show ?thesis by (simp add: unat_sub)
qed

text \<open>
  The lines of a range, with 32-bit wrap excluded: their number, and their addresses.
\<close>

definition n_lines :: "nat \<Rightarrow> u32 \<Rightarrow> u32 \<Rightarrow> nat" where
  "n_lines k start sz = (unat start + unat sz - 1) div 2 ^ k - unat start div 2 ^ k + 1"

definition lines_of :: "nat \<Rightarrow> u32 \<Rightarrow> u32 \<Rightarrow> u32 list" where
  "lines_of k start sz = lines_from (2 ^ k) (start AND NOT (2 ^ k - 1)) (n_lines k start sz)"

lemma lines_of_nat:
  assumes k: "k < 32"
  shows "lines_of k start sz =
     map (\<lambda>i. of_nat (i * 2 ^ k)) [unat start div 2 ^ k ..< unat start div 2 ^ k + n_lines k start sz]"
proof -
  have "start AND NOT (2 ^ k - 1) = of_nat (unat (start AND NOT (2 ^ k - 1)))" by simp
  also have "unat (start AND NOT (2 ^ k - 1)) = unat start div 2 ^ k * 2 ^ k"
    using line_base [OF k refl, of start] by (simp add: minus_mod_eq_div_mult)
  finally have "start AND NOT (2 ^ k - 1) = of_nat (unat start div 2 ^ k * 2 ^ k)" .
  then show ?thesis
    by (auto simp: lines_of_def lines_from_def algebra_simps intro!: nth_equalityI)
qed

lemma mlines_loop:
  assumes k: "k < 32" and sz: "sz \<noteq> 0" and top: "unat start + unat sz + 2 ^ k \<le> 2 ^ 32"
    and fuel: "n_lines k start sz \<le> fuel"
  shows "line_loop fuel body (2 ^ k) (start + sz - 1) (start AND NOT (2 ^ k - 1))
    = each body (lines_of k start sz)"
proof -
  have sz1: "unat sz > 0" using sz by (simp add: unat_gt_0)
  have k32: "(2::nat) ^ k < 2 ^ 32" using k by (rule power_strict_increasing) simp
  have ln: "unat (2 ^ k :: u32) = 2 ^ k"
    using unat_of_nat [where ?'a = 32, of "2 ^ k"] k32 by simp
  have pk: "(0::nat) < 2 ^ k" by simp
  have "unat start + unat sz < 2 ^ 32" using top pk by linarith
  then have "unat (start + sz) = unat start + unat sz"
    by (simp add: unat_word_ariths)
  moreover have "start + sz \<noteq> 0" using calculation sz1 by auto
  ultimately have e: "unat (start + sz - 1) = unat start + unat sz - 1"
    by (simp add: unat_minus_one)
  let ?b = "start AND NOT (2 ^ k - 1)" and ?q = "unat start div 2 ^ k"
  let ?r = "(unat start + unat sz - 1) div 2 ^ k"
  have b: "unat ?b = ?q * 2 ^ k"
    using line_base [OF k refl] by (simp add: minus_mod_eq_div_mult)
  have qr: "?q \<le> ?r" by (rule div_le_mono) (use sz1 in simp)
  have n: "n_lines k start sz = Suc (?r - ?q)" by (simp add: n_lines_def)
  have lo: "?r * 2 ^ k \<le> unat start + unat sz - 1" by simp
  have hi: "unat start + unat sz - 1 < Suc ?r * 2 ^ k"
    using dividend_less_div_times [of "2 ^ k" "unat start + unat sz - 1"] by simp
  show ?thesis
    unfolding lines_of_def n
  proof (rule line_loop_each)
    show "Suc (?r - ?q) \<le> fuel" using fuel n by simp
    show "unat ?b + (?r - ?q) * unat (2 ^ k :: u32) \<le> unat (start + sz - 1)"
      using lo qr by (simp add: b e ln diff_mult_distrib)
    show "unat (start + sz - 1) < unat ?b + Suc (?r - ?q) * unat (2 ^ k :: u32)"
      using hi qr by (simp add: b e ln diff_mult_distrib)
    show "unat (start + sz - 1) + unat (2 ^ k :: u32) < 2 ^ 32"
      using top sz1 by (simp add: e ln)
  qed
qed

text \<open>
  Exactly the lines that hold a byte of the range, each once, in increasing order.
\<close>

lemma lines_of_set:
  assumes k: "k < 32" and sz: "sz \<noteq> 0" and top: "unat start + unat sz \<le> 2 ^ 32"
  shows "set (lines_of k start sz) =
    (\<lambda>b. b AND NOT (2 ^ k - 1)) ` {b. unat start \<le> unat b \<and> unat b < unat start + unat sz}"
    (is "?L = ?f ` ?R")
proof -
  have sz1: "unat sz > 0" using sz by (simp add: unat_gt_0)
  let ?q = "unat start div 2 ^ k" and ?r = "(unat start + unat sz - 1) div 2 ^ k"
  have qr: "?q \<le> ?r" by (rule div_le_mono) (use sz1 in simp)
  have f: "?f b = of_nat (unat b div 2 ^ k * 2 ^ k)" for b
  proof -
    have "?f b = of_nat (unat (?f b))" by simp
    also have "unat (?f b) = unat b div 2 ^ k * 2 ^ k"
      using line_base [OF k refl, of b] by (simp add: minus_mod_eq_div_mult)
    finally show ?thesis .
  qed
  have L: "?L = (\<lambda>i. of_nat (i * 2 ^ k)) ` {?q .. ?r}"
  proof -
    have "set [?q ..< ?q + n_lines k start sz] = {?q .. ?r}"
      using qr by (auto simp: n_lines_def)
    then show ?thesis by (simp only: lines_of_nat [OF k] set_map)
  qed
  have R: "(\<lambda>b. unat b div 2 ^ k) ` ?R = {?q .. ?r}"
  proof (intro equalityI subsetI)
    fix i assume "i \<in> (\<lambda>b. unat b div 2 ^ k) ` ?R"
    then obtain b :: u32 where "i = unat b div 2 ^ k" "unat start \<le> unat b" "unat b < unat start + unat sz"
      by auto
    then show "i \<in> {?q .. ?r}" by (auto intro!: div_le_mono)
  next
    fix i assume i: "i \<in> {?q .. ?r}"
    let ?b = "max (unat start) (i * 2 ^ k)"
    have ub: "?b \<le> unat start + unat sz - 1"
    proof -
      have "i * 2 ^ k \<le> ?r * 2 ^ k" using i by simp
      also have "\<dots> \<le> unat start + unat sz - 1" by simp
      finally show ?thesis using sz1 by simp
    qed
    have "unat (of_nat ?b :: u32) = ?b"
    proof -
      have "?b < 2 ^ LENGTH(32)" using ub top sz1 by simp linarith
      then show ?thesis by (simp only: unat_of_nat mod_less)
    qed
    moreover have "?b div 2 ^ k = i"
    proof (cases "unat start \<le> i * 2 ^ k")
      case True
      then show ?thesis by (simp add: max_def)
    next
      case False
      have "?q \<le> i" using i by simp
      moreover have "i \<le> ?q" using False by (simp add: less_eq_div_iff_mult_less_eq)
      ultimately show ?thesis using False by (simp add: max_def)
    qed
    moreover have "?b < unat start + unat sz" "unat start \<le> ?b"
      using ub sz1 by (linarith, simp)
    ultimately show "i \<in> (\<lambda>b. unat b div 2 ^ k) ` ?R"
      by (intro image_eqI [of _ _ "of_nat ?b"]) (simp_all only: mem_Collect_eq)
  qed
  show ?thesis unfolding L R [symmetric] image_image f ..
qed

subsection \<open>Line operations\<close>

text \<open>
  What the loop needs of a line operation: it issues its line address on one register,
  once, touches nothing but the history, and leaves the interrupt keys alone.
\<close>

locale line_op =
  fixes reg :: u32
    and body :: "u32 \<Rightarrow> ('a, bool res) op"
  assumes issues: "aux_writes_to reg (hist (snd (run_state (body a) s))) = aux_writes_to reg (hist s) @ [a]"
    and frame: "hist_only (body a)"
    and keys: "balancedE (body a)"
begin

lemma each_issues:
  "run_state (each body as) s = (Inr True, t) \<Longrightarrow>
   aux_writes_to reg (hist t) = aux_writes_to reg (hist s) @ as"
proof (induction as arbitrary: s)
  case Nil
  then show ?case by simp
next
  case (Cons a as)
  obtain r u where r: "run_state (body a) s = (r, u)" by fastforce
  with issues [of a s] have "aux_writes_to reg (hist u) = aux_writes_to reg (hist s) @ [a]" by simp
  moreover from Cons.prems r have "run_state (each body as) u = (Inr True, t)"
    by (auto split: sum.splits if_splits)
  ultimately show ?case using Cons.IH by simp
qed

lemma each_stops_at:
  "run_state (each body as) s = (Inr False, t) \<Longrightarrow>
   \<exists>bs b cs. as = bs @ b # cs \<and> aux_writes_to reg (hist t) = aux_writes_to reg (hist s) @ bs @ [b]"
proof (induction as arbitrary: s)
  case Nil
  then show ?case by simp
next
  case (Cons a as)
  obtain r u where r: "run_state (body a) s = (r, u)" by fastforce
  with issues [of a s] have w: "aux_writes_to reg (hist u) = aux_writes_to reg (hist s) @ [a]" by simp
  from Cons.prems r consider "r = Inr False" "t = u" | "run_state (each body as) u = (Inr False, t)"
    by (auto split: sum.splits if_splits)
  then show ?case
  proof cases
    case 1
    with w show ?thesis by (intro exI [of _ "[]"] exI [of _ a] exI [of _ as]) simp
  next
    case 2
    from Cons.IH [OF this] obtain bs b cs where
      "as = bs @ b # cs" "aux_writes_to reg (hist t) = aux_writes_to reg (hist u) @ bs @ [b]" by blast
    with w show ?thesis by (intro exI [of _ "a # bs"] exI [of _ b] exI [of _ cs]) simp
  qed
qed

lemma each_frame: "hist_only (each body as)"
  by (induction as) (auto intro: frame)

lemma each_keys: "balancedE (each body as)"
  by (induction as) (auto intro: keys)

lemma loop_keys: "balancedE (line_loop n body ln e a)"
  by (induction n arbitrary: a) (auto intro: keys)

lemma loop_frame: "hist_only (line_loop n body ln e a)"
  by (induction n arbitrary: a) (auto intro: frame)

end

lemma dc_flush_done_frame [intro!]: "hist_only (dc_flush_done p)"
  unfolding dc_flush_done_def by auto

lemma dc_flush_done_balanced [intro!]: "balanced (dc_flush_done p)"
  unfolding dc_flush_done_def by auto

text \<open>Waiting for the flush status only reads registers.\<close>

lemma dc_wait_writes:
  "aux_writes_to r (hist (snd (run_state (spin n (dc_flush_done p)) s))) = aux_writes_to r (hist s)"
proof -
  have "wp (spin n (dc_flush_done p))
     (\<lambda>x t. aux_writes_to r (hist t) = aux_writes_to r (hist s) \<and> (x = Inr () \<or> x = Inl Hang)) s"
    by (rule wp_spin_invariant) (simp_all add: dc_flush_done_def wp_rules)
  then show ?thesis by (simp add: wp_def)
qed

definition ic_inval_body :: "u32 \<Rightarrow> ('a, bool res) op" where
  "ic_inval_body a = liftE (do { arc_aux_write AUX_IC_IVIL a; arc_nop; arc_nop; arc_nop;
                                 State_Monad.return True })"

definition ic_lock_body :: "plat \<Rightarrow> u32 \<Rightarrow> ('a, bool res) op" where
  "ic_lock_body p a = liftE (do { arc_aux_write AUX_IC_LIL a; v \<leftarrow> arc_aux_read p AUX_IC_CTRL;
                                  State_Monad.return (v AND IC_CTRL_OP_SUCCEEDED \<noteq> 0) })"

definition dc_lock_body :: "plat \<Rightarrow> u32 \<Rightarrow> ('a, bool res) op" where
  "dc_lock_body p a = liftE (do { arc_aux_write AUX_DC_LDL a; arc_nop;
                                  v \<leftarrow> arc_aux_read p AUX_DC_CTRL;
                                  State_Monad.return (v AND DC_CTRL_OP_SUCCEEDED \<noteq> 0) })"

interpretation ic_inval: line_op AUX_IC_IVIL ic_inval_body
  by unfold_locales (auto simp: ic_inval_body_def)

interpretation ic_lock: line_op AUX_IC_LIL "ic_lock_body p" for p
  by unfold_locales (auto simp: ic_lock_body_def)

interpretation dc_lock: line_op AUX_DC_LDL "dc_lock_body p" for p
  by unfold_locales (auto simp: dc_lock_body_def)

interpretation dc_line: line_op reg "dc_line_op p fuel reg" for reg p fuel
  by unfold_locales
     (auto simp: dc_line_op_def split_def dc_wait_writes
        intro: dc_wait_writes [THEN trans] split: sum.split)

subsection \<open>Waiting for the flush to finish\<close>

primrec aux_polls :: "plat \<Rightarrow> u32 \<Rightarrow> nat \<Rightarrow> access list \<Rightarrow> access list" where
  "aux_polls p a 0 h = h"
| "aux_polls p a (Suc k) h = aux_polls p a k (Aux_rd a (aux_in p h a) # h)"

text \<open>The flush status bit reads 0 within \<open>n\<close> reads, whatever happened before.\<close>

definition dc_responsive :: "plat \<Rightarrow> nat \<Rightarrow> bool" where
  "dc_responsive p n \<longleftrightarrow>
     (\<forall>h. \<exists>k<n. aux_in p (aux_polls p AUX_DC_CTRL k h) AUX_DC_CTRL AND DC_CTRL_FLUSH_STATUS = 0)"

lemma polled_dc_flush_done:
  "polled k (dc_flush_done p) s = s\<lparr>hist := aux_polls p AUX_DC_CTRL k (hist s)\<rparr>"
  by (induction k arbitrary: s) (simp_all add: dc_flush_done_def)

lemma dc_wait_returns:
  assumes "dc_responsive p n"
  shows "fst (run_state (spin n (dc_flush_done p)) s) = Inr ()"
proof -
  from assms obtain k where
    "k < n" "aux_in p (aux_polls p AUX_DC_CTRL k (hist s)) AUX_DC_CTRL AND DC_CTRL_FLUSH_STATUS = 0"
    unfolding dc_responsive_def by blast
  then show ?thesis
    by (auto simp: spin_returns_iff answer_def polled_dc_flush_done) (auto simp: dc_flush_done_def)
qed

lemma dc_wait_run:
  assumes "dc_responsive p n"
  shows "\<exists>h. run_state (spin n (dc_flush_done p)) s = (Inr (), s\<lparr>hist := h @ hist s\<rparr>)
    \<and> aux_stores h = [] \<and> (\<forall>l. open_crit (h @ l) = open_crit l)"
proof -
  let ?I = "\<lambda>t. \<exists>h. t = s\<lparr>hist := h @ hist s\<rparr> \<and> aux_stores h = []
    \<and> (\<forall>l. open_crit (h @ l) = open_crit l)"
  have "wp (spin n (dc_flush_done p)) (\<lambda>x t. ?I t \<and> (x = Inr () \<or> x = Inl Hang)) s"
  proof (rule wp_spin_invariant)
    show "?I s" by (intro exI [of _ "[]"]) simp
    fix t assume "?I t"
    then obtain h where h: "t = s\<lparr>hist := h @ hist s\<rparr>" "aux_stores h = []"
      "\<forall>l. open_crit (h @ l) = open_crit l" by blast
    then show "wp (dc_flush_done p) (\<lambda>_. ?I) t"
      unfolding dc_flush_done_def wp_rules h(1)
      by (intro exI [of _ "Aux_rd AUX_DC_CTRL v # h" for v]) simp
  qed
  with dc_wait_returns [OF assms, of s] show ?thesis
    by (cases "run_state (spin n (dc_flush_done p)) s") (auto simp: wp_def)
qed

lemma dc_command_run:
  assumes "dc_responsive p fuel"
  shows "\<exists>h. run_state (bindE (liftE (cpu_lock_save p)) (\<lambda>status.
        bindE (bindE (liftE (arc_aux_write r v)) (\<lambda>_. spin fuel (dc_flush_done p))) (\<lambda>_.
        liftE (do { cpu_unlock_restore status; State_Monad.return () })))) s
      = (Inr (), s\<lparr>hist := h @ hist s\<rparr>)
    \<and> aux_stores h = [(r, v)] \<and> (\<forall>l. open_crit l \<noteq> None \<longrightarrow> open_crit (h @ l) = open_crit l)"
proof -
  let ?k = "clri_in p (hist s)"
  let ?s = "s\<lparr>hist := Aux_wr r v # Clri ?k # hist s\<rparr>"
  obtain h where h: "run_state (spin fuel (dc_flush_done p)) ?s = (Inr (), ?s\<lparr>hist := h @ hist ?s\<rparr>)"
    "aux_stores h = []" "\<forall>l. open_crit (h @ l) = open_crit l"
    using dc_wait_run [OF assms, of ?s] by blast
  then show ?thesis
    by (intro exI [of _ "Seti ?k # h @ [Aux_wr r v, Clri ?k]"]) (auto simp: aux_stores_append)
qed

lemmas dcache_flush_line_run =
  dc_command_run [where r = AUX_DC_FLDL, folded dcache_flush_line_def]

lemmas dcache_invalidate_run =
  dc_command_run [where r = AUX_DC_IVDC and v = 1, folded dcache_invalidate_def]

lemma each_dc_line_returns:
  assumes "dc_responsive p fuel"
  shows "fst (run_state (each (dc_line_op p fuel reg) as) s) = Inr True"
proof (induction as arbitrary: s)
  case Nil
  then show ?case by simp
next
  case (Cons a as)
  obtain u where u: "run_state (dc_line_op p fuel reg a) s = (Inr True, u)"
  proof -
    let ?s = "s\<lparr>hist := Nop # Nop # Nop # Aux_wr reg a # hist s\<rparr>"
    have "fst (run_state (spin fuel (dc_flush_done p)) ?s) = Inr ()"
      by (rule dc_wait_returns [OF assms])
    then obtain u where "run_state (spin fuel (dc_flush_done p)) ?s = (Inr (), u)"
      by (cases "run_state (spin fuel (dc_flush_done p)) ?s") auto
    then show ?thesis by (intro that [of u]) (simp add: dc_line_op_def)
  qed
  with Cons.IH [of u] show ?case by simp
qed

subsection \<open>Multi-line operations as sections over the lines of a range\<close>

lemmas mlines_defs =
  icache_invalidate_mlines_def icache_lock_mlines_def dcache_invalidate_mlines_def
  dcache_flush_mlines_def dcache_lock_mlines_def

lemma ucast_line [simp]: "k < 16 \<Longrightarrow> (ucast (2 ^ k :: u16) :: u32) = 2 ^ k"
  by (rule bit_word_eqI) (auto simp: bit_simps)

text \<open>What a data-cache range operation does once its parameters are accepted.\<close>

lemma dc_mlines_section:
  assumes "k < 16" "sz \<noteq> 0" and "unat start + unat sz + 2 ^ k \<le> 2 ^ 32"
    and "n_lines k start sz \<le> fuel" and hw: "dc_responsive p fuel"
    and m: "run_state m s = run_state (bindE (liftE (cpu_lock_save p)) (\<lambda>status.
          bindE (line_loop fuel (dc_line_op p fuel reg) (2 ^ k) (start + sz - 1)
                   (start AND NOT (2 ^ k - 1))) (\<lambda>_.
          liftE (do { cpu_unlock_restore status; State_Monad.return (0 :: s32) })))) s"
  shows "\<exists>h. run_state m s = (Inr 0, s\<lparr>hist := h @ hist s\<rparr>)
     \<and> aux_writes_to reg (h @ hist s) = aux_writes_to reg (hist s) @ lines_of k start sz
     \<and> (\<forall>ks. crit_is ks s \<longrightarrow> crit_is ks (s\<lparr>hist := h @ hist s\<rparr>))"
proof -
  let ?body = "dc_line_op p fuel reg" and ?ls = "lines_of k start sz"
  let ?key = "clri_in p (hist s)"
  let ?s = "s\<lparr>hist := Clri ?key # hist s\<rparr>"
  have loop: "line_loop fuel ?body (2 ^ k) (start + sz - 1) (start AND NOT (2 ^ k - 1)) = each ?body ?ls"
    using assms by (intro mlines_loop) auto
  obtain u where u: "run_state (each ?body ?ls) ?s = (Inr True, u)"
    using each_dc_line_returns [OF hw, of reg ?ls ?s]
    by (cases "run_state (each ?body ?ls) ?s") auto
  obtain h where h: "u = ?s\<lparr>hist := h @ hist ?s\<rparr>"
    using hist_onlyE [OF dc_line.each_frame, of p fuel reg ?ls ?s] u by (metis snd_conv)
  have w: "aux_writes_to reg (hist u) = aux_writes_to reg (hist s) @ ?ls"
    using dc_line.each_issues [OF u] by simp
  have keys: "crit_is ks (s\<lparr>hist := Seti ?key # hist u\<rparr>)" if "crit_is ks s" for ks
  proof -
    have "crit_is (?key # ks) ?s" using that by (simp add: crit_is_def)
    then have "crit_is (?key # ks) u"
      by (rule balancedE_run [OF dc_line.each_keys u])
    then show ?thesis by (simp add: crit_is_def)
  qed
  have "run_state m s = (Inr 0, u\<lparr>hist := Seti ?key # hist u\<rparr>)"
    unfolding m loop by (simp add: u)
  then show ?thesis
    using w keys h by (intro exI [of _ "Seti ?key # h @ [Clri ?key]"]) simp
qed

subsection \<open>A concrete machine\<close>

text \<open>Both caches with 4 KiB and 64-byte lines, on a platform whose flushes finish at once.\<close>

definition sample_cache :: cache_config where
  "sample_cache = \<lparr>ver = 4, assoc = 2, line = 64, capacity = 4096\<rparr>"

definition sample_cache_mach :: cache_mach where
  "sample_cache_mach = mach.extend sample_mach
     \<lparr>icache_config = sample_cache, dcache_config = sample_cache\<rparr>"

lemma sample_cache_simps [simp]:
  "dcache_config sample_cache_mach = sample_cache" "icache_config sample_cache_mach = sample_cache"
  "hist sample_cache_mach = []" "line sample_cache = 64" "capacity sample_cache = 4096"
  by (simp_all add: sample_cache_mach_def sample_cache_def mach.defs sample_mach_def)

lemma dc_responsive_sample: "dc_responsive sample_plat 1"
  by (simp add: dc_responsive_def sample_plat_def)

lemma dc_responsive_mono: "dc_responsive p n \<Longrightarrow> n \<le> m \<Longrightarrow> dc_responsive p m"
  unfolding dc_responsive_def by (meson order_less_le_trans)

lemma dc_responsive_8: "dc_responsive sample_plat 8"
  by (rule dc_responsive_mono [OF dc_responsive_sample]) simp

lemma sample_lines:
  "n_lines 6 0x1010 0x100 = 5"
  "lines_of 6 0x1010 0x100 = [0x1000, 0x1040, 0x1080, 0x10c0, 0x1100]"
  by (simp_all add: n_lines_def lines_of_def lines_from_def upt_rec)

subsection \<open>Properties\<close>

text \<open>
  C1: \<open>dcache_flush_mlines\<close> with an accepted range, on hardware that finishes each flush
  within \<open>fuel\<close> polls, returns 0 having flushed exactly the cache lines that hold a byte
  of the range, in increasing order, with the interrupt state restored; it changes no data.
  The range must end a line or more below the top of the address space.
\<close>

theorem dcache_flush_mlines_flushes_range:
  fixes s :: "'a cache_mach_scheme"
  assumes geo: "line (dcache_config s) = 2 ^ k" "k < 16"
    and sz: "sz \<noteq> 0" "sz \<le> capacity (dcache_config s)"
    and top: "unat start + unat sz + 2 ^ k \<le> 2 ^ 32"
    and fuel: "n_lines k start sz \<le> fuel" and hw: "dc_responsive p fuel"
  shows "\<exists>h. run_state (dcache_flush_mlines p fuel start sz) s = (Inr 0, s\<lparr>hist := h @ hist s\<rparr>)
     \<and> aux_writes_to AUX_DC_FLDL (h @ hist s) = aux_writes_to AUX_DC_FLDL (hist s) @ lines_of k start sz
     \<and> set (lines_of k start sz) = (\<lambda>b. b AND NOT (2 ^ k - 1)) `
         {b. unat start \<le> unat b \<and> unat b < unat start + unat sz}
     \<and> (\<forall>ks. crit_is ks s \<longrightarrow> crit_is ks (s\<lparr>hist := h @ hist s\<rparr>))"
proof -
  have "run_state (dcache_flush_mlines p fuel start sz) s =
      run_state (bindE (liftE (cpu_lock_save p)) (\<lambda>status.
        bindE (line_loop fuel (dc_line_op p fuel AUX_DC_FLDL) (2 ^ k) (start + sz - 1)
                 (start AND NOT (2 ^ k - 1))) (\<lambda>_.
        liftE (do { cpu_unlock_restore status; State_Monad.return (0 :: s32) })))) s"
    using sz geo by (simp add: dcache_flush_mlines_def Let_def leD)
  from dc_mlines_section [OF geo(2) sz(1) top fuel hw this]
  show ?thesis using lines_of_set [of k sz start] geo sz top by auto
qed

lemma dcache_flush_mlines_flushes_range_witness:
  "\<exists>h. run_state (dcache_flush_mlines sample_plat 8 0x1010 0x100) sample_cache_mach
       = (Inr 0, sample_cache_mach\<lparr>hist := h\<rparr>)
     \<and> aux_writes_to AUX_DC_FLDL h = [0x1000, 0x1040, 0x1080, 0x10c0, 0x1100]"
  using dcache_flush_mlines_flushes_range [of sample_cache_mach 6 "0x100" "0x1010" 8 sample_plat]
    dc_responsive_8 sample_lines by auto

text \<open>
  The same for \<open>dcache_invalidate_mlines\<close>: the lines invalidated are exactly those of
  the range.
\<close>

theorem dcache_invalidate_mlines_covers_range:
  fixes s :: "'a cache_mach_scheme"
  assumes geo: "line (dcache_config s) = 2 ^ k" "k < 16"
    and sz: "sz \<noteq> 0" "sz \<le> capacity (dcache_config s)"
    and top: "unat start + unat sz + 2 ^ k \<le> 2 ^ 32"
    and fuel: "n_lines k start sz \<le> fuel" and hw: "dc_responsive p fuel"
  shows "\<exists>h. run_state (dcache_invalidate_mlines p fuel start sz) s = (Inr 0, s\<lparr>hist := h @ hist s\<rparr>)
     \<and> aux_writes_to AUX_DC_IVDL (h @ hist s) = aux_writes_to AUX_DC_IVDL (hist s) @ lines_of k start sz
     \<and> set (lines_of k start sz) = (\<lambda>b. b AND NOT (2 ^ k - 1)) `
         {b. unat start \<le> unat b \<and> unat b < unat start + unat sz}
     \<and> (\<forall>ks. crit_is ks s \<longrightarrow> crit_is ks (s\<lparr>hist := h @ hist s\<rparr>))"
proof -
  have "run_state (dcache_invalidate_mlines p fuel start sz) s =
      run_state (bindE (liftE (cpu_lock_save p)) (\<lambda>status.
        bindE (line_loop fuel (dc_line_op p fuel AUX_DC_IVDL) (2 ^ k) (start + sz - 1)
                 (start AND NOT (2 ^ k - 1))) (\<lambda>_.
        liftE (do { cpu_unlock_restore status; State_Monad.return (0 :: s32) })))) s"
    using sz geo by (simp add: dcache_invalidate_mlines_def Let_def leD)
  from dc_mlines_section [OF geo(2) sz(1) top fuel hw this]
  show ?thesis using lines_of_set [of k sz start] geo sz top by auto
qed

lemma dcache_invalidate_mlines_covers_range_witness:
  "\<exists>h. run_state (dcache_invalidate_mlines sample_plat 8 0x1010 0x100) sample_cache_mach
       = (Inr 0, sample_cache_mach\<lparr>hist := h\<rparr>)
     \<and> aux_writes_to AUX_DC_IVDL h = [0x1000, 0x1040, 0x1080, 0x10c0, 0x1100]"
  using dcache_invalidate_mlines_covers_range [of sample_cache_mach 6 "0x100" "0x1010" 8 sample_plat]
    dc_responsive_8 sample_lines by auto

text \<open>
  Locking instruction-cache lines is all or stop: a 0 result means every line of the
  range was given to the lock register, in order; a -1 result means the operation stopped
  at the first line the hardware refused, after issuing the lines before it.
\<close>

theorem icache_lock_mlines_all_or_stop:
  fixes s :: "'a cache_mach_scheme"
  assumes geo: "line (icache_config s) = 2 ^ k" "k < 16"
    and sz: "sz \<noteq> 0" "sz \<le> capacity (icache_config s)"
    and top: "unat start + unat sz + 2 ^ k \<le> 2 ^ 32"
    and fuel: "n_lines k start sz \<le> fuel"
    and run: "run_state (icache_lock_mlines p fuel start sz) s = (Inr r, t)"
  shows "r = 0 \<and> aux_writes_to AUX_IC_LIL (hist t) = aux_writes_to AUX_IC_LIL (hist s) @ lines_of k start sz
     \<or> r = - 1 \<and> (\<exists>bs b cs. lines_of k start sz = bs @ b # cs
           \<and> aux_writes_to AUX_IC_LIL (hist t) = aux_writes_to AUX_IC_LIL (hist s) @ bs @ [b])"
proof -
  let ?s = "s\<lparr>hist := Clri (clri_in p (hist s)) # hist s\<rparr>"
  have loop: "line_loop fuel (ic_lock_body p) (2 ^ k) (start + sz - 1) (start AND NOT (2 ^ k - 1))
      = each (ic_lock_body p) (lines_of k start sz)"
    using geo sz top fuel by (intro mlines_loop) auto
  from run obtain ok u where u: "run_state (each (ic_lock_body p) (lines_of k start sz)) ?s = (Inr ok, u)"
    and r: "r = (if ok then 0 else - 1)" and t: "hist t = Seti (clri_in p (hist s)) # hist u"
    using sz geo by (auto simp: icache_lock_mlines_def ic_lock_body_def [symmetric] leD Let_def loop
        split: prod.splits sum.splits)
  show ?thesis
  proof (cases ok)
    case True
    with u r t ic_lock.each_issues [of p "lines_of k start sz" ?s u] show ?thesis by simp
  next
    case False
    with u r t ic_lock.each_stops_at [of p "lines_of k start sz" ?s u] show ?thesis by auto
  qed
qed

lemma icache_lock_mlines_all_or_stop_witness:
  "\<exists>r t. run_state (icache_lock_mlines sample_plat 8 0x1010 0x100) sample_cache_mach = (Inr r, t)
     \<and> (r = 0 \<and> aux_writes_to AUX_IC_LIL (hist t) = [0x1000, 0x1040, 0x1080, 0x10c0, 0x1100]
       \<or> r = - 1 \<and> (\<exists>bs b cs. [0x1000, 0x1040, 0x1080, 0x10c0, 0x1100] = bs @ b # cs
           \<and> aux_writes_to AUX_IC_LIL (hist t) = bs @ [b]))"
proof -
  have "fst (run_state (icache_lock_mlines sample_plat 8 0x1010 0x100) sample_cache_mach) = Inr (- 1)"
    by code_simp
  then obtain t where
    "run_state (icache_lock_mlines sample_plat 8 0x1010 0x100) sample_cache_mach = (Inr (- 1), t)"
    by (metis prod.collapse)
  with icache_lock_mlines_all_or_stop [OF _ _ _ _ _ _ this, of 6] sample_lines show ?thesis
    by auto
qed

text \<open>
  A range of no bytes, or of more bytes than the cache holds, is refused by every
  multi-line operation with -1 and no access at all; in particular before \<open>arc_cache_init\<close>
  has found a cache (capacity 0) nothing is ever issued.
\<close>

theorem mlines_reject:
  fixes s :: "'a cache_mach_scheme"
  assumes "sz = 0 \<or> capacity (icache_config s) < sz \<and> capacity (dcache_config s) < sz"
  shows "run_state (icache_invalidate_mlines p fuel start sz) s = (Inr (- 1), s)
      \<and> run_state (icache_lock_mlines p fuel start sz) s = (Inr (- 1), s)
      \<and> run_state (dcache_invalidate_mlines p fuel start sz) s = (Inr (- 1), s)
      \<and> run_state (dcache_flush_mlines p fuel start sz) s = (Inr (- 1), s)
      \<and> run_state (dcache_lock_mlines p fuel start sz) s = (Inr (- 1), s)"
  using assms by (auto simp: mlines_defs)

lemma mlines_reject_witness:
  "run_state (dcache_flush_mlines sample_plat 1 0 0x2000) sample_cache_mach
     = (Inr (- 1), sample_cache_mach)"
  using mlines_reject [of "0x2000" sample_cache_mach sample_plat 1 0] by simp

text \<open>
  C6: a range the cache accepts and whose last byte lies in the last cache line of the address space makes
  \<open>icache_invalidate_mlines\<close> loop for ever: the line address wraps to 0, which is again
  not above the end address. No bound on the iterations is enough.
\<close>

theorem icache_invalidate_mlines_top_never_returns:
  fixes s :: "'a cache_mach_scheme"
  assumes geo: "line (icache_config s) = 2 ^ k" "k < 16"
    and sz: "sz \<noteq> 0" "sz \<le> capacity (icache_config s)"
    and last: "2 ^ 32 \<le> unat (start + sz - 1) + 2 ^ k"
  shows "fst (run_state (icache_invalidate_mlines p fuel start sz) s) = Inl Hang"
proof -
  let ?s = "s\<lparr>hist := Clri (clri_in p (hist s)) # hist s\<rparr>"
  have k32: "(2::nat) ^ k < 2 ^ 32" using geo(2) by (intro power_strict_increasing) auto
  have ln: "unat (2 ^ k :: u32) = 2 ^ k"
    using unat_of_nat [where ?'a = 32, of "2 ^ k"] k32 by simp
  have "2 ^ k dvd unat (start AND NOT (2 ^ k - 1))"
    using line_base [of k "2 ^ k" start] geo(2) by (simp add: minus_mod_eq_div_mult)
  moreover have "fst (run_state (ic_inval_body b) u) = Inr True" for b and u :: "'a cache_mach_scheme"
    by (simp add: ic_inval_body_def)
  ultimately have "fst (run_state (line_loop fuel ic_inval_body (2 ^ k) (start + sz - 1)
      (start AND NOT (2 ^ k - 1))) ?s) = Inl Hang"
    using geo(2) ln last by (intro line_loop_wraps_forever [of k]) auto
  then show ?thesis
    using sz geo
    by (auto simp: icache_invalidate_mlines_def ic_inval_body_def [symmetric] leD Let_def
        split: prod.splits sum.splits)
qed

lemma icache_invalidate_mlines_top_never_returns_witness:
  "fst (run_state (icache_invalidate_mlines sample_plat 1000 0xffffffc0 0x40) sample_cache_mach) = Inl Hang"
  by (rule icache_invalidate_mlines_top_never_returns [where k = 6]) simp_all

text \<open>
  \<open>arc_cache_init\<close> on a build with both caches decodes the build configuration registers
  into power-of-two geometries (line sizes \<open>16 << n\<close> and \<open>8 << n\<close>, capacities \<open>512 << n\<close>)
  and leaves the data cache enabled and invalidated before the instruction cache is enabled
  and invalidated; interrupt keys are balanced. This is the state the multi-line
  operations' theorems start from.
\<close>

theorem arc_cache_init_geometry:
  fixes s :: "'a cache_mach_scheme"
  assumes bcr: "\<And>h. aux_in p h AUX_BCR_D_CACHE = dc" "\<And>h. aux_in p h AUX_BCR_I_CACHE = ic"
    and ver: "(4 :: u8) \<le> ucast (dc AND 0xff)" "(4 :: u8) \<le> ucast (ic AND 0xff)" "ic AND 0xf \<noteq> 0"
    and dk: "dk = unat (drop_bit 16 dc AND 0xf)" "dk \<le> 11"
    and ik: "ik = unat (drop_bit 16 ic AND 0xf)" "ik \<le> 12"
    and hw: "dc_responsive p fuel"
  shows "\<exists>t. run_state (arc_cache_init p fuel) s = (Inr (), t)
    \<and> line (dcache_config t) = 2 ^ (4 + dk) \<and> line (icache_config t) = 2 ^ (3 + ik)
    \<and> capacity (dcache_config t) = 512 * 2 ^ unat (drop_bit 12 dc AND 0xf)
    \<and> capacity (icache_config t) = 512 * 2 ^ unat (drop_bit 12 ic AND 0xf)
    \<and> aux_stores (hist t) = aux_stores (hist s)
        @ [(AUX_DC_CTRL, 0x60), (AUX_DC_IVDC, 1), (AUX_IC_CTRL, 0), (AUX_IC_IVIC, 0)]
    \<and> (\<forall>ks. crit_is ks s \<longrightarrow> crit_is ks t)"
proof -
  let ?s = "s\<lparr>dcache_config := (dcache_config s)\<lparr>ver := ucast (dc AND 0xff)\<rparr>,
    hist := Aux_wr AUX_DC_CTRL 0x60 # Aux_rd AUX_BCR_D_CACHE dc # hist s\<rparr>"
  obtain h where h: "run_state (dcache_invalidate p fuel) ?s = (Inr (), ?s\<lparr>hist := h @ hist ?s\<rparr>)"
    "aux_stores h = [(AUX_DC_IVDC, 1)]"
    "\<And>l. open_crit l \<noteq> None \<Longrightarrow> open_crit (h @ l) = open_crit l"
    using dcache_invalidate_run [OF hw, of ?s] by auto
  have f16: "(16 :: u32) = 2 ^ 4" "(8 :: u32) = 2 ^ 3" by simp_all
  have l: "ucast (push_bit dk (16 :: u32)) = (2 ^ (4 + dk) :: u16)"
    "ucast (push_bit ik (8 :: u32)) = (2 ^ (3 + ik) :: u16)"
    unfolding f16 using dk(2) ik(2)
    by (auto intro!: bit_word_eqI simp: bit_simps simp del: power_numeral)
  show ?thesis
    using h ver
    by (simp add: arc_cache_init_def bcr dcache_enable_def icache_enable_def icache_available_def
        icache_invalidate_def dk(1) [symmetric] ik(1) [symmetric] push_bit_eq_mult
        l [unfolded push_bit_eq_mult]
        aux_stores_append crit_is_def)
qed

text \<open>A platform that reports both caches, with the largest fields used above.\<close>

definition cached_plat :: plat where
  "cached_plat = sample_plat\<lparr>aux_in := \<lambda>h a. if a = AUX_BCR_D_CACHE then 0x22204
     else if a = AUX_BCR_I_CACHE then 0x33204 else 0\<rparr>"

lemma arc_cache_init_geometry_witness:
  "\<exists>t. run_state (arc_cache_init cached_plat 1) sample_cache_mach = (Inr (), t)
    \<and> line (dcache_config t) = 64 \<and> line (icache_config t) = 64
    \<and> capacity (dcache_config t) = 2048 \<and> capacity (icache_config t) = 4096"
proof -
  have "dc_responsive cached_plat 1" by (simp add: dc_responsive_def cached_plat_def)
  from arc_cache_init_geometry [OF _ _ _ _ _ refl _ refl _ this, of "0x22204" "0x33204" sample_cache_mach]
  show ?thesis by (simp add: cached_plat_def) blast
qed

end
