(* ===== verification/ArcException.thy ===== *)
theory ArcException
  imports ArcCache
begin

section \<open>Exception and interrupt handling (arc_exception.c)\<close>

text \<open>
  The exported functions of \<open>arc/arc_exception.c\<close>: initialisation, the exception entry table
  (in memory, at the vector base the processor reports), the handler table
  \<open>exc_int_handler_table\<close> (a field of the state), the interrupt management functions, and the
  debug dump of the default handlers as the sequence of strings it prints.

  Function pointers are the 32-bit addresses the C code stores; \<open>NULL\<close> is 0. An interrupt
  number is accepted when it lies in \<open>NUM_EXC_CPU ..< NUM_EXC_ALL\<close>; the lemmas give every
  function's behaviour on both sides of that check, and the round trips through the banked
  interrupt registers under the law \<open>irq_unit\<close>.
\<close>

subsection \<open>Constants\<close>

abbreviation (input) NUM_EXC_CPU :: u32 where "NUM_EXC_CPU \<equiv> 16"
abbreviation (input) INT_PRI_MAX :: s32 where "INT_PRI_MAX \<equiv> - 1"
abbreviation (input) AUX_ECR :: u32 where "AUX_ECR \<equiv> 0x403"
abbreviation (input) AUX_ERRET :: u32 where "AUX_ERRET \<equiv> 0x400"

definition NUM_EXC_ALL :: "plat \<Rightarrow> u32" where
  "NUM_EXC_ALL p = NUM_EXC_CPU + num_exc_int p"

text \<open>\<open>intno >= NUM_EXC_CPU && intno < NUM_EXC_ALL\<close>\<close>

definition valid_intno :: "plat \<Rightarrow> u32 \<Rightarrow> bool" where
  "valid_intno p intno \<longleftrightarrow> NUM_EXC_CPU \<le> intno \<and> intno < NUM_EXC_ALL p"

text \<open>The line ending of the debug messages, carriage return and line feed.\<close>

definition crlf :: string where
  "crlf = [CHR 0x0D, CHR 0x0A]"

subsection \<open>The debug dump of an exception\<close>

definition dump_protv_access_err :: "u32 \<Rightarrow> ('a, unit) op" where
  "dump_protv_access_err parameter = (
     if parameter = 0x1 then embarc_printf ''code protection scheme'' []
     else if parameter = 0x2 then embarc_printf ''stack checking scheme'' []
     else if parameter = 0x4 then embarc_printf ''MPU'' []
     else if parameter = 0x8 then embarc_printf ''MMU'' []
     else if parameter = 0x10 then embarc_printf ''NVM'' []
     else if parameter = 0x24 then embarc_printf ''Secure MPU'' []
     else if parameter = 0x44 then embarc_printf ''Secure MPU with SID mismatch'' []
     else embarc_printf ''unknown parameter'' [])"

definition dump_protv_exception :: "u32 \<Rightarrow> u32 \<Rightarrow> ('a, unit) op" where
  "dump_protv_exception cause parameter = (
     if cause = 0x0 then do {
       embarc_printf ''Instruction fetch violation: '' []; dump_protv_access_err parameter }
     else if cause = 0x1 then do {
       embarc_printf ''Memory read protection violation: '' []; dump_protv_access_err parameter }
     else if cause = 0x2 then do {
       embarc_printf ''Memory write protection violation: '' []; dump_protv_access_err parameter }
     else if cause = 0x3 then do {
       embarc_printf ''Memory read-modify-write violation: '' []; dump_protv_access_err parameter }
     else if cause = 0x10 then embarc_printf ''Normal vector table in secure memory'' []
     else if cause = 0x11 then embarc_printf ''NS handler code located in S memory'' []
     else if cause = 0x12 then embarc_printf ''NSC Table Range Violation'' []
     else embarc_printf ''unknown cause'' [])"

definition dump_machine_check_exception :: "u32 \<Rightarrow> u32 \<Rightarrow> ('a, unit) op" where
  "dump_machine_check_exception cause parameter = (
     if cause = 0x0 then embarc_printf ''double fault'' []
     else if cause = 0x1 then embarc_printf ''overlapping TLB entries'' []
     else if cause = 0x2 then embarc_printf ''fatal TLB error'' []
     else if cause = 0x3 then embarc_printf ''fatal cache error'' []
     else if cause = 0x4 then embarc_printf ''internal memory error on instruction fetch'' []
     else if cause = 0x5 then embarc_printf ''internal memory error on data fetch'' []
     else if cause = 0x6 then do {
       embarc_printf ''illegal overlapping MPU entries'' [];
       c_if (parameter = 0x1) (embarc_printf '' (jump and branch target)'' []) }
     else if cause = 0x10 then embarc_printf ''secure vector table not located in secure memory'' []
     else if cause = 0x11 then embarc_printf ''NSC jump table not located in secure memory'' []
     else if cause = 0x12 then embarc_printf ''secure handler code not located in secure memory'' []
     else if cause = 0x13 then embarc_printf ''NSC target address not located in secure memory'' []
     else if cause = 0x80 then
       embarc_printf ''uncorrectable ECC or parity error in vector memory'' []
     else embarc_printf ''unknown cause'' [])"

definition dump_privilege_exception :: "u32 \<Rightarrow> u32 \<Rightarrow> ('a, unit) op" where
  "dump_privilege_exception cause parameter = (
     if cause = 0x0 then embarc_printf ''Privilege violation'' []
     else if cause = 0x1 then embarc_printf ''disabled extension'' []
     else if cause = 0x2 then embarc_printf ''action point hit'' []
     else if cause = 0x10 then
       (if parameter = 0x1 then embarc_printf ''N to S return using incorrect return mechanism'' []
        else if parameter = 0x2 then embarc_printf ''N to S return with incorrect operating mode'' []
        else if parameter = 0x3 then embarc_printf ''IRQ/exception return fetch from wrong mode'' []
        else if parameter = 0x4 then embarc_printf ''attempt to halt secure processor in NS mode'' []
        else if parameter = 0x20 then
          embarc_printf ''attempt to access secure resource from normal mode'' []
        else if parameter = 0x40 then
          embarc_printf ''SID violation on resource access (APEX/UAUX/key NVM)'' []
        else embarc_printf ''unknown parameter'' [])
     else if cause = 0x13 then
       (if parameter = 0x20 then
          embarc_printf ''attempt to access secure APEX feature from NS mode'' []
        else if parameter = 0x40 then embarc_printf ''SID violation on access to APEX feature'' []
        else embarc_printf ''unknown parameter'' [])
     else embarc_printf ''unknown cause'' [])"

definition dump_exception_info :: "u32 \<Rightarrow> u32 \<Rightarrow> u32 \<Rightarrow> ('a, unit) op" where
  "dump_exception_info vector cause param = do {
     (if vector = 0 then embarc_printf ''Reset'' []
      else if vector = 1 then embarc_printf ''Memory Error'' []
      else if vector = 2 then embarc_printf ''Instruction Error'' []
      else if vector = 3 then do {
        embarc_printf ''EV_MachineCheck: '' []; dump_machine_check_exception cause param }
      else if vector = 4 then embarc_printf ''EV_TLBMissI'' []
      else if vector = 5 then embarc_printf ''EV_TLBMissD'' []
      else if vector = 6 then do {
        embarc_printf ''EV_ProtV: '' []; dump_protv_exception cause param }
      else if vector = 7 then do {
        embarc_printf ''EV_PrivilegeV: '' []; dump_privilege_exception cause param }
      else if vector = 8 then embarc_printf ''EV_SWI'' []
      else if vector = 9 then embarc_printf ''EV_Trap'' []
      else if vector = 10 then embarc_printf ''EV_Extension'' []
      else if vector = 11 then embarc_printf ''EV_DivZero'' []
      else if vector = 12 then embarc_printf ''EV_DCError'' []
      else if vector = 13 then embarc_printf ''EV_Misaligned'' []
      else if vector = 14 then embarc_printf ''EV_VecUnit'' []
      else embarc_printf ''unknown exception vector'' []);
     embarc_printf ''\<newline>'' []
   }"

text \<open>The default handlers: report, and halt the core with \<open>kflag 1\<close>.\<close>

definition exc_handler_default :: "plat \<Rightarrow> u32 \<Rightarrow> ('a, unit) op" where
  "exc_handler_default p p_excinf = do {
     excpt_cause_reg \<leftarrow> arc_aux_read p AUX_ECR;
     excpt_ret_reg \<leftarrow> arc_aux_read p AUX_ERRET;
     let exc_no = drop_bit 16 excpt_cause_reg AND 0xff;
     let exc_cause = drop_bit 8 excpt_cause_reg AND 0xff;
     let exc_param = drop_bit 0 excpt_cause_reg AND 0xff;
     embarc_printf (''default cpu exception handler'' @ crlf) [];
     embarc_printf (''exc_no:%d, last sp:0x%08x, ecr:0x%08x, eret:0x%08x'' @ crlf)
       [exc_no, p_excinf, excpt_cause_reg, excpt_ret_reg];
     dump_exception_info exc_no exc_cause exc_param;
     c_if (\<not> unit_test p) (arc_kflag 1)
   }"

definition int_handler_default :: "plat \<Rightarrow> u32 \<Rightarrow> ('a, unit) op" where
  "int_handler_default p p_excinf = do {
     int_cause_reg \<leftarrow> arc_aux_read p AUX_IRQ_CAUSE;
     embarc_printf (''default interrupt handler'' @ crlf) [];
     embarc_printf (''last sp:0x%08x, icause:0x%08x'' @ crlf) [p_excinf, int_cause_reg];
     arc_kflag 1
   }"


subsection \<open>Initialisation\<close>

text \<open>\<open>for (i = a; i < a + n; i++)\<close>\<close>

primrec for_up :: "nat \<Rightarrow> u32 \<Rightarrow> (u32 \<Rightarrow> ('s, unit) state) \<Rightarrow> ('s, unit) state" where
  "for_up 0 i body = State_Monad.return ()"
| "for_up (Suc n) i body = do { body i; for_up n (i + 1) body }"

text \<open>The value of the bit field \<open>AUX_IRQ_CTRL_T\<close> that \<open>exc_int_init\<close> builds.\<close>

definition irq_ctrl_value :: "plat \<Rightarrow> u32" where
  "irq_ctrl_value p =
     (if rf16 p then 3 else 6) OR push_bit 9 1 OR push_bit 10 1
       OR (if code_density p then push_bit 13 1 else 0)"

definition arc_firq_stack_set :: "plat \<Rightarrow> u32 \<Rightarrow> ('a, unit) op" where
  "arc_firq_stack_set p firq_sp = (
     if firq_sp = 0 then State_Monad.return ()
     else do {
       status \<leftarrow> arc_lock_save p;
       v \<leftarrow> arc_aux_read p AUX_STATUS32;
       arc_kflag (v OR push_bit 16 1);
       emit (Firq_sp firq_sp);
       v \<leftarrow> arc_aux_read p AUX_STATUS32;
       arc_kflag (v AND NOT (push_bit 16 7));
       arc_unlock_restore status
     })"

definition exc_int_init :: "plat \<Rightarrow> ('a, unit) op" where
  "exc_int_init p = do {
     status \<leftarrow> arc_lock_save p;
     for_up (unat (NUM_EXC_ALL p) - unat NUM_EXC_CPU) NUM_EXC_CPU (\<lambda>i. do {
       arc_aux_write AUX_IRQ_SELECT i;
       arc_aux_write AUX_IRQ_ENABLE 0;
       arc_aux_write AUX_IRQ_TRIGGER 0;
       if sec_present p then
         arc_aux_write AUX_IRQ_PRIORITY (push_bit 8 1 OR (INT_PRI_MAX - int_pri_min p))
       else arc_aux_write AUX_IRQ_PRIORITY (INT_PRI_MAX - int_pri_min p)
     });
     arc_aux_write AUX_IRQ_CTRL (irq_ctrl_value p);
     arc_unlock_restore status;
     arc_int_ipm_set p (INT_PRI_MAX - int_pri_min p);
     c_if (firq_banked p) (arc_firq_stack_set p (f_stack_addr p + 256))
   }"

subsection \<open>Exception entries and handlers\<close>

definition exc_entry_install :: "plat \<Rightarrow> nat \<Rightarrow> u32 \<Rightarrow> u32 \<Rightarrow> ('a, s32 res) op" where
  "exc_entry_install p fuel excno entry =
     bindE (liftE (arc_aux_read p (if sec_present p then AUX_INT_VECT_BASE_S else AUX_INT_VECT_BASE)))
       (\<lambda>table. do {
         s \<leftarrow> State_Monad.get;
         if excno < NUM_EXC_ALL p \<and> entry \<noteq> 0 \<and> get32 (mem s) (table + 4 * excno) \<noteq> entry then
           bindE (liftE (cpu_lock_save p)) (\<lambda>status.
           bindE (bindE (liftE (do { st32 (table + 4 * excno) entry;
                                     arc_aux_read p AUX_BCR_D_CACHE })) (\<lambda>v.
                  bindE (c_ifE (v > 0x2) (dcache_flush_line p fuel (table + 4 * excno))) (\<lambda>_.
                  bindE (liftE (arc_aux_read p AUX_BCR_D_CACHE)) (\<lambda>v.
                  liftE (c_if (v > 0x2) (icache_invalidate_line (table + 4 * excno))))))) (\<lambda>_.
           liftE (do { cpu_unlock_restore status; State_Monad.return 0 })))
         else retE (- 1)
       })"

definition exc_entry_get :: "plat \<Rightarrow> u32 \<Rightarrow> ('a, u32) op" where
  "exc_entry_get p excno = (
     if excno < NUM_EXC_ALL p then ld32 (exc_entry_table_addr p + 4 * excno)
     else State_Monad.return 0)"

definition exc_handler_install :: "plat \<Rightarrow> u32 \<Rightarrow> u32 \<Rightarrow> ('a, s32) op" where
  "exc_handler_install p excno handler = (
     if excno < NUM_EXC_ALL p \<and> handler \<noteq> 0 then do {
       State_Monad.update (\<lambda>s. s\<lparr>exc_int_handler_table :=
         (exc_int_handler_table s)[unat excno := handler]\<rparr>);
       State_Monad.return 0
     } else State_Monad.return (- 1))"

definition exc_handler_get :: "plat \<Rightarrow> u32 \<Rightarrow> ('a, u32) op" where
  "exc_handler_get p excno = (
     if excno < NUM_EXC_ALL p then do {
       s \<leftarrow> State_Monad.get;
       State_Monad.return (exc_int_handler_table s ! unat excno)
     } else State_Monad.return 0)"

subsection \<open>Interrupt management\<close>

definition int_disable :: "plat \<Rightarrow> u32 \<Rightarrow> ('a, s32) op" where
  "int_disable p intno = (
     if valid_intno p intno then do { arc_int_disable intno; State_Monad.return 0 }
     else State_Monad.return (- 1))"

definition int_enable :: "plat \<Rightarrow> u32 \<Rightarrow> ('a, s32) op" where
  "int_enable p intno = (
     if valid_intno p intno then do { arc_int_enable intno; State_Monad.return 0 }
     else State_Monad.return (- 1))"

definition int_enabled :: "plat \<Rightarrow> u32 \<Rightarrow> ('a, s32) op" where
  "int_enabled p intno = (
     if valid_intno p intno then do {
       arc_aux_write AUX_IRQ_SELECT intno;
       arc_aux_read p AUX_IRQ_ENABLE
     } else State_Monad.return (- 1))"

definition int_ipm_get :: "plat \<Rightarrow> ('a, s32) op" where
  "int_ipm_get p = do { v \<leftarrow> arc_int_ipm_get p; State_Monad.return (v + int_pri_min p) }"

definition int_ipm_set :: "plat \<Rightarrow> s32 \<Rightarrow> ('a, s32) op" where
  "int_ipm_set p intpri = (
     if sint intpri \<ge> sint (int_pri_min p) \<and> sint intpri \<le> sint INT_PRI_MAX then do {
       arc_int_ipm_set p (intpri - int_pri_min p);
       State_Monad.return 0
     } else State_Monad.return (- 1))"

definition int_pri_get :: "plat \<Rightarrow> u32 \<Rightarrow> ('a, s32) op" where
  "int_pri_get p intno = (
     if valid_intno p intno then do {
       v \<leftarrow> arc_int_pri_get p intno;
       State_Monad.return (v + int_pri_min p)
     } else State_Monad.return 0)"

definition int_pri_set :: "plat \<Rightarrow> u32 \<Rightarrow> s32 \<Rightarrow> ('a, s32) op" where
  "int_pri_set p intno intpri = (
     if valid_intno p intno then do {
       status \<leftarrow> cpu_lock_save p;
       let intpri = intpri - int_pri_min p;
       arc_int_pri_set p intno intpri;
       cpu_unlock_restore status;
       State_Monad.return 0
     } else State_Monad.return (- 1))"

definition int_secure_set :: "plat \<Rightarrow> u32 \<Rightarrow> u32 \<Rightarrow> ('a, s32) op" where
  "int_secure_set p intno secure = (
     if valid_intno p intno then do { arc_int_secure_set p intno secure; State_Monad.return 0 }
     else State_Monad.return (- 1))"

definition int_probe :: "plat \<Rightarrow> u32 \<Rightarrow> ('a, s32) op" where
  "int_probe p intno = (
     if valid_intno p intno then arc_int_probe p intno
     else State_Monad.return (- 1))"

definition int_sw_trigger :: "plat \<Rightarrow> u32 \<Rightarrow> ('a, s32) op" where
  "int_sw_trigger p intno = (
     if valid_intno p intno then do { arc_int_sw_trigger intno; State_Monad.return 0 }
     else State_Monad.return (- 1))"

definition int_level_config :: "plat \<Rightarrow> u32 \<Rightarrow> u32 \<Rightarrow> ('a, s32) op" where
  "int_level_config p intno level = (
     if valid_intno p intno then do { arc_int_level_config intno level; State_Monad.return 0 }
     else State_Monad.return (- 1))"

definition int_level_get :: "plat \<Rightarrow> u32 \<Rightarrow> ('a, s32) op" where
  "int_level_get p intno = (
     if valid_intno p intno then arc_int_level_get p intno
     else State_Monad.return (- 1))"

definition int_handler_install :: "plat \<Rightarrow> u32 \<Rightarrow> u32 \<Rightarrow> ('a, s32) op" where
  "int_handler_install p intno handler = (
     if intno \<ge> NUM_EXC_CPU then exc_handler_install p intno handler
     else State_Monad.return (- 1))"

definition int_handler_get :: "plat \<Rightarrow> u32 \<Rightarrow> ('a, u32) op" where
  "int_handler_get p intno = (
     if intno \<ge> NUM_EXC_CPU then exc_handler_get p intno
     else State_Monad.return 0)"

lemmas int_mgmt_defs =
  int_disable_def int_enable_def int_enabled_def int_pri_get_def int_pri_set_def
  int_secure_set_def int_probe_def int_sw_trigger_def int_level_config_def int_level_get_def

subsection \<open>Priority words\<close>

text \<open>A priority in the documented range, made relative to the lowest, fits the 4-bit field.\<close>

lemma pri_offset:
  assumes "- 16 \<le> sint (m :: s32)" "sint m \<le> sint x" "sint x \<le> - 1"
  shows "(x - m) AND 0xf = x - m"
proof -
  have "uint (x - m) = uint (word_of_int (sint x - sint m) :: s32)" by simp
  also have "\<dots> = take_bit 32 (sint x - sint m)" by (subst unsigned_of_int) simp
  also have "\<dots> = sint x - sint m" using assms by (simp add: take_bit_int_eq_self)
  finally have u: "uint (x - m) = sint x - sint m" .
  have "x - m < 2 ^ 4" using assms by (simp add: word_less_def u)
  from less_mask_eq [OF this] show ?thesis by (simp add: mask_eq_exp_minus_1)
qed

lemma nibble_simps:
  "d AND 0xf = (d :: u32) \<Longrightarrow> (d OR (v AND 0xfffffff0)) AND 0xf = d"
  "d AND 0xf = (d :: u32) \<Longrightarrow> (d OR (v AND 0xfffffff0)) AND 0xfffffff0 = v AND 0xfffffff0"
  "(v OR 0x100) AND 0xf = (v :: u32) AND 0xf"
  "(v AND 0xf) AND 0xf = (v :: u32) AND 0xf"
proof -
  have m: "(0xf :: u32) = mask 4" "(0xfffffff0 :: u32) = NOT (mask 4)"
    by (simp_all add: mask_eq_exp_minus_1)
  have b8: "(0x100 :: u32) = 2 ^ 8" by simp
  show "(d OR (v AND 0xfffffff0)) AND 0xf = d" if "d AND 0xf = d"
  proof (rule bit_word_eqI)
    fix n assume "n < LENGTH(32)"
    then show "bit ((d OR (v AND 0xfffffff0)) AND 0xf) n = bit d n"
      using arg_cong [OF that, of "\<lambda>w. bit w n"] unfolding m by (auto simp: bit_simps)
  qed
  show "(d OR (v AND 0xfffffff0)) AND 0xfffffff0 = v AND 0xfffffff0" if "d AND 0xf = d"
  proof (rule bit_word_eqI)
    fix n assume "n < LENGTH(32)"
    then show "bit ((d OR (v AND 0xfffffff0)) AND 0xfffffff0) n = bit (v AND 0xfffffff0) n"
      using arg_cong [OF that, of "\<lambda>w. bit w n"] unfolding m by (auto simp: bit_simps)
  qed
  show "(v OR 0x100) AND 0xf = v AND 0xf" unfolding m b8
    by (rule bit_word_eqI) (auto simp: bit_simps simp del: power_numeral)
  show "(v AND 0xf) AND 0xf = v AND 0xf" by (simp add: and.assoc)
qed

subsection \<open>The initialisation loop\<close>

text \<open>The accesses of the loop of \<open>exc_int_init\<close>, with \<open>pv\<close> the priority word stored.\<close>

primrec reset_hist :: "nat \<Rightarrow> u32 \<Rightarrow> u32 \<Rightarrow> access list \<Rightarrow> access list" where
  "reset_hist 0 i pv h = h"
| "reset_hist (Suc n) i pv h = reset_hist n (i + 1) pv
     (Aux_wr AUX_IRQ_PRIORITY pv # Aux_wr AUX_IRQ_TRIGGER 0 # Aux_wr AUX_IRQ_ENABLE 0
       # Aux_wr AUX_IRQ_SELECT i # h)"

lemma run_reset_loop:
  assumes "\<And>i s. run_state (body i) s = ((), s\<lparr>hist := Aux_wr AUX_IRQ_PRIORITY pv
      # Aux_wr AUX_IRQ_TRIGGER 0 # Aux_wr AUX_IRQ_ENABLE 0 # Aux_wr AUX_IRQ_SELECT i # hist s\<rparr>)"
  shows "run_state (for_up n i body) s = ((), s\<lparr>hist := reset_hist n i pv (hist s)\<rparr>)"
  by (induction n arbitrary: i s) (simp_all add: assms)

lemma bank_reset_hist:
  assumes "unat i + n \<le> 2 ^ 32"
  shows "irq_bank AUX_IRQ_ENABLE j (reset_hist n i pv h)
      = (if unat i \<le> unat j \<and> unat j < unat i + n then 0 else irq_bank AUX_IRQ_ENABLE j h)"
    and "irq_bank AUX_IRQ_TRIGGER j (reset_hist n i pv h)
      = (if unat i \<le> unat j \<and> unat j < unat i + n then 0 else irq_bank AUX_IRQ_TRIGGER j h)"
    and "irq_bank AUX_IRQ_PRIORITY j (reset_hist n i pv h)
      = (if unat i \<le> unat j \<and> unat j < unat i + n then pv else irq_bank AUX_IRQ_PRIORITY j h)"
proof -
  have "\<forall>h. irq_bank AUX_IRQ_ENABLE j (reset_hist n i pv h)
      = (if unat i \<le> unat j \<and> unat j < unat i + n then 0 else irq_bank AUX_IRQ_ENABLE j h)
    \<and> irq_bank AUX_IRQ_TRIGGER j (reset_hist n i pv h)
      = (if unat i \<le> unat j \<and> unat j < unat i + n then 0 else irq_bank AUX_IRQ_TRIGGER j h)
    \<and> irq_bank AUX_IRQ_PRIORITY j (reset_hist n i pv h)
      = (if unat i \<le> unat j \<and> unat j < unat i + n then pv else irq_bank AUX_IRQ_PRIORITY j h)"
    using assms
  proof (induction n arbitrary: i)
    case 0
    show ?case by auto
  next
    case (Suc n)
    show ?case
    proof (cases "n = 0")
      case True
      then have "unat i \<le> unat j \<and> unat j < unat i + Suc n \<longleftrightarrow> i = j"
        by (auto simp: word_unat_eq_iff)
      with True show ?thesis by simp
    next
      case False
      then have u: "unat (i + 1) = unat i + 1"
        using Suc.prems by (simp add: unat_word_ariths)
      have IH: "\<forall>h. irq_bank AUX_IRQ_ENABLE j (reset_hist n (i + 1) pv h)
          = (if unat i + 1 \<le> unat j \<and> unat j < unat i + 1 + n then 0 else irq_bank AUX_IRQ_ENABLE j h)
        \<and> irq_bank AUX_IRQ_TRIGGER j (reset_hist n (i + 1) pv h)
          = (if unat i + 1 \<le> unat j \<and> unat j < unat i + 1 + n then 0 else irq_bank AUX_IRQ_TRIGGER j h)
        \<and> irq_bank AUX_IRQ_PRIORITY j (reset_hist n (i + 1) pv h)
          = (if unat i + 1 \<le> unat j \<and> unat j < unat i + 1 + n then pv else irq_bank AUX_IRQ_PRIORITY j h)"
        using Suc.IH [of "i + 1"] Suc.prems unfolding u by simp
      show ?thesis
      proof (cases "i = j")
        case True
        show ?thesis using IH unfolding True by simp
      next
        case False
        then have "unat i \<noteq> unat j" by (simp add: word_unat_eq_iff)
        then have "unat i + 1 \<le> unat j \<and> unat j < unat i + 1 + n
            \<longleftrightarrow> unat i \<le> unat j \<and> unat j < unat i + Suc n" by linarith
        from IH [unfolded this] False show ?thesis by simp blast
      qed
    qed
  qed
  then show "irq_bank AUX_IRQ_ENABLE j (reset_hist n i pv h)
      = (if unat i \<le> unat j \<and> unat j < unat i + n then 0 else irq_bank AUX_IRQ_ENABLE j h)"
    "irq_bank AUX_IRQ_TRIGGER j (reset_hist n i pv h)
      = (if unat i \<le> unat j \<and> unat j < unat i + n then 0 else irq_bank AUX_IRQ_TRIGGER j h)"
    "irq_bank AUX_IRQ_PRIORITY j (reset_hist n i pv h)
      = (if unat i \<le> unat j \<and> unat j < unat i + n then pv else irq_bank AUX_IRQ_PRIORITY j h)"
    by blast+
qed

lemma open_crit_reset_hist: "open_crit (reset_hist n i pv h) = open_crit h"
  by (induction n arbitrary: i h) simp_all

lemma push_bit_8_1: "push_bit 8 (1 :: u32) = 0x100"
  by (simp add: push_bit_eq_mult)

text \<open>What follows the interrupt reset: the mask threshold and the fast-interrupt stack.\<close>

lemma exc_int_init_tail:
  fixes s :: "'a mach_scheme"
  shows "wp (do { arc_int_ipm_set p v; c_if b (arc_firq_stack_set p sp) })
    (\<lambda>_ t. (\<forall>r i. irq_bank r i (hist t) = irq_bank r i (hist s))
       \<and> (\<forall>ks. crit_is ks s \<longrightarrow> crit_is ks t) \<and> t = s\<lparr>hist := hist t\<rparr>) s"
  by (simp add: arc_irq_defs arc_firq_stack_set_def wp_rules Let_def crit_is_def)

lemma exc_int_init_run:
  fixes s :: "'a mach_scheme"
  assumes "t = snd (run_state (exc_int_init p) s)"
    and u: "u = s\<lparr>hist := Seti (clri_in p (hist s)) # Aux_wr AUX_IRQ_CTRL (irq_ctrl_value p)
      # reset_hist (unat (NUM_EXC_ALL p) - 16) 16
          ((if sec_present p then 0x100 else 0) OR (- 1 - int_pri_min p))
          (Clri (clri_in p (hist s)) # hist s)\<rparr>"
  shows "(\<forall>r i. irq_bank r i (hist t) = irq_bank r i (hist u))
       \<and> (\<forall>ks. crit_is ks u \<longrightarrow> crit_is ks t) \<and> t = u\<lparr>hist := hist t\<rparr>"
proof -
  let ?pv = "(if sec_present p then 0x100 else 0) OR (- 1 - int_pri_min p)"
  let ?b = "\<lambda>i. do {
       arc_aux_write AUX_IRQ_SELECT i;
       arc_aux_write AUX_IRQ_ENABLE 0;
       arc_aux_write AUX_IRQ_TRIGGER 0;
       if sec_present p then
         arc_aux_write AUX_IRQ_PRIORITY (push_bit 8 1 OR (INT_PRI_MAX - int_pri_min p))
       else arc_aux_write AUX_IRQ_PRIORITY (INT_PRI_MAX - int_pri_min p) }"
  let ?tail = "do { arc_int_ipm_set p (INT_PRI_MAX - int_pri_min p);
                    c_if (firq_banked p) (arc_firq_stack_set p (f_stack_addr p + 256)) }"
  have loop: "run_state (for_up n i ?b) v = ((), v\<lparr>hist := reset_hist n i ?pv (hist v)\<rparr>)"
    for n i and v :: "'a mach_scheme"
    by (rule run_reset_loop) (simp add: push_bit_8_1)
  have "t = snd (run_state ?tail u)"
    unfolding assms exc_int_init_def run_state_bind
    by (simp del: run_c_if add: loop arc_lock_save_def arc_unlock_restore_def split_def)
  with exc_int_init_tail [of p "INT_PRI_MAX - int_pri_min p" "firq_banked p" "f_stack_addr p + 256" u]
  show ?thesis by (simp add: wp_def)
qed

lemma valid_sample: "valid_intno sample_plat i \<longleftrightarrow> 16 \<le> i \<and> i < 48"
  by (simp add: valid_intno_def NUM_EXC_ALL_def sample_plat_def)

subsection \<open>Properties\<close>

text \<open>
  Every interrupt-management function checks its interrupt number first: for a number
  outside \<open>NUM_EXC_CPU ..< NUM_EXC_ALL\<close> it returns its error value (-1, and 0 for the
  priority and handler getters) and makes no access and no change at all.
\<close>

theorem int_ops_reject_bad_intno:
  fixes s :: "'a mach_scheme"
  assumes "\<not> valid_intno p intno"
  shows "run_state (int_enable p intno) s = (- 1, s)
    \<and> run_state (int_disable p intno) s = (- 1, s)
    \<and> run_state (int_enabled p intno) s = (- 1, s)
    \<and> run_state (int_pri_get p intno) s = (0, s)
    \<and> run_state (int_pri_set p intno pri) s = (- 1, s)
    \<and> run_state (int_secure_set p intno sec) s = (- 1, s)
    \<and> run_state (int_probe p intno) s = (- 1, s)
    \<and> run_state (int_sw_trigger p intno) s = (- 1, s)
    \<and> run_state (int_level_config p intno lv) s = (- 1, s)
    \<and> run_state (int_level_get p intno) s = (- 1, s)
    \<and> run_state (int_handler_install p intno handler) s = (- 1, s)
    \<and> run_state (int_handler_get p intno) s = (0, s)"
  using assms
  by (auto simp: int_mgmt_defs int_handler_install_def int_handler_get_def
      exc_handler_install_def exc_handler_get_def valid_intno_def)

lemma int_ops_reject_bad_intno_witness:
  "run_state (int_enable sample_plat 48) sample_mach = (- 1, sample_mach)
    \<and> run_state (int_pri_get sample_plat 48) sample_mach = (0, sample_mach)"
proof -
  have "\<not> valid_intno sample_plat 48" by (simp add: valid_sample)
  from int_ops_reject_bad_intno [OF this, of sample_mach] show ?thesis by blast
qed

text \<open>
  On the banked interrupt unit, enabling or disabling interrupt \<open>i\<close> is what
  \<open>int_enabled\<close> then reports for \<open>i\<close>, and leaves what it reports for every other
  interrupt as it was.
\<close>

theorem int_enabled_after_enable_disable:
  fixes s :: "'a mach_scheme"
  assumes "irq_unit p" "valid_intno p i" "valid_intno p j"
  shows "fst (run_state (do { int_enable p i; int_enabled p j }) s)
      = (if i = j then 1 else fst (run_state (int_enabled p j) s))
    \<and> fst (run_state (do { int_disable p i; int_enabled p j }) s)
      = (if i = j then 0 else fst (run_state (int_enabled p j) s))"
  using assms by (simp add: int_mgmt_defs arc_irq_defs irq_unitD)

lemma int_enabled_after_enable_disable_witness:
  "fst (run_state (do { int_enable sample_plat 20; int_enabled sample_plat 20 }) sample_mach) = 1"
proof -
  have v: "valid_intno sample_plat 20" by (simp add: valid_sample)
  from int_enabled_after_enable_disable [OF irq_unit_sample v v, of sample_mach] show ?thesis by simp
qed


text \<open>
  On the banked interrupt unit, a priority in the documented range set for interrupt
  \<open>i\<close> is the priority \<open>int_pri_get\<close> then reports for \<open>i\<close>; the other interrupts keep
  theirs, and the bits of the priority register above the priority field (the secure bit)
  are kept.
\<close>

theorem int_pri_roundtrip:
  fixes s :: "'a mach_scheme"
  assumes "irq_unit p" "valid_intno p i" "valid_intno p j"
    and lo: "- 16 \<le> sint (int_pri_min p)"
    and pri: "sint (int_pri_min p) \<le> sint pri" "sint pri \<le> - 1"
  shows "fst (run_state (do { int_pri_set p i pri; int_pri_get p j }) s)
      = (if i = j then pri else fst (run_state (int_pri_get p j) s))
    \<and> irq_bank AUX_IRQ_PRIORITY i (hist (snd (run_state (int_pri_set p i pri) s))) AND 0xfffffff0
      = irq_bank AUX_IRQ_PRIORITY i (hist s) AND 0xfffffff0"
  using assms(1-3) pri_offset [OF lo pri]
  by (simp add: int_mgmt_defs arc_irq_defs irq_unitD nibble_simps)

lemma int_pri_roundtrip_witness:
  "fst (run_state (do { int_pri_set sample_plat 20 (- 3); int_pri_get sample_plat 20 }) sample_mach) = - 3"
proof -
  have v: "valid_intno sample_plat 20" by (simp add: valid_sample)
  have "sint (int_pri_min sample_plat) = - 16" "sint (- 3 :: s32) = - 3"
    by (simp_all add: sample_plat_def)
  with int_pri_roundtrip [OF irq_unit_sample v v, of "- 3" sample_mach] show ?thesis by simp
qed

text \<open>
  The trigger mode set for interrupt \<open>i\<close> is the one read back (its lowest bit), and no
  other interrupt's changes; marking an interrupt secure or normal leaves every priority
  that can be read as it was.
\<close>

theorem int_level_and_secure:
  fixes s :: "'a mach_scheme"
  assumes "irq_unit p" "valid_intno p i" "valid_intno p j"
  shows "fst (run_state (do { int_level_config p i lv; int_level_get p j }) s)
      = (if i = j then lv AND 1 else fst (run_state (int_level_get p j) s))
    \<and> fst (run_state (do { int_secure_set p i sec; int_pri_get p j }) s)
      = fst (run_state (int_pri_get p j) s)"
  using assms
  by (simp add: int_mgmt_defs arc_irq_defs irq_unitD nibble_simps)

lemma int_level_and_secure_witness:
  "fst (run_state (do { int_level_config sample_plat 20 1; int_level_get sample_plat 20 }) sample_mach) = 1"
proof -
  have v: "valid_intno sample_plat 20" by (simp add: valid_sample)
  from int_level_and_secure [OF irq_unit_sample v v, of 1 sample_mach] show ?thesis by simp
qed

text \<open>
  C2: on a build of at most 240 interrupts, \<open>exc_int_init\<close> leaves every interrupt of the build disabled, level triggered and at
  the lowest priority (secure where the build has the secure feature), and every other
  bank of the unit as it was; the interrupt keys are balanced and it changes no memory.
\<close>

theorem exc_int_init_resets_all:
  fixes s :: "'a mach_scheme"
  assumes "t = snd (run_state (exc_int_init p) s)" and "num_exc_int p \<le> 240"
  shows "(\<forall>i. valid_intno p i \<longrightarrow> irq_bank AUX_IRQ_ENABLE i (hist t) = 0
        \<and> irq_bank AUX_IRQ_TRIGGER i (hist t) = 0
        \<and> irq_bank AUX_IRQ_PRIORITY i (hist t)
          = (if sec_present p then 0x100 else 0) OR (- 1 - int_pri_min p))
    \<and> (\<forall>i r. \<not> valid_intno p i \<longrightarrow> r \<in> {AUX_IRQ_ENABLE, AUX_IRQ_PRIORITY, AUX_IRQ_TRIGGER}
        \<longrightarrow> irq_bank r i (hist t) = irq_bank r i (hist s))
    \<and> (\<forall>ks. crit_is ks s \<longrightarrow> crit_is ks t) \<and> t = s\<lparr>hist := hist t\<rparr>"
proof -
  let ?pv = "(if sec_present p then 0x100 else 0) OR (- 1 - int_pri_min p)"
  let ?n = "unat (NUM_EXC_ALL p) - 16" and ?k = "clri_in p (hist s)"
  let ?h = "reset_hist ?n 16 ?pv (Clri ?k # hist s)"
  have n: "unat (NUM_EXC_ALL p) = 16 + unat (num_exc_int p)" and small: "unat (num_exc_int p) \<le> 240"
    using assms(2) by (simp_all add: NUM_EXC_ALL_def unat_word_ariths word_le_nat_alt)
  have dom: "unat (16 :: u32) \<le> unat i \<and> unat i < unat (16 :: u32) + ?n \<longleftrightarrow> valid_intno p i" for i
    using n by (auto simp: valid_intno_def word_le_nat_alt word_less_nat_alt)
  have fit: "unat (16 :: u32) + ?n \<le> 2 ^ 32" using n small by simp
  let ?u = "s\<lparr>hist := Seti ?k # Aux_wr AUX_IRQ_CTRL (irq_ctrl_value p) # ?h\<rparr>"
  from exc_int_init_run [OF assms(1) refl]
  have g: "\<And>r i. irq_bank r i (hist t) = irq_bank r i (hist ?u)"
    and keys: "\<And>ks. crit_is ks ?u \<Longrightarrow> crit_is ks t" and t: "t = ?u\<lparr>hist := hist t\<rparr>"
    by blast+
  have "irq_bank AUX_IRQ_ENABLE i (hist t) = 0 \<and> irq_bank AUX_IRQ_TRIGGER i (hist t) = 0
     \<and> irq_bank AUX_IRQ_PRIORITY i (hist t) = ?pv" if "valid_intno p i" for i
    using that dom [of i] by (simp add: g bank_reset_hist [OF fit])
  moreover have "irq_bank r i (hist t) = irq_bank r i (hist s)"
    if "\<not> valid_intno p i" "r \<in> {AUX_IRQ_ENABLE, AUX_IRQ_PRIORITY, AUX_IRQ_TRIGGER}" for i r
    using that dom [of i] by (auto simp: g bank_reset_hist [OF fit])
  moreover have "crit_is ks t" if "crit_is ks s" for ks
    using that by (intro keys) (simp add: crit_is_def open_crit_reset_hist)
  moreover have "t = s\<lparr>hist := hist t\<rparr>" by (subst t) simp
  ultimately show ?thesis by blast
qed

lemma exc_int_init_resets_all_witness:
  "irq_bank AUX_IRQ_PRIORITY 47 (hist (snd (run_state (exc_int_init sample_plat) sample_mach))) = 15"
proof -
  have "valid_intno sample_plat 47" by (simp add: valid_sample)
  moreover have "num_exc_int sample_plat \<le> 240" by (simp add: sample_plat_def)
  ultimately show ?thesis
    using exc_int_init_resets_all [OF refl, of sample_plat sample_mach] by (simp add: sample_plat_def)
qed

text \<open>
  \<open>exc_entry_install\<close> of a new, non-null entry stores it in the vector table the
  processor reports, writes nothing else, and where the build configuration register says
  there is a cache it flushes the data-cache line and only then invalidates the
  instruction-cache line of that slot, inside a balanced critical section. When the reported
  table is \<open>exc_entry_table\<close>, \<open>exc_entry_get\<close> then returns the entry.
\<close>

theorem exc_entry_install_publishes:
  fixes s :: "'a mach_scheme"
  assumes vb: "aux_in p (hist s) (if sec_present p then AUX_INT_VECT_BASE_S else AUX_INT_VECT_BASE) = tab"
    and new: "excno < NUM_EXC_ALL p" "entry \<noteq> 0" "get32 (mem s) (tab + 4 * excno) \<noteq> entry"
    and bcr: "\<And>h. aux_in p h AUX_BCR_D_CACHE = cfg" and hw: "dc_responsive p fuel"
  shows "\<exists>h. run_state (exc_entry_install p fuel excno entry) s
        = (Inr 0, s\<lparr>mem := put32 (tab + 4 * excno) entry (mem s), hist := h @ hist s\<rparr>)
     \<and> aux_stores h = (if cfg > 2 then [(AUX_DC_FLDL, tab + 4 * excno), (AUX_IC_IVIL, tab + 4 * excno)] else [])
     \<and> (\<forall>ks. crit_is ks s \<longrightarrow> open_crit (h @ hist s) = Some ks)
     \<and> (exc_entry_table_addr p = tab \<longrightarrow>
         fst (run_state (bindE (exc_entry_install p fuel excno entry) (\<lambda>_. liftE (exc_entry_get p excno))) s)
           = Inr entry)"
proof -
  let ?a = "tab + 4 * excno"
  let ?vb = "Aux_rd (if sec_present p then AUX_INT_VECT_BASE_S else AUX_INT_VECT_BASE) tab"
  let ?k = "clri_in p (?vb # hist s)"
  let ?s = "s\<lparr>mem := put32 ?a entry (mem s), hist := Aux_rd AUX_BCR_D_CACHE cfg # Clri ?k # ?vb # hist s\<rparr>"
  have "\<exists>h. run_state (exc_entry_install p fuel excno entry) s
        = (Inr 0, s\<lparr>mem := put32 ?a entry (mem s), hist := h @ hist s\<rparr>)
     \<and> aux_stores h = (if cfg > 2 then [(AUX_DC_FLDL, ?a), (AUX_IC_IVIL, ?a)] else [])
     \<and> (\<forall>ks. crit_is ks s \<longrightarrow> open_crit (h @ hist s) = Some ks)"
  proof (cases "cfg > 2")
    case False
    then show ?thesis
      using new vb
      by (intro exI [of _ "[Seti ?k, Aux_rd AUX_BCR_D_CACHE cfg, Aux_rd AUX_BCR_D_CACHE cfg, Clri ?k, ?vb]"])
         (simp add: exc_entry_install_def bcr crit_is_def split del: if_split)
  next
    case True
    obtain h where h: "run_state (dcache_flush_line p fuel ?a) ?s = (Inr (), ?s\<lparr>hist := h @ hist ?s\<rparr>)"
      "aux_stores h = [(AUX_DC_FLDL, ?a)]" "\<forall>l. open_crit l \<noteq> None \<longrightarrow> open_crit (h @ l) = open_crit l"
      using dcache_flush_line_run [OF hw, of ?a ?s] by blast
    then show ?thesis
      using new vb True
      by (intro exI [of _ "[Seti ?k, Nop, Nop, Nop, Aux_wr AUX_IC_IVIL ?a, Aux_rd AUX_BCR_D_CACHE cfg] @ h
            @ [Aux_rd AUX_BCR_D_CACHE cfg, Clri ?k, ?vb]"])
         (simp add: exc_entry_install_def icache_invalidate_line_def bcr crit_is_def aux_stores_append
            split del: if_split)
  qed
  then show ?thesis
    using new by (elim exE) (auto simp: exc_entry_get_def)
qed

lemma exc_entry_install_publishes_witness:
  "fst (run_state (bindE (exc_entry_install sample_plat 1 20 0x4000) (\<lambda>_. liftE (exc_entry_get sample_plat 20)))
     sample_mach) = Inr 0x4000"
proof -
  have "\<exists>h. run_state (exc_entry_install sample_plat 1 20 0x4000) sample_mach
        = (Inr 0, sample_mach\<lparr>mem := put32 80 0x4000 (mem sample_mach), hist := h @ hist sample_mach\<rparr>)
      \<and> fst (run_state (bindE (exc_entry_install sample_plat 1 20 0x4000)
          (\<lambda>_. liftE (exc_entry_get sample_plat 20))) sample_mach) = Inr 0x4000"
    using exc_entry_install_publishes [of sample_plat sample_mach 0 20 "0x4000" 0 1] dc_responsive_sample
    by (auto simp: sample_plat_def sample_mach_def NUM_EXC_ALL_def get32_def)
  then show ?thesis by blast
qed

text \<open>
  The handler table: a non-null handler installed for an exception or interrupt number
  of the build is the one \<open>exc_handler_get\<close> returns, every other slot and everything else
  is unchanged, a null handler or a number out of range is refused without effect, and
  \<open>int_handler_install\<close> never reaches a CPU exception's slot.
\<close>

theorem handler_table_roundtrip:
  fixes s :: "'a mach_scheme"
  assumes len: "length (exc_int_handler_table s) = unat (NUM_EXC_ALL p)"
    and t: "run_state (exc_handler_install p i handler) s = (r, t)"
  shows "r = (if i < NUM_EXC_ALL p \<and> handler \<noteq> 0 then 0 else - 1)
    \<and> fst (run_state (exc_handler_get p j) t)
      = (if r = 0 \<and> i = j then handler else fst (run_state (exc_handler_get p j) s))
    \<and> t = s\<lparr>exc_int_handler_table := exc_int_handler_table t\<rparr>
    \<and> length (exc_int_handler_table t) = unat (NUM_EXC_ALL p)
    \<and> run_state (int_handler_install p i handler) s = (if i < 16 then (- 1, s) else (r, t))"
proof (cases "i < NUM_EXC_ALL p \<and> handler \<noteq> 0")
  case True
  have "unat i < length (exc_int_handler_table s)"
    using True len by (simp add: word_less_nat_alt)
  moreover have "unat i = unat j \<longleftrightarrow> i = j" by (simp add: word_unat_eq_iff)
  ultimately show ?thesis
    using True t [symmetric] len
    by (auto simp: exc_handler_install_def exc_handler_get_def int_handler_install_def
        nth_list_update)
next
  case False
  have no: "(exc_handler_install p i handler :: ('a, s32) op) = State_Monad.return (- 1)"
    unfolding exc_handler_install_def by (rule if_not_P [OF False])
  then have "r = - 1" "t = s" using t by simp_all
  then show ?thesis using no len False by (auto simp: int_handler_install_def)
qed

lemma handler_table_roundtrip_witness:
  "fst (run_state (do { exc_handler_install sample_plat 20 0x4000; exc_handler_get sample_plat 20 }) sample_mach)
     = 0x4000"
proof -
  obtain r t where rt: "run_state (exc_handler_install sample_plat 20 0x4000) sample_mach = (r, t)"
    by fastforce
  have "length (exc_int_handler_table sample_mach) = unat (NUM_EXC_ALL sample_plat)"
    by (simp add: NUM_EXC_ALL_def)
  from handler_table_roundtrip [OF this rt, of 20] show ?thesis
    by (simp add: rt NUM_EXC_ALL_def)
qed

end
