(* ===== verification/ArcTimer.thy ===== *)
theory ArcTimer
  imports ArcIrq
begin

section \<open>Internal timers (arc_timer.c)\<close>

text \<open>
  The functions of \<open>arc/arc_timer.c\<close> over the auxiliary registers of timers 0 and 1, the RTC
  and the secure timers. The two static variables of the delay loop are fields of the state.
  The doubling loop of \<open>timer_calibrate_delay\<close> has a bound \<open>fuel\<close>; 60 iterations are always
  enough, because the 64-bit loop count overflows to 0 (\<open>calib_grow_returns\<close>). The
  refinement loop is bounded by \<open>LPS_PREC\<close>, 8.

  The lemmas show that every operation touches only its own timer's registers, what
  \<open>timer_init\<close> stops, and how close the calibration comes to the requested time.
\<close>

subsection \<open>Registers\<close>

abbreviation (input) AUX_BCR_TIMERS :: u32 where "AUX_BCR_TIMERS \<equiv> 0x75"
abbreviation (input) AUX_TIMER0_CNT :: u32 where "AUX_TIMER0_CNT \<equiv> 0x21"
abbreviation (input) AUX_TIMER0_CTRL :: u32 where "AUX_TIMER0_CTRL \<equiv> 0x22"
abbreviation (input) AUX_TIMER0_LIMIT :: u32 where "AUX_TIMER0_LIMIT \<equiv> 0x23"
abbreviation (input) AUX_TIMER1_CNT :: u32 where "AUX_TIMER1_CNT \<equiv> 0x100"
abbreviation (input) AUX_TIMER1_CTRL :: u32 where "AUX_TIMER1_CTRL \<equiv> 0x101"
abbreviation (input) AUX_TIMER1_LIMIT :: u32 where "AUX_TIMER1_LIMIT \<equiv> 0x102"
abbreviation (input) AUX_RTC_CTRL :: u32 where "AUX_RTC_CTRL \<equiv> 0x103"
abbreviation (input) AUX_RTC_LOW :: u32 where "AUX_RTC_LOW \<equiv> 0x104"
abbreviation (input) AUX_SECURE_TIMER0_CNT :: u32 where "AUX_SECURE_TIMER0_CNT \<equiv> 0x106"
abbreviation (input) AUX_SECURE_TIMER0_CTRL :: u32 where "AUX_SECURE_TIMER0_CTRL \<equiv> 0x107"
abbreviation (input) AUX_SECURE_TIMER0_LIMIT :: u32 where "AUX_SECURE_TIMER0_LIMIT \<equiv> 0x108"
abbreviation (input) AUX_SECURE_TIMER1_CNT :: u32 where "AUX_SECURE_TIMER1_CNT \<equiv> 0x109"
abbreviation (input) AUX_SECURE_TIMER1_CTRL :: u32 where "AUX_SECURE_TIMER1_CTRL \<equiv> 0x10a"
abbreviation (input) AUX_SECURE_TIMER1_LIMIT :: u32 where "AUX_SECURE_TIMER1_LIMIT \<equiv> 0x10b"

abbreviation (input) TIMER_0 :: u32 where "TIMER_0 \<equiv> 0"
abbreviation (input) TIMER_1 :: u32 where "TIMER_1 \<equiv> 1"
abbreviation (input) TIMER_RTC :: u32 where "TIMER_RTC \<equiv> 2"
abbreviation (input) TIMER_RTC_CLEAR :: u32 where "TIMER_RTC_CLEAR \<equiv> 0x02"
abbreviation (input) TIMER_CTRL_IP :: u32 where "TIMER_CTRL_IP \<equiv> 0x8"

record timer_mach = mach +
  gl_loops_per_jiffy :: u64
  gl_count :: u32

type_synonym ('a, 'r) top = "('a timer_mach_scheme, 'r) state"

subsection \<open>Timer 0, timer 1 and the RTC\<close>

definition timer_present :: "plat \<Rightarrow> u32 \<Rightarrow> ('a, s32) op" where
  "timer_present p no = do {
     bcr \<leftarrow> arc_aux_read p AUX_BCR_TIMERS;
     State_Monad.return (
       if no = TIMER_0 then drop_bit 8 bcr AND 1
       else if no = TIMER_1 then drop_bit 9 bcr AND 1
       else if no = TIMER_RTC then drop_bit 10 bcr AND 1
       else 0)
   }"

definition timer_start :: "u32 \<Rightarrow> u32 \<Rightarrow> u32 \<Rightarrow> ('a, s32) op" where
  "timer_start no mode val = (
     if no = TIMER_0 then do {
       arc_aux_write AUX_TIMER0_CTRL 0;
       arc_aux_write AUX_TIMER0_LIMIT val;
       arc_aux_write AUX_TIMER0_CTRL mode;
       arc_aux_write AUX_TIMER0_CNT 0;
       State_Monad.return 0
     } else if no = TIMER_1 then do {
       arc_aux_write AUX_TIMER1_CTRL 0;
       arc_aux_write AUX_TIMER1_LIMIT val;
       arc_aux_write AUX_TIMER1_CTRL mode;
       arc_aux_write AUX_TIMER1_CNT 0;
       State_Monad.return 0
     } else if no = TIMER_RTC then do {
       arc_aux_write AUX_RTC_CTRL mode;
       State_Monad.return 0
     } else State_Monad.return (- 1))"

definition timer_stop :: "u32 \<Rightarrow> ('a, s32) op" where
  "timer_stop no = (
     if no = TIMER_0 then do {
       arc_aux_write AUX_TIMER0_CTRL 0;
       arc_aux_write AUX_TIMER0_LIMIT 0;
       arc_aux_write AUX_TIMER0_CNT 0;
       State_Monad.return 0
     } else if no = TIMER_1 then do {
       arc_aux_write AUX_TIMER1_CTRL 0;
       arc_aux_write AUX_TIMER1_LIMIT 0;
       arc_aux_write AUX_TIMER1_CNT 0;
       State_Monad.return 0
     } else if no = TIMER_RTC then do {
       arc_aux_write AUX_RTC_CTRL TIMER_RTC_CLEAR;
       State_Monad.return 0
     } else State_Monad.return (- 1))"

text \<open>For the RTC \<open>val\<close> points to 64 bits: the low word is stored, and 0 above it.\<close>

definition timer_current :: "plat \<Rightarrow> u32 \<Rightarrow> u32 \<Rightarrow> ('a, s32) op" where
  "timer_current p no val = (
     if no = TIMER_0 then do {
       v \<leftarrow> arc_aux_read p AUX_TIMER0_CNT; st32 val v; State_Monad.return 0
     } else if no = TIMER_1 then do {
       v \<leftarrow> arc_aux_read p AUX_TIMER1_CNT; st32 val v; State_Monad.return 0
     } else if no = TIMER_RTC then do {
       v \<leftarrow> arc_aux_read p AUX_RTC_LOW; st32 val v; st32 (val + 4) 0; State_Monad.return 0
     } else State_Monad.return (- 1))"

definition timer_int_clear :: "plat \<Rightarrow> u32 \<Rightarrow> ('a, s32) op" where
  "timer_int_clear p no = (
     if no = TIMER_0 then do {
       v \<leftarrow> arc_aux_read p AUX_TIMER0_CTRL;
       arc_aux_write AUX_TIMER0_CTRL (v AND NOT TIMER_CTRL_IP);
       State_Monad.return 0
     } else if no = TIMER_1 then do {
       v \<leftarrow> arc_aux_read p AUX_TIMER1_CTRL;
       arc_aux_write AUX_TIMER1_CTRL (v AND NOT TIMER_CTRL_IP);
       State_Monad.return 0
     } else State_Monad.return (- 1))"

definition timer_init :: "plat \<Rightarrow> ('a, unit) op" where
  "timer_init p = do {
     v \<leftarrow> timer_present p TIMER_0;
     c_if (v \<noteq> 0) (do { _ \<leftarrow> timer_stop TIMER_0; State_Monad.return () });
     v \<leftarrow> timer_present p TIMER_1;
     c_if (v \<noteq> 0) (do { _ \<leftarrow> timer_stop TIMER_1; State_Monad.return () });
     v \<leftarrow> timer_present p TIMER_RTC;
     c_if (v \<noteq> 0) (do { _ \<leftarrow> timer_stop TIMER_RTC; State_Monad.return () })
   }"

subsection \<open>Secure timers\<close>

definition secure_timer_present :: "plat \<Rightarrow> u32 \<Rightarrow> ('a, s32) op" where
  "secure_timer_present p no = do {
     bcr \<leftarrow> arc_aux_read p AUX_BCR_TIMERS;
     State_Monad.return (
       if no = 0 then drop_bit 11 bcr AND 1
       else if no = 1 then drop_bit 12 bcr AND 1
       else 0)
   }"

definition secure_timer_start :: "u32 \<Rightarrow> u32 \<Rightarrow> u32 \<Rightarrow> ('a, s32) op" where
  "secure_timer_start no mode val = (
     if no = 0 then do {
       arc_aux_write AUX_SECURE_TIMER0_CTRL 0;
       arc_aux_write AUX_SECURE_TIMER0_LIMIT val;
       arc_aux_write AUX_SECURE_TIMER0_CTRL mode;
       arc_aux_write AUX_SECURE_TIMER0_CNT 0;
       State_Monad.return 0
     } else if no = 1 then do {
       arc_aux_write AUX_SECURE_TIMER1_CTRL 0;
       arc_aux_write AUX_SECURE_TIMER1_LIMIT val;
       arc_aux_write AUX_SECURE_TIMER1_CTRL mode;
       arc_aux_write AUX_SECURE_TIMER1_CNT 0;
       State_Monad.return 0
     } else State_Monad.return (- 1))"

definition secure_timer_stop :: "u32 \<Rightarrow> ('a, s32) op" where
  "secure_timer_stop no = (
     if no = 0 then do {
       arc_aux_write AUX_SECURE_TIMER0_CTRL 0;
       arc_aux_write AUX_SECURE_TIMER0_LIMIT 0;
       arc_aux_write AUX_SECURE_TIMER0_CNT 0;
       State_Monad.return 0
     } else if no = 1 then do {
       arc_aux_write AUX_SECURE_TIMER1_CTRL 0;
       arc_aux_write AUX_SECURE_TIMER1_LIMIT 0;
       arc_aux_write AUX_SECURE_TIMER1_CNT 0;
       State_Monad.return 0
     } else State_Monad.return (- 1))"

definition secure_timer_current :: "plat \<Rightarrow> u32 \<Rightarrow> u32 \<Rightarrow> ('a, s32) op" where
  "secure_timer_current p no val = (
     if no = 0 then do {
       v \<leftarrow> arc_aux_read p AUX_SECURE_TIMER0_CNT; st32 val v; State_Monad.return 0
     } else if no = 1 then do {
       v \<leftarrow> arc_aux_read p AUX_SECURE_TIMER1_CNT; st32 val v; State_Monad.return 0
     } else State_Monad.return (- 1))"

definition secure_timer_int_clear :: "plat \<Rightarrow> u32 \<Rightarrow> ('a, s32) op" where
  "secure_timer_int_clear p no = (
     if no = 0 then do {
       v \<leftarrow> arc_aux_read p AUX_SECURE_TIMER0_CTRL;
       arc_aux_write AUX_SECURE_TIMER0_CTRL (v AND NOT TIMER_CTRL_IP);
       State_Monad.return 0
     } else if no = 1 then do {
       v \<leftarrow> arc_aux_read p AUX_SECURE_TIMER1_CTRL;
       arc_aux_write AUX_SECURE_TIMER1_CTRL (v AND NOT TIMER_CTRL_IP);
       State_Monad.return 0
     } else State_Monad.return (- 1))"

definition secure_timer_init :: "plat \<Rightarrow> ('a, unit) op" where
  "secure_timer_init p = do {
     v \<leftarrow> secure_timer_present p 0;
     c_if (v \<noteq> 0) (do { _ \<leftarrow> secure_timer_stop 0; State_Monad.return () });
     v \<leftarrow> secure_timer_present p 1;
     c_if (v \<noteq> 0) (do { _ \<leftarrow> secure_timer_stop 1; State_Monad.return () })
   }"

subsection \<open>Delays and calibration\<close>

text \<open>
  \<open>usecs * gl_loops_per_jiffy / gl_count\<close> is computed in 64 bits and truncated to the
  32-bit parameter; the loop itself is the access \<open>Loop_nops\<close>.
\<close>

definition arc_delay_us :: "u32 \<Rightarrow> ('a, unit res) top" where
  "arc_delay_us usecs = (
     if usecs = 0 then retE ()
     else do {
       s \<leftarrow> State_Monad.get;
       if gl_count s = 0 then stopE Undef
       else liftE (emit (Loop_nops
         (ucast ((ucast usecs * gl_loops_per_jiffy s) div (ucast (gl_count s) :: u64)))))
     })"

text \<open>One timing: the count of timer 0 after a delay of \<open>l\<close>.\<close>

definition calib_time :: "plat \<Rightarrow> u64 \<Rightarrow> ('a, u32 res) top" where
  "calib_time p l =
     bindE (liftE (arc_aux_write AUX_TIMER0_CNT 0)) (\<lambda>_.
     bindE (arc_delay_us (ucast l)) (\<lambda>_.
     liftE (arc_aux_read p AUX_TIMER0_CNT)))"

text \<open>\<open>while ((l <<= 1) != 0)\<close>, left when the timing exceeds the clock count.\<close>

primrec calib_grow :: "nat \<Rightarrow> plat \<Rightarrow> u32 \<Rightarrow> u64 \<Rightarrow> ('a, u64 res) top" where
  "calib_grow 0 p clk l = stopE Hang"
| "calib_grow (Suc n) p clk l =
     (let l = push_bit 1 l in
      if l = 0 then retE 0
      else bindE (calib_time p l) (\<lambda>c. if c > clk then retE l else calib_grow n p clk l))"

text \<open>\<open>while (lps_precision-- && (loopbit >>= 1))\<close>\<close>

primrec calib_refine :: "nat \<Rightarrow> plat \<Rightarrow> u32 \<Rightarrow> u64 \<Rightarrow> u64 \<Rightarrow> ('a, u64 res) top" where
  "calib_refine 0 p clk loopbit l = retE l"
| "calib_refine (Suc n) p clk loopbit l =
     (let loopbit = drop_bit 1 loopbit in
      if loopbit = 0 then retE l
      else let l = l OR loopbit in
        bindE (calib_time p l) (\<lambda>c.
          calib_refine n p clk loopbit (if c > clk then l AND NOT loopbit else l)))"

definition timer_calibrate_delay :: "plat \<Rightarrow> nat \<Rightarrow> u32 \<Rightarrow> ('a, u64 res) top" where
  "timer_calibrate_delay p fuel cpu_clock =
     bindE (liftE (State_Monad.update (\<lambda>s. s\<lparr>gl_loops_per_jiffy := 1, gl_count := 1\<rparr>))) (\<lambda>_.
     let cpu_clock = cpu_clock div 1000 in
     bindE (liftE (cpu_lock_save p)) (\<lambda>status.
     bindE (bindE (liftE (arc_aux_read p AUX_TIMER0_LIMIT)) (\<lambda>timer0_limit.
            bindE (liftE (arc_aux_write AUX_TIMER0_LIMIT 0xFFFFFFFF)) (\<lambda>_.
            bindE (calib_grow fuel p cpu_clock 16) (\<lambda>l.
            let l = drop_bit 1 l in
            bindE (calib_refine 8 p cpu_clock l l) (\<lambda>l.
            liftE (do {
              State_Monad.update (\<lambda>s. s\<lparr>gl_loops_per_jiffy := l, gl_count := 1000\<rparr>);
              arc_aux_write AUX_TIMER0_CNT 0;
              arc_aux_write AUX_TIMER0_LIMIT timer0_limit;
              State_Monad.return l
            })))))) (\<lambda>l.
     liftE (do { cpu_unlock_restore status; State_Monad.return l }))))"

subsection \<open>The registers of a timer\<close>

definition ctrl_reg :: "u32 \<Rightarrow> u32" where
  "ctrl_reg no = (if no = TIMER_0 then AUX_TIMER0_CTRL else if no = TIMER_1 then AUX_TIMER1_CTRL
     else AUX_RTC_CTRL)"

definition limit_reg :: "u32 \<Rightarrow> u32" where
  "limit_reg no = (if no = TIMER_0 then AUX_TIMER0_LIMIT else AUX_TIMER1_LIMIT)"

definition cnt_reg :: "u32 \<Rightarrow> u32" where
  "cnt_reg no = (if no = TIMER_0 then AUX_TIMER0_CNT else AUX_TIMER1_CNT)"

lemmas timer_reg_defs = ctrl_reg_def limit_reg_def cnt_reg_def

lemmas timer_defs =
  timer_present_def timer_start_def timer_stop_def timer_current_def timer_int_clear_def
  secure_timer_present_def secure_timer_start_def secure_timer_stop_def
  secure_timer_current_def secure_timer_int_clear_def

subsection \<open>One timing of the calibration\<close>

text \<open>The history of a delay of \<open>n\<close> loops started with the counter at 0.\<close>

definition timed :: "u32 \<Rightarrow> access list \<Rightarrow> access list" where
  "timed n h = (if n = 0 then Aux_wr AUX_TIMER0_CNT 0 # h
     else Loop_nops n # Aux_wr AUX_TIMER0_CNT 0 # h)"

lemma calib_time_run:
  fixes s :: "'a timer_mach_scheme"
  assumes "gl_loops_per_jiffy s = 1" "gl_count s = 1"
  shows "run_state (calib_time p l) s =
    (let g = timed (ucast l) (hist s); c = aux_in p g AUX_TIMER0_CNT
     in (Inr c, s\<lparr>hist := Aux_rd AUX_TIMER0_CNT c # g\<rparr>))"
proof -
  have "(ucast (ucast n :: u64) :: u32) = n" for n :: u32
    by (rule bit_word_eqI) (simp add: bit_simps)
  with assms show ?thesis
    by (simp add: calib_time_def arc_delay_us_def timed_def Let_def)
qed

text \<open>What the calibration adds to the history leaves the keys and the limit register alone.\<close>

definition quiet :: "access list \<Rightarrow> bool" where
  "quiet g \<longleftrightarrow> (\<forall>l. open_crit (g @ l) = open_crit l) \<and> aux_writes_to AUX_TIMER0_LIMIT g = []"

lemma quiet_append: "quiet g \<Longrightarrow> quiet h \<Longrightarrow> quiet (g @ h)"
  by (simp add: quiet_def aux_writes_to_append)

lemma calib_time_quiet:
  fixes s :: "'a timer_mach_scheme"
  assumes "gl_loops_per_jiffy s = 1" "gl_count s = 1"
  shows "\<exists>c h. run_state (calib_time p l) s = (Inr c, s\<lparr>hist := h @ hist s\<rparr>) \<and> quiet h"
proof (intro exI conjI)
  let ?c = "aux_in p (timed (ucast l) (hist s)) AUX_TIMER0_CNT"
  let ?h = "Aux_rd AUX_TIMER0_CNT ?c # (if (ucast l :: u32) = 0 then [] else [Loop_nops (ucast l)])
     @ [Aux_wr AUX_TIMER0_CNT 0]"
  show "run_state (calib_time p l) s = (Inr ?c, s\<lparr>hist := ?h @ hist s\<rparr>)"
    by (simp add: calib_time_run [OF assms] timed_def Let_def)
  show "quiet ?h" by (simp add: quiet_def)
qed

subsection \<open>The calibration loops end\<close>

lemma calib_grow_returns:
  fixes s :: "'a timer_mach_scheme"
  assumes "gl_loops_per_jiffy s = 1" "gl_count s = 1" "0 < n" "n \<le> 64" "n \<le> fuel"
  shows "\<exists>l h. run_state (calib_grow fuel p clk (push_bit (64 - n) 1)) s
      = (Inr l, s\<lparr>hist := h @ hist s\<rparr>) \<and> quiet h"
  using assms
proof (induction n arbitrary: fuel s)
  case 0
  then show ?case by simp
next
  case (Suc n)
  then obtain f where f: "fuel = Suc f" "n \<le> f" by (cases fuel) auto
  have shift: "push_bit 1 (push_bit (64 - Suc n) (1 :: u64)) = push_bit (64 - n) 1"
  proof -
    have "64 - n = Suc (64 - Suc n)" using Suc.prems by simp
    then show ?thesis by (simp add: push_bit_eq_mult)
  qed
  show ?case
  proof (cases "n = 0")
    case True
    then have "push_bit (64 - n) (1 :: u64) = 0" by (simp add: push_bit_eq_mult)
    with f shift show ?thesis by (intro exI [of _ 0] exI [of _ "[]"]) (simp add: Let_def quiet_def)
  next
    case False
    have nz: "push_bit (64 - n) (1 :: u64) \<noteq> 0"
      using Suc.prems False by (simp add: push_bit_eq_mult exp_eq_zero_iff)
    obtain c h where c: "run_state (calib_time p (push_bit (64 - n) 1)) s = (Inr c, s\<lparr>hist := h @ hist s\<rparr>)"
      and h: "quiet h" using calib_time_quiet [OF Suc.prems(1,2)] by blast
    show ?thesis
    proof (cases "c > clk")
      case True
      with f shift nz c h show ?thesis
        by (intro exI [of _ "push_bit (64 - n) 1"] exI [of _ h]) (simp add: Let_def)
    next
      case False
      have "\<exists>l g. run_state (calib_grow f p clk (push_bit (64 - n) 1)) (s\<lparr>hist := h @ hist s\<rparr>)
          = (Inr l, s\<lparr>hist := g @ h @ hist s\<rparr>) \<and> quiet g"
        using Suc.IH [of "s\<lparr>hist := h @ hist s\<rparr>" f] Suc.prems \<open>n \<noteq> 0\<close> f by simp
      then obtain l g where "run_state (calib_grow f p clk (push_bit (64 - n) 1)) (s\<lparr>hist := h @ hist s\<rparr>)
          = (Inr l, s\<lparr>hist := g @ h @ hist s\<rparr>)" and "quiet g" by blast
      with f shift nz c h False show ?thesis
        by (intro exI [of _ l] exI [of _ "g @ h"]) (simp add: Let_def quiet_append)
    qed
  qed
qed

lemma calib_refine_returns:
  fixes s :: "'a timer_mach_scheme"
  assumes "gl_loops_per_jiffy s = 1" "gl_count s = 1"
  shows "\<exists>r h. run_state (calib_refine n p clk b l) s = (Inr r, s\<lparr>hist := h @ hist s\<rparr>) \<and> quiet h"
  using assms
proof (induction n arbitrary: b l s)
  case 0
  show ?case by (intro exI [of _ l] exI [of _ "[]"]) (simp add: quiet_def)
next
  case (Suc n)
  show ?case
  proof (cases "drop_bit 1 b = 0")
    case True
    then show ?thesis by (intro exI [of _ l] exI [of _ "[]"]) (simp add: quiet_def Let_def)
  next
    case False
    let ?l = "l OR drop_bit 1 b"
    obtain c h where c: "run_state (calib_time p ?l) s = (Inr c, s\<lparr>hist := h @ hist s\<rparr>)"
      and h: "quiet h" using calib_time_quiet [OF Suc.prems] by blast
    obtain r g where "run_state (calib_refine n p clk (drop_bit 1 b)
        (if c > clk then ?l AND NOT (drop_bit 1 b) else ?l)) (s\<lparr>hist := h @ hist s\<rparr>)
        = (Inr r, s\<lparr>hist := g @ h @ hist s\<rparr>)" and "quiet g"
      using Suc.IH [of "s\<lparr>hist := h @ hist s\<rparr>"] Suc.prems by fastforce
    with False c h show ?thesis
      by (intro exI [of _ r] exI [of _ "g @ h"])
         (simp add: Let_def quiet_append if_distrib del: One_nat_def)
  qed
qed


subsection \<open>The calibration is a binary search\<close>

text \<open>
  The hardware law of the accuracy lemmas: the count read after a delay of \<open>n\<close> loops that
  started at 0 is a monotone function of \<open>n\<close>.
\<close>

definition counts_by :: "plat \<Rightarrow> (nat \<Rightarrow> u32) \<Rightarrow> bool" where
  "counts_by p cost \<longleftrightarrow> mono cost \<and>
     (\<forall>n h. n < 2 ^ 32 \<longrightarrow> aux_in p (timed (of_nat n) h) AUX_TIMER0_CNT = cost n)"

lemma ucast_of_nat_32: "(ucast (of_nat n :: u64) :: u32) = of_nat n"
  by (rule bit_word_eqI) (simp add: bit_simps)

lemma calib_time_cost:
  fixes s :: "'a timer_mach_scheme"
  assumes "gl_loops_per_jiffy s = 1" "gl_count s = 1" "counts_by p cost" "n < 2 ^ 32"
  shows "\<exists>h. run_state (calib_time p (of_nat n)) s = (Inr (cost n), s\<lparr>hist := h @ hist s\<rparr>) \<and> quiet h"
proof -
  obtain c h where c: "run_state (calib_time p (of_nat n)) s = (Inr c, s\<lparr>hist := h @ hist s\<rparr>)" "quiet h"
    using calib_time_quiet [OF assms(1,2)] by blast
  have "aux_in p (timed (of_nat n) (hist s)) AUX_TIMER0_CNT = cost n"
    using assms(3,4) by (simp add: counts_by_def)
  with c(1) have "c = cost n"
    by (simp add: calib_time_run [OF assms(1,2)] ucast_of_nat_32 Let_def)
  with c show ?thesis by blast
qed

lemma calib_grow_finds:
  fixes s :: "'a timer_mach_scheme"
  assumes "gl_loops_per_jiffy s = 1" "gl_count s = 1" and law: "counts_by p cost"
    and "j < k" and k: "k < 32" "clk < cost (2 ^ k)"
    and "\<And>i. j < i \<Longrightarrow> i < k \<Longrightarrow> cost (2 ^ i) \<le> clk" and "k - j \<le> fuel"
  shows "\<exists>h. run_state (calib_grow fuel p clk (of_nat (2 ^ j))) s
      = (Inr (of_nat (2 ^ k)), s\<lparr>hist := h @ hist s\<rparr>)"
  using assms(1,2,4,7,8)
proof (induction "k - Suc j" arbitrary: fuel j s)
  case base: 0
  then obtain f where f: "fuel = Suc f" by (cases fuel) auto
  from base have jk: "k = Suc j" by simp
  have sh: "push_bit 1 (of_nat (2 ^ j)) = (of_nat (2 ^ k) :: u64)"
    by (simp add: push_bit_eq_mult jk)
  have "(of_nat (2 ^ k) :: u64) \<noteq> 0" using k(1) by (simp add: exp_eq_zero_iff)
  moreover have "(2::nat) ^ k < 2 ^ 32" using k(1) by (rule power_strict_increasing) simp
  ultimately show ?case
    using calib_time_cost [OF base(2,3) law, of "2 ^ k"] k(2) f sh
    by (auto simp: Let_def simp del: of_nat_power)
next
  case step: (Suc m)
  then obtain f where f: "fuel = Suc f" by (cases fuel) auto
  have sh: "push_bit 1 (of_nat (2 ^ j)) = (of_nat (2 ^ Suc j) :: u64)"
    by (simp add: push_bit_eq_mult)
  have nz: "(of_nat (2 ^ Suc j) :: u64) \<noteq> 0" using k(1) step by (simp add: exp_eq_zero_iff del: power_Suc)
  have "(2::nat) ^ Suc j < 2 ^ 32" by (rule power_strict_increasing) (use k(1) step in simp_all)
  then obtain h where h: "run_state (calib_time p (of_nat (2 ^ Suc j))) s
      = (Inr (cost (2 ^ Suc j)), s\<lparr>hist := h @ hist s\<rparr>)"
    using calib_time_cost [OF step(3,4) law, of "2 ^ Suc j"] by blast
  have le: "cost (2 ^ Suc j) \<le> clk" by (rule step(6)) (use step in simp_all)
  have "\<exists>g. run_state (calib_grow f p clk (of_nat (2 ^ Suc j))) (s\<lparr>hist := h @ hist s\<rparr>)
      = (Inr (of_nat (2 ^ k)), s\<lparr>hist := g @ hist (s\<lparr>hist := h @ hist s\<rparr>)\<rparr>)"
    using step.hyps(1) [of "Suc j" "s\<lparr>hist := h @ hist s\<rparr>" f] step f by simp
  then obtain g where "run_state (calib_grow f p clk (of_nat (2 ^ Suc j))) (s\<lparr>hist := h @ hist s\<rparr>)
      = (Inr (of_nat (2 ^ k)), s\<lparr>hist := g @ h @ hist s\<rparr>)" by auto
  then show ?case
    using f sh nz h le
    by (intro exI [of _ "g @ h"]) (simp add: Let_def leD del: of_nat_power power_Suc)
qed

text \<open>Setting and clearing the bit below the lowest set one.\<close>

lemma low_bit_free:
  assumes "2 ^ Suc m dvd L"
  shows "(of_nat L :: u64) AND 2 ^ m = 0"
proof -
  obtain q where "L = 2 ^ Suc m * q" using assms by blast
  then have "\<not> bit L m" by (simp add: bit_iff_odd)
  then have "\<not> bit (of_nat L :: u64) m" by (simp add: bit_simps)
  then show ?thesis by (simp add: and_exp_eq_0)
qed

lemma low_bit_set:
  assumes "2 ^ Suc m dvd L"
  shows "(of_nat L :: u64) OR 2 ^ m = of_nat (L + 2 ^ m)"
    and "((of_nat L :: u64) OR 2 ^ m) AND NOT (2 ^ m) = of_nat L"
proof -
  have z: "(of_nat L :: u64) AND 2 ^ m = 0" using low_bit_free [OF assms] .
  then show "(of_nat L :: u64) OR 2 ^ m = of_nat (L + 2 ^ m)"
    using word_plus_and_or [of "of_nat L :: u64" "2 ^ m"] by simp
  show "((of_nat L :: u64) OR 2 ^ m) AND NOT (2 ^ m) = of_nat L"
  proof (rule bit_word_eqI)
    fix n assume "n < LENGTH(64)"
    moreover have "\<not> bit (of_nat L :: u64) m" using z by (simp add: and_exp_eq_0)
    ultimately show "bit (((of_nat L :: u64) OR 2 ^ m) AND NOT (2 ^ m)) n = bit (of_nat L :: u64) n"
      by (cases "n = m") (auto simp: bit_simps)
  qed
qed

lemma calib_refine_accurate:
  fixes s :: "'a timer_mach_scheme"
  assumes "gl_loops_per_jiffy s = 1" "gl_count s = 1" and law: "counts_by p cost"
    and "m < 64" "2 ^ m dvd L" "L + 2 ^ m \<le> 2 ^ 32" "clk < cost (L + 2 ^ m)"
  shows "\<exists>R h. run_state (calib_refine n p clk (2 ^ m) (of_nat L)) s
        = (Inr (of_nat R), s\<lparr>hist := h @ hist s\<rparr>)
     \<and> L \<le> R \<and> R < L + 2 ^ m \<and> (R = L \<or> cost R \<le> clk) \<and> clk < cost (R + 2 ^ (m - n))"
  using assms(1,2,4-7)
proof (induction n arbitrary: m L s)
  case 0
  then show ?case by (intro exI [of _ L] exI [of _ "[]"]) simp
next
  case (Suc n)
  show ?case
  proof (cases m)
    case 0
    with Suc.prems show ?thesis
      by (intro exI [of _ L] exI [of _ "[]"]) (simp add: Let_def)
  next
    case m: (Suc m')
    have b: "drop_bit 1 ((2 :: u64) ^ m) = 2 ^ m'" "(2 :: u64) ^ m' \<noteq> 0"
      using Suc.prems(3) m by (auto simp: exp_eq_zero_iff bit_simps intro!: bit_word_eqI)
    have dv: "2 ^ Suc m' dvd L" using Suc.prems m by simp
    note set = low_bit_set [OF dv]
    let ?L = "L + 2 ^ m'"
    have "?L < 2 ^ 32"
    proof -
      have "(2::nat) ^ m' < 2 ^ m" using m by simp
      then show ?thesis using Suc.prems(5) by linarith
    qed
    then obtain h where h: "run_state (calib_time p (of_nat ?L)) s = (Inr (cost ?L), s\<lparr>hist := h @ hist s\<rparr>)"
      using calib_time_cost [OF Suc.prems(1,2) law] by blast
    let ?s = "s\<lparr>hist := h @ hist s\<rparr>"
    let ?N = "if cost ?L > clk then L else ?L"
    have run: "run_state (calib_refine (Suc n) p clk (2 ^ m) (of_nat L)) s
        = run_state (calib_refine n p clk (2 ^ m') (of_nat ?N)) ?s"
      using b h by (simp add: Let_def set set(2) [unfolded set(1)] del: of_nat_add One_nat_def)
    have "\<exists>R g. run_state (calib_refine n p clk (2 ^ m') (of_nat ?N)) ?s
        = (Inr (of_nat R), ?s\<lparr>hist := g @ hist ?s\<rparr>)
      \<and> ?N \<le> R \<and> R < ?N + 2 ^ m' \<and> (R = ?N \<or> cost R \<le> clk) \<and> clk < cost (R + 2 ^ (m' - n))"
    proof (rule Suc.IH)
      show "2 ^ m' dvd ?N" using dv by (auto intro: dvd_trans [OF le_imp_power_dvd] simp: power_Suc)
      show "?N + 2 ^ m' \<le> 2 ^ 32" using Suc.prems(5) m by (auto split: if_splits)
      show "clk < cost (?N + 2 ^ m')"
        using Suc.prems(6) m by (simp add: mult_2 add.assoc)
    qed (use Suc.prems m in simp_all)
    then obtain R g where R: "run_state (calib_refine n p clk (2 ^ m') (of_nat ?N)) ?s
        = (Inr (of_nat R), ?s\<lparr>hist := g @ hist ?s\<rparr>)"
      and bnd: "?N \<le> R" "R < ?N + 2 ^ m'" "R = ?N \<or> cost R \<le> clk" "clk < cost (R + 2 ^ (m' - n))"
      by blast
    have "L \<le> R" using bnd(1) by (simp split: if_splits)
    moreover have "R < L + 2 ^ m" using bnd(2) m by (simp split: if_splits)
    moreover have "R = L \<or> cost R \<le> clk" using bnd(3) by (auto split: if_splits)
    moreover have "clk < cost (R + 2 ^ (m - Suc n))" using bnd(4) m by simp
    ultimately show ?thesis
      unfolding run R by (intro exI [of _ R] exI [of _ "g @ h"]) simp
  qed
qed


text \<open>\<open>timer_calibrate_delay\<close> put together from its two loops.\<close>

lemma calibrate_run:
  fixes s :: "'a timer_mach_scheme"
  assumes k: "k = clri_in p (hist s)" and L: "lim = aux_in p (Clri k # hist s) AUX_TIMER0_LIMIT"
    and s1: "s1 = s\<lparr>gl_loops_per_jiffy := 1, gl_count := 1,
      hist := Aux_wr AUX_TIMER0_LIMIT 0xFFFFFFFF # Aux_rd AUX_TIMER0_LIMIT lim # Clri k # hist s\<rparr>"
    and g: "run_state (calib_grow fuel p (clk div 1000) 16) s1 = (Inr l, s1\<lparr>hist := g @ hist s1\<rparr>)"
    and h: "run_state (calib_refine 8 p (clk div 1000) (drop_bit 1 l) (drop_bit 1 l))
      (s1\<lparr>hist := g @ hist s1\<rparr>) = (Inr r, s1\<lparr>hist := h @ g @ hist s1\<rparr>)"
  shows "run_state (timer_calibrate_delay p fuel clk) s = (Inr r,
      s\<lparr>gl_loops_per_jiffy := r, gl_count := 1000, hist := Seti k # Aux_wr AUX_TIMER0_LIMIT lim
        # Aux_wr AUX_TIMER0_CNT 0 # h @ g @ hist s1\<rparr>)"
  using g h unfolding timer_calibrate_delay_def Let_def s1
  by (simp add: k [symmetric] L [symmetric])

subsection \<open>A concrete machine\<close>

text \<open>A timer that counts one tick per loop, and the machine state at reset.\<close>

definition ticking_plat :: plat where
  "ticking_plat = sample_plat\<lparr>aux_in := \<lambda>h a.
     if a = AUX_TIMER0_CNT then (case h of Loop_nops n # _ \<Rightarrow> n | _ \<Rightarrow> 0)
     else if a = AUX_BCR_TIMERS then 0x300 else 0\<rparr>"

definition sample_timer_mach :: timer_mach where
  "sample_timer_mach = mach.extend sample_mach \<lparr>gl_loops_per_jiffy = 1, gl_count = 1\<rparr>"

lemma ticking_counts: "counts_by ticking_plat (\<lambda>n. of_nat (min n (2 ^ 32 - 1)))"
proof -
  have "mono (\<lambda>n. of_nat (min n (2 ^ 32 - 1)) :: u32)"
    by (rule monoI) (simp add: word_le_nat_alt unat_of_nat)
  then show ?thesis
    by (auto simp: counts_by_def ticking_plat_def timed_def min_def)
qed

subsection \<open>Properties\<close>

text \<open>
  starting timer 0 or 1 stops it, sets the limit, sets the mode and only then clears the
  count, on that timer's own registers and nothing else; stopping it clears mode, limit and
  count; a number that is no timer is refused with -1 and no access by start, stop, read and
  interrupt clear.
\<close>

theorem timer_programs_own_registers:
  fixes s :: "'a mach_scheme"
  shows "(no \<in> {TIMER_0, TIMER_1} \<longrightarrow>
      wp (timer_start no mode val) (\<lambda>r t. r = 0 \<and> t = s\<lparr>hist := hist t\<rparr> \<and> aux_stores (hist t) = aux_stores (hist s)
        @ [(ctrl_reg no, 0), (limit_reg no, val), (ctrl_reg no, mode), (cnt_reg no, 0)]) s
      \<and> wp (timer_stop no) (\<lambda>r t. r = 0 \<and> t = s\<lparr>hist := hist t\<rparr> \<and> aux_stores (hist t) = aux_stores (hist s)
        @ [(ctrl_reg no, 0), (limit_reg no, 0), (cnt_reg no, 0)]) s
      \<and> wp (timer_int_clear p no) (\<lambda>r t. r = 0 \<and> t = s\<lparr>hist := hist t\<rparr> \<and> aux_stores (hist t) = aux_stores (hist s)
        @ [(ctrl_reg no, aux_in p (hist s) (ctrl_reg no) AND NOT TIMER_CTRL_IP)]) s)
    \<and> (no \<notin> {TIMER_0, TIMER_1, TIMER_RTC} \<longrightarrow>
      run_state (timer_start no mode val) s = (- 1, s) \<and> run_state (timer_stop no) s = (- 1, s)
      \<and> run_state (timer_current p no ptr) s = (- 1, s) \<and> run_state (timer_int_clear p no) s = (- 1, s))"
  by (auto simp: timer_defs timer_reg_defs wp_rules)

lemma timer_programs_own_registers_witness:
  "aux_stores (hist (snd (run_state (timer_start TIMER_1 3 5000) sample_mach)))
     = [(AUX_TIMER1_CTRL, 0), (AUX_TIMER1_LIMIT, 5000), (AUX_TIMER1_CTRL, 3), (AUX_TIMER1_CNT, 0)]
   \<and> run_state (timer_stop 7) sample_mach = (- 1, sample_mach)"
  using timer_programs_own_registers [of TIMER_1 3 5000 sample_mach sample_plat 0]
    timer_programs_own_registers [of 7 3 5000 sample_mach sample_plat 0]
  by (simp add: timer_reg_defs wp_def)

text \<open>
  \<open>timer_init\<close> stops exactly the timers the build configuration register reports, in the
  order timer 0, timer 1, RTC, and stores to no register of an absent one.
\<close>

theorem timer_init_stops_present:
  fixes s :: "'a mach_scheme"
  assumes "\<And>h. aux_in p h AUX_BCR_TIMERS = bcr"
  shows "wp (timer_init p) (\<lambda>_ t. t = s\<lparr>hist := hist t\<rparr> \<and> aux_stores (hist t) = aux_stores (hist s) @
       (if bit bcr 8 then [(AUX_TIMER0_CTRL, 0), (AUX_TIMER0_LIMIT, 0), (AUX_TIMER0_CNT, 0)] else [])
       @ (if bit bcr 9 then [(AUX_TIMER1_CTRL, 0), (AUX_TIMER1_LIMIT, 0), (AUX_TIMER1_CNT, 0)] else [])
       @ (if bit bcr 10 then [(AUX_RTC_CTRL, TIMER_RTC_CLEAR)] else [])) s"
proof -
  have b: "(drop_bit n bcr AND 1 = 0) = (\<not> bit bcr n)" if "n < 32" for n
    by (simp add: and_1_eq_0 bit_drop_bit_eq)
  show ?thesis
    by (simp add: timer_init_def timer_present_def timer_stop_def assms b wp_rules)
qed

lemma timer_init_stops_present_witness:
  "aux_stores (hist (snd (run_state (timer_init ticking_plat) sample_mach)))
     = [(AUX_TIMER0_CTRL, 0), (AUX_TIMER0_LIMIT, 0), (AUX_TIMER0_CNT, 0),
         (AUX_TIMER1_CTRL, 0), (AUX_TIMER1_LIMIT, 0), (AUX_TIMER1_CNT, 0)]"
proof -
  have "aux_in ticking_plat h AUX_BCR_TIMERS = 0x300" for h by (simp add: ticking_plat_def)
  from timer_init_stops_present [OF this, of sample_mach] show ?thesis
    by (simp add: wp_def bit_numeral_word_iff numeral_eq_Suc)
qed

text \<open>
  C5: \<open>timer_calibrate_delay\<close> always ends, whatever the timer counts: 60 doublings are enough.
  It returns the loop count it stores for \<open>arc_delay_us\<close>, restores the limit register it
  found, and leaves the interrupt keys balanced and memory unchanged.
\<close>

theorem timer_calibrate_terminates:
  fixes s :: "'a timer_mach_scheme"
  assumes "60 \<le> fuel"
  shows "\<exists>r h. run_state (timer_calibrate_delay p fuel clk) s
      = (Inr r, s\<lparr>gl_loops_per_jiffy := r, gl_count := 1000, hist := h @ hist s\<rparr>)
    \<and> aux_writes_to AUX_TIMER0_LIMIT h
      = [0xFFFFFFFF, aux_in p (Clri (clri_in p (hist s)) # hist s) AUX_TIMER0_LIMIT]
    \<and> (\<forall>ks. crit_is ks s \<longrightarrow> open_crit (h @ hist s) = Some ks)"
proof -
  let ?k = "clri_in p (hist s)"
  let ?lim = "aux_in p (Clri ?k # hist s) AUX_TIMER0_LIMIT"
  let ?s = "s\<lparr>gl_loops_per_jiffy := 1, gl_count := 1,
      hist := Aux_wr AUX_TIMER0_LIMIT 0xFFFFFFFF # Aux_rd AUX_TIMER0_LIMIT ?lim # Clri ?k # hist s\<rparr>"
  have "push_bit (64 - 60) 1 = (16 :: u64)" by (simp add: push_bit_eq_mult)
  then obtain l g where g: "run_state (calib_grow fuel p (clk div 1000) 16) ?s = (Inr l, ?s\<lparr>hist := g @ hist ?s\<rparr>)"
    and qg: "quiet g"
    using calib_grow_returns [of ?s 60 fuel p "clk div 1000"] assms by auto
  obtain r h where h: "run_state (calib_refine 8 p (clk div 1000) (drop_bit 1 l) (drop_bit 1 l))
      (?s\<lparr>hist := g @ hist ?s\<rparr>) = (Inr r, ?s\<lparr>hist := h @ g @ hist ?s\<rparr>)" and qh: "quiet h"
    using calib_refine_returns [of "?s\<lparr>hist := g @ hist ?s\<rparr>" 8 p "clk div 1000"] by fastforce
  from calibrate_run [OF refl refl refl g h] qg qh show ?thesis
    by (intro exI [of _ r] exI [of _ "Seti ?k # Aux_wr AUX_TIMER0_LIMIT ?lim # Aux_wr AUX_TIMER0_CNT 0
          # h @ g @ [Aux_wr AUX_TIMER0_LIMIT 0xFFFFFFFF, Aux_rd AUX_TIMER0_LIMIT ?lim, Clri ?k]"])
       (auto simp: quiet_def aux_writes_to_append crit_is_def)
qed

lemma timer_calibrate_terminates_witness:
  "\<exists>r h. run_state (timer_calibrate_delay ticking_plat 60 100000) sample_timer_mach
      = (Inr r, sample_timer_mach\<lparr>gl_loops_per_jiffy := r, gl_count := 1000, hist := h @ hist sample_timer_mach\<rparr>)"
  using timer_calibrate_terminates [of 60 ticking_plat 100000 sample_timer_mach] by auto

text \<open>
  C4: the calibration is accurate to 8 bits below the leading one. When the count after
  \<open>n\<close> loops is a monotone function \<open>cost n\<close> and \<open>2^k\<close> is the first power of two above 16
  whose cost exceeds the clocks of a millisecond, the result \<open>R\<close> lies in \<open>2^(k-1) ..< 2^k\<close>,
  its cost does not exceed the target (for \<open>k > 5\<close>; 16 itself is never timed), and that
  of \<open>R\<close> plus one step of the last refinement does.
\<close>

theorem timer_calibrate_accurate:
  fixes s :: "'a timer_mach_scheme"
  assumes law: "counts_by p cost" and k: "5 \<le> k" "k < 32"
    and hi: "clk div 1000 < cost (2 ^ k)"
    and lo: "\<And>i. 5 \<le> i \<Longrightarrow> i < k \<Longrightarrow> cost (2 ^ i) \<le> clk div 1000"
    and fuel: "60 \<le> fuel"
  shows "\<exists>R t. run_state (timer_calibrate_delay p fuel clk) s = (Inr (of_nat R), t)
    \<and> 2 ^ (k - 1) \<le> R \<and> R < 2 ^ k \<and> (5 < k \<longrightarrow> cost R \<le> clk div 1000)
    \<and> clk div 1000 < cost (R + 2 ^ (k - 1 - 8))
    \<and> gl_loops_per_jiffy t = of_nat R \<and> gl_count t = 1000"
proof -
  let ?clk = "clk div 1000" and ?k = "clri_in p (hist s)"
  let ?lim = "aux_in p (Clri ?k # hist s) AUX_TIMER0_LIMIT"
  let ?s = "s\<lparr>gl_loops_per_jiffy := 1, gl_count := 1,
      hist := Aux_wr AUX_TIMER0_LIMIT 0xFFFFFFFF # Aux_rd AUX_TIMER0_LIMIT ?lim # Clri ?k # hist s\<rparr>"
  obtain g where g: "run_state (calib_grow fuel p ?clk 16) ?s
      = (Inr (of_nat (2 ^ k)), ?s\<lparr>hist := g @ hist ?s\<rparr>)"
  proof -
    have "k - 4 \<le> fuel" "4 < k" using k fuel by linarith+
    from calib_grow_finds [OF _ _ law this(2) k(2) hi _ this(1), of ?s] lo that show ?thesis by auto
  qed
  have half: "drop_bit 1 (of_nat (2 ^ k) :: u64) = 2 ^ (k - 1)"
    using k by (auto intro!: bit_word_eqI simp: bit_simps)
  obtain R h where h: "run_state (calib_refine 8 p ?clk (2 ^ (k - 1)) (of_nat (2 ^ (k - 1))))
      (?s\<lparr>hist := g @ hist ?s\<rparr>) = (Inr (of_nat R), ?s\<lparr>hist := h @ g @ hist ?s\<rparr>)"
    and R: "2 ^ (k - 1) \<le> R" "R < 2 ^ (k - 1) + 2 ^ (k - 1)" "R = 2 ^ (k - 1) \<or> cost R \<le> ?clk"
      "?clk < cost (R + 2 ^ (k - 1 - 8))"
  proof -
    have two: "2 ^ (k - 1) + 2 ^ (k - 1) = (2::nat) ^ k" using k by (cases k) simp_all
    have le: "2 ^ (k - 1) + 2 ^ (k - 1) \<le> (2::nat) ^ 32"
      unfolding two using k by (intro power_increasing) simp_all
    have "?clk < cost (2 ^ (k - 1) + 2 ^ (k - 1))" unfolding two by (rule hi)
    moreover have "k - 1 < 64" using k by linarith
    ultimately
    have "\<exists>R h. run_state (calib_refine 8 p ?clk (2 ^ (k - 1)) (of_nat (2 ^ (k - 1))))
        (?s\<lparr>hist := g @ hist ?s\<rparr>) = (Inr (of_nat R), ?s\<lparr>hist := h @ g @ hist ?s\<rparr>)
      \<and> 2 ^ (k - 1) \<le> R \<and> R < 2 ^ (k - 1) + 2 ^ (k - 1) \<and> (R = 2 ^ (k - 1) \<or> cost R \<le> ?clk)
      \<and> ?clk < cost (R + 2 ^ (k - 1 - 8))"
      using calib_refine_accurate [OF _ _ law _ dvd_refl le, of "?s\<lparr>hist := g @ hist ?s\<rparr>" ?clk 8]
      by simp
    then
    obtain R h where "run_state (calib_refine 8 p ?clk (2 ^ (k - 1)) (of_nat (2 ^ (k - 1))))
        (?s\<lparr>hist := g @ hist ?s\<rparr>) = (Inr (of_nat R), ?s\<lparr>hist := h @ g @ hist ?s\<rparr>)"
      "2 ^ (k - 1) \<le> R" "R < 2 ^ (k - 1) + 2 ^ (k - 1)" "R = 2 ^ (k - 1) \<or> cost R \<le> ?clk"
      "?clk < cost (R + 2 ^ (k - 1 - 8))" by blast
    then show ?thesis by (rule that)
  qed
  have run: "run_state (timer_calibrate_delay p fuel clk) s = (Inr (of_nat R),
      s\<lparr>gl_loops_per_jiffy := of_nat R, gl_count := 1000, hist := Seti ?k # Aux_wr AUX_TIMER0_LIMIT ?lim
        # Aux_wr AUX_TIMER0_CNT 0 # h @ g @ hist ?s\<rparr>)"
    by (rule calibrate_run [OF refl refl refl g]) (use h half in simp)
  have "cost R \<le> ?clk" if "5 < k"
    using R(3) lo [of "k - 1"] that by auto
  moreover have "R < 2 ^ k" using R(2) k by (cases k) simp_all
  ultimately show ?thesis using run R by (intro exI [of _ R]) auto
qed

lemma timer_calibrate_accurate_witness:
  "\<exists>R t. run_state (timer_calibrate_delay ticking_plat 60 1000000) sample_timer_mach = (Inr (of_nat R), t)
    \<and> R \<le> 1000 \<and> 1000 < R + 2"
proof -
  let ?c = "\<lambda>n. of_nat (min n (2 ^ 32 - 1)) :: u32"
  have small: "?c n \<le> 1000 div 1" if "n \<le> 512" for n
    using that by (simp add: word_le_nat_alt unat_of_nat min_def)
  have lo: "?c (2 ^ i) \<le> 1000000 div 1000" if "5 \<le> i" "i < 10" for i
  proof -
    have "(2::nat) ^ i \<le> 2 ^ 9" using that by (intro power_increasing) simp_all
    then have "?c (2 ^ i) \<le> 1000 div 1" by (intro small) simp
    then show ?thesis by simp
  qed
  have hi: "1000000 div 1000 < ?c (2 ^ 10)" by simp
  obtain R t where run: "run_state (timer_calibrate_delay ticking_plat 60 1000000) sample_timer_mach
      = (Inr (of_nat R), t)"
    and R: "R < 2 ^ 10" "?c R \<le> 1000" "1000 < ?c (R + 2)"
    using timer_calibrate_accurate [OF ticking_counts _ _ hi lo, of 60 sample_timer_mach] by auto
  have u: "unat (?c n) = n" if "n < 2 ^ 12" for n using that by (simp add: unat_of_nat min_def)
  have "R \<le> 1000" "1000 < R + 2"
    using R u [of R] u [of "R + 2"] by (simp_all only: word_le_nat_alt word_less_nat_alt) simp_all
  with run show ?thesis by blast
qed


end
