(* ===== verification/ArcMpu.thy ===== *)
theory ArcMpu
  imports ArcIrq
begin

section \<open>Memory protection unit (arc_mpu.h, arc_mpu.c)\<close>

text \<open>
  The operations of \<open>arc/arc_mpu.c\<close> for MPU version 2 and version 4 (\<open>mpu_v4\<close> of the
  platform); the number of regions is the default \<open>arc_mpu_regions()\<close>. A shift of the
  constant 1 by 32 or more is undefined in C and is the value \<open>Undef\<close>; shifts by at most 31
  are the 32-bit shift.

  The region descriptors are read off the history: \<open>aux_last\<close> is the last value stored to a
  register, and \<open>mpu_regs\<close> the hardware law that the descriptors read back what was stored.
  The lemmas relate the size field to the least power of two that covers the region, the
  membership test to the configured interval, and the probe to the first matching region.
\<close>

subsection \<open>Registers and constants\<close>

abbreviation (input) AUX_BCR_MPU :: u32 where "AUX_BCR_MPU \<equiv> 0x6d"
abbreviation (input) AUX_MPU_EN :: u32 where "AUX_MPU_EN \<equiv> 0x409"
abbreviation (input) AUX_MPU_RDB0 :: u32 where "AUX_MPU_RDB0 \<equiv> 0x422"
abbreviation (input) AUX_MPU_RDP0 :: u32 where "AUX_MPU_RDP0 \<equiv> 0x423"
abbreviation (input) AUX_MPU_INDEX :: u32 where "AUX_MPU_INDEX \<equiv> 0x448"
abbreviation (input) AUX_MPU_RSTART :: u32 where "AUX_MPU_RSTART \<equiv> 0x449"
abbreviation (input) AUX_MPU_REND :: u32 where "AUX_MPU_REND \<equiv> 0x44a"
abbreviation (input) AUX_MPU_RPER :: u32 where "AUX_MPU_RPER \<equiv> 0x44b"
abbreviation (input) AUX_MPU_PROBE :: u32 where "AUX_MPU_PROBE \<equiv> 0x44c"
abbreviation (input) AUX_MPU_VALID_MASK :: u32 where "AUX_MPU_VALID_MASK \<equiv> 0x1"
abbreviation (input) AUX_MPU_EN_ENABLE :: u32 where "AUX_MPU_EN_ENABLE \<equiv> 0x40000000"
abbreviation (input) AUX_MPU_EN_DISABLE :: u32 where "AUX_MPU_EN_DISABLE \<equiv> 0xBFFFFFFF"
abbreviation (input) AUX_MPU_ATTR_S :: u32 where "AUX_MPU_ATTR_S \<equiv> 0x8000"
abbreviation (input) AUX_MPU_INDEX_DEFAULT :: u32 where "AUX_MPU_INDEX_DEFAULT \<equiv> 0x80000000"
abbreviation (input) AUX_MPU_INDEX_MULT :: u32 where "AUX_MPU_INDEX_MULT \<equiv> 0x40000000"

text \<open>\<open>UW | UR | KW | KR | KE | UE\<close>\<close>

definition ARC_MPU_REGION_ALL_ATTR :: u32 where
  "ARC_MPU_REGION_ALL_ATTR = 0x010 OR 0x020 OR 0x080 OR 0x100 OR 0x040 OR 0x008"

definition AUX_MPU_ATTR_MASK :: "plat \<Rightarrow> u32" where
  "AUX_MPU_ATTR_MASK p = (if mpu_v4 p then 0xFF81F9 else 0xFFB)"

definition AUX_MPU_RDP_REGION_SIZE :: "u8 \<Rightarrow> u32" where
  "AUX_MPU_RDP_REGION_SIZE bits =
     (let b = ucast bits - 1 in (b AND 0x3) OR push_bit 7 (b AND 0x1C))"

text \<open>\<open>start + size - (1 << ARC_FEATURE_MPU_ALIGNMENT_BITS)\<close> of version 4\<close>

definition CALC_REGION_END_ADDR :: "u32 \<Rightarrow> u32 \<Rightarrow> u32" where
  "CALC_REGION_END_ADDR start sz = start + sz - push_bit 5 1"

definition arc_mpu_regions :: "plat \<Rightarrow> ('a, u8) op" where
  "arc_mpu_regions p = do {
     num \<leftarrow> arc_aux_read p AUX_BCR_MPU;
     State_Monad.return (ucast (drop_bit 8 (num AND 0xFF00)))
   }"

subsection \<open>Operations\<close>

definition arc_mpu_default :: "plat \<Rightarrow> u32 \<Rightarrow> ('a, unit) op" where
  "arc_mpu_default p region_attr = do {
     v \<leftarrow> arc_aux_read p AUX_MPU_EN;
     let val = v AND NOT (AUX_MPU_ATTR_MASK p);
     arc_aux_write AUX_MPU_EN ((region_attr AND AUX_MPU_ATTR_MASK p) OR val)
   }"

definition arc_mpu_enable :: "plat \<Rightarrow> ('a, unit) op" where
  "arc_mpu_enable p = (
     if mpu_v4 p then arc_mpu_default p 0
     else do {
       v \<leftarrow> arc_aux_read p AUX_MPU_EN;
       arc_aux_write AUX_MPU_EN (v OR AUX_MPU_EN_ENABLE)
     })"

definition arc_mpu_disable :: "plat \<Rightarrow> ('a, unit) op" where
  "arc_mpu_disable p = (
     if mpu_v4 p then
       arc_mpu_default p (ARC_MPU_REGION_ALL_ATTR OR AUX_MPU_ATTR_S OR push_bit 16 1)
     else do {
       v \<leftarrow> arc_aux_read p AUX_MPU_EN;
       arc_aux_write AUX_MPU_EN (v AND AUX_MPU_EN_DISABLE)
     })"

text \<open>
  The number of address bits of a region: \<open>bits\<close> of \<open>arc_mpu_region_config\<close>, version 2.
  \<open>None\<close> where the shift \<open>1 << bits\<close> is undefined, which is at size 0 (\<open>bits\<close> is 255).
\<close>

definition mpu_size_bits :: "u32 \<Rightarrow> u8 option" where
  "mpu_size_bits sz =
     (let bits = ucast (arc_find_msb sz - 1) :: u8;
          bits = (if bits < 11 then 11 else bits)
      in if unat bits \<ge> 32 then None
         else Some (if push_bit (unat bits) 1 < sz then bits + 1 else bits))"

definition arc_mpu_region_config :: "plat \<Rightarrow> u32 \<Rightarrow> u32 \<Rightarrow> u32 \<Rightarrow> u32 \<Rightarrow> ('a, unit res) op" where
  "arc_mpu_region_config p index base sz region_attr =
     bindE (liftE (arc_mpu_regions p)) (\<lambda>regions.
     if index \<ge> ucast regions then retE ()
     else
       let region_attr = region_attr AND AUX_MPU_ATTR_MASK p in
       if mpu_v4 p then
         let sz = (if sz < push_bit 5 1 then push_bit 5 1 else sz);
             region_attr = (if region_attr \<noteq> 0 then region_attr OR AUX_MPU_VALID_MASK else region_attr)
         in liftE (do {
              arc_aux_write AUX_MPU_INDEX index;
              arc_aux_write AUX_MPU_RSTART base;
              arc_aux_write AUX_MPU_REND (CALC_REGION_END_ADDR base sz);
              arc_aux_write AUX_MPU_RPER region_attr
            })
       else case mpu_size_bits sz of
         None \<Rightarrow> stopE Undef
       | Some bits \<Rightarrow>
         let region_attr = (if sz > 0 then region_attr OR AUX_MPU_RDP_REGION_SIZE bits else region_attr);
             base = (if sz > 0 then base OR AUX_MPU_VALID_MASK else 0)
         in liftE (do {
              arc_aux_write (2 * index + AUX_MPU_RDP0) region_attr;
              arc_aux_write (2 * index + AUX_MPU_RDB0) base
            }))"

text \<open>\<open>arc_mpu_probe\<close> of version 4.\<close>

definition arc_mpu_probe_v4 :: "plat \<Rightarrow> u32 \<Rightarrow> ('a, s32) op" where
  "arc_mpu_probe_v4 p addr = do {
     arc_aux_write AUX_MPU_PROBE addr;
     index \<leftarrow> arc_aux_read p AUX_MPU_INDEX;
     if index AND (AUX_MPU_INDEX_DEFAULT OR AUX_MPU_INDEX_MULT) \<noteq> 0 then State_Monad.return (- 1)
     else State_Monad.return index
   }"

definition arc_mpu_in_region :: "plat \<Rightarrow> u32 \<Rightarrow> u32 \<Rightarrow> u32 \<Rightarrow> ('a, s32 res) op" where
  "arc_mpu_in_region p index start sz = (
     if mpu_v4 p then
       bindE (liftE (arc_mpu_probe_v4 p start)) (\<lambda>r.
       if index = r then
         bindE (liftE (arc_mpu_probe_v4 p (start + sz))) (\<lambda>r.
         if index = r then retE 1 else retE 0)
       else retE 0)
     else
       bindE (liftE (arc_aux_read p (AUX_MPU_RDB0 + 2 * index))) (\<lambda>v.
       let r_addr_start = v AND NOT AUX_MPU_VALID_MASK in
       bindE (liftE (arc_aux_read p (AUX_MPU_RDP0 + 2 * index))) (\<lambda>v.
       let r_size_lshift = v AND AUX_MPU_ATTR_MASK p;
           r_size_lshift = (r_size_lshift AND 0x3) OR (drop_bit 7 r_size_lshift AND 0x1C)
       in if unat r_size_lshift + 1 \<ge> 32 then stopE Undef
          else let r_addr_end = r_addr_start + push_bit (unat r_size_lshift + 1) 1 in
            if start \<ge> r_addr_start \<and> start + sz < r_addr_end then retE 1 else retE 0)))"

text \<open>\<open>for (index = 0; index < regions; index++)\<close>, with \<open>n\<close> iterations to go.\<close>

primrec mpu_probe_loop :: "nat \<Rightarrow> plat \<Rightarrow> u32 \<Rightarrow> u32 \<Rightarrow> ('a, s32 res) op" where
  "mpu_probe_loop 0 p addr index = retE (- 1)"
| "mpu_probe_loop (Suc n) p addr index =
     bindE (arc_mpu_in_region p index addr 0) (\<lambda>r.
       if r \<noteq> 0 then retE index else mpu_probe_loop n p addr (index + 1))"

definition arc_mpu_probe :: "plat \<Rightarrow> u32 \<Rightarrow> ('a, s32 res) op" where
  "arc_mpu_probe p addr = (
     if mpu_v4 p then liftE (arc_mpu_probe_v4 p addr)
     else bindE (liftE (arc_mpu_regions p)) (\<lambda>regions.
          mpu_probe_loop (unat regions) p addr 0))"

subsection \<open>The descriptors, read off a history\<close>

fun aux_last :: "u32 \<Rightarrow> access list \<Rightarrow> u32" where
  "aux_last r [] = 0"
| "aux_last r (Aux_wr a v # h) = (if a = r then v else aux_last r h)"
| "aux_last r (ev # h) = aux_last r h"

text \<open>
  The hardware law of MPU version 2 with \<open>n\<close> regions: the descriptor registers of the
  regions read back what was last stored.
\<close>

definition mpu_regs :: "plat \<Rightarrow> nat \<Rightarrow> bool" where
  "mpu_regs p n \<longleftrightarrow> \<not> mpu_v4 p
     \<and> (\<forall>h. drop_bit 8 (aux_in p h AUX_BCR_MPU AND 0xFF00) = of_nat n) \<and> n \<le> 16
     \<and> (\<forall>h i. i < n \<longrightarrow> aux_in p h (AUX_MPU_RDB0 + 2 * of_nat i) = aux_last (AUX_MPU_RDB0 + 2 * of_nat i) h
         \<and> aux_in p h (AUX_MPU_RDP0 + 2 * of_nat i) = aux_last (AUX_MPU_RDP0 + 2 * of_nat i) h)"

text \<open>What the descriptor of region \<open>i\<close> says: base, size exponent, and the interval test of the code.\<close>

definition mpu_base :: "access list \<Rightarrow> nat \<Rightarrow> u32" where
  "mpu_base h i = aux_last (AUX_MPU_RDB0 + 2 * of_nat i) h AND NOT AUX_MPU_VALID_MASK"

definition mpu_exp :: "access list \<Rightarrow> nat \<Rightarrow> nat" where
  "mpu_exp h i = (let v = aux_last (AUX_MPU_RDP0 + 2 * of_nat i) h AND 0xFFB
     in unat ((v AND 0x3) OR (drop_bit 7 v AND 0x1C)) + 1)"

definition mpu_hit :: "access list \<Rightarrow> nat \<Rightarrow> u32 \<Rightarrow> u32 \<Rightarrow> bool" where
  "mpu_hit h i start sz \<longleftrightarrow>
     mpu_base h i \<le> start \<and> start + sz < mpu_base h i + push_bit (mpu_exp h i) 1"

subsection \<open>Descriptor registers are distinct\<close>

lemma of_nat_eq_small: "a < 2 ^ 32 \<Longrightarrow> b < 2 ^ 32 \<Longrightarrow> (of_nat a :: u32) = of_nat b \<longleftrightarrow> a = b"
  by (simp add: word_of_nat_eq_iff take_bit_nat_eq_self)

lemma rdb_of_nat: "AUX_MPU_RDB0 + 2 * of_nat i = of_nat (0x422 + 2 * i)"
  and rdp_of_nat: "AUX_MPU_RDP0 + 2 * of_nat i = of_nat (0x423 + 2 * i)"
  by simp_all

lemma mpu_regs_distinct:
  assumes "i < 16" "j < 16"
  shows "(AUX_MPU_RDB0 + 2 * of_nat i = AUX_MPU_RDB0 + 2 * of_nat j) = (i = j)"
    and "(AUX_MPU_RDP0 + 2 * of_nat i = AUX_MPU_RDP0 + 2 * of_nat j) = (i = j)"
    and "AUX_MPU_RDB0 + 2 * of_nat i \<noteq> AUX_MPU_RDP0 + 2 * of_nat j"
    and "AUX_MPU_RDP0 + 2 * of_nat j \<noteq> AUX_MPU_RDB0 + 2 * of_nat i"
proof -
  have d: "0x422 + 2 * i \<noteq> 0x423 + 2 * j" by presburger
  show "(AUX_MPU_RDB0 + 2 * of_nat i = AUX_MPU_RDB0 + 2 * of_nat j) = (i = j)"
    unfolding rdb_of_nat using assms by (subst of_nat_eq_small) auto
  show "(AUX_MPU_RDP0 + 2 * of_nat i = AUX_MPU_RDP0 + 2 * of_nat j) = (i = j)"
    unfolding rdp_of_nat using assms by (subst of_nat_eq_small) auto
  show "AUX_MPU_RDB0 + 2 * of_nat i \<noteq> AUX_MPU_RDP0 + 2 * of_nat j"
    unfolding rdb_of_nat rdp_of_nat using assms d by (subst of_nat_eq_small) auto
  then show "AUX_MPU_RDP0 + 2 * of_nat j \<noteq> AUX_MPU_RDB0 + 2 * of_nat i" by simp
qed

subsection \<open>The size field\<close>

lemma mpu_size_bits_least:
  assumes "sz \<noteq> 0"
  shows "\<exists>b. mpu_size_bits sz = Some (of_nat b) \<and> 11 \<le> b \<and> b \<le> 32 \<and> unat sz \<le> 2 ^ b
     \<and> (b = 11 \<or> 2 ^ (b - 1) < unat sz)"
proof -
  define m where "m = bit_length (unat sz)"
  have pos: "0 < unat sz" using assms by (simp add: unat_gt_0)
  have lo: "2 ^ (m - 1) \<le> unat sz" and hi: "unat sz < 2 ^ m"
    using bit_length_bounds [OF pos] by (auto simp: m_def)
  have "unat sz < 2 ^ 32" using unsigned_less [of sz] by simp
  then have m32: "m \<le> 32" unfolding m_def by (rule bit_length_le)
  have m1: "1 \<le> m" using hi pos by (cases m) auto
  define c where "c = max 11 (m - 1)"
  have c: "11 \<le> c" "c \<le> 31" using m32 by (auto simp: c_def)
  have "arc_find_msb sz - 1 = of_nat (m - 1)"
    using m1 by (simp add: arc_find_msb_def m_def [symmetric])
  then have b0: "(ucast (arc_find_msb sz - 1) :: u8) = of_nat (m - 1)"
    by (simp add: unsigned_of_nat take_bit_nat_eq_self m32)
       (rule bit_word_eqI, simp add: bit_simps)
  have b1: "(if (of_nat (m - 1) :: u8) < 11 then 11 else of_nat (m - 1)) = (of_nat c :: u8)"
    using m32 by (auto simp: c_def word_less_nat_alt unat_of_nat max_def)
  have uc: "unat (of_nat c :: u8) = c" using c by (simp add: unat_of_nat)
  have "unat (push_bit c 1 :: u32) = 2 ^ c"
  proof -
    have "(2::nat) ^ c < 2 ^ 32" using c by (intro power_strict_increasing) simp_all
    then show ?thesis using unat_of_nat [where ?'a = 32, of "2 ^ c"] by (simp add: push_bit_eq_mult)
  qed
  then have cmp: "(push_bit c 1 < sz) = (2 ^ c < unat sz)" by (simp add: word_less_nat_alt)
  have res: "mpu_size_bits sz = Some (of_nat (if 2 ^ c < unat sz then c + 1 else c))"
    unfolding mpu_size_bits_def Let_def b0 b1 uc cmp using c by simp
  show ?thesis
  proof (cases "2 ^ c < unat sz")
    case True
    have "c = m - 1"
    proof (rule ccontr)
      assume "c \<noteq> m - 1"
      then have "m \<le> c" by (auto simp: c_def)
      then have "(2::nat) ^ m \<le> 2 ^ c" by (intro power_increasing) simp_all
      with True hi show False by linarith
    qed
    with True res c hi m1 show ?thesis by (intro exI [of _ "c + 1"]) auto
  next
    case False
    have "c = 11 \<or> 2 ^ (c - 1) < unat sz"
    proof (cases "c = 11")
      case no: False
      then have "c = m - 1" by (auto simp: c_def)
      with lo have "2 ^ c \<le> unat sz" by simp
      moreover have "(2::nat) ^ (c - 1) < 2 ^ c" using c by (intro power_strict_increasing) simp_all
      ultimately have "2 ^ (c - 1) < unat sz" by linarith
      then show ?thesis ..
    qed simp
    with False res c show ?thesis by (intro exI [of _ c]) auto
  qed
qed

lemma least_bits_unique:
  assumes "unat sz \<le> 2 ^ b" "b = 11 \<or> 2 ^ (b - 1) < unat (sz :: u32)" "11 \<le> b"
    and "unat sz \<le> 2 ^ c" "c = 11 \<or> 2 ^ (c - 1) < unat sz" "11 \<le> c"
  shows "b = c"
proof -
  have "\<not> b < c" if "unat sz \<le> 2 ^ b" "c = 11 \<or> 2 ^ (c - 1) < unat sz" "11 \<le> b" for b c
  proof
    assume "b < c"
    then have "(2::nat) ^ b \<le> 2 ^ (c - 1)" by (intro power_increasing) simp_all
    moreover have "2 ^ (c - 1) < unat sz" using that \<open>b < c\<close> by auto
    ultimately show False using that(1) by linarith
  qed
  from this [of b c] this [of c b] assms show ?thesis by auto
qed

text \<open>The field decodes to the exponent, whatever permission bits are beside it.\<close>

lemma size_field_decodes:
  assumes b: "11 \<le> b" "b \<le> 32" and attr: "attr AND 0xE03 = 0"
    and v: "v = ((attr AND 0xFFB) OR AUX_MPU_RDP_REGION_SIZE (of_nat b)) AND 0xFFB"
  shows "unat ((v AND 0x3) OR (drop_bit 7 v AND 0x1C)) + 1 = b"
proof -
  let ?f = "AUX_MPU_RDP_REGION_SIZE (of_nat b)"
  have dec: "(w AND 0x3) OR (drop_bit 7 w AND 0x1C) = (w AND 0x3) OR drop_bit 7 (w AND 0xE00)" for w :: u32
    by (simp add: drop_bit_and)
  have a: "attr AND 0x3 = 0" "attr AND 0xE00 = 0"
  proof -
    have "attr AND 0x3 = (attr AND 0xE03) AND 0x3" "attr AND 0xE00 = (attr AND 0xE03) AND 0xE00"
      by (simp_all add: and.assoc)
    with attr show "attr AND 0x3 = 0" "attr AND 0xE00 = 0" by simp_all
  qed
  have "v AND 0x3 = ?f AND 0x3" "v AND 0xE00 = ?f AND 0xE00"
    unfolding v by (simp_all add: and.assoc bit.conj_disj_distrib2 a)
  then have "(v AND 0x3) OR (drop_bit 7 v AND 0x1C) = (?f AND 0x3) OR drop_bit 7 (?f AND 0xE00)"
    unfolding dec by simp
  moreover have "unat ((?f AND 0x3) OR drop_bit 7 (?f AND 0xE00)) + 1 = b"
  proof -
    have "b \<in> {11, 12, 13, 14, 15, 16, 17, 18, 19, 20, 21, 22, 23, 24, 25, 26, 27, 28, 29, 30, 31, 32}"
      using b by simp presburger
    then show ?thesis
      by (elim insertE emptyE) (simp_all add: AUX_MPU_RDP_REGION_SIZE_def)
  qed
  ultimately show ?thesis by simp
qed

subsection \<open>Configuring and testing a region\<close>

lemma regions_run:
  assumes "mpu_regs p n"
  shows "run_state (arc_mpu_regions p) s
    = (of_nat n, s\<lparr>hist := Aux_rd AUX_BCR_MPU (aux_in p (hist s) AUX_BCR_MPU) # hist s\<rparr>)"
proof -
  have "(ucast (of_nat n :: u32) :: u8) = of_nat n"
    by (rule bit_word_eqI) (simp add: bit_simps)
  with assms show ?thesis by (simp add: arc_mpu_regions_def mpu_regs_def)
qed

lemma in_region_run:
  assumes "mpu_regs p n" "i < n"
  shows "\<exists>h. (\<forall>r l. aux_last r (h @ l) = aux_last r l) \<and> run_state (arc_mpu_in_region p (of_nat i) start sz) s
    = (if 32 \<le> mpu_exp (hist s) i then Inl Undef else Inr (if mpu_hit (hist s) i start sz then 1 else 0),
       s\<lparr>hist := h @ hist s\<rparr>)"
  using assms
  by (intro exI [of _ "[Aux_rd (AUX_MPU_RDP0 + 2 * of_nat i) (aux_last (AUX_MPU_RDP0 + 2 * of_nat i) (hist s)),
        Aux_rd (AUX_MPU_RDB0 + 2 * of_nat i) (aux_last (AUX_MPU_RDB0 + 2 * of_nat i) (hist s))]"])
     (simp add: arc_mpu_in_region_def mpu_regs_def AUX_MPU_ATTR_MASK_def mpu_exp_def mpu_hit_def mpu_base_def
        Let_def)

lemma config_run:
  assumes p: "mpu_regs p n" "i < n" and sz: "sz \<noteq> 0" and attr: "attr AND 0xE03 = 0"
    and b: "mpu_size_bits sz = Some (of_nat b)" "11 \<le> b" "b \<le> 32"
  shows "\<exists>t. run_state (arc_mpu_region_config p (of_nat i) base sz attr) s = (Inr (), t)
    \<and> mpu_exp (hist t) i = b \<and> mpu_base (hist t) i = base AND NOT 1
    \<and> (\<forall>j<n. j \<noteq> i \<longrightarrow> mpu_exp (hist t) j = mpu_exp (hist s) j \<and> mpu_base (hist t) j = mpu_base (hist s) j)"
proof -
  have n: "n \<le> 16" and v2: "\<not> mpu_v4 p" using p by (auto simp: mpu_regs_def)
  have "(ucast (of_nat n :: u8) :: u32) = of_nat n"
    using n by (simp add: unsigned_of_nat take_bit_nat_eq_self)
  moreover have "\<not> (of_nat n :: u32) \<le> of_nat i"
    using n p(2) by (simp add: word_le_nat_alt unat_of_nat)
  ultimately have cond: "\<not> (ucast (of_nat n :: u8) :: u32) \<le> of_nat i" by simp
  have base: "(base OR 1) AND NOT 1 = base AND NOT 1"
    by (rule bit_word_eqI) (auto simp: bit_simps)
  let ?a = "(attr AND 0xFFB) OR AUX_MPU_RDP_REGION_SIZE (of_nat b)"
  let ?h = "Aux_wr (AUX_MPU_RDB0 + 2 * of_nat i) (base OR 1) # Aux_wr (AUX_MPU_RDP0 + 2 * of_nat i) ?a
    # Aux_rd AUX_BCR_MPU (aux_in p (hist s) AUX_BCR_MPU) # hist s"
  have run: "run_state (arc_mpu_region_config p (of_nat i) base sz attr) s = (Inr (), s\<lparr>hist := ?h\<rparr>)"
    using cond v2 sz b(1)
    by (simp add: arc_mpu_region_config_def regions_run [OF p(1)] Let_def AUX_MPU_ATTR_MASK_def
        add.commute word_neq_0_conv [symmetric])
  have i16: "i < 16" using n p(2) by simp
  have last: "aux_last (AUX_MPU_RDB0 + 2 * of_nat j) ?h
        = (if j = i then base OR 1 else aux_last (AUX_MPU_RDB0 + 2 * of_nat j) (hist s))"
      "aux_last (AUX_MPU_RDP0 + 2 * of_nat j) ?h
        = (if j = i then ?a else aux_last (AUX_MPU_RDP0 + 2 * of_nat j) (hist s))" if "j < n" for j
  proof -
    have "j < 16" using n that by simp
    note d = mpu_regs_distinct [OF i16 this] mpu_regs_distinct [OF this i16]
    show "aux_last (AUX_MPU_RDB0 + 2 * of_nat j) ?h
        = (if j = i then base OR 1 else aux_last (AUX_MPU_RDB0 + 2 * of_nat j) (hist s))"
      by (simp only: aux_last.simps d) simp
    show "aux_last (AUX_MPU_RDP0 + 2 * of_nat j) ?h
        = (if j = i then ?a else aux_last (AUX_MPU_RDP0 + 2 * of_nat j) (hist s))"
      by (simp only: aux_last.simps d) simp
  qed
  have "mpu_exp ?h i = b" "mpu_base ?h i = base AND NOT 1"
    using size_field_decodes [OF b(2,3) attr refl] last [OF p(2)] base
    by (simp_all only: mpu_exp_def mpu_base_def Let_def if_P refl)
  moreover have "mpu_exp ?h j = mpu_exp (hist s) j \<and> mpu_base ?h j = mpu_base (hist s) j"
    if "j < n" "j \<noteq> i" for j
    using last [OF that(1)] that(2) by (simp only: mpu_exp_def mpu_base_def if_False simp_thms)
  ultimately show ?thesis unfolding run by auto
qed


subsection \<open>A concrete machine\<close>

text \<open>An MPU of version 2 with eight regions.\<close>

definition mpu_plat :: plat where
  "mpu_plat = sample_plat\<lparr>aux_in := \<lambda>h a. if a = AUX_BCR_MPU then 0x800 else aux_last a h\<rparr>"

lemma mpu_plat_regs: "mpu_regs mpu_plat 8"
proof -
  have "AUX_MPU_RDB0 + 2 * of_nat i \<noteq> AUX_BCR_MPU \<and> AUX_MPU_RDP0 + 2 * of_nat i \<noteq> AUX_BCR_MPU"
    if "i < 8" for i
    unfolding rdb_of_nat rdp_of_nat using that of_nat_eq_small [of "0x422 + 2 * i" "0x6d"]
      of_nat_eq_small [of "0x423 + 2 * i" "0x6d"] by simp
  then show ?thesis by (simp add: mpu_regs_def mpu_plat_def)
qed

lemma mpu_bits_4k: "unat (0x1000 :: u32) \<le> 2 ^ 12" "12 = 11 \<or> 2 ^ (12 - 1) < unat (0x1000 :: u32)"
  by simp_all

subsection \<open>Properties\<close>

text \<open>
  Configuring region \<open>i\<close> for a non-empty block gives it the least power-of-two size that
  covers the block and is at least 2 KiB, and the requested base; the descriptors of all
  other regions are kept. The size bits of the attribute argument must be clear.
\<close>

theorem mpu_region_config_covers:
  fixes s :: "'a mach_scheme"
  assumes p: "mpu_regs p n" "i < n" and sz: "sz \<noteq> 0" and attr: "attr AND 0xE03 = 0"
  shows "\<exists>b t. run_state (arc_mpu_region_config p (of_nat i) base sz attr) s = (Inr (), t)
    \<and> mpu_exp (hist t) i = b \<and> 11 \<le> b \<and> b \<le> 32 \<and> unat sz \<le> 2 ^ b \<and> (b = 11 \<or> 2 ^ (b - 1) < unat sz)
    \<and> mpu_base (hist t) i = base AND NOT 1
    \<and> (\<forall>j<n. j \<noteq> i \<longrightarrow> mpu_exp (hist t) j = mpu_exp (hist s) j \<and> mpu_base (hist t) j = mpu_base (hist s) j)"
proof -
  obtain b where b: "mpu_size_bits sz = Some (of_nat b)" "11 \<le> b" "b \<le> 32"
    "unat sz \<le> 2 ^ b" "b = 11 \<or> 2 ^ (b - 1) < unat sz"
    using mpu_size_bits_least [OF sz] by blast
  from config_run [OF p sz attr b(1-3), of base s] b show ?thesis by blast
qed

lemma mpu_region_config_covers_witness:
  "\<exists>b t. run_state (arc_mpu_region_config mpu_plat (of_nat 3) 0x20000000 0x5000 0x1F8) sample_mach = (Inr (), t)
    \<and> mpu_exp (hist t) 3 = b \<and> 0x5000 \<le> (2 :: nat) ^ b \<and> (b = 11 \<or> 2 ^ (b - 1) < (0x5000 :: nat))"
  using mpu_region_config_covers [OF mpu_plat_regs, where i = 3 and sz = "0x5000" and attr = "0x1F8"
      and base = "0x20000000" and s = sample_mach] by auto



text \<open>
  A region that ends at the top of the address space contains nothing for
  \<open>arc_mpu_in_region\<close>: its end address wraps to 0. A region of 4 GiB makes the test undefined
  (a shift by 32), and so does configuring a region of size 0 (a shift by 255).
\<close>

theorem mpu_top_regions:
  fixes s :: "'a mach_scheme"
  assumes p: "mpu_regs p n" "i < n" and e: "mpu_base (hist s) i + push_bit (mpu_exp (hist s) i) 1 = 0"
  shows "fst (run_state (arc_mpu_in_region p (of_nat i) start len) s)
      = (if 32 \<le> mpu_exp (hist s) i then Inl Undef else Inr 0)
    \<and> fst (run_state (arc_mpu_region_config p (of_nat i) base 0 attr) s) = Inl Undef"
proof -
  obtain h where "run_state (arc_mpu_in_region p (of_nat i) start len) s
    = (if 32 \<le> mpu_exp (hist s) i then Inl Undef else Inr (if mpu_hit (hist s) i start len then 1 else 0),
       s\<lparr>hist := h @ hist s\<rparr>)"
    using in_region_run [OF p] by blast
  moreover have "\<not> mpu_hit (hist s) i start len" unfolding mpu_hit_def e by simp
  moreover have "fst (run_state (arc_mpu_region_config p (of_nat i) base 0 attr) s) = Inl Undef"
  proof -
    have n: "n \<le> 16" and v2: "\<not> mpu_v4 p" using p by (auto simp: mpu_regs_def)
    have "(ucast (of_nat n :: u8) :: u32) = of_nat n"
      using n by (simp add: unsigned_of_nat take_bit_nat_eq_self)
    moreover have "\<not> (of_nat n :: u32) \<le> of_nat i"
      using n p(2) by (simp add: word_le_nat_alt unat_of_nat)
    moreover have "mpu_size_bits 0 = None" by code_simp
    ultimately show ?thesis
      using v2 by (simp add: arc_mpu_region_config_def regions_run [OF p(1)])
  qed
  ultimately show ?thesis by simp
qed

lemma mpu_top_regions_witness:
  "fst (run_state (arc_mpu_in_region mpu_plat (of_nat 3) 0xfffff800 16)
     (sample_mach\<lparr>hist := [Aux_wr 0x429 0x402, Aux_wr 0x428 0xfffff801]\<rparr>)) = Inr 0"
proof -
  let ?s = "sample_mach\<lparr>hist := [Aux_wr 0x429 0x402, Aux_wr 0x428 0xfffff801]\<rparr>"
  have "mpu_exp (hist ?s) 3 = 11" "mpu_base (hist ?s) 3 = 0xfffff800"
    by (simp_all add: mpu_exp_def mpu_base_def)
  with mpu_top_regions [OF mpu_plat_regs, where i = 3 and s = ?s and start = "0xfffff800"
      and len = 16 and base = 0 and attr = 0] show ?thesis
    by (simp add: push_bit_eq_mult)
qed

text \<open>
  On version 2, when no region is 4 GiB, \<open>arc_mpu_probe\<close> returns the number of the
  first region that contains the address, and -1 when there is none.
\<close>

theorem mpu_probe_finds_first:
  fixes s :: "'a mach_scheme"
  assumes p: "mpu_regs p n" and small: "\<And>i. i < n \<Longrightarrow> mpu_exp (hist s) i < 32"
  shows "fst (run_state (arc_mpu_probe p addr) s)
    = Inr (case find (\<lambda>i. mpu_hit (hist s) i addr 0) [0..<n] of Some i \<Rightarrow> of_nat i | None \<Rightarrow> - 1)"
proof -
  have view: "mpu_hit (h @ l) i a z = mpu_hit l i a z" "mpu_exp (h @ l) i = mpu_exp l i"
    if "\<forall>r l. aux_last r (h @ l) = aux_last r l" for h l i a z
    using that by (simp_all add: mpu_hit_def mpu_base_def mpu_exp_def)
  have loop: "fst (run_state (mpu_probe_loop m p addr (of_nat i)) t)
      = Inr (case find (\<lambda>i. mpu_hit (hist s) i addr 0) [i..<n] of Some i \<Rightarrow> of_nat i | None \<Rightarrow> - 1)"
    if "m = n - i" "\<forall>i a z. mpu_hit (hist t) i a z = mpu_hit (hist s) i a z"
      "\<forall>i. mpu_exp (hist t) i = mpu_exp (hist s) i" for m i and t :: "'a mach_scheme"
    using that
  proof (induction m arbitrary: i t)
    case 0
    then show ?case by simp
  next
    case (Suc m)
    then have i: "i < n" by simp
    obtain h where h: "\<forall>r l. aux_last r (h @ l) = aux_last r l"
      "run_state (arc_mpu_in_region p (of_nat i) addr 0) t
        = (Inr (if mpu_hit (hist t) i addr 0 then 1 else 0), t\<lparr>hist := h @ hist t\<rparr>)"
      using in_region_run [OF p i, of addr 0 t] Suc.prems(3) small [OF i] by (auto simp: leD)
    have "fst (run_state (mpu_probe_loop m p addr (of_nat (Suc i))) (t\<lparr>hist := h @ hist t\<rparr>))
      = Inr (case find (\<lambda>i. mpu_hit (hist s) i addr 0) [Suc i..<n] of Some i \<Rightarrow> of_nat i | None \<Rightarrow> - 1)"
      by (rule Suc.IH) (use Suc.prems view [OF h(1)] in auto)
    then show ?case
      using h(2) Suc.prems(2) i by (simp add: upt_conv_Cons add.commute)
  qed
  have "run_state (arc_mpu_regions p) s
      = (of_nat n, s\<lparr>hist := Aux_rd AUX_BCR_MPU (aux_in p (hist s) AUX_BCR_MPU) # hist s\<rparr>)"
    by (rule regions_run [OF p])
  moreover have "unat (of_nat n :: u8) = n" "\<not> mpu_v4 p"
    using p by (auto simp: mpu_regs_def unat_of_nat)
  moreover have "mpu_hit (Aux_rd a v # l) i b z = mpu_hit l i b z"
    "mpu_exp (Aux_rd a v # l) i = mpu_exp l i" for a v l i b z
    by (simp_all add: mpu_hit_def mpu_base_def mpu_exp_def)
  ultimately show ?thesis
    using loop [of n 0] by (simp add: arc_mpu_probe_def)
qed

lemma mpu_probe_finds_first_witness:
  "fst (run_state (arc_mpu_probe mpu_plat 0x20000010)
     (sample_mach\<lparr>hist := [Aux_wr 0x429 0x402, Aux_wr 0x428 0x20000001]\<rparr>)) = Inr 3"
proof -
  let ?s = "sample_mach\<lparr>hist := [Aux_wr 0x429 0x402, Aux_wr 0x428 0x20000001]\<rparr>"
  have small: "mpu_exp (hist ?s) i < 32" if "i < 8" for i
  proof -
    have "i \<in> set [0..<8]" using that by simp
    then show ?thesis by (auto simp: mpu_exp_def upt_rec)
  qed
  have "find (\<lambda>i. mpu_hit (hist ?s) i 0x20000010 0) [0..<8] = Some 3"
    by (simp add: upt_rec mpu_hit_def mpu_base_def mpu_exp_def push_bit_eq_mult)
  with mpu_probe_finds_first [OF mpu_plat_regs small, where addr = "0x20000010"] show ?thesis by simp
qed

text \<open>
  on version 4 a region is programmed through the index register: base, last aligned
  block of at least 32 bytes, and the permissions, valid exactly when some permission is
  given; an index that is not a region is ignored without any store.
\<close>

theorem mpu_v4_region_config:
  fixes s :: "'a mach_scheme"
  assumes v4: "mpu_v4 p" and n: "\<And>h. drop_bit 8 (aux_in p h AUX_BCR_MPU AND 0xFF00) = of_nat n" "n \<le> 16"
  shows "wp (arc_mpu_region_config p index base sz attr) (\<lambda>r t. r = Inr () \<and> t = s\<lparr>hist := hist t\<rparr>
     \<and> aux_stores (hist t) = aux_stores (hist s) @
        (if index < of_nat n then
          [(AUX_MPU_INDEX, index), (AUX_MPU_RSTART, base), (AUX_MPU_REND, base + (if sz < 32 then 32 else sz) - 32),
           (AUX_MPU_RPER, (attr AND 0xFF81F9) OR (if attr AND 0xFF81F9 = 0 then 0 else 1))] else [])) s"
proof -
  have "(ucast (of_nat n :: u32) :: u8) = of_nat n"
    by (rule bit_word_eqI) (simp add: bit_simps)
  then have "run_state (arc_mpu_regions p) s
      = (of_nat n, s\<lparr>hist := Aux_rd AUX_BCR_MPU (aux_in p (hist s) AUX_BCR_MPU) # hist s\<rparr>)"
    unfolding arc_mpu_regions_def using n(1) by simp
  moreover have "(ucast (of_nat n :: u8) :: u32) = of_nat n"
    using n(2) by (simp add: unsigned_of_nat take_bit_nat_eq_self)
  ultimately show ?thesis
    using v4 by (simp add: wp_def arc_mpu_region_config_def AUX_MPU_ATTR_MASK_def
        CALC_REGION_END_ADDR_def Let_def push_bit_eq_mult not_le [symmetric])
qed

lemma mpu_v4_region_config_witness:
  "aux_stores (hist (snd (run_state
       (arc_mpu_region_config (mpu_plat\<lparr>mpu_v4 := True\<rparr>) 3 0x20000000 0x1000 0x1F8) sample_mach)))
     = [(AUX_MPU_INDEX, 3), (AUX_MPU_RSTART, 0x20000000), (AUX_MPU_REND, 0x20000fe0), (AUX_MPU_RPER, 0x1F9)]"
proof -
  have "drop_bit 8 (aux_in (mpu_plat\<lparr>mpu_v4 := True\<rparr>) h AUX_BCR_MPU AND 0xFF00) = of_nat 8" for h
    by (simp add: mpu_plat_def)
  from mpu_v4_region_config [OF _ this, of 3 "0x20000000" "0x1000" "0x1F8" sample_mach] show ?thesis
    by (simp add: wp_def)
qed

end
