(* ===== verification/DevCommon.thy ===== *)
theory DevCommon
  imports ArcException
begin

section \<open>Shared definitions of the device layer (embARC_error.h, dev_common.h)\<close>

text \<open>
  Error codes, device status bits, the buffer descriptor and the parameter checks the drivers
  share, and the open-count contract every driver of the device layer implements, as a
  locale: the drivers' theories interpret it on their own \<open>open\<close> and \<open>close\<close>.
\<close>

subsection \<open>Error codes and status bits\<close>

abbreviation (input) E_OK :: s32 where "E_OK \<equiv> 0"
abbreviation (input) E_SYS :: s32 where "E_SYS \<equiv> - 5"
abbreviation (input) E_OPNED :: s32 where "E_OPNED \<equiv> - 6"
abbreviation (input) E_CLSED :: s32 where "E_CLSED \<equiv> - 7"
abbreviation (input) E_NOSPT :: s32 where "E_NOSPT \<equiv> - 9"
abbreviation (input) E_PAR :: s32 where "E_PAR \<equiv> - 17"
abbreviation (input) E_CTX :: s32 where "E_CTX \<equiv> - 25"
abbreviation (input) E_OBJ :: s32 where "E_OBJ \<equiv> - 41"
abbreviation (input) E_TMOUT :: s32 where "E_TMOUT \<equiv> - 50"

abbreviation (input) DEV_ENABLED :: u32 where "DEV_ENABLED \<equiv> 0x1"
abbreviation (input) DEV_IN_TX :: u32 where "DEV_IN_TX \<equiv> 0x2"
abbreviation (input) DEV_IN_RX :: u32 where "DEV_IN_RX \<equiv> 0x4"
abbreviation (input) DEV_IN_XFER :: u32 where "DEV_IN_XFER \<equiv> 0x8"
abbreviation (input) DEV_IN_TX_ABRT :: u32 where "DEV_IN_TX_ABRT \<equiv> 0x10"
abbreviation (input) DEV_IN_RX_ABRT :: u32 where "DEV_IN_RX_ABRT \<equiv> 0x20"
abbreviation (input) DEV_IN_XFER_ABRT :: u32 where "DEV_IN_XFER_ABRT \<equiv> 0x40"
abbreviation (input) DEV_INTNO_INVALID :: u32 where "DEV_INTNO_INVALID \<equiv> 0xFFFFFFFF"

text \<open>\<open>CHECK_EXP(expr, ercd, code, error_exit)\<close>: on failure the function returns \<open>code\<close>.\<close>

definition check_exp :: "bool \<Rightarrow> s32 \<Rightarrow> ('s, s32 res) state \<Rightarrow> ('s, s32 res) state" where
  "check_exp b code k = (if b then k else retE code)"

definition aligned4 :: "u32 \<Rightarrow> bool" where
  "aligned4 ptr \<longleftrightarrow> ptr AND 0x3 = 0"

lemma run_check_exp [simp]:
  "run_state (check_exp b code k) s = (if b then run_state k s else (Inr code, s))"
  by (simp add: check_exp_def)

lemma wp_check_exp [wp_rules]:
  "wp (check_exp b code k) Q s = (if b then wp k Q s else Q (Inr code) s)"
  by (simp add: wp_def)

lemma preserves_check_exp [intro!]: "(b \<Longrightarrow> preserves I k) \<Longrightarrow> preserves I (check_exp b code k)"
  by (auto simp: check_exp_def)

text \<open>\<open>DEV_BUFFER\<close>\<close>

record dev_buffer =
  buf :: u32
  blen :: u32
  ofs :: u32

definition null_buffer :: dev_buffer where
  "null_buffer = \<lparr>buf = 0, blen = 0, ofs = 0\<rparr>"

text \<open>The struct at a pointer: three consecutive words; \<open>ofs\<close> is set to 0 by every user.\<close>

definition load_buffer :: "(u32 \<Rightarrow> u8) \<Rightarrow> u32 \<Rightarrow> dev_buffer" where
  "load_buffer m ptr = \<lparr>buf = get32 m ptr, blen = get32 m (ptr + 4), ofs = get32 m (ptr + 8)\<rparr>"

text \<open>Signed division of C, which truncates toward zero.\<close>

definition c_sdiv :: "s32 \<Rightarrow> s32 \<Rightarrow> s32" where
  "c_sdiv a b = word_of_int (sgn (sint a) * sgn (sint b) * (\<bar>sint a\<bar> div \<bar>sint b\<bar>))"

text \<open>A plain \<open>char\<close> converted to a 32-bit register value.\<close>

definition char_reg :: "plat \<Rightarrow> u8 \<Rightarrow> u32" where
  "char_reg p c = (if char_signed p then scast c else ucast c)"

text \<open>A load whose value is dropped, as the clear registers are used.\<close>

definition mmio_touch :: "plat \<Rightarrow> u32 \<Rightarrow> ('a, unit) op" where
  "mmio_touch p a = do { _ \<leftarrow> mmio_rd p a; State_Monad.return () }"

lemma run_mmio_touch [simp]:
  "run_state (mmio_touch p a) s = ((), s\<lparr>hist := Mmio_rd a (mmio_in p (hist s) a) # hist s\<rparr>)"
  by (simp add: mmio_touch_def)

lemma wp_mmio_touch [wp_rules]:
  "wp (mmio_touch p a) Q s = Q () (s\<lparr>hist := Mmio_rd a (mmio_in p (hist s) a) # hist s\<rparr>)"
  by (simp add: wp_def)

text \<open>A history after \<open>k\<close> polls of a register.\<close>

primrec mmio_polls :: "plat \<Rightarrow> u32 \<Rightarrow> nat \<Rightarrow> access list \<Rightarrow> access list" where
  "mmio_polls p a 0 h = h"
| "mmio_polls p a (Suc k) h = mmio_polls p a k (Mmio_rd a (mmio_in p h a) # h)"

subsection \<open>Latched registers\<close>

text \<open>
  The value last stored to a device register (0 at reset), and the law of registers that read
  back what was last stored to them.
\<close>

fun mmio_last :: "u32 \<Rightarrow> access list \<Rightarrow> u32" where
  "mmio_last a [] = 0"
| "mmio_last a (Mmio_wr b v # h) = (if b = a then v else mmio_last a h)"
| "mmio_last a (ev # h) = mmio_last a h"

definition latched :: "plat \<Rightarrow> u32 set \<Rightarrow> bool" where
  "latched p A \<longleftrightarrow> (\<forall>h. \<forall>a\<in>A. mmio_in p h a = mmio_last a h)"

lemma latchedD: "latched p A \<Longrightarrow> a \<in> A \<Longrightarrow> mmio_in p h a = mmio_last a h"
  by (simp add: latched_def)

lemma mmio_last_stores: "mmio_last a (h @ k) = foldl (\<lambda>v (b, w). if b = a then w else v) (mmio_last a k) (mmio_stores h)"
  by (induction a h rule: mmio_last.induct) auto

subsection \<open>Interrupt dispatch\<close>

text \<open>
  The loop the interrupt routines share: from bit \<open>i\<close> with \<open>n\<close> rounds to go, the service of
  every bit set in the status word; shifting by 32 or more is undefined. Its reference is the
  service of the list of pending bits in order.
\<close>

primrec for_bits :: "nat \<Rightarrow> u32 \<Rightarrow> (u32 \<Rightarrow> ('s, unit) state) \<Rightarrow> u32 \<Rightarrow> ('s, unit res) state" where
  "for_bits 0 status serve i = retE ()"
| "for_bits (Suc n) status serve i = (
     if i \<ge> 32 then stopE Undef
     else bindE (liftE (c_if (bit status (unat i)) (serve i))) (\<lambda>_. for_bits n status serve (i + 1)))"

primrec serve_all :: "(u32 \<Rightarrow> ('s, unit) state) \<Rightarrow> u32 list \<Rightarrow> ('s, unit) state" where
  "serve_all serve [] = State_Monad.return ()"
| "serve_all serve (i # is) = do { serve i; serve_all serve is }"

definition pending_bits :: "u32 \<Rightarrow> nat \<Rightarrow> nat \<Rightarrow> u32 list" where
  "pending_bits status i n = map of_nat (filter (bit status) [i ..< i + n])"

lemma for_bits_serves:
  "i + n \<le> 32 \<Longrightarrow> run_state (for_bits n status serve (of_nat i)) s
     = (Inr (), snd (run_state (serve_all serve (pending_bits status i n)) s))"
proof (induction n arbitrary: i s)
  case 0
  then show ?case by (simp add: pending_bits_def)
next
  case (Suc n)
  then have i: "unat (of_nat i :: u32) = i" "\<not> 32 \<le> (of_nat i :: u32)"
    by (simp_all add: unat_of_nat word_le_nat_alt)
  have p: "pending_bits status i (Suc n) = (if bit status i then [of_nat i] else []) @ pending_bits status (Suc i) n"
    by (simp add: pending_bits_def upt_conv_Cons del: upt_Suc)
  have suc: "(of_nat i :: u32) + 1 = of_nat (Suc i)" by simp
  let ?t = "if bit status i then snd (run_state (serve (of_nat i)) s) else s"
  have "run_state (for_bits (Suc n) status serve (of_nat i)) s
      = run_state (for_bits n status serve (of_nat (Suc i))) ?t"
    by (simp only: for_bits.simps i if_False suc run_bindE run_liftE run_c_if split_def
        fst_conv snd_conv sum.case if_distrib [of snd])
  also have "\<dots> = (Inr (), snd (run_state (serve_all serve (pending_bits status (Suc i) n)) ?t))"
    by (rule Suc.IH) (use Suc.prems in simp)
  finally show ?case by (simp add: p split_def)
qed

text \<open>What each service appends to the stores of one register, all of them append in order.\<close>

lemma serve_all_writes:
  assumes "\<And>i s. Inv s \<Longrightarrow> Inv (snd (run_state (serve i) s))
      \<and> writes_to a (hist (snd (run_state (serve i) s))) = writes_to a (hist s) @ [f i]"
  shows "Inv s \<Longrightarrow> writes_to a (hist (snd (run_state (serve_all serve is) s))) = writes_to a (hist s) @ map f is"
  by (induction "is" arbitrary: s) (simp_all add: split_def assms)

subsection \<open>The open-count contract\<close>

text \<open>
  \<open>open\<close> counts up and answers \<open>E_OK\<close> or \<open>E_OPNED\<close>, or fails without counting; \<open>close\<close>
  counts down and answers \<open>E_OK\<close> when it was the last one, \<open>E_OPNED\<close> when not. The device is
  reached by the object given to both; \<open>cnt\<close> reads its count, which wraps at \<open>cap\<close>, \<open>ok\<close> says the object is valid.
\<close>

definition opened :: "s32 res \<Rightarrow> bool" where
  "opened r \<longleftrightarrow> r = Inr E_OK \<or> r = Inr E_OPNED"

text \<open>A run of opens, one per argument, and a run of closes; both stop at the first failure.\<close>

primrec open_all :: "('arg \<Rightarrow> ('s, s32 res) state) \<Rightarrow> 'arg list \<Rightarrow> ('s, s32 res) state" where
  "open_all dopen [] = retE E_OK"
| "open_all dopen (a # as) =
     do { r \<leftarrow> dopen a; if opened r then open_all dopen as else State_Monad.return r }"

primrec close_times :: "('s, s32 res) state \<Rightarrow> nat \<Rightarrow> ('s, s32 res) state" where
  "close_times dclose 0 = retE E_OK"
| "close_times dclose (Suc n) =
     bindE dclose (\<lambda>r. if n = 0 then retE r else close_times dclose n)"

locale counted_device =
  fixes cap :: nat
    and cnt :: "'s \<Rightarrow> u32"
    and ok :: "'s \<Rightarrow> bool"
    and dopen :: "'arg \<Rightarrow> ('s, s32 res) state"
    and dclose :: "('s, s32 res) state"
  assumes open_counts: "\<And>s a r t. ok s \<Longrightarrow> unat (cnt s) + 1 < cap \<Longrightarrow> run_state (dopen a) s = (r, t) \<Longrightarrow> opened r
      \<Longrightarrow> ok t \<and> unat (cnt t) = unat (cnt s) + 1"
    and close_counts: "\<And>s r t. ok s \<Longrightarrow> cnt s \<noteq> 0 \<Longrightarrow> run_state dclose s = (Inr r, t)
      \<Longrightarrow> ok t \<and> unat (cnt t) = unat (cnt s) - 1 \<and> r = (if cnt t = 0 then E_OK else E_OPNED)"
begin

lemma opens_count:
  "ok s \<Longrightarrow> unat (cnt s) + length as < cap \<Longrightarrow> run_state (open_all dopen as) s = (r, t) \<Longrightarrow> opened r
   \<Longrightarrow> ok t \<and> unat (cnt t) = unat (cnt s) + length as"
proof (induction as arbitrary: s)
  case Nil
  then show ?case by simp
next
  case (Cons a as)
  obtain q u where q: "run_state (dopen a) s = (q, u)" by fastforce
  with Cons.prems have o: "opened q" by (auto split: if_splits)
  from open_counts [OF Cons.prems(1) _ q o] Cons.prems(2)
  have u: "ok u" "unat (cnt u) = unat (cnt s) + 1" by auto
  moreover have "run_state (open_all dopen as) u = (r, t)" using Cons.prems(3) q o by simp
  ultimately show ?case using Cons.IH [of u] Cons.prems by simp
qed

lemma closes_count:
  "ok s \<Longrightarrow> 0 < n \<Longrightarrow> n \<le> unat (cnt s) \<Longrightarrow> run_state (close_times dclose n) s = (Inr r, t)
   \<Longrightarrow> ok t \<and> unat (cnt t) = unat (cnt s) - n \<and> r = (if cnt t = 0 then E_OK else E_OPNED)"
proof (induction n arbitrary: s)
  case 0
  then show ?case by simp
next
  case (Suc n)
  then obtain q u where q: "run_state dclose s = (Inr q, u)"
    by (auto split: prod.splits sum.splits)
  have nz: "cnt s \<noteq> 0" using Suc.prems(3) by auto
  from close_counts [OF Suc.prems(1) nz q]
  have u: "ok u" "unat (cnt u) = unat (cnt s) - 1" "q = (if cnt u = 0 then E_OK else E_OPNED)" by blast+
  show ?case
  proof (cases "n = 0")
    case True
    with Suc.prems q u show ?thesis by auto
  next
    case False
    with Suc.prems q have "run_state (close_times dclose n) u = (Inr r, t)" by simp
    with False Suc.IH [OF u(1)] Suc.prems(3) u(2) show ?thesis by simp
  qed
qed

text \<open>As many closes as opens bring the count back, and the last one closes exactly at 0.\<close>

lemma opens_closes:
  assumes "ok s" "as \<noteq> []" "unat (cnt s) + length as < cap"
    and "run_state (open_all dopen as) s = (q, u)" "opened q"
    and "run_state (close_times dclose (length as)) u = (Inr r, t)"
  shows "cnt t = cnt s \<and> r = (if cnt s = 0 then E_OK else E_OPNED)"
proof -
  have u: "ok u" "unat (cnt u) = unat (cnt s) + length as"
    using opens_count [OF assms(1,3,4,5)] by blast+
  have "unat (cnt t) = unat (cnt s)" "r = (if cnt t = 0 then E_OK else E_OPNED)"
    using closes_count [OF u(1) _ _ assms(6)] assms(2) u(2) by auto
  then show ?thesis by (simp add: word_unat_eq_iff)
qed

end

end
