(* ===== verification/DwUart.thy ===== *)
theory DwUart
  imports DevCommon
begin

section \<open>DesignWare UART driver (dw_uart.c)\<close>

text \<open>
  The driver of \<open>device/ip/designware/uart/dw_uart.c\<close>: static helpers, open, close, control,
  blocking write and read, and the interrupt routine. \<open>DEV_UART_INFO\<close> and \<open>DW_UART_CTRL\<close>
  objects live in two typed heaps indexed by their addresses; the application callbacks are
  a parameter \<open>cb\<close> (function pointer, argument) that may do anything to the state.
  \<open>fuel\<close> bounds the polling loops and the loops of the interrupt routine.
\<close>

subsection \<open>Registers, bits and objects\<close>

abbreviation (input) UART_DATA :: u32 where "UART_DATA \<equiv> 0x00"
abbreviation (input) UART_IER :: u32 where "UART_IER \<equiv> 0x04"
abbreviation (input) UART_IIR :: u32 where "UART_IIR \<equiv> 0x08"
abbreviation (input) UART_LCR :: u32 where "UART_LCR \<equiv> 0x0c"
abbreviation (input) UART_MCR :: u32 where "UART_MCR \<equiv> 0x10"
abbreviation (input) UART_LSR :: u32 where "UART_LSR \<equiv> 0x14"
abbreviation (input) UART_MSR :: u32 where "UART_MSR \<equiv> 0x18"
abbreviation (input) UART_USR :: u32 where "UART_USR \<equiv> 0x7c"
abbreviation (input) UART_TFL :: u32 where "UART_TFL \<equiv> 0x80"
abbreviation (input) UART_RFL :: u32 where "UART_RFL \<equiv> 0x84"
abbreviation (input) UART_SRR :: u32 where "UART_SRR \<equiv> 0x88"
abbreviation (input) UART_CPR :: u32 where "UART_CPR \<equiv> 0xf4"

abbreviation (input) CPR_FIFO_STAT :: u32 where "CPR_FIFO_STAT \<equiv> 0x400"
abbreviation (input) CPR_FIFO_MODE :: u32 where "CPR_FIFO_MODE \<equiv> 0xFF0000"
abbreviation (input) USR_BUSY :: u32 where "USR_BUSY \<equiv> 0x01"
abbreviation (input) USR_TFNF :: u32 where "USR_TFNF \<equiv> 0x02"
abbreviation (input) USR_TFE :: u32 where "USR_TFE \<equiv> 0x04"
abbreviation (input) USR_RFNE :: u32 where "USR_RFNE \<equiv> 0x08"
abbreviation (input) LSR_DR :: u32 where "LSR_DR \<equiv> 0x01"
abbreviation (input) LSR_TXD_EMPTY :: u32 where "LSR_TXD_EMPTY \<equiv> 0x20"
abbreviation (input) LCR_DPS_MASK :: u32 where "LCR_DPS_MASK \<equiv> 0x3F"
abbreviation (input) LCR_BREAK :: u32 where "LCR_BREAK \<equiv> 0x40"
abbreviation (input) LCR_DLAB :: u32 where "LCR_DLAB \<equiv> 0x80"
abbreviation (input) MCR_AFCE :: u32 where "MCR_AFCE \<equiv> 0x20"
abbreviation (input) MCR_RTS :: u32 where "MCR_RTS \<equiv> 0x02"
abbreviation (input) IER_DATA_AVAIL :: u32 where "IER_DATA_AVAIL \<equiv> 0x01"
abbreviation (input) IER_XMIT_EMPTY :: u32 where "IER_XMIT_EMPTY \<equiv> 0x02"
abbreviation (input) GINT_ENABLE :: u32 where "GINT_ENABLE \<equiv> 0x1"
abbreviation (input) TXINT_ENABLE :: u32 where "TXINT_ENABLE \<equiv> 0x2"
abbreviation (input) RXINT_ENABLE :: u32 where "RXINT_ENABLE \<equiv> 0x4"
abbreviation (input) DW_UART_RDY_SND :: u32 where "DW_UART_RDY_SND \<equiv> 1"
abbreviation (input) DW_UART_RDY_RCV :: u32 where "DW_UART_RDY_RCV \<equiv> 2"

text \<open>\<open>UART_DPS_FORMAT\<close>\<close>

record uart_dps_format =
  databits :: u32
  parity :: u32
  stopbits :: u32

record dev_uart_info =
  uart_ctrl :: u32
  ui_opn_cnt :: u32
  ui_status :: u32
  ui_baudrate :: u32
  dps_format :: uart_dps_format
  hwfc :: u32
  ui_tx_buf :: dev_buffer
  ui_rx_buf :: dev_buffer
  ui_tx_cb :: u32
  ui_rx_cb :: u32
  ui_err_cb :: u32
  ui_extra :: u32

record dw_uart_ctrl =
  dw_uart_regbase :: u32
  uc_bus_freq :: u32
  uc_intno :: u32
  uc_int_handler :: u32
  tx_fifo_len :: u32
  rx_fifo_len :: u32
  int_status :: u32

record uart_mach = mach +
  uinfo :: "u32 \<Rightarrow> dev_uart_info"
  uctrl :: "u32 \<Rightarrow> dw_uart_ctrl"

type_synonym ('a, 'r) uop = "('a uart_mach_scheme, 'r) state"
type_synonym 'a callback = "u32 \<Rightarrow> u32 \<Rightarrow> ('a uart_mach_scheme, unit) state"

definition get_info :: "u32 \<Rightarrow> ('a, dev_uart_info) uop" where
  "get_info obj = do { s \<leftarrow> State_Monad.get; State_Monad.return (uinfo s obj) }"

definition get_ctrl :: "u32 \<Rightarrow> ('a, dw_uart_ctrl) uop" where
  "get_ctrl c = do { s \<leftarrow> State_Monad.get; State_Monad.return (uctrl s c) }"

definition upd_info :: "u32 \<Rightarrow> (dev_uart_info \<Rightarrow> dev_uart_info) \<Rightarrow> ('a, unit) uop" where
  "upd_info obj f = State_Monad.update (\<lambda>s. s\<lparr>uinfo := (uinfo s)(obj := f (uinfo s obj))\<rparr>)"

definition upd_ctrl :: "u32 \<Rightarrow> (dw_uart_ctrl \<Rightarrow> dw_uart_ctrl) \<Rightarrow> ('a, unit) uop" where
  "upd_ctrl c f = State_Monad.update (\<lambda>s. s\<lparr>uctrl := (uctrl s)(c := f (uctrl s c))\<rparr>)"

lemma run_uart_heap [simp]:
  "run_state (get_info obj) s = (uinfo s obj, s)"
  "run_state (get_ctrl c) s = (uctrl s c, s)"
  "run_state (upd_info obj f) s = ((), s\<lparr>uinfo := (uinfo s)(obj := f (uinfo s obj))\<rparr>)"
  "run_state (upd_ctrl c g) s = ((), s\<lparr>uctrl := (uctrl s)(c := g (uctrl s c))\<rparr>)"
  by (simp_all add: get_info_def get_ctrl_def upd_info_def upd_ctrl_def)

lemma wp_uart_heap [wp_rules]:
  "wp (get_info obj) P s = P (uinfo s obj) s"
  "wp (get_ctrl c) Q s = Q (uctrl s c) s"
  "wp (upd_info obj f) R s = R () (s\<lparr>uinfo := (uinfo s)(obj := f (uinfo s obj))\<rparr>)"
  "wp (upd_ctrl c g) R s = R () (s\<lparr>uctrl := (uctrl s)(c := g (uctrl s c))\<rparr>)"
  by (simp_all add: wp_def)

text \<open>The register base of a device, through \<open>uart_ctrl\<close>.\<close>

definition uart_base :: "'a uart_mach_scheme \<Rightarrow> u32 \<Rightarrow> u32" where
  "uart_base s obj = dw_uart_regbase (uctrl s (uart_ctrl (uinfo s obj)))"

subsection \<open>Character transfer\<close>

definition dw_uart_putready :: "plat \<Rightarrow> u32 \<Rightarrow> ('a, bool) op" where
  "dw_uart_putready p base = do {
     cpr \<leftarrow> mmio_rd p (base + UART_CPR);
     if cpr AND CPR_FIFO_STAT \<noteq> 0 then do {
       usr \<leftarrow> mmio_rd p (base + UART_USR);
       State_Monad.return (usr AND USR_TFNF \<noteq> 0)
     } else do {
       lsr \<leftarrow> mmio_rd p (base + UART_LSR);
       State_Monad.return (lsr AND LSR_TXD_EMPTY \<noteq> 0)
     }
   }"

definition dw_uart_getready :: "plat \<Rightarrow> u32 \<Rightarrow> ('a, bool) op" where
  "dw_uart_getready p base = do {
     cpr \<leftarrow> mmio_rd p (base + UART_CPR);
     if cpr AND CPR_FIFO_STAT \<noteq> 0 then do {
       usr \<leftarrow> mmio_rd p (base + UART_USR);
       State_Monad.return (usr AND USR_RFNE \<noteq> 0)
     } else do {
       lsr \<leftarrow> mmio_rd p (base + UART_LSR);
       State_Monad.return (lsr AND LSR_DR \<noteq> 0)
     }
   }"

definition dw_uart_putchar :: "plat \<Rightarrow> u32 \<Rightarrow> u8 \<Rightarrow> ('a, unit) op" where
  "dw_uart_putchar p base chr = mmio_wr (base + UART_DATA) (char_reg p chr)"

definition dw_uart_getchar :: "plat \<Rightarrow> u32 \<Rightarrow> ('a, s32) op" where
  "dw_uart_getchar p base = mmio_rd p (base + UART_DATA)"

definition dw_uart_snd_chr :: "plat \<Rightarrow> u32 \<Rightarrow> u8 \<Rightarrow> ('a, s32) op" where
  "dw_uart_snd_chr p base chr = do {
     r \<leftarrow> dw_uart_putready p base;
     if r then do { dw_uart_putchar p base chr; State_Monad.return E_OK }
     else State_Monad.return E_OBJ
   }"

definition dw_uart_rcv_chr :: "plat \<Rightarrow> u32 \<Rightarrow> ('a, s32) op" where
  "dw_uart_rcv_chr p base = dw_uart_getchar p base"

definition dw_uart_psnd_chr :: "plat \<Rightarrow> nat \<Rightarrow> u32 \<Rightarrow> u8 \<Rightarrow> ('a, unit res) op" where
  "dw_uart_psnd_chr p fuel base chr =
     bindE (spin fuel (dw_uart_putready p base)) (\<lambda>_. liftE (dw_uart_putchar p base chr))"

definition dw_uart_prcv_chr :: "plat \<Rightarrow> nat \<Rightarrow> u32 \<Rightarrow> ('a, s32 res) op" where
  "dw_uart_prcv_chr p fuel base =
     bindE (spin fuel (dw_uart_getready p base)) (\<lambda>_. liftE (dw_uart_getchar p base))"

subsection \<open>Line settings\<close>

definition dw_uart_databits :: "u8 list" where
  "dw_uart_databits = [0x00, 0x01, 0x02, 0x03]"

text \<open>The fourth entry is \<open>DW_UART_LCR_PARITY_MASK\<close>, 0x38, in the source.\<close>

definition dw_uart_parity :: "u8 list" where
  "dw_uart_parity = [0x00, 0x08, 0x18, 0x38, 0x38]"

definition dw_uart_stopbits :: "u8 list" where
  "dw_uart_stopbits = [0x00, 0x04, 0x04]"

definition dw_uart_set_dps :: "plat \<Rightarrow> u32 \<Rightarrow> uart_dps_format \<Rightarrow> ('a, s32) op" where
  "dw_uart_set_dps p base dps = (
     if databits dps < 5 \<or> databits dps > 8 then State_Monad.return (- 1)
     else if stopbits dps > 2 then State_Monad.return (- 1)
     else if parity dps > 4 then State_Monad.return (- 1)
     else do {
       let dps_value = ucast (dw_uart_databits ! unat (databits dps - 5))
         OR ucast (dw_uart_stopbits ! unat (stopbits dps))
         OR ucast (dw_uart_parity ! unat (parity dps));
       mmio_and p (base + UART_LCR) (NOT LCR_DPS_MASK);
       mmio_or p (base + UART_LCR) dps_value;
       State_Monad.return 0
     })"

definition dw_uart_set_baud :: "plat \<Rightarrow> u32 \<Rightarrow> u32 \<Rightarrow> ('a, unit) op" where
  "dw_uart_set_baud p base baud_divisor = do {
     mmio_or p (base + UART_LCR) LCR_DLAB;
     mmio_wr (base + UART_DATA) (baud_divisor AND 0xff);
     mmio_wr (base + UART_IER) (drop_bit 8 baud_divisor AND 0xff);
     mmio_and p (base + UART_LCR) (NOT LCR_DLAB)
   }"

definition dw_uart_software_reset :: "plat \<Rightarrow> nat \<Rightarrow> u32 \<Rightarrow> ('a, unit res) op" where
  "dw_uart_software_reset p fuel base =
     bindE (liftE (mmio_wr (base + UART_SRR) (0x01 OR 0x02 OR 0x04))) (\<lambda>_.
     spin fuel (do { usr \<leftarrow> mmio_rd p (base + UART_USR); State_Monad.return (usr AND USR_BUSY = 0) }))"

definition dw_uart_set_hwfc :: "plat \<Rightarrow> u32 \<Rightarrow> u32 \<Rightarrow> ('a, unit) op" where
  "dw_uart_set_hwfc p base fc = do {
     c_if (fc = 0) (mmio_and p (base + UART_MCR) (NOT (MCR_AFCE OR MCR_RTS)));
     c_if (fc = 1 \<or> fc = 3) (mmio_or p (base + UART_MCR) (MCR_AFCE OR MCR_RTS));
     c_if (fc = 2 \<or> fc = 3) (mmio_or p (base + UART_MCR) MCR_AFCE)
   }"

definition dw_uart_set_break :: "plat \<Rightarrow> u32 \<Rightarrow> ('a, unit) op" where
  "dw_uart_set_break p base = mmio_or p (base + UART_LCR) LCR_BREAK"

definition dw_uart_clr_break :: "plat \<Rightarrow> u32 \<Rightarrow> ('a, unit) op" where
  "dw_uart_clr_break p base = mmio_and p (base + UART_LCR) (NOT LCR_BREAK)"

definition dw_uart_init :: "plat \<Rightarrow> nat \<Rightarrow> u32 \<Rightarrow> u32 \<Rightarrow> uart_dps_format \<Rightarrow> u32 \<Rightarrow> ('a, unit res) op" where
  "dw_uart_init p fuel base baud_divisor dps fc =
     bindE (dw_uart_software_reset p fuel base) (\<lambda>_.
     liftE (do {
       dw_uart_set_hwfc p base fc;
       _ \<leftarrow> dw_uart_set_dps p base dps;
       dw_uart_set_baud p base baud_divisor;
       mmio_wr (base + UART_IIR) 0x1;
       mmio_wr (base + UART_IER) 0x0
     }))"

text \<open>\<open>for (i = ofs; i < len; i++) dw_uart_psnd_chr(reg, p[i])\<close>, with \<open>n\<close> characters to go.\<close>

primrec psnd_chars :: "nat \<Rightarrow> plat \<Rightarrow> nat \<Rightarrow> u32 \<Rightarrow> u32 \<Rightarrow> ('a, unit res) op" where
  "psnd_chars 0 p fuel base a = retE ()"
| "psnd_chars (Suc n) p fuel base a =
     bindE (liftE (ld8 a)) (\<lambda>c.
     bindE (dw_uart_psnd_chr p fuel base c) (\<lambda>_. psnd_chars n p fuel base (a + 1)))"

definition dw_uart_flush_output :: "plat \<Rightarrow> nat \<Rightarrow> u32 \<Rightarrow> ('a, unit res) uop" where
  "dw_uart_flush_output p fuel obj =
     bindE (liftE (get_info obj)) (\<lambda>i.
     bindE (liftE (get_ctrl (uart_ctrl i))) (\<lambda>c.
     let base = dw_uart_regbase c; b = ui_tx_buf i in
     bindE (c_ifE (buf b \<noteq> 0)
        (bindE (psnd_chars (unat (blen b) - unat (ofs b)) p fuel base (buf b + ofs b)) (\<lambda>_.
         liftE (upd_info obj (\<lambda>i. i\<lparr>ui_tx_buf := null_buffer\<rparr>))))) (\<lambda>_.
     bindE (liftE (mmio_rd p (base + UART_CPR))) (\<lambda>cpr.
     bindE (c_ifE (cpr AND CPR_FIFO_STAT \<noteq> 0)
        (spin fuel (do { usr \<leftarrow> mmio_rd p (base + UART_USR);
                         State_Monad.return (usr AND USR_TFE \<noteq> 0) }))) (\<lambda>_.
     spin fuel (do { usr \<leftarrow> mmio_rd p (base + UART_USR);
                     State_Monad.return (usr AND USR_BUSY = 0) }))))))"

subsection \<open>Interrupt enables\<close>

definition dw_uart_dis_cbr :: "plat \<Rightarrow> u32 \<Rightarrow> u32 \<Rightarrow> ('a, unit) uop" where
  "dw_uart_dis_cbr p obj cbrtn = do {
     i \<leftarrow> get_info obj;
     let cp = uart_ctrl i;
     c \<leftarrow> get_ctrl cp;
     let base = dw_uart_regbase c;
     (if cbrtn = DW_UART_RDY_SND then do {
        mmio_and p (base + UART_IER) (NOT IER_XMIT_EMPTY);
        upd_ctrl cp (\<lambda>c. c\<lparr>int_status := int_status c AND NOT TXINT_ENABLE\<rparr>)
      } else if cbrtn = DW_UART_RDY_RCV then do {
        mmio_and p (base + UART_IER) (NOT IER_DATA_AVAIL);
        upd_ctrl cp (\<lambda>c. c\<lparr>int_status := int_status c AND NOT RXINT_ENABLE\<rparr>)
      } else State_Monad.return ());
     c \<leftarrow> get_ctrl cp;
     c_if (int_status c AND GINT_ENABLE \<noteq> 0)
       (c_if (int_status c AND (RXINT_ENABLE OR TXINT_ENABLE) = 0) (do {
          c_if (uc_intno c \<noteq> DEV_INTNO_INVALID)
            (do { _ \<leftarrow> int_disable p (uc_intno c); State_Monad.return () });
          upd_ctrl cp (\<lambda>c. c\<lparr>int_status := int_status c AND NOT GINT_ENABLE\<rparr>)
        }))
   }"

definition dw_uart_ena_cbr :: "plat \<Rightarrow> u32 \<Rightarrow> u32 \<Rightarrow> ('a, unit) uop" where
  "dw_uart_ena_cbr p obj cbrtn = do {
     i \<leftarrow> get_info obj;
     let cp = uart_ctrl i;
     c \<leftarrow> get_ctrl cp;
     let base = dw_uart_regbase c;
     (if cbrtn = DW_UART_RDY_SND then do {
        upd_ctrl cp (\<lambda>c. c\<lparr>int_status := int_status c OR TXINT_ENABLE\<rparr>);
        mmio_or p (base + UART_IER) IER_XMIT_EMPTY
      } else if cbrtn = DW_UART_RDY_RCV then do {
        upd_ctrl cp (\<lambda>c. c\<lparr>int_status := int_status c OR RXINT_ENABLE\<rparr>);
        mmio_or p (base + UART_IER) IER_DATA_AVAIL
      } else State_Monad.return ());
     c \<leftarrow> get_ctrl cp;
     c_if (int_status c AND GINT_ENABLE = 0)
       (c_if (int_status c AND (RXINT_ENABLE OR TXINT_ENABLE) \<noteq> 0) (do {
          upd_ctrl cp (\<lambda>c. c\<lparr>int_status := int_status c OR GINT_ENABLE\<rparr>);
          c_if (uc_intno c \<noteq> DEV_INTNO_INVALID)
            (do { _ \<leftarrow> int_enable p (uc_intno c); State_Monad.return () })
        }))
   }"

definition dw_uart_disable_interrupt :: "plat \<Rightarrow> u32 \<Rightarrow> ('a, unit) uop" where
  "dw_uart_disable_interrupt p obj = do {
     i \<leftarrow> get_info obj;
     dw_uart_dis_cbr p obj DW_UART_RDY_SND;
     dw_uart_dis_cbr p obj DW_UART_RDY_RCV;
     c \<leftarrow> get_ctrl (uart_ctrl i);
     c_if (uc_intno c \<noteq> DEV_INTNO_INVALID)
       (do { _ \<leftarrow> int_disable p (uc_intno c); State_Monad.return () });
     upd_ctrl (uart_ctrl i) (\<lambda>c. c\<lparr>int_status := int_status c AND
       NOT (GINT_ENABLE OR TXINT_ENABLE OR RXINT_ENABLE)\<rparr>)
   }"

text \<open>The divisor registers are given the baud rate itself in the source.\<close>

definition dw_uart_enable_device :: "plat \<Rightarrow> u32 \<Rightarrow> ('a, unit) uop" where
  "dw_uart_enable_device p obj = do {
     i \<leftarrow> get_info obj;
     c \<leftarrow> get_ctrl (uart_ctrl i);
     c_if (ui_status i AND DEV_ENABLED = 0) (do {
       dw_uart_set_baud p (dw_uart_regbase c) (ui_baudrate i);
       upd_info obj (\<lambda>i. i\<lparr>ui_status := ui_status i OR DEV_ENABLED\<rparr>)
     })
   }"

definition dw_uart_disable_device :: "plat \<Rightarrow> u32 \<Rightarrow> ('a, unit) uop" where
  "dw_uart_disable_device p obj = do {
     i \<leftarrow> get_info obj;
     c \<leftarrow> get_ctrl (uart_ctrl i);
     c_if (ui_status i AND DEV_ENABLED = DEV_ENABLED) (do {
       dw_uart_set_baud p (dw_uart_regbase c) 0;
       upd_info obj (\<lambda>i. i\<lparr>ui_status := ui_status i AND NOT DEV_ENABLED\<rparr>)
     })
   }"

definition dw_uart_abort_tx :: "plat \<Rightarrow> 'a callback \<Rightarrow> u32 \<Rightarrow> ('a, unit) uop" where
  "dw_uart_abort_tx p cb obj = do {
     i \<leftarrow> get_info obj;
     c \<leftarrow> get_ctrl (uart_ctrl i);
     c_if (int_status c AND TXINT_ENABLE \<noteq> 0) (do {
       dw_uart_dis_cbr p obj DW_UART_RDY_SND;
       upd_info obj (\<lambda>i. i\<lparr>ui_status := ui_status i OR DEV_IN_TX_ABRT\<rparr>);
       i \<leftarrow> get_info obj;
       c_if (ui_tx_cb i \<noteq> 0) (cb (ui_tx_cb i) obj);
       upd_info obj (\<lambda>i. i\<lparr>ui_status := ui_status i AND NOT DEV_IN_TX_ABRT\<rparr>)
     })
   }"

definition dw_uart_abort_rx :: "plat \<Rightarrow> 'a callback \<Rightarrow> u32 \<Rightarrow> ('a, unit) uop" where
  "dw_uart_abort_rx p cb obj = do {
     i \<leftarrow> get_info obj;
     c \<leftarrow> get_ctrl (uart_ctrl i);
     c_if (int_status c AND RXINT_ENABLE \<noteq> 0) (do {
       dw_uart_dis_cbr p obj DW_UART_RDY_RCV;
       upd_info obj (\<lambda>i. i\<lparr>ui_status := ui_status i OR DEV_IN_RX_ABRT\<rparr>);
       i \<leftarrow> get_info obj;
       c_if (ui_rx_cb i \<noteq> 0) (cb (ui_rx_cb i) obj);
       upd_info obj (\<lambda>i. i\<lparr>ui_status := ui_status i AND NOT DEV_IN_RX_ABRT\<rparr>)
     })
   }"

definition dw_uart_get_txavail :: "plat \<Rightarrow> u32 \<Rightarrow> ('a, s32) uop" where
  "dw_uart_get_txavail p cp = do {
     c \<leftarrow> get_ctrl cp;
     if tx_fifo_len c \<le> 1 then do {
       r \<leftarrow> dw_uart_putready p (dw_uart_regbase c);
       State_Monad.return (c_bool r)
     } else do {
       l \<leftarrow> mmio_rd p (dw_uart_regbase c + UART_TFL);
       State_Monad.return (tx_fifo_len c - l)
     }
   }"

definition dw_uart_get_rxavail :: "plat \<Rightarrow> u32 \<Rightarrow> ('a, s32) uop" where
  "dw_uart_get_rxavail p cp = do {
     c \<leftarrow> get_ctrl cp;
     if rx_fifo_len c \<le> 1 then do {
       r \<leftarrow> dw_uart_getready p (dw_uart_regbase c);
       State_Monad.return (c_bool r)
     } else mmio_rd p (dw_uart_regbase c + UART_RFL)
   }"

subsection \<open>Open and close\<close>

text \<open>\<open>VALID_CHK_UART_INFO_OBJECT\<close>: the object and its control structure are not \<open>NULL\<close>.\<close>

definition uart_valid :: "'a uart_mach_scheme \<Rightarrow> u32 \<Rightarrow> bool" where
  "uart_valid s obj \<longleftrightarrow> obj \<noteq> 0 \<and> uart_ctrl (uinfo s obj) \<noteq> 0"

definition default_dps :: uart_dps_format where
  "default_dps = \<lparr>databits = 8, parity = 0, stopbits = 0\<rparr>"

text \<open>The part of \<open>dw_uart_open\<close> that runs for the first open.\<close>

definition uart_first_open :: "plat \<Rightarrow> nat \<Rightarrow> u32 \<Rightarrow> u32 \<Rightarrow> ('a, s32 res) uop" where
  "uart_first_open p fuel obj baud =
     bindE (liftE (get_info obj)) (\<lambda>i.
     let cp = uart_ctrl i in
     bindE (liftE (get_ctrl cp)) (\<lambda>c.
     let base = dw_uart_regbase c in
     bindE (liftE (mmio_rd p (base + UART_CPR))) (\<lambda>uart_cpr.
     let fifo_len = (if uart_cpr AND CPR_FIFO_STAT \<noteq> 0
                     then push_bit 4 (drop_bit 16 (uart_cpr AND CPR_FIFO_MODE)) else 0) in
     bindE (liftE (do {
       upd_ctrl cp (\<lambda>c. c\<lparr>tx_fifo_len := fifo_len, rx_fifo_len := fifo_len\<rparr>);
       upd_info obj (\<lambda>i. i\<lparr>ui_baudrate := baud\<rparr>)
     })) (\<lambda>_.
     if baud * 16 = 0 then stopE Undef
     else
       let baud_divisor = uc_bus_freq c div (baud * 16) in
       bindE (liftE (upd_info obj (\<lambda>i. i\<lparr>dps_format := default_dps, hwfc := 0\<rparr>))) (\<lambda>_.
       bindE (dw_uart_init p fuel base baud_divisor default_dps 0) (\<lambda>_.
       liftE (do {
         upd_info obj (\<lambda>i. i\<lparr>ui_status := DEV_ENABLED, ui_extra := 0\<rparr>);
         dw_uart_disable_interrupt p obj;
         c_if (uc_intno c \<noteq> DEV_INTNO_INVALID)
           (do { _ \<leftarrow> int_handler_install p (uc_intno c) (uc_int_handler c);
                 State_Monad.return () });
         upd_info obj (\<lambda>i. i\<lparr>ui_tx_buf := null_buffer, ui_rx_buf := null_buffer,
           ui_tx_cb := 0, ui_rx_cb := 0, ui_err_cb := 0\<rparr>);
         State_Monad.return E_OK
       })))))))"

definition dw_uart_open :: "plat \<Rightarrow> nat \<Rightarrow> u32 \<Rightarrow> u32 \<Rightarrow> ('a, s32 res) uop" where
  "dw_uart_open p fuel obj baud = do {
     s \<leftarrow> State_Monad.get;
     check_exp (uart_valid s obj) E_OBJ (
     check_exp (baud > 0) E_PAR (do {
       upd_info obj (\<lambda>i. i\<lparr>ui_opn_cnt := ui_opn_cnt i + 1\<rparr>);
       i \<leftarrow> get_info obj;
       if ui_opn_cnt i > 1 then
         (if baud = ui_baudrate i then retE E_OK else retE E_OPNED)
       else uart_first_open p fuel obj baud
     }))
   }"

definition dw_uart_close :: "plat \<Rightarrow> nat \<Rightarrow> 'a callback \<Rightarrow> u32 \<Rightarrow> ('a, s32 res) uop" where
  "dw_uart_close p fuel cb obj = do {
     s \<leftarrow> State_Monad.get;
     check_exp (uart_valid s obj) E_OBJ (
     check_exp (ui_opn_cnt (uinfo s obj) > 0) E_OK (do {
       upd_info obj (\<lambda>i. i\<lparr>ui_opn_cnt := ui_opn_cnt i - 1\<rparr>);
       i \<leftarrow> get_info obj;
       if ui_opn_cnt i = 0 then
         bindE (liftE (do {
           dw_uart_disable_interrupt p obj;
           dw_uart_abort_tx p cb obj;
           dw_uart_abort_rx p cb obj
         })) (\<lambda>_.
         bindE (dw_uart_flush_output p fuel obj) (\<lambda>_.
         liftE (do {
           upd_info obj (\<lambda>i. i\<lparr>ui_tx_buf := null_buffer, ui_rx_buf := null_buffer,
             ui_tx_cb := 0, ui_rx_cb := 0, ui_err_cb := 0\<rparr>);
           dw_uart_disable_device p obj;
           upd_info obj (\<lambda>i. i\<lparr>ui_status := 0, ui_extra := 0\<rparr>);
           State_Monad.return E_OK
         })))
       else retE E_OPNED
     }))
   }"

subsection \<open>Control\<close>

abbreviation (input) UART_CMD_SET_BAUD :: u32 where "UART_CMD_SET_BAUD \<equiv> 0"
abbreviation (input) UART_CMD_GET_STATUS :: u32 where "UART_CMD_GET_STATUS \<equiv> 1"
abbreviation (input) UART_CMD_ENA_DEV :: u32 where "UART_CMD_ENA_DEV \<equiv> 2"
abbreviation (input) UART_CMD_DIS_DEV :: u32 where "UART_CMD_DIS_DEV \<equiv> 3"
abbreviation (input) UART_CMD_FLUSH_OUTPUT :: u32 where "UART_CMD_FLUSH_OUTPUT \<equiv> 4"
abbreviation (input) UART_CMD_GET_TXAVAIL :: u32 where "UART_CMD_GET_TXAVAIL \<equiv> 5"
abbreviation (input) UART_CMD_GET_RXAVAIL :: u32 where "UART_CMD_GET_RXAVAIL \<equiv> 6"
abbreviation (input) UART_CMD_BREAK_SET :: u32 where "UART_CMD_BREAK_SET \<equiv> 7"
abbreviation (input) UART_CMD_BREAK_CLR :: u32 where "UART_CMD_BREAK_CLR \<equiv> 8"
abbreviation (input) UART_CMD_SET_DPS_FORMAT :: u32 where "UART_CMD_SET_DPS_FORMAT \<equiv> 9"
abbreviation (input) UART_CMD_SET_HWFC :: u32 where "UART_CMD_SET_HWFC \<equiv> 10"
abbreviation (input) UART_CMD_SET_TXCB :: u32 where "UART_CMD_SET_TXCB \<equiv> 11"
abbreviation (input) UART_CMD_SET_RXCB :: u32 where "UART_CMD_SET_RXCB \<equiv> 12"
abbreviation (input) UART_CMD_SET_ERRCB :: u32 where "UART_CMD_SET_ERRCB \<equiv> 13"
abbreviation (input) UART_CMD_SET_TXINT_BUF :: u32 where "UART_CMD_SET_TXINT_BUF \<equiv> 14"
abbreviation (input) UART_CMD_SET_RXINT_BUF :: u32 where "UART_CMD_SET_RXINT_BUF \<equiv> 15"
abbreviation (input) UART_CMD_SET_TXINT :: u32 where "UART_CMD_SET_TXINT \<equiv> 16"
abbreviation (input) UART_CMD_SET_RXINT :: u32 where "UART_CMD_SET_RXINT \<equiv> 17"
abbreviation (input) UART_CMD_ABORT_TX :: u32 where "UART_CMD_ABORT_TX \<equiv> 18"
abbreviation (input) UART_CMD_ABORT_RX :: u32 where "UART_CMD_ABORT_RX \<equiv> 19"

text \<open>A command that always answers \<open>E_OK\<close>.\<close>

definition okE :: "('s, unit) state \<Rightarrow> ('s, s32 res) state" where
  "okE m = liftE (do { m; State_Monad.return E_OK })"

text \<open>The \<open>switch\<close> of \<open>dw_uart_control\<close>.\<close>

definition uart_command ::
  "plat \<Rightarrow> nat \<Rightarrow> 'a callback \<Rightarrow> u32 \<Rightarrow> u32 \<Rightarrow> u32 \<Rightarrow> ('a, s32 res) uop" where
  "uart_command p fuel cb obj ctrl_cmd param = do {
     i \<leftarrow> get_info obj;
     let cp = uart_ctrl i;
     c \<leftarrow> get_ctrl cp;
     let base = dw_uart_regbase c;
     if ctrl_cmd = UART_CMD_SET_BAUD then
       check_exp (param > 0) E_PAR (
         if param \<noteq> ui_baudrate i then
           (if param * 16 = 0 then stopE Undef
            else okE (do {
              dw_uart_set_baud p base (uc_bus_freq c div (param * 16));
              upd_info obj (\<lambda>i. i\<lparr>ui_baudrate := param\<rparr>)
            }))
         else retE E_OK)
     else if ctrl_cmd = UART_CMD_GET_STATUS then
       check_exp (param \<noteq> 0 \<and> aligned4 param) E_PAR (okE (st32 param (ui_status i)))
     else if ctrl_cmd = UART_CMD_ENA_DEV then okE (dw_uart_enable_device p obj)
     else if ctrl_cmd = UART_CMD_DIS_DEV then okE (dw_uart_disable_device p obj)
     else if ctrl_cmd = UART_CMD_FLUSH_OUTPUT then
       bindE (dw_uart_flush_output p fuel obj) (\<lambda>_. retE E_OK)
     else if ctrl_cmd = UART_CMD_GET_RXAVAIL then
       check_exp (param \<noteq> 0 \<and> aligned4 param) E_PAR
         (okE (do { v \<leftarrow> dw_uart_get_rxavail p cp; st32 param v }))
     else if ctrl_cmd = UART_CMD_GET_TXAVAIL then
       check_exp (param \<noteq> 0 \<and> aligned4 param) E_PAR
         (okE (do { v \<leftarrow> dw_uart_get_txavail p cp; st32 param v }))
     else if ctrl_cmd = UART_CMD_BREAK_SET then okE (dw_uart_set_break p base)
     else if ctrl_cmd = UART_CMD_BREAK_CLR then okE (dw_uart_clr_break p base)
     else if ctrl_cmd = UART_CMD_SET_DPS_FORMAT then
       check_exp (param \<noteq> 0) E_PAR (do {
         db \<leftarrow> ld32 param; pa \<leftarrow> ld32 (param + 4); sb \<leftarrow> ld32 (param + 8);
         let dps = \<lparr>databits = db, parity = pa, stopbits = sb\<rparr>;
         r \<leftarrow> dw_uart_set_dps p base dps;
         if r = 0 then okE (upd_info obj (\<lambda>i. i\<lparr>dps_format := dps\<rparr>))
         else retE E_PAR
       })
     else if ctrl_cmd = UART_CMD_SET_HWFC then
       check_exp (param \<le> 3) E_PAR (okE (do {
         dw_uart_set_hwfc p base param;
         upd_info obj (\<lambda>i. i\<lparr>hwfc := param\<rparr>)
       }))
     else if ctrl_cmd = UART_CMD_SET_TXCB then
       check_exp (aligned4 param) E_PAR (okE (upd_info obj (\<lambda>i. i\<lparr>ui_tx_cb := param\<rparr>)))
     else if ctrl_cmd = UART_CMD_SET_RXCB then
       check_exp (aligned4 param) E_PAR (okE (upd_info obj (\<lambda>i. i\<lparr>ui_rx_cb := param\<rparr>)))
     else if ctrl_cmd = UART_CMD_SET_ERRCB then
       check_exp (aligned4 param) E_PAR (okE (upd_info obj (\<lambda>i. i\<lparr>ui_err_cb := param\<rparr>)))
     else if ctrl_cmd = UART_CMD_ABORT_TX then okE (dw_uart_abort_tx p cb obj)
     else if ctrl_cmd = UART_CMD_ABORT_RX then okE (dw_uart_abort_rx p cb obj)
     else if ctrl_cmd = UART_CMD_SET_TXINT then
       okE (if param = 0 then dw_uart_dis_cbr p obj DW_UART_RDY_SND
            else dw_uart_ena_cbr p obj DW_UART_RDY_SND)
     else if ctrl_cmd = UART_CMD_SET_RXINT then
       okE (if param = 0 then dw_uart_dis_cbr p obj DW_UART_RDY_RCV
            else dw_uart_ena_cbr p obj DW_UART_RDY_RCV)
     else if ctrl_cmd = UART_CMD_SET_TXINT_BUF then
       check_exp (aligned4 param) E_PAR (do {
         s \<leftarrow> State_Monad.get;
         okE (upd_info obj (\<lambda>i. i\<lparr>ui_tx_buf :=
           (if param \<noteq> 0 then (load_buffer (mem s) param)\<lparr>ofs := 0\<rparr> else null_buffer)\<rparr>))
       })
     else if ctrl_cmd = UART_CMD_SET_RXINT_BUF then
       check_exp (aligned4 param) E_PAR (do {
         s \<leftarrow> State_Monad.get;
         okE (upd_info obj (\<lambda>i. i\<lparr>ui_rx_buf :=
           (if param \<noteq> 0 then (load_buffer (mem s) param)\<lparr>ofs := 0\<rparr> else null_buffer)\<rparr>))
       })
     else retE E_NOSPT
   }"

definition dw_uart_control ::
  "plat \<Rightarrow> nat \<Rightarrow> 'a callback \<Rightarrow> u32 \<Rightarrow> u32 \<Rightarrow> u32 \<Rightarrow> ('a, s32 res) uop" where
  "dw_uart_control p fuel cb obj ctrl_cmd param = do {
     s \<leftarrow> State_Monad.get;
     check_exp (uart_valid s obj) E_OBJ (
     check_exp (ui_opn_cnt (uinfo s obj) > 0) E_CLSED (
       if ui_status (uinfo s obj) AND DEV_ENABLED = 0 \<and> ctrl_cmd \<noteq> UART_CMD_ENA_DEV
          \<and> ctrl_cmd \<noteq> UART_CMD_DIS_DEV \<and> ctrl_cmd \<noteq> UART_CMD_GET_STATUS
       then retE E_SYS
       else uart_command p fuel cb obj ctrl_cmd param))
   }"

subsection \<open>Blocking write and read\<close>

text \<open>
  \<open>while (i < len)\<close> with the signed counter \<open>i\<close> and \<open>n\<close> iterations to go; incrementing
  \<open>INT_MAX\<close> is undefined.
\<close>

primrec uart_send_loop :: "nat \<Rightarrow> plat \<Rightarrow> nat \<Rightarrow> u32 \<Rightarrow> u32 \<Rightarrow> s32 \<Rightarrow> ('a, s32 res) uop" where
  "uart_send_loop 0 p fuel base data i = retE i"
| "uart_send_loop (Suc n) p fuel base data i = (
     if i = 0x7fffffff then stopE Undef
     else bindE (liftE (ld8 (data + i))) (\<lambda>c.
          bindE (dw_uart_psnd_chr p fuel base c) (\<lambda>_.
          uart_send_loop n p fuel base data (i + 1))))"

primrec uart_recv_loop :: "nat \<Rightarrow> plat \<Rightarrow> nat \<Rightarrow> u32 \<Rightarrow> u32 \<Rightarrow> s32 \<Rightarrow> ('a, s32 res) uop" where
  "uart_recv_loop 0 p fuel base data i = retE i"
| "uart_recv_loop (Suc n) p fuel base data i = (
     if i = 0x7fffffff then stopE Undef
     else bindE (dw_uart_prcv_chr p fuel base) (\<lambda>c.
          bindE (liftE (st8 (data + i) (ucast c))) (\<lambda>_.
          uart_recv_loop n p fuel base data (i + 1))))"

definition dw_uart_write :: "plat \<Rightarrow> nat \<Rightarrow> u32 \<Rightarrow> u32 \<Rightarrow> u32 \<Rightarrow> ('a, s32 res) uop" where
  "dw_uart_write p fuel obj data len = do {
     s \<leftarrow> State_Monad.get;
     check_exp (uart_valid s obj) E_OBJ (
     check_exp (ui_opn_cnt (uinfo s obj) > 0) E_CLSED (
     check_exp (ui_status (uinfo s obj) AND DEV_ENABLED \<noteq> 0) E_SYS (
     check_exp (data \<noteq> 0) E_PAR (
     check_exp (len > 0) E_PAR (
       uart_send_loop (unat len) p fuel (uart_base s obj) data 0)))))
   }"

definition dw_uart_read :: "plat \<Rightarrow> nat \<Rightarrow> u32 \<Rightarrow> u32 \<Rightarrow> u32 \<Rightarrow> ('a, s32 res) uop" where
  "dw_uart_read p fuel obj data len = do {
     s \<leftarrow> State_Monad.get;
     check_exp (uart_valid s obj) E_OBJ (
     check_exp (ui_opn_cnt (uinfo s obj) > 0) E_CLSED (
     check_exp (ui_status (uinfo s obj) AND DEV_ENABLED \<noteq> 0) E_SYS (
     check_exp (data \<noteq> 0) E_PAR (
     check_exp (len > 0) E_PAR (
       uart_recv_loop (unat len) p fuel (uart_base s obj) data 0)))))
   }"

subsection \<open>The interrupt routine\<close>

text \<open>
  The transmit loop of \<open>dw_uart_isr\<close>; \<open>buf_ptr\<close> points into the info object, so the offset
  is read and advanced there, and it is cleared after the callback.
\<close>

primrec isr_tx_loop ::
  "nat \<Rightarrow> plat \<Rightarrow> 'a callback \<Rightarrow> u32 \<Rightarrow> u32 \<Rightarrow> u32 \<Rightarrow> ('a, unit res) uop" where
  "isr_tx_loop 0 p cb obj base buffer = stopE Hang"
| "isr_tx_loop (Suc n) p cb obj base buffer =
     bindE (liftE (dw_uart_putready p base)) (\<lambda>ready.
       if \<not> ready then retE ()
       else
         bindE (liftE (do {
           i \<leftarrow> get_info obj;
           c \<leftarrow> ld8 (buffer + ofs (ui_tx_buf i));
           dw_uart_putchar p base c;
           upd_info obj (\<lambda>i. i\<lparr>ui_tx_buf := (ui_tx_buf i)\<lparr>ofs := ofs (ui_tx_buf i) + 1\<rparr>\<rparr>);
           get_info obj
         })) (\<lambda>i.
         if ofs (ui_tx_buf i) \<ge> blen (ui_tx_buf i) then
           liftE (do {
             dw_uart_dis_cbr p obj DW_UART_RDY_SND;
             i \<leftarrow> get_info obj;
             c_if (ui_tx_cb i \<noteq> 0) (cb (ui_tx_cb i) obj);
             upd_info obj (\<lambda>i. i\<lparr>ui_tx_buf := null_buffer\<rparr>)
           })
         else isr_tx_loop n p cb obj base buffer))"

primrec isr_rx_loop ::
  "nat \<Rightarrow> plat \<Rightarrow> 'a callback \<Rightarrow> u32 \<Rightarrow> u32 \<Rightarrow> u32 \<Rightarrow> ('a, unit res) uop" where
  "isr_rx_loop 0 p cb obj base buffer = stopE Hang"
| "isr_rx_loop (Suc n) p cb obj base buffer =
     bindE (liftE (dw_uart_getready p base)) (\<lambda>ready.
       if \<not> ready then retE ()
       else
         bindE (liftE (do {
           c \<leftarrow> dw_uart_getchar p base;
           i \<leftarrow> get_info obj;
           st8 (buffer + ofs (ui_rx_buf i)) (ucast c);
           upd_info obj (\<lambda>i. i\<lparr>ui_rx_buf := (ui_rx_buf i)\<lparr>ofs := ofs (ui_rx_buf i) + 1\<rparr>\<rparr>);
           get_info obj
         })) (\<lambda>i.
         if ofs (ui_rx_buf i) \<ge> blen (ui_rx_buf i) then
           liftE (do {
             dw_uart_dis_cbr p obj DW_UART_RDY_RCV;
             i \<leftarrow> get_info obj;
             c_if (ui_rx_cb i \<noteq> 0) (cb (ui_rx_cb i) obj);
             upd_info obj (\<lambda>i. i\<lparr>ui_rx_buf := null_buffer\<rparr>)
           })
         else isr_rx_loop n p cb obj base buffer))"

definition dw_uart_isr :: "plat \<Rightarrow> nat \<Rightarrow> 'a callback \<Rightarrow> u32 \<Rightarrow> ('a, unit res) uop" where
  "dw_uart_isr p fuel cb obj = do {
     s \<leftarrow> State_Monad.get;
     c_ifE (uart_valid s obj) (
       let base = uart_base s obj in
       bindE (liftE (mmio_rd p (base + UART_IIR))) (\<lambda>iir.
       let uart_int_status = iir AND 0x0f in
       if uart_int_status = 0x00 then
         liftE (do { _ \<leftarrow> mmio_rd p (base + UART_MSR); State_Monad.return () })
       else if uart_int_status = 0x06 then
         liftE (do {
           i \<leftarrow> get_info obj;
           c_if (ui_err_cb i \<noteq> 0) (cb (ui_err_cb i) obj);
           _ \<leftarrow> mmio_rd p (base + UART_LSR);
           State_Monad.return ()
         })
       else if uart_int_status = 0x02 then
         bindE (liftE (get_info obj)) (\<lambda>i.
           if buf (ui_tx_buf i) \<noteq> 0 then isr_tx_loop fuel p cb obj base (buf (ui_tx_buf i))
           else liftE (c_if (ui_tx_cb i \<noteq> 0) (cb (ui_tx_cb i) obj)))
       else if uart_int_status = 0x0c then
         liftE (do { _ \<leftarrow> dw_uart_getchar p base; State_Monad.return () })
       else if uart_int_status = 0x04 then
         bindE (liftE (get_info obj)) (\<lambda>i.
           if buf (ui_rx_buf i) \<noteq> 0 then isr_rx_loop fuel p cb obj base (buf (ui_rx_buf i))
           else liftE (c_if (ui_rx_cb i \<noteq> 0) (cb (ui_rx_cb i) obj)))
       else liftE (do { _ \<leftarrow> mmio_rd p (base + UART_USR); State_Monad.return () })))
   }"

end
