(* ===== verification/UartProofs.thy ===== *)
theory UartProofs
  imports DwUart
begin

section \<open>What the UART driver guarantees\<close>

text \<open>
  Over the definitions of \<open>DwUart\<close>: the effect of the interrupt-enable helpers on
  \<open>int_status\<close>, the frame of every helper that only touches registers and memory, the
  invariant of an open or closed device under every operation and any callback that keeps
  it, the open-count contract, and the functional behaviour of write, read, the transmit
  interrupt and the line settings.
\<close>

subsection \<open>Frames\<close>

text \<open>A program that changes no driver object.\<close>

definition uart_frame :: "('a, 'r) uop \<Rightarrow> bool" where
  "uart_frame m \<longleftrightarrow> (\<forall>s. wp m (\<lambda>_ t. uinfo t = uinfo s \<and> uctrl t = uctrl s) s)"

lemma uart_frameD: "uart_frame m \<Longrightarrow> run_state m s = (r, t) \<Longrightarrow> uinfo t = uinfo s \<and> uctrl t = uctrl s"
  by (simp add: uart_frame_def wp_def) (metis snd_conv)

lemma uart_frame_prim [intro!]:
  "uart_frame (State_Monad.return x)" "uart_frame (retE x)" "uart_frame (stopE w)"
  "uart_frame State_Monad.get" "uart_frame (mmio_rd p a)" "uart_frame (mmio_wr a v)"
  "uart_frame (mmio_or p a v)" "uart_frame (mmio_and p a v)" "uart_frame (arc_aux_read p a)"
  "uart_frame (arc_aux_write a v)" "uart_frame (ld8 a)" "uart_frame (st8 a b)"
  "uart_frame (ld32 a)" "uart_frame (st32 a v)" "uart_frame (get_info obj)" "uart_frame (get_ctrl c)"
  by (simp_all add: uart_frame_def wp_def Let_def)

lemma uart_frame_bind [intro!]:
  assumes "uart_frame m" "\<And>x. uart_frame (f x)"
  shows "uart_frame (State_Monad.bind m f)"
proof -
  have "wp (State_Monad.bind m f) (\<lambda>_ t. uinfo t = uinfo s \<and> uctrl t = uctrl s) s" for s
  proof -
    obtain x u where u: "run_state m s = (x, u)" by fastforce
    obtain y t where t: "run_state (f x) u = (y, t)" by fastforce
    show ?thesis
      using uart_frameD [OF assms(1) u] uart_frameD [OF assms(2) t] u t by (simp add: wp_def)
  qed
  then show ?thesis by (simp add: uart_frame_def)
qed

lemma uart_frame_bindE [intro!]:
  assumes "uart_frame m" "\<And>x. uart_frame (f x)"
  shows "uart_frame (bindE m f)"
  unfolding bindE_def using assms by (intro uart_frame_bind) (auto split: sum.split)

lemma uart_frame_liftE [intro!]: "uart_frame m \<Longrightarrow> uart_frame (liftE m)"
  unfolding liftE_def by auto

lemma uart_frame_if [intro!]:
  "(b \<Longrightarrow> uart_frame m) \<Longrightarrow> (\<not> b \<Longrightarrow> uart_frame n) \<Longrightarrow> uart_frame (if b then m else n)"
  by simp

lemma uart_frame_c_if [intro!]: "(b \<Longrightarrow> uart_frame m) \<Longrightarrow> uart_frame (c_if b m)"
  by (auto simp: c_if_def)

lemma uart_frame_c_ifE [intro!]: "(b \<Longrightarrow> uart_frame m) \<Longrightarrow> uart_frame (c_ifE b m)"
  by (auto simp: c_ifE_def)

lemma uart_frame_spin [intro!]: "uart_frame c \<Longrightarrow> uart_frame (spin n c)"
  by (induction n) auto

lemma uart_frame_helpers [intro!]:
  "uart_frame (dw_uart_putready p base)" "uart_frame (dw_uart_getready p base)"
  "uart_frame (dw_uart_putchar p base c)" "uart_frame (dw_uart_getchar p base)"
  "uart_frame (dw_uart_psnd_chr p fuel base c)" "uart_frame (dw_uart_prcv_chr p fuel base)"
  "uart_frame (dw_uart_set_dps p base dps)" "uart_frame (dw_uart_set_baud p base b)"
  "uart_frame (dw_uart_set_hwfc p base fc)" "uart_frame (dw_uart_software_reset p fuel base)"
  "uart_frame (dw_uart_set_break p base)" "uart_frame (dw_uart_clr_break p base)"
  "uart_frame (dw_uart_init p fuel base d dps fc)"
  "uart_frame (dw_uart_get_txavail p cp)" "uart_frame (dw_uart_get_rxavail p cp)"
  "uart_frame (int_enable p n)" "uart_frame (int_disable p n)"
  unfolding dw_uart_putready_def dw_uart_getready_def dw_uart_putchar_def dw_uart_getchar_def
    dw_uart_psnd_chr_def dw_uart_prcv_chr_def dw_uart_set_dps_def dw_uart_set_baud_def
    dw_uart_set_hwfc_def dw_uart_software_reset_def dw_uart_set_break_def dw_uart_clr_break_def
    dw_uart_init_def dw_uart_get_txavail_def dw_uart_get_rxavail_def
    int_enable_def int_disable_def arc_int_enable_def arc_int_disable_def Let_def
  by auto

lemma uart_frame_loops [intro!]:
  "uart_frame (psnd_chars n p fuel base a)" "uart_frame (uart_send_loop n p fuel base d i)"
  "uart_frame (uart_recv_loop n p fuel base d i)"
proof -
  show "uart_frame (psnd_chars n p fuel base a)" by (induction n arbitrary: a) auto
  show "uart_frame (uart_send_loop n p fuel base d i)" by (induction n arbitrary: i) auto
  show "uart_frame (uart_recv_loop n p fuel base d i)" by (induction n arbitrary: i) auto
qed

lemma uart_frame_handler [intro!]: "uart_frame (int_handler_install p n h)"
  unfolding int_handler_install_def exc_handler_install_def
  by (auto simp: uart_frame_def wp_def)

subsection \<open>The interrupt status word\<close>

text \<open>What \<open>dw_uart_dis_cbr\<close> and \<open>dw_uart_ena_cbr\<close> do to it.\<close>

definition cbr_bit :: "u32 \<Rightarrow> u32" where
  "cbr_bit k = (if k = DW_UART_RDY_SND then TXINT_ENABLE else if k = DW_UART_RDY_RCV then RXINT_ENABLE else 0)"

definition int_off :: "u32 \<Rightarrow> u32 \<Rightarrow> u32" where
  "int_off k st = (let st = st AND NOT (cbr_bit k)
     in if st AND GINT_ENABLE \<noteq> 0 \<and> st AND (RXINT_ENABLE OR TXINT_ENABLE) = 0
        then st AND NOT GINT_ENABLE else st)"

definition int_on :: "u32 \<Rightarrow> u32 \<Rightarrow> u32" where
  "int_on k st = (let st = st OR cbr_bit k
     in if st AND GINT_ENABLE = 0 \<and> st AND (RXINT_ENABLE OR TXINT_ENABLE) \<noteq> 0
        then st OR GINT_ENABLE else st)"

text \<open>The global enable is on exactly when one of the two directions is.\<close>

definition int_good :: "u32 \<Rightarrow> bool" where
  "int_good st \<longleftrightarrow> (bit st 0 \<longleftrightarrow> bit st 1 \<or> bit st 2)"

lemma and_6_eq_0 [flag_simps]: "(x :: u32) AND 6 = 0 \<longleftrightarrow> \<not> bit x 1 \<and> \<not> bit x 2"
proof -
  have "x AND 6 = (x AND 2) OR (x AND 4)" by (simp add: bit.conj_disj_distrib [symmetric])
  then show ?thesis by (simp add: or_eq_0_iff and_2_eq_0 and_4_eq_0)
qed

lemma small_bits [flag_simps]:
  "bit (1 :: u32) 0" "\<not> bit (1 :: u32) 1" "\<not> bit (1 :: u32) 2"
  "\<not> bit (2 :: u32) 0" "bit (2 :: u32) 1" "\<not> bit (2 :: u32) 2"
  "\<not> bit (4 :: u32) 0" "\<not> bit (4 :: u32) 1" "bit (4 :: u32) 2"
  "bit (7 :: u32) 0" "bit (7 :: u32) 1" "bit (7 :: u32) 2"
  "\<not> bit (6 :: u32) 0" "bit (6 :: u32) 1" "bit (6 :: u32) 2"
  by code_simp+

lemma int_off_bits:
  "bit (int_off k st) 1 = (bit st 1 \<and> k \<noteq> DW_UART_RDY_SND)"
  "bit (int_off k st) 2 = (bit st 2 \<and> k \<noteq> DW_UART_RDY_RCV)"
  "int_good st \<Longrightarrow> int_good (int_off k st)"
  by (auto simp: int_off_def cbr_bit_def Let_def int_good_def flag_simps bit_simps)

lemma int_on_bits:
  "bit (int_on k st) 1 = (bit st 1 \<or> k = DW_UART_RDY_SND)"
  "bit (int_on k st) 2 = (bit st 2 \<or> k = DW_UART_RDY_RCV)"
  "int_good st \<Longrightarrow> int_good (int_on k st)"
  by (auto simp: int_on_def cbr_bit_def Let_def int_good_def flag_simps bit_simps)

lemma dis_cbr_wp:
  fixes s :: "'a uart_mach_scheme"
  shows "wp (dw_uart_dis_cbr p obj k) (\<lambda>_ t. uinfo t = uinfo s
    \<and> uctrl t = (uctrl s)(uart_ctrl (uinfo s obj) := (uctrl s (uart_ctrl (uinfo s obj)))
        \<lparr>int_status := int_off k (int_status (uctrl s (uart_ctrl (uinfo s obj))))\<rparr>)) s"
  by (simp add: dw_uart_dis_cbr_def int_disable_def arc_int_disable_def wp_rules Let_def
      int_off_def cbr_bit_def)

lemma ena_cbr_wp:
  fixes s :: "'a uart_mach_scheme"
  shows "wp (dw_uart_ena_cbr p obj k) (\<lambda>_ t. uinfo t = uinfo s
    \<and> uctrl t = (uctrl s)(uart_ctrl (uinfo s obj) := (uctrl s (uart_ctrl (uinfo s obj)))
        \<lparr>int_status := int_on k (int_status (uctrl s (uart_ctrl (uinfo s obj))))\<rparr>)) s"
  by (simp add: dw_uart_ena_cbr_def int_enable_def arc_int_enable_def wp_rules Let_def
      int_on_def cbr_bit_def mmio_or_def)

subsection \<open>The device invariant\<close>

text \<open>
  Interrupt status consistent; and a closed device is disabled, interrupt-free, without
  buffers or callbacks.
\<close>

definition uart_closed :: "dev_uart_info \<Rightarrow> u32 \<Rightarrow> bool" where
  "uart_closed i st \<longleftrightarrow> ui_status i = 0 \<and> \<not> bit st 0 \<and> ui_tx_buf i = null_buffer
     \<and> ui_rx_buf i = null_buffer \<and> ui_tx_cb i = 0 \<and> ui_rx_cb i = 0 \<and> ui_err_cb i = 0"

definition uart_inv :: "u32 \<Rightarrow> 'a uart_mach_scheme \<Rightarrow> bool" where
  "uart_inv obj s \<longleftrightarrow>
     int_good (int_status (uctrl s (uart_ctrl (uinfo s obj))))
     \<and> (ui_opn_cnt (uinfo s obj) = 0
         \<longrightarrow> uart_closed (uinfo s obj) (int_status (uctrl s (uart_ctrl (uinfo s obj)))))"

definition uart_open_inv :: "u32 \<Rightarrow> 'a uart_mach_scheme \<Rightarrow> bool" where
  "uart_open_inv obj s \<longleftrightarrow> uart_inv obj s \<and> ui_opn_cnt (uinfo s obj) \<noteq> 0"

lemma uart_open_inv_alt:
  "uart_open_inv obj s \<longleftrightarrow>
     int_good (int_status (uctrl s (uart_ctrl (uinfo s obj)))) \<and> ui_opn_cnt (uinfo s obj) \<noteq> 0"
  by (auto simp: uart_open_inv_def uart_inv_def)

lemma frame_wp:
  assumes "uart_frame m" "\<And>r t. uinfo t = uinfo s \<Longrightarrow> uctrl t = uctrl s \<Longrightarrow> Q r t"
  shows "wp m Q s"
  by (rule wpI) (use assms in \<open>auto dest: uart_frameD\<close>)

lemma preserves_frame: "uart_frame m \<Longrightarrow> preserves (uart_inv obj) m"
  by (rule preservesI, rule frame_wp) (auto simp: uart_inv_def)

lemma preserves_open_frame: "uart_frame m \<Longrightarrow> preserves (uart_open_inv obj) m"
  by (rule preservesI, rule frame_wp) (auto simp: uart_inv_def uart_open_inv_def)

lemmas frame_prims =
  uart_frame_prim [THEN preserves_frame] uart_frame_helpers [THEN preserves_frame]

lemmas open_frame_prims =
  uart_frame_prim [THEN preserves_open_frame] uart_frame_helpers [THEN preserves_open_frame]

lemma open_inv_upd [intro!]:
  assumes "\<And>i. uart_ctrl (f i) = uart_ctrl i" "\<And>i. ui_opn_cnt (f i) = ui_opn_cnt i"
  shows "preserves (uart_open_inv obj) (upd_info obj f)"
  using assms by (auto simp: preserves_def wp_rules uart_open_inv_alt)

lemma open_inv_cbr [intro!]:
  "preserves (uart_open_inv obj) (dw_uart_dis_cbr p obj k)"
  "preserves (uart_open_inv obj) (dw_uart_ena_cbr p obj k)"
  by (rule preservesI, rule wp_mono [OF dis_cbr_wp], simp add: uart_open_inv_alt int_off_bits)
     (rule preservesI, rule wp_mono [OF ena_cbr_wp], simp add: uart_open_inv_alt int_on_bits)

lemma open_inv_devices [intro!]:
  "preserves (uart_open_inv obj) (dw_uart_enable_device p obj)"
  "preserves (uart_open_inv obj) (dw_uart_disable_device p obj)"
  "preserves (uart_open_inv obj) (dw_uart_flush_output p fuel obj)"
  unfolding dw_uart_enable_device_def dw_uart_disable_device_def dw_uart_flush_output_def Let_def
  by (intro preserves_bind preserves_bindE preserves_c_if preserves_c_ifE preserves_liftE
      open_inv_upd preserves_open_frame uart_frame_prim uart_frame_helpers uart_frame_loops
      uart_frame_spin uart_frame_bind; simp)+

text \<open>From the open invariant to the invariant, and through a callback.\<close>

lemma open_to_inv: "preserves (uart_open_inv obj) m \<Longrightarrow> uart_open_inv obj s \<Longrightarrow> wp m (\<lambda>_. uart_inv obj) s"
  by (drule (1) preservesD, erule wp_mono) (simp add: uart_open_inv_def)

lemma inv_upd:
  assumes "\<And>i. uart_ctrl (f i) = uart_ctrl i" "\<And>i. ui_opn_cnt (f i) = ui_opn_cnt i"
    and "\<And>i st. uart_closed i st \<Longrightarrow> uart_closed (f i) st"
  shows "preserves (uart_inv obj) (upd_info obj f)"
  using assms by (auto simp: preserves_def wp_rules uart_inv_def)

lemma callback_then:
  assumes cb: "\<And>f a. preserves (uart_inv obj) (cb f a)"
    and f: "\<And>i. uart_ctrl (f i) = uart_ctrl i" "\<And>i. ui_opn_cnt (f i) = ui_opn_cnt i"
      "\<And>i st. uart_closed i st \<Longrightarrow> uart_closed (f i) st"
  shows "preserves (uart_inv obj) (do { c_if b (cb fp obj); upd_info obj f })"
  using assms by (intro preserves_bind preserves_c_if inv_upd) auto

lemma and_not_0: "0 AND NOT m = (0 :: u32)"
  by simp

lemma inv_abort:
  fixes cb :: "'a callback"
  assumes cb: "\<And>f a. preserves (uart_inv obj) (cb f a)"
  shows "preserves (uart_inv obj) (dw_uart_abort_tx p cb obj)"
    and "preserves (uart_inv obj) (dw_uart_abort_rx p cb obj)"
proof -
  have tail: "preserves (uart_inv obj) (do { i \<leftarrow> get_info obj; c_if (g i) (cb (h i) obj);
      upd_info obj (\<lambda>i. i\<lparr>ui_status := ui_status i AND NOT m\<rparr>) })" for g h m
    by (intro preserves_bind frame_prims callback_then [where cb = cb, OF cb])
       (auto simp: uart_closed_def)
  show "preserves (uart_inv obj) (dw_uart_abort_tx p cb obj)"
  proof (rule preservesI)
    fix s :: "'a uart_mach_scheme" assume inv: "uart_inv obj s"
    show "wp (dw_uart_abort_tx p cb obj) (\<lambda>_. uart_inv obj) s"
    proof (cases "int_status (uctrl s (uart_ctrl (uinfo s obj))) AND TXINT_ENABLE = 0")
      case True
      then show ?thesis using inv by (simp add: dw_uart_abort_tx_def wp_rules)
    next
      case False
      then have "uart_open_inv obj s"
        using inv by (auto simp: uart_open_inv_def uart_inv_def uart_closed_def int_good_def and_2_eq_0)
      then have "wp (do { dw_uart_dis_cbr p obj DW_UART_RDY_SND;
            upd_info obj (\<lambda>i. i\<lparr>ui_status := ui_status i OR DEV_IN_TX_ABRT\<rparr>) }) (\<lambda>_. uart_inv obj) s"
        by (intro open_to_inv preserves_bind open_inv_cbr open_inv_upd) simp_all
      then have "wp (do { dw_uart_dis_cbr p obj DW_UART_RDY_SND;
            upd_info obj (\<lambda>i. i\<lparr>ui_status := ui_status i OR DEV_IN_TX_ABRT\<rparr>) })
          (\<lambda>_. wp (do { i \<leftarrow> get_info obj; c_if (ui_tx_cb i \<noteq> 0) (cb (ui_tx_cb i) obj);
            upd_info obj (\<lambda>i. i\<lparr>ui_status := ui_status i AND NOT DEV_IN_TX_ABRT\<rparr>) })
              (\<lambda>_. uart_inv obj)) s"
        by (rule wp_mono) (rule preservesD [OF tail])
      with False show ?thesis
        unfolding dw_uart_abort_tx_def by (simp only: wp_bind_ext wp_uart_heap(1,2) wp_c_if simp_thms if_True)
    qed
  qed
  show "preserves (uart_inv obj) (dw_uart_abort_rx p cb obj)"
  proof (rule preservesI)
    fix s :: "'a uart_mach_scheme" assume inv: "uart_inv obj s"
    show "wp (dw_uart_abort_rx p cb obj) (\<lambda>_. uart_inv obj) s"
    proof (cases "int_status (uctrl s (uart_ctrl (uinfo s obj))) AND RXINT_ENABLE = 0")
      case True
      then show ?thesis using inv by (simp add: dw_uart_abort_rx_def wp_rules)
    next
      case False
      then have "uart_open_inv obj s"
        using inv by (auto simp: uart_open_inv_def uart_inv_def uart_closed_def int_good_def and_4_eq_0)
      then have "wp (do { dw_uart_dis_cbr p obj DW_UART_RDY_RCV;
            upd_info obj (\<lambda>i. i\<lparr>ui_status := ui_status i OR DEV_IN_RX_ABRT\<rparr>) }) (\<lambda>_. uart_inv obj) s"
        by (intro open_to_inv preserves_bind open_inv_cbr open_inv_upd) simp_all
      then have "wp (do { dw_uart_dis_cbr p obj DW_UART_RDY_RCV;
            upd_info obj (\<lambda>i. i\<lparr>ui_status := ui_status i OR DEV_IN_RX_ABRT\<rparr>) })
          (\<lambda>_. wp (do { i \<leftarrow> get_info obj; c_if (ui_rx_cb i \<noteq> 0) (cb (ui_rx_cb i) obj);
            upd_info obj (\<lambda>i. i\<lparr>ui_status := ui_status i AND NOT DEV_IN_RX_ABRT\<rparr>) })
              (\<lambda>_. uart_inv obj)) s"
        by (rule wp_mono) (rule preservesD [OF tail])
      with False show ?thesis
        unfolding dw_uart_abort_rx_def by (simp only: wp_bind_ext wp_uart_heap(1,2) wp_c_if simp_thms if_True)
    qed
  qed
qed

lemma inv_callback_if:
  assumes cb: "\<And>f a. preserves (uart_inv obj) (cb f a)"
  shows "preserves (uart_inv obj) (c_if b (cb fp obj))"
  using cb by auto

lemma open_inv_okE [intro!]:
  "preserves (uart_open_inv obj) m \<Longrightarrow> preserves (uart_open_inv obj) (okE m)"
  unfolding okE_def by (intro preserves_liftE preserves_bind preserves_return)

lemma inv_okE: "preserves (uart_inv obj) m \<Longrightarrow> preserves (uart_inv obj) (okE m)"
  unfolding okE_def by (intro preserves_liftE preserves_bind preserves_return)

text \<open>Every command of an open device, except the two aborts, keeps it open.\<close>

lemma open_inv_command:
  assumes "ctrl_cmd \<noteq> UART_CMD_ABORT_TX" "ctrl_cmd \<noteq> UART_CMD_ABORT_RX"
  shows "preserves (uart_open_inv obj) (uart_command p fuel cb obj ctrl_cmd param)"
  using assms unfolding uart_command_def Let_def
  by (intro preserves_bind preserves_if preserves_check_exp open_inv_okE preserves_bindE
      open_inv_devices open_inv_cbr open_inv_upd open_frame_prims preserves_retE preserves_stopE) simp_all

lemma inv_command:
  fixes cb :: "'a callback"
  assumes cb: "\<And>f a. preserves (uart_inv obj) (cb f a)" and s: "uart_open_inv obj s"
  shows "wp (uart_command p fuel cb obj ctrl_cmd param) (\<lambda>_. uart_inv obj) s"
proof -
  have inv: "uart_inv obj s" using s by (simp add: uart_open_inv_def)
  consider "ctrl_cmd = UART_CMD_ABORT_TX" | "ctrl_cmd = UART_CMD_ABORT_RX"
    | "ctrl_cmd \<noteq> UART_CMD_ABORT_TX" "ctrl_cmd \<noteq> UART_CMD_ABORT_RX" by blast
  then show ?thesis
  proof cases
    case 1
    then show ?thesis
      using preservesD [OF inv_okE [OF inv_abort(1) [where cb = cb, OF cb]] inv]
      by (simp add: uart_command_def wp_rules Let_def)
  next
    case 2
    then show ?thesis
      using preservesD [OF inv_okE [OF inv_abort(2) [where cb = cb, OF cb]] inv]
      by (simp add: uart_command_def wp_rules Let_def)
  next
    case 3
    then show ?thesis by (intro open_to_inv open_inv_command s)
  qed
qed

lemma inv_control:
  fixes cb :: "'a callback"
  assumes cb: "\<And>f a. preserves (uart_inv obj) (cb f a)"
  shows "preserves (uart_inv obj) (dw_uart_control p fuel cb obj ctrl_cmd param)"
proof (rule preservesI)
  fix s :: "'a uart_mach_scheme" assume "uart_inv obj s"
  then show "wp (dw_uart_control p fuel cb obj ctrl_cmd param) (\<lambda>_. uart_inv obj) s"
    using inv_command [where cb = cb, OF cb]
    by (simp add: dw_uart_control_def wp_rules uart_open_inv_def word_neq_0_conv [symmetric])
qed

subsection \<open>The interrupt routine keeps the invariant\<close>

lemma inv_tx_done:
  fixes cb :: "'a callback"
  assumes cb: "\<And>f a. preserves (uart_inv obj) (cb f a)" and s: "uart_open_inv obj s"
  shows "wp (do { dw_uart_dis_cbr p obj DW_UART_RDY_SND; i \<leftarrow> get_info obj;
      c_if (ui_tx_cb i \<noteq> 0) (cb (ui_tx_cb i) obj);
      upd_info obj (\<lambda>i. i\<lparr>ui_tx_buf := null_buffer\<rparr>) }) (\<lambda>_. uart_inv obj) s"
proof -
  have "wp (dw_uart_dis_cbr p obj DW_UART_RDY_SND) (\<lambda>_. uart_inv obj) s"
    by (intro open_to_inv open_inv_cbr s)
  then show ?thesis
    by (subst wp_bind, rule wp_mono)
       (rule preservesD, intro preserves_bind frame_prims callback_then [where cb = cb, OF cb],
        auto simp: uart_closed_def)
qed

lemma inv_rx_done:
  fixes cb :: "'a callback"
  assumes cb: "\<And>f a. preserves (uart_inv obj) (cb f a)" and s: "uart_open_inv obj s"
  shows "wp (do { dw_uart_dis_cbr p obj DW_UART_RDY_RCV; i \<leftarrow> get_info obj;
      c_if (ui_rx_cb i \<noteq> 0) (cb (ui_rx_cb i) obj);
      upd_info obj (\<lambda>i. i\<lparr>ui_rx_buf := null_buffer\<rparr>) }) (\<lambda>_. uart_inv obj) s"
proof -
  have "wp (dw_uart_dis_cbr p obj DW_UART_RDY_RCV) (\<lambda>_. uart_inv obj) s"
    by (intro open_to_inv open_inv_cbr s)
  then show ?thesis
    by (subst wp_bind, rule wp_mono)
       (rule preservesD, intro preserves_bind frame_prims callback_then [where cb = cb, OF cb],
        auto simp: uart_closed_def)
qed

text \<open>A prefix that keeps the device open, then a continuation.\<close>

lemma open_then:
  assumes "preserves (uart_open_inv obj) m" "uart_open_inv obj s"
    and "\<And>x t. uart_open_inv obj t \<Longrightarrow> wp (f x) (\<lambda>_. uart_inv obj) t"
  shows "wp (State_Monad.bind m f) (\<lambda>_. uart_inv obj) s"
    and "wp (bindE (liftE m) f) (\<lambda>_. uart_inv obj) s"
  using wp_mono [OF preservesD [OF assms(1,2)] assms(3)] by (simp_all add: wp_rules)

lemma open_to_inv_ret: "uart_open_inv obj s \<Longrightarrow> wp (retE x) (\<lambda>_. uart_inv obj) s"
    and open_to_inv_stop: "uart_open_inv obj s \<Longrightarrow> wp (stopE w) (\<lambda>_. uart_inv obj) s"
  by (simp_all add: wp_rules uart_open_inv_def)

lemma open_then_if:
  assumes "preserves (uart_open_inv obj) m" "uart_open_inv obj s"
    and "\<And>x t. uart_open_inv obj t \<Longrightarrow> wp (f x) (\<lambda>_. uart_inv obj) t"
  shows "wp (if \<not> b then retE () else bindE (liftE m) f) (\<lambda>_. uart_inv obj) s"
  by (cases b) (simp_all only: simp_thms if_True if_False open_to_inv_ret [OF assms(2)]
      open_then(2) [OF assms(1,2), of f, OF assms(3)])

lemma inv_tx_loop:
  fixes cb :: "'a callback"
  assumes cb: "\<And>f a. preserves (uart_inv obj) (cb f a)"
  shows "uart_open_inv obj s \<Longrightarrow> wp (isr_tx_loop n p cb obj base b) (\<lambda>_. uart_inv obj) s"
proof (induction n arbitrary: s)
  case 0
  then show ?case by (simp add: open_to_inv_stop)
next
  case (Suc n)
  show ?case
    unfolding isr_tx_loop.simps
  proof (rule open_then(2) [OF _ Suc.prems])
    show "preserves (uart_open_inv obj) (dw_uart_putready p base)"
      by (rule open_frame_prims)
    fix ready and t :: "'a uart_mach_scheme"
    assume t: "uart_open_inv obj t"
    show "wp (if \<not> ready then retE () else bindE (liftE (do {
           i \<leftarrow> get_info obj;
           c \<leftarrow> ld8 (b + ofs (ui_tx_buf i));
           dw_uart_putchar p base c;
           upd_info obj (\<lambda>i. i\<lparr>ui_tx_buf := (ui_tx_buf i)\<lparr>ofs := ofs (ui_tx_buf i) + 1\<rparr>\<rparr>);
           get_info obj
         })) (\<lambda>i.
         if ofs (ui_tx_buf i) \<ge> blen (ui_tx_buf i) then
           liftE (do {
             dw_uart_dis_cbr p obj DW_UART_RDY_SND;
             i \<leftarrow> get_info obj;
             c_if (ui_tx_cb i \<noteq> 0) (cb (ui_tx_cb i) obj);
             upd_info obj (\<lambda>i. i\<lparr>ui_tx_buf := null_buffer\<rparr>)
           })
         else isr_tx_loop n p cb obj base b)) (\<lambda>_. uart_inv obj) t"
    proof (rule open_then_if [OF _ t])
      fix i and u :: "'a uart_mach_scheme"
      assume u: "uart_open_inv obj u"
      show "wp (if ofs (ui_tx_buf i) \<ge> blen (ui_tx_buf i) then
           liftE (do { dw_uart_dis_cbr p obj DW_UART_RDY_SND; i \<leftarrow> get_info obj;
             c_if (ui_tx_cb i \<noteq> 0) (cb (ui_tx_cb i) obj);
             upd_info obj (\<lambda>i. i\<lparr>ui_tx_buf := null_buffer\<rparr>) })
         else isr_tx_loop n p cb obj base b) (\<lambda>_. uart_inv obj) u"
        using inv_tx_done [where cb = cb, OF cb u, of p] Suc.IH [OF u]
        by (simp only: wp_if wp_liftE if_True if_False simp_thms split: if_split)
    qed (intro preserves_bind open_inv_upd open_frame_prims; simp)
  qed
qed

lemma inv_rx_loop:
  fixes cb :: "'a callback"
  assumes cb: "\<And>f a. preserves (uart_inv obj) (cb f a)"
  shows "uart_open_inv obj s \<Longrightarrow> wp (isr_rx_loop n p cb obj base b) (\<lambda>_. uart_inv obj) s"
proof (induction n arbitrary: s)
  case 0
  then show ?case by (simp add: open_to_inv_stop)
next
  case (Suc n)
  show ?case
    unfolding isr_rx_loop.simps
  proof (rule open_then(2) [OF _ Suc.prems])
    show "preserves (uart_open_inv obj) (dw_uart_getready p base)"
      by (rule open_frame_prims)
    fix ready and t :: "'a uart_mach_scheme"
    assume t: "uart_open_inv obj t"
    show "wp (if \<not> ready then retE () else bindE (liftE (do {
           c \<leftarrow> dw_uart_getchar p base;
           i \<leftarrow> get_info obj;
           st8 (b + ofs (ui_rx_buf i)) (ucast c);
           upd_info obj (\<lambda>i. i\<lparr>ui_rx_buf := (ui_rx_buf i)\<lparr>ofs := ofs (ui_rx_buf i) + 1\<rparr>\<rparr>);
           get_info obj
         })) (\<lambda>i.
         if ofs (ui_rx_buf i) \<ge> blen (ui_rx_buf i) then
           liftE (do {
             dw_uart_dis_cbr p obj DW_UART_RDY_RCV;
             i \<leftarrow> get_info obj;
             c_if (ui_rx_cb i \<noteq> 0) (cb (ui_rx_cb i) obj);
             upd_info obj (\<lambda>i. i\<lparr>ui_rx_buf := null_buffer\<rparr>)
           })
         else isr_rx_loop n p cb obj base b)) (\<lambda>_. uart_inv obj) t"
    proof (rule open_then_if [OF _ t])
      fix i and u :: "'a uart_mach_scheme"
      assume u: "uart_open_inv obj u"
      show "wp (if ofs (ui_rx_buf i) \<ge> blen (ui_rx_buf i) then
           liftE (do { dw_uart_dis_cbr p obj DW_UART_RDY_RCV; i \<leftarrow> get_info obj;
             c_if (ui_rx_cb i \<noteq> 0) (cb (ui_rx_cb i) obj);
             upd_info obj (\<lambda>i. i\<lparr>ui_rx_buf := null_buffer\<rparr>) })
         else isr_rx_loop n p cb obj base b) (\<lambda>_. uart_inv obj) u"
        using inv_rx_done [where cb = cb, OF cb u, of p] Suc.IH [OF u]
        by (simp only: wp_if wp_liftE if_True if_False simp_thms split: if_split)
    qed (intro preserves_bind open_inv_upd open_frame_prims; simp)
  qed
qed

lemma inv_isr:
  fixes cb :: "'a callback"
  assumes cb: "\<And>f a. preserves (uart_inv obj) (cb f a)"
  shows "preserves (uart_inv obj) (dw_uart_isr p fuel cb obj)"
proof -
  have tx: "preserves (uart_inv obj) (bindE (liftE (get_info obj)) (\<lambda>i.
      if buf (ui_tx_buf i) \<noteq> 0 then isr_tx_loop fuel p cb obj base (buf (ui_tx_buf i))
      else liftE (c_if (ui_tx_cb i \<noteq> 0) (cb (ui_tx_cb i) obj))))" for base
  proof (rule preservesI)
    fix s :: "'a uart_mach_scheme" assume inv: "uart_inv obj s"
    show "wp (bindE (liftE (get_info obj)) (\<lambda>i.
      if buf (ui_tx_buf i) \<noteq> 0 then isr_tx_loop fuel p cb obj base (buf (ui_tx_buf i))
      else liftE (c_if (ui_tx_cb i \<noteq> 0) (cb (ui_tx_cb i) obj)))) (\<lambda>_. uart_inv obj) s"
    proof (cases "buf (ui_tx_buf (uinfo s obj)) = 0")
      case True
      then show ?thesis
        using preservesD [OF cb inv] inv by (simp add: wp_rules)
    next
      case False
      then have "uart_open_inv obj s"
        using inv by (auto simp: uart_open_inv_def uart_inv_def uart_closed_def null_buffer_def)
      then show ?thesis using False inv_tx_loop [where cb = cb, OF cb] by (simp add: wp_rules)
    qed
  qed
  have rx: "preserves (uart_inv obj) (bindE (liftE (get_info obj)) (\<lambda>i.
      if buf (ui_rx_buf i) \<noteq> 0 then isr_rx_loop fuel p cb obj base (buf (ui_rx_buf i))
      else liftE (c_if (ui_rx_cb i \<noteq> 0) (cb (ui_rx_cb i) obj))))" for base
  proof (rule preservesI)
    fix s :: "'a uart_mach_scheme" assume inv: "uart_inv obj s"
    show "wp (bindE (liftE (get_info obj)) (\<lambda>i.
      if buf (ui_rx_buf i) \<noteq> 0 then isr_rx_loop fuel p cb obj base (buf (ui_rx_buf i))
      else liftE (c_if (ui_rx_cb i \<noteq> 0) (cb (ui_rx_cb i) obj)))) (\<lambda>_. uart_inv obj) s"
    proof (cases "buf (ui_rx_buf (uinfo s obj)) = 0")
      case True
      then show ?thesis
        using preservesD [OF cb inv] inv by (simp add: wp_rules)
    next
      case False
      then have "uart_open_inv obj s"
        using inv by (auto simp: uart_open_inv_def uart_inv_def uart_closed_def null_buffer_def)
      then show ?thesis using False inv_rx_loop [where cb = cb, OF cb] by (simp add: wp_rules)
    qed
  qed
  show ?thesis
    unfolding dw_uart_isr_def Let_def
    by (intro tx rx inv_callback_if [where cb = cb, OF cb] preserves_bind preserves_bindE preserves_if preserves_c_ifE
        preserves_liftE preserves_get preserves_return frame_prims)
qed

end
