(* ===== verification/UartLife.thy ===== *)
theory UartLife
  imports UartProofs
begin

section \<open>Life cycle of the UART device\<close>

text \<open>
  Open and close: the invariant under both, the step relation of an application that opens,
  closes, controls, writes, reads and takes interrupts, and the open-count contract.
\<close>

subsection \<open>Opening\<close>

lemma open_inv_upd_ctrl:
  assumes "\<And>c. int_good (int_status c) \<Longrightarrow> int_good (int_status (f c))"
  shows "preserves (uart_open_inv obj) (upd_ctrl cp f)"
  using assms by (auto simp: preserves_def wp_rules uart_open_inv_alt)

lemma int_good_cleared: "int_good (st AND - 8)" "\<not> bit ((st :: u32) AND - 8) 0"
proof -
  have "\<not> bit (- 8 :: u32) 0" "\<not> bit (- 8 :: u32) 1" "\<not> bit (- 8 :: u32) 2"
    by code_simp+
  then show "int_good (st AND - 8)" "\<not> bit ((st :: u32) AND - 8) 0"
    by (simp_all only: int_good_def bit_and_iff simp_thms)
qed

lemma open_inv_disable_interrupt:
  "preserves (uart_open_inv obj) (dw_uart_disable_interrupt p obj)"
  unfolding dw_uart_disable_interrupt_def
  by (intro preserves_bind preserves_c_if open_inv_cbr open_frame_prims open_inv_upd_ctrl)
     (simp add: int_good_cleared)

lemma open_inv_handler: "preserves (uart_open_inv obj) (int_handler_install p n h)"
  by (rule preserves_open_frame) blast

lemma open_inv_first_open: "preserves (uart_open_inv obj) (uart_first_open p fuel obj baud)"
  unfolding uart_first_open_def Let_def
  by (intro preserves_bind preserves_bindE preserves_if preserves_liftE preserves_c_if
      open_inv_handler open_frame_prims open_inv_upd_ctrl open_inv_upd open_inv_disable_interrupt;
      simp)

lemma minus_one_u32: "(- 1 :: u32) = 0xffffffff"
  by simp

lemma inv_open:
  fixes s :: "'a uart_mach_scheme"
  assumes inv: "uart_inv obj s" and cnt: "ui_opn_cnt (uinfo s obj) \<noteq> 0xffffffff"
  shows "wp (dw_uart_open p fuel obj baud) (\<lambda>_. uart_inv obj) s"
proof -
  let ?s = "s\<lparr>uinfo := (uinfo s)(obj := (uinfo s obj)\<lparr>ui_opn_cnt := ui_opn_cnt (uinfo s obj) + 1\<rparr>)\<rparr>"
  have "ui_opn_cnt (uinfo s obj) + 1 \<noteq> 0"
    using cnt eq_neg_iff_add_eq_0 [of "ui_opn_cnt (uinfo s obj)" 1]
    by (simp only: minus_one_u32 [symmetric] simp_thms)
  then have o: "uart_open_inv obj ?s"
    using inv by (simp add: uart_open_inv_alt uart_inv_def)
  show ?thesis
    using open_to_inv [OF open_inv_first_open o] o inv
    by (simp add: dw_uart_open_def wp_rules uart_open_inv_def)
qed

subsection \<open>Closing\<close>

lemma int_off_high: "int_off k st AND - 8 = st AND - 8"
  by (simp add: int_off_def Let_def cbr_bit_def and.assoc)

lemma disable_interrupt_wp:
  fixes s :: "'a uart_mach_scheme"
  shows "wp (dw_uart_disable_interrupt p obj) (\<lambda>_ t. uinfo t = uinfo s
    \<and> uctrl t = (uctrl s)(uart_ctrl (uinfo s obj) := (uctrl s (uart_ctrl (uinfo s obj)))
        \<lparr>int_status := int_status (uctrl s (uart_ctrl (uinfo s obj))) AND - 8\<rparr>)) s"
proof -
  let ?cp = "uart_ctrl (uinfo s obj)"
  let ?rest = "do {
     c \<leftarrow> get_ctrl ?cp;
     c_if (uc_intno c \<noteq> DEV_INTNO_INVALID)
       (do { _ \<leftarrow> int_disable p (uc_intno c); State_Monad.return () });
     upd_ctrl ?cp (\<lambda>c. c\<lparr>int_status := int_status c AND - 8\<rparr>) }"
  have rest: "wp ?rest (\<lambda>_ t. uinfo t = uinfo u
      \<and> uctrl t = (uctrl u)(?cp := (uctrl u ?cp)\<lparr>int_status := int_status (uctrl u ?cp) AND - 8\<rparr>)) u"
    for u :: "'a uart_mach_scheme"
    by (simp add: wp_rules int_disable_def arc_int_disable_def)
  have two: "wp (dw_uart_dis_cbr p obj 2) (\<lambda>_. wp ?rest (\<lambda>_ t. uinfo t = uinfo u
      \<and> uctrl t = (uctrl u)(?cp := (uctrl u ?cp)\<lparr>int_status := int_status (uctrl u ?cp) AND - 8\<rparr>))) u"
    if "uinfo u = uinfo s" for u :: "'a uart_mach_scheme"
    by (rule wp_mono [OF dis_cbr_wp], rule wp_mono [OF rest])
       (simp add: that int_off_high)
  have "wp (dw_uart_dis_cbr p obj 1) (\<lambda>_. wp (dw_uart_dis_cbr p obj 2) (\<lambda>_. wp ?rest
     (\<lambda>_ t. uinfo t = uinfo s \<and> uctrl t = (uctrl s)(?cp := (uctrl s ?cp)
        \<lparr>int_status := int_status (uctrl s ?cp) AND - 8\<rparr>)))) s"
    by (rule wp_mono [OF dis_cbr_wp], rule wp_mono [OF two])
       (simp_all, erule wp_mono, simp add: int_off_high)
  then show ?thesis
    by (simp add: dw_uart_disable_interrupt_def wp_bind_ext wp_uart_heap)
qed

text \<open>Nothing but the transmit buffer of the device has changed.\<close>

definition tx_buf_only :: "u32 \<Rightarrow> 'a uart_mach_scheme \<Rightarrow> 'a uart_mach_scheme \<Rightarrow> bool" where
  "tx_buf_only obj s t \<longleftrightarrow> uctrl t = uctrl s
     \<and> uinfo t = (uinfo s)(obj := (uinfo s obj)\<lparr>ui_tx_buf := ui_tx_buf (uinfo t obj)\<rparr>)"

lemma tx_buf_only_frame: "uart_frame m \<Longrightarrow> preserves (tx_buf_only obj s) m"
  by (rule preservesI, rule frame_wp) (simp_all add: tx_buf_only_def)

lemma tx_buf_only_upd: "preserves (tx_buf_only obj s) (upd_info obj (\<lambda>i. i\<lparr>ui_tx_buf := b\<rparr>))"
proof (rule preservesI)
  fix u assume u: "tx_buf_only obj s u"
  then obtain x where x: "uinfo u obj = (uinfo s obj)\<lparr>ui_tx_buf := x\<rparr>"
    by (metis fun_upd_same tx_buf_only_def)
  have "(uinfo u obj)\<lparr>ui_tx_buf := b\<rparr> = (uinfo s obj)\<lparr>ui_tx_buf := b\<rparr>"
    unfolding x by simp
  with u show "wp (upd_info obj (\<lambda>i. i\<lparr>ui_tx_buf := b\<rparr>)) (\<lambda>_. tx_buf_only obj s) u"
    by (simp add: wp_rules tx_buf_only_def) (metis fun_upd_upd)
qed

lemma flush_wp: "wp (dw_uart_flush_output p fuel obj) (\<lambda>_. tx_buf_only obj s) s"
proof -
  have "preserves (tx_buf_only obj s) (dw_uart_flush_output p fuel obj)"
    unfolding dw_uart_flush_output_def Let_def
    by (intro preserves_bindE preserves_c_ifE preserves_liftE tx_buf_only_upd spin_preserves preserves_bind
        uart_frame_prim [THEN tx_buf_only_frame] uart_frame_loops [THEN tx_buf_only_frame])
  moreover have "tx_buf_only obj s s" by (simp add: tx_buf_only_def)
  ultimately show ?thesis by (rule preservesD)
qed

text \<open>With the interrupts off, neither abort does anything.\<close>

lemma abort_noop:
  "\<not> bit (int_status (uctrl s (uart_ctrl (uinfo s obj)))) 1 \<Longrightarrow> run_state (dw_uart_abort_tx p cb obj) s = ((), s)"
  "\<not> bit (int_status (uctrl s (uart_ctrl (uinfo s obj)))) 2 \<Longrightarrow> run_state (dw_uart_abort_rx p cb obj) s = ((), s)"
  by (simp_all add: dw_uart_abort_tx_def dw_uart_abort_rx_def and_2_eq_0 and_4_eq_0)

lemma bits_off: "\<not> bit ((st :: u32) AND - 8) 1" "\<not> bit ((st :: u32) AND - 8) 2"
proof -
  have "\<not> bit (- 8 :: u32) 1" "\<not> bit (- 8 :: u32) 2" by code_simp+
  then show "\<not> bit ((st :: u32) AND - 8) 1" "\<not> bit ((st :: u32) AND - 8) 2"
    by (simp_all only: bit_and_iff simp_thms)
qed

lemma disable_then_abort:
  assumes u: "run_state (dw_uart_disable_interrupt p obj) s = ((), u)"
  shows "run_state (dw_uart_abort_tx p cb obj) u = ((), u)" "run_state (dw_uart_abort_rx p cb obj) u = ((), u)"
proof -
  have "int_status (uctrl u (uart_ctrl (uinfo u obj)))
      = int_status (uctrl s (uart_ctrl (uinfo s obj))) AND - 8"
    using wpD [OF disable_interrupt_wp u] by simp
  then show "run_state (dw_uart_abort_tx p cb obj) u = ((), u)" "run_state (dw_uart_abort_rx p cb obj) u = ((), u)"
    by (intro abort_noop; metis bits_off)+
qed

text \<open>What the last close leaves of the object, and of the two objects of the device.\<close>

definition quiesced :: "dev_uart_info \<Rightarrow> dev_uart_info" where
  "quiesced i = i\<lparr>ui_status := 0, ui_tx_buf := null_buffer, ui_rx_buf := null_buffer,
     ui_tx_cb := 0, ui_rx_cb := 0, ui_err_cb := 0, ui_extra := 0\<rparr>"

definition uart_shut :: "u32 \<Rightarrow> 'a uart_mach_scheme \<Rightarrow> 'a uart_mach_scheme \<Rightarrow> bool" where
  "uart_shut obj s t \<longleftrightarrow> (let cp = uart_ctrl (uinfo s obj) in
     uinfo t = (uinfo s)(obj := quiesced (uinfo s obj))
     \<and> uctrl t = (uctrl s)(cp := (uctrl s cp)\<lparr>int_status := int_status (uctrl s cp) AND - 8\<rparr>))"

lemma disable_device_wp:
  "wp (dw_uart_disable_device p obj) (\<lambda>_ t. uctrl t = uctrl s
     \<and> (\<exists>x. uinfo t = (uinfo s)(obj := (uinfo s obj)\<lparr>ui_status := x\<rparr>))) s"
proof -
  have "\<exists>x. uinfo s = (uinfo s)(obj := (uinfo s obj)\<lparr>ui_status := x\<rparr>)"
    by (rule exI [of _ "ui_status (uinfo s obj)"]) simp
  then show ?thesis
    by (cases "ui_status (uinfo s obj) AND 1 = 1")
       (auto simp: dw_uart_disable_device_def dw_uart_set_baud_def wp_rules)
qed

text \<open>The last close, without its aborts.\<close>

definition uart_shutdown :: "plat \<Rightarrow> nat \<Rightarrow> u32 \<Rightarrow> ('a, s32 res) uop" where
  "uart_shutdown p fuel obj =
     bindE (liftE (dw_uart_disable_interrupt p obj)) (\<lambda>_.
     bindE (dw_uart_flush_output p fuel obj) (\<lambda>_.
     liftE (do {
       upd_info obj (\<lambda>i. i\<lparr>ui_tx_buf := null_buffer, ui_rx_buf := null_buffer,
         ui_tx_cb := 0, ui_rx_cb := 0, ui_err_cb := 0\<rparr>);
       dw_uart_disable_device p obj;
       upd_info obj (\<lambda>i. i\<lparr>ui_status := 0, ui_extra := 0\<rparr>);
       State_Monad.return E_OK
     })))"

lemma last_close:
  assumes "uart_valid s obj" "ui_opn_cnt (uinfo s obj) = 1"
  shows "run_state (dw_uart_close p fuel cb obj) s =
    run_state (uart_shutdown p fuel obj) (s\<lparr>uinfo := (uinfo s)(obj := (uinfo s obj)\<lparr>ui_opn_cnt := 0\<rparr>)\<rparr>)"
proof -
  obtain u where u: "run_state (dw_uart_disable_interrupt p obj)
      (s\<lparr>uinfo := (uinfo s)(obj := (uinfo s obj)\<lparr>ui_opn_cnt := 0\<rparr>)\<rparr>) = ((), u)"
    by (metis old.unit.exhaust surj_pair)
  show ?thesis
    using assms by (simp add: dw_uart_close_def uart_shutdown_def u disable_then_abort [OF u] cong: prod.case_cong)
qed

lemma shutdown_wp:
  "wp (uart_shutdown p fuel obj) (\<lambda>r t. (\<forall>v. r = Inr v \<longrightarrow> v = E_OK \<and> uart_shut obj s t)) s"
proof -
  let ?cp = "uart_ctrl (uinfo s obj)"
  let ?tail = "do { upd_info obj (\<lambda>i. i\<lparr>ui_tx_buf := null_buffer, ui_rx_buf := null_buffer,
         ui_tx_cb := 0, ui_rx_cb := 0, ui_err_cb := 0\<rparr>);
       dw_uart_disable_device p obj;
       upd_info obj (\<lambda>i. i\<lparr>ui_status := 0, ui_extra := 0\<rparr>);
       State_Monad.return E_OK }"
  let ?C = "(uctrl s)(?cp := (uctrl s ?cp)\<lparr>int_status := int_status (uctrl s ?cp) AND - 8\<rparr>)"
  let ?Q = "\<lambda>t. uinfo t = (uinfo s)(obj := quiesced (uinfo s obj)) \<and> uctrl t = ?C"
  have tail: "wp ?tail (\<lambda>r t. r = E_OK \<and> ?Q t) v"
    if u: "uinfo u = uinfo s" "uctrl u = ?C" and v: "tx_buf_only obj u v" for u v :: "'a uart_mach_scheme"
  proof -
    obtain b where b: "uinfo v = (uinfo s)(obj := (uinfo s obj)\<lparr>ui_tx_buf := b\<rparr>)" "uctrl v = ?C"
      using u v by (auto simp: tx_buf_only_def)
    let ?v = "v\<lparr>uinfo := (uinfo v)(obj := (uinfo v obj)\<lparr>ui_tx_buf := null_buffer,
        ui_rx_buf := null_buffer, ui_tx_cb := 0, ui_rx_cb := 0, ui_err_cb := 0\<rparr>)\<rparr>"
    have "wp (do { dw_uart_disable_device p obj; upd_info obj (\<lambda>i. i\<lparr>ui_status := 0, ui_extra := 0\<rparr>);
        State_Monad.return E_OK }) (\<lambda>r t. r = E_OK \<and> ?Q t) ?v"
      unfolding wp_bind_ext
      by (rule wp_mono [OF disable_device_wp]) (auto simp: wp_rules b quiesced_def)
    then show ?thesis by (simp add: wp_bind_ext wp_uart_heap(3))
  qed
  have flush: "wp (bindE (dw_uart_flush_output p fuel obj) (\<lambda>_. liftE ?tail))
      (\<lambda>r t. \<forall>v. r = Inr v \<longrightarrow> v = E_OK \<and> ?Q t) u"
    if u: "uinfo u = uinfo s" "uctrl u = ?C" for u :: "'a uart_mach_scheme"
    unfolding wp_bindE
    by (rule wp_mono [OF flush_wp]) (use tail [OF u] in \<open>auto simp: wp_liftE split: sum.split\<close>)
  have "wp (dw_uart_disable_interrupt p obj) (\<lambda>_. wp (bindE (dw_uart_flush_output p fuel obj)
      (\<lambda>_. liftE ?tail)) (\<lambda>r t. \<forall>v. r = Inr v \<longrightarrow> v = E_OK \<and> ?Q t)) s"
    by (rule wp_mono [OF disable_interrupt_wp], rule flush) simp_all
  then show ?thesis
    by (simp only: uart_shutdown_def wp_bindE_liftE uart_shut_def Let_def)
qed

lemma inv_close:
  fixes s :: "'a uart_mach_scheme"
  assumes inv: "uart_inv obj s"
  shows "wp (dw_uart_close p fuel cb obj) (\<lambda>r t. \<forall>v. r = Inr v \<longrightarrow> uart_inv obj t) s"
proof (cases "uart_valid s obj \<and> ui_opn_cnt (uinfo s obj) = 1")
  case True
  let ?s = "s\<lparr>uinfo := (uinfo s)(obj := (uinfo s obj)\<lparr>ui_opn_cnt := 0\<rparr>)\<rparr>"
  have "uart_inv obj t" if "uart_shut obj ?s t" for t :: "'a uart_mach_scheme"
    using that by (simp add: uart_shut_def Let_def uart_inv_def uart_closed_def quiesced_def int_good_cleared)
  then have "wp (uart_shutdown p fuel obj) (\<lambda>r t. \<forall>v. r = Inr v \<longrightarrow> uart_inv obj t) ?s"
    by (intro wp_mono [OF shutdown_wp]) auto
  with True show ?thesis by (simp add: wp_def last_close)
next
  case False
  have "ui_opn_cnt (uinfo s obj) \<noteq> 0 \<Longrightarrow> ui_opn_cnt (uinfo s obj) \<noteq> 1 \<Longrightarrow> ui_opn_cnt (uinfo s obj) - 1 \<noteq> 0"
    by auto
  with False inv show ?thesis
    by (auto simp: dw_uart_close_def wp_rules uart_inv_def)
qed

text \<open>The last close returns when the device takes characters and drains.\<close>

definition poll_tfe :: "plat \<Rightarrow> u32 \<Rightarrow> ('a, bool) op" where
  "poll_tfe p base = do { usr \<leftarrow> mmio_rd p (base + UART_USR); State_Monad.return (usr AND USR_TFE \<noteq> 0) }"

definition poll_idle :: "plat \<Rightarrow> u32 \<Rightarrow> ('a, bool) op" where
  "poll_idle p base = do { usr \<leftarrow> mmio_rd p (base + UART_USR); State_Monad.return (usr AND USR_BUSY = 0) }"

lemma returns_psnd_chars:
  "responsive fuel (dw_uart_putready p base :: ('a, bool) op) \<Longrightarrow> returns (psnd_chars n p fuel base a :: ('a, unit res) op)"
  by (induction n arbitrary: a) (auto simp: dw_uart_psnd_chr_def)

text \<open>A device that takes a character, empties its FIFO and goes idle within \<open>fuel\<close> polls.\<close>

definition uart_drains :: "plat \<Rightarrow> nat \<Rightarrow> u32 \<Rightarrow> 'a uart_mach_scheme itself \<Rightarrow> bool" where
  "uart_drains p fuel base T \<longleftrightarrow> responsive fuel (dw_uart_putready p base :: ('a uart_mach_scheme, bool) state)
     \<and> responsive fuel (poll_tfe p base :: ('a uart_mach_scheme, bool) state)
     \<and> responsive fuel (poll_idle p base :: ('a uart_mach_scheme, bool) state)"

lemma flush_returns:
  fixes s :: "'a uart_mach_scheme"
  assumes "uart_drains p fuel (uart_base s obj) TYPE('a uart_mach_scheme)"
  shows "\<exists>x. fst (run_state (dw_uart_flush_output p fuel obj) s) = Inr x"
proof -
  let ?base = "uart_base s obj" and ?b = "ui_tx_buf (uinfo s obj)"
  let ?inner = "bindE (c_ifE (buf ?b \<noteq> 0)
        (bindE (psnd_chars (unat (blen ?b) - unat (ofs ?b)) p fuel ?base (buf ?b + ofs ?b)) (\<lambda>_.
         liftE (upd_info obj (\<lambda>i. i\<lparr>ui_tx_buf := null_buffer\<rparr>))))) (\<lambda>_.
     bindE (liftE (mmio_rd p (?base + UART_CPR))) (\<lambda>cpr.
     bindE (c_ifE (cpr AND CPR_FIFO_STAT \<noteq> 0) (spin fuel (poll_tfe p ?base))) (\<lambda>_.
     spin fuel (poll_idle p ?base)))) :: ('a, unit res) uop"
  have "returns ?inner"
    using assms unfolding uart_drains_def
    by (intro returns_bindE returns_c_ifE returns_intros returns_psnd_chars) auto
  moreover have "run_state (dw_uart_flush_output p fuel obj) s = run_state ?inner s"
    by (simp add: dw_uart_flush_output_def uart_base_def poll_tfe_def poll_idle_def Let_def del: run_bindE)
       (simp add: run_bindE [of "liftE _"])
  ultimately show ?thesis unfolding returns_def by metis
qed

lemma shutdown_returns:
  fixes s :: "'a uart_mach_scheme"
  assumes "uart_drains p fuel (uart_base s obj) TYPE('a uart_mach_scheme)"
  shows "\<exists>x. fst (run_state (uart_shutdown p fuel obj) s) = Inr x"
proof -
  obtain u where u: "run_state (dw_uart_disable_interrupt p obj) s = ((), u)"
    by (metis old.unit.exhaust surj_pair)
  have "uart_base u obj = uart_base s obj"
    using wpD [OF disable_interrupt_wp u] by (simp add: uart_base_def)
  with flush_returns [of p fuel u obj] assms obtain x v where
    v: "run_state (dw_uart_flush_output p fuel obj) u = (Inr x, v)" by (metis prod.collapse)
  show ?thesis by (simp add: uart_shutdown_def u v split_def)
qed

subsection \<open>Reachable states\<close>

text \<open>
  What an application does with the device: each call that returns is a step. Code that leaves
  the device objects alone (other drivers, writes to memory, the passing of time) is a step too.
\<close>

inductive uart_step ::
  "plat \<Rightarrow> nat \<Rightarrow> 'a callback \<Rightarrow> u32 \<Rightarrow> 'a uart_mach_scheme \<Rightarrow> 'a uart_mach_scheme \<Rightarrow> bool"
  for p fuel cb obj where
  Open: "ui_opn_cnt (uinfo s obj) \<noteq> 0xffffffff \<Longrightarrow> run_state (dw_uart_open p fuel obj baud) s = (Inr r, t)
    \<Longrightarrow> uart_step p fuel cb obj s t"
| Close: "run_state (dw_uart_close p fuel cb obj) s = (Inr r, t) \<Longrightarrow> uart_step p fuel cb obj s t"
| Control: "run_state (dw_uart_control p fuel cb obj cmd param) s = (Inr r, t) \<Longrightarrow> uart_step p fuel cb obj s t"
| Write: "run_state (dw_uart_write p fuel obj data len) s = (Inr r, t) \<Longrightarrow> uart_step p fuel cb obj s t"
| Read: "run_state (dw_uart_read p fuel obj data len) s = (Inr r, t) \<Longrightarrow> uart_step p fuel cb obj s t"
| Isr: "run_state (dw_uart_isr p fuel cb obj) s = (Inr u, t) \<Longrightarrow> uart_step p fuel cb obj s t"
| Other: "uinfo t = uinfo s \<Longrightarrow> uctrl t = uctrl s \<Longrightarrow> uart_step p fuel cb obj s t"

inductive_cases uart_stepE: "uart_step p fuel cb obj s t"

lemma uart_frame_transfer:
  "uart_frame (dw_uart_write p fuel obj data len)" "uart_frame (dw_uart_read p fuel obj data len)"
  unfolding dw_uart_write_def dw_uart_read_def check_exp_def by blast+

lemma uart_step_inv:
  fixes cb :: "'a callback"
  assumes cb: "\<And>f a. preserves (uart_inv obj) (cb f a)"
  shows "uart_step p fuel cb obj s t \<Longrightarrow> uart_inv obj s \<Longrightarrow> uart_inv obj t"
proof (induction rule: uart_step.induct)
  case (Open s baud r t)
  then show ?case using wpD [OF inv_open] by blast
next
  case (Close s r t)
  then show ?case using wpD [OF inv_close] by blast
next
  case (Control s cmd param r t)
  then show ?case using wpD [OF preservesD [OF inv_control [where cb = cb, OF cb]]] by blast
next
  case (Write s data len r t)
  then show ?case using wpD [OF preservesD [OF preserves_frame [OF uart_frame_transfer(1)]]] by blast
next
  case (Read s data len r t)
  then show ?case using wpD [OF preservesD [OF preserves_frame [OF uart_frame_transfer(2)]]] by blast
next
  case (Isr s u t)
  then show ?case using wpD [OF preservesD [OF inv_isr [where cb = cb, OF cb]]] by blast
next
  case (Other t s)
  then show ?case by (simp add: uart_inv_def)
qed

lemma uart_steps_inv:
  fixes cb :: "'a callback"
  assumes cb: "\<And>f a. preserves (uart_inv obj) (cb f a)"
  shows "(uart_step p fuel cb obj)\<^sup>*\<^sup>* s t \<Longrightarrow> uart_inv obj s \<Longrightarrow> uart_inv obj t"
  by (induction rule: rtranclp_induct) (use uart_step_inv [where cb = cb, OF cb] in blast)+

subsection \<open>The open count\<close>

text \<open>The device's control pointer and its count are given values.\<close>

definition uart_id :: "u32 \<Rightarrow> u32 \<Rightarrow> u32 \<Rightarrow> 'a uart_mach_scheme \<Rightarrow> bool" where
  "uart_id obj cp n t \<longleftrightarrow> uart_ctrl (uinfo t obj) = cp \<and> ui_opn_cnt (uinfo t obj) = n"

lemma uart_id_frame: "uart_frame m \<Longrightarrow> preserves (uart_id obj cp n) m"
  by (rule preservesI, rule frame_wp) (auto simp: uart_id_def)

lemma uart_id_upd:
  "(\<And>i. uart_ctrl (f i) = uart_ctrl i) \<Longrightarrow> (\<And>i. ui_opn_cnt (f i) = ui_opn_cnt i)
   \<Longrightarrow> preserves (uart_id obj cp n) (upd_info obj f)"
  by (auto simp: preserves_def wp_rules uart_id_def)

lemma uart_id_ctrl: "preserves (uart_id obj cp n) (upd_ctrl c f)"
  by (auto simp: preserves_def wp_rules uart_id_def)

lemma uart_id_disable: "preserves (uart_id obj cp n) (dw_uart_disable_interrupt p obj)"
  by (rule preservesI, rule wp_mono [OF disable_interrupt_wp]) (simp add: uart_id_def)

lemma uart_id_first_open: "preserves (uart_id obj cp n) (uart_first_open p fuel obj baud)"
proof -
  note frame = uart_frame_prim [THEN uart_id_frame] uart_frame_helpers [THEN uart_id_frame]
    uart_frame_handler [THEN uart_id_frame]
  show ?thesis
    unfolding uart_first_open_def Let_def
    by (intro preserves_bind preserves_bindE preserves_if preserves_liftE preserves_c_if
        frame uart_id_upd uart_id_ctrl uart_id_disable; simp)
qed

lemma first_open_ok:
  "run_state (uart_first_open p fuel obj baud) s = (Inr r, t) \<Longrightarrow> r = E_OK"
  by (auto simp: uart_first_open_def Let_def split_def split: if_splits sum.splits)

lemma open_result:
  assumes run: "run_state (dw_uart_open p fuel obj baud) s = (Inr r, t)"
    and ok: "r = E_OK \<or> r = E_OPNED"
  shows "uart_valid s obj \<and> baud > 0 \<and> uart_id obj (uart_ctrl (uinfo s obj)) (ui_opn_cnt (uinfo s obj) + 1) t"
proof -
  let ?s = "s\<lparr>uinfo := (uinfo s)(obj := (uinfo s obj)\<lparr>ui_opn_cnt := ui_opn_cnt (uinfo s obj) + 1\<rparr>)\<rparr>"
  have v: "uart_valid s obj" "baud > 0"
    using run ok by (auto simp: dw_uart_open_def split: if_splits)
  have "wp (uart_first_open p fuel obj baud)
      (\<lambda>_. uart_id obj (uart_ctrl (uinfo s obj)) (ui_opn_cnt (uinfo s obj) + 1)) ?s"
    by (rule preservesD [OF uart_id_first_open]) (simp add: uart_id_def)
  with run v show ?thesis
    by (auto simp: dw_uart_open_def wp_def uart_id_def split: if_splits)
qed

lemma close_result:
  assumes run: "run_state (dw_uart_close p fuel cb obj) s = (Inr r, t)"
    and ok: "uart_valid s obj" "ui_opn_cnt (uinfo s obj) \<noteq> 0"
  shows "uart_id obj (uart_ctrl (uinfo s obj)) (ui_opn_cnt (uinfo s obj) - 1) t
    \<and> r = (if ui_opn_cnt (uinfo s obj) = 1 then E_OK else E_OPNED)"
proof (cases "ui_opn_cnt (uinfo s obj) = 1")
  case True
  with run ok have "run_state (uart_shutdown p fuel obj)
      (s\<lparr>uinfo := (uinfo s)(obj := (uinfo s obj)\<lparr>ui_opn_cnt := 0\<rparr>)\<rparr>) = (Inr r, t)"
    by (simp add: last_close)
  from wpD [OF shutdown_wp this] True show ?thesis
    by (simp add: uart_shut_def uart_id_def Let_def quiesced_def)
next
  case False
  have "ui_opn_cnt (uinfo s obj) - 1 \<noteq> 0" using False by auto
  with run ok False show ?thesis
    by (auto simp: dw_uart_close_def uart_id_def word_neq_0_conv [symmetric])
qed

interpretation uart_dev: counted_device
  "2 ^ 32" "\<lambda>s. ui_opn_cnt (uinfo s obj)" "\<lambda>s. uart_valid s obj" "dw_uart_open p fuel obj" "dw_uart_close p fuel cb obj"
  for obj p fuel and cb :: "'a callback"
proof unfold_locales
  fix s t :: "'a uart_mach_scheme" and a r
  assume s: "uart_valid s obj" "unat (ui_opn_cnt (uinfo s obj)) + 1 < 2 ^ 32"
    and run: "run_state (dw_uart_open p fuel obj a) s = (r, t)" and o: "opened r"
  obtain q where "r = Inr q" "q = E_OK \<or> q = E_OPNED" using o by (auto simp: opened_def)
  with run open_result [of p fuel obj a s q t]
  have "uart_id obj (uart_ctrl (uinfo s obj)) (ui_opn_cnt (uinfo s obj) + 1) t" by blast
  with s show "uart_valid t obj \<and> unat (ui_opn_cnt (uinfo t obj)) = unat (ui_opn_cnt (uinfo s obj)) + 1"
    by (simp add: uart_id_def uart_valid_def unat_word_ariths)
next
  fix s t :: "'a uart_mach_scheme" and r
  assume s: "uart_valid s obj" "ui_opn_cnt (uinfo s obj) \<noteq> 0"
    and run: "run_state (dw_uart_close p fuel cb obj) s = (Inr r, t)"
  have "(ui_opn_cnt (uinfo s obj) - 1 = 0) = (ui_opn_cnt (uinfo s obj) = 1)" by auto
  with close_result [OF run s] s
  show "uart_valid t obj \<and> unat (ui_opn_cnt (uinfo t obj)) = unat (ui_opn_cnt (uinfo s obj)) - 1
      \<and> r = (if ui_opn_cnt (uinfo t obj) = 0 then E_OK else E_OPNED)"
    by (auto simp: uart_id_def uart_valid_def unat_minus_one)
qed

end
