(* ===== verification/UartSpec.thy ===== *)
theory UartSpec
  imports UartLife
begin

section \<open>Functional behaviour of the UART driver\<close>

text \<open>
  Blocking write and read, the transmit interrupt, the line settings and the parameter checks,
  with the properties of the driver and their instances on a sample platform.
\<close>

subsection \<open>Characters\<close>

text \<open>
  A program that polls device registers: only the history changes, nothing is stored, and
  the data register is not read.
\<close>

definition polls_only :: "u32 \<Rightarrow> ('a, 'r) op \<Rightarrow> bool" where
  "polls_only base c \<longleftrightarrow> (\<forall>s. \<exists>h. snd (run_state c s) = s\<lparr>hist := h\<rparr>
     \<and> mmio_stores h = mmio_stores (hist s) \<and> reads_of base h = reads_of base (hist s))"

lemma putready_polls: "polls_only base (dw_uart_putready p base)"
  by (auto simp: polls_only_def dw_uart_putready_def)

lemma getready_polls: "polls_only base (dw_uart_getready p base)"
  by (auto simp: polls_only_def dw_uart_getready_def)

lemma spin_polls: "polls_only base c \<Longrightarrow> polls_only base (spin n c)"
proof -
  assume c: "polls_only base c"
  have "\<exists>h. snd (run_state (spin n c) s) = s\<lparr>hist := h\<rparr> \<and> mmio_stores h = mmio_stores (hist s)
      \<and> reads_of base h = reads_of base (hist s)" for s
  proof (induction n arbitrary: s)
    case 0
    show ?case by (intro exI [of _ "hist s"]) simp
  next
    case (Suc n)
    obtain b h where r: "run_state c s = (b, s\<lparr>hist := h\<rparr>)" "mmio_stores h = mmio_stores (hist s)" "reads_of base h = reads_of base (hist s)"
      using c unfolding polls_only_def by (metis prod.collapse)
    show ?case using Suc.IH [of "s\<lparr>hist := h\<rparr>"] r by auto
  qed
  then show "polls_only base (spin n c)" by (simp add: polls_only_def)
qed

lemma psnd_chr_run:
  fixes s :: "'a mach_scheme"
  assumes "responsive fuel (dw_uart_putready p base :: ('a, bool) op)"
  obtains h where "run_state (dw_uart_psnd_chr p fuel base c) s = (Inr (), s\<lparr>hist := h\<rparr>)"
    "mmio_stores h = mmio_stores (hist s) @ [(base, char_reg p c)]"
proof -
  obtain h where "run_state (spin fuel (dw_uart_putready p base)) s = (Inr (), s\<lparr>hist := h\<rparr>)"
    "mmio_stores h = mmio_stores (hist s)"
    using responsive_spin [OF assms, of s] spin_polls [OF putready_polls [of base p], of fuel]
    unfolding polls_only_def by (metis prod.collapse)
  then show thesis
    by (intro that [of "Mmio_wr base (char_reg p c) # h"])
       (simp_all add: dw_uart_psnd_chr_def dw_uart_putchar_def)
qed

lemma send_loop_run:
  fixes s :: "'a uart_mach_scheme"
  assumes ready: "responsive fuel (dw_uart_putready p base :: ('a uart_mach_ext, bool) op)"
  shows "unat i + n < 2 ^ 31 \<Longrightarrow>
    \<exists>h. run_state (uart_send_loop n p fuel base data i) s = (Inr (i + of_nat n), s\<lparr>hist := h\<rparr>)
      \<and> mmio_stores h = mmio_stores (hist s)
          @ map (\<lambda>c. (base, char_reg p c)) (bytes_at (mem s) (data + i) n)"
proof (induction n arbitrary: i s)
  case 0
  show ?case by (intro exI [of _ "hist s"]) simp
next
  case (Suc n)
  have i: "i \<noteq> 0x7fffffff" "unat (i + 1) = unat i + 1"
    using Suc.prems by (auto simp: unat_word_ariths)
  obtain h where h: "run_state (dw_uart_psnd_chr p fuel base (mem s (data + i))) s = (Inr (), s\<lparr>hist := h\<rparr>)"
    "mmio_stores h = mmio_stores (hist s) @ [(base, char_reg p (mem s (data + i)))]"
    using psnd_chr_run [OF ready] by blast
  obtain k where "run_state (uart_send_loop n p fuel base data (i + 1)) (s\<lparr>hist := h\<rparr>)
      = (Inr (i + 1 + of_nat n), s\<lparr>hist := k\<rparr>)"
    "mmio_stores k = mmio_stores h @ map (\<lambda>c. (base, char_reg p c)) (bytes_at (mem s) (data + (i + 1)) n)"
    using Suc.IH [of "i + 1" "s\<lparr>hist := h\<rparr>"] Suc.prems i by auto
  then show ?case
    using i(1) h by (intro exI [of _ k]) (simp add: bytes_at_Suc algebra_simps)
qed

lemma prcv_chr_run:
  fixes s :: "'a mach_scheme"
  assumes "responsive fuel (dw_uart_getready p base :: ('a, bool) op)"
  obtains h v where "run_state (dw_uart_prcv_chr p fuel base) s = (Inr v, s\<lparr>hist := h\<rparr>)"
    "reads_of base h = reads_of base (hist s) @ [v]" "mmio_stores h = mmio_stores (hist s)"
proof -
  obtain h where "run_state (spin fuel (dw_uart_getready p base)) s = (Inr (), s\<lparr>hist := h\<rparr>)"
    "mmio_stores h = mmio_stores (hist s)" "reads_of base h = reads_of base (hist s)"
    using responsive_spin [OF assms, of s] spin_polls [OF getready_polls [of base p], of fuel]
    unfolding polls_only_def by (metis prod.collapse)
  then show thesis
    by (intro that [of "mmio_in p h base" "Mmio_rd base (mmio_in p h base) # h"])
       (simp_all add: dw_uart_prcv_chr_def dw_uart_getchar_def)
qed

lemma hist_mem:
  "s\<lparr>hist := h, mem := m\<rparr> = s\<lparr>mem := m, hist := h\<rparr>"
  "u\<lparr>hist := h, uinfo := i\<rparr> = u\<lparr>uinfo := i, hist := h\<rparr>"
  "u\<lparr>hist := h, uctrl := c\<rparr> = u\<lparr>uctrl := c, hist := h\<rparr>"
  by simp_all

lemma recv_loop_run:
  fixes s :: "'a uart_mach_scheme"
  assumes ready: "responsive fuel (dw_uart_getready p base :: ('a uart_mach_ext, bool) op)"
  shows "unat i + n < 2 ^ 31 \<Longrightarrow>
    \<exists>h vs. run_state (uart_recv_loop n p fuel base data i) s
        = (Inr (i + of_nat n), s\<lparr>mem := put_bytes (data + i) (map ucast vs) (mem s), hist := h\<rparr>)
      \<and> length vs = n \<and> reads_of base h = reads_of base (hist s) @ vs \<and> mmio_stores h = mmio_stores (hist s)"
proof (induction n arbitrary: i s)
  case 0
  show ?case by (intro exI [of _ "hist s"] exI [of _ "[]"]) simp
next
  case (Suc n)
  have i: "i \<noteq> 0x7fffffff" "unat (i + 1) = unat i + 1"
    using Suc.prems by (auto simp: unat_word_ariths)
  obtain h v where h: "run_state (dw_uart_prcv_chr p fuel base) s = (Inr v, s\<lparr>hist := h\<rparr>)"
    "reads_of base h = reads_of base (hist s) @ [v]" "mmio_stores h = mmio_stores (hist s)"
    using prcv_chr_run [OF ready] by blast
  let ?s = "s\<lparr>mem := (mem s)(data + i := ucast v), hist := h\<rparr>"
  have "unat (i + 1) + n < 2 ^ 31" using Suc.prems i(2) by simp
  from Suc.IH [OF this, of ?s]
  obtain k vs where "run_state (uart_recv_loop n p fuel base data (i + 1)) ?s
      = (Inr (i + 1 + of_nat n), ?s\<lparr>mem := put_bytes (data + (i + 1)) (map ucast vs) (mem ?s), hist := k\<rparr>)"
    "length vs = n" "reads_of base k = reads_of base (hist ?s) @ vs" "mmio_stores k = mmio_stores (hist ?s)"
    by (elim exE conjE) (rule that)
  then show ?case
    using i(1) h by (intro exI [of _ k] exI [of _ "v # vs"]) (simp add: algebra_simps hist_mem)
qed

subsection \<open>A sample device\<close>

text \<open>
  A UART with a 32-byte FIFO at \<open>0xF0005000\<close>, always ready in both directions and never busy,
  with a data register that reads \<open>0x41\<close> plus the number of characters read before.
\<close>

definition sample_base :: u32 where
  "sample_base = 0xF0005000"

definition uart_plat :: plat where
  "uart_plat = sample_plat\<lparr>mmio_in := \<lambda>h a. if a = sample_base then 0x41 + of_nat (length (reads_of sample_base h))
     else if a = sample_base + 0x7c then 0x0e else if a = sample_base + 0xf4 then 0x20400 else 0\<rparr>"

definition sample_info :: dev_uart_info where
  "sample_info = \<lparr>uart_ctrl = 0x200, ui_opn_cnt = 0, ui_status = 0, ui_baudrate = 0, dps_format = default_dps,
     hwfc = 0, ui_tx_buf = null_buffer, ui_rx_buf = null_buffer, ui_tx_cb = 0, ui_rx_cb = 0, ui_err_cb = 0, ui_extra = 0\<rparr>"

definition sample_ctrl :: dw_uart_ctrl where
  "sample_ctrl = \<lparr>dw_uart_regbase = sample_base, uc_bus_freq = 50000000, uc_intno = 24, uc_int_handler = 0x3000,
     tx_fifo_len = 0, rx_fifo_len = 0, int_status = 0\<rparr>"

definition uart_mach0 :: uart_mach where
  "uart_mach0 = mach.extend sample_mach (uart_mach.fields (\<lambda>_. sample_info) (\<lambda>_. sample_ctrl))"

definition uart_mach1 :: uart_mach where
  "uart_mach1 = uart_mach0\<lparr>mem := ucast, uinfo := (\<lambda>_. sample_info)(0x100 := sample_info\<lparr>ui_opn_cnt := 1, ui_status := 1, ui_baudrate := 115200\<rparr>)\<rparr>"

definition no_cb :: "'a callback" where
  "no_cb f a = State_Monad.return ()"

lemma sample_responsive:
  "responsive 5 (dw_uart_putready uart_plat sample_base)"
  "responsive 5 (dw_uart_getready uart_plat sample_base)"
  "responsive 5 (poll_tfe uart_plat sample_base)"
  "responsive 5 (poll_idle uart_plat sample_base)"
  by (auto simp: responsive_def answer_def dw_uart_putready_def dw_uart_getready_def poll_tfe_def poll_idle_def
      uart_plat_def sample_base_def intro!: exI [of _ 0])

lemma sample_uart_fields [simp]:
  "uart_valid uart_mach1 0x100" "ui_opn_cnt (uinfo uart_mach1 0x100) = 1"
  "ui_status (uinfo uart_mach1 0x100) = 1" "uart_base uart_mach1 0x100 = sample_base"
  "mem uart_mach1 = ucast" "hist uart_mach1 = []"
  "uart_ctrl (uinfo uart_mach1 0x100) = 0x200" "uctrl uart_mach1 = (\<lambda>_. sample_ctrl)"
  by (simp_all add: uart_mach1_def uart_mach0_def mach.extend_def uart_mach.fields_def uart_valid_def
      uart_base_def sample_info_def sample_ctrl_def sample_mach_def)

subsection \<open>Write and read\<close>

text \<open>
  C30: \<open>dw_uart_write\<close> on an open, enabled device returns the length it was given and puts exactly
  the bytes of the caller's buffer, in order, into the data register; it stores to no other device
  register and changes nothing else. The transmitter is assumed to become ready within the polling
  bound and the length to fit the signed return value.
\<close>

theorem uart_write_sends_buffer:
  fixes s :: "'a uart_mach_scheme"
  assumes "uart_valid s obj" "0 < ui_opn_cnt (uinfo s obj)" "ui_status (uinfo s obj) AND DEV_ENABLED \<noteq> 0"
    and "data \<noteq> 0" "0 < len" "unat len < 2 ^ 31"
    and ready: "responsive fuel (dw_uart_putready p (uart_base s obj) :: ('a uart_mach_ext, bool) op)"
  shows "\<exists>h. run_state (dw_uart_write p fuel obj data len) s = (Inr len, s\<lparr>hist := h\<rparr>)
    \<and> mmio_stores h = mmio_stores (hist s)
        @ map (\<lambda>c. (uart_base s obj, char_reg p c)) (bytes_at (mem s) data (unat len))"
  using send_loop_run [OF ready, of 0 "unat len" data s] assms by (simp add: dw_uart_write_def)

lemma uart_write_sends_buffer_witness:
  "\<exists>h. run_state (dw_uart_write uart_plat 5 0x100 0x61 3) uart_mach1 = (Inr 3, uart_mach1\<lparr>hist := h\<rparr>)
    \<and> mmio_stores h = [(0xF0005000, 0x61), (0xF0005000, 0x62), (0xF0005000, 0x63)]"
proof -
  have "map (\<lambda>c. (sample_base, char_reg uart_plat c)) (bytes_at ucast 0x61 3)
      = [(0xF0005000, 0x61), (0xF0005000, 0x62), (0xF0005000, 0x63)]"
    by code_simp
  then show ?thesis
    using uart_write_sends_buffer [of uart_mach1 "0x100" "0x61" 3 5 uart_plat]
    by (simp add: sample_responsive)
qed

text \<open>
  C31: \<open>dw_uart_read\<close> on an open, enabled device returns the length it was given, reads the data
  register exactly that many times, and stores the low bytes of the values read, in the order they
  were read, at consecutive addresses of the caller's buffer; no other byte of memory changes and
  nothing is stored to the device. The receiver is assumed to have a byte within the polling bound each time
  and the length to fit the signed return value.
\<close>

theorem uart_read_fills_buffer:
  fixes s :: "'a uart_mach_scheme"
  assumes "uart_valid s obj" "0 < ui_opn_cnt (uinfo s obj)" "ui_status (uinfo s obj) AND DEV_ENABLED \<noteq> 0"
    and "data \<noteq> 0" "0 < len" and len: "unat len < 2 ^ 31"
    and ready: "responsive fuel (dw_uart_getready p (uart_base s obj) :: ('a uart_mach_ext, bool) op)"
  shows "\<exists>h m vs. run_state (dw_uart_read p fuel obj data len) s = (Inr len, s\<lparr>mem := m, hist := h\<rparr>)
    \<and> reads_of (uart_base s obj) h = reads_of (uart_base s obj) (hist s) @ vs
    \<and> bytes_at m data (unat len) = map ucast vs
    \<and> (\<forall>a. (\<forall>k < unat len. a \<noteq> data + of_nat k) \<longrightarrow> m a = mem s a)
    \<and> mmio_stores h = mmio_stores (hist s)"
proof -
  obtain h vs where run: "run_state (uart_recv_loop (unat len) p fuel (uart_base s obj) data 0) s
        = (Inr len, s\<lparr>mem := put_bytes data (map ucast vs) (mem s), hist := h\<rparr>)"
    and vs: "length vs = unat len" "reads_of (uart_base s obj) h = reads_of (uart_base s obj) (hist s) @ vs"
      "mmio_stores h = mmio_stores (hist s)"
    using recv_loop_run [OF ready, of 0 "unat len" data s] len by auto
  have "bytes_at (put_bytes data (map ucast vs) (mem s)) data (unat len) = map ucast vs"
    using bytes_at_put_bytes [of "map ucast vs" data "mem s"] vs(1) len by simp
  then show ?thesis
    using assms run vs put_bytes_other [of "map ucast vs" _ data "mem s"]
    by (intro exI [of _ h] exI [of _ "put_bytes data (map ucast vs) (mem s)"] exI [of _ vs])
       (simp add: dw_uart_read_def)
qed

lemma uart_read_fills_buffer_witness:
  "\<exists>h m vs. run_state (dw_uart_read uart_plat 5 0x100 0x1000 2) uart_mach1 = (Inr 2, uart_mach1\<lparr>mem := m, hist := h\<rparr>)
    \<and> reads_of sample_base h = vs \<and> bytes_at m 0x1000 2 = map ucast vs
    \<and> (\<forall>a. (\<forall>k < 2. a \<noteq> 0x1000 + of_nat k) \<longrightarrow> m a = ucast a) \<and> mmio_stores h = []"
  using uart_read_fills_buffer [of uart_mach1 "0x100" "0x1000" 2 5 uart_plat]
  by (simp add: sample_responsive)

subsection \<open>The transmit interrupt\<close>

text \<open>The device while its transmit buffer stands at an offset, and the state with a given one.\<close>

definition at_tx_ofs :: "u32 \<Rightarrow> u32 \<Rightarrow> access list \<Rightarrow> 'a uart_mach_scheme \<Rightarrow> 'a uart_mach_scheme" where
  "at_tx_ofs obj o' h s = s\<lparr>uinfo := (uinfo s)(obj := (uinfo s obj)
     \<lparr>ui_tx_buf := (ui_tx_buf (uinfo s obj))\<lparr>ofs := o'\<rparr>\<rparr>), hist := h\<rparr>"

lemma at_tx_ofs_simps [simp]:
  "at_tx_ofs obj o2 h2 (at_tx_ofs obj o1 h1 s) = at_tx_ofs obj o2 h2 s"
  "ui_tx_buf (uinfo (at_tx_ofs obj o1 h s) obj) = (ui_tx_buf (uinfo s obj))\<lparr>ofs := o1\<rparr>"
  "mem (at_tx_ofs obj o1 h s) = mem s" "hist (at_tx_ofs obj o1 h s) = h"
  by (simp_all add: at_tx_ofs_def)

lemma at_tx_ofs_same: "s\<lparr>hist := h\<rparr> = at_tx_ofs obj (ofs (ui_tx_buf (uinfo s obj))) h s"
  by (simp add: at_tx_ofs_def)

text \<open>What the transmit interrupt does once the last byte is out.\<close>

definition tx_finish :: "plat \<Rightarrow> 'a callback \<Rightarrow> u32 \<Rightarrow> ('a, unit) uop" where
  "tx_finish p cb obj = do {
     dw_uart_dis_cbr p obj DW_UART_RDY_SND;
     i \<leftarrow> get_info obj;
     c_if (ui_tx_cb i \<noteq> 0) (cb (ui_tx_cb i) obj);
     upd_info obj (\<lambda>i. i\<lparr>ui_tx_buf := null_buffer\<rparr>)
   }"

lemma isr_tx_step:
  "isr_tx_loop (Suc n) p cb obj base b =
     bindE (liftE (dw_uart_putready p base)) (\<lambda>ready.
       if \<not> ready then retE ()
       else bindE (liftE (do {
           i \<leftarrow> get_info obj;
           c \<leftarrow> ld8 (b + ofs (ui_tx_buf i));
           dw_uart_putchar p base c;
           upd_info obj (\<lambda>i. i\<lparr>ui_tx_buf := (ui_tx_buf i)\<lparr>ofs := ofs (ui_tx_buf i) + 1\<rparr>\<rparr>);
           get_info obj
         })) (\<lambda>i. if ofs (ui_tx_buf i) \<ge> blen (ui_tx_buf i) then liftE (tx_finish p cb obj)
                  else isr_tx_loop n p cb obj base b))"
  unfolding tx_finish_def isr_tx_loop.simps by (rule refl)

definition tx_progress ::
  "plat \<Rightarrow> 'a callback \<Rightarrow> u32 \<Rightarrow> u32 \<Rightarrow> 'a uart_mach_scheme \<Rightarrow> nat \<Rightarrow> access list
    \<Rightarrow> unit res \<times> 'a uart_mach_scheme \<Rightarrow> bool" where
  "tx_progress p cb obj base s k h result \<longleftrightarrow> (
     let b = ui_tx_buf (uinfo s obj); u = at_tx_ofs obj (ofs b + of_nat k) h s in
     k \<le> unat (blen b) - unat (ofs b)
     \<and> mmio_stores h = mmio_stores (hist s) @ map (\<lambda>c. (base, char_reg p c)) (bytes_at (mem s) (buf b + ofs b) k)
     \<and> result = (if k < unat (blen b) - unat (ofs b) then (Inr (), u) else run_state (liftE (tx_finish p cb obj)) u))"

lemma isr_tx_run:
  fixes s :: "'a uart_mach_scheme"
  shows "ui_tx_buf (uinfo s obj) = \<lparr>buf = b, blen = n, ofs = o1\<rparr> \<Longrightarrow> o1 < n \<Longrightarrow> unat n - unat o1 < fuel \<Longrightarrow>
   \<exists>k h. tx_progress p cb obj base s k h (run_state (isr_tx_loop fuel p cb obj base b) s)"
proof (induction fuel arbitrary: s o1)
  case 0
  then show ?case by simp
next
  case (Suc fuel)
  let ?d = "unat n - unat o1"
  have pos: "unat o1 < unat n" "0 < ?d" using Suc.prems(2) by (simp_all add: word_less_nat_alt)
  obtain r h where h: "run_state (dw_uart_putready p base) s = (r, s\<lparr>hist := h\<rparr>)"
    "mmio_stores h = mmio_stores (hist s)"
    using putready_polls [of base p] unfolding polls_only_def by (metis prod.collapse)
  show ?case
  proof (cases r)
    case False
    then have "run_state (isr_tx_loop (Suc fuel) p cb obj base b) s = (Inr (), at_tx_ofs obj o1 h s)"
      using h Suc.prems(1) by (simp add: at_tx_ofs_same [where s = s and h = h and obj = obj])
    then show ?thesis
      using h Suc.prems pos by (intro exI [of _ 0] exI [of _ h]) (simp add: tx_progress_def)
  next
    case True
    let ?h = "Mmio_wr base (char_reg p (mem s (b + o1))) # h"
    let ?u = "at_tx_ofs obj (o1 + 1) ?h s"
    have o1: "unat (o1 + 1) = unat o1 + 1" using pos(1) unsigned_less [of n, where 'a = nat] by (simp add: unat_word_ariths)
    have run: "run_state (isr_tx_loop (Suc fuel) p cb obj base b) s =
        (if o1 + 1 \<ge> n then run_state (liftE (tx_finish p cb obj)) ?u
         else run_state (isr_tx_loop fuel p cb obj base b) ?u)"
      using True h Suc.prems(1)
      by (simp add: isr_tx_step dw_uart_putchar_def at_tx_ofs_def hist_mem del: isr_tx_loop.simps)
    show ?thesis
    proof (cases "o1 + 1 \<ge> n")
      case True
      then have "?d = 1" using o1 pos by (simp add: word_le_nat_alt)
      then show ?thesis
        using run True h Suc.prems
        by (intro exI [of _ 1] exI [of _ ?h]) (simp add: tx_progress_def bytes_at_Suc)
    next
      case False
      have lt: "o1 + 1 < n" using False by (simp add: not_le)
      have fu: "unat n - unat (o1 + 1) < fuel" using Suc.prems(3) o1 pos by simp
      have tb: "ui_tx_buf (uinfo ?u obj) = \<lparr>buf = b, blen = n, ofs = o1 + 1\<rparr>"
        using Suc.prems(1) by simp
      obtain k g where "tx_progress p cb obj base ?u k g (run_state (isr_tx_loop fuel p cb obj base b) ?u)"
        using Suc.IH [OF tb lt fu] by blast
      then show ?thesis
        using run False h Suc.prems(1) o1 pos
        by (intro exI [of _ "Suc k"] exI [of _ g])
           (auto simp: tx_progress_def Let_def bytes_at_Suc algebra_simps)
    qed
  qed
qed

text \<open>
  C29: the transmit interrupt of a device with bytes pending always returns (the loop needs one round per pending byte) and makes
  exact progress: some number \<open>k\<close> of the pending bytes is put into the data register in buffer
  order; with bytes left over the offset has moved by exactly \<open>k\<close> and nothing else has changed,
  and only when none is left does it switch the transmit interrupt off, call the transmit callback
  and forget the buffer.
\<close>

theorem uart_isr_transmits:
  fixes s :: "'a uart_mach_scheme"
  assumes "uart_valid s obj" "mmio_in p (hist s) (uart_base s obj + UART_IIR) AND 0x0f = 0x02"
    and b: "buf (ui_tx_buf (uinfo s obj)) \<noteq> 0" "ofs (ui_tx_buf (uinfo s obj)) < blen (ui_tx_buf (uinfo s obj))"
    and fuel: "unat (blen (ui_tx_buf (uinfo s obj))) - unat (ofs (ui_tx_buf (uinfo s obj))) < fuel"
  shows "\<exists>k h. let b = ui_tx_buf (uinfo s obj); left = unat (blen b) - unat (ofs b);
        u = s\<lparr>uinfo := (uinfo s)(obj := (uinfo s obj)\<lparr>ui_tx_buf := b\<lparr>ofs := ofs b + of_nat k\<rparr>\<rparr>), hist := h\<rparr>
      in k \<le> left
       \<and> mmio_stores h = mmio_stores (hist s)
           @ map (\<lambda>c. (uart_base s obj, char_reg p c)) (bytes_at (mem s) (buf b + ofs b) k)
       \<and> run_state (dw_uart_isr p fuel cb obj) s =
           (Inr (), if k < left then u else snd (run_state (tx_finish p cb obj) u))"
proof -
  let ?s = "s\<lparr>hist := Mmio_rd (uart_base s obj + UART_IIR) (mmio_in p (hist s) (uart_base s obj + UART_IIR)) # hist s\<rparr>"
  have "run_state (dw_uart_isr p fuel cb obj) s =
      run_state (isr_tx_loop fuel p cb obj (uart_base s obj) (buf (ui_tx_buf (uinfo s obj)))) ?s"
    using assms(1,2) b(1) by (simp add: dw_uart_isr_def Let_def)
  moreover obtain k h where "tx_progress p cb obj (uart_base s obj) ?s k h
      (run_state (isr_tx_loop fuel p cb obj (uart_base s obj) (buf (ui_tx_buf (uinfo s obj)))) ?s)"
    using isr_tx_run [of ?s obj "buf (ui_tx_buf (uinfo s obj))" "blen (ui_tx_buf (uinfo s obj))"
        "ofs (ui_tx_buf (uinfo s obj))"] b(2) fuel by (simp, blast)
  ultimately show ?thesis
    by (intro exI [of _ k] exI [of _ h]) (simp add: tx_progress_def at_tx_ofs_def Let_def split_def)
qed

definition tx_irq_plat :: plat where
  "tx_irq_plat = uart_plat\<lparr>mmio_in := \<lambda>h a. if a = sample_base + 8 then 0x02 else mmio_in uart_plat h a\<rparr>"

definition tx_irq_mach :: uart_mach where
  "tx_irq_mach = uart_mach1\<lparr>uinfo := (uinfo uart_mach1)(0x100 := (uinfo uart_mach1 0x100)
     \<lparr>ui_tx_buf := \<lparr>buf = 0x61, blen = 3, ofs = 1\<rparr>\<rparr>)\<rparr>"

lemma uart_isr_transmits_witness:
  "\<exists>k h. k \<le> 2 \<and> mmio_stores h = map (\<lambda>c. (sample_base, char_reg tx_irq_plat c)) (bytes_at ucast 0x62 k)
     \<and> fst (run_state (dw_uart_isr tx_irq_plat 9 no_cb 0x100) tx_irq_mach) = Inr ()"
proof -
  have f: "uart_valid tx_irq_mach 0x100" "uart_base tx_irq_mach 0x100 = sample_base" "hist tx_irq_mach = []"
    "mem tx_irq_mach = ucast" "ui_tx_buf (uinfo tx_irq_mach 0x100) = \<lparr>buf = 0x61, blen = 3, ofs = 1\<rparr>"
    "mmio_in tx_irq_plat [] (sample_base + 8) = 2"
    by (simp_all add: tx_irq_mach_def tx_irq_plat_def uart_valid_def uart_base_def sample_ctrl_def)
  obtain k h where "k \<le> 2" "mmio_stores h = map (\<lambda>c. (sample_base, char_reg tx_irq_plat c)) (bytes_at ucast 0x62 k)"
    "fst (run_state (dw_uart_isr tx_irq_plat 9 no_cb 0x100) tx_irq_mach) = Inr ()"
    using uart_isr_transmits [of tx_irq_mach "0x100" tx_irq_plat 9 no_cb] f
    by (simp add: Let_def) (elim exE conjE, simp)
  then show ?thesis by blast
qed

subsection \<open>Life cycle\<close>

text \<open>The first open of a device that comes out of reset returns.\<close>

lemma open_returns:
  fixes s :: "'a uart_mach_scheme"
  assumes "uart_valid s obj" "ui_opn_cnt (uinfo s obj) = 0" "baud > 0" "baud * 16 \<noteq> 0"
    and idle: "responsive fuel (poll_idle p (uart_base s obj) :: ('a uart_mach_ext, bool) op)"
  shows "fst (run_state (dw_uart_open p fuel obj baud) s) = Inr E_OK"
proof -
  let ?s = "s\<lparr>uinfo := (uinfo s)(obj := (uinfo s obj)\<lparr>ui_opn_cnt := 1\<rparr>)\<rparr>"
  have "\<exists>x. fst (run_state (dw_uart_init p fuel (uart_base s obj) d dps fc) t) = Inr x"
    for d dps fc and t :: "'a uart_mach_scheme"
  proof -
    have "returns (dw_uart_init p fuel (uart_base s obj) d dps fc :: ('a uart_mach_ext, unit res) op)"
      using idle unfolding dw_uart_init_def dw_uart_software_reset_def poll_idle_def by blast
    then show ?thesis by (simp add: returns_def)
  qed
  then have "\<exists>x. fst (run_state (uart_first_open p fuel obj baud) ?s) = Inr x"
    using assms(4)
    by (simp add: uart_first_open_def Let_def uart_base_def split_def split: sum.split)
  then obtain x t where "run_state (uart_first_open p fuel obj baud) ?s = (Inr x, t)" by (metis prod.collapse)
  with first_open_ok [OF this] assms show ?thesis
    by (simp add: dw_uart_open_def)
qed

text \<open>
  C28: in every state an application reaches from a closed device by open, close, control, write,
  read and interrupts, interleaved with code that leaves the driver objects alone, the global
  interrupt flag is on exactly when the transmit or the receive interrupt is, and a device whose
  open count is zero is disabled, has no interrupt enabled and holds no buffer and no callback.
  The callbacks may be anything that keeps this invariant, the driver's own operations included.
\<close>

theorem uart_reachable_consistent:
  fixes cb :: "'a callback"
  assumes "\<And>f a. preserves (uart_inv obj) (cb f a)"
    and "uart_closed (uinfo s obj) (int_status (uctrl s (uart_ctrl (uinfo s obj))))"
    and "int_status (uctrl s (uart_ctrl (uinfo s obj))) = 0"
    and "(uart_step p fuel cb obj)\<^sup>*\<^sup>* s t"
  shows "(let i = uinfo t obj; st = int_status (uctrl t (uart_ctrl i)) in
      (bit st 0 \<longleftrightarrow> bit st 1 \<or> bit st 2)
      \<and> (ui_opn_cnt i = 0 \<longrightarrow> ui_status i = 0 \<and> \<not> bit st 0 \<and> ui_tx_buf i = null_buffer
           \<and> ui_rx_buf i = null_buffer \<and> ui_tx_cb i = 0 \<and> ui_rx_cb i = 0 \<and> ui_err_cb i = 0))"
proof -
  have "uart_inv obj s" using assms(2,3) by (simp add: uart_inv_def int_good_def)
  with uart_steps_inv [where cb = cb, OF assms(1,4)] have "uart_inv obj t" by blast
  then show ?thesis by (auto simp: uart_inv_def uart_closed_def int_good_def Let_def)
qed

lemma uart_reachable_consistent_witness:
  "(let t = snd (run_state (dw_uart_open uart_plat 5 0x100 115200) uart_mach0);
       i = uinfo t 0x100; st = int_status (uctrl t (uart_ctrl i))
    in (bit st 0 \<longleftrightarrow> bit st 1 \<or> bit st 2))"
proof -
  have valid: "uart_valid uart_mach0 0x100" "uart_base uart_mach0 0x100 = sample_base"
    by (simp_all add: uart_mach0_def uart_valid_def uart_base_def sample_info_def sample_ctrl_def
        mach.extend_def uart_mach.fields_def)
  have start: "ui_opn_cnt (uinfo uart_mach0 0x100) = 0"
    "uart_closed (uinfo uart_mach0 0x100) (int_status (uctrl uart_mach0 (uart_ctrl (uinfo uart_mach0 0x100))))"
    "int_status (uctrl uart_mach0 (uart_ctrl (uinfo uart_mach0 0x100))) = 0"
    by (simp_all add: uart_mach0_def uart_closed_def sample_info_def sample_ctrl_def mach.extend_def uart_mach.fields_def)
  have run: "run_state (dw_uart_open uart_plat 5 0x100 115200) uart_mach0
      = (Inr 0, snd (run_state (dw_uart_open uart_plat 5 0x100 115200) uart_mach0))"
  proof -
    have "fst (run_state (dw_uart_open uart_plat 5 0x100 115200) uart_mach0) = Inr 0"
      by (rule open_returns) (simp_all add: valid start sample_responsive)
    then show ?thesis by (metis prod.collapse)
  qed
  have "(uart_step uart_plat 5 no_cb 0x100)\<^sup>*\<^sup>* uart_mach0
      (snd (run_state (dw_uart_open uart_plat 5 0x100 115200) uart_mach0))"
    by (rule r_into_rtranclp, rule uart_step.Open [OF _ run]) (simp add: start)
  from uart_reachable_consistent [OF _ start(2,3) this] show ?thesis
    by (auto simp: Let_def no_cb_def)
qed

text \<open>
  The last close of a device that drains returns \<open>E_OK\<close> and leaves it quiet: disabled, with no
  interrupt enabled, no buffer and no callback, every other driver object as it was. It never
  calls a callback: the interrupts are off before the two aborts run, so the aborts do nothing,
  whatever the callbacks are.
\<close>

theorem uart_last_close_quiets:
  fixes s :: "'a uart_mach_scheme"
  assumes "uart_valid s obj" "ui_opn_cnt (uinfo s obj) = 1"
    and drains: "uart_drains p fuel (uart_base s obj) TYPE('a uart_mach_scheme)"
  shows "\<exists>t. run_state (dw_uart_close p fuel cb obj) s = (Inr E_OK, t)
    \<and> run_state (dw_uart_close p fuel cb' obj) s = (Inr E_OK, t)
    \<and> uinfo t = (uinfo s)(obj := (uinfo s obj)\<lparr>ui_opn_cnt := 0, ui_status := 0, ui_tx_buf := null_buffer,
         ui_rx_buf := null_buffer, ui_tx_cb := 0, ui_rx_cb := 0, ui_err_cb := 0, ui_extra := 0\<rparr>)
    \<and> (let cp = uart_ctrl (uinfo s obj); st = int_status (uctrl t cp) in
         \<not> bit st 0 \<and> \<not> bit st 1 \<and> \<not> bit st 2
         \<and> uctrl t = (uctrl s)(cp := (uctrl s cp)\<lparr>int_status := st\<rparr>))"
proof -
  let ?s = "s\<lparr>uinfo := (uinfo s)(obj := (uinfo s obj)\<lparr>ui_opn_cnt := 0\<rparr>)\<rparr>"
  have "uart_base ?s obj = uart_base s obj" by (simp add: uart_base_def)
  with shutdown_returns [of p fuel ?s obj] drains
  obtain x t where run: "run_state (uart_shutdown p fuel obj) ?s = (Inr x, t)" by (metis prod.collapse)
  have "x = E_OK" "uart_shut obj ?s t" using wpD [OF shutdown_wp run] by simp_all
  with run assms(1,2) show ?thesis
    by (intro exI [of _ t])
       (simp add: last_close uart_shut_def Let_def quiesced_def bits_off [unfolded One_nat_def] int_good_cleared)
qed

lemma uart_last_close_quiets_witness:
  "\<exists>t. run_state (dw_uart_close uart_plat 5 no_cb 0x100) uart_mach1 = (Inr 0, t)
     \<and> ui_status (uinfo t 0x100) = 0 \<and> \<not> bit (int_status (uctrl t 0x200)) 0"
proof -
  have "uart_drains uart_plat 5 (uart_base uart_mach1 0x100) TYPE(uart_mach)"
    by (simp add: uart_drains_def sample_responsive)
  from uart_last_close_quiets [OF _ _ this, of no_cb no_cb] show ?thesis
    by (auto simp: Let_def)
qed

text \<open>
  C32: opens and closes are counted. After any number of successful opens that does not wrap the count the same number of
  closes brings the open count back to what it was, whatever the callbacks do meanwhile, and the
  last of them answers \<open>E_OK\<close> exactly when the count is back at zero, \<open>E_OPNED\<close> otherwise.
\<close>

theorem uart_open_close_balance:
  fixes cb :: "'a callback"
  assumes "uart_valid s obj" "bauds \<noteq> []" "unat (ui_opn_cnt (uinfo s obj)) + length bauds < 2 ^ 32"
    and "run_state (open_all (dw_uart_open p fuel obj) bauds) s = (q, u)" "opened q"
    and "run_state (close_times (dw_uart_close p fuel cb obj) (length bauds)) u = (Inr r, t)"
  shows "ui_opn_cnt (uinfo t obj) = ui_opn_cnt (uinfo s obj)
    \<and> r = (if ui_opn_cnt (uinfo s obj) = 0 then E_OK else E_OPNED)"
  using uart_dev.opens_closes [of s obj bauds p fuel q u cb r t] assms by blast

lemma uart_open_close_balance_witness:
  "\<exists>t. run_state (close_times (dw_uart_close uart_plat 5 no_cb 0x100) 2)
        (snd (run_state (open_all (dw_uart_open uart_plat 5 0x100) [115200, 9600]) uart_mach1)) = (Inr (- 6), t)
     \<and> ui_opn_cnt (uinfo t 0x100) = 1"
proof -
  let ?o = "run_state (open_all (dw_uart_open uart_plat 5 0x100) [115200, 9600]) uart_mach1"
  let ?c = "run_state (close_times (dw_uart_close uart_plat 5 no_cb 0x100) 2) (snd ?o)"
  have "fst ?o = Inr 0" by code_simp
  then have o: "?o = (Inr 0, snd ?o)" by (metis prod.collapse)
  have "fst ?c = Inr (- 6)" by code_simp
  then have c: "?c = (Inr (- 6), snd ?c)" by (metis prod.collapse)
  have c2: "run_state (close_times (dw_uart_close uart_plat 5 no_cb 0x100) (length [115200, 9600 :: u32])) (snd ?o)
      = (Inr (- 6), snd ?c)"
    using c by (simp add: numeral_2_eq_2)
  have "ui_opn_cnt (uinfo (snd ?c) 0x100) = 1"
  proof -
    have b: "unat (ui_opn_cnt (uinfo uart_mach1 0x100)) + length [115200, 9600 :: u32] < 2 ^ 32" by simp
    have e: "opened (Inr 0)" by (simp add: opened_def)
    show ?thesis
      using conjunct1 [OF uart_open_close_balance [OF sample_uart_fields(1) _ b o e c2]]
      by (simp only: sample_uart_fields list.distinct simp_thms)
  qed
  with c show ?thesis by blast
qed

subsection \<open>Line settings and rejected calls\<close>

lemma lcr_field:
  assumes "c AND NOT m = (0 :: u32)"
  shows "((old AND NOT m) OR c) AND NOT m = old AND NOT m" "((old AND NOT m) OR c) AND m = c"
proof -
  have c: "bit m n" if "bit c n" "n < LENGTH(32)" for n
  proof -
    have "\<not> bit (c AND NOT m) n" by (simp add: assms)
    with that show ?thesis by (simp add: bit_simps)
  qed
  show "((old AND NOT m) OR c) AND NOT m = old AND NOT m" "((old AND NOT m) OR c) AND m = c"
    by (rule bit_word_eqI, use c in \<open>auto simp: bit_simps\<close>)+
qed

lemma rmw_twice:
  assumes "\<And>h v. mmio_in p (Mmio_wr a v # h) a = v"
  shows "run_state (do { mmio_and p a m; mmio_or p a w; State_Monad.return x }) s =
    (x, s\<lparr>hist := Mmio_wr a ((mmio_in p (hist s) a AND m) OR w) # Mmio_rd a (mmio_in p (hist s) a AND m)
       # Mmio_wr a (mmio_in p (hist s) a AND m) # Mmio_rd a (mmio_in p (hist s) a) # hist s\<rparr>)"
  using assms by (simp add: Let_def)

text \<open>
  \<open>dw_uart_set_dps\<close> rejects any format out of range and touches nothing then; for a valid one
  it rewrites the low six bits of the line control register, and only those, with the word
  length, the second stop bit and the parity code. The code of mark parity is that of space
  parity: the table holds the parity mask where the mark code belongs.
\<close>

theorem uart_set_dps_writes_format:
  assumes lcr: "\<And>h v. mmio_in p (Mmio_wr (base + UART_LCR) v # h) (base + UART_LCR) = v"
  shows "if 5 \<le> databits dps \<and> databits dps \<le> 8 \<and> stopbits dps \<le> 2 \<and> parity dps \<le> 4
    then \<exists>h v. run_state (dw_uart_set_dps p base dps) s = (0, s\<lparr>hist := Mmio_wr (base + UART_LCR) v # h\<rparr>)
      \<and> v AND NOT LCR_DPS_MASK = mmio_in p (hist s) (base + UART_LCR) AND NOT LCR_DPS_MASK
      \<and> v AND LCR_DPS_MASK = (databits dps - 5) OR (if stopbits dps = 0 then 0 else 0x04)
          OR (if parity dps = 0 then 0 else if parity dps = 1 then 0x08 else if parity dps = 2 then 0x18 else 0x38)
    else run_state (dw_uart_set_dps p base dps) s = (- 1, s)"
proof (cases "5 \<le> databits dps \<and> databits dps \<le> 8 \<and> stopbits dps \<le> 2 \<and> parity dps \<le> 4")
  case False
  then show ?thesis by (auto simp: dw_uart_set_dps_def not_le not_less)
next
  case True
  have small: "x \<in> {5, 6, 7, 8}" if "5 \<le> x" "x \<le> 8" for x :: u32
  proof -
    have "unat x \<in> {5, 6, 7, 8}" using that by (auto simp: word_le_nat_alt)
    then show ?thesis by (auto simp: word_unat_eq_iff)
  qed
  have small2: "x \<in> {0, 1, 2}" if "x \<le> 2" for x :: u32
  proof -
    have "unat x \<in> {0, 1, 2}" using that by (auto simp: word_le_nat_alt)
    then show ?thesis by (auto simp: word_unat_eq_iff)
  qed
  have small4: "x \<in> {0, 1, 2, 3, 4}" if "x \<le> 4" for x :: u32
  proof -
    have "unat x \<in> {0, 1, 2, 3, 4}" using that by (auto simp: word_le_nat_alt)
    then show ?thesis by (auto simp: word_unat_eq_iff)
  qed
  let ?c = "(databits dps - 5) OR (if stopbits dps = 0 then 0 else 0x04)
     OR (if parity dps = 0 then 0 else if parity dps = 1 then 0x08 else if parity dps = 2 then 0x18 else 0x38)"
  let ?v = "(ucast (dw_uart_databits ! unat (databits dps - 5)) OR ucast (dw_uart_stopbits ! unat (stopbits dps)))
     OR ucast (dw_uart_parity ! unat (parity dps)) :: u32"
  have "databits dps \<in> {5, 6, 7, 8}" "stopbits dps \<in> {0, 1, 2}" "parity dps \<in> {0, 1, 2, 3, 4}"
    using True by (simp_all only: small small2 small4)
  moreover have "ucast (dw_uart_databits ! unat (d - 5)) = d - 5" if "d \<in> {5, 6, 7, 8}" for d :: u32
    using that by (auto simp: dw_uart_databits_def)
  moreover have "ucast (dw_uart_stopbits ! unat d) = (if d = 0 then 0 else 0x04 :: u32)" if "d \<in> {0, 1, 2}" for d :: u32
    using that by (auto simp: dw_uart_stopbits_def)
  moreover have "ucast (dw_uart_parity ! unat d) = (if d = 0 then 0 else if d = 1 then 0x08 else if d = 2 then 0x18 else 0x38 :: u32)"
    if "d \<in> {0, 1, 2, 3, 4}" for d :: u32
    using that by (auto simp: dw_uart_parity_def)
  ultimately have v: "?v = ?c" by (simp only: or.assoc)
  have "(databits dps - 5) AND NOT 0x3F = 0"
    using \<open>databits dps \<in> {5, 6, 7, 8}\<close> by auto
  then have c: "?c AND NOT 0x3F = 0"
    by (simp add: bit.conj_disj_distrib2)
  let ?old = "mmio_in p (hist s) (base + UART_LCR)"
  define mid where "mid = ?old AND NOT 0x3F"
  define h where "h = Mmio_rd (base + UART_LCR) mid # Mmio_wr (base + UART_LCR) mid
     # Mmio_rd (base + UART_LCR) ?old # hist s"
  have "run_state (dw_uart_set_dps p base dps) s = (0, s\<lparr>hist := Mmio_wr (base + UART_LCR) (mid OR ?v) # h\<rparr>)"
  proof -
    have cond: "(databits dps < 5 \<or> databits dps > 8) = False" "(stopbits dps > 2) = False" "(parity dps > 4) = False"
      using True by auto
    show ?thesis
      by (simp only: dw_uart_set_dps_def cond if_False Let_def rmw_twice [OF lcr] mid_def h_def or.assoc)
  qed
  then have "run_state (dw_uart_set_dps p base dps) s = (0, s\<lparr>hist := Mmio_wr (base + UART_LCR) (mid OR ?c) # h\<rparr>)"
    unfolding v .
  then show ?thesis
    unfolding if_P [OF True] using lcr_field [OF c, of ?old]
    unfolding mid_def [symmetric] by blast
qed

definition lcr_plat :: plat where
  "lcr_plat = uart_plat\<lparr>mmio_in := \<lambda>h a. if a = sample_base + UART_LCR
     then (if writes_to a h = [] then 0xC0 else last (writes_to a h)) else 0\<rparr>"

lemma uart_set_dps_writes_format_witness:
  "\<exists>h v. run_state (dw_uart_set_dps lcr_plat sample_base \<lparr>databits = 8, parity = 3, stopbits = 1\<rparr>) uart_mach1
      = (0, uart_mach1\<lparr>hist := Mmio_wr (sample_base + 0xc) v # h\<rparr>)
    \<and> v AND 0x3F = 0x3F"
proof -
  have "mmio_in lcr_plat (Mmio_wr (sample_base + 0xc) v # h) (sample_base + 0xc) = v" for h v
    by (simp add: lcr_plat_def)
  from uart_set_dps_writes_format [of lcr_plat sample_base "\<lparr>databits = 8, parity = 3, stopbits = 1\<rparr>" uart_mach1, OF this]
  show ?thesis by simp blast
qed

text \<open>The accesses of \<open>dw_uart_set_baud\<close>.\<close>

definition set_baud_hist :: "plat \<Rightarrow> u32 \<Rightarrow> u32 \<Rightarrow> access list \<Rightarrow> access list" where
  "set_baud_hist p base d h = (
     let lcr = base + UART_LCR; a = mmio_in p h lcr;
       h1 = Mmio_wr (base + UART_IER) (drop_bit 8 d AND 0xff) # Mmio_wr base (d AND 0xff)
         # Mmio_wr lcr (a OR LCR_DLAB) # Mmio_rd lcr a # h;
       b = mmio_in p h1 lcr
     in Mmio_wr lcr (b AND NOT LCR_DLAB) # Mmio_rd lcr b # h1)"

lemma set_baud_run: "run_state (dw_uart_set_baud p base d) s = ((), s\<lparr>hist := set_baud_hist p base d (hist s)\<rparr>)"
  by (simp add: dw_uart_set_baud_def set_baud_hist_def Let_def)

lemma set_baud_stores:
  "\<exists>u v. mmio_stores (set_baud_hist p base d h) = mmio_stores h @ [(base + UART_LCR, u OR LCR_DLAB),
     (base, d AND 0xff), (base + UART_IER, drop_bit 8 d AND 0xff), (base + UART_LCR, v AND NOT LCR_DLAB)]"
  by (auto simp: set_baud_hist_def Let_def)

text \<open>
  \<open>UART_CMD_ENA_DEV\<close> on an open but disabled device marks it enabled and returns \<open>E_OK\<close>, and
  what it loads into the two divisor latches, between setting and clearing the latch access bit,
  is the low half of the baud rate itself. The open and \<open>UART_CMD_SET_BAUD\<close> load the bus
  frequency divided by sixteen times the baud rate, so a disable and an enable change the speed.
\<close>

theorem uart_enable_loads_baudrate:
  fixes s :: "'a uart_mach_scheme"
  assumes "uart_valid s obj" "0 < ui_opn_cnt (uinfo s obj)" "ui_status (uinfo s obj) AND DEV_ENABLED = 0"
  shows "\<exists>h u v. run_state (dw_uart_control p fuel cb obj UART_CMD_ENA_DEV param) s = (Inr E_OK,
      s\<lparr>uinfo := (uinfo s)(obj := (uinfo s obj)\<lparr>ui_status := ui_status (uinfo s obj) OR DEV_ENABLED\<rparr>), hist := h\<rparr>)
    \<and> mmio_stores h = mmio_stores (hist s) @ [(uart_base s obj + UART_LCR, u OR LCR_DLAB),
        (uart_base s obj, ui_baudrate (uinfo s obj) AND 0xff),
        (uart_base s obj + UART_IER, drop_bit 8 (ui_baudrate (uinfo s obj)) AND 0xff),
        (uart_base s obj + UART_LCR, v AND NOT LCR_DLAB)]"
  using assms set_baud_stores [of p "uart_base s obj" "ui_baudrate (uinfo s obj)" "hist s"]
  by (intro exI [of _ "set_baud_hist p (uart_base s obj) (ui_baudrate (uinfo s obj)) (hist s)"])
     (simp add: dw_uart_control_def uart_command_def Let_def okE_def dw_uart_enable_device_def
      set_baud_run uart_base_def hist_mem)

lemma uart_enable_loads_baudrate_witness:
  "\<exists>t h u v. run_state (dw_uart_control uart_plat 5 no_cb 0x100 2 0)
      (uart_mach1\<lparr>uinfo := (uinfo uart_mach1)(0x100 := (uinfo uart_mach1 0x100)\<lparr>ui_status := 0, ui_baudrate := 115200\<rparr>)\<rparr>)
      = (Inr 0, t)
    \<and> mmio_stores (hist t) = [(sample_base + 0xc, u OR 0x80), (sample_base, 0x00), (sample_base + 4, 0xC2),
        (sample_base + 0xc, v AND NOT 0x80)]"
proof -
  let ?s = "uart_mach1\<lparr>uinfo := (uinfo uart_mach1)(0x100 := (uinfo uart_mach1 0x100)\<lparr>ui_status := 0, ui_baudrate := 115200\<rparr>)\<rparr>"
  have "uart_valid ?s 0x100" "uart_base ?s 0x100 = sample_base" "0 < ui_opn_cnt (uinfo ?s 0x100)"
    by (simp_all add: uart_valid_def uart_base_def sample_ctrl_def)
  with uart_enable_loads_baudrate [of ?s "0x100" uart_plat 5 no_cb 0] show ?thesis
    by (simp, elim exE conjE) (intro exI conjI, assumption, simp)
qed

text \<open>
  Calls the driver must refuse are refused without touching a device, memory or a driver
  object: no valid object, \<open>E_OBJ\<close>; a device nobody has open, \<open>E_CLSED\<close>; a disabled device,
  \<open>E_SYS\<close> for transfers and for every command but enable, disable and status; a null buffer or
  a zero length, \<open>E_PAR\<close>.
\<close>

theorem uart_rejects_bad_calls:
  fixes s :: "'a uart_mach_scheme" and cb :: "'a callback"
  shows "(\<not> uart_valid s obj \<longrightarrow>
      (\<forall>m \<in> {dw_uart_open p fuel obj baud, dw_uart_close p fuel cb obj, dw_uart_control p fuel cb obj cmd param,
         dw_uart_write p fuel obj data len, dw_uart_read p fuel obj data len}. run_state m s = (Inr E_OBJ, s)))
    \<and> (uart_valid s obj \<and> ui_opn_cnt (uinfo s obj) = 0 \<longrightarrow>
      (\<forall>m \<in> {dw_uart_control p fuel cb obj cmd param, dw_uart_write p fuel obj data len, dw_uart_read p fuel obj data len}.
         run_state m s = (Inr E_CLSED, s)) \<and> run_state (dw_uart_close p fuel cb obj) s = (Inr E_OK, s))
    \<and> (uart_valid s obj \<and> ui_opn_cnt (uinfo s obj) \<noteq> 0 \<and> ui_status (uinfo s obj) AND DEV_ENABLED = 0 \<longrightarrow>
      (\<forall>m \<in> {dw_uart_write p fuel obj data len, dw_uart_read p fuel obj data len}. run_state m s = (Inr E_SYS, s))
      \<and> (cmd \<notin> {UART_CMD_ENA_DEV, UART_CMD_DIS_DEV, UART_CMD_GET_STATUS} \<longrightarrow>
           run_state (dw_uart_control p fuel cb obj cmd param) s = (Inr E_SYS, s)))
    \<and> (uart_valid s obj \<and> ui_opn_cnt (uinfo s obj) \<noteq> 0 \<and> ui_status (uinfo s obj) AND DEV_ENABLED \<noteq> 0
        \<and> (data = 0 \<or> len = 0) \<longrightarrow>
      (\<forall>m \<in> {dw_uart_write p fuel obj data len, dw_uart_read p fuel obj data len}. run_state m s = (Inr E_PAR, s)))"
  by (simp add: dw_uart_open_def dw_uart_close_def dw_uart_control_def dw_uart_write_def dw_uart_read_def
      word_neq_0_conv [symmetric])

lemma uart_rejects_bad_calls_witness:
  "run_state (dw_uart_write uart_plat 5 0x100 0 3) uart_mach1 = (Inr (- 17), uart_mach1)
   \<and> run_state (dw_uart_read uart_plat 5 0x100 0x40 0) uart_mach1 = (Inr (- 17), uart_mach1)"
  using uart_rejects_bad_calls [of uart_mach1 "0x100" uart_plat 5 _ no_cb _ _ 0 3]
    uart_rejects_bad_calls [of uart_mach1 "0x100" uart_plat 5 _ no_cb _ _ "0x40" 0]
  by simp

end
