(* ===== verification/Xprintf.thy ===== *)
theory Xprintf
  imports Machine
begin

section \<open>Console formatting (xprintf.c)\<close>

text \<open>
  \<open>library/console/xprintf/xprintf.c\<close>: character output to a device function or to memory,
  the formatter, the dump and line-input routines and the number parser. A C string argument is
  the list of its bytes before the terminator, which for the format and \<open>\%s\<close> arguments means that
  the output buffer of \<open>xsprintf\<close> does not overlap them. The variable arguments are a list of
  words and strings; taking one that is missing or of the other kind is undefined behaviour.
  The function pointers \<open>xfunc_out\<close> and \<open>xfunc_in\<close> are addresses: what is sent to an output
  function is recorded in \<open>x_out\<close>, oldest first, and \<open>x_in\<close> holds what an input function will
  deliver; when that is used up the input function never returns (\<open>Hang\<close>).
\<close>

record xio_mach = mach +
  x_out :: "(u32 \<times> u8) list"
  x_in :: "u32 \<Rightarrow> u8 list"
  xfunc_out :: u32
  xfunc_in :: u32
  outptr :: u32

type_synonym ('a, 'r) xop = "('a xio_mach_scheme, 'r) state"

subsection \<open>Characters and strings\<close>

text \<open>\<open>xputc\<close> after its conversion of line feeds: the code calls itself with a carriage return.\<close>

definition xput_raw :: "u8 \<Rightarrow> ('a, unit) xop" where
  "xput_raw c = State_Monad.update (\<lambda>s.
     if outptr s \<noteq> 0 then s\<lparr>mem := (mem s)(outptr s := c), outptr := outptr s + 1\<rparr>
     else if xfunc_out s \<noteq> 0 then s\<lparr>x_out := x_out s @ [(xfunc_out s, c)]\<rparr>
     else s)"

definition xputc :: "u8 \<Rightarrow> ('a, unit) xop" where
  "xputc c = do { c_if (c = 0x0a) (xput_raw 0x0d); xput_raw c }"

primrec xputs :: "u8 list \<Rightarrow> ('a, unit) xop" where
  "xputs [] = State_Monad.return ()"
| "xputs (c # str) = do { xputc c; xputs str }"

definition set_xfunc_out :: "u32 \<Rightarrow> ('a, unit) xop" where
  "set_xfunc_out f = State_Monad.update (\<lambda>s. s\<lparr>xfunc_out := f\<rparr>)"

definition xfputs :: "u32 \<Rightarrow> u8 list \<Rightarrow> ('a, unit) xop" where
  "xfputs func str = do {
     s \<leftarrow> State_Monad.get;
     set_xfunc_out func;
     xputs str;
     set_xfunc_out (xfunc_out s)
   }"

subsection \<open>The formatter\<close>

datatype xarg = Int_arg u32 | Str_arg "u8 list"

text \<open>\<open>c = *fmt++\<close>: the terminator is read as 0; the loops below never read past it.\<close>

fun next_char :: "u8 list \<Rightarrow> u8 \<times> u8 list" where
  "next_char [] = (0, [])"
| "next_char (c # r) = (c, r)"

lemma next_char_measure:
  "(case next_char fmt of (c, r) \<Rightarrow> if c = 0 then 0 else Suc (length r)) < Suc (length fmt)"
  by (cases fmt) auto

text \<open>\<open>for (w = 0; c >= '0' && c <= '9'; c = *fmt++) w = w * 10 + c - '0'\<close>\<close>

function parse_width :: "u32 \<Rightarrow> u8 \<Rightarrow> u8 list \<Rightarrow> u32 \<times> u8 \<times> u8 list" where
  "parse_width w c fmt = (
     if 0x30 \<le> c \<and> c \<le> 0x39 then
       (let (c', r) = next_char fmt in parse_width (w * 10 + ucast c - 0x30) c' r)
     else (w, c, fmt))"
  by pat_completeness auto
termination
  by (relation "measure (\<lambda>(w, c, fmt). if c = 0 then 0 else Suc (length fmt))")
     (auto simp: next_char_measure split: if_splits)

declare parse_width.simps [simp del]

text \<open>The flags, the width and the size prefix of one sequence: \<open>f\<close>, \<open>w\<close>, the type and the rest.\<close>

definition parse_spec :: "u8 list \<Rightarrow> u32 \<times> u32 \<times> u8 \<times> u8 list" where
  "parse_spec fmt = (
     let (c, fmt) = next_char fmt;
         (f, c, fmt) = (if c = 0x30 then let (c, fmt) = next_char fmt in (1, c, fmt)
                        else if c = 0x2d then let (c, fmt) = next_char fmt in (2, c, fmt)
                        else (0, c, fmt));
         (w, c, fmt) = parse_width 0 c fmt
     in if c = 0x6c \<or> c = 0x4c then let (c, fmt) = next_char fmt in (f OR 4, w, c, fmt)
        else (f, w, c, fmt))"

text \<open>
  The digits of \<open>v\<close> in radix \<open>r\<close>, least significant first, at most \<open>n\<close> of them:
  the \<open>do ... while (v && i < sizeof(s))\<close> loop.
\<close>

primrec x_digits :: "nat \<Rightarrow> u32 \<Rightarrow> bool \<Rightarrow> u32 \<Rightarrow> u8 list" where
  "x_digits 0 r lower v = []"
| "x_digits (Suc n) r lower v =
     (let d = ucast (v mod r) :: u8; d = (if d > 9 then d + (if lower then 0x27 else 0x07) else d)
      in (d + 0x30) # (if v div r \<noteq> 0 then x_digits n r lower (v div r) else []))"

text \<open>\<open>while (j++ < w) xputc(c)\<close>, with the value of \<open>j\<close> after it.\<close>

function x_pad :: "u8 \<Rightarrow> u32 \<Rightarrow> u32 \<Rightarrow> ('a, u32) xop" where
  "x_pad c j w = (if j < w then do { xputc c; x_pad c (j + 1) w } else State_Monad.return (j + 1))"
  by pat_completeness auto
termination
proof (relation "measure (\<lambda>(c, j, w). unat w - unat j)")
  fix c :: u8 and j w :: u32 and x
  assume "j < w"
  then have "unat (j + 1) = unat j + 1" "unat j < unat w"
    using unsigned_less [of w, where 'a = nat] by (simp_all add: unat_word_ariths word_less_nat_alt)
  then show "((c, j + 1, w), (c, j, w)) \<in> measure (\<lambda>(c, j, w). unat w - unat j)" by simp
qed simp

declare x_pad.simps [simp del]

text \<open>The type letter in upper case, as the code computes \<open>d\<close>.\<close>

definition x_upper :: "u8 \<Rightarrow> u8" where
  "x_upper c = (if c \<ge> 0x61 then c - 0x20 else c)"

definition x_radix :: "u8 \<Rightarrow> u32" where
  "x_radix d = (if d = 0x42 then 2 else if d = 0x4f then 8 else if d = 0x44 \<or> d = 0x55 then 10
     else if d = 0x58 then 16 else 0)"

text \<open>The numeral of a \<open>\%b\<close>, \<open>\%o\<close>, \<open>\%d\<close>, \<open>\%u\<close> or \<open>\%x\<close> argument; \<open>f\<close>, \<open>w\<close> as parsed, \<open>c\<close> the type letter.\<close>

definition x_numeral :: "u32 \<Rightarrow> u32 \<Rightarrow> u8 \<Rightarrow> u32 \<Rightarrow> ('a, unit) xop" where
  "x_numeral f w c v = (
     let d = x_upper c; r = x_radix d;
         neg = (d = 0x44 \<and> v AND 0x80000000 \<noteq> 0);
         v = (if neg then 0 - v else v);
         s = x_digits 16 r (c = 0x78) v;
         s = (if neg \<and> length s < 16 then s @ [0x2d] else s);
         j = of_nat (length s);
         pad = (if f AND 1 \<noteq> 0 then 0x30 else 0x20)
     in do {
       j \<leftarrow> (if f AND 2 = 0 then x_pad pad j w else State_Monad.return j);
       xputs (rev s);
       _ \<leftarrow> x_pad 0x20 j w;
       State_Monad.return ()
     })"

text \<open>A \<open>\%s\<close> argument. The first loop advances \<open>j\<close> only when the text is right justified.\<close>

definition x_string :: "u32 \<Rightarrow> u32 \<Rightarrow> u8 list \<Rightarrow> ('a, unit) xop" where
  "x_string f w p = do {
     j \<leftarrow> (if f AND 2 = 0 then x_pad 0x20 (of_nat (length p)) w
           else State_Monad.return (of_nat (length p)));
     xputs p;
     _ \<leftarrow> x_pad 0x20 j w;
     State_Monad.return ()
   }"

text \<open>One conversion: what it prints and the arguments it leaves.\<close>

definition x_conv :: "u32 \<Rightarrow> u32 \<Rightarrow> u8 \<Rightarrow> xarg list \<Rightarrow> ('a, xarg list res) xop" where
  "x_conv f w c arp = (
     let d = x_upper c in
     if d = 0x53 then
       (case arp of Str_arg p # rest \<Rightarrow> liftE (do { x_string f w p; State_Monad.return rest })
                  | _ \<Rightarrow> stopE Undef)
     else if d = 0x43 then
       (case arp of Int_arg v # rest \<Rightarrow> liftE (do { xputc (ucast v); State_Monad.return rest })
                  | _ \<Rightarrow> stopE Undef)
     else if x_radix d \<noteq> 0 then
       (case arp of Int_arg v # rest \<Rightarrow> liftE (do { x_numeral f w c v; State_Monad.return rest })
                  | _ \<Rightarrow> stopE Undef)
     else liftE (do { xputc c; State_Monad.return arp }))"

lemma next_char_length: "length (snd (next_char fmt)) \<le> length fmt"
  by (cases fmt) simp_all

lemma parse_width_length: "length (snd (snd (parse_width w c fmt))) \<le> length fmt"
proof (induction w c fmt rule: parse_width.induct)
  case (1 w c fmt)
  show ?case
  proof (cases "0x30 \<le> c \<and> c \<le> 0x39")
    case True
    obtain a r where n: "next_char fmt = (a, r)" by fastforce
    show ?thesis
      using "1" [OF True refl n [symmetric]] next_char_length [of fmt] n True
      by (subst parse_width.simps) simp
  next
    case False
    then show ?thesis by (subst parse_width.simps) auto
  qed
qed

lemma parse_spec_length: "length (snd (snd (snd (parse_spec fmt)))) \<le> length fmt"
proof -
  have n: "length (snd (next_char r)) \<le> length fmt" if "length r \<le> length fmt" for r
    using next_char_length [of r] that by simp
  have w: "length (snd (snd (parse_width w c r))) \<le> length fmt" if "length r \<le> length fmt" for w c r
    using parse_width_length [of w c r] that by simp
  show ?thesis
    by (simp add: parse_spec_def split_def Let_def n w)
qed

function xvprintf :: "u8 list \<Rightarrow> xarg list \<Rightarrow> ('a, unit res) xop" where
  "xvprintf [] arp = retE ()"
| "xvprintf (c # fmt) arp = (
     if c \<noteq> 0x25 then bindE (liftE (xputc c)) (\<lambda>_. xvprintf fmt arp)
     else case parse_spec fmt of (f, w, c, rest) \<Rightarrow>
       if c = 0 then retE () else bindE (x_conv f w c arp) (\<lambda>arp. xvprintf rest arp))"
  by pat_completeness auto
termination
  by (relation "measure (\<lambda>(fmt, arp). length fmt)")
     (simp_all, metis le_imp_less_Suc parse_spec_length snd_conv)

definition xprintf :: "u8 list \<Rightarrow> xarg list \<Rightarrow> ('a, unit res) xop" where
  "xprintf fmt args = xvprintf fmt args"

definition set_outptr :: "u32 \<Rightarrow> ('a, unit) xop" where
  "set_outptr a = State_Monad.update (\<lambda>s. s\<lparr>outptr := a\<rparr>)"

definition xsprintf :: "u32 \<Rightarrow> u8 list \<Rightarrow> xarg list \<Rightarrow> ('a, unit res) xop" where
  "xsprintf buff fmt args =
     bindE (liftE (set_outptr buff)) (\<lambda>_.
     bindE (xvprintf fmt args) (\<lambda>_.
     liftE (do {
       s \<leftarrow> State_Monad.get;
       st8 (outptr s) 0;
       set_outptr 0
     })))"

definition xfprintf :: "u32 \<Rightarrow> u8 list \<Rightarrow> xarg list \<Rightarrow> ('a, unit res) xop" where
  "xfprintf func fmt args =
     bindE (liftE State_Monad.get) (\<lambda>s.
     bindE (liftE (set_xfunc_out func)) (\<lambda>_.
     bindE (xvprintf fmt args) (\<lambda>_.
     liftE (set_xfunc_out (xfunc_out s)))))"

subsection \<open>Dumps\<close>

definition str_bytes :: "string \<Rightarrow> u8 list" where
  "str_bytes = map of_char"

text \<open>The loops of \<open>put_dump\<close>, with \<open>n\<close> items to go from address \<open>a\<close>.\<close>

primrec dump_hex8 :: "nat \<Rightarrow> u32 \<Rightarrow> ('a, unit res) xop" where
  "dump_hex8 0 a = retE ()"
| "dump_hex8 (Suc n) a =
     bindE (liftE (ld8 a)) (\<lambda>b.
     bindE (xprintf (str_bytes '' %02X'') [Int_arg (ucast b)]) (\<lambda>_. dump_hex8 n (a + 1)))"

primrec dump_ascii8 :: "nat \<Rightarrow> u32 \<Rightarrow> ('a, unit) xop" where
  "dump_ascii8 0 a = State_Monad.return ()"
| "dump_ascii8 (Suc n) a = do {
     b \<leftarrow> ld8 a;
     xputc (if 0x20 \<le> b \<and> b \<le> 0x7e then b else 0x2e);
     dump_ascii8 n (a + 1)
   }"

text \<open>\<open>do ... while (--len)\<close>; decrementing \<open>INT_MIN\<close> is undefined.\<close>

lemma sint_minus_one:
  assumes "(len :: s32) \<noteq> 0x80000000"
  shows "sint (len - 1) = sint len - 1" "- (2 ^ 31) < sint len"
proof -
  have "sint len \<noteq> sint (0x80000000 :: s32)" using assms by (metis signed_word_eqI)
  moreover have "- (2 ^ 31) \<le> sint len" "sint len < 2 ^ 31"
    using sint_ge [of len] sint_lt [of len] by simp_all
  ultimately show lo: "- (2 ^ 31) < sint len" by simp
  with \<open>sint len < 2 ^ 31\<close> show "sint (len - 1) = sint len - 1"
    by (simp add: sint_word_ariths signed_take_bit_int_eq_self)
qed

function dump16 :: "u32 \<Rightarrow> s32 \<Rightarrow> ('a, unit res) xop" where
  "dump16 a len =
     bindE (liftE State_Monad.get) (\<lambda>s.
     bindE (xprintf (str_bytes '' %04X'') [Int_arg (ucast (get16 (mem s) a))]) (\<lambda>_.
     if len = 0x80000000 then stopE Undef
     else if len - 1 \<noteq> 0 then dump16 (a + 2) (len - 1) else retE ()))"
  by pat_completeness auto
termination
  by (relation "measure (\<lambda>(a, len). nat (sint len + 2 ^ 31))") (auto simp: sint_minus_one dest: sint_minus_one(2))

function dump32 :: "u32 \<Rightarrow> s32 \<Rightarrow> ('a, unit res) xop" where
  "dump32 a len =
     bindE (liftE (ld32 a)) (\<lambda>v.
     bindE (xprintf (str_bytes '' %08LX'') [Int_arg v]) (\<lambda>_.
     if len = 0x80000000 then stopE Undef
     else if len - 1 \<noteq> 0 then dump32 (a + 4) (len - 1) else retE ()))"
  by pat_completeness auto
termination
  by (relation "measure (\<lambda>(a, len). nat (sint len + 2 ^ 31))") (auto simp: sint_minus_one dest: sint_minus_one(2))

declare dump16.simps [simp del] dump32.simps [simp del]

definition put_dump :: "u32 \<Rightarrow> u32 \<Rightarrow> s32 \<Rightarrow> s32 \<Rightarrow> ('a, unit res) xop" where
  "put_dump buff addr len width =
     bindE (xprintf (str_bytes ''%08lX '') [Int_arg addr]) (\<lambda>_.
     bindE (if width = 1 then
              bindE (dump_hex8 (nat (sint len)) buff) (\<lambda>_.
              liftE (do { xputc 0x20; dump_ascii8 (nat (sint len)) buff }))
            else if width = 2 then dump16 buff len
            else if width = 4 then dump32 buff len
            else retE ()) (\<lambda>_.
     liftE (xputc 0x0a)))"

subsection \<open>Line input\<close>

text \<open>
  The loop of \<open>xgets\<close> on what the input function delivers; \<open>i\<close> characters are in the buffer.
  \<open>XPRINTF_LINE_ECHO\<close> is on.
\<close>

primrec xgets_loop :: "u32 \<Rightarrow> u8 list \<Rightarrow> u32 \<Rightarrow> s32 \<Rightarrow> s32 \<Rightarrow> ('a, s32 res) xop" where
  "xgets_loop f [] buff len i = stopE Hang"
| "xgets_loop f (c # cs) buff len i =
     bindE (liftE (State_Monad.update (\<lambda>s. s\<lparr>x_in := (x_in s)(f := cs)\<rparr>))) (\<lambda>_.
     if c = 0 then retE 0
     else if c = 0x0d then
       liftE (do { st8 (buff + i) 0; xputc 0x0a; State_Monad.return 1 })
     else if c = 0x08 \<and> i \<noteq> 0 then
       bindE (liftE (xputc c)) (\<lambda>_. xgets_loop f cs buff len (i - 1))
     else if c \<ge> 0x20 \<and> len = 0x80000000 then stopE Undef
     else if c \<ge> 0x20 \<and> sint i < sint (len - 1) then
       bindE (liftE (do { st8 (buff + i) c; xputc c })) (\<lambda>_. xgets_loop f cs buff len (i + 1))
     else xgets_loop f cs buff len i)"

definition xgets :: "u32 \<Rightarrow> s32 \<Rightarrow> ('a, s32 res) xop" where
  "xgets buff len = do {
     s \<leftarrow> State_Monad.get;
     if xfunc_in s = 0 then retE 0
     else xgets_loop (xfunc_in s) (x_in s (xfunc_in s)) buff len 0
   }"

definition set_xfunc_in :: "u32 \<Rightarrow> ('a, unit) xop" where
  "set_xfunc_in f = State_Monad.update (\<lambda>s. s\<lparr>xfunc_in := f\<rparr>)"

definition xfgets :: "u32 \<Rightarrow> u32 \<Rightarrow> s32 \<Rightarrow> ('a, s32 res) xop" where
  "xfgets func buff len =
     bindE (liftE State_Monad.get) (\<lambda>s.
     bindE (liftE (set_xfunc_in func)) (\<lambda>_.
     bindE (xgets buff len) (\<lambda>n.
     bindE (liftE (set_xfunc_in (xfunc_in s))) (\<lambda>_. retE n))))"

subsection \<open>Numbers in strings\<close>

text \<open>The byte at the string pointer.\<close>

definition cur :: "u8 list \<Rightarrow> u8" where
  "cur str = (case str of [] \<Rightarrow> 0 | c # _ \<Rightarrow> c)"

text \<open>
  \<open>xatoi\<close>: the return value, the number stored at \<open>res\<close> and where the string pointer is left.
  The digit loop comes first; \<open>str\<close> starts at its current character.
\<close>

definition atoi_digit :: "u8 \<Rightarrow> u8" where
  "atoi_digit c = (let c = (if c \<ge> 0x61 then c - 0x20 else c); c = c - 0x30
     in if c \<ge> 17 then c - 7 else c)"

fun atoi_digits :: "u32 \<Rightarrow> u32 \<Rightarrow> u8 list \<Rightarrow> bool \<times> u32 \<times> u8 list" where
  "atoi_digits r val [] = (True, val, [])"
| "atoi_digits r val (c # str) = (
     if c > 0x20 then
       (if ucast (atoi_digit c) \<ge> r then (False, val, c # str)
        else atoi_digits r (val * r + ucast (atoi_digit c)) str)
     else (True, val, c # str))"

fun skip_spaces :: "u8 list \<Rightarrow> u8 list" where
  "skip_spaces (c # str) = (if c = 0x20 then skip_spaces str else c # str)"
| "skip_spaces [] = []"

definition xatoi :: "u8 list \<Rightarrow> s32 \<times> s32 \<times> u8 list" where
  "xatoi str = (
     let str = skip_spaces str;
         neg = (cur str = 0x2d);
         str = (if neg then tl str else str);
         finish = (\<lambda>r str. case atoi_digits r 0 str of (ok, val, rest) \<Rightarrow>
            if ok then (1, if neg then 0 - val else val, rest) else (0, 0, rest))
     in if cur str = 0x30 then
          (let str = tl str; c = cur str in
           if c = 0x78 then finish 16 (tl str)
           else if c = 0x62 then finish 2 (tl str)
           else if c \<le> 0x20 then (1, 0, str)
           else if c < 0x30 \<or> c > 0x39 then (0, 0, str)
           else finish 8 str)
        else if cur str < 0x30 \<or> cur str > 0x39 then (0, 0, str)
        else finish 10 str)"

end
