(* ===== verification/XprintfSpec.thy ===== *)
theory XprintfSpec
  imports Xprintf
begin

section \<open>What the console formatter prints and reads\<close>

text \<open>
  The text of a format and its arguments, computed with the scanner of the code (\<open>xv_text\<close>), and the proof that
  every output routine emits exactly that text (with carriage returns added) to its device or memory;
  the format language on characters and natural numbers, written without any function of the code
  (\<open>format_text\<close>), and the proof that both texts are the same; the round trip of numerals through
  \<open>xatoi\<close>; the line editor \<open>xgets\<close> against an editor on lists, for any length of the buffer.
\<close>

subsection \<open>Emitting text\<close>

definition emit_text :: "u8 list \<Rightarrow> 'a xio_mach_scheme \<Rightarrow> 'a xio_mach_scheme" where
  "emit_text bs s = snd (run_state (xputs bs) s)"

lemma run_xputs: "run_state (xputs bs) s = ((), emit_text bs s)"
  by (simp add: emit_text_def prod_eq_iff)

definition emit_char :: "u8 \<Rightarrow> 'a xio_mach_scheme \<Rightarrow> 'a xio_mach_scheme" where
  "emit_char c s = snd (run_state (xputc c) s)"

lemma run_xputc: "run_state (xputc c) s = ((), emit_char c s)"
  by (simp add: emit_char_def prod_eq_iff)

lemma emit_text_simps [simp]:
  "emit_text [] s = s"
  "emit_text (c # bs) s = emit_text bs (emit_char c s)"
  by (simp_all add: emit_text_def emit_char_def split_def)

lemma emit_text_append: "emit_text (a @ b) s = emit_text b (emit_text a s)"
  by (induction a arbitrary: s) simp_all

text \<open>A line feed goes out as carriage return and line feed.\<close>

definition crlf :: "u8 list \<Rightarrow> u8 list" where
  "crlf bs = concat (map (\<lambda>c. if c = 0x0a then [0x0d, c] else [c]) bs)"

lemma crlf_simps [simp]:
  "crlf [] = []" "crlf (c # bs) = (if c = 0x0a then 0x0d # c # crlf bs else c # crlf bs)"
  "crlf (a @ b) = crlf a @ crlf b"
  by (simp_all add: crlf_def)

lemma emit_device:
  "outptr s = 0 \<Longrightarrow> xfunc_out s \<noteq> 0
   \<Longrightarrow> emit_text bs s = s\<lparr>x_out := x_out s @ map (Pair (xfunc_out s)) (crlf bs)\<rparr>"
  by (induction bs arbitrary: s) (simp_all add: emit_char_def xputc_def xput_raw_def)

lemma emit_memory:
  "outptr s \<noteq> 0 \<Longrightarrow> unat (outptr s) + length (crlf bs) < 2 ^ 32
   \<Longrightarrow> emit_text bs s = s\<lparr>mem := put_bytes (outptr s) (crlf bs) (mem s),
         outptr := outptr s + of_nat (length (crlf bs))\<rparr>"
proof (induction bs arbitrary: s)
  case Nil
  then show ?case by simp
next
  case (Cons c bs)
  let ?n = "length (crlf [c])"
  have n: "?n = 1 \<or> ?n = 2" by simp
  let ?t = "s\<lparr>mem := put_bytes (outptr s) (crlf [c]) (mem s), outptr := outptr s + of_nat ?n\<rparr>"
  have u: "unat (outptr s + of_nat k) = unat (outptr s) + k" if "k \<le> ?n" for k
    using Cons.prems(2) that by (auto simp: unat_word_ariths unat_of_nat split: if_splits)
  have pos: "unat (outptr s) \<noteq> 0" using Cons.prems(1) by (simp add: unsigned_eq_0_iff)
  have nz: "outptr s + of_nat k \<noteq> 0" if "k \<le> ?n" for k
  proof
    assume "outptr s + of_nat k = 0"
    then have "unat (outptr s) + k = 0" using u [OF that] by simp
    with pos show False by simp
  qed
  have c: "emit_char c s = ?t"
    using Cons.prems(1) nz [of 1] by (auto simp: emit_char_def xputc_def xput_raw_def)
  have "outptr ?t \<noteq> 0" using nz [of ?n] by simp
  moreover have "unat (outptr ?t) + length (crlf bs) < 2 ^ 32"
    using Cons.prems(2) u [of ?n] by auto
  ultimately show ?case
    using Cons.IH [of ?t] c by (simp add: algebra_simps)
qed

subsection \<open>The text of a format\<close>

text \<open>
  The padding loop: how many characters it prints and where it leaves \<open>j\<close>, one past the end.
\<close>

definition pad_count :: "u32 \<Rightarrow> u32 \<Rightarrow> nat" where
  "pad_count j w = unat w - unat j"

definition pad_end :: "u32 \<Rightarrow> u32 \<Rightarrow> u32" where
  "pad_end j w = (if j < w then w else j) + 1"

lemma run_x_pad:
  "run_state (x_pad c j w) s = (pad_end j w, emit_text (replicate (pad_count j w) c) s)"
proof (induction c j w arbitrary: s rule: x_pad.induct)
  case (1 c j w)
  show ?case
  proof (cases "j < w")
    case True
    then have j: "unat (j + 1) = Suc (unat j)" "unat j < unat w"
      using unsigned_less [of w, where 'a = nat] by (simp_all add: word_less_nat_alt unat_word_ariths)
    then have "pad_count j w = Suc (pad_count (j + 1) w)" by (simp add: pad_count_def)
    moreover have "j + 1 = w" if "\<not> j + 1 < w"
      using that j by (simp add: word_less_nat_alt word_unat_eq_iff)
    then have "pad_end (j + 1) w = pad_end j w" using True by (auto simp: pad_end_def)
    ultimately show ?thesis using True 1
      by (subst x_pad.simps) (simp add: run_xputc)
  next
    case False
    then show ?thesis
      by (subst x_pad.simps) (simp add: pad_count_def pad_end_def word_less_nat_alt)
  qed
qed

text \<open>An item of text in a field: pad characters before or spaces after it, as the flags say.\<close>

definition in_field :: "u32 \<Rightarrow> u32 \<Rightarrow> u8 \<Rightarrow> u8 list \<Rightarrow> u8 list" where
  "in_field f w pad body = (
     let j = of_nat (length body)
     in if f AND 2 = 0
        then replicate (pad_count j w) pad @ body @ replicate (pad_count (pad_end j w) w) 0x20
        else body @ replicate (pad_count j w) 0x20)"

text \<open>Sign and digits of a numeral, in at most sixteen characters.\<close>

definition num_text :: "u8 \<Rightarrow> u32 \<Rightarrow> u8 list" where
  "num_text c v = (
     let d = x_upper c; neg = (d = 0x44 \<and> v AND 0x80000000 \<noteq> 0);
         s = x_digits 16 (x_radix d) (c = 0x78) (if neg then 0 - v else v)
     in rev (if neg \<and> length s < 16 then s @ [0x2d] else s))"

lemma run_x_numeral:
  "run_state (x_numeral f w c v) s = ((), emit_text (in_field f w (if f AND 1 \<noteq> 0 then 0x30 else 0x20) (num_text c v)) s)"
  by (simp add: x_numeral_def num_text_def in_field_def Let_def run_x_pad run_xputs emit_text_append)

lemma run_x_string: "run_state (x_string f w p) s = ((), emit_text (in_field f w 0x20 p) s)"
  by (simp add: x_string_def in_field_def Let_def run_x_pad run_xputs emit_text_append)

text \<open>One conversion: its text and the arguments left, \<open>None\<close> when the argument does not fit.\<close>

definition conv_text :: "u32 \<Rightarrow> u32 \<Rightarrow> u8 \<Rightarrow> xarg list \<Rightarrow> (u8 list \<times> xarg list) option" where
  "conv_text f w c arp = (
     if x_upper c = 0x53 then
       (case arp of Str_arg p # rest \<Rightarrow> Some (in_field f w 0x20 p, rest) | _ \<Rightarrow> None)
     else if x_upper c = 0x43 then
       (case arp of Int_arg v # rest \<Rightarrow> Some ([ucast v], rest) | _ \<Rightarrow> None)
     else if x_radix (x_upper c) \<noteq> 0 then
       (case arp of Int_arg v # rest \<Rightarrow>
          Some (in_field f w (if f AND 1 \<noteq> 0 then 0x30 else 0x20) (num_text c v), rest) | _ \<Rightarrow> None)
     else Some ([c], arp))"

lemma run_x_conv:
  "run_state (x_conv f w c arp) s =
     (case conv_text f w c arp of Some (body, rest) \<Rightarrow> (Inr rest, emit_text body s) | None \<Rightarrow> (Inl Undef, s))"
proof (cases arp)
  case Nil
  then show ?thesis by (simp add: x_conv_def conv_text_def Let_def run_xputc)
next
  case (Cons a rest)
  then show ?thesis
    by (cases a) (simp_all add: x_conv_def conv_text_def Let_def run_x_numeral run_x_string run_xputc)
qed

lemma parse_spec_rest: "(f, w, c, rest) = parse_spec fmt \<Longrightarrow> length rest < Suc (length fmt)"
  using parse_spec_length [of fmt] by (metis le_imp_less_Suc snd_conv)

text \<open>The text the code prints, state by state of its parser, and whether every argument it asks for was there.\<close>

function xv_text :: "u8 list \<Rightarrow> xarg list \<Rightarrow> u8 list \<times> bool" where
  "xv_text [] arp = ([], True)"
| "xv_text (c # fmt) arp = (
     if c \<noteq> 0x25 then apfst ((#) c) (xv_text fmt arp)
     else case parse_spec fmt of (f, w, c, rest) \<Rightarrow>
       if c = 0 then ([], True)
       else (case conv_text f w c arp of None \<Rightarrow> ([], False)
             | Some (body, arp) \<Rightarrow> apfst ((@) body) (xv_text rest arp)))"
  by pat_completeness auto
termination
  by (relation "measure (\<lambda>(fmt, arp). length fmt)") (auto dest: parse_spec_rest)

lemma run_xvprintf:
  "run_state (xvprintf fmt arp) s =
     (if snd (xv_text fmt arp) then Inr () else Inl Undef, emit_text (fst (xv_text fmt arp)) s)"
proof (induction fmt arp arbitrary: s rule: xv_text.induct)
  case (1 arp)
  then show ?case by simp
next
  case (2 c fmt arp)
  obtain f w d rest where p: "parse_spec fmt = (f, w, d, rest)" by (metis prod.exhaust)
  show ?case
  proof (cases "c \<noteq> 0x25 \<or> d = 0 \<or> conv_text f w d arp = None")
    case True
    then show ?thesis using "2.IH"(1) p by (auto simp: run_xputc run_x_conv)
  next
    case False
    then obtain body arp' where "conv_text f w d arp = Some (body, arp')" by auto
    with False p "2.IH"(2) show ?thesis
      by (simp add: run_x_conv emit_text_append)
  qed
qed

subsection \<open>The format language\<close>

text \<open>
  The reference: what a format means, stated on characters and natural numbers with no part of the
  code's parser. A sequence is a flag, a width in decimal, an optional size prefix and a letter;
  a field is filled up to the width; a numeral is the digits of the number, of which the last sixteen are
  kept, after a minus sign for a negative \<open>d\<close>.
\<close>

datatype justify = Spaces_left | Zeros_left | Spaces_right

definition decimal_value :: "u8 list \<Rightarrow> nat" where
  "decimal_value ds = foldl (\<lambda>n c. 10 * n + (unat c - 48)) 0 ds"

definition fmt_parts :: "u8 list \<Rightarrow> justify \<times> nat \<times> u8 list" where
  "fmt_parts fmt = (
     let flag = take 1 fmt;
         j = (if flag = str_bytes ''0'' then Zeros_left else if flag = str_bytes ''-'' then Spaces_right else Spaces_left);
         body = (if j = Spaces_left then fmt else drop 1 fmt);
         digit = (\<lambda>c. c \<in> set (str_bytes ''0123456789''));
         more = dropWhile digit body
     in (j, decimal_value (takeWhile digit body),
         if take 1 more = str_bytes ''l'' \<or> take 1 more = str_bytes ''L'' then drop 1 more else more))"

definition fill_field :: "justify \<Rightarrow> nat \<Rightarrow> u8 list \<Rightarrow> u8 list" where
  "fill_field j w body = (case j of
       Spaces_left \<Rightarrow> replicate (w - length body) 0x20 @ body
     | Zeros_left \<Rightarrow> concat (replicate (w - length body) (str_bytes ''0'')) @ body
     | Spaces_right \<Rightarrow> body @ replicate (w - length body) 0x20)"

fun radix_digits :: "nat \<Rightarrow> nat \<Rightarrow> nat list" where
  "radix_digits r n = (if r < 2 \<or> n < r then [n] else radix_digits r (n div r) @ [n mod r])"

declare radix_digits.simps [simp del]

definition numeral_of :: "nat \<Rightarrow> string \<Rightarrow> nat \<Rightarrow> u8 list" where
  "numeral_of r chars n = (let ds = radix_digits r n in map (\<lambda>d. str_bytes chars ! d) (drop (length ds - 16) ds))"

definition number_text :: "u8 \<Rightarrow> u32 \<Rightarrow> u8 list option" where
  "number_text c v = (
     if c \<in> set (str_bytes ''dD'') then
       Some ((if sint v < 0 then str_bytes ''-'' else []) @ numeral_of 10 ''0123456789'' (nat \<bar>sint v\<bar>))
     else if c \<in> set (str_bytes ''uU'') then Some (numeral_of 10 ''0123456789'' (unat v))
     else if c \<in> set (str_bytes ''bB'') then Some (numeral_of 2 ''01'' (unat v))
     else if c \<in> set (str_bytes ''oO'') then Some (numeral_of 8 ''01234567'' (unat v))
     else if c \<in> set (str_bytes ''x'') then Some (numeral_of 16 ''0123456789abcdef'' (unat v))
     else if c \<in> set (str_bytes ''X'') then Some (numeral_of 16 ''0123456789ABCDEF'' (unat v))
     else None)"

text \<open>One conversion of the letter \<open>c\<close>: its text and the arguments left, \<open>None\<close> when the argument does not fit.\<close>

definition letter_text :: "justify \<Rightarrow> nat \<Rightarrow> u8 \<Rightarrow> xarg list \<Rightarrow> (u8 list \<times> xarg list) option" where
  "letter_text j w c args = (
     if c \<in> set (str_bytes ''sS'') then
       (case args of Str_arg p # rest \<Rightarrow> Some (fill_field (if j = Spaces_right then Spaces_right else Spaces_left) w p, rest) | _ \<Rightarrow> None)
     else if c \<in> set (str_bytes ''cC'') then
       (case args of Int_arg v # rest \<Rightarrow> Some ([ucast v], rest) | _ \<Rightarrow> None)
     else if number_text c 0 \<noteq> None then
       (case args of Int_arg v # rest \<Rightarrow> Some (fill_field j w (the (number_text c v)), rest) | _ \<Rightarrow> None)
     else Some ([c], args))"

lemma fmt_parts_rest: "(j, w, d # rest) = fmt_parts fmt \<Longrightarrow> length rest < length fmt"
proof -
  assume a: "(j, w, d # rest) = fmt_parts fmt"
  have "length (snd (snd (fmt_parts fmt))) \<le> length fmt"
    by (auto simp: fmt_parts_def Let_def intro!: le_trans [OF diff_le_self] le_trans [OF length_dropWhile_le])
  then show ?thesis using a [symmetric] by simp
qed

text \<open>
  The text of a whole format, and whether every argument it asks for was there.
\<close>

function format_text :: "u8 list \<Rightarrow> xarg list \<Rightarrow> u8 list \<times> bool" where
  "format_text [] args = ([], True)"
| "format_text (c # fmt) args = (
     if [c] \<noteq> str_bytes ''%'' then apfst ((#) c) (format_text fmt args)
     else case fmt_parts fmt of
       (j, w, []) \<Rightarrow> ([], True)
     | (j, w, d # rest) \<Rightarrow> (case letter_text j w d args of
           None \<Rightarrow> ([], False)
         | Some (body, args) \<Rightarrow> apfst ((@) body) (format_text rest args)))"
  by pat_completeness auto
termination
  by (relation "measure (\<lambda>(fmt, args). length fmt)") (auto dest: fmt_parts_rest)

text \<open>
  Every width of the format is below \<open>2^32 - 1\<close>; a greater one wraps in the code's counter, and at
  \<open>2^32 - 1\<close> it fills a field twice.
\<close>

function widths_fit :: "u8 list \<Rightarrow> bool" where
  "widths_fit [] \<longleftrightarrow> True"
| "widths_fit (c # fmt) \<longleftrightarrow> (
     if [c] \<noteq> str_bytes ''%'' then widths_fit fmt
     else case fmt_parts fmt of (j, w, []) \<Rightarrow> True | (j, w, d # rest) \<Rightarrow> w < 2 ^ 32 - 1 \<and> widths_fit rest)"
  by pat_completeness auto
termination
  by (relation "measure length") (auto dest: fmt_parts_rest)

text \<open>The code's parser finds the parts of a sequence.\<close>

lemma letter_bytes:
  "str_bytes ''dD'' = [0x64, 0x44]" "str_bytes ''uU'' = [0x75, 0x55]" "str_bytes ''bB'' = [0x62, 0x42]" "str_bytes ''oO'' = [0x6f, 0x4f]"
  "str_bytes ''x'' = [0x78]" "str_bytes ''X'' = [0x58]" "str_bytes ''sS'' = [0x73, 0x53]" "str_bytes ''cC'' = [0x63, 0x43]"
  "str_bytes ''0'' = [0x30]" "str_bytes ''-'' = [0x2d]" "str_bytes ''l'' = [0x6c]" "str_bytes ''L'' = [0x4c]" "str_bytes ''%'' = [0x25]"
  "str_bytes ''0123456789'' = [0x30, 0x31, 0x32, 0x33, 0x34, 0x35, 0x36, 0x37, 0x38, 0x39]"
  by code_simp+

lemma digit_byte: "c \<in> set (str_bytes ''0123456789'') \<longleftrightarrow> 0x30 \<le> c \<and> c \<le> 0x39"
proof
  assume a: "0x30 \<le> c \<and> c \<le> 0x39"
  moreover have "k = 48 \<or> k = 49 \<or> k = 50 \<or> k = 51 \<or> k = 52 \<or> k = 53 \<or> k = 54 \<or> k = 55 \<or> k = 56 \<or> k = 57"
    if "48 \<le> k \<and> k \<le> 57" for k :: nat using that by presburger
  ultimately have "unat c = 48 \<or> unat c = 49 \<or> unat c = 50 \<or> unat c = 51 \<or> unat c = 52 \<or> unat c = 53 \<or> unat c = 54 \<or> unat c = 55 \<or> unat c = 56 \<or> unat c = 57"
    by (simp add: word_le_nat_alt)
  then have "of_nat (unat c) \<in> set (str_bytes ''0123456789'')" by (elim disjE) (simp_all only: letter_bytes, simp_all)
  then show "c \<in> set (str_bytes ''0123456789'')" by simp
qed (auto simp: letter_bytes)

lemma next_char_split: "l \<noteq> [] \<Longrightarrow> next_char l = (hd l, tl l)"
  by (cases l) simp_all

lemma width_digits:
  "parse_width (of_nat n) (fst (next_char l)) (snd (next_char l))
   = (of_nat (foldl (\<lambda>n c. 10 * n + (unat c - 48)) n (takeWhile (\<lambda>c. c \<in> set (str_bytes ''0123456789'')) l)),
      next_char (dropWhile (\<lambda>c. c \<in> set (str_bytes ''0123456789'')) l))"
proof (induction l arbitrary: n)
  case Nil
  then show ?case by (simp add: parse_width.simps)
next
  case (Cons c l)
  show ?case
  proof (cases "0x30 \<le> c \<and> c \<le> 0x39")
    case True
    then have u: "48 \<le> unat c" by (simp add: word_le_nat_alt)
    then have e: "of_nat n * 10 + ucast c - 0x30 = (of_nat (10 * n + (unat c - 48)) :: u32)"
      by (simp add: of_nat_diff algebra_simps)
    show ?thesis using True Cons.IH [of "10 * n + (unat c - 48)"]
      by (simp add: digit_byte parse_width.simps [of _ c] split_def Let_def e del: of_nat_add of_nat_mult)
  next
    case False
    then show ?thesis by (auto simp: digit_byte parse_width.simps [of _ c])
  qed
qed

lemma size_prefix: "next_char (if take 1 l \<in> {[0x6c], [0x4c]} then drop 1 l else l)
    = (if fst (next_char l) \<in> {0x6c, 0x4c} then next_char (snd (next_char l)) else next_char l)"
  by (cases l) auto

lemma parse_spec_parts:
  assumes "fmt_parts fmt = (j, w, mo)"
  shows "\<exists>f. parse_spec fmt = (f, of_nat w, next_char mo) \<and> (f AND 1 \<noteq> 0 \<longleftrightarrow> j = Zeros_left) \<and> (f AND 2 \<noteq> 0 \<longleftrightarrow> j = Spaces_right)"
proof -
  let ?dig = "\<lambda>c. c \<in> set (str_bytes ''0123456789'')"
  let ?body = "if j = Spaces_left then fmt else drop 1 fmt" and ?f = "(case j of Spaces_left \<Rightarrow> 0 | Zeros_left \<Rightarrow> 1 | Spaces_right \<Rightarrow> 2) :: u32"
  have j: "j = (if take 1 fmt = [0x30] then Zeros_left else if take 1 fmt = [0x2d] then Spaces_right else Spaces_left)"
    and w: "w = decimal_value (takeWhile ?dig ?body)"
    and m: "mo = (if take 1 (dropWhile ?dig ?body) \<in> {[0x6c], [0x4c]} then drop 1 (dropWhile ?dig ?body) else dropWhile ?dig ?body)"
    using assms by (auto simp: fmt_parts_def Let_def letter_bytes split: if_splits)
  have pw: "parse_width 0 (fst (next_char ?body)) (snd (next_char ?body)) = (of_nat w, next_char (dropWhile ?dig ?body))"
    using width_digits [of 0 ?body] by (simp add: w decimal_value_def)
  have "parse_spec fmt = (if fst (next_char (dropWhile ?dig ?body)) \<in> {0x6c, 0x4c}
      then (?f OR 4, of_nat w, next_char (snd (next_char (dropWhile ?dig ?body)))) else (?f, of_nat w, next_char (dropWhile ?dig ?body)))"
  proof (cases fmt)
    case Nil
    then have "j = Spaces_left" using j by simp
    then show ?thesis using Nil pw by (simp add: parse_spec_def split_def)
  next
    case (Cons a l)
    then have "j = (if a = 0x30 then Zeros_left else if a = 0x2d then Spaces_right else Spaces_left)" using j by simp
    then consider "a = 0x30" "j = Zeros_left" | "a = 0x2d" "j = Spaces_right" | "a \<noteq> 0x30" "a \<noteq> 0x2d" "j = Spaces_left"
      by (cases "a = 0x30"; cases "a = 0x2d") auto
    then show ?thesis
    proof cases
      case 1
      then show ?thesis using pw Cons by (simp add: parse_spec_def split_def)
    next
      case 2
      then show ?thesis using pw Cons by (simp add: parse_spec_def split_def)
    next
      case 3
      then show ?thesis using pw Cons by (simp add: parse_spec_def split_def)
    qed
  qed
  moreover have "next_char mo = (if fst (next_char (dropWhile ?dig ?body)) \<in> {0x6c, 0x4c} then next_char (snd (next_char (dropWhile ?dig ?body)))
      else next_char (dropWhile ?dig ?body))"
    unfolding m by (rule size_prefix)
  moreover have "((?f OR 4) AND 1 \<noteq> 0 \<longleftrightarrow> j = Zeros_left) \<and> ((?f OR 4) AND 2 \<noteq> 0 \<longleftrightarrow> j = Spaces_right)
      \<and> (?f AND 1 \<noteq> 0 \<longleftrightarrow> j = Zeros_left) \<and> (?f AND 2 \<noteq> 0 \<longleftrightarrow> j = Spaces_right)"
    by (cases j) simp_all
  ultimately show ?thesis by (auto split: if_splits)
qed

lemma in_field_fills:
  assumes "w < 2 ^ 32 - 1" "length body < 2 ^ 32 - 1" "f AND 2 \<noteq> 0 \<longleftrightarrow> j = Spaces_right" "pad = (if j = Zeros_left then 0x30 else 0x20)"
  shows "in_field f (of_nat w) pad body = fill_field j w body"
proof -
  have u: "unat (of_nat w :: u32) = w" "unat (of_nat (length body) :: u32) = length body"
    using assms(1,2) by (simp_all add: unat_of_nat)
  have lt: "(of_nat (length body) < (of_nat w :: u32)) = (length body < w)" using u by (simp add: word_less_nat_alt)
  have "unat (pad_end (of_nat (length body)) (of_nat w)) = (if length body < w then w else length body) + 1"
    using assms(1,2) u by (auto simp: pad_end_def lt unat_word_ariths)
  then have "pad_count (pad_end (of_nat (length body)) (of_nat w)) (of_nat w) = 0" by (simp add: pad_count_def u)
  moreover have "concat (replicate n (str_bytes ''0'')) = replicate n 0x30" for n by (induction n) (simp_all add: letter_bytes)
  ultimately show ?thesis using assms(3,4) by (cases j) (simp_all add: in_field_def Let_def fill_field_def pad_count_def u)
qed

subsection \<open>Digits\<close>

text \<open>The character of a digit, and that the parser reads it back.\<close>

definition digit_char :: "bool \<Rightarrow> u8 \<Rightarrow> u8" where
  "digit_char lower d = (if d > 9 then d + (if lower then 0x27 else 0x07) else d) + 0x30"

lemma x_digits_Suc:
  "x_digits (Suc n) r lower v = digit_char lower (ucast (v mod r))
     # (if v div r \<noteq> 0 then x_digits n r lower (v div r) else [])"
  by (simp add: digit_char_def Let_def)

declare x_digits.simps(2) [simp del]

lemma digit_char_table:
  "\<forall>l \<in> set [False, True]. \<forall>n \<in> set [0..<16]. let d = of_nat n :: u8; c = digit_char l d in
     atoi_digit c = d \<and> c > 0x20 \<and> (d < 10 \<longrightarrow> 0x30 \<le> c \<and> c \<le> 0x39) \<and> (c = 0x30) = (d = 0)"
  by code_simp

lemma digit_char_read:
  assumes "d < 16"
  shows "atoi_digit (digit_char lower d) = d" "digit_char lower d > 0x20"
    "d < 10 \<Longrightarrow> 0x30 \<le> digit_char lower d \<and> digit_char lower d \<le> 0x39"
    "(digit_char lower d = 0x30) = (d = 0)"
proof -
  have "lower \<in> set [False, True]" "unat d \<in> set [0..<16]" "of_nat (unat d) = d"
    using assms by (simp_all add: word_less_nat_alt)
  then show "atoi_digit (digit_char lower d) = d" "digit_char lower d > 0x20"
    "d < 10 \<Longrightarrow> 0x30 \<le> digit_char lower d \<and> digit_char lower d \<le> 0x39"
    "(digit_char lower d = 0x30) = (d = 0)"
    using digit_char_table by (metis (no_types, lifting))+
qed

lemma mod_small:
  assumes "2 \<le> (r :: u32)" "r \<le> 16"
  shows "ucast (v mod r) < (16 :: u8)" "ucast (ucast (v mod r) :: u8) = v mod r"
    "(ucast (v mod r) :: u8) = 0 \<longleftrightarrow> v mod r = 0"
proof -
  have "unat v mod unat r < unat r"
    using assms(1) by (intro mod_less_divisor) (simp add: word_le_nat_alt)
  then have m: "unat (v mod r) < 16" "unat (v mod r) < 256"
    using assms(2) by (simp_all add: unat_mod_distrib word_le_nat_alt)
  then have e: "unat (ucast (v mod r) :: u8) = unat (v mod r)" by (simp add: unsigned_ucast_eq take_bit_nat_eq_self)
  show "ucast (v mod r) < (16 :: u8)" using m e by (simp add: word_less_nat_alt)
  show "ucast (ucast (v mod r) :: u8) = v mod r"
    using e by (simp add: word_unat_eq_iff unsigned_ucast_eq unsigned_take_bit_eq)
  show "(ucast (v mod r) :: u8) = 0 \<longleftrightarrow> v mod r = 0"
    using e by (simp add: word_unat_eq_iff)
qed

lemma atoi_digits_append:
  "atoi_digits r a xs = (True, b, []) \<Longrightarrow> atoi_digits r a (xs @ ys) = atoi_digits r b ys"
  by (induction r a xs rule: atoi_digits.induct) (auto split: if_splits)

text \<open>The digits are the expansion of the number, cut to the places there are.\<close>

lemma digits_expand:
  assumes r: "2 \<le> r" "r \<le> 16"
  shows "atoi_digits r 0 (rev (x_digits n r lower v)) = (True, of_nat (unat v mod unat r ^ n), [])"
proof (induction n arbitrary: v)
  case 0
  then show ?case by simp
next
  case (Suc n)
  let ?d = "ucast (v mod r) :: u8"
  note d = mod_small [OF r, of v] digit_char_read [OF mod_small(1) [OF r, of v]]
  have mod: "v mod r < r"
    using r(1) by (simp add: word_less_nat_alt word_le_nat_alt unat_mod_distrib)
  have nat: "unat v mod unat r ^ Suc n = unat r * (unat v div unat r mod unat r ^ n) + unat v mod unat r"
    by (simp add: mod_mult2_eq)
  show ?case
  proof (cases "v div r = 0")
    case True
    then have "unat v div unat r = 0" by (metis unat_div_distrib unsigned_0)
    then show ?thesis using True d mod nat
      by (simp add: x_digits_Suc not_le unat_mod_distrib [symmetric])
  next
    case False
    then show ?thesis
      using d mod nat
      by (simp add: x_digits_Suc atoi_digits_append [OF Suc] not_le unat_div_distrib unat_mod_distrib [symmetric])
  qed
qed

lemma length_x_digits: "unat v < unat r ^ Suc k \<Longrightarrow> length (x_digits n r lower v) \<le> Suc k"
proof (induction n arbitrary: v k)
  case 0
  then show ?case by simp
next
  case (Suc n)
  show ?case
  proof (cases "v div r = 0")
    case True
    then show ?thesis by (simp add: x_digits_Suc)
  next
    case False
    then have nz: "unat v div unat r \<noteq> 0"
      by (metis unat_div_distrib unsigned_eq_0_iff)
    then obtain j where k: "k = Suc j"
      using Suc.prems by (cases k) auto
    have "unat (v div r) < unat r ^ Suc j"
      using Suc.prems k by (simp add: unat_div_distrib less_mult_imp_div_less mult.commute)
    with Suc.IH k False show ?thesis by (simp add: x_digits_Suc)
  qed
qed

lemma x_digits_nonempty: "x_digits (Suc n) r lower v \<noteq> []"
  by (simp add: x_digits_Suc)

lemma x_digits_range:
  assumes "2 \<le> r" "r \<le> 10"
  shows "c \<in> set (x_digits n r lower v) \<Longrightarrow> 0x30 \<le> c \<and> c \<le> 0x39"
proof (induction n arbitrary: v)
  case 0
  then show ?case by simp
next
  case (Suc n)
  have r: "r \<le> 16" using assms(2) by (rule order_trans) simp
  have "unat v mod unat r < unat r"
    using assms(1) by (intro mod_less_divisor) (simp add: word_le_nat_alt)
  then have "unat (v mod r) < 10"
    using assms(2) by (simp add: unat_mod_distrib word_le_nat_alt)
  then have "ucast (v mod r) < (10 :: u8)"
    by (simp add: word_less_nat_alt unsigned_ucast_eq take_bit_nat_eq_self)
  from digit_char_read(3) [OF mod_small(1) [OF assms(1) r] this] Suc show ?case
    by (auto simp: x_digits_Suc split: if_splits)
qed

text \<open>The numerals: the digits of the code are those of the number in its radix, the last sixteen of them.\<close>

lemma digit_tables:
  "map (\<lambda>d. digit_char False (of_nat d)) [0..<10] = str_bytes ''0123456789''"
  "map (\<lambda>d. digit_char False (of_nat d)) [0..<2] = str_bytes ''01''"
  "map (\<lambda>d. digit_char False (of_nat d)) [0..<8] = str_bytes ''01234567''"
  "map (\<lambda>d. digit_char True (of_nat d)) [0..<16] = str_bytes ''0123456789abcdef''"
  "map (\<lambda>d. digit_char False (of_nat d)) [0..<16] = str_bytes ''0123456789ABCDEF''"
  by code_simp+

lemma x_digits_radix:
  assumes r: "2 \<le> r" "r \<le> 16"
  shows "rev (x_digits n r lower v) = (let ds = radix_digits (unat r) (unat v) in map (\<lambda>d. digit_char lower (of_nat d)) (drop (length ds - n) ds))"
proof (induction n arbitrary: v)
  case (Suc n)
  let ?ds = "radix_digits (unat r) (unat v div unat r)"
  have two: "\<not> unat r < 2" using r(1) by (simp add: word_le_nat_alt)
  have d: "digit_char lower (ucast (v mod r)) = digit_char lower (of_nat (unat v mod unat r))"
  proof -
    have "(ucast (v mod r) :: u8) = of_nat (unat (v mod r))" by simp
    then show ?thesis by (simp add: unat_mod_distrib)
  qed
  show ?case
  proof (cases "unat v < unat r")
    case True
    then have "v div r = 0" by (simp add: word_unat_eq_iff unat_div_distrib)
    then show ?thesis using True d by (simp add: x_digits_Suc radix_digits.simps)
  next
    case False
    then have "v div r \<noteq> 0" using two by (simp add: word_unat_eq_iff unat_div_distrib div_eq_0_iff)
    moreover have "radix_digits (unat r) (unat v) = ?ds @ [unat v mod unat r]" using False two by (simp add: radix_digits.simps [of _ "unat v"])
    ultimately show ?thesis using Suc.IH [of "v div r"] d by (simp add: x_digits_Suc Let_def unat_div_distrib)
  qed
qed (simp add: Let_def)

lemma radix_digits_less: "2 \<le> r \<Longrightarrow> d \<in> set (radix_digits r n) \<Longrightarrow> d < r"
  by (induction r n rule: radix_digits.induct) (subst (asm) (2) radix_digits.simps, auto split: if_splits)

lemma x_digits_numeral:
  assumes "2 \<le> r" "r \<le> 16" "map (\<lambda>d. digit_char lower (of_nat d)) [0..<unat r] = str_bytes chars"
  shows "rev (x_digits 16 r lower v) = numeral_of (unat r) chars (unat v)"
proof -
  have "2 \<le> unat r" using assms(1) by (simp add: word_le_nat_alt)
  then have "str_bytes chars ! d = digit_char lower (of_nat d)" if "d \<in> set (drop k (radix_digits (unat r) (unat v)))" for d k
    using radix_digits_less [OF _ in_set_dropD [OF that]] by (simp flip: assms(3))
  then show ?thesis unfolding x_digits_radix [OF assms(1,2)] numeral_of_def Let_def by (intro map_cong) auto
qed

lemma sign_bit: "(v :: u32) AND 0x80000000 \<noteq> 0 \<longleftrightarrow> sint v < 0" "sint (v :: u32) < 0 \<Longrightarrow> unat (0 - v) = nat \<bar>sint v\<bar>"
  "\<not> sint (v :: u32) < 0 \<Longrightarrow> unat v = nat \<bar>sint v\<bar>"
proof -
  have "(0x80000000 :: u32) = 2 ^ 31" by simp
  then have "(v AND 0x80000000 = 0) = (\<not> bit v 31)"
    by (metis and_exp_eq_0_iff_not_bit)
  then show "v AND 0x80000000 \<noteq> 0 \<longleftrightarrow> sint v < 0" using bit_last_iff [of v] by simp
  have s: "- (2 ^ 31) \<le> sint v" "sint v < 2 ^ 31" using sint_ge [of v] sint_lt [of v] by simp_all
  have v: "word_of_int (sint v) = v" by simp
  have "0 - v = word_of_int (- sint v)" unfolding wi_hom_neg [symmetric] v by simp
  then have m: "unat (0 - v) = nat ((- sint v) mod 2 ^ 32)" by (simp only: unat_eq_nat_uint uint_word_of_int) simp
  show "unat (0 - v) = nat \<bar>sint v\<bar>" if "sint v < 0" using that s unfolding m by simp
  have "unat v = nat (sint v mod 2 ^ 32)" by (subst v [symmetric]) (simp only: unat_eq_nat_uint uint_word_of_int, simp)
  then show "unat v = nat \<bar>sint v\<bar>" if "\<not> sint v < 0" using that s by simp
qed

text \<open>No leading zero, when there is room for the whole number.\<close>

lemma last_x_digits:
  assumes r: "2 \<le> r" "r \<le> 16"
  shows "v \<noteq> 0 \<Longrightarrow> unat v < unat r ^ n \<Longrightarrow> last (x_digits n r lower v) \<noteq> 0x30"
proof (induction n arbitrary: v)
  case 0
  then show ?case by (simp add: unsigned_eq_0_iff)
next
  case (Suc n)
  show ?case
  proof (cases "v div r = 0")
    case True
    then have "unat v div unat r = 0" by (metis unat_div_distrib unsigned_0)
    then have "v mod r \<noteq> 0"
      using Suc.prems(1) r(1) by (auto simp: word_unat_eq_iff unat_mod_distrib word_le_nat_alt div_eq_0_iff)
    with True show ?thesis
      using mod_small [OF r, of v] digit_char_read(4) [OF mod_small(1) [OF r, of v]] by (simp add: x_digits_Suc)
  next
    case False
    have lt: "unat (v div r) < unat r ^ n"
      using Suc.prems by (simp add: unat_div_distrib less_mult_imp_div_less mult.commute)
    have "n \<noteq> 0" using lt False by (cases n) (auto simp: word_unat_eq_iff)
    then have "x_digits n r lower (v div r) \<noteq> []" by (cases n) (simp_all add: x_digits_Suc)
    with False Suc.IH [OF False lt] show ?thesis by (simp add: x_digits_Suc)
  qed
qed

lemma enough_digits: "(unat (v :: u32)) < unat r ^ 16" if "8 \<le> r" for r :: u32
proof -
  have "(8::nat) ^ 16 \<le> unat r ^ 16" using that by (intro power_mono) (simp_all add: word_le_nat_alt)
  moreover have "unat v < 2 ^ 32" using unsigned_less [of v, where 'a = nat] by simp
  ultimately show ?thesis by simp
qed

text \<open>The parser on digits after a prefix, and on a decimal with its sign.\<close>

lemma digits_16:
  assumes "8 \<le> r" "r \<le> 16"
  shows "atoi_digits r 0 (rev (x_digits 16 r lower v)) = (True, v, [])"
proof -
  have "2 \<le> r" using assms(1) by (rule order_trans [rotated]) simp
  then show ?thesis
    using digits_expand [of r 16 lower v] enough_digits [OF assms(1), of v] assms(2) by simp
qed

lemma decimal_first:
  fixes v lower defines "s \<equiv> rev (x_digits 16 10 lower v)"
  obtains c r where "s = c # r" "0x30 \<le> c" "c \<le> 0x39" "v \<noteq> 0 \<Longrightarrow> c \<noteq> 0x30" "v = 0 \<Longrightarrow> s = [0x30]"
proof -
  have ne: "x_digits 16 10 lower v \<noteq> []" using x_digits_nonempty [of 15] by (simp add: eval_nat_numeral)
  then obtain c r where cr: "s = c # r" unfolding s_def by (cases "rev (x_digits 16 10 lower v)") auto
  have "c = last (x_digits 16 10 lower v)" using cr ne unfolding s_def by (metis hd_rev list.sel(1))
  moreover have "c \<in> set (x_digits 16 10 lower v)" using cr unfolding s_def by (metis list.set_intros(1) set_rev)
  moreover have "s = [0x30]" if "v = 0"
    using that x_digits_Suc [of 15 10 lower 0] unfolding s_def by (simp add: digit_char_def eval_nat_numeral)
  moreover have "unat v < unat (10 :: u32) ^ 16" using enough_digits [of 10 v] by simp
  ultimately show thesis
    using that cr x_digits_range [of 10 c 16 lower v] last_x_digits [of 10 v 16 lower] by simp
qed

lemma x_digits_visible:
  assumes "2 \<le> r" "r \<le> 16"
  shows "c \<in> set (x_digits n r lower v) \<Longrightarrow> c > 0x20"
  using digit_char_read(2) [OF mod_small(1) [OF assms]]
  by (induction n arbitrary: v) (auto simp: x_digits_Suc split: if_splits)

lemma crlf_visible: "\<forall>c \<in> set bs. c > 0x20 \<Longrightarrow> crlf bs = bs"
  by (induction bs) auto

lemma in_field_none: "in_field 0 0 pad body = body"
  by (simp add: in_field_def pad_count_def Let_def)

lemma format_one:
  "xv_text (str_bytes ''%d'') [Int_arg v] = (num_text 0x64 v, True)"
  "xv_text (str_bytes ''0x%x'') [Int_arg v] = (0x30 # 0x78 # num_text 0x78 v, True)"
  "xv_text (str_bytes ''0x%X'') [Int_arg v] = (0x30 # 0x78 # num_text 0x58 v, True)"
  "xv_text (str_bytes ''0%o'') [Int_arg v] = (0x30 # num_text 0x6f v, True)"
  "xv_text (str_bytes ''0b%b'') [Int_arg v] = (0x30 # 0x62 # num_text 0x62 v, True)"
proof -
  have s: "str_bytes ''%d'' = [0x25, 0x64]" "str_bytes ''0x%x'' = [0x30, 0x78, 0x25, 0x78]"
    "str_bytes ''0x%X'' = [0x30, 0x78, 0x25, 0x58]" "str_bytes ''0%o'' = [0x30, 0x25, 0x6f]"
    "str_bytes ''0b%b'' = [0x30, 0x62, 0x25, 0x62]"
    by code_simp+
  have p: "parse_spec [0x64] = (0, 0, 0x64, [])" "parse_spec [0x78] = (0, 0, 0x78, [])"
    "parse_spec [0x58] = (0, 0, 0x58, [])" "parse_spec [0x6f] = (0, 0, 0x6f, [])" "parse_spec [0x62] = (0, 0, 0x62, [])"
    by code_simp+
  have r: "x_upper 0x64 = 0x44" "x_upper 0x78 = 0x58" "x_upper 0x58 = 0x58" "x_upper 0x6f = 0x4f" "x_upper 0x62 = 0x42"
    by code_simp+
  show "xv_text (str_bytes ''%d'') [Int_arg v] = (num_text 0x64 v, True)"
    "xv_text (str_bytes ''0x%x'') [Int_arg v] = (0x30 # 0x78 # num_text 0x78 v, True)"
    "xv_text (str_bytes ''0x%X'') [Int_arg v] = (0x30 # 0x78 # num_text 0x58 v, True)"
    "xv_text (str_bytes ''0%o'') [Int_arg v] = (0x30 # num_text 0x6f v, True)"
    "xv_text (str_bytes ''0b%b'') [Int_arg v] = (0x30 # 0x62 # num_text 0x62 v, True)"
    by (simp_all add: s p conv_text_def r x_radix_def in_field_none)
qed

lemma num_texts:
  "num_text 0x78 v = rev (x_digits 16 16 True v)" "num_text 0x58 v = rev (x_digits 16 16 False v)"
  "num_text 0x6f v = rev (x_digits 16 8 False v)" "num_text 0x62 v = rev (x_digits 16 2 False v)"
  by (simp_all add: num_text_def x_upper_def x_radix_def Let_def)

lemma num_text_decimal:
  "num_text 0x64 v = (if v AND 0x80000000 \<noteq> 0 then 0x2d # rev (x_digits 16 10 False (0 - v)) else rev (x_digits 16 10 False v))"
proof -
  have "unat (0 - v) < unat (10 :: u32) ^ Suc 9"
    using unsigned_less [of "0 - v", where 'a = nat] by simp
  then have "length (x_digits 16 10 False (0 - v)) < 16"
    using length_x_digits [of "0 - v" 10 9 16 False] by simp
  then show ?thesis by (simp add: num_text_def x_upper_def x_radix_def Let_def)
qed

lemma xatoi_decimal: "xatoi (num_text 0x64 v) = (1, v, [])"
proof (cases "v AND 0x80000000 \<noteq> 0")
  case True
  then have "0 - v \<noteq> 0" by auto
  obtain c r where "rev (x_digits 16 10 False (0 - v)) = c # r" "0x30 \<le> c" "c \<le> 0x39" "c \<noteq> 0x30"
    using decimal_first [of False "0 - v"] \<open>0 - v \<noteq> 0\<close> by metis
  with True digits_16 [of 10 False "0 - v"] show ?thesis
    by (simp add: num_text_decimal xatoi_def cur_def not_less Let_def del: atoi_digits.simps)
next
  case False
  obtain c r where c: "rev (x_digits 16 10 False v) = c # r" "0x30 \<le> c" "c \<le> 0x39" "v \<noteq> 0 \<Longrightarrow> c \<noteq> 0x30"
    "v = 0 \<Longrightarrow> rev (x_digits 16 10 False v) = [0x30]"
    using decimal_first [of False v] by metis
  then have "c \<noteq> 0x20" "c \<noteq> 0x2d" by auto
  with False c digits_16 [of 10 False v] show ?thesis
    by (cases "v = 0") (simp_all add: num_text_decimal xatoi_def cur_def not_less Let_def del: atoi_digits.simps)
qed

lemma xatoi_prefixed:
  "xatoi (0x30 # 0x78 # num_text 0x78 v) = (1, v, [])"
  "xatoi (0x30 # 0x78 # num_text 0x58 v) = (1, v, [])"
  "xatoi (0x30 # 0x62 # num_text 0x62 v) = (1, v AND 0xffff, [])"
proof -
  have "unat v mod unat (2 :: u32) ^ 16 = unat (v AND 0xffff)"
  proof -
    have "v AND 0xffff = take_bit 16 v" by (simp add: take_bit_eq_mask mask_eq_exp_minus_1)
    then show ?thesis by (simp only: unsigned_take_bit_eq take_bit_eq_mod) (simp add: unat_mod_distrib)
  qed
  then have "atoi_digits 2 0 (rev (x_digits 16 2 False v)) = (True, v AND 0xffff, [])"
    using digits_expand [of 2 16 False v] by simp
  with digits_16 [of 16 True v] digits_16 [of 16 False v]
  show "xatoi (0x30 # 0x78 # num_text 0x78 v) = (1, v, [])"
    "xatoi (0x30 # 0x78 # num_text 0x58 v) = (1, v, [])"
    "xatoi (0x30 # 0x62 # num_text 0x62 v) = (1, v AND 0xffff, [])"
    by (simp_all add: num_texts xatoi_def cur_def Let_def del: atoi_digits.simps)
qed

lemma xatoi_octal: "xatoi (0x30 # num_text 0x6f v) = (1, v, [])"
proof -
  have ne: "x_digits 16 8 False v \<noteq> []" using x_digits_nonempty [of 15] by (simp add: eval_nat_numeral)
  then obtain c r where cr: "rev (x_digits 16 8 False v) = c # r"
    by (cases "rev (x_digits 16 8 False v)") auto
  then have "c \<in> set (x_digits 16 8 False v)" by (metis list.set_intros(1) set_rev)
  with x_digits_range [of 8 c 16 False v] have c: "0x30 \<le> c" "c \<le> 0x39" by simp_all
  then have "c \<noteq> 0x78" "c \<noteq> 0x62" "\<not> c \<le> 0x20" by (auto simp: word_le_nat_alt)
  with c cr digits_16 [of 8 False v] show ?thesis
    by (simp add: num_texts xatoi_def cur_def Let_def not_less del: atoi_digits.simps)
qed

lemma num_text_visible: "\<forall>c \<in> set (num_text k v). c > 0x20" if "k \<in> {0x64, 0x78, 0x58, 0x6f, 0x62}"
  using that x_digits_visible [of 10 _ 16 False] x_digits_visible [of 16 _ 16] x_digits_visible [of 8 _ 16 False]
    x_digits_visible [of 2 _ 16 False]
  by (auto simp: num_texts num_text_decimal split: if_splits)

subsection \<open>The code prints the reference text\<close>

lemma numerals:
  "num_text 0x78 v = numeral_of 16 ''0123456789abcdef'' (unat v)" "num_text 0x58 v = numeral_of 16 ''0123456789ABCDEF'' (unat v)"
  "c = 0x6f \<or> c = 0x4f \<Longrightarrow> num_text c v = numeral_of 8 ''01234567'' (unat v)"
  "c = 0x62 \<or> c = 0x42 \<Longrightarrow> num_text c v = numeral_of 2 ''01'' (unat v)"
  "c = 0x75 \<or> c = 0x55 \<Longrightarrow> num_text c v = numeral_of 10 ''0123456789'' (unat v)"
proof -
  show "num_text 0x78 v = numeral_of 16 ''0123456789abcdef'' (unat v)" "num_text 0x58 v = numeral_of 16 ''0123456789ABCDEF'' (unat v)"
    using x_digits_numeral [of 16 True] x_digits_numeral [of 16 False] digit_tables by (simp_all add: num_texts)
  show "num_text c v = numeral_of 8 ''01234567'' (unat v)" if "c = 0x6f \<or> c = 0x4f"
    using that x_digits_numeral [of 8 False] digit_tables by (auto simp: num_text_def x_upper_def x_radix_def Let_def)
  show "num_text c v = numeral_of 2 ''01'' (unat v)" if "c = 0x62 \<or> c = 0x42"
    using that x_digits_numeral [of 2 False] digit_tables by (auto simp: num_text_def x_upper_def x_radix_def Let_def)
  show "num_text c v = numeral_of 10 ''0123456789'' (unat v)" if "c = 0x75 \<or> c = 0x55"
    using that x_digits_numeral [of 10 False] digit_tables by (auto simp: num_text_def x_upper_def x_radix_def Let_def)
qed

lemma upper_is:
  "x_upper c = 0x42 \<longleftrightarrow> c = 0x42 \<or> c = 0x62" "x_upper c = 0x43 \<longleftrightarrow> c = 0x43 \<or> c = 0x63"
  "x_upper c = 0x44 \<longleftrightarrow> c = 0x44 \<or> c = 0x64" "x_upper c = 0x4f \<longleftrightarrow> c = 0x4f \<or> c = 0x6f"
  "x_upper c = 0x53 \<longleftrightarrow> c = 0x53 \<or> c = 0x73" "x_upper c = 0x55 \<longleftrightarrow> c = 0x55 \<or> c = 0x75"
  "x_upper c = 0x58 \<longleftrightarrow> c = 0x58 \<or> c = 0x78"
  by (auto simp: x_upper_def diff_eq_eq)

lemma decimal_numeral:
  assumes "c = 0x64 \<or> c = 0x44"
  shows "num_text c v = (if sint v < 0 then str_bytes ''-'' else []) @ numeral_of 10 ''0123456789'' (nat \<bar>sint v\<bar>)"
proof -
  have "num_text c v = num_text 0x64 v" using assms by (auto simp: num_text_def x_upper_def x_radix_def Let_def)
  then show ?thesis
    using x_digits_numeral [of 10 False "''0123456789''"] digit_tables(1) sign_bit [of v] by (simp add: num_text_decimal letter_bytes(10))
qed

lemma number_text_code: "number_text c v = (if x_radix (x_upper c) \<noteq> 0 then Some (num_text c v) else None)"
proof -
  consider (d) "c = 0x64 \<or> c = 0x44" | (u) "c = 0x75 \<or> c = 0x55" | (b) "c = 0x62 \<or> c = 0x42" | (o) "c = 0x6f \<or> c = 0x4f"
    | (x) "c = 0x78" | (X) "c = 0x58" | (other) "c \<notin> {0x64, 0x44, 0x75, 0x55, 0x62, 0x42, 0x6f, 0x4f, 0x78, 0x58}" by blast
  then show ?thesis
  proof cases
    case d
    then have "x_radix (x_upper c) \<noteq> 0" by (auto simp: x_radix_def x_upper_def)
    then show ?thesis using d decimal_numeral [OF d, of v] by (simp add: number_text_def letter_bytes(1))
  next
    case u
    then have "x_radix (x_upper c) \<noteq> 0" "c \<notin> set [0x64, 0x44]" by (auto simp: x_radix_def x_upper_def)
    then show ?thesis using u numerals(5) [OF u, of v] by (simp add: number_text_def letter_bytes(1,2))
  next
    case b
    then have "x_radix (x_upper c) \<noteq> 0" "c \<notin> set [0x64, 0x44]" "c \<notin> set [0x75, 0x55]" by (auto simp: x_radix_def x_upper_def)
    then show ?thesis using b numerals(4) [OF b, of v] by (simp add: number_text_def letter_bytes(1,2,3))
  next
    case o
    then have "x_radix (x_upper c) \<noteq> 0" "c \<notin> set [0x64, 0x44]" "c \<notin> set [0x75, 0x55]" "c \<notin> set [0x62, 0x42]"
      by (auto simp: x_radix_def x_upper_def)
    then show ?thesis using o numerals(3) [OF o, of v] by (simp add: number_text_def letter_bytes(1,2,3,4))
  next
    case x
    then have "x_radix (x_upper c) \<noteq> 0" by (simp add: x_radix_def x_upper_def)
    then show ?thesis using x numerals(1) [of v] by (simp add: number_text_def letter_bytes(1-5))
  next
    case X
    then have "x_radix (x_upper c) \<noteq> 0" by (simp add: x_radix_def x_upper_def)
    then show ?thesis using X numerals(2) [of v] by (simp add: number_text_def letter_bytes(1-6))
  next
    case other
    then show ?thesis by (simp add: number_text_def letter_bytes(1-6) x_radix_def upper_is)
  qed
qed

lemma number_text_length: "number_text c v = Some t \<Longrightarrow> length t < 2 ^ 32 - 1"
  by (auto simp: number_text_def numeral_of_def Let_def letter_bytes split: if_splits)

lemma conv_letter:
  assumes "w < 2 ^ 32 - 1" "f AND 1 \<noteq> 0 \<longleftrightarrow> j = Zeros_left" "f AND 2 \<noteq> 0 \<longleftrightarrow> j = Spaces_right" "\<forall>p. Str_arg p \<in> set args \<longrightarrow> length p < 2 ^ 32 - 1"
  shows "conv_text f (of_nat w) c args = letter_text j w c args"
proof -
  have u: "x_upper c = 0x53 \<longleftrightarrow> c \<in> set (str_bytes ''sS'')" "x_upper c = 0x43 \<longleftrightarrow> c \<in> set (str_bytes ''cC'')"
    by (auto simp: upper_is letter_bytes)
  have s: "in_field f (of_nat w) 0x20 p = fill_field (if j = Spaces_right then Spaces_right else Spaces_left) w p"
    if "Str_arg p \<in> set args" for p
    using that assms by (intro in_field_fills) auto
  have n: "in_field f (of_nat w) (if f AND 1 \<noteq> 0 then 0x30 else 0x20) (num_text c v) = fill_field j w (the (number_text c v))"
    if "x_radix (x_upper c) \<noteq> 0" for v
    using that assms number_text_length [of c v "num_text c v"] by (auto intro!: in_field_fills simp: number_text_code)
  show ?thesis
    unfolding conv_text_def letter_text_def u number_text_code [of c 0] using s n by (auto split: list.split xarg.split)
qed

lemma letter_text_args: "letter_text j w c args = Some (body, rest) \<Longrightarrow> set rest \<subseteq> set args"
  by (auto simp: letter_text_def split: if_splits list.splits xarg.splits)

lemma fmt_parts_set: "fmt_parts fmt = (j, w, l) \<Longrightarrow> set l \<subseteq> set fmt"
  by (auto simp: fmt_parts_def Let_def split: if_splits dest!: in_set_dropD set_dropWhileD)

lemma xv_text_is_format_text:
  "widths_fit fmt \<Longrightarrow> 0 \<notin> set fmt \<Longrightarrow> \<forall>p. Str_arg p \<in> set args \<longrightarrow> length p < 2 ^ 32 - 1 \<Longrightarrow> xv_text fmt args = format_text fmt args"
proof (induction fmt args rule: format_text.induct)
  case (2 c fmt args)
  show ?case
  proof (cases "c = 0x25")
    case False
    then show ?thesis using 2 by (simp add: letter_bytes)
  next
    case True
    obtain j w l where p: "fmt_parts fmt = (j, w, l)" by (metis prod.exhaust)
    from parse_spec_parts [OF p] obtain f where f: "parse_spec fmt = (f, of_nat w, next_char l)" "f AND 1 \<noteq> 0 \<longleftrightarrow> j = Zeros_left" "f AND 2 \<noteq> 0 \<longleftrightarrow> j = Spaces_right"
      by blast
    show ?thesis
    proof (cases l)
      case Nil
      then show ?thesis using True p f(1) by (simp add: letter_bytes)
    next
      case (Cons d rest)
      then have d: "d \<noteq> 0" "0 \<notin> set rest" using fmt_parts_set [OF p] "2.prems"(2) by auto
      have w: "w < 2 ^ 32 - 1" "widths_fit rest" using "2.prems"(1) True p Cons by (simp_all add: letter_bytes)
      note cv = conv_letter [OF w(1) f(2,3) "2.prems"(3), of d]
      show ?thesis
      proof (cases "letter_text j w d args")
        case None
        then show ?thesis using True p f(1) Cons d cv by (simp add: letter_bytes)
      next
        case (Some a)
        then obtain body more_args where a: "letter_text j w d args = Some (body, more_args)" by (cases a) auto
        then have "\<forall>p. Str_arg p \<in> set more_args \<longrightarrow> length p < 2 ^ 32 - 1" using letter_text_args "2.prems"(3) by blast
        then have "xv_text rest more_args = format_text rest more_args"
          using True p Cons a by (intro "2.IH"(2) [OF _ p [symmetric] refl Cons a _ w(2) d(2)]) (auto simp: letter_bytes)
        then show ?thesis using True p f(1) Cons d cv a by (simp add: letter_bytes)
      qed
    qed
  qed
qed simp

subsection \<open>The line editor\<close>

text \<open>
  A line as a list: \<open>cap\<close> is the room for characters. \<open>None\<close> when the input runs dry; otherwise the
  return value (1 for a line, 0 for the end of the stream), the line and the input left.
\<close>

fun line_edit :: "nat \<Rightarrow> u8 list \<Rightarrow> u8 list \<Rightarrow> (s32 \<times> u8 list \<times> u8 list) option" where
  "line_edit cap line [] = None"
| "line_edit cap line (c # cs) = (
     if c = 0 then Some (0, line, cs)
     else if c = 0x0d then Some (1, line, cs)
     else if c = 0x08 \<and> line \<noteq> [] then line_edit cap (butlast line) cs
     else if c \<ge> 0x20 \<and> length line < cap then line_edit cap (line @ [c]) cs
     else line_edit cap line cs)"

lemma line_edit_length: "line_edit cap line cs = Some (r, l, rest) \<Longrightarrow> length line \<le> cap \<Longrightarrow> length l \<le> cap"
  by (induction cap line cs rule: line_edit.induct) (auto split: if_splits)

lemma bytes_at_snoc: "bytes_at m a (Suc n) = bytes_at m a n @ [m (a + of_nat n)]"
  by (simp add: bytes_at_def)

lemma bytes_at_upd_end: "n < 2 ^ 32 \<Longrightarrow> bytes_at (m(a + of_nat n := c)) a n = bytes_at m a n"
proof -
  assume n: "n < 2 ^ 32"
  have "of_nat k \<noteq> (of_nat n :: u32)" if "k < n" for k
    using that n by (simp add: word_unat_eq_iff unat_of_nat)
  then show ?thesis by (auto simp: bytes_at_def)
qed

lemma emit_char_device:
  "outptr s = 0 \<Longrightarrow> outptr (emit_char c s) = 0 \<and> mem (emit_char c s) = mem s \<and> x_in (emit_char c s) = x_in s"
  by (simp add: emit_char_def xputc_def xput_raw_def)

definition outside :: "u32 \<Rightarrow> nat \<Rightarrow> (u32 \<Rightarrow> u8) \<Rightarrow> (u32 \<Rightarrow> u8) \<Rightarrow> bool" where
  "outside a n m m' \<longleftrightarrow> (\<forall>b. (\<forall>k < n. b \<noteq> a + of_nat k) \<longrightarrow> m' b = m b)"

lemma outside_upd: "k < n \<Longrightarrow> outside a n m m' \<Longrightarrow> outside a n m (m'(a + of_nat k := c))"
  by (auto simp: outside_def)

lemma xgets_loop_edits:
  fixes s :: "'a xio_mach_scheme"
  assumes len: "len \<noteq> 0x80000000"
  defines "n \<equiv> max 1 (nat (sint len))"
  shows "outptr s = 0 \<Longrightarrow> length line \<le> n - 1 \<Longrightarrow> bytes_at (mem s) buff (length line) = line \<Longrightarrow> outside buff n m (mem s)
    \<Longrightarrow> (case line_edit (n - 1) line cs of
          None \<Rightarrow> fst (run_state (xgets_loop f cs buff len (of_nat (length line))) s) = Inl Hang
        | Some (r, l, rest) \<Rightarrow> \<exists>t. run_state (xgets_loop f cs buff len (of_nat (length line))) s = (Inr r, t)
            \<and> x_in t f = rest \<and> (r = 1 \<longrightarrow> bytes_at (mem t) buff (length l + 1) = l @ [0]))
      \<and> outside buff n m (mem (snd (run_state (xgets_loop f cs buff len (of_nat (length line))) s)))"
proof (induction cs arbitrary: s line)
  case Nil
  then show ?case by simp
next
  case (Cons c cs)
  have n: "1 \<le> n" "n < 2 ^ 31" using sint_lt [of len] by (auto simp: n_def nat_less_iff)
  let ?i = "of_nat (length line) :: u32"
  let ?s = "s\<lparr>x_in := (x_in s)(f := cs)\<rparr>"
  have small: "length line < 2 ^ 31" using Cons.prems(2) n by simp
  have i: "unat ?i = length line" "(?i = 0) = (line = [])"
    using small by (simp_all add: unat_of_nat word_unat_eq_iff)
  have si: "sint ?i = int (length line)"
    using small by (simp add: signed_of_nat signed_take_bit_int_eq_self)
  note l = len
  have cond: "(sint ?i < sint (len - 1)) = (length line < n - 1)"
    using si sint_minus_one(1) [OF l] by (auto simp: n_def)
  have in_ext: "outptr ?s = 0" "mem ?s = mem s" using Cons.prems(1) by simp_all
  consider "c = 0" | "c = 0x0d" | "c = 0x08" "line \<noteq> []"
    | "c \<ge> 0x20" "length line < n - 1" | "c \<noteq> 0" "c \<noteq> 0x0d" "\<not> (c = 0x08 \<and> line \<noteq> [])" "\<not> (c \<ge> 0x20 \<and> length line < n - 1)"
    by blast
  then show ?case
  proof cases
    case 1
    then show ?thesis using Cons.prems by simp
  next
    case 2
    let ?m = "(mem s)(buff + ?i := 0)"
    have "bytes_at ?m buff (length line + 1) = line @ [0]"
      using small Cons.prems(3) bytes_at_upd_end [of "length line" "mem s" buff 0] by (simp add: bytes_at_snoc)
    moreover have "outside buff n m ?m" using outside_upd [OF _ Cons.prems(4), of "length line"] Cons.prems(2) n by simp
    moreover define u where "u = ?s\<lparr>mem := ?m\<rparr>"
    moreover have "run_state (xgets_loop f (c # cs) buff len ?i) s = (Inr 1, emit_char 0x0a u)"
      using 2 by (simp add: run_xputc u_def)
    moreover have "line_edit (n - 1) line (c # cs) = Some (1, line, cs)" using 2 by simp
    moreover have "mem u = ?m" "outptr u = 0" "x_in u f = cs" using in_ext by (simp_all add: u_def)
    ultimately show ?thesis
      using emit_char_device [of u "0x0a"] by (simp del: xgets_loop.simps line_edit.simps fun_upd_apply)
  next
    case 3
    let ?t = "emit_char c ?s"
    note t = emit_char_device [OF in_ext(1), of c]
    have bl: "of_nat (length (butlast line)) = ?i - 1" "line = butlast line @ [last line]"
      using 3(2) by (simp_all add: of_nat_diff Suc_leI)
    have run: "run_state (xgets_loop f (c # cs) buff len ?i) s
        = run_state (xgets_loop f cs buff len (of_nat (length (butlast line)))) ?t"
      and edit: "line_edit (n - 1) line (c # cs) = line_edit (n - 1) (butlast line) cs"
      using 3 i(2) by (simp_all add: run_xputc bl(1) del: length_butlast)
    have "bytes_at (mem ?t) buff (length (butlast line)) = butlast line"
      using Cons.prems(3) bl(2) t
      by (metis bytes_at_snoc append_eq_append_conv in_ext(2) length_append_singleton length_bytes_at)
    then show ?thesis
      unfolding run edit using Cons.IH [of ?t "butlast line"] Cons.prems t in_ext by simp
  next
    case 4
    let ?m = "(mem s)(buff + ?i := c)"
    define u where "u = ?s\<lparr>mem := ?m\<rparr>"
    let ?t = "emit_char c u"
    have u: "mem u = ?m" "outptr u = 0" using in_ext by (simp_all add: u_def)
    note t = emit_char_device [OF u(2), of c]
    have "c \<noteq> 0" "c \<noteq> 0x0d" "c \<noteq> 0x08" using 4(1) by auto
    then have run: "run_state (xgets_loop f (c # cs) buff len ?i) s = run_state (xgets_loop f cs buff len (of_nat (length (line @ [c])))) ?t"
      and edit: "line_edit (n - 1) line (c # cs) = line_edit (n - 1) (line @ [c]) cs"
      using 4 cond l by (simp_all add: run_xputc u_def algebra_simps)
    have b: "bytes_at (mem ?t) buff (length (line @ [c])) = line @ [c]"
      using small Cons.prems(3) bytes_at_upd_end [of "length line" "mem s" buff c] t u by (simp add: bytes_at_snoc)
    have o: "outside buff n m (mem ?t)"
      using outside_upd [OF _ Cons.prems(4), of "length line"] 4 n t u by simp
    show ?thesis
      unfolding run edit by (rule Cons.IH [OF _ _ b o]) (use t 4 in simp_all)
  next
    case 5
    then have run: "run_state (xgets_loop f (c # cs) buff len ?i) s = run_state (xgets_loop f cs buff len ?i) ?s"
      and edit: "line_edit (n - 1) line (c # cs) = line_edit (n - 1) line cs"
      using i(2) cond l by auto
    show ?thesis
      unfolding run edit using Cons.IH [of ?s line] Cons.prems in_ext by simp
  qed
qed

subsection \<open>Properties\<close>


definition console_mach :: xio_mach where
  "console_mach = mach.extend \<lparr>hist = [], mem = \<lambda>_. 0xff, exc_int_handler_table = []\<rparr>
     (xio_mach.fields [] (\<lambda>_. str_bytes ''ab'' @ [0x08] @ str_bytes ''cdefg'' @ [0x0d]) 0x400 0x500 0)"

lemma console_mach_simps [simp]:
  "outptr console_mach = 0" "xfunc_out console_mach = 0x400" "xfunc_in console_mach = 0x500"
  "x_out console_mach = []" "mem console_mach = (\<lambda>_. 0xff)"
  "x_in console_mach 0x500 = str_bytes ''ab'' @ [0x08] @ str_bytes ''cdefg'' @ [0x0d]"
  by (simp_all add: console_mach_def mach.extend_def xio_mach.fields_def)


lemma printed_and_read:
  assumes "outptr s = 0" "xfunc_out s \<noteq> 0" "xv_text fmt args = (bs, True)" "crlf bs = bs" "xatoi bs = r"
  shows "\<exists>bs. run_state (xprintf fmt args) s = (Inr (), s\<lparr>x_out := x_out s @ map (Pair (xfunc_out s)) bs\<rparr>)
    \<and> xatoi bs = r"
  using assms emit_device [OF assms(1,2), of bs]
  by (intro exI [of _ bs]) (simp add: xprintf_def run_xvprintf)

text \<open>
  C34: what \<open>xprintf\<close> prints of a 32-bit number, \<open>xatoi\<close> reads back to the same number, using up
  the whole text: signed decimal for every value, the most negative one included, and the
  hexadecimal and octal forms with their prefixes. The binary form comes back only modulo
  \<open>2^16\<close>: the digit buffer has sixteen places and the formatter drops the higher digits.
\<close>

theorem xprintf_xatoi_roundtrip:
  fixes s :: "'a xio_mach_scheme"
  assumes "outptr s = 0" "xfunc_out s \<noteq> 0"
  shows "\<forall>(fmt, n) \<in> {(''%d'', v), (''0x%x'', v), (''0x%X'', v), (''0%o'', v), (''0b%b'', v AND 0xffff)}.
    \<exists>bs. run_state (xprintf (str_bytes fmt) [Int_arg v]) s
        = (Inr (), s\<lparr>x_out := x_out s @ map (Pair (xfunc_out s)) bs\<rparr>)
      \<and> xatoi bs = (1, n, [])"
  using printed_and_read [OF assms format_one(1) _ xatoi_decimal]
    printed_and_read [OF assms format_one(2) _ xatoi_prefixed(1)] printed_and_read [OF assms format_one(3) _ xatoi_prefixed(2)]
    printed_and_read [OF assms format_one(4) _ xatoi_octal] printed_and_read [OF assms format_one(5) _ xatoi_prefixed(3)]
    num_text_visible [of _ v, THEN crlf_visible]
  by simp

lemma xprintf_xatoi_roundtrip_witness:
  "\<exists>bs. run_state (xprintf (str_bytes ''%d'') [Int_arg 0x80000000]) console_mach
      = (Inr (), console_mach\<lparr>x_out := map (Pair 0x400) bs\<rparr>) \<and> xatoi bs = (1, 0x80000000, [])"
  using xprintf_xatoi_roundtrip [of console_mach "0x80000000"] by simp

text \<open>
  C35: with an input function set and any \<open>len\<close> but \<open>INT_MIN\<close>, \<open>xgets\<close> behaves as a line editor on lists: it returns 1 exactly
  when a carriage return arrives and 0 at the end of the stream, leaves the input right behind,
  and a line it accepts stands in the buffer, terminated by a zero, as typed with the
  backspaces carried out and at most \<open>len - 1\<close> characters long. Whatever happens, also when the
  input runs dry, no byte of memory changes but the first \<open>len\<close> of the buffer; when \<open>len\<close> is zero or negative the line is empty
  and the first byte of the buffer may still be stored to, outside the room there is.
\<close>

theorem xgets_is_line_editor:
  fixes s :: "'a xio_mach_scheme"
  assumes "outptr s = 0" "xfunc_in s \<noteq> 0" "len \<noteq> 0x80000000"
  shows "(case line_edit (nat (sint len - 1)) [] (x_in s (xfunc_in s)) of
        None \<Rightarrow> fst (run_state (xgets buff len) s) = Inl Hang
      | Some (r, line, rest) \<Rightarrow> length line \<le> nat (sint len - 1)
          \<and> (\<exists>t. run_state (xgets buff len) s = (Inr r, t) \<and> x_in t (xfunc_in s) = rest
               \<and> (r = 1 \<longrightarrow> bytes_at (mem t) buff (length line + 1) = line @ [0])))
    \<and> (\<forall>a. (\<forall>k < max 1 (nat (sint len)). a \<noteq> buff + of_nat k) \<longrightarrow> mem (snd (run_state (xgets buff len) s)) a = mem s a)"
proof -
  have c: "max 1 (nat (sint len)) - 1 = nat (sint len - 1)" by linarith
  show ?thesis
    using xgets_loop_edits [OF assms(3,1), where line = "[]" and buff = buff and m = "mem s" and cs = "x_in s (xfunc_in s)"
        and f = "xfunc_in s"] assms(2) line_edit_length [of "nat (sint len - 1)" "[]" "x_in s (xfunc_in s)"]
    unfolding c by (auto simp: xgets_def outside_def split: option.split)
qed

lemma xgets_is_line_editor_witness:
  "\<exists>t. run_state (xgets 0x8000 5) console_mach = (Inr 1, t) \<and> bytes_at (mem t) 0x8000 5 = str_bytes ''acde'' @ [0]"
proof -
  have "line_edit 4 [] (x_in console_mach 0x500) = Some (1, str_bytes ''acde'', [])"
    unfolding console_mach_simps by code_simp
  moreover have "length (str_bytes ''acde'') = 4" by code_simp
  ultimately show ?thesis
    using xgets_is_line_editor [of console_mach 5 "0x8000"] by auto
qed

end
