(* ===== verification/DwGpio.thy ===== *)
theory DwGpio
  imports DevCommon
begin

section \<open>DesignWare GPIO driver (dw_gpio.c)\<close>

text \<open>
  The driver of \<open>device/ip/designware/gpio/dw_gpio.c\<close>. \<open>DEV_GPIO_INFO\<close>, \<open>DW_GPIO_PORT\<close> and
  \<open>DW_GPIO_BIT_ISR\<close> objects live in three typed heaps indexed by their addresses; a
  handler is a function pointer called through the parameter \<open>cb\<close>, which may do anything to
  the state. Register offsets are those of \<open>DW_GPIO_REG\<close>.
\<close>

subsection \<open>Objects\<close>

abbreviation (input) DW_GPIO_PORT_A :: u32 where "DW_GPIO_PORT_A \<equiv> 0"
abbreviation (input) DW_GPIO_PORT_D :: u32 where "DW_GPIO_PORT_D \<equiv> 3"
abbreviation (input) DW_GPIO_MASK_ALL :: u32 where "DW_GPIO_MASK_ALL \<equiv> 0xffffffff"
abbreviation (input) DW_GPIO_INPUT_ALL :: u32 where "DW_GPIO_INPUT_ALL \<equiv> 0x0"
abbreviation (input) DW_GPIO_OUTPUT_ALL :: u32 where "DW_GPIO_OUTPUT_ALL \<equiv> 0xffffffff"

record dev_gpio_int_cfg =
  int_bit_mask :: u32
  int_bit_type :: u32
  int_bit_polarity :: u32
  int_bit_debounce :: u32

record dev_gpio_info =
  gpio_ctrl :: u32
  gi_opn_cnt :: u32
  gi_direction :: u32
  gi_method :: u32
  gi_bitofs :: u32
  gi_extra :: u32

record dw_gpio_bit_isr =
  int_bit_max_cnt :: u32
  int_bit_handler_ptr :: "u32 \<Rightarrow> u32"

record dw_gpio_port =
  port_no :: u32
  port_regs :: u32
  port_intno :: u32
  valid_bit_mask :: u32
  port_int_handler :: u32
  gpio_bit_isr :: u32

record gpio_mach = mach +
  ginfo :: "u32 \<Rightarrow> dev_gpio_info"
  gport :: "u32 \<Rightarrow> dw_gpio_port"
  gisr :: "u32 \<Rightarrow> dw_gpio_bit_isr"

type_synonym ('a, 'r) gop = "('a gpio_mach_scheme, 'r) state"
type_synonym 'a gpio_callback = "u32 \<Rightarrow> u32 \<Rightarrow> ('a gpio_mach_scheme, unit) state"

definition get_ginfo :: "u32 \<Rightarrow> ('a, dev_gpio_info) gop" where
  "get_ginfo obj = do { s \<leftarrow> State_Monad.get; State_Monad.return (ginfo s obj) }"

definition upd_ginfo :: "u32 \<Rightarrow> (dev_gpio_info \<Rightarrow> dev_gpio_info) \<Rightarrow> ('a, unit) gop" where
  "upd_ginfo obj f = State_Monad.update (\<lambda>s. s\<lparr>ginfo := (ginfo s)(obj := f (ginfo s obj))\<rparr>)"

definition upd_gisr :: "u32 \<Rightarrow> (dw_gpio_bit_isr \<Rightarrow> dw_gpio_bit_isr) \<Rightarrow> ('a, unit) gop" where
  "upd_gisr a f = State_Monad.update (\<lambda>s. s\<lparr>gisr := (gisr s)(a := f (gisr s a))\<rparr>)"

lemma run_gpio_heap [simp]:
  "run_state (get_ginfo obj) s = (ginfo s obj, s)"
  "run_state (upd_ginfo obj f) s = ((), s\<lparr>ginfo := (ginfo s)(obj := f (ginfo s obj))\<rparr>)"
  "run_state (upd_gisr a g) s = ((), s\<lparr>gisr := (gisr s)(a := g (gisr s a))\<rparr>)"
  by (simp_all add: get_ginfo_def upd_ginfo_def upd_gisr_def)

lemma wp_gpio_heap [wp_rules]:
  "wp (get_ginfo obj) P s = P (ginfo s obj) s"
  "wp (upd_ginfo obj f) R s = R () (s\<lparr>ginfo := (ginfo s)(obj := f (ginfo s obj))\<rparr>)"
  "wp (upd_gisr a g) R s = R () (s\<lparr>gisr := (gisr s)(a := g (gisr s a))\<rparr>)"
  by (simp_all add: wp_def)

text \<open>\<open>VALID_CHK_GPIO_INFO_OBJECT\<close>, and the port of a device.\<close>

definition gpio_valid :: "'a gpio_mach_scheme \<Rightarrow> u32 \<Rightarrow> bool" where
  "gpio_valid s obj \<longleftrightarrow> obj \<noteq> 0 \<and> gpio_ctrl (ginfo s obj) \<noteq> 0"

definition port_of :: "'a gpio_mach_scheme \<Rightarrow> u32 \<Rightarrow> dw_gpio_port" where
  "port_of s obj = gport s (gpio_ctrl (ginfo s obj))"

subsection \<open>Registers\<close>

abbreviation (input) GPIO_INTEN :: u32 where "GPIO_INTEN \<equiv> 0x30"
abbreviation (input) GPIO_INTMASK :: u32 where "GPIO_INTMASK \<equiv> 0x34"
abbreviation (input) GPIO_INTTYPE_LEVEL :: u32 where "GPIO_INTTYPE_LEVEL \<equiv> 0x38"
abbreviation (input) GPIO_INT_POLARITY :: u32 where "GPIO_INT_POLARITY \<equiv> 0x3c"
abbreviation (input) GPIO_INTSTATUS :: u32 where "GPIO_INTSTATUS \<equiv> 0x40"
abbreviation (input) GPIO_DEBOUNCE :: u32 where "GPIO_DEBOUNCE \<equiv> 0x48"
abbreviation (input) GPIO_PORTA_EOI :: u32 where "GPIO_PORTA_EOI \<equiv> 0x4c"

definition gpio_dr :: "dw_gpio_port \<Rightarrow> u32" where
  "gpio_dr port = port_regs port + 12 * port_no port"

definition gpio_ddr :: "dw_gpio_port \<Rightarrow> u32" where
  "gpio_ddr port = port_regs port + 12 * port_no port + 4"

definition gpio_ext :: "dw_gpio_port \<Rightarrow> u32" where
  "gpio_ext port = port_regs port + 0x50 + 4 * port_no port"

definition dw_gpio_read_ext :: "plat \<Rightarrow> dw_gpio_port \<Rightarrow> ('a, u32) op" where
  "dw_gpio_read_ext p port = mmio_rd p (gpio_ext port)"

definition dw_gpio_read_dir :: "plat \<Rightarrow> dw_gpio_port \<Rightarrow> ('a, u32) op" where
  "dw_gpio_read_dir p port = mmio_rd p (gpio_ddr port)"

definition dw_gpio_read_dr :: "plat \<Rightarrow> dw_gpio_port \<Rightarrow> ('a, u32) op" where
  "dw_gpio_read_dr p port = mmio_rd p (gpio_dr port)"

definition dw_gpio_read_mthd :: "plat \<Rightarrow> dw_gpio_port \<Rightarrow> ('a, u32) op" where
  "dw_gpio_read_mthd p port = mmio_rd p (port_regs port + GPIO_INTEN)"

definition dw_gpio_int_enable :: "plat \<Rightarrow> dw_gpio_port \<Rightarrow> u32 \<Rightarrow> ('a, unit) op" where
  "dw_gpio_int_enable p port bit_mask = mmio_or p (port_regs port + GPIO_INTEN) bit_mask"

definition dw_gpio_int_disable :: "plat \<Rightarrow> dw_gpio_port \<Rightarrow> u32 \<Rightarrow> ('a, unit) op" where
  "dw_gpio_int_disable p port bit_mask = mmio_and p (port_regs port + GPIO_INTEN) (NOT bit_mask)"

definition dw_gpio_int_mask :: "plat \<Rightarrow> dw_gpio_port \<Rightarrow> u32 \<Rightarrow> ('a, unit) op" where
  "dw_gpio_int_mask p port bit_mask = mmio_or p (port_regs port + GPIO_INTMASK) bit_mask"

definition dw_gpio_int_unmask :: "plat \<Rightarrow> dw_gpio_port \<Rightarrow> u32 \<Rightarrow> ('a, unit) op" where
  "dw_gpio_int_unmask p port bit_mask = mmio_and p (port_regs port + GPIO_INTMASK) (NOT bit_mask)"

definition dw_gpio_int_read_level :: "plat \<Rightarrow> dw_gpio_port \<Rightarrow> ('a, u32) op" where
  "dw_gpio_int_read_level p port = mmio_rd p (port_regs port + GPIO_INTTYPE_LEVEL)"

definition dw_gpio_int_read_polarity :: "plat \<Rightarrow> dw_gpio_port \<Rightarrow> ('a, u32) op" where
  "dw_gpio_int_read_polarity p port = mmio_rd p (port_regs port + GPIO_INT_POLARITY)"

definition dw_gpio_int_read_debounce :: "plat \<Rightarrow> dw_gpio_port \<Rightarrow> ('a, u32) op" where
  "dw_gpio_int_read_debounce p port = mmio_rd p (port_regs port + GPIO_DEBOUNCE)"

definition dw_gpio_int_read_status :: "plat \<Rightarrow> dw_gpio_port \<Rightarrow> ('a, u32) op" where
  "dw_gpio_int_read_status p port = mmio_rd p (port_regs port + GPIO_INTSTATUS)"

definition dw_gpio_int_clear :: "dw_gpio_port \<Rightarrow> u32 \<Rightarrow> ('a, unit) op" where
  "dw_gpio_int_clear port bit_mask = mmio_wr (port_regs port + GPIO_PORTA_EOI) bit_mask"

text \<open>The masked read-modify-write the six writers share.\<close>

definition masked :: "u32 \<Rightarrow> u32 \<Rightarrow> u32 \<Rightarrow> u32" where
  "masked old bit_mask val = (old AND NOT bit_mask) OR (val AND bit_mask)"

definition gpio_rmw :: "plat \<Rightarrow> u32 \<Rightarrow> u32 \<Rightarrow> u32 \<Rightarrow> ('a, unit) op" where
  "gpio_rmw p reg bit_mask val = do { v \<leftarrow> mmio_rd p reg; mmio_wr reg (masked v bit_mask val) }"

definition dw_gpio_int_write_level :: "plat \<Rightarrow> dw_gpio_port \<Rightarrow> u32 \<Rightarrow> u32 \<Rightarrow> ('a, unit) op" where
  "dw_gpio_int_write_level p port bit_mask bit_level =
     gpio_rmw p (port_regs port + GPIO_INTTYPE_LEVEL) bit_mask bit_level"

definition dw_gpio_int_write_polarity :: "plat \<Rightarrow> dw_gpio_port \<Rightarrow> u32 \<Rightarrow> u32 \<Rightarrow> ('a, unit) op" where
  "dw_gpio_int_write_polarity p port bit_mask bit_polarity =
     gpio_rmw p (port_regs port + GPIO_INT_POLARITY) bit_mask bit_polarity"

definition dw_gpio_int_write_debounce :: "plat \<Rightarrow> dw_gpio_port \<Rightarrow> u32 \<Rightarrow> u32 \<Rightarrow> ('a, unit) op" where
  "dw_gpio_int_write_debounce p port bit_mask bit_debounce =
     gpio_rmw p (port_regs port + GPIO_DEBOUNCE) bit_mask bit_debounce"

definition dw_gpio_set_int_cfg :: "plat \<Rightarrow> dw_gpio_port \<Rightarrow> dev_gpio_int_cfg \<Rightarrow> ('a, unit) op" where
  "dw_gpio_set_int_cfg p port int_cfg = do {
     dw_gpio_int_write_level p port (int_bit_mask int_cfg) (int_bit_type int_cfg);
     dw_gpio_int_write_polarity p port (int_bit_mask int_cfg) (int_bit_polarity int_cfg);
     dw_gpio_int_write_debounce p port (int_bit_mask int_cfg) (int_bit_debounce int_cfg)
   }"

text \<open>The struct at a pointer, and \<open>dw_gpio_get_int_cfg\<close>, which fills it in.\<close>

definition load_int_cfg :: "(u32 \<Rightarrow> u8) \<Rightarrow> u32 \<Rightarrow> dev_gpio_int_cfg" where
  "load_int_cfg m a = \<lparr>int_bit_mask = get32 m a, int_bit_type = get32 m (a + 4),
     int_bit_polarity = get32 m (a + 8), int_bit_debounce = get32 m (a + 12)\<rparr>"

definition dw_gpio_get_int_cfg :: "plat \<Rightarrow> dw_gpio_port \<Rightarrow> u32 \<Rightarrow> ('a, unit) op" where
  "dw_gpio_get_int_cfg p port a = do {
     v \<leftarrow> dw_gpio_int_read_level p port; m \<leftarrow> ld32 a; st32 (a + 4) (v AND m);
     v \<leftarrow> dw_gpio_int_read_polarity p port; m \<leftarrow> ld32 a; st32 (a + 8) (v AND m);
     v \<leftarrow> dw_gpio_int_read_debounce p port; m \<leftarrow> ld32 a; st32 (a + 12) (v AND m)
   }"

definition dw_gpio_write_dr :: "plat \<Rightarrow> dw_gpio_port \<Rightarrow> u32 \<Rightarrow> u32 \<Rightarrow> ('a, unit) op" where
  "dw_gpio_write_dr p port bit_mask val = gpio_rmw p (gpio_dr port) bit_mask val"

definition dw_gpio_toggle_dr :: "plat \<Rightarrow> dw_gpio_port \<Rightarrow> u32 \<Rightarrow> ('a, unit) op" where
  "dw_gpio_toggle_dr p port bit_mask = do {
     v \<leftarrow> dw_gpio_read_dr p port;
     mmio_wr (gpio_dr port) ((NOT v AND bit_mask) OR (v AND NOT bit_mask))
   }"

definition dw_gpio_write_dir :: "plat \<Rightarrow> dw_gpio_port \<Rightarrow> u32 \<Rightarrow> u32 \<Rightarrow> ('a, unit) op" where
  "dw_gpio_write_dir p port bit_mask val = gpio_rmw p (gpio_ddr port) bit_mask val"

definition dw_gpio_read_val :: "plat \<Rightarrow> dw_gpio_port \<Rightarrow> ('a, u32) op" where
  "dw_gpio_read_val p port = do {
     e \<leftarrow> dw_gpio_read_ext p port; d \<leftarrow> dw_gpio_read_dir p port;
     r \<leftarrow> dw_gpio_read_dr p port; d' \<leftarrow> dw_gpio_read_dir p port;
     State_Monad.return ((e AND NOT d) OR (r AND d'))
   }"

subsection \<open>Open, close, read, write\<close>

definition gpio_int_cfg_default :: dev_gpio_int_cfg where
  "gpio_int_cfg_default = \<lparr>int_bit_mask = 0xFFFFFFFF, int_bit_type = 0,
     int_bit_polarity = 0, int_bit_debounce = 0\<rparr>"

text \<open>The two parts of the first open: the interrupt set-up of port A, and the whole.\<close>

definition port_a_setup :: "plat \<Rightarrow> u32 \<Rightarrow> dw_gpio_port \<Rightarrow> ('a, unit) gop" where
  "port_a_setup p obj port = do {
     dw_gpio_int_clear port DW_GPIO_MASK_ALL;
     dw_gpio_int_disable p port DW_GPIO_MASK_ALL;
     dw_gpio_int_unmask p port DW_GPIO_MASK_ALL;
     c_if (port_intno port \<noteq> DEV_INTNO_INVALID) (do {
       _ \<leftarrow> int_handler_install p (port_intno port) (port_int_handler port);
       _ \<leftarrow> int_disable p (port_intno port);
       State_Monad.return ()
     });
     dw_gpio_set_int_cfg p port gpio_int_cfg_default;
     m \<leftarrow> dw_gpio_read_mthd p port;
     upd_ginfo obj (\<lambda>i. i\<lparr>gi_method := m\<rparr>)
   }"

definition gpio_first_open :: "plat \<Rightarrow> u32 \<Rightarrow> dw_gpio_port \<Rightarrow> u32 \<Rightarrow> ('a, s32) gop" where
  "gpio_first_open p obj port dir = do {
     dw_gpio_write_dir p port (valid_bit_mask port) dir;
     (if port_no port = DW_GPIO_PORT_A then port_a_setup p obj port
      else upd_ginfo obj (\<lambda>i. i\<lparr>gi_method := 0\<rparr>));
     dw_gpio_write_dr p port (valid_bit_mask port) 0;
     upd_ginfo obj (\<lambda>i. i\<lparr>gi_direction := dir, gi_extra := 0, gi_bitofs := 0\<rparr>);
     State_Monad.return E_OK
   }"

definition dw_gpio_open :: "plat \<Rightarrow> u32 \<Rightarrow> u32 \<Rightarrow> ('a, s32 res) gop" where
  "dw_gpio_open p obj dir = do {
     s \<leftarrow> State_Monad.get;
     check_exp (gpio_valid s obj) E_OBJ (
     let port = port_of s obj in
     check_exp (port_no port \<le> DW_GPIO_PORT_D) E_OBJ (do {
       upd_ginfo obj (\<lambda>i. i\<lparr>gi_opn_cnt := gi_opn_cnt i + 1\<rparr>);
       i \<leftarrow> get_ginfo obj;
       if gi_opn_cnt i > 1 then
         (if dir = gi_direction i then retE E_OK else retE E_OPNED)
       else liftE (gpio_first_open p obj port dir)
     }))
   }"

text \<open>The last close.\<close>

definition gpio_last_close :: "plat \<Rightarrow> u32 \<Rightarrow> dw_gpio_port \<Rightarrow> ('a, s32) gop" where
  "gpio_last_close p obj port = do {
     dw_gpio_write_dr p port (valid_bit_mask port) 0;
     dw_gpio_write_dir p port (valid_bit_mask port) 0;
     c_if (port_no port = DW_GPIO_PORT_A) (do {
       dw_gpio_int_clear port DW_GPIO_MASK_ALL;
       dw_gpio_int_disable p port DW_GPIO_MASK_ALL;
       c_if (port_intno port \<noteq> DEV_INTNO_INVALID)
         (do { _ \<leftarrow> int_disable p (port_intno port); State_Monad.return () })
     });
     upd_ginfo obj (\<lambda>i. i\<lparr>gi_direction := 0, gi_method := 0, gi_extra := 0\<rparr>);
     State_Monad.return E_OK
   }"

definition dw_gpio_close :: "plat \<Rightarrow> u32 \<Rightarrow> ('a, s32 res) gop" where
  "dw_gpio_close p obj = do {
     s \<leftarrow> State_Monad.get;
     check_exp (gpio_valid s obj) E_OBJ (
     let port = port_of s obj in
     check_exp (port_no port \<le> DW_GPIO_PORT_D) E_OBJ (
     check_exp (gi_opn_cnt (ginfo s obj) > 0) E_OK (do {
       upd_ginfo obj (\<lambda>i. i\<lparr>gi_opn_cnt := gi_opn_cnt i - 1, gi_bitofs := 0\<rparr>);
       i \<leftarrow> get_ginfo obj;
       if gi_opn_cnt i = 0 then liftE (gpio_last_close p obj port)
       else retE E_OPNED
     })))
   }"

definition dw_gpio_read :: "plat \<Rightarrow> u32 \<Rightarrow> u32 \<Rightarrow> u32 \<Rightarrow> ('a, s32 res) gop" where
  "dw_gpio_read p obj val_ptr bits = do {
     s \<leftarrow> State_Monad.get;
     check_exp (gpio_valid s obj) E_OBJ (
     let port = port_of s obj in
     check_exp (port_no port \<le> DW_GPIO_PORT_D) E_OBJ (
     check_exp (gi_opn_cnt (ginfo s obj) > 0) E_CLSED (
     check_exp (val_ptr \<noteq> 0) E_PAR (
       liftE (do { v \<leftarrow> dw_gpio_read_val p port; st32 val_ptr (v AND bits); State_Monad.return E_OK })))))
   }"

definition dw_gpio_write :: "plat \<Rightarrow> u32 \<Rightarrow> u32 \<Rightarrow> u32 \<Rightarrow> ('a, s32 res) gop" where
  "dw_gpio_write p obj val bits = do {
     s \<leftarrow> State_Monad.get;
     check_exp (gpio_valid s obj) E_OBJ (
     let port = port_of s obj in
     check_exp (port_no port \<le> DW_GPIO_PORT_D) E_OBJ (
     check_exp (gi_opn_cnt (ginfo s obj) > 0) E_CLSED (
       liftE (do { dw_gpio_write_dr p port bits val; State_Monad.return E_OK }))))
   }"

subsection \<open>Control\<close>

abbreviation (input) GPIO_CMD_SET_BIT_DIR_INPUT :: u32 where "GPIO_CMD_SET_BIT_DIR_INPUT \<equiv> 0"
abbreviation (input) GPIO_CMD_SET_BIT_DIR_OUTPUT :: u32 where "GPIO_CMD_SET_BIT_DIR_OUTPUT \<equiv> 1"
abbreviation (input) GPIO_CMD_GET_BIT_DIR :: u32 where "GPIO_CMD_GET_BIT_DIR \<equiv> 2"
abbreviation (input) GPIO_CMD_SET_BIT_INT_CFG :: u32 where "GPIO_CMD_SET_BIT_INT_CFG \<equiv> 3"
abbreviation (input) GPIO_CMD_GET_BIT_INT_CFG :: u32 where "GPIO_CMD_GET_BIT_INT_CFG \<equiv> 4"
abbreviation (input) GPIO_CMD_SET_BIT_ISR :: u32 where "GPIO_CMD_SET_BIT_ISR \<equiv> 5"
abbreviation (input) GPIO_CMD_GET_BIT_ISR :: u32 where "GPIO_CMD_GET_BIT_ISR \<equiv> 6"
abbreviation (input) GPIO_CMD_ENA_BIT_INT :: u32 where "GPIO_CMD_ENA_BIT_INT \<equiv> 7"
abbreviation (input) GPIO_CMD_DIS_BIT_INT :: u32 where "GPIO_CMD_DIS_BIT_INT \<equiv> 8"
abbreviation (input) GPIO_CMD_GET_BIT_MTHD :: u32 where "GPIO_CMD_GET_BIT_MTHD \<equiv> 9"
abbreviation (input) GPIO_CMD_TOGGLE_BITS :: u32 where "GPIO_CMD_TOGGLE_BITS \<equiv> 10"

text \<open>A command that ends with \<open>ercd\<close> still \<open>E_OK\<close>.\<close>

definition gpio_ok :: "('s, unit) state \<Rightarrow> ('s, s32 res) state" where
  "gpio_ok m = liftE (do { m; State_Monad.return E_OK })"

text \<open>The commands of port A, the \<open>switch\<close> of \<open>dw_gpio_control\<close>.\<close>

definition gpio_port_a_command :: "plat \<Rightarrow> u32 \<Rightarrow> dw_gpio_port \<Rightarrow> u32 \<Rightarrow> u32 \<Rightarrow> ('a, s32 res) gop" where
  "gpio_port_a_command p obj port ctrl_cmd param = do {
     s \<leftarrow> State_Monad.get;
     let isr = gisr s (gpio_bit_isr port);
     if ctrl_cmd = GPIO_CMD_SET_BIT_INT_CFG then
       check_exp (param \<noteq> 0 \<and> aligned4 param) E_PAR
         (gpio_ok (dw_gpio_set_int_cfg p port (load_int_cfg (mem s) param)))
     else if ctrl_cmd = GPIO_CMD_GET_BIT_INT_CFG then
       check_exp (param \<noteq> 0 \<and> aligned4 param) E_PAR (gpio_ok (dw_gpio_get_int_cfg p port param))
     else if ctrl_cmd = GPIO_CMD_SET_BIT_ISR then
       check_exp (param \<noteq> 0 \<and> aligned4 param) E_PAR (
         if gpio_bit_isr port = 0 then stopE Undef
         else if get32 (mem s) param < int_bit_max_cnt isr then
           gpio_ok (upd_gisr (gpio_bit_isr port) (\<lambda>b. b\<lparr>int_bit_handler_ptr :=
             (int_bit_handler_ptr b)(get32 (mem s) param := get32 (mem s) (param + 4))\<rparr>))
         else retE E_PAR)
     else if ctrl_cmd = GPIO_CMD_GET_BIT_ISR then
       check_exp (param \<noteq> 0 \<and> aligned4 param) E_PAR (
         if gpio_bit_isr port = 0 then stopE Undef
         else if get32 (mem s) param < int_bit_max_cnt isr then
           gpio_ok (st32 (param + 4) (int_bit_handler_ptr isr (get32 (mem s) param)))
         else retE E_PAR)
     else if ctrl_cmd = GPIO_CMD_ENA_BIT_INT then
       gpio_ok (do {
         dw_gpio_int_enable p port param;
         m \<leftarrow> dw_gpio_read_mthd p port;
         upd_ginfo obj (\<lambda>i. i\<lparr>gi_method := m\<rparr>);
         c_if (m \<noteq> 0) (c_if (port_intno port \<noteq> DEV_INTNO_INVALID)
           (do { _ \<leftarrow> int_enable p (port_intno port); State_Monad.return () }))
       })
     else if ctrl_cmd = GPIO_CMD_DIS_BIT_INT then
       gpio_ok (do {
         dw_gpio_int_disable p port param;
         m \<leftarrow> dw_gpio_read_mthd p port;
         upd_ginfo obj (\<lambda>i. i\<lparr>gi_method := m\<rparr>);
         c_if (m = 0) (c_if (port_intno port \<noteq> DEV_INTNO_INVALID)
           (do { _ \<leftarrow> int_disable p (port_intno port); State_Monad.return () }))
       })
     else if ctrl_cmd = GPIO_CMD_GET_BIT_MTHD then
       check_exp (param \<noteq> 0 \<and> aligned4 param) E_PAR (gpio_ok (do {
         m \<leftarrow> dw_gpio_read_mthd p port;
         upd_ginfo obj (\<lambda>i. i\<lparr>gi_method := m\<rparr>);
         st32 param m
       }))
     else retE E_NOSPT
   }"

definition dw_gpio_control :: "plat \<Rightarrow> u32 \<Rightarrow> u32 \<Rightarrow> u32 \<Rightarrow> ('a, s32 res) gop" where
  "dw_gpio_control p obj ctrl_cmd param = do {
     s \<leftarrow> State_Monad.get;
     check_exp (gpio_valid s obj) E_OBJ (
     let port = port_of s obj in
     check_exp (port_no port \<le> DW_GPIO_PORT_D) E_OBJ (
     check_exp (gi_opn_cnt (ginfo s obj) > 0) E_CLSED (
       if ctrl_cmd = GPIO_CMD_SET_BIT_DIR_INPUT then
         gpio_ok (do {
           dw_gpio_write_dir p port param DW_GPIO_INPUT_ALL;
           d \<leftarrow> dw_gpio_read_dir p port;
           upd_ginfo obj (\<lambda>i. i\<lparr>gi_direction := d\<rparr>)
         })
       else if ctrl_cmd = GPIO_CMD_SET_BIT_DIR_OUTPUT then
         gpio_ok (do {
           dw_gpio_write_dir p port param DW_GPIO_OUTPUT_ALL;
           d \<leftarrow> dw_gpio_read_dir p port;
           upd_ginfo obj (\<lambda>i. i\<lparr>gi_direction := d\<rparr>)
         })
       else if ctrl_cmd = GPIO_CMD_GET_BIT_DIR then
         check_exp (param \<noteq> 0 \<and> aligned4 param) E_PAR (gpio_ok (do {
           d \<leftarrow> dw_gpio_read_dir p port;
           upd_ginfo obj (\<lambda>i. i\<lparr>gi_direction := d\<rparr>);
           st32 param d
         }))
       else if ctrl_cmd = GPIO_CMD_TOGGLE_BITS then
         gpio_ok (dw_gpio_toggle_dr p port (param AND gi_direction (ginfo s obj)))
       else
         check_exp (port_no port = DW_GPIO_PORT_A) E_NOSPT
           (gpio_port_a_command p obj port ctrl_cmd param))))
   }"

subsection \<open>The interrupt routine\<close>

text \<open>
  The service of bit \<open>i\<close>, the body of the loop: the port and the handler table are read anew
  each time, for a handler may have changed them.
\<close>

definition gpio_serve :: "'a gpio_callback \<Rightarrow> u32 \<Rightarrow> u32 \<Rightarrow> u32 \<Rightarrow> ('a, unit) gop" where
  "gpio_serve cb obj port_ptr i = do {
     upd_ginfo obj (\<lambda>g. g\<lparr>gi_bitofs := i\<rparr>);
     s \<leftarrow> State_Monad.get;
     let h = int_bit_handler_ptr (gisr s (gpio_bit_isr (gport s port_ptr))) i;
     c_if (h \<noteq> 0) (cb h obj);
     s \<leftarrow> State_Monad.get;
     dw_gpio_int_clear (gport s port_ptr) (push_bit (unat i) 1)
   }"

definition dw_gpio_isr_handler :: "plat \<Rightarrow> 'a gpio_callback \<Rightarrow> u32 \<Rightarrow> ('a, s32 res) gop" where
  "dw_gpio_isr_handler p cb obj = do {
     s \<leftarrow> State_Monad.get;
     check_exp (gpio_valid s obj) E_OBJ (
     let port = port_of s obj in
     check_exp (port_no port = DW_GPIO_PORT_A) E_NOSPT (
       bindE (liftE (dw_gpio_int_read_status p port)) (\<lambda>status.
       bindE (if gpio_bit_isr port \<noteq> 0
              then retE (int_bit_max_cnt (gisr s (gpio_bit_isr port)))
              else liftE (do { dw_gpio_int_clear port status; State_Monad.return 0 })) (\<lambda>max_cnt.
       bindE (for_bits (unat max_cnt) status (gpio_serve cb obj (gpio_ctrl (ginfo s obj))) 0) (\<lambda>_.
       retE E_OK)))))
   }"

end
