(* ===== verification/DwGpioSpec.thy ===== *)
theory DwGpioSpec
  imports DwGpio
begin

section \<open>Correctness of the GPIO driver\<close>

text \<open>
  The abstract view of a port is the pair of its direction and output words; writes, direction
  changes and toggles refine pure updates of it. The interrupt routine serves the pending bits
  in ascending order. The open count obeys the contract of the device layer.
\<close>

subsection \<open>The pins of a port\<close>

record pins =
  p_dir :: u32
  p_out :: u32

datatype pin_action = Drive u32 u32 | Make_input u32 | Make_output u32 | Toggle u32

text \<open>What each action means: only the selected pins change; a toggle touches output pins only.\<close>

primrec pin_step :: "pin_action \<Rightarrow> pins \<Rightarrow> pins" where
  "pin_step (Drive v sel) s = s\<lparr>p_out := (p_out s AND NOT sel) OR (v AND sel)\<rparr>"
| "pin_step (Make_input sel) s = s\<lparr>p_dir := p_dir s AND NOT sel\<rparr>"
| "pin_step (Make_output sel) s = s\<lparr>p_dir := p_dir s OR sel\<rparr>"
| "pin_step (Toggle sel) s = s\<lparr>p_out := p_out s XOR (sel AND p_dir s)\<rparr>"

text \<open>The level of a pin: what drives it from outside when it is an input, else its output bit.\<close>

definition pin_levels :: "u32 \<Rightarrow> pins \<Rightarrow> u32" where
  "pin_levels ext s = (ext AND NOT (p_dir s)) OR (p_out s AND p_dir s)"

text \<open>The driver's call for an action.\<close>

primrec gpio_call :: "plat \<Rightarrow> u32 \<Rightarrow> pin_action \<Rightarrow> ('a, s32 res) gop" where
  "gpio_call p obj (Drive v sel) = dw_gpio_write p obj v sel"
| "gpio_call p obj (Make_input sel) = dw_gpio_control p obj GPIO_CMD_SET_BIT_DIR_INPUT sel"
| "gpio_call p obj (Make_output sel) = dw_gpio_control p obj GPIO_CMD_SET_BIT_DIR_OUTPUT sel"
| "gpio_call p obj (Toggle sel) = dw_gpio_control p obj GPIO_CMD_TOGGLE_BITS sel"

primrec gpio_calls :: "plat \<Rightarrow> u32 \<Rightarrow> pin_action list \<Rightarrow> ('a, s32 res) gop" where
  "gpio_calls p obj [] = retE E_OK"
| "gpio_calls p obj (a # as) = bindE (gpio_call p obj a)
     (\<lambda>r. if r = E_OK then gpio_calls p obj as else retE r)"

text \<open>
  The simulation: the object is open on port \<open>port\<close>, whose two registers and whose cached
  direction are the abstract pins.
\<close>

definition gpio_sim :: "u32 \<Rightarrow> dw_gpio_port \<Rightarrow> 'a gpio_mach_scheme \<Rightarrow> pins \<Rightarrow> bool" where
  "gpio_sim obj port s a \<longleftrightarrow> gpio_valid s obj \<and> port_of s obj = port \<and> port_no port \<le> DW_GPIO_PORT_D
     \<and> gi_opn_cnt (ginfo s obj) \<noteq> 0 \<and> gi_direction (ginfo s obj) = p_dir a
     \<and> mmio_last (gpio_ddr port) (hist s) = p_dir a \<and> mmio_last (gpio_dr port) (hist s) = p_out a"

lemma port_no_cases:
  "port_no port \<le> (3 :: u32) \<Longrightarrow> port_no port = 0 \<or> port_no port = 1 \<or> port_no port = 2 \<or> port_no port = 3"
proof -
  assume "port_no port \<le> (3 :: u32)"
  then have "unat (port_no port) \<le> 3" by (simp add: word_le_nat_alt)
  then have "unat (port_no port) \<in> {0, 1, 2, 3}" by auto
  then show ?thesis by (auto simp: word_unat_eq_iff)
qed

lemma gpio_addr [simp]: "gpio_dr port \<noteq> gpio_ddr port" "gpio_ddr port \<noteq> gpio_dr port"
  by (simp_all add: gpio_dr_def gpio_ddr_def)

lemma masked_ops:
  "masked x m 0 = x AND NOT m" "masked x m 0xffffffff = x OR m"
  "(NOT x AND m AND d) OR (x AND (NOT m OR NOT d)) = x XOR (m AND d)"
proof -
  have ones: "(0xffffffff :: u32) = - 1" by simp
  show "masked x m 0 = x AND NOT m" by (simp add: masked_def)
  show "masked x m 0xffffffff = x OR m"
    unfolding ones by (rule bit_word_eqI) (auto simp: masked_def bit_simps)
  show "(NOT x AND m AND d) OR (x AND (NOT m OR NOT d)) = x XOR (m AND d)"
    by (rule bit_word_eqI) (auto simp: bit_simps)
qed

lemma masked_alt: "masked x m v = (x AND NOT m) OR (v AND m)"
  by (simp add: masked_def)

lemma gpio_call_sim:
  assumes hw: "latched p {gpio_dr port, gpio_ddr port}" and sim: "gpio_sim obj port s a"
  shows "\<exists>t. run_state (gpio_call p obj act) s = (Inr E_OK, t) \<and> gpio_sim obj port t (pin_step act a)"
proof -
  have rd: "mmio_in p h (gpio_dr port) = mmio_last (gpio_dr port) h"
    "mmio_in p h (gpio_ddr port) = mmio_last (gpio_ddr port) h" for h
    using hw by (simp_all add: latchedD)
  have s: "gpio_valid s obj" "port_of s obj = port" "port_no port \<le> 3" "gi_opn_cnt (ginfo s obj) > 0"
    using sim by (simp_all add: gpio_sim_def word_neq_0_conv)
  show ?thesis
  proof (cases act)
    case (Drive v sel)
    with sim s show ?thesis
      by (simp add: dw_gpio_write_def dw_gpio_write_dr_def gpio_rmw_def rd gpio_sim_def gpio_valid_def
          port_of_def masked_alt)
  next
    case (Make_input sel)
    with sim s show ?thesis
      by (simp add: dw_gpio_control_def gpio_ok_def dw_gpio_write_dir_def dw_gpio_read_dir_def gpio_rmw_def rd
          gpio_sim_def gpio_valid_def port_of_def masked_ops)
  next
    case (Make_output sel)
    with sim s show ?thesis
      by (simp add: dw_gpio_control_def gpio_ok_def dw_gpio_write_dir_def dw_gpio_read_dir_def gpio_rmw_def rd
          gpio_sim_def gpio_valid_def port_of_def masked_ops)
  next
    case (Toggle sel)
    with sim s show ?thesis
      by (simp add: dw_gpio_control_def gpio_ok_def dw_gpio_toggle_dr_def dw_gpio_read_dr_def rd
          gpio_sim_def gpio_valid_def port_of_def masked_ops)
  qed
qed

lemma gpio_calls_sim:
  assumes hw: "latched p {gpio_dr port, gpio_ddr port}"
  shows "gpio_sim obj port s a
    \<Longrightarrow> \<exists>t. run_state (gpio_calls p obj acts) s = (Inr E_OK, t) \<and> gpio_sim obj port t (fold pin_step acts a)"
proof (induction acts arbitrary: s a)
  case Nil
  then show ?case by simp
next
  case (Cons x xs)
  obtain u where u: "run_state (gpio_call p obj x) s = (Inr E_OK, u)" "gpio_sim obj port u (pin_step x a)"
    using gpio_call_sim [OF hw Cons.prems] by blast
  with Cons.IH [OF u(2)] show ?case by simp
qed

lemma gpio_read_sim:
  assumes hw: "latched p {gpio_dr port, gpio_ddr port}" and sim: "gpio_sim obj port s a" and "val_ptr \<noteq> 0"
  shows "\<exists>t. run_state (dw_gpio_read p obj val_ptr bits) s = (Inr E_OK, t) \<and> gpio_sim obj port t a
    \<and> mem t = put32 val_ptr (pin_levels (mmio_in p (hist s) (gpio_ext port)) a AND bits) (mem s)"
proof -
  have rd: "mmio_in p h (gpio_dr port) = mmio_last (gpio_dr port) h"
    "mmio_in p h (gpio_ddr port) = mmio_last (gpio_ddr port) h" for h
    using hw by (simp_all add: latchedD)
  have s: "gpio_valid s obj" "port_of s obj = port" "port_no port \<le> 3" "gi_opn_cnt (ginfo s obj) > 0"
    using sim by (simp_all add: gpio_sim_def word_neq_0_conv)
  with sim \<open>val_ptr \<noteq> 0\<close> show ?thesis
    by (simp add: dw_gpio_read_def dw_gpio_read_val_def dw_gpio_read_ext_def dw_gpio_read_dir_def
        dw_gpio_read_dr_def rd gpio_sim_def gpio_valid_def port_of_def pin_levels_def)
qed

text \<open>
  Programs that leave the data and direction registers of a port and the identity of its object
  alone; what the first open does to the interrupt registers is one of them.
\<close>

definition gpio_keep :: "u32 \<Rightarrow> dw_gpio_port \<Rightarrow> pins \<Rightarrow> u32 \<Rightarrow> u32 \<Rightarrow> 'a gpio_mach_scheme \<Rightarrow> bool" where
  "gpio_keep obj port a n d t \<longleftrightarrow> gpio_valid t obj \<and> port_of t obj = port \<and> gi_opn_cnt (ginfo t obj) = n
     \<and> gi_direction (ginfo t obj) = d
     \<and> mmio_last (gpio_ddr port) (hist t) = p_dir a \<and> mmio_last (gpio_dr port) (hist t) = p_out a"

lemma keep_prim:
  "a \<notin> {gpio_dr port, gpio_ddr port} \<Longrightarrow> preserves (gpio_keep obj port x n d) (mmio_wr a v)"
  "preserves (gpio_keep obj port x n d) (mmio_rd p b)"
  "a \<notin> {gpio_dr port, gpio_ddr port} \<Longrightarrow> preserves (gpio_keep obj port x n d) (mmio_or p a v)"
  "a \<notin> {gpio_dr port, gpio_ddr port} \<Longrightarrow> preserves (gpio_keep obj port x n d) (mmio_and p a v)"
  "preserves (gpio_keep obj port x n d) (int_disable p i)"
  "preserves (gpio_keep obj port x n d) (int_enable p i)"
  "preserves (gpio_keep obj port x n d) (int_handler_install p i h)"
  "preserves (gpio_keep obj port x n d) (upd_ginfo obj (\<lambda>i. i\<lparr>gi_method := m\<rparr>))"
  by (auto simp: preserves_def wp_rules gpio_keep_def gpio_valid_def port_of_def int_disable_def arc_int_disable_def
      int_enable_def arc_int_enable_def int_handler_install_def exc_handler_install_def Let_def wp_def)

lemma port_a_regs:
  "port_no port = 0 \<Longrightarrow> x \<notin> {0, 4} \<Longrightarrow> port_regs port + x \<notin> {gpio_dr port, gpio_ddr port}"
  by (auto simp: gpio_dr_def gpio_ddr_def)

lemma keep_port_a:
  assumes "port_no port = 0"
  shows "preserves (gpio_keep obj port x n d) (dw_gpio_int_clear port m)"
    "preserves (gpio_keep obj port x n d) (dw_gpio_int_disable p port m)"
    "preserves (gpio_keep obj port x n d) (dw_gpio_int_unmask p port m)"
    "preserves (gpio_keep obj port x n d) (dw_gpio_set_int_cfg p port cfg)"
    "preserves (gpio_keep obj port x n d) (dw_gpio_read_mthd p port)"
  unfolding dw_gpio_int_clear_def dw_gpio_int_disable_def dw_gpio_int_unmask_def dw_gpio_set_int_cfg_def
    dw_gpio_int_write_level_def dw_gpio_int_write_polarity_def dw_gpio_int_write_debounce_def
    dw_gpio_read_mthd_def gpio_rmw_def
  by (intro preserves_bind keep_prim port_a_regs assms; simp)+

lemma keep_setup: "port_no port = 0 \<Longrightarrow> preserves (gpio_keep obj port x n d) (port_a_setup p obj port)"
  unfolding port_a_setup_def
  by (intro preserves_bind preserves_c_if preserves_return keep_prim keep_port_a)

text \<open>The first open establishes the simulation.\<close>

lemma open_sim:
  assumes hw: "latched p {gpio_dr port, gpio_ddr port}"
    and s: "gpio_valid s obj" "port_of s obj = port" "port_no port \<le> 3" "gi_opn_cnt (ginfo s obj) = 0"
    and dir: "masked (mmio_last (gpio_ddr port) (hist s)) (valid_bit_mask port) dir = dir"
  shows "wp (dw_gpio_open p obj dir) (\<lambda>r t. r = Inr E_OK \<and> gpio_sim obj port t
      \<lparr>p_dir = dir, p_out = masked (mmio_last (gpio_dr port) (hist s)) (valid_bit_mask port) 0\<rparr>) s"
proof -
  have rd: "mmio_in p h (gpio_dr port) = mmio_last (gpio_dr port) h"
    "mmio_in p h (gpio_ddr port) = mmio_last (gpio_ddr port) h" for h
    using hw by (simp_all add: latchedD)
  let ?n = "port_no port = 0" and ?d = "gi_direction (ginfo s obj)"
  let ?mid = "if ?n then port_a_setup p obj port else upd_ginfo obj (\<lambda>i. i\<lparr>gi_method := 0\<rparr>)"
  let ?last = "do { dw_gpio_write_dr p port (valid_bit_mask port) 0;
         upd_ginfo obj (\<lambda>i. i\<lparr>gi_direction := dir, gi_extra := 0, gi_bitofs := 0\<rparr>);
         State_Monad.return E_OK }"
  let ?out = "mmio_last (gpio_dr port) (hist s)"
  let ?x = "\<lparr>p_dir = dir, p_out = ?out\<rparr>"
  let ?Q = "\<lambda>r t. r = E_OK \<and> gpio_sim obj port t \<lparr>p_dir = dir, p_out = masked ?out (valid_bit_mask port) 0\<rparr>"
  have last: "gpio_keep obj port ?x 1 ?d t \<Longrightarrow> wp ?last ?Q t" for t :: "'a gpio_mach_scheme"
    using s(3) by (simp add: wp_rules dw_gpio_write_dr_def gpio_rmw_def rd gpio_keep_def gpio_sim_def gpio_valid_def port_of_def)
  have mid: "preserves (gpio_keep obj port ?x 1 ?d) ?mid"
    by (intro preserves_if keep_setup keep_prim)
  let ?s = "s\<lparr>ginfo := (ginfo s)(obj := (ginfo s obj)\<lparr>gi_opn_cnt := 1\<rparr>)\<rparr>"
  have fst: "wp (dw_gpio_write_dir p port (valid_bit_mask port) dir) (\<lambda>_. gpio_keep obj port ?x 1 ?d) ?s"
    using s dir by (simp add: wp_rules dw_gpio_write_dir_def gpio_rmw_def rd gpio_keep_def gpio_valid_def port_of_def)
  have "wp (gpio_first_open p obj port dir) ?Q ?s"
    unfolding gpio_first_open_def
    by (rule wp_bindI [OF fst], rule wp_bindI [OF preservesD [OF mid]], assumption, rule last)
  then show ?thesis
    using s by (simp add: dw_gpio_open_def wp_rules)
qed

subsection \<open>The open count\<close>

text \<open>The object and its port are in order.\<close>

definition gpio_ok_obj :: "u32 \<Rightarrow> 'a gpio_mach_scheme \<Rightarrow> bool" where
  "gpio_ok_obj obj s \<longleftrightarrow> gpio_valid s obj \<and> port_no (port_of s obj) \<le> DW_GPIO_PORT_D"

text \<open>Programs that leave the open count of the object and the way to its port alone.\<close>

definition gpio_id :: "u32 \<Rightarrow> dw_gpio_port \<Rightarrow> u32 \<Rightarrow> 'a gpio_mach_scheme \<Rightarrow> bool" where
  "gpio_id obj port n t \<longleftrightarrow> gpio_valid t obj \<and> port_of t obj = port \<and> gi_opn_cnt (ginfo t obj) = n"

lemma id_prim:
  "preserves (gpio_id obj port n) (mmio_wr a v)"
  "preserves (gpio_id obj port n) (mmio_rd p a)"
  "preserves (gpio_id obj port n) (mmio_or p a v)"
  "preserves (gpio_id obj port n) (mmio_and p a v)"
  "preserves (gpio_id obj port n) (int_disable p i)"
  "preserves (gpio_id obj port n) (int_handler_install p i h)"
  "(\<And>i. gpio_ctrl (g i) = gpio_ctrl i) \<Longrightarrow> (\<And>i. gi_opn_cnt (g i) = gi_opn_cnt i)
   \<Longrightarrow> preserves (gpio_id obj port n) (upd_ginfo obj g)"
  by (auto simp: preserves_def wp_rules gpio_id_def gpio_valid_def port_of_def int_disable_def arc_int_disable_def
      int_handler_install_def exc_handler_install_def Let_def wp_def)

lemma id_parts:
  "preserves (gpio_id obj port n) (gpio_first_open p obj q dir)"
  "preserves (gpio_id obj port n) (gpio_last_close p obj q)"
  unfolding gpio_first_open_def port_a_setup_def gpio_last_close_def dw_gpio_int_clear_def dw_gpio_int_disable_def
    dw_gpio_int_unmask_def dw_gpio_set_int_cfg_def dw_gpio_int_write_level_def dw_gpio_int_write_polarity_def
    dw_gpio_int_write_debounce_def dw_gpio_read_mthd_def gpio_rmw_def dw_gpio_write_dir_def dw_gpio_write_dr_def
  by (intro preserves_bind preserves_if preserves_c_if preserves_return id_prim; simp)+

lemma gpio_open_wp:
  fixes s :: "'a gpio_mach_scheme"
  assumes "gpio_ok_obj obj s"
  shows "wp (dw_gpio_open p obj dir) (\<lambda>_. gpio_id obj (port_of s obj) (gi_opn_cnt (ginfo s obj) + 1)) s"
proof -
  let ?n = "gi_opn_cnt (ginfo s obj) + 1"
  let ?s = "s\<lparr>ginfo := (ginfo s)(obj := (ginfo s obj)\<lparr>gi_opn_cnt := ?n\<rparr>)\<rparr>"
  have i: "gpio_id obj (port_of s obj) ?n ?s"
    using assms by (simp add: gpio_id_def gpio_ok_obj_def gpio_valid_def port_of_def)
  have "wp (gpio_first_open p obj (port_of s obj) dir) (\<lambda>_. gpio_id obj (port_of s obj) ?n) ?s"
    by (rule preservesD [OF id_parts(1) i])
  with i assms show ?thesis
    by (auto simp: dw_gpio_open_def wp_rules gpio_ok_obj_def)
qed

lemma gpio_close_wp:
  fixes s :: "'a gpio_mach_scheme"
  assumes "gpio_ok_obj obj s" "gi_opn_cnt (ginfo s obj) \<noteq> 0"
  shows "wp (dw_gpio_close p obj) (\<lambda>r t. gpio_id obj (port_of s obj) (gi_opn_cnt (ginfo s obj) - 1) t
    \<and> r = Inr (if gi_opn_cnt (ginfo s obj) = 1 then E_OK else E_OPNED)) s"
proof -
  let ?n = "gi_opn_cnt (ginfo s obj) - 1"
  let ?s = "s\<lparr>ginfo := (ginfo s)(obj := (ginfo s obj)\<lparr>gi_opn_cnt := ?n, gi_bitofs := 0\<rparr>)\<rparr>"
  have i: "gpio_id obj (port_of s obj) ?n ?s"
    using assms by (simp add: gpio_id_def gpio_ok_obj_def gpio_valid_def port_of_def)
  have "wp (gpio_last_close p obj (port_of s obj)) (\<lambda>_. gpio_id obj (port_of s obj) ?n) ?s"
    by (rule preservesD [OF id_parts(2) i])
  moreover have "wp (gpio_last_close p obj (port_of s obj)) (\<lambda>r _. r = E_OK) ?s"
    by (simp add: gpio_last_close_def wp_def split: prod.split)
  ultimately have "wp (gpio_last_close p obj (port_of s obj))
      (\<lambda>r t. gpio_id obj (port_of s obj) ?n t \<and> r = E_OK) ?s"
    by (rule wp_conj)
  moreover have "(?n = 0) = (gi_opn_cnt (ginfo s obj) = 1)" by auto
  ultimately show ?thesis
    using i assms by (auto simp: dw_gpio_close_def wp_rules gpio_ok_obj_def word_neq_0_conv elim!: wp_mono)
qed

interpretation gpio_dev: counted_device
  "2 ^ 32" "\<lambda>s. gi_opn_cnt (ginfo s obj)" "gpio_ok_obj obj" "dw_gpio_open p obj" "dw_gpio_close p obj"
  for obj p
proof unfold_locales
  fix s t :: "'a gpio_mach_scheme" and a r
  assume s: "gpio_ok_obj obj s" "unat (gi_opn_cnt (ginfo s obj)) + 1 < 2 ^ 32"
    and run: "run_state (dw_gpio_open p obj a) s = (r, t)"
  from wpD [OF gpio_open_wp [OF s(1)] run] s
  show "gpio_ok_obj obj t \<and> unat (gi_opn_cnt (ginfo t obj)) = unat (gi_opn_cnt (ginfo s obj)) + 1"
    by (simp add: gpio_id_def gpio_ok_obj_def unat_word_ariths)
next
  fix s t :: "'a gpio_mach_scheme" and r
  assume s: "gpio_ok_obj obj s" "gi_opn_cnt (ginfo s obj) \<noteq> 0"
    and run: "run_state (dw_gpio_close p obj) s = (Inr r, t)"
  have "(gi_opn_cnt (ginfo s obj) - 1 = 0) = (gi_opn_cnt (ginfo s obj) = 1)" by auto
  with wpD [OF gpio_close_wp [OF s] run] s
  show "gpio_ok_obj obj t \<and> unat (gi_opn_cnt (ginfo t obj)) = unat (gi_opn_cnt (ginfo s obj)) - 1
      \<and> r = (if gi_opn_cnt (ginfo t obj) = 0 then E_OK else E_OPNED)"
    by (auto simp: gpio_id_def gpio_ok_obj_def unat_minus_one)
qed

subsection \<open>The interrupt routine\<close>

lemma serve_acks:
  fixes cb :: "'a gpio_callback"
  assumes cb: "\<And>f a u. gport (snd (run_state (cb f a) u)) = gport u
      \<and> writes_to eoi (hist (snd (run_state (cb f a) u))) = writes_to eoi (hist u)"
    and eoi: "eoi = port_regs (gport s port_ptr) + GPIO_PORTA_EOI"
  shows "eoi = port_regs (gport (snd (run_state (gpio_serve cb obj port_ptr i) s)) port_ptr) + GPIO_PORTA_EOI
    \<and> writes_to eoi (hist (snd (run_state (gpio_serve cb obj port_ptr i) s))) = writes_to eoi (hist s) @ [push_bit (unat i) 1]"
  by (simp_all add: gpio_serve_def dw_gpio_int_clear_def cb eoi [symmetric] split_def Let_def)

subsection \<open>A sample port\<close>

text \<open>
  Port A of a GPIO block at \<open>0xf0002000\<close> whose registers are latches, with the input pins at
  \<open>0xf0\<close> and interrupts 0 and 2 pending; handlers that do nothing.
\<close>

definition gpio_plat :: plat where
  "gpio_plat = sample_plat\<lparr>mmio_in := \<lambda>h a. if a = 0xf0002050 then 0xf0 else if a = 0xf0002040 then 5
     else mmio_last a h\<rparr>"

definition sample_port :: dw_gpio_port where
  "sample_port = \<lparr>port_no = 0, port_regs = 0xf0002000, port_intno = 20, valid_bit_mask = 0xff,
     port_int_handler = 0x8000, gpio_bit_isr = 0x300\<rparr>"

definition gpio_mach0 :: gpio_mach where
  "gpio_mach0 = \<lparr>hist = [], mem = \<lambda>_. 0, exc_int_handler_table = replicate 48 0x100,
     ginfo = (\<lambda>_. \<lparr>gpio_ctrl = 0x200, gi_opn_cnt = 0, gi_direction = 0, gi_method = 0, gi_bitofs = 0, gi_extra = 0\<rparr>),
     gport = (\<lambda>_. sample_port), gisr = (\<lambda>_. \<lparr>int_bit_max_cnt = 8, int_bit_handler_ptr = \<lambda>_. 0\<rparr>)\<rparr>"

definition gpio_no_cb :: "unit gpio_callback" where
  "gpio_no_cb f a = State_Monad.return ()"

lemma sample_gpio [simp]:
  "gpio_valid gpio_mach0 0x100" "port_of gpio_mach0 0x100 = sample_port"
  "gi_opn_cnt (ginfo gpio_mach0 0x100) = 0" "gpio_ok_obj 0x100 gpio_mach0" "hist gpio_mach0 = []"
  by (simp_all add: gpio_mach0_def gpio_valid_def port_of_def sample_port_def gpio_ok_obj_def)

lemma gpio_plat_latched: "latched gpio_plat {gpio_dr sample_port, gpio_ddr sample_port}"
  by (simp add: latched_def gpio_plat_def gpio_dr_def gpio_ddr_def sample_port_def)

subsection \<open>The properties\<close>

text \<open>
  C36: the driver refines the abstract port. From a closed, valid object whose DDR and DR
  registers read back what is stored, opening with a direction the valid pins can take, then
  any list of writes, direction changes and toggles, then a read: every call returns
  \<open>E_OK\<close>, the registers and the cached direction are the abstract pins after the same list of
  pure updates, and the value read is the level of the selected pins.
\<close>

theorem gpio_refines_pins:
  fixes s :: "'a gpio_mach_scheme"
  assumes "latched p {gpio_dr port, gpio_ddr port}" "\<And>h. mmio_in p h (gpio_ext port) = ext"
    and "gpio_valid s obj" "port_of s obj = port" "port_no port \<le> 3" "gi_opn_cnt (ginfo s obj) = 0"
    and "masked (mmio_last (gpio_ddr port) (hist s)) (valid_bit_mask port) dir = dir" "val_ptr \<noteq> 0"
  shows "\<exists>t. run_state (bindE (dw_gpio_open p obj dir) (\<lambda>_. bindE (gpio_calls p obj acts)
        (\<lambda>_. dw_gpio_read p obj val_ptr bits))) s = (Inr E_OK, t)
    \<and> (let a = fold pin_step acts
          \<lparr>p_dir = dir, p_out = mmio_last (gpio_dr port) (hist s) AND NOT (valid_bit_mask port)\<rparr>
       in gpio_sim obj port t a \<and> get32 (mem t) val_ptr = pin_levels ext a AND bits)"
proof -
  let ?a = "\<lparr>p_dir = dir, p_out = mmio_last (gpio_dr port) (hist s) AND NOT (valid_bit_mask port)\<rparr>"
  obtain u where u: "run_state (dw_gpio_open p obj dir) s = (Inr E_OK, u)" "gpio_sim obj port u ?a"
    using open_sim [OF assms(1,3-7)] unfolding wp_def masked_ops by (metis prod.collapse)
  obtain v where v: "run_state (gpio_calls p obj acts) u = (Inr E_OK, v)" "gpio_sim obj port v (fold pin_step acts ?a)"
    using gpio_calls_sim [OF assms(1) u(2)] by blast
  obtain t where "run_state (dw_gpio_read p obj val_ptr bits) v = (Inr E_OK, t)"
      "gpio_sim obj port t (fold pin_step acts ?a)"
      "mem t = put32 val_ptr (pin_levels ext (fold pin_step acts ?a) AND bits) (mem v)"
    using gpio_read_sim [OF assms(1) v(2) assms(8), of bits] assms(2) by auto
  with u v show ?thesis by (simp add: Let_def get32_put32)
qed

lemma gpio_refines_pins_witness:
  "\<exists>t. run_state (bindE (dw_gpio_open gpio_plat 0x100 0x0f) (\<lambda>_. bindE
        (gpio_calls gpio_plat 0x100 [Drive 3 3, Make_input 1, Toggle 0xff])
        (\<lambda>_. dw_gpio_read gpio_plat 0x100 0x1000 0xff))) gpio_mach0 = (Inr 0, t)
     \<and> get32 (mem t) 0x1000 = 0xfc"
proof -
  have ext: "mmio_in gpio_plat h (gpio_ext sample_port) = 0xf0" for h
    by (simp add: gpio_plat_def gpio_ext_def sample_port_def)
  have no: "port_no sample_port \<le> 3" by (simp add: sample_port_def)
  have dir: "masked (mmio_last (gpio_ddr sample_port) (hist gpio_mach0)) (valid_bit_mask sample_port) 0x0f = 0x0f"
    by (simp add: masked_def sample_port_def)
  have "pin_levels 0xf0 (fold pin_step [Drive 3 3, Make_input 1, Toggle 0xff]
      \<lparr>p_dir = 0x0f, p_out = mmio_last (gpio_dr sample_port) (hist gpio_mach0) AND NOT (valid_bit_mask sample_port)\<rparr>) AND 0xff = 0xfc"
    by (simp add: pin_levels_def sample_port_def)
  then show ?thesis
    using gpio_refines_pins [OF gpio_plat_latched ext sample_gpio(1,2) no sample_gpio(3) dir,
        of "0x1000" "[Drive 3 3, Make_input 1, Toggle 0xff]" "0xff"]
    by (auto simp: Let_def)
qed

text \<open>
  A close of an open device that returns \<open>E_OK\<close> was the last one, and whatever the hardware
  answered it leaves every valid pin of the port an input with output latch 0, the object's
  direction and method cleared, and on port A every interrupt of the port disabled.
\<close>

theorem gpio_last_close_safe:
  fixes s :: "'a gpio_mach_scheme"
  assumes "gpio_ok_obj obj s" "gi_opn_cnt (ginfo s obj) \<noteq> 0"
    and "run_state (dw_gpio_close p obj) s = (Inr E_OK, t)" "port = port_of s obj"
  shows "gi_opn_cnt (ginfo s obj) = 1 \<and> gi_opn_cnt (ginfo t obj) = 0
    \<and> gi_direction (ginfo t obj) = 0 \<and> gi_method (ginfo t obj) = 0
    \<and> mmio_last (gpio_ddr port) (hist t) AND valid_bit_mask port = 0
    \<and> mmio_last (gpio_dr port) (hist t) AND valid_bit_mask port = 0
    \<and> (port_no port = DW_GPIO_PORT_A \<longrightarrow> mmio_last (port_regs port + GPIO_INTEN) (hist t) = 0)"
proof -
  have one: "gi_opn_cnt (ginfo s obj) = 1" "gi_opn_cnt (ginfo t obj) = 0"
    using wpD [OF gpio_close_wp [OF assms(1,2)] assms(3)] by (auto simp: gpio_id_def split: if_splits)
  let ?s = "s\<lparr>ginfo := (ginfo s)(obj := (ginfo s obj)\<lparr>gi_opn_cnt := 0, gi_bitofs := 0\<rparr>)\<rparr>"
  have m: "masked x m 0 AND m = 0" for x m by (simp add: masked_ops)
  have ones: "(- 4294967296 :: u32) = 0" by simp
  have "run_state (gpio_last_close p obj port) ?s = (E_OK, t)"
    using assms one by (simp add: dw_gpio_close_def gpio_ok_obj_def split_def) (metis prod.collapse)
  moreover have "wp (gpio_last_close p obj port) (\<lambda>_ t. gi_direction (ginfo t obj) = 0 \<and> gi_method (ginfo t obj) = 0
    \<and> mmio_last (gpio_ddr port) (hist t) AND valid_bit_mask port = 0
    \<and> mmio_last (gpio_dr port) (hist t) AND valid_bit_mask port = 0
    \<and> (port_no port = DW_GPIO_PORT_A \<longrightarrow> mmio_last (port_regs port + GPIO_INTEN) (hist t) = 0)) ?s"
    by (simp add: gpio_last_close_def dw_gpio_write_dr_def dw_gpio_write_dir_def gpio_rmw_def wp_rules m
        dw_gpio_int_clear_def dw_gpio_int_disable_def int_disable_def arc_int_disable_def gpio_dr_def gpio_ddr_def ones)
  ultimately show ?thesis using one by (auto dest: wpD)
qed

lemma gpio_last_close_safe_witness:
  "mmio_last (gpio_ddr sample_port) (hist (snd (run_state (dw_gpio_close gpio_plat 0x100)
     (snd (run_state (dw_gpio_open gpio_plat 0x100 0x0f) gpio_mach0))))) AND 0xff = 0"
proof -
  let ?s = "snd (run_state (dw_gpio_open gpio_plat 0x100 0x0f) gpio_mach0)"
  have "wp (dw_gpio_open gpio_plat 0x100 0x0f) (\<lambda>_. gpio_id 0x100 sample_port 1) gpio_mach0"
    using gpio_open_wp [of "0x100" gpio_mach0 gpio_plat "0x0f"] by simp
  then have id: "gpio_id 0x100 sample_port 1 ?s" by (simp add: wp_def)
  then have s: "gpio_ok_obj 0x100 ?s" "gi_opn_cnt (ginfo ?s 0x100) = 1" "sample_port = port_of ?s 0x100"
    by (auto simp: gpio_id_def gpio_ok_obj_def sample_port_def)
  have "run_state (dw_gpio_close gpio_plat 0x100) ?s = (Inr 0, snd (run_state (dw_gpio_close gpio_plat 0x100) ?s))"
    using gpio_close_wp [OF s(1), of gpio_plat] s(2) by (auto simp: wp_def intro: prod_eqI)
  from gpio_last_close_safe [OF s(1) _ this s(3)] s(2) show ?thesis
    by (simp add: sample_port_def)
qed

text \<open>
  As many closes as successful opens bring the open count back, and the last one
  answers \<open>E_OK\<close> exactly when the count is then 0.
\<close>

theorem gpio_open_close_balance:
  fixes s :: "'a gpio_mach_scheme"
  assumes "gpio_ok_obj obj s" "dirs \<noteq> []" "unat (gi_opn_cnt (ginfo s obj)) + length dirs < 2 ^ 32"
    and "run_state (open_all (dw_gpio_open p obj) dirs) s = (q, u)" "opened q"
    and "run_state (close_times (dw_gpio_close p obj) (length dirs)) u = (Inr r, t)"
  shows "gi_opn_cnt (ginfo t obj) = gi_opn_cnt (ginfo s obj)
    \<and> r = (if gi_opn_cnt (ginfo s obj) = 0 then E_OK else E_OPNED)"
  using gpio_dev.opens_closes [of obj s dirs p q u r t] assms by blast

lemma gpio_open_close_balance_witness:
  "\<exists>t. run_state (close_times (dw_gpio_close gpio_plat 0x100) 1)
        (snd (run_state (open_all (dw_gpio_open gpio_plat 0x100) [0x0f]) gpio_mach0)) = (Inr 0, t)
     \<and> gi_opn_cnt (ginfo t 0x100) = 0"
proof -
  let ?o = "run_state (dw_gpio_open gpio_plat 0x100 0x0f) gpio_mach0"
  let ?c = "run_state (dw_gpio_close gpio_plat 0x100) (snd ?o)"
  have "wp (dw_gpio_open gpio_plat 0x100 0x0f) (\<lambda>r _. r = Inr 0) gpio_mach0"
    by (rule wp_mono [OF open_sim [OF gpio_plat_latched]]) (simp_all add: sample_port_def masked_def)
  then have o: "?o = (Inr 0, snd ?o)" by (auto simp: wp_def intro: prod_eqI)
  have "wp (dw_gpio_open gpio_plat 0x100 0x0f) (\<lambda>_. gpio_id 0x100 sample_port 1) gpio_mach0"
    using gpio_open_wp [of "0x100" gpio_mach0 gpio_plat "0x0f"] by simp
  then have "gpio_ok_obj 0x100 (snd ?o)" "gi_opn_cnt (ginfo (snd ?o) 0x100) = 1"
    by (auto simp: wp_def gpio_id_def gpio_ok_obj_def sample_port_def)
  from gpio_close_wp [OF this(1), of gpio_plat] this(2)
  have c: "?c = (Inr 0, snd ?c)" by (auto simp: wp_def intro: prod_eqI)
  have oo: "run_state (open_all (dw_gpio_open gpio_plat 0x100) [0x0f]) gpio_mach0 = (Inr 0, snd ?o)"
    by (subst open_all.simps, simp only: run_state_bind) (subst o, simp add: opened_def)
  have cc: "run_state (close_times (dw_gpio_close gpio_plat 0x100) 1) (snd ?o) = (Inr 0, snd ?c)"
    by (simp only: One_nat_def close_times.simps run_bindE) (subst c, simp)
  have "opened (Inr 0)" by (simp add: opened_def)
  with gpio_open_close_balance [OF sample_gpio(4) _ _ oo] cc oo show ?thesis by auto
qed

text \<open>
  C37: the interrupt routine is the loop over the pending bits of the status word: it serves
  exactly the pending bits below the handler count, in ascending order, and returns
  \<open>E_OK\<close>; when the handlers leave the port description and its end-of-interrupt register
  alone, that register is given exactly the bit of every interrupt served, in that order.
\<close>

theorem gpio_isr_serves_pending:
  fixes cb :: "'a gpio_callback" and s :: "'a gpio_mach_scheme"
  assumes "gpio_valid s obj" "port = port_of s obj" "port_no port = DW_GPIO_PORT_A" "gpio_bit_isr port \<noteq> 0"
    and "n = unat (int_bit_max_cnt (gisr s (gpio_bit_isr port)))" "n \<le> 32"
    and "status = mmio_in p (hist s) (port_regs port + GPIO_INTSTATUS)" "eoi = port_regs port + GPIO_PORTA_EOI"
    and "\<And>f a u. gport (snd (run_state (cb f a) u)) = gport u
      \<and> writes_to eoi (hist (snd (run_state (cb f a) u))) = writes_to eoi (hist u)"
  shows "run_state (dw_gpio_isr_handler p cb obj) s =
      (Inr E_OK, snd (run_state (serve_all (gpio_serve cb obj (gpio_ctrl (ginfo s obj))) (pending_bits status 0 n))
         (s\<lparr>hist := Mmio_rd (port_regs port + GPIO_INTSTATUS) status # hist s\<rparr>)))
    \<and> writes_to eoi (hist (snd (run_state (dw_gpio_isr_handler p cb obj) s))) =
        writes_to eoi (hist s) @ map (\<lambda>i. push_bit i 1) (filter (bit status) [0 ..< n])"
proof -
  let ?s = "s\<lparr>hist := Mmio_rd (port_regs port + GPIO_INTSTATUS) status # hist s\<rparr>"
  let ?pp = "gpio_ctrl (ginfo s obj)" and ?l = "pending_bits status 0 n"
  let ?serve = "gpio_serve cb obj ?pp"
  have "run_state (for_bits n status ?serve 0) ?s = (Inr (), snd (run_state (serve_all ?serve ?l) ?s))"
    using for_bits_serves [of 0 n status ?serve ?s] assms(6) by simp
  then have run: "run_state (dw_gpio_isr_handler p cb obj) s = (Inr E_OK, snd (run_state (serve_all ?serve ?l) ?s))"
    using assms(1,3,4)
    by (simp add: dw_gpio_isr_handler_def dw_gpio_int_read_status_def assms(2,5,7) [symmetric])
  have "writes_to eoi (hist (snd (run_state (serve_all ?serve ?l) ?s)))
      = writes_to eoi (hist ?s) @ map (\<lambda>i. push_bit (unat i) 1) ?l"
    by (rule serve_all_writes [where Inv = "\<lambda>u. eoi = port_regs (gport u ?pp) + GPIO_PORTA_EOI"],
        rule serve_acks [where cb = cb, OF assms(9)]) (use assms in \<open>simp_all add: port_of_def\<close>)
  moreover have "map (\<lambda>i. push_bit (unat i) (1 :: u32)) ?l = map (\<lambda>i. push_bit i 1) (filter (bit status) [0 ..< n])"
    using assms(6) by (simp add: pending_bits_def unat_of_nat)
  ultimately show ?thesis by (simp only: run snd_conv) simp
qed

lemma gpio_isr_serves_pending_witness:
  "writes_to 0xf000204c (hist (snd (run_state (dw_gpio_isr_handler gpio_plat gpio_no_cb 0x100) gpio_mach0))) = [1, 4]"
proof -
  have port: "sample_port = port_of gpio_mach0 0x100" "port_no sample_port = 0" "gpio_bit_isr sample_port \<noteq> 0"
    by (simp_all add: sample_port_def)
  have n: "8 = unat (int_bit_max_cnt (gisr gpio_mach0 (gpio_bit_isr sample_port)))" "8 \<le> (32 :: nat)"
    by (simp_all add: gpio_mach0_def)
  have st: "5 = mmio_in gpio_plat (hist gpio_mach0) (port_regs sample_port + 0x40)"
    and eoi: "0xf000204c = port_regs sample_port + 0x4c"
    by (simp_all add: gpio_plat_def sample_port_def)
  have cb: "gport (snd (run_state (gpio_no_cb f a) u)) = gport u
      \<and> writes_to 0xf000204c (hist (snd (run_state (gpio_no_cb f a) u))) = writes_to 0xf000204c (hist u)" for f a u
    by (simp add: gpio_no_cb_def)
  have f: "filter (bit (5 :: u32)) [0 ..< 8] = [0, 2]" by code_simp
  show ?thesis
    using conjunct2 [OF gpio_isr_serves_pending [where cb = gpio_no_cb, OF sample_gpio(1) port n st eoi cb]]
    by (simp only: f) simp
qed

end
