(* ===== verification/DwPwmTimer.thy ===== *)
theory DwPwmTimer
  imports DevCommon
begin

section \<open>DesignWare PWM timer driver (dw_pwm_timer.c)\<close>

text \<open>
  The driver of \<open>device/ip/designware/pwm_timer/dw_pwm_timer.c\<close>. \<open>DEV_PWM_TIMER_INFO\<close>,
  \<open>DW_PWM_TIMER_CTRL\<close> (with the mode array it points to) and \<open>DW_PWM_TIMER_CH_ISR\<close> objects live
  in typed heaps indexed by their addresses. The loops over the channels count in a
  \<open>uint8_t\<close>, so they have a bound: with more than 255 channels they would not end.
\<close>

subsection \<open>Objects\<close>

abbreviation (input) MODE_CLOSE :: u32 where "MODE_CLOSE \<equiv> 0"
abbreviation (input) MODE_TIMER :: u32 where "MODE_TIMER \<equiv> 1"
abbreviation (input) MODE_PWM :: u32 where "MODE_PWM \<equiv> 2"

record dev_pwm_timer_info =
  pwm_timer_ctrl :: u32
  pi_opn_cnt :: u32

record dw_pwm_timer_ctrl =
  pt_regs :: u32
  pt_intno :: u32
  ch_num :: u32
  pt_clock :: u32
  pt_int_handler :: u32
  ch_isr :: u32
  pt_mode :: "u32 \<Rightarrow> u32"

record dw_pwm_timer_ch_isr =
  int_ch_max_cnt :: u32
  int_ch_handler_ptr :: "u32 \<Rightarrow> u32"

record pwm_mach = mach +
  pinfo :: "u32 \<Rightarrow> dev_pwm_timer_info"
  pctrl :: "u32 \<Rightarrow> dw_pwm_timer_ctrl"
  pisr :: "u32 \<Rightarrow> dw_pwm_timer_ch_isr"

type_synonym ('a, 'r) pop = "('a pwm_mach_scheme, 'r) state"
type_synonym 'a pwm_callback = "u32 \<Rightarrow> u32 \<Rightarrow> ('a pwm_mach_scheme, unit) state"

definition upd_pinfo :: "u32 \<Rightarrow> (dev_pwm_timer_info \<Rightarrow> dev_pwm_timer_info) \<Rightarrow> ('a, unit) pop" where
  "upd_pinfo obj f = State_Monad.update (\<lambda>s. s\<lparr>pinfo := (pinfo s)(obj := f (pinfo s obj))\<rparr>)"

definition set_mode :: "u32 \<Rightarrow> u32 \<Rightarrow> u32 \<Rightarrow> ('a, unit) pop" where
  "set_mode pp ch m = State_Monad.update (\<lambda>s. s\<lparr>pctrl := (pctrl s)(pp :=
     (pctrl s pp)\<lparr>pt_mode := (pt_mode (pctrl s pp))(ch := m)\<rparr>)\<rparr>)"

definition set_handler :: "u32 \<Rightarrow> u32 \<Rightarrow> u32 \<Rightarrow> ('a, unit) pop" where
  "set_handler a ch h = State_Monad.update (\<lambda>s. s\<lparr>pisr := (pisr s)(a :=
     (pisr s a)\<lparr>int_ch_handler_ptr := (int_ch_handler_ptr (pisr s a))(ch := h)\<rparr>)\<rparr>)"

lemma run_pwm_heap [simp]:
  "run_state (upd_pinfo obj f) s = ((), s\<lparr>pinfo := (pinfo s)(obj := f (pinfo s obj))\<rparr>)"
  "run_state (set_mode pp ch m) s = ((), s\<lparr>pctrl := (pctrl s)(pp :=
     (pctrl s pp)\<lparr>pt_mode := (pt_mode (pctrl s pp))(ch := m)\<rparr>)\<rparr>)"
  "run_state (set_handler a ch h) s = ((), s\<lparr>pisr := (pisr s)(a :=
     (pisr s a)\<lparr>int_ch_handler_ptr := (int_ch_handler_ptr (pisr s a))(ch := h)\<rparr>)\<rparr>)"
  by (simp_all add: upd_pinfo_def set_mode_def set_handler_def)

lemma wp_pwm_heap [wp_rules]:
  "wp (upd_pinfo obj f) Q s = Q () (s\<lparr>pinfo := (pinfo s)(obj := f (pinfo s obj))\<rparr>)"
  "wp (set_mode pp ch m) Q s = Q () (s\<lparr>pctrl := (pctrl s)(pp :=
     (pctrl s pp)\<lparr>pt_mode := (pt_mode (pctrl s pp))(ch := m)\<rparr>)\<rparr>)"
  "wp (set_handler a ch h) Q s = Q () (s\<lparr>pisr := (pisr s)(a :=
     (pisr s a)\<lparr>int_ch_handler_ptr := (int_ch_handler_ptr (pisr s a))(ch := h)\<rparr>)\<rparr>)"
  by (simp_all add: wp_def)

definition pwm_valid :: "'a pwm_mach_scheme \<Rightarrow> u32 \<Rightarrow> bool" where
  "pwm_valid s obj \<longleftrightarrow> obj \<noteq> 0 \<and> pwm_timer_ctrl (pinfo s obj) \<noteq> 0"

definition pwm_port :: "'a pwm_mach_scheme \<Rightarrow> u32 \<Rightarrow> dw_pwm_timer_ctrl" where
  "pwm_port s obj = pctrl s (pwm_timer_ctrl (pinfo s obj))"

subsection \<open>Registers\<close>

definition pwm_load_count :: "dw_pwm_timer_ctrl \<Rightarrow> u32 \<Rightarrow> u32" where
  "pwm_load_count port ch = pt_regs port + 20 * ch"

definition pwm_control_reg :: "dw_pwm_timer_ctrl \<Rightarrow> u32 \<Rightarrow> u32" where
  "pwm_control_reg port ch = pt_regs port + 20 * ch + 8"

definition pwm_load_count2 :: "dw_pwm_timer_ctrl \<Rightarrow> u32 \<Rightarrow> u32" where
  "pwm_load_count2 port ch = pt_regs port + 0xb0 + 4 * ch"

definition dw_pwm_timer_int_read_status :: "plat \<Rightarrow> dw_pwm_timer_ctrl \<Rightarrow> ('a, u32) op" where
  "dw_pwm_timer_int_read_status p port = mmio_rd p (pt_regs port + 0xa0)"

definition dw_pwm_timer_timer_enable :: "plat \<Rightarrow> dw_pwm_timer_ctrl \<Rightarrow> u32 \<Rightarrow> ('a, unit) op" where
  "dw_pwm_timer_timer_enable p port ch = mmio_or p (pwm_control_reg port ch) 0x03"

definition dw_pwm_timer_timer_disable :: "plat \<Rightarrow> dw_pwm_timer_ctrl \<Rightarrow> u32 \<Rightarrow> ('a, unit) op" where
  "dw_pwm_timer_timer_disable p port ch = mmio_and p (pwm_control_reg port ch) (NOT 0x03)"

definition dw_pwm_timer_pwm_enable :: "plat \<Rightarrow> dw_pwm_timer_ctrl \<Rightarrow> u32 \<Rightarrow> ('a, unit) op" where
  "dw_pwm_timer_pwm_enable p port ch = mmio_or p (pwm_control_reg port ch) 0x08"

definition dw_pwm_timer_pwm_disable :: "plat \<Rightarrow> dw_pwm_timer_ctrl \<Rightarrow> u32 \<Rightarrow> ('a, unit) op" where
  "dw_pwm_timer_pwm_disable p port ch = mmio_and p (pwm_control_reg port ch) (NOT 0x08)"

text \<open>The counts are \<open>uint16_t\<close> and the channel a \<open>uint8_t\<close> parameter.\<close>

definition dw_pwm_timer_count_set :: "dw_pwm_timer_ctrl \<Rightarrow> u8 \<Rightarrow> u16 \<Rightarrow> ('a, unit) op" where
  "dw_pwm_timer_count_set port ch val = mmio_wr (pwm_load_count port (ucast ch)) (ucast val)"

definition dw_pwm_timer_count_get :: "plat \<Rightarrow> dw_pwm_timer_ctrl \<Rightarrow> u8 \<Rightarrow> ('a, u16) op" where
  "dw_pwm_timer_count_get p port ch =
     do { v \<leftarrow> mmio_rd p (pwm_load_count port (ucast ch)); State_Monad.return (ucast v) }"

definition dw_pwm_timer_count2_set :: "dw_pwm_timer_ctrl \<Rightarrow> u8 \<Rightarrow> u16 \<Rightarrow> ('a, unit) op" where
  "dw_pwm_timer_count2_set port ch val = mmio_wr (pwm_load_count2 port (ucast ch)) (ucast val)"

definition dw_pwm_timer_count2_get :: "plat \<Rightarrow> dw_pwm_timer_ctrl \<Rightarrow> u8 \<Rightarrow> ('a, u16) op" where
  "dw_pwm_timer_count2_get p port ch =
     do { v \<leftarrow> mmio_rd p (pwm_load_count2 port (ucast ch)); State_Monad.return (ucast v) }"

definition dw_pwm_timer_int_clear_all :: "plat \<Rightarrow> dw_pwm_timer_ctrl \<Rightarrow> ('a, unit) op" where
  "dw_pwm_timer_int_clear_all p port = do { _ \<leftarrow> mmio_rd p (pt_regs port + 0xa4); State_Monad.return () }"

definition dw_pwm_timer_int_clear :: "plat \<Rightarrow> dw_pwm_timer_ctrl \<Rightarrow> u32 \<Rightarrow> ('a, unit) op" where
  "dw_pwm_timer_int_clear p port ch =
     do { _ \<leftarrow> mmio_rd p (pt_regs port + 20 * ch + 12); State_Monad.return () }"

subsection \<open>Open and close\<close>

text \<open>
  \<open>for (uint8_t i = 0; i < port->ch_num; i++)\<close> with a bound on the number of rounds.
\<close>

primrec for_channels :: "nat \<Rightarrow> u32 \<Rightarrow> (u32 \<Rightarrow> ('s, unit) state) \<Rightarrow> u8 \<Rightarrow> ('s, unit res) state" where
  "for_channels 0 n body i = stopE Hang"
| "for_channels (Suc fuel) n body i = (
     if ucast i < n then bindE (liftE (body (ucast i))) (\<lambda>_. for_channels fuel n body (i + 1))
     else retE ())"

definition dw_pwm_timer_open :: "plat \<Rightarrow> nat \<Rightarrow> u32 \<Rightarrow> ('a, s32 res) pop" where
  "dw_pwm_timer_open p fuel obj = do {
     s \<leftarrow> State_Monad.get;
     check_exp (pwm_valid s obj) E_OBJ (
     let port = pwm_port s obj in
     bindE (liftE (upd_pinfo obj (\<lambda>i. i\<lparr>pi_opn_cnt := pi_opn_cnt i + 1\<rparr>))) (\<lambda>_.
     if pi_opn_cnt (pinfo s obj) + 1 > 1 then retE E_OPNED
     else bindE (c_ifE (pt_intno port \<noteq> DEV_INTNO_INVALID)
       (for_channels fuel (ch_num port) (\<lambda>i. do {
          dw_pwm_timer_timer_disable p port i;
          dw_pwm_timer_pwm_disable p port i;
          _ \<leftarrow> int_disable p (pt_intno port + i);
          _ \<leftarrow> int_handler_install p (pt_intno port + i) (pt_int_handler port);
          State_Monad.return ()
        }) 0)) (\<lambda>_. retE E_OK)))
   }"

definition dw_pwm_timer_close :: "plat \<Rightarrow> nat \<Rightarrow> u32 \<Rightarrow> ('a, s32 res) pop" where
  "dw_pwm_timer_close p fuel obj = do {
     s \<leftarrow> State_Monad.get;
     check_exp (pwm_valid s obj) E_OBJ (
     let port = pwm_port s obj in
     check_exp (pi_opn_cnt (pinfo s obj) > 0) E_OK (
     bindE (liftE (upd_pinfo obj (\<lambda>i. i\<lparr>pi_opn_cnt := pi_opn_cnt i - 1\<rparr>))) (\<lambda>_.
     if pi_opn_cnt (pinfo s obj) - 1 = 0 then
       bindE (c_ifE (pt_intno port \<noteq> DEV_INTNO_INVALID)
         (for_channels fuel (ch_num port) (\<lambda>i. do {
            dw_pwm_timer_timer_disable p port i;
            dw_pwm_timer_pwm_disable p port i;
            _ \<leftarrow> int_disable p (pt_intno port + i);
            State_Monad.return ()
          }) 0)) (\<lambda>_. retE E_OK)
     else retE E_OPNED)))
   }"

subsection \<open>Read and write\<close>

text \<open>
  \<open>*mode\<close> is stored and read back through the pointer; the counts are non-negative, so the
  signed arithmetic of the C code is that of the words.
\<close>

definition dw_pwm_timer_read :: "plat \<Rightarrow> u32 \<Rightarrow> u32 \<Rightarrow> u32 \<Rightarrow> u32 \<Rightarrow> u32 \<Rightarrow> ('a, s32 res) pop" where
  "dw_pwm_timer_read p obj ch mode_ptr freq_ptr dc_ptr = do {
     s \<leftarrow> State_Monad.get;
     check_exp (pwm_valid s obj) E_OBJ (
     let port = pwm_port s obj in
     check_exp (pi_opn_cnt (pinfo s obj) > 0) E_CLSED (
     check_exp (ch < ch_num port) E_PAR (liftE (do {
       l \<leftarrow> dw_pwm_timer_count_get p port (ucast ch);
       h \<leftarrow> dw_pwm_timer_count2_get p port (ucast ch);
       let count_low = (ucast l :: s32);
       let count_high = (ucast h :: s32);
       st32 mode_ptr (pt_mode port ch);
       m \<leftarrow> ld32 mode_ptr;
       (if m = MODE_TIMER then do {
          st32 dc_ptr 100;
          (if count_low \<noteq> 0 then st32 freq_ptr (pt_clock port div (count_low * 2)) else st32 freq_ptr 0)
        } else if m = MODE_PWM then
          (if count_low = 0 \<and> count_high = 0 then do { st32 dc_ptr 0; st32 freq_ptr 0 }
           else do {
             st32 dc_ptr (c_sdiv (count_high * 100) (count_high + count_low));
             st32 freq_ptr (pt_clock port div (count_high + count_low))
           })
        else do { st32 dc_ptr 0; st32 freq_ptr 0 });
       State_Monad.return E_OK
     }))))
   }"

text \<open>
  \<open>count - count_high\<close> on \<open>int32_t\<close>: the difference can only leave the range of the type below.
\<close>

definition dw_pwm_timer_write :: "plat \<Rightarrow> u32 \<Rightarrow> u32 \<Rightarrow> u32 \<Rightarrow> u32 \<Rightarrow> u32 \<Rightarrow> ('a, s32 res) pop" where
  "dw_pwm_timer_write p obj ch mode freq dc = do {
     s \<leftarrow> State_Monad.get;
     check_exp (pwm_valid s obj) E_OBJ (
     let pp = pwm_timer_ctrl (pinfo s obj); port = pwm_port s obj in
     check_exp (pi_opn_cnt (pinfo s obj) > 0) E_CLSED (
     check_exp (ch < ch_num port) E_PAR (
     check_exp (dc \<le> 100) E_PAR (
     if mode = MODE_TIMER then
       check_exp (freq > 0) E_PAR (liftE (do {
         set_mode pp ch mode;
         let count = pt_clock port div freq;
         dw_pwm_timer_count_set port (ucast ch) (ucast (c_sdiv count 2));
         dw_pwm_timer_count2_set port (ucast ch) 0;
         dw_pwm_timer_timer_enable p port ch;
         dw_pwm_timer_pwm_disable p port ch;
         _ \<leftarrow> int_enable p (pt_intno port + ch);
         State_Monad.return E_OK
       }))
     else if mode = MODE_PWM then
       check_exp (freq > 0) E_PAR (
         let count = pt_clock port div freq; count_high = (count * dc) div 100 in
         bindE (liftE (set_mode pp ch mode)) (\<lambda>_.
         if sint count - sint count_high < - (2 ^ 31) then stopE Undef
         else liftE (do {
           dw_pwm_timer_count_set port (ucast ch) (ucast (count - count_high));
           dw_pwm_timer_count2_set port (ucast ch) (ucast count_high);
           dw_pwm_timer_timer_enable p port ch;
           dw_pwm_timer_pwm_enable p port ch;
           _ \<leftarrow> int_disable p (pt_intno port + ch);
           State_Monad.return E_OK
         })))
     else if mode = MODE_CLOSE then liftE (do {
       set_mode pp ch mode;
       dw_pwm_timer_count_set port (ucast ch) 0;
       dw_pwm_timer_count2_set port (ucast ch) 0;
       dw_pwm_timer_timer_disable p port ch;
       dw_pwm_timer_pwm_disable p port ch;
       _ \<leftarrow> int_disable p (pt_intno port + ch);
       State_Monad.return E_OK
     })
     else retE E_OK))))
   }"

subsection \<open>Control\<close>

abbreviation (input) PWM_TIMER_CMD_SET_CFG :: u32 where "PWM_TIMER_CMD_SET_CFG \<equiv> 0"
abbreviation (input) PWM_TIMER_CMD_GET_CFG :: u32 where "PWM_TIMER_CMD_GET_CFG \<equiv> 1"

abbreviation (input) PWM_TIMER_CMD_ENA_CH :: u32 where "PWM_TIMER_CMD_ENA_CH \<equiv> 2"
abbreviation (input) PWM_TIMER_CMD_DIS_CH :: u32 where "PWM_TIMER_CMD_DIS_CH \<equiv> 3"
abbreviation (input) PWM_TIMER_CMD_SET_ISR :: u32 where "PWM_TIMER_CMD_SET_ISR \<equiv> 4"
abbreviation (input) PWM_TIMER_CMD_GET_ISR :: u32 where "PWM_TIMER_CMD_GET_ISR \<equiv> 5"
abbreviation (input) PWM_TIMER_CMD_DIS_ISR :: u32 where "PWM_TIMER_CMD_DIS_ISR \<equiv> 6"
abbreviation (input) PWM_TIMER_CMD_ENA_ISR :: u32 where "PWM_TIMER_CMD_ENA_ISR \<equiv> 7"

text \<open>The struct \<open>DEV_PWM_TIMER_CFG\<close> at a pointer: a four-byte enum, two half words, a pointer.\<close>

record dev_pwm_timer_cfg =
  cfg_mode :: u32
  cfg_count_low :: u16
  cfg_count_high :: u16
  cfg_isr :: u32

definition load_pwm_cfg :: "(u32 \<Rightarrow> u8) \<Rightarrow> u32 \<Rightarrow> dev_pwm_timer_cfg" where
  "load_pwm_cfg m a = \<lparr>cfg_mode = get32 m a, cfg_count_low = get16 m (a + 4),
     cfg_count_high = get16 m (a + 6), cfg_isr = get32 m (a + 8)\<rparr>"

definition st16 :: "u32 \<Rightarrow> u16 \<Rightarrow> ('a, unit) op" where
  "st16 a v = State_Monad.update (\<lambda>s. s\<lparr>mem := put16 a v (mem s)\<rparr>)"

text \<open>\<open>PWM_TIMER_CMD_SET_CFG\<close>; without a handler table, a handler is stored through a null pointer.\<close>

definition pwm_set_cfg :: "plat \<Rightarrow> u32 \<Rightarrow> dw_pwm_timer_ctrl \<Rightarrow> u32 \<Rightarrow> dev_pwm_timer_cfg \<Rightarrow> ('a, s32 res) pop" where
  "pwm_set_cfg p pp port ch cfg =
     bindE (liftE (do {
       dw_pwm_timer_count_set port (ucast ch) (cfg_count_low cfg);
       dw_pwm_timer_count2_set port (ucast ch) (cfg_count_high cfg)
     })) (\<lambda>_.
     bindE (c_ifE (cfg_isr cfg \<noteq> 0)
       (if ch_isr port = 0 then stopE Undef else liftE (set_handler (ch_isr port) ch (cfg_isr cfg)))) (\<lambda>_.
     liftE (do {
       (if cfg_mode cfg = MODE_TIMER then do {
          set_mode pp ch (cfg_mode cfg);
          dw_pwm_timer_timer_enable p port ch;
          _ \<leftarrow> int_enable p (pt_intno port + ch);
          State_Monad.return ()
        } else if cfg_mode cfg = MODE_PWM then do {
          set_mode pp ch (cfg_mode cfg);
          dw_pwm_timer_timer_enable p port ch;
          dw_pwm_timer_pwm_enable p port ch
        } else if cfg_mode cfg = MODE_CLOSE then do {
          set_mode pp ch (cfg_mode cfg);
          dw_pwm_timer_timer_disable p port ch;
          dw_pwm_timer_pwm_disable p port ch
        } else State_Monad.return ());
       State_Monad.return E_OK
     })))"

text \<open>\<open>PWM_TIMER_CMD_GET_CFG\<close>: each field of the struct is stored in turn.\<close>

definition pwm_get_cfg :: "plat \<Rightarrow> dw_pwm_timer_ctrl \<Rightarrow> u32 \<Rightarrow> u32 \<Rightarrow> ('a, s32 res) pop" where
  "pwm_get_cfg p port ch par =
     bindE (liftE (do {
       l \<leftarrow> dw_pwm_timer_count_get p port (ucast ch); st16 (par + 4) l;
       h \<leftarrow> dw_pwm_timer_count2_get p port (ucast ch); st16 (par + 6) h;
       ld32 (par + 8)
     })) (\<lambda>old.
     bindE (c_ifE (old \<noteq> 0)
       (if ch_isr port = 0 then stopE Undef
        else liftE (do { s \<leftarrow> State_Monad.get;
               st32 (par + 8) (int_ch_handler_ptr (pisr s (ch_isr port)) ch) }))) (\<lambda>_.
     liftE (do { st32 par (pt_mode port ch); State_Monad.return E_OK })))"

text \<open>
  \<open>PWM_TIMER_CMD_GET_ISR\<close> reads the handler into its own parameter: the caller never sees it.
\<close>

definition pwm_command :: "plat \<Rightarrow> u32 \<Rightarrow> dw_pwm_timer_ctrl \<Rightarrow> u32 \<Rightarrow> u32 \<Rightarrow> u32 \<Rightarrow> ('a, s32 res) pop" where
  "pwm_command p pp port ch ctrl_cmd par = do {
     s \<leftarrow> State_Monad.get;
     if ctrl_cmd = PWM_TIMER_CMD_SET_CFG then pwm_set_cfg p pp port ch (load_pwm_cfg (mem s) par)
     else if ctrl_cmd = PWM_TIMER_CMD_GET_CFG then pwm_get_cfg p port ch par
     else if ctrl_cmd = PWM_TIMER_CMD_DIS_CH then
       liftE (do { dw_pwm_timer_timer_disable p port ch; State_Monad.return E_OK })
     else if ctrl_cmd = PWM_TIMER_CMD_ENA_CH then
       liftE (do { dw_pwm_timer_timer_enable p port ch; State_Monad.return E_OK })
     else if ctrl_cmd = PWM_TIMER_CMD_DIS_ISR then
       liftE (do { _ \<leftarrow> int_disable p (pt_intno port + ch); State_Monad.return E_OK })
     else if ctrl_cmd = PWM_TIMER_CMD_ENA_ISR then
       liftE (do { _ \<leftarrow> int_enable p (pt_intno port + ch); State_Monad.return E_OK })
     else if ctrl_cmd = PWM_TIMER_CMD_SET_ISR then
       check_exp (par \<noteq> 0 \<and> aligned4 par) E_PAR
         (if ch_isr port = 0 then stopE Undef
          else liftE (do { set_handler (ch_isr port) ch par; State_Monad.return E_OK }))
     else if ctrl_cmd = PWM_TIMER_CMD_GET_ISR then
       check_exp (par \<noteq> 0 \<and> aligned4 par) E_PAR (if ch_isr port = 0 then stopE Undef else retE E_OK)
     else retE E_NOSPT
   }"

definition dw_pwm_timer_control :: "plat \<Rightarrow> u32 \<Rightarrow> u32 \<Rightarrow> u32 \<Rightarrow> u32 \<Rightarrow> ('a, s32 res) pop" where
  "dw_pwm_timer_control p obj ch ctrl_cmd par = do {
     s \<leftarrow> State_Monad.get;
     check_exp (pwm_valid s obj) E_OBJ (
     let pp = pwm_timer_ctrl (pinfo s obj); port = pwm_port s obj in
     check_exp (pi_opn_cnt (pinfo s obj) > 0) E_CLSED (
     check_exp (ch < ch_num port) E_PAR (pwm_command p pp port ch ctrl_cmd par)))
   }"

subsection \<open>The interrupt routine\<close>

text \<open>The service of channel \<open>i\<close>: its handler, then the read that clears its interrupt.\<close>

definition pwm_serve :: "plat \<Rightarrow> 'a pwm_callback \<Rightarrow> u32 \<Rightarrow> u32 \<Rightarrow> u32 \<Rightarrow> ('a, unit) pop" where
  "pwm_serve p cb obj pp i = do {
     s \<leftarrow> State_Monad.get;
     let h = int_ch_handler_ptr (pisr s (ch_isr (pctrl s pp))) i;
     c_if (h \<noteq> 0) (cb h obj);
     s \<leftarrow> State_Monad.get;
     dw_pwm_timer_int_clear p (pctrl s pp) i
   }"

definition dw_pwm_timer_isr_handler :: "plat \<Rightarrow> 'a pwm_callback \<Rightarrow> u32 \<Rightarrow> ('a, s32 res) pop" where
  "dw_pwm_timer_isr_handler p cb obj = do {
     s \<leftarrow> State_Monad.get;
     check_exp (pwm_valid s obj) E_OBJ (
     let pp = pwm_timer_ctrl (pinfo s obj); port = pwm_port s obj in
     bindE (liftE (dw_pwm_timer_int_read_status p port)) (\<lambda>status.
     bindE (if ch_isr port \<noteq> 0 then retE (int_ch_max_cnt (pisr s (ch_isr port)))
            else liftE (do { dw_pwm_timer_int_clear_all p port; State_Monad.return 0 })) (\<lambda>max_cnt.
     bindE (for_bits (unat max_cnt) status (pwm_serve p cb obj pp) 0) (\<lambda>_.
     retE E_OK))))
   }"

end
