(* ===== verification/DwPwmSpec.thy ===== *)
theory DwPwmSpec
  imports DwPwmTimer
begin

section \<open>Correctness of the PWM timer driver\<close>

text \<open>
  What a write of a frequency and a duty cycle programs, and how a read gives it back; the
  interrupt routine as the service of the pending channels in order; the open count.
\<close>

subsection \<open>Words in memory that do not overlap\<close>

definition apart :: "u32 \<Rightarrow> u32 \<Rightarrow> bool" where
  "apart a b \<longleftrightarrow> (\<forall>i\<in>{0, 1, 2, 3}. \<forall>j\<in>{0, 1, 2, 3}. a + i \<noteq> b + j)"

lemma get32_apart: "apart a b \<Longrightarrow> get32 (put32 b v m) a = get32 m a"
  by (rule get32_put32_other) (simp_all add: apart_def)

lemma apart_sym: "apart a b \<Longrightarrow> apart b a"
  unfolding apart_def by metis

subsection \<open>The arithmetic of the duty cycle\<close>

lemma duty_bound:
  assumes "0 < c" "d \<le> (100 :: nat)"
  shows "(c * d div 100) * 100 div c \<le> d" "c * d < c * ((c * d div 100) * 100 div c + 1) + 100"
    "100 \<le> c \<longrightarrow> d \<le> (c * d div 100) * 100 div c + 1"
proof -
  let ?h = "c * d div 100"
  have h: "?h * 100 \<le> c * d" "c * d < ?h * 100 + 100"
    by (simp, use div_mult_mod_eq [of "c * d" 100] mod_less_divisor [of 100 "c * d"] in linarith)
  have "?h * 100 div c \<le> c * d div c" using h(1) by (rule div_le_mono)
  then show "?h * 100 div c \<le> d" using assms by simp
  have "?h * 100 < c * (?h * 100 div c + 1)"
    using assms dividend_less_div_times [of c "?h * 100"] by (simp add: algebra_simps)
  then show b: "c * d < c * (?h * 100 div c + 1) + 100" using h(2) by linarith
  show "100 \<le> c \<longrightarrow> d \<le> ?h * 100 div c + 1"
  proof
    assume "100 \<le> c"
    then have "c * d < c * (?h * 100 div c + 2)" using b by (simp add: algebra_simps)
    then have "d < ?h * 100 div c + 2" by (simp only: mult_less_cancel1)
    then show "d \<le> ?h * 100 div c + 1" by simp
  qed
qed

lemma freq_error: "0 < f \<Longrightarrow> 0 < clk div f \<Longrightarrow> f \<le> clk div (clk div (f :: nat))"
  by (metis div_times_less_eq_dividend mult.commute less_eq_div_iff_mult_less_eq)

subsection \<open>Writing and reading a channel\<close>

text \<open>The object is open, the channel exists, and its two count registers are latches.\<close>

definition pwm_ready :: "plat \<Rightarrow> u32 \<Rightarrow> u32 \<Rightarrow> 'a pwm_mach_scheme \<Rightarrow> bool" where
  "pwm_ready p obj ch s \<longleftrightarrow> pwm_valid s obj \<and> pi_opn_cnt (pinfo s obj) \<noteq> 0
     \<and> ch < ch_num (pwm_port s obj) \<and> ch < 8
     \<and> latched p {pwm_load_count (pwm_port s obj) ch, pwm_load_count2 (pwm_port s obj) ch}"

text \<open>The channel holds a mode and two counts.\<close>

definition pwm_holds :: "u32 \<Rightarrow> u32 \<Rightarrow> u32 \<Rightarrow> u16 \<Rightarrow> u16 \<Rightarrow> 'a pwm_mach_scheme \<Rightarrow> bool" where
  "pwm_holds obj ch m low high s \<longleftrightarrow> pt_mode (pwm_port s obj) ch = m
     \<and> mmio_last (pwm_load_count (pwm_port s obj) ch) (hist s) = ucast low
     \<and> mmio_last (pwm_load_count2 (pwm_port s obj) ch) (hist s) = ucast high"

lemma ch8: "ch < (8 :: u32) \<Longrightarrow> ucast (ucast ch :: u8) = ch"
  by (rule word_unat_eq_iff [THEN iffD2]) (simp add: unsigned_ucast_eq unsigned_take_bit_eq word_less_nat_alt take_bit_nat_eq_self)

lemma ch_cases: "ch < (8 :: u32) \<Longrightarrow> ch \<in> {0, 1, 2, 3, 4, 5, 6, 7}"
proof -
  assume "ch < 8"
  then have "unat ch \<in> {0, 1, 2, 3, 4, 5, 6, 7}" by (auto simp: word_less_nat_alt)
  then show ?thesis by (auto simp: word_unat_eq_iff)
qed

lemma pwm_addr:
  assumes "ch < 8"
  shows "pwm_load_count port ch \<noteq> pwm_load_count2 port ch" "pwm_control_reg port ch \<noteq> pwm_load_count port ch"
    "pwm_control_reg port ch \<noteq> pwm_load_count2 port ch"
  using ch_cases [OF assms] by (auto simp: pwm_load_count_def pwm_load_count2_def pwm_control_reg_def)

lemmas pwm_reg_defs = dw_pwm_timer_count_set_def dw_pwm_timer_count2_set_def dw_pwm_timer_count_get_def
  dw_pwm_timer_count2_get_def dw_pwm_timer_timer_enable_def dw_pwm_timer_timer_disable_def
  dw_pwm_timer_pwm_enable_def dw_pwm_timer_pwm_disable_def int_enable_def int_disable_def
  arc_int_enable_def arc_int_disable_def

lemma sint_small:
  assumes "unat (a :: s32) < 2 ^ 31"
  shows "sint a = uint a"
proof -
  have "int (unat a) < int (2 ^ 31)" using assms by (simp only: of_nat_less_iff)
  then have "uint a < 2 ^ 31" by simp
  moreover have "- (2 ^ 31) \<le> uint a" by (rule order_trans [of _ 0]) simp_all
  ultimately show ?thesis by (simp only: sint_uint) (rule signed_take_bit_int_eq_self; simp)
qed

lemma c_sdiv_nonneg:
  assumes "unat a < 2 ^ 31" "unat b < 2 ^ 31"
  shows "c_sdiv a b = a div b"
proof -
  have "sgn x * sgn y * (\<bar>x\<bar> div \<bar>y\<bar>) = x div y" if "0 \<le> x" "0 \<le> y" for x y :: int
    using that by (cases "x = 0"; cases "y = 0") auto
  then show ?thesis
    using assms by (simp add: c_sdiv_def sint_small word_div_def)
qed

text \<open>The counts a mode and a number of clocks per period ask for.\<close>

definition pwm_counts :: "u32 \<Rightarrow> u32 \<Rightarrow> u32 \<Rightarrow> u16 \<times> u16" where
  "pwm_counts m c dc = (if m = MODE_PWM then (ucast (c - c * dc div 100), ucast (c * dc div 100))
     else if m = MODE_TIMER then (ucast (c div 2), 0) else (0, 0))"

lemma pwm_write_holds:
  assumes "pwm_ready p obj ch s" "m \<in> {MODE_PWM, MODE_TIMER}" "0 < freq" "dc \<le> 100"
    and "unat (pt_clock (pwm_port s obj) div freq) < 2 ^ 24"
  shows "wp (dw_pwm_timer_write p obj ch m freq dc) (\<lambda>r t. r = Inr E_OK \<and> pwm_ready p obj ch t
     \<and> pt_clock (pwm_port t obj) = pt_clock (pwm_port s obj) \<and> mem t = mem s
     \<and> pwm_holds obj ch m (fst (pwm_counts m (pt_clock (pwm_port s obj) div freq) dc))
         (snd (pwm_counts m (pt_clock (pwm_port s obj) div freq) dc)) t) s"
proof -
  let ?port = "pwm_port s obj" and ?c = "pt_clock (pwm_port s obj) div freq"
  have s: "pwm_valid s obj" "pi_opn_cnt (pinfo s obj) > 0" "ch < ch_num ?port" "ch < 8"
    using assms(1) by (simp_all add: pwm_ready_def word_neq_0_conv)
  note a = pwm_addr [OF s(4), of ?port]
  have half: "c_sdiv ?c 2 = ?c div 2" by (rule c_sdiv_nonneg) (use assms(5) in simp_all)
  have nz: "unat dc \<le> 100" using assms(4) by (simp add: word_le_nat_alt)
  have "unat ?c * unat dc < 2 ^ 32"
    using mult_mono [of "unat ?c" "2 ^ 24 - 1" "unat dc" 100] assms(5) nz by simp
  then have h: "unat (?c * dc) = unat ?c * unat dc" by (simp add: unat_word_ariths)
  have hle: "unat (?c * dc div 100) \<le> unat ?c"
  proof -
    have "unat ?c * unat dc div 100 \<le> unat ?c * 100 div 100" by (rule div_le_mono) (simp add: nz)
    then show ?thesis by (simp only: unat_div_distrib [of "?c * dc"] h) simp
  qed
  have i: "sint ?c = uint ?c" "sint (?c * dc div 100) = uint (?c * dc div 100)"
    using assms(5) hle by (auto intro!: sint_small)
  have nu: "\<not> sint ?c - sint (?c * dc div 100) < - (2 ^ 31)"
  proof -
    have "int (unat (?c * dc div 100)) \<le> int (unat ?c)" using hle by (simp only: of_nat_le_iff)
    then have "uint (?c * dc div 100) \<le> uint ?c" by (simp only: of_nat_unat)
    then show ?thesis unfolding i by simp
  qed
  consider "m = MODE_PWM" | "m = MODE_TIMER" using assms(2) by blast
  then show ?thesis
  proof cases
    case 1
    with s a assms(1,3,4) nu show ?thesis
      by (simp add: dw_pwm_timer_write_def wp_rules Let_def pwm_reg_defs ch8 pwm_counts_def pwm_holds_def pwm_ready_def
          pwm_valid_def pwm_port_def pwm_load_count_def pwm_load_count2_def pwm_control_reg_def)
  next
    case 2
    with s a assms(1,3,4) half show ?thesis
      by (simp add: dw_pwm_timer_write_def wp_rules Let_def pwm_reg_defs ch8 pwm_counts_def pwm_holds_def pwm_ready_def
          pwm_valid_def pwm_port_def pwm_load_count_def pwm_load_count2_def pwm_control_reg_def)
  qed
qed

text \<open>What a read reports of the two counts.\<close>

definition pwm_report :: "u32 \<Rightarrow> u32 \<Rightarrow> u16 \<Rightarrow> u16 \<Rightarrow> u32 \<times> u32" where
  "pwm_report clk m low high =
     (if m = MODE_TIMER then (if low = 0 then 0 else clk div (ucast low * 2), 100)
      else if m = MODE_PWM \<and> (low \<noteq> 0 \<or> high \<noteq> 0)
      then (clk div (ucast high + ucast low), (ucast high * 100) div (ucast high + ucast low))
      else (0, 0))"

lemma half_0: "(ucast (x :: u16) :: u32) = 0 \<longleftrightarrow> x = 0"
  by (metis unat_half unsigned_0 word_unat_eq_iff)

lemma pwm_read_reports:
  assumes "pwm_ready p obj ch s" "pwm_holds obj ch m low high s"
    and "apart mode_ptr freq_ptr" "apart mode_ptr dc_ptr" "apart freq_ptr dc_ptr"
  shows "wp (dw_pwm_timer_read p obj ch mode_ptr freq_ptr dc_ptr) (\<lambda>r t. r = Inr E_OK
     \<and> get32 (mem t) mode_ptr = m
     \<and> (get32 (mem t) freq_ptr, get32 (mem t) dc_ptr) = pwm_report (pt_clock (pwm_port s obj)) m low high) s"
proof -
  let ?port = "pwm_port s obj"
  have s: "pwm_valid s obj" "pi_opn_cnt (pinfo s obj) > 0" "ch < ch_num ?port" "ch < 8"
    using assms(1) by (simp_all add: pwm_ready_def word_neq_0_conv)
  have rd: "mmio_in p h (pwm_load_count ?port ch) = mmio_last (pwm_load_count ?port ch) h"
    "mmio_in p h (pwm_load_count2 ?port ch) = mmio_last (pwm_load_count2 ?port ch) h" for h
    using assms(1) by (auto simp: pwm_ready_def latched_def)
  have v: "mmio_last (pwm_load_count ?port ch) (hist s) = ucast low"
    "mmio_last (pwm_load_count2 ?port ch) (hist s) = ucast high" "pt_mode ?port ch = m"
    using assms(2) by (simp_all add: pwm_holds_def)
  have cast: "(ucast (ucast (x :: u16) :: u32) :: u16) = x" for x
    by (rule bit_word_eqI) (simp add: bit_simps)
  have b: "unat (ucast high * 100 :: u32) < 2 ^ 31" "unat (ucast high + ucast low :: u32) < 2 ^ 31"
    using half_bound [of high] half_bound [of low] by (simp_all add: unat_word_ariths unat_half)
  have d: "c_sdiv (ucast high * 100) (ucast high + ucast low) = (ucast high * 100 :: u32) div (ucast high + ucast low)"
    by (rule c_sdiv_nonneg [OF b])
  note ap = assms(3-5) assms(3-5) [THEN apart_sym]
  show ?thesis
    by (simp add: dw_pwm_timer_read_def wp_rules Let_def s ch8 pwm_reg_defs rd v cast d half_0 pwm_report_def
        get32_apart ap)
qed

lemma round16: "unat (w :: u32) < 2 ^ 16 \<Longrightarrow> ucast (ucast w :: u16) = w"
  by (rule word_unat_eq_iff [THEN iffD2])
     (simp add: unsigned_ucast_eq unsigned_take_bit_eq take_bit_nat_eq_self)

lemma report_pwm:
  assumes "unat c < 2 ^ 16" "c \<noteq> 0" "unat dc \<le> 100"
  shows "pwm_report clk MODE_PWM (fst (pwm_counts MODE_PWM c dc)) (snd (pwm_counts MODE_PWM c dc))
      = (clk div c, (c * dc div 100) * 100 div c)"
    "unat (c * dc div 100) = unat c * unat dc div 100" "unat (c * dc div 100 * 100) = unat c * unat dc div 100 * 100"
proof -
  let ?h = "c * dc div 100"
  have le: "unat c * unat dc div 100 \<le> unat c * 100 div 100" by (rule div_le_mono) (simp add: assms)
  have "unat c * unat dc < 2 ^ 32" using mult_mono [of "unat c" "2 ^ 16" "unat dc" 100] assms by simp
  then show h: "unat ?h = unat c * unat dc div 100" by (simp add: unat_div_distrib unat_word_ariths)
  then show "unat (?h * 100) = unat c * unat dc div 100 * 100" using le assms by (simp add: unat_word_ariths)
  have small: "unat ?h < 2 ^ 16" "unat (c - ?h) < 2 ^ 16"
    using h le assms by (simp_all add: unat_sub word_le_nat_alt)
  have sum: "ucast (ucast ?h :: u16) + ucast (ucast (c - ?h) :: u16) = c"
    by (simp add: round16 [OF small(1)] round16 [OF small(2)])
  have "(ucast (c - ?h) :: u16) \<noteq> 0 \<or> (ucast ?h :: u16) \<noteq> 0"
    using sum assms(2) by (metis add_0 unsigned_0)
  then show "pwm_report clk MODE_PWM (fst (pwm_counts MODE_PWM c dc)) (snd (pwm_counts MODE_PWM c dc))
      = (clk div c, ?h * 100 div c)"
    using sum by (simp add: pwm_counts_def pwm_report_def round16 [OF small(1)])
qed

lemma report_timer:
  assumes "unat c < 2 ^ 16" "2 \<le> unat c"
  shows "pwm_report clk MODE_TIMER (fst (pwm_counts MODE_TIMER c dc)) (snd (pwm_counts MODE_TIMER c dc))
      = (clk div (c div 2 * 2), 100)"
proof -
  have h: "unat (c div 2) = unat c div 2" by (simp add: unat_div_distrib)
  then have "unat (c div 2) < 2 ^ 16" "c div 2 \<noteq> 0" using assms by (auto simp: word_unat_eq_iff)
  with round16 [OF this(1)] half_0 [of "ucast (c div 2)"] show ?thesis
    by (simp add: pwm_report_def pwm_counts_def)
qed

text \<open>
  C38: on an open device whose count registers read back what was stored, a channel written with a mode, a frequency and a duty cycle reads back. Let \<open>c\<close> be the clocks per
  period, which fit the 16-bit counts. In PWM mode the frequency read is the clock
  divided by \<open>c\<close>, never below the one asked for, and the duty cycle read is not above the one asked for and less than \<open>1 + 100 / c\<close>
  percent below it, so at most one percent from 100 clocks on; for a frequency above the clock, \<open>c = 0\<close>, both read 0.
  In timer mode the duty cycle is 100 and the frequency that of twice the half period, or 0 when the period is below two clocks.
\<close>

theorem pwm_write_read_roundtrip:
  fixes s :: "'a pwm_mach_scheme"
  assumes "pwm_ready p obj ch s" "m \<in> {MODE_PWM, MODE_TIMER}" "0 < freq" "dc \<le> 100"
    and "c = pt_clock (pwm_port s obj) div freq" "c < 0x10000"
    and "apart mode_ptr freq_ptr" "apart mode_ptr dc_ptr" "apart freq_ptr dc_ptr"
  shows "\<exists>t. run_state (bindE (dw_pwm_timer_write p obj ch m freq dc)
        (\<lambda>_. dw_pwm_timer_read p obj ch mode_ptr freq_ptr dc_ptr)) s = (Inr E_OK, t)
    \<and> get32 (mem t) mode_ptr = m
    \<and> (m = MODE_PWM \<longrightarrow> (if c = 0 then get32 (mem t) freq_ptr = 0 \<and> get32 (mem t) dc_ptr = 0
        else get32 (mem t) freq_ptr = pt_clock (pwm_port s obj) div c
        \<and> freq \<le> get32 (mem t) freq_ptr \<and> get32 (mem t) dc_ptr \<le> dc
        \<and> unat c * unat dc < unat c * (unat (get32 (mem t) dc_ptr) + 1) + 100
        \<and> (100 \<le> c \<longrightarrow> dc \<le> get32 (mem t) dc_ptr + 1)))
    \<and> (m = MODE_TIMER \<longrightarrow> get32 (mem t) freq_ptr = (if c < 2 then 0 else pt_clock (pwm_port s obj) div (c div 2 * 2))
        \<and> get32 (mem t) dc_ptr = 100)"
proof -
  let ?clk = "pt_clock (pwm_port s obj)"
  have c: "unat c < 2 ^ 16" using assms(6) by (simp add: word_less_nat_alt)
  have dc: "unat dc \<le> 100" using assms(4) by (simp add: word_le_nat_alt)
  have w: "wp (dw_pwm_timer_write p obj ch m freq dc) (\<lambda>r t. r = Inr E_OK \<and> pwm_ready p obj ch t
     \<and> pt_clock (pwm_port t obj) = ?clk \<and> mem t = mem s
     \<and> pwm_holds obj ch m (fst (pwm_counts m c dc)) (snd (pwm_counts m c dc)) t) s"
    unfolding assms(5) by (rule pwm_write_holds) (use assms(1-4) c in \<open>simp_all add: assms(5)\<close>)
  let ?r = "pwm_report ?clk m (fst (pwm_counts m c dc)) (snd (pwm_counts m c dc))"
  have "wp (bindE (dw_pwm_timer_write p obj ch m freq dc) (\<lambda>_. dw_pwm_timer_read p obj ch mode_ptr freq_ptr dc_ptr))
      (\<lambda>r t. r = Inr E_OK \<and> get32 (mem t) mode_ptr = m \<and> (get32 (mem t) freq_ptr, get32 (mem t) dc_ptr) = ?r) s"
    unfolding wp_bindE
    by (rule wp_mono [OF w]) (auto intro: wp_mono [OF pwm_read_reports] simp: assms(7-9))
  then obtain t where t: "run_state (bindE (dw_pwm_timer_write p obj ch m freq dc)
        (\<lambda>_. dw_pwm_timer_read p obj ch mode_ptr freq_ptr dc_ptr)) s = (Inr E_OK, t)"
      "get32 (mem t) mode_ptr = m" "get32 (mem t) freq_ptr = fst ?r" "get32 (mem t) dc_ptr = snd ?r"
    unfolding wp_def by (metis fst_conv prod.collapse snd_conv)
  have 0: "get32 (mem t) freq_ptr = 0 \<and> get32 (mem t) dc_ptr = 0" if "m = MODE_PWM" "c = 0"
    using t(3,4) that by (simp add: pwm_counts_def pwm_report_def)
  have 1: "get32 (mem t) freq_ptr = ?clk div c \<and> freq \<le> ?clk div c \<and> get32 (mem t) dc_ptr \<le> dc
      \<and> unat c * unat dc < unat c * (unat (get32 (mem t) dc_ptr) + 1) + 100 \<and> (100 \<le> c \<longrightarrow> dc \<le> get32 (mem t) dc_ptr + 1)"
    if m: "m = MODE_PWM" and nz: "c \<noteq> 0"
  proof -
    note rep = report_pwm [OF c nz dc]
    have v: "get32 (mem t) freq_ptr = ?clk div c" "get32 (mem t) dc_ptr = (c * dc div 100) * 100 div c"
      using t(3,4) rep(1) [of ?clk] by (simp_all add: m)
    have u: "unat (get32 (mem t) dc_ptr) = unat c * unat dc div 100 * 100 div unat c"
      by (simp only: v unat_div_distrib [of _ c] rep(3))
    have "freq \<le> ?clk div c"
      using freq_error [of "unat freq" "unat ?clk"] assms(3) nz
      by (simp add: word_le_nat_alt assms(5) unat_div_distrib word_less_nat_alt word_unat_eq_iff)
    moreover have "0 < unat c" using nz by (simp add: unat_gt_0)
    note duty_bound [OF this dc, folded u]
    moreover have "unat (get32 (mem t) dc_ptr + 1) = unat (get32 (mem t) dc_ptr) + 1"
      using duty_bound(1) [OF \<open>0 < unat c\<close> dc, folded u] dc by (simp add: unat_word_ariths)
    ultimately show ?thesis using v by (simp add: word_le_nat_alt)
  qed
  have 2: "get32 (mem t) freq_ptr = (if c < 2 then 0 else ?clk div (c div 2 * 2)) \<and> get32 (mem t) dc_ptr = 100" if m: "m = MODE_TIMER"
  proof (cases "c < 2")
    case True
    then have "unat (c div 2) = 0" by (simp add: word_less_nat_alt unat_div_distrib)
    then have "c div 2 = 0" by (simp only: unsigned_eq_0_iff)
    then show ?thesis using t(3,4) True m by (simp add: pwm_counts_def pwm_report_def)
  next
    case False
    then have "2 \<le> unat c" by (simp add: word_less_nat_alt)
    then show ?thesis using t(3,4) report_timer [OF c, of ?clk dc] False by (simp add: m)
  qed
  show ?thesis using t(1,2) 0 1 2 by auto
qed

text \<open>A block of two channels clocked at 50 MHz, open, every register a latch.\<close>

definition pwm_plat :: plat where
  "pwm_plat = sample_plat\<lparr>mmio_in := \<lambda>h a. mmio_last a h\<rparr>"

definition pwm_mach0 :: pwm_mach where
  "pwm_mach0 = \<lparr>hist = [], mem = \<lambda>_. 0, exc_int_handler_table = replicate 48 0x100,
     pinfo = (\<lambda>_. \<lparr>pwm_timer_ctrl = 0x200, pi_opn_cnt = 1\<rparr>),
     pctrl = (\<lambda>_. \<lparr>pt_regs = 0xf0003000, pt_intno = 20, ch_num = 2, pt_clock = 50000000, pt_int_handler = 0x8000,
       ch_isr = 0x300, pt_mode = \<lambda>_. 0\<rparr>),
     pisr = (\<lambda>_. \<lparr>int_ch_max_cnt = 2, int_ch_handler_ptr = \<lambda>_. 0\<rparr>)\<rparr>"

lemma sample_pwm:
  "pwm_ready pwm_plat 0x100 1 pwm_mach0" "pt_clock (pwm_port pwm_mach0 0x100) = 50000000"
  by (simp_all add: pwm_ready_def pwm_mach0_def pwm_valid_def pwm_port_def latched_def pwm_plat_def)

lemma pwm_write_read_roundtrip_witness:
  "\<exists>t. run_state (bindE (dw_pwm_timer_write pwm_plat 0x100 1 2 1000 30)
        (\<lambda>_. dw_pwm_timer_read pwm_plat 0x100 1 0x1000 0x1004 0x1008)) pwm_mach0 = (Inr 0, t)
     \<and> get32 (mem t) 0x1004 = 1000"
proof -
  have m: "2 \<in> {2, 1 :: u32}" "0 < (1000 :: u32)" "30 \<le> (100 :: u32)" by simp_all
  have c: "50000 = pt_clock (pwm_port pwm_mach0 0x100) div 1000" "50000 < (0x10000 :: u32)"
    by (simp_all add: sample_pwm)
  have "apart 0x1000 0x1004" "apart 0x1000 0x1008" "apart 0x1004 0x1008" by (simp_all add: apart_def)
  from pwm_write_read_roundtrip [OF sample_pwm(1) m c this] show ?thesis
    by (auto simp: sample_pwm)
qed

subsection \<open>The open count\<close>

definition pwm_id :: "u32 \<Rightarrow> u32 \<Rightarrow> u32 \<Rightarrow> 'a pwm_mach_scheme \<Rightarrow> bool" where
  "pwm_id obj pp n t \<longleftrightarrow> pwm_timer_ctrl (pinfo t obj) = pp \<and> pi_opn_cnt (pinfo t obj) = n"

lemma pwm_id_prim:
  "preserves (pwm_id obj pp n) (mmio_and p a v)"
  "preserves (pwm_id obj pp n) (int_disable p i)"
  "preserves (pwm_id obj pp n) (int_handler_install p i h)"
  by (auto simp: preserves_def wp_rules pwm_id_def int_disable_def arc_int_disable_def
      int_handler_install_def exc_handler_install_def Let_def wp_def)

lemma preserves_for_channels:
  "(\<And>i. preserves I (body i)) \<Longrightarrow> preserves I (for_channels fuel n body i)"
  by (induction fuel arbitrary: i) (auto intro!: preserves_bindE preserves_if)

lemma for_channels_returns:
  "ucast i \<le> n \<Longrightarrow> n < 256 \<Longrightarrow> unat n < fuel + unat i \<Longrightarrow> returns (for_channels fuel n body i)"
proof (induction fuel arbitrary: i)
  case 0
  then show ?case by (simp add: word_le_nat_alt unat_byte)
next
  case (Suc fuel)
  note i = unat_byte [of i]
  show ?case
  proof (cases "ucast i < n")
    case True
    then have "unat (i + 1) = unat i + 1"
      using Suc.prems(2) i by (simp add: unat_word_ariths word_less_nat_alt)
    moreover note unat_byte [of "i + 1"]
    ultimately have "returns (for_channels fuel n body (i + 1))"
      using True Suc.prems i by (intro Suc.IH) (simp_all add: word_le_nat_alt word_less_nat_alt)
    with True show ?thesis by (auto intro!: returns_bindE)
  qed auto
qed

text \<open>With more than 255 channels the 8-bit counter never reaches the end: the loop does not return.\<close>

lemma for_channels_never:
  assumes "256 \<le> n"
  shows "fst (run_state (for_channels fuel n body i) s) = Inl Hang"
proof (induction fuel arbitrary: i s)
  case (Suc fuel)
  have "unat (ucast i :: u32) < 256"
    unfolding unat_byte using unsigned_less [of i, where 'a = nat] by simp
  then have "ucast i < n" using assms by (simp add: word_less_nat_alt word_le_nat_alt)
  with Suc.IH show ?case by (simp add: split_def)
qed simp

lemma pwm_open_wp:
  fixes s :: "'a pwm_mach_scheme"
  assumes "pwm_valid s obj"
  shows "wp (dw_pwm_timer_open p fuel obj)
    (\<lambda>_. pwm_id obj (pwm_timer_ctrl (pinfo s obj)) (pi_opn_cnt (pinfo s obj) + 1)) s"
proof -
  let ?I = "pwm_id obj (pwm_timer_ctrl (pinfo s obj)) (pi_opn_cnt (pinfo s obj) + 1)"
  let ?s = "s\<lparr>pinfo := (pinfo s)(obj := (pinfo s obj)\<lparr>pi_opn_cnt := pi_opn_cnt (pinfo s obj) + 1\<rparr>)\<rparr>"
  have i: "?I ?s" by (simp add: pwm_id_def)
  let ?rest = "\<lambda>b n g. bindE (c_ifE b (for_channels fuel n (\<lambda>i. do {
          dw_pwm_timer_timer_disable p (pwm_port s obj) i;
          dw_pwm_timer_pwm_disable p (pwm_port s obj) i;
          _ \<leftarrow> int_disable p (pt_intno (pwm_port s obj) + i);
          _ \<leftarrow> int_handler_install p (pt_intno (pwm_port s obj) + i) g;
          State_Monad.return () }) 0)) (\<lambda>_. retE E_OK)"
  have "preserves ?I (?rest b n g)" for b n g
    unfolding dw_pwm_timer_timer_disable_def dw_pwm_timer_pwm_disable_def
    by (intro preserves_bindE preserves_c_ifE preserves_for_channels preserves_bind preserves_return preserves_retE pwm_id_prim)
  from preservesD [OF this i] i assms show ?thesis
    by (simp add: dw_pwm_timer_open_def wp_rules Let_def)
qed

lemma pwm_close_wp:
  fixes s :: "'a pwm_mach_scheme"
  assumes "pwm_valid s obj" "pi_opn_cnt (pinfo s obj) \<noteq> 0"
  shows "wp (dw_pwm_timer_close p fuel obj)
    (\<lambda>r t. pwm_id obj (pwm_timer_ctrl (pinfo s obj)) (pi_opn_cnt (pinfo s obj) - 1) t
      \<and> (\<forall>v. r = Inr v \<longrightarrow> v = (if pi_opn_cnt (pinfo s obj) = 1 then E_OK else E_OPNED))) s"
proof -
  let ?I = "\<lambda>n. pwm_id obj (pwm_timer_ctrl (pinfo s obj)) n"
  let ?s = "\<lambda>n. s\<lparr>pinfo := (pinfo s)(obj := (pinfo s obj)\<lparr>pi_opn_cnt := n\<rparr>)\<rparr>"
  have i: "?I n (?s n)" for n by (simp add: pwm_id_def)
  let ?loop = "\<lambda>b n. c_ifE b (for_channels fuel n (\<lambda>i. do {
            dw_pwm_timer_timer_disable p (pwm_port s obj) i;
            dw_pwm_timer_pwm_disable p (pwm_port s obj) i;
            _ \<leftarrow> int_disable p (pt_intno (pwm_port s obj) + i);
            State_Monad.return () }) 0)"
  have "preserves (?I k) (?loop b n)" for k b n
    unfolding dw_pwm_timer_timer_disable_def dw_pwm_timer_pwm_disable_def
    by (intro preserves_c_ifE preserves_for_channels preserves_bind preserves_return pwm_id_prim)
  from preservesD [OF this i]
  have l: "wp (bindE (?loop b n) (\<lambda>_. retE E_OK)) (\<lambda>r t. ?I k t \<and> (\<forall>v. r = Inr v \<longrightarrow> v = E_OK)) (?s k)" for k b n
    unfolding wp_bindE by (rule wp_mono) (auto simp: wp_rules split: sum.split)
  have nz: "pi_opn_cnt (pinfo s obj) > 0" using assms(2) by (simp add: word_neq_0_conv)
  show ?thesis
  proof (cases "pi_opn_cnt (pinfo s obj) = 1")
    case True
    with l [of _ _ 0] i [of 0] assms(1) show ?thesis
      by (simp add: dw_pwm_timer_close_def wp_rules Let_def)
  next
    case False
    then have "pi_opn_cnt (pinfo s obj) - 1 \<noteq> 0" by auto
    with False i nz assms(1) show ?thesis
      by (simp add: dw_pwm_timer_close_def wp_rules Let_def)
  qed
qed

interpretation pwm_dev: counted_device
  "2 ^ 32" "\<lambda>s. pi_opn_cnt (pinfo s obj)" "\<lambda>s. pwm_valid s obj" "\<lambda>_. dw_pwm_timer_open p fuel obj" "dw_pwm_timer_close p fuel obj"
  for obj p fuel
proof unfold_locales
  fix s t :: "'a pwm_mach_scheme" and r
  assume s: "pwm_valid s obj" "unat (pi_opn_cnt (pinfo s obj)) + 1 < 2 ^ 32"
    and run: "run_state (dw_pwm_timer_open p fuel obj) s = (r, t)"
  from wpD [OF pwm_open_wp [OF s(1)] run] s
  show "pwm_valid t obj \<and> unat (pi_opn_cnt (pinfo t obj)) = unat (pi_opn_cnt (pinfo s obj)) + 1"
    by (simp add: pwm_id_def pwm_valid_def unat_word_ariths)
next
  fix s t :: "'a pwm_mach_scheme" and r
  assume s: "pwm_valid s obj" "pi_opn_cnt (pinfo s obj) \<noteq> 0"
    and run: "run_state (dw_pwm_timer_close p fuel obj) s = (Inr r, t)"
  have "(pi_opn_cnt (pinfo s obj) - 1 = 0) = (pi_opn_cnt (pinfo s obj) = 1)" by auto
  with wpD [OF pwm_close_wp [OF s] run] s
  show "pwm_valid t obj \<and> unat (pi_opn_cnt (pinfo t obj)) = unat (pi_opn_cnt (pinfo s obj)) - 1
      \<and> r = (if pi_opn_cnt (pinfo t obj) = 0 then E_OK else E_OPNED)"
    by (auto simp: pwm_id_def pwm_valid_def unat_minus_one)
qed

text \<open>As many closes as opens bring the count back.\<close>

lemmas pwm_open_close_balance = pwm_dev.opens_closes

subsection \<open>The interrupt routine\<close>

text \<open>It serves the pending channels in ascending order and returns \<open>E_OK\<close>.\<close>

lemma pwm_isr_serves_pending:
  assumes "pwm_valid s obj" "port = pwm_port s obj" "ch_isr port \<noteq> 0"
    and "n = unat (int_ch_max_cnt (pisr s (ch_isr port)))" "n \<le> 32"
    and "status = mmio_in p (hist s) (pt_regs port + 0xa0)"
  shows "run_state (dw_pwm_timer_isr_handler p cb obj) s =
      (Inr E_OK, snd (run_state (serve_all (pwm_serve p cb obj (pwm_timer_ctrl (pinfo s obj))) (pending_bits status 0 n))
         (s\<lparr>hist := Mmio_rd (pt_regs port + 0xa0) status # hist s\<rparr>)))"
  using for_bits_serves [of 0 n status "pwm_serve p cb obj (pwm_timer_ctrl (pinfo s obj))"
      "s\<lparr>hist := Mmio_rd (pt_regs port + 0xa0) status # hist s\<rparr>"] assms(1,3,5)
  by (simp add: dw_pwm_timer_isr_handler_def dw_pwm_timer_int_read_status_def Let_def assms(2,4,6) [symmetric])

end
