(* ===== verification/SpiFlash.thy ===== *)
theory SpiFlash
  imports DevCommon
begin

section \<open>SPI flash drivers (spi_flash_w25qxx.c, spi_flash_fl256s.c)\<close>

text \<open>
  The two flash drivers reach their chip through the \<open>spi_open\<close> and \<open>spi_control\<close> pointers of
  the SPI device object \<open>spi_get_dev\<close> returns; which driver is behind them is decided by the
  board. They are the parameters \<open>ctl\<close> and \<open>sopen\<close> of the operations. A \<open>DEV_SPI_TRANSFER\<close> is
  passed as its value, the chain of its segments, and a control call answers with its error code and the
  bytes it received; the drivers' stack buffers are byte lists. The device objects live in
  typed heaps.
\<close>

subsection \<open>The SPI device\<close>

text \<open>One \<open>DEV_SPI_TRANSFER\<close>: the bytes to send from offset 0, and where received bytes are kept.\<close>

record spi_xfer =
  tx_bytes :: "u8 list"
  rx_ofs :: nat
  rx_len :: nat

datatype spi_cmd =
    Mst_sel_dev u32 | Mst_dsel_dev u32 | Mst_set_freq u32 | Set_clk_mode u32
  | Set_dummy_data u32 | Transfer_polling "spi_xfer list" | Quad_read u8 u32 u32

definition xfer_tx :: "u8 list \<Rightarrow> spi_xfer" where
  "xfer_tx bs = \<lparr>tx_bytes = bs, rx_ofs = 0, rx_len = 0\<rparr>"

definition xfer_rx :: "nat \<Rightarrow> spi_xfer" where
  "xfer_rx n = \<lparr>tx_bytes = [], rx_ofs = 0, rx_len = n\<rparr>"

subsection \<open>The device objects\<close>

record w25qxx_def =
  w_spi_master :: u8
  w_cs :: u8
  w_spi_freq :: u32
  w_page_sz :: u32
  w_sector_sz :: u32
  w_write_buf :: "u8 list"

record fl256s_def =
  f_spi_master :: u8
  f_cs :: u8
  f_quad_en :: u8
  f_spi_freq :: u32
  f_page_sz :: u32
  f_sector_sz :: u32

record flash_mach = mach +
  wdev :: "u32 \<Rightarrow> w25qxx_def"
  fdev :: "u32 \<Rightarrow> fl256s_def"

type_synonym ('a, 'r) fop = "('a flash_mach_scheme, 'r) state"
type_synonym 'a spi_ctl = "u8 \<Rightarrow> spi_cmd \<Rightarrow> ('a flash_mach_scheme, s32 \<times> u8 list) state"
type_synonym 'a spi_opn = "u8 \<Rightarrow> u32 \<Rightarrow> u32 \<Rightarrow> ('a flash_mach_scheme, s32) state"

abbreviation (input) DEV_MASTER_MODE :: u32 where "DEV_MASTER_MODE \<equiv> 0"
abbreviation (input) FLASH_PAGE_SIZE :: u32 where "FLASH_PAGE_SIZE \<equiv> 0x100"
abbreviation (input) NOT_VALID :: u32 where "NOT_VALID \<equiv> 0xFFFFFFFF"
abbreviation (input) RDID :: u8 where "RDID \<equiv> 0x9F"
abbreviation (input) RDSR :: u8 where "RDSR \<equiv> 0x05"
abbreviation (input) WRSR :: u8 where "WRSR \<equiv> 0x01"
abbreviation (input) WREN :: u8 where "WREN \<equiv> 0x06"
abbreviation (input) WRDI :: u8 where "WRDI \<equiv> 0x04"
abbreviation (input) READ :: u8 where "READ \<equiv> 0x03"
abbreviation (input) SE :: u8 where "SE \<equiv> 0x20"
abbreviation (input) PP :: u8 where "PP \<equiv> 0x02"
abbreviation (input) RDCR :: u8 where "RDCR \<equiv> 0x35"
abbreviation (input) QORD :: u8 where "QORD \<equiv> 0x6B"

text \<open>A command byte and the 24 address bits.\<close>

definition cmd_addr :: "u8 \<Rightarrow> u32 \<Rightarrow> u8 list" where
  "cmd_addr c address = [c, ucast (drop_bit 16 address), ucast (drop_bit 8 address), ucast address]"

text \<open>What a buffer holds after the bytes received into it from its start.\<close>

definition fill :: "u8 list \<Rightarrow> u8 list \<Rightarrow> u8 list" where
  "fill rx old = take (length old) (rx @ drop (length rx) old)"

definition st_bytes :: "u32 \<Rightarrow> u8 list \<Rightarrow> ('a, unit) op" where
  "st_bytes a bs = State_Monad.update (\<lambda>s. s\<lparr>mem := put_bytes a bs (mem s)\<rparr>)"

lemma run_st_bytes [simp]: "run_state (st_bytes a bs) s = ((), s\<lparr>mem := put_bytes a bs (mem s)\<rparr>)"
  by (simp add: st_bytes_def)

subsection \<open>w25qxx: commands\<close>

definition spi_send_cmd :: "'a spi_ctl \<Rightarrow> u32 \<Rightarrow> spi_xfer list \<Rightarrow> ('a, s32 \<times> u8 list) fop" where
  "spi_send_cmd ctl dev xfer = do {
     s \<leftarrow> State_Monad.get;
     let d = wdev s dev;
     _ \<leftarrow> ctl (w_spi_master d) (Mst_sel_dev (ucast (w_cs d)));
     _ \<leftarrow> ctl (w_spi_master d) (Mst_set_freq (w_spi_freq d));
     _ \<leftarrow> ctl (w_spi_master d) (Set_clk_mode 0);
     r \<leftarrow> ctl (w_spi_master d) (Transfer_polling xfer);
     _ \<leftarrow> ctl (w_spi_master d) (Mst_dsel_dev (ucast (w_cs d)));
     State_Monad.return r
   }"

text \<open>The status byte is received over the command byte of the buffer.\<close>

definition w25qxx_read_status :: "'a spi_ctl \<Rightarrow> u32 \<Rightarrow> ('a, u32) fop" where
  "w25qxx_read_status ctl dev = do {
     (ercd, rx) \<leftarrow> spi_send_cmd ctl dev [\<lparr>tx_bytes = [RDSR], rx_ofs = 1, rx_len = 1\<rparr>];
     State_Monad.return (if ercd = 0 then ucast (hd (fill rx [RDSR, 0])) else NOT_VALID)
   }"

text \<open>One round of the loop of \<open>w25qxx_write_enable\<close>: the error, or the status it ends with.\<close>

definition w25_enable_round :: "'a spi_ctl \<Rightarrow> u32 \<Rightarrow> ('a, u32 option) fop" where
  "w25_enable_round ctl dev = do {
     (ercd, _) \<leftarrow> spi_send_cmd ctl dev [xfer_tx [WREN]];
     if ercd \<noteq> 0 then State_Monad.return None
     else do {
       status \<leftarrow> w25qxx_read_status ctl dev;
       if status = NOT_VALID then State_Monad.return None
       else if status AND 0xfc \<noteq> 0 \<and> status AND 0x02 \<noteq> 0 then do {
         (ercd, _) \<leftarrow> spi_send_cmd ctl dev [xfer_tx [WRSR, 0, 0]];
         State_Monad.return (if ercd \<noteq> 0 then None else Some 0)
       }
       else State_Monad.return (Some status)
     }
   }"

text \<open>The polling loops have a bound on the number of rounds.\<close>

primrec w25qxx_write_enable :: "nat \<Rightarrow> 'a spi_ctl \<Rightarrow> u32 \<Rightarrow> ('a, s32 res) fop" where
  "w25qxx_write_enable 0 ctl dev = stopE Hang"
| "w25qxx_write_enable (Suc fuel) ctl dev = do {
     r \<leftarrow> w25_enable_round ctl dev;
     case r of None \<Rightarrow> retE (- 1)
     | Some status \<Rightarrow> if status \<noteq> 0x02 then w25qxx_write_enable fuel ctl dev else retE 0
   }"

definition w25qxx_init :: "'a spi_opn \<Rightarrow> 'a spi_ctl \<Rightarrow> u32 \<Rightarrow> u32 \<Rightarrow> ('a, s32) fop" where
  "w25qxx_init sopen ctl dev freq = do {
     State_Monad.update (\<lambda>s. s\<lparr>wdev := (wdev s)(dev := (wdev s dev)\<lparr>w_spi_freq := freq\<rparr>)\<rparr>);
     s \<leftarrow> State_Monad.get;
     let m = w_spi_master (wdev s dev);
     ercd \<leftarrow> sopen m DEV_MASTER_MODE freq;
     if ercd \<noteq> E_OK \<and> ercd \<noteq> E_OPNED then State_Monad.return ercd
     else do { _ \<leftarrow> ctl m (Set_dummy_data 0xFF); State_Monad.return E_OK }
   }"

text \<open>\<open>local_buf[0] << 16 | local_buf[1] << 8 | local_buf[2]\<close>, with the three bytes received over the buffer.\<close>

definition w25qxx_read_id :: "'a spi_ctl \<Rightarrow> u32 \<Rightarrow> ('a, u32) fop" where
  "w25qxx_read_id ctl dev = do {
     (ercd, rx) \<leftarrow> spi_send_cmd ctl dev [\<lparr>tx_bytes = [RDID], rx_ofs = 1, rx_len = 3\<rparr>];
     State_Monad.return (if ercd = 0 then
       (let b = fill rx [RDID, 0, 0, 0]
        in push_bit 16 (ucast (b ! 0)) OR push_bit 8 (ucast (b ! 1)) OR ucast (b ! 2))
       else NOT_VALID)
   }"

primrec w25qxx_wait_ready :: "nat \<Rightarrow> 'a spi_ctl \<Rightarrow> u32 \<Rightarrow> ('a, s32 res) fop" where
  "w25qxx_wait_ready 0 ctl dev = stopE Hang"
| "w25qxx_wait_ready (Suc fuel) ctl dev = do {
     status \<leftarrow> w25qxx_read_status ctl dev;
     if status = NOT_VALID then retE (- 1)
     else if status AND 0x01 \<noteq> 0 then w25qxx_wait_ready fuel ctl dev
     else retE 0
   }"

subsection \<open>w25qxx: read, erase, write\<close>

definition w25qxx_read :: "'a spi_ctl \<Rightarrow> u32 \<Rightarrow> u32 \<Rightarrow> u32 \<Rightarrow> u32 \<Rightarrow> ('a, s32) fop" where
  "w25qxx_read ctl dev address len data = do {
     (ercd, rx) \<leftarrow> spi_send_cmd ctl dev [\<lparr>tx_bytes = cmd_addr READ address, rx_ofs = 4, rx_len = unat len\<rparr>];
     st_bytes data (take (unat len) rx);
     State_Monad.return (if ercd = 0 then len else - 1)
   }"

text \<open>\<open>ok_or\<close>: a step whose non-zero result makes the caller return \<open>- 1\<close>.\<close>

definition ok_or :: "('s, s32 res) state \<Rightarrow> ('s, s32 res) state \<Rightarrow> ('s, s32 res) state" where
  "ok_or m k = bindE m (\<lambda>r. if r \<noteq> 0 then retE (- 1) else k)"

text \<open>
  The \<open>do ... while (address <= last_address)\<close> of both drivers' erase, from \<open>count\<close> sectors
  erased. The steps are parameters: write enable, wait, the erase command of a sector, the sector
  size the object holds then, and what follows the loop.
\<close>

primrec flash_erase_loop ::
  "nat \<Rightarrow> ('s, s32 res) state \<Rightarrow> ('s, s32 res) state \<Rightarrow> (u32 \<Rightarrow> ('s, s32) state) \<Rightarrow> ('s \<Rightarrow> u32)
     \<Rightarrow> (s32 \<Rightarrow> ('s, s32 res) state) \<Rightarrow> u32 \<Rightarrow> u32 \<Rightarrow> u32 \<Rightarrow> ('s, s32 res) state" where
  "flash_erase_loop 0 enable ready ers sector_sz finish address last_address count = stopE Hang"
| "flash_erase_loop (Suc n) enable ready ers sector_sz finish address last_address count =
     ok_or enable (ok_or ready (do {
       ercd \<leftarrow> ers address;
       s \<leftarrow> State_Monad.get;
       let address = address + sector_sz s;
       if ercd \<noteq> 0 then retE (- 1)
       else if address \<le> last_address
       then flash_erase_loop n enable ready ers sector_sz finish address last_address (count + 1)
       else finish (count + 1)
     }))"

text \<open>
  The \<open>do ... while (size)\<close> of both drivers' write: one page program per round, of \<open>first\<close>
  bytes, or what is left if that is less.
\<close>

primrec flash_write_loop ::
  "nat \<Rightarrow> ('s, s32 res) state \<Rightarrow> ('s, s32 res) state \<Rightarrow> (u32 \<Rightarrow> u32 \<Rightarrow> u32 \<Rightarrow> ('s, s32) state)
     \<Rightarrow> (s32 \<Rightarrow> ('s, s32 res) state) \<Rightarrow> u32 \<Rightarrow> u32 \<Rightarrow> u32 \<Rightarrow> u32 \<Rightarrow> u32 \<Rightarrow> ('s, s32 res) state" where
  "flash_write_loop 0 enable ready prog finish address len data first len_orig = stopE Hang"
| "flash_write_loop (Suc n) enable ready prog finish address len data first len_orig =
     ok_or enable (ok_or ready (
       let first = (if first < len then first else len) in do {
         ercd \<leftarrow> prog address data first;
         if ercd \<noteq> 0 then retE (- 1)
         else if len - first \<noteq> 0
         then flash_write_loop n enable ready prog finish (address + first) (len - first) (data + first)
                FLASH_PAGE_SIZE len_orig
         else finish len_orig
       }))"

text \<open>What is left of the page of an address.\<close>

definition page_rest :: "u32 \<Rightarrow> u32 \<Rightarrow> u32" where
  "page_rest page address = page - (address AND (page - 1))"

definition w25_sector_erase :: "'a spi_ctl \<Rightarrow> u32 \<Rightarrow> u32 \<Rightarrow> ('a, s32) fop" where
  "w25_sector_erase ctl dev address =
     do { (ercd, _) \<leftarrow> spi_send_cmd ctl dev [xfer_tx (cmd_addr SE address)]; State_Monad.return ercd }"

text \<open>A page program goes through the device's write buffer.\<close>

definition w25_page_program :: "'a spi_ctl \<Rightarrow> u32 \<Rightarrow> u32 \<Rightarrow> u32 \<Rightarrow> u32 \<Rightarrow> ('a, s32) fop" where
  "w25_page_program ctl dev address data first = do {
     State_Monad.update (\<lambda>s. s\<lparr>wdev := (wdev s)(dev := (wdev s dev)\<lparr>w_write_buf :=
       cmd_addr PP address @ bytes_at (mem s) data (unat first) @ drop (4 + unat first) (w_write_buf (wdev s dev))\<rparr>)\<rparr>);
     s \<leftarrow> State_Monad.get;
     (ercd, _) \<leftarrow> spi_send_cmd ctl dev [xfer_tx (take (4 + unat first) (w_write_buf (wdev s dev)))];
     State_Monad.return ercd
   }"

definition w25_finish :: "nat \<Rightarrow> 'a spi_ctl \<Rightarrow> u32 \<Rightarrow> s32 \<Rightarrow> ('a, s32 res) fop" where
  "w25_finish fuel ctl dev r = ok_or (w25qxx_wait_ready fuel ctl dev) (retE r)"

definition w25qxx_erase :: "nat \<Rightarrow> nat \<Rightarrow> 'a spi_ctl \<Rightarrow> u32 \<Rightarrow> u32 \<Rightarrow> u32 \<Rightarrow> ('a, s32 res) fop" where
  "w25qxx_erase n fuel ctl dev address len = do {
     s \<leftarrow> State_Monad.get;
     let sz = w_sector_sz (wdev s dev);
     flash_erase_loop n (w25qxx_write_enable fuel ctl dev) (w25qxx_wait_ready fuel ctl dev)
       (w25_sector_erase ctl dev) (\<lambda>s. w_sector_sz (wdev s dev)) (w25_finish fuel ctl dev)
       (address AND NOT (sz - 1)) ((address + len) AND NOT (sz - 1)) 0
   }"

definition w25qxx_write :: "nat \<Rightarrow> nat \<Rightarrow> 'a spi_ctl \<Rightarrow> u32 \<Rightarrow> u32 \<Rightarrow> u32 \<Rightarrow> u32 \<Rightarrow> ('a, s32 res) fop" where
  "w25qxx_write n fuel ctl dev address len data =
     ok_or (w25qxx_wait_ready fuel ctl dev)
       (flash_write_loop n (w25qxx_write_enable fuel ctl dev) (w25qxx_wait_ready fuel ctl dev)
         (w25_page_program ctl dev) (w25_finish fuel ctl dev)
         address len data (page_rest FLASH_PAGE_SIZE address) len)"

end
