(* ===== verification/FlashChip.thy ===== *)
theory FlashChip
  imports SpiFlash
begin

section \<open>The contract of a serial flash and of its drivers\<close>

text \<open>
  What the data sheets of the two chips promise, as a function from the bytes clocked out to
  the bytes clocked in and the new contents, and what the primitive steps of a driver promise
  over such a chip, as a locale. The loops of the two drivers are correct for every driver
  that keeps the contract.
\<close>

subsection \<open>The chip\<close>

text \<open>
  24-bit addresses, 256-byte pages, 4 KiB sectors. While \<open>chip_busy\<close> is not 0 only the
  status can be read; each such read brings the end of the operation one step nearer.
\<close>

record chip =
  cells :: "u32 \<Rightarrow> u8"
  chip_wel :: bool
  chip_prot :: u8
  chip_busy :: nat
  chip_sel :: bool

definition chip_status :: "('a chip_scheme) \<Rightarrow> u8" where
  "chip_status c = (chip_prot c AND 0xfc) OR (if chip_wel c then 2 else 0) OR (if chip_busy c > 0 then 1 else 0)"

definition writable :: "('a chip_scheme) \<Rightarrow> bool" where
  "writable c \<longleftrightarrow> chip_wel c \<and> chip_prot c AND 0xfc = 0 \<and> chip_busy c = 0"

definition addr24 :: "u8 list \<Rightarrow> u32" where
  "addr24 bs = push_bit 16 (ucast (bs ! 0)) OR push_bit 8 (ucast (bs ! 1)) OR ucast (bs ! 2)"

text \<open>Bits can only be cleared by programming; the address wraps around within its page.\<close>

primrec page_prog :: "u32 \<Rightarrow> u32 \<Rightarrow> u8 list \<Rightarrow> (u32 \<Rightarrow> u8) \<Rightarrow> (u32 \<Rightarrow> u8)" where
  "page_prog base k [] m = m"
| "page_prog base k (b # bs) m =
     page_prog base ((k + 1) AND 0xff) bs (m(base + k := m (base + k) AND b))"

definition erase_sector :: "u32 \<Rightarrow> (u32 \<Rightarrow> u8) \<Rightarrow> (u32 \<Rightarrow> u8)" where
  "erase_sector a m = (\<lambda>x. if x AND NOT 0xfff = a AND NOT 0xfff then 0xff else m x)"

text \<open>One command: the bytes out, the bytes in, the new state. \<open>lat\<close> is the time of an operation.\<close>

fun chip_xfer :: "nat \<Rightarrow> u8 list \<Rightarrow> 'a chip_scheme \<Rightarrow> u8 list \<times> 'a chip_scheme" where
  "chip_xfer lat [] c = ([], c)"
| "chip_xfer lat (cmd # args) c = (
     let idle = replicate (Suc (length args)) 0xff in
     if cmd = RDSR then (0xff # replicate (length args) (chip_status c), c\<lparr>chip_busy := chip_busy c - 1\<rparr>)
     else if chip_busy c > 0 then (idle, c)
     else if cmd = WREN then (idle, c\<lparr>chip_wel := True\<rparr>)
     else if cmd = WRDI then (idle, c\<lparr>chip_wel := False\<rparr>)
     else if cmd = WRSR \<and> chip_wel c \<and> args \<noteq> [] then
       (idle, c\<lparr>chip_prot := hd args, chip_wel := False, chip_busy := lat\<rparr>)
     else if cmd = SE \<and> writable c \<and> length args = 3 then
       (idle, c\<lparr>cells := erase_sector (addr24 args) (cells c), chip_wel := False, chip_busy := lat\<rparr>)
     else if cmd = PP \<and> writable c \<and> length args > 3 then
       (idle, c\<lparr>cells := page_prog (addr24 args AND NOT 0xff) (addr24 args AND 0xff) (drop 3 args) (cells c),
                chip_wel := False, chip_busy := lat\<rparr>)
     else if cmd = READ \<and> length args \<ge> 3 then
       (replicate 4 0xff @ map (\<lambda>i. cells c ((addr24 args + of_nat i) AND 0xffffff)) [0 ..< length args - 3], c)
     else (idle, c))"

subsection \<open>The bus\<close>

text \<open>The bytes a chain of transfers clocks out, and the parts of the bytes in that it keeps.\<close>

definition seg_len :: "spi_xfer \<Rightarrow> nat" where
  "seg_len x = max (length (tx_bytes x)) (rx_ofs x + rx_len x)"

primrec mosi :: "spi_xfer list \<Rightarrow> u8 list" where
  "mosi [] = []"
| "mosi (x # xs) = tx_bytes x @ replicate (seg_len x - length (tx_bytes x)) 0xff @ mosi xs"

primrec kept :: "spi_xfer list \<Rightarrow> u8 list \<Rightarrow> u8 list" where
  "kept [] m = []"
| "kept (x # xs) m = take (rx_len x) (drop (rx_ofs x) m) @ kept xs (drop (seg_len x) m)"

text \<open>
  The documented behaviour of an SPI device with the chip on line \<open>cs\<close>: a polling transfer
  while it is selected is one command of the chip and returns 0, other control calls leave
  the chip alone, and none touches the memory or the objects of the flash drivers.
\<close>

definition flash_bus ::
  "nat \<Rightarrow> 'a spi_ctl \<Rightarrow> ('a flash_mach_scheme \<Rightarrow> chip) \<Rightarrow> u8 \<Rightarrow> u8 \<Rightarrow> bool" where
  "flash_bus lat ctl view master cs \<longleftrightarrow>
     (\<forall>f s. view (wdev_update f s) = view s) \<and> (\<forall>f s. view (fdev_update f s) = view s)
     \<and> (\<forall>f s. view (mem_update f s) = view s)
     \<and> (\<forall>c s. mem (snd (run_state (ctl master c) s)) = mem s
            \<and> wdev (snd (run_state (ctl master c) s)) = wdev s
            \<and> fdev (snd (run_state (ctl master c) s)) = fdev s)
     \<and> (\<forall>n s. view (snd (run_state (ctl master (Mst_sel_dev n)) s)) = (view s)\<lparr>chip_sel := n = ucast cs\<rparr>)
     \<and> (\<forall>n s. view (snd (run_state (ctl master (Mst_dsel_dev n)) s)) = (view s)\<lparr>chip_sel := False\<rparr>)
     \<and> (\<forall>n s. view (snd (run_state (ctl master (Mst_set_freq n)) s)) = view s)
     \<and> (\<forall>n s. view (snd (run_state (ctl master (Set_clk_mode n)) s)) = view s)
     \<and> (\<forall>xs s. chip_sel (view s) \<longrightarrow>
            fst (run_state (ctl master (Transfer_polling xs)) s) = (0, kept xs (fst (chip_xfer lat (mosi xs) (view s))))
          \<and> view (snd (run_state (ctl master (Transfer_polling xs)) s)) = snd (chip_xfer lat (mosi xs) (view s)))"

subsection \<open>Programming and erasing a range\<close>

primrec program :: "u32 \<Rightarrow> u8 list \<Rightarrow> (u32 \<Rightarrow> u8) \<Rightarrow> (u32 \<Rightarrow> u8)" where
  "program a [] m = m"
| "program a (b # bs) m = program (a + 1) bs (m(a := m a AND b))"

lemma program_append: "program a (bs @ cs) m = program (a + of_nat (length bs)) cs (program a bs m)"
  by (induction bs arbitrary: a m) (simp_all add: algebra_simps)

lemma bytes_at_append: "bytes_at m a (i + j) = bytes_at m a i @ bytes_at m (a + of_nat i) j"
  by (induction i arbitrary: a) (simp_all add: bytes_at_Suc algebra_simps)

lemma unat_and_mask: "unat ((x :: u32) AND 0xff) = unat x mod 256"
proof -
  have "x AND 0xff = take_bit 8 x" by (simp add: take_bit_eq_mask mask_eq_exp_minus_1)
  then show ?thesis by (simp only: unsigned_take_bit_eq) (simp add: take_bit_eq_mod)
qed

lemma page_prog_program:
  "unat k + length bs \<le> 256 \<Longrightarrow> page_prog base k bs m = program (base + k) bs m"
proof (induction bs arbitrary: k m)
  case (Cons b bs)
  show ?case
  proof (cases bs)
    case (Cons c cs)
    have "unat (k + 1) = unat k + 1"
      using Cons.prems local.Cons by (simp add: unat_word_ariths)
    then have "unat (k + 1) = unat k + 1" "(k + 1) AND 0xff = k + 1"
      using Cons.prems local.Cons by (simp_all add: word_unat_eq_iff unat_and_mask)
    with Cons.IH [of "k + 1"] Cons.prems show ?thesis by (simp add: algebra_simps)
  qed simp
qed simp

lemma unat_page_base: "unat ((x :: u32) AND 0xff) + unat (page_rest 0x100 x) = 256"
proof -
  have le: "unat (x AND 0xff) < 256" by (simp add: unat_and_mask)
  then have "x AND 0xff \<le> 0x100" by (simp add: word_le_nat_alt)
  then have "unat (page_rest 0x100 x) = 256 - unat (x AND 0xff)" by (simp add: page_rest_def unat_sub)
  with le show ?thesis by simp
qed

lemma split_mask: "((x :: u32) AND NOT m) + (x AND m) = x"
proof -
  have "(x AND NOT m) + (x AND m) = (x AND NOT m) OR (x AND m)"
    by (rule disjunctive_add) (simp add: bit_simps)
  also have "\<dots> = x" by (rule bit_word_eqI) (auto simp: bit_simps)
  finally show ?thesis .
qed

lemmas page_split = split_mask [of _ "0xff"]

text \<open>A piece that ends at the page or before it is programmed where it should be.\<close>

lemma page_prog_in_page:
  assumes "length bs \<le> unat (page_rest 0x100 a)" "a AND 0xffffff = a"
  shows "page_prog ((a AND 0xffffff) AND NOT 0xff) ((a AND 0xffffff) AND 0xff) bs m = program a bs m"
proof -
  have "unat (a AND 0xff) + length bs \<le> 256" using assms(1) unat_page_base [of a] by linarith
  then show ?thesis unfolding assms(2) by (simp only: page_prog_program page_split)
qed

text \<open>The next piece starts a page.\<close>

lemma next_page: "page_rest 0x100 (a + page_rest 0x100 a) = 0x100"
proof -
  have "a + page_rest 0x100 a = (a AND NOT 0xff) + 0x100"
    using page_split [of a] by (simp add: page_rest_def algebra_simps)
  also have "((a AND NOT 0xff) + 0x100) AND 0xff = 0"
  proof -
    have "unat (((a AND NOT 0xff) + 0x100) AND 0xff) = unat ((a AND NOT 0xff) + 0x100) mod 256"
      by (rule unat_and_mask)
    also have "\<dots> = unat (a AND NOT 0xff) mod 256"
      by (simp add: unat_word_ariths mod_mod_cancel)
    also have "\<dots> = unat ((a AND NOT 0xff) AND 0xff)" by (simp only: unat_and_mask)
    also have "\<dots> = unat (0 :: u32)" by (simp only: and_not_and)
    finally show ?thesis by (simp only: word_unat_eq_iff)
  qed
  finally show ?thesis by (simp add: page_rest_def)
qed

lemma low24: "unat (a :: u32) < 2 ^ 24 \<Longrightarrow> a AND 0xffffff = a"
proof -
  assume "unat a < 2 ^ 24"
  moreover have "a AND 0xffffff = take_bit 24 a" by (simp add: take_bit_eq_mask mask_eq_exp_minus_1)
  ultimately show ?thesis
    by (simp only: word_unat_eq_iff unsigned_take_bit_eq) (simp add: take_bit_nat_eq_self)
qed

lemma unat_align: "unat ((x :: u32) AND NOT 0xfff) = unat x div 4096 * 4096"
proof -
  have "x AND 0xfff = take_bit 12 x" by (simp add: take_bit_eq_mask mask_eq_exp_minus_1)
  then have m: "unat (x AND 0xfff) = unat x mod 4096"
    by (simp only: unsigned_take_bit_eq) (simp add: take_bit_eq_mod)
  have "x AND NOT 0xfff = x - (x AND 0xfff)" using split_mask [of x "0xfff"] by (simp add: algebra_simps)
  moreover have "x AND 0xfff \<le> x" by (simp add: word_le_nat_alt m)
  ultimately have "unat (x AND NOT 0xfff) = unat x - unat x mod 4096" by (simp only: unat_sub m)
  then show ?thesis by (simp add: minus_mod_eq_div_mult)
qed

text \<open>The cells of the sector of an aligned address.\<close>

lemma erase_sector_range:
  assumes "unat a = 4096 * i" "unat a < 2 ^ 24"
  shows "erase_sector (a AND 0xffffff) m = (\<lambda>x. if unat a \<le> unat x \<and> unat x < unat a + 4096 then 0xff else m x)"
proof -
  have "x AND NOT 0xfff = a AND NOT 0xfff \<longleftrightarrow> unat a \<le> unat x \<and> unat x < unat a + 4096" for x
  proof -
    have "x AND NOT 0xfff = a AND NOT 0xfff \<longleftrightarrow> unat x div 4096 * 4096 = unat a div 4096 * 4096"
      by (simp only: word_unat_eq_iff unat_align)
    also have "\<dots> \<longleftrightarrow> unat x div 4096 = i" using assms(1) by simp
    also have "\<dots> \<longleftrightarrow> 4096 * i \<le> unat x \<and> unat x < 4096 * i + 4096" by auto
    finally show ?thesis using assms(1) by simp
  qed
  then show ?thesis unfolding erase_sector_def low24 [OF assms(2)] by (simp only:)
qed

subsection \<open>What programming leaves in the cells\<close>

lemma bytes_at_upd: "\<forall>j<n. a \<noteq> c + of_nat j \<Longrightarrow> bytes_at (m(a := v)) c n = bytes_at m c n"
  by (auto simp: bytes_at_def)

lemma program_put:
  "length bs \<le> 2 ^ 32 \<Longrightarrow> program a bs m = put_bytes a (map2 (AND) (bytes_at m a (length bs)) bs) m"
proof (induction bs arbitrary: a m)
  case (Cons b bs)
  have "a \<noteq> a + 1 + of_nat j" if "j < length bs" for j
  proof
    assume "a = a + 1 + of_nat j"
    then have "of_nat (Suc j) = (0 :: u32)" by (simp add: algebra_simps)
    then have "2 ^ 32 dvd Suc j" by (simp only: word_of_nat_eq_0_iff len_num1 len_num0 len_bit0 mult_1_right) simp
    with that Cons.prems show False by (auto dest: dvd_imp_le)
  qed
  then have "bytes_at (m(a := m a AND b)) (a + 1) (length bs) = bytes_at m (a + 1) (length bs)"
    by (intro bytes_at_upd) auto
  with Cons show ?case by (simp add: bytes_at_Suc)
qed simp

lemma outside_range:
  fixes a x :: u32
  assumes "unat a + n \<le> 2 ^ 24" "unat x < unat a \<or> unat a + n \<le> unat x" "j < n"
  shows "x \<noteq> a + of_nat j"
proof -
  have "unat (a + of_nat j) = unat a + j" using assms(1,3) by (simp add: unat_word_ariths unat_of_nat)
  then show ?thesis using assms(2,3) by auto
qed

lemma program_effect:
  assumes "unat a + length bs \<le> 2 ^ 24"
  shows "bytes_at (program a bs m) a (length bs) = map2 (AND) (bytes_at m a (length bs)) bs"
    "unat x < unat a \<or> unat a + length bs \<le> unat x \<Longrightarrow> program a bs m x = m x"
proof -
  have le: "length bs \<le> 2 ^ 32" using assms by simp
  show "bytes_at (program a bs m) a (length bs) = map2 (AND) (bytes_at m a (length bs)) bs"
    using bytes_at_put_bytes [of "map2 (AND) (bytes_at m a (length bs)) bs" a m] le by (simp add: program_put)
  show "program a bs m x = m x" if "unat x < unat a \<or> unat a + length bs \<le> unat x"
    using outside_range [OF assms that] by (simp add: program_put [OF le] put_bytes_other)
qed

lemma and_erased: "map2 (AND) (replicate (length bs) 0xff) bs = (bs :: u8 list)"
proof -
  have "(0xff :: u8) = - 1" by simp
  then have "(0xff :: u8) AND b = b" for b by (simp only: and.left_neutral)
  then show ?thesis by (induction bs) simp_all
qed

text \<open>The range is erased before it is written: the cells then hold the bytes of the buffer.\<close>

lemma erase_covers:
  assumes "unat address + unat len < 2 ^ 24" "i = unat address div 4096" "j = (unat address + unat len) div 4096"
  shows "bytes_at (\<lambda>x. if 4096 * i \<le> unat x \<and> unat x < 4096 * (j + 1) then 0xff else m x) address (unat len)
    = replicate (unat len) 0xff"
proof (rule nth_equalityI)
  fix k assume "k < length (bytes_at (\<lambda>x. if 4096 * i \<le> unat x \<and> unat x < 4096 * (j + 1) then 0xff else m x) address (unat len))"
  then have k: "k < unat len" by simp
  then have u: "unat (address + of_nat k) = unat address + k"
    using assms(1) by (simp add: unat_word_ariths unat_of_nat)
  have "4096 * i \<le> unat address + k" using assms(2) by (simp add: mult.commute trans_le_add1)
  moreover have "unat address + k < 4096 * (j + 1)"
  proof -
    have "unat address + unat len < 4096 * (j + 1)" unfolding assms(3) by simp
    with k show ?thesis by simp
  qed
  ultimately show "bytes_at (\<lambda>x. if 4096 * i \<le> unat x \<and> unat x < 4096 * (j + 1) then 0xff else m x) address (unat len) ! k
      = replicate (unat len) 0xff ! k"
    using k by (simp add: bytes_at_def u)
qed simp

lemma read_back:
  fixes x :: u32
  assumes "unat address + unat len < 2 ^ 24" "i = unat address div 4096" "j = (unat address + unat len) div 4096"
    and erased: "e = (\<lambda>x. if 4096 * i \<le> unat x \<and> unat x < 4096 * (j + 1) then 0xff else c x)"
    and written: "bytes_at w address (unat len) = map2 (AND) (bytes_at e address (unat len)) bs"
      "\<forall>x. unat x < unat address \<or> unat address + unat len \<le> unat x \<longrightarrow> w x = e x"
    and "length bs = unat len"
  shows "bytes_at w address (unat len) = bs"
    and "bytes_at (put_bytes dst (bytes_at w address (unat len)) r) dst (unat len) = bs"
    and "unat x < 4096 * i \<or> 4096 * (j + 1) \<le> unat x \<Longrightarrow> w x = c x"
proof -
  show w: "bytes_at w address (unat len) = bs"
    using and_erased [of bs] assms(7) erase_covers [OF assms(1-3), of c] unfolding written(1) erased by simp
  have "length bs \<le> 2 ^ 32" using assms(1,7) by simp
  then show "bytes_at (put_bytes dst (bytes_at w address (unat len)) r) dst (unat len) = bs"
    using bytes_at_put_bytes [of bs dst r] by (simp add: w assms(7))
  assume x: "unat x < 4096 * i \<or> 4096 * (j + 1) \<le> unat x"
  have "4096 * i \<le> unat address" using assms(2) by (simp add: mult.commute)
  moreover have "unat address + unat len < 4096 * (j + 1)" unfolding assms(3) by simp
  ultimately show "w x = c x" using x written(2) erased by auto
qed

subsection \<open>Drivers that keep the contract\<close>

locale nor_driver =
  fixes view :: "'s \<Rightarrow> chip"
    and ram :: "'s \<Rightarrow> u32 \<Rightarrow> u8"
    and inv :: "'s \<Rightarrow> bool"
    and enable :: "('s, s32 res) state"
    and ready :: "('s, s32 res) state"
    and prog :: "u32 \<Rightarrow> u32 \<Rightarrow> u32 \<Rightarrow> ('s, s32) state"
    and ers :: "u32 \<Rightarrow> ('s, s32) state"
    and ssz :: "'s \<Rightarrow> u32"
    and finish :: "s32 \<Rightarrow> ('s, s32 res) state"
  assumes enable_ok: "\<And>s. inv s \<Longrightarrow> \<exists>t. run_state enable s = (Inr 0, t) \<and> inv t \<and> writable (view t)
        \<and> cells (view t) = cells (view s) \<and> ram t = ram s"
    and ready_ok: "\<And>s. inv s \<Longrightarrow> \<exists>t. run_state ready s = (Inr 0, t) \<and> inv t \<and> chip_busy (view t) = 0
        \<and> (writable (view s) \<longrightarrow> writable (view t)) \<and> cells (view t) = cells (view s) \<and> ram t = ram s"
    and prog_ok: "\<And>s a d n. inv s \<Longrightarrow> writable (view s) \<Longrightarrow> 0 < n \<Longrightarrow> n \<le> 0x100 \<Longrightarrow>
        \<exists>t. run_state (prog a d n) s = (0, t) \<and> inv t \<and> ram t = ram s
        \<and> cells (view t) = page_prog ((a AND 0xffffff) AND NOT 0xff) ((a AND 0xffffff) AND 0xff)
             (bytes_at (ram s) d (unat n)) (cells (view s))"
    and ers_ok: "\<And>s a. inv s \<Longrightarrow> writable (view s) \<Longrightarrow> \<exists>t. run_state (ers a) s = (0, t) \<and> inv t \<and> ram t = ram s
        \<and> cells (view t) = erase_sector (a AND 0xffffff) (cells (view s))"
    and ssz_ok: "\<And>s. inv s \<Longrightarrow> ssz s = 0x1000"
    and finish_ok: "\<And>s r. inv s \<Longrightarrow> \<exists>t. run_state (finish r) s = (Inr r, t) \<and> inv t \<and> chip_busy (view t) = 0
        \<and> cells (view t) = cells (view s) \<and> ram t = ram s"
begin

text \<open>Enable and wait: the chip is writable and nothing else has changed.\<close>

lemma prepare:
  assumes "inv s"
  obtains t where "\<And>k. run_state (ok_or enable (ok_or ready k)) s = run_state k t"
    "inv t" "writable (view t)" "cells (view t) = cells (view s)" "ram t = ram s"
proof -
  obtain u where u: "run_state enable s = (Inr 0, u)" "inv u" "writable (view u)"
    "cells (view u) = cells (view s)" "ram u = ram s" using enable_ok [OF assms] by blast
  obtain t where t: "run_state ready u = (Inr 0, t)" "inv t" "writable (view t)"
    "cells (view t) = cells (view u)" "ram t = ram u" using ready_ok [OF u(2)] u(3) by blast
  from u t show thesis by (intro that [of t]) (simp_all add: ok_or_def)
qed

lemma write_loop:
  "inv s \<Longrightarrow> 0 < len \<Longrightarrow> unat address + unat len \<le> 2 ^ 24 \<Longrightarrow> first = page_rest 0x100 address \<Longrightarrow> unat len \<le> n \<Longrightarrow>
   \<exists>t. run_state (flash_write_loop n enable ready prog finish address len data first len_orig) s = (Inr len_orig, t)
     \<and> inv t \<and> chip_busy (view t) = 0 \<and> ram t = ram s
     \<and> cells (view t) = program address (bytes_at (ram s) data (unat len)) (cells (view s))"
proof (induction n arbitrary: s address len data first)
  case 0
  then show ?case by (simp add: word_less_nat_alt)
next
  case (Suc n)
  define k where "k = (if first < len then first else len)"
  have rest: "0 < unat (page_rest 0x100 address)" "unat (page_rest 0x100 address) \<le> 256"
    using unat_page_base [of address] unat_and_mask [of address] mod_less_divisor [of 256 "unat address"] by linarith+
  have k: "0 < k" "k \<le> 0x100" "k \<le> len" "unat k \<le> unat (page_rest 0x100 address)"
    using rest Suc.prems(2,4) by (auto simp: k_def word_less_nat_alt word_le_nat_alt)
  obtain u where u: "\<And>k. run_state (ok_or enable (ok_or ready k)) s = run_state k u"
    "inv u" "writable (view u)" "cells (view u) = cells (view s)" "ram u = ram s"
    using prepare [OF Suc.prems(1)] by blast
  obtain v where v: "run_state (prog address data k) u = (0, v)" "inv v" "ram v = ram u"
    "cells (view v) = page_prog ((address AND 0xffffff) AND NOT 0xff) ((address AND 0xffffff) AND 0xff)
       (bytes_at (ram u) data (unat k)) (cells (view u))"
    using prog_ok [OF u(2,3) k(1,2), of address data] by blast
  have "unat address < 2 ^ 24" using Suc.prems(2,3) by (simp add: word_less_nat_alt)
  then have cv: "cells (view v) = program address (bytes_at (ram s) data (unat k)) (cells (view s))"
    unfolding v(4) u(4,5) by (intro page_prog_in_page low24) (simp_all add: k(4))
  have run: "run_state (flash_write_loop (Suc n) enable ready prog finish address len data first len_orig) s
    = run_state (if len - k \<noteq> 0 then flash_write_loop n enable ready prog finish (address + k) (len - k) (data + k) 0x100 len_orig
        else finish len_orig) v"
    by (simp add: u(1) k_def [symmetric] v(1))
  show ?case
  proof (cases "len - k = 0")
    case True
    then have "k = len" by simp
    obtain t where "run_state (finish len_orig) v = (Inr len_orig, t)" "inv t" "chip_busy (view t) = 0"
      "cells (view t) = cells (view v)" "ram t = ram v" using finish_ok [OF v(2)] by blast
    with \<open>k = len\<close> run cv v(3) u(5) show ?thesis by simp
  next
    case False
    then have kf: "k = first" using k_def by (auto split: if_splits)
    have lk: "unat (len - k) = unat len - unat k" using k(3) by (simp add: unat_sub)
    have pos: "0 < len - k" using False word_neq_0_conv by blast
    have "unat address + unat k < 2 ^ 32" using Suc.prems(3) k(3) by (simp add: word_le_nat_alt)
    then have ak: "unat (address + k) = unat address + unat k" by (simp add: unat_word_ariths)
    have "unat (address + k) + unat (len - k) \<le> 2 ^ 24"
      using ak lk Suc.prems(3) k(3) by (simp add: word_le_nat_alt)
    moreover have "0x100 = page_rest 0x100 (address + k)"
      using next_page [of address] Suc.prems(4) kf by simp
    moreover have "unat (len - k) \<le> n" using lk k(1) Suc.prems(5) by (simp add: word_less_nat_alt)
    ultimately obtain t where t:
      "run_state (flash_write_loop n enable ready prog finish (address + k) (len - k) (data + k) 0x100 len_orig) v = (Inr len_orig, t)"
      "inv t" "chip_busy (view t) = 0" "ram t = ram v"
      "cells (view t) = program (address + k) (bytes_at (ram v) (data + k) (unat (len - k))) (cells (view v))"
      using Suc.IH [OF v(2) pos] by blast
    have "unat len = unat k + unat (len - k)" using lk k(3) by (simp add: word_le_nat_alt)
    then have "bytes_at (ram s) data (unat len)
        = bytes_at (ram s) data (unat k) @ bytes_at (ram s) (data + k) (unat (len - k))"
      by (simp only: bytes_at_append) simp
    then have "cells (view t) = program address (bytes_at (ram s) data (unat len)) (cells (view s))"
      using t(5) cv v(3) u(5) by (simp add: program_append)
    with t run False v(3) u(5) show ?thesis by simp
  qed
qed

text \<open>One round of the erase, and the erase of the sectors from \<open>address\<close> to \<open>la\<close>.\<close>

lemma erase_round:
  assumes "inv s" "unat address = 4096 * i" "unat address < 2 ^ 24"
  obtains v where "run_state (flash_erase_loop (Suc m) enable ready ers ssz finish address la count) s
      = run_state (if address + 0x1000 \<le> la
          then flash_erase_loop m enable ready ers ssz finish (address + 0x1000) la (count + 1)
          else finish (count + 1)) v"
    "inv v" "ram v = ram s"
    "cells (view v) = (\<lambda>x. if unat address \<le> unat x \<and> unat x < unat address + 4096 then 0xff else cells (view s) x)"
proof -
  obtain u where u: "\<And>k. run_state (ok_or enable (ok_or ready k)) s = run_state k u"
    "inv u" "writable (view u)" "cells (view u) = cells (view s)" "ram u = ram s"
    using prepare [OF assms(1)] by blast
  obtain v where v: "run_state (ers address) u = (0, v)" "inv v" "ram v = ram u"
    "cells (view v) = erase_sector (address AND 0xffffff) (cells (view u))"
    using ers_ok [OF u(2,3)] by blast
  show thesis
  proof (rule that [of v])
    show "run_state (flash_erase_loop (Suc m) enable ready ers ssz finish address la count) s
      = run_state (if address + 0x1000 \<le> la
          then flash_erase_loop m enable ready ers ssz finish (address + 0x1000) la (count + 1)
          else finish (count + 1)) v"
      by (simp add: u(1) v(1) ssz_ok [OF v(2)])
    show "cells (view v) = (\<lambda>x. if unat address \<le> unat x \<and> unat x < unat address + 4096 then 0xff else cells (view s) x)"
      unfolding v(4) u(4) by (rule erase_sector_range [OF assms(2,3)])
  qed (use u v in simp_all)
qed

lemma erase_loop:
  "inv s \<Longrightarrow> unat address = 4096 * i \<Longrightarrow> unat la = 4096 * (i + n) \<Longrightarrow> unat la + 4096 \<le> 2 ^ 24 \<Longrightarrow> n < m \<Longrightarrow>
   \<exists>t. run_state (flash_erase_loop m enable ready ers ssz finish address la count) s
        = (Inr (count + of_nat (Suc n)), t)
     \<and> inv t \<and> chip_busy (view t) = 0 \<and> ram t = ram s
     \<and> cells (view t) = (\<lambda>x. if unat address \<le> unat x \<and> unat x < unat la + 4096 then 0xff else cells (view s) x)"
proof (induction n arbitrary: s address i m count)
  case 0
  then obtain m' where m: "m = Suc m'" by (cases m) auto
  have a: "unat address < 2 ^ 24" by (rule le_less_trans [of _ "unat la"]) (use 0(2-4) in simp_all)
  obtain v where v: "run_state (flash_erase_loop m enable ready ers ssz finish address la count) s
      = run_state (if address + 0x1000 \<le> la
          then flash_erase_loop m' enable ready ers ssz finish (address + 0x1000) la (count + 1)
          else finish (count + 1)) v"
    "inv v" "ram v = ram s"
    "cells (view v) = (\<lambda>x. if unat address \<le> unat x \<and> unat x < unat address + 4096 then 0xff else cells (view s) x)"
    unfolding m by (rule erase_round [OF 0(1,2) a])
  have "unat (address + 0x1000) = unat address + 4096" using a by (simp add: unat_word_ariths)
  then have "\<not> address + 0x1000 \<le> la" using 0 by (simp add: word_le_nat_alt)
  moreover obtain t where "run_state (finish (count + 1)) v = (Inr (count + 1), t)" "inv t" "chip_busy (view t) = 0"
    "cells (view t) = cells (view v)" "ram t = ram v" using finish_ok [OF v(2)] by blast
  ultimately show ?case using v 0 by simp
next
  case (Suc n)
  then obtain m' where m: "m = Suc m'" "n < m'" by (cases m) auto
  have a: "unat address < 2 ^ 24"
    by (rule le_less_trans [of _ "unat la"]) (use Suc.prems(2-4) in simp_all)
  obtain v where v: "run_state (flash_erase_loop m enable ready ers ssz finish address la count) s
      = run_state (if address + 0x1000 \<le> la
          then flash_erase_loop m' enable ready ers ssz finish (address + 0x1000) la (count + 1)
          else finish (count + 1)) v"
    "inv v" "ram v = ram s"
    "cells (view v) = (\<lambda>x. if unat address \<le> unat x \<and> unat x < unat address + 4096 then 0xff else cells (view s) x)"
    unfolding m(1) by (rule erase_round [OF Suc.prems(1,2) a])
  have next_a: "unat (address + 0x1000) = 4096 * Suc i" using a Suc.prems(2) by (simp add: unat_word_ariths)
  then have "address + 0x1000 \<le> la" using Suc.prems by (simp add: word_le_nat_alt)
  moreover have "unat la = 4096 * (Suc i + n)" using Suc.prems(3) by simp
  from Suc.IH [OF v(2) next_a this Suc.prems(4) m(2), of "count + 1"] obtain t where
    t: "run_state (flash_erase_loop m' enable ready ers ssz finish (address + 0x1000) la (count + 1)) v
        = (Inr (count + 1 + of_nat (Suc n)), t)" "inv t" "chip_busy (view t) = 0" "ram t = ram v"
      "cells (view t) = (\<lambda>x. if unat (address + 0x1000) \<le> unat x \<and> unat x < unat la + 4096 then 0xff else cells (view v) x)"
    by blast
  moreover have "cells (view t) = (\<lambda>x. if unat address \<le> unat x \<and> unat x < unat la + 4096 then 0xff else cells (view s) x)"
    unfolding t(5) v(4) using next_a Suc.prems(2,3) by (auto simp: fun_eq_iff)
  ultimately show ?case using v(1,3) by (simp add: algebra_simps)
qed

text \<open>A whole write, after a first wait, and a whole erase.\<close>

lemma write_range:
  assumes "inv s" "0 < len" "unat address + unat len \<le> 2 ^ 24" "unat len \<le> n"
  shows "\<exists>t. run_state (ok_or ready (flash_write_loop n enable ready prog finish address len data
        (page_rest FLASH_PAGE_SIZE address) len)) s = (Inr len, t)
    \<and> inv t \<and> chip_busy (view t) = 0 \<and> ram t = ram s
    \<and> bytes_at (cells (view t)) address (unat len)
        = map2 (AND) (bytes_at (cells (view s)) address (unat len)) (bytes_at (ram s) data (unat len))
    \<and> (\<forall>x. unat x < unat address \<or> unat address + unat len \<le> unat x \<longrightarrow> cells (view t) x = cells (view s) x)"
proof -
  obtain u where u: "run_state ready s = (Inr 0, u)" "inv u" "cells (view u) = cells (view s)" "ram u = ram s"
    using ready_ok [OF assms(1)] by blast
  obtain t where t: "run_state (flash_write_loop n enable ready prog finish address len data (page_rest 0x100 address) len) u = (Inr len, t)"
    "inv t" "chip_busy (view t) = 0" "ram t = ram u"
    "cells (view t) = program address (bytes_at (ram u) data (unat len)) (cells (view u))"
    using write_loop [OF u(2) assms(2,3) refl assms(4)] by blast
  have "unat address + length (bytes_at (ram s) data (unat len)) \<le> 2 ^ 24" using assms(3) by simp
  from program_effect [OF this, where m = "cells (view s)"] t u show ?thesis
    by (simp add: ok_or_def)
qed

lemma erase_range:
  assumes "inv s" "unat address + unat len < 2 ^ 24"
    and "i = unat address div 4096" "j = (unat address + unat len) div 4096" "j - i < n"
  shows "\<exists>t. run_state (flash_erase_loop n enable ready ers ssz finish (address AND NOT 0xfff) ((address + len) AND NOT 0xfff) 0) s
      = (Inr (of_nat (j - i + 1)), t)
    \<and> inv t \<and> chip_busy (view t) = 0 \<and> ram t = ram s
    \<and> cells (view t) = (\<lambda>x. if 4096 * i \<le> unat x \<and> unat x < 4096 * (j + 1) then 0xff else cells (view s) x)"
proof -
  have al: "unat (address + len) = unat address + unat len" using assms(2) by (simp add: unat_word_ariths)
  have ij: "i \<le> j" using assms(3,4) by (simp add: div_le_mono)
  have a: "unat (address AND NOT 0xfff) = 4096 * i" by (simp only: unat_align assms(3) mult.commute)
  have b: "unat ((address + len) AND NOT 0xfff) = 4096 * (i + (j - i))"
    using ij by (simp only: unat_align al assms(4) mult.commute le_add_diff_inverse)
  have "j < 4096" using assms(2,4) by (simp add: div_less_iff_less_mult)
  then have c: "unat ((address + len) AND NOT 0xfff) + 4096 \<le> 2 ^ 24" unfolding b using ij by simp
  from erase_loop [OF assms(1) a b c assms(5), where count = 0] obtain t where
    t: "run_state (flash_erase_loop n enable ready ers ssz finish (address AND NOT 0xfff) ((address + len) AND NOT 0xfff) 0) s
        = (Inr (0 + of_nat (Suc (j - i))), t)"
      "inv t" "chip_busy (view t) = 0" "ram t = ram s"
    and cells: "cells (view t) = (\<lambda>x. if unat (address AND NOT 0xfff) \<le> unat x
        \<and> unat x < unat ((address + len) AND NOT 0xfff) + 4096 then 0xff else cells (view s) x)"
    by blast
  have "cells (view t) = (\<lambda>x. if 4096 * i \<le> unat x \<and> unat x < 4096 * (j + 1) then 0xff else cells (view s) x)"
    unfolding cells a b using ij by (simp add: algebra_simps)
  with t show ?thesis by simp
qed

end

end
