(* ===== verification/Fl256s.thy ===== *)
theory Fl256s
  imports SpiFlash
begin

section \<open>The fl256s flash driver (spi_flash_fl256s.c)\<close>

text \<open>
  The driver of \<open>device/peripheral/flash/fl256s/spi_flash_fl256s.c\<close>, over the same SPI device
  parameter as \<open>SpiFlash\<close>. Its commands are chains of two transfers, a command and its data.
  The debug output of the file (\<open>dbg_printf\<close>, compiled out by default) is left out.
\<close>

subsection \<open>Commands and registers\<close>

definition spi_send_cmd_f :: "'a spi_ctl \<Rightarrow> u32 \<Rightarrow> spi_cmd \<Rightarrow> ('a, s32 \<times> u8 list) fop" where
  "spi_send_cmd_f ctl dev c = do {
     s \<leftarrow> State_Monad.get;
     let d = fdev s dev;
     _ \<leftarrow> ctl (f_spi_master d) (Mst_sel_dev (ucast (f_cs d)));
     _ \<leftarrow> ctl (f_spi_master d) (Mst_set_freq (f_spi_freq d));
     _ \<leftarrow> ctl (f_spi_master d) (Set_clk_mode 0);
     r \<leftarrow> ctl (f_spi_master d) c;
     _ \<leftarrow> ctl (f_spi_master d) (Mst_dsel_dev (ucast (f_cs d)));
     State_Monad.return r
   }"

definition fl_send_cmd :: "'a spi_ctl \<Rightarrow> u32 \<Rightarrow> spi_xfer list \<Rightarrow> ('a, s32 \<times> u8 list) fop" where
  "fl_send_cmd ctl dev xfer = spi_send_cmd_f ctl dev (Transfer_polling xfer)"

definition fl_send_cmd_quad :: "'a spi_ctl \<Rightarrow> u32 \<Rightarrow> u8 \<Rightarrow> u32 \<Rightarrow> u32 \<Rightarrow> ('a, s32 \<times> u8 list) fop" where
  "fl_send_cmd_quad ctl dev cmd addr len = spi_send_cmd_f ctl dev (Quad_read cmd addr len)"

text \<open>The buffer of a register read is given by its old contents; the result is the length, or not valid.\<close>

definition fl256s_read_reg :: "'a spi_ctl \<Rightarrow> u32 \<Rightarrow> u8 \<Rightarrow> u8 list \<Rightarrow> ('a, u32 \<times> u8 list) fop" where
  "fl256s_read_reg ctl dev reg old = do {
     (ercd, rx) \<leftarrow> fl_send_cmd ctl dev [xfer_tx [reg], xfer_rx (length old)];
     State_Monad.return (if ercd = 0 then of_nat (length old) else NOT_VALID, fill rx old)
   }"

definition fl256s_write_reg :: "'a spi_ctl \<Rightarrow> u32 \<Rightarrow> u8 \<Rightarrow> u8 list \<Rightarrow> ('a, u32) fop" where
  "fl256s_write_reg ctl dev reg data = do {
     (ercd, _) \<leftarrow> fl_send_cmd ctl dev [xfer_tx [reg], xfer_tx data];
     State_Monad.return (if ercd = 0 then of_nat (length data) else NOT_VALID)
   }"

text \<open>One round of the loop of \<open>fl256s_write_enable\<close>: the error, or the status byte it ends with.\<close>

definition fl_enable_round :: "'a spi_ctl \<Rightarrow> u32 \<Rightarrow> u8 \<Rightarrow> ('a, u8 option) fop" where
  "fl_enable_round ctl dev r_data = do {
     status \<leftarrow> fl256s_write_reg ctl dev WREN [];
     if status = NOT_VALID then State_Monad.return None
     else do {
       (status, r) \<leftarrow> fl256s_read_reg ctl dev RDSR [r_data];
       if status = NOT_VALID then State_Monad.return None
       else if hd r AND 0xfc \<noteq> 0 \<and> hd r AND 0x02 \<noteq> 0 then do {
         status \<leftarrow> fl256s_write_reg ctl dev WRSR [0];
         State_Monad.return (if status = NOT_VALID then None else Some 0)
       }
       else State_Monad.return (Some (hd r))
     }
   }"

primrec fl_enable_loop :: "nat \<Rightarrow> 'a spi_ctl \<Rightarrow> u32 \<Rightarrow> u8 \<Rightarrow> ('a, s32 res) fop" where
  "fl_enable_loop 0 ctl dev r_data = stopE Hang"
| "fl_enable_loop (Suc fuel) ctl dev r_data = do {
     r \<leftarrow> fl_enable_round ctl dev r_data;
     case r of None \<Rightarrow> retE (- 1)
     | Some r_data \<Rightarrow> if r_data \<noteq> 0x02 then fl_enable_loop fuel ctl dev r_data else retE 0
   }"

definition fl256s_write_enable :: "nat \<Rightarrow> 'a spi_ctl \<Rightarrow> u32 \<Rightarrow> ('a, s32 res) fop" where
  "fl256s_write_enable fuel ctl dev = fl_enable_loop fuel ctl dev 0"

primrec fl_disable_loop :: "nat \<Rightarrow> 'a spi_ctl \<Rightarrow> u32 \<Rightarrow> u8 \<Rightarrow> ('a, s32 res) fop" where
  "fl_disable_loop 0 ctl dev r_data = stopE Hang"
| "fl_disable_loop (Suc fuel) ctl dev r_data = do {
     status \<leftarrow> fl256s_write_reg ctl dev WRDI [];
     if status = NOT_VALID then retE (- 1)
     else do {
       (status, r) \<leftarrow> fl256s_read_reg ctl dev RDSR [r_data];
       if status = NOT_VALID then retE (- 1)
       else if hd r AND 0x02 \<noteq> 0 then fl_disable_loop fuel ctl dev (hd r)
       else retE 0
     }
   }"

definition fl256s_write_disable :: "nat \<Rightarrow> 'a spi_ctl \<Rightarrow> u32 \<Rightarrow> ('a, s32 res) fop" where
  "fl256s_write_disable fuel ctl dev = fl_disable_loop fuel ctl dev 0"

primrec fl_wait_loop :: "nat \<Rightarrow> 'a spi_ctl \<Rightarrow> u32 \<Rightarrow> u8 \<Rightarrow> ('a, s32 res) fop" where
  "fl_wait_loop 0 ctl dev r_data = stopE Hang"
| "fl_wait_loop (Suc fuel) ctl dev r_data = do {
     (status, r) \<leftarrow> fl256s_read_reg ctl dev RDSR [r_data];
     if status = NOT_VALID then retE (- 1)
     else if hd r AND 0x01 \<noteq> 0 then fl_wait_loop fuel ctl dev (hd r)
     else retE 0
   }"

definition fl256s_wait_ready :: "nat \<Rightarrow> 'a spi_ctl \<Rightarrow> u32 \<Rightarrow> ('a, s32 res) fop" where
  "fl256s_wait_ready fuel ctl dev = fl_wait_loop fuel ctl dev 0"

definition set_quad_en :: "u32 \<Rightarrow> u8 \<Rightarrow> ('a, unit) fop" where
  "set_quad_en dev v = State_Monad.update (\<lambda>s. s\<lparr>fdev := (fdev s)(dev := (fdev s dev)\<lparr>f_quad_en := v\<rparr>)\<rparr>)"

text \<open>
  \<open>fl256s_quad_enable\<close> and \<open>fl256s_quad_disable\<close>: the same steps with the quad bit \<open>want\<close> set
  or cleared in the configuration register.
\<close>

definition fl_quad_set :: "nat \<Rightarrow> 'a spi_ctl \<Rightarrow> u32 \<Rightarrow> bool \<Rightarrow> ('a, s32 res) fop" where
  "fl_quad_set fuel ctl dev want =
     bindE (liftE (fl256s_read_reg ctl dev RDCR [0])) (\<lambda>(status, cr).
     if status = NOT_VALID then retE (- 1)
     else if (hd cr AND 0x02 \<noteq> 0) \<noteq> want then
       bindE (liftE (fl256s_read_reg ctl dev RDSR cr)) (\<lambda>(status, sr).
       if status = NOT_VALID then retE (- 1)
       else ok_or (fl256s_write_enable fuel ctl dev) (
         bindE (liftE (fl256s_write_reg ctl dev WRSR
           [hd sr, if want then hd cr OR 0x02 else hd cr AND 0xFD])) (\<lambda>status.
         if status = NOT_VALID then retE (- 1)
         else liftE (do { set_quad_en dev (if want then 1 else 0); State_Monad.return 0 }))))
     else liftE (do { set_quad_en dev (if want then 1 else 0); State_Monad.return 0 }))"

definition fl256s_quad_enable :: "nat \<Rightarrow> 'a spi_ctl \<Rightarrow> u32 \<Rightarrow> ('a, s32 res) fop" where
  "fl256s_quad_enable fuel ctl dev = fl_quad_set fuel ctl dev True"

definition fl256s_quad_disable :: "nat \<Rightarrow> 'a spi_ctl \<Rightarrow> u32 \<Rightarrow> ('a, s32 res) fop" where
  "fl256s_quad_disable fuel ctl dev = fl_quad_set fuel ctl dev False"

definition fl256s_read_id :: "'a spi_ctl \<Rightarrow> u32 \<Rightarrow> ('a, u32) fop" where
  "fl256s_read_id ctl dev = do {
     (ercd, rx) \<leftarrow> fl_send_cmd ctl dev [\<lparr>tx_bytes = [RDID], rx_ofs = 0, rx_len = 5\<rparr>];
     State_Monad.return (if ercd = 0 then
       (let b = fill rx [RDID, 0, 0, 0, 0]
        in push_bit 24 (ucast (b ! 1)) OR push_bit 16 (ucast (b ! 2)) OR push_bit 8 (ucast (b ! 3)) OR ucast (b ! 4))
       else NOT_VALID)
   }"

text \<open>\<open>fl256s_init\<close> waits for the chip but returns \<open>E_OK\<close> whatever the wait answers.\<close>

definition fl256s_init :: "nat \<Rightarrow> 'a spi_opn \<Rightarrow> 'a spi_ctl \<Rightarrow> u32 \<Rightarrow> u32 \<Rightarrow> ('a, s32 res) fop" where
  "fl256s_init fuel sopen ctl dev freq =
     bindE (liftE (do {
       State_Monad.update (\<lambda>s. s\<lparr>fdev := (fdev s)(dev := (fdev s dev)\<lparr>f_spi_freq := freq\<rparr>)\<rparr>);
       s \<leftarrow> State_Monad.get;
       sopen (f_spi_master (fdev s dev)) DEV_MASTER_MODE freq
     })) (\<lambda>ercd.
     if ercd \<noteq> E_OK \<and> ercd \<noteq> E_OPNED then retE ercd
     else bindE (fl256s_wait_ready fuel ctl dev) (\<lambda>_. retE E_OK))"

subsection \<open>Erase, write and read\<close>

text \<open>After the last round both the erase and the write wait for the chip and disable writing.\<close>

definition fl_finish :: "nat \<Rightarrow> 'a spi_ctl \<Rightarrow> u32 \<Rightarrow> s32 \<Rightarrow> ('a, s32 res) fop" where
  "fl_finish fuel ctl dev r =
     ok_or (fl256s_wait_ready fuel ctl dev) (ok_or (fl256s_write_disable fuel ctl dev) (retE r))"

definition fl_sector_erase :: "'a spi_ctl \<Rightarrow> u32 \<Rightarrow> u32 \<Rightarrow> ('a, s32) fop" where
  "fl_sector_erase ctl dev address =
     do { (ercd, _) \<leftarrow> fl_send_cmd ctl dev [xfer_tx (cmd_addr SE address)]; State_Monad.return ercd }"

definition fl_page_program :: "'a spi_ctl \<Rightarrow> u32 \<Rightarrow> u32 \<Rightarrow> u32 \<Rightarrow> u32 \<Rightarrow> ('a, s32) fop" where
  "fl_page_program ctl dev address data first = do {
     s \<leftarrow> State_Monad.get;
     (ercd, _) \<leftarrow> fl_send_cmd ctl dev [xfer_tx (cmd_addr PP address), xfer_tx (bytes_at (mem s) data (unat first))];
     State_Monad.return ercd
   }"

definition fl256s_erase :: "nat \<Rightarrow> nat \<Rightarrow> 'a spi_ctl \<Rightarrow> u32 \<Rightarrow> u32 \<Rightarrow> u32 \<Rightarrow> ('a, s32 res) fop" where
  "fl256s_erase n fuel ctl dev address len = do {
     s \<leftarrow> State_Monad.get;
     let sz = f_sector_sz (fdev s dev);
     flash_erase_loop n (fl256s_write_enable fuel ctl dev) (fl256s_wait_ready fuel ctl dev)
       (fl_sector_erase ctl dev) (\<lambda>s. f_sector_sz (fdev s dev)) (fl_finish fuel ctl dev)
       (address AND NOT (sz - 1)) ((address + len) AND NOT (sz - 1)) 0
   }"

definition fl256s_write :: "nat \<Rightarrow> nat \<Rightarrow> 'a spi_ctl \<Rightarrow> u32 \<Rightarrow> u32 \<Rightarrow> u32 \<Rightarrow> u32 \<Rightarrow> ('a, s32 res) fop" where
  "fl256s_write n fuel ctl dev address len data =
     ok_or (fl256s_wait_ready fuel ctl dev)
       (flash_write_loop n (fl256s_write_enable fuel ctl dev) (fl256s_wait_ready fuel ctl dev)
         (fl_page_program ctl dev) (fl_finish fuel ctl dev)
         address len data (page_rest FLASH_PAGE_SIZE address) len)"

text \<open>
  The loop of \<open>fl256s_read\<close> and \<open>fl256s_quad_read\<close>: \<open>get\<close> is the transfer of one piece,
  \<open>piece\<close> the size of all but the first.
\<close>

primrec fl_read_loop ::
  "nat \<Rightarrow> nat \<Rightarrow> 'a spi_ctl \<Rightarrow> u32 \<Rightarrow> (u32 \<Rightarrow> u32 \<Rightarrow> ('a, s32 \<times> u8 list) fop) \<Rightarrow> u32 \<Rightarrow> u32 \<Rightarrow> u32 \<Rightarrow> u32 \<Rightarrow> u32 \<Rightarrow> u32
     \<Rightarrow> ('a, s32 res) fop" where
  "fl_read_loop 0 fuel ctl dev get piece address len data first len_orig = stopE Hang"
| "fl_read_loop (Suc n) fuel ctl dev get piece address len data first len_orig =
     ok_or (fl256s_wait_ready fuel ctl dev) (
     let first = (if first < len then first else len) in do {
       (ercd, rx) \<leftarrow> get address first;
       st_bytes data (take (unat first) rx);
       if ercd \<noteq> 0 then retE (- 1)
       else if len - first \<noteq> 0 then
         fl_read_loop n fuel ctl dev get piece (address + first) (len - first) (data + first) piece len_orig
       else retE len_orig
     })"

definition fl256s_read :: "nat \<Rightarrow> nat \<Rightarrow> 'a spi_ctl \<Rightarrow> u32 \<Rightarrow> u32 \<Rightarrow> u32 \<Rightarrow> u32 \<Rightarrow> ('a, s32 res) fop" where
  "fl256s_read n fuel ctl dev address len data =
     fl_read_loop n fuel ctl dev
       (\<lambda>a k. fl_send_cmd ctl dev [xfer_tx (cmd_addr READ a), xfer_rx (unat k)])
       FLASH_PAGE_SIZE address len data (page_rest FLASH_PAGE_SIZE address) len"

definition fl256s_quad_read :: "nat \<Rightarrow> nat \<Rightarrow> 'a spi_ctl \<Rightarrow> u32 \<Rightarrow> u32 \<Rightarrow> u32 \<Rightarrow> u32 \<Rightarrow> ('a, s32 res) fop" where
  "fl256s_quad_read n fuel ctl dev address len data =
     fl_read_loop n fuel ctl dev (\<lambda>a k. fl_send_cmd_quad ctl dev QORD a k)
       32 address len data (page_rest 32 address) len"

end
