(* ===== verification/FlashSpec.thy ===== *)
theory FlashSpec
  imports FlashChip Fl256s
begin

section \<open>Correctness of the SPI flash drivers\<close>

text \<open>
  Both drivers keep the contract of \<open>FlashChip\<close> on every bus that behaves as documented, so
  their writes program exactly the range asked for and their reads return what is there; the
  sectors an erase clears are stated as the code clears them.
\<close>

subsection \<open>One command over the bus\<close>

definition same_ram :: "'a flash_mach_scheme \<Rightarrow> 'a flash_mach_scheme \<Rightarrow> bool" where
  "same_ram s t \<longleftrightarrow> mem t = mem s \<and> wdev t = wdev s \<and> fdev t = fdev s"

lemma chip_xfer_sel:
  "chip_xfer lat bs (c\<lparr>chip_sel := b\<rparr>) = (fst (chip_xfer lat bs c), (snd (chip_xfer lat bs c))\<lparr>chip_sel := b\<rparr>)"
  by (cases bs) (simp_all add: writable_def chip_status_def Let_def)

lemma bus_command:
  assumes "flash_bus lat ctl view m cs"
  shows "\<exists>t. run_state (do { _ \<leftarrow> ctl m (Mst_sel_dev (ucast cs)); _ \<leftarrow> ctl m (Mst_set_freq f); _ \<leftarrow> ctl m (Set_clk_mode 0);
       r \<leftarrow> ctl m (Transfer_polling xs); _ \<leftarrow> ctl m (Mst_dsel_dev (ucast cs)); State_Monad.return r }) s
     = ((0, kept xs (fst (chip_xfer lat (mosi xs) (view s)))), t)
     \<and> same_ram s t \<and> view t = (snd (chip_xfer lat (mosi xs) (view s)))\<lparr>chip_sel := False\<rparr>"
proof -
  let ?a = "snd (run_state (ctl m (Mst_sel_dev (ucast cs))) s)"
  let ?b = "snd (run_state (ctl m (Mst_set_freq f)) ?a)"
  let ?c = "snd (run_state (ctl m (Set_clk_mode 0)) ?b)"
  let ?d = "snd (run_state (ctl m (Transfer_polling xs)) ?c)"
  let ?e = "snd (run_state (ctl m (Mst_dsel_dev (ucast cs))) ?d)"
  note law = assms [unfolded flash_bus_def]
  have c: "view ?c = (view s)\<lparr>chip_sel := True\<rparr>" using law by simp
  then have "chip_sel (view ?c)" by simp
  then have d: "fst (run_state (ctl m (Transfer_polling xs)) ?c) = (0, kept xs (fst (chip_xfer lat (mosi xs) (view ?c))))"
    "view ?d = snd (chip_xfer lat (mosi xs) (view ?c))" using law by blast+
  have "view ?e = (view ?d)\<lparr>chip_sel := False\<rparr>" using law by blast
  then have e: "view ?e = (snd (chip_xfer lat (mosi xs) (view s)))\<lparr>chip_sel := False\<rparr>"
    by (simp add: d c chip_xfer_sel)
  have "same_ram s ?e" using law by (simp add: same_ram_def)
  with d(1) e show ?thesis by (simp add: split_def c chip_xfer_sel)
qed

lemma status_bits:
  "(ucast (chip_status c) :: u32) AND 0x01 = 0 \<longleftrightarrow> chip_busy c = 0"
  "(ucast (chip_status c) :: u32) AND 0x02 = 0 \<longleftrightarrow> \<not> chip_wel c"
  "(ucast (chip_status c) :: u32) AND 0xfc = 0 \<longleftrightarrow> chip_prot c AND 0xfc = 0"
  "(ucast (chip_status c) :: u32) = 0x02 \<longleftrightarrow> writable c"
  "chip_status c AND 0x01 = 0 \<longleftrightarrow> chip_busy c = 0"
  "chip_status c AND 0x02 = 0 \<longleftrightarrow> \<not> chip_wel c"
  "chip_status c AND 0xfc = 0 \<longleftrightarrow> chip_prot c AND 0xfc = 0"
  "chip_status c = 0x02 \<longleftrightarrow> writable c"
proof -
  have cast: "(ucast b :: u32) AND ucast m = ucast (b AND m)" for b m :: u8
    by (simp add: unsigned_and_eq)
  have inj: "(ucast b :: u32) = ucast m \<longleftrightarrow> b = m" for b m :: u8
    by (metis unat_byte word_unat_eq_iff)
  have m: "(p AND 0xfc) AND 1 = 0" "(p AND 0xfc) AND 2 = 0" "(p AND 0xfc) AND 0xfc = p AND 0xfc" for p :: u8
    by (simp_all add: and.assoc)
  show a: "chip_status c AND 0x01 = 0 \<longleftrightarrow> chip_busy c = 0"
    by (cases "chip_wel c"; cases "chip_busy c > 0") (simp_all add: chip_status_def bit.conj_disj_distrib2 m)
  show b: "chip_status c AND 0x02 = 0 \<longleftrightarrow> \<not> chip_wel c"
    by (cases "chip_wel c"; cases "chip_busy c > 0") (simp_all add: chip_status_def bit.conj_disj_distrib2 m)
  show d: "chip_status c AND 0xfc = 0 \<longleftrightarrow> chip_prot c AND 0xfc = 0"
    by (cases "chip_wel c"; cases "chip_busy c > 0") (simp_all add: chip_status_def bit.conj_disj_distrib2 m)
  have "chip_status c = 2" if "writable c" using that by (simp add: chip_status_def writable_def)
  moreover have "writable c" if "chip_status c = 2"
    using a b d unfolding that by (simp add: writable_def)
  ultimately show e: "chip_status c = 0x02 \<longleftrightarrow> writable c" by blast
  show "(ucast (chip_status c) :: u32) AND 0x01 = 0 \<longleftrightarrow> chip_busy c = 0"
    using cast [of "chip_status c" 1] inj [of "chip_status c AND 1" 0] a by simp
  show "(ucast (chip_status c) :: u32) AND 0x02 = 0 \<longleftrightarrow> \<not> chip_wel c"
    using cast [of "chip_status c" 2] inj [of "chip_status c AND 2" 0] b by simp
  show "(ucast (chip_status c) :: u32) AND 0xfc = 0 \<longleftrightarrow> chip_prot c AND 0xfc = 0"
    using cast [of "chip_status c" "0xfc"] inj [of "chip_status c AND 0xfc" 0] d by simp
  show "(ucast (chip_status c) :: u32) = 0x02 \<longleftrightarrow> writable c"
    using inj [of "chip_status c" 2] e by simp
qed

lemma addr24_cmd: "addr24 (tl (cmd_addr c a) @ bs) = a AND 0xffffff"
proof -
  have "a AND 0xffffff = take_bit 24 a" by (simp add: take_bit_eq_mask mask_eq_exp_minus_1)
  moreover have "addr24 (tl (cmd_addr c a) @ bs) = take_bit 24 a"
  proof (rule bit_word_eqI)
    fix n assume n: "n < LENGTH(32)"
    consider "n < 8" | "8 \<le> n" "n < 16" | "16 \<le> n" "n < 24" | "24 \<le> n" by linarith
    then show "bit (addr24 (tl (cmd_addr c a) @ bs)) n = bit (take_bit 24 a) n"
      using n by cases (auto simp: addr24_def cmd_addr_def bit_simps)
  qed
  ultimately show ?thesis by simp
qed

lemma length_cmd_addr [simp]: "length (cmd_addr c a) = 4" "length (tl (cmd_addr c a)) = 3" "drop 3 (tl (cmd_addr c a) @ bs) = bs"
  by (simp_all add: cmd_addr_def)

text \<open>The commands of both drivers, as the chip sees them.\<close>

definition seen :: "nat \<Rightarrow> spi_xfer list \<Rightarrow> chip \<Rightarrow> u8 list \<times> chip" where
  "seen lat xs c = (kept xs (fst (chip_xfer lat (mosi xs) c)), (snd (chip_xfer lat (mosi xs) c))\<lparr>chip_sel := False\<rparr>)"

subsection \<open>w25qxx: the primitive steps\<close>

definition w25_ready :: "nat \<Rightarrow> 'a spi_ctl \<Rightarrow> ('a flash_mach_scheme \<Rightarrow> chip) \<Rightarrow> nat \<Rightarrow> u32 \<Rightarrow> 'a flash_mach_scheme \<Rightarrow> bool" where
  "w25_ready lat ctl view fuel dev s \<longleftrightarrow> flash_bus lat ctl view (w_spi_master (wdev s dev)) (w_cs (wdev s dev))
     \<and> w_sector_sz (wdev s dev) = 0x1000 \<and> chip_busy (view s) \<le> lat \<and> 2 * lat + 2 < fuel"

lemma w25_ready_same:
  "w25_ready lat ctl view fuel dev s \<Longrightarrow> same_ram s t \<Longrightarrow> chip_busy (view t) \<le> lat \<Longrightarrow> w25_ready lat ctl view fuel dev t"
  by (simp add: w25_ready_def same_ram_def)

lemma w25_ready_busy: "w25_ready lat ctl view fuel dev s \<Longrightarrow> chip_busy (view s) \<le> lat"
  by (simp add: w25_ready_def)

lemma w25_send:
  assumes "w25_ready lat ctl view fuel dev s"
  shows "\<exists>t. run_state (spi_send_cmd ctl dev xs) s = ((0, fst (seen lat xs (view s))), t)
    \<and> same_ram s t \<and> view t = snd (seen lat xs (view s))"
  using bus_command [of lat ctl view "w_spi_master (wdev s dev)" "w_cs (wdev s dev)" "w_spi_freq (wdev s dev)" xs s] assms
  by (simp add: spi_send_cmd_def w25_ready_def seen_def Let_def)

lemma seen_status:
  "seen lat [\<lparr>tx_bytes = [RDSR], rx_ofs = 1, rx_len = 1\<rparr>] c = ([chip_status c], c\<lparr>chip_busy := chip_busy c - 1, chip_sel := False\<rparr>)"
  by (simp add: seen_def seg_len_def)

lemma w25_status:
  assumes "w25_ready lat ctl view fuel dev s"
  shows "\<exists>t. run_state (w25qxx_read_status ctl dev) s = (ucast (chip_status (view s)), t) \<and> same_ram s t
    \<and> w25_ready lat ctl view fuel dev t \<and> view t = (view s)\<lparr>chip_busy := chip_busy (view s) - 1, chip_sel := False\<rparr>"
proof -
  obtain t where t: "run_state (spi_send_cmd ctl dev [\<lparr>tx_bytes = [RDSR], rx_ofs = 1, rx_len = 1\<rparr>]) s
      = ((0, [chip_status (view s)]), t)" "same_ram s t"
    "view t = (view s)\<lparr>chip_busy := chip_busy (view s) - 1, chip_sel := False\<rparr>"
    using w25_send [OF assms, where xs = "[\<lparr>tx_bytes = [RDSR], rx_ofs = 1, rx_len = 1\<rparr>]"] unfolding seen_status by auto
  moreover have "w25_ready lat ctl view fuel dev t"
    using w25_ready_same [OF assms t(2)] t(3) w25_ready_busy [OF assms] by simp
  ultimately show ?thesis by (simp add: w25qxx_read_status_def fill_def)
qed

lemma status_valid: "(ucast (b :: u8) :: u32) \<noteq> NOT_VALID"
proof
  assume "(ucast b :: u32) = NOT_VALID"
  then have "unat b = unat (NOT_VALID :: u32)" by (metis unat_byte)
  then show False using unsigned_less [of b, where 'a = nat] by simp
qed

lemma w25_wait:
  "w25_ready lat ctl view fuel dev s \<Longrightarrow> chip_busy (view s) < n \<Longrightarrow>
   \<exists>t. run_state (w25qxx_wait_ready n ctl dev) s = (Inr 0, t) \<and> same_ram s t
     \<and> w25_ready lat ctl view fuel dev t \<and> view t = (view s)\<lparr>chip_busy := 0, chip_sel := False\<rparr>"
proof (induction n arbitrary: s)
  case (Suc n)
  obtain u where u: "run_state (w25qxx_read_status ctl dev) s = (ucast (chip_status (view s)), u)" "same_ram s u"
    "w25_ready lat ctl view fuel dev u" "view u = (view s)\<lparr>chip_busy := chip_busy (view s) - 1, chip_sel := False\<rparr>"
    using w25_status [OF Suc.prems(1)] by blast
  show ?case
  proof (cases "chip_busy (view s) = 0")
    case True
    with u show ?thesis by (simp add: status_valid status_bits)
  next
    case False
    then have "chip_busy (view u) < n" using Suc.prems(2) u(4) by simp
    from Suc.IH [OF u(3) this] u False show ?thesis
      by (auto simp: status_valid status_bits same_ram_def)
  qed
qed simp

text \<open>What a round of write enable does to the chip, and how far it is from its end.\<close>

definition enable_steps :: "nat \<Rightarrow> chip \<Rightarrow> nat" where
  "enable_steps lat c = chip_busy c + (if chip_prot c AND 0xfc = 0 then 0 else lat + 1)"

definition enable_chip :: "nat \<Rightarrow> chip \<Rightarrow> chip" where
  "enable_chip lat c = (let d = c\<lparr>chip_wel := chip_wel c \<or> chip_busy c = 0, chip_busy := chip_busy c - 1, chip_sel := False\<rparr> in
     if chip_prot d AND 0xfc \<noteq> 0 \<and> chip_wel d \<and> chip_busy d = 0
     then d\<lparr>chip_prot := 0, chip_wel := False, chip_busy := lat\<rparr> else d)"

lemma w25_enable_round:
  assumes "w25_ready lat ctl view fuel dev s"
  shows "\<exists>t r. run_state (w25_enable_round ctl dev) s = (Some r, t) \<and> same_ram s t
    \<and> w25_ready lat ctl view fuel dev t \<and> view t = enable_chip lat (view s)
    \<and> (if r = 2 then writable (view t) else enable_steps lat (view t) < enable_steps lat (view s))"
proof -
  have en: "seen lat [xfer_tx [WREN]] c = ([], c\<lparr>chip_wel := chip_wel c \<or> chip_busy c = 0, chip_sel := False\<rparr>)" for c
    by (cases c) (simp add: seen_def seg_len_def xfer_tx_def Let_def)
  have wr: "seen lat [xfer_tx [WRSR, 0, 0]] c = ([], (if chip_busy c = 0 \<and> chip_wel c
      then c\<lparr>chip_prot := 0, chip_wel := False, chip_busy := lat, chip_sel := False\<rparr> else c\<lparr>chip_sel := False\<rparr>))" for c
    by (simp add: seen_def seg_len_def xfer_tx_def Let_def)
  obtain u where u: "run_state (spi_send_cmd ctl dev [xfer_tx [WREN]]) s = ((0, []), u)" "same_ram s u"
    "view u = (view s)\<lparr>chip_wel := chip_wel (view s) \<or> chip_busy (view s) = 0, chip_sel := False\<rparr>"
    using w25_send [OF assms, where xs = "[xfer_tx [WREN]]"] unfolding en by auto
  have ru: "w25_ready lat ctl view fuel dev u"
    using w25_ready_same [OF assms u(2)] u(3) w25_ready_busy [OF assms] by simp
  obtain v where v: "run_state (w25qxx_read_status ctl dev) u = (ucast (chip_status (view u)), v)" "same_ram u v"
    "w25_ready lat ctl view fuel dev v" "view v = (view u)\<lparr>chip_busy := chip_busy (view u) - 1, chip_sel := False\<rparr>"
    using w25_status [OF ru] by blast
  obtain w where w: "run_state (spi_send_cmd ctl dev [xfer_tx [WRSR, 0, 0]]) v = ((0, []), w)" "same_ram v w"
    "view w = (if chip_busy (view v) = 0 \<and> chip_wel (view v)
      then (view v)\<lparr>chip_prot := 0, chip_wel := False, chip_busy := lat, chip_sel := False\<rparr> else (view v)\<lparr>chip_sel := False\<rparr>)"
    using w25_send [OF v(3), where xs = "[xfer_tx [WRSR, 0, 0]]"] unfolding wr fst_conv snd_conv by blast
  have rw: "w25_ready lat ctl view fuel dev w"
    using w25_ready_same [OF v(3) w(2)] w(3) w25_ready_busy [OF v(3)] by simp
  have same: "same_ram s v" "same_ram s w" using u(2) v(2) w(2) by (simp_all add: same_ram_def)
  show ?thesis
  proof (cases "chip_prot (view u) AND 0xfc \<noteq> 0 \<and> chip_wel (view u)")
    case True
    then have "run_state (w25_enable_round ctl dev) s = (Some 0, w)"
      by (simp add: w25_enable_round_def u v w status_valid status_bits)
    moreover have "view w = enable_chip lat (view s)" using True u(3) v(4) w(3) by (simp add: enable_chip_def Let_def)
    moreover have "enable_steps lat (view w) < enable_steps lat (view s)"
      using True u(3) v(4) w(3) by (auto simp: enable_steps_def split: if_splits)
    ultimately show ?thesis using same(2) rw by simp
  next
    case False
    then have "run_state (w25_enable_round ctl dev) s = (Some (ucast (chip_status (view u))), v)"
      by (auto simp: w25_enable_round_def u v status_valid status_bits)
    moreover have "view v = enable_chip lat (view s)" using False u(3) v(4) by (auto simp: enable_chip_def Let_def)
    moreover have "if writable (view u) then writable (view v) else enable_steps lat (view v) < enable_steps lat (view s)"
      using False u(3) v(4) by (auto simp: writable_def enable_steps_def split: if_splits)
    ultimately show ?thesis using same(1) v(3) by (simp add: status_bits)
  qed
qed

lemma enable_chip_cells [simp]: "cells (enable_chip lat c) = cells c"
  by (simp add: enable_chip_def Let_def)

lemma w25_enable:
  "w25_ready lat ctl view fuel dev s \<Longrightarrow> enable_steps lat (view s) < n \<Longrightarrow>
   \<exists>t. run_state (w25qxx_write_enable n ctl dev) s = (Inr 0, t) \<and> same_ram s t
     \<and> w25_ready lat ctl view fuel dev t \<and> writable (view t) \<and> cells (view t) = cells (view s)"
proof (induction n arbitrary: s)
  case (Suc n)
  obtain u r where u: "run_state (w25_enable_round ctl dev) s = (Some r, u)" "same_ram s u"
    "w25_ready lat ctl view fuel dev u" "view u = enable_chip lat (view s)"
    "if r = 2 then writable (view u) else enable_steps lat (view u) < enable_steps lat (view s)"
    using w25_enable_round [OF Suc.prems(1)] by blast
  show ?case
  proof (cases "r = 2")
    case True
    with u show ?thesis by simp
  next
    case False
    then have "enable_steps lat (view u) < n" using u(5) Suc.prems(2) by simp
    from Suc.IH [OF u(3) this] False u show ?thesis by (auto simp: same_ram_def)
  qed
qed simp

lemma enable_steps_fuel: "w25_ready lat ctl view fuel dev s \<Longrightarrow> enable_steps lat (view s) < fuel"
  by (auto simp: w25_ready_def enable_steps_def)

lemma seen_program:
  assumes "writable c" "0 < length bs" "mosi xs = cmd_addr PP a @ bs" "kept xs = (\<lambda>_. [])"
  shows "seen lat xs c = ([], c\<lparr>cells := page_prog ((a AND 0xffffff) AND NOT 0xff) ((a AND 0xffffff) AND 0xff) bs (cells c),
     chip_wel := False, chip_busy := lat, chip_sel := False\<rparr>)"
proof -
  have m: "mosi xs = PP # (tl (cmd_addr PP a) @ bs)" using assms(3) by (simp add: cmd_addr_def)
  have b: "chip_busy c = 0" using assms(1) by (simp add: writable_def)
  have l: "length (tl (cmd_addr PP a) @ bs) > 3" using assms(2) by simp
  show ?thesis
    unfolding seen_def m assms(4) chip_xfer.simps Let_def addr24_cmd
    using assms(1) b l by (simp add: cmd_addr_def)
qed

lemma seen_erase:
  assumes "writable c" "mosi xs = cmd_addr SE a" "kept xs = (\<lambda>_. [])"
  shows "seen lat xs c = ([], c\<lparr>cells := erase_sector (a AND 0xffffff) (cells c),
     chip_wel := False, chip_busy := lat, chip_sel := False\<rparr>)"
proof -
  have m: "mosi xs = SE # (tl (cmd_addr SE a) @ [])" using assms(2) by (simp add: cmd_addr_def)
  have b: "chip_busy c = 0" using assms(1) by (simp add: writable_def)
  show ?thesis
    unfolding seen_def m assms(3) chip_xfer.simps Let_def addr24_cmd
    using assms(1) b by (simp add: cmd_addr_def)
qed

lemma mosi_tx: "mosi [xfer_tx bs] = bs" "kept [xfer_tx bs] = (\<lambda>_. [])"
  "mosi [xfer_tx bs, xfer_tx cs] = bs @ cs" "kept [xfer_tx bs, xfer_tx cs] = (\<lambda>_. [])"
  by (simp_all add: xfer_tx_def seg_len_def fun_eq_iff)

lemma w25_prog:
  assumes "w25_ready lat ctl view fuel dev s" "writable (view s)" "0 < n" "n \<le> (0x100 :: u32)"
  shows "\<exists>t. run_state (w25_page_program ctl dev a d n) s = (0, t) \<and> w25_ready lat ctl view fuel dev t \<and> mem t = mem s
    \<and> cells (view t) = page_prog ((a AND 0xffffff) AND NOT 0xff) ((a AND 0xffffff) AND 0xff)
        (bytes_at (mem s) d (unat n)) (cells (view s))"
proof -
  let ?bs = "bytes_at (mem s) d (unat n)" and ?old = "w_write_buf (wdev s dev)"
  let ?s = "s\<lparr>wdev := (wdev s)(dev := (wdev s dev)\<lparr>w_write_buf := cmd_addr PP a @ ?bs @ drop (4 + unat n) ?old\<rparr>)\<rparr>"
  have vw: "view ?s = view s" using assms(1) by (simp add: w25_ready_def flash_bus_def)
  have rs: "w25_ready lat ctl view fuel dev ?s" using assms(1) vw by (simp add: w25_ready_def)
  have tk: "take (4 + unat n) (cmd_addr PP a @ ?bs @ drop (4 + unat n) ?old) = cmd_addr PP a @ ?bs"
    by simp
  have n: "0 < length ?bs" using assms(3) by (simp add: word_less_nat_alt)
  obtain t where t: "run_state (spi_send_cmd ctl dev [xfer_tx (cmd_addr PP a @ ?bs)]) ?s
      = ((0, fst (seen lat [xfer_tx (cmd_addr PP a @ ?bs)] (view ?s))), t)" "same_ram ?s t"
    "view t = snd (seen lat [xfer_tx (cmd_addr PP a @ ?bs)] (view ?s))"
    using w25_send [OF rs, where xs = "[xfer_tx (cmd_addr PP a @ ?bs)]"] by blast
  note seen = seen_program [OF assms(2) n mosi_tx(1,2), of lat a]
  have "w25_ready lat ctl view fuel dev t"
    by (rule w25_ready_same [OF rs t(2)]) (simp add: t(3) vw seen)
  moreover have "run_state (w25_page_program ctl dev a d n) s = (0, t)"
    using t(1) tk by (simp add: w25_page_program_def)
  ultimately show ?thesis using t(2,3) by (simp add: same_ram_def vw seen)
qed

lemma w25_ers:
  assumes "w25_ready lat ctl view fuel dev s" "writable (view s)"
  shows "\<exists>t. run_state (w25_sector_erase ctl dev a) s = (0, t) \<and> w25_ready lat ctl view fuel dev t \<and> mem t = mem s
    \<and> cells (view t) = erase_sector (a AND 0xffffff) (cells (view s))"
proof -
  obtain t where t: "run_state (spi_send_cmd ctl dev [xfer_tx (cmd_addr SE a)]) s
      = ((0, fst (seen lat [xfer_tx (cmd_addr SE a)] (view s))), t)" "same_ram s t"
    "view t = snd (seen lat [xfer_tx (cmd_addr SE a)] (view s))"
    using w25_send [OF assms(1)] by blast
  note seen = seen_erase [OF assms(2) mosi_tx(1,2), of lat a]
  have "w25_ready lat ctl view fuel dev t"
    by (rule w25_ready_same [OF assms(1) t(2)]) (simp add: t(3) seen)
  then show ?thesis using t by (simp add: w25_sector_erase_def same_ram_def seen)
qed

interpretation w25: nor_driver view mem "w25_ready lat ctl view fuel dev"
  "w25qxx_write_enable fuel ctl dev" "w25qxx_wait_ready fuel ctl dev" "w25_page_program ctl dev"
  "w25_sector_erase ctl dev" "\<lambda>s. w_sector_sz (wdev s dev)" "w25_finish fuel ctl dev"
  for lat view fuel dev and ctl :: "'a spi_ctl"
proof (unfold_locales, goal_cases)
  case (1 s)
  from w25_enable [OF 1 enable_steps_fuel [OF 1]] show ?case by (auto simp: same_ram_def)
next
  case (2 s)
  then have "chip_busy (view s) < fuel" by (auto simp: w25_ready_def)
  from w25_wait [OF 2 this] show ?case by (auto simp: same_ram_def writable_def)
next
  case (3 s a d n)
  then show ?case by (rule w25_prog)
next
  case (4 s a)
  then show ?case by (rule w25_ers)
next
  case (5 s)
  then show ?case by (simp add: w25_ready_def)
next
  case (6 s r)
  then have "chip_busy (view s) < fuel" by (auto simp: w25_ready_def)
  from w25_wait [OF 6 this] show ?case by (auto simp: w25_finish_def ok_or_def same_ram_def)
qed

subsection \<open>fl256s: the primitive steps\<close>

definition fl_ready :: "nat \<Rightarrow> 'a spi_ctl \<Rightarrow> ('a flash_mach_scheme \<Rightarrow> chip) \<Rightarrow> nat \<Rightarrow> u32 \<Rightarrow> 'a flash_mach_scheme \<Rightarrow> bool" where
  "fl_ready lat ctl view fuel dev s \<longleftrightarrow> flash_bus lat ctl view (f_spi_master (fdev s dev)) (f_cs (fdev s dev))
     \<and> f_sector_sz (fdev s dev) = 0x1000 \<and> chip_busy (view s) \<le> lat \<and> 2 * lat + 2 < fuel"

lemma fl_ready_same:
  "fl_ready lat ctl view fuel dev s \<Longrightarrow> same_ram s t \<Longrightarrow> chip_busy (view t) \<le> lat \<Longrightarrow> fl_ready lat ctl view fuel dev t"
  by (simp add: fl_ready_def same_ram_def)

lemma fl_ready_busy: "fl_ready lat ctl view fuel dev s \<Longrightarrow> chip_busy (view s) \<le> lat"
  by (simp add: fl_ready_def)

lemma fl_send:
  assumes "fl_ready lat ctl view fuel dev s" "seen lat xs (view s) = (rx, c)" "chip_busy c \<le> lat"
  shows "\<exists>t. run_state (fl_send_cmd ctl dev xs) s = ((0, rx), t) \<and> same_ram s t
    \<and> fl_ready lat ctl view fuel dev t \<and> view t = c"
  using bus_command [of lat ctl view "f_spi_master (fdev s dev)" "f_cs (fdev s dev)" "f_spi_freq (fdev s dev)" xs s] assms
    fl_ready_same [OF assms(1)]
  by (auto simp: fl_send_cmd_def spi_send_cmd_f_def fl_ready_def seen_def Let_def)

lemma seen_fl:
  "seen lat [xfer_tx [RDSR], xfer_rx (Suc 0)] c = ([chip_status c], c\<lparr>chip_busy := chip_busy c - 1, chip_sel := False\<rparr>)"
  "seen lat [xfer_tx [WREN], xfer_tx []] c = ([], c\<lparr>chip_wel := chip_wel c \<or> chip_busy c = 0, chip_sel := False\<rparr>)"
  "seen lat [xfer_tx [WRDI], xfer_tx []] c = ([], c\<lparr>chip_wel := chip_wel c \<and> chip_busy c > 0, chip_sel := False\<rparr>)"
  "seen lat [xfer_tx [WRSR], xfer_tx [0]] c = ([], (if chip_busy c = 0 \<and> chip_wel c
      then c\<lparr>chip_prot := 0, chip_wel := False, chip_busy := lat, chip_sel := False\<rparr> else c\<lparr>chip_sel := False\<rparr>))"
  by (cases c; simp add: seen_def seg_len_def xfer_tx_def xfer_rx_def Let_def)+

lemma fl_status:
  assumes "fl_ready lat ctl view fuel dev s"
  shows "\<exists>t. run_state (fl256s_read_reg ctl dev RDSR [r]) s = ((1, [chip_status (view s)]), t) \<and> same_ram s t
    \<and> fl_ready lat ctl view fuel dev t \<and> view t = (view s)\<lparr>chip_busy := chip_busy (view s) - 1, chip_sel := False\<rparr>"
proof -
  have "chip_busy (view s) - 1 \<le> lat" using fl_ready_busy [OF assms] by simp
  then show ?thesis
    using fl_send [OF assms seen_fl(1)] by (auto simp: fl256s_read_reg_def fill_def)
qed

lemma fl_write_cmd:
  assumes "fl_ready lat ctl view fuel dev s" "seen lat [xfer_tx [reg], xfer_tx bs] (view s) = ([], c)" "chip_busy c \<le> lat"
  shows "\<exists>t. run_state (fl256s_write_reg ctl dev reg bs) s = (of_nat (length bs), t) \<and> same_ram s t
    \<and> fl_ready lat ctl view fuel dev t \<and> view t = c"
  using fl_send [OF assms] by (auto simp: fl256s_write_reg_def)

lemma fl_wait:
  "fl_ready lat ctl view fuel dev s \<Longrightarrow> chip_busy (view s) < n \<Longrightarrow>
   \<exists>t. run_state (fl_wait_loop n ctl dev r) s = (Inr 0, t) \<and> same_ram s t
     \<and> fl_ready lat ctl view fuel dev t \<and> view t = (view s)\<lparr>chip_busy := 0, chip_sel := False\<rparr>"
proof (induction n arbitrary: s r)
  case (Suc n)
  obtain u where u: "run_state (fl256s_read_reg ctl dev RDSR [r]) s = ((1, [chip_status (view s)]), u)" "same_ram s u"
    "fl_ready lat ctl view fuel dev u" "view u = (view s)\<lparr>chip_busy := chip_busy (view s) - 1, chip_sel := False\<rparr>"
    using fl_status [OF Suc.prems(1)] by blast
  show ?case
  proof (cases "chip_busy (view s) = 0")
    case True
    with u show ?thesis by (simp add: status_bits)
  next
    case False
    then have "chip_busy (view u) < n" using Suc.prems(2) u(4) by simp
    from Suc.IH [OF u(3) this] u False show ?thesis
      by (auto simp: status_bits same_ram_def)
  qed
qed simp

lemma fl_enable_round:
  assumes "fl_ready lat ctl view fuel dev s"
  shows "\<exists>t r. run_state (fl_enable_round ctl dev r0) s = (Some r, t) \<and> same_ram s t
    \<and> fl_ready lat ctl view fuel dev t \<and> view t = enable_chip lat (view s)
    \<and> (if r = 2 then writable (view t) else enable_steps lat (view t) < enable_steps lat (view s))"
proof -
  have b: "chip_busy (view s) \<le> lat" by (rule fl_ready_busy [OF assms])
  obtain u where u: "run_state (fl256s_write_reg ctl dev WREN []) s = (0, u)" "same_ram s u" "fl_ready lat ctl view fuel dev u"
    "view u = (view s)\<lparr>chip_wel := chip_wel (view s) \<or> chip_busy (view s) = 0, chip_sel := False\<rparr>"
    using fl_write_cmd [OF assms seen_fl(2)] b by auto
  obtain v where v: "run_state (fl256s_read_reg ctl dev RDSR [r0]) u = ((1, [chip_status (view u)]), v)" "same_ram u v"
    "fl_ready lat ctl view fuel dev v" "view v = (view u)\<lparr>chip_busy := chip_busy (view u) - 1, chip_sel := False\<rparr>"
    using fl_status [OF u(3)] by blast
  have bw: "chip_busy (if chip_busy (view v) = 0 \<and> chip_wel (view v)
      then (view v)\<lparr>chip_prot := 0, chip_wel := False, chip_busy := lat, chip_sel := False\<rparr> else (view v)\<lparr>chip_sel := False\<rparr>) \<le> lat"
    using fl_ready_busy [OF v(3)] by simp
  obtain w where w: "run_state (fl256s_write_reg ctl dev WRSR [0]) v = (1, w)" "same_ram v w" "fl_ready lat ctl view fuel dev w"
    "view w = (if chip_busy (view v) = 0 \<and> chip_wel (view v)
      then (view v)\<lparr>chip_prot := 0, chip_wel := False, chip_busy := lat, chip_sel := False\<rparr> else (view v)\<lparr>chip_sel := False\<rparr>)"
    using fl_write_cmd [OF v(3) seen_fl(4) bw] by auto
  have same: "same_ram s v" "same_ram s w" using u(2) v(2) w(2) by (simp_all add: same_ram_def)
  show ?thesis
  proof (cases "chip_prot (view u) AND 0xfc \<noteq> 0 \<and> chip_wel (view u)")
    case True
    then have "run_state (fl_enable_round ctl dev r0) s = (Some 0, w)"
      by (simp add: fl_enable_round_def u v w status_bits)
    moreover have "view w = enable_chip lat (view s)" using True u(4) v(4) w(4) by (simp add: enable_chip_def Let_def)
    moreover have "enable_steps lat (view w) < enable_steps lat (view s)"
      using True u(4) v(4) w(4) by (auto simp: enable_steps_def split: if_splits)
    ultimately show ?thesis using same(2) w(3) by simp
  next
    case False
    then have "run_state (fl_enable_round ctl dev r0) s = (Some (chip_status (view u)), v)"
      by (auto simp: fl_enable_round_def u v status_bits)
    moreover have "view v = enable_chip lat (view s)" using False u(4) v(4) by (auto simp: enable_chip_def Let_def)
    moreover have "if writable (view u) then writable (view v) else enable_steps lat (view v) < enable_steps lat (view s)"
      using False u(4) v(4) by (auto simp: writable_def enable_steps_def split: if_splits)
    ultimately show ?thesis using same(1) v(3) by (simp add: status_bits)
  qed
qed

lemma fl_enable:
  "fl_ready lat ctl view fuel dev s \<Longrightarrow> enable_steps lat (view s) < n \<Longrightarrow>
   \<exists>t. run_state (fl_enable_loop n ctl dev r0) s = (Inr 0, t) \<and> same_ram s t
     \<and> fl_ready lat ctl view fuel dev t \<and> writable (view t) \<and> cells (view t) = cells (view s)"
proof (induction n arbitrary: s r0)
  case (Suc n)
  obtain u r where u: "run_state (fl_enable_round ctl dev r0) s = (Some r, u)" "same_ram s u"
    "fl_ready lat ctl view fuel dev u" "view u = enable_chip lat (view s)"
    "if r = 2 then writable (view u) else enable_steps lat (view u) < enable_steps lat (view s)"
    using fl_enable_round [OF Suc.prems(1)] by blast
  show ?case
  proof (cases "r = 2")
    case True
    with u show ?thesis by simp
  next
    case False
    then have "enable_steps lat (view u) < n" using u(5) Suc.prems(2) by simp
    from Suc.IH [OF u(3) this] False u show ?thesis by (auto simp: same_ram_def)
  qed
qed simp

lemma fl_prog:
  assumes "fl_ready lat ctl view fuel dev s" "writable (view s)" "0 < n" "n \<le> (0x100 :: u32)"
  shows "\<exists>t. run_state (fl_page_program ctl dev a d n) s = (0, t) \<and> fl_ready lat ctl view fuel dev t \<and> mem t = mem s
    \<and> cells (view t) = page_prog ((a AND 0xffffff) AND NOT 0xff) ((a AND 0xffffff) AND 0xff)
        (bytes_at (mem s) d (unat n)) (cells (view s))"
proof -
  have n: "0 < length (bytes_at (mem s) d (unat n))" using assms(3) by (simp add: word_less_nat_alt)
  show ?thesis
    using fl_send [OF assms(1) seen_program [OF assms(2) n mosi_tx(3,4), of lat a]]
    by (auto simp: fl_page_program_def same_ram_def)
qed

lemma fl_ers:
  assumes "fl_ready lat ctl view fuel dev s" "writable (view s)"
  shows "\<exists>t. run_state (fl_sector_erase ctl dev a) s = (0, t) \<and> fl_ready lat ctl view fuel dev t \<and> mem t = mem s
    \<and> cells (view t) = erase_sector (a AND 0xffffff) (cells (view s))"
  using fl_send [OF assms(1) seen_erase [OF assms(2) mosi_tx(1,2), of lat a]]
  by (auto simp: fl_sector_erase_def same_ram_def)

lemma fl_wait_ready:
  assumes "fl_ready lat ctl view fuel dev s"
  shows "\<exists>t. run_state (fl256s_wait_ready fuel ctl dev) s = (Inr 0, t) \<and> same_ram s t
     \<and> fl_ready lat ctl view fuel dev t \<and> view t = (view s)\<lparr>chip_busy := 0, chip_sel := False\<rparr>"
proof -
  have "chip_busy (view s) < fuel" using assms by (auto simp: fl_ready_def)
  from fl_wait [OF assms this] show ?thesis by (simp add: fl256s_wait_ready_def)
qed

lemma fl_finish:
  assumes "fl_ready lat ctl view fuel dev s"
  shows "\<exists>t. run_state (fl_finish fuel ctl dev r) s = (Inr r, t) \<and> fl_ready lat ctl view fuel dev t
    \<and> chip_busy (view t) = 0 \<and> cells (view t) = cells (view s) \<and> mem t = mem s"
proof -
  obtain u where u: "run_state (fl256s_wait_ready fuel ctl dev) s = (Inr 0, u)" "same_ram s u"
    "fl_ready lat ctl view fuel dev u" "view u = (view s)\<lparr>chip_busy := 0, chip_sel := False\<rparr>"
    using fl_wait_ready [OF assms] by blast
  obtain v where v: "run_state (fl256s_write_reg ctl dev WRDI []) u = (0, v)" "same_ram u v" "fl_ready lat ctl view fuel dev v"
    "view v = (view u)\<lparr>chip_wel := False, chip_sel := False\<rparr>"
    using fl_write_cmd [OF u(3) seen_fl(3)] u(4) by auto
  obtain w where w: "run_state (fl256s_read_reg ctl dev RDSR [0]) v = ((1, [chip_status (view v)]), w)" "same_ram v w"
    "fl_ready lat ctl view fuel dev w" "view w = (view v)\<lparr>chip_busy := chip_busy (view v) - 1, chip_sel := False\<rparr>"
    using fl_status [OF v(3)] by blast
  obtain k where "fuel = Suc k" using assms by (cases fuel) (auto simp: fl_ready_def)
  then have "run_state (fl256s_write_disable fuel ctl dev) u = (Inr 0, w)"
    by (simp add: fl256s_write_disable_def v w(1) status_bits)
  with u v w show ?thesis by (simp add: fl_finish_def ok_or_def same_ram_def)
qed

interpretation fl: nor_driver view mem "fl_ready lat ctl view fuel dev"
  "fl256s_write_enable fuel ctl dev" "fl256s_wait_ready fuel ctl dev" "fl_page_program ctl dev"
  "fl_sector_erase ctl dev" "\<lambda>s. f_sector_sz (fdev s dev)" "fl_finish fuel ctl dev"
  for lat view fuel dev and ctl :: "'a spi_ctl"
proof (unfold_locales, goal_cases)
  case (1 s)
  have "enable_steps lat (view s) < fuel" using 1 by (auto simp: fl_ready_def enable_steps_def)
  from fl_enable [OF 1 this] show ?case by (auto simp: fl256s_write_enable_def same_ram_def)
next
  case (2 s)
  from fl_wait_ready [OF 2] show ?case by (auto simp: same_ram_def writable_def)
next
  case (3 s a d n)
  then show ?case by (rule fl_prog)
next
  case (4 s a)
  then show ?case by (rule fl_ers)
next
  case (5 s)
  then show ?case by (simp add: fl_ready_def)
next
  case (6 s r)
  then show ?case by (rule fl_finish)
qed

subsection \<open>Reading\<close>

lemma seen_read:
  assumes "chip_busy c = 0" "mosi xs = cmd_addr READ a @ replicate n 0xff" "\<And>m. kept xs m = take n (drop 4 m)"
    and "unat a + n \<le> 2 ^ 24"
  shows "seen lat xs c = (bytes_at (cells c) a n, c\<lparr>chip_sel := False\<rparr>)"
proof -
  have m: "mosi xs = READ # (tl (cmd_addr READ a) @ replicate n 0xff)" using assms(2) by (simp add: cmd_addr_def)
  have ad: "(a AND 0xffffff) + of_nat i AND 0xffffff = a + of_nat i" if "i < n" for i
  proof -
    have "unat a < 2 ^ 24" using that assms(4) by simp
    moreover have "unat (a + of_nat i) = unat a + i"
      using that assms(4) by (simp add: unat_word_ariths unat_of_nat)
    ultimately show ?thesis using low24 [of a] low24 [of "a + of_nat i"] that assms(4) by simp
  qed
  have "kept xs (fst (chip_xfer lat (mosi xs) c)) = map (\<lambda>i. cells c ((a AND 0xffffff) + of_nat i AND 0xffffff)) [0 ..< n]"
    unfolding m assms(3) chip_xfer.simps Let_def addr24_cmd using assms(1) by (simp add: writable_def)
  also have "\<dots> = bytes_at (cells c) a n" using ad by (simp add: bytes_at_def)
  finally have "kept xs (fst (chip_xfer lat (mosi xs) c)) = bytes_at (cells c) a n" .
  moreover have "snd (chip_xfer lat (mosi xs) c) = c"
    unfolding m chip_xfer.simps Let_def using assms(1) by (simp add: writable_def)
  ultimately show ?thesis by (simp add: seen_def)
qed

lemma w25_read_ok:
  assumes "w25_ready lat ctl view fuel dev s" "chip_busy (view s) = 0" "unat a + unat len \<le> 2 ^ 24"
  shows "\<exists>t. run_state (w25qxx_read ctl dev a len data) s = (len, t) \<and> w25_ready lat ctl view fuel dev t
    \<and> cells (view t) = cells (view s) \<and> mem t = put_bytes data (bytes_at (cells (view s)) a (unat len)) (mem s)"
proof -
  let ?xs = "[\<lparr>tx_bytes = cmd_addr READ a, rx_ofs = 4, rx_len = unat len\<rparr>]"
  have "mosi ?xs = cmd_addr READ a @ replicate (unat len) 0xff" by (simp add: seg_len_def)
  then have seen: "seen lat ?xs (view s) = (bytes_at (cells (view s)) a (unat len), (view s)\<lparr>chip_sel := False\<rparr>)"
    by (rule seen_read [OF assms(2)]) (use assms(3) in simp_all)
  obtain t where t: "run_state (spi_send_cmd ctl dev ?xs) s = ((0, bytes_at (cells (view s)) a (unat len)), t)"
    "same_ram s t" "view t = (view s)\<lparr>chip_sel := False\<rparr>"
    using w25_send [OF assms(1), where xs = ?xs] unfolding seen by auto
  let ?t = "t\<lparr>mem := put_bytes data (bytes_at (cells (view s)) a (unat len)) (mem t)\<rparr>"
  have vt: "view ?t = view t" using assms(1) by (simp add: w25_ready_def flash_bus_def)
  have "w25_ready lat ctl view fuel dev t"
    by (rule w25_ready_same [OF assms(1) t(2)]) (simp add: t(3) assms(2))
  then have "w25_ready lat ctl view fuel dev ?t" using vt by (simp add: w25_ready_def)
  with t vt show ?thesis by (simp add: w25qxx_read_def same_ram_def)
qed

lemma fl_read_ok:
  "fl_ready lat ctl view fuel dev s \<Longrightarrow> 0 < len \<Longrightarrow> unat a + unat len \<le> 2 ^ 24 \<Longrightarrow> unat len \<le> n \<Longrightarrow> 0 < first \<Longrightarrow>
   \<exists>t. run_state (fl_read_loop n fuel ctl dev (\<lambda>a k. fl_send_cmd ctl dev [xfer_tx (cmd_addr READ a), xfer_rx (unat k)])
        0x100 a len data first len_orig) s = (Inr len_orig, t)
    \<and> fl_ready lat ctl view fuel dev t \<and> cells (view t) = cells (view s)
    \<and> mem t = put_bytes data (bytes_at (cells (view s)) a (unat len)) (mem s)"
proof (induction n arbitrary: s a len data first)
  case 0
  then show ?case by (simp add: word_less_nat_alt)
next
  case (Suc n)
  define k where "k = (if first < len then first else len)"
  have k: "0 < k" "k \<le> len" using Suc.prems(2,5) by (auto simp: k_def)
  obtain u where u: "run_state (fl256s_wait_ready fuel ctl dev) s = (Inr 0, u)" "same_ram s u"
    "fl_ready lat ctl view fuel dev u" "view u = (view s)\<lparr>chip_busy := 0, chip_sel := False\<rparr>"
    using fl_wait_ready [OF Suc.prems(1)] by blast
  let ?xs = "[xfer_tx (cmd_addr READ a), xfer_rx (unat k)]" and ?bs = "bytes_at (cells (view s)) a (unat k)"
  have mo: "mosi ?xs = cmd_addr READ a @ replicate (unat k) 0xff" "\<And>m. kept ?xs m = take (unat k) (drop 4 m)"
    by (simp_all add: xfer_tx_def xfer_rx_def seg_len_def)
  have ak: "unat a + unat k \<le> 2 ^ 24" using Suc.prems(3) k(2) by (simp add: word_le_nat_alt)
  have "seen lat ?xs (view u) = (?bs, (view u)\<lparr>chip_sel := False\<rparr>)"
    using seen_read [OF _ mo ak, of "view u" lat] u(4) by simp
  then obtain v where v: "run_state (fl_send_cmd ctl dev ?xs) u = ((0, ?bs), v)" "same_ram u v"
    "fl_ready lat ctl view fuel dev v" "view v = (view u)\<lparr>chip_sel := False\<rparr>"
    using fl_send [OF u(3), of ?xs ?bs] u(4) by auto
  let ?w = "v\<lparr>mem := put_bytes data ?bs (mem v)\<rparr>"
  have vw: "view ?w = view v" using Suc.prems(1) by (simp add: fl_ready_def flash_bus_def)
  then have rw: "fl_ready lat ctl view fuel dev ?w" using v(3) by (simp add: fl_ready_def)
  have run: "run_state (fl_read_loop (Suc n) fuel ctl dev (\<lambda>a k. fl_send_cmd ctl dev [xfer_tx (cmd_addr READ a), xfer_rx (unat k)])
        0x100 a len data first len_orig) s
    = run_state (if len - k \<noteq> 0 then fl_read_loop n fuel ctl dev
        (\<lambda>a k. fl_send_cmd ctl dev [xfer_tx (cmd_addr READ a), xfer_rx (unat k)]) 0x100 (a + k) (len - k) (data + k) 0x100 len_orig
      else retE len_orig) ?w"
    by (simp add: u(1) ok_or_def k_def [symmetric] v(1))
  have m: "mem ?w = put_bytes data ?bs (mem s)" "cells (view ?w) = cells (view s)"
    using u(2,4) v(2,4) vw by (simp_all add: same_ram_def)
  show ?case
  proof (cases "len - k = 0")
    case True
    then have "k = len" by simp
    with run rw m show ?thesis by simp
  next
    case False
    have lk: "unat (len - k) = unat len - unat k" using k(2) by (simp add: unat_sub)
    have pos: "0 < len - k" using False word_neq_0_conv by blast
    have ak': "unat (a + k) = unat a + unat k" using ak by (simp add: unat_word_ariths)
    have le: "unat (a + k) + unat (len - k) \<le> 2 ^ 24"
      using ak' lk Suc.prems(3) k(2) by (simp add: word_le_nat_alt)
    have ln: "unat (len - k) \<le> n" using lk k(1) Suc.prems(4) by (simp add: word_less_nat_alt)
    obtain t where t: "run_state (fl_read_loop n fuel ctl dev
        (\<lambda>a k. fl_send_cmd ctl dev [xfer_tx (cmd_addr READ a), xfer_rx (unat k)]) 0x100 (a + k) (len - k) (data + k) 0x100 len_orig) ?w
        = (Inr len_orig, t)" "fl_ready lat ctl view fuel dev t" "cells (view t) = cells (view ?w)"
      "mem t = put_bytes (data + k) (bytes_at (cells (view ?w)) (a + k) (unat (len - k))) (mem ?w)"
      using Suc.IH [OF rw pos le ln, of "0x100" "data + k"] by auto
    have "unat len = unat k + unat (len - k)" using lk k(2) by (simp add: word_le_nat_alt)
    then have "bytes_at (cells (view s)) a (unat len) = ?bs @ bytes_at (cells (view s)) (a + k) (unat (len - k))"
      by (simp only: bytes_at_append) simp
    then have "mem t = put_bytes data (bytes_at (cells (view s)) a (unat len)) (mem s)"
      using t(4) m by (simp add: put_bytes_append)
    with run False t m(2) show ?thesis by simp
  qed
qed

subsection \<open>A sample bus\<close>

record flash_sys = flash_mach +
  the_chip :: chip

text \<open>A chip on line 3 of master 1 whose operations take two polls, first protected and half written.\<close>

definition sample_ctl :: "unit flash_sys_ext spi_ctl" where
  "sample_ctl master c = (case c of
     Mst_sel_dev n \<Rightarrow> do { State_Monad.update (\<lambda>s. s\<lparr>the_chip := (the_chip s)\<lparr>chip_sel := n = 3\<rparr>\<rparr>); State_Monad.return (0, []) }
   | Mst_dsel_dev n \<Rightarrow> do { State_Monad.update (\<lambda>s. s\<lparr>the_chip := (the_chip s)\<lparr>chip_sel := False\<rparr>\<rparr>); State_Monad.return (0, []) }
   | Transfer_polling xs \<Rightarrow> do {
       s \<leftarrow> State_Monad.get;
       State_Monad.update (\<lambda>s. if chip_sel (the_chip s) then s\<lparr>the_chip := snd (chip_xfer 2 (mosi xs) (the_chip s))\<rparr> else s);
       State_Monad.return (0, kept xs (fst (chip_xfer 2 (mosi xs) (the_chip s)))) }
   | _ \<Rightarrow> State_Monad.return (0, []))"

definition flash_sys0 :: flash_sys where
  "flash_sys0 = \<lparr>hist = [], mem = ucast, exc_int_handler_table = [],
     wdev = (\<lambda>_. \<lparr>w_spi_master = 1, w_cs = 3, w_spi_freq = 1000000, w_page_sz = 0x100, w_sector_sz = 0x1000, w_write_buf = replicate 260 0\<rparr>),
     fdev = (\<lambda>_. \<lparr>f_spi_master = 1, f_cs = 3, f_quad_en = 0, f_spi_freq = 1000000, f_page_sz = 0x100, f_sector_sz = 0x1000\<rparr>),
     the_chip = \<lparr>cells = \<lambda>a. ucast a, chip_wel = False, chip_prot = 0x1c, chip_busy = 1, chip_sel = False\<rparr>\<rparr>"

lemma sample_bus: "flash_bus 2 sample_ctl the_chip 1 3"
  by (simp add: flash_bus_def sample_ctl_def split: spi_cmd.split)

lemma sample_flash:
  "w25_ready 2 sample_ctl the_chip 9 0x100 flash_sys0" "fl_ready 2 sample_ctl the_chip 9 0x100 flash_sys0"
  using sample_bus by (simp_all add: w25_ready_def fl_ready_def flash_sys0_def)

subsection \<open>The properties\<close>

text \<open>
  \<open>w25qxx_write\<close> is a program of the range: on a bus that behaves as documented, whatever
  the chip's protection, write-enable and busy state was, a write of \<open>len > 0\<close> bytes inside the
  chip returns \<open>len\<close>, leaves every cell of the range the AND of what it held and the byte of the
  buffer, whatever page boundaries the range crosses, changes no other cell and no byte of memory, and ends with the chip idle.
\<close>

theorem w25_write_programs:
  fixes ctl :: "'a spi_ctl"
  assumes "w25_ready lat ctl view fuel dev s" "0 < len" "unat address + unat len \<le> 2 ^ 24" "unat len \<le> n"
  shows "\<exists>t. run_state (w25qxx_write n fuel ctl dev address len data) s = (Inr len, t)
    \<and> w25_ready lat ctl view fuel dev t \<and> chip_busy (view t) = 0 \<and> mem t = mem s
    \<and> bytes_at (cells (view t)) address (unat len)
        = map2 (AND) (bytes_at (cells (view s)) address (unat len)) (bytes_at (mem s) data (unat len))
    \<and> (\<forall>x. unat x < unat address \<or> unat address + unat len \<le> unat x \<longrightarrow> cells (view t) x = cells (view s) x)"
  unfolding w25qxx_write_def by (rule w25.write_range [OF assms])

lemma w25_write_programs_witness:
  "\<exists>t. run_state (w25qxx_write 300 9 sample_ctl 0x100 0x1fe 300 0x40) flash_sys0 = (Inr 300, t)
     \<and> chip_busy (the_chip t) = 0"
  using w25_write_programs [OF sample_flash(1), of 300 "0x1fe" 300 "0x40"] by auto

text \<open>
  \<open>w25qxx_erase\<close> clears exactly the 4 KiB sectors from the one that holds \<open>address\<close> to the one
  that holds \<open>address + size\<close>, the byte after the range, and returns their number: a range that
  ends at a sector boundary loses the sector after it too. Other cells and the memory keep their values.
\<close>

theorem w25_erase_sectors:
  fixes ctl :: "'a spi_ctl"
  assumes "w25_ready lat ctl view fuel dev s" "unat address + unat len < 2 ^ 24"
    and "i = unat address div 4096" "j = (unat address + unat len) div 4096" "j - i < n"
  shows "\<exists>t. run_state (w25qxx_erase n fuel ctl dev address len) s = (Inr (of_nat (j - i + 1)), t)
    \<and> w25_ready lat ctl view fuel dev t \<and> chip_busy (view t) = 0 \<and> mem t = mem s
    \<and> cells (view t) = (\<lambda>x. if 4096 * i \<le> unat x \<and> unat x < 4096 * (j + 1) then 0xff else cells (view s) x)"
proof -
  have sz: "w_sector_sz (wdev s dev) - 1 = 0xfff" using assms(1) by (simp add: w25_ready_def)
  have run: "run_state (w25qxx_erase n fuel ctl dev address len) s = run_state (flash_erase_loop n
      (w25qxx_write_enable fuel ctl dev) (w25qxx_wait_ready fuel ctl dev) (w25_sector_erase ctl dev)
      (\<lambda>s. w_sector_sz (wdev s dev)) (w25_finish fuel ctl dev) (address AND NOT 0xfff) ((address + len) AND NOT 0xfff) 0) s"
    by (simp add: w25qxx_erase_def sz Let_def)
  show ?thesis unfolding run by (rule w25.erase_range [OF assms])
qed

lemma w25_erase_sectors_witness:
  "\<exists>t. run_state (w25qxx_erase 5 9 sample_ctl 0x100 0x1000 0x1000) flash_sys0 = (Inr 2, t)
     \<and> cells (the_chip t) 0x2000 = 0xff"
proof -
  have 1: "unat (0x1000 :: u32) + unat (0x1000 :: u32) < 2 ^ 24" by simp
  have 2: "1 = unat (0x1000 :: u32) div 4096" "2 = (unat (0x1000 :: u32) + unat (0x1000 :: u32)) div 4096" "2 - 1 < (5 :: nat)"
    by simp_all
  obtain t where t: "run_state (w25qxx_erase 5 9 sample_ctl 0x100 0x1000 0x1000) flash_sys0 = (Inr (of_nat (2 - 1 + 1)), t)"
    "cells (the_chip t) = (\<lambda>x. if 4096 * 1 \<le> unat x \<and> unat x < 4096 * (2 + 1) then 0xff else cells (the_chip flash_sys0) x)"
    using w25_erase_sectors [OF sample_flash(1) 1 2] by blast
  have "cells (the_chip t) 0x2000 = 0xff" unfolding t(2) by simp
  with t(1) show ?thesis by simp
qed

text \<open>
  C39: erase, write, read: on a bus and a chip of 4 KiB sectors that behave as documented, and for a non-empty range in the 24-bit
  address space, erasing the range, writing a buffer to it and
  reading the range into any place of memory all succeed, and the place read into then holds the
  bytes the buffer held; cells outside the erased sectors are as they were.
\<close>

theorem w25_erase_write_read:
  fixes ctl :: "'a spi_ctl"
  assumes "w25_ready lat ctl view fuel dev s" "0 < len" "unat address + unat len < 2 ^ 24"
    and "i = unat address div 4096" "j = (unat address + unat len) div 4096" "j - i < m" "unat len \<le> n"
  shows "\<exists>t. run_state (bindE (w25qxx_erase m fuel ctl dev address len) (\<lambda>_.
        bindE (w25qxx_write n fuel ctl dev address len data) (\<lambda>_.
        liftE (w25qxx_read ctl dev address len dst)))) s = (Inr len, t)
    \<and> bytes_at (mem t) dst (unat len) = bytes_at (mem s) data (unat len)
    \<and> (\<forall>x. unat x < 4096 * i \<or> 4096 * (j + 1) \<le> unat x \<longrightarrow> cells (view t) x = cells (view s) x)"
proof -
  have le: "unat address + unat len \<le> 2 ^ 24" using assms(3) by simp
  have sz: "w_sector_sz (wdev s dev) - 1 = 0xfff" using assms(1) by (simp add: w25_ready_def)
  obtain u where u: "run_state (w25qxx_erase m fuel ctl dev address len) s = (Inr (of_nat (j - i + 1)), u)"
    "w25_ready lat ctl view fuel dev u" "mem u = mem s"
    "cells (view u) = (\<lambda>x. if 4096 * i \<le> unat x \<and> unat x < 4096 * (j + 1) then 0xff else cells (view s) x)"
    using w25.erase_range [OF assms(1,3-6)] by (auto simp: w25qxx_erase_def sz Let_def)
  obtain v where v: "run_state (w25qxx_write n fuel ctl dev address len data) u = (Inr len, v)"
    "w25_ready lat ctl view fuel dev v" "chip_busy (view v) = 0"
    "bytes_at (cells (view v)) address (unat len)
        = map2 (AND) (bytes_at (cells (view u)) address (unat len)) (bytes_at (mem u) data (unat len))"
    "\<forall>x. unat x < unat address \<or> unat address + unat len \<le> unat x \<longrightarrow> cells (view v) x = cells (view u) x"
    unfolding w25qxx_write_def using w25.write_range [OF u(2) assms(2) le assms(7)] by blast
  obtain t where t: "run_state (w25qxx_read ctl dev address len dst) v = (len, t)" "cells (view t) = cells (view v)"
    "mem t = put_bytes dst (bytes_at (cells (view v)) address (unat len)) (mem v)"
    using w25_read_ok [OF v(2,3) le] by blast
  have lb: "length (bytes_at (mem s) data (unat len)) = unat len" by simp
  note rb = read_back [OF assms(3-5) u(4) v(4) [unfolded u(3)] v(5) lb]
  have "bytes_at (mem t) dst (unat len) = bytes_at (mem s) data (unat len)" unfolding t(3) by (rule rb(2))
  with rb(3) u(1) v(1) t(1,2) show ?thesis by simp
qed

lemma w25_erase_write_read_witness:
  "\<exists>t. run_state (bindE (w25qxx_erase 5 9 sample_ctl 0x100 0xf80 0x100) (\<lambda>_.
        bindE (w25qxx_write 300 9 sample_ctl 0x100 0xf80 0x100 0x40) (\<lambda>_.
        liftE (w25qxx_read sample_ctl 0x100 0xf80 0x100 0x4000)))) flash_sys0 = (Inr 0x100, t)
     \<and> bytes_at (mem t) 0x4000 0x100 = map of_nat [0x40 ..< 0x140]"
proof -
  have 0: "0 < (0x100 :: u32)" "unat (0xf80 :: u32) + unat (0x100 :: u32) < 2 ^ 24"
    "0 = unat (0xf80 :: u32) div 4096" "1 = (unat (0xf80 :: u32) + unat (0x100 :: u32)) div 4096" "1 - 0 < (5 :: nat)"
    "unat (0x100 :: u32) \<le> 300"
    by simp_all
  have "bytes_at (mem flash_sys0) 0x40 (unat (0x100 :: u32)) = map of_nat [0x40 ..< 0x140]"
    unfolding flash_sys0_def by code_simp
  with w25_erase_write_read [OF sample_flash(1) 0, of "0x40" "0x4000"] show ?thesis by auto
qed

text \<open>
  C40: the same for the fl256s driver: \<open>fl256s_erase\<close>, \<open>fl256s_write\<close> and \<open>fl256s_read\<close>, which reads
  page by page and polls the chip before each page, and ends the first two with writing disabled.
\<close>

theorem fl_erase_write_read:
  fixes ctl :: "'a spi_ctl"
  assumes "fl_ready lat ctl view fuel dev s" "0 < len" "unat address + unat len < 2 ^ 24"
    and "i = unat address div 4096" "j = (unat address + unat len) div 4096" "j - i < m" "unat len \<le> n"
  shows "\<exists>t. run_state (bindE (fl256s_erase m fuel ctl dev address len) (\<lambda>_.
        bindE (fl256s_write n fuel ctl dev address len data) (\<lambda>_.
        fl256s_read n fuel ctl dev address len dst))) s = (Inr len, t)
    \<and> bytes_at (mem t) dst (unat len) = bytes_at (mem s) data (unat len)
    \<and> (\<forall>x. unat x < 4096 * i \<or> 4096 * (j + 1) \<le> unat x \<longrightarrow> cells (view t) x = cells (view s) x)"
proof -
  have le: "unat address + unat len \<le> 2 ^ 24" using assms(3) by simp
  have sz: "f_sector_sz (fdev s dev) - 1 = 0xfff" using assms(1) by (simp add: fl_ready_def)
  have first: "0 < page_rest 0x100 address"
    using unat_page_base [of address] unat_and_mask [of address] mod_less_divisor [of 256 "unat address"]
    by (simp only: word_less_nat_alt unsigned_0)
  obtain u where u: "run_state (fl256s_erase m fuel ctl dev address len) s = (Inr (of_nat (j - i + 1)), u)"
    "fl_ready lat ctl view fuel dev u" "mem u = mem s"
    "cells (view u) = (\<lambda>x. if 4096 * i \<le> unat x \<and> unat x < 4096 * (j + 1) then 0xff else cells (view s) x)"
    using fl.erase_range [OF assms(1,3-6)] by (auto simp: fl256s_erase_def sz Let_def)
  obtain v where v: "run_state (fl256s_write n fuel ctl dev address len data) u = (Inr len, v)"
    "fl_ready lat ctl view fuel dev v" "chip_busy (view v) = 0"
    "bytes_at (cells (view v)) address (unat len)
        = map2 (AND) (bytes_at (cells (view u)) address (unat len)) (bytes_at (mem u) data (unat len))"
    "\<forall>x. unat x < unat address \<or> unat address + unat len \<le> unat x \<longrightarrow> cells (view v) x = cells (view u) x"
    unfolding fl256s_write_def using fl.write_range [OF u(2) assms(2) le assms(7)] by blast
  obtain t where t: "run_state (fl256s_read n fuel ctl dev address len dst) v = (Inr len, t)" "cells (view t) = cells (view v)"
    "mem t = put_bytes dst (bytes_at (cells (view v)) address (unat len)) (mem v)"
    unfolding fl256s_read_def using fl_read_ok [OF v(2) assms(2) le assms(7) first] by blast
  have lb: "length (bytes_at (mem s) data (unat len)) = unat len" by simp
  note rb = read_back [OF assms(3-5) u(4) v(4) [unfolded u(3)] v(5) lb]
  have "bytes_at (mem t) dst (unat len) = bytes_at (mem s) data (unat len)" unfolding t(3) by (rule rb(2))
  with rb(3) u(1) v(1) t(1,2) show ?thesis by simp
qed

lemma fl_erase_write_read_witness:
  "\<exists>t. run_state (bindE (fl256s_erase 5 9 sample_ctl 0x100 0xf80 0x100) (\<lambda>_.
        bindE (fl256s_write 300 9 sample_ctl 0x100 0xf80 0x100 0x40) (\<lambda>_.
        fl256s_read 300 9 sample_ctl 0x100 0xf80 0x100 0x4000))) flash_sys0 = (Inr 0x100, t)
     \<and> bytes_at (mem t) 0x4000 0x100 = map of_nat [0x40 ..< 0x140]"
proof -
  have 0: "0 < (0x100 :: u32)" "unat (0xf80 :: u32) + unat (0x100 :: u32) < 2 ^ 24"
    "0 = unat (0xf80 :: u32) div 4096" "1 = (unat (0xf80 :: u32) + unat (0x100 :: u32)) div 4096" "1 - 0 < (5 :: nat)"
    "unat (0x100 :: u32) \<le> 300"
    by simp_all
  have "bytes_at (mem flash_sys0) 0x40 (unat (0x100 :: u32)) = map of_nat [0x40 ..< 0x140]"
    unfolding flash_sys0_def by code_simp
  with fl_erase_write_read [OF sample_flash(2) 0, of "0x40" "0x4000"] show ?thesis by auto
qed

end
