(* ===== verification/DwSpi.thy ===== *)
theory DwSpi
  imports DevCommon
begin

section \<open>DesignWare SPI driver (dw_spi.c)\<close>

text \<open>
  The driver of \<open>device/ip/designware/spi/dw_spi.c\<close>. The objects of the driver live in three
  typed heaps indexed by their addresses: \<open>DEV_SPI_INFO\<close>, \<open>DW_SPI_CTRL\<close> and the transfer
  descriptors \<open>DEV_SPI_TRANSFER\<close>, which the driver links, copies and advances in place. The
  descriptor inside an info object is the one at the address \<open>si_xfer\<close>; the local one of the
  write and read calls is at the address given as \<open>loc\<close>. Callbacks are a parameter \<open>cb\<close> that
  may do anything to the state. \<open>fuel\<close> bounds the loops that wait for the hardware and the
  walks along a chain of descriptors, which may be cyclic.
\<close>

subsection \<open>Registers, bits and objects\<close>

abbreviation (input) SPI_CTRLR0 :: u32 where "SPI_CTRLR0 \<equiv> 0x00"
abbreviation (input) SPI_CTRLR1 :: u32 where "SPI_CTRLR1 \<equiv> 0x04"
abbreviation (input) SPI_SSIENR :: u32 where "SPI_SSIENR \<equiv> 0x08"
abbreviation (input) SPI_SER :: u32 where "SPI_SER \<equiv> 0x10"
abbreviation (input) SPI_BAUDR :: u32 where "SPI_BAUDR \<equiv> 0x14"
abbreviation (input) SPI_TXFTLR :: u32 where "SPI_TXFTLR \<equiv> 0x18"
abbreviation (input) SPI_RXFTLR :: u32 where "SPI_RXFTLR \<equiv> 0x1c"
abbreviation (input) SPI_TXFLR :: u32 where "SPI_TXFLR \<equiv> 0x20"
abbreviation (input) SPI_RXFLR :: u32 where "SPI_RXFLR \<equiv> 0x24"
abbreviation (input) SPI_SR :: u32 where "SPI_SR \<equiv> 0x28"
abbreviation (input) SPI_IMR :: u32 where "SPI_IMR \<equiv> 0x2c"
abbreviation (input) SPI_ISR :: u32 where "SPI_ISR \<equiv> 0x30"
abbreviation (input) SPI_ICR :: u32 where "SPI_ICR \<equiv> 0x48"
abbreviation (input) SPI_DATAREG :: u32 where "SPI_DATAREG \<equiv> 0x60"
abbreviation (input) SPI_RX_SAMPLE_DLY :: u32 where "SPI_RX_SAMPLE_DLY \<equiv> 0xf0"
abbreviation (input) SPI_SPI_CTRLR0 :: u32 where "SPI_SPI_CTRLR0 \<equiv> 0xf4"

abbreviation (input) SR_BUSY :: u32 where "SR_BUSY \<equiv> 0x1"
abbreviation (input) SR_TFNF :: u32 where "SR_TFNF \<equiv> 0x2"
abbreviation (input) SR_RFNE :: u32 where "SR_RFNE \<equiv> 0x8"
abbreviation (input) DFS_MASK :: u32 where "DFS_MASK \<equiv> 0xf"
abbreviation (input) SC_MASK :: u32 where "SC_MASK \<equiv> 0xC0"
abbreviation (input) IMR_TXEIM :: u32 where "IMR_TXEIM \<equiv> 0x01"
abbreviation (input) IMR_ERRORS :: u32 where "IMR_ERRORS \<equiv> 0x0e"
abbreviation (input) IMR_XFER :: u32 where "IMR_XFER \<equiv> 0x1f"
abbreviation (input) MIN_FIFO_LENGTH :: u32 where "MIN_FIFO_LENGTH \<equiv> 2"
abbreviation (input) MAX_FIFO_LENGTH :: u32 where "MAX_FIFO_LENGTH \<equiv> 256"

abbreviation (input) DW_SPI_IN_XFER :: u32 where "DW_SPI_IN_XFER \<equiv> 0xe"
abbreviation (input) DW_SPI_IN_TX :: u32 where "DW_SPI_IN_TX \<equiv> 0xa"
abbreviation (input) DW_SPI_IN_RX :: u32 where "DW_SPI_IN_RX \<equiv> 0xc"
abbreviation (input) DW_SPI_GINT_ENABLE :: u32 where "DW_SPI_GINT_ENABLE \<equiv> 0x1"
abbreviation (input) DW_SPI_MASTER_SUPPORTED :: u32 where "DW_SPI_MASTER_SUPPORTED \<equiv> 0x1"
abbreviation (input) DW_SPI_SLAVE_SUPPORTED :: u32 where "DW_SPI_SLAVE_SUPPORTED \<equiv> 0x2"
abbreviation (input) DW_SPI_RDY_SND :: u32 where "DW_SPI_RDY_SND \<equiv> 1"
abbreviation (input) DW_SPI_RDY_RCV :: u32 where "DW_SPI_RDY_RCV \<equiv> 2"
abbreviation (input) DW_SPI_RDY_XFER :: u32 where "DW_SPI_RDY_XFER \<equiv> 3"
abbreviation (input) MASTER_MODE :: u32 where "MASTER_MODE \<equiv> 0"
abbreviation (input) SLAVE_MODE :: u32 where "SLAVE_MODE \<equiv> 1"
abbreviation (input) SPI_CPOL_1_CPHA_1 :: u32 where "SPI_CPOL_1_CPHA_1 \<equiv> 3"
abbreviation (input) SPI_DFS_DEFAULT :: u32 where "SPI_DFS_DEFAULT \<equiv> 8"
abbreviation (input) SPI_SLAVE_NOT_SELECTED :: u8 where "SPI_SLAVE_NOT_SELECTED \<equiv> 0xFF"

text \<open>\<open>DEV_SPI_TRANSFER\<close>\<close>

record dev_spi_transfer =
  x_next :: u32
  x_tot_len :: u32
  x_tx_buf :: u32
  x_tx_ofs :: u32
  x_tx_len :: u32
  x_rx_buf :: u32
  x_rx_ofs :: u32
  x_rx_len :: u32
  x_tx_idx :: u32
  x_tx_totlen :: u32
  x_rx_idx :: u32
  x_rx_totlen :: u32

text \<open>\<open>DW_SPI_TRANSFER\<close>\<close>

record dw_spi_transfer =
  xfer_len :: u32
  t_tx_idx :: u32
  t_rx_idx :: u32
  nbytes :: u32
  tx_xfer :: u32
  rx_xfer :: u32

record dw_spi_ctrl =
  dw_spi_regs :: u32
  support_modes :: u32
  sc_intno :: u32
  dw_apb_bus_freq :: u32
  rx_sampledly :: u32
  sc_tx_fifo_len :: u32
  sc_rx_fifo_len :: u32
  dw_spi_int_handler :: u32
  sc_int_status :: u32
  dw_xfer :: dw_spi_transfer

record dev_spi_info =
  spi_ctrl :: u32
  si_status :: u32
  si_freq :: u32
  si_mode :: u8
  si_clk_mode :: u8
  si_opn_cnt :: u8
  si_slave :: u8
  si_dfs :: u8
  si_xfer :: u32
  si_tx_cb :: u32
  si_rx_cb :: u32
  si_err_cb :: u32
  si_xfer_cb :: u32
  si_extra :: u32
  si_dummy :: u32

record spi_mach = mach +
  sinfo :: "u32 \<Rightarrow> dev_spi_info"
  sctrl :: "u32 \<Rightarrow> dw_spi_ctrl"
  sxfer :: "u32 \<Rightarrow> dev_spi_transfer"

type_synonym ('a, 'r) sop = "('a spi_mach_scheme, 'r) state"
type_synonym 'a spi_callback = "u32 \<Rightarrow> u32 \<Rightarrow> ('a spi_mach_scheme, unit) state"

definition get_sinfo :: "u32 \<Rightarrow> ('a, dev_spi_info) sop" where
  "get_sinfo obj = do { s \<leftarrow> State_Monad.get; State_Monad.return (sinfo s obj) }"

definition get_sctrl :: "u32 \<Rightarrow> ('a, dw_spi_ctrl) sop" where
  "get_sctrl c = do { s \<leftarrow> State_Monad.get; State_Monad.return (sctrl s c) }"

definition get_sxfer :: "u32 \<Rightarrow> ('a, dev_spi_transfer) sop" where
  "get_sxfer x = do { s \<leftarrow> State_Monad.get; State_Monad.return (sxfer s x) }"

definition upd_sinfo :: "u32 \<Rightarrow> (dev_spi_info \<Rightarrow> dev_spi_info) \<Rightarrow> ('a, unit) sop" where
  "upd_sinfo obj f = State_Monad.update (\<lambda>s. s\<lparr>sinfo := (sinfo s)(obj := f (sinfo s obj))\<rparr>)"

definition upd_sctrl :: "u32 \<Rightarrow> (dw_spi_ctrl \<Rightarrow> dw_spi_ctrl) \<Rightarrow> ('a, unit) sop" where
  "upd_sctrl c f = State_Monad.update (\<lambda>s. s\<lparr>sctrl := (sctrl s)(c := f (sctrl s c))\<rparr>)"

definition upd_sxfer :: "u32 \<Rightarrow> (dev_spi_transfer \<Rightarrow> dev_spi_transfer) \<Rightarrow> ('a, unit) sop" where
  "upd_sxfer x f = State_Monad.update (\<lambda>s. s\<lparr>sxfer := (sxfer s)(x := f (sxfer s x))\<rparr>)"

lemma run_spi_heap [simp]:
  "run_state (get_sinfo obj) s = (sinfo s obj, s)"
  "run_state (get_sctrl c) s = (sctrl s c, s)"
  "run_state (get_sxfer x) s = (sxfer s x, s)"
  "run_state (upd_sinfo obj f) s = ((), s\<lparr>sinfo := (sinfo s)(obj := f (sinfo s obj))\<rparr>)"
  "run_state (upd_sctrl c g) s = ((), s\<lparr>sctrl := (sctrl s)(c := g (sctrl s c))\<rparr>)"
  "run_state (upd_sxfer x h) s = ((), s\<lparr>sxfer := (sxfer s)(x := h (sxfer s x))\<rparr>)"
  by (simp_all add: get_sinfo_def get_sctrl_def get_sxfer_def upd_sinfo_def upd_sctrl_def upd_sxfer_def)

lemma wp_spi_heap [wp_rules]:
  "wp (get_sinfo obj) P s = P (sinfo s obj) s"
  "wp (get_sctrl c) Q s = Q (sctrl s c) s"
  "wp (get_sxfer x) T s = T (sxfer s x) s"
  "wp (upd_sinfo obj f) R s = R () (s\<lparr>sinfo := (sinfo s)(obj := f (sinfo s obj))\<rparr>)"
  "wp (upd_sctrl c g) R s = R () (s\<lparr>sctrl := (sctrl s)(c := g (sctrl s c))\<rparr>)"
  "wp (upd_sxfer x h) R s = R () (s\<lparr>sxfer := (sxfer s)(x := h (sxfer s x))\<rparr>)"
  by (simp_all add: wp_def)

text \<open>The control structure and the registers of a device.\<close>

definition spi_regs :: "'a spi_mach_scheme \<Rightarrow> u32 \<Rightarrow> u32" where
  "spi_regs s obj = dw_spi_regs (sctrl s (spi_ctrl (sinfo s obj)))"

definition get_ctrl_of :: "u32 \<Rightarrow> ('a, dw_spi_ctrl) sop" where
  "get_ctrl_of obj = do { i \<leftarrow> get_sinfo obj; get_sctrl (spi_ctrl i) }"

lemma run_get_ctrl_of [simp]:
  "run_state (get_ctrl_of obj) s = (sctrl s (spi_ctrl (sinfo s obj)), s)"
  by (simp add: get_ctrl_of_def)

lemma wp_get_ctrl_of [wp_rules]: "wp (get_ctrl_of obj) Q s = Q (sctrl s (spi_ctrl (sinfo s obj))) s"
  by (simp add: wp_def)

subsection \<open>Register access\<close>

definition dw_spi_disable :: "u32 \<Rightarrow> ('a, unit) op" where
  "dw_spi_disable base = mmio_wr (base + SPI_SSIENR) 0"

definition dw_spi_enable :: "u32 \<Rightarrow> ('a, unit) op" where
  "dw_spi_enable base = mmio_wr (base + SPI_SSIENR) 1"

definition dw_spi_clear_interrupt_all :: "plat \<Rightarrow> u32 \<Rightarrow> ('a, unit) op" where
  "dw_spi_clear_interrupt_all p base = do { _ \<leftarrow> mmio_rd p (base + SPI_ICR); State_Monad.return () }"

definition dw_spi_busy :: "plat \<Rightarrow> u32 \<Rightarrow> ('a, bool) op" where
  "dw_spi_busy p base = do { v \<leftarrow> mmio_rd p (base + SPI_SR); State_Monad.return (v AND SR_BUSY \<noteq> 0) }"

definition dw_spi_putready :: "plat \<Rightarrow> u32 \<Rightarrow> ('a, bool) op" where
  "dw_spi_putready p base = do { v \<leftarrow> mmio_rd p (base + SPI_SR); State_Monad.return (v AND SR_TFNF \<noteq> 0) }"

definition dw_spi_getready :: "plat \<Rightarrow> u32 \<Rightarrow> ('a, bool) op" where
  "dw_spi_getready p base = do { v \<leftarrow> mmio_rd p (base + SPI_SR); State_Monad.return (v AND SR_RFNE \<noteq> 0) }"

definition dw_spi_putdata :: "u32 \<Rightarrow> s32 \<Rightarrow> ('a, unit) op" where
  "dw_spi_putdata base data = mmio_wr (base + SPI_DATAREG) data"

definition dw_spi_getdata :: "plat \<Rightarrow> u32 \<Rightarrow> ('a, s32) op" where
  "dw_spi_getdata p base = mmio_rd p (base + SPI_DATAREG)"

definition dw_spi_rxflr :: "plat \<Rightarrow> u32 \<Rightarrow> ('a, s32) op" where
  "dw_spi_rxflr p base = mmio_rd p (base + SPI_RXFLR)"

definition dw_spi_snd_dat :: "plat \<Rightarrow> u32 \<Rightarrow> s32 \<Rightarrow> ('a, s32) op" where
  "dw_spi_snd_dat p base data = do {
     ready \<leftarrow> dw_spi_putready p base;
     if ready then do { dw_spi_putdata base data; State_Monad.return E_OK } else State_Monad.return E_OBJ
   }"

definition dw_spi_rcv_dat :: "plat \<Rightarrow> u32 \<Rightarrow> ('a, s32) op" where
  "dw_spi_rcv_dat p base = dw_spi_getdata p base"

definition dw_spi_psnd_dat :: "plat \<Rightarrow> nat \<Rightarrow> u32 \<Rightarrow> s32 \<Rightarrow> ('a, unit res) op" where
  "dw_spi_psnd_dat p fuel base data =
     bindE (spin fuel (dw_spi_putready p base)) (\<lambda>_. liftE (dw_spi_putdata base data))"

definition dw_spi_prcv_dat :: "plat \<Rightarrow> nat \<Rightarrow> u32 \<Rightarrow> ('a, s32 res) op" where
  "dw_spi_prcv_dat p fuel base =
     bindE (spin fuel (dw_spi_getready p base)) (\<lambda>_. liftE (dw_spi_getdata p base))"

definition dw_spi_reset_fifo :: "u32 \<Rightarrow> ('a, unit) op" where
  "dw_spi_reset_fifo base = do { dw_spi_disable base; dw_spi_enable base }"

definition dw_spi_unmask_interrupt :: "plat \<Rightarrow> u32 \<Rightarrow> u32 \<Rightarrow> ('a, unit) op" where
  "dw_spi_unmask_interrupt p base m = mmio_or p (base + SPI_IMR) m"

definition dw_spi_mask_interrupt :: "plat \<Rightarrow> u32 \<Rightarrow> u32 \<Rightarrow> ('a, unit) op" where
  "dw_spi_mask_interrupt p base m = mmio_and p (base + SPI_IMR) (NOT m)"

definition dw_spi_set_freq :: "u32 \<Rightarrow> u32 \<Rightarrow> ('a, unit res) sop" where
  "dw_spi_set_freq cp freq =
     bindE (liftE (get_sctrl cp)) (\<lambda>c.
     bindE (liftE (dw_spi_disable (dw_spi_regs c))) (\<lambda>_.
     if freq = 0 then stopE Undef
     else liftE (do {
       mmio_wr (dw_spi_regs c + SPI_BAUDR) (dw_apb_bus_freq c div freq);
       dw_spi_enable (dw_spi_regs c)
     })))"

definition dw_spi_set_dfs :: "plat \<Rightarrow> u32 \<Rightarrow> u32 \<Rightarrow> ('a, s32) op" where
  "dw_spi_set_dfs p base dfs = (
     if dfs \<le> 3 \<or> dfs > 16 then State_Monad.return (- 1)
     else do {
       dw_spi_disable base;
       ctrl0_reg \<leftarrow> mmio_rd p (base + SPI_CTRLR0);
       mmio_wr (base + SPI_CTRLR0) ((ctrl0_reg AND NOT DFS_MASK) OR (dfs - 1));
       dw_spi_enable base;
       State_Monad.return 0
     })"

definition dw_spi_quad_enable :: "plat \<Rightarrow> u32 \<Rightarrow> u32 \<Rightarrow> ('a, unit) op" where
  "dw_spi_quad_enable p base len = do {
     dw_spi_disable base;
     mmio_or p (base + SPI_CTRLR0) (push_bit 21 0x2 OR push_bit 8 0x2);
     mmio_wr (base + SPI_SPI_CTRLR0) (push_bit 11 0x8 OR push_bit 8 0x2 OR push_bit 2 0x6 OR 0);
     mmio_wr (base + SPI_CTRLR1) len;
     dw_spi_enable base
   }"

definition dw_spi_quad_disable :: "plat \<Rightarrow> u32 \<Rightarrow> ('a, unit) op" where
  "dw_spi_quad_disable p base = do {
     dw_spi_disable base;
     mmio_and p (base + SPI_CTRLR0) (NOT (push_bit 21 0x3 OR push_bit 8 0x3));
     mmio_wr (base + SPI_CTRLR1) 0;
     mmio_wr (base + SPI_CTRLR0) 0;
     dw_spi_enable base
   }"

definition dw_spi_select_clockmode :: "u32 \<Rightarrow> u32" where
  "dw_spi_select_clockmode clk_mode = push_bit 6 clk_mode"

definition dw_spi_set_clockmode :: "plat \<Rightarrow> u32 \<Rightarrow> u32 \<Rightarrow> ('a, s32) op" where
  "dw_spi_set_clockmode p base clk_mode = (
     if clk_mode > SPI_CPOL_1_CPHA_1 then State_Monad.return (- 1)
     else do {
       dw_spi_disable base;
       mmio_and p (base + SPI_CTRLR0) (NOT SC_MASK);
       mmio_or p (base + SPI_CTRLR0) (dw_spi_select_clockmode clk_mode);
       dw_spi_enable base;
       State_Monad.return 0
     })"

text \<open>Shifting 1 by 32 or more is undefined.\<close>

definition dw_spi_select_slave :: "plat \<Rightarrow> u32 \<Rightarrow> u32 \<Rightarrow> ('a, s32 res) op" where
  "dw_spi_select_slave p base slv_line =
     bindE (liftE (dw_spi_busy p base)) (\<lambda>busy.
     if busy then retE (- 1)
     else if slv_line \<ge> 32 then stopE Undef
     else liftE (do { mmio_wr (base + SPI_SER) (push_bit (unat slv_line) 1); State_Monad.return 0 }))"

definition dw_spi_deselect_slave :: "plat \<Rightarrow> u32 \<Rightarrow> ('a, s32) op" where
  "dw_spi_deselect_slave p base = do {
     busy \<leftarrow> dw_spi_busy p base;
     if busy then State_Monad.return (- 1)
     else do { mmio_wr (base + SPI_SER) 0; State_Monad.return 0 }
   }"

definition dw_spi_flush_tx :: "u32 \<Rightarrow> ('a, unit) op" where
  "dw_spi_flush_tx base = dw_spi_reset_fifo base"

definition dw_spi_flush_rx :: "u32 \<Rightarrow> ('a, unit) op" where
  "dw_spi_flush_rx base = dw_spi_reset_fifo base"

text \<open>
  The depth of a FIFO: the first threshold the register does not take, from \<open>i\<close> on with \<open>n\<close>
  tries left.
\<close>

primrec fifo_probe :: "nat \<Rightarrow> plat \<Rightarrow> u32 \<Rightarrow> u32 \<Rightarrow> ('a, u32) op" where
  "fifo_probe 0 p reg i = State_Monad.return i"
| "fifo_probe (Suc n) p reg i = do {
     mmio_wr reg i;
     v \<leftarrow> mmio_rd p reg;
     if v \<noteq> i then State_Monad.return i else fifo_probe n p reg (i + 1)
   }"

definition dw_spi_get_txfifo_len :: "plat \<Rightarrow> u32 \<Rightarrow> ('a, u32) op" where
  "dw_spi_get_txfifo_len p base = do {
     fifo_thr_lev_tmp \<leftarrow> mmio_rd p (base + SPI_TXFTLR);
     let left = (if fifo_thr_lev_tmp \<noteq> 0 then fifo_thr_lev_tmp else MIN_FIFO_LENGTH);
     i \<leftarrow> fifo_probe (unat MAX_FIFO_LENGTH + 2 - unat left) p (base + SPI_TXFTLR) left;
     mmio_wr (base + SPI_TXFTLR) fifo_thr_lev_tmp;
     State_Monad.return i
   }"

definition dw_spi_get_rxfifo_len :: "plat \<Rightarrow> u32 \<Rightarrow> ('a, u32) op" where
  "dw_spi_get_rxfifo_len p base = do {
     fifo_thr_lev_tmp \<leftarrow> mmio_rd p (base + SPI_RXFTLR);
     let left = (if fifo_thr_lev_tmp \<noteq> 0 then fifo_thr_lev_tmp else MIN_FIFO_LENGTH);
     i \<leftarrow> fifo_probe (unat MAX_FIFO_LENGTH + 2 - unat left) p (base + SPI_RXFTLR) left;
     mmio_wr (base + SPI_RXFTLR) fifo_thr_lev_tmp;
     State_Monad.return i
   }"

definition dw_spi_hw_init :: "plat \<Rightarrow> u32 \<Rightarrow> u32 \<Rightarrow> u32 \<Rightarrow> ('a, unit) sop" where
  "dw_spi_hw_init p cp clk_mode dfs = do {
     c \<leftarrow> get_sctrl cp;
     let base = dw_spi_regs c;
     dw_spi_disable base;
     _ \<leftarrow> mmio_rd p (base + SPI_ICR);
     mmio_wr (base + SPI_IMR) 0;
     mmio_wr (base + SPI_CTRLR0) (dw_spi_select_clockmode clk_mode OR (dfs - 1));
     mmio_wr (base + SPI_CTRLR1) 0;
     mmio_wr (base + SPI_SER) 0;
     mmio_wr (base + SPI_TXFTLR) 0;
     mmio_wr (base + SPI_RXFTLR) 0;
     mmio_wr (base + SPI_RX_SAMPLE_DLY) (rx_sampledly c);
     dw_spi_enable base
   }"

subsection \<open>Device state and interrupts\<close>

definition dw_spi_enable_device :: "u32 \<Rightarrow> ('a, unit) sop" where
  "dw_spi_enable_device obj = do {
     i \<leftarrow> get_sinfo obj;
     c \<leftarrow> get_ctrl_of obj;
     c_if (si_status i AND DEV_ENABLED = 0) (do {
       dw_spi_enable (dw_spi_regs c);
       upd_sinfo obj (\<lambda>i. i\<lparr>si_status := si_status i OR DEV_ENABLED\<rparr>)
     })
   }"

definition dw_spi_disable_device :: "u32 \<Rightarrow> ('a, unit) sop" where
  "dw_spi_disable_device obj = do {
     c \<leftarrow> get_ctrl_of obj;
     dw_spi_disable (dw_spi_regs c);
     upd_sinfo obj (\<lambda>i. i\<lparr>si_status := si_status i AND NOT DEV_ENABLED\<rparr>)
   }"

text \<open>The transfer state a callback selector stands for; other selectors stand for none.\<close>

definition spi_in_state :: "u32 \<Rightarrow> u32 option" where
  "spi_in_state cbrtn = (
     if cbrtn = DW_SPI_RDY_SND then Some DW_SPI_IN_TX
     else if cbrtn = DW_SPI_RDY_RCV then Some DW_SPI_IN_RX
     else if cbrtn = DW_SPI_RDY_XFER then Some DW_SPI_IN_XFER
     else None)"

definition dw_spi_dis_cbr :: "plat \<Rightarrow> u32 \<Rightarrow> u32 \<Rightarrow> ('a, s32) sop" where
  "dw_spi_dis_cbr p obj cbrtn = do {
     i \<leftarrow> get_sinfo obj;
     let cp = spi_ctrl i;
     let st = si_status i AND DW_SPI_IN_XFER;
     if st \<noteq> 0 \<and> (case spi_in_state cbrtn of None \<Rightarrow> False | Some f \<Rightarrow> st \<noteq> f) then State_Monad.return E_CTX
     else do {
       c_if (st \<noteq> 0) (case spi_in_state cbrtn of None \<Rightarrow> State_Monad.return ()
         | Some f \<Rightarrow> upd_sinfo obj (\<lambda>i. i\<lparr>si_status := si_status i AND NOT f\<rparr>));
       c \<leftarrow> get_sctrl cp;
       dw_spi_mask_interrupt p (dw_spi_regs c) IMR_XFER;
       c_if (sc_int_status c AND DW_SPI_GINT_ENABLE \<noteq> 0) (do {
         c_if (sc_intno c \<noteq> DEV_INTNO_INVALID)
           (do { _ \<leftarrow> int_disable p (sc_intno c); State_Monad.return () });
         upd_sctrl cp (\<lambda>c. c\<lparr>sc_int_status := sc_int_status c AND NOT DW_SPI_GINT_ENABLE\<rparr>)
       });
       State_Monad.return E_OK
     }
   }"

definition dw_spi_ena_cbr :: "plat \<Rightarrow> u32 \<Rightarrow> u32 \<Rightarrow> ('a, s32) sop" where
  "dw_spi_ena_cbr p obj cbrtn = do {
     i \<leftarrow> get_sinfo obj;
     let cp = spi_ctrl i;
     if si_status i AND DW_SPI_IN_XFER \<noteq> 0 then State_Monad.return E_CTX
     else do {
       (case spi_in_state cbrtn of None \<Rightarrow> State_Monad.return ()
         | Some f \<Rightarrow> upd_sinfo obj (\<lambda>i. i\<lparr>si_status := si_status i OR f\<rparr>));
       c \<leftarrow> get_sctrl cp;
       dw_spi_unmask_interrupt p (dw_spi_regs c) IMR_XFER;
       c_if (sc_int_status c AND DW_SPI_GINT_ENABLE = 0) (do {
         upd_sctrl cp (\<lambda>c. c\<lparr>sc_int_status := sc_int_status c OR DW_SPI_GINT_ENABLE\<rparr>);
         c_if (sc_intno c \<noteq> DEV_INTNO_INVALID)
           (do { _ \<leftarrow> int_enable p (sc_intno c); State_Monad.return () })
       });
       State_Monad.return E_OK
     }
   }"

definition dw_spi_enable_interrupt :: "plat \<Rightarrow> u32 \<Rightarrow> ('a, unit) sop" where
  "dw_spi_enable_interrupt p obj = do {
     i \<leftarrow> get_sinfo obj;
     let cp = spi_ctrl i;
     c \<leftarrow> get_sctrl cp;
     if sc_intno c \<noteq> DEV_INTNO_INVALID then do {
       _ \<leftarrow> int_handler_install p (sc_intno c) (dw_spi_int_handler c);
       upd_sctrl cp (\<lambda>c. c\<lparr>sc_int_status := sc_int_status c OR DW_SPI_GINT_ENABLE\<rparr>);
       _ \<leftarrow> int_enable p (sc_intno c);
       State_Monad.return ()
     } else upd_sctrl cp (\<lambda>c. c\<lparr>sc_int_status := sc_int_status c OR DW_SPI_GINT_ENABLE\<rparr>)
   }"

definition dw_spi_disable_interrupt :: "plat \<Rightarrow> u32 \<Rightarrow> ('a, unit) sop" where
  "dw_spi_disable_interrupt p obj = do {
     _ \<leftarrow> dw_spi_dis_cbr p obj DW_SPI_RDY_SND;
     _ \<leftarrow> dw_spi_dis_cbr p obj DW_SPI_RDY_RCV;
     _ \<leftarrow> dw_spi_dis_cbr p obj DW_SPI_RDY_XFER;
     i \<leftarrow> get_sinfo obj;
     let cp = spi_ctrl i;
     c \<leftarrow> get_sctrl cp;
     dw_spi_mask_interrupt p (dw_spi_regs c) IMR_XFER;
     upd_sinfo obj (\<lambda>i. i\<lparr>si_status := si_status i AND NOT DW_SPI_IN_XFER\<rparr>);
     c_if (sc_intno c \<noteq> DEV_INTNO_INVALID)
       (do { _ \<leftarrow> int_disable p (sc_intno c); State_Monad.return () });
     upd_sctrl cp (\<lambda>c. c\<lparr>sc_int_status := sc_int_status c AND NOT DW_SPI_GINT_ENABLE\<rparr>)
   }"

definition dw_spi_reset_device :: "plat \<Rightarrow> u32 \<Rightarrow> ('a, unit) sop" where
  "dw_spi_reset_device p obj = do {
     c \<leftarrow> get_ctrl_of obj;
     dw_spi_disable_device obj;
     dw_spi_disable_interrupt p obj;
     dw_spi_clear_interrupt_all p (dw_spi_regs c);
     dw_spi_enable_device obj
   }"

definition dw_spi_abort_tx :: "plat \<Rightarrow> 'a spi_callback \<Rightarrow> u32 \<Rightarrow> ('a, s32) sop" where
  "dw_spi_abort_tx p cb obj = do {
     i \<leftarrow> get_sinfo obj;
     if si_status i AND DW_SPI_IN_XFER = 0 then State_Monad.return E_OK
     else if si_status i AND DW_SPI_IN_XFER \<noteq> DW_SPI_IN_TX then State_Monad.return E_CTX
     else do {
       _ \<leftarrow> dw_spi_dis_cbr p obj DW_SPI_RDY_SND;
       upd_sinfo obj (\<lambda>i. i\<lparr>si_status := si_status i OR DEV_IN_TX_ABRT\<rparr>);
       i \<leftarrow> get_sinfo obj;
       c_if (si_tx_cb i \<noteq> 0) (cb (si_tx_cb i) obj);
       upd_sinfo obj (\<lambda>i. i\<lparr>si_status := si_status i AND NOT DEV_IN_TX_ABRT\<rparr>);
       State_Monad.return E_OK
     }
   }"

definition dw_spi_abort_rx :: "plat \<Rightarrow> 'a spi_callback \<Rightarrow> u32 \<Rightarrow> ('a, s32) sop" where
  "dw_spi_abort_rx p cb obj = do {
     i \<leftarrow> get_sinfo obj;
     if si_status i AND DW_SPI_IN_XFER = 0 then State_Monad.return E_OK
     else if si_status i AND DW_SPI_IN_XFER \<noteq> DW_SPI_IN_RX then State_Monad.return E_CTX
     else do {
       _ \<leftarrow> dw_spi_dis_cbr p obj DW_SPI_RDY_RCV;
       upd_sinfo obj (\<lambda>i. i\<lparr>si_status := si_status i OR DEV_IN_RX_ABRT\<rparr>);
       i \<leftarrow> get_sinfo obj;
       c_if (si_rx_cb i \<noteq> 0) (cb (si_rx_cb i) obj);
       upd_sinfo obj (\<lambda>i. i\<lparr>si_status := si_status i AND NOT DEV_IN_RX_ABRT\<rparr>);
       State_Monad.return E_OK
     }
   }"

definition dw_spi_abort_xfer :: "plat \<Rightarrow> 'a spi_callback \<Rightarrow> u32 \<Rightarrow> ('a, s32) sop" where
  "dw_spi_abort_xfer p cb obj = do {
     i \<leftarrow> get_sinfo obj;
     if si_status i AND DW_SPI_IN_XFER = 0 then State_Monad.return E_OK
     else if si_status i AND DW_SPI_IN_XFER \<noteq> DW_SPI_IN_XFER then State_Monad.return E_CTX
     else do {
       _ \<leftarrow> dw_spi_dis_cbr p obj DW_SPI_RDY_XFER;
       upd_sinfo obj (\<lambda>i. i\<lparr>si_status := si_status i OR DEV_IN_XFER_ABRT\<rparr>);
       i \<leftarrow> get_sinfo obj;
       c_if (si_xfer_cb i \<noteq> 0) (cb (si_xfer_cb i) obj);
       upd_sinfo obj (\<lambda>i. i\<lparr>si_status := si_status i AND NOT DEV_IN_XFER_ABRT\<rparr>);
       State_Monad.return E_OK
     }
   }"

subsection \<open>The transfer engine\<close>

definition dw_spi_get_txavail :: "plat \<Rightarrow> u32 \<Rightarrow> ('a, s32) sop" where
  "dw_spi_get_txavail p cp = do {
     c \<leftarrow> get_sctrl cp;
     if sc_tx_fifo_len c \<le> 1 then do {
       ready \<leftarrow> dw_spi_putready p (dw_spi_regs c);
       State_Monad.return (c_bool ready)
     } else do {
       level \<leftarrow> mmio_rd p (dw_spi_regs c + SPI_TXFLR);
       State_Monad.return (sc_tx_fifo_len c - level)
     }
   }"

definition dw_spi_get_rxavail :: "plat \<Rightarrow> u32 \<Rightarrow> ('a, s32) sop" where
  "dw_spi_get_rxavail p cp = do {
     c \<leftarrow> get_sctrl cp;
     if sc_rx_fifo_len c \<le> 1 then do {
       ready \<leftarrow> dw_spi_getready p (dw_spi_regs c);
       State_Monad.return (c_bool ready)
     } else mmio_rd p (dw_spi_regs c + SPI_RXFLR)
   }"

text \<open>A frame size of 0 bytes, which no started transfer has, would be a division by zero.\<close>

definition dw_spi_tx_max :: "plat \<Rightarrow> u32 \<Rightarrow> ('a, u32 res) sop" where
  "dw_spi_tx_max p cp = do {
     c \<leftarrow> get_sctrl cp;
     let xfer = dw_xfer c;
     if nbytes xfer = 0 then stopE Undef
     else let tx_left = (xfer_len xfer - t_tx_idx xfer) div nbytes xfer in
       liftE (do {
         tx_room \<leftarrow> dw_spi_get_txavail p cp;
         State_Monad.return (if tx_left < tx_room then tx_left else tx_room)
       })
   }"

definition dw_spi_rx_max :: "plat \<Rightarrow> u32 \<Rightarrow> ('a, u32 res) sop" where
  "dw_spi_rx_max p cp = do {
     c \<leftarrow> get_sctrl cp;
     let xfer = dw_xfer c;
     if nbytes xfer = 0 then stopE Undef
     else let rx_left = (xfer_len xfer - t_rx_idx xfer) div nbytes xfer in
       liftE (do {
         rx_room \<leftarrow> dw_spi_get_rxavail p cp;
         State_Monad.return (if rx_left < rx_room then rx_left else rx_room)
       })
   }"

definition dw_spi_rx_end :: "dw_spi_transfer \<Rightarrow> bool" where
  "dw_spi_rx_end xfer \<longleftrightarrow> t_rx_idx xfer \<ge> xfer_len xfer"

definition dw_spi_tx_end :: "dw_spi_transfer \<Rightarrow> bool" where
  "dw_spi_tx_end xfer \<longleftrightarrow> t_tx_idx xfer \<ge> xfer_len xfer"

definition dw_spi_xfer_end :: "dw_spi_transfer \<Rightarrow> bool" where
  "dw_spi_xfer_end xfer \<longleftrightarrow> dw_spi_tx_end xfer \<and> dw_spi_rx_end xfer"

definition upd_dw_xfer :: "u32 \<Rightarrow> (dw_spi_transfer \<Rightarrow> dw_spi_transfer) \<Rightarrow> ('a, unit) sop" where
  "upd_dw_xfer cp f = upd_sctrl cp (\<lambda>c. c\<lparr>dw_xfer := f (dw_xfer c)\<rparr>)"

text \<open>The next frame a descriptor sends: from its buffer inside the window, the dummy outside.\<close>

definition spi_tx_word :: "(u32 \<Rightarrow> u8) \<Rightarrow> u32 \<Rightarrow> u32 \<Rightarrow> dev_spi_transfer \<Rightarrow> s32" where
  "spi_tx_word m nb dummy x = (
     if x_tx_idx x \<ge> x_tx_ofs x \<and> x_tx_idx x < x_tx_totlen x then
       (if nb = 1 then scast (m (x_tx_buf x)) else scast (get16 m (x_tx_buf x)))
     else dummy)"

definition spi_tx_step :: "u32 \<Rightarrow> dev_spi_transfer \<Rightarrow> dev_spi_transfer" where
  "spi_tx_step nb x = x\<lparr>
     x_tx_buf := (if x_tx_idx x \<ge> x_tx_ofs x \<and> x_tx_idx x < x_tx_totlen x then x_tx_buf x + nb else x_tx_buf x),
     x_tx_idx := x_tx_idx x + nb\<rparr>"

text \<open>The \<open>while (tx_max)\<close> loop of \<open>dw_spi_writer\<close>; the value is the count left over.\<close>

primrec writer_loop :: "nat \<Rightarrow> u32 \<Rightarrow> ('a, nat) sop" where
  "writer_loop 0 obj = State_Monad.return 0"
| "writer_loop (Suc n) obj = do {
     i \<leftarrow> get_sinfo obj;
     let cp = spi_ctrl i;
     c \<leftarrow> get_sctrl cp;
     x \<leftarrow> get_sxfer (tx_xfer (dw_xfer c));
     c_if (x_tx_idx x \<ge> x_tot_len x) (upd_dw_xfer cp (\<lambda>d. d\<lparr>tx_xfer := x_next x\<rparr>));
     c \<leftarrow> get_sctrl cp;
     if tx_xfer (dw_xfer c) = 0 then State_Monad.return (Suc n)
     else do {
       s \<leftarrow> State_Monad.get;
       let nb = nbytes (dw_xfer c);
       let x = sxfer s (tx_xfer (dw_xfer c));
       upd_sxfer (tx_xfer (dw_xfer c)) (spi_tx_step nb);
       dw_spi_putdata (dw_spi_regs c) (spi_tx_word (mem s) nb (si_dummy i) x);
       upd_dw_xfer cp (\<lambda>d. d\<lparr>t_tx_idx := t_tx_idx d + nb\<rparr>);
       writer_loop n obj
     }
   }"

definition dw_spi_writer :: "plat \<Rightarrow> u32 \<Rightarrow> ('a, s32 res) sop" where
  "dw_spi_writer p obj = do {
     i \<leftarrow> get_sinfo obj;
     let cp = spi_ctrl i;
     bindE (dw_spi_tx_max p cp) (\<lambda>tx_max. do {
       c \<leftarrow> get_sctrl cp;
       if tx_xfer (dw_xfer c) = 0 then retE 0
       else liftE (do {
         left \<leftarrow> writer_loop (unat tx_max) obj;
         c \<leftarrow> get_sctrl cp;
         State_Monad.return ((tx_max - of_nat left) * nbytes (dw_xfer c))
       })
     })
   }"

text \<open>What a received frame does to the memory and to its descriptor.\<close>

definition spi_rx_store :: "u32 \<Rightarrow> s32 \<Rightarrow> dev_spi_transfer \<Rightarrow> (u32 \<Rightarrow> u8) \<Rightarrow> (u32 \<Rightarrow> u8)" where
  "spi_rx_store nb rx_w x m = (
     if x_rx_idx x \<ge> x_rx_ofs x \<and> x_rx_idx x < x_rx_totlen x then
       (if nb = 1 then m(x_rx_buf x := ucast rx_w) else put16 (x_rx_buf x) (ucast rx_w) m)
     else m)"

definition spi_rx_step :: "u32 \<Rightarrow> dev_spi_transfer \<Rightarrow> dev_spi_transfer" where
  "spi_rx_step nb x = x\<lparr>
     x_rx_buf := (if x_rx_idx x \<ge> x_rx_ofs x \<and> x_rx_idx x < x_rx_totlen x then x_rx_buf x + nb else x_rx_buf x),
     x_rx_idx := x_rx_idx x + nb\<rparr>"

primrec reader_loop :: "nat \<Rightarrow> plat \<Rightarrow> u32 \<Rightarrow> ('a, nat) sop" where
  "reader_loop 0 p obj = State_Monad.return 0"
| "reader_loop (Suc n) p obj = do {
     i \<leftarrow> get_sinfo obj;
     let cp = spi_ctrl i;
     c \<leftarrow> get_sctrl cp;
     x \<leftarrow> get_sxfer (rx_xfer (dw_xfer c));
     c_if (x_rx_idx x \<ge> x_tot_len x) (upd_dw_xfer cp (\<lambda>d. d\<lparr>rx_xfer := x_next x\<rparr>));
     c \<leftarrow> get_sctrl cp;
     if rx_xfer (dw_xfer c) = 0 then State_Monad.return (Suc n)
     else do {
       rx_w \<leftarrow> dw_spi_getdata p (dw_spi_regs c);
       x \<leftarrow> get_sxfer (rx_xfer (dw_xfer c));
       let nb = nbytes (dw_xfer c);
       State_Monad.update (\<lambda>s. s\<lparr>mem := spi_rx_store nb rx_w x (mem s)\<rparr>);
       upd_sxfer (rx_xfer (dw_xfer c)) (spi_rx_step nb);
       upd_dw_xfer cp (\<lambda>d. d\<lparr>t_rx_idx := t_rx_idx d + nb\<rparr>);
       reader_loop n p obj
     }
   }"

definition dw_spi_reader :: "plat \<Rightarrow> u32 \<Rightarrow> ('a, s32 res) sop" where
  "dw_spi_reader p obj = do {
     i \<leftarrow> get_sinfo obj;
     let cp = spi_ctrl i;
     bindE (dw_spi_rx_max p cp) (\<lambda>rx_max. do {
       c \<leftarrow> get_sctrl cp;
       if rx_xfer (dw_xfer c) = 0 then retE 0
       else liftE (do {
         left \<leftarrow> reader_loop (unat rx_max) p obj;
         c \<leftarrow> get_sctrl cp;
         State_Monad.return ((rx_max - of_nat left) * nbytes (dw_xfer c))
       })
     })
   }"

definition dw_spi_nbytes :: "u32 \<Rightarrow> u32" where
  "dw_spi_nbytes dfs = (if dfs > 8 then 2 else 1)"

text \<open>\<open>DEV_SPI_XFER_INIT\<close> and the other macros that set up a descriptor.\<close>

definition DEV_SPI_XFER_SET_TXBUF :: "u32 \<Rightarrow> u32 \<Rightarrow> u32 \<Rightarrow> dev_spi_transfer \<Rightarrow> dev_spi_transfer" where
  "DEV_SPI_XFER_SET_TXBUF b off len x =
     x\<lparr>x_tx_buf := b, x_tx_len := len, x_tx_ofs := off, x_tx_idx := 0, x_tx_totlen := len + off\<rparr>"

definition DEV_SPI_XFER_SET_RXBUF :: "u32 \<Rightarrow> u32 \<Rightarrow> u32 \<Rightarrow> dev_spi_transfer \<Rightarrow> dev_spi_transfer" where
  "DEV_SPI_XFER_SET_RXBUF b off len x =
     x\<lparr>x_rx_buf := b, x_rx_len := len, x_rx_ofs := off, x_rx_idx := 0, x_rx_totlen := len + off\<rparr>"

definition DEV_SPI_XFER_SET_NEXT :: "u32 \<Rightarrow> dev_spi_transfer \<Rightarrow> dev_spi_transfer" where
  "DEV_SPI_XFER_SET_NEXT next_xfer x = x\<lparr>x_next := next_xfer\<rparr>"

definition DEV_SPI_XFER_CALC_TOTLEN :: "dev_spi_transfer \<Rightarrow> dev_spi_transfer" where
  "DEV_SPI_XFER_CALC_TOTLEN x =
     x\<lparr>x_tot_len := (if x_tx_totlen x > x_rx_totlen x then x_tx_totlen x else x_rx_totlen x)\<rparr>"

definition DEV_SPI_XFER_INIT :: "dev_spi_transfer \<Rightarrow> dev_spi_transfer" where
  "DEV_SPI_XFER_INIT x = DEV_SPI_XFER_CALC_TOTLEN
     (x\<lparr>x_tx_idx := 0, x_rx_idx := 0, x_tx_totlen := x_tx_len x + x_tx_ofs x,
       x_rx_totlen := x_rx_len x + x_rx_ofs x\<rparr>)"

text \<open>The loop of \<open>dw_spi_init_transfer\<close> over the chain; the value is the total length.\<close>

primrec init_chain :: "nat \<Rightarrow> u32 \<Rightarrow> u32 \<Rightarrow> ('a, u32 res) sop" where
  "init_chain 0 xfer tot_len = (if xfer = 0 then retE tot_len else stopE Hang)"
| "init_chain (Suc n) xfer tot_len = (
     if xfer = 0 then retE tot_len
     else do {
       upd_sxfer xfer DEV_SPI_XFER_INIT;
       x \<leftarrow> get_sxfer xfer;
       init_chain n (x_next x) (tot_len + x_tot_len x)
     })"

definition dw_spi_init_transfer :: "nat \<Rightarrow> u32 \<Rightarrow> u32 \<Rightarrow> u32 \<Rightarrow> ('a, unit res) sop" where
  "dw_spi_init_transfer fuel cp xfer dfs =
     bindE (liftE (upd_dw_xfer cp (\<lambda>d. d\<lparr>tx_xfer := xfer, rx_xfer := xfer, t_tx_idx := 0, t_rx_idx := 0,
       nbytes := dw_spi_nbytes dfs\<rparr>))) (\<lambda>_.
     bindE (init_chain fuel xfer 0) (\<lambda>tot_len.
     liftE (upd_dw_xfer cp (\<lambda>d. d\<lparr>xfer_len := tot_len\<rparr>))))"

text \<open>\<open>CHECK_ALIGN_BYTES(ptr, 2)\<close>, and the test of one descriptor.\<close>

definition aligned2 :: "u32 \<Rightarrow> bool" where
  "aligned2 ptr \<longleftrightarrow> ptr AND 1 = 0"

definition xfer_aligned2 :: "dev_spi_transfer \<Rightarrow> bool" where
  "xfer_aligned2 x \<longleftrightarrow>
     (x_tx_len x \<noteq> 0 \<longrightarrow> x_tx_len x mod 2 = 0 \<and> x_tx_ofs x mod 2 = 0 \<and> aligned2 (x_tx_buf x))
     \<and> (x_rx_len x \<noteq> 0 \<longrightarrow> x_rx_len x mod 2 = 0 \<and> x_rx_ofs x mod 2 = 0 \<and> aligned2 (x_rx_buf x))"

primrec chk_chain :: "nat \<Rightarrow> u32 \<Rightarrow> ('a, s32 res) sop" where
  "chk_chain 0 xfer = (if xfer = 0 then retE 0 else stopE Hang)"
| "chk_chain (Suc n) xfer = (
     if xfer = 0 then retE 0
     else do {
       x \<leftarrow> get_sxfer xfer;
       if \<not> xfer_aligned2 x then retE (- 1) else chk_chain n (x_next x)
     })"

definition dw_spi_chk_xfer_aligned :: "nat \<Rightarrow> u32 \<Rightarrow> u32 \<Rightarrow> ('a, s32 res) sop" where
  "dw_spi_chk_xfer_aligned fuel xfer dfs = (
     if xfer = 0 then retE (- 1)
     else if dfs > 8 then chk_chain fuel xfer
     else retE 0)"

text \<open>The polling loop, with \<open>fuel\<close> rounds; \<open>len\<close> adds up the bytes in and out.\<close>

primrec spi_poll_loop :: "nat \<Rightarrow> plat \<Rightarrow> u32 \<Rightarrow> u32 \<Rightarrow> ('a, u32 res) sop" where
  "spi_poll_loop 0 p obj len = do {
     c \<leftarrow> get_ctrl_of obj;
     if dw_spi_xfer_end (dw_xfer c) then retE len else stopE Hang
   }"
| "spi_poll_loop (Suc fuel) p obj len = do {
     c \<leftarrow> get_ctrl_of obj;
     if dw_spi_xfer_end (dw_xfer c) then retE len
     else bindE (dw_spi_writer p obj) (\<lambda>w. bindE (dw_spi_reader p obj) (\<lambda>r.
          spi_poll_loop fuel p obj (len + w + r)))
   }"

definition dw_spi_poll_transfer :: "plat \<Rightarrow> nat \<Rightarrow> u32 \<Rightarrow> ('a, u32 res) sop" where
  "dw_spi_poll_transfer p fuel obj =
     bindE (liftE (upd_sinfo obj (\<lambda>i. i\<lparr>si_status := si_status i OR DEV_IN_XFER\<rparr>))) (\<lambda>_.
     bindE (spi_poll_loop fuel p obj 0) (\<lambda>len.
     liftE (do {
       upd_sinfo obj (\<lambda>i. i\<lparr>si_status := si_status i AND NOT DEV_IN_XFER\<rparr>);
       State_Monad.return (drop_bit 1 len)
     })))"

subsection \<open>Quad read\<close>

text \<open>
  \<open>DEV_SPI_PAK\<close> is read where the code reads it: the command byte at the pointer, the address at offset 4,
  the data pointer at offset 8 and the length at offset 12. \<open>quad_drain\<close> is the inner loop.
\<close>

primrec quad_drain :: "nat \<Rightarrow> plat \<Rightarrow> u32 \<Rightarrow> u32 \<Rightarrow> u32 \<Rightarrow> ('a, u32 res) op" where
  "quad_drain 0 p base pak len = stopE Hang"
| "quad_drain (Suc n) p base pak len = do {
     level \<leftarrow> dw_spi_rxflr p base;
     if level = 0 then retE len
     else do {
       dst \<leftarrow> ld32 (pak + 8);
       v \<leftarrow> dw_spi_getdata p base;
       st8 (dst + len) (ucast v);
       total \<leftarrow> ld32 (pak + 12);
       if len + 1 = total then retE (len + 1) else quad_drain n p base pak (len + 1)
     }
   }"

primrec quad_loop :: "nat \<Rightarrow> plat \<Rightarrow> nat \<Rightarrow> u32 \<Rightarrow> u32 \<Rightarrow> u8 \<Rightarrow> u32 \<Rightarrow> ('a, u32 res) op" where
  "quad_loop 0 p fuel base pak i len = stopE Hang"
| "quad_loop (Suc n) p fuel base pak i len = do {
     total \<leftarrow> ld32 (pak + 12);
     if \<not> ucast i < total then retE len
     else
       bindE (dw_spi_psnd_dat p fuel base 0xFF) (\<lambda>_.
       bindE (spin fuel (do { b \<leftarrow> dw_spi_busy p base; State_Monad.return (\<not> b) })) (\<lambda>_.
       bindE (liftE (dw_spi_getready p base)) (\<lambda>ready.
       bindE (if ready then quad_drain fuel p base pak len else retE len) (\<lambda>len.
       bindE (liftE (ld32 (pak + 12))) (\<lambda>total.
       if len = total then retE len else quad_loop n p fuel base pak (i + 1) len)))))
   }"

definition dw_spi_quad_receive :: "plat \<Rightarrow> nat \<Rightarrow> u32 \<Rightarrow> u32 \<Rightarrow> ('a, u32 res) sop" where
  "dw_spi_quad_receive p fuel obj pak =
     bindE (liftE (get_ctrl_of obj)) (\<lambda>c.
     let base = dw_spi_regs c in
     bindE (liftE (do {
       upd_sinfo obj (\<lambda>i. i\<lparr>si_status := si_status i OR DEV_IN_XFER\<rparr>);
       total \<leftarrow> ld32 (pak + 12);
       dw_spi_quad_enable p base (total - 1);
       ld8 pak
     })) (\<lambda>cmd.
     bindE (dw_spi_psnd_dat p fuel base (ucast cmd)) (\<lambda>_.
     bindE (liftE (ld32 (pak + 4))) (\<lambda>addr32.
     bindE (dw_spi_psnd_dat p fuel base addr32) (\<lambda>_.
     bindE (quad_loop fuel p fuel base pak 0 0) (\<lambda>len.
     liftE (do {
       dw_spi_quad_disable p base;
       upd_sinfo obj (\<lambda>i. i\<lparr>si_status := si_status i AND NOT DEV_IN_XFER\<rparr>);
       State_Monad.return len
     })))))))"

subsection \<open>Open and close\<close>

text \<open>\<open>VALID_CHK_SPI_INFO_OBJECT\<close>\<close>

definition spi_valid :: "'a spi_mach_scheme \<Rightarrow> u32 \<Rightarrow> bool" where
  "spi_valid s obj \<longleftrightarrow> obj \<noteq> 0 \<and> spi_ctrl (sinfo s obj) \<noteq> 0"

text \<open>The structures \<open>memset\<close> clears.\<close>

definition zero_spi_transfer :: dev_spi_transfer where
  "zero_spi_transfer = \<lparr>x_next = 0, x_tot_len = 0, x_tx_buf = 0, x_tx_ofs = 0, x_tx_len = 0, x_rx_buf = 0,
     x_rx_ofs = 0, x_rx_len = 0, x_tx_idx = 0, x_tx_totlen = 0, x_rx_idx = 0, x_rx_totlen = 0\<rparr>"

definition zero_dw_xfer :: dw_spi_transfer where
  "zero_dw_xfer = \<lparr>xfer_len = 0, t_tx_idx = 0, t_rx_idx = 0, nbytes = 0, tx_xfer = 0, rx_xfer = 0\<rparr>"

definition clear_spi_xfer_cbs :: "u32 \<Rightarrow> ('a, unit) sop" where
  "clear_spi_xfer_cbs obj = do {
     i \<leftarrow> get_sinfo obj;
     upd_sxfer (si_xfer i) (\<lambda>_. zero_spi_transfer);
     upd_sinfo obj (\<lambda>i. i\<lparr>si_tx_cb := 0, si_rx_cb := 0, si_err_cb := 0, si_xfer_cb := 0\<rparr>)
   }"

text \<open>The part of \<open>dw_spi_open\<close> that runs for the first open.\<close>

definition spi_first_open :: "plat \<Rightarrow> nat \<Rightarrow> u32 \<Rightarrow> u32 \<Rightarrow> u32 \<Rightarrow> ('a, s32 res) sop" where
  "spi_first_open p fuel obj mode param =
     bindE (liftE (do {
       upd_sinfo obj (\<lambda>i. i\<lparr>si_opn_cnt := si_opn_cnt i + 1\<rparr>);
       i \<leftarrow> get_sinfo obj;
       let cp = spi_ctrl i;
       c \<leftarrow> get_sctrl cp;
       tx_len \<leftarrow> dw_spi_get_txfifo_len p (dw_spi_regs c);
       upd_sctrl cp (\<lambda>c. c\<lparr>sc_tx_fifo_len := tx_len\<rparr>);
       rx_len \<leftarrow> dw_spi_get_rxfifo_len p (dw_spi_regs c);
       upd_sctrl cp (\<lambda>c. c\<lparr>sc_rx_fifo_len := rx_len\<rparr>);
       let clk_mode = (if mode = SLAVE_MODE then param else 0);
       upd_sinfo obj (\<lambda>i. i\<lparr>si_mode := ucast mode, si_dfs := ucast SPI_DFS_DEFAULT, si_clk_mode := ucast clk_mode\<rparr>);
       dw_spi_hw_init p cp clk_mode SPI_DFS_DEFAULT;
       State_Monad.return cp
     })) (\<lambda>cp.
     bindE (if mode = MASTER_MODE then
              bindE (liftE (do { c \<leftarrow> get_sctrl cp; dw_spi_deselect_slave p (dw_spi_regs c) })) (\<lambda>_.
              bindE (dw_spi_set_freq cp param) (\<lambda>_.
              liftE (upd_sinfo obj (\<lambda>i. i\<lparr>si_freq := param\<rparr>))))
            else retE ()) (\<lambda>_.
     bindE (liftE (do {
       upd_sinfo obj (\<lambda>i. i\<lparr>si_status := DEV_ENABLED, si_extra := 0, si_slave := SPI_SLAVE_NOT_SELECTED,
         si_dummy := 0xff\<rparr>);
       upd_sctrl cp (\<lambda>c. c\<lparr>sc_int_status := 0\<rparr>)
     })) (\<lambda>_.
     bindE (dw_spi_init_transfer fuel cp 0 SPI_DFS_DEFAULT) (\<lambda>_.
     liftE (do {
       dw_spi_disable_interrupt p obj;
       c \<leftarrow> get_sctrl cp;
       c_if (sc_intno c \<noteq> DEV_INTNO_INVALID)
         (do { _ \<leftarrow> int_handler_install p (sc_intno c) (dw_spi_int_handler c); State_Monad.return () });
       clear_spi_xfer_cbs obj;
       State_Monad.return E_OK
     })))))"

definition dw_spi_open :: "plat \<Rightarrow> nat \<Rightarrow> u32 \<Rightarrow> u32 \<Rightarrow> u32 \<Rightarrow> ('a, s32 res) sop" where
  "dw_spi_open p fuel obj mode param = do {
     s \<leftarrow> State_Monad.get;
     check_exp (spi_valid s obj) E_OBJ (
     check_exp (mode = MASTER_MODE \<or> mode = SLAVE_MODE) E_PAR (
     check_exp (if mode = SLAVE_MODE then param \<le> SPI_CPOL_1_CPHA_1 else param > 0) E_PAR (
     let i = sinfo s obj; support = support_modes (sctrl s (spi_ctrl i)) in
     check_exp (support AND DW_SPI_MASTER_SUPPORTED \<noteq> 0 \<and> mode = MASTER_MODE
              \<or> support AND DW_SPI_SLAVE_SUPPORTED \<noteq> 0 \<and> mode = SLAVE_MODE) E_NOSPT (
     if si_opn_cnt i > 0 then
       (if mode \<noteq> ucast (si_mode i) then retE E_SYS
        else liftE (do {
          upd_sinfo obj (\<lambda>i. i\<lparr>si_opn_cnt := si_opn_cnt i + 1\<rparr>);
          State_Monad.return
            (if param \<noteq> (if mode = MASTER_MODE then si_freq i else ucast (si_clk_mode i)) then E_OPNED else E_OK)
        }))
     else spi_first_open p fuel obj mode param))))
   }"

definition dw_spi_close :: "plat \<Rightarrow> 'a spi_callback \<Rightarrow> u32 \<Rightarrow> ('a, s32 res) sop" where
  "dw_spi_close p cb obj = do {
     s \<leftarrow> State_Monad.get;
     check_exp (spi_valid s obj) E_OBJ (
     check_exp (si_opn_cnt (sinfo s obj) > 0) E_OK (liftE (do {
       upd_sinfo obj (\<lambda>i. i\<lparr>si_opn_cnt := si_opn_cnt i - 1\<rparr>);
       i \<leftarrow> get_sinfo obj;
       if si_opn_cnt i = 0 then do {
         let cp = spi_ctrl i;
         dw_spi_disable_interrupt p obj;
         _ \<leftarrow> dw_spi_abort_tx p cb obj;
         _ \<leftarrow> dw_spi_abort_rx p cb obj;
         clear_spi_xfer_cbs obj;
         upd_dw_xfer cp (\<lambda>_. zero_dw_xfer);
         dw_spi_disable_device obj;
         upd_sinfo obj (\<lambda>i. i\<lparr>si_status := 0, si_extra := 0\<rparr>);
         State_Monad.return E_OK
       } else State_Monad.return E_OPNED
     })))
   }"

subsection \<open>Control\<close>

abbreviation (input) SPI_CMD_GET_STATUS :: u32 where "SPI_CMD_GET_STATUS \<equiv> 0"
abbreviation (input) SPI_CMD_SET_CLK_MODE :: u32 where "SPI_CMD_SET_CLK_MODE \<equiv> 1"
abbreviation (input) SPI_CMD_SET_DFS :: u32 where "SPI_CMD_SET_DFS \<equiv> 2"
abbreviation (input) SPI_CMD_SET_DUMMY_DATA :: u32 where "SPI_CMD_SET_DUMMY_DATA \<equiv> 3"
abbreviation (input) SPI_CMD_SET_TXCB :: u32 where "SPI_CMD_SET_TXCB \<equiv> 4"
abbreviation (input) SPI_CMD_SET_RXCB :: u32 where "SPI_CMD_SET_RXCB \<equiv> 5"
abbreviation (input) SPI_CMD_SET_XFERCB :: u32 where "SPI_CMD_SET_XFERCB \<equiv> 6"
abbreviation (input) SPI_CMD_SET_ERRCB :: u32 where "SPI_CMD_SET_ERRCB \<equiv> 7"
abbreviation (input) SPI_CMD_SET_TXINT_BUF :: u32 where "SPI_CMD_SET_TXINT_BUF \<equiv> 8"
abbreviation (input) SPI_CMD_SET_RXINT_BUF :: u32 where "SPI_CMD_SET_RXINT_BUF \<equiv> 9"
abbreviation (input) SPI_CMD_SET_TXINT :: u32 where "SPI_CMD_SET_TXINT \<equiv> 10"
abbreviation (input) SPI_CMD_SET_RXINT :: u32 where "SPI_CMD_SET_RXINT \<equiv> 11"
abbreviation (input) SPI_CMD_TRANSFER_POLLING :: u32 where "SPI_CMD_TRANSFER_POLLING \<equiv> 12"
abbreviation (input) SPI_CMD_TRANSFER_INT :: u32 where "SPI_CMD_TRANSFER_INT \<equiv> 13"
abbreviation (input) SPI_CMD_ABORT_TX :: u32 where "SPI_CMD_ABORT_TX \<equiv> 14"
abbreviation (input) SPI_CMD_ABORT_RX :: u32 where "SPI_CMD_ABORT_RX \<equiv> 15"
abbreviation (input) SPI_CMD_ABORT_XFER :: u32 where "SPI_CMD_ABORT_XFER \<equiv> 16"
abbreviation (input) SPI_CMD_RESET :: u32 where "SPI_CMD_RESET \<equiv> 17"
abbreviation (input) SPI_CMD_FLUSH_TX :: u32 where "SPI_CMD_FLUSH_TX \<equiv> 18"
abbreviation (input) SPI_CMD_FLUSH_RX :: u32 where "SPI_CMD_FLUSH_RX \<equiv> 19"
abbreviation (input) SPI_CMD_ENA_DEV :: u32 where "SPI_CMD_ENA_DEV \<equiv> 20"
abbreviation (input) SPI_CMD_DIS_DEV :: u32 where "SPI_CMD_DIS_DEV \<equiv> 21"
abbreviation (input) SPI_CMD_GET_TXAVAIL :: u32 where "SPI_CMD_GET_TXAVAIL \<equiv> 22"
abbreviation (input) SPI_CMD_GET_RXAVAIL :: u32 where "SPI_CMD_GET_RXAVAIL \<equiv> 23"
abbreviation (input) SPI_CMD_QUAD_READ :: u32 where "SPI_CMD_QUAD_READ \<equiv> 24"
abbreviation (input) SPI_CMD_MST_SEL_DEV :: u32 where "SPI_CMD_MST_SEL_DEV \<equiv> 0x1000"
abbreviation (input) SPI_CMD_MST_DSEL_DEV :: u32 where "SPI_CMD_MST_DSEL_DEV \<equiv> 0x1001"
abbreviation (input) SPI_CMD_MST_SET_FREQ :: u32 where "SPI_CMD_MST_SET_FREQ \<equiv> 0x1002"

text \<open>A command that answers \<open>E_OK\<close>, and one whose failure is \<open>E_SYS\<close>.\<close>

definition spi_ok :: "('s, unit) state \<Rightarrow> ('s, s32 res) state" where
  "spi_ok m = liftE (do { m; State_Monad.return E_OK })"

definition spi_sys :: "('s, s32 res) state \<Rightarrow> ('s, unit) state \<Rightarrow> ('s, s32 res) state" where
  "spi_sys m ok = bindE m (\<lambda>r. if r = 0 then spi_ok ok else retE E_SYS)"

lemma run_spi_ok [simp]: "run_state (spi_ok m) s = (Inr E_OK, snd (run_state m s))"
  by (simp add: spi_ok_def split: prod.split)

lemma wp_spi_ok [wp_rules]: "wp (spi_ok m) Q s = wp m (\<lambda>_. Q (Inr E_OK)) s"
  by (simp add: wp_def)

text \<open>\<open>SPI_CMD_SET_TXINT_BUF\<close> and \<open>SPI_CMD_SET_RXINT_BUF\<close>; \<open>setup\<close> places the buffer in the descriptor.\<close>

definition spi_set_int_buf ::
  "nat \<Rightarrow> u32 \<Rightarrow> u32 \<Rightarrow> (dev_buffer \<Rightarrow> dev_spi_transfer \<Rightarrow> dev_spi_transfer) \<Rightarrow> ('a, s32 res) sop" where
  "spi_set_int_buf fuel obj param setup = do {
     s \<leftarrow> State_Monad.get;
     let i = sinfo s obj;
     if param \<noteq> 0 then
       bindE (liftE (upd_sxfer (si_xfer i) (\<lambda>x. DEV_SPI_XFER_SET_NEXT 0 (setup (load_buffer (mem s) param) x)))) (\<lambda>_.
       bindE (dw_spi_chk_xfer_aligned fuel (si_xfer i) (ucast (si_dfs i))) (\<lambda>r.
       check_exp (r = 0) E_PAR (
       bindE (dw_spi_init_transfer fuel (spi_ctrl i) (si_xfer i) (ucast (si_dfs i))) (\<lambda>_. retE E_OK))))
     else
       bindE (liftE (upd_sxfer (si_xfer i) (\<lambda>x. DEV_SPI_XFER_SET_NEXT 0
         (DEV_SPI_XFER_SET_RXBUF 0 0 0 (DEV_SPI_XFER_SET_TXBUF 0 0 0 x))))) (\<lambda>_.
       bindE (dw_spi_init_transfer fuel (spi_ctrl i) 0 (ucast (si_dfs i))) (\<lambda>_. retE E_OK))
   }"

text \<open>The start of both transfer commands: the chain is checked, its head copied and set up.\<close>

definition spi_start_transfer :: "nat \<Rightarrow> u32 \<Rightarrow> u32 \<Rightarrow> ('a, s32 res) sop \<Rightarrow> ('a, s32 res) sop" where
  "spi_start_transfer fuel obj param k = do {
     i \<leftarrow> get_sinfo obj;
     bindE (dw_spi_chk_xfer_aligned fuel param (ucast (si_dfs i))) (\<lambda>r.
     check_exp (r = 0) E_PAR (
     bindE (liftE (do { x \<leftarrow> get_sxfer param; upd_sxfer (si_xfer i) (\<lambda>_. x) })) (\<lambda>_.
     bindE (dw_spi_init_transfer fuel (spi_ctrl i) (si_xfer i) (ucast (si_dfs i))) (\<lambda>_. k))))
   }"

text \<open>The \<open>switch\<close> of \<open>dw_spi_control\<close>.\<close>

definition spi_command ::
  "plat \<Rightarrow> nat \<Rightarrow> 'a spi_callback \<Rightarrow> u32 \<Rightarrow> u32 \<Rightarrow> u32 \<Rightarrow> ('a, s32 res) sop" where
  "spi_command p fuel cb obj ctrl_cmd param = do {
     i \<leftarrow> get_sinfo obj;
     let cp = spi_ctrl i;
     c \<leftarrow> get_sctrl cp;
     let base = dw_spi_regs c;
     let idle = si_status i AND DEV_IN_XFER = 0;
     if ctrl_cmd = SPI_CMD_GET_STATUS then
       check_exp (param \<noteq> 0 \<and> aligned4 param) E_PAR (spi_ok (st32 param (si_status i)))
     else if ctrl_cmd = SPI_CMD_SET_CLK_MODE then
       check_exp idle E_CTX (
       check_exp (param \<le> SPI_CPOL_1_CPHA_1) E_PAR (
       spi_sys (liftE (dw_spi_set_clockmode p base param)) (upd_sinfo obj (\<lambda>i. i\<lparr>si_clk_mode := ucast param\<rparr>))))
     else if ctrl_cmd = SPI_CMD_ENA_DEV then spi_ok (dw_spi_enable_device obj)
     else if ctrl_cmd = SPI_CMD_DIS_DEV then spi_ok (dw_spi_disable_device obj)
     else if ctrl_cmd = SPI_CMD_RESET then spi_ok (dw_spi_reset_device p obj)
     else if ctrl_cmd = SPI_CMD_FLUSH_TX then check_exp idle E_CTX (spi_ok (dw_spi_flush_tx base))
     else if ctrl_cmd = SPI_CMD_FLUSH_RX then check_exp idle E_CTX (spi_ok (dw_spi_flush_rx base))
     else if ctrl_cmd = SPI_CMD_SET_DFS then
       check_exp idle E_CTX (
       check_exp (param > 0) E_PAR (
       spi_sys (liftE (dw_spi_set_dfs p base param)) (upd_sinfo obj (\<lambda>i. i\<lparr>si_dfs := ucast param\<rparr>))))
     else if ctrl_cmd = SPI_CMD_SET_DUMMY_DATA then spi_ok (upd_sinfo obj (\<lambda>i. i\<lparr>si_dummy := param\<rparr>))
     else if ctrl_cmd = SPI_CMD_GET_RXAVAIL then
       check_exp (param \<noteq> 0 \<and> aligned4 param) E_PAR
         (spi_ok (do { v \<leftarrow> dw_spi_get_rxavail p cp; st32 param (v * dw_spi_nbytes (ucast (si_dfs i))) }))
     else if ctrl_cmd = SPI_CMD_GET_TXAVAIL then
       check_exp (param \<noteq> 0 \<and> aligned4 param) E_PAR
         (spi_ok (do { v \<leftarrow> dw_spi_get_txavail p cp; st32 param (v * dw_spi_nbytes (ucast (si_dfs i))) }))
     else if ctrl_cmd = SPI_CMD_SET_TXCB then
       check_exp (aligned4 param) E_PAR (spi_ok (upd_sinfo obj (\<lambda>i. i\<lparr>si_tx_cb := param\<rparr>)))
     else if ctrl_cmd = SPI_CMD_SET_RXCB then
       check_exp (aligned4 param) E_PAR (spi_ok (upd_sinfo obj (\<lambda>i. i\<lparr>si_rx_cb := param\<rparr>)))
     else if ctrl_cmd = SPI_CMD_SET_XFERCB then
       check_exp (aligned4 param) E_PAR (spi_ok (upd_sinfo obj (\<lambda>i. i\<lparr>si_xfer_cb := param\<rparr>)))
     else if ctrl_cmd = SPI_CMD_SET_ERRCB then
       check_exp (aligned4 param) E_PAR (spi_ok (upd_sinfo obj (\<lambda>i. i\<lparr>si_err_cb := param\<rparr>)))
     else if ctrl_cmd = SPI_CMD_ABORT_TX then liftE (dw_spi_abort_tx p cb obj)
     else if ctrl_cmd = SPI_CMD_ABORT_RX then liftE (dw_spi_abort_rx p cb obj)
     else if ctrl_cmd = SPI_CMD_ABORT_XFER then liftE (dw_spi_abort_xfer p cb obj)
     else if ctrl_cmd = SPI_CMD_SET_TXINT then
       liftE (if param = 0 then dw_spi_dis_cbr p obj DW_SPI_RDY_SND else dw_spi_ena_cbr p obj DW_SPI_RDY_SND)
     else if ctrl_cmd = SPI_CMD_SET_RXINT then
       liftE (if param = 0 then dw_spi_dis_cbr p obj DW_SPI_RDY_RCV else dw_spi_ena_cbr p obj DW_SPI_RDY_RCV)
     else if ctrl_cmd = SPI_CMD_SET_TXINT_BUF then
       check_exp (aligned4 param) E_PAR (
       check_exp idle E_CTX (
       spi_set_int_buf fuel obj param (\<lambda>b x.
         DEV_SPI_XFER_SET_RXBUF 0 (blen b) 0 (DEV_SPI_XFER_SET_TXBUF (buf b) 0 (blen b) x))))
     else if ctrl_cmd = SPI_CMD_SET_RXINT_BUF then
       check_exp (aligned4 param) E_PAR (
       check_exp idle E_CTX (
       spi_set_int_buf fuel obj param (\<lambda>b x.
         DEV_SPI_XFER_SET_RXBUF (buf b) 0 (blen b) (DEV_SPI_XFER_SET_TXBUF 0 (blen b) 0 x))))
     else if ctrl_cmd = SPI_CMD_TRANSFER_POLLING then
       check_exp (aligned4 param) E_PAR (
       check_exp idle E_CTX (
       check_exp (param \<noteq> 0) E_PAR (
       spi_start_transfer fuel obj param (
         bindE (dw_spi_poll_transfer p fuel obj) (\<lambda>_. retE E_OK)))))
     else if ctrl_cmd = SPI_CMD_QUAD_READ then
       bindE (dw_spi_quad_receive p fuel obj param) (\<lambda>_. retE E_OK)
     else if ctrl_cmd = SPI_CMD_TRANSFER_INT then
       check_exp (aligned4 param) E_PAR (
       if param \<noteq> 0 then
         check_exp idle E_CTX (
         spi_start_transfer fuel obj param (liftE (dw_spi_ena_cbr p obj DW_SPI_RDY_XFER)))
       else liftE (dw_spi_dis_cbr p obj DW_SPI_RDY_XFER))
     else if ctrl_cmd = SPI_CMD_MST_SET_FREQ then
       check_exp (ucast (si_mode i) = MASTER_MODE) E_NOSPT (
       check_exp idle E_CTX (
       check_exp (param > 0) E_PAR (
       bindE (dw_spi_set_freq cp param) (\<lambda>_. spi_ok (upd_sinfo obj (\<lambda>i. i\<lparr>si_freq := param\<rparr>))))))
     else if ctrl_cmd = SPI_CMD_MST_SEL_DEV then
       check_exp (ucast (si_mode i) = MASTER_MODE) E_NOSPT (
       check_exp idle E_CTX (
       spi_sys (dw_spi_select_slave p base param) (upd_sinfo obj (\<lambda>i. i\<lparr>si_slave := ucast param\<rparr>))))
     else if ctrl_cmd = SPI_CMD_MST_DSEL_DEV then
       check_exp (ucast (si_mode i) = MASTER_MODE) E_NOSPT (
       check_exp idle E_CTX (
       spi_sys (liftE (dw_spi_deselect_slave p base))
         (upd_sinfo obj (\<lambda>i. i\<lparr>si_slave := SPI_SLAVE_NOT_SELECTED\<rparr>))))
     else retE E_NOSPT
   }"

definition dw_spi_control ::
  "plat \<Rightarrow> nat \<Rightarrow> 'a spi_callback \<Rightarrow> u32 \<Rightarrow> u32 \<Rightarrow> u32 \<Rightarrow> ('a, s32 res) sop" where
  "dw_spi_control p fuel cb obj ctrl_cmd param = do {
     s \<leftarrow> State_Monad.get;
     check_exp (spi_valid s obj) E_OBJ (
     check_exp (si_opn_cnt (sinfo s obj) > 0) E_CLSED (
       if si_status (sinfo s obj) AND DEV_ENABLED = 0 \<and> ctrl_cmd \<noteq> SPI_CMD_ENA_DEV
          \<and> ctrl_cmd \<noteq> SPI_CMD_DIS_DEV \<and> ctrl_cmd \<noteq> SPI_CMD_GET_STATUS \<and> ctrl_cmd \<noteq> SPI_CMD_RESET
       then retE E_SYS
       else spi_command p fuel cb obj ctrl_cmd param))
   }"

subsection \<open>Blocking write and read\<close>

text \<open>The checks and the transfer both share; \<open>setup\<close> fills the local descriptor at \<open>loc\<close>.\<close>

definition spi_blocking ::
  "plat \<Rightarrow> nat \<Rightarrow> u32 \<Rightarrow> u32 \<Rightarrow> u32 \<Rightarrow> u32 \<Rightarrow> (dev_spi_transfer \<Rightarrow> dev_spi_transfer) \<Rightarrow> ('a, s32 res) sop" where
  "spi_blocking p fuel loc obj data len setup = do {
     s \<leftarrow> State_Monad.get;
     check_exp (spi_valid s obj) E_OBJ (
     let i = sinfo s obj in
     check_exp (si_opn_cnt i > 0) E_CLSED (
     check_exp (si_status i AND DEV_ENABLED \<noteq> 0) E_SYS (
     check_exp (si_status i AND DEV_IN_XFER = 0) E_CTX (
     check_exp (data \<noteq> 0) E_PAR (
     check_exp (len > 0) E_PAR (
       bindE (liftE (upd_sxfer loc (\<lambda>x. DEV_SPI_XFER_SET_NEXT 0 (setup x)))) (\<lambda>_.
       bindE (dw_spi_chk_xfer_aligned fuel loc (ucast (si_dfs i))) (\<lambda>r.
       check_exp (r = 0) E_PAR (
       bindE (dw_spi_init_transfer fuel (spi_ctrl i) loc (ucast (si_dfs i))) (\<lambda>_.
       dw_spi_poll_transfer p fuel obj))))))))))
   }"

definition dw_spi_write :: "plat \<Rightarrow> nat \<Rightarrow> u32 \<Rightarrow> u32 \<Rightarrow> u32 \<Rightarrow> u32 \<Rightarrow> ('a, s32 res) sop" where
  "dw_spi_write p fuel loc obj data len =
     spi_blocking p fuel loc obj data len
       (\<lambda>x. DEV_SPI_XFER_SET_RXBUF 0 len 0 (DEV_SPI_XFER_SET_TXBUF data 0 len x))"

definition dw_spi_read :: "plat \<Rightarrow> nat \<Rightarrow> u32 \<Rightarrow> u32 \<Rightarrow> u32 \<Rightarrow> u32 \<Rightarrow> ('a, s32 res) sop" where
  "dw_spi_read p fuel loc obj data len =
     spi_blocking p fuel loc obj data len
       (\<lambda>x. DEV_SPI_XFER_SET_RXBUF data 0 len (DEV_SPI_XFER_SET_TXBUF 0 len 0 x))"

subsection \<open>The interrupt routine\<close>

text \<open>The end of an interrupt-driven transfer: the callback of its direction, then the state is cleared.\<close>

definition spi_isr_end :: "plat \<Rightarrow> 'a spi_callback \<Rightarrow> u32 \<Rightarrow> ('a, unit) sop" where
  "spi_isr_end p cb obj = do {
     i \<leftarrow> get_sinfo obj;
     let st = si_status i AND DW_SPI_IN_XFER;
     (if st = DW_SPI_IN_TX then do {
       _ \<leftarrow> dw_spi_dis_cbr p obj DW_SPI_RDY_SND;
       i \<leftarrow> get_sinfo obj;
       c_if (si_tx_cb i \<noteq> 0) (cb (si_tx_cb i) obj)
     } else if st = DW_SPI_IN_RX then do {
       _ \<leftarrow> dw_spi_dis_cbr p obj DW_SPI_RDY_RCV;
       i \<leftarrow> get_sinfo obj;
       c_if (si_rx_cb i \<noteq> 0) (cb (si_rx_cb i) obj)
     } else if st = DW_SPI_IN_XFER then do {
       _ \<leftarrow> dw_spi_dis_cbr p obj DW_SPI_RDY_XFER;
       i \<leftarrow> get_sinfo obj;
       c_if (si_xfer_cb i \<noteq> 0) (cb (si_xfer_cb i) obj)
     } else dw_spi_disable_interrupt p obj);
     upd_dw_xfer (spi_ctrl i) (\<lambda>_. zero_dw_xfer)
   }"

definition dw_spi_isr :: "plat \<Rightarrow> 'a spi_callback \<Rightarrow> u32 \<Rightarrow> ('a, unit res) sop" where
  "dw_spi_isr p cb obj = do {
     s \<leftarrow> State_Monad.get;
     c_ifE (spi_valid s obj) (
       let cp = spi_ctrl (sinfo s obj); base = spi_regs s obj in
       bindE (liftE (mmio_rd p (base + SPI_ISR))) (\<lambda>isr_status.
       if isr_status = 0 then retE ()
       else if xfer_len (dw_xfer (sctrl s cp)) = 0 then liftE (dw_spi_disable_interrupt p obj)
       else
         bindE (liftE (c_if (isr_status AND IMR_ERRORS \<noteq> 0) (do {
           dw_spi_clear_interrupt_all p base;
           dw_spi_disable_interrupt p obj;
           i \<leftarrow> get_sinfo obj;
           c_if (si_err_cb i \<noteq> 0) (cb (si_err_cb i) obj);
           upd_dw_xfer cp (\<lambda>_. zero_dw_xfer)
         }))) (\<lambda>_.
         bindE (dw_spi_reader p obj) (\<lambda>_.
         bindE (if isr_status AND IMR_TXEIM \<noteq> 0 then dw_spi_writer p obj else retE 0) (\<lambda>_.
         bindE (liftE (get_sctrl cp)) (\<lambda>c.
         liftE (c_if (dw_spi_xfer_end (dw_xfer c)) (spi_isr_end p cb obj))))))))
   }"

end
