(* ===== verification/SpiEngine.thy ===== *)
theory SpiEngine
  imports DwSpi
begin

section \<open>The SPI transfer engine\<close>

text \<open>
  What \<open>dw_spi_writer\<close> and \<open>dw_spi_reader\<close> do to a chain of descriptors: the frames still to be
  sent and the places still to be filled are two lists of slots, and the loops take slots from
  their front. Over a controller whose FIFOs return a frame for every frame sent, the polling
  loop then ends after a bounded number of rounds with every slot served.
\<close>

lemma u32_bound: "unat (x :: u32) < 2 ^ 32"
  using unsigned_less [of x, where 'a = nat] by simp

subsection \<open>Slots\<close>

text \<open>
  The slots of one direction of a descriptor from \<open>idx\<close> on: the address of the byte the frame
  is sent from or stored to, or none outside the window.
\<close>

primrec slots :: "nat \<Rightarrow> u32 \<Rightarrow> u32 \<Rightarrow> u32 \<Rightarrow> u32 \<Rightarrow> u32 option list" where
  "slots 0 idx off tot b = []"
| "slots (Suc n) idx off tot b =
     (if idx \<ge> off \<and> idx < tot then Some b # slots n (idx + 1) off tot (b + 1)
      else None # slots n (idx + 1) off tot b)"

definition tx_own :: "dev_spi_transfer \<Rightarrow> u32 option list" where
  "tx_own x = slots (unat (x_tot_len x) - unat (x_tx_idx x)) (x_tx_idx x) (x_tx_ofs x) (x_tx_totlen x) (x_tx_buf x)"

definition rx_own :: "dev_spi_transfer \<Rightarrow> u32 option list" where
  "rx_own x = slots (unat (x_tot_len x) - unat (x_rx_idx x)) (x_rx_idx x) (x_rx_ofs x) (x_rx_totlen x) (x_rx_buf x)"

definition rest :: "(dev_spi_transfer \<Rightarrow> u32 option list) \<Rightarrow> (u32 \<Rightarrow> dev_spi_transfer) \<Rightarrow> u32 list \<Rightarrow> u32 option list" where
  "rest own h as = concat (map (\<lambda>a. own (h a)) as)"

lemma length_slots [simp]: "length (slots n idx off tot b) = n"
  by (induction n arbitrary: idx b) simp_all

lemma rest_simps [simp]:
  "rest own h [] = []" "rest own h (a # as) = own (h a) @ rest own h as"
  by (simp_all add: rest_def)

lemma rest_upd [simp]: "a \<notin> set as \<Longrightarrow> rest own (h(a := x)) as = rest own h as"
  unfolding rest_def by (rule arg_cong [of _ _ concat]) (auto intro!: map_cong)

text \<open>One step of a descriptor takes the first slot.\<close>

lemma own_step:
  "x_tx_idx x < x_tot_len x \<Longrightarrow>
     tx_own x = (if x_tx_idx x \<ge> x_tx_ofs x \<and> x_tx_idx x < x_tx_totlen x then Some (x_tx_buf x) else None)
       # tx_own (spi_tx_step 1 x)"
  "x_rx_idx x < x_tot_len x \<Longrightarrow>
     rx_own x = (if x_rx_idx x \<ge> x_rx_ofs x \<and> x_rx_idx x < x_rx_totlen x then Some (x_rx_buf x) else None)
       # rx_own (spi_rx_step 1 x)"
proof -
  have suc: "unat n - unat i = Suc (unat n - unat (i + 1))" if "i < n" for i n :: u32
  proof -
    have "unat i + 1 < 2 ^ 32" using that unsigned_less [of n, where 'a = nat] by (simp add: word_less_nat_alt)
    then have "unat (i + 1) = Suc (unat i)" by (simp add: unat_word_ariths)
    with that show ?thesis by (simp add: word_less_nat_alt)
  qed
  show "tx_own x = (if x_tx_idx x \<ge> x_tx_ofs x \<and> x_tx_idx x < x_tx_totlen x then Some (x_tx_buf x) else None)
       # tx_own (spi_tx_step 1 x)" if "x_tx_idx x < x_tot_len x"
    unfolding tx_own_def suc [OF that] by (simp add: spi_tx_step_def)
  show "rx_own x = (if x_rx_idx x \<ge> x_rx_ofs x \<and> x_rx_idx x < x_rx_totlen x then Some (x_rx_buf x) else None)
       # rx_own (spi_rx_step 1 x)" if "x_rx_idx x < x_tot_len x"
    unfolding rx_own_def suc [OF that] by (simp add: spi_rx_step_def)
qed

lemma own_done:
  "x_tot_len x \<le> x_tx_idx x \<Longrightarrow> tx_own x = []" "x_tot_len x \<le> x_rx_idx x \<Longrightarrow> rx_own x = []"
  by (simp_all add: tx_own_def rx_own_def word_le_nat_alt)

lemma own_other [simp]:
  "rx_own (spi_tx_step nb x) = rx_own x" "tx_own (spi_rx_step nb x) = tx_own x"
  by (simp_all add: tx_own_def rx_own_def spi_tx_step_def spi_rx_step_def)

text \<open>The frame of a slot, and the effect of received frames on the memory.\<close>

definition tx_word :: "(u32 \<Rightarrow> u8) \<Rightarrow> u32 \<Rightarrow> u32 option \<Rightarrow> u32" where
  "tx_word m dummy sl = (case sl of None \<Rightarrow> dummy | Some a \<Rightarrow> scast (m a))"

definition rx_put1 :: "u32 option \<times> u32 \<Rightarrow> (u32 \<Rightarrow> u8) \<Rightarrow> (u32 \<Rightarrow> u8)" where
  "rx_put1 p m = (case fst p of None \<Rightarrow> m | Some a \<Rightarrow> m(a := ucast (snd p)))"

definition rx_put :: "u32 option list \<Rightarrow> u32 list \<Rightarrow> (u32 \<Rightarrow> u8) \<Rightarrow> (u32 \<Rightarrow> u8)" where
  "rx_put sl vs m = fold rx_put1 (zip sl vs) m"

lemma rx_put_simps [simp]:
  "rx_put [] vs m = m" "rx_put (a # sl) (v # vs) m = rx_put sl vs (rx_put1 (a, v) m)"
  by (simp_all add: rx_put_def)

lemma rx_put_append:
  "length sl = length vs \<Longrightarrow> rx_put (sl @ sl') (vs @ vs') m = rx_put sl' vs' (rx_put sl vs m)"
  by (simp add: rx_put_def)

lemma rx_put_other: "Some a \<notin> set sl \<Longrightarrow> rx_put sl vs m a = m a"
proof (induction sl arbitrary: vs m)
  case (Cons b sl)
  then show ?case by (cases vs) (auto simp: rx_put_def rx_put1_def split: option.splits)
qed simp

subsection \<open>Chains of descriptors\<close>

primrec chain :: "(u32 \<Rightarrow> dev_spi_transfer) \<Rightarrow> u32 \<Rightarrow> u32 list \<Rightarrow> bool" where
  "chain h x [] \<longleftrightarrow> x = 0"
| "chain h x (a # as) \<longleftrightarrow> x = a \<and> a \<noteq> 0 \<and> chain h (x_next (h a)) as"

lemma chain_upd [simp]: "a \<notin> set as \<Longrightarrow> chain (h(a := x)) b as = chain h b as"
  by (induction as arbitrary: b) auto

text \<open>The two directions of a running transfer of byte frames, each with its remaining slots.\<close>

definition spi_dw :: "'a spi_mach_scheme \<Rightarrow> u32 \<Rightarrow> dw_spi_transfer" where
  "spi_dw s obj = dw_xfer (sctrl s (spi_ctrl (sinfo s obj)))"

definition tx_at :: "'a spi_mach_scheme \<Rightarrow> u32 \<Rightarrow> u32 list \<Rightarrow> u32 option list \<Rightarrow> bool" where
  "tx_at s obj as L \<longleftrightarrow> chain (sxfer s) (tx_xfer (spi_dw s obj)) as \<and> distinct as \<and> as \<noteq> [] \<and> nbytes (spi_dw s obj) = 1
     \<and> (\<forall>a\<in>set (tl as). x_tx_idx (sxfer s a) = 0 \<and> 0 < x_tot_len (sxfer s a))
     \<and> rest tx_own (sxfer s) as = L
     \<and> unat (xfer_len (spi_dw s obj)) = unat (t_tx_idx (spi_dw s obj)) + length L"

definition rx_at :: "'a spi_mach_scheme \<Rightarrow> u32 \<Rightarrow> u32 list \<Rightarrow> u32 option list \<Rightarrow> bool" where
  "rx_at s obj as L \<longleftrightarrow> chain (sxfer s) (rx_xfer (spi_dw s obj)) as \<and> distinct as \<and> as \<noteq> [] \<and> nbytes (spi_dw s obj) = 1
     \<and> (\<forall>a\<in>set (tl as). x_rx_idx (sxfer s a) = 0 \<and> 0 < x_tot_len (sxfer s a))
     \<and> rest rx_own (sxfer s) as = L
     \<and> unat (xfer_len (spi_dw s obj)) = unat (t_rx_idx (spi_dw s obj)) + length L"

text \<open>The state without what one direction changes while it moves on.\<close>

definition blur_tx :: "u32 \<Rightarrow> 'a spi_mach_scheme \<Rightarrow> 'a spi_mach_scheme" where
  "blur_tx obj s = s\<lparr>hist := [], sxfer := (\<lambda>a. (sxfer s a)\<lparr>x_tx_buf := 0, x_tx_idx := 0\<rparr>),
     sctrl := (sctrl s)(spi_ctrl (sinfo s obj) := (sctrl s (spi_ctrl (sinfo s obj)))\<lparr>dw_xfer :=
       (spi_dw s obj)\<lparr>tx_xfer := 0, t_tx_idx := 0\<rparr>\<rparr>)\<rparr>"

definition blur_rx :: "u32 \<Rightarrow> 'a spi_mach_scheme \<Rightarrow> 'a spi_mach_scheme" where
  "blur_rx obj s = s\<lparr>hist := [], mem := (\<lambda>_. 0), sxfer := (\<lambda>a. (sxfer s a)\<lparr>x_rx_buf := 0, x_rx_idx := 0\<rparr>),
     sctrl := (sctrl s)(spi_ctrl (sinfo s obj) := (sctrl s (spi_ctrl (sinfo s obj)))\<lparr>dw_xfer :=
       (spi_dw s obj)\<lparr>rx_xfer := 0, t_rx_idx := 0\<rparr>\<rparr>)\<rparr>"

lemma chain_blur:
  "chain (\<lambda>a. (h a)\<lparr>x_tx_buf := f a, x_tx_idx := g a\<rparr>) b as = chain h b as"
  "chain (\<lambda>a. (h a)\<lparr>x_rx_buf := f a, x_rx_idx := g a\<rparr>) b as = chain h b as"
  by (induction as arbitrary: b) simp_all

lemma rest_blur:
  "rest rx_own (\<lambda>a. (h a)\<lparr>x_tx_buf := f a, x_tx_idx := g a\<rparr>) as = rest rx_own h as"
  "rest tx_own (\<lambda>a. (h a)\<lparr>x_rx_buf := f a, x_rx_idx := g a\<rparr>) as = rest tx_own h as"
  by (simp_all add: rest_def tx_own_def rx_own_def)

lemma rx_at_blur: "rx_at (blur_tx obj s) obj as L = rx_at s obj as L"
  by (simp add: rx_at_def blur_tx_def spi_dw_def chain_blur rest_blur)

lemma tx_at_blur: "tx_at (blur_rx obj s) obj as L = tx_at s obj as L"
  by (simp add: tx_at_def blur_rx_def spi_dw_def chain_blur rest_blur)

lemma blur_keeps:
  "blur_tx obj t = blur_tx obj s \<Longrightarrow> rx_at t obj as L = rx_at s obj as L"
  "blur_rx obj t = blur_rx obj s \<Longrightarrow> tx_at t obj as L = tx_at s obj as L"
  by (metis rx_at_blur, metis tx_at_blur)

text \<open>The fields both keep.\<close>

definition spi_fixed :: "u32 \<Rightarrow> 'a spi_mach_scheme \<Rightarrow> dev_spi_info \<times> u32 \<times> u32 \<times> u32 \<times> u32 \<times> u32" where
  "spi_fixed obj s = (let c = sctrl s (spi_ctrl (sinfo s obj)) in (sinfo s obj, dw_spi_regs c,
     sc_tx_fifo_len c, sc_rx_fifo_len c, nbytes (dw_xfer c), xfer_len (dw_xfer c)))"

lemma spi_fixed_blur: "spi_fixed obj (blur_tx obj s) = spi_fixed obj s" "spi_fixed obj (blur_rx obj s) = spi_fixed obj s"
  by (simp_all add: spi_fixed_def blur_tx_def blur_rx_def spi_dw_def Let_def)

lemma blur_fixed:
  "blur_tx obj t = blur_tx obj s \<Longrightarrow> spi_fixed obj t = spi_fixed obj s"
  "blur_rx obj t = blur_rx obj s \<Longrightarrow> spi_fixed obj t = spi_fixed obj s"
  by (metis spi_fixed_blur)+

lemma blur_mem: "blur_tx obj t = blur_tx obj s \<Longrightarrow> mem t = mem s"
  by (drule arg_cong [of _ _ mem]) (simp add: blur_tx_def)

lemma fixed_fields:
  assumes "spi_fixed obj t = spi_fixed obj s"
  shows "sinfo t obj = sinfo s obj" and "spi_regs t obj = spi_regs s obj"
    and "sc_tx_fifo_len (sctrl t (spi_ctrl (sinfo t obj))) = sc_tx_fifo_len (sctrl s (spi_ctrl (sinfo s obj)))"
    and "sc_rx_fifo_len (sctrl t (spi_ctrl (sinfo t obj))) = sc_rx_fifo_len (sctrl s (spi_ctrl (sinfo s obj)))"
    and "nbytes (spi_dw t obj) = nbytes (spi_dw s obj)" and "xfer_len (spi_dw t obj) = xfer_len (spi_dw s obj)"
  using assms by (auto simp: spi_fixed_def spi_regs_def spi_dw_def Let_def)

subsection \<open>The writer takes slots\<close>

text \<open>The state after one frame has been sent from the descriptor at \<open>b\<close>.\<close>

definition writer_step :: "u32 \<Rightarrow> u32 \<Rightarrow> 'a spi_mach_scheme \<Rightarrow> 'a spi_mach_scheme" where
  "writer_step obj b s = s\<lparr>
     sxfer := (sxfer s)(b := spi_tx_step 1 (sxfer s b)),
     hist := Mmio_wr (spi_regs s obj + SPI_DATAREG) (spi_tx_word (mem s) 1 (si_dummy (sinfo s obj)) (sxfer s b)) # hist s,
     sctrl := (sctrl s)(spi_ctrl (sinfo s obj) := (sctrl s (spi_ctrl (sinfo s obj)))\<lparr>dw_xfer :=
       (spi_dw s obj)\<lparr>tx_xfer := b, t_tx_idx := t_tx_idx (spi_dw s obj) + 1\<rparr>\<rparr>)\<rparr>"

lemma dw_xfer_same [simp]:
  "(d :: dw_spi_transfer)\<lparr>tx_xfer := tx_xfer d\<rparr> = d" "(d :: dw_spi_transfer)\<lparr>rx_xfer := rx_xfer d\<rparr> = d"
  by simp_all

lemma run_writer_loop_Suc:
  assumes "nbytes (spi_dw s obj) = 1"
    and "b = (let x = sxfer s (tx_xfer (spi_dw s obj)) in if x_tx_idx x \<ge> x_tot_len x then x_next x else tx_xfer (spi_dw s obj))"
    and "b \<noteq> 0"
  shows "run_state (writer_loop (Suc n) obj) s = run_state (writer_loop n obj) (writer_step obj b s)"
proof (cases "x_tot_len (sxfer s (tx_xfer (spi_dw s obj))) \<le> x_tx_idx (sxfer s (tx_xfer (spi_dw s obj)))")
  case True
  with assms show ?thesis
    by (simp add: writer_step_def spi_dw_def spi_regs_def upd_dw_xfer_def dw_spi_putdata_def Let_def)
next
  case False
  with assms show ?thesis
    by (simp add: writer_step_def spi_dw_def spi_regs_def upd_dw_xfer_def dw_spi_putdata_def Let_def)
qed

lemma writer_step_blur: "blur_tx obj (writer_step obj b s) = blur_tx obj s"
  by (simp add: blur_tx_def writer_step_def spi_dw_def spi_tx_step_def fun_eq_iff)

lemma spi_tx_word_slot:
  "spi_tx_word m 1 dummy x = tx_word m dummy
     (if x_tx_idx x \<ge> x_tx_ofs x \<and> x_tx_idx x < x_tx_totlen x then Some (x_tx_buf x) else None)"
  by (simp add: spi_tx_word_def tx_word_def)

text \<open>The descriptor the next slot comes from, and the chain from it on.\<close>

lemma tx_atE:
  assumes "tx_at s obj as L" "L \<noteq> []"
  obtains b bs where "b = (let x = sxfer s (tx_xfer (spi_dw s obj)) in if x_tx_idx x \<ge> x_tot_len x then x_next x else tx_xfer (spi_dw s obj))"
    "b \<noteq> 0" "x_tx_idx (sxfer s b) < x_tot_len (sxfer s b)" "chain (sxfer s) b (b # bs)" "distinct (b # bs)"
    "\<forall>a\<in>set bs. x_tx_idx (sxfer s a) = 0 \<and> 0 < x_tot_len (sxfer s a)" "L = tx_own (sxfer s b) @ rest tx_own (sxfer s) bs"
proof -
  obtain a as' where as: "as = a # as'" using assms(1) by (cases as) (auto simp: tx_at_def)
  show ?thesis
  proof (cases "x_tot_len (sxfer s a) \<le> x_tx_idx (sxfer s a)")
    case True
    then have own: "tx_own (sxfer s a) = []" by (rule own_done)
    with assms as obtain b bs where "as' = b # bs" by (cases as') (auto simp: tx_at_def)
    with assms as own True that [of b bs] show ?thesis by (auto simp: tx_at_def Let_def)
  next
    case False
    with assms as that [of a as'] show ?thesis by (auto simp: tx_at_def Let_def not_le)
  qed
qed

lemma tx_at_step:
  assumes at: "tx_at s obj as L" "L \<noteq> []"
  obtains b as' where "b \<noteq> 0"
    "b = (let x = sxfer s (tx_xfer (spi_dw s obj)) in if x_tx_idx x \<ge> x_tot_len x then x_next x else tx_xfer (spi_dw s obj))"
    "spi_tx_word (mem s) 1 (si_dummy (sinfo s obj)) (sxfer s b) = tx_word (mem s) (si_dummy (sinfo s obj)) (hd L)"
    "tx_at (writer_step obj b s) obj as' (tl L)"
proof -
  from at obtain b bs where b: "b = (let x = sxfer s (tx_xfer (spi_dw s obj)) in if x_tx_idx x \<ge> x_tot_len x then x_next x else tx_xfer (spi_dw s obj))"
    "b \<noteq> 0" "x_tx_idx (sxfer s b) < x_tot_len (sxfer s b)" "chain (sxfer s) b (b # bs)" "distinct (b # bs)"
    "\<forall>a\<in>set bs. x_tx_idx (sxfer s a) = 0 \<and> 0 < x_tot_len (sxfer s a)" "L = tx_own (sxfer s b) @ rest tx_own (sxfer s) bs"
    by (rule tx_atE)
  note own = own_step(1) [OF b(3)]
  have L: "tl L = tx_own (spi_tx_step 1 (sxfer s b)) @ rest tx_own (sxfer s) bs"
    "hd L = (if x_tx_idx (sxfer s b) \<ge> x_tx_ofs (sxfer s b) \<and> x_tx_idx (sxfer s b) < x_tx_totlen (sxfer s b)
             then Some (x_tx_buf (sxfer s b)) else None)"
    unfolding b(7) by (simp_all add: own)
  have len: "unat (xfer_len (spi_dw s obj)) = unat (t_tx_idx (spi_dw s obj)) + length L"
    using at(1) by (simp add: tx_at_def)
  have "0 < length L" using at(2) by simp
  with len have "unat (t_tx_idx (spi_dw s obj)) + 1 < 2 ^ 32"
    using u32_bound [of "xfer_len (spi_dw s obj)"] by linarith
  then have idx: "unat (t_tx_idx (spi_dw s obj) + 1) = Suc (unat (t_tx_idx (spi_dw s obj)))"
    by (simp add: unat_word_ariths)
  have len': "unat (xfer_len (spi_dw s obj)) = unat (t_tx_idx (spi_dw s obj) + 1) + length (tl L)"
    using len idx \<open>0 < length L\<close> by simp
  have "nbytes (spi_dw s obj) = 1" using at(1) by (simp add: tx_at_def)
  moreover have "rest tx_own ((sxfer s)(b := spi_tx_step 1 (sxfer s b))) (b # bs) = tl L"
    using b(5) by (simp add: L(1))
  moreover have "chain ((sxfer s)(b := spi_tx_step 1 (sxfer s b))) b (b # bs)"
    using b(4,5) by (simp add: spi_tx_step_def)
  moreover have "\<forall>a\<in>set bs. x_tx_idx (((sxfer s)(b := spi_tx_step 1 (sxfer s b))) a) = 0
      \<and> 0 < x_tot_len (((sxfer s)(b := spi_tx_step 1 (sxfer s b))) a)" using b(5,6) by auto
  ultimately have "tx_at (writer_step obj b s) obj (b # bs) (tl L)"
    using b(5) len' unfolding tx_at_def
    by (simp add: writer_step_def spi_dw_def fun_upd_same del: chain.simps rest_simps fun_upd_apply)
  moreover have "spi_tx_word (mem s) 1 (si_dummy (sinfo s obj)) (sxfer s b) = tx_word (mem s) (si_dummy (sinfo s obj)) (hd L)"
    by (simp only: spi_tx_word_slot L(2))
  ultimately show ?thesis using b(1,2) that by blast
qed

lemma writer_loop_run:
  "tx_at s obj as L \<Longrightarrow> n \<le> length L \<Longrightarrow> \<exists>t as'. run_state (writer_loop n obj) s = (0, t) \<and> tx_at t obj as' (drop n L)
     \<and> blur_tx obj t = blur_tx obj s
     \<and> hist t = map (Mmio_wr (spi_regs s obj + SPI_DATAREG)) (rev (map (tx_word (mem s) (si_dummy (sinfo s obj))) (take n L))) @ hist s"
proof (induction n arbitrary: s as L)
  case 0
  then show ?case by auto
next
  case (Suc n)
  then obtain sl L' where L: "L = sl # L'" by (cases L) auto
  from Suc.prems(1) obtain b as' where b: "b \<noteq> 0"
    "b = (let x = sxfer s (tx_xfer (spi_dw s obj)) in if x_tx_idx x \<ge> x_tot_len x then x_next x else tx_xfer (spi_dw s obj))"
    "spi_tx_word (mem s) 1 (si_dummy (sinfo s obj)) (sxfer s b) = tx_word (mem s) (si_dummy (sinfo s obj)) (hd L)"
    "tx_at (writer_step obj b s) obj as' (tl L)"
    using L by (blast elim: tx_at_step)
  let ?u = "writer_step obj b s"
  have nb: "nbytes (spi_dw s obj) = 1" using Suc.prems(1) by (simp add: tx_at_def)
  have u: "spi_regs ?u obj = spi_regs s obj" "mem ?u = mem s" "sinfo ?u = sinfo s"
    by (simp_all add: writer_step_def spi_regs_def)
  from Suc.IH [OF b(4)] Suc.prems(2) L obtain t as'' where t: "run_state (writer_loop n obj) ?u = (0, t)"
    "tx_at t obj as'' (drop n L')" "blur_tx obj t = blur_tx obj ?u"
    "hist t = map (Mmio_wr (spi_regs ?u obj + SPI_DATAREG)) (rev (map (tx_word (mem ?u) (si_dummy (sinfo ?u obj))) (take n L'))) @ hist ?u"
    by auto
  have "run_state (writer_loop (Suc n) obj) s = (0, t)"
    using run_writer_loop_Suc [OF nb b(2,1)] t(1) by simp
  moreover have "hist ?u = Mmio_wr (spi_regs s obj + SPI_DATAREG) (tx_word (mem s) (si_dummy (sinfo s obj)) sl) # hist s"
    using b(3) L by (simp add: writer_step_def)
  ultimately show ?case
    using t(2-4) u L by (intro exI [of _ t] exI [of _ as'']) (simp add: writer_step_blur)
qed


subsection \<open>The reader fills slots\<close>

definition reader_step :: "plat \<Rightarrow> u32 \<Rightarrow> u32 \<Rightarrow> 'a spi_mach_scheme \<Rightarrow> 'a spi_mach_scheme" where
  "reader_step p obj b s = (let D = spi_regs s obj + SPI_DATAREG; v = mmio_in p (hist s) D in s\<lparr>
     hist := Mmio_rd D v # hist s,
     mem := spi_rx_store 1 v (sxfer s b) (mem s),
     sxfer := (sxfer s)(b := spi_rx_step 1 (sxfer s b)),
     sctrl := (sctrl s)(spi_ctrl (sinfo s obj) := (sctrl s (spi_ctrl (sinfo s obj)))\<lparr>dw_xfer :=
       (spi_dw s obj)\<lparr>rx_xfer := b, t_rx_idx := t_rx_idx (spi_dw s obj) + 1\<rparr>\<rparr>)\<rparr>)"

lemma run_reader_loop_Suc:
  assumes "nbytes (spi_dw s obj) = 1"
    and "b = (let x = sxfer s (rx_xfer (spi_dw s obj)) in if x_rx_idx x \<ge> x_tot_len x then x_next x else rx_xfer (spi_dw s obj))"
    and "b \<noteq> 0"
  shows "run_state (reader_loop (Suc n) p obj) s = run_state (reader_loop n p obj) (reader_step p obj b s)"
proof (cases "x_tot_len (sxfer s (rx_xfer (spi_dw s obj))) \<le> x_rx_idx (sxfer s (rx_xfer (spi_dw s obj)))")
  case True
  with assms show ?thesis
    by (simp add: reader_step_def spi_dw_def spi_regs_def upd_dw_xfer_def dw_spi_getdata_def Let_def)
next
  case False
  with assms show ?thesis
    by (simp add: reader_step_def spi_dw_def spi_regs_def upd_dw_xfer_def dw_spi_getdata_def Let_def)
qed

lemma reader_step_blur: "blur_rx obj (reader_step p obj b s) = blur_rx obj s"
  by (simp add: blur_rx_def reader_step_def spi_dw_def spi_rx_step_def fun_eq_iff Let_def)

lemma spi_rx_store_slot:
  "spi_rx_store 1 v x m = rx_put1 (if x_rx_idx x \<ge> x_rx_ofs x \<and> x_rx_idx x < x_rx_totlen x then Some (x_rx_buf x) else None, v) m"
  by (simp add: spi_rx_store_def rx_put1_def)

lemma rx_atE:
  assumes "rx_at s obj as L" "L \<noteq> []"
  obtains b bs where "b = (let x = sxfer s (rx_xfer (spi_dw s obj)) in if x_rx_idx x \<ge> x_tot_len x then x_next x else rx_xfer (spi_dw s obj))"
    "b \<noteq> 0" "x_rx_idx (sxfer s b) < x_tot_len (sxfer s b)" "chain (sxfer s) b (b # bs)" "distinct (b # bs)"
    "\<forall>a\<in>set bs. x_rx_idx (sxfer s a) = 0 \<and> 0 < x_tot_len (sxfer s a)" "L = rx_own (sxfer s b) @ rest rx_own (sxfer s) bs"
proof -
  obtain a as' where as: "as = a # as'" using assms(1) by (cases as) (auto simp: rx_at_def)
  show ?thesis
  proof (cases "x_tot_len (sxfer s a) \<le> x_rx_idx (sxfer s a)")
    case True
    then have own: "rx_own (sxfer s a) = []" by (rule own_done)
    with assms as obtain b bs where "as' = b # bs" by (cases as') (auto simp: rx_at_def)
    with assms as own True that [of b bs] show ?thesis by (auto simp: rx_at_def Let_def)
  next
    case False
    with assms as that [of a as'] show ?thesis by (auto simp: rx_at_def Let_def not_le)
  qed
qed

lemma rx_at_step:
  assumes at: "rx_at s obj as L" "L \<noteq> []"
  obtains b as' where "b \<noteq> 0"
    "b = (let x = sxfer s (rx_xfer (spi_dw s obj)) in if x_rx_idx x \<ge> x_tot_len x then x_next x else rx_xfer (spi_dw s obj))"
    "\<And>v. spi_rx_store 1 v (sxfer s b) (mem s) = rx_put1 (hd L, v) (mem s)"
    "rx_at (reader_step p obj b s) obj as' (tl L)"
proof -
  from at obtain b bs where b: "b = (let x = sxfer s (rx_xfer (spi_dw s obj)) in if x_rx_idx x \<ge> x_tot_len x then x_next x else rx_xfer (spi_dw s obj))"
    "b \<noteq> 0" "x_rx_idx (sxfer s b) < x_tot_len (sxfer s b)" "chain (sxfer s) b (b # bs)" "distinct (b # bs)"
    "\<forall>a\<in>set bs. x_rx_idx (sxfer s a) = 0 \<and> 0 < x_tot_len (sxfer s a)" "L = rx_own (sxfer s b) @ rest rx_own (sxfer s) bs"
    by (rule rx_atE)
  note own = own_step(2) [OF b(3)]
  have L: "tl L = rx_own (spi_rx_step 1 (sxfer s b)) @ rest rx_own (sxfer s) bs"
    "hd L = (if x_rx_idx (sxfer s b) \<ge> x_rx_ofs (sxfer s b) \<and> x_rx_idx (sxfer s b) < x_rx_totlen (sxfer s b)
             then Some (x_rx_buf (sxfer s b)) else None)"
    unfolding b(7) by (simp_all add: own)
  have len: "unat (xfer_len (spi_dw s obj)) = unat (t_rx_idx (spi_dw s obj)) + length L"
    using at(1) by (simp add: rx_at_def)
  have "0 < length L" using at(2) by simp
  with len have "unat (t_rx_idx (spi_dw s obj)) + 1 < 2 ^ 32"
    using u32_bound [of "xfer_len (spi_dw s obj)"] by linarith
  then have idx: "unat (t_rx_idx (spi_dw s obj) + 1) = Suc (unat (t_rx_idx (spi_dw s obj)))"
    by (simp add: unat_word_ariths)
  have len': "unat (xfer_len (spi_dw s obj)) = unat (t_rx_idx (spi_dw s obj) + 1) + length (tl L)"
    using len idx \<open>0 < length L\<close> by simp
  have "nbytes (spi_dw s obj) = 1" using at(1) by (simp add: rx_at_def)
  moreover have "rest rx_own ((sxfer s)(b := spi_rx_step 1 (sxfer s b))) (b # bs) = tl L"
    using b(5) by (simp add: L(1))
  moreover have "chain ((sxfer s)(b := spi_rx_step 1 (sxfer s b))) b (b # bs)"
    using b(4,5) by (simp add: spi_rx_step_def)
  moreover have "\<forall>a\<in>set bs. x_rx_idx (((sxfer s)(b := spi_rx_step 1 (sxfer s b))) a) = 0
      \<and> 0 < x_tot_len (((sxfer s)(b := spi_rx_step 1 (sxfer s b))) a)" using b(5,6) by auto
  ultimately have "rx_at (reader_step p obj b s) obj (b # bs) (tl L)"
    using b(5) len' unfolding rx_at_def
    by (simp add: reader_step_def spi_dw_def Let_def fun_upd_same del: chain.simps rest_simps fun_upd_apply)
  moreover have "\<And>v. spi_rx_store 1 v (sxfer s b) (mem s) = rx_put1 (hd L, v) (mem s)"
    by (simp only: spi_rx_store_slot L(2))
  ultimately show ?thesis using b(1,2) that by blast
qed

text \<open>What \<open>n\<close> loads of a register return, and the history after them.\<close>

primrec loads :: "plat \<Rightarrow> u32 \<Rightarrow> nat \<Rightarrow> access list \<Rightarrow> u32 list" where
  "loads p a 0 h = []"
| "loads p a (Suc n) h = mmio_in p h a # loads p a n (Mmio_rd a (mmio_in p h a) # h)"

lemma length_loads [simp]: "length (loads p a n h) = n"
  by (induction n arbitrary: h) simp_all

lemma reader_loop_run:
  "rx_at s obj as L \<Longrightarrow> n \<le> length L \<Longrightarrow> vs = loads p (spi_regs s obj + SPI_DATAREG) n (hist s)
   \<Longrightarrow> \<exists>t as'. run_state (reader_loop n p obj) s = (0, t) \<and> rx_at t obj as' (drop n L)
     \<and> blur_rx obj t = blur_rx obj s \<and> mem t = rx_put (take n L) vs (mem s)
     \<and> hist t = map (Mmio_rd (spi_regs s obj + SPI_DATAREG)) (rev vs) @ hist s"
proof (induction n arbitrary: s as L vs)
  case 0
  then show ?case by auto
next
  case (Suc n)
  then obtain sl L' where L: "L = sl # L'" by (cases L) auto
  from Suc.prems(1) obtain b as' where b: "b \<noteq> 0"
    "b = (let x = sxfer s (rx_xfer (spi_dw s obj)) in if x_rx_idx x \<ge> x_tot_len x then x_next x else rx_xfer (spi_dw s obj))"
    "\<And>v. spi_rx_store 1 v (sxfer s b) (mem s) = rx_put1 (hd L, v) (mem s)"
    "rx_at (reader_step p obj b s) obj as' (tl L)"
    using L by (blast elim: rx_at_step [where p = p])
  let ?u = "reader_step p obj b s" and ?D = "spi_regs s obj + SPI_DATAREG"
  let ?v = "mmio_in p (hist s) ?D"
  have nb: "nbytes (spi_dw s obj) = 1" using Suc.prems(1) by (simp add: rx_at_def)
  have u: "spi_regs ?u obj = spi_regs s obj" "mem ?u = rx_put1 (sl, ?v) (mem s)" "hist ?u = Mmio_rd ?D ?v # hist s"
    using b(3) L by (simp_all add: reader_step_def spi_regs_def Let_def)
  from Suc.IH [OF b(4), of "loads p ?D n (hist ?u)"] Suc.prems(2) L u(1)
  obtain t as'' where t: "run_state (reader_loop n p obj) ?u = (0, t)"
    "rx_at t obj as'' (drop n L')" "blur_rx obj t = blur_rx obj ?u"
    "mem t = rx_put (take n L') (loads p ?D n (hist ?u)) (mem ?u)"
    "hist t = map (Mmio_rd ?D) (rev (loads p ?D n (hist ?u))) @ hist ?u"
    by auto
  have "run_state (reader_loop (Suc n) p obj) s = (0, t)"
    using run_reader_loop_Suc [OF nb b(2,1)] t(1) by simp
  then show ?case
    using t(2-5) u L Suc.prems(3) by (intro exI [of _ t] exI [of _ as'']) (simp add: reader_step_blur)
qed

end
