(* ===== verification/SpiSpec.thy ===== *)
theory SpiSpec
  imports SpiEngine
begin

section \<open>What the SPI driver promises\<close>

text \<open>
  Polling transfers over a controller with FIFOs: total correctness, the frames on the wire and
  the bytes in memory.
\<close>

subsection \<open>The controller and its slave\<close>

text \<open>Accesses since the last one of the data register.\<close>

fun idle_since :: "u32 \<Rightarrow> access list \<Rightarrow> nat" where
  "idle_since D [] = 0"
| "idle_since D (Mmio_wr a v # h) = (if a = D then 0 else Suc (idle_since D h))"
| "idle_since D (Mmio_rd a v # h) = (if a = D then 0 else Suc (idle_since D h))"
| "idle_since D (ev # h) = Suc (idle_since D h)"

text \<open>The stores before the \<open>r\<close>-th store to the data register.\<close>

fun stores_before :: "u32 \<Rightarrow> nat \<Rightarrow> (u32 \<times> u32) list \<Rightarrow> (u32 \<times> u32) list" where
  "stores_before D r [] = []"
| "stores_before D r ((a, v) # st) = (
     if a \<noteq> D then (a, v) # stores_before D r st
     else case r of 0 \<Rightarrow> [] | Suc r \<Rightarrow> (a, v) # stores_before D r st)"

text \<open>
  A controller whose FIFOs lose nothing: the levels are within what is under way, nothing stays under way
  for more than \<open>lat\<close> accesses, and the frame received with the frame sent \<open>r\<close>-th is what the
  slave answers to all the stores (frames and chip selects) before it.
\<close>

definition spi_fifo :: "plat \<Rightarrow> u32 \<Rightarrow> u32 \<Rightarrow> nat \<Rightarrow> ((u32 \<times> u32) list \<Rightarrow> u32) \<Rightarrow> bool" where
  "spi_fifo p base flen lat slave \<longleftrightarrow> (\<forall>h. let D = base + SPI_DATAREG; w = length (writes_to D h); r = length (reads_of D h);
       tx = unat (mmio_in p h (base + SPI_TXFLR)); rx = unat (mmio_in p h (base + SPI_RXFLR)) in
     r \<le> w \<longrightarrow> tx \<le> unat flen \<and> tx + rx \<le> w - r \<and> (r < w \<and> lat \<le> idle_since D h \<longrightarrow> 0 < rx)
       \<and> (r < w \<longrightarrow> mmio_in p h D = slave (stores_before D r (mmio_stores h))))"

text \<open>The frames received with the first \<open>n\<close> of the frames \<open>F\<close> sent after the stores \<open>st\<close>.\<close>

definition replies :: "((u32 \<times> u32) list \<Rightarrow> u32) \<Rightarrow> u32 \<Rightarrow> (u32 \<times> u32) list \<Rightarrow> u32 list \<Rightarrow> nat \<Rightarrow> u32 list" where
  "replies slave D st F n = map (\<lambda>k. slave (st @ map (Pair D) (take k F))) [0 ..< n]"

lemma length_replies [simp]: "length (replies slave D st F n) = n"
  by (simp add: replies_def)

lemma length_writes_to: "length (writes_to D h) = length (filter (\<lambda>x. fst x = D) (mmio_stores h))"
  by (induction D h rule: writes_to.induct) auto

lemma stores_before_append:
  "length (filter (\<lambda>x. fst x = D) st) = c \<Longrightarrow> stores_before D (c + k) (st @ map (Pair D) G) = st @ map (Pair D) (take k G)"
proof (induction st arbitrary: c)
  case Nil
  show ?case using Nil
  proof (induction G arbitrary: k c)
    case (Cons g G)
    then show ?case by (cases k) auto
  qed simp
next
  case (Cons x st)
  obtain a v where x: "x = (a, v)" by fastforce
  show ?case
  proof (cases "a = D")
    case True
    with Cons.prems x obtain c' where "c = Suc c'" "length (filter (\<lambda>x. fst x = D) st) = c'" by auto
    with Cons.IH [of c'] x True show ?thesis by simp
  next
    case False
    with Cons x show ?thesis by simp
  qed
qed

lemma spi_fifoD:
  assumes "spi_fifo p base flen lat slave" "length (reads_of (base + SPI_DATAREG) h) = c + r"
    "length (writes_to (base + SPI_DATAREG) h) = c + w" "r \<le> w"
  shows "unat (mmio_in p h (base + SPI_TXFLR)) \<le> unat flen"
    and "unat (mmio_in p h (base + SPI_TXFLR)) + unat (mmio_in p h (base + SPI_RXFLR)) \<le> w - r"
    and "r < w \<Longrightarrow> lat \<le> idle_since (base + SPI_DATAREG) h \<Longrightarrow> 0 < unat (mmio_in p h (base + SPI_RXFLR))"
    and "r < w \<Longrightarrow> mmio_in p h (base + SPI_DATAREG) = slave (stores_before (base + SPI_DATAREG) (c + r) (mmio_stores h))"
  using assms by (auto simp: spi_fifo_def Let_def dest!: spec [of _ h])

text \<open>The loads of the data register are the replies that are due.\<close>

lemma loads_replies:
  assumes "spi_fifo p base flen lat slave" "D = base + SPI_DATAREG"
  shows "mmio_stores h = st @ map (Pair D) G \<Longrightarrow> length (filter (\<lambda>x. fst x = D) st) = c \<Longrightarrow> length (reads_of D h) = c + r
    \<Longrightarrow> r + n \<le> length G \<Longrightarrow> loads p D n h = map (\<lambda>k. slave (st @ map (Pair D) (take k G))) [r ..< r + n]"
proof (induction n arbitrary: h r)
  case (Suc n)
  have w: "length (writes_to D h) = c + length G"
    using Suc.prems(1,2) by (simp add: length_writes_to)
  have v: "mmio_in p h D = slave (st @ map (Pair D) (take r G))"
    using spi_fifoD(4) [OF assms(1), of h c r "length G"] Suc.prems w
    by (simp add: assms(2) [symmetric] stores_before_append)
  have "loads p D n (Mmio_rd D (mmio_in p h D) # h) = map (\<lambda>k. slave (st @ map (Pair D) (take k G))) [Suc r ..< Suc r + n]"
    using Suc.prems by (intro Suc.IH) simp_all
  then show ?case using v by (simp add: upt_conv_Cons del: upt_Suc)
qed simp

subsection \<open>One call of the writer and of the reader\<close>

lemma at_hist [simp]:
  "tx_at (s\<lparr>hist := h\<rparr>) obj as L = tx_at s obj as L" "rx_at (s\<lparr>hist := h\<rparr>) obj as L = rx_at s obj as L"
  "blur_tx obj (s\<lparr>hist := h\<rparr>) = blur_tx obj s" "blur_rx obj (s\<lparr>hist := h\<rparr>) = blur_rx obj s"
  "spi_regs (s\<lparr>hist := h\<rparr>) obj = spi_regs s obj"
  by (simp_all add: tx_at_def rx_at_def spi_dw_def blur_tx_def blur_rx_def spi_regs_def)

lemma word_min: "(if (x :: u32) < y then x else y) = of_nat (min (unat x) (unat y))"
  by (auto simp: word_less_nat_alt min_def)

lemma writer_run:
  assumes at: "tx_at s obj as L" and flen: "sc_tx_fifo_len (sctrl s (spi_ctrl (sinfo s obj))) = flen" "1 < flen"
    and level: "mmio_in p (hist s) (spi_regs s obj + SPI_TXFLR) = level" "unat level \<le> unat flen"
    and m: "m = min (length L) (unat flen - unat level)"
  obtains t as' where "run_state (dw_spi_writer p obj) s = (Inr (of_nat m), t)" "tx_at t obj as' (drop m L)"
    "blur_tx obj t = blur_tx obj s"
    "hist t = map (Mmio_wr (spi_regs s obj + SPI_DATAREG)) (rev (map (tx_word (mem s) (si_dummy (sinfo s obj))) (take m L)))
       @ Mmio_rd (spi_regs s obj + SPI_TXFLR) level # hist s"
proof -
  let ?u = "s\<lparr>hist := Mmio_rd (spi_regs s obj + SPI_TXFLR) level # hist s\<rparr>"
  let ?d = "spi_dw s obj"
  have nb: "nbytes ?d = 1" and len: "unat (xfer_len ?d) = unat (t_tx_idx ?d) + length L" and ne: "tx_xfer ?d \<noteq> 0"
    using at by (cases as; auto simp: tx_at_def)+
  have left: "unat (xfer_len ?d - t_tx_idx ?d) = length L"
    using len by (subst unat_sub) (simp_all add: word_le_nat_alt)
  have room: "unat (flen - level) = unat flen - unat level"
    using level(2) by (subst unat_sub) (simp_all add: word_le_nat_alt)
  have max: "run_state (dw_spi_tx_max p (spi_ctrl (sinfo s obj))) s = (Inr (of_nat m), ?u)"
    using nb flen(1) not_le [THEN iffD2, OF flen(2)] level(1) m left room
    by (simp add: dw_spi_tx_max_def dw_spi_get_txavail_def spi_dw_def spi_regs_def word_min Let_def del: of_nat_min)
  have small: "unat (of_nat m :: u32) = m"
    using m u32_bound [of "xfer_len ?d"] len by (simp add: unat_of_nat)
  from at m obtain t as' where t: "run_state (writer_loop m obj) ?u = (0, t)" "tx_at t obj as' (drop m L)"
    "blur_tx obj t = blur_tx obj ?u"
    "hist t = map (Mmio_wr (spi_regs ?u obj + SPI_DATAREG)) (rev (map (tx_word (mem ?u) (si_dummy (sinfo ?u obj))) (take m L))) @ hist ?u"
    using writer_loop_run [of ?u obj as L m] by auto
  have fix1: "sinfo t obj = sinfo s obj" "nbytes (spi_dw t obj) = 1"
    using fixed_fields(1,5) [OF blur_fixed(1) [OF t(3)]] nb by (simp_all add: spi_dw_def)
  have "run_state (dw_spi_writer p obj) s = (Inr (of_nat m), t)"
    using max t(1) small fix1 ne by (simp add: dw_spi_writer_def spi_dw_def Let_def)
  with t(2-4) show ?thesis by (intro that) simp_all
qed

lemma reader_run:
  assumes at: "rx_at s obj as L" and flen: "sc_rx_fifo_len (sctrl s (spi_ctrl (sinfo s obj))) = flen" "1 < flen"
    and level: "mmio_in p (hist s) (spi_regs s obj + SPI_RXFLR) = level" and m: "m = min (length L) (unat level)"
    and vs: "vs = loads p (spi_regs s obj + SPI_DATAREG) m (Mmio_rd (spi_regs s obj + SPI_RXFLR) level # hist s)"
  obtains t as' where "run_state (dw_spi_reader p obj) s = (Inr (of_nat m), t)" "rx_at t obj as' (drop m L)"
    "blur_rx obj t = blur_rx obj s" "mem t = rx_put (take m L) vs (mem s)"
    "hist t = map (Mmio_rd (spi_regs s obj + SPI_DATAREG)) (rev vs) @ Mmio_rd (spi_regs s obj + SPI_RXFLR) level # hist s"
proof -
  let ?u = "s\<lparr>hist := Mmio_rd (spi_regs s obj + SPI_RXFLR) level # hist s\<rparr>"
  let ?d = "spi_dw s obj"
  have nb: "nbytes ?d = 1" and len: "unat (xfer_len ?d) = unat (t_rx_idx ?d) + length L" and ne: "rx_xfer ?d \<noteq> 0"
    using at by (cases as; auto simp: rx_at_def)+
  have left: "unat (xfer_len ?d - t_rx_idx ?d) = length L"
    using len by (subst unat_sub) (simp_all add: word_le_nat_alt)
  have max: "run_state (dw_spi_rx_max p (spi_ctrl (sinfo s obj))) s = (Inr (of_nat m), ?u)"
    using nb flen(1) not_le [THEN iffD2, OF flen(2)] level m left
    by (simp add: dw_spi_rx_max_def dw_spi_get_rxavail_def spi_dw_def spi_regs_def word_min Let_def del: of_nat_min)
  have small: "unat (of_nat m :: u32) = m"
    using m u32_bound [of "xfer_len ?d"] len by (simp add: unat_of_nat)
  from at m vs obtain t as' where t: "run_state (reader_loop m p obj) ?u = (0, t)" "rx_at t obj as' (drop m L)"
    "blur_rx obj t = blur_rx obj ?u" "mem t = rx_put (take m L) vs (mem ?u)"
    "hist t = map (Mmio_rd (spi_regs ?u obj + SPI_DATAREG)) (rev vs) @ hist ?u"
    using reader_loop_run [of ?u obj as L m vs p] by auto
  have fix1: "sinfo t obj = sinfo s obj" "nbytes (spi_dw t obj) = 1"
    using fixed_fields(1,5) [OF blur_fixed(2) [OF t(3)]] nb by (simp_all add: spi_dw_def)
  have "run_state (dw_spi_reader p obj) s = (Inr (of_nat m), t)"
    using max t(1) small fix1 ne by (simp add: dw_spi_reader_def spi_dw_def Let_def)
  with t(2-5) show ?thesis by (intro that) simp_all
qed


subsection \<open>The polling loop\<close>

text \<open>The state of a driver without what a transfer changes.\<close>

definition spi_core :: "u32 \<Rightarrow> 'a spi_mach_scheme \<Rightarrow> 'a spi_mach_scheme" where
  "spi_core obj s = blur_rx obj (blur_tx obj s)"

lemma update_swap:
  "(d :: dw_spi_transfer)\<lparr>tx_xfer := 0, t_tx_idx := 0, rx_xfer := 0, t_rx_idx := 0\<rparr>
   = d\<lparr>rx_xfer := 0, t_rx_idx := 0, tx_xfer := 0, t_tx_idx := 0\<rparr>"
  "(x :: dev_spi_transfer)\<lparr>x_tx_buf := 0, x_tx_idx := 0, x_rx_buf := 0, x_rx_idx := 0\<rparr>
   = x\<lparr>x_rx_buf := 0, x_rx_idx := 0, x_tx_buf := 0, x_tx_idx := 0\<rparr>"
  by (cases d, simp) (cases x, simp)

lemma spi_core_cong:
  "blur_tx obj t = blur_tx obj s \<Longrightarrow> spi_core obj t = spi_core obj s"
  "blur_rx obj t = blur_rx obj s \<Longrightarrow> spi_core obj t = spi_core obj s"
proof -
  have "spi_core obj u = blur_tx obj (blur_rx obj u)" for u :: "'a spi_mach_scheme"
    by (rule spi_mach.equality) (simp_all add: spi_core_def blur_tx_def blur_rx_def spi_dw_def update_swap)
  then show "blur_rx obj t = blur_rx obj s \<Longrightarrow> spi_core obj t = spi_core obj s" by simp
qed (simp add: spi_core_def)

lemma spi_core_fixed: "spi_core obj t = spi_core obj s \<Longrightarrow> spi_fixed obj t = spi_fixed obj s"
  by (metis spi_core_def spi_fixed_blur)

text \<open>
  The state after \<open>w\<close> frames have been sent and \<open>r\<close> received of a transfer started in \<open>s0\<close>
  with the slots \<open>Lt\<close> and \<open>Lr\<close>.
\<close>

definition frames :: "'a spi_mach_scheme \<Rightarrow> u32 \<Rightarrow> u32 option list \<Rightarrow> u32 list" where
  "frames s obj Lt = map (tx_word (mem s) (si_dummy (sinfo s obj))) Lt"

lemma length_frames [simp]: "length (frames s obj L) = length L"
  by (simp add: frames_def)

definition polling ::
  "((u32 \<times> u32) list \<Rightarrow> u32) \<Rightarrow> 'a spi_mach_scheme \<Rightarrow> u32 \<Rightarrow> u32 option list \<Rightarrow> u32 option list \<Rightarrow> nat \<Rightarrow> nat
     \<Rightarrow> 'a spi_mach_scheme \<Rightarrow> bool" where
  "polling slave s0 obj Lt Lr w r s \<longleftrightarrow> (let D = spi_regs s0 obj + SPI_DATAREG; F = frames s0 obj Lt in
     r \<le> w \<and> w \<le> length Lt \<and> (\<exists>as. tx_at s obj as (drop w Lt)) \<and> (\<exists>as. rx_at s obj as (drop r Lr))
     \<and> spi_core obj s = spi_core obj s0
     \<and> mem s = rx_put (take r Lr) (replies slave D (mmio_stores (hist s0)) F r) (mem s0)
     \<and> mmio_stores (hist s) = mmio_stores (hist s0) @ map (Pair D) (take w F)
     \<and> length (reads_of D (hist s)) = length (reads_of D (hist s0)) + r)"

text \<open>No byte is sent from a place an earlier frame of the transfer was received into.\<close>

definition slots_safe :: "u32 option list \<Rightarrow> u32 option list \<Rightarrow> bool" where
  "slots_safe Lt Lr \<longleftrightarrow> (\<forall>j<length Lt. \<forall>i<j. Lt ! j \<noteq> None \<longrightarrow> Lr ! i \<noteq> Lt ! j)"

lemma tx_word_kept:
  assumes "slots_safe Lt Lr" "length Lr = length Lt" "r \<le> w"
  shows "map (tx_word (rx_put (take r Lr) vs m) dummy) (drop w Lt) = map (tx_word m dummy) (drop w Lt)"
proof (rule map_cong [OF refl])
  fix sl assume "sl \<in> set (drop w Lt)"
  then obtain j where j: "w \<le> j" "j < length Lt" "sl = Lt ! j"
    by (auto simp: in_set_conv_nth) (metis add.commute le_add1 less_diff_conv)
  show "tx_word (rx_put (take r Lr) vs m) dummy sl = tx_word m dummy sl"
  proof (cases sl)
    case (Some a)
    have "Some a \<notin> set (take r Lr)"
    proof
      assume "Some a \<in> set (take r Lr)"
      then obtain i where "i < r" "Lr ! i = Some a" by (auto simp: in_set_conv_nth)
      moreover have "i < j" using \<open>i < r\<close> assms(3) j(1) by simp
      ultimately show False using assms(1) j(2,3) Some unfolding slots_safe_def by (metis option.distinct(1))
    qed
    then show ?thesis using Some by (simp add: tx_word_def rx_put_other)
  qed (simp add: tx_word_def)
qed

lemma mmio_stores_writes: "mmio_stores (map (Mmio_wr a) (rev vs) @ h) = mmio_stores h @ map (Pair a) vs"
  by (induction vs rule: rev_induct) auto

lemma mmio_stores_reads: "mmio_stores (map (Mmio_rd a) vs @ h) = mmio_stores h"
  by (induction vs) auto

lemma reads_of_writes: "reads_of b (map (Mmio_wr a) vs @ h) = reads_of b h"
  by (induction vs) auto

lemma length_reads_of_reads: "length (reads_of a (map (Mmio_rd a) vs @ h)) = length (reads_of a h) + length vs"
  by (induction vs) auto

lemma idle_since_access:
  "vs \<noteq> [] \<Longrightarrow> idle_since a (map (Mmio_wr a) vs @ h) = 0" "vs \<noteq> [] \<Longrightarrow> idle_since a (map (Mmio_rd a) vs @ h) = 0"
  by (cases vs; simp)+

lemma writer_round:
  assumes fifo: "spi_fifo p (spi_regs s0 obj) flen lat slave" and inv: "polling slave s0 obj Lt Lr w r s"
    and fl: "sc_tx_fifo_len (sctrl s0 (spi_ctrl (sinfo s0 obj))) = flen" "1 < flen"
    and bal: "length (writes_to (spi_regs s0 obj + SPI_DATAREG) (hist s0)) = length (reads_of (spi_regs s0 obj + SPI_DATAREG) (hist s0))"
    and safe: "slots_safe Lt Lr" "length Lr = length Lt"
  obtains w' t where "run_state (dw_spi_writer p obj) s = (Inr (of_nat (w' - w)), t)" "w \<le> w'" "polling slave s0 obj Lt Lr w' r t"
    "w' = w \<longrightarrow> idle_since (spi_regs s0 obj + SPI_DATAREG) (hist t) = Suc (idle_since (spi_regs s0 obj + SPI_DATAREG) (hist s))"
    "r = w \<and> w < length Lt \<longrightarrow> w < w'"
proof -
  let ?D = "spi_regs s0 obj + SPI_DATAREG" and ?F = "frames s0 obj Lt" and ?st = "mmio_stores (hist s0)"
  define c where "c = length (reads_of ?D (hist s0))"
  from inv obtain as bs where I: "r \<le> w" "w \<le> length Lt" "tx_at s obj as (drop w Lt)" "rx_at s obj bs (drop r Lr)"
    "spi_core obj s = spi_core obj s0" "mem s = rx_put (take r Lr) (replies slave ?D ?st ?F r) (mem s0)"
    "mmio_stores (hist s) = ?st @ map (Pair ?D) (take w ?F)" "length (reads_of ?D (hist s)) = c + r"
    by (auto simp: polling_def Let_def c_def)
  note fx = fixed_fields [OF spi_core_fixed [OF I(5)]]
  have wr: "length (writes_to ?D (hist s)) = c + w"
    using I(2,7) bal by (simp add: length_writes_to c_def frames_def)
  note law = spi_fifoD [OF fifo I(8) wr I(1)]
  let ?level = "mmio_in p (hist s) (spi_regs s0 obj + SPI_TXFLR)"
  define m where "m = min (length (drop w Lt)) (unat flen - unat ?level)"
  obtain t as' where t: "run_state (dw_spi_writer p obj) s = (Inr (of_nat m), t)" "tx_at t obj as' (drop m (drop w Lt))"
    "blur_tx obj t = blur_tx obj s"
    "hist t = map (Mmio_wr ?D) (rev (map (tx_word (mem s) (si_dummy (sinfo s obj))) (take m (drop w Lt))))
       @ Mmio_rd (spi_regs s0 obj + SPI_TXFLR) ?level # hist s"
  proof (rule writer_run [OF I(3), of flen p ?level m])
    show "sc_tx_fifo_len (sctrl s (spi_ctrl (sinfo s obj))) = flen" using fx(3) fl(1) by simp
    show "1 < flen" by (rule fl(2))
    show "mmio_in p (hist s) (spi_regs s obj + SPI_TXFLR) = ?level" using fx(2) by simp
    show "unat ?level \<le> unat flen" by (rule law(1))
    show "m = min (length (drop w Lt)) (unat flen - unat ?level)" by (rule m_def)
  qed (use fx(2) that in simp_all)
  have sent: "map (tx_word (mem s) (si_dummy (sinfo s obj))) (take m (drop w Lt)) = take m (drop w ?F)"
    using arg_cong [OF tx_word_kept [OF safe I(1), of "replies slave ?D ?st ?F r" "mem s0" "si_dummy (sinfo s0 obj)"], of "take m"]
    by (simp only: I(6) fx(1) frames_def take_map drop_map)
  have "polling slave s0 obj Lt Lr (w + m) r t"
  proof -
    have st: "mmio_stores (hist t) = ?st @ map (Pair ?D) (take (w + m) ?F)"
      unfolding t(4) sent mmio_stores_writes by (simp add: I(7) take_add)
    have rd: "length (reads_of ?D (hist t)) = c + r"
      unfolding t(4) reads_of_writes by (simp add: I(8))
    have "rx_at t obj bs (drop r Lr)" using blur_keeps(1) [OF t(3)] I(4) by blast
    moreover have "spi_core obj t = spi_core obj s0" using spi_core_cong(1) [OF t(3)] I(5) by simp
    moreover have "mem t = mem s" by (rule blur_mem [OF t(3)])
    moreover have "tx_at t obj as' (drop (w + m) Lt)" using t(2) by (simp add: add.commute)
    ultimately show ?thesis
      using I(1,2,6) st rd m_def unfolding polling_def Let_def c_def by auto
  qed
  moreover have "idle_since ?D (hist t) = Suc (idle_since ?D (hist s))" if "m = 0"
    using that unfolding t(4) by simp
  moreover have "0 < m" if "r = w" "w < length Lt"
  proof -
    have "unat ?level = 0" using law(2) that(1) by simp
    then show ?thesis using that(2) fl(2) by (simp add: m_def word_less_nat_alt)
  qed
  ultimately show ?thesis using t(1) that [of "w + m" t] by auto
qed

lemma reader_round:
  assumes fifo: "spi_fifo p (spi_regs s0 obj) flen lat slave" and inv: "polling slave s0 obj Lt Lr w r s"
    and fl: "sc_rx_fifo_len (sctrl s0 (spi_ctrl (sinfo s0 obj))) = flen'" "1 < flen'"
    and bal: "length (writes_to (spi_regs s0 obj + SPI_DATAREG) (hist s0)) = length (reads_of (spi_regs s0 obj + SPI_DATAREG) (hist s0))"
    and safe: "length Lr = length Lt"
  obtains r' t where "run_state (dw_spi_reader p obj) s = (Inr (of_nat (r' - r)), t)" "r \<le> r'" "polling slave s0 obj Lt Lr w r' t"
    "r' = r \<longrightarrow> idle_since (spi_regs s0 obj + SPI_DATAREG) (hist t) = Suc (idle_since (spi_regs s0 obj + SPI_DATAREG) (hist s))"
    "r < w \<and> lat \<le> idle_since (spi_regs s0 obj + SPI_DATAREG) (hist s) \<longrightarrow> r < r'"
proof -
  let ?D = "spi_regs s0 obj + SPI_DATAREG" and ?F = "frames s0 obj Lt" and ?st = "mmio_stores (hist s0)"
  define c where "c = length (reads_of ?D (hist s0))"
  from inv obtain as bs where I: "r \<le> w" "w \<le> length Lt" "tx_at s obj as (drop w Lt)" "rx_at s obj bs (drop r Lr)"
    "spi_core obj s = spi_core obj s0" "mem s = rx_put (take r Lr) (replies slave ?D ?st ?F r) (mem s0)"
    "mmio_stores (hist s) = ?st @ map (Pair ?D) (take w ?F)" "length (reads_of ?D (hist s)) = c + r"
    by (auto simp: polling_def Let_def c_def)
  note fx = fixed_fields [OF spi_core_fixed [OF I(5)]]
  have wr: "length (writes_to ?D (hist s)) = c + w"
    using I(2,7) bal by (simp add: length_writes_to c_def frames_def)
  note law = spi_fifoD [OF fifo I(8) wr I(1)]
  let ?level = "mmio_in p (hist s) (spi_regs s0 obj + SPI_RXFLR)"
  let ?h = "Mmio_rd (spi_regs s0 obj + SPI_RXFLR) ?level # hist s"
  define m where "m = min (length (drop r Lr)) (unat ?level)"
  have mw: "r + m \<le> w" using law(2) I(1) by (simp add: m_def)
  obtain t bs' where t: "run_state (dw_spi_reader p obj) s = (Inr (of_nat m), t)" "rx_at t obj bs' (drop m (drop r Lr))"
    "blur_rx obj t = blur_rx obj s" "mem t = rx_put (take m (drop r Lr)) (loads p ?D m ?h) (mem s)"
    "hist t = map (Mmio_rd ?D) (rev (loads p ?D m ?h)) @ ?h"
  proof (rule reader_run [OF I(4), of flen' p ?level m "loads p ?D m ?h"])
    show "sc_rx_fifo_len (sctrl s (spi_ctrl (sinfo s obj))) = flen'" using fx(4) fl(1) by simp
    show "1 < flen'" by (rule fl(2))
    show "mmio_in p (hist s) (spi_regs s obj + SPI_RXFLR) = ?level" using fx(2) by simp
    show "m = min (length (drop r Lr)) (unat ?level)" by (rule m_def)
  qed (use fx(2) that in simp_all)
  have vs: "loads p ?D m ?h = map (\<lambda>k. slave (?st @ map (Pair ?D) (take k ?F))) [r ..< r + m]"
  proof -
    have "loads p ?D m ?h = map (\<lambda>k. slave (?st @ map (Pair ?D) (take k (take w ?F)))) [r ..< r + m]"
    proof (rule loads_replies [OF fifo refl])
      show "mmio_stores ?h = ?st @ map (Pair ?D) (take w ?F)" by (simp add: I(7))
      show "length (filter (\<lambda>x. fst x = ?D) ?st) = c" using bal by (simp add: length_writes_to c_def)
      show "length (reads_of ?D ?h) = c + r" by (simp add: I(8))
      show "r + m \<le> length (take w ?F)" using mw I(2) by (simp add: frames_def)
    qed
    also have "\<dots> = map (\<lambda>k. slave (?st @ map (Pair ?D) (take k ?F))) [r ..< r + m]"
      using mw by (intro map_cong refl) (simp add: min_def)
    finally show ?thesis .
  qed
  have "polling slave s0 obj Lt Lr w (r + m) t"
  proof -
    have st: "mmio_stores (hist t) = ?st @ map (Pair ?D) (take w ?F)"
      unfolding t(5) mmio_stores_reads by (simp add: I(7))
    have rd: "length (reads_of ?D (hist t)) = c + (r + m)"
      unfolding t(5) length_reads_of_reads by (simp add: I(8))
    have "mem t = rx_put (take (r + m) Lr) (replies slave ?D ?st ?F (r + m)) (mem s0)"
    proof -
      have "replies slave ?D ?st ?F (r + m) = replies slave ?D ?st ?F r @ loads p ?D m ?h"
        unfolding vs by (simp add: replies_def upt_add_eq_append [of 0 r m])
      moreover have "length (take r Lr) = length (replies slave ?D ?st ?F r)" using I(1,2) safe by simp
      ultimately show ?thesis by (simp only: t(4) I(6) take_add rx_put_append)
    qed
    moreover have "tx_at t obj as (drop w Lt)" using blur_keeps(2) [OF t(3)] I(3) by blast
    moreover have "spi_core obj t = spi_core obj s0" using spi_core_cong(2) [OF t(3)] I(5) by simp
    moreover have "rx_at t obj bs' (drop (r + m) Lr)" using t(2) by (simp add: add.commute)
    ultimately show ?thesis
      using I(2) mw st rd unfolding polling_def Let_def c_def by auto
  qed
  moreover have "idle_since ?D (hist t) = Suc (idle_since ?D (hist s))" if "m = 0"
    using that unfolding t(5) by simp
  moreover have "0 < m" if "r < w" "lat \<le> idle_since ?D (hist s)"
    using law(3) [OF that] that(1) I(2) safe by (simp add: m_def)
  ultimately show ?thesis using t(1) that [of "r + m" t] by auto
qed


text \<open>
  Every round moves a frame or brings the controller nearer to its next one: twice the number of
  frames, times one more than the latency, bounds the rounds.
\<close>

lemma spi_poll_loop_total:
  assumes fifo: "spi_fifo p (spi_regs s0 obj) flen lat slave"
    and fl: "sc_tx_fifo_len (sctrl s0 (spi_ctrl (sinfo s0 obj))) = flen" "1 < flen"
      "sc_rx_fifo_len (sctrl s0 (spi_ctrl (sinfo s0 obj))) = flen'" "1 < flen'"
    and bal: "length (writes_to (spi_regs s0 obj + SPI_DATAREG) (hist s0)) = length (reads_of (spi_regs s0 obj + SPI_DATAREG) (hist s0))"
    and safe: "slots_safe Lt Lr" "length Lr = length Lt"
  shows "polling slave s0 obj Lt Lr w r s
    \<Longrightarrow> (2 * length Lt - (w + r)) * Suc lat + (lat - idle_since (spi_regs s0 obj + SPI_DATAREG) (hist s)) \<le> fuel
    \<Longrightarrow> \<exists>t. run_state (spi_poll_loop fuel p obj (of_nat (w + r))) s = (Inr (of_nat (2 * length Lt)), t)
        \<and> polling slave s0 obj Lt Lr (length Lt) (length Lt) t"
proof (induction fuel arbitrary: s w r)
  case (0 s w r)
  let ?N = "length Lt"
  have I: "r \<le> w" "w \<le> ?N" using 0 by (auto simp: polling_def Let_def)
  with 0 have "w = ?N" "r = ?N" by auto
  moreover have "dw_spi_xfer_end (dw_xfer (sctrl s (spi_ctrl (sinfo s obj))))"
    using 0(1) safe(2) \<open>w = ?N\<close> \<open>r = ?N\<close>
    by (auto simp: polling_def Let_def tx_at_def rx_at_def spi_dw_def dw_spi_xfer_end_def dw_spi_tx_end_def dw_spi_rx_end_def word_le_nat_alt)
  ultimately show ?case using 0(1) by simp
next
  case (Suc fuel s w r)
  let ?N = "length Lt" and ?D = "spi_regs s0 obj + SPI_DATAREG"
  have I: "r \<le> w" "w \<le> ?N" using Suc.prems(1) by (auto simp: polling_def Let_def)
  have "end": "dw_spi_xfer_end (dw_xfer (sctrl s (spi_ctrl (sinfo s obj)))) \<longleftrightarrow> w = ?N \<and> r = ?N"
    using Suc.prems(1) safe(2) I
    by (auto simp: polling_def Let_def tx_at_def rx_at_def spi_dw_def dw_spi_xfer_end_def dw_spi_tx_end_def dw_spi_rx_end_def word_le_nat_alt)
  show ?case
  proof (cases "w = ?N \<and> r = ?N")
    case True
    then show ?thesis using Suc.prems(1) "end" by simp
  next
    case False
    then have ne: "\<not> dw_spi_xfer_end (dw_xfer (sctrl s (spi_ctrl (sinfo s obj))))" using "end" by blast
    obtain w' t where t: "run_state (dw_spi_writer p obj) s = (Inr (of_nat (w' - w)), t)" "w \<le> w'" "polling slave s0 obj Lt Lr w' r t"
      "w' = w \<longrightarrow> idle_since ?D (hist t) = Suc (idle_since ?D (hist s))" "r = w \<and> w < ?N \<longrightarrow> w < w'"
      by (rule writer_round [OF fifo Suc.prems(1) fl(1,2) bal safe])
    obtain r' u where u: "run_state (dw_spi_reader p obj) t = (Inr (of_nat (r' - r)), u)" "r \<le> r'" "polling slave s0 obj Lt Lr w' r' u"
      "r' = r \<longrightarrow> idle_since ?D (hist u) = Suc (idle_since ?D (hist t))" "r < w' \<and> lat \<le> idle_since ?D (hist t) \<longrightarrow> r < r'"
      by (rule reader_round [OF fifo t(3) fl(3,4) bal safe(2)])
    have J: "r' \<le> w'" "w' \<le> ?N" using u(3) by (auto simp: polling_def Let_def)
    have sum: "of_nat (w + r) + of_nat (w' - w) + of_nat (r' - r) = (of_nat (w' + r') :: u32)"
      using t(2) u(2) by (simp add: of_nat_diff)
    have "(2 * ?N - (w' + r')) * Suc lat + (lat - idle_since ?D (hist u)) \<le> fuel"
    proof (cases "w' + r' = w + r")
      case True
      then have eq: "w' = w" "r' = r" using t(2) u(2) by auto
      have "r < w" using False I t(5) eq(1) by (cases "r = w") auto
      with u(5) eq have "idle_since ?D (hist t) < lat" by auto
      with t(4) u(4) eq have "lat - idle_since ?D (hist u) < lat - idle_since ?D (hist s)" by simp
      then show ?thesis using Suc.prems(2) eq by simp
    next
      case more: False
      then have "Suc (2 * ?N - (w' + r')) \<le> 2 * ?N - (w + r)"
        using t(2) u(2) J I by arith
      then have "Suc (2 * ?N - (w' + r')) * Suc lat \<le> (2 * ?N - (w + r)) * Suc lat"
        by (rule mult_le_mono1)
      then have "Suc lat + (2 * ?N - (w' + r')) * Suc lat \<le> (2 * ?N - (w + r)) * Suc lat"
        by (simp only: mult_Suc)
      then show ?thesis using Suc.prems(2) by linarith
    qed
    from Suc.IH [OF u(3) this] obtain v where
      v: "run_state (spi_poll_loop fuel p obj (of_nat (w' + r'))) u = (Inr (of_nat (2 * ?N)), v)"
      "polling slave s0 obj Lt Lr ?N ?N v" by blast
    have "run_state (spi_poll_loop (Suc fuel) p obj (of_nat (w + r))) s = (Inr (of_nat (2 * ?N)), v)"
      using ne t(1) u(1) v(1) sum by (simp del: of_nat_add of_nat_mult)
    with v(2) show ?thesis by blast
  qed
qed


subsection \<open>Setting a transfer up\<close>

text \<open>The slots of a descriptor as its user fills it in: a window of the buffer and gaps around it.\<close>

definition window :: "nat \<Rightarrow> u32 \<Rightarrow> u32 \<Rightarrow> u32 \<Rightarrow> u32 option list" where
  "window n b off len = replicate (unat off) None @ map (\<lambda>k. Some (b + of_nat k)) [0 ..< unat len]
     @ replicate (n - unat off - unat len) None"

definition xfer_total :: "dev_spi_transfer \<Rightarrow> nat" where
  "xfer_total x = max (unat (x_tx_ofs x) + unat (x_tx_len x)) (unat (x_rx_ofs x) + unat (x_rx_len x))"

definition tx_window :: "dev_spi_transfer \<Rightarrow> u32 option list" where
  "tx_window x = window (xfer_total x) (x_tx_buf x) (x_tx_ofs x) (x_tx_len x)"

definition rx_window :: "dev_spi_transfer \<Rightarrow> u32 option list" where
  "rx_window x = window (xfer_total x) (x_rx_buf x) (x_rx_ofs x) (x_rx_len x)"

lemma slots_after: "unat tot \<le> i \<Longrightarrow> i + n < 2 ^ 32 \<Longrightarrow> slots n (of_nat i) off tot b = replicate n None"
proof (induction n arbitrary: i)
  case (Suc n)
  have "\<not> (of_nat i :: u32) < tot" using Suc.prems by (simp add: word_less_nat_alt unat_of_nat)
  moreover have "slots n (of_nat (Suc i)) off tot b = replicate n None" using Suc.prems by (intro Suc.IH) auto
  ultimately show ?case by (simp add: algebra_simps)
qed simp

lemma slots_in:
  "unat off \<le> i \<Longrightarrow> i + l = unat tot \<Longrightarrow> l \<le> n \<Longrightarrow> i + n < 2 ^ 32
   \<Longrightarrow> slots n (of_nat i) off tot b = map (\<lambda>k. Some (b + of_nat k)) [0 ..< l] @ replicate (n - l) None"
proof (induction l arbitrary: n i b)
  case 0
  then have "slots n (of_nat i) off tot b = replicate n None" by (intro slots_after) simp_all
  then show ?case by simp
next
  case (Suc l)
  then obtain n' where n: "n = Suc n'" by (cases n) auto
  have "off \<le> (of_nat i :: u32)" "(of_nat i :: u32) < tot"
    using Suc.prems by (simp_all add: word_less_nat_alt word_le_nat_alt unat_of_nat)
  moreover have "slots n' (of_nat (Suc i)) off tot (b + 1) = map (\<lambda>k. Some (b + 1 + of_nat k)) [0 ..< l] @ replicate (n' - l) None"
    using Suc.prems n by (intro Suc.IH) auto
  moreover have "map (\<lambda>k. Some (b + 1 + of_nat k)) [0 ..< l] = map (\<lambda>k. Some (b + of_nat k)) [Suc 0 ..< Suc l]"
    by (simp add: map_Suc_upt [symmetric] o_def algebra_simps del: upt_Suc)
  ultimately show ?case
    unfolding n by (simp add: upt_conv_Cons algebra_simps del: upt_Suc)
qed

lemma slots_before_window:
  "i + j = unat off \<Longrightarrow> unat off \<le> unat tot \<Longrightarrow> unat tot \<le> i + n \<Longrightarrow> i + n < 2 ^ 32
   \<Longrightarrow> slots n (of_nat i) off tot b = replicate j None @ map (\<lambda>k. Some (b + of_nat k)) [0 ..< unat tot - unat off]
        @ replicate (n - j - (unat tot - unat off)) None"
proof (induction j arbitrary: n i)
  case 0
  then show ?case using slots_in [of off i "unat tot - unat off" tot n b] by simp
next
  case (Suc j)
  then obtain n' where n: "n = Suc n'" by (cases n) auto
  have "\<not> off \<le> (of_nat i :: u32)" using Suc.prems u32_bound [of off] by (simp add: word_le_nat_alt unat_of_nat)
  moreover have "slots n' (of_nat (Suc i)) off tot b = replicate j None
      @ map (\<lambda>k. Some (b + of_nat k)) [0 ..< unat tot - unat off] @ replicate (n' - j - (unat tot - unat off)) None"
    using Suc.prems n by (intro Suc.IH) auto
  ultimately show ?case unfolding n by (simp add: algebra_simps)
qed

definition xfer_fits :: "dev_spi_transfer \<Rightarrow> bool" where
  "xfer_fits x \<longleftrightarrow> 0 < xfer_total x \<and> xfer_total x < 2 ^ 32"

lemma init_windows:
  assumes "xfer_fits x"
  shows "unat (x_tot_len (DEV_SPI_XFER_INIT x)) = xfer_total x"
    and "tx_own (DEV_SPI_XFER_INIT x) = tx_window x" "rx_own (DEV_SPI_XFER_INIT x) = rx_window x"
proof -
  have tx: "unat (x_tx_len x + x_tx_ofs x) = unat (x_tx_ofs x) + unat (x_tx_len x)"
    and rx: "unat (x_rx_len x + x_rx_ofs x) = unat (x_rx_ofs x) + unat (x_rx_len x)"
    using assms by (simp_all add: xfer_fits_def xfer_total_def unat_word_ariths)
  show tot: "unat (x_tot_len (DEV_SPI_XFER_INIT x)) = xfer_total x"
    by (simp add: DEV_SPI_XFER_INIT_def DEV_SPI_XFER_CALC_TOTLEN_def xfer_total_def word_less_nat_alt tx rx max_def)
  have "slots (xfer_total x) (of_nat 0) (x_tx_ofs x) (x_tx_len x + x_tx_ofs x) (x_tx_buf x) = tx_window x"
    using assms tx by (subst slots_before_window [of 0 "unat (x_tx_ofs x)"])
      (auto simp: tx_window_def window_def xfer_fits_def xfer_total_def)
  then show "tx_own (DEV_SPI_XFER_INIT x) = tx_window x"
    unfolding tx_own_def tot by (simp add: DEV_SPI_XFER_INIT_def DEV_SPI_XFER_CALC_TOTLEN_def)
  have "slots (xfer_total x) (of_nat 0) (x_rx_ofs x) (x_rx_len x + x_rx_ofs x) (x_rx_buf x) = rx_window x"
    using assms rx by (subst slots_before_window [of 0 "unat (x_rx_ofs x)"])
      (auto simp: rx_window_def window_def xfer_fits_def xfer_total_def)
  then show "rx_own (DEV_SPI_XFER_INIT x) = rx_window x"
    unfolding rx_own_def tot by (simp add: DEV_SPI_XFER_INIT_def DEV_SPI_XFER_CALC_TOTLEN_def)
qed

lemma length_windows: "length (tx_window x) = xfer_total x" "length (rx_window x) = xfer_total x"
  by (simp_all add: tx_window_def rx_window_def window_def xfer_total_def)

definition init_set :: "u32 list \<Rightarrow> (u32 \<Rightarrow> dev_spi_transfer) \<Rightarrow> u32 \<Rightarrow> dev_spi_transfer" where
  "init_set as h a = (if a \<in> set as then DEV_SPI_XFER_INIT (h a) else h a)"

lemma init_chain_run:
  "chain (sxfer s) x as \<Longrightarrow> distinct as \<Longrightarrow> length as \<le> fuel
   \<Longrightarrow> run_state (init_chain fuel x n) s = (Inr (n + sum_list (map (\<lambda>a. x_tot_len (DEV_SPI_XFER_INIT (sxfer s a))) as)),
        s\<lparr>sxfer := init_set as (sxfer s)\<rparr>)"
proof (induction as arbitrary: x n s fuel)
  case Nil
  moreover have "init_set [] (sxfer s) = sxfer s" by (simp add: init_set_def fun_eq_iff)
  ultimately show ?case by (cases fuel) simp_all
next
  case (Cons a as)
  then obtain f where f: "fuel = Suc f" by (cases fuel) auto
  let ?h = "(sxfer s)(a := DEV_SPI_XFER_INIT (sxfer s a))"
  have nx: "x_next (DEV_SPI_XFER_INIT y) = x_next y" for y
    by (simp add: DEV_SPI_XFER_INIT_def DEV_SPI_XFER_CALC_TOTLEN_def)
  have "chain (sxfer (s\<lparr>sxfer := ?h\<rparr>)) (x_next (sxfer s a)) as" "distinct as" "length as \<le> f"
    using Cons.prems f by simp_all
  note ih = Cons.IH [OF this]
  have sums: "map (\<lambda>b. x_tot_len (DEV_SPI_XFER_INIT (sxfer (s\<lparr>sxfer := ?h\<rparr>) b))) as
      = map (\<lambda>b. x_tot_len (DEV_SPI_XFER_INIT (sxfer s b))) as"
    using Cons.prems(2) by (intro map_cong) auto
  have "init_set as ?h = init_set (a # as) (sxfer s)"
    using Cons.prems(2) by (auto simp: init_set_def fun_eq_iff)
  then have "run_state (init_chain f (x_next (sxfer s a)) k) (s\<lparr>sxfer := ?h\<rparr>)
      = (Inr (k + sum_list (map (\<lambda>b. x_tot_len (DEV_SPI_XFER_INIT (sxfer s b))) as)), s\<lparr>sxfer := init_set (a # as) (sxfer s)\<rparr>)" for k
    unfolding ih sums by simp
  with Cons.prems(1) show ?case by (simp add: f nx add.assoc)
qed

text \<open>The slots of a chain, and a transfer that its descriptors describe.\<close>

definition chain_tx :: "(u32 \<Rightarrow> dev_spi_transfer) \<Rightarrow> u32 list \<Rightarrow> u32 option list" where
  "chain_tx h as = rest tx_window h as"

definition chain_rx :: "(u32 \<Rightarrow> dev_spi_transfer) \<Rightarrow> u32 list \<Rightarrow> u32 option list" where
  "chain_rx h as = rest rx_window h as"

lemma length_chain: "length (chain_rx h as) = length (chain_tx h as)"
  by (induction as) (simp_all add: chain_tx_def chain_rx_def length_windows)

definition spi_transfer_ok :: "(u32 \<Rightarrow> dev_spi_transfer) \<Rightarrow> u32 \<Rightarrow> u32 list \<Rightarrow> bool" where
  "spi_transfer_ok h x as \<longleftrightarrow> chain h x as \<and> distinct as \<and> as \<noteq> [] \<and> (\<forall>a\<in>set as. xfer_fits (h a))
     \<and> length (chain_tx h as) < 2 ^ 31 \<and> slots_safe (chain_tx h as) (chain_rx h as)"


lemma unat_sum_list: "sum_list (map (\<lambda>a. unat (f a)) as) < 2 ^ 32 \<Longrightarrow> unat (sum_list (map f as) :: u32) = sum_list (map (\<lambda>a. unat (f a)) as)"
  by (induction as) (simp_all add: unat_word_ariths)

lemma sum_totals:
  "\<forall>a\<in>set as. xfer_fits (h a) \<Longrightarrow> sum_list (map (\<lambda>a. unat (x_tot_len (DEV_SPI_XFER_INIT (h a)))) as) = length (chain_tx h as)"
  by (induction as) (simp_all add: chain_tx_def length_windows init_windows(1))

lemma chain_cong: "\<forall>a. x_next (g a) = x_next (h a) \<Longrightarrow> chain g x as = chain h x as"
  by (induction as arbitrary: x) simp_all

lemma rest_cong: "(\<And>a. a \<in> set as \<Longrightarrow> own (g a) = own' (h a)) \<Longrightarrow> rest own g as = rest own' h as"
  by (induction as) auto

text \<open>The transfer state \<open>dw_spi_init_transfer\<close> leaves for byte frames.\<close>

lemma init_transfer_run:
  assumes ok: "spi_transfer_ok (sxfer s) x as" and "\<not> dfs > 8" "length as \<le> fuel"
  obtains u where "run_state (dw_spi_init_transfer fuel (spi_ctrl (sinfo s obj)) x dfs) s = (Inr (), u)"
    "tx_at u obj as (chain_tx (sxfer s) as)" "rx_at u obj as (chain_rx (sxfer s) as)"
    "hist u = hist s" "mem u = mem s" "sinfo u = sinfo s" "exc_int_handler_table u = exc_int_handler_table s"
    "sctrl u = (sctrl s)(spi_ctrl (sinfo s obj) := (sctrl s (spi_ctrl (sinfo s obj)))\<lparr>dw_xfer := spi_dw u obj\<rparr>)"
proof -
  let ?cp = "spi_ctrl (sinfo s obj)"
  let ?d = "\<lparr>xfer_len = xfer_len (spi_dw s obj), t_tx_idx = 0, t_rx_idx = 0, nbytes = 1, tx_xfer = x, rx_xfer = x\<rparr>"
  let ?n = "sum_list (map (\<lambda>a. x_tot_len (DEV_SPI_XFER_INIT (sxfer s a))) as)"
  let ?h = "init_set as (sxfer s)"
  define u where "u = s\<lparr>sctrl := (sctrl s)(?cp := (sctrl s ?cp)\<lparr>dw_xfer := ?d\<lparr>xfer_len := ?n\<rparr>\<rparr>), sxfer := ?h\<rparr>"
  have ch: "chain (sxfer s) x as" "distinct as" "as \<noteq> []" "\<forall>a\<in>set as. xfer_fits (sxfer s a)"
    using ok by (simp_all add: spi_transfer_ok_def)
  have nb: "dw_spi_nbytes dfs = 1" using assms(2) by (simp add: dw_spi_nbytes_def)
  have d: "(dw_xfer c)\<lparr>tx_xfer := x, rx_xfer := x, t_tx_idx := 0, t_rx_idx := 0, nbytes := 1\<rparr>
      = \<lparr>xfer_len = xfer_len (dw_xfer c), t_tx_idx = 0, t_rx_idx = 0, nbytes = 1, tx_xfer = x, rx_xfer = x\<rparr>" for c
    by (rule dw_spi_transfer.equality) simp_all
  have init: "run_state (init_chain fuel x 0) (s\<lparr>sctrl := g\<rparr>) = (Inr ?n, s\<lparr>sctrl := g, sxfer := ?h\<rparr>)" for g
    using init_chain_run [of "s\<lparr>sctrl := g\<rparr>" x as fuel 0] ch assms(3) by simp
  have run: "run_state (dw_spi_init_transfer fuel ?cp x dfs) s = (Inr (), u)"
    by (simp add: dw_spi_init_transfer_def upd_dw_xfer_def nb d init u_def spi_dw_def)
  have lens: "unat ?n = length (chain_tx (sxfer s) as)"
    using ok sum_totals [OF ch(4)] by (subst unat_sum_list) (simp_all add: spi_transfer_ok_def)
  have nx: "x_next (DEV_SPI_XFER_INIT y) = x_next y" "x_tx_idx (DEV_SPI_XFER_INIT y) = 0" "x_rx_idx (DEV_SPI_XFER_INIT y) = 0" for y
    by (simp_all add: DEV_SPI_XFER_INIT_def DEV_SPI_XFER_CALC_TOTLEN_def)
  have chain: "chain ?h x as" using ch(1) chain_cong [of ?h "sxfer s" x as] nx by (simp add: init_set_def)
  have slots: "rest tx_own ?h as = chain_tx (sxfer s) as" "rest rx_own ?h as = chain_rx (sxfer s) as"
    unfolding chain_tx_def chain_rx_def using ch(4) by (intro rest_cong; simp add: init_windows init_set_def)+
  have fresh: "\<forall>a\<in>set (tl as). x_tx_idx (?h a) = 0 \<and> x_rx_idx (?h a) = 0 \<and> 0 < x_tot_len (?h a)"
  proof
    fix a assume "a \<in> set (tl as)"
    then have a: "a \<in> set as" by (rule list.set_sel(2) [OF ch(3)])
    with ch(4) have "0 < unat (x_tot_len (DEV_SPI_XFER_INIT (sxfer s a)))" by (simp add: init_windows(1) xfer_fits_def)
    with a show "x_tx_idx (?h a) = 0 \<and> x_rx_idx (?h a) = 0 \<and> 0 < x_tot_len (?h a)" by (simp add: nx word_less_nat_alt init_set_def)
  qed
  have "tx_at u obj as (chain_tx (sxfer s) as)" "rx_at u obj as (chain_rx (sxfer s) as)"
    using chain slots fresh ch(2,3) lens
    by (simp_all add: tx_at_def rx_at_def spi_dw_def u_def length_chain)
  with run show ?thesis by (intro that [of u]) (simp_all add: u_def spi_dw_def)
qed


text \<open>The hardware a transfer needs, and the bound on the rounds of its loop.\<close>

definition spi_hw_ok :: "plat \<Rightarrow> nat \<Rightarrow> ((u32 \<times> u32) list \<Rightarrow> u32) \<Rightarrow> u32 \<Rightarrow> 'a spi_mach_scheme \<Rightarrow> bool" where
  "spi_hw_ok p lat slave obj s \<longleftrightarrow> (let c = sctrl s (spi_ctrl (sinfo s obj)); D = dw_spi_regs c + SPI_DATAREG in
     spi_fifo p (dw_spi_regs c) (sc_tx_fifo_len c) lat slave \<and> 1 < sc_tx_fifo_len c \<and> 1 < sc_rx_fifo_len c
     \<and> length (writes_to D (hist s)) = length (reads_of D (hist s)))"

definition spi_fuel :: "nat \<Rightarrow> u32 list \<Rightarrow> u32 option list \<Rightarrow> nat" where
  "spi_fuel lat as L = length as + (2 * length L + 1) * Suc lat"

text \<open>What a transfer leaves: the frames sent, the bytes received, and the info objects as they were.\<close>

definition transferred ::
  "((u32 \<times> u32) list \<Rightarrow> u32) \<Rightarrow> u32 \<Rightarrow> u32 option list \<Rightarrow> u32 option list \<Rightarrow> 'a spi_mach_scheme \<Rightarrow> 'a spi_mach_scheme \<Rightarrow> bool" where
  "transferred slave obj Lt Lr s t \<longleftrightarrow> (let D = spi_regs s obj + SPI_DATAREG; F = frames s obj Lt in
     mmio_stores (hist t) = mmio_stores (hist s) @ map (Pair D) F
     \<and> mem t = rx_put Lr (replies slave D (mmio_stores (hist s)) F (length Lt)) (mem s)
     \<and> sinfo t = sinfo s \<and> length (writes_to D (hist t)) = length (reads_of D (hist t)))"

lemma set_clear: "(x :: u32) AND m = 0 \<Longrightarrow> (x OR m) AND NOT m = x"
proof (rule bit_word_eqI)
  fix n assume z: "x AND m = 0" and n: "n < LENGTH(32)"
  have "\<not> (bit x n \<and> bit m n)" using z by (metis bit_and_iff bit_0_eq bot_apply bot_bool_def)
  then show "bit ((x OR m) AND NOT m) n = bit x n" using n by (auto simp: bit_simps)
qed

lemma spi_transfer_total:
  assumes ok: "spi_transfer_ok (sxfer s) x as" and dfs: "\<not> dfs > 8" and hw: "spi_hw_ok p lat slave obj s"
    and fuel: "spi_fuel lat as (chain_tx (sxfer s) as) \<le> fuel" and idle: "si_status (sinfo s obj) AND DEV_IN_XFER = 0"
  obtains t where "run_state (bindE (dw_spi_init_transfer fuel (spi_ctrl (sinfo s obj)) x dfs) (\<lambda>_. dw_spi_poll_transfer p fuel obj)) s
      = (Inr (of_nat (length (chain_tx (sxfer s) as))), t)"
    "transferred slave obj (chain_tx (sxfer s) as) (chain_rx (sxfer s) as) s t"
proof -
  let ?Lt = "chain_tx (sxfer s) as" and ?Lr = "chain_rx (sxfer s) as" and ?N = "length (chain_tx (sxfer s) as)"
  let ?st = "si_status (sinfo s obj)"
  have "length as \<le> fuel" using fuel by (simp add: spi_fuel_def)
  from init_transfer_run [OF ok dfs this] obtain u where
    u: "run_state (dw_spi_init_transfer fuel (spi_ctrl (sinfo s obj)) x dfs) s = (Inr (), u)"
    "tx_at u obj as ?Lt" "rx_at u obj as ?Lr"
    "hist u = hist s" "mem u = mem s" "sinfo u = sinfo s"
    "sctrl u = (sctrl s)(spi_ctrl (sinfo s obj) := (sctrl s (spi_ctrl (sinfo s obj)))\<lparr>dw_xfer := spi_dw u obj\<rparr>)"
    by blast
  define v where "v = u\<lparr>sinfo := (sinfo u)(obj := (sinfo u obj)\<lparr>si_status := ?st OR DEV_IN_XFER\<rparr>)\<rparr>"
  have regs: "dw_spi_regs (sctrl u (spi_ctrl (sinfo s obj))) = dw_spi_regs (sctrl s (spi_ctrl (sinfo s obj)))"
    using arg_cong [OF u(7), of "\<lambda>g. dw_spi_regs (g (spi_ctrl (sinfo s obj)))"] by simp
  have v: "tx_at v obj as ?Lt" "rx_at v obj as ?Lr" "hist v = hist s" "mem v = mem s" "spi_regs v obj = spi_regs s obj"
    "frames v obj ?Lt = frames s obj ?Lt"
    using u(2-6) regs by (simp_all add: v_def tx_at_def rx_at_def spi_dw_def spi_regs_def frames_def)
  have ctl: "sc_tx_fifo_len (sctrl v (spi_ctrl (sinfo v obj))) = sc_tx_fifo_len (sctrl s (spi_ctrl (sinfo s obj)))"
    "sc_rx_fifo_len (sctrl v (spi_ctrl (sinfo v obj))) = sc_rx_fifo_len (sctrl s (spi_ctrl (sinfo s obj)))"
    using arg_cong [OF u(7), of "\<lambda>g. sc_tx_fifo_len (g (spi_ctrl (sinfo s obj)))"]
      arg_cong [OF u(7), of "\<lambda>g. sc_rx_fifo_len (g (spi_ctrl (sinfo s obj)))"] u(6) by (simp_all add: v_def)
  have hw': "spi_fifo p (spi_regs v obj) (sc_tx_fifo_len (sctrl v (spi_ctrl (sinfo v obj)))) lat slave"
    "1 < sc_tx_fifo_len (sctrl v (spi_ctrl (sinfo v obj)))" "1 < sc_rx_fifo_len (sctrl v (spi_ctrl (sinfo v obj)))"
    "length (writes_to (spi_regs v obj + SPI_DATAREG) (hist v)) = length (reads_of (spi_regs v obj + SPI_DATAREG) (hist v))"
    using hw unfolding ctl v(3,5) by (simp_all add: spi_hw_ok_def spi_regs_def Let_def)
  have start: "polling slave v obj ?Lt ?Lr 0 0 v"
    using v(1,2) by (auto simp: polling_def Let_def)
  have "(2 * ?N - (0 + 0)) * Suc lat + (lat - idle_since (spi_regs v obj + SPI_DATAREG) (hist v)) \<le> fuel"
    using fuel by (simp add: spi_fuel_def algebra_simps)
  from spi_poll_loop_total [OF hw'(1) refl hw'(2) refl hw'(3,4) _ length_chain start this] ok
  obtain w where w: "run_state (spi_poll_loop fuel p obj 0) v = (Inr (of_nat (2 * ?N)), w)"
    "polling slave v obj ?Lt ?Lr ?N ?N w" by (auto simp: spi_transfer_ok_def)
  have W: "spi_core obj w = spi_core obj v" "length (reads_of (spi_regs s obj + SPI_DATAREG) (hist w))
      = length (reads_of (spi_regs s obj + SPI_DATAREG) (hist s)) + ?N"
    "mem w = rx_put ?Lr (replies slave (spi_regs s obj + SPI_DATAREG) (mmio_stores (hist s)) (frames s obj ?Lt) ?N) (mem s)"
    "mmio_stores (hist w) = mmio_stores (hist s) @ map (Pair (spi_regs s obj + SPI_DATAREG)) (frames s obj ?Lt)"
    using w(2) by (simp_all add: polling_def Let_def v length_chain)
  have info: "sinfo w = sinfo v"
    using arg_cong [OF W(1), of sinfo] by (simp add: spi_core_def blur_tx_def blur_rx_def)
  define t where "t = w\<lparr>sinfo := (sinfo w)(obj := (sinfo w obj)\<lparr>si_status := si_status (sinfo w obj) AND NOT DEV_IN_XFER\<rparr>)\<rparr>"
  have half: "drop_bit 1 (of_nat (2 * ?N) :: u32) = of_nat ?N"
  proof -
    have "?N < 2 ^ 31" using ok by (simp add: spi_transfer_ok_def)
    then show ?thesis
      by (simp only: word_unat_eq_iff unat_drop_bit_eq unat_of_nat) (simp add: drop_bit_eq_div)
  qed
  have "run_state (dw_spi_poll_transfer p fuel obj) u = (Inr (of_nat ?N), t)"
    using w(1) half v_def u(6) by (simp add: dw_spi_poll_transfer_def t_def del: of_nat_mult)
  moreover have "sinfo t = sinfo s"
  proof -
    have "(si_status (sinfo s obj) OR DEV_IN_XFER) AND NOT DEV_IN_XFER = si_status (sinfo s obj)"
      by (rule set_clear) (rule idle)
    then show ?thesis unfolding t_def info v_def u(6) by (simp add: fun_upd_idem)
  qed
  moreover have "length (writes_to (spi_regs s obj + SPI_DATAREG) (hist t)) = length (reads_of (spi_regs s obj + SPI_DATAREG) (hist t))"
    using W(2,4) hw'(4) by (simp add: t_def length_writes_to v(3,5))
  ultimately show ?thesis
    using u(1) W(3,4) by (intro that [of t]) (simp_all add: transferred_def Let_def t_def)
qed

end
