(* ===== verification/SpiProps.thy ===== *)
theory SpiProps
  imports SpiSpec
begin

section \<open>Blocking transfers of the SPI driver\<close>

definition spi_ready :: "'a spi_mach_scheme \<Rightarrow> u32 \<Rightarrow> bool" where
  "spi_ready s obj \<longleftrightarrow> spi_valid s obj \<and> 0 < si_opn_cnt (sinfo s obj) \<and> si_status (sinfo s obj) AND DEV_ENABLED \<noteq> 0
     \<and> si_status (sinfo s obj) AND DEV_IN_XFER = 0 \<and> si_dfs (sinfo s obj) \<le> 8"

lemma byte_dfs: "(d :: u8) \<le> 8 \<Longrightarrow> \<not> (ucast d :: u32) > 8"
  by (simp add: word_le_nat_alt word_less_nat_alt unat_byte)

text \<open>
  C15: A polling transfer through \<open>dw_spi_control\<close>, on an open, enabled and idle device with frames of at most 8 bits, of any
  chain of distinct descriptors none of which is empty or longer than \<open>2^32\<close>, with fewer than \<open>2^31\<close> frames in all and no byte sent from a place
  an earlier frame of the same transfer is received into; the controller loses no frame, delivers each within \<open>lat\<close>
  accesses, has FIFOs of more than one frame and none left over. The call returns \<open>E_OK\<close> within \<open>spi_fuel\<close> rounds, the frames sent are exactly those the windows of the
  chain describe (buffer bytes inside, the dummy outside), in order, and the frames received are
  stored exactly where the receive windows say; the info objects are as before.
\<close>

theorem spi_polling_transfer:
  assumes ready: "spi_ready s obj" and hw: "spi_hw_ok p lat slave obj s" and param: "param \<noteq> 0" "aligned4 param"
    and x: "x = si_xfer (sinfo s obj)" and h: "h = (sxfer s)(x := sxfer s param)"
    and ok: "spi_transfer_ok h x as" and fuel: "spi_fuel lat as (chain_tx h as) \<le> fuel"
  shows "\<exists>t. run_state (dw_spi_control p fuel cb obj SPI_CMD_TRANSFER_POLLING param) s = (Inr E_OK, t)
      \<and> transferred slave obj (chain_tx h as) (chain_rx h as) s t"
proof -
  let ?u = "s\<lparr>sxfer := h\<rparr>"
  have r: "spi_valid s obj" "0 < si_opn_cnt (sinfo s obj)" "si_status (sinfo s obj) AND DEV_ENABLED \<noteq> 0"
    "si_status (sinfo s obj) AND DEV_IN_XFER = 0" "\<not> (ucast (si_dfs (sinfo s obj)) :: u32) > 8"
    using ready byte_dfs by (auto simp: spi_ready_def)
  have hw': "spi_hw_ok p lat slave obj ?u" using hw by (simp add: spi_hw_ok_def)
  obtain t where t: "run_state (bindE (dw_spi_init_transfer fuel (spi_ctrl (sinfo ?u obj)) x (ucast (si_dfs (sinfo s obj))))
      (\<lambda>_. dw_spi_poll_transfer p fuel obj)) ?u = (Inr (of_nat (length (chain_tx (sxfer ?u) as))), t)"
    "transferred slave obj (chain_tx (sxfer ?u) as) (chain_rx (sxfer ?u) as) ?u t"
    by (rule spi_transfer_total [of ?u x as "ucast (si_dfs (sinfo s obj))" p lat slave obj fuel])
       (use ok r(5) hw' fuel r(4) in simp_all)
  have "run_state (dw_spi_control p fuel cb obj SPI_CMD_TRANSFER_POLLING param) s = (Inr E_OK, t)"
    using r param t(1)
    by (simp add: dw_spi_control_def spi_command_def spi_start_transfer_def dw_spi_chk_xfer_aligned_def x h Let_def
        split: prod.splits sum.splits)
  moreover have "transferred slave obj (chain_tx h as) (chain_rx h as) s t"
    using t(2) by (simp add: transferred_def frames_def spi_regs_def)
  ultimately show ?thesis by blast
qed


text \<open>A controller with FIFOs that never waits, and the concrete device of the witnesses.\<close>

definition fifo_plat :: "u32 \<Rightarrow> ((u32 \<times> u32) list \<Rightarrow> u32) \<Rightarrow> plat" where
  "fifo_plat base slave = sample_plat\<lparr>mmio_in := \<lambda>h a.
     let D = base + SPI_DATAREG; w = length (writes_to D h); r = length (reads_of D h) in
     if a = base + SPI_RXFLR then (if r < w then 1 else 0)
     else if a = D then slave (stores_before D r (mmio_stores h)) else 0\<rparr>"

lemma fifo_plat: "spi_fifo (fifo_plat base slave) base flen 0 slave"
  by (simp add: spi_fifo_def fifo_plat_def Let_def Suc_le_eq)

definition spi_info1 :: dev_spi_info where
  "spi_info1 = \<lparr>spi_ctrl = 0x200, si_status = 1, si_freq = 1000000, si_mode = 0, si_clk_mode = 0, si_opn_cnt = 1,
     si_slave = 0, si_dfs = 8, si_xfer = 0x300, si_tx_cb = 0, si_rx_cb = 0, si_err_cb = 0, si_xfer_cb = 0,
     si_extra = 0, si_dummy = 0xff\<rparr>"

definition spi_ctrl1 :: dw_spi_ctrl where
  "spi_ctrl1 = \<lparr>dw_spi_regs = 0xF0006000, support_modes = 3, sc_intno = 20, dw_apb_bus_freq = 50000000, rx_sampledly = 0,
     sc_tx_fifo_len = 16, sc_rx_fifo_len = 16, dw_spi_int_handler = 0x4000, sc_int_status = 0, dw_xfer = zero_dw_xfer\<rparr>"

text \<open>A command of two bytes and three bytes to be received, the second descriptor at 0x500.\<close>

definition xfer_cmd :: dev_spi_transfer where
  "xfer_cmd = zero_spi_transfer\<lparr>x_next := 0x500, x_tx_buf := 0x1000, x_tx_len := 2\<rparr>"

definition xfer_data :: dev_spi_transfer where
  "xfer_data = zero_spi_transfer\<lparr>x_rx_buf := 0x2000, x_rx_len := 3\<rparr>"

definition spi_mach1 :: spi_mach where
  "spi_mach1 = \<lparr>hist = [], mem = ucast, exc_int_handler_table = replicate 48 0x100,
     sinfo = (\<lambda>_. spi_info1), sctrl = (\<lambda>_. spi_ctrl1), sxfer = (\<lambda>_. zero_spi_transfer)(0x400 := xfer_cmd, 0x500 := xfer_data)\<rparr>"

definition count_slave :: "(u32 \<times> u32) list \<Rightarrow> u32" where
  "count_slave st = of_nat (length st) + 0x40"

abbreviation (input) spi_plat1 :: plat where "spi_plat1 \<equiv> fifo_plat 0xF0006000 count_slave"

lemma spi_mach1_ready [simp]: "spi_ready spi_mach1 0x100" "spi_hw_ok spi_plat1 0 count_slave 0x100 spi_mach1"
  by (simp_all add: spi_ready_def spi_valid_def spi_mach1_def spi_info1_def spi_hw_ok_def spi_ctrl1_def fifo_plat)

lemma spi_polling_transfer_witness:
  "\<exists>t. run_state (dw_spi_control spi_plat1 20 (\<lambda>_ _. State_Monad.return ()) 0x100 SPI_CMD_TRANSFER_POLLING 0x400) spi_mach1 = (Inr E_OK, t)
    \<and> mmio_stores (hist t) = map (Pair 0xF0006060) [0, 1, 0xff, 0xff, 0xff] \<and> bytes_at (mem t) 0x2000 3 = [0x42, 0x43, 0x44]"
proof -
  let ?h = "(sxfer spi_mach1)(0x300 := sxfer spi_mach1 0x400)"
  have si: "si_xfer (sinfo spi_mach1 0x100) = 0x300" by code_simp
  have tx: "chain_tx ?h [0x300, 0x500] = [Some 0x1000, Some 0x1001, None, None, None]" by code_simp
  have rx: "chain_rx ?h [0x300, 0x500] = [None, None, Some 0x2000, Some 0x2001, Some 0x2002]" by code_simp
  have fits: "chain ?h 0x300 [0x300, 0x500]" "\<forall>a\<in>set [0x300, 0x500]. xfer_fits (?h a)"
    by (simp_all add: spi_mach1_def xfer_fits_def xfer_total_def xfer_cmd_def xfer_data_def zero_spi_transfer_def)
  have "slots_safe [Some 0x1000, Some 0x1001, None, None, None] [None, None, Some 0x2000, Some 0x2001, Some 0x2002]"
    by (auto simp: slots_safe_def less_Suc_eq numeral_eq_Suc)
  with fits have "spi_transfer_ok ?h 0x300 [0x300, 0x500]" unfolding spi_transfer_ok_def tx rx by simp
  moreover have "spi_fuel 0 [0x300, 0x500] (chain_tx ?h [0x300, 0x500]) \<le> 20" unfolding tx by (simp add: spi_fuel_def)
  ultimately obtain t where t: "run_state (dw_spi_control spi_plat1 20 (\<lambda>_ _. State_Monad.return ()) 0x100 SPI_CMD_TRANSFER_POLLING 0x400) spi_mach1 = (Inr E_OK, t)"
    "transferred count_slave 0x100 [Some 0x1000, Some 0x1001, None, None, None] [None, None, Some 0x2000, Some 0x2001, Some 0x2002] spi_mach1 t"
    using spi_polling_transfer [of spi_mach1 "0x100" spi_plat1 0 count_slave "0x400" "0x300" ?h "[0x300, 0x500]" 20] si
    unfolding tx rx by (auto simp: aligned4_def)
  have base: "spi_regs spi_mach1 0x100 + SPI_DATAREG = 0xF0006060" by code_simp
  have fr: "frames spi_mach1 0x100 [Some 0x1000, Some 0x1001, None, None, None] = [0, 1, 0xff, 0xff, 0xff]" by code_simp
  have "bytes_at (rx_put [None, None, Some 0x2000, Some 0x2001, Some 0x2002]
     (replies count_slave 0xF0006060 [] [0, 1, 0xff, 0xff, 0xff] (Suc (Suc (Suc (Suc (Suc 0)))))) (mem spi_mach1)) 0x2000 3 = [0x42, 0x43, 0x44]" by code_simp
  moreover have "hist spi_mach1 = []" by (simp add: spi_mach1_def)
  ultimately show ?thesis using t by (intro exI [of _ t]) (simp add: transferred_def base fr Let_def)
qed

text \<open>The chains of the blocking write and read: one descriptor.\<close>

lemma rx_put_none: "rx_put (replicate n None) vs m = m"
proof (induction n arbitrary: vs)
  case (Suc n)
  then show ?case by (cases vs) (simp_all add: rx_put_def rx_put1_def)
qed simp

lemma rx_put_bytes: "length vs = n \<Longrightarrow> rx_put (map (\<lambda>k. Some (b + of_nat k)) [0 ..< n]) vs m = put_bytes b (map ucast vs) m"
proof (induction vs arbitrary: n b m)
  case (Cons v vs)
  then obtain n' where n: "n = Suc n'" "length vs = n'" by (cases n) auto
  have "map (\<lambda>k. Some (b + of_nat k)) [Suc 0 ..< Suc n'] = map (\<lambda>k. Some (b + 1 + of_nat k)) [0 ..< n']"
    by (simp add: map_Suc_upt [symmetric] o_def algebra_simps del: upt_Suc)
  then show ?case using Cons.IH [OF n(2), of "b + 1"] n(1) by (simp add: upt_conv_Cons rx_put1_def fun_upd_def del: upt_Suc)
qed simp

lemma slots_safe_none: "slots_safe Lt (replicate (length Lt) None)" "slots_safe (replicate n None) Lr"
  by (auto simp: slots_safe_def)

lemma single_windows:
  assumes "0 < unat len" "unat len < 2 ^ 31" "x_next x = 0"
  shows "\<lbrakk>x_tx_ofs x = 0; x_tx_len x = len; x_rx_ofs x = len; x_rx_len x = 0; x_tx_buf x = data\<rbrakk>
      \<Longrightarrow> xfer_fits x \<and> tx_window x = map (\<lambda>k. Some (data + of_nat k)) [0 ..< unat len] \<and> rx_window x = replicate (unat len) None"
    and "\<lbrakk>x_rx_ofs x = 0; x_rx_len x = len; x_tx_ofs x = len; x_tx_len x = 0; x_rx_buf x = data\<rbrakk>
      \<Longrightarrow> xfer_fits x \<and> rx_window x = map (\<lambda>k. Some (data + of_nat k)) [0 ..< unat len] \<and> tx_window x = replicate (unat len) None"
  using assms by (auto simp: xfer_fits_def xfer_total_def tx_window_def rx_window_def window_def)

text \<open>Both blocking calls are one transfer of the local descriptor.\<close>

lemma spi_blocking_total:
  assumes ready: "spi_ready s obj" and hw: "spi_hw_ok p lat slave obj s" and "data \<noteq> 0" "len > 0"
    and h: "h = (sxfer s)(loc := DEV_SPI_XFER_SET_NEXT 0 (setup (sxfer s loc)))" and "loc \<noteq> 0"
    and ok: "spi_transfer_ok h loc [loc]" and fuel: "spi_fuel lat [loc] (chain_tx h [loc]) \<le> fuel"
  obtains t where "run_state (spi_blocking p fuel loc obj data len setup) s = (Inr (of_nat (length (chain_tx h [loc]))), t)"
    "transferred slave obj (chain_tx h [loc]) (chain_rx h [loc]) s t"
proof -
  let ?u = "s\<lparr>sxfer := h\<rparr>"
  have r: "spi_valid s obj" "0 < si_opn_cnt (sinfo s obj)" "si_status (sinfo s obj) AND DEV_ENABLED \<noteq> 0"
    "si_status (sinfo s obj) AND DEV_IN_XFER = 0" "\<not> (ucast (si_dfs (sinfo s obj)) :: u32) > 8"
    using ready byte_dfs by (auto simp: spi_ready_def)
  have hw': "spi_hw_ok p lat slave obj ?u" using hw by (simp add: spi_hw_ok_def)
  obtain t where t: "run_state (bindE (dw_spi_init_transfer fuel (spi_ctrl (sinfo ?u obj)) loc (ucast (si_dfs (sinfo s obj))))
      (\<lambda>_. dw_spi_poll_transfer p fuel obj)) ?u = (Inr (of_nat (length (chain_tx (sxfer ?u) [loc]))), t)"
    "transferred slave obj (chain_tx (sxfer ?u) [loc]) (chain_rx (sxfer ?u) [loc]) ?u t"
    by (rule spi_transfer_total [of ?u loc "[loc]" "ucast (si_dfs (sinfo s obj))" p lat slave obj fuel])
       (use ok r(5) hw' fuel r(4) in simp_all)
  have "run_state (spi_blocking p fuel loc obj data len setup) s = (Inr (of_nat (length (chain_tx h [loc]))), t)"
    using r assms(3,4,6) t(1)
    by (simp add: spi_blocking_def dw_spi_chk_xfer_aligned_def h Let_def)
  moreover have "transferred slave obj (chain_tx h [loc]) (chain_rx h [loc]) s t"
    using t(2) by (simp add: transferred_def frames_def spi_regs_def)
  ultimately show ?thesis by (rule that)
qed

text \<open>
  C16: On an open, enabled and idle device with frames of at most 8 bits, a controller that loses no frame, and a non-empty buffer below \<open>2^31\<close> bytes, \<open>dw_spi_write\<close> sends exactly the
  bytes of the buffer, in order, changes no memory and returns the length; \<open>dw_spi_read\<close> sends
  as many dummies and stores the low bytes of the frames received, in order, at the buffer.
\<close>

theorem spi_write_read_bytes:
  assumes ready: "spi_ready s obj" and hw: "spi_hw_ok p lat slave obj s"
    and args: "data \<noteq> 0" "0 < len" "unat len < 2 ^ 31" "loc \<noteq> 0"
    and fuel: "1 + (2 * unat len + 1) * Suc lat \<le> fuel" and D: "D = spi_regs s obj + SPI_DATAREG"
  shows "(\<exists>t. run_state (dw_spi_write p fuel loc obj data len) s = (Inr len, t)
        \<and> mmio_stores (hist t) = mmio_stores (hist s) @ map (\<lambda>c. (D, scast c)) (bytes_at (mem s) data (unat len)) \<and> mem t = mem s)
    \<and> (\<exists>t. run_state (dw_spi_read p fuel loc obj data len) s = (Inr len, t)
        \<and> mmio_stores (hist t) = mmio_stores (hist s) @ replicate (unat len) (D, si_dummy (sinfo s obj))
        \<and> mem t = put_bytes data (map ucast (replies slave D (mmio_stores (hist s)) (replicate (unat len) (si_dummy (sinfo s obj))) (unat len))) (mem s))"
proof (intro conjI)
  have len: "0 < unat len" using args(2) by (simp add: word_less_nat_alt)
  let ?W = "map (\<lambda>k. Some (data + of_nat k)) [0 ..< unat len]" and ?N = "replicate (unat len) None"
  let ?x = "DEV_SPI_XFER_SET_NEXT 0 (DEV_SPI_XFER_SET_RXBUF 0 len 0 (DEV_SPI_XFER_SET_TXBUF data 0 len (sxfer s loc)))"
  have w: "xfer_fits ?x" "tx_window ?x = ?W" "rx_window ?x = ?N"
    using single_windows(1) [OF len args(3), of ?x data]
    by (simp_all add: DEV_SPI_XFER_SET_NEXT_def DEV_SPI_XFER_SET_RXBUF_def DEV_SPI_XFER_SET_TXBUF_def)
  have tx: "chain_tx ((sxfer s)(loc := ?x)) [loc] = ?W" and rx: "chain_rx ((sxfer s)(loc := ?x)) [loc] = ?N"
    by (simp_all add: chain_tx_def chain_rx_def w)
  have "spi_transfer_ok ((sxfer s)(loc := ?x)) loc [loc]"
    using args(3,4) w(1) slots_safe_none(1) [of ?W] unfolding spi_transfer_ok_def tx rx by (simp add: DEV_SPI_XFER_SET_NEXT_def)
  then obtain t where t: "run_state (dw_spi_write p fuel loc obj data len) s = (Inr (of_nat (length ?W)), t)" "transferred slave obj ?W ?N s t"
    using spi_blocking_total [OF ready hw args(1,2) refl args(4), of "\<lambda>x. DEV_SPI_XFER_SET_RXBUF 0 len 0 (DEV_SPI_XFER_SET_TXBUF data 0 len x)" fuel]
      fuel unfolding tx rx dw_spi_write_def by (auto simp: spi_fuel_def)
  have "frames s obj ?W = map scast (bytes_at (mem s) data (unat len))"
    by (simp add: frames_def tx_word_def bytes_at_def)
  with t D show "\<exists>t. run_state (dw_spi_write p fuel loc obj data len) s = (Inr len, t)
        \<and> mmio_stores (hist t) = mmio_stores (hist s) @ map (\<lambda>c. (D, scast c)) (bytes_at (mem s) data (unat len)) \<and> mem t = mem s"
    by (intro exI [of _ t]) (simp add: transferred_def Let_def rx_put_none o_def)
next
  have len: "0 < unat len" using args(2) by (simp add: word_less_nat_alt)
  let ?W = "map (\<lambda>k. Some (data + of_nat k)) [0 ..< unat len]" and ?N = "replicate (unat len) None"
  let ?x = "DEV_SPI_XFER_SET_NEXT 0 (DEV_SPI_XFER_SET_RXBUF data 0 len (DEV_SPI_XFER_SET_TXBUF 0 len 0 (sxfer s loc)))"
  let ?dummies = "replicate (unat len) (si_dummy (sinfo s obj))"
  have w: "xfer_fits ?x" "rx_window ?x = ?W" "tx_window ?x = ?N"
    using single_windows(2) [OF len args(3), of ?x data]
    by (simp_all add: DEV_SPI_XFER_SET_NEXT_def DEV_SPI_XFER_SET_RXBUF_def DEV_SPI_XFER_SET_TXBUF_def)
  have tx: "chain_tx ((sxfer s)(loc := ?x)) [loc] = ?N" and rx: "chain_rx ((sxfer s)(loc := ?x)) [loc] = ?W"
    by (simp_all add: chain_tx_def chain_rx_def w)
  have "spi_transfer_ok ((sxfer s)(loc := ?x)) loc [loc]"
    using args(3,4) w(1) slots_safe_none(2) unfolding spi_transfer_ok_def tx rx by (simp add: DEV_SPI_XFER_SET_NEXT_def)
  then obtain t where t: "run_state (dw_spi_read p fuel loc obj data len) s = (Inr (of_nat (length ?N)), t)" "transferred slave obj ?N ?W s t"
    using spi_blocking_total [OF ready hw args(1,2) refl args(4), of "\<lambda>x. DEV_SPI_XFER_SET_RXBUF data 0 len (DEV_SPI_XFER_SET_TXBUF 0 len 0 x)" fuel]
      fuel unfolding tx rx dw_spi_read_def by (auto simp: spi_fuel_def)
  have "frames s obj ?N = ?dummies" by (simp add: frames_def tx_word_def)
  moreover have "rx_put ?W (replies slave D (mmio_stores (hist s)) ?dummies (unat len)) (mem s)
      = put_bytes data (map ucast (replies slave D (mmio_stores (hist s)) ?dummies (unat len))) (mem s)"
    by (rule rx_put_bytes) simp
  ultimately show "\<exists>t. run_state (dw_spi_read p fuel loc obj data len) s = (Inr len, t)
        \<and> mmio_stores (hist t) = mmio_stores (hist s) @ replicate (unat len) (D, si_dummy (sinfo s obj))
        \<and> mem t = put_bytes data (map ucast (replies slave D (mmio_stores (hist s)) ?dummies (unat len))) (mem s)"
    using t D by (intro exI [of _ t]) (simp add: transferred_def Let_def)
qed

lemma spi_write_read_bytes_witness:
  "(\<exists>t. run_state (dw_spi_write spi_plat1 10 0x600 0x100 0x61 2) spi_mach1 = (Inr 2, t)
      \<and> mmio_stores (hist t) = [(0xF0006060, 0x61), (0xF0006060, 0x62)])
   \<and> (\<exists>t. run_state (dw_spi_read spi_plat1 10 0x600 0x100 0x61 2) spi_mach1 = (Inr 2, t) \<and> bytes_at (mem t) 0x61 2 = [0x40, 0x41])"
proof -
  have base: "spi_regs spi_mach1 0x100 + SPI_DATAREG = 0xF0006060" by code_simp
  have "map (\<lambda>c. (0xF0006060 :: u32, scast c :: u32)) (bytes_at (mem spi_mach1) 0x61 2) = [(0xF0006060, 0x61), (0xF0006060, 0x62)]"
    by code_simp
  moreover have "bytes_at (put_bytes 0x61 (map ucast (replies count_slave 0xF0006060 [] (replicate 2 0xff) 2)) (mem spi_mach1)) 0x61 2
      = [0x40, 0x41]" by code_simp
  moreover have "hist spi_mach1 = []" "si_dummy (sinfo spi_mach1 0x100) = 0xff" by (simp_all add: spi_mach1_def spi_info1_def)
  ultimately show ?thesis
    using spi_write_read_bytes [of spi_mach1 "0x100" spi_plat1 0 count_slave "0x61" 2 "0x600" 10 "0xF0006060"] base
    by auto
qed

end
