(* ===== verification/SpiLife.thy ===== *)
theory SpiLife
  imports SpiProps
begin

section \<open>Life cycle and interrupt routine of the SPI driver\<close>

text \<open>
  What open, close and the interrupt routine do to the device: the open count (the contract of
  \<open>counted_device\<close>, with the eight bits of this driver's count), the state the last close
  leaves, the FIFO depths found at the first open, and the two ways through the interrupt routine.
\<close>

definition spi_id :: "u32 \<Rightarrow> u32 \<Rightarrow> u8 \<Rightarrow> 'a spi_mach_scheme \<Rightarrow> bool" where
  "spi_id obj cp n s \<longleftrightarrow> obj \<noteq> 0 \<and> cp \<noteq> 0 \<and> spi_ctrl (sinfo s obj) = cp \<and> si_opn_cnt (sinfo s obj) = n"

lemma spi_id_hist_only:
  fixes m :: "('a, 'r) sop"
  shows "hist_only m \<Longrightarrow> preserves (spi_id obj cp n) m"
proof (rule preservesI)
  fix s :: "'a spi_mach_scheme" assume "hist_only m" "spi_id obj cp n s"
  then show "wp m (\<lambda>_. spi_id obj cp n) s"
    by (auto simp: wp_def spi_id_def elim: hist_onlyE [of m s])
qed

lemma spi_id_upd [simp]:
  "spi_id obj cp n (s\<lparr>hist := h\<rparr>) = spi_id obj cp n s"
  "spi_id obj cp n (s\<lparr>mem := m\<rparr>) = spi_id obj cp n s"
  "spi_id obj cp n (s\<lparr>exc_int_handler_table := v\<rparr>) = spi_id obj cp n s"
  "spi_id obj cp n (s\<lparr>sctrl := c\<rparr>) = spi_id obj cp n s"
  "spi_id obj cp n (s\<lparr>sxfer := x\<rparr>) = spi_id obj cp n s"
  by (simp_all add: spi_id_def)

lemma spi_id_heap [intro!]:
  "preserves (spi_id obj cp n) (get_sinfo obj')" "preserves (spi_id obj cp n) (get_sctrl c)"
  "preserves (spi_id obj cp n) (get_sxfer x)" "preserves (spi_id obj cp n) (get_ctrl_of obj')"
  "preserves (spi_id obj cp n) (upd_sctrl c g)" "preserves (spi_id obj cp n) (upd_sxfer x h)"
  "preserves (spi_id obj cp n) (upd_dw_xfer c k)"
  "(\<And>i. spi_ctrl (f i) = spi_ctrl i \<and> si_opn_cnt (f i) = si_opn_cnt i) \<Longrightarrow> preserves (spi_id obj cp n) (upd_sinfo obj' f)"
  by (auto simp: preserves_def wp_rules upd_dw_xfer_def spi_id_def)

lemma hist_only_fifo_probe [intro!]: "hist_only (fifo_probe n p reg i)"
  by (induction n arbitrary: i) auto

lemma hist_only_spi [intro!]:
  "hist_only (dw_spi_get_txfifo_len p base)" "hist_only (dw_spi_get_rxfifo_len p base)"
  "hist_only (dw_spi_deselect_slave p base)" "hist_only (dw_spi_disable base)" "hist_only (dw_spi_enable base)"
  "hist_only (dw_spi_mask_interrupt p base m)" "hist_only (dw_spi_unmask_interrupt p base m)"
  "hist_only (int_disable p k)" "hist_only (int_enable p k)"
  by (auto simp: dw_spi_get_txfifo_len_def dw_spi_get_rxfifo_len_def dw_spi_deselect_slave_def dw_spi_busy_def Let_def
      dw_spi_disable_def dw_spi_enable_def dw_spi_mask_interrupt_def dw_spi_unmask_interrupt_def
      int_disable_def int_enable_def arc_int_disable_def arc_int_enable_def)

lemmas spi_id_access [intro!] =
  hist_only_prim [THEN spi_id_hist_only] hist_only_spi [THEN spi_id_hist_only]

lemma spi_id_install [intro!]: "preserves (spi_id obj cp n) (int_handler_install p k h)"
  by (auto simp: preserves_def wp_def int_handler_install_def exc_handler_install_def)

lemma spi_id_dis_cbr [intro!]: "preserves (spi_id obj cp n) (dw_spi_dis_cbr p obj cbrtn)"
  unfolding dw_spi_dis_cbr_def Let_def
  by (auto split: option.splits)

lemma spi_id_ops [intro!]:
  "preserves (spi_id obj cp n) (dw_spi_disable_interrupt p obj)"
  "preserves (spi_id obj cp n) (dw_spi_disable_device obj)"
  "preserves (spi_id obj cp n) (clear_spi_xfer_cbs obj)"
  "preserves (spi_id obj cp n) (dw_spi_set_freq c f)"
  "preserves (spi_id obj cp n) (dw_spi_hw_init p c mode dfs)"
  "preserves (spi_id obj cp n) (init_chain fuel x tot)"
  "preserves (spi_id obj cp n) (dw_spi_init_transfer fuel c x dfs)"
proof -
  show ic: "preserves (spi_id obj cp n) (init_chain fuel x tot)" for fuel x tot
    by (induction fuel arbitrary: x tot) auto
  show "preserves (spi_id obj cp n) (dw_spi_init_transfer fuel c x dfs)"
    unfolding dw_spi_init_transfer_def by (auto intro!: ic)
qed (unfold dw_spi_disable_interrupt_def dw_spi_disable_device_def clear_spi_xfer_cbs_def dw_spi_set_freq_def
      dw_spi_hw_init_def Let_def, auto)

lemma bindE_lift_bind: "bindE (liftE (State_Monad.bind m f)) g = bindE (liftE m) (\<lambda>x. bindE (liftE (f x)) g)"
  by (rule state.expand, rule ext) (auto simp: split_def)

lemma spi_first_open_counts:
  assumes "spi_id obj cp n s"
  shows "wp (spi_first_open p fuel obj mode param) (\<lambda>_. spi_id obj cp (n + 1)) s"
  unfolding spi_first_open_def bindE_lift_bind [where m = "upd_sinfo _ _"]
proof (rule wp_bindEI [where P = "\<lambda>_. spi_id obj cp (n + 1)"])
  show "wp (liftE (upd_sinfo obj (\<lambda>i. i\<lparr>si_opn_cnt := si_opn_cnt i + 1\<rparr>)))
     (\<lambda>r t. case r of Inl w \<Rightarrow> spi_id obj cp (n + 1) t | Inr x \<Rightarrow> spi_id obj cp (n + 1) t) s"
    using assms by (simp add: wp_rules spi_id_def)
qed (rule preservesD, auto simp: Let_def)

lemma spi_open_counts:
  assumes "spi_id obj cp n s"
  shows "wp (dw_spi_open p fuel obj mode param) (\<lambda>r t. opened r \<longrightarrow> spi_id obj cp (n + 1) t) s"
proof -
  have f: "wp (spi_first_open p fuel obj mode param) (\<lambda>r t. opened r \<longrightarrow> spi_id obj cp (n + 1) t) s"
    by (rule wp_mono [OF spi_first_open_counts [OF assms]]) simp
  have no: "\<not> opened (Inr E_OBJ)" "\<not> opened (Inr E_PAR)" "\<not> opened (Inr E_NOSPT)" "\<not> opened (Inr E_SYS)"
    by (simp_all add: opened_def)
  show ?thesis
  proof (cases "si_opn_cnt (sinfo s obj) > 0")
    case True
    then show ?thesis using assms no by (simp add: dw_spi_open_def wp_rules Let_def) (simp add: spi_id_def)
  next
    case False
    then show ?thesis using f no by (auto simp: dw_spi_open_def wp_rules Let_def)
  qed
qed

text \<open>The state without the history, the transfer bits of the status and the interrupt flag of a device.\<close>

definition spi_calm :: "u32 \<Rightarrow> 'a spi_mach_scheme \<Rightarrow> 'a spi_mach_scheme" where
  "spi_calm obj s = s\<lparr>hist := [],
     sinfo := (sinfo s)(obj := (sinfo s obj)\<lparr>si_status := si_status (sinfo s obj) AND NOT DW_SPI_IN_XFER\<rparr>),
     sctrl := (sctrl s)(spi_ctrl (sinfo s obj) := (sctrl s (spi_ctrl (sinfo s obj)))
       \<lparr>sc_int_status := sc_int_status (sctrl s (spi_ctrl (sinfo s obj))) AND NOT DW_SPI_GINT_ENABLE\<rparr>)\<rparr>"

definition keeps_calm :: "u32 \<Rightarrow> ('a, 'r) sop \<Rightarrow> bool" where
  "keeps_calm obj m \<longleftrightarrow> (\<forall>s. spi_calm obj (snd (run_state m s)) = spi_calm obj s
      \<and> spi_ctrl (sinfo (snd (run_state m s)) obj) = spi_ctrl (sinfo s obj))"

lemma in_xfer_clear: "NOT f AND NOT DW_SPI_IN_XFER = NOT DW_SPI_IN_XFER \<Longrightarrow> ((x :: u32) AND NOT f) AND NOT DW_SPI_IN_XFER = x AND NOT DW_SPI_IN_XFER"
  by (simp only: and.assoc)

lemma in_state_clear: "spi_in_state cbrtn = Some f \<Longrightarrow> ((x :: u32) AND NOT f) AND NOT DW_SPI_IN_XFER = x AND NOT DW_SPI_IN_XFER"
  by (rule in_xfer_clear) (auto simp: spi_in_state_def split: if_splits)

lemma int_disable_wp: "wp (int_disable p k) Q s = Q (fst (run_state (int_disable p k) s)) (s\<lparr>hist := hist (snd (run_state (int_disable p k) s))\<rparr>)"
  by (simp add: wp_def int_disable_def arc_int_disable_def)

lemma calm_dis_cbr:
  "spi_calm obj (snd (run_state (dw_spi_dis_cbr p obj cbrtn) s)) = spi_calm obj s
    \<and> spi_ctrl (sinfo (snd (run_state (dw_spi_dis_cbr p obj cbrtn) s)) obj) = spi_ctrl (sinfo s obj)"
proof -
  have "wp (dw_spi_dis_cbr p obj cbrtn) (\<lambda>_ t. spi_calm obj t = spi_calm obj s \<and> spi_ctrl (sinfo t obj) = spi_ctrl (sinfo s obj)) s"
    using in_state_clear [of cbrtn]
    by (auto simp: dw_spi_dis_cbr_def dw_spi_mask_interrupt_def wp_rules int_disable_wp Let_def spi_calm_def split: option.splits)
  then show ?thesis by (simp add: wp_def)
qed

text \<open>What disabling the interrupt leaves: the masks cleared, and no transfer on record.\<close>

lemma disable_interrupt_calm:
  assumes "cp = spi_ctrl (sinfo s obj)" "base = spi_regs s obj"
  shows "wp (dw_spi_disable_interrupt p obj) (\<lambda>_ t. t = (spi_calm obj s)\<lparr>hist := hist t\<rparr>
      \<and> mmio_last (base + SPI_IMR) (hist t) AND IMR_XFER = 0) s"
proof -
  let ?dis = "\<lambda>c u. snd (run_state (dw_spi_dis_cbr p obj c) u)"
  define u where "u = ?dis DW_SPI_RDY_XFER (?dis DW_SPI_RDY_RCV (?dis DW_SPI_RDY_SND s))"
  have u: "spi_calm obj u = spi_calm obj s" "spi_ctrl (sinfo u obj) = cp"
    using calm_dis_cbr assms unfolding u_def by metis+
  have "dw_spi_regs (sctrl u cp) = dw_spi_regs (sctrl (spi_calm obj u) cp)" by (simp add: spi_calm_def)
  then have r: "dw_spi_regs (sctrl u cp) = base" by (simp only: u) (simp add: spi_calm_def assms spi_regs_def)
  have d: "wp (dw_spi_dis_cbr p obj c) Q t = Q (fst (run_state (dw_spi_dis_cbr p obj c) t)) (?dis c t)" for c Q t
    by (simp add: wp_def)
  show ?thesis
    unfolding u(1) [symmetric] using u(2) r
    by (simp add: dw_spi_disable_interrupt_def dw_spi_mask_interrupt_def wp_rules d Let_def u_def [symmetric]
        int_disable_def arc_int_disable_def) (simp add: spi_calm_def and.assoc)
qed

text \<open>The state the last close leaves, but for the history.\<close>

definition spi_closed :: "u32 \<Rightarrow> access list \<Rightarrow> 'a spi_mach_scheme \<Rightarrow> 'a spi_mach_scheme" where
  "spi_closed obj h s = (let i = sinfo s obj; c = sctrl s (spi_ctrl i) in s\<lparr>
      sxfer := (sxfer s)(si_xfer i := zero_spi_transfer),
      sctrl := (sctrl s)(spi_ctrl i := c\<lparr>sc_int_status := sc_int_status c AND NOT DW_SPI_GINT_ENABLE, dw_xfer := zero_dw_xfer\<rparr>),
      hist := h,
      sinfo := (sinfo s)(obj := i\<lparr>si_opn_cnt := 0, si_tx_cb := 0, si_rx_cb := 0, si_err_cb := 0,
        si_xfer_cb := 0, si_status := 0, si_extra := 0\<rparr>)\<rparr>)"

lemma spi_last_close:
  assumes "spi_valid s obj" "si_opn_cnt (sinfo s obj) = 1" and base: "base = spi_regs s obj"
  obtains h where "run_state (dw_spi_close p cb obj) s = (Inr E_OK, spi_closed obj h s)"
    "mmio_last (base + SPI_IMR) h AND IMR_XFER = 0" "mmio_last (base + SPI_SSIENR) h = 0"
proof -
  define i where i: "i = sinfo s obj"
  let ?s = "s\<lparr>sinfo := (sinfo s)(obj := i\<lparr>si_opn_cnt := 0\<rparr>)\<rparr>"
  have c: "spi_ctrl i = spi_ctrl (sinfo ?s obj)" "base = spi_regs ?s obj" by (simp_all add: i base spi_regs_def)
  obtain u where r: "run_state (dw_spi_disable_interrupt p obj) ?s = ((), u)"
    using that by (cases "run_state (dw_spi_disable_interrupt p obj) ?s") simp
  from wpD [OF disable_interrupt_calm [OF c] r]
  have t: "run_state (dw_spi_disable_interrupt p obj) ?s = ((), (spi_calm obj ?s)\<lparr>hist := hist u\<rparr>)"
    and h: "mmio_last (base + SPI_IMR) (hist u) AND IMR_XFER = 0" using r by metis+
  have v: "spi_valid s obj" "si_opn_cnt i = 1" using assms(1,2) by (simp_all add: i)
  have z: "(si_status i AND NOT DW_SPI_IN_XFER) AND DW_SPI_IN_XFER = 0" by (simp add: and.assoc)
  have b: "dw_spi_regs (sctrl s (spi_ctrl i)) = base" by (simp add: base i spi_regs_def)
  show ?thesis
    by (rule that [of "Mmio_wr (base + SPI_SSIENR) 0 # hist u"]; use v z h in \<open>simp add: dw_spi_close_def i [symmetric] t b
        spi_calm_def dw_spi_abort_tx_def dw_spi_abort_rx_def clear_spi_xfer_cbs_def upd_dw_xfer_def dw_spi_disable_device_def
        dw_spi_disable_def spi_closed_def Let_def\<close>)
qed

lemma spi_close_counts:
  assumes "spi_id obj cp n s" "n \<noteq> 0" "run_state (dw_spi_close p cb obj) s = (r, t)"
  shows "spi_id obj cp (n - 1) t \<and> r = Inr (if n - 1 = 0 then E_OK else E_OPNED)"
proof (cases "n = 1")
  case True
  then have "spi_valid s obj" "si_opn_cnt (sinfo s obj) = 1" using assms by (auto simp: spi_id_def spi_valid_def)
  then obtain h where "run_state (dw_spi_close p cb obj) s = (Inr E_OK, spi_closed obj h s)"
    using spi_last_close [OF _ _ refl] by blast
  then show ?thesis using assms True by (simp add: spi_id_def spi_closed_def Let_def)
next
  case False
  then have "n - 1 \<noteq> 0" by (metis diff_add_cancel add_0)
  moreover have "spi_valid s obj" "0 < si_opn_cnt (sinfo s obj)" using assms by (auto simp: spi_id_def spi_valid_def word_gt_0)
  ultimately show ?thesis using assms by (auto simp: dw_spi_close_def spi_id_def split_def split: if_splits)
qed

lemma unat_inc8: "unat (x :: u8) + 1 < 256 \<Longrightarrow> unat (x + 1) = unat x + 1"
  by (simp add: unat_word_ariths)

lemma byte_eq_0: "(ucast (x :: u8) :: u32) = 0 \<longleftrightarrow> x = 0"
  by (metis unat_byte unat_eq_zero)

interpretation spi_dev: counted_device 256 "\<lambda>s :: 'a spi_mach_scheme. ucast (si_opn_cnt (sinfo s obj))" "\<lambda>s. spi_valid s obj"
  "\<lambda>a. dw_spi_open p fuel obj (fst a) (snd a)" "dw_spi_close p cb obj" for obj p fuel and cb :: "'a spi_callback"
proof (unfold_locales, goal_cases)
  case (1 s a r t)
  then have "spi_id obj (spi_ctrl (sinfo s obj)) (si_opn_cnt (sinfo s obj)) s" by (simp add: spi_id_def spi_valid_def)
  from wpD [OF spi_open_counts [OF this] 1(3)] 1(4)
  have "spi_id obj (spi_ctrl (sinfo s obj)) (si_opn_cnt (sinfo s obj) + 1) t" by simp
  then show ?case using 1(2) by (auto simp: spi_id_def spi_valid_def unat_byte unat_inc8)
next
  case (2 s r t)
  then have "spi_id obj (spi_ctrl (sinfo s obj)) (si_opn_cnt (sinfo s obj)) s" "si_opn_cnt (sinfo s obj) \<noteq> 0"
    by (auto simp: spi_id_def spi_valid_def)
  note k = this
  from spi_close_counts [OF k 2(3)] show ?case
    using k(2) by (auto simp: spi_id_def spi_valid_def unat_byte byte_eq_0 unat_minus_one)
qed

text \<open>
  C17: The last close of a valid device, whatever the callbacks are and the hardware answers: it returns
  \<open>E_OK\<close> and leaves the object closed and idle, with no callback, the transfer in progress and the
  descriptor cleared, the interrupt flag down, the interrupts masked and the controller disabled;
  nothing else of the driver or of the memory changes, so no callback has run.
\<close>

theorem spi_last_close_idle:
  assumes "spi_valid s obj" "si_opn_cnt (sinfo s obj) = 1" and i: "i = sinfo s obj" and base: "base = spi_regs s obj"
  shows "\<exists>h. run_state (dw_spi_close p cb obj) s = (Inr E_OK, s\<lparr>
      sxfer := (sxfer s)(si_xfer i := zero_spi_transfer),
      sctrl := (sctrl s)(spi_ctrl i := (sctrl s (spi_ctrl i))\<lparr>
        sc_int_status := sc_int_status (sctrl s (spi_ctrl i)) AND NOT DW_SPI_GINT_ENABLE, dw_xfer := zero_dw_xfer\<rparr>),
      hist := h,
      sinfo := (sinfo s)(obj := i\<lparr>si_opn_cnt := 0, si_tx_cb := 0, si_rx_cb := 0, si_err_cb := 0,
        si_xfer_cb := 0, si_status := 0, si_extra := 0\<rparr>)\<rparr>)
    \<and> mmio_last (base + SPI_IMR) h AND IMR_XFER = 0 \<and> mmio_last (base + SPI_SSIENR) h = 0"
  using spi_last_close [OF assms(1,2) base] unfolding i spi_closed_def Let_def by blast

lemma spi_last_close_idle_witness:
  "\<exists>t. run_state (dw_spi_close spi_plat1 (\<lambda>_ _. State_Monad.return ()) 0x100) spi_mach1 = (Inr E_OK, t)
    \<and> si_opn_cnt (sinfo t 0x100) = 0 \<and> si_status (sinfo t 0x100) = 0 \<and> mmio_last 0xF0006008 (hist t) = 0"
proof -
  have "spi_valid spi_mach1 0x100" "si_opn_cnt (sinfo spi_mach1 0x100) = 1" "spi_regs spi_mach1 0x100 = 0xF0006000"
    by (simp_all add: spi_valid_def spi_mach1_def spi_info1_def spi_regs_def spi_ctrl1_def)
  with spi_last_close_idle [of spi_mach1 "0x100" _ _ spi_plat1 "\<lambda>_ _. State_Monad.return ()"]
  obtain h where "run_state (dw_spi_close spi_plat1 (\<lambda>_ _. State_Monad.return ()) 0x100) spi_mach1 = (Inr E_OK, spi_mach1\<lparr>
      sxfer := (sxfer spi_mach1)(si_xfer (sinfo spi_mach1 0x100) := zero_spi_transfer),
      sctrl := (sctrl spi_mach1)(spi_ctrl (sinfo spi_mach1 0x100) := (sctrl spi_mach1 (spi_ctrl (sinfo spi_mach1 0x100)))\<lparr>
        sc_int_status := sc_int_status (sctrl spi_mach1 (spi_ctrl (sinfo spi_mach1 0x100))) AND NOT DW_SPI_GINT_ENABLE, dw_xfer := zero_dw_xfer\<rparr>),
      hist := h,
      sinfo := (sinfo spi_mach1)(0x100 := (sinfo spi_mach1 0x100)\<lparr>si_opn_cnt := 0, si_tx_cb := 0, si_rx_cb := 0, si_err_cb := 0,
        si_xfer_cb := 0, si_status := 0, si_extra := 0\<rparr>)\<rparr>)" "mmio_last (0xF0006000 + SPI_SSIENR) h = 0"
    by auto
  then show ?thesis by (intro exI) (rule conjI, assumption, simp)
qed


text \<open>
  An error interrupt (overrun, underflow or overflow) during a transfer is not survived: the
  routine clears the transfer and then runs the reader on it, whose frame size is now 0, so the
  call divides by zero, unless the error callback pointed the object at another controller.
\<close>

theorem spi_error_interrupt_divides_by_zero:
  fixes s :: "'a spi_mach_scheme"
  assumes "spi_valid s obj" "xfer_len (dw_xfer (sctrl s (spi_ctrl (sinfo s obj)))) \<noteq> 0"
    and "mmio_in p (hist s) (spi_regs s obj + SPI_ISR) AND IMR_ERRORS \<noteq> 0"
    and "\<And>u. spi_ctrl (sinfo (snd (run_state (cb (si_err_cb (sinfo s obj)) obj) u)) obj) = spi_ctrl (sinfo u obj)"
  shows "fst (run_state (dw_spi_isr p cb obj) s) = Inl Undef"
proof -
  let ?v = "mmio_in p (hist s) (spi_regs s obj + SPI_ISR)" and ?cp = "spi_ctrl (sinfo s obj)" and ?base = "spi_regs s obj"
  have nz: "?v \<noteq> 0" using assms(3) by auto
  let ?s = "s\<lparr>hist := Mmio_rd (?base + SPI_ICR) (mmio_in p (Mmio_rd (?base + SPI_ISR) ?v # hist s) (?base + SPI_ICR)) # Mmio_rd (?base + SPI_ISR) ?v # hist s\<rparr>"
  obtain u where r: "run_state (dw_spi_disable_interrupt p obj) ?s = ((), u)"
    using that by (cases "run_state (dw_spi_disable_interrupt p obj) ?s") simp
  have u: "u = (spi_calm obj ?s)\<lparr>hist := hist u\<rparr>"
    using wpD [OF disable_interrupt_calm [OF refl refl] r] by blast
  have i: "spi_ctrl (sinfo u obj) = ?cp" "si_err_cb (sinfo u obj) = si_err_cb (sinfo s obj)"
    by (subst u, simp add: spi_calm_def)+
  have e: "run_state (dw_spi_reader p obj) t = (Inl Undef, t)" if "nbytes (dw_xfer (sctrl t (spi_ctrl (sinfo t obj)))) = 0" for t :: "'a spi_mach_scheme"
    using that by (simp add: dw_spi_reader_def dw_spi_rx_max_def Let_def)
  let ?c = "c_if (si_err_cb (sinfo u obj) \<noteq> 0) (cb (si_err_cb (sinfo u obj)) obj)"
  have "spi_ctrl (sinfo (snd (run_state ?c u)) obj) = ?cp" using assms(4) [of u] i by simp
  then obtain t where c: "run_state ?c u = ((), t)" "spi_ctrl (sinfo t obj) = ?cp"
    by (cases "run_state ?c u") simp
  show ?thesis
    using assms(1,2,3) nz e r c
    by (auto simp: dw_spi_isr_def Let_def dw_spi_clear_interrupt_all_def upd_dw_xfer_def zero_dw_xfer_def)
qed


text \<open>A transfer in progress on the device of the witnesses, and a receive overrun.\<close>

lemma spi_error_interrupt_divides_by_zero_witness:
  "fst (run_state (dw_spi_isr (sample_plat\<lparr>mmio_in := \<lambda>_ a. if a = 0xF0006030 then 0x8 else 0\<rparr>) (\<lambda>_ _. State_Monad.return ()) 0x100)
     (spi_mach1\<lparr>sctrl := \<lambda>_. spi_ctrl1\<lparr>dw_xfer := zero_dw_xfer\<lparr>xfer_len := 4, nbytes := 1, tx_xfer := 0x300, rx_xfer := 0x300\<rparr>\<rparr>\<rparr>)) = Inl Undef"
  by (rule spi_error_interrupt_divides_by_zero)
     (simp_all add: spi_valid_def spi_mach1_def spi_info1_def spi_regs_def spi_ctrl1_def zero_dw_xfer_def)


subsection \<open>The FIFO depths\<close>

text \<open>A threshold register of a FIFO of depth \<open>d\<close>: it takes values below the depth and ignores others.\<close>

fun threshold :: "nat \<Rightarrow> u32 \<Rightarrow> access list \<Rightarrow> u32" where
  "threshold d reg [] = 0"
| "threshold d reg (Mmio_wr a v # h) = (if a = reg \<and> unat v < d then v else threshold d reg h)"
| "threshold d reg (ev # h) = threshold d reg h"

definition threshold_reg :: "plat \<Rightarrow> nat \<Rightarrow> u32 \<Rightarrow> bool" where
  "threshold_reg p d reg \<longleftrightarrow> (\<forall>h. mmio_in p h reg = threshold d reg h)"

lemma threshold_bound: "0 < d \<Longrightarrow> unat (threshold d reg h) < d"
  by (induction d reg h rule: threshold.induct) auto

lemma fifo_probe_depth:
  assumes "threshold_reg p d reg" "0 < d"
  shows "unat i \<le> d \<Longrightarrow> d < unat i + n \<Longrightarrow> d < 2 ^ 32 - 1
    \<Longrightarrow> \<exists>h. run_state (fifo_probe n p reg i) s = (of_nat d, s\<lparr>hist := h\<rparr>)"
proof (induction n arbitrary: i s)
  case 0
  then show ?case by simp
next
  case (Suc n)
  show ?case
  proof (cases "unat i = d")
    case True
    then have i: "i = of_nat d" by (simp flip: True)
    have "threshold d reg (hist s) \<noteq> i" using threshold_bound [OF assms(2), of reg "hist s"] True by auto
    then show ?thesis using assms(1) True i by (auto simp: threshold_reg_def)
  next
    case False
    then have "unat i < d" using Suc.prems by simp
    moreover from this have "unat (i + 1) = unat i + 1" using Suc.prems(3) by (simp add: unat_word_ariths)
    ultimately show ?thesis using Suc.IH [of "i + 1" "s\<lparr>hist := Mmio_rd reg i # Mmio_wr reg i # hist s\<rparr>"] Suc.prems assms
      by (auto simp: threshold_reg_def)
  qed
qed


lemma fifo_len_run:
  assumes "threshold_reg p d reg" "2 \<le> d" "d \<le> 257" "v = mmio_in p (hist s) reg" "left = (if v \<noteq> 0 then v else MIN_FIFO_LENGTH)"
  shows "\<exists>h. run_state (fifo_probe (unat MAX_FIFO_LENGTH + 2 - unat left) p reg left) (s\<lparr>hist := Mmio_rd reg v # hist s\<rparr>)
      = (of_nat d, s\<lparr>hist := h\<rparr>) \<and> mmio_in p (Mmio_wr reg v # h) reg = v"
proof -
  have v: "unat v < d" using threshold_bound [of d reg "hist s"] assms by (simp add: threshold_reg_def)
  then have l: "unat left \<le> d" "d < unat left + (unat MAX_FIFO_LENGTH + 2 - unat left)" using assms(2,3,5) by auto
  from fifo_probe_depth [OF assms(1) _ l, of "s\<lparr>hist := Mmio_rd reg v # hist s\<rparr>"] assms(1,2,3) v
  show ?thesis by (auto simp: threshold_reg_def)
qed

text \<open>
  The depth found at the first open is the depth of the FIFO, for every threshold register that
  takes exactly the values below it (2 to 257) and whatever threshold was set, and that threshold
  is back afterwards; transmit and receive FIFO alike.
\<close>

theorem spi_fifo_depth:
  assumes "2 \<le> d" "d \<le> 257" "2 \<le> e" "e \<le> 257"
    and tx: "threshold_reg p d (base + SPI_TXFTLR)" and rx: "threshold_reg p e (base + SPI_RXFTLR)"
  shows "(\<exists>h. run_state (dw_spi_get_txfifo_len p base) s = (of_nat d, s\<lparr>hist := h\<rparr>)
        \<and> mmio_in p h (base + SPI_TXFTLR) = mmio_in p (hist s) (base + SPI_TXFTLR))
    \<and> (\<exists>h. run_state (dw_spi_get_rxfifo_len p base) s = (of_nat e, s\<lparr>hist := h\<rparr>)
        \<and> mmio_in p h (base + SPI_RXFTLR) = mmio_in p (hist s) (base + SPI_RXFTLR))"
  using fifo_len_run [OF tx assms(1,2) refl refl, of s] fifo_len_run [OF rx assms(3,4) refl refl, of s]
  by (auto simp: dw_spi_get_txfifo_len_def dw_spi_get_rxfifo_len_def Let_def)

lemma spi_fifo_depth_witness:
  "fst (run_state (dw_spi_get_txfifo_len (sample_plat\<lparr>mmio_in := \<lambda>h a. threshold 16 a h\<rparr>) 0xF0006000) spi_mach1) = 16"
proof -
  have "threshold_reg (sample_plat\<lparr>mmio_in := \<lambda>h a. threshold 16 a h\<rparr>) 16 r" for r by (simp add: threshold_reg_def)
  from conjunct1 [OF spi_fifo_depth [OF _ _ _ _ this this, of "0xF0006000" spi_mach1]] show ?thesis by auto
qed

end
