(* ===== verification/DwIic.thy ===== *)
theory DwIic
  imports DevCommon
begin

section \<open>DesignWare IIC driver (dw_iic.c)\<close>

text \<open>
  The driver of \<open>device/ip/designware/iic/dw_iic.c\<close>, master and slave. \<open>DEV_IIC_INFO\<close> and
  \<open>DW_IIC_CTRL\<close> live in two typed heaps indexed by their addresses. The build constants are those
  of \<open>dw_iic_hal_cfg.h\<close>, where \<open>DW_IIC_SLV_10_BIT_ADDR_SUPPORT\<close> and \<open>DW_IIC_SPECIAL_START_BYTE\<close> are
  left undefined by their \<open>#ifdef\<close>, so \<open>SLV_10_BIT_ADDR_MODE\<close> and the special bits of the target
  address are 0. Waits for the controller are bounded by the driver itself (\<open>retry_cnt\<close>); a
  \<open>retry_cnt\<close> of \<open>2 ^ 32 - 1\<close>, which its counter never exceeds, is the value \<open>Hang\<close>. Callbacks
  are a parameter that may do anything to the state.
\<close>

subsection \<open>Registers and bits (dw_iic.h, dw_iic_hal.h)\<close>

abbreviation (input) IC_CON :: u32 where "IC_CON \<equiv> 0x00"
abbreviation (input) IC_TAR :: u32 where "IC_TAR \<equiv> 0x04"
abbreviation (input) IC_SAR :: u32 where "IC_SAR \<equiv> 0x08"
abbreviation (input) IC_HS_MADDR :: u32 where "IC_HS_MADDR \<equiv> 0x0c"
abbreviation (input) IC_DATA_CMD :: u32 where "IC_DATA_CMD \<equiv> 0x10"
abbreviation (input) IC_SS_SCL_HCNT :: u32 where "IC_SS_SCL_HCNT \<equiv> 0x14"
abbreviation (input) IC_SS_SCL_LCNT :: u32 where "IC_SS_SCL_LCNT \<equiv> 0x18"
abbreviation (input) IC_FS_SCL_HCNT :: u32 where "IC_FS_SCL_HCNT \<equiv> 0x1c"
abbreviation (input) IC_FS_SCL_LCNT :: u32 where "IC_FS_SCL_LCNT \<equiv> 0x20"
abbreviation (input) IC_HS_SCL_HCNT :: u32 where "IC_HS_SCL_HCNT \<equiv> 0x24"
abbreviation (input) IC_HS_SCL_LCNT :: u32 where "IC_HS_SCL_LCNT \<equiv> 0x28"
abbreviation (input) IC_INTR_STAT :: u32 where "IC_INTR_STAT \<equiv> 0x2c"
abbreviation (input) IC_INTR_MASK :: u32 where "IC_INTR_MASK \<equiv> 0x30"
abbreviation (input) IC_RAW_INTR_STAT :: u32 where "IC_RAW_INTR_STAT \<equiv> 0x34"
abbreviation (input) IC_RX_TL :: u32 where "IC_RX_TL \<equiv> 0x38"
abbreviation (input) IC_TX_TL :: u32 where "IC_TX_TL \<equiv> 0x3c"
abbreviation (input) IC_CLR_INTR :: u32 where "IC_CLR_INTR \<equiv> 0x40"
abbreviation (input) IC_CLR_RX_UNDER :: u32 where "IC_CLR_RX_UNDER \<equiv> 0x44"
abbreviation (input) IC_CLR_RX_OVER :: u32 where "IC_CLR_RX_OVER \<equiv> 0x48"
abbreviation (input) IC_CLR_TX_OVER :: u32 where "IC_CLR_TX_OVER \<equiv> 0x4c"
abbreviation (input) IC_CLR_RD_REQ :: u32 where "IC_CLR_RD_REQ \<equiv> 0x50"
abbreviation (input) IC_CLR_TX_ABRT :: u32 where "IC_CLR_TX_ABRT \<equiv> 0x54"
abbreviation (input) IC_CLR_RX_DONE :: u32 where "IC_CLR_RX_DONE \<equiv> 0x58"
abbreviation (input) IC_CLR_STOP_DET :: u32 where "IC_CLR_STOP_DET \<equiv> 0x60"
abbreviation (input) IC_CLR_START_DET :: u32 where "IC_CLR_START_DET \<equiv> 0x64"
abbreviation (input) IC_ENABLE :: u32 where "IC_ENABLE \<equiv> 0x6c"
abbreviation (input) IC_STATUS :: u32 where "IC_STATUS \<equiv> 0x70"
abbreviation (input) IC_TXFLR :: u32 where "IC_TXFLR \<equiv> 0x74"
abbreviation (input) IC_RXFLR :: u32 where "IC_RXFLR \<equiv> 0x78"
abbreviation (input) IC_TX_ABRT_SOURCE :: u32 where "IC_TX_ABRT_SOURCE \<equiv> 0x80"
abbreviation (input) IC_ENABLE_STATUS :: u32 where "IC_ENABLE_STATUS \<equiv> 0x9c"
abbreviation (input) IC_FS_SPKLEN :: u32 where "IC_FS_SPKLEN \<equiv> 0xa0"
abbreviation (input) IC_HS_SPKLEN :: u32 where "IC_HS_SPKLEN \<equiv> 0xa4"
abbreviation (input) IC_COMP_PARAM_1 :: u32 where "IC_COMP_PARAM_1 \<equiv> 0xf4"

abbreviation (input) IC_DATA_CMD_STOP :: u32 where "IC_DATA_CMD_STOP \<equiv> 0x200"
abbreviation (input) IC_DATA_CMD_RESTART :: u32 where "IC_DATA_CMD_RESTART \<equiv> 0x400"
abbreviation (input) IC_DATA_CMD_NONE :: u32 where "IC_DATA_CMD_NONE \<equiv> 0"
abbreviation (input) IC_DATA_CMD_WRITE_REQ :: u32 where "IC_DATA_CMD_WRITE_REQ \<equiv> 0"
abbreviation (input) IC_DATA_CMD_READ_REQ :: u32 where "IC_DATA_CMD_READ_REQ \<equiv> 0x100"

abbreviation (input) IC_CON_RESTART_EN :: u32 where "IC_CON_RESTART_EN \<equiv> 0x20"
abbreviation (input) MST_10_BIT_ADDR_MODE :: u32 where "MST_10_BIT_ADDR_MODE \<equiv> 0x10"
abbreviation (input) SLV_10_BIT_ADDR_MODE :: u32 where "SLV_10_BIT_ADDR_MODE \<equiv> 0"
abbreviation (input) IC_TAR_SPECIAL :: u32 where "IC_TAR_SPECIAL \<equiv> 0"
abbreviation (input) IC_TAR_GC_OR_START :: u32 where "IC_TAR_GC_OR_START \<equiv> 0"
abbreviation (input) IC_TAR_10BIT_ADDR_MASK :: u32 where "IC_TAR_10BIT_ADDR_MASK \<equiv> 0x3FF"
abbreviation (input) IC_SAR_10BIT_ADDR_MASK :: u32 where "IC_SAR_10BIT_ADDR_MASK \<equiv> 0x3FF"
abbreviation (input) IC_CON_SPEED_MASK :: u32 where "IC_CON_SPEED_MASK \<equiv> 0x6"
abbreviation (input) IC_CON_SPEED_STANDARD :: u32 where "IC_CON_SPEED_STANDARD \<equiv> 0x2"
abbreviation (input) IC_CON_SPEED_FAST :: u32 where "IC_CON_SPEED_FAST \<equiv> 0x4"
abbreviation (input) IC_CON_SPEED_HIGH :: u32 where "IC_CON_SPEED_HIGH \<equiv> 0x6"
abbreviation (input) IC_CON_MST_SLV_MODE_MASK :: u32 where "IC_CON_MST_SLV_MODE_MASK \<equiv> 0x41"
abbreviation (input) IC_CON_ENA_MASTER_MODE :: u32 where "IC_CON_ENA_MASTER_MODE \<equiv> 0x41"
abbreviation (input) IC_CON_ENA_SLAVE_MODE :: u32 where "IC_CON_ENA_SLAVE_MODE \<equiv> 0"

abbreviation (input) STAT_GEN_CALL :: u32 where "STAT_GEN_CALL \<equiv> 0x800"
abbreviation (input) STAT_START_DET :: u32 where "STAT_START_DET \<equiv> 0x400"
abbreviation (input) STAT_STOP_DET :: u32 where "STAT_STOP_DET \<equiv> 0x200"
abbreviation (input) STAT_RX_DONE :: u32 where "STAT_RX_DONE \<equiv> 0x80"
abbreviation (input) STAT_TX_ABRT :: u32 where "STAT_TX_ABRT \<equiv> 0x40"
abbreviation (input) STAT_RD_REQ :: u32 where "STAT_RD_REQ \<equiv> 0x20"
abbreviation (input) STAT_TX_EMPTY :: u32 where "STAT_TX_EMPTY \<equiv> 0x10"
abbreviation (input) STAT_TX_OVER :: u32 where "STAT_TX_OVER \<equiv> 0x08"
abbreviation (input) STAT_RX_FULL :: u32 where "STAT_RX_FULL \<equiv> 0x04"
abbreviation (input) STAT_RX_OVER :: u32 where "STAT_RX_OVER \<equiv> 0x02"
abbreviation (input) STAT_RX_UNDER :: u32 where "STAT_RX_UNDER \<equiv> 0x01"

abbreviation (input) IC_INT_MST_TX_ENABLE :: u32 where "IC_INT_MST_TX_ENABLE \<equiv> 0x58"
abbreviation (input) IC_INT_MST_RX_ENABLE :: u32 where "IC_INT_MST_RX_ENABLE \<equiv> 0x57"
abbreviation (input) IC_INT_SLV_TX_ENABLE :: u32 where "IC_INT_SLV_TX_ENABLE \<equiv> 0x60"
abbreviation (input) IC_INT_SLV_RX_ENABLE :: u32 where "IC_INT_SLV_RX_ENABLE \<equiv> 0x07"

abbreviation (input) IC_ENABLE_STATUS_IC_EN :: u32 where "IC_ENABLE_STATUS_IC_EN \<equiv> 1"
abbreviation (input) IC_STATUS_TFNF :: u32 where "IC_STATUS_TFNF \<equiv> 0x02"
abbreviation (input) IC_STATUS_RFNE :: u32 where "IC_STATUS_RFNE \<equiv> 0x08"
abbreviation (input) IIC_MST_ABRT_LOST_BUS :: u32 where "IIC_MST_ABRT_LOST_BUS \<equiv> 0x1000"
abbreviation (input) IIC_MST_ABRT_ADDR_NOACK :: u32 where "IIC_MST_ABRT_ADDR_NOACK \<equiv> 0x3"
abbreviation (input) IIC_MST_ABRT_DATA_NOACK :: u32 where "IIC_MST_ABRT_DATA_NOACK \<equiv> 0x8"
abbreviation (input) IIC_SLV_ABRT_LOST_BUS :: u32 where "IIC_SLV_ABRT_LOST_BUS \<equiv> 0x5000"
abbreviation (input) IC_TX_ABRT_SLVFLUSH_TXFIFO :: u32 where "IC_TX_ABRT_SLVFLUSH_TXFIFO \<equiv> 0x2000"
abbreviation (input) DW_IIC_DISABLE_MAX_T_POLL_CNT :: nat where "DW_IIC_DISABLE_MAX_T_POLL_CNT \<equiv> 1250"

text \<open>Enumerations of \<open>dev_iic.h\<close>.\<close>

abbreviation (input) DEV_MASTER_MODE :: u32 where "DEV_MASTER_MODE \<equiv> 0"
abbreviation (input) DEV_SLAVE_MODE :: u32 where "DEV_SLAVE_MODE \<equiv> 1"
abbreviation (input) IIC_SPEED_STANDARD :: u32 where "IIC_SPEED_STANDARD \<equiv> 0"
abbreviation (input) IIC_SPEED_FAST :: u32 where "IIC_SPEED_FAST \<equiv> 1"
abbreviation (input) IIC_SPEED_FASTPLUS :: u32 where "IIC_SPEED_FASTPLUS \<equiv> 2"
abbreviation (input) IIC_SPEED_HIGH :: u32 where "IIC_SPEED_HIGH \<equiv> 3"
abbreviation (input) IIC_SPEED_ULTRA :: u32 where "IIC_SPEED_ULTRA \<equiv> 4"
abbreviation (input) IIC_MODE_STOP :: u32 where "IIC_MODE_STOP \<equiv> 0"
abbreviation (input) IIC_MODE_RESTART :: u32 where "IIC_MODE_RESTART \<equiv> 1"
abbreviation (input) IIC_ERR_NONE :: s32 where "IIC_ERR_NONE \<equiv> 0"
abbreviation (input) IIC_ERR_LOST_BUS :: s32 where "IIC_ERR_LOST_BUS \<equiv> 1"
abbreviation (input) IIC_ERR_ADDR_NOACK :: s32 where "IIC_ERR_ADDR_NOACK \<equiv> 2"
abbreviation (input) IIC_ERR_DATA_NOACK :: s32 where "IIC_ERR_DATA_NOACK \<equiv> 3"
abbreviation (input) IIC_ERR_TIMEOUT :: s32 where "IIC_ERR_TIMEOUT \<equiv> 4"
abbreviation (input) IIC_ERR_MSTSTOP :: s32 where "IIC_ERR_MSTSTOP \<equiv> 5"
abbreviation (input) IIC_ERR_UNDEF :: s32 where "IIC_ERR_UNDEF \<equiv> 6"
abbreviation (input) IIC_FREE :: u32 where "IIC_FREE \<equiv> 0"
abbreviation (input) IIC_IN_TX :: u32 where "IIC_IN_TX \<equiv> 1"
abbreviation (input) IIC_IN_RX :: u32 where "IIC_IN_RX \<equiv> 2"
abbreviation (input) IIC_7BIT_ADDRESS :: u32 where "IIC_7BIT_ADDRESS \<equiv> 0"
abbreviation (input) IIC_10BIT_ADDRESS :: u32 where "IIC_10BIT_ADDRESS \<equiv> 1"
abbreviation (input) IIC_SLAVE_STATE_START :: u32 where "IIC_SLAVE_STATE_START \<equiv> 0x02"
abbreviation (input) IIC_SLAVE_STATE_STOP :: u32 where "IIC_SLAVE_STATE_STOP \<equiv> 0x04"
abbreviation (input) IIC_SLAVE_STATE_RD_REQ :: u32 where "IIC_SLAVE_STATE_RD_REQ \<equiv> 0x08"
abbreviation (input) IIC_SLAVE_STATE_RD_DONE :: u32 where "IIC_SLAVE_STATE_RD_DONE \<equiv> 0x10"
abbreviation (input) IIC_SLAVE_STATE_WR_REQ :: u32 where "IIC_SLAVE_STATE_WR_REQ \<equiv> 0x20"
abbreviation (input) IIC_SLAVE_STATE_GC_REQ :: u32 where "IIC_SLAVE_STATE_GC_REQ \<equiv> 0x40"
abbreviation (input) IIC_SLAVE_STATE_ERROR :: u32 where "IIC_SLAVE_STATE_ERROR \<equiv> 0x80"
abbreviation (input) IIC_7BIT_ADDRESS_MASK :: u32 where "IIC_7BIT_ADDRESS_MASK \<equiv> 0x7F"
abbreviation (input) IIC_10BIT_ADDRESS_MASK :: u32 where "IIC_10BIT_ADDRESS_MASK \<equiv> 0x3FF"

abbreviation (input) DW_IIC_RDY_SND :: u32 where "DW_IIC_RDY_SND \<equiv> 1"
abbreviation (input) DW_IIC_RDY_RCV :: u32 where "DW_IIC_RDY_RCV \<equiv> 2"
abbreviation (input) DW_IIC_GINT_ENABLE :: u32 where "DW_IIC_GINT_ENABLE \<equiv> 1"
abbreviation (input) DW_IIC_TXINT_ENABLE :: u32 where "DW_IIC_TXINT_ENABLE \<equiv> 2"
abbreviation (input) DW_IIC_RXINT_ENABLE :: u32 where "DW_IIC_RXINT_ENABLE \<equiv> 4"
abbreviation (input) DW_IIC_MASTER_SUPPORTED :: u32 where "DW_IIC_MASTER_SUPPORTED \<equiv> 1"
abbreviation (input) DW_IIC_SLAVE_SUPPORTED :: u32 where "DW_IIC_SLAVE_SUPPORTED \<equiv> 2"
abbreviation (input) DW_IIC_CAP_LOADING_100PF :: u32 where "DW_IIC_CAP_LOADING_100PF \<equiv> 0"

subsection \<open>Objects\<close>

record dw_iic_spklen =
  fs_spklen :: u32
  hs_spklen :: u32

record dw_iic_scl_cnt =
  ss_scl_hcnt :: u32
  ss_scl_lcnt :: u32
  fs_scl_hcnt :: u32
  fs_scl_lcnt :: u32
  hs_scl_hcnt :: u32
  hs_scl_lcnt :: u32

text \<open>\<open>DW_IIC_BUFFER\<close>; its \<open>buf\<close>, which nothing reads, is the device whose receive buffer it points to.\<close>

record dw_iic_buffer =
  rb_buf :: u32
  rb_ofs :: u32
  rb_len :: u32

record dw_iic_ctrl =
  dw_iic_regs :: u32
  ic_clkhz :: u32
  ic_caploading :: u32
  ic_support_modes :: u32
  ic_tx_fifo_len :: u32
  ic_rx_fifo_len :: u32
  iic_master_code :: u32
  retry_cnt :: u32
  ic_intno :: u32
  dw_iic_int_handler :: u32
  iic_spklen :: dw_iic_spklen
  iic_scl_cnt :: dw_iic_scl_cnt
  ic_int_status :: u32
  iic_tx_over :: u32
  iic_rx_over :: u32
  dw_iic_rxbuf :: dw_iic_buffer

record dev_iic_info =
  iic_ctrl :: u32
  ii_opn_cnt :: u32
  ii_status :: u32
  ii_mode :: u32
  ii_speed_mode :: u32
  ii_cur_state :: u32
  ii_err_state :: u32
  ii_addr_mode :: u32
  ii_slv_addr :: u32
  ii_tar_addr :: u32
  ii_next_cond :: u32
  ii_tx_buf :: dev_buffer
  ii_rx_buf :: dev_buffer
  ii_tx_cb :: u32
  ii_rx_cb :: u32
  ii_err_cb :: u32
  ii_extra :: u32

record iic_mach = mach +
  iinfo :: "u32 \<Rightarrow> dev_iic_info"
  ictrl :: "u32 \<Rightarrow> dw_iic_ctrl"

type_synonym ('a, 'r) iop = "('a iic_mach_scheme, 'r) state"
type_synonym 'a iic_callback = "u32 \<Rightarrow> u32 \<Rightarrow> ('a iic_mach_scheme, unit) state"

definition get_iinfo :: "u32 \<Rightarrow> ('a, dev_iic_info) iop" where
  "get_iinfo obj = do { s \<leftarrow> State_Monad.get; State_Monad.return (iinfo s obj) }"

definition get_ictrl :: "u32 \<Rightarrow> ('a, dw_iic_ctrl) iop" where
  "get_ictrl c = do { s \<leftarrow> State_Monad.get; State_Monad.return (ictrl s c) }"

definition upd_iinfo :: "u32 \<Rightarrow> (dev_iic_info \<Rightarrow> dev_iic_info) \<Rightarrow> ('a, unit) iop" where
  "upd_iinfo obj f = State_Monad.update (\<lambda>s. s\<lparr>iinfo := (iinfo s)(obj := f (iinfo s obj))\<rparr>)"

definition upd_ictrl :: "u32 \<Rightarrow> (dw_iic_ctrl \<Rightarrow> dw_iic_ctrl) \<Rightarrow> ('a, unit) iop" where
  "upd_ictrl c f = State_Monad.update (\<lambda>s. s\<lparr>ictrl := (ictrl s)(c := f (ictrl s c))\<rparr>)"

lemma run_iic_heap [simp]:
  "run_state (get_iinfo obj) s = (iinfo s obj, s)"
  "run_state (get_ictrl c) s = (ictrl s c, s)"
  "run_state (upd_iinfo obj f) s = ((), s\<lparr>iinfo := (iinfo s)(obj := f (iinfo s obj))\<rparr>)"
  "run_state (upd_ictrl c g) s = ((), s\<lparr>ictrl := (ictrl s)(c := g (ictrl s c))\<rparr>)"
  by (simp_all add: get_iinfo_def get_ictrl_def upd_iinfo_def upd_ictrl_def)

lemma wp_iic_heap [wp_rules]:
  "wp (get_iinfo obj) P s = P (iinfo s obj) s"
  "wp (get_ictrl c) Q s = Q (ictrl s c) s"
  "wp (upd_iinfo obj f) R s = R () (s\<lparr>iinfo := (iinfo s)(obj := f (iinfo s obj))\<rparr>)"
  "wp (upd_ictrl c g) R s = R () (s\<lparr>ictrl := (ictrl s)(c := g (ictrl s c))\<rparr>)"
  by (simp_all add: wp_def)

text \<open>The control structure and the registers of a device.\<close>

definition iic_regs :: "'a iic_mach_scheme \<Rightarrow> u32 \<Rightarrow> u32" where
  "iic_regs s obj = dw_iic_regs (ictrl s (iic_ctrl (iinfo s obj)))"

text \<open>\<open>VALID_CHK_IIC_INFO_OBJECT\<close>\<close>

definition iic_valid :: "'a iic_mach_scheme \<Rightarrow> u32 \<Rightarrow> bool" where
  "iic_valid s obj \<longleftrightarrow> obj \<noteq> 0 \<and> iic_ctrl (iinfo s obj) \<noteq> 0"

subsection \<open>Register access\<close>

definition dw_iic_disable :: "u32 \<Rightarrow> ('a, unit) op" where
  "dw_iic_disable base = mmio_wr (base + IC_ENABLE) 0"

definition dw_iic_enable :: "u32 \<Rightarrow> ('a, unit) op" where
  "dw_iic_enable base = mmio_wr (base + IC_ENABLE) 1"

definition dw_iic_clear_interrupt_all :: "plat \<Rightarrow> u32 \<Rightarrow> ('a, unit) op" where
  "dw_iic_clear_interrupt_all p base = mmio_touch p (base + IC_CLR_INTR)"

definition dw_iic_putready :: "plat \<Rightarrow> u32 \<Rightarrow> ('a, bool) op" where
  "dw_iic_putready p base = do { v \<leftarrow> mmio_rd p (base + IC_STATUS); State_Monad.return (v AND IC_STATUS_TFNF \<noteq> 0) }"

definition dw_iic_getready :: "plat \<Rightarrow> u32 \<Rightarrow> ('a, bool) op" where
  "dw_iic_getready p base = do { v \<leftarrow> mmio_rd p (base + IC_STATUS); State_Monad.return (v AND IC_STATUS_RFNE \<noteq> 0) }"

definition dw_iic_putdata :: "u32 \<Rightarrow> u32 \<Rightarrow> ('a, unit) op" where
  "dw_iic_putdata base data = mmio_wr (base + IC_DATA_CMD) data"

definition dw_iic_getdata :: "plat \<Rightarrow> u32 \<Rightarrow> ('a, u32) op" where
  "dw_iic_getdata p base = do { v \<leftarrow> mmio_rd p (base + IC_DATA_CMD); State_Monad.return (v AND 0xff) }"

definition dw_iic_unmask_interrupt :: "plat \<Rightarrow> u32 \<Rightarrow> u32 \<Rightarrow> ('a, unit) op" where
  "dw_iic_unmask_interrupt p base m = mmio_or p (base + IC_INTR_MASK) m"

definition dw_iic_mask_interrupt :: "plat \<Rightarrow> u32 \<Rightarrow> u32 \<Rightarrow> ('a, unit) op" where
  "dw_iic_mask_interrupt p base m = mmio_and p (base + IC_INTR_MASK) (NOT m)"

definition dw_iic_get_txfifo_len :: "plat \<Rightarrow> u32 \<Rightarrow> ('a, u32) op" where
  "dw_iic_get_txfifo_len p base = do {
     v \<leftarrow> mmio_rd p (base + IC_COMP_PARAM_1);
     State_Monad.return ((drop_bit 16 v AND 0xff) + 1)
   }"

definition dw_iic_get_rxfifo_len :: "plat \<Rightarrow> u32 \<Rightarrow> ('a, u32) op" where
  "dw_iic_get_rxfifo_len p base = do {
     v \<leftarrow> mmio_rd p (base + IC_COMP_PARAM_1);
     State_Monad.return ((drop_bit 8 v AND 0xff) + 1)
   }"

definition dw_iic_set_mstaddr_mode :: "plat \<Rightarrow> u32 \<Rightarrow> u32 \<Rightarrow> ('a, unit) op" where
  "dw_iic_set_mstaddr_mode p base mode = do {
     dw_iic_disable base;
     (if mode = IIC_7BIT_ADDRESS then mmio_and p (base + IC_CON) (NOT MST_10_BIT_ADDR_MODE)
      else mmio_or p (base + IC_CON) MST_10_BIT_ADDR_MODE);
     dw_iic_enable base
   }"

definition dw_iic_set_slvaddr_mode :: "plat \<Rightarrow> u32 \<Rightarrow> u32 \<Rightarrow> ('a, unit) op" where
  "dw_iic_set_slvaddr_mode p base mode = do {
     dw_iic_disable base;
     (if mode = IIC_7BIT_ADDRESS then mmio_and p (base + IC_CON) (NOT SLV_10_BIT_ADDR_MODE)
      else mmio_or p (base + IC_CON) SLV_10_BIT_ADDR_MODE);
     dw_iic_enable base
   }"

definition dw_iic_set_taraddr :: "plat \<Rightarrow> u32 \<Rightarrow> u32 \<Rightarrow> ('a, unit) op" where
  "dw_iic_set_taraddr p base address = do {
     dw_iic_disable base;
     mmio_and p (base + IC_TAR) (NOT IC_TAR_10BIT_ADDR_MASK);
     mmio_or p (base + IC_TAR) (IC_TAR_10BIT_ADDR_MASK AND address);
     dw_iic_enable base
   }"

definition dw_iic_set_slvaddr :: "plat \<Rightarrow> u32 \<Rightarrow> u32 \<Rightarrow> ('a, unit) op" where
  "dw_iic_set_slvaddr p base address = do {
     dw_iic_disable base;
     mmio_and p (base + IC_SAR) (NOT IC_SAR_10BIT_ADDR_MASK);
     mmio_or p (base + IC_SAR) (IC_SAR_10BIT_ADDR_MASK AND address);
     dw_iic_enable base
   }"

definition dw_iic_select_speedmode :: "u32 \<Rightarrow> u32" where
  "dw_iic_select_speedmode speedmode = (
     if speedmode = IIC_SPEED_STANDARD then IC_CON_SPEED_STANDARD
     else if speedmode = IIC_SPEED_FAST then IC_CON_SPEED_FAST
     else if speedmode = IIC_SPEED_FASTPLUS then IC_CON_SPEED_FAST
     else IC_CON_SPEED_HIGH)"

definition dw_iic_set_speedmode :: "plat \<Rightarrow> u32 \<Rightarrow> u32 \<Rightarrow> ('a, unit) op" where
  "dw_iic_set_speedmode p base speedmode = do {
     dw_iic_disable base;
     v \<leftarrow> mmio_rd p (base + IC_CON);
     mmio_wr (base + IC_CON) ((v AND NOT IC_CON_SPEED_MASK) OR dw_iic_select_speedmode speedmode);
     dw_iic_enable base
   }"

text \<open>The value computed from \<open>mode\<close> is never stored.\<close>

definition dw_iic_set_working_mode :: "plat \<Rightarrow> u32 \<Rightarrow> u32 \<Rightarrow> ('a, unit) op" where
  "dw_iic_set_working_mode p base mode = do {
     dw_iic_disable base;
     v \<leftarrow> mmio_rd p (base + IC_CON);
     let ic_con_val = (v AND NOT IC_CON_MST_SLV_MODE_MASK)
       OR (if mode = DEV_MASTER_MODE then IC_CON_ENA_MASTER_MODE else IC_CON_ENA_SLAVE_MODE);
     dw_iic_enable base
   }"

definition dw_iic_set_scl_cnt :: "u32 \<Rightarrow> dw_iic_scl_cnt \<Rightarrow> ('a, unit) op" where
  "dw_iic_set_scl_cnt base scl_cnt = do {
     dw_iic_disable base;
     mmio_wr (base + IC_SS_SCL_HCNT) (ss_scl_hcnt scl_cnt);
     mmio_wr (base + IC_SS_SCL_LCNT) (ss_scl_lcnt scl_cnt);
     mmio_wr (base + IC_FS_SCL_HCNT) (fs_scl_hcnt scl_cnt);
     mmio_wr (base + IC_FS_SCL_LCNT) (fs_scl_lcnt scl_cnt);
     mmio_wr (base + IC_HS_SCL_HCNT) (hs_scl_hcnt scl_cnt);
     mmio_wr (base + IC_HS_SCL_LCNT) (hs_scl_lcnt scl_cnt);
     dw_iic_enable base
   }"

definition dw_iic_set_spike_len :: "u32 \<Rightarrow> dw_iic_spklen \<Rightarrow> ('a, unit) op" where
  "dw_iic_set_spike_len base spklen = do {
     dw_iic_disable base;
     mmio_wr (base + IC_FS_SPKLEN) (fs_spklen spklen);
     mmio_wr (base + IC_HS_SPKLEN) (hs_spklen spklen);
     dw_iic_enable base
   }"

definition dw_iic_flush_tx :: "plat \<Rightarrow> u32 \<Rightarrow> ('a, unit) op" where
  "dw_iic_flush_tx p base = mmio_touch p (base + IC_CLR_INTR)"

definition dw_iic_flush_rx :: "u32 \<Rightarrow> ('a, unit) op" where
  "dw_iic_flush_rx base = State_Monad.return ()"

subsection \<open>Timing\<close>

text \<open>\<open>t / clk_ns\<close> rounded up, as the code computes it for every time.\<close>

definition ns_cnt :: "u32 \<Rightarrow> u32 \<Rightarrow> u32" where
  "ns_cnt t clk_ns = (if t mod clk_ns \<noteq> 0 then t div clk_ns + 1 else t div clk_ns)"

definition u32_max :: "u32 \<Rightarrow> u32 \<Rightarrow> u32" where
  "u32_max x y = (if x < y then y else x)"

text \<open>A clock of 0 kHz is a division by zero.\<close>

definition dw_iic_calc_spklen :: "u32 \<Rightarrow> dw_iic_spklen res" where
  "dw_iic_calc_spklen clk_khz = (
     if clk_khz = 0 then Inl Undef
     else if clk_khz \<le> 1000000 then
       let clk_ns = 1000000 div clk_khz in Inr \<lparr>fs_spklen = ns_cnt 50 clk_ns, hs_spklen = ns_cnt 10 clk_ns\<rparr>
     else
       let clk_ns = clk_khz div 1000000 in Inr \<lparr>fs_spklen = 50 * clk_ns, hs_spklen = 10 * clk_ns\<rparr>)"

text \<open>The counts for the minimal high and low times, before and after the lower limits are applied.\<close>

definition scl_times :: "(u32 \<Rightarrow> u32) \<Rightarrow> u32 \<Rightarrow> dw_iic_scl_cnt" where
  "scl_times cnt caploading = \<lparr>
     ss_scl_hcnt = cnt 4000, ss_scl_lcnt = cnt 4700, fs_scl_hcnt = cnt 600, fs_scl_lcnt = cnt 1300,
     hs_scl_hcnt = (if caploading = DW_IIC_CAP_LOADING_100PF then cnt 60 else cnt 120),
     hs_scl_lcnt = (if caploading = DW_IIC_CAP_LOADING_100PF then cnt 160 else cnt 320)\<rparr>"

definition scl_limits :: "dw_iic_spklen \<Rightarrow> dw_iic_scl_cnt \<Rightarrow> dw_iic_scl_cnt" where
  "scl_limits spklen c = \<lparr>
     ss_scl_hcnt = u32_max (ss_scl_hcnt c) (fs_spklen spklen + 5),
     ss_scl_lcnt = u32_max (ss_scl_lcnt c) (fs_spklen spklen + 7),
     fs_scl_hcnt = u32_max (fs_scl_hcnt c) (fs_spklen spklen + 5),
     fs_scl_lcnt = u32_max (fs_scl_lcnt c) (fs_spklen spklen + 7),
     hs_scl_hcnt = u32_max (hs_scl_hcnt c) (hs_spklen spklen + 5),
     hs_scl_lcnt = u32_max (hs_scl_lcnt c) (hs_spklen spklen + 7)\<rparr>"

definition dw_iic_calc_sclcnt :: "u32 \<Rightarrow> u32 \<Rightarrow> dw_iic_spklen \<Rightarrow> dw_iic_scl_cnt res" where
  "dw_iic_calc_sclcnt clk_khz caploading spklen = (
     if clk_khz = 0 then Inl Undef
     else let clk_ns = 1000000 div clk_khz in
       Inr (scl_limits spklen (scl_times (if clk_khz \<le> 1000000 then (\<lambda>t. ns_cnt t clk_ns) else (\<lambda>t. t * clk_ns)) caploading)))"

subsection \<open>Slave state, initialisation and errors\<close>

text \<open>
  The raw status is read once, but three of the branches overwrite it with the value of the clear
  register they read.
\<close>

definition dw_iic_get_slv_state :: "plat \<Rightarrow> u32 \<Rightarrow> ('a, u32) op" where
  "dw_iic_get_slv_state p base = do {
     status \<leftarrow> mmio_rd p (base + IC_RAW_INTR_STAT);
     let slv_state = (if status AND STAT_GEN_CALL \<noteq> 0 then IIC_SLAVE_STATE_GC_REQ else 0)
       OR (if status AND STAT_RX_FULL \<noteq> 0 then IIC_SLAVE_STATE_WR_REQ else 0)
       OR (if status AND STAT_RD_REQ \<noteq> 0 then IIC_SLAVE_STATE_RD_REQ else 0);
     (slv_state, status) \<leftarrow> (if status AND STAT_RX_DONE \<noteq> 0 then do {
         v \<leftarrow> mmio_rd p (base + IC_CLR_RX_DONE);
         State_Monad.return (slv_state OR IIC_SLAVE_STATE_RD_DONE, v)
       } else State_Monad.return (slv_state, status));
     (slv_state, status) \<leftarrow> (if status AND STAT_START_DET \<noteq> 0 then do {
         v \<leftarrow> mmio_rd p (base + IC_CLR_START_DET);
         State_Monad.return (slv_state OR IIC_SLAVE_STATE_START, v)
       } else State_Monad.return (slv_state, status));
     (slv_state, status) \<leftarrow> (if status AND STAT_STOP_DET \<noteq> 0 then do {
         v \<leftarrow> mmio_rd p (base + IC_CLR_STOP_DET);
         State_Monad.return (slv_state OR IIC_SLAVE_STATE_STOP, v)
       } else State_Monad.return (slv_state, status));
     if status AND (STAT_TX_ABRT OR STAT_TX_OVER OR STAT_RX_OVER OR STAT_RX_UNDER) \<noteq> 0 then do {
       mmio_touch p (base + IC_CLR_TX_ABRT);
       mmio_touch p (base + IC_CLR_TX_OVER);
       mmio_touch p (base + IC_CLR_RX_OVER);
       mmio_touch p (base + IC_CLR_RX_UNDER);
       State_Monad.return (slv_state OR IIC_SLAVE_STATE_ERROR)
     } else State_Monad.return slv_state
   }"

definition dw_iic_master_init :: "u32 \<Rightarrow> u32 \<Rightarrow> u32 \<Rightarrow> u32 \<Rightarrow> ('a, unit) iop" where
  "dw_iic_master_init cp speed_mode addr_mode tar_addr = do {
     c \<leftarrow> get_ictrl cp;
     let base = dw_iic_regs c;
     dw_iic_disable base;
     mmio_wr (base + IC_INTR_MASK) 0;
     mmio_wr (base + IC_TAR) ((tar_addr AND IC_TAR_10BIT_ADDR_MASK) OR IC_TAR_SPECIAL OR IC_TAR_GC_OR_START);
     let ic_con_val = dw_iic_select_speedmode speed_mode OR IC_CON_ENA_MASTER_MODE OR IC_CON_RESTART_EN;
     mmio_wr (base + IC_CON) (if addr_mode = IIC_10BIT_ADDRESS then ic_con_val OR MST_10_BIT_ADDR_MODE else ic_con_val);
     mmio_wr (base + IC_TX_TL) 0;
     mmio_wr (base + IC_RX_TL) 0;
     mmio_wr (base + IC_HS_MADDR) (iic_master_code c);
     dw_iic_enable base;
     dw_iic_set_spike_len base (iic_spklen c);
     dw_iic_set_scl_cnt base (iic_scl_cnt c)
   }"

definition dw_iic_slave_init :: "u32 \<Rightarrow> u32 \<Rightarrow> u32 \<Rightarrow> ('a, unit) iop" where
  "dw_iic_slave_init cp addr_mode slv_addr = do {
     c \<leftarrow> get_ictrl cp;
     let base = dw_iic_regs c;
     dw_iic_disable base;
     mmio_wr (base + IC_INTR_MASK) 0;
     mmio_wr (base + IC_SAR) (slv_addr AND IC_SAR_10BIT_ADDR_MASK);
     mmio_wr (base + IC_CON)
       (if addr_mode = IIC_10BIT_ADDRESS then IC_CON_ENA_SLAVE_MODE OR SLV_10_BIT_ADDR_MODE else IC_CON_ENA_SLAVE_MODE);
     mmio_wr (base + IC_TX_TL) 0;
     mmio_wr (base + IC_RX_TL) 0;
     dw_iic_enable base
   }"

text \<open>
  The overrun counters, common to both checks; the test for receive errors uses the value of the
  clear register when a transmit overrun was found.
\<close>

definition iic_count_overruns :: "plat \<Rightarrow> u32 \<Rightarrow> u32 \<Rightarrow> u32 \<Rightarrow> ('a, unit) iop" where
  "iic_count_overruns p cp base status = do {
     status \<leftarrow> (if status AND STAT_TX_OVER \<noteq> 0 then do {
         upd_ictrl cp (\<lambda>c. c\<lparr>iic_tx_over := iic_tx_over c + 1\<rparr>);
         mmio_rd p (base + IC_CLR_TX_OVER)
       } else State_Monad.return status);
     c_if (status AND (STAT_RX_OVER OR STAT_RX_UNDER) \<noteq> 0) (do {
       upd_ictrl cp (\<lambda>c. c\<lparr>iic_rx_over := iic_rx_over c + 1\<rparr>);
       mmio_touch p (base + IC_CLR_RX_OVER);
       mmio_touch p (base + IC_CLR_RX_UNDER)
     })
   }"

definition dw_iic_mst_chkerr :: "plat \<Rightarrow> u32 \<Rightarrow> ('a, s32) iop" where
  "dw_iic_mst_chkerr p cp = do {
     c \<leftarrow> get_ictrl cp;
     let base = dw_iic_regs c;
     status \<leftarrow> mmio_rd p (base + IC_RAW_INTR_STAT);
     if status AND STAT_TX_ABRT \<noteq> 0 then do {
       src \<leftarrow> mmio_rd p (base + IC_TX_ABRT_SOURCE);
       mmio_touch p (base + IC_CLR_TX_ABRT);
       State_Monad.return (
         if src AND IIC_MST_ABRT_LOST_BUS \<noteq> 0 then IIC_ERR_LOST_BUS
         else if src AND IIC_MST_ABRT_ADDR_NOACK \<noteq> 0 then IIC_ERR_ADDR_NOACK
         else if src AND IIC_MST_ABRT_DATA_NOACK \<noteq> 0 then IIC_ERR_DATA_NOACK
         else IIC_ERR_UNDEF)
     } else do {
       iic_count_overruns p cp base status;
       State_Monad.return IIC_ERR_NONE
     }
   }"

definition dw_iic_slv_chkerr :: "plat \<Rightarrow> u32 \<Rightarrow> ('a, s32) iop" where
  "dw_iic_slv_chkerr p cp = do {
     c \<leftarrow> get_ictrl cp;
     let base = dw_iic_regs c;
     status \<leftarrow> mmio_rd p (base + IC_RAW_INTR_STAT);
     if status AND STAT_TX_ABRT \<noteq> 0 then do {
       src \<leftarrow> mmio_rd p (base + IC_TX_ABRT_SOURCE);
       ercd \<leftarrow> (if src AND IIC_SLV_ABRT_LOST_BUS \<noteq> 0 then State_Monad.return IIC_ERR_LOST_BUS
         else if src AND IC_TX_ABRT_SLVFLUSH_TXFIFO \<noteq> 0 then do {
           mmio_touch p (base + IC_TX_ABRT_SOURCE);
           State_Monad.return IIC_ERR_NONE
         } else State_Monad.return IIC_ERR_UNDEF);
       mmio_touch p (base + IC_CLR_TX_ABRT);
       State_Monad.return ercd
     } else do {
       iic_count_overruns p cp base status;
       State_Monad.return IIC_ERR_NONE
     }
   }"

subsection \<open>Device state and interrupts\<close>

definition dw_iic_enable_device :: "u32 \<Rightarrow> ('a, unit) iop" where
  "dw_iic_enable_device obj = do {
     s \<leftarrow> State_Monad.get;
     c_if (ii_status (iinfo s obj) AND DEV_ENABLED = 0) (do {
       dw_iic_enable (iic_regs s obj);
       upd_iinfo obj (\<lambda>i. i\<lparr>ii_status := ii_status i OR DEV_ENABLED\<rparr>)
     })
   }"

primrec iic_disable_loop :: "nat \<Rightarrow> plat \<Rightarrow> u32 \<Rightarrow> ('a, unit) op" where
  "iic_disable_loop 0 p base = State_Monad.return ()"
| "iic_disable_loop (Suc n) p base = do {
     dw_iic_disable base;
     v \<leftarrow> mmio_rd p (base + IC_ENABLE_STATUS);
     if v AND IC_ENABLE_STATUS_IC_EN = 0 then State_Monad.return () else iic_disable_loop n p base
   }"

definition dw_iic_disable_device :: "plat \<Rightarrow> u32 \<Rightarrow> ('a, unit) iop" where
  "dw_iic_disable_device p obj = do {
     s \<leftarrow> State_Monad.get;
     iic_disable_loop DW_IIC_DISABLE_MAX_T_POLL_CNT p (iic_regs s obj);
     upd_iinfo obj (\<lambda>i. i\<lparr>ii_status := ii_status i AND NOT DEV_ENABLED\<rparr>)
   }"

definition dw_iic_reset_device :: "plat \<Rightarrow> u32 \<Rightarrow> ('a, unit) iop" where
  "dw_iic_reset_device p obj = do {
     s \<leftarrow> State_Monad.get;
     dw_iic_disable_device p obj;
     dw_iic_clear_interrupt_all p (iic_regs s obj);
     upd_iinfo obj (\<lambda>i. i\<lparr>ii_next_cond := IIC_MODE_STOP, ii_cur_state := IIC_FREE, ii_err_state := IIC_ERR_NONE\<rparr>);
     upd_ictrl (iic_ctrl (iinfo s obj)) (\<lambda>c. c\<lparr>iic_tx_over := 0, iic_rx_over := 0\<rparr>);
     dw_iic_enable_device obj
   }"

text \<open>
  The interrupt sources of a direction, for a master and for a slave, and the flag of the direction;
  other selectors stand for nothing.
\<close>

definition iic_int_sources :: "bool \<Rightarrow> u32 \<Rightarrow> (u32 \<times> u32) option" where
  "iic_int_sources master cbrtn = (
     if cbrtn = DW_IIC_RDY_SND then
       Some (if master then IC_INT_MST_TX_ENABLE else IC_INT_SLV_TX_ENABLE, DW_IIC_TXINT_ENABLE)
     else if cbrtn = DW_IIC_RDY_RCV then
       Some (if master then IC_INT_MST_RX_ENABLE else IC_INT_SLV_RX_ENABLE, DW_IIC_RXINT_ENABLE)
     else None)"

definition iic_dis_sources :: "plat \<Rightarrow> bool \<Rightarrow> u32 \<Rightarrow> u32 \<Rightarrow> ('a, unit) iop" where
  "iic_dis_sources p master cp cbrtn = do {
     c \<leftarrow> get_ictrl cp;
     (case iic_int_sources master cbrtn of None \<Rightarrow> State_Monad.return ()
      | Some (m, f) \<Rightarrow> do {
          dw_iic_mask_interrupt p (dw_iic_regs c) m;
          upd_ictrl cp (\<lambda>c. c\<lparr>ic_int_status := ic_int_status c AND NOT f\<rparr>)
        })
   }"

definition iic_ena_sources :: "plat \<Rightarrow> bool \<Rightarrow> u32 \<Rightarrow> u32 \<Rightarrow> ('a, unit) iop" where
  "iic_ena_sources p master cp cbrtn = do {
     c \<leftarrow> get_ictrl cp;
     (case iic_int_sources master cbrtn of None \<Rightarrow> State_Monad.return ()
      | Some (m, f) \<Rightarrow> do {
          upd_ictrl cp (\<lambda>c. c\<lparr>ic_int_status := ic_int_status c OR f\<rparr>);
          dw_iic_unmask_interrupt p (dw_iic_regs c) m
        })
   }"

definition dw_iic_mst_dis_cbr :: "plat \<Rightarrow> u32 \<Rightarrow> u32 \<Rightarrow> ('a, unit) iop" where
  "dw_iic_mst_dis_cbr p cp cbrtn = iic_dis_sources p True cp cbrtn"

definition dw_iic_slv_dis_cbr :: "plat \<Rightarrow> u32 \<Rightarrow> u32 \<Rightarrow> ('a, unit) iop" where
  "dw_iic_slv_dis_cbr p cp cbrtn = iic_dis_sources p False cp cbrtn"

definition dw_iic_mst_ena_cbr :: "plat \<Rightarrow> u32 \<Rightarrow> u32 \<Rightarrow> ('a, unit) iop" where
  "dw_iic_mst_ena_cbr p cp cbrtn = iic_ena_sources p True cp cbrtn"

definition dw_iic_slv_ena_cbr :: "plat \<Rightarrow> u32 \<Rightarrow> u32 \<Rightarrow> ('a, unit) iop" where
  "dw_iic_slv_ena_cbr p cp cbrtn = iic_ena_sources p False cp cbrtn"

definition dw_iic_dis_cbr :: "plat \<Rightarrow> u32 \<Rightarrow> u32 \<Rightarrow> ('a, unit) iop" where
  "dw_iic_dis_cbr p obj cbrtn = do {
     i \<leftarrow> get_iinfo obj;
     let cp = iic_ctrl i;
     (if ii_mode i = DEV_MASTER_MODE then dw_iic_mst_dis_cbr p cp cbrtn else dw_iic_slv_dis_cbr p cp cbrtn);
     c \<leftarrow> get_ictrl cp;
     c_if (ic_int_status c AND DW_IIC_GINT_ENABLE \<noteq> 0
         \<and> ic_int_status c AND (DW_IIC_RXINT_ENABLE OR DW_IIC_TXINT_ENABLE) = 0) (do {
       c_if (ic_intno c \<noteq> DEV_INTNO_INVALID)
         (do { _ \<leftarrow> int_disable p (ic_intno c); State_Monad.return () });
       upd_ictrl cp (\<lambda>c. c\<lparr>ic_int_status := ic_int_status c AND NOT DW_IIC_GINT_ENABLE\<rparr>)
     })
   }"

definition dw_iic_ena_cbr :: "plat \<Rightarrow> u32 \<Rightarrow> u32 \<Rightarrow> ('a, unit) iop" where
  "dw_iic_ena_cbr p obj cbrtn = do {
     i \<leftarrow> get_iinfo obj;
     let cp = iic_ctrl i;
     (if ii_mode i = DEV_MASTER_MODE then dw_iic_mst_ena_cbr p cp cbrtn else dw_iic_slv_ena_cbr p cp cbrtn);
     c \<leftarrow> get_ictrl cp;
     c_if (ic_int_status c AND DW_IIC_GINT_ENABLE = 0
         \<and> ic_int_status c AND (DW_IIC_RXINT_ENABLE OR DW_IIC_TXINT_ENABLE) \<noteq> 0) (do {
       upd_ictrl cp (\<lambda>c. c\<lparr>ic_int_status := ic_int_status c OR DW_IIC_GINT_ENABLE\<rparr>);
       c_if (ic_intno c \<noteq> DEV_INTNO_INVALID)
         (do { _ \<leftarrow> int_enable p (ic_intno c); State_Monad.return () })
     })
   }"

definition dw_iic_enable_interrupt :: "plat \<Rightarrow> u32 \<Rightarrow> ('a, unit) iop" where
  "dw_iic_enable_interrupt p obj = do {
     i \<leftarrow> get_iinfo obj;
     let cp = iic_ctrl i;
     c \<leftarrow> get_ictrl cp;
     if ic_intno c \<noteq> DEV_INTNO_INVALID then do {
       _ \<leftarrow> int_handler_install p (ic_intno c) (dw_iic_int_handler c);
       upd_ictrl cp (\<lambda>c. c\<lparr>ic_int_status := ic_int_status c OR DW_IIC_GINT_ENABLE\<rparr>);
       _ \<leftarrow> int_enable p (ic_intno c);
       State_Monad.return ()
     } else upd_ictrl cp (\<lambda>c. c\<lparr>ic_int_status := ic_int_status c OR DW_IIC_GINT_ENABLE\<rparr>)
   }"

definition dw_iic_disable_interrupt :: "plat \<Rightarrow> u32 \<Rightarrow> ('a, unit) iop" where
  "dw_iic_disable_interrupt p obj = do {
     dw_iic_dis_cbr p obj DW_IIC_RDY_SND;
     dw_iic_dis_cbr p obj DW_IIC_RDY_RCV;
     i \<leftarrow> get_iinfo obj;
     let cp = iic_ctrl i;
     c \<leftarrow> get_ictrl cp;
     c_if (ic_intno c \<noteq> DEV_INTNO_INVALID)
       (do { _ \<leftarrow> int_disable p (ic_intno c); State_Monad.return () });
     upd_ictrl cp (\<lambda>c. c\<lparr>ic_int_status := ic_int_status c
       AND NOT (DW_IIC_GINT_ENABLE OR DW_IIC_TXINT_ENABLE OR DW_IIC_RXINT_ENABLE)\<rparr>)
   }"

definition dw_iic_abort_tx :: "plat \<Rightarrow> 'a iic_callback \<Rightarrow> u32 \<Rightarrow> ('a, unit) iop" where
  "dw_iic_abort_tx p cb obj = do {
     s \<leftarrow> State_Monad.get;
     c_if (ic_int_status (ictrl s (iic_ctrl (iinfo s obj))) AND DW_IIC_TXINT_ENABLE \<noteq> 0) (do {
       dw_iic_dis_cbr p obj DW_IIC_RDY_SND;
       upd_iinfo obj (\<lambda>i. i\<lparr>ii_status := ii_status i OR DEV_IN_TX_ABRT\<rparr>);
       i \<leftarrow> get_iinfo obj;
       c_if (ii_tx_cb i \<noteq> 0) (cb (ii_tx_cb i) obj);
       upd_iinfo obj (\<lambda>i. i\<lparr>ii_status := ii_status i AND NOT DEV_IN_TX_ABRT\<rparr>)
     })
   }"

definition dw_iic_abort_rx :: "plat \<Rightarrow> 'a iic_callback \<Rightarrow> u32 \<Rightarrow> ('a, unit) iop" where
  "dw_iic_abort_rx p cb obj = do {
     s \<leftarrow> State_Monad.get;
     c_if (ic_int_status (ictrl s (iic_ctrl (iinfo s obj))) AND DW_IIC_RXINT_ENABLE \<noteq> 0) (do {
       dw_iic_dis_cbr p obj DW_IIC_RDY_RCV;
       upd_iinfo obj (\<lambda>i. i\<lparr>ii_status := ii_status i OR DEV_IN_RX_ABRT\<rparr>);
       i \<leftarrow> get_iinfo obj;
       c_if (ii_rx_cb i \<noteq> 0) (cb (ii_rx_cb i) obj);
       upd_iinfo obj (\<lambda>i. i\<lparr>ii_status := ii_status i AND NOT DEV_IN_RX_ABRT\<rparr>)
     })
   }"

definition dw_iic_get_txavail :: "plat \<Rightarrow> u32 \<Rightarrow> ('a, s32) iop" where
  "dw_iic_get_txavail p cp = do {
     c \<leftarrow> get_ictrl cp;
     if ic_tx_fifo_len c \<le> 1 then do {
       ready \<leftarrow> dw_iic_putready p (dw_iic_regs c);
       State_Monad.return (c_bool ready)
     } else do {
       level \<leftarrow> mmio_rd p (dw_iic_regs c + IC_TXFLR);
       State_Monad.return (ic_tx_fifo_len c - level)
     }
   }"

definition dw_iic_get_rxavail :: "plat \<Rightarrow> u32 \<Rightarrow> ('a, s32) iop" where
  "dw_iic_get_rxavail p cp = do {
     c \<leftarrow> get_ictrl cp;
     if ic_rx_fifo_len c \<le> 1 then do {
       ready \<leftarrow> dw_iic_getready p (dw_iic_regs c);
       State_Monad.return (c_bool ready)
     } else mmio_rd p (dw_iic_regs c + IC_RXFLR)
   }"

subsection \<open>One byte\<close>

text \<open>
  The wait of a master: \<open>n\<close> more polls may fail before the time is up. \<open>ready\<close> is the poll.
\<close>

primrec iic_mst_wait :: "nat \<Rightarrow> plat \<Rightarrow> u32 \<Rightarrow> ('a, bool) iop \<Rightarrow> ('a, s32 res) iop" where
  "iic_mst_wait 0 p cp ready = do {
     b \<leftarrow> ready;
     c \<leftarrow> get_ictrl cp;
     if b then retE IIC_ERR_NONE else if retry_cnt c = 0xFFFFFFFF then stopE Hang else retE IIC_ERR_TIMEOUT
   }"
| "iic_mst_wait (Suc n) p cp ready = do {
     b \<leftarrow> ready;
     if b then retE IIC_ERR_NONE
     else do {
       ercd \<leftarrow> dw_iic_mst_chkerr p cp;
       if ercd \<noteq> IIC_ERR_NONE then retE ercd else iic_mst_wait n p cp ready
     }
   }"

definition dw_iic_mst_write_data :: "plat \<Rightarrow> u32 \<Rightarrow> u32 \<Rightarrow> u32 \<Rightarrow> ('a, s32 res) iop" where
  "dw_iic_mst_write_data p cp data next_cond = do {
     c \<leftarrow> get_ictrl cp;
     let base = dw_iic_regs c;
     bindE (iic_mst_wait (unat (retry_cnt c) + 1) p cp (dw_iic_putready p base)) (\<lambda>ercd.
     if ercd \<noteq> IIC_ERR_NONE then retE ercd
     else liftE (do {
       dw_iic_putdata base (data OR IC_DATA_CMD_WRITE_REQ OR next_cond);
       State_Monad.return ercd
     }))
   }"

text \<open>The value is the error and the byte received.\<close>

definition dw_iic_mst_read_data :: "plat \<Rightarrow> u32 \<Rightarrow> u32 \<Rightarrow> ('a, (s32 \<times> u32) res) iop" where
  "dw_iic_mst_read_data p cp next_cond = do {
     c \<leftarrow> get_ictrl cp;
     let base = dw_iic_regs c;
     bindE (iic_mst_wait (unat (retry_cnt c) + 1) p cp (dw_iic_putready p base)) (\<lambda>ercd.
     if ercd \<noteq> IIC_ERR_NONE then retE (ercd, 0)
     else bindE (liftE (dw_iic_putdata base (next_cond OR IC_DATA_CMD_READ_REQ))) (\<lambda>_.
     bindE (iic_mst_wait (unat (retry_cnt c) + 1) p cp (dw_iic_getready p base)) (\<lambda>ercd.
     if ercd \<noteq> IIC_ERR_NONE then retE (ercd, 0)
     else liftE (do { v \<leftarrow> dw_iic_getdata p base; State_Monad.return (ercd, v) }))))
   }"

text \<open>The waits of a slave, with \<open>n\<close> rounds left; \<open>IIC_ERR_NONE\<close> says that it is ready.\<close>

primrec iic_slv_tx_wait :: "nat \<Rightarrow> plat \<Rightarrow> u32 \<Rightarrow> u32 \<Rightarrow> ('a, s32) iop" where
  "iic_slv_tx_wait 0 p cp base = State_Monad.return IIC_ERR_TIMEOUT"
| "iic_slv_tx_wait (Suc n) p cp base = do {
     ercd \<leftarrow> dw_iic_slv_chkerr p cp;
     if ercd \<noteq> IIC_ERR_NONE then State_Monad.return ercd
     else do {
       slv_state \<leftarrow> mmio_rd p (base + IC_RAW_INTR_STAT);
       if slv_state AND STAT_RD_REQ \<noteq> 0 then do {
         ready \<leftarrow> dw_iic_putready p base;
         if ready then do { mmio_touch p (base + IC_CLR_RD_REQ); State_Monad.return IIC_ERR_NONE }
         else iic_slv_tx_wait n p cp base
       } else if slv_state AND STAT_RX_DONE \<noteq> 0 then do {
         mmio_touch p (base + IC_CLR_RX_DONE);
         State_Monad.return IIC_ERR_MSTSTOP
       } else if slv_state AND STAT_STOP_DET \<noteq> 0 then do {
         mmio_touch p (base + IC_CLR_STOP_DET);
         State_Monad.return IIC_ERR_MSTSTOP
       } else iic_slv_tx_wait n p cp base
     }
   }"

definition dw_iic_slv_write_data :: "plat \<Rightarrow> u32 \<Rightarrow> u32 \<Rightarrow> ('a, s32) iop" where
  "dw_iic_slv_write_data p cp data = do {
     c \<leftarrow> get_ictrl cp;
     let base = dw_iic_regs c;
     ercd \<leftarrow> iic_slv_tx_wait (unat (retry_cnt c)) p cp base;
     c_if (ercd = IIC_ERR_NONE) (dw_iic_putdata base (data OR IC_DATA_CMD_WRITE_REQ));
     State_Monad.return ercd
   }"

primrec iic_slv_rx_wait :: "nat \<Rightarrow> plat \<Rightarrow> u32 \<Rightarrow> u32 \<Rightarrow> ('a, s32) iop" where
  "iic_slv_rx_wait 0 p cp base = State_Monad.return IIC_ERR_TIMEOUT"
| "iic_slv_rx_wait (Suc n) p cp base = do {
     ercd \<leftarrow> dw_iic_slv_chkerr p cp;
     if ercd \<noteq> IIC_ERR_NONE then State_Monad.return ercd
     else do {
       slv_state \<leftarrow> mmio_rd p (base + IC_RAW_INTR_STAT);
       c_if (slv_state AND STAT_START_DET \<noteq> 0) (mmio_touch p (base + IC_CLR_START_DET));
       if slv_state AND STAT_RX_FULL \<noteq> 0 then do {
         ready \<leftarrow> dw_iic_getready p base;
         if ready then State_Monad.return IIC_ERR_NONE else iic_slv_rx_wait n p cp base
       } else if slv_state AND STAT_STOP_DET \<noteq> 0 then do {
         mmio_touch p (base + IC_CLR_STOP_DET);
         State_Monad.return IIC_ERR_MSTSTOP
       } else iic_slv_rx_wait n p cp base
     }
   }"

definition dw_iic_slv_read_data :: "plat \<Rightarrow> u32 \<Rightarrow> ('a, s32 \<times> u32) iop" where
  "dw_iic_slv_read_data p cp = do {
     c \<leftarrow> get_ictrl cp;
     let base = dw_iic_regs c;
     ercd \<leftarrow> iic_slv_rx_wait (unat (retry_cnt c)) p cp base;
     if ercd = IIC_ERR_NONE then do { v \<leftarrow> dw_iic_getdata p base; State_Monad.return (ercd, v) }
     else State_Monad.return (ercd, 0)
   }"

subsection \<open>Interrupt-driven transfers\<close>

definition iic_last_cond :: "dev_iic_info \<Rightarrow> u32" where
  "iic_last_cond i = (if ii_next_cond i = IIC_MODE_STOP then IC_DATA_CMD_STOP else IC_DATA_CMD_RESTART)"

text \<open>
  The \<open>while\<close> loop of \<open>dw_iic_mst_int_write\<close>. It leaves at the last byte at the latest, so
  \<open>blen - 1 - ofs + 1\<close> rounds are always enough.
\<close>

primrec mst_tx_loop :: "nat \<Rightarrow> plat \<Rightarrow> 'a iic_callback \<Rightarrow> u32 \<Rightarrow> u32 \<Rightarrow> u32 \<Rightarrow> u32 \<Rightarrow> ('a, unit) iop" where
  "mst_tx_loop 0 p cb obj base last_cond p_charbuf = State_Monad.return ()"
| "mst_tx_loop (Suc n) p cb obj base last_cond p_charbuf = do {
     ready \<leftarrow> dw_iic_putready p base;
     if \<not> ready then State_Monad.return ()
     else do {
       s \<leftarrow> State_Monad.get;
       let b = ii_tx_buf (iinfo s obj);
       let xmit_end = (ofs b = blen b - 1);
       upd_iinfo obj (\<lambda>i. i\<lparr>ii_tx_buf := (ii_tx_buf i)\<lparr>ofs := ofs b + 1\<rparr>\<rparr>);
       dw_iic_putdata base (ucast (mem s (p_charbuf + ofs b)) OR IC_DATA_CMD_WRITE_REQ
         OR (if xmit_end then last_cond else IC_DATA_CMD_NONE));
       if xmit_end then do {
         dw_iic_dis_cbr p obj DW_IIC_RDY_SND;
         upd_iinfo obj (\<lambda>i. i\<lparr>ii_cur_state := IIC_FREE\<rparr>);
         i \<leftarrow> get_iinfo obj;
         c_if (ii_tx_cb i \<noteq> 0) (cb (ii_tx_cb i) obj);
         upd_iinfo obj (\<lambda>i. i\<lparr>ii_tx_buf := null_buffer\<rparr>)
       } else mst_tx_loop n p cb obj base last_cond p_charbuf
     }
   }"

definition dw_iic_mst_int_write :: "plat \<Rightarrow> 'a iic_callback \<Rightarrow> u32 \<Rightarrow> ('a, unit) iop" where
  "dw_iic_mst_int_write p cb obj = do {
     i \<leftarrow> get_iinfo obj;
     let cp = iic_ctrl i;
     c \<leftarrow> get_ictrl cp;
     let base = dw_iic_regs c;
     iic_int_status \<leftarrow> mmio_rd p (base + IC_INTR_STAT);
     let b = ii_tx_buf i;
     (if buf b \<noteq> 0 then do {
        c_if (iic_int_status AND STAT_TX_EMPTY \<noteq> 0)
          (mst_tx_loop (Suc (unat (blen b - 1 - ofs b))) p cb obj base (iic_last_cond i) (buf b));
        c_if (iic_int_status AND STAT_TX_OVER \<noteq> 0) (upd_ictrl cp (\<lambda>c. c\<lparr>iic_tx_over := iic_tx_over c + 1\<rparr>));
        c_if (iic_int_status AND STAT_TX_ABRT \<noteq> 0) (do {
          err \<leftarrow> dw_iic_mst_chkerr p cp;
          upd_iinfo obj (\<lambda>i. i\<lparr>ii_err_state := err\<rparr>);
          c_if (err \<noteq> IIC_ERR_NONE) (do {
            dw_iic_dis_cbr p obj DW_IIC_RDY_SND;
            upd_iinfo obj (\<lambda>i. i\<lparr>ii_cur_state := IIC_FREE\<rparr>);
            i \<leftarrow> get_iinfo obj;
            c_if (ii_err_cb i \<noteq> 0) (cb (ii_err_cb i) obj);
            upd_iinfo obj (\<lambda>i. i\<lparr>ii_tx_buf := null_buffer\<rparr>)
          })
        })
      } else do {
        dw_iic_dis_cbr p obj DW_IIC_RDY_SND;
        upd_iinfo obj (\<lambda>i. i\<lparr>ii_cur_state := IIC_FREE\<rparr>)
      });
     mmio_touch p (base + IC_CLR_INTR)
   }"

text \<open>The requests of a reading master, until the receive buffer is asked for in full.\<close>

primrec mst_req_loop :: "nat \<Rightarrow> plat \<Rightarrow> u32 \<Rightarrow> u32 \<Rightarrow> u32 \<Rightarrow> ('a, unit) iop" where
  "mst_req_loop 0 p cp base last_cond = State_Monad.return ()"
| "mst_req_loop (Suc n) p cp base last_cond = do {
     ready \<leftarrow> dw_iic_putready p base;
     if \<not> ready then State_Monad.return ()
     else do {
       c \<leftarrow> get_ictrl cp;
       let b = dw_iic_rxbuf c;
       if rb_ofs b \<ge> rb_len b then dw_iic_mask_interrupt p base STAT_TX_EMPTY
       else do {
         upd_ictrl cp (\<lambda>c. c\<lparr>dw_iic_rxbuf := (dw_iic_rxbuf c)\<lparr>rb_ofs := rb_ofs b + 1\<rparr>\<rparr>);
         dw_iic_putdata base (IC_DATA_CMD_READ_REQ OR (if rb_ofs b = rb_len b - 1 then last_cond else IC_DATA_CMD_NONE));
         mst_req_loop n p cp base last_cond
       }
     }
   }"

text \<open>The bytes received; the loop leaves when the buffer is full, after \<open>blen - 1 - ofs + 1\<close> rounds at most.\<close>

definition clear_rx :: "u32 \<Rightarrow> u32 \<Rightarrow> ('a, unit) iop" where
  "clear_rx obj cp = do {
     upd_iinfo obj (\<lambda>i. i\<lparr>ii_rx_buf := null_buffer\<rparr>);
     upd_ictrl cp (\<lambda>c. c\<lparr>dw_iic_rxbuf := (dw_iic_rxbuf c)\<lparr>rb_ofs := 0, rb_len := 0\<rparr>\<rparr>)
   }"

primrec mst_rx_loop :: "nat \<Rightarrow> plat \<Rightarrow> 'a iic_callback \<Rightarrow> u32 \<Rightarrow> u32 \<Rightarrow> u32 \<Rightarrow> u32 \<Rightarrow> ('a, unit) iop" where
  "mst_rx_loop 0 p cb obj cp base p_charbuf = State_Monad.return ()"
| "mst_rx_loop (Suc n) p cb obj cp base p_charbuf = do {
     ready \<leftarrow> dw_iic_getready p base;
     if \<not> ready then State_Monad.return ()
     else do {
       i \<leftarrow> get_iinfo obj;
       v \<leftarrow> dw_iic_getdata p base;
       st8 (p_charbuf + ofs (ii_rx_buf i)) (ucast v);
       upd_iinfo obj (\<lambda>i. i\<lparr>ii_rx_buf := (ii_rx_buf i)\<lparr>ofs := ofs (ii_rx_buf i) + 1\<rparr>\<rparr>);
       i \<leftarrow> get_iinfo obj;
       if ofs (ii_rx_buf i) \<ge> blen (ii_rx_buf i) then do {
         dw_iic_dis_cbr p obj DW_IIC_RDY_RCV;
         upd_iinfo obj (\<lambda>i. i\<lparr>ii_cur_state := IIC_FREE\<rparr>);
         i \<leftarrow> get_iinfo obj;
         c_if (ii_rx_cb i \<noteq> 0) (cb (ii_rx_cb i) obj);
         clear_rx obj cp
       } else mst_rx_loop n p cb obj cp base p_charbuf
     }
   }"

definition dw_iic_mst_int_read :: "plat \<Rightarrow> 'a iic_callback \<Rightarrow> u32 \<Rightarrow> ('a, unit) iop" where
  "dw_iic_mst_int_read p cb obj = do {
     i \<leftarrow> get_iinfo obj;
     let cp = iic_ctrl i;
     c \<leftarrow> get_ictrl cp;
     let base = dw_iic_regs c;
     iic_int_status \<leftarrow> mmio_rd p (base + IC_INTR_STAT);
     let b = ii_rx_buf i;
     (if buf b \<noteq> 0 then do {
        c_if (iic_int_status AND STAT_TX_EMPTY \<noteq> 0)
          (mst_req_loop (Suc (unat (rb_len (dw_iic_rxbuf c)) - unat (rb_ofs (dw_iic_rxbuf c)))) p cp base (iic_last_cond i));
        c_if (iic_int_status AND STAT_RX_FULL \<noteq> 0)
          (mst_rx_loop (Suc (unat (blen b - 1 - ofs b))) p cb obj cp base (buf b));
        c_if (iic_int_status AND (STAT_RX_OVER OR STAT_RX_UNDER) \<noteq> 0)
          (upd_ictrl cp (\<lambda>c. c\<lparr>iic_rx_over := iic_rx_over c + 1\<rparr>));
        c_if (iic_int_status AND STAT_TX_ABRT \<noteq> 0) (do {
          err \<leftarrow> dw_iic_mst_chkerr p cp;
          upd_iinfo obj (\<lambda>i. i\<lparr>ii_err_state := err\<rparr>);
          c_if (err \<noteq> IIC_ERR_NONE) (do {
            dw_iic_dis_cbr p obj DW_IIC_RDY_RCV;
            upd_iinfo obj (\<lambda>i. i\<lparr>ii_cur_state := IIC_FREE\<rparr>);
            i \<leftarrow> get_iinfo obj;
            c_if (ii_err_cb i \<noteq> 0) (cb (ii_err_cb i) obj);
            clear_rx obj cp
          })
        })
      } else do {
        dw_iic_dis_cbr p obj DW_IIC_RDY_RCV;
        upd_iinfo obj (\<lambda>i. i\<lparr>ii_cur_state := IIC_FREE\<rparr>)
      });
     mmio_touch p (base + IC_CLR_INTR)
   }"

definition dw_iic_slv_int_process :: "plat \<Rightarrow> 'a iic_callback \<Rightarrow> u32 \<Rightarrow> ('a, unit) iop" where
  "dw_iic_slv_int_process p cb obj = do {
     i \<leftarrow> get_iinfo obj;
     let cp = iic_ctrl i;
     c \<leftarrow> get_ictrl cp;
     let base = dw_iic_regs c;
     iic_int_status \<leftarrow> mmio_rd p (base + IC_INTR_STAT);
     c_if (iic_int_status AND STAT_RD_REQ \<noteq> 0)
       (if ii_tx_cb i \<noteq> 0 then cb (ii_tx_cb i) obj else dw_iic_dis_cbr p obj DW_IIC_RDY_SND);
     i \<leftarrow> get_iinfo obj;
     c_if (iic_int_status AND STAT_RX_FULL \<noteq> 0)
       (if ii_rx_cb i \<noteq> 0 then cb (ii_rx_cb i) obj else dw_iic_dis_cbr p obj DW_IIC_RDY_RCV);
     c_if (iic_int_status AND STAT_TX_OVER \<noteq> 0) (upd_ictrl cp (\<lambda>c. c\<lparr>iic_tx_over := iic_tx_over c + 1\<rparr>));
     c_if (iic_int_status AND (STAT_RX_OVER OR STAT_RX_UNDER) \<noteq> 0)
       (upd_ictrl cp (\<lambda>c. c\<lparr>iic_rx_over := iic_rx_over c + 1\<rparr>));
     c_if (iic_int_status AND STAT_TX_ABRT \<noteq> 0) (do {
       err \<leftarrow> dw_iic_slv_chkerr p cp;
       upd_iinfo obj (\<lambda>i. i\<lparr>ii_err_state := err\<rparr>);
       i \<leftarrow> get_iinfo obj;
       c_if (err \<noteq> IIC_ERR_NONE \<and> ii_err_cb i \<noteq> 0) (cb (ii_err_cb i) obj)
     });
     mmio_touch p (base + IC_CLR_INTR)
   }"

definition dw_iic_isr :: "plat \<Rightarrow> 'a iic_callback \<Rightarrow> u32 \<Rightarrow> ('a, unit) iop" where
  "dw_iic_isr p cb obj = do {
     s \<leftarrow> State_Monad.get;
     c_if (iic_valid s obj) (
       if ii_mode (iinfo s obj) = DEV_MASTER_MODE then
         (if ii_cur_state (iinfo s obj) = IIC_IN_TX then dw_iic_mst_int_write p cb obj
          else dw_iic_mst_int_read p cb obj)
       else dw_iic_slv_int_process p cb obj)
   }"

subsection \<open>Open and close\<close>

definition clear_iic_bufs_cbs :: "dev_iic_info \<Rightarrow> dev_iic_info" where
  "clear_iic_bufs_cbs i = i\<lparr>ii_tx_buf := null_buffer, ii_rx_buf := null_buffer, ii_tx_cb := 0, ii_rx_cb := 0, ii_err_cb := 0\<rparr>"

text \<open>The address fields at the first open.\<close>

definition iic_mask_addrs :: "dev_iic_info \<Rightarrow> dev_iic_info" where
  "iic_mask_addrs i = (
     if ii_addr_mode i = IIC_7BIT_ADDRESS then
       i\<lparr>ii_tar_addr := ii_tar_addr i AND IIC_7BIT_ADDRESS_MASK, ii_slv_addr := ii_slv_addr i AND IIC_7BIT_ADDRESS_MASK\<rparr>
     else
       i\<lparr>ii_addr_mode := IIC_10BIT_ADDRESS, ii_tar_addr := ii_tar_addr i AND IIC_10BIT_ADDRESS_MASK,
         ii_slv_addr := ii_slv_addr i AND IIC_10BIT_ADDRESS_MASK\<rparr>)"

definition iic_set_timing :: "u32 \<Rightarrow> ('a, unit res) iop" where
  "iic_set_timing cp = do {
     c \<leftarrow> get_ictrl cp;
     (case dw_iic_calc_spklen (ic_clkhz c div 1000) of Inl w \<Rightarrow> stopE w
      | Inr spk \<Rightarrow>
          bindE (liftE (upd_ictrl cp (\<lambda>c. c\<lparr>iic_spklen := spk\<rparr>))) (\<lambda>_.
          case dw_iic_calc_sclcnt (ic_clkhz c div 1000) (ic_caploading c) spk of Inl w \<Rightarrow> stopE w
          | Inr cnt \<Rightarrow> liftE (upd_ictrl cp (\<lambda>c. c\<lparr>iic_scl_cnt := cnt\<rparr>))))
   }"

text \<open>
  The part of \<open>dw_iic_open\<close> that runs for the first open: the fields that come first, the FIFO
  lengths, the timing, and the controller with the rest of the fields.
\<close>

definition iic_open_fields :: "plat \<Rightarrow> u32 \<Rightarrow> u32 \<Rightarrow> ('a, u32) iop" where
  "iic_open_fields p obj mode = do {
     upd_iinfo obj (\<lambda>i. iic_mask_addrs (i\<lparr>ii_opn_cnt := ii_opn_cnt i + 1, ii_mode := mode\<rparr>));
     i \<leftarrow> get_iinfo obj;
     let cp = iic_ctrl i;
     c \<leftarrow> get_ictrl cp;
     tx_len \<leftarrow> dw_iic_get_txfifo_len p (dw_iic_regs c);
     upd_ictrl cp (\<lambda>c. c\<lparr>ic_tx_fifo_len := tx_len\<rparr>);
     rx_len \<leftarrow> dw_iic_get_rxfifo_len p (dw_iic_regs c);
     upd_ictrl cp (\<lambda>c. c\<lparr>ic_rx_fifo_len := rx_len\<rparr>);
     State_Monad.return cp
   }"

definition iic_init_device :: "plat \<Rightarrow> u32 \<Rightarrow> u32 \<Rightarrow> u32 \<Rightarrow> u32 \<Rightarrow> ('a, s32) iop" where
  "iic_init_device p obj cp mode param = do {
     dw_iic_disable_device p obj;
     i \<leftarrow> get_iinfo obj;
     (if mode = DEV_MASTER_MODE then do {
        upd_iinfo obj (\<lambda>i. i\<lparr>ii_speed_mode := param\<rparr>);
        dw_iic_master_init cp param (ii_addr_mode i) (ii_tar_addr i)
      } else do {
        upd_iinfo obj (\<lambda>i. i\<lparr>ii_slv_addr := param\<rparr>);
        dw_iic_slave_init cp (ii_addr_mode i) param
      });
     upd_iinfo obj (\<lambda>i. i\<lparr>ii_status := DEV_ENABLED, ii_cur_state := IIC_FREE, ii_err_state := IIC_ERR_NONE,
       ii_next_cond := IIC_MODE_STOP, ii_extra := 0\<rparr>);
     upd_ictrl cp (\<lambda>c. c\<lparr>iic_tx_over := 0, iic_rx_over := 0, ic_int_status := 0,
       dw_iic_rxbuf := \<lparr>rb_buf = obj, rb_ofs = 0, rb_len = 0\<rparr>\<rparr>);
     dw_iic_disable_interrupt p obj;
     c \<leftarrow> get_ictrl cp;
     c_if (ic_intno c \<noteq> DEV_INTNO_INVALID)
       (do { _ \<leftarrow> int_handler_install p (ic_intno c) (dw_iic_int_handler c); State_Monad.return () });
     upd_iinfo obj clear_iic_bufs_cbs;
     State_Monad.return E_OK
   }"

definition iic_first_open :: "plat \<Rightarrow> u32 \<Rightarrow> u32 \<Rightarrow> u32 \<Rightarrow> ('a, s32 res) iop" where
  "iic_first_open p obj mode param =
     bindE (liftE (iic_open_fields p obj mode)) (\<lambda>cp.
     bindE (iic_set_timing cp) (\<lambda>_. liftE (iic_init_device p obj cp mode param)))"

definition dw_iic_open :: "plat \<Rightarrow> u32 \<Rightarrow> u32 \<Rightarrow> u32 \<Rightarrow> ('a, s32 res) iop" where
  "dw_iic_open p obj mode param = do {
     s \<leftarrow> State_Monad.get;
     check_exp (iic_valid s obj) E_OBJ (
     check_exp (mode = DEV_MASTER_MODE \<or> mode = DEV_SLAVE_MODE) E_PAR (
     check_exp (mode = DEV_MASTER_MODE \<longrightarrow> param \<ge> IIC_SPEED_STANDARD \<and> param \<le> IIC_SPEED_ULTRA) E_PAR (
     let i = iinfo s obj; support = ic_support_modes (ictrl s (iic_ctrl i)) in
     check_exp (support AND DW_IIC_MASTER_SUPPORTED \<noteq> 0 \<and> mode = DEV_MASTER_MODE
              \<or> support AND DW_IIC_SLAVE_SUPPORTED \<noteq> 0 \<and> mode = DEV_SLAVE_MODE) E_NOSPT (
     if ii_opn_cnt i > 0 then
       (if mode \<noteq> ii_mode i then retE E_SYS
        else liftE (do {
          upd_iinfo obj (\<lambda>i. i\<lparr>ii_opn_cnt := ii_opn_cnt i + 1\<rparr>);
          State_Monad.return
            (if param \<noteq> (if mode = DEV_MASTER_MODE then ii_speed_mode i else ii_slv_addr i) then E_OPNED else E_OK)
        }))
     else iic_first_open p obj mode param))))
   }"

definition dw_iic_close :: "plat \<Rightarrow> 'a iic_callback \<Rightarrow> u32 \<Rightarrow> ('a, s32 res) iop" where
  "dw_iic_close p cb obj = do {
     s \<leftarrow> State_Monad.get;
     check_exp (iic_valid s obj) E_OBJ (
     check_exp (ii_opn_cnt (iinfo s obj) > 0) E_OK (liftE (do {
       upd_iinfo obj (\<lambda>i. i\<lparr>ii_opn_cnt := ii_opn_cnt i - 1\<rparr>);
       i \<leftarrow> get_iinfo obj;
       if ii_opn_cnt i = 0 then do {
         dw_iic_disable_interrupt p obj;
         dw_iic_abort_tx p cb obj;
         dw_iic_abort_rx p cb obj;
         upd_iinfo obj clear_iic_bufs_cbs;
         dw_iic_disable_device p obj;
         upd_iinfo obj (\<lambda>i. i\<lparr>ii_status := 0, ii_next_cond := IIC_MODE_STOP, ii_extra := 0\<rparr>);
         State_Monad.return E_OK
       } else State_Monad.return E_OPNED
     })))
   }"

subsection \<open>Control\<close>

abbreviation (input) IIC_CMD_GET_STATUS :: u32 where "IIC_CMD_GET_STATUS \<equiv> 0"
abbreviation (input) IIC_CMD_SET_ADDR_MODE :: u32 where "IIC_CMD_SET_ADDR_MODE \<equiv> 1"
abbreviation (input) IIC_CMD_SET_TXCB :: u32 where "IIC_CMD_SET_TXCB \<equiv> 2"
abbreviation (input) IIC_CMD_SET_RXCB :: u32 where "IIC_CMD_SET_RXCB \<equiv> 3"
abbreviation (input) IIC_CMD_SET_ERRCB :: u32 where "IIC_CMD_SET_ERRCB \<equiv> 4"
abbreviation (input) IIC_CMD_SET_TXINT_BUF :: u32 where "IIC_CMD_SET_TXINT_BUF \<equiv> 5"
abbreviation (input) IIC_CMD_SET_RXINT_BUF :: u32 where "IIC_CMD_SET_RXINT_BUF \<equiv> 6"
abbreviation (input) IIC_CMD_SET_TXINT :: u32 where "IIC_CMD_SET_TXINT \<equiv> 7"
abbreviation (input) IIC_CMD_SET_RXINT :: u32 where "IIC_CMD_SET_RXINT \<equiv> 8"
abbreviation (input) IIC_CMD_ABORT_TX :: u32 where "IIC_CMD_ABORT_TX \<equiv> 9"
abbreviation (input) IIC_CMD_ABORT_RX :: u32 where "IIC_CMD_ABORT_RX \<equiv> 10"
abbreviation (input) IIC_CMD_RESET :: u32 where "IIC_CMD_RESET \<equiv> 11"
abbreviation (input) IIC_CMD_FLUSH_TX :: u32 where "IIC_CMD_FLUSH_TX \<equiv> 12"
abbreviation (input) IIC_CMD_FLUSH_RX :: u32 where "IIC_CMD_FLUSH_RX \<equiv> 13"
abbreviation (input) IIC_CMD_ENA_DEV :: u32 where "IIC_CMD_ENA_DEV \<equiv> 14"
abbreviation (input) IIC_CMD_DIS_DEV :: u32 where "IIC_CMD_DIS_DEV \<equiv> 15"
abbreviation (input) IIC_CMD_GET_TXAVAIL :: u32 where "IIC_CMD_GET_TXAVAIL \<equiv> 16"
abbreviation (input) IIC_CMD_GET_RXAVAIL :: u32 where "IIC_CMD_GET_RXAVAIL \<equiv> 17"
abbreviation (input) IIC_CMD_MST_SET_SPEED_MODE :: u32 where "IIC_CMD_MST_SET_SPEED_MODE \<equiv> 0x4000"
abbreviation (input) IIC_CMD_MST_SET_NEXT_COND :: u32 where "IIC_CMD_MST_SET_NEXT_COND \<equiv> 0x4001"
abbreviation (input) IIC_CMD_MST_SET_TAR_ADDR :: u32 where "IIC_CMD_MST_SET_TAR_ADDR \<equiv> 0x4002"
abbreviation (input) IIC_CMD_SLV_SET_SLV_ADDR :: u32 where "IIC_CMD_SLV_SET_SLV_ADDR \<equiv> 0x8000"
abbreviation (input) IIC_CMD_SLV_GET_SLV_STATE :: u32 where "IIC_CMD_SLV_GET_SLV_STATE \<equiv> 0x8001"

text \<open>A command that answers \<open>E_OK\<close>.\<close>

definition iic_ok :: "('s, unit) state \<Rightarrow> ('s, s32 res) state" where
  "iic_ok m = liftE (do { m; State_Monad.return E_OK })"

lemma run_iic_ok [simp]: "run_state (iic_ok m) s = (Inr E_OK, snd (run_state m s))"
  by (simp add: iic_ok_def split: prod.split)

lemma wp_iic_ok [wp_rules]: "wp (iic_ok m) Q s = wp m (\<lambda>_. Q (Inr E_OK)) s"
  by (simp add: wp_def)

definition iic_addr_param :: "dev_iic_info \<Rightarrow> u32 \<Rightarrow> u32" where
  "iic_addr_param i param =
     (if ii_addr_mode i = IIC_7BIT_ADDRESS then param AND IIC_7BIT_ADDRESS_MASK else param AND IIC_10BIT_ADDRESS_MASK)"

text \<open>\<open>IIC_CMD_SET_TXINT_BUF\<close> and \<open>IIC_CMD_SET_RXINT_BUF\<close>.\<close>

definition iic_set_tx_buf :: "u32 \<Rightarrow> u32 \<Rightarrow> ('a, unit) iop" where
  "iic_set_tx_buf obj param = do {
     s \<leftarrow> State_Monad.get;
     upd_iinfo obj (\<lambda>i. i\<lparr>ii_tx_buf := (if param \<noteq> 0 then (load_buffer (mem s) param)\<lparr>ofs := 0\<rparr> else null_buffer)\<rparr>)
   }"

definition iic_set_rx_buf :: "u32 \<Rightarrow> u32 \<Rightarrow> ('a, unit) iop" where
  "iic_set_rx_buf obj param = do {
     s \<leftarrow> State_Monad.get;
     let b = (if param \<noteq> 0 then (load_buffer (mem s) param)\<lparr>ofs := 0\<rparr> else null_buffer);
     upd_iinfo obj (\<lambda>i. i\<lparr>ii_rx_buf := b\<rparr>);
     upd_ictrl (iic_ctrl (iinfo s obj)) (\<lambda>c. c\<lparr>dw_iic_rxbuf := (dw_iic_rxbuf c)\<lparr>rb_ofs := 0, rb_len := blen b\<rparr>\<rparr>)
   }"

text \<open>The end of an abort by command: a master in that transfer becomes free.\<close>

definition iic_abort_done :: "u32 \<Rightarrow> u32 \<Rightarrow> ('a, unit) iop" where
  "iic_abort_done obj st = do {
     i \<leftarrow> get_iinfo obj;
     c_if (ii_mode i = DEV_MASTER_MODE \<and> ii_cur_state i = st) (upd_iinfo obj (\<lambda>i. i\<lparr>ii_cur_state := IIC_FREE\<rparr>))
   }"

text \<open>The \<open>switch\<close> of \<open>dw_iic_control\<close>.\<close>

definition iic_command :: "plat \<Rightarrow> 'a iic_callback \<Rightarrow> u32 \<Rightarrow> u32 \<Rightarrow> u32 \<Rightarrow> ('a, s32 res) iop" where
  "iic_command p cb obj ctrl_cmd param = do {
     i \<leftarrow> get_iinfo obj;
     let cp = iic_ctrl i;
     c \<leftarrow> get_ictrl cp;
     let base = dw_iic_regs c;
     let master = (ii_mode i = DEV_MASTER_MODE);
     if ctrl_cmd = IIC_CMD_GET_STATUS then
       check_exp (param \<noteq> 0 \<and> aligned4 param) E_PAR (iic_ok (st32 param (ii_status i)))
     else if ctrl_cmd = IIC_CMD_ENA_DEV then iic_ok (dw_iic_enable_device obj)
     else if ctrl_cmd = IIC_CMD_DIS_DEV then iic_ok (dw_iic_disable_device p obj)
     else if ctrl_cmd = IIC_CMD_RESET then iic_ok (dw_iic_reset_device p obj)
     else if ctrl_cmd = IIC_CMD_FLUSH_TX then iic_ok (dw_iic_flush_tx p base)
     else if ctrl_cmd = IIC_CMD_FLUSH_RX then iic_ok (dw_iic_flush_rx base)
     else if ctrl_cmd = IIC_CMD_SET_ADDR_MODE then
       check_exp (param = IIC_7BIT_ADDRESS \<or> param = IIC_10BIT_ADDRESS) E_PAR (iic_ok (do {
         (if master then dw_iic_set_mstaddr_mode p base param else dw_iic_set_slvaddr_mode p base param);
         upd_iinfo obj (\<lambda>i. i\<lparr>ii_addr_mode := param\<rparr>)
       }))
     else if ctrl_cmd = IIC_CMD_GET_RXAVAIL then
       check_exp (param \<noteq> 0 \<and> aligned4 param) E_PAR (iic_ok (do { v \<leftarrow> dw_iic_get_rxavail p cp; st32 param v }))
     else if ctrl_cmd = IIC_CMD_GET_TXAVAIL then
       check_exp (param \<noteq> 0 \<and> aligned4 param) E_PAR (iic_ok (do { v \<leftarrow> dw_iic_get_txavail p cp; st32 param v }))
     else if ctrl_cmd = IIC_CMD_SET_TXCB then
       check_exp (aligned4 param) E_PAR (iic_ok (upd_iinfo obj (\<lambda>i. i\<lparr>ii_tx_cb := param\<rparr>)))
     else if ctrl_cmd = IIC_CMD_SET_RXCB then
       check_exp (aligned4 param) E_PAR (iic_ok (upd_iinfo obj (\<lambda>i. i\<lparr>ii_rx_cb := param\<rparr>)))
     else if ctrl_cmd = IIC_CMD_SET_ERRCB then
       check_exp (aligned4 param) E_PAR (iic_ok (upd_iinfo obj (\<lambda>i. i\<lparr>ii_err_cb := param\<rparr>)))
     else if ctrl_cmd = IIC_CMD_ABORT_TX then
       iic_ok (do { dw_iic_abort_tx p cb obj; iic_abort_done obj IIC_IN_TX })
     else if ctrl_cmd = IIC_CMD_ABORT_RX then
       iic_ok (do { dw_iic_abort_rx p cb obj; iic_abort_done obj IIC_IN_RX })
     else if ctrl_cmd = IIC_CMD_SET_TXINT then
       check_exp (master \<longrightarrow> ii_cur_state i \<noteq> IIC_IN_RX) E_CTX (iic_ok (
         if param = 0 then do {
           dw_iic_dis_cbr p obj DW_IIC_RDY_SND;
           upd_iinfo obj (\<lambda>i. i\<lparr>ii_cur_state := IIC_FREE\<rparr>)
         } else do {
           upd_iinfo obj (\<lambda>i. i\<lparr>ii_cur_state := IIC_IN_TX\<rparr>);
           dw_iic_ena_cbr p obj DW_IIC_RDY_SND
         }))
     else if ctrl_cmd = IIC_CMD_SET_RXINT then
       check_exp (master \<longrightarrow> ii_cur_state i \<noteq> IIC_IN_TX) E_CTX (iic_ok (
         if param = 0 then do {
           upd_iinfo obj (\<lambda>i. i\<lparr>ii_cur_state := IIC_FREE\<rparr>);
           dw_iic_dis_cbr p obj DW_IIC_RDY_RCV
         } else do {
           upd_iinfo obj (\<lambda>i. i\<lparr>ii_cur_state := IIC_IN_RX\<rparr>);
           dw_iic_ena_cbr p obj DW_IIC_RDY_RCV
         }))
     else if ctrl_cmd = IIC_CMD_SET_TXINT_BUF then
       check_exp (master \<longrightarrow> ii_cur_state i \<noteq> IIC_IN_TX) E_CTX (
       check_exp (aligned4 param) E_PAR (iic_ok (iic_set_tx_buf obj param)))
     else if ctrl_cmd = IIC_CMD_SET_RXINT_BUF then
       check_exp (master \<longrightarrow> ii_cur_state i \<noteq> IIC_IN_RX) E_CTX (
       check_exp (aligned4 param) E_PAR (iic_ok (iic_set_rx_buf obj param)))
     else if ctrl_cmd = IIC_CMD_MST_SET_SPEED_MODE then
       check_exp master E_NOSPT (
       check_exp (param \<ge> IIC_SPEED_STANDARD \<and> param \<le> IIC_SPEED_ULTRA) E_PAR (iic_ok (do {
         dw_iic_set_speedmode p base param;
         upd_iinfo obj (\<lambda>i. i\<lparr>ii_speed_mode := param\<rparr>)
       })))
     else if ctrl_cmd = IIC_CMD_MST_SET_TAR_ADDR then
       check_exp master E_NOSPT (iic_ok (
         let val32 = iic_addr_param i param in
         c_if (val32 \<noteq> ii_tar_addr i) (do {
           dw_iic_set_taraddr p base val32;
           upd_iinfo obj (\<lambda>i. i\<lparr>ii_tar_addr := val32\<rparr>)
         })))
     else if ctrl_cmd = IIC_CMD_MST_SET_NEXT_COND then
       check_exp master E_NOSPT (
       check_exp (param = IIC_MODE_STOP \<or> param = IIC_MODE_RESTART) E_PAR
         (iic_ok (upd_iinfo obj (\<lambda>i. i\<lparr>ii_next_cond := param\<rparr>))))
     else if ctrl_cmd = IIC_CMD_SLV_SET_SLV_ADDR then
       check_exp (ii_mode i = DEV_SLAVE_MODE) E_NOSPT (iic_ok (
         let val32 = iic_addr_param i param in do {
           dw_iic_set_slvaddr p base val32;
           upd_iinfo obj (\<lambda>i. i\<lparr>ii_slv_addr := val32\<rparr>)
         }))
     else if ctrl_cmd = IIC_CMD_SLV_GET_SLV_STATE then
       check_exp (ii_mode i = DEV_SLAVE_MODE) E_NOSPT (
       check_exp (param \<noteq> 0 \<and> aligned4 param) E_PAR
         (iic_ok (do { v \<leftarrow> dw_iic_get_slv_state p base; st32 param v })))
     else retE E_NOSPT
   }"

definition dw_iic_control :: "plat \<Rightarrow> 'a iic_callback \<Rightarrow> u32 \<Rightarrow> u32 \<Rightarrow> u32 \<Rightarrow> ('a, s32 res) iop" where
  "dw_iic_control p cb obj ctrl_cmd param = do {
     s \<leftarrow> State_Monad.get;
     check_exp (iic_valid s obj) E_OBJ (
     check_exp (ii_opn_cnt (iinfo s obj) > 0) E_CLSED (
       if ii_status (iinfo s obj) AND DEV_ENABLED = 0 \<and> ctrl_cmd \<noteq> IIC_CMD_ENA_DEV
          \<and> ctrl_cmd \<noteq> IIC_CMD_DIS_DEV \<and> ctrl_cmd \<noteq> IIC_CMD_GET_STATUS \<and> ctrl_cmd \<noteq> IIC_CMD_RESET
       then retE E_SYS
       else iic_command p cb obj ctrl_cmd param))
   }"

subsection \<open>Blocking write and read\<close>

text \<open>The increment of the \<open>int32_t\<close> counter of both calls, whose overflow is undefined.\<close>

definition inc32 :: "s32 \<Rightarrow> s32 res" where
  "inc32 i = (if i = 0x7FFFFFFF then Inl Undef else Inr (i + 1))"

text \<open>
  The loops over the bytes that one call \<open>xfer\<close> moves, with \<open>n\<close> bytes to go; the value is the error
  and the count. \<open>xfer\<close> gets the count, and for reading it stores the byte.
\<close>

primrec iic_byte_loop :: "nat \<Rightarrow> (s32 \<Rightarrow> ('a, s32 res) iop) \<Rightarrow> s32 \<Rightarrow> ('a, (s32 \<times> s32) res) iop" where
  "iic_byte_loop 0 xfer i = retE (IIC_ERR_NONE, i)"
| "iic_byte_loop (Suc n) xfer i =
     bindE (xfer i) (\<lambda>error_state.
     if error_state \<noteq> IIC_ERR_NONE then retE (error_state, i)
     else case inc32 i of Inl w \<Rightarrow> stopE w | Inr j \<Rightarrow> iic_byte_loop n xfer j)"

text \<open>All but the last byte with \<open>xfer\<close>, and the last one with \<open>xfer_last\<close>.\<close>

definition iic_master_bytes ::
  "u32 \<Rightarrow> (s32 \<Rightarrow> ('a, s32 res) iop) \<Rightarrow> (s32 \<Rightarrow> ('a, s32 res) iop) \<Rightarrow> ('a, (s32 \<times> s32) res) iop" where
  "iic_master_bytes len xfer xfer_last =
     bindE (iic_byte_loop (unat (len - 1)) xfer 0) (\<lambda>(error_state, i).
     if error_state \<noteq> IIC_ERR_NONE then retE (error_state, i)
     else bindE (xfer_last (len - 1)) (\<lambda>error_state.
     if error_state \<noteq> IIC_ERR_NONE then retE (error_state, i)
     else case inc32 i of Inl w \<Rightarrow> stopE w | Inr j \<Rightarrow> retE (error_state, j)))"

text \<open>The checks both calls make first, and what they do last.\<close>

definition iic_blocking :: "u32 \<Rightarrow> u32 \<Rightarrow> u32 \<Rightarrow> ('a, (s32 \<times> s32) res) iop \<Rightarrow> ('a, s32 res) iop" where
  "iic_blocking obj data len body = do {
     s \<leftarrow> State_Monad.get;
     check_exp (iic_valid s obj) E_OBJ (
     check_exp (ii_opn_cnt (iinfo s obj) > 0) E_CLSED (
     check_exp (ii_status (iinfo s obj) AND DEV_ENABLED \<noteq> 0) E_SYS (
     check_exp (data \<noteq> 0) E_PAR (
     check_exp (len > 0) E_PAR (
       bindE body (\<lambda>(error_state, i). liftE (do {
         upd_iinfo obj (\<lambda>i. i\<lparr>ii_err_state := error_state\<rparr>);
         State_Monad.return i
       })))))))
   }"

definition dw_iic_write :: "plat \<Rightarrow> u32 \<Rightarrow> u32 \<Rightarrow> u32 \<Rightarrow> ('a, s32 res) iop" where
  "dw_iic_write p obj data len = iic_blocking obj data len (do {
     inf \<leftarrow> get_iinfo obj;
     let cp = iic_ctrl inf;
     if ii_mode inf = DEV_MASTER_MODE then
       iic_master_bytes len
         (\<lambda>i. do { v \<leftarrow> ld8 (data + i); dw_iic_mst_write_data p cp (ucast v) IC_DATA_CMD_NONE })
         (\<lambda>i. do { v \<leftarrow> ld8 (data + i); dw_iic_mst_write_data p cp (ucast v) (iic_last_cond inf) })
     else
       iic_byte_loop (unat len) (\<lambda>i. do { v \<leftarrow> ld8 (data + i); liftE (dw_iic_slv_write_data p cp (ucast v)) }) 0
   })"

text \<open>A received byte is stored when there was no error.\<close>

definition iic_store_byte :: "u32 \<Rightarrow> s32 \<times> u32 \<Rightarrow> ('a, s32) iop" where
  "iic_store_byte a = (\<lambda>(error_state, val32). do {
     c_if (error_state = IIC_ERR_NONE) (st8 a (ucast val32));
     State_Monad.return error_state
   })"

definition dw_iic_read :: "plat \<Rightarrow> u32 \<Rightarrow> u32 \<Rightarrow> u32 \<Rightarrow> ('a, s32 res) iop" where
  "dw_iic_read p obj data len = iic_blocking obj data len (do {
     inf \<leftarrow> get_iinfo obj;
     let cp = iic_ctrl inf;
     if ii_mode inf = DEV_MASTER_MODE then
       iic_master_bytes len
         (\<lambda>i. bindE (dw_iic_mst_read_data p cp IC_DATA_CMD_NONE) (\<lambda>r. liftE (iic_store_byte (data + i) r)))
         (\<lambda>i. bindE (dw_iic_mst_read_data p cp (iic_last_cond inf)) (\<lambda>r. liftE (iic_store_byte (data + i) r)))
     else
       iic_byte_loop (unat len) (\<lambda>i. do { r \<leftarrow> dw_iic_slv_read_data p cp; liftE (iic_store_byte (data + i) r) }) 0
   })"

end
