(* ===== verification/IicSpec.thy ===== *)
theory IicSpec
  imports DwIic
begin

section \<open>What the IIC driver promises\<close>

text \<open>
  Blocking transfers against arbitrary hardware: whatever the controller answers, a write sends a
  prefix of the frames of its buffer, a read stores a prefix, and the count returned and the error
  recorded say which. The byte-level operations are described by what they add to the stores
  and to the loads of the data register.
\<close>

subsection \<open>What a piece of the transfer does\<close>

text \<open>The state without the history and the overrun counters of a controller.\<close>

definition iic_blur :: "u32 \<Rightarrow> 'a iic_mach_scheme \<Rightarrow> 'a iic_mach_scheme" where
  "iic_blur cp s = s\<lparr>hist := [], ictrl := (ictrl s)(cp := (ictrl s cp)\<lparr>iic_tx_over := 0, iic_rx_over := 0\<rparr>)\<rparr>"

definition iic_io :: "u32 \<Rightarrow> (u32 \<times> u32) list \<Rightarrow> u32 list \<Rightarrow> 'a iic_mach_scheme \<Rightarrow> 'a iic_mach_scheme \<Rightarrow> bool" where
  "iic_io cp st rd s t \<longleftrightarrow> (let D = dw_iic_regs (ictrl s cp) + IC_DATA_CMD in
     iic_blur cp t = iic_blur cp s \<and> mmio_stores (hist t) = mmio_stores (hist s) @ st
     \<and> reads_of D (hist t) = reads_of D (hist s) @ rd)"

lemma iic_blur_ctrl:
  assumes "iic_blur cp t = iic_blur cp s"
  shows "dw_iic_regs (ictrl t cp) = dw_iic_regs (ictrl s cp)" "retry_cnt (ictrl t cp) = retry_cnt (ictrl s cp)"
    and "iinfo t = iinfo s" "mem t = mem s"
proof -
  have "dw_iic_regs (ictrl (iic_blur cp t) cp) = dw_iic_regs (ictrl (iic_blur cp s) cp)"
    "retry_cnt (ictrl (iic_blur cp t) cp) = retry_cnt (ictrl (iic_blur cp s) cp)"
    "iinfo (iic_blur cp t) = iinfo (iic_blur cp s)" "mem (iic_blur cp t) = mem (iic_blur cp s)" by (simp_all only: assms)
  then show "dw_iic_regs (ictrl t cp) = dw_iic_regs (ictrl s cp)" "retry_cnt (ictrl t cp) = retry_cnt (ictrl s cp)"
    "iinfo t = iinfo s" "mem t = mem s" by (simp_all add: iic_blur_def)
qed

lemma iic_io_refl [simp]: "iic_io cp [] [] s s"
  by (simp add: iic_io_def)

lemma iic_io_trans: "iic_io cp st rd s t \<Longrightarrow> iic_io cp st' rd' t u \<Longrightarrow> iic_io cp (st @ st') (rd @ rd') s u"
  using iic_blur_ctrl(1) [of cp t s] by (simp add: iic_io_def Let_def)

lemma iic_io_keeps: "iic_io cp st rd s t \<Longrightarrow> dw_iic_regs (ictrl t cp) = dw_iic_regs (ictrl s cp)
    \<and> retry_cnt (ictrl t cp) = retry_cnt (ictrl s cp) \<and> iinfo t = iinfo s \<and> mem t = mem s"
  using iic_blur_ctrl [of cp t s] by (simp add: iic_io_def Let_def)

text \<open>A program that neither sends nor receives anything.\<close>

definition quiet :: "u32 \<Rightarrow> u32 \<Rightarrow> ('a, 'r) iop \<Rightarrow> bool" where
  "quiet cp base m \<longleftrightarrow> (\<forall>s. dw_iic_regs (ictrl s cp) = base \<longrightarrow> iic_io cp [] [] s (snd (run_state m s)))"

lemma quietD: "quiet cp base m \<Longrightarrow> dw_iic_regs (ictrl s cp) = base \<Longrightarrow> run_state m s = (x, t) \<Longrightarrow> iic_io cp [] [] s t"
  unfolding quiet_def by (metis snd_conv)

lemma quiet_bind [intro!]:
  fixes m :: "('a, 'r) iop"
  assumes "quiet cp base m" "\<And>x. quiet cp base (f x)"
  shows "quiet cp base (State_Monad.bind m f)"
  unfolding quiet_def
proof (intro allI impI)
  fix s :: "'a iic_mach_scheme" assume s: "dw_iic_regs (ictrl s cp) = base"
  obtain x t where t: "run_state m s = (x, t)" by (cases "run_state m s")
  note st = quietD [OF assms(1) s t]
  have "iic_io cp [] [] t (snd (run_state (f x) t))" using assms(2) iic_io_keeps [OF st] s unfolding quiet_def by metis
  then show "iic_io cp [] [] s (snd (run_state (State_Monad.bind m f) s))" using iic_io_trans [OF st] t by fastforce
qed

lemma quiet_prims [intro!]:
  "quiet cp base (State_Monad.return x)" "quiet cp base (retE y)" "quiet cp base (stopE w)" "quiet cp base (get_ictrl c)"
  "quiet cp base (get_iinfo obj)" "a \<noteq> base + IC_DATA_CMD \<Longrightarrow> quiet cp base (mmio_rd p a)"
  "a \<noteq> base + IC_DATA_CMD \<Longrightarrow> quiet cp base (mmio_touch p a)"
  by (auto simp: quiet_def iic_io_def iic_blur_def Let_def)

lemma quiet_if [intro!]: "(b \<Longrightarrow> quiet cp base m) \<Longrightarrow> (\<not> b \<Longrightarrow> quiet cp base n) \<Longrightarrow> quiet cp base (if b then m else n)"
  by simp

lemma quiet_c_if [intro!]: "(b \<Longrightarrow> quiet cp base m) \<Longrightarrow> quiet cp base (c_if b m)"
  by (auto simp: c_if_def)

lemma quiet_overruns [intro!]: "quiet cp base (iic_count_overruns p cp base status)"
  by (auto simp: quiet_def iic_io_def iic_blur_def iic_count_overruns_def Let_def split_def)

lemma quiet_chkerr [intro!]: "quiet cp base (dw_iic_mst_chkerr p cp)" "quiet cp base (dw_iic_slv_chkerr p cp)"
  by (auto simp: quiet_def iic_io_def iic_blur_def dw_iic_mst_chkerr_def dw_iic_slv_chkerr_def iic_count_overruns_def Let_def split_def)

lemma quiet_ready [intro!]: "quiet cp base (dw_iic_putready p base)" "quiet cp base (dw_iic_getready p base)"
  unfolding dw_iic_putready_def dw_iic_getready_def by auto

lemma quiet_waits [intro!]:
  "quiet cp base ready \<Longrightarrow> quiet cp base (iic_mst_wait n p cp ready)"
  "quiet cp base (iic_slv_tx_wait n p cp base)" "quiet cp base (iic_slv_rx_wait n p cp base)"
  by (induction n) auto

text \<open>A wait of a master returns.\<close>

lemma mst_wait_returns:
  assumes "quiet cp base ready"
  shows "dw_iic_regs (ictrl s cp) = base \<Longrightarrow> retry_cnt (ictrl s cp) \<noteq> 0xFFFFFFFF
    \<Longrightarrow> \<exists>e t. run_state (iic_mst_wait n p cp ready) s = (Inr e, t) \<and> iic_io cp [] [] s t"
proof (induction n arbitrary: s)
  case 0
  obtain b t where b: "run_state ready s = (b, t)" by fastforce
  then have "iic_io cp [] [] s t" using quietD [OF assms 0(1)] by simp
  then show ?case using b 0 iic_io_keeps [of cp "[]" "[]" s t] by simp
next
  case (Suc n)
  obtain b t where b: "run_state ready s = (b, t)" by fastforce
  then have t: "iic_io cp [] [] s t" using quietD [OF assms Suc.prems(1)] by simp
  obtain e u where e: "run_state (dw_iic_mst_chkerr p cp) t = (e, u)" by fastforce
  have tb: "dw_iic_regs (ictrl t cp) = base" using iic_io_keeps [OF t] Suc.prems by simp
  have u: "iic_io cp [] [] s u" using quietD [OF quiet_chkerr(1) tb e] iic_io_trans [OF t, of "[]" "[]" u] by simp
  show ?case using b e t u Suc.IH [of u] Suc.prems iic_io_keeps [OF u] iic_io_trans [OF u, of "[]" "[]"] by fastforce
qed

lemma put_io:
  "base = dw_iic_regs (ictrl s cp) \<Longrightarrow> iic_io cp [(base + IC_DATA_CMD, v)] [] s (snd (run_state (dw_iic_putdata base v) s))"
  by (simp add: iic_io_def iic_blur_def dw_iic_putdata_def)

lemma get_io:
  "base = dw_iic_regs (ictrl s cp) \<Longrightarrow> \<exists>w t. run_state (dw_iic_getdata p base) s = (w AND 0xff, t) \<and> iic_io cp [] [w] s t"
  by (simp add: iic_io_def iic_blur_def dw_iic_getdata_def)

lemma mst_write_data_io:
  assumes "base = dw_iic_regs (ictrl s cp)" "retry_cnt (ictrl s cp) \<noteq> 0xFFFFFFFF"
  shows "\<exists>e t. run_state (dw_iic_mst_write_data p cp v cond) s = (Inr e, t)
    \<and> iic_io cp (if e = IIC_ERR_NONE then [(base + IC_DATA_CMD, v OR cond)] else []) [] s t"
proof -
  obtain e t where t: "run_state (iic_mst_wait (unat (retry_cnt (ictrl s cp)) + 1) p cp (dw_iic_putready p base)) s = (Inr e, t)"
    "iic_io cp [] [] s t"
    using mst_wait_returns [OF quiet_ready(1), of s cp base] assms by metis
  show ?thesis
    using t assms(1) iic_io_keeps [OF t(2)] put_io [of base t cp "v OR cond"] iic_io_trans [OF t(2)]
    by (auto simp: dw_iic_mst_write_data_def Let_def split_def simp del: iic_mst_wait.simps)
qed

lemma mst_read_data_io:
  assumes "base = dw_iic_regs (ictrl s cp)" "retry_cnt (ictrl s cp) \<noteq> 0xFFFFFFFF"
  shows "\<exists>e w t. run_state (dw_iic_mst_read_data p cp cond) s = (Inr (e, w AND 0xff), t)
    \<and> (if e = IIC_ERR_NONE then iic_io cp [(base + IC_DATA_CMD, cond OR IC_DATA_CMD_READ_REQ)] [w] s t
       else \<exists>st \<in> {[], [(base + IC_DATA_CMD, cond OR IC_DATA_CMD_READ_REQ)]}. iic_io cp st [] s t)"
proof -
  let ?n = "unat (retry_cnt (ictrl s cp)) + 1" and ?v = "cond OR IC_DATA_CMD_READ_REQ"
  obtain e t where t: "run_state (iic_mst_wait ?n p cp (dw_iic_putready p base)) s = (Inr e, t)" "iic_io cp [] [] s t"
    using mst_wait_returns [OF quiet_ready(1), of s cp base] assms by metis
  show ?thesis
  proof (cases "e = IIC_ERR_NONE")
    case False
    then have "run_state (dw_iic_mst_read_data p cp cond) s = (Inr (e, 0 AND 0xff), t)"
      using t(1) assms(1) [symmetric] by (simp add: dw_iic_mst_read_data_def Let_def del: iic_mst_wait.simps)
    then show ?thesis using t(2) False by (intro exI [of _ e] exI [of _ 0] exI [of _ t]) auto
  next
    case True
    obtain t' where t': "run_state (dw_iic_putdata base ?v) t = ((), t')" by (cases "run_state (dw_iic_putdata base ?v) t") simp
    then have s': "iic_io cp [(base + IC_DATA_CMD, ?v)] [] s t'"
      using put_io [of base t cp ?v] iic_io_trans [OF t(2)] assms(1) iic_io_keeps [OF t(2)] by fastforce
    obtain e' u where u: "run_state (iic_mst_wait ?n p cp (dw_iic_getready p base)) t' = (Inr e', u)" "iic_io cp [] [] t' u"
      using mst_wait_returns [OF quiet_ready(2), of t' cp base] assms iic_io_keeps [OF s'] by metis
    then have s'': "iic_io cp [(base + IC_DATA_CMD, ?v)] [] s u" using iic_io_trans [OF s' u(2)] by simp
    obtain w x where x: "run_state (dw_iic_getdata p base) u = (w AND 0xff, x)" "iic_io cp [] [w] u x"
      using get_io [of base u cp p] assms(1) iic_io_keeps [OF s''] by auto
    then have "iic_io cp [(base + IC_DATA_CMD, ?v)] [w] s x" using iic_io_trans [OF s'' x(2)] by simp
    then show ?thesis
    proof (cases "e' = IIC_ERR_NONE")
      case False
      have "run_state (dw_iic_mst_read_data p cp cond) s = (Inr (e', 0 AND 0xff), u)"
        using t(1) t' u(1) True False assms(1) [symmetric] by (simp add: dw_iic_mst_read_data_def Let_def del: iic_mst_wait.simps)
      then show ?thesis using False s'' by (intro exI [of _ e'] exI [of _ 0] exI [of _ u]) auto
    next
      case True2: True
      have "run_state (dw_iic_mst_read_data p cp cond) s = (Inr (e', w AND 0xff), x)"
        using t(1) t' u(1) x(1) True True2 assms(1) [symmetric] by (simp add: dw_iic_mst_read_data_def Let_def del: iic_mst_wait.simps)
      then show ?thesis using True2 \<open>iic_io cp [(base + IC_DATA_CMD, ?v)] [w] s x\<close>
        by (intro exI [of _ e'] exI [of _ w] exI [of _ x]) auto
    qed
  qed
qed

lemma slv_write_data_io:
  assumes "base = dw_iic_regs (ictrl s cp)"
  shows "\<exists>e t. run_state (dw_iic_slv_write_data p cp v) s = (e, t)
    \<and> iic_io cp (if e = IIC_ERR_NONE then [(base + IC_DATA_CMD, v)] else []) [] s t"
proof -
  obtain e t where t: "run_state (iic_slv_tx_wait (unat (retry_cnt (ictrl s cp))) p cp base) s = (e, t)" by fastforce
  note st = quietD [OF quiet_waits(2) assms [symmetric] t]
  show ?thesis using t assms [symmetric] st iic_io_keeps [OF st] put_io [of base t cp v] iic_io_trans [OF st]
    by (auto simp: dw_iic_slv_write_data_def Let_def split_def)
qed

lemma slv_read_data_io:
  assumes "base = dw_iic_regs (ictrl s cp)"
  shows "\<exists>e w t. run_state (dw_iic_slv_read_data p cp) s = ((e, w AND 0xff), t)
    \<and> iic_io cp [] (if e = IIC_ERR_NONE then [w] else []) s t"
proof -
  obtain e t where t: "run_state (iic_slv_rx_wait (unat (retry_cnt (ictrl s cp))) p cp base) s = (e, t)" by fastforce
  note st = quietD [OF quiet_waits(3) assms [symmetric] t]
  obtain w x where x: "run_state (dw_iic_getdata p base) t = (w AND 0xff, x)" "iic_io cp [] [w] t x"
    using get_io [of base t cp p] assms iic_io_keeps [OF st] by auto
  show ?thesis
  proof (cases "e = IIC_ERR_NONE")
    case True
    then have "run_state (dw_iic_slv_read_data p cp) s = ((e, w AND 0xff), x)"
      using t x(1) assms [symmetric] by (simp add: dw_iic_slv_read_data_def Let_def)
    then show ?thesis using iic_io_trans [OF st x(2)] True by auto
  next
    case False
    then have "run_state (dw_iic_slv_read_data p cp) s = ((e, 0 AND 0xff), t)"
      using t assms [symmetric] by (simp add: dw_iic_slv_read_data_def Let_def)
    then show ?thesis using st False by (intro exI [of _ e] exI [of _ 0] exI [of _ t]) auto
  qed
qed

subsection \<open>The byte loops\<close>

lemma inc32_nat: "Suc k < 2 ^ 31 \<Longrightarrow> inc32 (of_nat k) = Inr (of_nat (Suc k))"
proof -
  assume k: "Suc k < 2 ^ 31"
  have "(of_nat k :: s32) \<noteq> 0x7FFFFFFF"
  proof
    assume "(of_nat k :: s32) = 0x7FFFFFFF"
    then have "unat (of_nat k :: s32) = unat (0x7FFFFFFF :: s32)" by simp
    with k show False by (simp add: unat_of_nat)
  qed
  then show ?thesis by (simp add: inc32_def)
qed

lemma byte_loop_rule:
  assumes step: "\<And>k s. P k s \<Longrightarrow> k < N \<Longrightarrow> \<exists>e t. run_state (xfer (of_nat k)) s = (Inr e, t)
      \<and> (if e = IIC_ERR_NONE then P (Suc k) t else Q k t)" and N: "N < 2 ^ 31"
  shows "P k s \<Longrightarrow> k + n = N \<Longrightarrow> \<exists>e k' t. run_state (iic_byte_loop n xfer (of_nat k)) s = (Inr (e, of_nat k'), t)
      \<and> (if e = IIC_ERR_NONE then k' = N \<and> P N t else k' < N \<and> Q k' t)"
proof (induction n arbitrary: k s)
  case 0
  then show ?case by (intro exI [of _ 0] exI [of _ k] exI [of _ s]) auto
next
  case (Suc n)
  obtain e t where e: "run_state (xfer (of_nat k)) s = (Inr e, t)" "if e = IIC_ERR_NONE then P (Suc k) t else Q k t"
    using step [OF Suc.prems(1)] Suc.prems(2) by auto
  show ?case
  proof (cases "e = IIC_ERR_NONE")
    case True
    then have "P (Suc k) t" using e(2) by simp
    from Suc.IH [OF this] Suc.prems(2) obtain e' k' u
      where u: "run_state (iic_byte_loop n xfer (of_nat (Suc k))) t = (Inr (e', of_nat k'), u)"
        "if e' = IIC_ERR_NONE then k' = N \<and> P N u else k' < N \<and> Q k' u" by auto
    have "inc32 (of_nat k) = Inr (of_nat (Suc k))" using inc32_nat [of k] Suc.prems(2) N by simp
    then have "run_state (iic_byte_loop (Suc n) xfer (of_nat k)) s = (Inr (e', of_nat k'), u)"
      using e(1) True u(1) by simp
    then show ?thesis using u(2) by blast
  next
    case False
    then have "run_state (iic_byte_loop (Suc n) xfer (of_nat k)) s = (Inr (e, of_nat k), t)" using e(1) by simp
    then show ?thesis using e(2) False Suc.prems(2) by (intro exI [of _ e] exI [of _ k] exI [of _ t]) auto
  qed
qed

lemma master_bytes_rule:
  assumes step: "\<And>k s. P k s \<Longrightarrow> k < N - 1 \<Longrightarrow> \<exists>e t. run_state (xfer (of_nat k)) s = (Inr e, t)
      \<and> (if e = IIC_ERR_NONE then P (Suc k) t else Q k t)"
    and final: "\<And>s. P (N - 1) s \<Longrightarrow> \<exists>e t. run_state (xfer_last (of_nat (N - 1))) s = (Inr e, t)
      \<and> (if e = IIC_ERR_NONE then P N t else Q (N - 1) t)"
    and N: "unat len = N" "0 < N" "N < 2 ^ 31" and "P 0 s"
  shows "\<exists>e k' t. run_state (iic_master_bytes len xfer xfer_last) s = (Inr (e, of_nat k'), t)
      \<and> (if e = IIC_ERR_NONE then k' = N \<and> P N t else k' < N \<and> Q k' t)"
proof -
  have len: "unat (len - 1) = N - 1" "len - 1 = of_nat (N - 1)"
    using N by (auto simp: unat_minus_one word_unat_eq_iff unat_of_nat)
  have n1: "N - 1 < 2 ^ 31" using N(3) by simp
  obtain e k t where l: "run_state (iic_byte_loop (N - 1) xfer 0) s = (Inr (e, of_nat k), t)"
    "if e = IIC_ERR_NONE then k = N - 1 \<and> P (N - 1) t else k < N - 1 \<and> Q k t"
    using byte_loop_rule [of P "N - 1" xfer Q 0 s "N - 1", OF step n1 assms(6)] by fastforce
  show ?thesis
  proof (cases "e = IIC_ERR_NONE")
    case False
    then have "run_state (iic_master_bytes len xfer xfer_last) s = (Inr (e, of_nat k), t)"
      using l(1) by (simp add: iic_master_bytes_def len(1) del: iic_byte_loop.simps)
    then show ?thesis using l(2) False by (intro exI [of _ e] exI [of _ k] exI [of _ t]) auto
  next
    case True
    then have k: "k = N - 1" "P (N - 1) t" using l(2) by auto
    obtain e' u where u: "run_state (xfer_last (len - 1)) t = (Inr e', u)" "if e' = IIC_ERR_NONE then P N u else Q (N - 1) u"
      using final [OF k(2)] len(2) by auto
    have i: "inc32 (of_nat k) = Inr (of_nat N)" using inc32_nat [of k] N k(1) by simp
    have "run_state (iic_master_bytes len xfer xfer_last) s = (Inr (e', of_nat (if e' = IIC_ERR_NONE then N else k)), u)"
      using l(1) True u(1) i by (simp add: iic_master_bytes_def len(1) del: iic_byte_loop.simps)
    then show ?thesis using u(2) k N(2)
      by (intro exI [of _ e'] exI [of _ "if e' = IIC_ERR_NONE then N else k"] exI [of _ u]) auto
  qed
qed

lemma both_modes_rule:
  assumes len: "unat len = N" "0 < N" "N < 2 ^ 31" and P0: "P 0 s"
    and mst: "\<And>k t. master \<Longrightarrow> P k t \<Longrightarrow> k < N - 1 \<Longrightarrow> \<exists>e u. run_state (xfer (of_nat k)) t = (Inr e, u)
      \<and> (if e = IIC_ERR_NONE then P (Suc k) u else Q k u)"
    and fin: "\<And>t. master \<Longrightarrow> P (N - 1) t \<Longrightarrow> \<exists>e u. run_state (xfer_last (of_nat (N - 1))) t = (Inr e, u)
      \<and> (if e = IIC_ERR_NONE then P N u else Q (N - 1) u)"
    and slv: "\<And>k t. \<not> master \<Longrightarrow> P k t \<Longrightarrow> k < N \<Longrightarrow> \<exists>e u. run_state (yfer (of_nat k)) t = (Inr e, u)
      \<and> (if e = IIC_ERR_NONE then P (Suc k) u else Q k u)"
  obtains e k t where "run_state (if master then iic_master_bytes len xfer xfer_last else iic_byte_loop N yfer 0) s = (Inr (e, of_nat k), t)"
    "e = IIC_ERR_NONE \<longleftrightarrow> k = N" "k \<le> N" "if k = N then P N t else Q k t"
proof -
  have "\<exists>e k t. run_state (if master then iic_master_bytes len xfer xfer_last else iic_byte_loop N yfer 0) s = (Inr (e, of_nat k), t)
      \<and> (if e = IIC_ERR_NONE then k = N \<and> P N t else k < N \<and> Q k t)"
  proof (cases master)
    case True
    then show ?thesis using master_bytes_rule [of P N xfer Q xfer_last len s, OF mst [OF True] fin [OF True] len P0] by simp
  next
    case False
    then show ?thesis using byte_loop_rule [of P N yfer Q 0 s N, OF slv [OF False] len(3) P0] by simp
  qed
  then show ?thesis using that by (metis less_imp_le less_irrefl order_refl)
qed

subsection \<open>Blocking transfers on any hardware\<close>

definition iic_ready :: "'a iic_mach_scheme \<Rightarrow> u32 \<Rightarrow> bool" where
  "iic_ready s obj \<longleftrightarrow> iic_valid s obj \<and> 0 < ii_opn_cnt (iinfo s obj) \<and> ii_status (iinfo s obj) AND DEV_ENABLED \<noteq> 0
     \<and> retry_cnt (ictrl s (iic_ctrl (iinfo s obj))) \<noteq> 0xFFFFFFFF"

lemma blocking_run:
  assumes "iic_ready s obj" "data \<noteq> 0" "0 < len" "run_state body s = (Inr (e, i), t)"
  shows "run_state (iic_blocking obj data len body) s
    = (Inr i, t\<lparr>iinfo := (iinfo t)(obj := (iinfo t obj)\<lparr>ii_err_state := e\<rparr>)\<rparr>)"
  using assms by (simp add: iic_blocking_def iic_ready_def Let_def)

text \<open>The frames of a write: the last one of a master carries the STOP or RESTART.\<close>

definition iic_frames :: "dev_iic_info \<Rightarrow> u8 list \<Rightarrow> u32 list" where
  "iic_frames i bs = (if ii_mode i = DEV_MASTER_MODE
     then map ucast (butlast bs) @ [ucast (last bs) OR iic_last_cond i] else map ucast bs)"

lemma nth_bytes_at: "k < n \<Longrightarrow> bytes_at m a n ! k = m (a + of_nat k)"
  by (simp add: bytes_at_def)

lemma nth_iic_frames:
  assumes "k < n"
  shows "length (iic_frames i (bytes_at m a n)) = n"
    and "iic_frames i (bytes_at m a n) ! k = ucast (m (a + of_nat k))
      OR (if ii_mode i = DEV_MASTER_MODE \<and> k = n - 1 then iic_last_cond i else IC_DATA_CMD_NONE)"
proof -
  have l: "last (bytes_at m a n) = m (a + of_nat (n - 1))"
    using assms by (simp add: last_conv_nth nth_bytes_at flip: length_0_conv)
  show "length (iic_frames i (bytes_at m a n)) = n" using assms by (simp add: iic_frames_def)
  show "iic_frames i (bytes_at m a n) ! k = ucast (m (a + of_nat k))
      OR (if ii_mode i = DEV_MASTER_MODE \<and> k = n - 1 then iic_last_cond i else IC_DATA_CMD_NONE)"
    using assms l by (auto simp: iic_frames_def nth_append nth_butlast nth_bytes_at)
qed

lemma write_body_run:
  assumes r: "iic_ready s obj" and len: "unat len = N" "0 < N" "N < 2 ^ 31"
    and F: "F = iic_frames (iinfo s obj) (bytes_at (mem s) data N)" and D: "D = iic_regs s obj + IC_DATA_CMD"
    and cp: "cp = iic_ctrl (iinfo s obj)"
  shows "\<exists>e k t. run_state (do {
     inf \<leftarrow> get_iinfo obj;
     let cp = iic_ctrl inf;
     if ii_mode inf = DEV_MASTER_MODE then
       iic_master_bytes len
         (\<lambda>i. do { v \<leftarrow> ld8 (data + i); dw_iic_mst_write_data p cp (ucast v) IC_DATA_CMD_NONE })
         (\<lambda>i. do { v \<leftarrow> ld8 (data + i); dw_iic_mst_write_data p cp (ucast v) (iic_last_cond inf) })
     else
       iic_byte_loop (unat len) (\<lambda>i. do { v \<leftarrow> ld8 (data + i); liftE (dw_iic_slv_write_data p cp (ucast v)) }) 0
   }) s = (Inr (e, of_nat k), t) \<and> (e = IIC_ERR_NONE \<longleftrightarrow> k = N) \<and> k \<le> N \<and> iic_io cp (map (Pair D) (take k F)) [] s t"
proof -
  define P where "P k t \<longleftrightarrow> iic_io cp (map (Pair D) (take k F)) [] s t" for k t
  have rc: "retry_cnt (ictrl s cp) \<noteq> 0xFFFFFFFF" "iic_regs s obj = dw_iic_regs (ictrl s cp)"
    using r by (simp_all add: iic_ready_def cp iic_regs_def)
  have lf: "length F = N" using nth_iic_frames(1) [OF len(2)] by (simp add: F)
  have next_P: "P (Suc k) u" if "P k t" "k < N" "iic_io cp [(D, F ! k)] [] t u" for k t u
    using iic_io_trans [of cp _ "[]" s t, OF that(1) [unfolded P_def] that(3)] that(2) lf
    by (simp add: P_def take_Suc_conv_app_nth)
  have same_P: "P k u" if "P k t" "iic_io cp [] [] t u" for k t u
    using iic_io_trans [of cp _ "[]" s t, OF that(1) [unfolded P_def] that(2)] by (simp add: P_def)
  have mst: "\<exists>e u. run_state (do { v \<leftarrow> ld8 (data + of_nat k); dw_iic_mst_write_data p cp (ucast v) cond }) t = (Inr e, u)
      \<and> (if e = IIC_ERR_NONE then P (Suc k) u else P k u)"
    if "P k t" "k < N" "F ! k = ucast (mem s (data + of_nat k)) OR cond" for k t cond
  proof -
    have t: "dw_iic_regs (ictrl t cp) = iic_regs s obj" "retry_cnt (ictrl t cp) \<noteq> 0xFFFFFFFF" "mem t = mem s"
      using iic_io_keeps [OF that(1) [unfolded P_def]] rc by auto
    show ?thesis using mst_write_data_io [of "iic_regs s obj" t cp p "ucast (mem s (data + of_nat k))" cond]
        t that D next_P [OF that(1,2)] same_P [OF that(1)] by (fastforce split: if_splits)
  qed
  have slv: "\<exists>e u. run_state (do { v \<leftarrow> ld8 (data + of_nat k); liftE (dw_iic_slv_write_data p cp (ucast v)) }) t = (Inr e, u)
      \<and> (if e = IIC_ERR_NONE then P (Suc k) u else P k u)"
    if "P k t" "k < N" "F ! k = ucast (mem s (data + of_nat k))" for k t
  proof -
    have t: "dw_iic_regs (ictrl t cp) = iic_regs s obj" "mem t = mem s"
      using iic_io_keeps [OF that(1) [unfolded P_def]] rc by auto
    show ?thesis using slv_write_data_io [of "iic_regs s obj" t cp p "ucast (mem s (data + of_nat k))"]
        t that D next_P [OF that(1,2)] same_P [OF that(1)] by (fastforce split: if_splits)
  qed
  have f: "F ! (N - 1) = ucast (mem s (data + of_nat (N - 1))) OR iic_last_cond (iinfo s obj)" if "ii_mode (iinfo s obj) = DEV_MASTER_MODE"
    using nth_iic_frames(2) [of "N - 1" N "iinfo s obj" "mem s" data] that len(2) by (simp add: F)
  have g: "F ! k = ucast (mem s (data + of_nat k))" if "k < N" "ii_mode (iinfo s obj) = DEV_MASTER_MODE \<Longrightarrow> k \<noteq> N - 1" for k
    using nth_iic_frames(2) [of k N "iinfo s obj" "mem s" data] that by (auto simp: F)
  have one: "Suc (N - 1) = N" "N - 1 < N" using len(2) by simp_all
  show ?thesis
  proof (rule both_modes_rule [where P = P and Q = P and s = s and master = "ii_mode (iinfo s obj) = DEV_MASTER_MODE" and N = N and len = len
      and xfer = "\<lambda>i. do { v \<leftarrow> ld8 (data + i); dw_iic_mst_write_data p cp (ucast v) IC_DATA_CMD_NONE }"
      and xfer_last = "\<lambda>i. do { v \<leftarrow> ld8 (data + i); dw_iic_mst_write_data p cp (ucast v) (iic_last_cond (iinfo s obj)) }"
      and yfer = "\<lambda>i. do { v \<leftarrow> ld8 (data + i); liftE (dw_iic_slv_write_data p cp (ucast v)) }"])
    fix e k t
    assume "run_state (if ii_mode (iinfo s obj) = DEV_MASTER_MODE then
         iic_master_bytes len (\<lambda>i. do { v \<leftarrow> ld8 (data + i); dw_iic_mst_write_data p cp (ucast v) IC_DATA_CMD_NONE })
           (\<lambda>i. do { v \<leftarrow> ld8 (data + i); dw_iic_mst_write_data p cp (ucast v) (iic_last_cond (iinfo s obj)) })
       else iic_byte_loop N (\<lambda>i. do { v \<leftarrow> ld8 (data + i); liftE (dw_iic_slv_write_data p cp (ucast v)) }) 0) s = (Inr (e, of_nat k), t)"
      "(e = IIC_ERR_NONE) = (k = N)" "k \<le> N" "if k = N then P N t else P k t"
    then show ?thesis unfolding P_def cp Let_def len(1) by (intro exI [of _ e] exI [of _ k] exI [of _ t]) (simp split: if_splits)
  next
    fix k t assume "P k t" "k < N - 1"
    then show "\<exists>e u. run_state (do { v \<leftarrow> ld8 (data + of_nat k); dw_iic_mst_write_data p cp (ucast v) IC_DATA_CMD_NONE }) t = (Inr e, u)
        \<and> (if e = IIC_ERR_NONE then P (Suc k) u else P k u)"
      using g [of k] by (intro mst) auto
  next
    fix t assume m: "ii_mode (iinfo s obj) = DEV_MASTER_MODE" "P (N - 1) t"
    show "\<exists>e u. run_state (do { v \<leftarrow> ld8 (data + of_nat (N - 1)); dw_iic_mst_write_data p cp (ucast v) (iic_last_cond (iinfo s obj)) }) t = (Inr e, u)
        \<and> (if e = IIC_ERR_NONE then P N u else P (N - 1) u)"
      using mst [OF m(2) one(2) f [OF m(1)], unfolded one(1)] .
  next
    fix k t assume "ii_mode (iinfo s obj) \<noteq> DEV_MASTER_MODE" "P k t" "k < N"
    then show "\<exists>e u. run_state (do { v \<leftarrow> ld8 (data + of_nat k); liftE (dw_iic_slv_write_data p cp (ucast v)) }) t = (Inr e, u)
        \<and> (if e = IIC_ERR_NONE then P (Suc k) u else P k u)"
      using slv [OF _ _ g] by blast
  qed (use len in \<open>simp_all add: P_def\<close>)
qed

text \<open>
  C18: Whatever the controller answers, \<open>dw_iic_write\<close> of a buffer of 1 to \<open>2^31 - 1\<close> bytes on an opened, enabled device whose retry count does not wrap returns, in both modes, the
  number of frames it sent: the stores it makes are exactly that prefix of the frames of the
  buffer, in order, the last byte of a master with the STOP or RESTART condition. It is the whole
  buffer exactly when the error it records is none; nothing else of the object and no memory changes.
\<close>

theorem iic_write_sends_prefix:
  assumes r: "iic_ready s obj" and "data \<noteq> 0" "0 < len" "unat len < 2 ^ 31"
    and F: "F = iic_frames (iinfo s obj) (bytes_at (mem s) data (unat len))" and D: "D = iic_regs s obj + IC_DATA_CMD"
  shows "\<exists>e k t. run_state (dw_iic_write p obj data len) s = (Inr (of_nat k), t) \<and> k \<le> unat len
    \<and> (e = IIC_ERR_NONE \<longleftrightarrow> k = unat len) \<and> mmio_stores (hist t) = mmio_stores (hist s) @ map (Pair D) (take k F)
    \<and> iinfo t = (iinfo s)(obj := (iinfo s obj)\<lparr>ii_err_state := e\<rparr>) \<and> mem t = mem s"
proof -
  have n: "0 < unat len" using assms(3) by (simp add: word_less_nat_alt)
  from write_body_run [OF r refl n assms(4) F D refl] obtain e k t
    where b: "run_state (dw_iic_write p obj data len) s = (Inr (of_nat k), t\<lparr>iinfo := (iinfo t)(obj := (iinfo t obj)\<lparr>ii_err_state := e\<rparr>)\<rparr>)"
      "(e = IIC_ERR_NONE) = (k = unat len)" "k \<le> unat len" "iic_io (iic_ctrl (iinfo s obj)) (map (Pair D) (take k F)) [] s t"
    using blocking_run [OF r assms(2,3)] unfolding dw_iic_write_def by blast
  then show ?thesis using iic_io_keeps [OF b(4)]
    by (intro exI [of _ e] exI [of _ k] exI [of _ "t\<lparr>iinfo := (iinfo t)(obj := (iinfo t obj)\<lparr>ii_err_state := e\<rparr>)\<rparr>"])
       (auto simp: iic_io_def Let_def)
qed

text \<open>Reading: the requests of a master, and the state of a transfer with the bytes \<open>vs\<close> received.\<close>

definition iic_requests :: "dev_iic_info \<Rightarrow> nat \<Rightarrow> u32 list" where
  "iic_requests i n = (if ii_mode i = DEV_MASTER_MODE
     then replicate (n - 1) IC_DATA_CMD_READ_REQ @ [iic_last_cond i OR IC_DATA_CMD_READ_REQ] else [])"

definition iic_read_at :: "u32 \<Rightarrow> u32 \<Rightarrow> (u32 \<times> u32) list \<Rightarrow> u32 list \<Rightarrow> 'a iic_mach_scheme \<Rightarrow> 'a iic_mach_scheme \<Rightarrow> bool" where
  "iic_read_at cp data st vs s t \<longleftrightarrow> iic_io cp st vs (s\<lparr>mem := put_bytes data (map ucast vs) (mem s)\<rparr>) t"

lemma iic_io_mem: "iic_io cp st rd s t \<Longrightarrow> iic_io cp st rd (s\<lparr>mem := f (mem s)\<rparr>) (t\<lparr>mem := f (mem t)\<rparr>)"
proof -
  assume io: "iic_io cp st rd s t"
  have "iic_blur cp (x\<lparr>mem := m\<rparr>) = (iic_blur cp x)\<lparr>mem := m\<rparr>" for x :: "'a iic_mach_scheme" and m by (simp add: iic_blur_def)
  then show ?thesis using io iic_io_keeps [OF io] by (simp add: iic_io_def Let_def)
qed

lemma low_byte: "(ucast ((w :: u32) AND 0xff) :: u8) = ucast w"
proof -
  have "w AND 0xff = take_bit 8 w" by (simp add: take_bit_eq_mask mask_eq_exp_minus_1)
  then show ?thesis by (simp only:) (rule bit_word_eqI, simp add: bit_simps)
qed

lemma read_at_byte:
  assumes "iic_read_at cp data st vs s t" "iic_io cp st' [w] t u" "length vs = k"
  shows "iic_read_at cp data (st @ st') (vs @ [w]) s (u\<lparr>mem := (mem u)(data + of_nat k := ucast (w AND 0xff))\<rparr>)"
proof -
  have "iic_io cp (st @ st') (vs @ [w]) (s\<lparr>mem := put_bytes data (map ucast vs) (mem s)\<rparr>) u"
    using iic_io_trans [OF assms(1) [unfolded iic_read_at_def] assms(2)] by simp
  from iic_io_mem [OF this, of "\<lambda>m. m(data + of_nat k := ucast w)"] assms(3)
  show ?thesis by (simp add: iic_read_at_def put_bytes_append low_byte)
qed

lemma read_at_quiet: "iic_read_at cp data st vs s t \<Longrightarrow> iic_io cp st' [] t u \<Longrightarrow> iic_read_at cp data (st @ st') vs s u"
  using iic_io_trans [of cp st vs "s\<lparr>mem := put_bytes data (map ucast vs) (mem s)\<rparr>" t st' "[]" u] by (simp add: iic_read_at_def)

lemma read_at_keeps: "iic_read_at cp data st vs s t \<Longrightarrow> dw_iic_regs (ictrl t cp) = dw_iic_regs (ictrl s cp)
    \<and> retry_cnt (ictrl t cp) = retry_cnt (ictrl s cp) \<and> iinfo t = iinfo s"
  unfolding iic_read_at_def using iic_io_keeps by fastforce

lemma nth_iic_requests:
  assumes "k < n" "ii_mode i = DEV_MASTER_MODE"
  shows "length (iic_requests i n) = n" "iic_requests i n ! k = (if k = n - 1 then iic_last_cond i else IC_DATA_CMD_NONE) OR IC_DATA_CMD_READ_REQ"
  using assms by (auto simp: iic_requests_def nth_append)

lemma read_body_run:
  assumes r: "iic_ready s obj" and len: "unat len = N" "0 < N" "N < 2 ^ 31"
    and F: "F = iic_requests (iinfo s obj) N" and D: "D = iic_regs s obj + IC_DATA_CMD"
    and cp: "cp = iic_ctrl (iinfo s obj)"
  shows "\<exists>e k t. run_state (do {
     inf \<leftarrow> get_iinfo obj;
     let cp = iic_ctrl inf;
     if ii_mode inf = DEV_MASTER_MODE then
       iic_master_bytes len
         (\<lambda>i. bindE (dw_iic_mst_read_data p cp IC_DATA_CMD_NONE) (\<lambda>r. liftE (iic_store_byte (data + i) r)))
         (\<lambda>i. bindE (dw_iic_mst_read_data p cp (iic_last_cond inf)) (\<lambda>r. liftE (iic_store_byte (data + i) r)))
     else
       iic_byte_loop (unat len) (\<lambda>i. do { r \<leftarrow> dw_iic_slv_read_data p cp; liftE (iic_store_byte (data + i) r) }) 0
   }) s = (Inr (e, of_nat k), t) \<and> (e = IIC_ERR_NONE \<longleftrightarrow> k = N) \<and> k \<le> N
     \<and> (\<exists>vs m. length vs = k \<and> k \<le> m \<and> m \<le> min N (Suc k) \<and> iic_read_at cp data (map (Pair D) (take m F)) vs s t)"
proof -
  define P where "P k t \<longleftrightarrow> (\<exists>vs. length vs = k \<and> iic_read_at cp data (map (Pair D) (take k F)) vs s t)" for k t
  define Q where "Q k t \<longleftrightarrow> (\<exists>vs m. length vs = k \<and> k \<le> m \<and> m \<le> min N (Suc k) \<and> iic_read_at cp data (map (Pair D) (take m F)) vs s t)" for k t
  have rc: "retry_cnt (ictrl s cp) \<noteq> 0xFFFFFFFF" "iic_regs s obj = dw_iic_regs (ictrl s cp)"
    using r by (simp_all add: iic_ready_def cp iic_regs_def)
  have PQ: "Q k t" if "P k t" "k \<le> N" for k t
    using that unfolding P_def Q_def by (metis le_SucI le_refl min.bounded_iff)
  have mst: "\<exists>e u. run_state (bindE (dw_iic_mst_read_data p cp cond) (\<lambda>r. liftE (iic_store_byte (data + of_nat k) r))) t = (Inr e, u)
      \<and> (if e = IIC_ERR_NONE then P (Suc k) u else Q k u)"
    if m: "ii_mode (iinfo s obj) = DEV_MASTER_MODE" and t: "P k t" and k: "k < N" and f: "F ! k = cond OR IC_DATA_CMD_READ_REQ" for k t cond
  proof -
    have F1: "take (Suc k) F = take k F @ [cond OR IC_DATA_CMD_READ_REQ]"
      using nth_iic_requests(1) [OF k m] k f by (simp add: F take_Suc_conv_app_nth)
    from t obtain vs where vs: "length vs = k" "iic_read_at cp data (map (Pair D) (take k F)) vs s t" by (auto simp: P_def)
    have tb: "iic_regs s obj = dw_iic_regs (ictrl t cp)" "retry_cnt (ictrl t cp) \<noteq> 0xFFFFFFFF"
      using read_at_keeps [OF vs(2)] rc by simp_all
    obtain e w u where u: "run_state (dw_iic_mst_read_data p cp cond) t = (Inr (e, w AND 0xff), u)"
      "if e = IIC_ERR_NONE then iic_io cp [(D, cond OR IC_DATA_CMD_READ_REQ)] [w] t u
       else \<exists>st \<in> {[], [(D, cond OR IC_DATA_CMD_READ_REQ)]}. iic_io cp st [] t u"
      using mst_read_data_io [OF tb, of p cond, folded D] by blast
    show ?thesis
    proof (cases "e = IIC_ERR_NONE")
      case True
      then have "P (Suc k) (u\<lparr>mem := (mem u)(data + of_nat k := ucast (w AND 0xff))\<rparr>)"
        using read_at_byte [OF vs(2) _ vs(1), of "[(D, cond OR IC_DATA_CMD_READ_REQ)]" w u] u(2) vs(1) unfolding P_def F1
        by (intro exI [of _ "vs @ [w]"]) simp
      then show ?thesis using u(1) True by (simp add: iic_store_byte_def)
    next
      case False
      then obtain st where st: "st \<in> {[], [(D, cond OR IC_DATA_CMD_READ_REQ)]}" "iic_io cp st [] t u" using u(2) by auto
      have "Q k u"
      proof (cases "st = []")
        case True
        then show ?thesis using read_at_quiet [OF vs(2) st(2)] vs(1) k unfolding Q_def by (intro exI [of _ vs] exI [of _ k]) simp
      next
        case F: False
        then show ?thesis using read_at_quiet [OF vs(2) st(2)] vs(1) k st(1) F1 unfolding Q_def by (intro exI [of _ vs] exI [of _ "Suc k"]) auto
      qed
      then show ?thesis using u(1) False by (simp add: iic_store_byte_def)
    qed
  qed
  have slv: "\<exists>e u. run_state (do { r \<leftarrow> dw_iic_slv_read_data p cp; liftE (iic_store_byte (data + of_nat k) r) }) t = (Inr e, u)
      \<and> (if e = IIC_ERR_NONE then P (Suc k) u else Q k u)"
    if m: "ii_mode (iinfo s obj) \<noteq> DEV_MASTER_MODE" and t: "P k t" and k: "k < N" for k t
  proof -
    have F1: "F = []" using m by (simp add: F iic_requests_def)
    from t obtain vs where vs: "length vs = k" "iic_read_at cp data [] vs s t" by (auto simp: P_def F1)
    obtain e w u where u: "run_state (dw_iic_slv_read_data p cp) t = ((e, w AND 0xff), u)"
      "iic_io cp [] (if e = IIC_ERR_NONE then [w] else []) t u"
      using slv_read_data_io [of "iic_regs s obj" t cp p] read_at_keeps [OF vs(2)] rc by auto
    show ?thesis
    proof (cases "e = IIC_ERR_NONE")
      case True
      then have "P (Suc k) (u\<lparr>mem := (mem u)(data + of_nat k := ucast (w AND 0xff))\<rparr>)"
        using read_at_byte [OF vs(2) _ vs(1), of "[]" w u] u(2) vs(1) unfolding P_def F1 by (intro exI [of _ "vs @ [w]"]) simp
      then show ?thesis using u(1) True by (simp add: iic_store_byte_def)
    next
      case False
      then have "Q k u" using read_at_quiet [OF vs(2), of "[]" u] u(2) vs(1) k unfolding Q_def F1
        by (intro exI [of _ vs] exI [of _ k]) simp
      then show ?thesis using u(1) False by (simp add: iic_store_byte_def)
    qed
  qed
  have P0: "P 0 s" by (simp add: P_def iic_read_at_def)
  note req = nth_iic_requests(2) [of _ N "iinfo s obj", folded F]
  have one: "Suc (N - 1) = N" "N - 1 < N" using len(2) by simp_all
  show ?thesis
  proof (rule both_modes_rule [where P = P and Q = Q and s = s and master = "ii_mode (iinfo s obj) = DEV_MASTER_MODE" and N = N and len = len
      and xfer = "\<lambda>i. bindE (dw_iic_mst_read_data p cp IC_DATA_CMD_NONE) (\<lambda>r. liftE (iic_store_byte (data + i) r))"
      and xfer_last = "\<lambda>i. bindE (dw_iic_mst_read_data p cp (iic_last_cond (iinfo s obj))) (\<lambda>r. liftE (iic_store_byte (data + i) r))"
      and yfer = "\<lambda>i. do { r \<leftarrow> dw_iic_slv_read_data p cp; liftE (iic_store_byte (data + i) r) }"])
    fix e k t
    assume a: "run_state (if ii_mode (iinfo s obj) = DEV_MASTER_MODE then
         iic_master_bytes len (\<lambda>i. bindE (dw_iic_mst_read_data p cp IC_DATA_CMD_NONE) (\<lambda>r. liftE (iic_store_byte (data + i) r)))
           (\<lambda>i. bindE (dw_iic_mst_read_data p cp (iic_last_cond (iinfo s obj))) (\<lambda>r. liftE (iic_store_byte (data + i) r)))
       else iic_byte_loop N (\<lambda>i. do { r \<leftarrow> dw_iic_slv_read_data p cp; liftE (iic_store_byte (data + i) r) }) 0) s = (Inr (e, of_nat k), t)"
      "(e = IIC_ERR_NONE) = (k = N)" "k \<le> N" "if k = N then P N t else Q k t"
    have "Q k t" using a(3,4) PQ by (auto split: if_splits)
    then show ?thesis using a unfolding Q_def cp Let_def len(1) by (intro exI [of _ e] exI [of _ k] exI [of _ t]) simp
  next
    fix k t assume m: "ii_mode (iinfo s obj) = DEV_MASTER_MODE" "P k t" "k < N - 1"
    then show "\<exists>e u. run_state (bindE (dw_iic_mst_read_data p cp IC_DATA_CMD_NONE) (\<lambda>r. liftE (iic_store_byte (data + of_nat k) r))) t = (Inr e, u)
        \<and> (if e = IIC_ERR_NONE then P (Suc k) u else Q k u)"
      using req [of k] by (intro mst) auto
  next
    fix t assume m: "ii_mode (iinfo s obj) = DEV_MASTER_MODE" "P (N - 1) t"
    show "\<exists>e u. run_state (bindE (dw_iic_mst_read_data p cp (iic_last_cond (iinfo s obj))) (\<lambda>r. liftE (iic_store_byte (data + of_nat (N - 1)) r))) t = (Inr e, u)
        \<and> (if e = IIC_ERR_NONE then P N u else Q (N - 1) u)"
    proof -
      have "F ! (N - 1) = iic_last_cond (iinfo s obj) OR IC_DATA_CMD_READ_REQ" using req [OF one(2) m(1)] by simp
      from mst [OF m one(2) this, unfolded one(1)] show ?thesis .
    qed
  qed (use slv P0 len in \<open>simp_all\<close>)
qed

text \<open>
  C19: Whatever the controller answers, \<open>dw_iic_read\<close> into a buffer of 1 to \<open>2^31 - 1\<close> bytes on an opened, enabled device whose retry count does not wrap returns, in both modes, the
  number of bytes it stored: the low bytes of the values it loaded from the data register, in
  order, at the buffer, and nothing else in memory. A master has then sent the read requests
  of these bytes, the last one with the STOP or RESTART condition, and at most one more. It is
  the whole buffer exactly when the error it records is none.
\<close>

theorem iic_read_stores_prefix:
  assumes r: "iic_ready s obj" and "data \<noteq> 0" "0 < len" "unat len < 2 ^ 31" and D: "D = iic_regs s obj + IC_DATA_CMD"
  shows "\<exists>e k vs m t. run_state (dw_iic_read p obj data len) s = (Inr (of_nat k), t)
    \<and> (e = IIC_ERR_NONE \<longleftrightarrow> k = unat len) \<and> length vs = k \<and> k \<le> m \<and> m \<le> min (unat len) (Suc k)
    \<and> reads_of D (hist t) = reads_of D (hist s) @ vs \<and> mem t = put_bytes data (map ucast vs) (mem s)
    \<and> mmio_stores (hist t) = mmio_stores (hist s) @ map (Pair D) (take m (iic_requests (iinfo s obj) (unat len)))
    \<and> iinfo t = (iinfo s)(obj := (iinfo s obj)\<lparr>ii_err_state := e\<rparr>)"
proof -
  have n: "0 < unat len" using assms(3) by (simp add: word_less_nat_alt)
  from read_body_run [OF r refl n assms(4) refl D refl] obtain e k vs m t
    where b: "run_state (dw_iic_read p obj data len) s = (Inr (of_nat k), t\<lparr>iinfo := (iinfo t)(obj := (iinfo t obj)\<lparr>ii_err_state := e\<rparr>)\<rparr>)"
      "(e = IIC_ERR_NONE) = (k = unat len)" "k \<le> unat len" "length vs = k" "k \<le> m" "m \<le> min (unat len) (Suc k)"
      "iic_read_at (iic_ctrl (iinfo s obj)) data (map (Pair D) (take m (iic_requests (iinfo s obj) (unat len)))) vs s t"
    using blocking_run [OF r assms(2,3)] unfolding dw_iic_read_def by blast
  have keep: "iinfo t = iinfo s" "mem t = put_bytes data (map ucast vs) (mem s)"
    using iic_io_keeps [OF b(7) [unfolded iic_read_at_def]] by simp_all
  show ?thesis using b keep
    by (intro exI [of _ e] exI [of _ k] exI [of _ vs] exI [of _ m] exI [of _ "t\<lparr>iinfo := (iinfo t)(obj := (iinfo t obj)\<lparr>ii_err_state := e\<rparr>)\<rparr>"])
       (auto simp: iic_read_at_def iic_io_def Let_def D iic_regs_def)
qed

text \<open>A device and a controller that is always ready, and one whose slave stops acknowledging after two frames.\<close>

definition iic_info1 :: dev_iic_info where
  "iic_info1 = \<lparr>iic_ctrl = 0x200, ii_opn_cnt = 1, ii_status = 1, ii_mode = 0, ii_speed_mode = 1, ii_cur_state = 0, ii_err_state = 0,
     ii_addr_mode = 0, ii_slv_addr = 0, ii_tar_addr = 0x48, ii_next_cond = 0, ii_tx_buf = null_buffer, ii_rx_buf = null_buffer,
     ii_tx_cb = 0, ii_rx_cb = 0, ii_err_cb = 0, ii_extra = 0\<rparr>"

definition iic_ctrl1 :: dw_iic_ctrl where
  "iic_ctrl1 = \<lparr>dw_iic_regs = 0xF0004000, ic_clkhz = 50000000, ic_caploading = 0, ic_support_modes = 3, ic_tx_fifo_len = 32,
     ic_rx_fifo_len = 32, iic_master_code = 1, retry_cnt = 3, ic_intno = 21, dw_iic_int_handler = 0x4000,
     iic_spklen = \<lparr>fs_spklen = 3, hs_spklen = 1\<rparr>, iic_scl_cnt = \<lparr>ss_scl_hcnt = 200, ss_scl_lcnt = 235, fs_scl_hcnt = 30,
     fs_scl_lcnt = 65, hs_scl_hcnt = 6, hs_scl_lcnt = 8\<rparr>, ic_int_status = 0, iic_tx_over = 0, iic_rx_over = 0,
     dw_iic_rxbuf = \<lparr>rb_buf = 0x100, rb_ofs = 0, rb_len = 0\<rparr>\<rparr>"

definition iic_mach1 :: iic_mach where
  "iic_mach1 = \<lparr>hist = [], mem = ucast, exc_int_handler_table = replicate 48 0x100,
     iinfo = (\<lambda>_. iic_info1), ictrl = (\<lambda>_. iic_ctrl1)\<rparr>"

definition iic_plat1 :: "nat \<Rightarrow> plat" where
  "iic_plat1 n = sample_plat\<lparr>mmio_in := \<lambda>h a.
     if a = 0xF0004070 then (if length (writes_to 0xF0004010 h) < n then 0xA else 0)
     else if a = 0xF0004034 then 0x40 else if a = 0xF0004080 then 0x8 else if a = 0xF0004010 then 0x142 else 0\<rparr>"

lemma iic_mach1_ready [simp]: "iic_ready iic_mach1 0x100"
  by (simp add: iic_ready_def iic_valid_def iic_mach1_def iic_info1_def iic_ctrl1_def)

lemma iic_write_sends_prefix_witness:
  "\<exists>k t. run_state (dw_iic_write (iic_plat1 2) 0x100 0x61 3) iic_mach1 = (Inr (of_nat k), t) \<and> k \<le> 3
    \<and> mmio_stores (hist t) = map (Pair 0xF0004010) (take k [0x61, 0x62, 0x263])"
proof -
  have F: "iic_frames (iinfo iic_mach1 0x100) (bytes_at (mem iic_mach1) 0x61 (unat (3 :: u32))) = [0x61, 0x62, 0x263]" by code_simp
  have D: "0xF0004010 = iic_regs iic_mach1 0x100 + IC_DATA_CMD" by code_simp
  have "hist iic_mach1 = []" by (simp add: iic_mach1_def)
  with iic_write_sends_prefix [OF iic_mach1_ready _ _ _ F [symmetric] D, of "iic_plat1 2"] show ?thesis by auto
qed

lemma iic_read_stores_prefix_witness:
  "\<exists>k vs t. run_state (dw_iic_read (iic_plat1 9) 0x100 0x1000 3) iic_mach1 = (Inr (of_nat k), t) \<and> length vs = k
    \<and> reads_of 0xF0004010 (hist t) = vs \<and> mem t = put_bytes 0x1000 (map ucast vs) ucast"
proof -
  have D: "0xF0004010 = iic_regs iic_mach1 0x100 + IC_DATA_CMD" by code_simp
  have "hist iic_mach1 = []" "mem iic_mach1 = ucast" by (simp_all add: iic_mach1_def)
  with iic_read_stores_prefix [OF iic_mach1_ready _ _ _ D, of "0x1000" 3 "iic_plat1 9"] show ?thesis by fastforce
qed

end
