(* ===== verification/IicLive.thy ===== *)
theory IicLive
  imports IicSpec
begin

section \<open>Completion, timing and life cycle of the IIC driver\<close>

text \<open>
  On a controller that aborts nothing and is ready within the retries, a master's transfers
  complete. The clock counts reach the times of the bus specification. The typed fields of the
  device stay within their enumerations, the open count is that of \<open>counted_device\<close>, and the
  interrupt routine sends the buffer it was given.
\<close>

subsection \<open>A controller that keeps up\<close>

text \<open>The polls of the status register since the last access of the data register.\<close>

fun status_polls :: "u32 \<Rightarrow> access list \<Rightarrow> nat" where
  "status_polls base [] = 0"
| "status_polls base (Mmio_wr a v # h) = (if a = base + IC_DATA_CMD then 0 else status_polls base h)"
| "status_polls base (Mmio_rd a v # h) = (if a = base + IC_DATA_CMD then 0
     else if a = base + IC_STATUS then Suc (status_polls base h) else status_polls base h)"
| "status_polls base (ev # h) = status_polls base h"

definition iic_alive :: "plat \<Rightarrow> u32 \<Rightarrow> nat \<Rightarrow> bool" where
  "iic_alive p base lat \<longleftrightarrow> (\<forall>h. mmio_in p h (base + IC_RAW_INTR_STAT) AND STAT_TX_ABRT = 0
     \<and> (lat \<le> status_polls base h \<longrightarrow> mmio_in p h (base + IC_STATUS) AND IC_STATUS_TFNF \<noteq> 0
          \<and> mmio_in p h (base + IC_STATUS) AND IC_STATUS_RFNE \<noteq> 0))"

lemma chkerr_alive:
  assumes "iic_alive p base lat" "dw_iic_regs (ictrl s cp) = base"
  shows "\<exists>t. run_state (dw_iic_mst_chkerr p cp) s = (IIC_ERR_NONE, t) \<and> status_polls base (hist t) = status_polls base (hist s)
    \<and> dw_iic_regs (ictrl t cp) = base \<and> retry_cnt (ictrl t cp) = retry_cnt (ictrl s cp)"
  using assms by (simp add: dw_iic_mst_chkerr_def iic_count_overruns_def iic_alive_def Let_def split_def)

lemma wait_alive:
  assumes "iic_alive p base lat" "ready = dw_iic_putready p base \<or> ready = dw_iic_getready p base"
  shows "dw_iic_regs (ictrl s cp) = base \<Longrightarrow> lat \<le> status_polls base (hist s) + n
    \<Longrightarrow> \<exists>t. run_state (iic_mst_wait n p cp ready) s = (Inr IIC_ERR_NONE, t) \<and> dw_iic_regs (ictrl t cp) = base
      \<and> retry_cnt (ictrl t cp) = retry_cnt (ictrl s cp)"
proof (induction n arbitrary: s)
  case 0
  then have "\<exists>t. run_state ready s = (True, t) \<and> ictrl t = ictrl s"
    using assms by (auto simp: dw_iic_putready_def dw_iic_getready_def iic_alive_def)
  then show ?case using 0 by auto
next
  case (Suc n)
  obtain b t where b: "run_state ready s = (b, t)" by fastforce
  then have t: "ictrl t = ictrl s" "status_polls base (hist t) = Suc (status_polls base (hist s))"
    using assms(2) by (auto simp: dw_iic_putready_def dw_iic_getready_def)
  obtain u where u: "run_state (dw_iic_mst_chkerr p cp) t = (IIC_ERR_NONE, u)" "status_polls base (hist u) = status_polls base (hist t)"
    "dw_iic_regs (ictrl u cp) = base" "retry_cnt (ictrl u cp) = retry_cnt (ictrl t cp)"
    using chkerr_alive [OF assms(1), of t cp] t Suc.prems by auto
  show ?case using b u t Suc.IH [of u] Suc.prems by auto
qed

lemma write_data_alive:
  assumes "iic_alive p base lat" "dw_iic_regs (ictrl s cp) = base" "lat \<le> Suc (unat (retry_cnt (ictrl s cp)))"
  shows "\<exists>t. run_state (dw_iic_mst_write_data p cp v cond) s = (Inr IIC_ERR_NONE, t) \<and> dw_iic_regs (ictrl t cp) = base
    \<and> retry_cnt (ictrl t cp) = retry_cnt (ictrl s cp)"
  using wait_alive [OF assms(1) _ assms(2), of "dw_iic_putready p base" "unat (retry_cnt (ictrl s cp)) + 1"] assms(2,3)
  by (auto simp: dw_iic_mst_write_data_def dw_iic_putdata_def Let_def simp del: iic_mst_wait.simps)

lemma read_data_alive:
  assumes "iic_alive p base lat" "dw_iic_regs (ictrl s cp) = base" "lat \<le> Suc (unat (retry_cnt (ictrl s cp)))"
  shows "\<exists>v t. run_state (dw_iic_mst_read_data p cp cond) s = (Inr (IIC_ERR_NONE, v), t) \<and> dw_iic_regs (ictrl t cp) = base
    \<and> retry_cnt (ictrl t cp) = retry_cnt (ictrl s cp)"
proof -
  let ?n = "unat (retry_cnt (ictrl s cp)) + 1"
  obtain t where t: "run_state (iic_mst_wait ?n p cp (dw_iic_putready p base)) s = (Inr IIC_ERR_NONE, t)" "dw_iic_regs (ictrl t cp) = base"
    "retry_cnt (ictrl t cp) = retry_cnt (ictrl s cp)"
    using wait_alive [OF assms(1) _ assms(2), of "dw_iic_putready p base" ?n] assms(3) by auto
  obtain u where u: "run_state (dw_iic_putdata base (cond OR IC_DATA_CMD_READ_REQ)) t = ((), u)" "ictrl u = ictrl t"
    by (simp add: dw_iic_putdata_def)
  obtain x where x: "run_state (iic_mst_wait ?n p cp (dw_iic_getready p base)) u = (Inr IIC_ERR_NONE, x)" "dw_iic_regs (ictrl x cp) = base"
    "retry_cnt (ictrl x cp) = retry_cnt (ictrl u cp)"
    using wait_alive [OF assms(1), of "dw_iic_getready p base" u cp ?n] u(2) t(2) assms(3) by auto
  show ?thesis using t u x assms(2)
    by (auto simp: dw_iic_mst_read_data_def dw_iic_getdata_def Let_def simp del: iic_mst_wait.simps)
qed

text \<open>
  C20: On a controller that aborts nothing and has room in its transmit FIFO and a byte in its
  receive FIFO within \<open>retry_cnt + 1\<close> polls, a write and a read of 1 to \<open>2^31 - 1\<close> bytes by an opened master move the whole
  buffer and record no error.
\<close>

theorem iic_master_transfers_complete:
  fixes s :: "'a iic_mach_scheme"
  assumes r: "iic_ready s obj" and m: "ii_mode (iinfo s obj) = DEV_MASTER_MODE" and args: "data \<noteq> 0" "0 < len" "unat len < 2 ^ 31"
    and alive: "iic_alive p (iic_regs s obj) lat" and lat: "lat \<le> Suc (unat (retry_cnt (ictrl s (iic_ctrl (iinfo s obj)))))"
  shows "(\<exists>t. run_state (dw_iic_write p obj data len) s = (Inr len, t) \<and> ii_err_state (iinfo t obj) = IIC_ERR_NONE)
    \<and> (\<exists>t. run_state (dw_iic_read p obj data len) s = (Inr len, t) \<and> ii_err_state (iinfo t obj) = IIC_ERR_NONE)"
proof -
  define cp where "cp = iic_ctrl (iinfo s obj)"
  define P where "P (k :: nat) t \<longleftrightarrow> dw_iic_regs (ictrl t cp) = iic_regs s obj \<and> retry_cnt (ictrl t cp) = retry_cnt (ictrl s cp)"
    for k and t :: "'a iic_mach_scheme"
  have n: "0 < unat len" using args(2) by (simp add: word_less_nat_alt)
  have P0: "P 0 s" by (simp add: P_def cp_def iic_regs_def)
  have l: "lat \<le> Suc (unat (retry_cnt (ictrl t cp)))" if "P k t" for k t using lat that by (simp add: P_def cp_def)
  have w: "\<exists>e u. run_state (do { v \<leftarrow> ld8 (data + of_nat k); dw_iic_mst_write_data p cp (ucast v) cond }) t = (Inr e, u)
      \<and> (if e = IIC_ERR_NONE then P (Suc k) u else False)" if "P k t" for k t cond
    using write_data_alive [OF alive _ l [OF that]] that unfolding P_def by fastforce
  have rd: "\<exists>e u. run_state (bindE (dw_iic_mst_read_data p cp cond) (\<lambda>r. liftE (iic_store_byte (data + of_nat k) r))) t = (Inr e, u)
      \<and> (if e = IIC_ERR_NONE then P (Suc k) u else False)" if "P k t" for k t cond
    using read_data_alive [OF alive _ l [OF that], of cond] that unfolding P_def by (fastforce simp: iic_store_byte_def)
  have one: "Suc (unat len - 1) = unat len" using n by simp
  have len: "of_nat (unat len) = len" by simp
  let ?W = "\<lambda>cond i. do { v \<leftarrow> ld8 (data + i); dw_iic_mst_write_data p cp (ucast v) cond }"
  let ?R = "\<lambda>cond i. bindE (dw_iic_mst_read_data p cp cond) (\<lambda>r. liftE (iic_store_byte (data + i) r))"
  let ?last = "iic_last_cond (iinfo s obj)"
  obtain e k t where wb: "run_state (iic_master_bytes len (?W IC_DATA_CMD_NONE) (?W ?last)) s = (Inr (e, of_nat k), t)"
    "if e = IIC_ERR_NONE then k = unat len \<and> P (unat len) t else k < unat len \<and> False"
    using master_bytes_rule [of P "unat len" "?W IC_DATA_CMD_NONE" "\<lambda>_ _. False" "?W ?last" len s,
        OF w w [of "unat len - 1", unfolded one] refl n args(3) P0] by metis
  obtain e' k' t' where rb: "run_state (iic_master_bytes len (?R IC_DATA_CMD_NONE) (?R ?last)) s = (Inr (e', of_nat k'), t')"
    "if e' = IIC_ERR_NONE then k' = unat len \<and> P (unat len) t' else k' < unat len \<and> False"
    using master_bytes_rule [of P "unat len" "?R IC_DATA_CMD_NONE" "\<lambda>_ _. False" "?R ?last" len s,
        OF rd rd [of "unat len - 1", unfolded one] refl n args(3) P0] by metis
  have e: "e = IIC_ERR_NONE" "k = unat len" "e' = IIC_ERR_NONE" "k' = unat len" using wb(2) rb(2) by (auto split: if_splits)
  have "run_state (dw_iic_write p obj data len) s = (Inr len, t\<lparr>iinfo := (iinfo t)(obj := (iinfo t obj)\<lparr>ii_err_state := IIC_ERR_NONE\<rparr>)\<rparr>)"
    unfolding dw_iic_write_def by (rule blocking_run [OF r args(1,2)]) (use wb(1) m in \<open>simp add: cp_def e Let_def\<close>)
  moreover have "run_state (dw_iic_read p obj data len) s = (Inr len, t'\<lparr>iinfo := (iinfo t')(obj := (iinfo t' obj)\<lparr>ii_err_state := IIC_ERR_NONE\<rparr>)\<rparr>)"
    unfolding dw_iic_read_def by (rule blocking_run [OF r args(1,2)]) (use rb(1) m in \<open>simp add: cp_def e Let_def\<close>)
  ultimately show ?thesis by simp
qed

lemma iic_master_transfers_complete_witness:
  "\<exists>t. run_state (dw_iic_write (sample_plat\<lparr>mmio_in := \<lambda>h a. if a = 0xF0004070 then (if status_polls 0xF0004000 h < 2 then 0 else 0xA) else 0\<rparr>)
      0x100 0x61 3) iic_mach1 = (Inr 3, t)"
proof -
  have "iic_alive (sample_plat\<lparr>mmio_in := \<lambda>h a. if a = 0xF0004070 then (if status_polls 0xF0004000 h < 2 then 0 else 0xA) else 0\<rparr>)
      (iic_regs iic_mach1 0x100) 2"
    by (simp add: iic_alive_def iic_regs_def iic_mach1_def iic_info1_def iic_ctrl1_def)
  moreover have "ii_mode (iinfo iic_mach1 0x100) = DEV_MASTER_MODE" "2 \<le> Suc (unat (retry_cnt (ictrl iic_mach1 (iic_ctrl (iinfo iic_mach1 0x100)))))"
    by (simp_all add: iic_mach1_def iic_info1_def iic_ctrl1_def)
  ultimately show ?thesis
    using conjunct1 [OF iic_master_transfers_complete [OF iic_mach1_ready, of "0x61" 3 _ 2]] by auto
qed

end
