(* ===== verification/IicLife.thy ===== *)
theory IicLife
  imports IicLive
begin

section \<open>Timing, typed fields and life cycle of the IIC driver\<close>

text \<open>
  The clock counts programmed at the first open reach the times of the bus specification. The
  enumerated fields of every device stay in their enumerations under every operation. The open
  count is that of \<open>counted_device\<close>, and the last close leaves the device idle.
\<close>

subsection \<open>Clock counts\<close>

text \<open>A count \<open>v\<close> lasts at least \<open>t\<close> nanoseconds on a clock of \<open>clk\<close> kHz, and fits in 16 bits.\<close>

definition lasts :: "u32 \<Rightarrow> nat \<Rightarrow> u32 \<Rightarrow> bool" where
  "lasts clk t v \<longleftrightarrow> t * unat clk \<le> unat v * 10 ^ 6 \<and> unat v < 2 ^ 16"

lemma ns_cnt_bounds:
  assumes "0 < c" "unat t \<le> 5000"
  shows "unat t \<le> unat (ns_cnt t c) * unat c" "unat (ns_cnt t c) \<le> Suc (unat t)"
proof -
  have c: "0 < unat c" using assms(1) by (simp add: word_less_nat_alt)
  have d: "unat (t div c) = unat t div unat c" "unat (t mod c) = unat t mod unat c" by (simp_all add: unat_div unat_mod)
  have le: "unat t div unat c \<le> unat t" by simp
  with assms(2) have le': "unat t div unat c \<le> 5000" by linarith
  have n: "unat (ns_cnt t c) = unat t div unat c + (if unat t mod unat c = 0 then 0 else 1)"
    using d le' by (auto simp: ns_cnt_def unat_word_ariths unat_eq_zero [symmetric] simp del: unat_eq_zero)
  have "(if unat t mod unat c = 0 then 0 else 1 :: nat) \<le> 1" by simp
  with n le show "unat (ns_cnt t c) \<le> Suc (unat t)" by linarith
  have "unat t mod unat c \<le> (if unat t mod unat c = 0 then 0 else 1) * unat c" using c by (simp add: order_less_imp_le)
  moreover have "unat t = unat t div unat c * unat c + unat t mod unat c" by simp
  ultimately show "unat t \<le> unat (ns_cnt t c) * unat c" unfolding n add_mult_distrib by linarith
qed

lemma period_bounds:
  assumes "0 < clk" "clk \<le> 1000000"
  shows "0 < 1000000 div (clk :: u32)" "unat (1000000 div clk) * unat clk \<le> 10 ^ 6"
proof -
  have k: "0 < unat clk" "unat clk \<le> 10 ^ 6" using assms by (simp_all add: word_less_nat_alt word_le_nat_alt)
  have d: "unat (1000000 div clk) = 10 ^ 6 div unat clk" by (simp add: unat_div)
  show "unat (1000000 div clk) * unat clk \<le> 10 ^ 6" unfolding d by simp
  show "0 < 1000000 div clk" unfolding word_less_nat_alt d using k by (simp add: div_greater_zero_iff)
qed

lemma lasts_max:
  assumes clk: "0 < clk" "clk \<le> 1000000" and t: "unat t \<le> 5000" and m: "unat m \<le> 60"
  shows "lasts clk (unat t) (u32_max (ns_cnt t (1000000 div clk)) m)"
proof -
  let ?c = "1000000 div clk" and ?v = "u32_max (ns_cnt t (1000000 div clk)) m"
  note b = ns_cnt_bounds [OF period_bounds(1) [OF clk] t]
  have v: "unat (ns_cnt t ?c) \<le> unat ?v" "unat ?v \<le> 5001"
    using b(2) t m by (auto simp: u32_max_def word_less_nat_alt)
  have "unat t * unat clk \<le> unat (ns_cnt t ?c) * unat ?c * unat clk" using b(1) by (rule mult_le_mono1)
  also have "\<dots> \<le> unat ?v * 10 ^ 6" unfolding mult.assoc using v(1) period_bounds(2) [OF clk] by (rule mult_le_mono)
  finally show ?thesis using v(2) by (simp add: lasts_def)
qed

lemma spk_small:
  assumes clk: "0 < clk" "clk \<le> 1000000" and t: "unat t \<le> 50" "0 < t" and k: "unat k \<le> 7"
  shows "unat (ns_cnt t (1000000 div clk) + k) \<le> 60" "lasts clk (unat t) (ns_cnt t (1000000 div clk))"
proof -
  have "unat (ns_cnt t (1000000 div clk)) \<le> 51" using ns_cnt_bounds(2) [OF period_bounds(1) [OF clk], of t] t by simp
  then show "unat (ns_cnt t (1000000 div clk) + k) \<le> 60" using k by (simp add: unat_word_ariths)
  have "u32_max (ns_cnt t (1000000 div clk)) 0 = ns_cnt t (1000000 div clk)" by (simp add: u32_max_def)
  then show "lasts clk (unat t) (ns_cnt t (1000000 div clk))" using lasts_max [OF clk, of t 0] t by simp
qed

text \<open>The registers of the clock counts, with the times they stand for.\<close>

definition scl_times_ns :: "u32 \<Rightarrow> (u32 \<times> nat) list" where
  "scl_times_ns cap = [(IC_SS_SCL_HCNT, 4000), (IC_SS_SCL_LCNT, 4700), (IC_FS_SCL_HCNT, 600), (IC_FS_SCL_LCNT, 1300),
     (IC_HS_SCL_HCNT, if cap = DW_IIC_CAP_LOADING_100PF then 60 else 120),
     (IC_HS_SCL_LCNT, if cap = DW_IIC_CAP_LOADING_100PF then 160 else 320), (IC_FS_SPKLEN, 50), (IC_HS_SPKLEN, 10)]"

definition timing_ok :: "u32 \<Rightarrow> u32 \<Rightarrow> dw_iic_spklen \<Rightarrow> dw_iic_scl_cnt \<Rightarrow> bool" where
  "timing_ok clk cap k c \<longleftrightarrow> list_all2 (\<lambda>(r, t) v. lasts clk t v) (scl_times_ns cap)
     [ss_scl_hcnt c, ss_scl_lcnt c, fs_scl_hcnt c, fs_scl_lcnt c, hs_scl_hcnt c, hs_scl_lcnt c, fs_spklen k, hs_spklen k]"

lemma timing_holds:
  assumes clk: "0 < clk" "clk \<le> 1000000"
  shows "\<exists>k c. dw_iic_calc_spklen clk = Inr k \<and> dw_iic_calc_sclcnt clk cap k = Inr c \<and> timing_ok clk cap k c"
proof -
  note l = lasts_max [OF clk] and s = spk_small [OF clk]
  show ?thesis
    using clk l [of 4000] l [of 4700] l [of 600] l [of 1300] l [of 60] l [of 120] l [of 160] l [of 320] s(1) [of 50] s(1) [of 10] s(2) [of 50 0] s(2) [of 10 0]
    by (simp add: dw_iic_calc_spklen_def dw_iic_calc_sclcnt_def Let_def scl_times_def scl_limits_def timing_ok_def scl_times_ns_def)
qed

subsection \<open>The interrupt off\<close>

text \<open>
  States that differ in the history and the interrupt flags of a controller only; the stores in
  between touch no register but its interrupt mask.
\<close>

definition iic_calm :: "u32 \<Rightarrow> 'a iic_mach_scheme \<Rightarrow> 'a iic_mach_scheme" where
  "iic_calm cp s = s\<lparr>hist := [], ictrl := (ictrl s)(cp := (ictrl s cp)\<lparr>ic_int_status := ic_int_status (ictrl s cp) AND NOT 7\<rparr>)\<rparr>"

definition masked_from :: "u32 \<Rightarrow> u32 \<Rightarrow> 'a iic_mach_scheme \<Rightarrow> 'a iic_mach_scheme \<Rightarrow> bool" where
  "masked_from cp base s t \<longleftrightarrow> iic_calm cp t = iic_calm cp s
     \<and> (\<forall>a. a \<noteq> base + IC_INTR_MASK \<longrightarrow> mmio_last a (hist t) = mmio_last a (hist s))"

lemma iic_calm_keeps:
  assumes "iic_calm cp t = iic_calm cp s"
  shows "dw_iic_regs (ictrl t cp) = dw_iic_regs (ictrl s cp)" "iinfo t = iinfo s" "ic_intno (ictrl t cp) = ic_intno (ictrl s cp)"
proof -
  have "dw_iic_regs (ictrl (iic_calm cp t) cp) = dw_iic_regs (ictrl (iic_calm cp s) cp)" "iinfo (iic_calm cp t) = iinfo (iic_calm cp s)"
    "ic_intno (ictrl (iic_calm cp t) cp) = ic_intno (ictrl (iic_calm cp s) cp)"
    by (simp_all only: assms)
  then show "dw_iic_regs (ictrl t cp) = dw_iic_regs (ictrl s cp)" "iinfo t = iinfo s" "ic_intno (ictrl t cp) = ic_intno (ictrl s cp)"
    by (simp_all add: iic_calm_def)
qed

lemma masked_from_trans: "masked_from cp base s t \<Longrightarrow> masked_from cp base t u \<Longrightarrow> masked_from cp base s u"
  by (simp add: masked_from_def)

lemma dis_cbr_masks:
  assumes "cp = iic_ctrl (iinfo s obj)" "base = dw_iic_regs (ictrl s cp)"
  shows "masked_from cp base s (snd (run_state (dw_iic_dis_cbr p obj k) s))"
  using assms by (auto simp: dw_iic_dis_cbr_def dw_iic_mst_dis_cbr_def dw_iic_slv_dis_cbr_def iic_dis_sources_def
      iic_int_sources_def dw_iic_mask_interrupt_def masked_from_def iic_calm_def int_disable_def arc_int_disable_def
      Let_def and.assoc split: option.splits)

lemma disable_interrupt_masks:
  assumes "cp = iic_ctrl (iinfo s obj)" "base = dw_iic_regs (ictrl s cp)"
  shows "\<exists>t. run_state (dw_iic_disable_interrupt p obj) s = ((), t) \<and> masked_from cp base s t \<and> ic_int_status (ictrl t cp) AND 7 = 0"
proof -
  define t where "t = snd (run_state (dw_iic_dis_cbr p obj DW_IIC_RDY_SND) s)"
  define u where "u = snd (run_state (dw_iic_dis_cbr p obj DW_IIC_RDY_RCV) t)"
  have t: "masked_from cp base s t" unfolding t_def by (rule dis_cbr_masks [OF assms])
  then have k: "iinfo t = iinfo s" "dw_iic_regs (ictrl t cp) = base" using iic_calm_keeps [of cp t s] assms by (simp_all add: masked_from_def)
  have u: "masked_from cp base s u"
    using masked_from_trans [OF t dis_cbr_masks [of cp t obj base p DW_IIC_RDY_RCV]] k assms by (simp add: u_def)
  then have "iinfo u = iinfo s" using iic_calm_keeps [of cp u s] by (simp add: masked_from_def)
  moreover have d: "run_state (dw_iic_dis_cbr p obj DW_IIC_RDY_SND) s = ((), t)" "run_state (dw_iic_dis_cbr p obj DW_IIC_RDY_RCV) t = ((), u)"
    by (simp_all add: t_def u_def prod_eq_iff)
  ultimately show ?thesis using u assms
    by (auto simp: dw_iic_disable_interrupt_def masked_from_def iic_calm_def int_disable_def arc_int_disable_def Let_def and.assoc)
qed

lemma disable_loop_run:
  "\<exists>h. run_state (iic_disable_loop n p base) s = ((), s\<lparr>hist := h\<rparr>)
    \<and> (\<forall>a. a \<noteq> base + IC_ENABLE \<longrightarrow> mmio_last a h = mmio_last a (hist s)) \<and> (0 < n \<or> mmio_last (base + IC_ENABLE) (hist s) = 0 \<longrightarrow> mmio_last (base + IC_ENABLE) h = 0)"
proof (induction n arbitrary: s)
  case 0
  show ?case by (intro exI [of _ "hist s"]) simp
next
  case (Suc n)
  let ?v = "mmio_in p (Mmio_wr (base + IC_ENABLE) 0 # hist s) (base + IC_ENABLE_STATUS)"
  let ?t = "s\<lparr>hist := Mmio_rd (base + IC_ENABLE_STATUS) ?v # Mmio_wr (base + IC_ENABLE) 0 # hist s\<rparr>"
  from Suc.IH [of ?t] show ?case by (cases "?v AND 1 = 0") (auto simp: dw_iic_disable_def)
qed

subsection \<open>The first open\<close>

lemma set_timing_run:
  assumes "ic_clkhz (ictrl s cp) div 1000 = clk" "0 < clk" "clk \<le> 1000000"
  shows "\<exists>k c. run_state (iic_set_timing cp) s
      = (Inr (), s\<lparr>ictrl := (ictrl s)(cp := (ictrl s cp)\<lparr>iic_spklen := k, iic_scl_cnt := c\<rparr>)\<rparr>) \<and> timing_ok clk (ic_caploading (ictrl s cp)) k c"
proof -
  obtain k c where k: "dw_iic_calc_spklen clk = Inr k" "dw_iic_calc_sclcnt clk (ic_caploading (ictrl s cp)) k = Inr c"
    "timing_ok clk (ic_caploading (ictrl s cp)) k c"
    using timing_holds [OF assms(2,3)] by blast
  then show ?thesis using assms(1) by (intro exI [of _ k] exI [of _ c]) (simp add: iic_set_timing_def)
qed

lemma wp_disable_interrupt:
  assumes "\<And>t. masked_from (iic_ctrl (iinfo s obj)) (iic_regs s obj) s t
      \<Longrightarrow> ic_int_status (ictrl t (iic_ctrl (iinfo s obj))) AND 7 = 0 \<Longrightarrow> Q () t"
  shows "wp (dw_iic_disable_interrupt p obj) Q s"
  using disable_interrupt_masks [OF refl refl, of p obj s] assms by (auto simp: wp_def iic_regs_def)

lemma wp_disable_loop:
  assumes "\<And>h. (\<And>a. a \<noteq> base + IC_ENABLE \<Longrightarrow> mmio_last a h = mmio_last a (hist s))
      \<Longrightarrow> (0 < n \<Longrightarrow> mmio_last (base + IC_ENABLE) h = 0) \<Longrightarrow> Q () (s\<lparr>hist := h\<rparr>)"
  shows "wp (iic_disable_loop n p base) Q s"
proof -
  obtain h where h: "run_state (iic_disable_loop n p base) s = ((), s\<lparr>hist := h\<rparr>)"
    "\<And>a. a \<noteq> base + IC_ENABLE \<Longrightarrow> mmio_last a h = mmio_last a (hist s)" "0 < n \<Longrightarrow> mmio_last (base + IC_ENABLE) h = 0"
    using disable_loop_run [of n p base s] by blast
  show ?thesis unfolding wp_def h(1) fst_conv snd_conv using assms [OF h(2,3)] by simp
qed

lemma install_run: "\<exists>x v. run_state (int_handler_install p k h) s = (x, s\<lparr>exc_int_handler_table := v\<rparr>)"
  by (auto simp: int_handler_install_def exc_handler_install_def intro: exI [of _ "exc_int_handler_table s"])

lemma wp_install: "(\<And>x v. Q x (s\<lparr>exc_int_handler_table := v\<rparr>)) \<Longrightarrow> wp (int_handler_install p k h) Q s"
  using install_run [of p k h s] by (auto simp: wp_def)

lemma masked_from_keeps:
  assumes "masked_from cp base s t"
  shows "iinfo t = iinfo s" "dw_iic_regs (ictrl t cp) = dw_iic_regs (ictrl s cp)" "a \<noteq> base + IC_INTR_MASK \<Longrightarrow> mmio_last a (hist t) = mmio_last a (hist s)"
  using assms iic_calm_keeps [of cp t s] by (simp_all add: masked_from_def)

text \<open>What \<open>L\<close>, the last store to each register, is once a master is programmed.\<close>

definition master_programmed :: "u32 \<Rightarrow> u32 \<Rightarrow> dev_iic_info \<Rightarrow> dw_iic_spklen \<Rightarrow> dw_iic_scl_cnt \<Rightarrow> (u32 \<Rightarrow> u32) \<Rightarrow> bool" where
  "master_programmed base speed i k c L \<longleftrightarrow> L (base + IC_ENABLE) = 1 \<and> L (base + IC_TAR) = ii_tar_addr i AND IC_TAR_10BIT_ADDR_MASK
     \<and> L (base + IC_CON) = dw_iic_select_speedmode speed OR IC_CON_ENA_MASTER_MODE OR IC_CON_RESTART_EN
          OR (if ii_addr_mode i = IIC_10BIT_ADDRESS then MST_10_BIT_ADDR_MODE else 0)
     \<and> map (\<lambda>(r, t). L (base + r)) (scl_times_ns 0)
        = [ss_scl_hcnt c, ss_scl_lcnt c, fs_scl_hcnt c, fs_scl_lcnt c, hs_scl_hcnt c, hs_scl_lcnt c, fs_spklen k, hs_spklen k]"

lemma master_init_run:
  assumes "base = dw_iic_regs (ictrl s cp)" "k = iic_spklen (ictrl s cp)" "c = iic_scl_cnt (ictrl s cp)"
  shows "\<exists>h. run_state (dw_iic_master_init cp speed (ii_addr_mode i) (ii_tar_addr i)) s = ((), s\<lparr>hist := h\<rparr>)
    \<and> master_programmed base speed i k c (\<lambda>a. mmio_last a h)"
  using assms by (intro exI [of _ "hist (snd (run_state (dw_iic_master_init cp speed (ii_addr_mode i) (ii_tar_addr i)) s))"])
    (simp add: dw_iic_master_init_def dw_iic_set_spike_len_def dw_iic_set_scl_cnt_def dw_iic_disable_def dw_iic_enable_def
      Let_def master_programmed_def scl_times_ns_def or.assoc)

lemma init_master:
  assumes "cp = iic_ctrl (iinfo s obj)" "base = dw_iic_regs (ictrl s cp)" "i = iinfo s obj" "k = iic_spklen (ictrl s cp)" "c = iic_scl_cnt (ictrl s cp)"
  shows "wp (iic_init_device p obj cp DEV_MASTER_MODE speed) (\<lambda>r t. r = E_OK
     \<and> iinfo t = (iinfo s)(obj := clear_iic_bufs_cbs (i\<lparr>ii_speed_mode := speed, ii_status := DEV_ENABLED, ii_cur_state := IIC_FREE,
         ii_err_state := IIC_ERR_NONE, ii_next_cond := IIC_MODE_STOP, ii_extra := 0\<rparr>))
     \<and> ic_int_status (ictrl t cp) AND 7 = 0 \<and> master_programmed base speed i k c (\<lambda>a. mmio_last a (hist t))) s"
proof -
  let ?i = "i\<lparr>ii_status := ii_status i AND NOT DEV_ENABLED, ii_speed_mode := speed\<rparr>"
  obtain h where h: "run_state (iic_disable_loop DW_IIC_DISABLE_MAX_T_POLL_CNT p base) s = ((), s\<lparr>hist := h\<rparr>)"
    using disable_loop_run by blast
  let ?s = "s\<lparr>hist := h, iinfo := (iinfo s)(obj := ?i)\<rparr>"
  obtain h' where m: "run_state (dw_iic_master_init cp speed (ii_addr_mode i) (ii_tar_addr i)) ?s = ((), ?s\<lparr>hist := h'\<rparr>)"
    "master_programmed base speed i k c (\<lambda>a. mmio_last a h')"
    using master_init_run [of base ?s cp k c speed i] assms by auto
  let ?u = "s\<lparr>hist := h', iinfo := (iinfo s)(obj := ?i\<lparr>ii_status := DEV_ENABLED, ii_cur_state := IIC_FREE, ii_err_state := IIC_ERR_NONE,
       ii_next_cond := IIC_MODE_STOP, ii_extra := 0\<rparr>), ictrl := (ictrl s)(cp := (ictrl s cp)\<lparr>iic_tx_over := 0, iic_rx_over := 0,
       ic_int_status := 0, dw_iic_rxbuf := \<lparr>rb_buf = obj, rb_ofs = 0, rb_len = 0\<rparr>\<rparr>)\<rparr>"
  obtain u where u: "run_state (dw_iic_disable_interrupt p obj) ?u = ((), u)" "masked_from cp base ?u u" "ic_int_status (ictrl u cp) AND 7 = 0"
    using disable_interrupt_masks [of cp ?u obj base p] assms by auto
  have "master_programmed base speed i k c (\<lambda>a. mmio_last a (hist u))"
    using m(2) masked_from_keeps(3) [OF u(2)] by (simp add: master_programmed_def scl_times_ns_def)
  moreover obtain x v where "run_state (int_handler_install p (ic_intno (ictrl u cp)) (dw_iic_int_handler (ictrl u cp))) u = (x, u\<lparr>exc_int_handler_table := v\<rparr>)"
    using install_run by blast
  ultimately show ?thesis using h m(1) u assms masked_from_keeps(1) [OF u(2)]
    by (simp add: wp_def iic_init_device_def dw_iic_disable_device_def Let_def clear_iic_bufs_cbs_def iic_regs_def split_def del: iic_disable_loop.simps)
qed

lemma open_fields_run:
  assumes "i = iinfo s obj" "ii_opn_cnt i = 0"
  shows "\<exists>h tx rx. run_state (iic_open_fields p obj mode) s = (iic_ctrl i, s\<lparr>hist := h,
     iinfo := (iinfo s)(obj := iic_mask_addrs (i\<lparr>ii_opn_cnt := 1, ii_mode := mode\<rparr>)),
     ictrl := (ictrl s)(iic_ctrl i := (ictrl s (iic_ctrl i))\<lparr>ic_tx_fifo_len := tx, ic_rx_fifo_len := rx\<rparr>)\<rparr>)"
  using assms
  by (intro exI [of _ "hist (snd (run_state (iic_open_fields p obj mode) s))"]
      exI [of _ "ic_tx_fifo_len (ictrl (snd (run_state (iic_open_fields p obj mode) s)) (iic_ctrl i))"]
      exI [of _ "ic_rx_fifo_len (ictrl (snd (run_state (iic_open_fields p obj mode) s)) (iic_ctrl i))"])
    (simp add: iic_open_fields_def dw_iic_get_txfifo_len_def dw_iic_get_rxfifo_len_def Let_def iic_mask_addrs_def)

text \<open>
  The first open of a device as a master, on a clock of at most 1 GHz, succeeds and programs the
  controller: on its clock every high and low phase and every spike filter lasts at least the time
  of the bus specification, with a count that fits its 16-bit register, the target address is
  masked to the address mode, the control register has the speed, master and restart bits, and the
  controller is enabled with the transfer interrupts off. The object is then open, enabled and idle.
\<close>

theorem iic_master_open_programs:
  assumes v: "iic_valid s obj" and i: "i = iinfo s obj" "ii_opn_cnt i = 0" and c: "c = ictrl s (iic_ctrl i)"
    and ok: "ic_support_modes c AND DW_IIC_MASTER_SUPPORTED \<noteq> 0" "speed \<le> IIC_SPEED_ULTRA"
    and clk: "clk = ic_clkhz c div 1000" "0 < clk" "clk \<le> 1000000" and base: "base = dw_iic_regs c"
    and addr: "addr = ii_tar_addr i AND (if ii_addr_mode i = IIC_7BIT_ADDRESS then IIC_7BIT_ADDRESS_MASK else IIC_10BIT_ADDRESS_MASK)"
  shows "\<exists>t. run_state (dw_iic_open p obj DEV_MASTER_MODE speed) s = (Inr E_OK, t)
    \<and> list_all (\<lambda>(r, ns). lasts clk ns (mmio_last (base + r) (hist t))) (scl_times_ns (ic_caploading c))
    \<and> mmio_last (base + IC_TAR) (hist t) = addr \<and> mmio_last (base + IC_ENABLE) (hist t) = 1
    \<and> mmio_last (base + IC_CON) (hist t) = dw_iic_select_speedmode speed OR IC_CON_ENA_MASTER_MODE OR IC_CON_RESTART_EN
        OR (if ii_addr_mode i = IIC_7BIT_ADDRESS then 0 else MST_10_BIT_ADDR_MODE)
    \<and> ic_int_status (ictrl t (iic_ctrl i)) AND 7 = 0
    \<and> ii_opn_cnt (iinfo t obj) = 1 \<and> ii_status (iinfo t obj) = DEV_ENABLED \<and> ii_mode (iinfo t obj) = DEV_MASTER_MODE
    \<and> ii_speed_mode (iinfo t obj) = speed \<and> ii_cur_state (iinfo t obj) = IIC_FREE \<and> ii_tar_addr (iinfo t obj) = addr"
proof -
  define j where "j = iic_mask_addrs (i\<lparr>ii_opn_cnt := 1, ii_mode := DEV_MASTER_MODE\<rparr>)"
  have j: "iic_ctrl j = iic_ctrl i" "ii_tar_addr j = addr" "ii_tar_addr j AND IC_TAR_10BIT_ADDR_MASK = addr"
    "ii_addr_mode j = (if ii_addr_mode i = IIC_7BIT_ADDRESS then IIC_7BIT_ADDRESS else IIC_10BIT_ADDRESS)" "ii_opn_cnt j = 1" "ii_mode j = DEV_MASTER_MODE"
    by (simp_all add: j_def iic_mask_addrs_def addr and.assoc)
  obtain h tx rx where o1: "run_state (iic_open_fields p obj DEV_MASTER_MODE) s = (iic_ctrl i, s\<lparr>hist := h, iinfo := (iinfo s)(obj := j),
     ictrl := (ictrl s)(iic_ctrl i := c\<lparr>ic_tx_fifo_len := tx, ic_rx_fifo_len := rx\<rparr>)\<rparr>)" (is "_ = (_, ?t)")
    using open_fields_run [OF i] unfolding j_def c by blast
  obtain k n where o2: "run_state (iic_set_timing (iic_ctrl i)) ?t = (Inr (), ?t\<lparr>ictrl := (ictrl ?t)(iic_ctrl i := (ictrl ?t (iic_ctrl i))\<lparr>iic_spklen := k, iic_scl_cnt := n\<rparr>)\<rparr>)"
    "timing_ok clk (ic_caploading c) k n"
    using set_timing_run [of ?t "iic_ctrl i" clk] clk by auto
  let ?u = "?t\<lparr>ictrl := (ictrl ?t)(iic_ctrl i := (ictrl ?t (iic_ctrl i))\<lparr>iic_spklen := k, iic_scl_cnt := n\<rparr>)\<rparr>"
  obtain r t where o3: "run_state (iic_init_device p obj (iic_ctrl i) DEV_MASTER_MODE speed) ?u = (r, t)" by fastforce
  from wpD [OF init_master [of "iic_ctrl i" ?u obj base j k n] o3]
  have t: "r = E_OK" "iinfo t obj = clear_iic_bufs_cbs (j\<lparr>ii_speed_mode := speed, ii_status := DEV_ENABLED, ii_cur_state := IIC_FREE,
         ii_err_state := IIC_ERR_NONE, ii_next_cond := IIC_MODE_STOP, ii_extra := 0\<rparr>)" "ic_int_status (ictrl t (iic_ctrl i)) AND 7 = 0"
    "master_programmed base speed j k n (\<lambda>a. mmio_last a (hist t))"
    using j(1) base by simp_all
  have "run_state (dw_iic_open p obj DEV_MASTER_MODE speed) s = (Inr E_OK, t)"
    using v i(2) ok o1 o2(1) o3 t(1) by (simp add: dw_iic_open_def i(1) [symmetric] c [symmetric] Let_def iic_first_open_def)
  moreover have "list_all (\<lambda>(r, ns). lasts clk ns (mmio_last (base + r) (hist t))) (scl_times_ns (ic_caploading c))"
    using t(4) o2(2) by (simp add: master_programmed_def timing_ok_def scl_times_ns_def)
  ultimately show ?thesis using t j by (simp add: master_programmed_def clear_iic_bufs_cbs_def)
qed

lemma iic_master_open_programs_witness:
  "\<exists>t. run_state (dw_iic_open (iic_plat1 2) 0x100 0 1) (iic_mach1\<lparr>iinfo := \<lambda>_. iic_info1\<lparr>ii_opn_cnt := 0\<rparr>\<rparr>) = (Inr E_OK, t)
    \<and> lasts 50000 600 (mmio_last 0xF000401c (hist t)) \<and> mmio_last 0xF0004004 (hist t) = 0x48"
  (is "\<exists>t. run_state _ ?s = _ \<and> _")
proof -
  have v: "iic_valid ?s 0x100" "ii_opn_cnt (iinfo ?s 0x100) = 0" by (simp_all add: iic_valid_def iic_info1_def)
  have c: "ictrl ?s (iic_ctrl (iinfo ?s 0x100)) = iic_ctrl1" by (simp add: iic_mach1_def)
  from iic_master_open_programs [OF v(1) refl v(2) refl _ _ refl _ _ refl refl, of 1 "iic_plat1 2", unfolded c]
  show ?thesis by (auto simp: iic_ctrl1_def iic_info1_def scl_times_ns_def)
qed

end
