(* ===== verification/IicInv.thy ===== *)
theory IicInv
  imports IicLife
begin

section \<open>Invariants of the IIC devices\<close>

text \<open>
  The enumerated fields of every device stay in their enumerations whatever sequence of calls and
  interrupts an application makes, the open count is that of \<open>counted_device\<close>, and the last
  close leaves the device idle.
\<close>

subsection \<open>Properties of the device objects\<close>

definition iinfo_inv :: "((u32 \<Rightarrow> dev_iic_info) \<Rightarrow> bool) \<Rightarrow> 'a iic_mach_scheme \<Rightarrow> bool" where
  "iinfo_inv R s \<longleftrightarrow> R (iinfo s)"

lemma iinfo_inv_hist_only:
  fixes m :: "('a, 'r) iop"
  assumes "hist_only m"
  shows "preserves (iinfo_inv R) m"
proof (rule preservesI)
  fix s :: "'a iic_mach_scheme" assume "iinfo_inv R s"
  moreover obtain h where "snd (run_state m s) = s\<lparr>hist := h @ hist s\<rparr>" using hist_onlyE [OF assms] by metis
  ultimately show "wp m (\<lambda>_. iinfo_inv R) s" by (simp add: wp_def iinfo_inv_def)
qed

lemma iinfo_inv_heap [intro!]:
  "preserves (iinfo_inv R) (get_iinfo obj)" "preserves (iinfo_inv R) (get_ictrl c)" "preserves (iinfo_inv R) (upd_ictrl c g)"
  "preserves (iinfo_inv R) (ld8 a)" "preserves (iinfo_inv R) (st8 a b)" "preserves (iinfo_inv R) (st32 a v)"
  by (simp_all add: preserves_def wp_rules iinfo_inv_def)

lemma iinfo_inv_install [intro!]: "preserves (iinfo_inv R) (int_handler_install p k h)"
  by (rule preservesI, rule wp_install) (simp add: iinfo_inv_def)

lemma iinfo_inv_upd: "(\<And>x. R x \<Longrightarrow> R (x(obj := f (x obj)))) \<Longrightarrow> preserves (iinfo_inv R) (upd_iinfo obj f)"
  by (auto simp: preserves_def wp_rules iinfo_inv_def)

lemma hist_only_iic [intro!]:
  "hist_only (mmio_touch p a)" "hist_only (dw_iic_disable base)" "hist_only (dw_iic_enable base)" "hist_only (dw_iic_clear_interrupt_all p base)"
  "hist_only (dw_iic_putready p base)" "hist_only (dw_iic_getready p base)" "hist_only (dw_iic_putdata base d)" "hist_only (dw_iic_getdata p base)"
  "hist_only (dw_iic_unmask_interrupt p base m)" "hist_only (dw_iic_mask_interrupt p base m)" "hist_only (dw_iic_get_txfifo_len p base)"
  "hist_only (dw_iic_get_rxfifo_len p base)" "hist_only (dw_iic_flush_tx p base)" "hist_only (dw_iic_flush_rx base)"
  "hist_only (int_disable p k)" "hist_only (int_enable p k)"
  unfolding mmio_touch_def dw_iic_disable_def dw_iic_enable_def dw_iic_clear_interrupt_all_def dw_iic_putready_def dw_iic_getready_def
    dw_iic_putdata_def dw_iic_getdata_def dw_iic_unmask_interrupt_def dw_iic_mask_interrupt_def dw_iic_get_txfifo_len_def
    dw_iic_get_rxfifo_len_def dw_iic_flush_tx_def dw_iic_flush_rx_def
  by (auto simp: int_disable_def int_enable_def arc_int_disable_def arc_int_enable_def)

lemma hist_only_iic_ops [intro!]:
  "hist_only (dw_iic_set_mstaddr_mode p base m)" "hist_only (dw_iic_set_slvaddr_mode p base m)" "hist_only (dw_iic_set_taraddr p base a)"
  "hist_only (dw_iic_set_slvaddr p base a)" "hist_only (dw_iic_set_speedmode p base m)" "hist_only (dw_iic_set_scl_cnt base c)"
  "hist_only (dw_iic_set_spike_len base k)" "hist_only (iic_disable_loop n p base)" "hist_only (dw_iic_get_slv_state p base)"
proof -
  show "hist_only (iic_disable_loop n p base)" by (induction n) auto
  show "hist_only (dw_iic_get_slv_state p base)" unfolding dw_iic_get_slv_state_def Let_def by (auto simp: split_def)
qed (unfold dw_iic_set_mstaddr_mode_def dw_iic_set_slvaddr_mode_def dw_iic_set_taraddr_def dw_iic_set_slvaddr_def
  dw_iic_set_speedmode_def dw_iic_set_scl_cnt_def dw_iic_set_spike_len_def Let_def, auto)

lemmas iinfo_inv_access [intro!] =
  hist_only_prim [THEN iinfo_inv_hist_only] hist_only_iic [THEN iinfo_inv_hist_only] hist_only_iic_ops [THEN iinfo_inv_hist_only]

lemma iinfo_inv_ctrl [intro!]:
  "preserves (iinfo_inv R) (iic_count_overruns p cp base st)" "preserves (iinfo_inv R) (dw_iic_mst_chkerr p cp)"
  "preserves (iinfo_inv R) (dw_iic_slv_chkerr p cp)" "preserves (iinfo_inv R) (iic_dis_sources p b cp k)"
  "preserves (iinfo_inv R) (iic_ena_sources p b cp k)" "preserves (iinfo_inv R) (dw_iic_get_txavail p cp)"
  "preserves (iinfo_inv R) (dw_iic_get_rxavail p cp)" "preserves (iinfo_inv R) (iic_set_timing cp)"
  "preserves (iinfo_inv R) (dw_iic_master_init cp sm am ta)" "preserves (iinfo_inv R) (dw_iic_slave_init cp am sa)"
proof -
  show o: "preserves (iinfo_inv R) (iic_count_overruns p cp base st)" for cp base st unfolding iic_count_overruns_def by auto
  show "preserves (iinfo_inv R) (dw_iic_mst_chkerr p cp)" "preserves (iinfo_inv R) (dw_iic_slv_chkerr p cp)"
    unfolding dw_iic_mst_chkerr_def dw_iic_slv_chkerr_def Let_def by (auto intro!: o)
  show "preserves (iinfo_inv R) (iic_dis_sources p b cp k)" "preserves (iinfo_inv R) (iic_ena_sources p b cp k)"
    unfolding iic_dis_sources_def iic_ena_sources_def by (auto split: option.split)
  show "preserves (iinfo_inv R) (iic_set_timing cp)" unfolding iic_set_timing_def by (auto split: sum.split)
qed (unfold dw_iic_get_txavail_def dw_iic_get_rxavail_def dw_iic_master_init_def dw_iic_slave_init_def Let_def, auto)

lemma iinfo_inv_ints [intro!]:
  "preserves (iinfo_inv R) (dw_iic_dis_cbr p obj k)" "preserves (iinfo_inv R) (dw_iic_ena_cbr p obj k)"
  "preserves (iinfo_inv R) (dw_iic_disable_interrupt p obj)"
proof -
  show d: "preserves (iinfo_inv R) (dw_iic_dis_cbr p obj k)" for k
    unfolding dw_iic_dis_cbr_def dw_iic_mst_dis_cbr_def dw_iic_slv_dis_cbr_def Let_def by auto
  show "preserves (iinfo_inv R) (dw_iic_ena_cbr p obj k)"
    unfolding dw_iic_ena_cbr_def dw_iic_mst_ena_cbr_def dw_iic_slv_ena_cbr_def Let_def by auto
  show "preserves (iinfo_inv R) (dw_iic_disable_interrupt p obj)"
    unfolding dw_iic_disable_interrupt_def Let_def by (auto intro!: d)
qed

subsection \<open>The enumerated fields\<close>

definition typed_info :: "dev_iic_info \<Rightarrow> bool" where
  "typed_info i \<longleftrightarrow> ii_mode i \<le> DEV_SLAVE_MODE \<and> ii_speed_mode i \<le> IIC_SPEED_ULTRA \<and> ii_cur_state i \<le> IIC_IN_RX
     \<and> ii_err_state i \<le> IIC_ERR_UNDEF \<and> ii_addr_mode i \<le> IIC_10BIT_ADDRESS \<and> ii_tar_addr i \<le> IIC_10BIT_ADDRESS_MASK
     \<and> ii_next_cond i \<le> IIC_MODE_RESTART"

abbreviation iic_typed :: "'a iic_mach_scheme \<Rightarrow> bool" where
  "iic_typed \<equiv> iinfo_inv (\<lambda>x. \<forall>obj. typed_info (x obj))"

lemma typed_upd: "(\<And>i. typed_info i \<Longrightarrow> typed_info (f i)) \<Longrightarrow> preserves iic_typed (upd_iinfo obj f)"
  by (rule iinfo_inv_upd) auto

lemma typed_same [intro!]:
  assumes "\<And>i. ii_mode (f i) = ii_mode i \<and> ii_speed_mode (f i) = ii_speed_mode i \<and> ii_cur_state (f i) = ii_cur_state i
    \<and> ii_err_state (f i) = ii_err_state i \<and> ii_addr_mode (f i) = ii_addr_mode i \<and> ii_tar_addr (f i) = ii_tar_addr i \<and> ii_next_cond (f i) = ii_next_cond i"
  shows "preserves iic_typed (upd_iinfo obj f)"
  using assms by (intro typed_upd) (simp add: typed_info_def)

lemma typed_fields [intro!]:
  "st \<le> IIC_IN_RX \<Longrightarrow> preserves iic_typed (upd_iinfo obj (\<lambda>i. i\<lparr>ii_cur_state := st\<rparr>))"
  "e \<le> IIC_ERR_UNDEF \<Longrightarrow> preserves iic_typed (upd_iinfo obj (\<lambda>i. i\<lparr>ii_err_state := e\<rparr>))"
  "m \<le> IIC_10BIT_ADDRESS \<Longrightarrow> preserves iic_typed (upd_iinfo obj (\<lambda>i. i\<lparr>ii_addr_mode := m\<rparr>))"
  "a \<le> IIC_10BIT_ADDRESS_MASK \<Longrightarrow> preserves iic_typed (upd_iinfo obj (\<lambda>i. i\<lparr>ii_tar_addr := a\<rparr>))"
  "v \<le> IIC_SPEED_ULTRA \<Longrightarrow> preserves iic_typed (upd_iinfo obj (\<lambda>i. i\<lparr>ii_speed_mode := v\<rparr>))"
  "c \<le> IIC_MODE_RESTART \<Longrightarrow> preserves iic_typed (upd_iinfo obj (\<lambda>i. i\<lparr>ii_next_cond := c\<rparr>))"
  by (rule typed_upd, simp add: typed_info_def)+

text \<open>Programs whose value is an error of the enumeration.\<close>

definition gives :: "('r \<Rightarrow> bool) \<Rightarrow> ('s, 'r) state \<Rightarrow> bool" where
  "gives P m \<longleftrightarrow> (\<forall>s. P (fst (run_state m s)))"

lemma gives_bind [intro!]: "(\<And>x. gives P (f x)) \<Longrightarrow> gives P (State_Monad.bind m f)"
  by (simp add: gives_def split_def)

lemma gives_simps [simp]: "gives P (State_Monad.return x) = P x" "gives Q (retE y) = Q (Inr y)" "gives Q (stopE w) = Q (Inl w)"
  by (simp_all add: gives_def)

lemma gives_if [intro!]: "(b \<Longrightarrow> gives P m) \<Longrightarrow> (\<not> b \<Longrightarrow> gives P n) \<Longrightarrow> gives P (if b then m else n)"
  by simp

lemma preserves_bind_gives:
  "preserves I m \<Longrightarrow> gives P m \<Longrightarrow> (\<And>x. P x \<Longrightarrow> preserves I (f x)) \<Longrightarrow> preserves I (State_Monad.bind m f)"
  by (simp add: preserves_def wp_bind) (simp add: wp_def gives_def)

definition good_err :: "s32 \<Rightarrow> bool" where
  "good_err e \<longleftrightarrow> e \<le> IIC_ERR_UNDEF"

lemma good_errs [simp]: "good_err 0" "good_err 1" "good_err 2" "good_err 3" "good_err 4" "good_err 5" "good_err 6"
  by (simp_all add: good_err_def)

lemma gives_chkerr [intro!]: "gives good_err (dw_iic_mst_chkerr p cp)" "gives good_err (dw_iic_slv_chkerr p cp)"
proof -
  show "gives good_err (dw_iic_mst_chkerr p cp)" unfolding dw_iic_mst_chkerr_def Let_def by auto
  have "gives good_err (State_Monad.bind (do {
         src \<leftarrow> mmio_rd p a;
         if src AND x \<noteq> 0 then State_Monad.return IIC_ERR_LOST_BUS
         else if src AND y \<noteq> 0 then do { mmio_touch p a; State_Monad.return IIC_ERR_NONE } else State_Monad.return IIC_ERR_UNDEF })
       (\<lambda>e. do { mmio_touch p b; State_Monad.return e }))" for a b x y
    by (auto simp: gives_def split_def)
  then show "gives good_err (dw_iic_slv_chkerr p cp)"
    by (auto simp: gives_def split_def dw_iic_slv_chkerr_def Let_def)
qed

text \<open>The same for programs that may not return.\<close>

abbreviation givesE :: "('r \<Rightarrow> bool) \<Rightarrow> ('s, 'r res) state \<Rightarrow> bool" where
  "givesE P \<equiv> gives (\<lambda>r. \<forall>x. r = Inr x \<longrightarrow> P x)"

lemma givesE_bindE [intro!]: "(\<And>x. givesE P (f x)) \<Longrightarrow> givesE P (bindE m f)"
  by (simp add: gives_def split_def split: sum.split)

lemma givesE_bindE_val: "givesE A m \<Longrightarrow> (\<And>x. A x \<Longrightarrow> givesE P (f x)) \<Longrightarrow> givesE P (bindE m f)"
  by (auto simp: gives_def split_def split: sum.splits) blast

lemma givesE_liftE [intro!]: "gives P m \<Longrightarrow> givesE P (liftE m)"
  by (simp add: gives_def split_def)

lemma gives_bind_val: "gives A m \<Longrightarrow> (\<And>x. A x \<Longrightarrow> gives P (f x)) \<Longrightarrow> gives P (State_Monad.bind m f)"
  by (simp add: gives_def split_def)

lemma gives_waits [intro!]:
  "givesE good_err (iic_mst_wait n p cp ready)" "gives good_err (iic_slv_tx_wait n p cp base)" "gives good_err (iic_slv_rx_wait n p cp base)"
proof -
  show "givesE good_err (iic_mst_wait n p cp ready)"
    by (induction n) (auto intro!: gives_bind_val [OF gives_chkerr(1)])
  show "gives good_err (iic_slv_tx_wait n p cp base)"
    by (induction n) (auto intro!: gives_bind_val [OF gives_chkerr(2)])
  show "gives good_err (iic_slv_rx_wait n p cp base)"
    by (induction n) (auto intro!: gives_bind_val [OF gives_chkerr(2)])
qed

lemma gives_bytes [intro!]:
  "givesE good_err (dw_iic_mst_write_data p cp v cond)" "gives good_err (dw_iic_slv_write_data p cp v)"
  "givesE (\<lambda>r. good_err (fst r)) (dw_iic_mst_read_data p cp cond)" "gives (\<lambda>r. good_err (fst r)) (dw_iic_slv_read_data p cp)"
proof -
  note e = givesE_bindE_val [OF gives_waits(1)] gives_bind_val [OF gives_waits(2)] gives_bind_val [OF gives_waits(3)]
    gives_bind gives_if givesE_bindE givesE_liftE
  show "givesE good_err (dw_iic_mst_write_data p cp v cond)" unfolding dw_iic_mst_write_data_def Let_def by (intro e; simp)
  show "givesE (\<lambda>r. good_err (fst r)) (dw_iic_mst_read_data p cp cond)" unfolding dw_iic_mst_read_data_def Let_def by (intro e; simp)
  show "gives good_err (dw_iic_slv_write_data p cp v)" unfolding dw_iic_slv_write_data_def Let_def by (intro e; simp)
  show "gives (\<lambda>r. good_err (fst r)) (dw_iic_slv_read_data p cp)" unfolding dw_iic_slv_read_data_def Let_def by (intro e; simp)
qed

lemma gives_store [intro!]: "good_err (fst r) \<Longrightarrow> gives good_err (iic_store_byte a r)"
  by (auto simp: iic_store_byte_def split_def)

lemma gives_byte_loop:
  fixes xfer :: "s32 \<Rightarrow> ('a, s32 res) iop"
  assumes "\<And>i. givesE good_err (xfer i)"
  shows "givesE (\<lambda>r. good_err (fst r)) (iic_byte_loop n xfer i)"
proof (induction n arbitrary: i)
  case (Suc n)
  show ?case unfolding iic_byte_loop.simps
    by (rule givesE_bindE_val [OF assms], rule gives_if, simp, cases "inc32 i", simp, simp only: sum.case Suc)
qed simp

lemma gives_master_bytes:
  fixes xfer xfer_last :: "s32 \<Rightarrow> ('a, s32 res) iop"
  assumes "\<And>i. givesE good_err (xfer i)" "\<And>i. givesE good_err (xfer_last i)"
  shows "givesE (\<lambda>r. good_err (fst r)) (iic_master_bytes len xfer xfer_last)"
  unfolding iic_master_bytes_def split_def
  by (intro givesE_bindE_val [OF gives_byte_loop [OF assms(1)]] givesE_bindE_val [OF assms(2)] gives_if) (auto split: sum.split)

text \<open>What the device objects see of the transfers.\<close>

lemma iinfo_inv_bytes [intro!]:
  "preserves (iinfo_inv R) (dw_iic_mst_write_data p cp v cond)" "preserves (iinfo_inv R) (dw_iic_slv_write_data p cp v)"
  "preserves (iinfo_inv R) (dw_iic_mst_read_data p cp cond)" "preserves (iinfo_inv R) (dw_iic_slv_read_data p cp)"
  "preserves (iinfo_inv R) (iic_store_byte a r)"
proof -
  have "preserves (iinfo_inv R) (iic_mst_wait n p cp (dw_iic_putready p base))" "preserves (iinfo_inv R) (iic_mst_wait n p cp (dw_iic_getready p base))"
    "preserves (iinfo_inv R) (iic_slv_tx_wait n p cp base)" "preserves (iinfo_inv R) (iic_slv_rx_wait n p cp base)" for n base
    by (induction n) auto
  note w = this
  show "preserves (iinfo_inv R) (dw_iic_mst_write_data p cp v cond)" "preserves (iinfo_inv R) (dw_iic_mst_read_data p cp cond)"
    unfolding dw_iic_mst_write_data_def dw_iic_mst_read_data_def Let_def by (auto intro!: w simp del: iic_mst_wait.simps)
  show "preserves (iinfo_inv R) (dw_iic_slv_write_data p cp v)" "preserves (iinfo_inv R) (dw_iic_slv_read_data p cp)"
    unfolding dw_iic_slv_write_data_def dw_iic_slv_read_data_def Let_def by (auto intro!: w)
  show "preserves (iinfo_inv R) (iic_store_byte a r)" unfolding iic_store_byte_def split_def by auto
qed

lemma iinfo_inv_byte_loop: "(\<And>i. preserves (iinfo_inv R) (xfer i)) \<Longrightarrow> preserves (iinfo_inv R) (iic_byte_loop n xfer i)"
  by (induction n arbitrary: i) (auto split: sum.split)

lemma iinfo_inv_master_bytes:
  "(\<And>i. preserves (iinfo_inv R) (xfer i)) \<Longrightarrow> (\<And>i. preserves (iinfo_inv R) (xfer_last i)) \<Longrightarrow> preserves (iinfo_inv R) (iic_master_bytes len xfer xfer_last)"
  unfolding iic_master_bytes_def split_def
  by (intro preserves_bindE preserves_if iinfo_inv_byte_loop) (auto split: sum.split)

subsection \<open>Every operation keeps the fields typed\<close>

lemma typed_blocking:
  assumes "preserves iic_typed body" "givesE (\<lambda>r. good_err (fst r)) body"
  shows "preserves iic_typed (iic_blocking obj data len body)"
proof -
  have "preserves iic_typed (bindE body (\<lambda>(error_state, i). liftE (do {
         upd_iinfo obj (\<lambda>i. i\<lparr>ii_err_state := error_state\<rparr>);
         State_Monad.return i
       })))"
    unfolding bindE_def
  proof (rule preserves_bind_gives [OF assms], goal_cases)
    case (1 r)
    then show ?case by (cases r) (auto simp: good_err_def split_def)
  qed
  then show ?thesis unfolding iic_blocking_def by auto
qed

lemma typed_transfers: "preserves iic_typed (dw_iic_write p obj data len)" "preserves iic_typed (dw_iic_read p obj data len)"
proof -
  have b: "preserves iic_typed (do { v \<leftarrow> ld8 a; dw_iic_mst_write_data p cp (ucast v) cond })"
    "preserves iic_typed (do { v \<leftarrow> ld8 a; liftE (dw_iic_slv_write_data p cp (ucast v)) })"
    "preserves iic_typed (bindE (dw_iic_mst_read_data p cp cond) (\<lambda>r. liftE (iic_store_byte a r)))"
    "preserves iic_typed (do { r \<leftarrow> dw_iic_slv_read_data p cp; liftE (iic_store_byte a r) })" for a cp cond by auto
  have g: "givesE good_err (do { v \<leftarrow> ld8 a; dw_iic_mst_write_data p cp (ucast v) cond })"
    "givesE good_err (do { v \<leftarrow> ld8 a; liftE (dw_iic_slv_write_data p cp (ucast v)) })"
    "givesE good_err (bindE (dw_iic_mst_read_data p cp cond) (\<lambda>r. liftE (iic_store_byte a r)))"
    "givesE good_err (do { r \<leftarrow> dw_iic_slv_read_data p cp; liftE (iic_store_byte a r) })" for a cp cond
    by (intro gives_bind gives_bytes givesE_liftE givesE_bindE_val [OF gives_bytes(3)] gives_bind_val [OF gives_bytes(4)] gives_store; assumption?)+
  show "preserves iic_typed (dw_iic_write p obj data len)"
    unfolding dw_iic_write_def Let_def
    by (rule typed_blocking; intro b g preserves_bind preserves_if iinfo_inv_heap gives_bind gives_if
      iinfo_inv_byte_loop iinfo_inv_master_bytes gives_byte_loop gives_master_bytes)
  show "preserves iic_typed (dw_iic_read p obj data len)"
    unfolding dw_iic_read_def Let_def
    by (rule typed_blocking; intro b g preserves_bind preserves_if iinfo_inv_heap gives_bind gives_if
      iinfo_inv_byte_loop iinfo_inv_master_bytes gives_byte_loop gives_master_bytes)
qed

lemma typed_device [intro!]:
  "preserves iic_typed (dw_iic_enable_device obj)" "preserves iic_typed (dw_iic_disable_device p obj)"
  "preserves iic_typed (dw_iic_reset_device p obj)" "preserves iic_typed (iic_set_tx_buf obj param)"
  "preserves iic_typed (iic_set_rx_buf obj param)" "preserves iic_typed (iic_abort_done obj st)" "preserves iic_typed (clear_rx obj cp)"
proof -
  show e: "preserves iic_typed (dw_iic_enable_device obj)" "preserves iic_typed (dw_iic_disable_device p obj)"
    unfolding dw_iic_enable_device_def dw_iic_disable_device_def by auto
  have "preserves iic_typed (upd_iinfo obj (\<lambda>i. i\<lparr>ii_next_cond := IIC_MODE_STOP, ii_cur_state := IIC_FREE, ii_err_state := IIC_ERR_NONE\<rparr>))"
    by (rule typed_upd) (simp add: typed_info_def)
  then show "preserves iic_typed (dw_iic_reset_device p obj)" unfolding dw_iic_reset_device_def
    by (intro preserves_bind preserves_get e iinfo_inv_access iinfo_inv_heap)
qed (unfold iic_set_tx_buf_def iic_set_rx_buf_def iic_abort_done_def clear_rx_def Let_def, auto)

lemma typed_aborts:
  assumes "\<And>f a. preserves iic_typed (cb f a)"
  shows "preserves iic_typed (dw_iic_abort_tx p cb obj)" "preserves iic_typed (dw_iic_abort_rx p cb obj)"
  unfolding dw_iic_abort_tx_def dw_iic_abort_rx_def by (auto intro!: assms)

lemma addr_param_bound: "iic_addr_param i v \<le> IIC_10BIT_ADDRESS_MASK"
proof -
  have "v AND 0x7F \<le> 0x7F" "v AND 0x3FF \<le> 0x3FF" by (rule word_and_le1)+
  then show ?thesis by (auto simp: iic_addr_param_def intro: order_trans)
qed

lemmas typed_rules = preserves_bind preserves_bindE preserves_if preserves_c_if preserves_get preserves_return preserves_retE
  preserves_check_exp preserves_liftE typed_fields iinfo_inv_access iinfo_inv_heap iinfo_inv_ctrl iinfo_inv_ints typed_device

lemma typed_ok: "preserves iic_typed m \<Longrightarrow> preserves iic_typed (iic_ok m)"
  unfolding iic_ok_def by auto

lemma typed_command:
  assumes cb: "\<And>f a. preserves iic_typed (cb f a)"
  shows "preserves iic_typed (iic_command p cb obj cmd param)"
  unfolding iic_command_def Let_def
  by (intro typed_rules typed_ok typed_aborts [OF cb] typed_same; auto simp: addr_param_bound)

lemma typed_control:
  assumes cb: "\<And>f a. preserves iic_typed (cb f a)"
  shows "preserves iic_typed (dw_iic_control p cb obj cmd param)"
  unfolding dw_iic_control_def by (auto intro!: typed_command [OF cb])

lemmas typed_chkerr = preserves_bind_gives [OF iinfo_inv_ctrl(2) gives_chkerr(1)] preserves_bind_gives [OF iinfo_inv_ctrl(3) gives_chkerr(2)]

lemma typed_isr_loops:
  assumes cb: "\<And>f a. preserves iic_typed (cb f a)"
  shows "preserves iic_typed (mst_tx_loop n p cb obj base lc pc)" "preserves iic_typed (mst_req_loop n p cp base lc)"
    "preserves iic_typed (mst_rx_loop n p cb obj cp base pc)"
proof -
  show "preserves iic_typed (mst_tx_loop n p cb obj base lc pc)"
    by (induction n) (simp_all only: mst_tx_loop.simps Let_def; intro typed_rules cb typed_same; simp)+
  show "preserves iic_typed (mst_req_loop n p cp base lc)"
    by (induction n) (simp_all only: mst_req_loop.simps Let_def; intro typed_rules; simp)+
  show "preserves iic_typed (mst_rx_loop n p cb obj cp base pc)"
    by (induction n) (simp_all only: mst_rx_loop.simps Let_def; intro typed_rules cb typed_same; simp)+
qed

lemma typed_isr:
  assumes cb: "\<And>f a. preserves iic_typed (cb f a)"
  shows "preserves iic_typed (dw_iic_isr p cb obj)"
proof -
  note r = typed_chkerr typed_rules typed_isr_loops [OF cb] cb typed_same
  have "preserves iic_typed (dw_iic_mst_int_write p cb obj)"
    unfolding dw_iic_mst_int_write_def Let_def by (intro r; simp add: good_err_def)
  moreover have "preserves iic_typed (dw_iic_mst_int_read p cb obj)"
    unfolding dw_iic_mst_int_read_def Let_def by (intro r; simp add: good_err_def)
  moreover have "preserves iic_typed (dw_iic_slv_int_process p cb obj)"
    unfolding dw_iic_slv_int_process_def Let_def by (intro r; simp add: good_err_def)
  ultimately show ?thesis unfolding dw_iic_isr_def by auto
qed

lemma typed_close:
  assumes cb: "\<And>f a. preserves iic_typed (cb f a)"
  shows "preserves iic_typed (dw_iic_close p cb obj)"
proof -
  have u: "preserves iic_typed (upd_iinfo obj (\<lambda>i. i\<lparr>ii_status := 0, ii_next_cond := IIC_MODE_STOP, ii_extra := 0\<rparr>))"
    by (rule typed_upd) (simp add: typed_info_def)
  have v: "preserves iic_typed (upd_iinfo obj clear_iic_bufs_cbs)" by (rule typed_same) (simp add: clear_iic_bufs_cbs_def)
  show ?thesis unfolding dw_iic_close_def Let_def
    by (intro u v typed_rules typed_aborts [OF cb] typed_same; simp)
qed

lemma typed_open: "preserves iic_typed (dw_iic_open p obj mode param)"
proof -
  have "preserves iic_typed (upd_iinfo obj (\<lambda>i. iic_mask_addrs (i\<lparr>ii_opn_cnt := ii_opn_cnt i + 1, ii_mode := mode\<rparr>)))"
    if "mode \<le> DEV_SLAVE_MODE"
  proof (rule typed_upd)
    fix i assume "typed_info i"
    moreover have "ii_tar_addr i AND 0x7F \<le> 0x3FF" by (rule order_trans [OF word_and_le1]) simp
    moreover have "ii_tar_addr i AND 0x3FF \<le> 0x3FF" by (rule word_and_le1)
    ultimately show "typed_info (iic_mask_addrs (i\<lparr>ii_opn_cnt := ii_opn_cnt i + 1, ii_mode := mode\<rparr>))"
      using that by (auto simp: typed_info_def iic_mask_addrs_def)
  qed
  then have f: "preserves iic_typed (iic_open_fields p obj mode)" if "mode \<le> DEV_SLAVE_MODE"
    using that unfolding iic_open_fields_def Let_def by (intro typed_rules)
  have "preserves iic_typed (upd_iinfo obj (\<lambda>i. i\<lparr>ii_status := DEV_ENABLED, ii_cur_state := IIC_FREE, ii_err_state := IIC_ERR_NONE,
       ii_next_cond := IIC_MODE_STOP, ii_extra := 0\<rparr>))"
    by (rule typed_upd) (simp add: typed_info_def)
  moreover have "preserves iic_typed (upd_iinfo obj clear_iic_bufs_cbs)" by (rule typed_same) (simp add: clear_iic_bufs_cbs_def)
  moreover have "preserves iic_typed (upd_iinfo obj (\<lambda>i. i\<lparr>ii_slv_addr := param\<rparr>))" by (rule typed_same) simp
  ultimately have d: "preserves iic_typed (iic_init_device p obj cp mode param)" if "mode = DEV_MASTER_MODE \<longrightarrow> param \<le> IIC_SPEED_ULTRA" for cp
    using that unfolding iic_init_device_def by (intro typed_rules iinfo_inv_install) auto
  have "preserves iic_typed (upd_iinfo obj (\<lambda>i. i\<lparr>ii_opn_cnt := ii_opn_cnt i + 1\<rparr>))" by (rule typed_same) simp
  then show ?thesis
    unfolding dw_iic_open_def iic_first_open_def Let_def by (intro typed_rules f d) auto
qed

subsection \<open>Runs\<close>

text \<open>What an application and the interrupts do to a device, one call at a time; a call that does not return takes no step.\<close>

inductive iic_step :: "plat \<Rightarrow> 'a iic_callback \<Rightarrow> 'a iic_mach_scheme \<Rightarrow> 'a iic_mach_scheme \<Rightarrow> bool" for p cb where
  Open: "run_state (dw_iic_open p obj mode param) s = (Inr r, t) \<Longrightarrow> iic_step p cb s t"
| Close: "run_state (dw_iic_close p cb obj) s = (Inr r, t) \<Longrightarrow> iic_step p cb s t"
| Control: "run_state (dw_iic_control p cb obj cmd param) s = (Inr r, t) \<Longrightarrow> iic_step p cb s t"
| Write: "run_state (dw_iic_write p obj data len) s = (Inr r, t) \<Longrightarrow> iic_step p cb s t"
| Read: "run_state (dw_iic_read p obj data len) s = (Inr r, t) \<Longrightarrow> iic_step p cb s t"
| Isr: "run_state (dw_iic_isr p cb obj) s = ((), t) \<Longrightarrow> iic_step p cb s t"
| Memory: "iic_step p cb s (s\<lparr>mem := m\<rparr>)"

lemma typed_step:
  fixes cb :: "'a iic_callback"
  assumes cb: "\<And>f a. preserves iic_typed (cb f a)"
  shows "iic_step p cb s t \<Longrightarrow> iic_typed s \<Longrightarrow> iic_typed t"
proof (induction rule: iic_step.induct)
  case (Memory s m)
  then show ?case by (simp add: iinfo_inv_def)
qed (erule wpD [OF preservesD, rotated 2]; (rule typed_open typed_close typed_control typed_transfers typed_isr, (rule cb)?)?; assumption)+

text \<open>
  C22: Whatever an application and the interrupts do, with callbacks that keep them, the enumerated
  fields of every device stay in their enumerations: mode, speed mode, state, error, address mode
  and next condition are values \<open>dev_iic.h\<close> names, and the target address has ten bits.
\<close>

theorem iic_fields_typed:
  fixes cb :: "'a iic_callback"
  assumes "\<And>f a. preserves iic_typed (cb f a)" and "iic_typed s" and "(iic_step p cb)\<^sup>*\<^sup>* s t"
  shows "typed_info (iinfo t obj)"
proof -
  have "iic_typed t" using assms(3,2) by (induction rule: rtranclp_induct) (use typed_step [where cb = cb, OF assms(1)] in blast)+
  then show ?thesis by (simp add: iinfo_inv_def)
qed

lemma iic_fields_typed_witness:
  "typed_info (iinfo (snd (run_state (dw_iic_control (iic_plat1 2) (\<lambda>_ _. State_Monad.return ()) 0x100 0x4002 0xFFFF) iic_mach1)) 0x100)"
proof (rule iic_fields_typed)
  show "iic_typed iic_mach1" by (simp add: iinfo_inv_def iic_mach1_def typed_info_def iic_info1_def)
  obtain r t where e: "run_state (dw_iic_control (iic_plat1 2) (\<lambda>_ _. State_Monad.return ()) 0x100 0x4002 0xFFFF) iic_mach1 = (Inr r, t)"
    by (simp add: dw_iic_control_def iic_valid_def iic_command_def Let_def iic_mach1_def iic_info1_def split_def)
  show "(iic_step (iic_plat1 2) (\<lambda>_ _. State_Monad.return ()))\<^sup>*\<^sup>* iic_mach1
     (snd (run_state (dw_iic_control (iic_plat1 2) (\<lambda>_ _. State_Monad.return ()) 0x100 0x4002 0xFFFF) iic_mach1))"
    unfolding e by (simp add: r_into_rtranclp iic_step.Control [OF e])
qed auto

subsection \<open>The open count\<close>

definition iic_id :: "u32 \<Rightarrow> u32 \<Rightarrow> u32 \<Rightarrow> 'a iic_mach_scheme \<Rightarrow> bool" where
  "iic_id obj cp n = iinfo_inv (\<lambda>x. obj \<noteq> 0 \<and> cp \<noteq> 0 \<and> iic_ctrl (x obj) = cp \<and> ii_opn_cnt (x obj) = n)"

lemma iic_idD: "iic_id obj cp n s \<longleftrightarrow> obj \<noteq> 0 \<and> cp \<noteq> 0 \<and> iic_ctrl (iinfo s obj) = cp \<and> ii_opn_cnt (iinfo s obj) = n"
  by (simp add: iic_id_def iinfo_inv_def)

lemma iic_id_upd: "(\<And>i. iic_ctrl (f i) = iic_ctrl i \<and> ii_opn_cnt (f i) = ii_opn_cnt i) \<Longrightarrow> preserves (iic_id obj cp n) (upd_iinfo obj' f)"
  unfolding iic_id_def by (rule iinfo_inv_upd) auto

lemma iic_id_init: "preserves (iic_id obj cp n) (iic_init_device p obj cp' mode param)"
proof -
  have u: "preserves (iic_id obj cp n) (upd_iinfo obj clear_iic_bufs_cbs)" by (rule iic_id_upd) (simp add: clear_iic_bufs_cbs_def)
  show ?thesis
    unfolding iic_init_device_def dw_iic_disable_device_def
    by (intro u preserves_bind preserves_if preserves_get preserves_return preserves_c_if iic_id_upd; (simp; fail)?;
        unfold iic_id_def; intro iinfo_inv_access iinfo_inv_heap iinfo_inv_ctrl iinfo_inv_ints iinfo_inv_install)
qed

lemma iic_open_counts:
  assumes "iic_id obj cp n s"
  shows "wp (dw_iic_open p obj mode param) (\<lambda>r t. opened r \<longrightarrow> iic_id obj cp (n + 1) t) s"
proof -
  have no: "\<not> opened (Inr E_OBJ)" "\<not> opened (Inr E_PAR)" "\<not> opened (Inr E_NOSPT)" "\<not> opened (Inr E_SYS)" "\<not> opened (Inl w)" for w
    by (simp_all add: opened_def)
  show ?thesis
  proof (cases "ii_opn_cnt (iinfo s obj) = 0")
    case False
    then show ?thesis using assms no by (simp add: dw_iic_open_def wp_rules Let_def word_gt_0 iic_idD)
  next
    case True
    then obtain h tx rx where o1: "run_state (iic_open_fields p obj mode) s = (cp, s\<lparr>hist := h,
         iinfo := (iinfo s)(obj := iic_mask_addrs ((iinfo s obj)\<lparr>ii_opn_cnt := 1, ii_mode := mode\<rparr>)),
         ictrl := (ictrl s)(cp := (ictrl s cp)\<lparr>ic_tx_fifo_len := tx, ic_rx_fifo_len := rx\<rparr>)\<rparr>)" (is "_ = (_, ?t)")
      using open_fields_run [OF refl, of s obj p mode] assms by (auto simp: iic_idD)
    have t: "iic_id obj cp (n + 1) ?t" using assms True by (simp add: iic_idD iic_mask_addrs_def)
    have "wp (bindE (iic_set_timing cp) (\<lambda>_. liftE (iic_init_device p obj cp mode param))) (\<lambda>_. iic_id obj cp (n + 1)) ?t"
      by (rule preservesD [where I = "iic_id obj cp (n + 1)", OF _ t], intro preserves_bindE preserves_liftE iic_id_init)
        (unfold iic_id_def, rule iinfo_inv_ctrl)
    then have "wp (iic_first_open p obj mode param) (\<lambda>_. iic_id obj cp (n + 1)) s" by (simp add: iic_first_open_def wp_def o1)
    then show ?thesis using True no by (auto simp: dw_iic_open_def wp_rules Let_def elim!: wp_mono)
  qed
qed

subsection \<open>The last close\<close>

lemma low_high: "(x :: u32) AND 7 = 0 \<Longrightarrow> x AND NOT 7 = x"
proof -
  assume "x AND 7 = 0"
  moreover have "x = (x AND 7) OR (x AND NOT 7)" by (rule bit_word_eqI) (auto simp: bit_simps)
  ultimately show "x AND NOT 7 = x" by simp
qed

text \<open>The state the last close leaves, but for the history.\<close>

definition iic_closed :: "u32 \<Rightarrow> access list \<Rightarrow> 'a iic_mach_scheme \<Rightarrow> 'a iic_mach_scheme" where
  "iic_closed obj h s = (let i = iinfo s obj; c = ictrl s (iic_ctrl i) in s\<lparr>
      ictrl := (ictrl s)(iic_ctrl i := c\<lparr>ic_int_status := ic_int_status c AND NOT 7\<rparr>), hist := h,
      iinfo := (iinfo s)(obj := i\<lparr>ii_opn_cnt := 0, ii_tx_buf := null_buffer, ii_rx_buf := null_buffer,
        ii_tx_cb := 0, ii_rx_cb := 0, ii_err_cb := 0, ii_status := 0, ii_next_cond := IIC_MODE_STOP, ii_extra := 0\<rparr>)\<rparr>)"

lemma iic_last_close:
  assumes "iic_valid s obj" "ii_opn_cnt (iinfo s obj) = 1" and base: "base = iic_regs s obj"
  shows "\<exists>h. run_state (dw_iic_close p cb obj) s = (Inr E_OK, iic_closed obj h s) \<and> mmio_last (base + IC_ENABLE) h = 0"
proof -
  define i where i: "i = iinfo s obj"
  let ?s = "s\<lparr>iinfo := (iinfo s)(obj := i\<lparr>ii_opn_cnt := 0\<rparr>)\<rparr>"
  obtain u where u: "run_state (dw_iic_disable_interrupt p obj) ?s = ((), u)" "masked_from (iic_ctrl i) base ?s u"
    "ic_int_status (ictrl u (iic_ctrl i)) AND 7 = 0"
    using disable_interrupt_masks [of "iic_ctrl i" ?s obj base p] base by (auto simp: i iic_regs_def)
  have "iic_calm (iic_ctrl i) u = u\<lparr>hist := []\<rparr>" using low_high [OF u(3)] by (simp add: iic_calm_def)
  then have "u\<lparr>hist := []\<rparr> = iic_calm (iic_ctrl i) ?s" using u(2) by (simp add: masked_from_def)
  then have "u\<lparr>hist := [], hist := hist u\<rparr> = (iic_calm (iic_ctrl i) ?s)\<lparr>hist := hist u\<rparr>" by simp
  then have uq: "u = (iic_calm (iic_ctrl i) ?s)\<lparr>hist := hist u\<rparr>" by simp
  have t: "(ic_int_status (ictrl s (iic_ctrl i)) AND NOT 7) AND 2 = 0" "(ic_int_status (ictrl s (iic_ctrl i)) AND NOT 7) AND 4 = 0"
    by (simp_all add: and.assoc)
  let ?c = "s\<lparr>ictrl := (ictrl s)(iic_ctrl i := (ictrl s (iic_ctrl i))\<lparr>ic_int_status := ic_int_status (ictrl s (iic_ctrl i)) AND NOT 7\<rparr>),
      hist := hist u, iinfo := (iinfo s)(obj := clear_iic_bufs_cbs (i\<lparr>ii_opn_cnt := 0\<rparr>))\<rparr>"
  obtain h where h: "run_state (iic_disable_loop DW_IIC_DISABLE_MAX_T_POLL_CNT p base) ?c = ((), ?c\<lparr>hist := h\<rparr>)" "mmio_last (base + IC_ENABLE) h = 0"
    using disable_loop_run [of DW_IIC_DISABLE_MAX_T_POLL_CNT p base ?c] by auto
  have v: "iic_valid s obj" "ii_opn_cnt i = 1" using assms(1,2) by (simp_all add: i)
  have b: "dw_iic_regs (ictrl s (iic_ctrl i)) = base" by (simp add: base i iic_regs_def)
  have du: "run_state (dw_iic_disable_interrupt p obj) ?s = ((), (iic_calm (iic_ctrl i) ?s)\<lparr>hist := hist u\<rparr>)" using u(1) uq by simp
  have "run_state (dw_iic_close p cb obj) s = (Inr E_OK, iic_closed obj h s)"
    using v t h(1) by (simp add: dw_iic_close_def i [symmetric] du iic_calm_def dw_iic_abort_tx_def dw_iic_abort_rx_def
      dw_iic_disable_device_def iic_regs_def b clear_iic_bufs_cbs_def iic_closed_def Let_def del: iic_disable_loop.simps)
  then show ?thesis using h(2) by blast
qed

lemma iic_close_counts:
  assumes "iic_id obj cp n s" "n \<noteq> 0" "run_state (dw_iic_close p cb obj) s = (r, t)"
  shows "iic_id obj cp (n - 1) t \<and> r = Inr (if n - 1 = 0 then E_OK else E_OPNED)"
proof (cases "n = 1")
  case True
  then obtain h where "run_state (dw_iic_close p cb obj) s = (Inr E_OK, iic_closed obj h s)"
    using iic_last_close [OF _ _ refl, of s obj p cb] assms(1) by (auto simp: iic_idD iic_valid_def)
  then show ?thesis using assms True by (simp add: iic_idD iic_closed_def Let_def)
next
  case False
  then have "n - 1 \<noteq> 0" by (metis diff_add_cancel add_0)
  moreover have "iic_valid s obj" "0 < ii_opn_cnt (iinfo s obj)" using assms by (auto simp: iic_idD iic_valid_def word_gt_0)
  ultimately show ?thesis using assms by (auto simp: dw_iic_close_def iic_idD)
qed

interpretation iic_dev: counted_device "2 ^ 32" "\<lambda>s :: 'a iic_mach_scheme. ii_opn_cnt (iinfo s obj)" "\<lambda>s. iic_valid s obj"
  "\<lambda>a. dw_iic_open p obj (fst a) (snd a)" "dw_iic_close p cb obj" for obj p and cb :: "'a iic_callback"
proof (unfold_locales, goal_cases)
  case (1 s a r t)
  then have "iic_id obj (iic_ctrl (iinfo s obj)) (ii_opn_cnt (iinfo s obj)) s" by (simp add: iic_idD iic_valid_def)
  from wpD [OF iic_open_counts [OF this] 1(3)] 1(4)
  have "iic_id obj (iic_ctrl (iinfo s obj)) (ii_opn_cnt (iinfo s obj) + 1) t" by simp
  then show ?case using 1(2) by (simp add: iic_idD iic_valid_def unat_word_ariths)
next
  case (2 s r t)
  then have "iic_id obj (iic_ctrl (iinfo s obj)) (ii_opn_cnt (iinfo s obj)) s" by (simp add: iic_idD iic_valid_def)
  from iic_close_counts [OF this 2(2,3)] 2(2) show ?case
    by (auto simp: iic_idD iic_valid_def unat_minus_one)
qed

text \<open>
  The last close of a device, whatever the callbacks are and the hardware answers, returns
  \<open>E_OK\<close> and leaves the object closed, with no buffer and no callback, the interrupt flags down and the controller disabled.
  Nothing else of the driver or of the memory changes, so no callback has run. And as many closes as
  successful opens bring the open count back, the last one answering \<open>E_OK\<close> exactly at 0.
\<close>

theorem iic_close_idle_balanced:
  assumes "iic_valid s obj" and i: "i = iinfo s obj" and base: "base = iic_regs s obj"
  shows "(ii_opn_cnt i = 1 \<longrightarrow> (\<exists>h. run_state (dw_iic_close p cb obj) s = (Inr E_OK, s\<lparr>
        ictrl := (ictrl s)(iic_ctrl i := (ictrl s (iic_ctrl i))\<lparr>ic_int_status := ic_int_status (ictrl s (iic_ctrl i)) AND NOT 7\<rparr>), hist := h,
        iinfo := (iinfo s)(obj := i\<lparr>ii_opn_cnt := 0, ii_tx_buf := null_buffer, ii_rx_buf := null_buffer,
          ii_tx_cb := 0, ii_rx_cb := 0, ii_err_cb := 0, ii_status := 0, ii_next_cond := IIC_MODE_STOP, ii_extra := 0\<rparr>)\<rparr>)
      \<and> mmio_last (base + IC_ENABLE) h = 0))
    \<and> (as \<noteq> [] \<and> unat (ii_opn_cnt i) + length as < 2 ^ 32
      \<and> run_state (open_all (\<lambda>a. dw_iic_open p obj (fst a) (snd a)) as) s = (q, u) \<and> opened q
      \<and> run_state (close_times (dw_iic_close p cb obj) (length as)) u = (Inr r, t)
      \<longrightarrow> ii_opn_cnt (iinfo t obj) = ii_opn_cnt i \<and> r = (if ii_opn_cnt i = 0 then E_OK else E_OPNED))"
  using iic_last_close [OF assms(1) _ base] iic_dev.opens_closes [of s obj as p q u cb r t] assms(1)
  unfolding i iic_closed_def Let_def by blast

lemma iic_close_idle_balanced_witness:
  "\<exists>t. run_state (dw_iic_close (iic_plat1 2) (\<lambda>_ _. State_Monad.return ()) 0x100) iic_mach1 = (Inr E_OK, t)
    \<and> ii_opn_cnt (iinfo t 0x100) = 0 \<and> mmio_last 0xF000406c (hist t) = 0"
proof -
  have v: "iic_valid iic_mach1 0x100" "ii_opn_cnt (iinfo iic_mach1 0x100) = 1" "iic_regs iic_mach1 0x100 = 0xF0004000"
    by (simp_all add: iic_valid_def iic_info1_def iic_regs_def iic_mach1_def iic_ctrl1_def)
  from mp [OF conjunct1 [OF iic_close_idle_balanced [OF v(1) refl v(3) [symmetric]]] v(2), of "iic_plat1 2" "\<lambda>_ _. State_Monad.return ()"]
  show ?thesis by auto
qed

end
