(* ===== verification/IicIsr.thy ===== *)
theory IicIsr
  imports IicInv
begin

section \<open>The interrupt routine of the IIC driver\<close>

text \<open>
  A master's transmit interrupt makes exact progress through its buffer and finishes it once, and
  what a slave's state query reports.
\<close>

subsection \<open>The transmit interrupt of a master\<close>

text \<open>What the routine does when the last byte is in the FIFO.\<close>

definition iic_tx_finish :: "plat \<Rightarrow> 'a iic_callback \<Rightarrow> u32 \<Rightarrow> ('a, unit) iop" where
  "iic_tx_finish p cb obj = do {
     dw_iic_dis_cbr p obj DW_IIC_RDY_SND;
     upd_iinfo obj (\<lambda>i. i\<lparr>ii_cur_state := IIC_FREE\<rparr>);
     i \<leftarrow> get_iinfo obj;
     c_if (ii_tx_cb i \<noteq> 0) (cb (ii_tx_cb i) obj);
     upd_iinfo obj (\<lambda>i. i\<lparr>ii_tx_buf := null_buffer\<rparr>)
   }"

text \<open>The state after \<open>k\<close> more frames of the buffer, and the state of its last poll.\<close>

definition tx_sent :: "u32 \<Rightarrow> u32 \<Rightarrow> nat \<Rightarrow> 'a iic_mach_scheme \<Rightarrow> 'a iic_mach_scheme \<Rightarrow> bool" where
  "tx_sent obj D k s u \<longleftrightarrow> (let i = iinfo s obj; b = ii_tx_buf i in
     u = s\<lparr>hist := hist u, iinfo := (iinfo s)(obj := i\<lparr>ii_tx_buf := b\<lparr>ofs := ofs b + of_nat k\<rparr>\<rparr>)\<rparr>
     \<and> writes_to D (hist u) = writes_to D (hist s)
         @ take k (drop (unat (ofs b)) (iic_frames i (bytes_at (mem s) (buf b) (unat (blen b))))))"

definition fifo_full :: "u32 \<Rightarrow> access list \<Rightarrow> bool" where
  "fifo_full base h \<longleftrightarrow> (\<exists>v h'. h = Mmio_rd (base + IC_STATUS) v # h' \<and> v AND IC_STATUS_TFNF = 0)"

lemma tx_sent_step:
  fixes s :: "'a iic_mach_scheme"
  assumes i: "i = iinfo s obj" "ii_mode i = DEV_MASTER_MODE" and b: "b = ii_tx_buf i" "unat (ofs b) < unat (blen b)"
    and t: "t = s\<lparr>iinfo := (iinfo s)(obj := i\<lparr>ii_tx_buf := b\<lparr>ofs := ofs b + 1\<rparr>\<rparr>),
       hist := Mmio_wr D (ucast (mem s (buf b + ofs b)) OR (if ofs b = blen b - 1 then iic_last_cond i else 0)) # h\<rparr>" and h: "writes_to D h = writes_to D (hist s)"
    and u: "tx_sent obj D k t u"
  shows "tx_sent obj D (Suc k) s u"
proof -
  let ?F = "iic_frames i (bytes_at (mem s) (buf b) (unat (blen b)))"
  have o: "unat (ofs b + 1) = Suc (unat (ofs b))"
    using b(2) unsigned_less [of "blen b", where 'a = nat] by (simp add: unat_word_ariths)
  have l: "(ofs b = blen b - 1) = (unat (ofs b) = unat (blen b) - 1)"
  proof -
    have "blen b \<noteq> 0" using b(2) by auto
    then show ?thesis by (simp add: word_unat_eq_iff unat_minus_one)
  qed
  have d: "drop (unat (ofs b)) ?F = (ucast (mem s (buf b + ofs b)) OR (if ofs b = blen b - 1 then iic_last_cond i else 0)) # drop (Suc (unat (ofs b))) ?F"
    using b(2) l i(2) nth_iic_frames [OF b(2), of i "mem s" "buf b"] by (subst Cons_nth_drop_Suc [symmetric]) auto
  have f: "iic_frames (i\<lparr>ii_tx_buf := x\<rparr>) bs = iic_frames i bs" for x bs
    by (simp add: iic_frames_def iic_last_cond_def)
  define w where "w = (ucast (mem s (buf b + ofs b)) OR (if ofs b = blen b - 1 then iic_last_cond i else 0) :: u32)"
  have tk: "iinfo t obj = i\<lparr>ii_tx_buf := b\<lparr>ofs := ofs b + 1\<rparr>\<rparr>" "mem t = mem s" "hist t = Mmio_wr D w # h" by (simp_all add: t w_def)
  have "u = t\<lparr>hist := hist u, iinfo := (iinfo t)(obj := i\<lparr>ii_tx_buf := b\<lparr>ofs := ofs b + 1 + of_nat k\<rparr>\<rparr>)\<rparr>"
    "writes_to D (hist u) = writes_to D (hist s) @ w # take k (drop (Suc (unat (ofs b))) ?F)"
    using u h unfolding tx_sent_def Let_def tk o [symmetric] by (simp_all add: f)
  moreover have "take (Suc k) (drop (unat (ofs b)) ?F) = w # take k (drop (Suc (unat (ofs b))) ?F)" unfolding d w_def by simp
  moreover have "ofs b + 1 + of_nat k = ofs b + of_nat (Suc k)" by simp
  ultimately show ?thesis unfolding tx_sent_def Let_def i(1) [symmetric] b(1) [symmetric] by (simp add: t)
qed

lemma tx_loop_progress:
  fixes s :: "'a iic_mach_scheme"
  assumes D: "D = base + IC_DATA_CMD" and pc: "pc = buf (ii_tx_buf (iinfo s obj))" and lc: "lc = iic_last_cond (iinfo s obj)"
  shows "ii_mode (iinfo s obj) = DEV_MASTER_MODE \<Longrightarrow> b = ii_tx_buf (iinfo s obj) \<Longrightarrow> unat (ofs b) < unat (blen b) \<Longrightarrow> unat (blen b) \<le> unat (ofs b) + n
    \<Longrightarrow> \<exists>k u. tx_sent obj D k s u \<and> unat (ofs b) + k \<le> unat (blen b) \<and> (unat (ofs b) + k < unat (blen b) \<longrightarrow> fifo_full base (hist u))
      \<and> run_state (mst_tx_loop n p cb obj base lc pc) s
        = run_state (c_if (unat (ofs b) + k = unat (blen b)) (iic_tx_finish p cb obj)) u"
  using pc lc
proof (induction n arbitrary: s b)
  case 0
  then show ?case by simp
next
  case (Suc n)
  let ?v = "mmio_in p (hist s) (base + IC_STATUS)"
  let ?h = "Mmio_rd (base + IC_STATUS) ?v # hist s"
  show ?case
  proof (cases "?v AND IC_STATUS_TFNF = 0")
    case True
    then have "run_state (mst_tx_loop (Suc n) p cb obj base lc pc) s = ((), s\<lparr>hist := ?h\<rparr>)" by (simp add: dw_iic_putready_def)
    moreover have "tx_sent obj D 0 s (s\<lparr>hist := ?h\<rparr>)" "fifo_full base ?h" using True by (simp_all add: tx_sent_def Let_def fifo_full_def)
    ultimately show ?thesis using Suc.prems(3) by (intro exI [of _ 0] exI [of _ "s\<lparr>hist := ?h\<rparr>"]) simp
  next
    case False
    let ?i = "iinfo s obj"
    let ?w = "ucast (mem s (buf b + ofs b)) OR (if ofs b = blen b - 1 then iic_last_cond ?i else 0)"
    let ?t = "s\<lparr>iinfo := (iinfo s)(obj := ?i\<lparr>ii_tx_buf := b\<lparr>ofs := ofs b + 1\<rparr>\<rparr>), hist := Mmio_wr D ?w # ?h\<rparr>"
    have step: "tx_sent obj D (Suc k) s u" if "tx_sent obj D k ?t u" for k u
      by (rule tx_sent_step [OF refl Suc.prems(1,2,3) refl _ that]) simp
    show ?thesis
    proof (cases "ofs b = blen b - 1")
      case True
      have "tx_sent obj D 1 s ?t" using step [of 0 ?t] by (simp add: tx_sent_def Let_def)
      moreover have "unat (ofs b) + 1 = unat (blen b)"
        using True Suc.prems(3) by (metis Suc_eq_plus1 Suc_pred' gr_implies_not0 less_nat_zero_code not_gr_zero unat_eq_zero unat_minus_one)
      moreover have "run_state (mst_tx_loop (Suc n) p cb obj base lc pc) s = run_state (iic_tx_finish p cb obj) ?t"
        using False True Suc.prems by (simp add: dw_iic_putready_def dw_iic_putdata_def iic_tx_finish_def D Let_def)
      ultimately show ?thesis by (intro exI [of _ 1] exI [of _ ?t]) simp
    next
      case F: False
      then have lt: "unat (ofs b + 1) = Suc (unat (ofs b))" "Suc (unat (ofs b)) < unat (blen b)"
      proof -
        have "unat (ofs b) \<noteq> unat (blen b - 1)" using F by (simp add: word_unat_eq_iff)
        moreover have "blen b \<noteq> 0" using Suc.prems(3) by auto
        ultimately show "Suc (unat (ofs b)) < unat (blen b)" using Suc.prems(3) by (simp add: unat_minus_one)
        then show "unat (ofs b + 1) = Suc (unat (ofs b))"
          using unsigned_less [of "blen b", where 'a = nat] by (simp add: unat_word_ariths)
      qed
      have "run_state (mst_tx_loop (Suc n) p cb obj base lc pc) s = run_state (mst_tx_loop n p cb obj base lc pc) ?t"
        using False F Suc.prems by (simp add: dw_iic_putready_def dw_iic_putdata_def D Let_def)
      moreover have "iic_last_cond (iinfo ?t obj) = iic_last_cond ?i" by (simp add: iic_last_cond_def)
      ultimately show ?thesis
        using Suc.IH [of ?t "b\<lparr>ofs := ofs b + 1\<rparr>"] Suc.prems lt step by (fastforce simp: )
    qed
  qed
qed

lemma no_sources: "(st :: u32) AND (STAT_TX_OVER OR STAT_TX_ABRT) = 0 \<Longrightarrow> st AND STAT_TX_OVER = 0 \<and> st AND STAT_TX_ABRT = 0"
proof -
  assume a: "st AND (STAT_TX_OVER OR STAT_TX_ABRT) = 0"
  have "st AND STAT_TX_OVER = (st AND (STAT_TX_OVER OR STAT_TX_ABRT)) AND STAT_TX_OVER"
    "st AND STAT_TX_ABRT = (st AND (STAT_TX_OVER OR STAT_TX_ABRT)) AND STAT_TX_ABRT" by (simp_all add: and.assoc)
  then show ?thesis unfolding a by simp
qed



subsection \<open>The state of a slave\<close>

text \<open>
  When a slave's read-done status is set and its clear register reads 0, the state query reports
  no start, no stop and no error, whatever the status it had read says: the status was overwritten by the
  value of the clear register. What it reports is the general call, the requests and read-done.
\<close>

theorem iic_slave_state_lost:
  assumes st: "st = mmio_in p (hist s) (base + IC_RAW_INTR_STAT)" "st AND STAT_RX_DONE \<noteq> 0"
    and clr: "\<And>h. mmio_in p h (base + IC_CLR_RX_DONE) = 0"
  shows "fst (run_state (dw_iic_get_slv_state p base) s) =
      (if st AND STAT_GEN_CALL \<noteq> 0 then IIC_SLAVE_STATE_GC_REQ else 0) OR (if st AND STAT_RX_FULL \<noteq> 0 then IIC_SLAVE_STATE_WR_REQ else 0)
      OR (if st AND STAT_RD_REQ \<noteq> 0 then IIC_SLAVE_STATE_RD_REQ else 0) OR IIC_SLAVE_STATE_RD_DONE
    \<and> fst (run_state (dw_iic_get_slv_state p base) s) AND (IIC_SLAVE_STATE_START OR IIC_SLAVE_STATE_STOP OR IIC_SLAVE_STATE_ERROR) = 0"
  using st(2) by (simp add: dw_iic_get_slv_state_def st(1) [symmetric] clr Let_def or.assoc)

lemma iic_slave_state_lost_witness:
  "fst (run_state (dw_iic_get_slv_state (sample_plat\<lparr>mmio_in := \<lambda>h a. if a = 0xF0004034 then 0x6C0 else 0\<rparr>) 0xF0004000) iic_mach1) = IIC_SLAVE_STATE_RD_DONE"
  using conjunct1 [OF iic_slave_state_lost [of "0x6C0" "sample_plat\<lparr>mmio_in := \<lambda>h a. if a = 0xF0004034 then 0x6C0 else 0\<rparr>" iic_mach1 "0xF0004000"]]
  by simp

end
