(* ===== verification/DwI2s.thy ===== *)
theory DwI2s
  imports DevCommon
begin

section \<open>DesignWare I2S driver (dw_i2s.c)\<close>

text \<open>
  The driver of \<open>device/ip/designware/i2s/dw_i2s.c\<close>, transmitter and receiver. \<open>DEV_I2S_INFO\<close>,
  \<open>DW_I2S_CONFIG\<close> and the control structure live in typed heaps indexed by their addresses;
  \<open>DW_I2S_TX_CTRL\<close> and \<open>DW_I2S_RX_CTRL\<close> have one layout and are one record. \<open>DW_I2S_DATA_LENGTH_16\<close> is
  defined by \<open>dw_i2s.h\<close>, so samples are half-words. The four channels of a device have their registers
  at a stride of \<open>0x40\<close>, so a C \<open>switch\<close> over the channel is an access at that stride. Sample
  indices are words: an \<open>int32_t\<close> index overflows only beyond a buffer of \<open>2 ^ 32\<close> bytes. Callbacks
  are a parameter that may do anything to the state.
\<close>

subsection \<open>Registers and bits (dw_i2s.h, dw_i2s_hal.h)\<close>

abbreviation (input) I2S_IER :: u32 where "I2S_IER \<equiv> 0x000"
abbreviation (input) I2S_IRER :: u32 where "I2S_IRER \<equiv> 0x004"
abbreviation (input) I2S_ITER :: u32 where "I2S_ITER \<equiv> 0x008"
abbreviation (input) I2S_CER :: u32 where "I2S_CER \<equiv> 0x00C"
abbreviation (input) I2S_CCR :: u32 where "I2S_CCR \<equiv> 0x010"
abbreviation (input) I2S_RXFFR :: u32 where "I2S_RXFFR \<equiv> 0x014"
abbreviation (input) I2S_TXFFR :: u32 where "I2S_TXFFR \<equiv> 0x018"
abbreviation (input) I2S_LRBR0 :: u32 where "I2S_LRBR0 \<equiv> 0x020"
abbreviation (input) I2S_RRBR0 :: u32 where "I2S_RRBR0 \<equiv> 0x024"
abbreviation (input) I2S_LTHR0 :: u32 where "I2S_LTHR0 \<equiv> 0x020"
abbreviation (input) I2S_RTHR0 :: u32 where "I2S_RTHR0 \<equiv> 0x024"
abbreviation (input) I2S_RER0 :: u32 where "I2S_RER0 \<equiv> 0x028"
abbreviation (input) I2S_TER0 :: u32 where "I2S_TER0 \<equiv> 0x02C"
abbreviation (input) I2S_RCR0 :: u32 where "I2S_RCR0 \<equiv> 0x030"
abbreviation (input) I2S_TCR0 :: u32 where "I2S_TCR0 \<equiv> 0x034"
abbreviation (input) I2S_ISR0 :: u32 where "I2S_ISR0 \<equiv> 0x038"
abbreviation (input) I2S_IMR0 :: u32 where "I2S_IMR0 \<equiv> 0x03C"
abbreviation (input) I2S_ROR0 :: u32 where "I2S_ROR0 \<equiv> 0x040"
abbreviation (input) I2S_TOR0 :: u32 where "I2S_TOR0 \<equiv> 0x044"
abbreviation (input) I2S_RFCR0 :: u32 where "I2S_RFCR0 \<equiv> 0x048"
abbreviation (input) I2S_TFCR0 :: u32 where "I2S_TFCR0 \<equiv> 0x04C"
abbreviation (input) I2S_COMP_PARAM_1 :: u32 where "I2S_COMP_PARAM_1 \<equiv> 0x1F4"

abbreviation (input) DW_I2S_ISRX_TXFO :: u32 where "DW_I2S_ISRX_TXFO \<equiv> 0x20"
abbreviation (input) DW_I2S_ISRX_TXFE :: u32 where "DW_I2S_ISRX_TXFE \<equiv> 0x10"
abbreviation (input) DW_I2S_ISRX_RXFO :: u32 where "DW_I2S_ISRX_RXFO \<equiv> 0x2"
abbreviation (input) DW_I2S_ISRX_RXDA :: u32 where "DW_I2S_ISRX_RXDA \<equiv> 0x1"
abbreviation (input) I2S_IMR_TX :: u32 where "I2S_IMR_TX \<equiv> 0x30"
abbreviation (input) I2S_IMR_RX :: u32 where "I2S_IMR_RX \<equiv> 0x03"

abbreviation (input) DW_I2S_MASTER_SUPPORTED :: u32 where "DW_I2S_MASTER_SUPPORTED \<equiv> 1"
abbreviation (input) DW_I2S_SLAVE_SUPPORTED :: u32 where "DW_I2S_SLAVE_SUPPORTED \<equiv> 2"
abbreviation (input) DW_I2S_GINT_ENABLE :: u32 where "DW_I2S_GINT_ENABLE \<equiv> 1"
abbreviation (input) DW_I2S_TXINT_ENABLE :: u32 where "DW_I2S_TXINT_ENABLE \<equiv> 2"
abbreviation (input) DW_I2S_RXINT_ENABLE :: u32 where "DW_I2S_RXINT_ENABLE \<equiv> 4"
abbreviation (input) DW_I2S_TX_RDY_SND :: u32 where "DW_I2S_TX_RDY_SND \<equiv> 0"
abbreviation (input) DW_I2S_RX_RDY_RCV :: u32 where "DW_I2S_RX_RDY_RCV \<equiv> 1"

abbreviation (input) I2S_MASTER_MODE :: u32 where "I2S_MASTER_MODE \<equiv> 0"
abbreviation (input) I2S_SLAVE_MODE :: u32 where "I2S_SLAVE_MODE \<equiv> 1"
abbreviation (input) I2S_DEVICE_TRANSMITTER :: u32 where "I2S_DEVICE_TRANSMITTER \<equiv> 0"
abbreviation (input) I2S_DEVICE_RECEIVER :: u32 where "I2S_DEVICE_RECEIVER \<equiv> 1"
abbreviation (input) I2S_FREE :: u32 where "I2S_FREE \<equiv> 0"
abbreviation (input) I2S_IN_TX :: u32 where "I2S_IN_TX \<equiv> 1"
abbreviation (input) I2S_IN_RX :: u32 where "I2S_IN_RX \<equiv> 2"
abbreviation (input) I2S_ERR_NONE :: u32 where "I2S_ERR_NONE \<equiv> 0"

definition DW_I2S_CCR_WSS :: "u32 \<Rightarrow> u32" where "DW_I2S_CCR_WSS x = push_bit 3 (x AND 0x03)"
definition DW_I2S_CCR_SCLKG :: "u32 \<Rightarrow> u32" where "DW_I2S_CCR_SCLKG x = x AND 0x07"
definition DW_I2S_XCRX_WLEN :: "u32 \<Rightarrow> u32" where "DW_I2S_XCRX_WLEN x = x AND 0x07"

text \<open>\<open>DW_I2S_LTHR0_LTHR0\<close> and its like, for a word size of 16.\<close>

definition i2s_sample :: "u32 \<Rightarrow> u32" where "i2s_sample x = x AND 0xFFFF"

subsection \<open>Objects\<close>

record dw_i2s_buffer =
  sb_buf :: u32
  sb_ofs :: u32
  sb_len :: u32

record dw_i2s_config =
  i2s_support_modes :: u32
  i2s_fifo_len :: u32
  i2s_channels :: u32
  ws_length :: u32
  sclk_gate :: u32
  data_res :: "u32 \<Rightarrow> u32"
  sample_rate :: "u32 \<Rightarrow> u32"
  i2s_intno :: "u32 \<Rightarrow> u32"
  dw_i2s_int_handler :: u32

record dw_i2s_ctrl =
  dw_i2s_regs :: u32
  i2s_int_status :: "u32 \<Rightarrow> u32"
  dw_i2s_buf :: dw_i2s_buffer

record dev_i2s_info =
  i2s_ctrl :: u32
  i2s_config :: u32
  i2_opn_cnt :: u32
  i2_status :: u32
  i2_device :: u32
  i2_mode :: u32
  i2_cur_state :: u32
  i2_err_state :: u32
  i2_tx_buf :: dev_buffer
  i2_rx_buf :: dev_buffer
  i2_tx_cb :: u32
  i2_rx_cb :: u32
  i2_err_cb :: u32
  i2_extra :: u32

record i2s_mach = mach +
  ninfo :: "u32 \<Rightarrow> dev_i2s_info"
  nctrl :: "u32 \<Rightarrow> dw_i2s_ctrl"
  nconf :: "u32 \<Rightarrow> dw_i2s_config"

type_synonym ('a, 'r) nop = "('a i2s_mach_scheme, 'r) state"
type_synonym 'a i2s_callback = "u32 \<Rightarrow> u32 \<Rightarrow> ('a i2s_mach_scheme, unit) state"

definition get_ninfo :: "u32 \<Rightarrow> ('a, dev_i2s_info) nop" where
  "get_ninfo obj = do { s \<leftarrow> State_Monad.get; State_Monad.return (ninfo s obj) }"

definition upd_ninfo :: "u32 \<Rightarrow> (dev_i2s_info \<Rightarrow> dev_i2s_info) \<Rightarrow> ('a, unit) nop" where
  "upd_ninfo obj f = State_Monad.update (\<lambda>s. s\<lparr>ninfo := (ninfo s)(obj := f (ninfo s obj))\<rparr>)"

definition get_nctrl :: "u32 \<Rightarrow> ('a, dw_i2s_ctrl) nop" where
  "get_nctrl c = do { s \<leftarrow> State_Monad.get; State_Monad.return (nctrl s c) }"

definition upd_nctrl :: "u32 \<Rightarrow> (dw_i2s_ctrl \<Rightarrow> dw_i2s_ctrl) \<Rightarrow> ('a, unit) nop" where
  "upd_nctrl c f = State_Monad.update (\<lambda>s. s\<lparr>nctrl := (nctrl s)(c := f (nctrl s c))\<rparr>)"

definition get_nconf :: "u32 \<Rightarrow> ('a, dw_i2s_config) nop" where
  "get_nconf c = do { s \<leftarrow> State_Monad.get; State_Monad.return (nconf s c) }"

definition upd_nconf :: "u32 \<Rightarrow> (dw_i2s_config \<Rightarrow> dw_i2s_config) \<Rightarrow> ('a, unit) nop" where
  "upd_nconf c f = State_Monad.update (\<lambda>s. s\<lparr>nconf := (nconf s)(c := f (nconf s c))\<rparr>)"

lemma run_i2s_heap [simp]:
  "run_state (get_ninfo obj) s = (ninfo s obj, s)"
  "run_state (get_nctrl c) s = (nctrl s c, s)"
  "run_state (get_nconf d) s = (nconf s d, s)"
  "run_state (upd_ninfo obj f) s = ((), s\<lparr>ninfo := (ninfo s)(obj := f (ninfo s obj))\<rparr>)"
  "run_state (upd_nctrl c g) s = ((), s\<lparr>nctrl := (nctrl s)(c := g (nctrl s c))\<rparr>)"
  "run_state (upd_nconf d k) s = ((), s\<lparr>nconf := (nconf s)(d := k (nconf s d))\<rparr>)"
  by (simp_all add: get_ninfo_def get_nctrl_def get_nconf_def upd_ninfo_def upd_nctrl_def upd_nconf_def)

lemma wp_i2s_heap [wp_rules]:
  "wp (get_ninfo obj) P1 s = P1 (ninfo s obj) s"
  "wp (get_nctrl c) P2 s = P2 (nctrl s c) s"
  "wp (get_nconf d) P3 s = P3 (nconf s d) s"
  "wp (upd_ninfo obj f) R s = R () (s\<lparr>ninfo := (ninfo s)(obj := f (ninfo s obj))\<rparr>)"
  "wp (upd_nctrl c g) R s = R () (s\<lparr>nctrl := (nctrl s)(c := g (nctrl s c))\<rparr>)"
  "wp (upd_nconf d k) R s = R () (s\<lparr>nconf := (nconf s)(d := k (nconf s d))\<rparr>)"
  by (simp_all add: wp_def)

text \<open>The registers of a device.\<close>

definition i2s_regs :: "'a i2s_mach_scheme \<Rightarrow> u32 \<Rightarrow> u32" where
  "i2s_regs s obj = dw_i2s_regs (nctrl s (i2s_ctrl (ninfo s obj)))"

definition get_i2s_regs :: "u32 \<Rightarrow> ('a, u32) nop" where
  "get_i2s_regs obj = do { s \<leftarrow> State_Monad.get; State_Monad.return (i2s_regs s obj) }"

definition get_i2s_conf :: "u32 \<Rightarrow> ('a, dw_i2s_config) nop" where
  "get_i2s_conf obj = do { i \<leftarrow> get_ninfo obj; get_nconf (i2s_config i) }"

definition get_receiver :: "u32 \<Rightarrow> ('a, bool) nop" where
  "get_receiver obj = do { i \<leftarrow> get_ninfo obj; State_Monad.return (i2_device i = I2S_DEVICE_RECEIVER) }"

definition ld16 :: "u32 \<Rightarrow> ('a, u16) op" where
  "ld16 a = do { s \<leftarrow> State_Monad.get; State_Monad.return (get16 (mem s) a) }"

definition st16 :: "u32 \<Rightarrow> u16 \<Rightarrow> ('a, unit) op" where
  "st16 a v = State_Monad.update (\<lambda>s. s\<lparr>mem := put16 a v (mem s)\<rparr>)"

lemma run_i2s_access [simp]:
  "run_state (get_i2s_regs obj) s = (i2s_regs s obj, s)"
  "run_state (get_i2s_conf obj) s = (nconf s (i2s_config (ninfo s obj)), s)"
  "run_state (get_receiver obj) s = (i2_device (ninfo s obj) = I2S_DEVICE_RECEIVER, s)"
  "run_state (ld16 a) u = (get16 (mem u) a, u)"
  "run_state (st16 a v) u = ((), u\<lparr>mem := put16 a v (mem u)\<rparr>)"
  by (simp_all add: get_i2s_regs_def get_i2s_conf_def get_receiver_def ld16_def st16_def)

lemma wp_i2s_access [wp_rules]:
  "wp (get_i2s_regs obj) P1 s = P1 (i2s_regs s obj) s"
  "wp (get_i2s_conf obj) P2 s = P2 (nconf s (i2s_config (ninfo s obj))) s"
  "wp (get_receiver obj) P3 s = P3 (i2_device (ninfo s obj) = I2S_DEVICE_RECEIVER) s"
  "wp (ld16 a) P4 u = P4 (get16 (mem u) a) u"
  "wp (st16 a v) P5 u = P5 () (u\<lparr>mem := put16 a v (mem u)\<rparr>)"
  by (simp_all add: wp_def)

subsection \<open>Register access\<close>

definition dw_i2s_rx_disable :: "plat \<Rightarrow> u32 \<Rightarrow> ('a, unit) op" where
  "dw_i2s_rx_disable p base = mmio_and p (base + I2S_IER) (NOT 1)"

definition dw_i2s_rx_enable :: "plat \<Rightarrow> u32 \<Rightarrow> ('a, unit) op" where
  "dw_i2s_rx_enable p base = mmio_or p (base + I2S_IER) 1"

definition dw_i2s_tx_disable :: "plat \<Rightarrow> u32 \<Rightarrow> ('a, unit) op" where
  "dw_i2s_tx_disable p base = mmio_and p (base + I2S_IER) (NOT 1)"

definition dw_i2s_tx_enable :: "plat \<Rightarrow> u32 \<Rightarrow> ('a, unit) op" where
  "dw_i2s_tx_enable p base = mmio_or p (base + I2S_IER) 1"

definition dw_i2s_rx_block_disable :: "plat \<Rightarrow> u32 \<Rightarrow> ('a, unit) op" where
  "dw_i2s_rx_block_disable p base = mmio_and p (base + I2S_IRER) (NOT 1)"

definition dw_i2s_rx_block_enable :: "plat \<Rightarrow> u32 \<Rightarrow> ('a, unit) op" where
  "dw_i2s_rx_block_enable p base = mmio_or p (base + I2S_IRER) 1"

definition dw_i2s_tx_block_disable :: "plat \<Rightarrow> u32 \<Rightarrow> ('a, unit) op" where
  "dw_i2s_tx_block_disable p base = mmio_and p (base + I2S_ITER) (NOT 1)"

definition dw_i2s_tx_block_enable :: "plat \<Rightarrow> u32 \<Rightarrow> ('a, unit) op" where
  "dw_i2s_tx_block_enable p base = mmio_or p (base + I2S_ITER) 1"

text \<open>The register of a channel, at the stride of the structure; nothing for any other channel.\<close>

definition chan_reg :: "u32 \<Rightarrow> u32 \<Rightarrow> u32 \<Rightarrow> u32" where
  "chan_reg base reg channel = base + reg + 0x40 * channel"

definition with_channel :: "u32 \<Rightarrow> ('a, unit) op \<Rightarrow> ('a, unit) op" where
  "with_channel channel m = c_if (channel \<le> 3) m"

definition dw_i2s_rx_channel_disable :: "plat \<Rightarrow> u32 \<Rightarrow> u32 \<Rightarrow> ('a, unit) op" where
  "dw_i2s_rx_channel_disable p base channel = with_channel channel (mmio_and p (chan_reg base I2S_RER0 channel) (NOT 1))"

definition dw_i2s_rx_channel_enable :: "plat \<Rightarrow> u32 \<Rightarrow> u32 \<Rightarrow> ('a, unit) op" where
  "dw_i2s_rx_channel_enable p base channel = with_channel channel (mmio_or p (chan_reg base I2S_RER0 channel) 1)"

definition dw_i2s_tx_channel_disable :: "plat \<Rightarrow> u32 \<Rightarrow> u32 \<Rightarrow> ('a, unit) op" where
  "dw_i2s_tx_channel_disable p base channel = with_channel channel (mmio_and p (chan_reg base I2S_TER0 channel) (NOT 1))"

definition dw_i2s_tx_channel_enable :: "plat \<Rightarrow> u32 \<Rightarrow> u32 \<Rightarrow> ('a, unit) op" where
  "dw_i2s_tx_channel_enable p base channel = with_channel channel (mmio_or p (chan_reg base I2S_TER0 channel) 1)"

definition dw_i2s_rx_clear_overrun_interrupt :: "plat \<Rightarrow> u32 \<Rightarrow> u32 \<Rightarrow> ('a, unit) op" where
  "dw_i2s_rx_clear_overrun_interrupt p base channel = with_channel channel (mmio_touch p (chan_reg base I2S_ROR0 channel))"

definition dw_i2s_tx_clear_overrun_interrupt :: "plat \<Rightarrow> u32 \<Rightarrow> u32 \<Rightarrow> ('a, unit) op" where
  "dw_i2s_tx_clear_overrun_interrupt p base channel = with_channel channel (mmio_touch p (chan_reg base I2S_TOR0 channel))"

definition dw_i2s_rx_unmask_interrupt :: "plat \<Rightarrow> u32 \<Rightarrow> u32 \<Rightarrow> u32 \<Rightarrow> ('a, unit) op" where
  "dw_i2s_rx_unmask_interrupt p base m channel = with_channel channel (mmio_and p (chan_reg base I2S_IMR0 channel) (NOT m))"

definition dw_i2s_rx_mask_interrupt :: "plat \<Rightarrow> u32 \<Rightarrow> u32 \<Rightarrow> u32 \<Rightarrow> ('a, unit) op" where
  "dw_i2s_rx_mask_interrupt p base m channel = with_channel channel (mmio_or p (chan_reg base I2S_IMR0 channel) m)"

definition dw_i2s_tx_unmask_interrupt :: "plat \<Rightarrow> u32 \<Rightarrow> u32 \<Rightarrow> u32 \<Rightarrow> ('a, unit) op" where
  "dw_i2s_tx_unmask_interrupt p base m channel = with_channel channel (mmio_and p (chan_reg base I2S_IMR0 channel) (NOT m))"

definition dw_i2s_tx_mask_interrupt :: "plat \<Rightarrow> u32 \<Rightarrow> u32 \<Rightarrow> u32 \<Rightarrow> ('a, unit) op" where
  "dw_i2s_tx_mask_interrupt p base m channel = with_channel channel (mmio_or p (chan_reg base I2S_IMR0 channel) m)"

definition dw_i2s_tx_get_txchet :: "plat \<Rightarrow> u32 \<Rightarrow> u32 \<Rightarrow> ('a, u32) op" where
  "dw_i2s_tx_get_txchet p base channel =
     (if channel \<le> 3 then do { v \<leftarrow> mmio_rd p (chan_reg base I2S_TFCR0 channel); State_Monad.return (v AND 0x0f) }
      else State_Monad.return 0)"

definition dw_i2s_tx_set_txchet :: "u32 \<Rightarrow> u32 \<Rightarrow> u32 \<Rightarrow> ('a, unit) op" where
  "dw_i2s_tx_set_txchet base level channel = with_channel channel (mmio_wr (chan_reg base I2S_TFCR0 channel) (level AND 0x0f))"

definition dw_i2s_rx_get_rxchdt :: "plat \<Rightarrow> u32 \<Rightarrow> u32 \<Rightarrow> ('a, u32) op" where
  "dw_i2s_rx_get_rxchdt p base channel =
     (if channel \<le> 3 then do { v \<leftarrow> mmio_rd p (chan_reg base I2S_RFCR0 channel); State_Monad.return (v AND 0x0f) }
      else State_Monad.return 0)"

definition dw_i2s_rx_set_rxchdt :: "u32 \<Rightarrow> u32 \<Rightarrow> u32 \<Rightarrow> ('a, unit) op" where
  "dw_i2s_rx_set_rxchdt base level channel = with_channel channel (mmio_wr (chan_reg base I2S_RFCR0 channel) (level AND 0x0f))"

definition dw_i2s_tx_clock_enable :: "plat \<Rightarrow> u32 \<Rightarrow> ('a, unit) op" where
  "dw_i2s_tx_clock_enable p base = mmio_or p (base + I2S_CER) 1"

definition dw_i2s_tx_clock_disable :: "plat \<Rightarrow> u32 \<Rightarrow> ('a, unit) op" where
  "dw_i2s_tx_clock_disable p base = mmio_and p (base + I2S_CER) (NOT 1)"

definition dw_i2s_rx_clock_enable :: "plat \<Rightarrow> u32 \<Rightarrow> ('a, unit) op" where
  "dw_i2s_rx_clock_enable p base = mmio_or p (base + I2S_CER) 1"

definition dw_i2s_rx_clock_disable :: "plat \<Rightarrow> u32 \<Rightarrow> ('a, unit) op" where
  "dw_i2s_rx_clock_disable p base = mmio_and p (base + I2S_CER) (NOT 1)"

definition dw_i2s_tx_set_wss :: "plat \<Rightarrow> u32 \<Rightarrow> u32 \<Rightarrow> ('a, unit) op" where
  "dw_i2s_tx_set_wss p base word_select = do {
     mmio_and p (base + I2S_CCR) (DW_I2S_CCR_WSS 0 OR 0x07);
     mmio_or p (base + I2S_CCR) (DW_I2S_CCR_WSS word_select)
   }"

definition dw_i2s_rx_set_wss :: "plat \<Rightarrow> u32 \<Rightarrow> u32 \<Rightarrow> ('a, unit) op" where
  "dw_i2s_rx_set_wss p base word_select = do {
     mmio_and p (base + I2S_CCR) (DW_I2S_CCR_WSS 0 OR 0x07);
     mmio_or p (base + I2S_CCR) (DW_I2S_CCR_WSS word_select)
   }"

definition dw_i2s_rx_flush_fifo :: "plat \<Rightarrow> u32 \<Rightarrow> ('a, unit) op" where
  "dw_i2s_rx_flush_fifo p base = mmio_or p (base + I2S_RXFFR) 1"

definition dw_i2s_tx_flush_fifo :: "plat \<Rightarrow> u32 \<Rightarrow> ('a, unit) op" where
  "dw_i2s_tx_flush_fifo p base = mmio_or p (base + I2S_TXFFR) 1"

text \<open>The depth both \<open>get_fifo_len\<close> functions decode.\<close>

definition i2s_fifo_depth :: "u32 \<Rightarrow> u32" where
  "i2s_fifo_depth v = (let d = drop_bit 2 v AND 0x03 in if d = 0 then 2 else if d = 1 then 4 else if d = 2 then 8 else 16)"

definition dw_i2s_rx_get_fifo_len :: "plat \<Rightarrow> u32 \<Rightarrow> ('a, u32) op" where
  "dw_i2s_rx_get_fifo_len p base = do { v \<leftarrow> mmio_rd p (base + I2S_COMP_PARAM_1); State_Monad.return (i2s_fifo_depth v) }"

definition dw_i2s_tx_get_fifo_len :: "plat \<Rightarrow> u32 \<Rightarrow> ('a, u32) op" where
  "dw_i2s_tx_get_fifo_len p base = do { v \<leftarrow> mmio_rd p (base + I2S_COMP_PARAM_1); State_Monad.return (i2s_fifo_depth v) }"

definition dw_i2s_tx_set_sclkg :: "plat \<Rightarrow> u32 \<Rightarrow> u32 \<Rightarrow> ('a, unit) op" where
  "dw_i2s_tx_set_sclkg p base clkg = do {
     mmio_and p (base + I2S_CCR) (DW_I2S_CCR_SCLKG 0 OR 0x18);
     mmio_or p (base + I2S_CCR) (DW_I2S_CCR_SCLKG clkg)
   }"

definition dw_i2s_rx_set_sclkg :: "plat \<Rightarrow> u32 \<Rightarrow> u32 \<Rightarrow> ('a, unit) op" where
  "dw_i2s_rx_set_sclkg p base clkg = do {
     mmio_and p (base + I2S_CCR) (DW_I2S_CCR_SCLKG 0 OR 0x18);
     mmio_or p (base + I2S_CCR) (DW_I2S_CCR_SCLKG clkg)
   }"

definition dw_i2s_get_wlen_bits :: "u32 \<Rightarrow> u32" where
  "dw_i2s_get_wlen_bits resolution = (if resolution \<le> 5 then resolution else 0)"

lemmas i2s_access_defs = dw_i2s_rx_disable_def dw_i2s_rx_enable_def dw_i2s_tx_disable_def dw_i2s_tx_enable_def
  dw_i2s_rx_block_disable_def dw_i2s_rx_block_enable_def dw_i2s_tx_block_disable_def dw_i2s_tx_block_enable_def
  dw_i2s_rx_channel_disable_def dw_i2s_rx_channel_enable_def dw_i2s_tx_channel_disable_def dw_i2s_tx_channel_enable_def
  dw_i2s_rx_clear_overrun_interrupt_def dw_i2s_tx_clear_overrun_interrupt_def dw_i2s_rx_unmask_interrupt_def
  dw_i2s_rx_mask_interrupt_def dw_i2s_tx_unmask_interrupt_def dw_i2s_tx_mask_interrupt_def dw_i2s_tx_get_txchet_def
  dw_i2s_tx_set_txchet_def dw_i2s_rx_get_rxchdt_def dw_i2s_rx_set_rxchdt_def dw_i2s_tx_clock_enable_def dw_i2s_tx_clock_disable_def
  dw_i2s_rx_clock_enable_def dw_i2s_rx_clock_disable_def dw_i2s_tx_set_wss_def dw_i2s_rx_set_wss_def dw_i2s_rx_flush_fifo_def
  dw_i2s_tx_flush_fifo_def dw_i2s_rx_get_fifo_len_def dw_i2s_tx_get_fifo_len_def dw_i2s_tx_set_sclkg_def dw_i2s_rx_set_sclkg_def
  with_channel_def c_if_def


subsection \<open>Device operations\<close>

definition dw_i2s_rx_set_wlen :: "u32 \<Rightarrow> u32 \<Rightarrow> ('a, unit) nop" where
  "dw_i2s_rx_set_wlen obj channel = do {
     k \<leftarrow> get_i2s_conf obj;
     base \<leftarrow> get_i2s_regs obj;
     with_channel channel (mmio_wr (chan_reg base I2S_RCR0 channel) (DW_I2S_XCRX_WLEN (dw_i2s_get_wlen_bits (data_res k channel))))
   }"

definition dw_i2s_tx_set_wlen :: "u32 \<Rightarrow> u32 \<Rightarrow> ('a, unit) nop" where
  "dw_i2s_tx_set_wlen obj channel = do {
     k \<leftarrow> get_i2s_conf obj;
     base \<leftarrow> get_i2s_regs obj;
     with_channel channel (mmio_wr (chan_reg base I2S_TCR0 channel) (DW_I2S_XCRX_WLEN (dw_i2s_get_wlen_bits (data_res k channel))))
   }"

text \<open>The two vectors of a channel, \<open>uint16_t\<close> each.\<close>

definition da_intr :: "u32 \<Rightarrow> u32" where "da_intr intno = intno AND 0x0000ffff"
definition or_intr :: "u32 \<Rightarrow> u32" where "or_intr intno = drop_bit 16 (intno AND 0xffff0000)"

text \<open>The end of the four functions that switch the interrupts of a channel: the flag, then both vectors.\<close>

definition i2s_irq_off :: "plat \<Rightarrow> u32 \<Rightarrow> u32 \<Rightarrow> ('a, unit) nop" where
  "i2s_irq_off p obj channel = do {
     i \<leftarrow> get_ninfo obj;
     k \<leftarrow> get_i2s_conf obj;
     c \<leftarrow> get_nctrl (i2s_ctrl i);
     c_if (i2s_int_status c channel AND DW_I2S_GINT_ENABLE = 1) (do {
       upd_nctrl (i2s_ctrl i) (\<lambda>c. c\<lparr>i2s_int_status := (i2s_int_status c)(channel := i2s_int_status c channel AND NOT DW_I2S_GINT_ENABLE)\<rparr>);
       _ \<leftarrow> int_disable p (da_intr (i2s_intno k channel));
       _ \<leftarrow> int_disable p (or_intr (i2s_intno k channel));
       State_Monad.return ()
     })
   }"

definition i2s_irq_on :: "plat \<Rightarrow> u32 \<Rightarrow> u32 \<Rightarrow> ('a, unit) nop" where
  "i2s_irq_on p obj channel = do {
     i \<leftarrow> get_ninfo obj;
     k \<leftarrow> get_i2s_conf obj;
     c \<leftarrow> get_nctrl (i2s_ctrl i);
     c_if (i2s_int_status c channel AND DW_I2S_GINT_ENABLE = 0) (do {
       upd_nctrl (i2s_ctrl i) (\<lambda>c. c\<lparr>i2s_int_status := (i2s_int_status c)(channel := i2s_int_status c channel OR DW_I2S_GINT_ENABLE)\<rparr>);
       _ \<leftarrow> int_enable p (da_intr (i2s_intno k channel));
       _ \<leftarrow> int_enable p (or_intr (i2s_intno k channel));
       State_Monad.return ()
     })
   }"

definition dw_i2s_rx_disable_interrupt :: "plat \<Rightarrow> u32 \<Rightarrow> u32 \<Rightarrow> ('a, unit) nop" where
  "dw_i2s_rx_disable_interrupt p obj channel = do {
     base \<leftarrow> get_i2s_regs obj;
     dw_i2s_rx_mask_interrupt p base I2S_IMR_RX channel;
     i2s_irq_off p obj channel
   }"

definition dw_i2s_tx_disable_interrupt :: "plat \<Rightarrow> u32 \<Rightarrow> u32 \<Rightarrow> ('a, unit) nop" where
  "dw_i2s_tx_disable_interrupt p obj channel = do {
     base \<leftarrow> get_i2s_regs obj;
     dw_i2s_tx_mask_interrupt p base I2S_IMR_TX channel;
     i2s_irq_off p obj channel
   }"

definition dw_i2s_disable_dev_intr :: "plat \<Rightarrow> u32 \<Rightarrow> u32 \<Rightarrow> ('a, unit) nop" where
  "dw_i2s_disable_dev_intr p obj channel = do {
     rx \<leftarrow> get_receiver obj;
     (if rx then dw_i2s_rx_disable_interrupt p obj channel else dw_i2s_tx_disable_interrupt p obj channel)
   }"

definition dw_i2s_rx_enable_interrupt :: "plat \<Rightarrow> u32 \<Rightarrow> u32 \<Rightarrow> ('a, unit) nop" where
  "dw_i2s_rx_enable_interrupt p obj channel = do {
     base \<leftarrow> get_i2s_regs obj;
     dw_i2s_rx_unmask_interrupt p base I2S_IMR_RX channel;
     i2s_irq_on p obj channel
   }"

definition dw_i2s_tx_enable_interrupt :: "plat \<Rightarrow> u32 \<Rightarrow> u32 \<Rightarrow> ('a, unit) nop" where
  "dw_i2s_tx_enable_interrupt p obj channel = do {
     base \<leftarrow> get_i2s_regs obj;
     dw_i2s_tx_unmask_interrupt p base I2S_IMR_TX channel;
     i2s_irq_on p obj channel
   }"

definition dw_i2s_enable_dev_intr :: "plat \<Rightarrow> u32 \<Rightarrow> u32 \<Rightarrow> ('a, unit) nop" where
  "dw_i2s_enable_dev_intr p obj channel = do {
     rx \<leftarrow> get_receiver obj;
     (if rx then dw_i2s_rx_enable_interrupt p obj channel else dw_i2s_tx_enable_interrupt p obj channel)
   }"

definition dw_i2s_enable_device :: "plat \<Rightarrow> u32 \<Rightarrow> u32 \<Rightarrow> ('a, unit) nop" where
  "dw_i2s_enable_device p obj channel = do {
     rx \<leftarrow> get_receiver obj;
     base \<leftarrow> get_i2s_regs obj;
     (if rx then do { dw_i2s_rx_block_enable p base; dw_i2s_rx_channel_enable p base channel }
      else do { dw_i2s_tx_block_enable p base; dw_i2s_tx_channel_enable p base channel })
   }"

definition dw_i2s_disable_device :: "plat \<Rightarrow> u32 \<Rightarrow> u32 \<Rightarrow> ('a, unit) nop" where
  "dw_i2s_disable_device p obj channel = do {
     rx \<leftarrow> get_receiver obj;
     base \<leftarrow> get_i2s_regs obj;
     (if rx then do { dw_i2s_rx_channel_disable p base channel; dw_i2s_rx_block_disable p base }
      else do { dw_i2s_tx_channel_disable p base channel; dw_i2s_tx_block_disable p base })
   }"

text \<open>The four tests of \<open>DW_I2S_CHANNELn_SUPPORTED\<close> the functions over all channels are made of.\<close>

definition each_channel :: "u32 \<Rightarrow> (u32 \<Rightarrow> ('s, unit) state) \<Rightarrow> ('s, unit) state" where
  "each_channel channels f = do {
     c_if (channels AND 0x1 \<noteq> 0) (f 0);
     c_if (channels AND 0x2 \<noteq> 0) (f 1);
     c_if (channels AND 0x4 \<noteq> 0) (f 2);
     c_if (channels AND 0x8 \<noteq> 0) (f 3)
   }"

definition dw_i2s_disable_device_all :: "plat \<Rightarrow> u32 \<Rightarrow> ('a, unit) nop" where
  "dw_i2s_disable_device_all p obj = do {
     k \<leftarrow> get_i2s_conf obj;
     rx \<leftarrow> get_receiver obj;
     base \<leftarrow> get_i2s_regs obj;
     (if rx then do { each_channel (i2s_channels k) (dw_i2s_rx_channel_disable p base); dw_i2s_rx_block_disable p base }
      else do { each_channel (i2s_channels k) (dw_i2s_tx_channel_disable p base); dw_i2s_tx_block_disable p base })
   }"

definition dw_i2s_reset_device :: "plat \<Rightarrow> u32 \<Rightarrow> ('a, unit) nop" where
  "dw_i2s_reset_device p obj = do {
     k \<leftarrow> get_i2s_conf obj;
     dw_i2s_disable_device_all p obj;
     upd_ninfo obj (\<lambda>i. i\<lparr>i2_cur_state := I2S_FREE, i2_err_state := I2S_ERR_NONE\<rparr>);
     rx \<leftarrow> get_receiver obj;
     base \<leftarrow> get_i2s_regs obj;
     (if rx then each_channel (i2s_channels k) (dw_i2s_rx_clear_overrun_interrupt p base)
      else each_channel (i2s_channels k) (dw_i2s_tx_clear_overrun_interrupt p base))
   }"

definition dw_i2s_flush :: "plat \<Rightarrow> u32 \<Rightarrow> ('a, unit) nop" where
  "dw_i2s_flush p obj = do {
     rx \<leftarrow> get_receiver obj;
     base \<leftarrow> get_i2s_regs obj;
     (if rx then do { dw_i2s_rx_block_disable p base; dw_i2s_rx_flush_fifo p base }
      else do { dw_i2s_tx_block_disable p base; dw_i2s_tx_flush_fifo p base })
   }"

definition dw_i2s_enable_all_channel_intr :: "plat \<Rightarrow> u32 \<Rightarrow> ('a, unit) nop" where
  "dw_i2s_enable_all_channel_intr p obj = do {
     k \<leftarrow> get_i2s_conf obj;
     each_channel (i2s_channels k) (dw_i2s_enable_dev_intr p obj)
   }"

definition dw_i2s_disable_all_channel_intr :: "plat \<Rightarrow> u32 \<Rightarrow> ('a, unit) nop" where
  "dw_i2s_disable_all_channel_intr p obj = do {
     k \<leftarrow> get_i2s_conf obj;
     each_channel (i2s_channels k) (dw_i2s_disable_dev_intr p obj)
   }"

definition dw_i2s_dis_cbr :: "plat \<Rightarrow> u32 \<Rightarrow> u32 \<Rightarrow> u32 \<Rightarrow> ('a, unit) nop" where
  "dw_i2s_dis_cbr p obj cbrtn channel = do {
     i \<leftarrow> get_ninfo obj;
     (if i2_device i = I2S_DEVICE_RECEIVER then
        c_if (cbrtn = DW_I2S_RX_RDY_RCV) (do {
          dw_i2s_rx_disable_interrupt p obj channel;
          upd_nctrl (i2s_ctrl i) (\<lambda>c. c\<lparr>i2s_int_status := (i2s_int_status c)(channel := i2s_int_status c channel AND NOT DW_I2S_RXINT_ENABLE)\<rparr>)
        })
      else
        c_if (cbrtn = DW_I2S_TX_RDY_SND) (do {
          dw_i2s_tx_disable_interrupt p obj channel;
          upd_nctrl (i2s_ctrl i) (\<lambda>c. c\<lparr>i2s_int_status := (i2s_int_status c)(channel := i2s_int_status c channel AND NOT DW_I2S_TXINT_ENABLE)\<rparr>)
        }))
   }"

subsection \<open>Samples\<close>

definition dw_i2s_tx_write_left_hold_reg :: "u32 \<Rightarrow> u32 \<Rightarrow> u32 \<Rightarrow> ('a, unit) nop" where
  "dw_i2s_tx_write_left_hold_reg cp data channel = do {
     c \<leftarrow> get_nctrl cp;
     c_if (channel = 0) (mmio_wr (dw_i2s_regs c + I2S_LTHR0) (i2s_sample data))
   }"

definition dw_i2s_tx_write_right_hold_reg :: "u32 \<Rightarrow> u32 \<Rightarrow> u32 \<Rightarrow> ('a, unit) nop" where
  "dw_i2s_tx_write_right_hold_reg cp data channel = do {
     c \<leftarrow> get_nctrl cp;
     c_if (channel = 0) (mmio_wr (dw_i2s_regs c + I2S_RTHR0) (i2s_sample data))
   }"

text \<open>The readers return the new value of \<open>*data\<close>.\<close>

definition dw_i2s_rx_read_left_hold_reg :: "plat \<Rightarrow> u32 \<Rightarrow> u32 \<Rightarrow> u32 \<Rightarrow> ('a, u32) nop" where
  "dw_i2s_rx_read_left_hold_reg p cp data channel = do {
     c \<leftarrow> get_nctrl cp;
     (if channel = 0 then do { v \<leftarrow> mmio_rd p (dw_i2s_regs c + I2S_LRBR0); State_Monad.return (i2s_sample v) }
      else State_Monad.return data)
   }"

definition dw_i2s_rx_read_right_hold_reg :: "plat \<Rightarrow> u32 \<Rightarrow> u32 \<Rightarrow> u32 \<Rightarrow> ('a, u32) nop" where
  "dw_i2s_rx_read_right_hold_reg p cp data channel = do {
     c \<leftarrow> get_nctrl cp;
     (if channel = 0 then do { v \<leftarrow> mmio_rd p (dw_i2s_regs c + I2S_RRBR0); State_Monad.return (i2s_sample v) }
      else State_Monad.return data)
   }"

text \<open>The loops over pairs of samples, at pair \<open>i\<close> of \<open>buff\<close> with \<open>n\<close> pairs to go.\<close>

primrec i2s_put_pairs :: "nat \<Rightarrow> u32 \<Rightarrow> u32 \<Rightarrow> u32 \<Rightarrow> u32 \<Rightarrow> ('a, unit) nop" where
  "i2s_put_pairs 0 cp buff i channel = State_Monad.return ()"
| "i2s_put_pairs (Suc n) cp buff i channel = do {
     l \<leftarrow> ld16 (buff + 4 * i);
     dw_i2s_tx_write_left_hold_reg cp (ucast l) channel;
     r \<leftarrow> ld16 (buff + 4 * i + 2);
     dw_i2s_tx_write_right_hold_reg cp (ucast r) channel;
     i2s_put_pairs n cp buff (i + 1) channel
   }"

primrec i2s_get_pairs :: "nat \<Rightarrow> plat \<Rightarrow> u32 \<Rightarrow> u32 \<Rightarrow> u32 \<Rightarrow> u32 \<Rightarrow> u32 \<Rightarrow> ('a, unit) nop" where
  "i2s_get_pairs 0 p cp data buff i channel = State_Monad.return ()"
| "i2s_get_pairs (Suc n) p cp data buff i channel = do {
     l \<leftarrow> dw_i2s_rx_read_left_hold_reg p cp data channel;
     st16 (buff + 4 * i) (ucast l);
     r \<leftarrow> dw_i2s_rx_read_right_hold_reg p cp l channel;
     st16 (buff + 4 * i + 2) (ucast r);
     i2s_get_pairs n p cp r buff (i + 1) channel
   }"

text \<open>The padding with zeros of the transmitter, and the drain of the receiver.\<close>

primrec i2s_pad_pairs :: "nat \<Rightarrow> u32 \<Rightarrow> ('a, unit) nop" where
  "i2s_pad_pairs 0 cp = State_Monad.return ()"
| "i2s_pad_pairs (Suc n) cp = do {
     dw_i2s_tx_write_left_hold_reg cp 0 0;
     dw_i2s_tx_write_right_hold_reg cp 0 0;
     i2s_pad_pairs n cp
   }"

primrec i2s_drain_pairs :: "nat \<Rightarrow> plat \<Rightarrow> u32 \<Rightarrow> ('a, unit) nop" where
  "i2s_drain_pairs 0 p cp = State_Monad.return ()"
| "i2s_drain_pairs (Suc n) p cp = do {
     _ \<leftarrow> dw_i2s_rx_read_left_hold_reg p cp 0 0;
     _ \<leftarrow> dw_i2s_rx_read_right_hold_reg p cp 0 0;
     i2s_drain_pairs n p cp
   }"

text \<open>The pairs of one round and the count that remains after it.\<close>

definition i2s_round :: "u32 \<Rightarrow> u32 \<Rightarrow> u32 \<times> u32" where
  "i2s_round count avail = (if drop_bit 1 count < avail then (drop_bit 1 count, 0) else (avail, count - avail * 2))"

definition dw_i2s_tx_write_samples :: "plat \<Rightarrow> u32 \<Rightarrow> u32 \<Rightarrow> u32 \<Rightarrow> ('a, u32) nop" where
  "dw_i2s_tx_write_samples p obj count channel = do {
     i \<leftarrow> get_ninfo obj;
     let cp = i2s_ctrl i;
     c \<leftarrow> get_nctrl cp;
     empty_trig \<leftarrow> dw_i2s_tx_get_txchet p (dw_i2s_regs c) channel;
     let (avail_cnt, remain_cnt) = i2s_round count (sb_len (dw_i2s_buf c) - sb_ofs (dw_i2s_buf c));
     i2s_put_pairs (unat avail_cnt) cp (sb_buf (dw_i2s_buf c)) 0 channel;
     upd_nctrl cp (\<lambda>c. c\<lparr>dw_i2s_buf := (dw_i2s_buf c)\<lparr>sb_ofs := (if remain_cnt = 0 then 0 else empty_trig)\<rparr>\<rparr>);
     State_Monad.return remain_cnt
   }"

definition dw_i2s_rx_read_samples :: "plat \<Rightarrow> u32 \<Rightarrow> u32 \<Rightarrow> u32 \<Rightarrow> ('a, u32) nop" where
  "dw_i2s_rx_read_samples p obj count channel = do {
     i \<leftarrow> get_ninfo obj;
     let cp = i2s_ctrl i;
     c \<leftarrow> get_nctrl cp;
     avail_trig \<leftarrow> dw_i2s_rx_get_rxchdt p (dw_i2s_regs c) channel;
     let (avail_cnt, remain_cnt) = i2s_round count avail_trig;
     i2s_get_pairs (unat avail_cnt) p cp 0 (sb_buf (dw_i2s_buf c)) 0 channel;
     upd_nctrl cp (\<lambda>c. c\<lparr>dw_i2s_buf := (dw_i2s_buf c)\<lparr>sb_ofs := sb_ofs (dw_i2s_buf c) + avail_cnt\<rparr>\<rparr>);
     State_Monad.return remain_cnt
   }"

subsection \<open>Interrupt service\<close>

definition i2s_call :: "'a i2s_callback \<Rightarrow> u32 \<Rightarrow> u32 \<Rightarrow> ('a, unit) nop" where
  "i2s_call cb f obj = c_if (f \<noteq> 0) (cb f obj)"

text \<open>The transmission of one interrupt: a full chunk, or the rest padded with zeros.\<close>

definition i2s_int_send :: "plat \<Rightarrow> u32 \<Rightarrow> u32 \<Rightarrow> u32 \<Rightarrow> u32 \<Rightarrow> u32 \<Rightarrow> u32 \<Rightarrow> ('a, unit) nop" where
  "i2s_int_send p obj cp base buff empty_trig buf_ofs = do {
     i \<leftarrow> get_ninfo obj;
     (if blen (i2_tx_buf i) \<ge> empty_trig * 2 then do {
        i2s_put_pairs (unat empty_trig) cp buff buf_ofs 0;
        upd_ninfo obj (\<lambda>i. i\<lparr>i2_tx_buf := (i2_tx_buf i)\<lparr>ofs := ofs (i2_tx_buf i) + 1, blen := blen (i2_tx_buf i) - empty_trig * 2\<rparr>\<rparr>);
        dw_i2s_tx_clear_overrun_interrupt p base 0;
        dw_i2s_tx_enable_interrupt p obj 0
      } else do {
        let count_pair = drop_bit 1 (blen (i2_tx_buf i));
        i2s_put_pairs (unat count_pair) cp buff buf_ofs 0;
        i2s_pad_pairs (unat empty_trig - unat count_pair) cp;
        upd_ninfo obj (\<lambda>i. i\<lparr>i2_tx_buf := (i2_tx_buf i)\<lparr>blen := 0\<rparr>\<rparr>);
        dw_i2s_tx_clear_overrun_interrupt p base 0
      })
   }"

definition dw_i2s_mst_int_write :: "plat \<Rightarrow> 'a i2s_callback \<Rightarrow> u32 \<Rightarrow> ('a, unit) nop" where
  "dw_i2s_mst_int_write p cb obj = do {
     i \<leftarrow> get_ninfo obj;
     let cp = i2s_ctrl i;
     base \<leftarrow> get_i2s_regs obj;
     txchet \<leftarrow> dw_i2s_tx_get_txchet p base 0;
     let empty_trig = 16 - txchet;
     let buf_ofs = ofs (i2_tx_buf i) * empty_trig;
     let buff = buf (i2_tx_buf i);
     dw_i2s_dis_cbr p obj DW_I2S_TX_RDY_SND 0;
     isr0 \<leftarrow> mmio_rd p (base + I2S_ISR0);
     c_if (buff \<noteq> 0) (do {
       c_if (isr0 AND DW_I2S_ISRX_TXFO \<noteq> 0) (do {
         upd_ninfo obj (\<lambda>i. i\<lparr>i2_cur_state := I2S_FREE\<rparr>);
         i \<leftarrow> get_ninfo obj;
         i2s_call cb (i2_err_cb i) obj
       });
       c_if (isr0 AND DW_I2S_ISRX_TXFE \<noteq> 0) (do {
         i2s_int_send p obj cp base buff empty_trig buf_ofs;
         upd_ninfo obj (\<lambda>i. i\<lparr>i2_cur_state := I2S_FREE\<rparr>);
         i \<leftarrow> get_ninfo obj;
         c_if (blen (i2_tx_buf i) = 0) (i2s_call cb (i2_tx_cb i) obj)
       })
     })
   }"

text \<open>The reception of one interrupt.\<close>

definition i2s_int_receive :: "plat \<Rightarrow> u32 \<Rightarrow> u32 \<Rightarrow> u32 \<Rightarrow> u32 \<Rightarrow> u32 \<Rightarrow> u32 \<Rightarrow> ('a, unit) nop" where
  "i2s_int_receive p obj cp base buff empty_trig buf_ofs = do {
     i \<leftarrow> get_ninfo obj;
     (if blen (i2_rx_buf i) \<ge> empty_trig * 2 then do {
        i2s_get_pairs (unat empty_trig) p cp 0 buff buf_ofs 0;
        upd_ninfo obj (\<lambda>i. i\<lparr>i2_rx_buf := (i2_rx_buf i)\<lparr>ofs := ofs (i2_rx_buf i) + 1, blen := blen (i2_rx_buf i) - empty_trig * 2\<rparr>\<rparr>);
        dw_i2s_rx_clear_overrun_interrupt p base 0;
        dw_i2s_rx_enable_interrupt p obj 0
      } else do {
        let count_pair = drop_bit 1 (blen (i2_rx_buf i));
        i2s_get_pairs (unat count_pair) p cp 0 buff buf_ofs 0;
        i2s_drain_pairs (unat empty_trig - unat count_pair) p cp;
        upd_ninfo obj (\<lambda>i. i\<lparr>i2_rx_buf := (i2_rx_buf i)\<lparr>blen := 0\<rparr>\<rparr>);
        dw_i2s_rx_clear_overrun_interrupt p base 0
      })
   }"

definition dw_i2s_mst_int_rx :: "plat \<Rightarrow> 'a i2s_callback \<Rightarrow> u32 \<Rightarrow> ('a, unit) nop" where
  "dw_i2s_mst_int_rx p cb obj = do {
     i \<leftarrow> get_ninfo obj;
     let cp = i2s_ctrl i;
     base \<leftarrow> get_i2s_regs obj;
     empty_trig \<leftarrow> dw_i2s_rx_get_rxchdt p base 0;
     let buf_ofs = ofs (i2_rx_buf i) * empty_trig;
     let buff = buf (i2_rx_buf i);
     dw_i2s_dis_cbr p obj DW_I2S_RX_RDY_RCV 0;
     isr0 \<leftarrow> mmio_rd p (base + I2S_ISR0);
     (if buff \<noteq> 0 then do {
       c_if (isr0 AND DW_I2S_ISRX_RXFO \<noteq> 0) (do {
         upd_ninfo obj (\<lambda>i. i\<lparr>i2_cur_state := I2S_FREE\<rparr>);
         i2s_get_pairs 16 p cp 0 buff buf_ofs 0
       });
       c_if (isr0 AND DW_I2S_ISRX_RXDA \<noteq> 0) (do {
         i2s_int_receive p obj cp base buff empty_trig buf_ofs;
         upd_ninfo obj (\<lambda>i. i\<lparr>i2_cur_state := I2S_FREE\<rparr>);
         i \<leftarrow> get_ninfo obj;
         c_if (blen (i2_rx_buf i) = 0) (i2s_call cb (i2_rx_cb i) obj)
       })
     } else embarc_printf (''The buffer of receiver is NULL !'' @ [CHR 0x0A]) [])
   }"

definition dw_i2s_isr_tx :: "plat \<Rightarrow> 'a i2s_callback \<Rightarrow> u32 \<Rightarrow> ('a, unit) nop" where
  "dw_i2s_isr_tx p cb obj = do {
     i \<leftarrow> get_ninfo obj;
     k \<leftarrow> get_i2s_conf obj;
     c_if (i2_cur_state i = I2S_FREE \<and> i2s_channels k AND 0x1 = 1 \<and> i2s_channels k AND 0x2 = 0
         \<and> i2s_channels k AND 0x4 = 0 \<and> i2s_channels k AND 0x8 = 0) (do {
       upd_ninfo obj (\<lambda>i. i\<lparr>i2_cur_state := I2S_IN_TX\<rparr>);
       dw_i2s_mst_int_write p cb obj
     })
   }"

definition dw_i2s_isr_rx :: "plat \<Rightarrow> 'a i2s_callback \<Rightarrow> u32 \<Rightarrow> ('a, unit) nop" where
  "dw_i2s_isr_rx p cb obj = do {
     i \<leftarrow> get_ninfo obj;
     k \<leftarrow> get_i2s_conf obj;
     c_if (i2_cur_state i = I2S_FREE \<and> i2s_channels k AND 0x1 = 1 \<and> i2s_channels k AND 0x2 = 0
         \<and> i2s_channels k AND 0x4 = 0 \<and> i2s_channels k AND 0x8 = 0) (do {
       upd_ninfo obj (\<lambda>i. i\<lparr>i2_cur_state := I2S_IN_RX\<rparr>);
       dw_i2s_mst_int_rx p cb obj
     })
   }"


subsection \<open>Open and close\<close>

text \<open>
  The channels of an open device: the resolution, the interrupts off, and the two vectors, of which
  those of the last channel are kept.
\<close>

definition i2s_open_channel :: "plat \<Rightarrow> u32 \<Rightarrow> (u32 \<Rightarrow> ('a, unit) nop) \<Rightarrow> u32 \<Rightarrow> u32 \<Rightarrow> u32 \<times> u32 \<Rightarrow> ('a, u32 \<times> u32) nop" where
  "i2s_open_channel p obj set_wlen bit_n channel v = do {
     k \<leftarrow> get_i2s_conf obj;
     (if i2s_channels k AND bit_n \<noteq> 0 then do {
        set_wlen channel;
        dw_i2s_disable_dev_intr p obj channel;
        State_Monad.return (da_intr (i2s_intno k channel), or_intr (i2s_intno k channel))
      } else State_Monad.return v)
   }"

definition i2s_open_channels :: "plat \<Rightarrow> u32 \<Rightarrow> (u32 \<Rightarrow> ('a, unit) nop) \<Rightarrow> ('a, u32 \<times> u32) nop" where
  "i2s_open_channels p obj set_wlen = do {
     v \<leftarrow> i2s_open_channel p obj set_wlen 0x1 0 (0, 0);
     v \<leftarrow> i2s_open_channel p obj set_wlen 0x2 1 v;
     v \<leftarrow> i2s_open_channel p obj set_wlen 0x4 2 v;
     i2s_open_channel p obj set_wlen 0x8 3 v
   }"

definition i2s_install :: "plat \<Rightarrow> u32 \<Rightarrow> u32 \<times> u32 \<Rightarrow> ('a, unit) nop" where
  "i2s_install p obj v = do {
     i \<leftarrow> get_ninfo obj;
     k \<leftarrow> get_i2s_conf obj;
     _ \<leftarrow> int_handler_install p (fst v) (dw_i2s_int_handler k);
     _ \<leftarrow> int_handler_install p (snd v) (dw_i2s_int_handler k);
     upd_nctrl (i2s_ctrl i) (\<lambda>c. c\<lparr>dw_i2s_buf := \<lparr>sb_buf = 0, sb_ofs = 0, sb_len = 0\<rparr>\<rparr>)
   }"

definition i2s_open_rx :: "plat \<Rightarrow> u32 \<Rightarrow> u32 \<Rightarrow> ('a, unit) nop" where
  "i2s_open_rx p obj mode = do {
     base \<leftarrow> get_i2s_regs obj;
     k \<leftarrow> get_i2s_conf obj;
     dw_i2s_rx_block_disable p base;
     dw_i2s_rx_disable p base;
     dw_i2s_rx_flush_fifo p base;
     c_if (mode = I2S_MASTER_MODE) (do {
       dw_i2s_rx_clock_disable p base;
       dw_i2s_rx_set_wss p base (ws_length k);
       dw_i2s_rx_set_sclkg p base (sclk_gate k)
     });
     v \<leftarrow> i2s_open_channels p obj (dw_i2s_rx_set_wlen obj);
     i2s_install p obj v
   }"

definition i2s_open_tx :: "plat \<Rightarrow> u32 \<Rightarrow> u32 \<Rightarrow> ('a, unit) nop" where
  "i2s_open_tx p obj mode = do {
     base \<leftarrow> get_i2s_regs obj;
     k \<leftarrow> get_i2s_conf obj;
     dw_i2s_tx_block_disable p base;
     dw_i2s_tx_disable p base;
     dw_i2s_tx_flush_fifo p base;
     c_if (mode = I2S_MASTER_MODE) (do {
       dw_i2s_tx_clock_disable p base;
       dw_i2s_tx_set_wss p base (ws_length k);
       dw_i2s_tx_set_sclkg p base (sclk_gate k)
     });
     v \<leftarrow> i2s_open_channels p obj (dw_i2s_tx_set_wlen obj);
     i2s_install p obj v
   }"

text \<open>The fields both calls reset.\<close>

definition i2s_reset_fields :: "u32 \<Rightarrow> dev_i2s_info \<Rightarrow> dev_i2s_info" where
  "i2s_reset_fields st i = i\<lparr>i2_status := st, i2_cur_state := I2S_FREE, i2_err_state := I2S_ERR_NONE, i2_extra := 0,
     i2_tx_cb := 0, i2_rx_cb := 0, i2_err_cb := 0, i2_tx_buf := null_buffer, i2_rx_buf := null_buffer\<rparr>"

definition i2s_first_open :: "plat \<Rightarrow> u32 \<Rightarrow> u32 \<Rightarrow> ('a, s32) nop" where
  "i2s_first_open p obj mode = do {
     upd_ninfo obj (\<lambda>i. i\<lparr>i2_opn_cnt := i2_opn_cnt i + 1, i2_mode := mode\<rparr>);
     rx \<leftarrow> get_receiver obj;
     (if rx then i2s_open_rx p obj mode else i2s_open_tx p obj mode);
     upd_ninfo obj (i2s_reset_fields DEV_ENABLED);
     base \<leftarrow> get_i2s_regs obj;
     (if rx then dw_i2s_rx_enable p base else dw_i2s_tx_enable p base);
     State_Monad.return E_OK
   }"

definition dw_i2s_open :: "plat \<Rightarrow> u32 \<Rightarrow> u32 \<Rightarrow> u32 \<Rightarrow> ('a, s32 res) nop" where
  "dw_i2s_open p obj mode param = do {
     i \<leftarrow> get_ninfo obj;
     k \<leftarrow> get_i2s_conf obj;
     if obj = 0 then stopE Undef
     else
       check_exp (i2s_ctrl i \<noteq> 0) E_OBJ (
       check_exp (mode = I2S_MASTER_MODE \<or> mode = I2S_SLAVE_MODE) E_PAR (
       check_exp (param = I2S_DEVICE_TRANSMITTER \<or> param = I2S_DEVICE_RECEIVER) E_PAR (
       check_exp (i2_device i = param) E_PAR (
       bindE (liftE (do {
         base \<leftarrow> get_i2s_regs obj;
         (if i2_device i = I2S_DEVICE_RECEIVER then dw_i2s_rx_get_fifo_len p base else dw_i2s_tx_get_fifo_len p base)
       })) (\<lambda>len.
       if i2s_fifo_len k \<noteq> len then retE E_SYS
       else
         check_exp (i2s_support_modes k AND DW_I2S_MASTER_SUPPORTED \<noteq> 0 \<and> mode = I2S_MASTER_MODE
                  \<or> i2s_support_modes k AND DW_I2S_SLAVE_SUPPORTED \<noteq> 0 \<and> mode = I2S_SLAVE_MODE) E_NOSPT (
         if i2_opn_cnt i > 0 then retE E_OPNED
         else liftE (i2s_first_open p obj mode)))))))
   }"

definition i2s_quiet :: "plat \<Rightarrow> u32 \<Rightarrow> ('a, unit) nop" where
  "i2s_quiet p obj = do {
     rx \<leftarrow> get_receiver obj;
     base \<leftarrow> get_i2s_regs obj;
     (if rx then do { dw_i2s_rx_block_disable p base; dw_i2s_rx_disable p base; dw_i2s_rx_flush_fifo p base }
      else do { dw_i2s_tx_block_disable p base; dw_i2s_tx_disable p base; dw_i2s_tx_flush_fifo p base });
     dw_i2s_disable_all_channel_intr p obj
   }"

definition dw_i2s_close :: "plat \<Rightarrow> u32 \<Rightarrow> ('a, s32 res) nop" where
  "dw_i2s_close p obj = do {
     i \<leftarrow> get_ninfo obj;
     if obj = 0 then stopE Undef
     else
       check_exp (i2s_ctrl i \<noteq> 0) E_OBJ (
       check_exp (i2_opn_cnt i > 0) E_OK (liftE (do {
         upd_ninfo obj (\<lambda>i. i\<lparr>i2_opn_cnt := i2_opn_cnt i - 1\<rparr>);
         i \<leftarrow> get_ninfo obj;
         (if i2_opn_cnt i = 0 then do {
            i2s_quiet p obj;
            upd_ninfo obj (i2s_reset_fields 0);
            State_Monad.return E_OK
          } else State_Monad.return E_OPNED)
       })))
   }"

subsection \<open>Control\<close>

abbreviation (input) I2S_CMD_GET_STATUS :: u32 where "I2S_CMD_GET_STATUS \<equiv> 0"
abbreviation (input) I2S_CMD_SET_TXCB :: u32 where "I2S_CMD_SET_TXCB \<equiv> 1"
abbreviation (input) I2S_CMD_SET_RXCB :: u32 where "I2S_CMD_SET_RXCB \<equiv> 2"
abbreviation (input) I2S_CMD_SET_ERRCB :: u32 where "I2S_CMD_SET_ERRCB \<equiv> 3"
abbreviation (input) I2S_CMD_SET_TXINT :: u32 where "I2S_CMD_SET_TXINT \<equiv> 4"
abbreviation (input) I2S_CMD_SET_RXINT :: u32 where "I2S_CMD_SET_RXINT \<equiv> 5"
abbreviation (input) I2S_CMD_RESET :: u32 where "I2S_CMD_RESET \<equiv> 6"
abbreviation (input) I2S_CMD_FLUSH_TX :: u32 where "I2S_CMD_FLUSH_TX \<equiv> 7"
abbreviation (input) I2S_CMD_FLUSH_RX :: u32 where "I2S_CMD_FLUSH_RX \<equiv> 8"
abbreviation (input) I2S_CMD_ENA_DEV :: u32 where "I2S_CMD_ENA_DEV \<equiv> 9"
abbreviation (input) I2S_CMD_DIS_DEV :: u32 where "I2S_CMD_DIS_DEV \<equiv> 10"
abbreviation (input) I2S_CMD_SET_TXINT_BUF :: u32 where "I2S_CMD_SET_TXINT_BUF \<equiv> 11"
abbreviation (input) I2S_CMD_SET_RXINT_BUF :: u32 where "I2S_CMD_SET_RXINT_BUF \<equiv> 12"
abbreviation (input) I2S_CMD_SET_TXCHET_BUF :: u32 where "I2S_CMD_SET_TXCHET_BUF \<equiv> 13"
abbreviation (input) I2S_CMD_SET_RXCHDT_BUF :: u32 where "I2S_CMD_SET_RXCHDT_BUF \<equiv> 14"
abbreviation (input) I2S_CMD_MST_SET_CLK :: u32 where "I2S_CMD_MST_SET_CLK \<equiv> 0x10000"
abbreviation (input) I2S_CMD_MST_SET_WSS :: u32 where "I2S_CMD_MST_SET_WSS \<equiv> 0x10001"
abbreviation (input) I2S_CMD_MST_SET_SCLKG :: u32 where "I2S_CMD_MST_SET_SCLKG \<equiv> 0x10002"

definition DW_I2S_CHANNEL_CHECK :: "u32 \<Rightarrow> u32 \<Rightarrow> bool" where
  "DW_I2S_CHANNEL_CHECK v channels \<longleftrightarrow> v = 0 \<and> channels AND 0x1 \<noteq> 0 \<or> v = 1 \<and> channels AND 0x2 \<noteq> 0
     \<or> v = 2 \<and> channels AND 0x4 \<noteq> 0 \<or> v = 3 \<and> channels AND 0x8 \<noteq> 0"

definition i2s_ok :: "('a, unit) nop \<Rightarrow> ('a, s32 res) nop" where
  "i2s_ok m = liftE (do { m; State_Monad.return E_OK })"

text \<open>A buffer installed for the interrupt routine, at \<open>param\<close> or none.\<close>

definition i2s_int_buffer :: "(u32 \<Rightarrow> u8) \<Rightarrow> u32 \<Rightarrow> dev_buffer" where
  "i2s_int_buffer m param = (if param \<noteq> 0 then (load_buffer m param)\<lparr>ofs := 0\<rparr> else null_buffer)"

definition i2s_set_int_buf :: "u32 \<Rightarrow> (dev_buffer \<Rightarrow> dev_i2s_info \<Rightarrow> dev_i2s_info) \<Rightarrow> u32 \<Rightarrow> ('a, s32 res) nop" where
  "i2s_set_int_buf obj put param = check_exp (aligned4 param) E_PAR (i2s_ok (do {
     s \<leftarrow> State_Monad.get;
     let b = i2s_int_buffer (mem s) param;
     upd_ninfo obj (put b);
     upd_nctrl (i2s_ctrl (ninfo s obj)) (\<lambda>c. c\<lparr>dw_i2s_buf := (dw_i2s_buf c)\<lparr>sb_ofs := 0, sb_len := blen b\<rparr>\<rparr>)
   }))"

text \<open>The trigger level and the channel packed in a parameter.\<close>

definition i2s_set_trigger :: "u32 \<Rightarrow> (u32 \<Rightarrow> ('a, unit) nop) \<Rightarrow> (u32 \<Rightarrow> u32 \<Rightarrow> ('a, unit) nop) \<Rightarrow> (u32 \<Rightarrow> ('a, unit) nop)
    \<Rightarrow> u32 \<Rightarrow> ('a, s32 res) nop" where
  "i2s_set_trigger channels off set_level on param = (
     let level = drop_bit 16 (param AND 0xffff0000); channel = param AND 0x0000ffff in
     check_exp (param \<noteq> 0 \<and> aligned4 param) E_PAR (
     check_exp (level < 16) E_PAR (
     if \<not> DW_I2S_CHANNEL_CHECK channel channels then retE E_PAR
     else i2s_ok (do { off channel; set_level level channel; on channel }))))"

definition i2s_command :: "plat \<Rightarrow> u32 \<Rightarrow> u32 \<Rightarrow> u32 \<Rightarrow> ('a, s32 res) nop" where
  "i2s_command p obj ctrl_cmd param = do {
     i \<leftarrow> get_ninfo obj;
     k \<leftarrow> get_i2s_conf obj;
     base \<leftarrow> get_i2s_regs obj;
     let rx = (i2_device i = I2S_DEVICE_RECEIVER);
     let tx = (i2_device i = I2S_DEVICE_TRANSMITTER);
     (if ctrl_cmd = I2S_CMD_GET_STATUS then
        check_exp (param \<noteq> 0 \<and> aligned4 param) E_PAR (i2s_ok (st32 param (i2_status i)))
      else if ctrl_cmd = I2S_CMD_ENA_DEV then
        (if DW_I2S_CHANNEL_CHECK 0 (i2s_channels k) then
           i2s_ok (do { dw_i2s_enable_device p obj param; upd_ninfo obj (\<lambda>i. i\<lparr>i2_status := DEV_ENABLED\<rparr>) })
         else retE E_PAR)
      else if ctrl_cmd = I2S_CMD_DIS_DEV then
        (if DW_I2S_CHANNEL_CHECK 0 (i2s_channels k) then
           i2s_ok (do { dw_i2s_disable_device p obj param; upd_ninfo obj (\<lambda>i. i\<lparr>i2_status := 0\<rparr>) })
         else retE E_PAR)
      else if ctrl_cmd = I2S_CMD_RESET then i2s_ok (dw_i2s_reset_device p obj)
      else if ctrl_cmd = I2S_CMD_FLUSH_TX \<or> ctrl_cmd = I2S_CMD_FLUSH_RX then i2s_ok (dw_i2s_flush p obj)
      else if ctrl_cmd = I2S_CMD_SET_TXCB then
        check_exp (aligned4 param) E_PAR (i2s_ok (upd_ninfo obj (\<lambda>i. i\<lparr>i2_tx_cb := param\<rparr>)))
      else if ctrl_cmd = I2S_CMD_SET_RXCB then
        check_exp (aligned4 param) E_PAR (i2s_ok (upd_ninfo obj (\<lambda>i. i\<lparr>i2_rx_cb := param\<rparr>)))
      else if ctrl_cmd = I2S_CMD_SET_ERRCB then
        check_exp (aligned4 param) E_PAR (i2s_ok (upd_ninfo obj (\<lambda>i. i\<lparr>i2_err_cb := param\<rparr>)))
      else if ctrl_cmd = I2S_CMD_SET_TXINT then
        check_exp tx E_SYS (check_exp (i2_cur_state i \<noteq> I2S_IN_RX) E_CTX (i2s_ok
          (if param = 0 then dw_i2s_disable_all_channel_intr p obj else dw_i2s_enable_all_channel_intr p obj)))
      else if ctrl_cmd = I2S_CMD_SET_RXINT then
        check_exp rx E_SYS (check_exp (i2_cur_state i \<noteq> I2S_IN_TX) E_CTX (i2s_ok
          (if param = 0 then dw_i2s_disable_all_channel_intr p obj else dw_i2s_enable_all_channel_intr p obj)))
      else if ctrl_cmd = I2S_CMD_SET_TXINT_BUF then
        check_exp tx E_SYS (check_exp (i2_cur_state i = I2S_FREE) E_CTX
          (i2s_set_int_buf obj (\<lambda>b i. i\<lparr>i2_tx_buf := b\<rparr>) param))
      else if ctrl_cmd = I2S_CMD_SET_RXINT_BUF then
        check_exp rx E_SYS (check_exp (i2_cur_state i = I2S_FREE) E_CTX
          (i2s_set_int_buf obj (\<lambda>b i. i\<lparr>i2_rx_buf := b\<rparr>) param))
      else if ctrl_cmd = I2S_CMD_SET_TXCHET_BUF then
        check_exp tx E_SYS (check_exp (i2_cur_state i = I2S_FREE) E_CTX
          (i2s_set_trigger (i2s_channels k) (dw_i2s_tx_channel_disable p base) (dw_i2s_tx_set_txchet base)
             (dw_i2s_tx_channel_enable p base) param))
      else if ctrl_cmd = I2S_CMD_SET_RXCHDT_BUF then
        check_exp rx E_SYS (check_exp (i2_cur_state i = I2S_FREE) E_CTX
          (i2s_set_trigger (i2s_channels k) (dw_i2s_rx_channel_disable p base) (dw_i2s_rx_set_rxchdt base)
             (dw_i2s_rx_channel_enable p base) param))
      else if ctrl_cmd = I2S_CMD_MST_SET_CLK then
        check_exp (i2_mode i = I2S_MASTER_MODE) E_NOSPT (i2s_ok
          (if param = 0 then (if rx then dw_i2s_rx_clock_disable p base else dw_i2s_tx_clock_disable p base)
           else (if rx then dw_i2s_rx_clock_enable p base else dw_i2s_tx_clock_enable p base)))
      else if ctrl_cmd = I2S_CMD_MST_SET_WSS then
        check_exp (i2_mode i = I2S_MASTER_MODE) E_NOSPT (check_exp (param \<le> 2) E_PAR (i2s_ok (do {
          (if rx then do { dw_i2s_rx_clock_disable p base; dw_i2s_rx_set_wss p base param }
           else do { dw_i2s_tx_clock_disable p base; dw_i2s_tx_set_wss p base param });
          upd_nconf (i2s_config i) (\<lambda>k. k\<lparr>ws_length := param\<rparr>)
        })))
      else if ctrl_cmd = I2S_CMD_MST_SET_SCLKG then
        check_exp (i2_mode i = I2S_MASTER_MODE) E_NOSPT (check_exp (param \<le> 4) E_PAR (i2s_ok (do {
          (if rx then do { dw_i2s_rx_clock_disable p base; dw_i2s_rx_set_sclkg p base param }
           else do { dw_i2s_tx_clock_disable p base; dw_i2s_tx_set_sclkg p base param });
          upd_nconf (i2s_config i) (\<lambda>k. k\<lparr>sclk_gate := param\<rparr>)
        })))
      else retE E_NOSPT)
   }"

definition dw_i2s_control :: "plat \<Rightarrow> u32 \<Rightarrow> u32 \<Rightarrow> u32 \<Rightarrow> ('a, s32 res) nop" where
  "dw_i2s_control p obj ctrl_cmd param = do {
     i \<leftarrow> get_ninfo obj;
     if obj = 0 then stopE Undef
     else
       check_exp (i2s_ctrl i \<noteq> 0) E_OBJ (
       check_exp (i2_opn_cnt i > 0) E_CLSED (
         if i2_status i AND DEV_ENABLED = 0 \<and> ctrl_cmd \<noteq> I2S_CMD_ENA_DEV \<and> ctrl_cmd \<noteq> I2S_CMD_DIS_DEV
            \<and> ctrl_cmd \<noteq> I2S_CMD_GET_STATUS \<and> ctrl_cmd \<noteq> I2S_CMD_RESET
         then retE E_SYS
         else i2s_command p obj ctrl_cmd param))
   }"

subsection \<open>Blocking write and read\<close>

text \<open>The wait for a bit of the status register, \<open>n\<close> polls at most.\<close>

definition i2s_poll :: "nat \<Rightarrow> plat \<Rightarrow> u32 \<Rightarrow> u32 \<Rightarrow> ('a, unit res) op" where
  "i2s_poll n p base m = spin n (do { v \<leftarrow> mmio_rd p (base + I2S_ISR0); State_Monad.return (v AND m \<noteq> 0) })"

text \<open>Where the buffer of the control structure points after \<open>moved\<close> samples.\<close>

definition i2s_advance :: "u32 \<Rightarrow> u32 \<Rightarrow> u32 \<Rightarrow> u32 \<Rightarrow> ('a, unit) nop" where
  "i2s_advance cp p_buf remain moved = upd_nctrl cp (\<lambda>c. c\<lparr>dw_i2s_buf := (dw_i2s_buf c)
     \<lparr>sb_buf := p_buf + 2 * (if remain = 0 then moved - 1 else moved)\<rparr>\<rparr>)"

text \<open>The loops over the rounds, \<open>n\<close> rounds at most; the value is \<open>trans_cnt\<close>.\<close>

primrec i2s_write_loop :: "nat \<Rightarrow> plat \<Rightarrow> nat \<Rightarrow> u32 \<Rightarrow> u32 \<Rightarrow> u32 \<Rightarrow> u32 \<Rightarrow> u32 \<Rightarrow> u32 \<Rightarrow> ('a, u32 res) nop" where
  "i2s_write_loop 0 p fuel obj base p_buf channel remain moved = stopE Hang"
| "i2s_write_loop (Suc n) p fuel obj base p_buf channel remain moved = (
     if remain = 0 then retE moved
     else
       bindE (liftE (dw_i2s_tx_write_samples p obj remain channel)) (\<lambda>r.
       bindE (i2s_poll fuel p base DW_I2S_ISRX_TXFE) (\<lambda>_.
       bindE (liftE (do { i \<leftarrow> get_ninfo obj; i2s_advance (i2s_ctrl i) p_buf r (moved + (remain - r)) })) (\<lambda>_.
       i2s_write_loop n p fuel obj base p_buf channel r (moved + (remain - r))))))"

primrec i2s_read_loop :: "nat \<Rightarrow> plat \<Rightarrow> nat \<Rightarrow> u32 \<Rightarrow> u32 \<Rightarrow> u32 \<Rightarrow> u32 \<Rightarrow> u32 \<Rightarrow> u32 \<Rightarrow> ('a, u32 res) nop" where
  "i2s_read_loop 0 p fuel obj base p_buf channel remain moved = stopE Hang"
| "i2s_read_loop (Suc n) p fuel obj base p_buf channel remain moved = (
     if remain = 0 then retE moved
     else
       bindE (i2s_poll fuel p base DW_I2S_ISRX_RXDA) (\<lambda>_.
       bindE (liftE (dw_i2s_rx_read_samples p obj remain channel)) (\<lambda>r.
       bindE (liftE (do { i \<leftarrow> get_ninfo obj; i2s_advance (i2s_ctrl i) p_buf r (moved + (remain - r)) })) (\<lambda>_.
       i2s_read_loop n p fuel obj base p_buf channel r (moved + (remain - r))))))"

definition i2s_finish :: "u32 \<Rightarrow> u32 \<Rightarrow> ('a, s32) nop" where
  "i2s_finish obj moved = do {
     upd_ninfo obj (\<lambda>i. i\<lparr>i2_cur_state := I2S_FREE, i2_err_state := I2S_ERR_NONE\<rparr>);
     State_Monad.return moved
   }"

definition dw_i2s_write :: "plat \<Rightarrow> nat \<Rightarrow> u32 \<Rightarrow> u32 \<Rightarrow> u32 \<Rightarrow> u32 \<Rightarrow> ('a, s32 res) nop" where
  "dw_i2s_write p fuel obj data len channel = do {
     i \<leftarrow> get_ninfo obj;
     base \<leftarrow> get_i2s_regs obj;
     k \<leftarrow> get_i2s_conf obj;
     if obj = 0 \<or> i2s_ctrl i = 0 then stopE Undef
     else
       check_exp (i2_opn_cnt i > 0) E_CLSED (
       check_exp (i2_status i AND DEV_ENABLED \<noteq> 0) E_SYS (
       check_exp (i2_device i = I2S_DEVICE_TRANSMITTER) E_OBJ (
       check_exp (data \<noteq> 0) E_PAR (
       check_exp (i2_cur_state i = I2S_FREE) E_CTX (
       if i2_mode i = I2S_MASTER_MODE then
         check_exp (channel = 0) E_PAR (
         bindE (liftE (do {
           upd_nctrl (i2s_ctrl i) (\<lambda>c. c\<lparr>dw_i2s_buf := \<lparr>sb_buf = data, sb_ofs = 0, sb_len = i2s_fifo_len k\<rparr>\<rparr>);
           upd_ninfo obj (\<lambda>i. i\<lparr>i2_cur_state := I2S_IN_TX\<rparr>);
           dw_i2s_enable_device p obj channel;
           dw_i2s_tx_clock_enable p base
         })) (\<lambda>_.
         bindE (i2s_write_loop fuel p fuel obj base data channel len 0) (\<lambda>moved. liftE (i2s_finish obj moved))))
       else
         check_exp (i2_mode i \<noteq> I2S_SLAVE_MODE) E_SYS (liftE (i2s_finish obj 0)))))))
   }"

definition dw_i2s_read :: "plat \<Rightarrow> nat \<Rightarrow> u32 \<Rightarrow> u32 \<Rightarrow> u32 \<Rightarrow> u32 \<Rightarrow> ('a, s32 res) nop" where
  "dw_i2s_read p fuel obj data len channel = do {
     i \<leftarrow> get_ninfo obj;
     base \<leftarrow> get_i2s_regs obj;
     if obj = 0 \<or> i2s_ctrl i = 0 then stopE Undef
     else
       check_exp (i2_opn_cnt i > 0) E_CLSED (
       check_exp (i2_status i AND DEV_ENABLED \<noteq> 0) E_SYS (
       check_exp (i2_device i = I2S_DEVICE_RECEIVER) E_OBJ (
       check_exp (data \<noteq> 0) E_PAR (
       check_exp (i2_cur_state i = I2S_FREE) E_CTX (
       if i2_mode i = I2S_MASTER_MODE then
         check_exp (channel = 0) E_PAR (
         bindE (liftE (do {
           upd_nctrl (i2s_ctrl i) (\<lambda>c. c\<lparr>dw_i2s_buf := \<lparr>sb_buf = data, sb_ofs = 0, sb_len = len\<rparr>\<rparr>);
           upd_ninfo obj (\<lambda>i. i\<lparr>i2_cur_state := I2S_IN_RX\<rparr>);
           dw_i2s_enable_device p obj channel;
           dw_i2s_rx_clock_enable p base
         })) (\<lambda>_.
         bindE (i2s_read_loop fuel p fuel obj base data channel len 0) (\<lambda>moved. liftE (i2s_finish obj moved))))
       else
         check_exp (i2_mode i \<noteq> I2S_SLAVE_MODE) E_SYS (liftE (i2s_finish obj 0)))))))
   }"

text \<open>The busy wait: 100 times \<open>nop\<close> for every cycle of the parameter.\<close>

primrec i2s_nops :: "nat \<Rightarrow> ('a, unit) op" where
  "i2s_nops 0 = State_Monad.return ()"
| "i2s_nops (Suc n) = do { arc_nop; i2s_nops n }"

primrec i2s_delay_loop :: "nat \<Rightarrow> ('a, unit) op" where
  "i2s_delay_loop 0 = State_Monad.return ()"
| "i2s_delay_loop (Suc n) = do { i2s_nops 100; i2s_delay_loop n }"

definition i2s_delay :: "u32 \<Rightarrow> ('a, unit) op" where
  "i2s_delay delay_cycle = i2s_delay_loop (unat delay_cycle)"

end
