(* ===== verification/I2sSpec.thy ===== *)
theory I2sSpec
  imports DwI2s
begin

section \<open>What the I2S driver promises\<close>

text \<open>
  The polling transfers move the stereo samples of the buffer in order, left before right; the
  interrupt routine moves one chunk at a time; the last close leaves the device quiet. A device that
  is opened twice does not count the second open.
\<close>

subsection \<open>Samples and their accesses\<close>

text \<open>The stores of the first \<open>n\<close> pairs of samples at \<open>a\<close>, oldest first.\<close>

definition pair_stores :: "u32 \<Rightarrow> (u32 \<Rightarrow> u8) \<Rightarrow> u32 \<Rightarrow> nat \<Rightarrow> (u32 \<times> u32) list" where
  "pair_stores base m a n = concat (map (\<lambda>j. [(base + I2S_LTHR0, ucast (get16 m (a + 4 * of_nat j))),
     (base + I2S_RTHR0, ucast (get16 m (a + 4 * of_nat j + 2)))]) [0..<n])"

text \<open>The samples a history has stored to the holding registers, and those it has read from them.\<close>

definition sample_stores :: "u32 \<Rightarrow> access list \<Rightarrow> (u32 \<times> u32) list" where
  "sample_stores base h = filter (\<lambda>(a, _). a = base + I2S_LTHR0 \<or> a = base + I2S_RTHR0) (mmio_stores h)"

fun sample_reads :: "u32 \<Rightarrow> access list \<Rightarrow> u16 list" where
  "sample_reads base [] = []"
| "sample_reads base (Mmio_rd a v # h) = (if a = base + I2S_LRBR0 \<or> a = base + I2S_RRBR0 then sample_reads base h @ [ucast v] else sample_reads base h)"
| "sample_reads base (ev # h) = sample_reads base h"

text \<open>Half-words stored from an address on.\<close>

primrec put_samples :: "u32 \<Rightarrow> u16 list \<Rightarrow> (u32 \<Rightarrow> u8) \<Rightarrow> (u32 \<Rightarrow> u8)" where
  "put_samples a [] m = m"
| "put_samples a (v # vs) m = put_samples (a + 2) vs (put16 a v m)"

lemma sample_stores_append: "sample_stores base (h @ k) = sample_stores base k @ sample_stores base h"
  by (simp add: sample_stores_def mmio_stores_append)

lemma sample_reads_append: "sample_reads base (h @ k) = sample_reads base k @ sample_reads base h"
  by (induction base h rule: sample_reads.induct) auto

lemma put_samples_append: "put_samples a (xs @ ys) m = put_samples (a + 2 * of_nat (length xs)) ys (put_samples a xs m)"
  by (induction xs arbitrary: a m) (simp_all add: algebra_simps)

lemma pair_stores_0 [simp]: "pair_stores base m a 0 = []"
  by (simp add: pair_stores_def)

lemma pair_stores_Suc: "pair_stores base m a (Suc n) = (base + I2S_LTHR0, ucast (get16 m a)) # (base + I2S_RTHR0, ucast (get16 m (a + 2)))
    # pair_stores base m (a + 4) n"
  by (simp add: pair_stores_def upt_conv_Cons map_Suc_upt [symmetric] o_def algebra_simps del: upt_Suc)

lemma pair_stores_add: "pair_stores base m a (i + j) = pair_stores base m a i @ pair_stores base m (a + 4 * of_nat i) j"
proof (induction i arbitrary: a)
  case (Suc i)
  then show ?case by (simp add: pair_stores_Suc) (simp add: algebra_simps)
qed simp

lemma i2s_sample_ucast [simp]: "i2s_sample (ucast (x :: u16)) = ucast x"
proof (rule bit_word_eqI)
  fix n :: nat
  have m: "(0xFFFF :: u32) = mask 16" by (simp add: mask_eq_exp_minus_1)
  have "bit x n \<Longrightarrow> n < 16" using bit_imp_le_length [of x n] by simp
  then show "bit (i2s_sample (ucast x)) n = bit (ucast x :: u32) n"
    by (auto simp: i2s_sample_def m bit_and_iff bit_mask_iff bit_ucast_iff)
qed

lemma ucast_i2s_sample [simp]: "(ucast (i2s_sample v) :: u16) = ucast v"
proof (rule bit_word_eqI)
  fix n :: nat
  assume "n < LENGTH(16)"
  moreover have m: "(0xFFFF :: u32) = mask 16" by (simp add: mask_eq_exp_minus_1)
  ultimately show "bit (ucast (i2s_sample v) :: u16) n = bit (ucast v :: u16) n"
    by (simp add: i2s_sample_def m bit_and_iff bit_mask_iff bit_ucast_iff)
qed

lemma put_pairs_run:
  fixes s :: "'a i2s_mach_scheme"
  shows "dw_i2s_regs (nctrl s cp) = base \<Longrightarrow> \<exists>h. run_state (i2s_put_pairs n cp buff i 0) s = ((), s\<lparr>hist := h @ hist s\<rparr>)
    \<and> mmio_stores h = pair_stores base (mem s) (buff + 4 * i) n"
proof (induction n arbitrary: i s)
  case 0
  then show ?case by (intro exI [of _ "[]"]) simp
next
  case (Suc n)
  let ?e = "[Mmio_wr (base + I2S_RTHR0) (ucast (get16 (mem s) (buff + 4 * i + 2))), Mmio_wr (base + I2S_LTHR0) (ucast (get16 (mem s) (buff + 4 * i)))]"
  let ?t = "s\<lparr>hist := ?e @ hist s\<rparr>"
  obtain h where h: "run_state (i2s_put_pairs n cp buff (i + 1) 0) ?t = ((), ?t\<lparr>hist := h @ hist ?t\<rparr>)"
    "mmio_stores h = pair_stores base (mem ?t) (buff + 4 * (i + 1)) n" using Suc.IH [of ?t "i + 1"] Suc.prems by auto
  show ?case using h Suc.prems
    by (intro exI [of _ "h @ ?e"])
      (simp add: dw_i2s_tx_write_left_hold_reg_def dw_i2s_tx_write_right_hold_reg_def c_if_def pair_stores_Suc mmio_stores_append algebra_simps)
qed

lemma get_pairs_run:
  fixes s :: "'a i2s_mach_scheme"
  shows "dw_i2s_regs (nctrl s cp) = base \<Longrightarrow> \<exists>h. run_state (i2s_get_pairs n p cp d buff i 0) s
      = ((), s\<lparr>hist := h @ hist s, mem := put_samples (buff + 4 * i) (sample_reads base h) (mem s)\<rparr>)
    \<and> mmio_stores h = [] \<and> length (sample_reads base h) = 2 * n"
proof (induction n arbitrary: i d s)
  case 0
  then show ?case by (intro exI [of _ "[]"]) simp
next
  case (Suc n)
  let ?l = "mmio_in p (hist s) (base + I2S_LRBR0)" let ?h = "Mmio_rd (base + I2S_LRBR0) ?l # hist s"
  let ?r = "mmio_in p ?h (base + I2S_RRBR0)" let ?e = "[Mmio_rd (base + I2S_RRBR0) ?r, Mmio_rd (base + I2S_LRBR0) ?l]"
  let ?t = "s\<lparr>hist := ?e @ hist s, mem := put16 (buff + 4 * i + 2) (ucast ?r) (put16 (buff + 4 * i) (ucast ?l) (mem s))\<rparr>"
  obtain h where h: "run_state (i2s_get_pairs n p cp (i2s_sample ?r) buff (i + 1) 0) ?t
      = ((), ?t\<lparr>hist := h @ hist ?t, mem := put_samples (buff + 4 * (i + 1)) (sample_reads base h) (mem ?t)\<rparr>)"
    "mmio_stores h = []" "length (sample_reads base h) = 2 * n" using Suc.IH [of ?t "i2s_sample ?r" "i + 1"] Suc.prems by auto
  have "run_state (i2s_get_pairs (Suc n) p cp d buff i 0) s = run_state (i2s_get_pairs n p cp (i2s_sample ?r) buff (i + 1) 0) ?t"
    using Suc.prems by (simp add: dw_i2s_rx_read_left_hold_reg_def dw_i2s_rx_read_right_hold_reg_def)
  then show ?case using h(2,3) unfolding h(1)
    by (intro exI [of _ "h @ ?e"]) (simp add: sample_reads_append mmio_stores_append algebra_simps put_samples_append)
qed

subsection \<open>Polling\<close>

lemma poll_reads:
  fixes s :: "'a mach_scheme"
  shows "\<exists>r h. run_state (i2s_poll n p base m) s = (r, s\<lparr>hist := h @ hist s\<rparr>) \<and> (r = Inr () \<or> r = Inl Hang) \<and> mmio_stores h = [] \<and> sample_reads base h = []"
proof (induction n arbitrary: s)
  case 0
  then show ?case by (simp add: i2s_poll_def) (rule exI [of _ "[]"], simp)
next
  case (Suc n)
  let ?v = "mmio_in p (hist s) (base + I2S_ISR0)" let ?t = "s\<lparr>hist := Mmio_rd (base + I2S_ISR0) ?v # hist s\<rparr>"
  obtain r h where h: "run_state (i2s_poll n p base m) ?t = (r, ?t\<lparr>hist := h @ hist ?t\<rparr>)" "r = Inr () \<or> r = Inl Hang" "mmio_stores h = []" "sample_reads base h = []"
    using Suc.IH [of ?t] by blast
  show ?case
  proof (cases "?v AND m = 0")
    case True
    then have "run_state (i2s_poll (Suc n) p base m) s = (r, ?t\<lparr>hist := h @ hist ?t\<rparr>)" using h(1) by (simp add: i2s_poll_def)
    then show ?thesis using h by (intro exI [of _ r] exI [of _ "h @ [Mmio_rd (base + I2S_ISR0) ?v]"])
        (simp add: mmio_stores_append sample_reads_append)
  next
    case False
    then show ?thesis by (intro exI [of _ "Inr ()"] exI [of _ "[Mmio_rd (base + I2S_ISR0) ?v]"]) (simp add: i2s_poll_def)
  qed
qed

text \<open>The bit \<open>m\<close> of the status register is seen within \<open>fuel\<close> polls, whatever happened before.\<close>

definition i2s_alive :: "plat \<Rightarrow> nat \<Rightarrow> u32 \<Rightarrow> u32 \<Rightarrow> bool" where
  "i2s_alive p n base m \<longleftrightarrow> (\<forall>h. \<exists>k<n. mmio_in p (mmio_polls p (base + I2S_ISR0) k h) (base + I2S_ISR0) AND m \<noteq> 0)"

lemma poll_answered:
  fixes s :: "'a mach_scheme"
  shows "k < n \<Longrightarrow> mmio_in p (mmio_polls p (base + I2S_ISR0) k (hist s)) (base + I2S_ISR0) AND m \<noteq> 0
    \<Longrightarrow> fst (run_state (i2s_poll n p base m) s) = Inr ()"
proof (induction n arbitrary: k s)
  case (Suc n)
  let ?v = "mmio_in p (hist s) (base + I2S_ISR0)" let ?t = "s\<lparr>hist := Mmio_rd (base + I2S_ISR0) ?v # hist s\<rparr>"
  show ?case
  proof (cases "?v AND m = 0")
    case True
    then obtain j where j: "k = Suc j" using Suc.prems(2) by (cases k) auto
    have "fst (run_state (i2s_poll n p base m) ?t) = Inr ()" using Suc.prems j by (intro Suc.IH [of j]) simp_all
    then show ?thesis using True by (simp add: i2s_poll_def)
  qed (simp add: i2s_poll_def)
qed simp

lemma poll_run:
  fixes s :: "'a mach_scheme"
  assumes "i2s_alive p n base m"
  shows "\<exists>h. run_state (i2s_poll n p base m) s = (Inr (), s\<lparr>hist := h @ hist s\<rparr>) \<and> mmio_stores h = [] \<and> sample_reads base h = []"
proof -
  from assms obtain k where "k < n" "mmio_in p (mmio_polls p (base + I2S_ISR0) k (hist s)) (base + I2S_ISR0) AND m \<noteq> 0"
    by (auto simp: i2s_alive_def)
  from poll_answered [where s = s, OF this] poll_reads [of n p base m s] show ?thesis by auto
qed

subsection \<open>The rounds of a transfer\<close>

lemma round_nat:
  fixes remain av :: u32
  shows "unat (fst (i2s_round remain av)) = min (unat remain div 2) (unat av)"
    "unat (snd (i2s_round remain av)) = (if unat remain div 2 < unat av then 0 else unat remain - 2 * unat av)"
proof -
  have "unat (drop_bit 1 remain) = drop_bit 1 (unat remain)" by (rule unat_drop_bit_eq)
  also have "\<dots> = unat remain div 2" by (simp add: drop_bit_eq_div)
  finally have d: "unat (drop_bit 1 remain) = unat remain div 2" .
  have lt: "(drop_bit 1 remain < av) = (unat remain div 2 < unat av)" unfolding word_less_nat_alt d ..
  show "unat (fst (i2s_round remain av)) = min (unat remain div 2) (unat av)" by (simp add: i2s_round_def lt d del: drop_bit_eq_div One_nat_def)
  show "unat (snd (i2s_round remain av)) = (if unat remain div 2 < unat av then 0 else unat remain - 2 * unat av)"
  proof (cases "unat remain div 2 < unat av")
    case False
    then have le: "2 * unat av \<le> unat remain" by linarith
    then have "unat (av * 2) = 2 * unat av" using unsigned_less [of remain, where 'a = nat] by (simp add: unat_word_ariths)
    then have "unat (remain - av * 2) = unat remain - 2 * unat av" using le by (simp add: unat_sub word_le_nat_alt)
    then show ?thesis using False by (simp add: i2s_round_def lt del: drop_bit_eq_div One_nat_def)
  qed (simp add: i2s_round_def lt del: drop_bit_eq_div One_nat_def)
qed

lemma halves: "\<not> n div 2 < k \<Longrightarrow> 2 * k + 2 * ((n - 2 * k) div 2) = 2 * (n div 2)" for n k :: nat
  by presburger

text \<open>The law of the transmit trigger level, and what a transfer keeps.\<close>

definition i2s_kept :: "u32 \<Rightarrow> 'a i2s_mach_scheme \<Rightarrow> 'a i2s_mach_scheme \<Rightarrow> bool" where
  "i2s_kept cp s t \<longleftrightarrow> ninfo t = ninfo s \<and> nconf t = nconf s \<and> exc_int_handler_table t = exc_int_handler_table s
     \<and> (\<exists>b. nctrl t = (nctrl s)(cp := (nctrl s cp)\<lparr>dw_i2s_buf := b\<rparr>))"

lemma i2s_kept_refl [simp]: "i2s_kept cp s s"
  unfolding i2s_kept_def by (auto intro!: exI [of _ "dw_i2s_buf (nctrl s cp)"])

lemma i2s_kept_hist [simp]: "i2s_kept cp s (s\<lparr>hist := h\<rparr>)"
  unfolding i2s_kept_def by (auto intro!: exI [of _ "dw_i2s_buf (nctrl s cp)"])

lemma i2s_kept_trans: "i2s_kept cp s t \<Longrightarrow> i2s_kept cp t u \<Longrightarrow> i2s_kept cp s u"
  unfolding i2s_kept_def by auto

lemma write_samples_run:
  fixes s :: "'a i2s_mach_scheme" and remain :: u32
  assumes c: "i2s_ctrl (ninfo s obj) = cp" "dw_i2s_regs (nctrl s cp) = base" "dw_i2s_buf (nctrl s cp) = \<lparr>sb_buf = b, sb_ofs = o', sb_len = fl\<rparr>"
    and l: "\<And>h. mmio_in p h (base + I2S_TFCR0) AND 0x0f = lv"
  defines "q \<equiv> i2s_round remain (fl - o')"
  shows "\<exists>t. run_state (dw_i2s_tx_write_samples p obj remain 0) s = (snd q, t) \<and> i2s_kept cp s t \<and> mem t = mem s
    \<and> dw_i2s_buf (nctrl t cp) = \<lparr>sb_buf = b, sb_ofs = (if snd q = 0 then 0 else lv), sb_len = fl\<rparr>
    \<and> sample_stores base (hist t) = sample_stores base (hist s) @ pair_stores base (mem s) b (unat (fst q))"
proof -
  let ?v = "mmio_in p (hist s) (base + I2S_TFCR0)" let ?s = "s\<lparr>hist := Mmio_rd (base + I2S_TFCR0) ?v # hist s\<rparr>"
  have r: "dw_i2s_regs (nctrl ?s cp) = base" using c(2) by simp
  from put_pairs_run [OF this, of "unat (fst q)" b 0] obtain h where
    h: "run_state (i2s_put_pairs (unat (fst q)) cp b 0 0) ?s = ((), ?s\<lparr>hist := h @ hist ?s\<rparr>)" "mmio_stores h = pair_stores base (mem s) b (unat (fst q))"
    by auto
  let ?u = "?s\<lparr>hist := h @ hist ?s\<rparr>"
  let ?t = "?u\<lparr>nctrl := (nctrl ?u)(cp := (nctrl ?u cp)\<lparr>dw_i2s_buf := \<lparr>sb_buf = b, sb_ofs = (if snd q = 0 then 0 else lv), sb_len = fl\<rparr>\<rparr>)\<rparr>"
  have "run_state (dw_i2s_tx_write_samples p obj remain 0) s = (snd q, ?t)"
    using c l h(1) by (simp add: dw_i2s_tx_write_samples_def dw_i2s_tx_get_txchet_def chan_reg_def q_def split_def Let_def)
  moreover have "filter (\<lambda>(a, _). a = base + I2S_LTHR0 \<or> a = base + I2S_RTHR0) (pair_stores base (mem s) b n) = pair_stores base (mem s) b n" for n
    by (auto simp: pair_stores_def filter_concat o_def)
  then have "sample_stores base (hist ?t) = sample_stores base (hist s) @ pair_stores base (mem s) b (unat (fst q))"
    using h(2) by (simp add: sample_stores_append sample_stores_def mmio_stores_append)
  ultimately show ?thesis by (intro exI [of _ ?t]) (auto simp: i2s_kept_def)
qed

lemma write_loop_run:
  fixes s :: "'a i2s_mach_scheme"
  assumes l: "\<And>h. mmio_in p h (base + I2S_TFCR0) AND 0x0f = lv" and al: "i2s_alive p fuel base DW_I2S_ISRX_TXFE" and fl: "lv < fl"
  shows "i2s_ctrl (ninfo s obj) = cp \<Longrightarrow> dw_i2s_regs (nctrl s cp) = base \<Longrightarrow> dw_i2s_buf (nctrl s cp) = \<lparr>sb_buf = b, sb_ofs = o', sb_len = fl\<rparr>
    \<Longrightarrow> o' = 0 \<or> o' = lv \<Longrightarrow> remain = 0 \<or> b = data + 2 * moved \<Longrightarrow> unat remain < n
    \<Longrightarrow> \<exists>t. run_state (i2s_write_loop n p fuel obj base data 0 remain moved) s = (Inr (moved + remain), t) \<and> i2s_kept cp s t \<and> mem t = mem s
      \<and> sample_stores base (hist t) = sample_stores base (hist s) @ pair_stores base (mem s) (data + 2 * moved) (unat remain div 2)"
proof (induction n arbitrary: s b o' remain moved)
  case (Suc n)
  show ?case
  proof (cases "remain = 0")
    case False
    then have b: "b = data + 2 * moved" using Suc.prems(5) by simp
    let ?q = "i2s_round remain (fl - o')" let ?r = "snd (i2s_round remain (fl - o'))" let ?k = "unat (fst (i2s_round remain (fl - o')))"
    let ?m = "moved + (remain - ?r)"
    have av: "0 < unat (fl - o')" using fl Suc.prems(4) by (auto simp: word_less_nat_alt unat_sub word_le_nat_alt)
    have less: "unat ?r < unat remain" "unat ?r \<le> unat remain"
      using round_nat(2) [of remain "fl - o'"] av False by (auto simp: unat_eq_0 [symmetric] simp del: unat_eq_0)
    obtain t where t: "run_state (dw_i2s_tx_write_samples p obj remain 0) s = (?r, t)" "i2s_kept cp s t" "mem t = mem s"
      "dw_i2s_buf (nctrl t cp) = \<lparr>sb_buf = b, sb_ofs = (if ?r = 0 then 0 else lv), sb_len = fl\<rparr>"
      "sample_stores base (hist t) = sample_stores base (hist s) @ pair_stores base (mem s) b ?k"
      using write_samples_run [OF Suc.prems(1,2,3) l, of remain] by blast
    obtain h where h: "run_state (i2s_poll fuel p base DW_I2S_ISRX_TXFE) t = (Inr (), t\<lparr>hist := h @ hist t\<rparr>)" "mmio_stores h = []"
      using poll_run [OF al, of t] by blast
    let ?u = "t\<lparr>hist := h @ hist t, nctrl := (nctrl t)(cp := (nctrl t cp)\<lparr>dw_i2s_buf := \<lparr>sb_buf = data + 2 * (if ?r = 0 then ?m - 1 else ?m),
        sb_ofs = (if ?r = 0 then 0 else lv), sb_len = fl\<rparr>\<rparr>)\<rparr>"
    have cu: "i2s_ctrl (ninfo ?u obj) = cp" "dw_i2s_regs (nctrl ?u cp) = base" "i2s_ctrl (ninfo t obj) = cp" using t(2) Suc.prems(1,2) by (auto simp: i2s_kept_def)
    have step: "run_state (i2s_write_loop (Suc n) p fuel obj base data 0 remain moved) s = run_state (i2s_write_loop n p fuel obj base data 0 ?r ?m) ?u"
      using False t(1,4) h(1) cu(3) by (simp add: i2s_advance_def)
    have bq: "?r = 0 \<or> data + 2 * (if ?r = 0 then ?m - 1 else ?m) = data + 2 * ?m" by simp
    have "\<exists>w. run_state (i2s_write_loop n p fuel obj base data 0 ?r ?m) ?u = (Inr (?m + ?r), w) \<and> i2s_kept cp ?u w \<and> mem w = mem ?u
      \<and> sample_stores base (hist w) = sample_stores base (hist ?u) @ pair_stores base (mem ?u) (data + 2 * ?m) (unat ?r div 2)"
      by (rule Suc.IH [OF cu(1,2) _ _ bq, where o' = "if ?r = 0 then 0 else lv"]) (use less Suc.prems(6) in auto)
    then obtain w where w: "run_state (i2s_write_loop n p fuel obj base data 0 ?r ?m) ?u = (Inr (?m + ?r), w)" "i2s_kept cp ?u w" "mem w = mem s"
      "sample_stores base (hist w) = sample_stores base (hist ?u) @ pair_stores base (mem s) (data + 2 * ?m) (unat ?r div 2)" using t(3) by auto
    have "i2s_kept cp t ?u" by (auto simp: i2s_kept_def)
    then have kept: "i2s_kept cp s w" using t(2) w(2) i2s_kept_trans by blast
    have hu: "sample_stores base (hist ?u) = sample_stores base (hist s) @ pair_stores base (mem s) (data + 2 * moved) ?k"
      using t(5) h(2) b by (simp add: sample_stores_append) (simp add: sample_stores_def)
    have "pair_stores base (mem s) (data + 2 * moved) ?k @ pair_stores base (mem s) (data + 2 * ?m) (unat ?r div 2)
        = pair_stores base (mem s) (data + 2 * moved) (unat remain div 2)"
    proof (cases "unat remain div 2 < unat (fl - o')")
      case True
      then show ?thesis using round_nat [of remain "fl - o'"] by simp
    next
      case F: False
      then have k: "?k = unat (fl - o')" "unat ?r = unat remain - 2 * ?k" using round_nat [of remain "fl - o'"] by auto
      have le: "2 * ?k \<le> unat remain" using k(1) F by linarith
      have "unat (remain - ?r) = 2 * ?k" using k(2) less(2) le by (simp add: unat_sub word_le_nat_alt)
      moreover have "remain - ?r = of_nat (unat (remain - ?r))" by simp
      ultimately have d: "remain - ?r = of_nat (2 * ?k)" by metis
      have "data + 2 * ?m = data + 2 * moved + 2 * (remain - ?r)" by (simp only: distrib_left add.assoc)
      then have a: "data + 2 * ?m = data + 2 * moved + 4 * of_nat ?k" unfolding d by simp
      have "unat remain div 2 = ?k + unat ?r div 2" using k(2) le by linarith
      then show ?thesis unfolding a by (simp only: pair_stores_add)
    qed
    then show ?thesis using step w kept hu by (intro exI [of _ w]) simp
  qed simp
qed simp

lemma read_samples_run:
  fixes s :: "'a i2s_mach_scheme" and remain :: u32
  assumes c: "i2s_ctrl (ninfo s obj) = cp" "dw_i2s_regs (nctrl s cp) = base" "sb_buf (dw_i2s_buf (nctrl s cp)) = b"
    and l: "\<And>h. mmio_in p h (base + I2S_RFCR0) AND 0x0f = lv"
  defines "q \<equiv> i2s_round remain lv"
  shows "\<exists>h t. run_state (dw_i2s_rx_read_samples p obj remain 0) s = (snd q, t) \<and> i2s_kept cp s t \<and> hist t = h @ hist s
    \<and> mem t = put_samples b (sample_reads base h) (mem s) \<and> length (sample_reads base h) = 2 * unat (fst q)"
proof -
  let ?v = "mmio_in p (hist s) (base + I2S_RFCR0)" let ?s = "s\<lparr>hist := Mmio_rd (base + I2S_RFCR0) ?v # hist s\<rparr>"
  have r: "dw_i2s_regs (nctrl ?s cp) = base" using c(2) by simp
  from get_pairs_run [OF this, of "unat (fst q)" p 0 b 0] obtain h where
    h: "run_state (i2s_get_pairs (unat (fst q)) p cp 0 b 0 0) ?s = ((), ?s\<lparr>hist := h @ hist ?s, mem := put_samples b (sample_reads base h) (mem s)\<rparr>)"
    "length (sample_reads base h) = 2 * unat (fst q)" by auto
  let ?u = "?s\<lparr>hist := h @ hist ?s, mem := put_samples b (sample_reads base h) (mem s)\<rparr>"
  let ?t = "?u\<lparr>nctrl := (nctrl ?u)(cp := (nctrl ?u cp)\<lparr>dw_i2s_buf := (dw_i2s_buf (nctrl ?u cp))\<lparr>sb_ofs := sb_ofs (dw_i2s_buf (nctrl ?u cp)) + fst q\<rparr>\<rparr>)\<rparr>"
  have "run_state (dw_i2s_rx_read_samples p obj remain 0) s = (snd q, ?t)"
    using c l h(1) by (simp add: dw_i2s_rx_read_samples_def dw_i2s_rx_get_rxchdt_def chan_reg_def q_def split_def Let_def)
  then show ?thesis using h(2)
    by (intro exI [of _ "h @ [Mmio_rd (base + I2S_RFCR0) ?v]"] exI [of _ ?t]) (auto simp: i2s_kept_def sample_reads_append)
qed

lemma read_loop_run:
  fixes s :: "'a i2s_mach_scheme"
  assumes l: "\<And>h. mmio_in p h (base + I2S_RFCR0) AND 0x0f = lv" and al: "i2s_alive p fuel base DW_I2S_ISRX_RXDA" and lv: "lv \<noteq> 0"
  shows "i2s_ctrl (ninfo s obj) = cp \<Longrightarrow> dw_i2s_regs (nctrl s cp) = base
    \<Longrightarrow> remain = 0 \<or> sb_buf (dw_i2s_buf (nctrl s cp)) = data + 2 * moved \<Longrightarrow> unat remain < n
    \<Longrightarrow> \<exists>h t. run_state (i2s_read_loop n p fuel obj base data 0 remain moved) s = (Inr (moved + remain), t) \<and> i2s_kept cp s t \<and> hist t = h @ hist s
      \<and> mem t = put_samples (data + 2 * moved) (sample_reads base h) (mem s) \<and> length (sample_reads base h) = 2 * (unat remain div 2)"
proof (induction n arbitrary: s remain moved)
  case (Suc n)
  show ?case
  proof (cases "remain = 0")
    case True
    then show ?thesis by (intro exI [of _ "[]"] exI [of _ s]) simp
  next
    case False
    then have b: "sb_buf (dw_i2s_buf (nctrl s cp)) = data + 2 * moved" using Suc.prems(3) by simp
    let ?r = "snd (i2s_round remain lv)" let ?k = "unat (fst (i2s_round remain lv))" let ?m = "moved + (remain - ?r)"
    have less: "unat ?r < unat remain" "unat ?r \<le> unat remain"
      using round_nat(2) [of remain lv] lv False by (auto simp: unat_eq_0 [symmetric] simp del: unat_eq_0)
    obtain h where h: "run_state (i2s_poll fuel p base DW_I2S_ISRX_RXDA) s = (Inr (), s\<lparr>hist := h @ hist s\<rparr>)" "sample_reads base h = []"
      using poll_run [OF al, of s] by blast
    let ?s = "s\<lparr>hist := h @ hist s\<rparr>"
    have c: "i2s_ctrl (ninfo ?s obj) = cp" "dw_i2s_regs (nctrl ?s cp) = base" "sb_buf (dw_i2s_buf (nctrl ?s cp)) = data + 2 * moved"
      using Suc.prems(1,2) b by simp_all
    obtain h' t where t: "run_state (dw_i2s_rx_read_samples p obj remain 0) ?s = (?r, t)" "i2s_kept cp ?s t" "hist t = h' @ hist ?s"
      "mem t = put_samples (data + 2 * moved) (sample_reads base h') (mem s)" "length (sample_reads base h') = 2 * ?k"
      using read_samples_run [OF c l, of remain] by auto
    let ?u = "t\<lparr>nctrl := (nctrl t)(cp := (nctrl t cp)\<lparr>dw_i2s_buf := (dw_i2s_buf (nctrl t cp))\<lparr>sb_buf := data + 2 * (if ?r = 0 then ?m - 1 else ?m)\<rparr>\<rparr>)\<rparr>"
    have cu: "i2s_ctrl (ninfo ?u obj) = cp" "dw_i2s_regs (nctrl ?u cp) = base" "i2s_ctrl (ninfo t obj) = cp" using t(2) Suc.prems(1,2) by (auto simp: i2s_kept_def)
    have step: "run_state (i2s_read_loop (Suc n) p fuel obj base data 0 remain moved) s = run_state (i2s_read_loop n p fuel obj base data 0 ?r ?m) ?u"
      using False t(1) h(1) cu(3) by (simp add: i2s_advance_def)
    have bq: "?r = 0 \<or> sb_buf (dw_i2s_buf (nctrl ?u cp)) = data + 2 * ?m" by simp
    have rn: "unat ?r < n" using less(1) Suc.prems(4) by simp
    obtain g w where w: "run_state (i2s_read_loop n p fuel obj base data 0 ?r ?m) ?u = (Inr (?m + ?r), w)" "i2s_kept cp ?u w" "hist w = g @ hist ?u"
      "mem w = put_samples (data + 2 * ?m) (sample_reads base g) (mem ?u)" "length (sample_reads base g) = 2 * (unat ?r div 2)"
      using Suc.IH [OF cu(1,2) bq rn] by blast
    have "i2s_kept cp t ?u" "i2s_kept cp s ?s" by (auto simp: i2s_kept_def [of cp t])
    then have kept: "i2s_kept cp s w" using t(2) w(2) i2s_kept_trans by blast
    have k: "2 * ?k + 2 * (unat ?r div 2) = 2 * (unat remain div 2)" and a: "sample_reads base g = [] \<or> data + 2 * ?m = data + 2 * moved + 2 * of_nat (2 * ?k)"
    proof -
      show "2 * ?k + 2 * (unat ?r div 2) = 2 * (unat remain div 2)" using round_nat [of remain lv] halves by (auto simp: min_def)
      show "sample_reads base g = [] \<or> data + 2 * ?m = data + 2 * moved + 2 * of_nat (2 * ?k)"
      proof (cases "unat remain div 2 < unat lv")
        case True
        then show ?thesis using round_nat(2) [of remain lv] w(5) by simp
      next
        case F: False
        then have k: "?k = unat lv" "unat ?r = unat remain - 2 * ?k" using round_nat [of remain lv] by auto
        then have "unat (remain - ?r) = 2 * ?k" using less(2) F by (simp add: unat_sub word_le_nat_alt)
        moreover have "remain - ?r = of_nat (unat (remain - ?r))" by simp
        ultimately have d: "remain - ?r = of_nat (2 * ?k)" by metis
        have "data + 2 * ?m = data + 2 * moved + 2 * (remain - ?r)" by (simp only: distrib_left add.assoc)
        then show ?thesis unfolding d by simp
      qed
    qed
    have "mem w = put_samples (data + 2 * moved) (sample_reads base (g @ h' @ h)) (mem s)"
      using a w(4) t(4,5) h(2) by (auto simp: sample_reads_append put_samples_append add.assoc)
    moreover have "length (sample_reads base (g @ h' @ h)) = 2 * (unat remain div 2)" using w(5) t(5) h(2) k by (simp add: sample_reads_append)
    moreover have "hist w = (g @ h' @ h) @ hist s" using w(3) t(3) by simp
    ultimately show ?thesis using step w(1) kept by (intro exI [of _ "g @ h' @ h"] exI [of _ w]) simp
  qed
qed simp

lemma read_loop_stuck:
  fixes s :: "'a i2s_mach_scheme"
  assumes l: "\<And>h. mmio_in p h (base + I2S_RFCR0) AND 0x0f = 0"
  shows "i2s_ctrl (ninfo s obj) = cp \<Longrightarrow> dw_i2s_regs (nctrl s cp) = base \<Longrightarrow> remain \<noteq> 0
    \<Longrightarrow> fst (run_state (i2s_read_loop n p fuel obj base data 0 remain moved) s) = Inl Hang"
proof (induction n arbitrary: s moved)
  case (Suc n)
  obtain r h where h: "run_state (i2s_poll fuel p base DW_I2S_ISRX_RXDA) s = (r, s\<lparr>hist := h @ hist s\<rparr>)" "r = Inr () \<or> r = Inl Hang"
    using poll_reads [of fuel p base DW_I2S_ISRX_RXDA s] by blast
  show ?case
  proof (cases "r = Inl Hang")
    case True
    then show ?thesis using h(1) Suc.prems by simp
  next
    case False
    let ?s = "s\<lparr>hist := h @ hist s\<rparr>"
    have c: "i2s_ctrl (ninfo ?s obj) = cp" "dw_i2s_regs (nctrl ?s cp) = base" using Suc.prems by simp_all
    have q: "i2s_round remain 0 = (0, remain)" by (simp add: i2s_round_def)
    obtain t where t: "run_state (dw_i2s_rx_read_samples p obj remain 0) ?s = (remain, t)" "i2s_kept cp ?s t"
      using read_samples_run [OF c refl l, of remain] unfolding q by auto
    then have "i2s_ctrl (ninfo t obj) = cp" "dw_i2s_regs (nctrl t cp) = base" using c by (auto simp: i2s_kept_def)
    then show ?thesis using h False t(1) Suc.prems(3) by (simp add: i2s_advance_def Suc.IH)
  qed
qed simp

subsection \<open>Blocking transfers\<close>

text \<open>Programs that touch no holding register.\<close>

definition silent :: "u32 \<Rightarrow> ('a, unit) op \<Rightarrow> bool" where
  "silent base m \<longleftrightarrow> (\<forall>s. \<exists>h. run_state m s = ((), s\<lparr>hist := h @ hist s\<rparr>) \<and> sample_stores base h = [] \<and> sample_reads base h = [])"

lemma silentD: "silent base m \<Longrightarrow> \<exists>h. run_state m s = ((), s\<lparr>hist := h @ hist s\<rparr>) \<and> sample_stores base h = [] \<and> sample_reads base h = []"
  by (simp add: silent_def)

lemma silent_or: "r \<noteq> I2S_LTHR0 \<Longrightarrow> r \<noteq> I2S_RTHR0 \<Longrightarrow> silent base (mmio_or p (base + r) v)"
  unfolding silent_def
proof
  fix s :: "'a mach_scheme"
  assume r: "r \<noteq> I2S_LTHR0" "r \<noteq> I2S_RTHR0"
  let ?v = "mmio_in p (hist s) (base + r)"
  show "\<exists>h. run_state (mmio_or p (base + r) v) s = ((), s\<lparr>hist := h @ hist s\<rparr>) \<and> sample_stores base h = [] \<and> sample_reads base h = []"
    using r by (intro exI [of _ "[Mmio_wr (base + r) (?v OR v), Mmio_rd (base + r) ?v]"]) (simp add: Let_def sample_stores_def)
qed

lemma silent_bind: "silent base m \<Longrightarrow> silent base n \<Longrightarrow> silent base (do { m; n })"
  unfolding silent_def
proof
  fix s :: "'a mach_scheme"
  assume "\<forall>s. \<exists>h. run_state m s = ((), s\<lparr>hist := h @ hist s\<rparr>) \<and> sample_stores base h = [] \<and> sample_reads base h = []"
    "\<forall>s. \<exists>h. run_state n s = ((), s\<lparr>hist := h @ hist s\<rparr>) \<and> sample_stores base h = [] \<and> sample_reads base h = []"
  then obtain h k where "run_state m s = ((), s\<lparr>hist := h @ hist s\<rparr>)" "sample_stores base h = []" "sample_reads base h = []"
    "run_state n (s\<lparr>hist := h @ hist s\<rparr>) = ((), s\<lparr>hist := h @ hist s\<rparr>\<lparr>hist := k @ hist (s\<lparr>hist := h @ hist s\<rparr>)\<rparr>)"
    "sample_stores base k = []" "sample_reads base k = []" by metis
  then show "\<exists>h. run_state (do { m; n }) s = ((), s\<lparr>hist := h @ hist s\<rparr>) \<and> sample_stores base h = [] \<and> sample_reads base h = []"
    by (intro exI [of _ "k @ h"]) (simp add: sample_stores_append sample_reads_append)
qed

text \<open>A device open as a master, enabled and idle.\<close>

definition i2s_ready :: "'a i2s_mach_scheme \<Rightarrow> u32 \<Rightarrow> u32 \<Rightarrow> bool" where
  "i2s_ready s obj dev \<longleftrightarrow> obj \<noteq> 0 \<and> i2s_ctrl (ninfo s obj) \<noteq> 0 \<and> i2_opn_cnt (ninfo s obj) > 0 \<and> i2_status (ninfo s obj) AND DEV_ENABLED \<noteq> 0
     \<and> i2_device (ninfo s obj) = dev \<and> i2_cur_state (ninfo s obj) = I2S_FREE \<and> i2_mode (ninfo s obj) = I2S_MASTER_MODE"

definition i2s_done :: "u32 \<Rightarrow> 'a i2s_mach_scheme \<Rightarrow> 'a i2s_mach_scheme \<Rightarrow> bool" where
  "i2s_done obj s t \<longleftrightarrow> ninfo t = (ninfo s)(obj := (ninfo s obj)\<lparr>i2_cur_state := I2S_FREE, i2_err_state := I2S_ERR_NONE\<rparr>) \<and> nconf t = nconf s
     \<and> exc_int_handler_table t = exc_int_handler_table s
     \<and> (\<exists>b. nctrl t = (nctrl s)(i2s_ctrl (ninfo s obj) := (nctrl s (i2s_ctrl (ninfo s obj)))\<lparr>dw_i2s_buf := b\<rparr>))"

text \<open>
  C23: on a controller with a steady trigger level below the depth of its FIFO that reports room within \<open>fuel\<close> polls,
  \<open>dw_i2s_write\<close> of channel 0 on an open, enabled and idle master transmitter returns \<open>len\<close> having stored to the left and right holding registers exactly the
  \<open>len div 2\<close> pairs of the buffer, in order and left first; memory is unchanged and the device is idle again.
  \<open>fuel > len\<close> rounds are enough.
\<close>

theorem i2s_write_sends_samples:
  fixes s :: "'a i2s_mach_scheme"
  assumes r: "i2s_ready s obj I2S_DEVICE_TRANSMITTER" and base: "base = i2s_regs s obj" and data: "data \<noteq> 0"
    and l: "\<And>h. mmio_in p h (base + I2S_TFCR0) AND 0x0f = lv" and fl: "lv < i2s_fifo_len (nconf s (i2s_config (ninfo s obj)))"
    and al: "i2s_alive p fuel base DW_I2S_ISRX_TXFE" and fuel: "unat len < fuel"
  shows "\<exists>t. run_state (dw_i2s_write p fuel obj data len 0) s = (Inr len, t) \<and> i2s_done obj s t \<and> mem t = mem s
    \<and> sample_stores base (hist t) = sample_stores base (hist s) @ pair_stores base (mem s) data (unat len div 2)"
proof -
  let ?cp = "i2s_ctrl (ninfo s obj)" let ?fl = "i2s_fifo_len (nconf s (i2s_config (ninfo s obj)))"
  have b: "dw_i2s_regs (nctrl s ?cp) = base" using base by (simp add: i2s_regs_def)
  let ?a = "s\<lparr>nctrl := (nctrl s)(?cp := (nctrl s ?cp)\<lparr>dw_i2s_buf := \<lparr>sb_buf = data, sb_ofs = 0, sb_len = ?fl\<rparr>\<rparr>),
    ninfo := (ninfo s)(obj := (ninfo s obj)\<lparr>i2_cur_state := I2S_IN_TX\<rparr>)\<rparr>"
  have "run_state (do { dw_i2s_enable_device p obj 0; dw_i2s_tx_clock_enable p base }) ?a
      = run_state (do { mmio_or p (base + I2S_ITER) 1; mmio_or p (base + I2S_TER0) 1; mmio_or p (base + I2S_CER) 1 }) ?a"
    using r b by (simp add: i2s_ready_def i2s_regs_def dw_i2s_enable_device_def i2s_access_defs chan_reg_def Let_def split_def)
  then have "\<exists>h. run_state (do { dw_i2s_enable_device p obj 0; dw_i2s_tx_clock_enable p base }) ?a = ((), ?a\<lparr>hist := h @ hist s\<rparr>)
      \<and> sample_stores base h = [] \<and> sample_reads base h = []"
    using silentD [OF silent_bind [OF silent_or [where r = I2S_ITER and base = base and p = p and v = 1]
      silent_bind [OF silent_or [where r = I2S_TER0 and base = base and p = p and v = 1] silent_or [where r = I2S_CER and base = base and p = p and v = 1]]], where s = ?a]
    by simp
  then obtain h where h: "run_state (do { dw_i2s_enable_device p obj 0; dw_i2s_tx_clock_enable p base }) ?a = ((), ?a\<lparr>hist := h @ hist s\<rparr>)"
    "sample_stores base h = []" by blast
  let ?b = "?a\<lparr>hist := h @ hist s\<rparr>"
  have "i2s_ctrl (ninfo ?b obj) = ?cp" "dw_i2s_regs (nctrl ?b ?cp) = base" "dw_i2s_buf (nctrl ?b ?cp) = \<lparr>sb_buf = data, sb_ofs = 0, sb_len = ?fl\<rparr>"
    "0 = 0 \<or> 0 = lv" "len = 0 \<or> data = data + 2 * 0" using b by simp_all
  from write_loop_run [OF l al fl this fuel] obtain t where t: "run_state (i2s_write_loop fuel p fuel obj base data 0 len 0) ?b = (Inr len, t)"
    "i2s_kept ?cp ?b t" "mem t = mem s" "sample_stores base (hist t) = sample_stores base (hist ?b) @ pair_stores base (mem s) data (unat len div 2)" by auto
  let ?t = "t\<lparr>ninfo := (ninfo t)(obj := (ninfo t obj)\<lparr>i2_cur_state := I2S_FREE, i2_err_state := I2S_ERR_NONE\<rparr>)\<rparr>"
  have "run_state (dw_i2s_write p fuel obj data len 0) s = (Inr len, ?t)"
    using r data h(1) t(1) base by (simp add: dw_i2s_write_def i2s_ready_def i2s_finish_def)
  moreover have "i2s_done obj s ?t" using t(2) by (auto simp: i2s_kept_def i2s_done_def)
  ultimately show ?thesis using t(3,4) h(2) by (intro exI [of _ ?t]) (simp add: sample_stores_append)
qed



subsection \<open>A sample device\<close>

text \<open>A master on channel 0: a FIFO of 16, trigger levels of 4 and a controller that is always ready.\<close>

definition sample_i2s_info :: "u32 \<Rightarrow> dev_i2s_info" where
  "sample_i2s_info dev = \<lparr>i2s_ctrl = 0x2000, i2s_config = 0x3000, i2_opn_cnt = 1, i2_status = DEV_ENABLED, i2_device = dev,
     i2_mode = I2S_MASTER_MODE, i2_cur_state = I2S_FREE, i2_err_state = 0, i2_tx_buf = null_buffer, i2_rx_buf = null_buffer,
     i2_tx_cb = 0, i2_rx_cb = 0, i2_err_cb = 0, i2_extra = 0\<rparr>"

definition sample_i2s_conf :: dw_i2s_config where
  "sample_i2s_conf = \<lparr>i2s_support_modes = 3, i2s_fifo_len = 16, i2s_channels = 1, ws_length = 0, sclk_gate = 0, data_res = \<lambda>_. 16,
     sample_rate = \<lambda>_. 0, i2s_intno = \<lambda>_. 0x160015, dw_i2s_int_handler = 0x80\<rparr>"

definition sample_i2s_mach :: "u32 \<Rightarrow> i2s_mach" where
  "sample_i2s_mach dev = mach.extend sample_mach \<lparr>ninfo = \<lambda>_. sample_i2s_info dev,
     nctrl = \<lambda>_. \<lparr>dw_i2s_regs = 0xF0009000, i2s_int_status = \<lambda>_. 0, dw_i2s_buf = \<lparr>sb_buf = 0, sb_ofs = 0, sb_len = 0\<rparr>\<rparr>,
     nconf = \<lambda>_. sample_i2s_conf\<rparr>"

definition sample_i2s_plat :: "u32 \<Rightarrow> u32 \<Rightarrow> plat" where
  "sample_i2s_plat level isr = sample_plat\<lparr>mmio_in := \<lambda>h a. if a = 0xF0009038 then isr
     else if a = 0xF0009020 then 0xABCD0001 else if a = 0xF0009024 then 2
     else if a = 0xF0009048 \<or> a = 0xF000904C then level else 0\<rparr>"

lemma sample_i2s_simps [simp]:
  "hist (sample_i2s_mach dev) = []" "mem (sample_i2s_mach dev) = mem sample_mach" "ninfo (sample_i2s_mach dev) obj = sample_i2s_info dev"
  "i2s_regs (sample_i2s_mach dev) obj = 0xF0009000" "nconf (sample_i2s_mach dev) k = sample_i2s_conf"
  "dw_i2s_regs (nctrl (sample_i2s_mach dev) c) = 0xF0009000" "i2s_int_status (nctrl (sample_i2s_mach dev) c) ch = 0"
  "i2s_fifo_len sample_i2s_conf = 16" "i2s_channels sample_i2s_conf = 1" "i2s_support_modes sample_i2s_conf = 3"
  "i2s_ctrl (sample_i2s_info dev) = 0x2000" "i2_device (sample_i2s_info dev) = dev" "i2_opn_cnt (sample_i2s_info dev) = 1"
  "i2_mode (sample_i2s_info dev) = I2S_MASTER_MODE" "i2_cur_state (sample_i2s_info dev) = I2S_FREE" "i2_tx_cb (sample_i2s_info dev) = 0"
  "mmio_in (sample_i2s_plat level isr) h a = (if a = 0xF0009038 then isr else if a = 0xF0009020 then 0xABCD0001
     else if a = 0xF0009024 then 2 else if a = 0xF0009048 \<or> a = 0xF000904C then level else 0)"
  by (simp_all add: sample_i2s_mach_def mach.defs i2s_regs_def sample_i2s_info_def sample_i2s_conf_def sample_i2s_plat_def)

lemma sample_i2s_ready: "i2s_ready (sample_i2s_mach dev) 0x1000 dev"
  by (simp add: i2s_ready_def) (simp add: sample_i2s_info_def)

lemma sample_i2s_alive: "isr AND m \<noteq> 0 \<Longrightarrow> i2s_alive (sample_i2s_plat level isr) (Suc n) 0xF0009000 m"
  unfolding i2s_alive_def by (intro allI exI [of _ 0]) simp

lemma i2s_write_sends_samples_witness:
  "\<exists>t. run_state (dw_i2s_write (sample_i2s_plat 4 0x10) 8 0x1000 0x4000 5 0) (sample_i2s_mach 0 \<lparr>mem := put_samples 0x4000 [7, 8, 9, 10, 11] (\<lambda>_. 0)\<rparr>) = (Inr 5, t)
    \<and> sample_stores 0xF0009000 (hist t) = [(0xF0009020, 7), (0xF0009024, 8), (0xF0009020, 9), (0xF0009024, 10)]"
proof -
  let ?s = "sample_i2s_mach 0 \<lparr>mem := put_samples 0x4000 [7, 8, 9, 10, 11] (\<lambda>_. 0)\<rparr>"
  have r: "i2s_ready ?s 0x1000 0" "0xF0009000 = i2s_regs ?s 0x1000" using sample_i2s_ready [of 0] by (simp_all add: i2s_ready_def i2s_regs_def)
  have a: "i2s_alive (sample_i2s_plat 4 0x10) 8 0xF0009000 DW_I2S_ISRX_TXFE" using sample_i2s_alive [of "0x10" DW_I2S_ISRX_TXFE 4 7] by simp
  have "pair_stores 0xF0009000 (mem ?s) 0x4000 2 = [(0xF0009020, 7), (0xF0009024, 8), (0xF0009020, 9), (0xF0009024, 10)]" by code_simp
  with i2s_write_sends_samples [OF r _ _ _ a, of "0x4000" 4 5] show ?thesis by (auto simp: sample_stores_def)
qed


end
