(* ===== verification/I2sInt.thy ===== *)
theory I2sInt
  imports I2sSpec
begin

section \<open>The I2S interrupt and the life of a device\<close>

text \<open>
  One interrupt of the transmitter sends one chunk of the buffer, and enough interrupts send all of it;
  an interrupt that finds no buffer leaves the device busy for good; a second open is not counted,
  so that one close ends the device for both of its users.
\<close>

subsection \<open>Switching the interrupts of a channel\<close>

text \<open>Accesses that store neither samples nor to the enable registers of the device.\<close>

definition i2s_apart :: "u32 \<Rightarrow> access list \<Rightarrow> bool" where
  "i2s_apart base h \<longleftrightarrow> (\<forall>(a, v) \<in> set (mmio_stores h). a - base \<notin> {I2S_LTHR0, I2S_RTHR0, I2S_IER, I2S_IRER, I2S_ITER})"

lemma i2s_apart_simps [simp]: "i2s_apart base []" "i2s_apart base (h @ k) \<longleftrightarrow> i2s_apart base h \<and> i2s_apart base k"
  by (auto simp: i2s_apart_def mmio_stores_append)

lemma i2s_apart_samples: "i2s_apart base h \<Longrightarrow> sample_stores base h = []"
  by (auto simp: i2s_apart_def sample_stores_def filter_empty_conv)

lemma i2s_apart_last:
  assumes "i2s_apart base h" "r \<in> {I2S_IER, I2S_IRER, I2S_ITER}"
  shows "mmio_last (base + r) (h @ k) = mmio_last (base + r) k"
proof -
  have "\<forall>(a, v) \<in> set l. a \<noteq> x \<Longrightarrow> foldl (\<lambda>v (b, w). if b = x then w else v) y l = y" for l :: "(u32 \<times> u32) list" and x y
    by (induction l) auto
  moreover have "\<forall>(a, v) \<in> set (mmio_stores h). a \<noteq> base + r" using assms by (auto simp: i2s_apart_def)
  ultimately show ?thesis by (simp add: mmio_last_stores)
qed

text \<open>A step that only logs such accesses and changes the flags of the interrupts.\<close>

definition i2s_still :: "u32 \<Rightarrow> u32 \<Rightarrow> 'a i2s_mach_scheme \<Rightarrow> 'a i2s_mach_scheme \<Rightarrow> bool" where
  "i2s_still base cp s t \<longleftrightarrow> (\<exists>h f. t = s\<lparr>hist := h @ hist s, nctrl := (nctrl s)(cp := (nctrl s cp)\<lparr>i2s_int_status := f\<rparr>)\<rparr> \<and> i2s_apart base h)"

lemma i2s_still_refl [simp]: "i2s_still base cp s s"
  unfolding i2s_still_def by (rule exI [of _ "[]"], rule exI [of _ "i2s_int_status (nctrl s cp)"]) simp

lemma i2s_still_trans: "i2s_still base cp s t \<Longrightarrow> i2s_still base cp t u \<Longrightarrow> i2s_still base cp s u"
  unfolding i2s_still_def
proof (elim exE conjE)
  fix h f k g
  assume "t = s\<lparr>hist := h @ hist s, nctrl := (nctrl s)(cp := (nctrl s cp)\<lparr>i2s_int_status := f\<rparr>)\<rparr>" "i2s_apart base h"
    "u = t\<lparr>hist := k @ hist t, nctrl := (nctrl t)(cp := (nctrl t cp)\<lparr>i2s_int_status := g\<rparr>)\<rparr>" "i2s_apart base k"
  then show "\<exists>h f. u = s\<lparr>hist := h @ hist s, nctrl := (nctrl s)(cp := (nctrl s cp)\<lparr>i2s_int_status := f\<rparr>)\<rparr> \<and> i2s_apart base h"
    by (intro exI [of _ "k @ h"] exI [of _ g]) simp
qed

lemma i2s_still_hist: "i2s_apart base h \<Longrightarrow> i2s_still base cp s (s\<lparr>hist := h @ hist s\<rparr>)"
  unfolding i2s_still_def by (rule exI [of _ h], rule exI [of _ "i2s_int_status (nctrl s cp)"]) simp

lemma i2s_stillD:
  assumes "i2s_still base cp s t"
  shows "ninfo t = ninfo s" "nconf t = nconf s" "mem t = mem s" "exc_int_handler_table t = exc_int_handler_table s"
    "dw_i2s_regs (nctrl t c) = dw_i2s_regs (nctrl s c)" "dw_i2s_buf (nctrl t c) = dw_i2s_buf (nctrl s c)" "i2s_regs t obj = i2s_regs s obj"
    "sample_stores base (hist t) = sample_stores base (hist s)"
    "r \<in> {I2S_IER, I2S_IRER, I2S_ITER} \<Longrightarrow> mmio_last (base + r) (hist t) = mmio_last (base + r) (hist s)"
  using assms by (auto simp: i2s_still_def sample_stores_append i2s_regs_def i2s_apart_samples i2s_apart_last [where r = I2S_IER, simplified]
      i2s_apart_last [where r = I2S_IRER, simplified] i2s_apart_last [where r = I2S_ITER, simplified])

lemma int_switch_apart:
  fixes s :: "'a mach_scheme"
  shows "\<exists>r h. run_state (int_disable p n) s = (r, s\<lparr>hist := h @ hist s\<rparr>) \<and> i2s_apart base h"
    "\<exists>r h. run_state (int_enable p n) s = (r, s\<lparr>hist := h @ hist s\<rparr>) \<and> i2s_apart base h"
proof -
  have a: "i2s_apart base [Aux_wr AUX_IRQ_ENABLE v, Aux_wr AUX_IRQ_SELECT n]" for v by (simp add: i2s_apart_def)
  have i: "\<exists>h. run_state (State_Monad.return r) s = (r, s\<lparr>hist := h @ hist s\<rparr>) \<and> i2s_apart base h" for r :: s32
    by (rule exI [of _ "[]"]) simp
  show "\<exists>r h. run_state (int_disable p n) s = (r, s\<lparr>hist := h @ hist s\<rparr>) \<and> i2s_apart base h"
  proof (cases "valid_intno p n")
    case True
    then show ?thesis using a [of 0] by (intro exI [of _ 0] exI [of _ "[Aux_wr AUX_IRQ_ENABLE 0, Aux_wr AUX_IRQ_SELECT n]"])
        (simp add: int_disable_def arc_int_disable_def)
  next
    case False
    then show ?thesis using i by (auto simp: int_disable_def)
  qed
  show "\<exists>r h. run_state (int_enable p n) s = (r, s\<lparr>hist := h @ hist s\<rparr>) \<and> i2s_apart base h"
  proof (cases "valid_intno p n")
    case True
    then show ?thesis using a [of 1] by (intro exI [of _ 0] exI [of _ "[Aux_wr AUX_IRQ_ENABLE 1, Aux_wr AUX_IRQ_SELECT n]"])
        (simp add: int_enable_def arc_int_enable_def)
  next
    case False
    then show ?thesis using i by (auto simp: int_enable_def)
  qed
qed

lemma flag_bits: "(x OR 1) AND 1 = (1 :: u32)" "(x AND NOT 1) AND 1 = (0 :: u32)"
  by (rule bit_word_eqI; auto simp: bit_simps)+

lemma flag_same: "x AND 1 = 0 \<Longrightarrow> x AND NOT 1 = x" "x AND 1 = 1 \<Longrightarrow> x OR 1 = x" for x :: u32
proof -
  show "x AND NOT 1 = x" if a: "x AND 1 = 0"
  proof (rule bit_word_eqI)
    fix n :: nat
    have "\<not> bit x 0" using arg_cong [OF a, of "\<lambda>w. bit w 0"] by (simp add: bit_and_iff)
    then show "n < LENGTH(32) \<Longrightarrow> bit (x AND NOT 1) n = bit x n" by (cases n) (auto simp: bit_and_iff bit_not_iff bit_1_iff)
  qed
  show "x OR 1 = x" if a: "x AND 1 = 1"
  proof (rule bit_word_eqI)
    fix n :: nat
    have "bit x 0" using arg_cong [OF a, of "\<lambda>w. bit w 0"] by (simp add: bit_and_iff)
    then show "bit (x OR 1) n = bit x n" by (cases n) (auto simp: bit_or_iff bit_1_iff)
  qed
qed

lemma flag_cases: "x AND 1 = 0 \<or> x AND 1 = (1 :: u32)"
  by (simp add: and_one_eq mod_2_eq_odd)

lemma irq_off_still:
  fixes s :: "'a i2s_mach_scheme" and ch cp :: u32
  assumes c: "i2s_ctrl (ninfo s obj) = cp"
  defines "f \<equiv> (i2s_int_status (nctrl s cp))(ch := i2s_int_status (nctrl s cp) ch AND NOT 1)"
  shows "\<exists>t. run_state (i2s_irq_off p obj ch) s = ((), t) \<and> i2s_still base cp s t \<and> i2s_int_status (nctrl t cp) = f"
proof (cases "i2s_int_status (nctrl s cp) ch AND 1 = 1")
  case True
  let ?a = "s\<lparr>nctrl := (nctrl s)(cp := (nctrl s cp)\<lparr>i2s_int_status := f\<rparr>)\<rparr>"
  let ?k = "i2s_intno (nconf s (i2s_config (ninfo s obj))) ch"
  obtain r h where h: "run_state (int_disable p (da_intr ?k)) ?a = (r, ?a\<lparr>hist := h @ hist ?a\<rparr>)" "i2s_apart base h"
    using int_switch_apart(1) by blast
  obtain q k where k: "run_state (int_disable p (or_intr ?k)) (?a\<lparr>hist := h @ hist ?a\<rparr>) = (q, ?a\<lparr>hist := h @ hist ?a\<rparr>\<lparr>hist := k @ hist (?a\<lparr>hist := h @ hist ?a\<rparr>)\<rparr>)"
    "i2s_apart base k" using int_switch_apart(1) by blast
  let ?t = "?a\<lparr>hist := k @ h @ hist s\<rparr>"
  have "run_state (i2s_irq_off p obj ch) s = ((), ?t)" using True c h(1) k(1) by (simp add: i2s_irq_off_def c_if_def f_def)
  moreover have "i2s_still base cp s ?t" unfolding i2s_still_def using h(2) k(2) by (intro exI [of _ "k @ h"] exI [of _ f]) simp
  ultimately show ?thesis by auto
next
  case False
  then have "run_state (i2s_irq_off p obj ch) s = ((), s)" using c by (simp add: i2s_irq_off_def c_if_def)
  moreover have "i2s_int_status (nctrl s cp) = f" using False flag_cases flag_same(1) unfolding f_def by (metis fun_upd_triv)
  ultimately show ?thesis using i2s_still_refl by blast
qed

lemma irq_on_still:
  fixes s :: "'a i2s_mach_scheme" and ch cp :: u32
  assumes c: "i2s_ctrl (ninfo s obj) = cp"
  defines "f \<equiv> (i2s_int_status (nctrl s cp))(ch := i2s_int_status (nctrl s cp) ch OR 1)"
  shows "\<exists>t. run_state (i2s_irq_on p obj ch) s = ((), t) \<and> i2s_still base cp s t \<and> i2s_int_status (nctrl t cp) = f"
proof (cases "i2s_int_status (nctrl s cp) ch AND 1 = 0")
  case True
  let ?a = "s\<lparr>nctrl := (nctrl s)(cp := (nctrl s cp)\<lparr>i2s_int_status := f\<rparr>)\<rparr>"
  let ?k = "i2s_intno (nconf s (i2s_config (ninfo s obj))) ch"
  obtain r h where h: "run_state (int_enable p (da_intr ?k)) ?a = (r, ?a\<lparr>hist := h @ hist ?a\<rparr>)" "i2s_apart base h"
    using int_switch_apart(2) by blast
  obtain q k where k: "run_state (int_enable p (or_intr ?k)) (?a\<lparr>hist := h @ hist ?a\<rparr>) = (q, ?a\<lparr>hist := h @ hist ?a\<rparr>\<lparr>hist := k @ hist (?a\<lparr>hist := h @ hist ?a\<rparr>)\<rparr>)"
    "i2s_apart base k" using int_switch_apart(2) by blast
  let ?t = "?a\<lparr>hist := k @ h @ hist s\<rparr>"
  have "run_state (i2s_irq_on p obj ch) s = ((), ?t)" using True c h(1) k(1) by (simp add: i2s_irq_on_def c_if_def f_def)
  moreover have "i2s_still base cp s ?t" unfolding i2s_still_def using h(2) k(2) by (intro exI [of _ "k @ h"] exI [of _ f]) simp
  ultimately show ?thesis by auto
next
  case False
  then have "run_state (i2s_irq_on p obj ch) s = ((), s)" using c by (simp add: i2s_irq_on_def c_if_def)
  moreover have "i2s_int_status (nctrl s cp) = f" using False flag_cases flag_same(2) unfolding f_def by (metis fun_upd_triv)
  ultimately show ?thesis using i2s_still_refl by blast
qed

text \<open>An access to a register that holds no samples.\<close>

lemma or_still:
  fixes s :: "'a i2s_mach_scheme"
  shows "r \<notin> {I2S_LTHR0, I2S_RTHR0, I2S_IER, I2S_IRER, I2S_ITER} \<Longrightarrow>
    \<exists>t. run_state (mmio_or p (base + r) v) s = ((), t) \<and> i2s_still base cp s t \<and> nctrl t = nctrl s"
  by (rule exI, intro conjI, simp add: Let_def, rule i2s_still_hist [where h = "[_, _]", simplified]) (auto simp: i2s_apart_def)

lemma and_still:
  fixes s :: "'a i2s_mach_scheme"
  shows "r \<notin> {I2S_LTHR0, I2S_RTHR0, I2S_IER, I2S_IRER, I2S_ITER} \<Longrightarrow>
    \<exists>t. run_state (mmio_and p (base + r) v) s = ((), t) \<and> i2s_still base cp s t \<and> nctrl t = nctrl s"
  by (rule exI, intro conjI, simp add: Let_def, rule i2s_still_hist [where h = "[_, _]", simplified]) (auto simp: i2s_apart_def)

lemma dev_intr_off_still:
  fixes s :: "'a i2s_mach_scheme" and ch cp :: u32
  assumes c: "i2s_ctrl (ninfo s obj) = cp" "i2s_regs s obj = base" and ch: "ch \<in> {0, 1, 2, 3}"
  defines "f \<equiv> (i2s_int_status (nctrl s cp))(ch := i2s_int_status (nctrl s cp) ch AND NOT 1)"
  shows "\<exists>t. run_state (dw_i2s_tx_disable_interrupt p obj ch) s = ((), t) \<and> i2s_still base cp s t \<and> i2s_int_status (nctrl t cp) = f"
    "\<exists>t. run_state (dw_i2s_rx_disable_interrupt p obj ch) s = ((), t) \<and> i2s_still base cp s t \<and> i2s_int_status (nctrl t cp) = f"
proof -
  have b: "chan_reg base I2S_IMR0 ch = base + (I2S_IMR0 + 0x40 * ch)" by (simp add: chan_reg_def)
  have r: "I2S_IMR0 + 0x40 * ch \<notin> {I2S_LTHR0, I2S_RTHR0, I2S_IER, I2S_IRER, I2S_ITER}" and le: "ch \<le> 3" using ch by auto
  have *: "\<exists>t. run_state (do { mmio_or p (chan_reg base I2S_IMR0 ch) v; i2s_irq_off p obj ch }) s = ((), t) \<and> i2s_still base cp s t
    \<and> i2s_int_status (nctrl t cp) = f" for v
  proof -
    obtain a where a: "run_state (mmio_or p (chan_reg base I2S_IMR0 ch) v) s = ((), a)" "i2s_still base cp s a" "nctrl a = nctrl s"
      using or_still [OF r] unfolding b by blast
    have "i2s_ctrl (ninfo a obj) = cp" using c a(2) by (simp add: i2s_stillD)
    from irq_off_still [OF this] obtain t where t: "run_state (i2s_irq_off p obj ch) a = ((), t)" "i2s_still base cp a t" "i2s_int_status (nctrl t cp) = f"
      unfolding f_def a(3) by blast
    have "run_state (do { mmio_or p (chan_reg base I2S_IMR0 ch) v; i2s_irq_off p obj ch }) s = ((), t)"
      using a(1) t(1) by (simp del: run_mmio_or)
    then show ?thesis using t a(2) i2s_still_trans by blast
  qed
  show "\<exists>t. run_state (dw_i2s_tx_disable_interrupt p obj ch) s = ((), t) \<and> i2s_still base cp s t \<and> i2s_int_status (nctrl t cp) = f"
    using * [of I2S_IMR_TX] c(2) le by (simp add: dw_i2s_tx_disable_interrupt_def dw_i2s_tx_mask_interrupt_def with_channel_def c_if_def del: run_mmio_or)
  show "\<exists>t. run_state (dw_i2s_rx_disable_interrupt p obj ch) s = ((), t) \<and> i2s_still base cp s t \<and> i2s_int_status (nctrl t cp) = f"
    using * [of I2S_IMR_RX] c(2) le by (simp add: dw_i2s_rx_disable_interrupt_def dw_i2s_rx_mask_interrupt_def with_channel_def c_if_def del: run_mmio_or)
qed

lemma tx_off_still:
  fixes s :: "'a i2s_mach_scheme"
  assumes c: "i2s_ctrl (ninfo s obj) = cp" "i2s_regs s obj = base"
  shows "\<exists>t. run_state (dw_i2s_tx_disable_interrupt p obj 0) s = ((), t) \<and> i2s_still base cp s t \<and> i2s_int_status (nctrl t cp) 0 AND 1 = 0"
proof -
  obtain t where "run_state (dw_i2s_tx_disable_interrupt p obj 0) s = ((), t)" "i2s_still base cp s t"
    "i2s_int_status (nctrl t cp) = (i2s_int_status (nctrl s cp))(0 := i2s_int_status (nctrl s cp) 0 AND NOT 1)"
    using dev_intr_off_still(1) [OF c, of 0] by blast
  then show ?thesis using flag_bits(2) by (intro exI [of _ t]) simp
qed

lemma tx_on_still:
  fixes s :: "'a i2s_mach_scheme"
  assumes c: "i2s_ctrl (ninfo s obj) = cp" "i2s_regs s obj = base"
  shows "\<exists>t. run_state (dw_i2s_tx_enable_interrupt p obj 0) s = ((), t) \<and> i2s_still base cp s t \<and> i2s_int_status (nctrl t cp) 0 AND 1 = 1"
proof -
  obtain a where a: "run_state (mmio_and p (base + I2S_IMR0) (NOT I2S_IMR_TX)) s = ((), a)" "i2s_still base cp s a" "nctrl a = nctrl s"
    using and_still [of I2S_IMR0] by force
  have "i2s_ctrl (ninfo a obj) = cp" using c a(2) by (simp add: i2s_stillD)
  from irq_on_still [OF this, of p 0 base] obtain t where t: "run_state (i2s_irq_on p obj 0) a = ((), t)" "i2s_still base cp a t"
    "i2s_int_status (nctrl t cp) 0 AND 1 = 1" using flag_bits(1) by auto
  have "run_state (dw_i2s_tx_enable_interrupt p obj 0) s = ((), t)"
    using a(1) t(1) c(2) unfolding dw_i2s_tx_enable_interrupt_def dw_i2s_tx_unmask_interrupt_def with_channel_def c_if_def chan_reg_def
    by (simp del: run_mmio_and)
  then show ?thesis using t a i2s_still_trans by blast
qed

subsection \<open>One interrupt\<close>

text \<open>What an interrupt stores, with \<open>trig\<close> places free in the FIFO: pairs of the buffer, then pairs of zeros.\<close>

definition zero_stores :: "u32 \<Rightarrow> nat \<Rightarrow> (u32 \<times> u32) list" where
  "zero_stores base n = concat (replicate n [(base + I2S_LTHR0, 0), (base + I2S_RTHR0, 0)])"

definition chunk_stores :: "u32 \<Rightarrow> (u32 \<Rightarrow> u8) \<Rightarrow> u32 \<Rightarrow> dev_buffer \<Rightarrow> (u32 \<times> u32) list" where
  "chunk_stores base m trig b = (let n = min (unat trig) (unat (blen b) div 2) in
     pair_stores base m (buf b + 4 * (ofs b * trig)) n @ zero_stores base (unat trig - n))"

text \<open>The buffer after it.\<close>

definition i2s_rest :: "u32 \<Rightarrow> dev_buffer \<Rightarrow> dev_buffer" where
  "i2s_rest trig b = (if trig * 2 \<le> blen b then b\<lparr>ofs := ofs b + 1, blen := blen b - trig * 2\<rparr> else b\<lparr>blen := 0\<rparr>)"

text \<open>An open transmitter on channel 0 alone, between two interrupts, with a buffer to send.\<close>

definition i2s_serving :: "'a i2s_mach_scheme \<Rightarrow> u32 \<Rightarrow> dev_buffer \<Rightarrow> bool" where
  "i2s_serving s obj b \<longleftrightarrow> i2_device (ninfo s obj) = I2S_DEVICE_TRANSMITTER \<and> i2_cur_state (ninfo s obj) = I2S_FREE \<and> i2_tx_buf (ninfo s obj) = b
     \<and> buf b \<noteq> 0 \<and> (let c = i2s_channels (nconf s (i2s_config (ninfo s obj))) in c AND 0x1 = 1 \<and> c AND 0x2 = 0 \<and> c AND 0x4 = 0 \<and> c AND 0x8 = 0)"

lemma zero_stores_Suc: "zero_stores base (Suc n) = (base + I2S_LTHR0, 0) # (base + I2S_RTHR0, 0) # zero_stores base n"
  by (simp add: zero_stores_def)

lemma pad_pairs_run:
  fixes s :: "'a i2s_mach_scheme"
  shows "dw_i2s_regs (nctrl s cp) = base \<Longrightarrow> \<exists>h. run_state (i2s_pad_pairs n cp) s = ((), s\<lparr>hist := h @ hist s\<rparr>) \<and> mmio_stores h = zero_stores base n"
proof (induction n arbitrary: s)
  case 0
  then show ?case by (intro exI [of _ "[]"]) (simp add: zero_stores_def)
next
  case (Suc n)
  let ?e = "[Mmio_wr (base + I2S_RTHR0) 0, Mmio_wr (base + I2S_LTHR0) 0]" let ?t = "s\<lparr>hist := ?e @ hist s\<rparr>"
  obtain h where h: "run_state (i2s_pad_pairs n cp) ?t = ((), ?t\<lparr>hist := h @ hist ?t\<rparr>)" "mmio_stores h = zero_stores base n"
    using Suc.IH [of ?t] Suc.prems by auto
  show ?case using h Suc.prems
    by (intro exI [of _ "h @ ?e"])
      (simp add: dw_i2s_tx_write_left_hold_reg_def dw_i2s_tx_write_right_hold_reg_def c_if_def zero_stores_Suc mmio_stores_append i2s_sample_def)
qed

lemma sample_stores_pairs: "mmio_stores h = pair_stores base m a n \<Longrightarrow> sample_stores base h = pair_stores base m a n"
proof -
  have "filter (\<lambda>(a, _). a = base + I2S_LTHR0 \<or> a = base + I2S_RTHR0) (pair_stores base m a n) = pair_stores base m a n"
    by (induction n arbitrary: a) (simp_all add: pair_stores_Suc)
  then show "mmio_stores h = pair_stores base m a n \<Longrightarrow> sample_stores base h = pair_stores base m a n" by (simp add: sample_stores_def)
qed

lemma sample_stores_zeros: "mmio_stores h = zero_stores base n \<Longrightarrow> sample_stores base h = zero_stores base n"
proof -
  have "filter (\<lambda>(a, _). a = base + I2S_LTHR0 \<or> a = base + I2S_RTHR0) (zero_stores base n) = zero_stores base n"
    by (induction n) (simp_all add: zero_stores_Suc, simp add: zero_stores_def)
  then show "mmio_stores h = zero_stores base n \<Longrightarrow> sample_stores base h = zero_stores base n" by (simp add: sample_stores_def)
qed

lemma clear_overrun_still:
  fixes s :: "'a i2s_mach_scheme"
  shows "\<exists>t. run_state (dw_i2s_tx_clear_overrun_interrupt p base 0) s = ((), t) \<and> i2s_still base cp s t \<and> nctrl t = nctrl s"
  by (rule exI, intro conjI, simp add: dw_i2s_tx_clear_overrun_interrupt_def with_channel_def c_if_def,
      rule i2s_still_hist [where h = "[_]", simplified]) (simp_all add: i2s_apart_def)

lemma trig_double:
  fixes trig :: u32
  shows "trig \<le> 16 \<Longrightarrow> unat (trig * 2) = 2 * unat trig"
  by (simp add: unat_word_ariths word_le_nat_alt)

lemma int_send_run:
  fixes s :: "'a i2s_mach_scheme"
  assumes c: "i2s_ctrl (ninfo s obj) = cp" "i2s_regs s obj = base" and b: "i2_tx_buf (ninfo s obj) = b" and trig: "trig \<le> 16"
  shows "\<exists>h t. run_state (i2s_int_send p obj cp base (buf b) trig (ofs b * trig)) s = ((), t)
    \<and> i2s_still base cp (s\<lparr>hist := h @ hist s, ninfo := (ninfo s)(obj := (ninfo s obj)\<lparr>i2_tx_buf := i2s_rest trig b\<rparr>)\<rparr>) t
    \<and> sample_stores base h = chunk_stores base (mem s) trig b
    \<and> i2s_int_status (nctrl t cp) 0 AND 1 = (if trig * 2 \<le> blen b then 1 else i2s_int_status (nctrl s cp) 0 AND 1)"
proof (cases "trig * 2 \<le> blen b")
  case True
  have r: "dw_i2s_regs (nctrl s cp) = base" using c by (simp add: i2s_regs_def)
  have n: "min (unat trig) (unat (blen b) div 2) = unat trig" using True trig_double [OF trig] by (simp add: word_le_nat_alt)
  obtain h where h: "run_state (i2s_put_pairs (unat trig) cp (buf b) (ofs b * trig) 0) s = ((), s\<lparr>hist := h @ hist s\<rparr>)"
    "mmio_stores h = pair_stores base (mem s) (buf b + 4 * (ofs b * trig)) (unat trig)" using put_pairs_run [OF r] by blast
  let ?a = "s\<lparr>hist := h @ hist s, ninfo := (ninfo s)(obj := (ninfo s obj)\<lparr>i2_tx_buf := i2s_rest trig b\<rparr>)\<rparr>"
  obtain u where u: "run_state (dw_i2s_tx_clear_overrun_interrupt p base 0) ?a = ((), u)" "i2s_still base cp ?a u" using clear_overrun_still by blast
  have cu: "i2s_ctrl (ninfo u obj) = cp" "i2s_regs u obj = base" using c i2s_stillD(1) [OF u(2)] i2s_stillD(5) [OF u(2), of cp] by (simp_all add: i2s_regs_def)
  obtain t where t: "run_state (dw_i2s_tx_enable_interrupt p obj 0) u = ((), t)" "i2s_still base cp u t" "i2s_int_status (nctrl t cp) 0 AND 1 = 1"
    using tx_on_still [OF cu] by blast
  have "run_state (i2s_int_send p obj cp base (buf b) trig (ofs b * trig)) s = ((), t)"
    using True b h(1) u(1) t(1) by (simp add: i2s_int_send_def i2s_rest_def)
  moreover have "sample_stores base h = chunk_stores base (mem s) trig b"
    unfolding chunk_stores_def Let_def n using sample_stores_pairs [OF h(2)] by (simp add: zero_stores_def)
  ultimately show ?thesis using True t i2s_still_trans [OF u(2) t(2)] by (intro exI [of _ h] exI [of _ t]) simp
next
  case False
  let ?n = "unat (drop_bit 1 (blen b))"
  have r: "dw_i2s_regs (nctrl s cp) = base" using c by (simp add: i2s_regs_def)
  have "?n = drop_bit 1 (unat (blen b))" by (rule unat_drop_bit_eq)
  then have d: "?n = unat (blen b) div 2" by (simp add: drop_bit_eq_div)
  have n: "min (unat trig) (unat (blen b) div 2) = ?n" using False trig_double [OF trig] unfolding d by (simp add: word_le_nat_alt)
  obtain h where h: "run_state (i2s_put_pairs ?n cp (buf b) (ofs b * trig) 0) s = ((), s\<lparr>hist := h @ hist s\<rparr>)"
    "mmio_stores h = pair_stores base (mem s) (buf b + 4 * (ofs b * trig)) ?n" using put_pairs_run [OF r] by blast
  have "dw_i2s_regs (nctrl (s\<lparr>hist := h @ hist s\<rparr>) cp) = base" using r by simp
  from pad_pairs_run [OF this] obtain k where k: "run_state (i2s_pad_pairs (unat trig - ?n) cp) (s\<lparr>hist := h @ hist s\<rparr>) = ((), s\<lparr>hist := k @ h @ hist s\<rparr>)"
    "mmio_stores k = zero_stores base (unat trig - ?n)" by fastforce
  let ?a = "s\<lparr>hist := (k @ h) @ hist s, ninfo := (ninfo s)(obj := (ninfo s obj)\<lparr>i2_tx_buf := i2s_rest trig b\<rparr>)\<rparr>"
  obtain u where u: "run_state (dw_i2s_tx_clear_overrun_interrupt p base 0) ?a = ((), u)" "i2s_still base cp ?a u" "nctrl u = nctrl ?a"
    using clear_overrun_still by blast
  have "run_state (i2s_int_send p obj cp base (buf b) trig (ofs b * trig)) s = ((), u)"
    using False b h(1) k(1) u(1) by (simp add: i2s_int_send_def i2s_rest_def Let_def)
  moreover have "sample_stores base (k @ h) = chunk_stores base (mem s) trig b"
    unfolding chunk_stores_def Let_def n using sample_stores_pairs [OF h(2)] sample_stores_zeros [OF k(2)] by (simp add: sample_stores_append)
  ultimately show ?thesis using False u(2,3) by (intro exI [of _ "k @ h"] exI [of _ u]) simp
qed

text \<open>The state between two interrupts, but for the log and the flags of the interrupts.\<close>

definition i2s_sent :: "u32 \<Rightarrow> u32 \<Rightarrow> u32 \<Rightarrow> 'a i2s_mach_scheme \<Rightarrow> 'a i2s_mach_scheme \<Rightarrow> bool" where
  "i2s_sent base obj trig s t \<longleftrightarrow> (let b = i2_tx_buf (ninfo s obj) in
     ninfo t = (ninfo s)(obj := (ninfo s obj)\<lparr>i2_tx_buf := i2s_rest trig b, i2_cur_state := I2S_FREE\<rparr>) \<and> nconf t = nconf s \<and> mem t = mem s
     \<and> i2s_regs t obj = base \<and> sample_stores base (hist t) = sample_stores base (hist s) @ chunk_stores base (mem s) trig b
     \<and> i2s_int_status (nctrl t (i2s_ctrl (ninfo s obj))) 0 AND 1 = (if trig * 2 \<le> blen b then 1 else 0))"

lemma dis_cbr_still:
  fixes s :: "'a i2s_mach_scheme"
  assumes c: "i2s_ctrl (ninfo s obj) = cp" "i2s_regs s obj = base" and d: "i2_device (ninfo s obj) = I2S_DEVICE_TRANSMITTER"
  shows "\<exists>t. run_state (dw_i2s_dis_cbr p obj DW_I2S_TX_RDY_SND 0) s = ((), t) \<and> i2s_still base cp s t \<and> i2s_int_status (nctrl t cp) 0 AND 1 = 0"
proof -
  obtain a where a: "run_state (dw_i2s_tx_disable_interrupt p obj 0) s = ((), a)" "i2s_still base cp s a" "i2s_int_status (nctrl a cp) 0 AND 1 = 0"
    using tx_off_still [OF c] by blast
  let ?f = "(i2s_int_status (nctrl a cp))(0 := i2s_int_status (nctrl a cp) 0 AND NOT 2)"
  let ?t = "a\<lparr>nctrl := (nctrl a)(cp := (nctrl a cp)\<lparr>i2s_int_status := ?f\<rparr>)\<rparr>"
  have "run_state (dw_i2s_dis_cbr p obj DW_I2S_TX_RDY_SND 0) s = ((), ?t)"
    using a(1) c(1) d by (simp add: dw_i2s_dis_cbr_def c_if_def i2s_stillD(1) [OF a(2)])
  moreover have "i2s_still base cp a ?t" unfolding i2s_still_def
    by (rule exI [of _ "[]"], rule exI [of _ ?f]) simp
  moreover have "(i2s_int_status (nctrl a cp) 0 AND NOT 2) AND 1 = 0"
  proof -
    have "(i2s_int_status (nctrl a cp) 0 AND NOT 2) AND 1 = (i2s_int_status (nctrl a cp) 0 AND 1) AND NOT 2" by (simp only: ac_simps)
    then show ?thesis unfolding a(3) by simp
  qed
  ultimately show ?thesis using i2s_still_trans [OF a(2)] by (intro exI [of _ ?t]) simp
qed

lemma i2s_isr_tx_step:
  fixes s :: "'a i2s_mach_scheme"
  assumes v: "i2s_serving s obj b" and base: "i2s_regs s obj = base"
    and l: "\<And>h. mmio_in p h (base + I2S_TFCR0) AND 0x0f = 16 - trig" and trig: "trig \<le> 16"
    and isr: "\<And>h. mmio_in p h (base + I2S_ISR0) AND (DW_I2S_ISRX_TXFO OR DW_I2S_ISRX_TXFE) = DW_I2S_ISRX_TXFE"
  shows "\<exists>t. run_state (dw_i2s_isr_tx p cb obj) s = run_state (c_if (blen (i2s_rest trig b) = 0) (i2s_call cb (i2_tx_cb (ninfo s obj)) obj)) t
    \<and> i2s_sent base obj trig s t"
proof -
  let ?cp = "i2s_ctrl (ninfo s obj)" let ?v = "mmio_in p (hist s) (base + I2S_TFCR0)"
  let ?a = "s\<lparr>ninfo := (ninfo s)(obj := (ninfo s obj)\<lparr>i2_cur_state := I2S_IN_TX\<rparr>)\<rparr>"
  let ?b = "?a\<lparr>hist := Mmio_rd (base + I2S_TFCR0) ?v # hist s\<rparr>"
  have tb: "i2_tx_buf (ninfo s obj) = b" using v by (simp add: i2s_serving_def)
  have cb: "i2s_ctrl (ninfo ?b obj) = ?cp" "i2s_regs ?b obj = base" "i2_device (ninfo ?b obj) = I2S_DEVICE_TRANSMITTER"
    using v base by (simp_all add: i2s_serving_def i2s_regs_def)
  obtain d where d: "run_state (dw_i2s_dis_cbr p obj DW_I2S_TX_RDY_SND 0) ?b = ((), d)" "i2s_still base ?cp ?b d" "i2s_int_status (nctrl d ?cp) 0 AND 1 = 0"
    using dis_cbr_still [OF cb] by blast
  let ?i = "mmio_in p (hist d) (base + I2S_ISR0)" let ?e = "d\<lparr>hist := Mmio_rd (base + I2S_ISR0) ?i # hist d\<rparr>"
  have ce: "i2s_ctrl (ninfo ?e obj) = ?cp" "i2s_regs ?e obj = base" "i2_tx_buf (ninfo ?e obj) = b"
    using cb i2s_stillD(1) [OF d(2)] i2s_stillD(7) [OF d(2), of obj] tb by (simp_all add: i2s_regs_def)
  obtain h f where f: "run_state (i2s_int_send p obj ?cp base (buf b) trig (ofs b * trig)) ?e = ((), f)"
    "i2s_still base ?cp (?e\<lparr>hist := h @ hist ?e, ninfo := (ninfo ?e)(obj := (ninfo ?e obj)\<lparr>i2_tx_buf := i2s_rest trig b\<rparr>)\<rparr>) f"
    "sample_stores base h = chunk_stores base (mem ?e) trig b"
    "i2s_int_status (nctrl f ?cp) 0 AND 1 = (if trig * 2 \<le> blen b then 1 else i2s_int_status (nctrl ?e ?cp) 0 AND 1)"
    using int_send_run [OF ce trig] by blast
  let ?t = "f\<lparr>ninfo := (ninfo f)(obj := (ninfo f obj)\<lparr>i2_cur_state := I2S_FREE\<rparr>)\<rparr>"
  have nf: "ninfo f obj = (ninfo s obj)\<lparr>i2_cur_state := I2S_IN_TX, i2_tx_buf := i2s_rest trig b\<rparr>"
    using i2s_stillD(1) [OF f(2)] i2s_stillD(1) [OF d(2)] by simp
  have bits: "?i AND DW_I2S_ISRX_TXFO = 0" "?i AND DW_I2S_ISRX_TXFE \<noteq> 0"
  proof -
    have "?i AND DW_I2S_ISRX_TXFO = (?i AND (DW_I2S_ISRX_TXFO OR DW_I2S_ISRX_TXFE)) AND DW_I2S_ISRX_TXFO" by (simp add: and.assoc)
    then show "?i AND DW_I2S_ISRX_TXFO = 0" unfolding isr by simp
    have "?i AND DW_I2S_ISRX_TXFE = (?i AND (DW_I2S_ISRX_TXFO OR DW_I2S_ISRX_TXFE)) AND DW_I2S_ISRX_TXFE" by (simp add: and.assoc)
    then show "?i AND DW_I2S_ISRX_TXFE \<noteq> 0" unfolding isr by simp
  qed
  have lv: "16 - (?v AND 0x0f) = trig" using l by simp
  have "run_state (dw_i2s_isr_tx p cb obj) s = run_state (dw_i2s_mst_int_write p cb obj) ?a"
    using v by (simp add: dw_i2s_isr_tx_def i2s_serving_def c_if_def Let_def)
  also have "\<dots> = run_state (c_if (blen (i2s_rest trig b) = 0) (i2s_call cb (i2_tx_cb (ninfo s obj)) obj)) ?t"
    using v base lv d(1) f(1) bits nf tb
    by (simp add: dw_i2s_mst_int_write_def i2s_serving_def dw_i2s_tx_get_txchet_def chan_reg_def c_if_def i2s_regs_def cong: if_cong)
  finally have run: "run_state (dw_i2s_isr_tx p cb obj) s = run_state (c_if (blen (i2s_rest trig b) = 0) (i2s_call cb (i2_tx_cb (ninfo s obj)) obj)) ?t" .
  have "ninfo ?t = (ninfo s)(obj := (ninfo s obj)\<lparr>i2_tx_buf := i2s_rest trig b, i2_cur_state := I2S_FREE\<rparr>)"
    using i2s_stillD(1) [OF f(2)] i2s_stillD(1) [OF d(2)] by simp
  moreover have "nconf ?t = nconf s" "mem ?t = mem s" using i2s_stillD(2,3) [OF f(2)] i2s_stillD(2,3) [OF d(2)] by simp_all
  moreover have "i2s_regs ?t obj = base"
    using nf i2s_stillD(5) [OF f(2), of ?cp] i2s_stillD(5) [OF d(2), of ?cp] base by (simp add: i2s_regs_def)
  moreover have "sample_stores base (hist ?t) = sample_stores base (hist s) @ chunk_stores base (mem s) trig b"
  proof -
    have "sample_stores base (Mmio_rd x y # g) = sample_stores base g" for x y g by (simp add: sample_stores_def)
    then show ?thesis using i2s_stillD(8) [OF f(2)] i2s_stillD(8) [OF d(2)] i2s_stillD(3) [OF d(2)] f(3) by (simp add: sample_stores_append)
  qed
  moreover have "i2s_int_status (nctrl ?t ?cp) 0 AND 1 = (if trig * 2 \<le> blen b then 1 else 0)" using f(4) d(3) by simp
  ultimately have "i2s_sent base obj trig s ?t" unfolding i2s_sent_def Let_def tb by blast
  with run show ?thesis by blast
qed

subsection \<open>A buffer sent by interrupts\<close>

primrec i2s_tx_isrs :: "nat \<Rightarrow> plat \<Rightarrow> 'a i2s_callback \<Rightarrow> u32 \<Rightarrow> ('a, unit) nop" where
  "i2s_tx_isrs 0 p cb obj = State_Monad.return ()"
| "i2s_tx_isrs (Suc n) p cb obj = do { dw_i2s_isr_tx p cb obj; i2s_tx_isrs n p cb obj }"

lemma serving_sent: "i2s_serving s obj b \<Longrightarrow> i2s_sent base obj trig s t \<Longrightarrow> i2s_serving t obj (i2s_rest trig b)"
  by (auto simp: i2s_serving_def i2s_sent_def Let_def i2s_rest_def)

lemma rest_nat:
  fixes trig :: u32
  assumes "trig \<le> 16"
  shows "unat (blen (i2s_rest trig b)) = unat (blen b) - 2 * unat trig"
  using trig_double [OF assms] by (simp add: i2s_rest_def word_le_nat_alt unat_sub)

text \<open>The number of interrupts a buffer of \<open>n\<close> samples takes, and the pairs of zeros that end it.\<close>

definition i2s_chunks :: "u32 \<Rightarrow> nat \<Rightarrow> nat" where
  "i2s_chunks trig n = (n + 2 * unat trig - 1) div (2 * unat trig)"

definition i2s_padding :: "u32 \<Rightarrow> nat \<Rightarrow> nat" where
  "i2s_padding trig n = (if n mod (2 * unat trig) = 0 then 0 else unat trig - n div 2 mod unat trig)"

lemma div_step: "0 < k \<Longrightarrow> (x + k) div k = Suc (x div k)" for x k :: nat
  using div_add_self2 [of k x] by simp

lemma chunks_step:
  assumes "0 < trig" and l: "2 * unat trig < n"
  shows "i2s_chunks trig n = Suc (i2s_chunks trig (n - 2 * unat trig))" "i2s_padding trig (n - 2 * unat trig) = i2s_padding trig n"
    "n div 2 = unat trig + (n - 2 * unat trig) div 2" "(n - 2 * unat trig) mod (2 * unat trig) = n mod (2 * unat trig)"
proof -
  obtain m where n: "n = m + 2 * unat trig" using l by (metis add.commute le_add_diff_inverse less_imp_le)
  have pos: "0 < unat trig" using assms(1) by (simp add: word_less_nat_alt)
  have "(m + 2 * unat trig + 2 * unat trig - 1) = (m + 2 * unat trig - 1) + 2 * unat trig" using pos by simp
  moreover have "(x + 2 * unat trig) div (2 * unat trig) = Suc (x div (2 * unat trig))" for x using pos by (intro div_step) simp
  ultimately have "(m + 2 * unat trig + 2 * unat trig - 1) div (2 * unat trig) = Suc ((m + 2 * unat trig - 1) div (2 * unat trig))" by metis
  then show "i2s_chunks trig n = Suc (i2s_chunks trig (n - 2 * unat trig))" unfolding i2s_chunks_def n add_diff_cancel_right' .
  have d: "(m + 2 * unat trig) div 2 = unat trig + m div 2" by simp
  show "i2s_padding trig (n - 2 * unat trig) = i2s_padding trig n" unfolding i2s_padding_def n add_diff_cancel_right' d by simp
  show "n div 2 = unat trig + (n - 2 * unat trig) div 2" unfolding n add_diff_cancel_right' d ..
  show "(n - 2 * unat trig) mod (2 * unat trig) = n mod (2 * unat trig)" unfolding n add_diff_cancel_right' by simp
qed

lemma chunks_last:
  assumes "0 < n" "n \<le> 2 * unat trig"
  shows "i2s_chunks trig n = 1" "n mod (2 * unat trig) = 0 \<longleftrightarrow> n = 2 * unat trig" "min (unat trig) (n div 2) = n div 2"
    "i2s_padding trig n = unat trig - n div 2"
proof -
  have "n + 2 * unat trig - 1 = (n - 1) + 2 * unat trig" "(n - 1) div (2 * unat trig) = 0" using assms by simp_all
  moreover have "(x + 2 * unat trig) div (2 * unat trig) = Suc (x div (2 * unat trig))" for x using assms by (intro div_step) simp
  ultimately show "i2s_chunks trig n = 1" unfolding i2s_chunks_def by (metis One_nat_def)
  show m: "n mod (2 * unat trig) = 0 \<longleftrightarrow> n = 2 * unat trig" using assms by (cases "n = 2 * unat trig") simp_all
  show "min (unat trig) (n div 2) = n div 2" using assms by simp
  show "i2s_padding trig n = unat trig - n div 2"
  proof (cases "n = 2 * unat trig")
    case False
    then have "n div 2 < unat trig" using assms by linarith
    then show ?thesis using False m by (simp add: i2s_padding_def)
  qed (simp add: i2s_padding_def)
qed

lemma interrupts_send:
  fixes s :: "'a i2s_mach_scheme"
  assumes l: "\<And>h. mmio_in p h (base + I2S_TFCR0) AND 0x0f = 16 - trig" and trig: "0 < trig" "trig \<le> 16"
    and isr: "\<And>h. mmio_in p h (base + I2S_ISR0) AND (DW_I2S_ISRX_TXFO OR DW_I2S_ISRX_TXFE) = DW_I2S_ISRX_TXFE"
  shows "i2s_serving s obj b \<Longrightarrow> i2s_regs s obj = base \<Longrightarrow> n = unat (blen b) \<Longrightarrow> 0 < n \<Longrightarrow>
    \<exists>t. run_state (i2s_tx_isrs (i2s_chunks trig n) p cb obj) s = run_state (i2s_call cb (i2_tx_cb (ninfo s obj)) obj) t
      \<and> ninfo t = (ninfo s)(obj := (ninfo s obj)\<lparr>i2_tx_buf := i2_tx_buf (ninfo t obj), i2_cur_state := I2S_FREE\<rparr>) \<and> blen (i2_tx_buf (ninfo t obj)) = 0
      \<and> nconf t = nconf s \<and> mem t = mem s
      \<and> sample_stores base (hist t) = sample_stores base (hist s) @ pair_stores base (mem s) (buf b + 4 * (ofs b * trig)) (n div 2) @ zero_stores base (i2s_padding trig n)
      \<and> i2s_int_status (nctrl t (i2s_ctrl (ninfo s obj))) 0 AND 1 = (if n mod (2 * unat trig) = 0 then 1 else 0)"
proof (induction n arbitrary: s b rule: less_induct)
  case (less n)
  obtain t where t: "run_state (dw_i2s_isr_tx p cb obj) s = run_state (c_if (blen (i2s_rest trig b) = 0) (i2s_call cb (i2_tx_cb (ninfo s obj)) obj)) t"
    "i2s_sent base obj trig s t" using i2s_isr_tx_step [OF less.prems(1,2) l trig(2) isr] by blast
  have b: "i2_tx_buf (ninfo s obj) = b" using less.prems(1) by (simp add: i2s_serving_def)
  note sent = t(2) [unfolded i2s_sent_def b Let_def]
  have rn: "unat (blen (i2s_rest trig b)) = n - 2 * unat trig" using rest_nat [OF trig(2)] less.prems(3) by simp
  have pos: "0 < unat trig" using trig(1) by (simp add: word_less_nat_alt)
  have le: "trig * 2 \<le> blen b \<longleftrightarrow> 2 * unat trig \<le> n" using trig_double [OF trig(2)] less.prems(3) by (simp add: word_le_nat_alt)
  show ?case
  proof (cases "2 * unat trig < n")
    case True
    let ?m = "n - 2 * unat trig" let ?b = "i2s_rest trig b"
    have "?m < n" "0 < ?m" using True pos by simp_all
    moreover have "i2s_serving t obj ?b" "i2s_regs t obj = base" "?m = unat (blen ?b)"
      using serving_sent [OF less.prems(1) t(2)] sent rn by (blast, blast, simp)
    ultimately obtain u where
      u: "run_state (i2s_tx_isrs (i2s_chunks trig ?m) p cb obj) t = run_state (i2s_call cb (i2_tx_cb (ninfo t obj)) obj) u"
        "ninfo u = (ninfo t)(obj := (ninfo t obj)\<lparr>i2_tx_buf := i2_tx_buf (ninfo u obj), i2_cur_state := I2S_FREE\<rparr>)" "blen (i2_tx_buf (ninfo u obj)) = 0"
        "nconf u = nconf t" "mem u = mem t"
        "sample_stores base (hist u) = sample_stores base (hist t) @ pair_stores base (mem t) (buf ?b + 4 * (ofs ?b * trig)) (?m div 2) @ zero_stores base (i2s_padding trig ?m)"
        "i2s_int_status (nctrl u (i2s_ctrl (ninfo t obj))) 0 AND 1 = (if ?m mod (2 * unat trig) = 0 then 1 else 0)"
      using less.IH [of ?m t ?b] by blast
    have "blen ?b \<noteq> 0" using rn True by (metis unsigned_0 zero_less_diff less_irrefl)
    then have "run_state (i2s_tx_isrs (i2s_chunks trig n) p cb obj) s = run_state (i2s_call cb (i2_tx_cb (ninfo s obj)) obj) u"
      using chunks_step(1) [OF trig(1) True] t(1) u(1) sent by (simp add: c_if_def)
    moreover have "ninfo u = (ninfo s)(obj := (ninfo s obj)\<lparr>i2_tx_buf := i2_tx_buf (ninfo u obj), i2_cur_state := I2S_FREE\<rparr>)"
      using u(2) sent by simp
    moreover have "pair_stores base (mem s) (buf b + 4 * (ofs b * trig)) (n div 2)
        = pair_stores base (mem s) (buf b + 4 * (ofs b * trig)) (unat trig) @ pair_stores base (mem s) (buf ?b + 4 * (ofs ?b * trig)) (?m div 2)"
      unfolding chunks_step(3) [OF trig(1) True] pair_stores_add using True le by (simp add: i2s_rest_def algebra_simps)
    moreover have "chunk_stores base (mem s) trig b = pair_stores base (mem s) (buf b + 4 * (ofs b * trig)) (unat trig)"
    proof -
      have "min (unat trig) (unat (blen b) div 2) = unat trig" using True less.prems(3) by simp
      then show ?thesis unfolding chunk_stores_def Let_def by (simp add: zero_stores_def)
    qed
    ultimately show ?thesis using u(3-7) sent chunks_step(2,4) [OF trig(1) True] by (intro exI [of _ u]) simp
  next
    case False
    then have last: "n \<le> 2 * unat trig" by simp
    have z: "blen (i2s_rest trig b) = 0" using rn False by (metis diff_is_0_eq linorder_not_less unat_eq_zero)
    have "run_state (i2s_tx_isrs (i2s_chunks trig n) p cb obj) s = run_state (i2s_call cb (i2_tx_cb (ninfo s obj)) obj) t"
      using chunks_last(1) [OF less.prems(4) last] t(1) z by (simp add: c_if_def)
    moreover have "chunk_stores base (mem s) trig b = pair_stores base (mem s) (buf b + 4 * (ofs b * trig)) (n div 2) @ zero_stores base (i2s_padding trig n)"
      unfolding chunk_stores_def Let_def less.prems(3) [symmetric] chunks_last(3,4) [OF less.prems(4) last] ..
    moreover have "(trig * 2 \<le> blen b) = (n mod (2 * unat trig) = 0)" using le last chunks_last(2) [OF less.prems(4) last] by linarith
    ultimately show ?thesis using sent z by (intro exI [of _ t]) simp
  qed
qed

text \<open>
  C25: with \<open>trig\<close> free places at an interrupt (16 less the trigger level) and no overrun, exactly \<open>i2s_chunks trig n\<close> runs of
  \<open>dw_i2s_isr_tx\<close>, the ceiling of \<open>n / (2 trig)\<close>, send a buffer of \<open>n > 0\<close> samples: the holding registers have received its
  \<open>n div 2\<close> pairs in order, then pairs of zeros up to the end of the last chunk, and only then the callback runs, once, on an idle
  device. The interrupts of the channel are left on exactly if the buffer is a whole number of chunks.
\<close>

theorem i2s_interrupts_send_buffer:
  fixes s :: "'a i2s_mach_scheme"
  assumes s: "i2s_serving s obj b" "ofs b = 0" "i2s_regs s obj = base" and n: "n = unat (blen b)" "0 < n"
    and l: "\<And>h. mmio_in p h (base + I2S_TFCR0) AND 0x0f = 16 - trig" and trig: "0 < trig" "trig \<le> 16"
    and isr: "\<And>h. mmio_in p h (base + I2S_ISR0) AND (DW_I2S_ISRX_TXFO OR DW_I2S_ISRX_TXFE) = DW_I2S_ISRX_TXFE"
  shows "\<exists>t. run_state (i2s_tx_isrs (i2s_chunks trig n) p cb obj) s = run_state (i2s_call cb (i2_tx_cb (ninfo s obj)) obj) t
    \<and> sample_stores base (hist t) = sample_stores base (hist s) @ pair_stores base (mem s) (buf b) (n div 2) @ zero_stores base (i2s_padding trig n)
    \<and> mem t = mem s \<and> i2_cur_state (ninfo t obj) = I2S_FREE \<and> blen (i2_tx_buf (ninfo t obj)) = 0
    \<and> i2s_int_status (nctrl t (i2s_ctrl (ninfo s obj))) 0 AND 1 = (if n mod (2 * unat trig) = 0 then 1 else 0)"
proof -
  obtain t where "run_state (i2s_tx_isrs (i2s_chunks trig n) p cb obj) s = run_state (i2s_call cb (i2_tx_cb (ninfo s obj)) obj) t"
    "ninfo t = (ninfo s)(obj := (ninfo s obj)\<lparr>i2_tx_buf := i2_tx_buf (ninfo t obj), i2_cur_state := I2S_FREE\<rparr>)" "blen (i2_tx_buf (ninfo t obj)) = 0"
    "mem t = mem s" "sample_stores base (hist t) = sample_stores base (hist s) @ pair_stores base (mem s) (buf b) (n div 2) @ zero_stores base (i2s_padding trig n)"
    "i2s_int_status (nctrl t (i2s_ctrl (ninfo s obj))) 0 AND 1 = (if n mod (2 * unat trig) = 0 then 1 else 0)"
    using interrupts_send [OF l trig isr s(1,3) n] s(2) by auto
  moreover from this(2) have "i2_cur_state (ninfo t obj) = I2S_FREE" by (metis fun_upd_same dev_i2s_info.select_convs(7) dev_i2s_info.surjective dev_i2s_info.update_convs(7))
  ultimately show ?thesis by blast
qed

lemma i2s_interrupts_send_buffer_witness:
  "let s = sample_i2s_mach 0 \<lparr>mem := put_samples 0x4000 [7, 8, 9, 10, 11, 12] (\<lambda>_. 0),
       ninfo := \<lambda>_. (sample_i2s_info 0)\<lparr>i2_tx_buf := \<lparr>buf = 0x4000, blen = 6, ofs = 0\<rparr>\<rparr>\<rparr> in
   \<exists>t. run_state (i2s_tx_isrs 2 (sample_i2s_plat 14 0x10) (\<lambda>_ _. State_Monad.return ()) 0x1000) s = ((), t)
    \<and> sample_stores 0xF0009000 (hist t) = [(0xF0009020, 7), (0xF0009024, 8), (0xF0009020, 9), (0xF0009024, 10),
        (0xF0009020, 11), (0xF0009024, 12), (0xF0009020, 0), (0xF0009024, 0)]"
proof -
  let ?b = "\<lparr>buf = 0x4000, blen = 6, ofs = 0\<rparr> :: dev_buffer"
  let ?s = "sample_i2s_mach 0 \<lparr>mem := put_samples 0x4000 [7, 8, 9, 10, 11, 12] (\<lambda>_. 0), ninfo := \<lambda>_. (sample_i2s_info 0)\<lparr>i2_tx_buf := ?b\<rparr>\<rparr>"
  have v: "i2s_serving ?s 0x1000 ?b" "ofs ?b = 0" "i2s_regs ?s 0x1000 = 0xF0009000" by (simp_all add: i2s_serving_def i2s_regs_def)
  have c: "i2s_chunks 2 6 = 2" "i2s_padding 2 6 = 1" by (simp_all add: i2s_chunks_def i2s_padding_def)
  have "pair_stores 0xF0009000 (mem ?s) 0x4000 3 @ zero_stores 0xF0009000 1 = [(0xF0009020, 7), (0xF0009024, 8), (0xF0009020, 9), (0xF0009024, 10),
        (0xF0009020, 11), (0xF0009024, 12), (0xF0009020, 0), (0xF0009024, 0)]" by code_simp
  with i2s_interrupts_send_buffer [OF v, of 6 "sample_i2s_plat 14 0x10" 2 "\<lambda>_ _. State_Monad.return ()"] show ?thesis
    unfolding Let_def c by (auto simp: c i2s_call_def c_if_def sample_stores_def [of _ "[]"])
qed

subsection \<open>An interrupt without a buffer\<close>

text \<open>
  C26: an interrupt of an open and idle master transmitter of one channel that has no buffer stores no sample, switches the interrupts of the channel off and leaves the
  device in \<open>I2S_IN_TX\<close> for good: the next run of the interrupt routine does nothing, a write and the installation of a buffer are
  both refused with \<open>E_CTX\<close>.
\<close>

theorem i2s_interrupt_without_buffer_wedges:
  fixes s :: "'a i2s_mach_scheme"
  assumes v: "i2s_ready s obj I2S_DEVICE_TRANSMITTER" "i2s_channels (nconf s (i2s_config (ninfo s obj))) = 1"
    and b: "buf (i2_tx_buf (ninfo s obj)) = 0" and data: "data \<noteq> 0"
  shows "\<exists>t. run_state (dw_i2s_isr_tx p cb obj) s = ((), t) \<and> sample_stores (i2s_regs s obj) (hist t) = sample_stores (i2s_regs s obj) (hist s)
    \<and> ninfo t = (ninfo s)(obj := (ninfo s obj)\<lparr>i2_cur_state := I2S_IN_TX\<rparr>)
    \<and> i2s_int_status (nctrl t (i2s_ctrl (ninfo s obj))) 0 AND 1 = 0
    \<and> run_state (dw_i2s_isr_tx p cb obj) t = ((), t) \<and> run_state (dw_i2s_write p fuel obj data len 0) t = (Inr E_CTX, t)
    \<and> run_state (dw_i2s_control p obj I2S_CMD_SET_TXINT_BUF param) t = (Inr E_CTX, t)"
proof -
  let ?base = "i2s_regs s obj" let ?cp = "i2s_ctrl (ninfo s obj)" let ?v = "mmio_in p (hist s) (?base + I2S_TFCR0)"
  let ?a = "s\<lparr>ninfo := (ninfo s)(obj := (ninfo s obj)\<lparr>i2_cur_state := I2S_IN_TX\<rparr>)\<rparr>"
  let ?b = "?a\<lparr>hist := Mmio_rd (?base + I2S_TFCR0) ?v # hist s\<rparr>"
  have cb: "i2s_ctrl (ninfo ?b obj) = ?cp" "i2s_regs ?b obj = ?base" "i2_device (ninfo ?b obj) = I2S_DEVICE_TRANSMITTER"
    using v by (simp_all add: i2s_ready_def i2s_regs_def)
  obtain d where d: "run_state (dw_i2s_dis_cbr p obj DW_I2S_TX_RDY_SND 0) ?b = ((), d)" "i2s_still ?base ?cp ?b d" "i2s_int_status (nctrl d ?cp) 0 AND 1 = 0"
    using dis_cbr_still [OF cb] by blast
  let ?i = "mmio_in p (hist d) (?base + I2S_ISR0)" let ?t = "d\<lparr>hist := Mmio_rd (?base + I2S_ISR0) ?i # hist d\<rparr>"
  have nd: "ninfo d = (ninfo s)(obj := (ninfo s obj)\<lparr>i2_cur_state := I2S_IN_TX\<rparr>)" "nconf d = nconf s" using i2s_stillD(1,2) [OF d(2)] by simp_all
  have base: "i2s_regs ?a obj = ?base" by (simp add: i2s_regs_def)
  have "run_state (dw_i2s_mst_int_write p cb obj) ?a = ((), ?t)"
    using base b d(1) by (simp add: dw_i2s_mst_int_write_def dw_i2s_tx_get_txchet_def chan_reg_def c_if_def)
  then have "run_state (dw_i2s_isr_tx p cb obj) s = ((), ?t)"
    using v by (simp add: dw_i2s_isr_tx_def i2s_ready_def c_if_def)
  moreover have "sample_stores ?base (hist ?t) = sample_stores ?base (hist s)"
    using i2s_stillD(8) [OF d(2)] by (simp add: sample_stores_def)
  moreover have "run_state (dw_i2s_isr_tx p cb obj) ?t = ((), ?t)" by (simp add: dw_i2s_isr_tx_def nd c_if_def)
  moreover have "run_state (dw_i2s_write p fuel obj data len 0) ?t = (Inr E_CTX, ?t)"
    using v data by (simp add: dw_i2s_write_def i2s_ready_def nd)
  moreover have "run_state (dw_i2s_control p obj I2S_CMD_SET_TXINT_BUF param) ?t = (Inr E_CTX, ?t)"
    using v by (simp add: dw_i2s_control_def i2s_command_def i2s_ready_def nd)
  ultimately show ?thesis using d(3) nd(1) by (intro exI [of _ ?t]) simp
qed

lemma i2s_interrupt_without_buffer_wedges_witness:
  "\<exists>t. run_state (dw_i2s_isr_tx (sample_i2s_plat 4 0x10) (\<lambda>_ _. State_Monad.return ()) 0x1000) (sample_i2s_mach 0) = ((), t)
    \<and> run_state (dw_i2s_write (sample_i2s_plat 4 0x10) 8 0x1000 0x4000 2 0) t = (Inr E_CTX, t)"
proof -
  have b: "buf (i2_tx_buf (ninfo (sample_i2s_mach 0) 0x1000)) = 0" by (simp add: sample_i2s_info_def null_buffer_def)
  have c: "i2s_channels (nconf (sample_i2s_mach 0) (i2s_config (ninfo (sample_i2s_mach 0) 0x1000))) = 1" by simp
  show ?thesis using i2s_interrupt_without_buffer_wedges [OF sample_i2s_ready c b, of "0x4000"] by fastforce
qed

subsection \<open>Open and close\<close>

lemma intr_off_if:
  fixes s :: "'a i2s_mach_scheme" and ch cp :: u32
  assumes c: "i2s_ctrl (ninfo s obj) = cp" "i2s_regs s obj = base" and ch: "ch \<in> {0, 1, 2, 3}"
  defines "f \<equiv> (i2s_int_status (nctrl s cp))(ch := i2s_int_status (nctrl s cp) ch AND NOT 1)"
  shows "\<exists>t. run_state (c_if b (dw_i2s_disable_dev_intr p obj ch)) s = ((), t) \<and> i2s_still base cp s t
    \<and> i2s_int_status (nctrl t cp) = (if b then f else i2s_int_status (nctrl s cp))"
proof (cases b)
  case True
  note off = dev_intr_off_still [OF c ch, folded f_def]
  have "run_state (dw_i2s_disable_dev_intr p obj ch) s = run_state (if i2_device (ninfo s obj) = I2S_DEVICE_RECEIVER
      then dw_i2s_rx_disable_interrupt p obj ch else dw_i2s_tx_disable_interrupt p obj ch) s" by (simp add: dw_i2s_disable_dev_intr_def)
  with True off show ?thesis by (cases "i2_device (ninfo s obj) = I2S_DEVICE_RECEIVER") (simp_all add: c_if_def)
qed (simp add: c_if_def)

lemma all_intr_off:
  fixes s :: "'a i2s_mach_scheme"
  assumes c: "i2s_ctrl (ninfo s obj) = cp" "i2s_regs s obj = base"
  defines "k \<equiv> i2s_channels (nconf s (i2s_config (ninfo s obj)))"
  shows "\<exists>t. run_state (dw_i2s_disable_all_channel_intr p obj) s = ((), t) \<and> i2s_still base cp s t
    \<and> (\<forall>ch \<in> {0, 1, 2, 3}. k AND push_bit ch 1 \<noteq> 0 \<longrightarrow> i2s_int_status (nctrl t cp) (of_nat ch) AND 1 = 0)"
proof -
  let ?f = "dw_i2s_disable_dev_intr p obj"
  have still: "i2s_ctrl (ninfo t obj) = cp" "i2s_regs t obj = base" if "i2s_still base cp s t" for t :: "'a i2s_mach_scheme"
    using c i2s_stillD(1,7) [OF that] by simp_all
  obtain t0 where t0: "run_state (c_if (k AND 0x1 \<noteq> 0) (?f 0)) s = ((), t0)" "i2s_still base cp s t0"
    "i2s_int_status (nctrl t0 cp) = (if k AND 0x1 \<noteq> 0 then (i2s_int_status (nctrl s cp))(0 := i2s_int_status (nctrl s cp) 0 AND NOT 1) else i2s_int_status (nctrl s cp))"
    using intr_off_if [OF c, of 0] by blast
  obtain t1 where t1: "run_state (c_if (k AND 0x2 \<noteq> 0) (?f 1)) t0 = ((), t1)" "i2s_still base cp t0 t1"
    "i2s_int_status (nctrl t1 cp) = (if k AND 0x2 \<noteq> 0 then (i2s_int_status (nctrl t0 cp))(1 := i2s_int_status (nctrl t0 cp) 1 AND NOT 1) else i2s_int_status (nctrl t0 cp))"
    using intr_off_if [OF still [OF t0(2)], of 1] by blast
  note s1 = i2s_still_trans [OF t0(2) t1(2)]
  obtain t2 where t2: "run_state (c_if (k AND 0x4 \<noteq> 0) (?f 2)) t1 = ((), t2)" "i2s_still base cp t1 t2"
    "i2s_int_status (nctrl t2 cp) = (if k AND 0x4 \<noteq> 0 then (i2s_int_status (nctrl t1 cp))(2 := i2s_int_status (nctrl t1 cp) 2 AND NOT 1) else i2s_int_status (nctrl t1 cp))"
    using intr_off_if [OF still [OF s1], of 2] by blast
  note s2 = i2s_still_trans [OF s1 t2(2)]
  obtain t3 where t3: "run_state (c_if (k AND 0x8 \<noteq> 0) (?f 3)) t2 = ((), t3)" "i2s_still base cp t2 t3"
    "i2s_int_status (nctrl t3 cp) = (if k AND 0x8 \<noteq> 0 then (i2s_int_status (nctrl t2 cp))(3 := i2s_int_status (nctrl t2 cp) 3 AND NOT 1) else i2s_int_status (nctrl t2 cp))"
    using intr_off_if [OF still [OF s2], of 3] by blast
  have "run_state (dw_i2s_disable_all_channel_intr p obj) s = ((), t3)"
    using t0(1) t1(1) t2(1) t3(1) by (simp add: dw_i2s_disable_all_channel_intr_def each_channel_def k_def)
  moreover have "k AND 0x1 \<noteq> 0 \<longrightarrow> i2s_int_status (nctrl t3 cp) 0 AND 1 = 0" "k AND 0x2 \<noteq> 0 \<longrightarrow> i2s_int_status (nctrl t3 cp) 1 AND 1 = 0"
    "k AND 0x4 \<noteq> 0 \<longrightarrow> i2s_int_status (nctrl t3 cp) 2 AND 1 = 0" "k AND 0x8 \<noteq> 0 \<longrightarrow> i2s_int_status (nctrl t3 cp) 3 AND 1 = 0"
    unfolding t3(3) t2(3) t1(3) t0(3) by (simp_all add: flag_bits(2) [simplified])
  ultimately show ?thesis using i2s_still_trans [OF s2 t3(2)] by (intro exI [of _ t3]) simp
qed

lemma last_close_run:
  fixes s :: "'a i2s_mach_scheme"
  assumes o: "obj \<noteq> 0" "i2s_ctrl (ninfo s obj) = cp" "cp \<noteq> 0" "i2_opn_cnt (ninfo s obj) = 1" "i2s_regs s obj = base"
  shows "\<exists>t. run_state (dw_i2s_close p obj) s = (Inr E_OK, t) \<and> ninfo t = (ninfo s)(obj := i2s_reset_fields 0 ((ninfo s obj)\<lparr>i2_opn_cnt := 0\<rparr>))
    \<and> mmio_last (base + I2S_IER) (hist t) AND 1 = 0
    \<and> mmio_last (base + (if i2_device (ninfo s obj) = I2S_DEVICE_RECEIVER then I2S_IRER else I2S_ITER)) (hist t) AND 1 = 0
    \<and> (\<forall>ch \<in> {0, 1, 2, 3}. i2s_channels (nconf s (i2s_config (ninfo s obj))) AND push_bit ch 1 \<noteq> 0 \<longrightarrow> i2s_int_status (nctrl t cp) (of_nat ch) AND 1 = 0)"
proof -
  let ?rx = "i2_device (ninfo s obj) = I2S_DEVICE_RECEIVER"
  let ?a = "s\<lparr>ninfo := (ninfo s)(obj := (ninfo s obj)\<lparr>i2_opn_cnt := 0\<rparr>)\<rparr>"
  let ?m = "if ?rx then do { dw_i2s_rx_block_disable p base; dw_i2s_rx_disable p base; dw_i2s_rx_flush_fifo p base }
      else do { dw_i2s_tx_block_disable p base; dw_i2s_tx_disable p base; dw_i2s_tx_flush_fifo p base }"
  define E where "E = (if ?rx then I2S_IRER else I2S_ITER)"
  define F where "F = (if ?rx then I2S_RXFFR else I2S_TXFFR)"
  obtain v0 v1 v2 w where h: "run_state ?m ?a = ((), ?a\<lparr>hist := [Mmio_wr (base + F) w, Mmio_rd (base + F) v2, Mmio_wr (base + I2S_IER) (v1 AND NOT 1),
      Mmio_rd (base + I2S_IER) v1, Mmio_wr (base + E) (v0 AND NOT 1), Mmio_rd (base + E) v0] @ hist s\<rparr>)"
    by (cases ?rx) (simp_all add: i2s_access_defs Let_def E_def F_def)
  let ?b = "?a\<lparr>hist := [Mmio_wr (base + F) w, Mmio_rd (base + F) v2, Mmio_wr (base + I2S_IER) (v1 AND NOT 1),
      Mmio_rd (base + I2S_IER) v1, Mmio_wr (base + E) (v0 AND NOT 1), Mmio_rd (base + E) v0] @ hist s\<rparr>"
  have ne: "base + F \<noteq> base + E" "base + F \<noteq> base + I2S_IER" "base + I2S_IER \<noteq> base + E" by (simp_all add: E_def F_def)
  have b: "i2s_ctrl (ninfo ?b obj) = cp" "i2s_regs ?b obj = base" using o by (simp_all add: i2s_regs_def)
  from all_intr_off [OF b] obtain t where t: "run_state (dw_i2s_disable_all_channel_intr p obj) ?b = ((), t)" "i2s_still base cp ?b t"
    "\<forall>ch \<in> {0, 1, 2, 3}. i2s_channels (nconf ?b (i2s_config (ninfo ?b obj))) AND push_bit ch 1 \<noteq> 0 \<longrightarrow> i2s_int_status (nctrl t cp) (of_nat ch) AND 1 = 0"
    by blast
  let ?t = "t\<lparr>ninfo := (ninfo t)(obj := i2s_reset_fields 0 (ninfo t obj))\<rparr>"
  have ra: "i2s_regs ?a obj = base" using o(5) by (simp add: i2s_regs_def)
  have "run_state (i2s_quiet p obj) ?a = run_state (do { ?m; dw_i2s_disable_all_channel_intr p obj }) ?a"
    using ra by (simp add: i2s_quiet_def)
  also have "\<dots> = ((), t)" using h t(1) by simp
  finally have q: "run_state (i2s_quiet p obj) ?a = ((), t)" .
  have "run_state (dw_i2s_close p obj) s = (Inr E_OK, ?t)" using o q by (simp add: dw_i2s_close_def)
  moreover have "ninfo ?t = (ninfo s)(obj := i2s_reset_fields 0 ((ninfo s obj)\<lparr>i2_opn_cnt := 0\<rparr>))" using i2s_stillD(1) [OF t(2)] by simp
  moreover have "mmio_last (base + I2S_IER) (hist ?t) AND 1 = 0" "mmio_last (base + E) (hist ?t) AND 1 = 0"
  proof -
    have "E \<in> {I2S_IER, I2S_IRER, I2S_ITER}" by (simp add: E_def)
    from i2s_stillD(9) [OF t(2) this] i2s_stillD(9) [OF t(2), of I2S_IER] ne
    have "mmio_last (base + E) (hist t) = v0 AND NOT 1" "mmio_last (base + I2S_IER) (hist t) = v1 AND NOT 1" by simp_all
    then show "mmio_last (base + I2S_IER) (hist ?t) AND 1 = 0" "mmio_last (base + E) (hist ?t) AND 1 = 0" using flag_bits(2) by simp_all
  qed
  ultimately show ?thesis using t(3) unfolding E_def by (intro exI [of _ ?t]) simp
qed

text \<open>
  C27: on a device that is open once, supports both modes and has the FIFO depth its build says, a second \<open>dw_i2s_open\<close> with valid arguments answers \<open>E_OPNED\<close> and changes nothing of the driver's state,
  its count of opens included, so that one \<open>dw_i2s_close\<close> after it is the last: it answers \<open>E_OK\<close>, resets the device (count 0, disabled,
  no callback, no buffer), and leaves the device and its block disabled and the interrupt of every supported channel off.
\<close>

theorem i2s_second_open_not_counted:
  fixes s :: "'a i2s_mach_scheme"
  assumes o: "obj \<noteq> 0" "i2s_ctrl (ninfo s obj) = cp" "cp \<noteq> 0" "i2_opn_cnt (ninfo s obj) = 1" "i2s_regs s obj = base"
    and arg: "param = i2_device (ninfo s obj)" "param \<in> {I2S_DEVICE_TRANSMITTER, I2S_DEVICE_RECEIVER}" "mode \<in> {I2S_MASTER_MODE, I2S_SLAVE_MODE}"
    and k: "k = nconf s (i2s_config (ninfo s obj))" "i2s_support_modes k = DW_I2S_MASTER_SUPPORTED OR DW_I2S_SLAVE_SUPPORTED"
    and len: "\<And>h. i2s_fifo_depth (mmio_in p h (base + I2S_COMP_PARAM_1)) = i2s_fifo_len k"
  shows "\<exists>u t. run_state (dw_i2s_open p obj mode param) s = (Inr E_OPNED, u) \<and> i2s_still base cp s u
    \<and> run_state (dw_i2s_close p obj) u = (Inr E_OK, t) \<and> ninfo t = (ninfo s)(obj := i2s_reset_fields 0 ((ninfo s obj)\<lparr>i2_opn_cnt := 0\<rparr>))
    \<and> mmio_last (base + I2S_IER) (hist t) AND 1 = 0 \<and> mmio_last (base + (if param = I2S_DEVICE_RECEIVER then I2S_IRER else I2S_ITER)) (hist t) AND 1 = 0
    \<and> (\<forall>ch \<in> {0, 1, 2, 3}. i2s_channels k AND push_bit ch 1 \<noteq> 0 \<longrightarrow> i2s_int_status (nctrl t cp) (of_nat ch) AND 1 = 0)"
proof -
  let ?u = "s\<lparr>hist := [Mmio_rd (base + I2S_COMP_PARAM_1) (mmio_in p (hist s) (base + I2S_COMP_PARAM_1))] @ hist s\<rparr>"
  have "run_state (dw_i2s_open p obj mode param) s = (Inr E_OPNED, ?u)"
    using o arg k len by (auto simp: dw_i2s_open_def dw_i2s_rx_get_fifo_len_def dw_i2s_tx_get_fifo_len_def)
  moreover have "i2s_still base cp s ?u" by (rule i2s_still_hist) (simp add: i2s_apart_def)
  moreover have "i2s_ctrl (ninfo ?u obj) = cp" "i2_opn_cnt (ninfo ?u obj) = 1" "i2s_regs ?u obj = base" using o by (simp_all add: i2s_regs_def)
  ultimately show ?thesis using last_close_run [where s = ?u and p = p, OF o(1) _ o(3)] arg(1) k(1) by simp
qed

lemma i2s_second_open_not_counted_witness:
  "\<exists>u t. run_state (dw_i2s_open (sample_i2s_plat 4 0 \<lparr>mmio_in := \<lambda>_ _. 0xC\<rparr>) 0x1000 0 0) (sample_i2s_mach 0) = (Inr E_OPNED, u)
    \<and> run_state (dw_i2s_close (sample_i2s_plat 4 0 \<lparr>mmio_in := \<lambda>_ _. 0xC\<rparr>) 0x1000) u = (Inr E_OK, t) \<and> i2_opn_cnt (ninfo t 0x1000) = 0"
proof -
  have d: "i2s_fifo_depth 0xC = 16" by (simp add: i2s_fifo_depth_def drop_bit_eq_div)
  have "0xF0009000 = i2s_regs (sample_i2s_mach 0) 0x1000" by simp
  with i2s_second_open_not_counted [of "0x1000" "sample_i2s_mach 0" "0x2000" "0xF0009000" 0 0 sample_i2s_conf "sample_i2s_plat 4 0 \<lparr>mmio_in := \<lambda>_ _. 0xC\<rparr>"] d
  show ?thesis by (fastforce simp: i2s_reset_fields_def)
qed

end
