(* ===== verification/ArcUdma.thy ===== *)
theory ArcUdma
  imports ArcException
begin

section \<open>Micro DMA controller (arc_udma.h, arc_udma.c)\<close>

text \<open>
  The build constants are the record \<open>udma_cfg\<close>, so that every preprocessor branch is modelled.
  Descriptors (\<open>DMA_DESC_T\<close>), channel structures (\<open>DMA_CHANNEL_T\<close>) and the table \<open>dma_chns\<close> of a
  \<open>DMA_STATE_T\<close> live in typed heaps indexed by their addresses; the structures the controller
  itself reads, \<open>mem_dma_ptrs\<close> or \<open>mem_dma_descs\<close>, come first in \<open>DMA_STATE_T\<close> and are
  bytes of \<open>mem\<close> from the address of the state on. The code assumes at most 16 channels, as its masks do.
  Reading the table entry of a channel nobody reserved and following it is undefined.
\<close>

subsection \<open>Registers and fields\<close>

abbreviation (input) AUX_DMACTRL :: u32 where "AUX_DMACTRL \<equiv> 0x680"
abbreviation (input) AUX_DMACENB :: u32 where "AUX_DMACENB \<equiv> 0x681"
abbreviation (input) AUX_DMACDSB :: u32 where "AUX_DMACDSB \<equiv> 0x682"
abbreviation (input) AUX_DMACHPRI :: u32 where "AUX_DMACHPRI \<equiv> 0x683"
abbreviation (input) AUX_DMACNPRI :: u32 where "AUX_DMACNPRI \<equiv> 0x684"
abbreviation (input) AUX_DMACREQ :: u32 where "AUX_DMACREQ \<equiv> 0x685"
abbreviation (input) AUX_DMACSTAT0 :: u32 where "AUX_DMACSTAT0 \<equiv> 0x686"
abbreviation (input) AUX_DMACSTAT1 :: u32 where "AUX_DMACSTAT1 \<equiv> 0x687"
abbreviation (input) AUX_DMACIRQ :: u32 where "AUX_DMACIRQ \<equiv> 0x688"
abbreviation (input) AUX_DMACBASE :: u32 where "AUX_DMACBASE \<equiv> 0x689"
abbreviation (input) AUX_DMACRST :: u32 where "AUX_DMACRST \<equiv> 0x68A"
abbreviation (input) AUX_DMACTRL0 :: u32 where "AUX_DMACTRL0 \<equiv> 0x690"
abbreviation (input) AUX_DMASAR0 :: u32 where "AUX_DMASAR0 \<equiv> 0x691"
abbreviation (input) AUX_DMADAR0 :: u32 where "AUX_DMADAR0 \<equiv> 0x692"

abbreviation (input) DMA_ALL_CHANNEL_MASK :: u32 where "DMA_ALL_CHANNEL_MASK \<equiv> 0xFFFF"
abbreviation (input) DMACTRLx_OP_MASK :: u32 where "DMACTRLx_OP_MASK \<equiv> 0x3"
abbreviation (input) DMACTRLx_DWINC_MASK :: u32 where "DMACTRLx_DWINC_MASK \<equiv> 0xE0"
abbreviation (input) DMACTRLx_SIZE_MASK :: u32 where "DMACTRLx_SIZE_MASK \<equiv> 0x1FFF00"
abbreviation (input) DMACTRLx_INT_MASK :: u32 where "DMACTRLx_INT_MASK \<equiv> 0x20000000"

definition DMACTRLx_OP :: "u32 \<Rightarrow> u32" where "DMACTRLx_OP x = x"
definition DMACTRLx_DTT :: "u32 \<Rightarrow> u32" where "DMACTRLx_DTT x = push_bit 3 x"
definition DMACTRLx_SIZE :: "u32 \<Rightarrow> u32" where "DMACTRLx_SIZE x = push_bit 8 x"
definition DMACTRLx_INT :: "u32 \<Rightarrow> u32" where "DMACTRLx_INT x = push_bit 29 x"
definition DMACTRLx_AM :: "u32 \<Rightarrow> u32" where "DMACTRLx_AM x = push_bit 30 x"

text \<open>For \<open>x < 32\<close>.\<close>

definition DMACHANNEL :: "u32 \<Rightarrow> u32" where
  "DMACHANNEL x = push_bit (unat x) 1 AND 0xFFFF"

abbreviation (input) DMA_IDLE :: u32 where "DMA_IDLE \<equiv> 0"
abbreviation (input) DMA_BUSY :: u32 where "DMA_BUSY \<equiv> 1"
abbreviation (input) DMA_ERROR :: u32 where "DMA_ERROR \<equiv> 2"
abbreviation (input) DMA_STOP :: u32 where "DMA_STOP \<equiv> 3"
abbreviation (input) DMA_CHN_ANY :: s32 where "DMA_CHN_ANY \<equiv> - 1"
abbreviation (input) DMA_CHN_INVALID :: s32 where "DMA_CHN_INVALID \<equiv> - 2"
abbreviation (input) DMA_REQ_SOFT :: u32 where "DMA_REQ_SOFT \<equiv> 0"
abbreviation (input) DMA_SINGLE_TRANSFER :: u32 where "DMA_SINGLE_TRANSFER \<equiv> 1"
abbreviation (input) DMA_AUTO_LINKED_TRANSFER :: u32 where "DMA_AUTO_LINKED_TRANSFER \<equiv> 2"
abbreviation (input) DMA_MANUAL_LINKED_TRANSFER :: u32 where "DMA_MANUAL_LINKED_TRANSFER \<equiv> 3"
abbreviation (input) DMA_DW1INC2 :: u32 where "DMA_DW1INC2 \<equiv> 1"
abbreviation (input) DMA_DW1INC4 :: u32 where "DMA_DW1INC4 \<equiv> 2"
abbreviation (input) DMA_DW2INC2 :: u32 where "DMA_DW2INC2 \<equiv> 3"
abbreviation (input) DMA_DW2INC4 :: u32 where "DMA_DW2INC4 \<equiv> 4"
abbreviation (input) DMA_DW4INC4 :: u32 where "DMA_DW4INC4 \<equiv> 5"
abbreviation (input) DMA_DW8INC8 :: u32 where "DMA_DW8INC8 \<equiv> 7"
abbreviation (input) DMA_INT_DISABLE :: u16 where "DMA_INT_DISABLE \<equiv> 0"
abbreviation (input) DMA_INT_ENABLE :: u16 where "DMA_INT_ENABLE \<equiv> 1"
abbreviation (input) DMA_CHN_HIGH_PRIO :: u32 where "DMA_CHN_HIGH_PRIO \<equiv> 1"

subsection \<open>Objects\<close>

record dma_desc =
  DMACTRLx :: u32
  DMASARx :: u32
  DMADARx :: u32
  DMALLPx :: u32

record dma_channel =
  chn_channel :: s32
  chn_priority :: u16
  chn_int_en :: u16
  chn_source :: u32
  chn_desc :: u32
  chn_status :: u32
  chn_callback :: u32

text \<open>
  \<open>CORE_DMAC_INTERNAL_VERSION\<close>, \<open>DMA_MULTI_IRQ\<close>, \<open>DMA_ALL_CHANNEL_NUM\<close>, \<open>DMA_REGISTER_CHANNEL_NUM\<close>,
  \<open>DMA_IRQ_NUM_START\<close>, \<open>ARC_FEATURE_DCACHE_PRESENT\<close>, and the addresses of the two handlers.
\<close>

record udma_cfg =
  dmac_version :: nat
  multi_irq :: bool
  all_channel_num :: u32
  register_channel_num :: u32
  irq_num_start :: u32
  has_dcache :: bool
  completed_handler :: u32
  error_handler :: u32

record udma_mach = cache_mach +
  g_dmac :: u32
  udesc :: "u32 \<Rightarrow> dma_desc"
  uchn :: "u32 \<Rightarrow> dma_channel"
  dma_chns :: "u32 \<Rightarrow> u32 \<Rightarrow> u32"

type_synonym ('a, 'r) uop = "('a udma_mach_scheme, 'r) state"
type_synonym 'a dma_callback = "u32 \<Rightarrow> u32 \<Rightarrow> ('a udma_mach_scheme, unit) state"

definition get_desc :: "u32 \<Rightarrow> ('a, dma_desc) uop" where
  "get_desc d = do { s \<leftarrow> State_Monad.get; State_Monad.return (udesc s d) }"

definition upd_desc :: "u32 \<Rightarrow> (dma_desc \<Rightarrow> dma_desc) \<Rightarrow> ('a, unit) uop" where
  "upd_desc d f = State_Monad.update (\<lambda>s. s\<lparr>udesc := (udesc s)(d := f (udesc s d))\<rparr>)"

definition get_chn :: "u32 \<Rightarrow> ('a, dma_channel) uop" where
  "get_chn c = do { s \<leftarrow> State_Monad.get; State_Monad.return (uchn s c) }"

definition upd_chn :: "u32 \<Rightarrow> (dma_channel \<Rightarrow> dma_channel) \<Rightarrow> ('a, unit) uop" where
  "upd_chn c f = State_Monad.update (\<lambda>s. s\<lparr>uchn := (uchn s)(c := f (uchn s c))\<rparr>)"

text \<open>\<open>g_dmac->dma_chns[i]\<close>\<close>

definition get_slot :: "u32 \<Rightarrow> ('a, u32) uop" where
  "get_slot i = do { s \<leftarrow> State_Monad.get; State_Monad.return (dma_chns s (g_dmac s) i) }"

definition set_slot :: "u32 \<Rightarrow> u32 \<Rightarrow> ('a, unit) uop" where
  "set_slot i c = State_Monad.update
     (\<lambda>s. s\<lparr>dma_chns := (dma_chns s)(g_dmac s := (dma_chns s (g_dmac s))(i := c))\<rparr>)"

lemma run_udma_heap [simp]:
  "run_state (get_desc d) s = (udesc s d, s)"
  "run_state (upd_desc d f) s = ((), s\<lparr>udesc := (udesc s)(d := f (udesc s d))\<rparr>)"
  "run_state (get_chn c) s = (uchn s c, s)"
  "run_state (upd_chn c g) s = ((), s\<lparr>uchn := (uchn s)(c := g (uchn s c))\<rparr>)"
  "run_state (get_slot i) s = (dma_chns s (g_dmac s) i, s)"
  "run_state (set_slot i v) s = ((), s\<lparr>dma_chns := (dma_chns s)(g_dmac s := (dma_chns s (g_dmac s))(i := v))\<rparr>)"
  by (simp_all add: get_desc_def upd_desc_def get_chn_def upd_chn_def get_slot_def set_slot_def)

lemma wp_udma_heap [wp_rules]:
  "wp (get_desc d) Q1 s = Q1 (udesc s d) s"
  "wp (upd_desc d f) R s = R () (s\<lparr>udesc := (udesc s)(d := f (udesc s d))\<rparr>)"
  "wp (get_chn c) Q2 s = Q2 (uchn s c) s"
  "wp (upd_chn c g) R s = R () (s\<lparr>uchn := (uchn s)(c := g (uchn s c))\<rparr>)"
  "wp (get_slot i) Q3 s = Q3 (dma_chns s (g_dmac s) i) s"
  "wp (set_slot i v) R s = R () (s\<lparr>dma_chns := (dma_chns s)(g_dmac s := (dma_chns s (g_dmac s))(i := v))\<rparr>)"
  by (simp_all add: wp_def)

text \<open>\<open>DMA_MEMORY_CHANNEL_NUM\<close>, \<open>DMA_MEMORY_HEADER\<close>, \<open>DMA_CHECK_REGISTER\<close> and the interrupt vectors.\<close>

definition memory_channel_num :: "udma_cfg \<Rightarrow> u32" where
  "memory_channel_num k = all_channel_num k - register_channel_num k"

definition memory_header :: "udma_cfg \<Rightarrow> bool" where
  "memory_header k \<longleftrightarrow> dmac_version k = 1 \<and> 0 <s memory_channel_num k"

definition DMA_CHECK_REGISTER :: "udma_cfg \<Rightarrow> u32 \<Rightarrow> bool" where
  "DMA_CHECK_REGISTER k channel \<longleftrightarrow> channel \<ge> memory_channel_num k"

definition DMA_INT_OK_VECTOR :: "udma_cfg \<Rightarrow> u32 \<Rightarrow> u32" where
  "DMA_INT_OK_VECTOR k channel = channel + irq_num_start k"

definition DMA_INT_ERR_VECTOR :: "udma_cfg \<Rightarrow> u32 \<Rightarrow> u32" where
  "DMA_INT_ERR_VECTOR k channel = (if multi_irq k then channel + irq_num_start k + all_channel_num k else channel + irq_num_start k + 1)"

subsection \<open>Register access\<close>

definition dmac_enable :: "udma_cfg \<Rightarrow> ('a, unit) uop" where
  "dmac_enable k = do {
     s \<leftarrow> State_Monad.get;
     arc_aux_write AUX_DMACTRL 1;
     c_if (memory_header k) (arc_aux_write AUX_DMACBASE (g_dmac s));
     c_if (dmac_version k > 1) (arc_aux_write AUX_DMACBASE (g_dmac s))
   }"

definition dmac_disable :: "('a, unit) op" where
  "dmac_disable = arc_aux_write AUX_DMACTRL 0"

definition dmac_enable_channel :: "u32 \<Rightarrow> ('a, unit) op" where
  "dmac_enable_channel channel = arc_aux_write AUX_DMACENB (DMACHANNEL channel)"

definition dmac_enable_channels :: "u32 \<Rightarrow> ('a, unit) op" where
  "dmac_enable_channels m = arc_aux_write AUX_DMACENB m"

definition dmac_enable_all_channels :: "('a, unit) op" where
  "dmac_enable_all_channels = arc_aux_write AUX_DMACENB DMA_ALL_CHANNEL_MASK"

definition dmac_disable_channel :: "u32 \<Rightarrow> ('a, unit) op" where
  "dmac_disable_channel channel = arc_aux_write AUX_DMACDSB (DMACHANNEL channel)"

definition dmac_disable_channels :: "u32 \<Rightarrow> ('a, unit) op" where
  "dmac_disable_channels m = arc_aux_write AUX_DMACDSB m"

definition dmac_disable_all_channels :: "('a, unit) op" where
  "dmac_disable_all_channels = arc_aux_write AUX_DMACDSB DMA_ALL_CHANNEL_MASK"

definition dmac_reset_channel :: "u32 \<Rightarrow> ('a, unit) op" where
  "dmac_reset_channel channel = arc_aux_write AUX_DMACRST (DMACHANNEL channel)"

definition dmac_reset_channels :: "u32 \<Rightarrow> ('a, unit) op" where
  "dmac_reset_channels m = arc_aux_write AUX_DMACRST m"

definition dmac_reset_all_channels :: "('a, unit) op" where
  "dmac_reset_all_channels = arc_aux_write AUX_DMACRST DMA_ALL_CHANNEL_MASK"

definition dmac_reset_status :: "plat \<Rightarrow> ('a, u32) op" where
  "dmac_reset_status p = arc_aux_read p AUX_DMACRST"

definition dmac_set_high_pri_channels :: "u32 \<Rightarrow> ('a, unit) op" where
  "dmac_set_high_pri_channels m = arc_aux_write AUX_DMACHPRI m"

definition dmac_set_normal_pri_channels :: "u32 \<Rightarrow> ('a, unit) op" where
  "dmac_set_normal_pri_channels m = arc_aux_write AUX_DMACNPRI m"

definition dmac_start_trigger :: "u32 \<Rightarrow> ('a, unit) op" where
  "dmac_start_trigger channel = arc_aux_write AUX_DMACREQ (DMACHANNEL channel)"

definition dmac_start_trigger_mask :: "u32 \<Rightarrow> ('a, unit) op" where
  "dmac_start_trigger_mask m = arc_aux_write AUX_DMACREQ m"

definition dmac_irq_clear :: "u32 \<Rightarrow> ('a, unit) op" where
  "dmac_irq_clear channel = arc_aux_write AUX_DMACIRQ (DMACHANNEL channel)"

definition dmac_irq_clear_all :: "('a, unit) op" where
  "dmac_irq_clear_all = arc_aux_write AUX_DMACIRQ DMA_ALL_CHANNEL_MASK"

definition dmac_irq_status :: "plat \<Rightarrow> ('a, u32) op" where
  "dmac_irq_status p = arc_aux_read p AUX_DMACIRQ"

definition dmac_channel_status :: "plat \<Rightarrow> ('a, u32) op" where
  "dmac_channel_status p = arc_aux_read p AUX_DMACSTAT0"

definition dmac_complete_status :: "plat \<Rightarrow> ('a, u32) op" where
  "dmac_complete_status p = arc_aux_read p AUX_DMACSTAT1"

definition dmac_clear_error :: "u32 \<Rightarrow> ('a, unit) op" where
  "dmac_clear_error channel = arc_aux_write AUX_DMACSTAT1 (push_bit 16 (DMACHANNEL channel))"

definition dmac_clear_all_error :: "('a, unit) op" where
  "dmac_clear_all_error = arc_aux_write AUX_DMACSTAT1 0xFFFF0000"

lemmas dmac_access_defs = dmac_disable_def dmac_enable_channel_def dmac_enable_channels_def dmac_enable_all_channels_def
  dmac_disable_channel_def dmac_disable_channels_def dmac_disable_all_channels_def dmac_reset_channel_def dmac_reset_channels_def
  dmac_reset_all_channels_def dmac_reset_status_def dmac_set_high_pri_channels_def dmac_set_normal_pri_channels_def
  dmac_start_trigger_def dmac_start_trigger_mask_def dmac_irq_clear_def dmac_irq_clear_all_def dmac_irq_status_def
  dmac_channel_status_def dmac_complete_status_def dmac_clear_error_def dmac_clear_all_error_def

definition dmac_wait_channel_status :: "plat \<Rightarrow> u32 \<Rightarrow> ('a, u32) op" where
  "dmac_wait_channel_status p channel = do {
     status \<leftarrow> arc_aux_read p AUX_DMACSTAT1;
     let m = DMACHANNEL channel;
     if status AND m \<noteq> 0 then
       if status AND push_bit 16 m \<noteq> 0 then State_Monad.return DMA_ERROR
       else do {
         status \<leftarrow> arc_aux_read p AUX_DMACSTAT0;
         State_Monad.return (if status AND m \<noteq> 0 then DMA_BUSY else DMA_IDLE)
       }
     else State_Monad.return DMA_BUSY
   }"

definition dmac_wait_mask :: "plat \<Rightarrow> u32 \<Rightarrow> ('a, u32) op" where
  "dmac_wait_mask p m = do {
     status \<leftarrow> arc_aux_read p AUX_DMACSTAT1;
     State_Monad.return (if status AND m \<noteq> 0 then if status AND push_bit 16 m \<noteq> 0 then DMA_ERROR else DMA_IDLE else DMA_BUSY)
   }"

subsection \<open>Descriptors\<close>

definition dmac_memory_addr_gap :: "u32 \<Rightarrow> u32" where
  "dmac_memory_addr_gap dmac_mode = (
     let sz = drop_bit 8 (dmac_mode AND DMACTRLx_SIZE_MASK); dwinc = drop_bit 5 (dmac_mode AND DMACTRLx_DWINC_MASK) in
     if dwinc = DMA_DW1INC2 then push_bit 1 sz
     else if dwinc = DMA_DW1INC4 then push_bit 2 sz
     else if dwinc = DMA_DW2INC2 then sz AND NOT 0x1
     else if dwinc = DMA_DW2INC4 then push_bit 1 (sz AND NOT 0x1)
     else if dwinc = DMA_DW4INC4 then sz AND NOT 0x3
     else if dwinc = DMA_DW8INC8 then sz AND NOT 0x7
     else sz)"

definition dmac_aux_addr_gap :: "u32 \<Rightarrow> u32" where
  "dmac_aux_addr_gap dmac_mode = (
     let sz = drop_bit 8 (dmac_mode AND DMACTRLx_SIZE_MASK); dwinc = drop_bit 5 (dmac_mode AND DMACTRLx_DWINC_MASK) in
     if dwinc = DMA_DW2INC2 \<or> dwinc = DMA_DW2INC4 then drop_bit 1 sz
     else if dwinc = DMA_DW4INC4 \<or> dwinc = DMA_DW8INC8 then drop_bit 2 sz
     else sz)"

definition dmac_calc_dst_endaddr :: "u32 \<Rightarrow> u32 \<Rightarrow> u32" where
  "dmac_calc_dst_endaddr dst_addr dmac_mode = (
     if dmac_mode AND DMACTRLx_AM 2 = 0 then dst_addr
     else if DMACTRLx_DTT 0x1 AND dmac_mode \<noteq> 0 then dst_addr + dmac_aux_addr_gap dmac_mode
     else dst_addr + dmac_memory_addr_gap dmac_mode)"

definition dmac_calc_src_endaddr :: "u32 \<Rightarrow> u32 \<Rightarrow> u32" where
  "dmac_calc_src_endaddr src_addr dmac_mode = (
     if dmac_mode AND DMACTRLx_AM 1 = 0 then src_addr
     else if DMACTRLx_DTT 0x2 AND dmac_mode \<noteq> 0 then src_addr + dmac_aux_addr_gap dmac_mode
     else src_addr + dmac_memory_addr_gap dmac_mode)"

definition dmac_set_desc :: "u32 \<Rightarrow> u32 \<Rightarrow> u32 \<Rightarrow> u32 \<Rightarrow> u32 \<Rightarrow> ('a, unit) uop" where
  "dmac_set_desc desc source dest sz dmac_mode = (
     let sz = sz - 1;
         dmac_mode = (dmac_mode AND NOT DMACTRLx_SIZE_MASK) OR DMACTRLx_SIZE sz
     in upd_desc desc (\<lambda>_. \<lparr>DMACTRLx = dmac_mode, DMASARx = dmac_calc_src_endaddr source dmac_mode,
          DMADARx = dmac_calc_dst_endaddr dest dmac_mode, DMALLPx = 0\<rparr>))"

text \<open>\<open>DCACHE_FLUSH_MLINES\<close>, whose result is dropped.\<close>

definition DCACHE_FLUSH_MLINES :: "plat \<Rightarrow> nat \<Rightarrow> udma_cfg \<Rightarrow> u32 \<Rightarrow> u32 \<Rightarrow> ('a, unit res) cop" where
  "DCACHE_FLUSH_MLINES p fuel k addr sz =
     (if has_dcache k then bindE (dcache_flush_mlines p fuel addr sz) (\<lambda>_. retE ()) else retE ())"

definition dmac_fill_descriptor :: "plat \<Rightarrow> nat \<Rightarrow> udma_cfg \<Rightarrow> u32 \<Rightarrow> u32 \<Rightarrow> ('a, unit res) uop" where
  "dmac_fill_descriptor p fuel k channel desc = do {
     d \<leftarrow> get_desc desc;
     if DMA_CHECK_REGISTER k channel then
       let channel_shift = 3 * channel in
       bindE (liftE (do {
         arc_aux_write (AUX_DMACTRL0 + channel_shift) (DMACTRLx d);
         arc_aux_write (AUX_DMASAR0 + channel_shift) (DMASARx d);
         arc_aux_write (AUX_DMADAR0 + channel_shift) (DMADARx d)
       })) (\<lambda>_.
       if dmac_version k > 1 then
         bindE (liftE (arc_aux_read p AUX_DMACBASE)) (\<lambda>dma_llps.
         bindE (liftE (st32 (dma_llps + 4 * channel) (DMALLPx d))) (\<lambda>_.
         DCACHE_FLUSH_MLINES p fuel k (dma_llps + 4 * channel) 4))
       else retE ())
     else if dmac_version k > 1 then
       bindE (liftE (arc_aux_read p AUX_DMACBASE)) (\<lambda>dma_ptrs.
       bindE (liftE (st32 (dma_ptrs + 4 * channel) desc)) (\<lambda>_.
       DCACHE_FLUSH_MLINES p fuel k (dma_ptrs + 4 * channel) 4))
     else
       bindE (liftE (arc_aux_read p AUX_DMACBASE)) (\<lambda>dmac_desc.
       let dmac_desc = dmac_desc + 16 * channel in
       bindE (liftE (do {
         st32 dmac_desc (DMACTRLx d);
         st32 (dmac_desc + 4) (DMASARx d);
         st32 (dmac_desc + 8) (DMADARx d);
         st32 (dmac_desc + 12) (DMALLPx d)
       })) (\<lambda>_.
       DCACHE_FLUSH_MLINES p fuel k dmac_desc 16))
   }"

text \<open>The chain of descriptors is walked until its null link; \<open>n\<close> descriptors at most.\<close>

primrec dmac_process_desc :: "nat \<Rightarrow> plat \<Rightarrow> nat \<Rightarrow> udma_cfg \<Rightarrow> u32 \<Rightarrow> u32 \<Rightarrow> ('a, unit res) uop" where
  "dmac_process_desc 0 p fuel k desc ienable = stopE Hang"
| "dmac_process_desc (Suc n) p fuel k desc ienable =
     bindE (liftE (do {
       d \<leftarrow> get_desc desc;
       (if DMALLPx d \<noteq> 0 then
          c_if (DMACTRLx d AND DMACTRLx_OP_MASK \<noteq> DMA_MANUAL_LINKED_TRANSFER)
            (upd_desc desc (\<lambda>d. d\<lparr>DMACTRLx := (DMACTRLx d AND NOT DMACTRLx_OP_MASK) OR DMACTRLx_OP DMA_AUTO_LINKED_TRANSFER\<rparr>))
        else
          upd_desc desc (\<lambda>d. d\<lparr>DMACTRLx := (((DMACTRLx d AND NOT DMACTRLx_OP_MASK) OR DMACTRLx_OP DMA_SINGLE_TRANSFER)
            AND NOT DMACTRLx_INT_MASK) OR DMACTRLx_INT ienable\<rparr>))
     })) (\<lambda>_.
     bindE (DCACHE_FLUSH_MLINES p fuel k desc 16) (\<lambda>_.
     bindE (liftE (get_desc desc)) (\<lambda>d.
     if DMALLPx d \<noteq> 0 then dmac_process_desc n p fuel k (DMALLPx d) ienable else retE ())))"

definition dmac_valid_channel :: "udma_cfg \<Rightarrow> u32 \<Rightarrow> u32 \<Rightarrow> ('a, s32) uop" where
  "dmac_valid_channel k channel desc = do {
     d \<leftarrow> get_desc desc;
     State_Monad.return (if dmac_version k = 1 \<and> DMA_CHECK_REGISTER k channel \<and> DMALLPx d \<noteq> 0 then - 1 else 0)
   }"

subsection \<open>Interrupts\<close>

text \<open>The end of a transfer of a channel; an entry nobody reserved is followed all the same.\<close>

definition dma_finish_channel :: "'a dma_callback \<Rightarrow> udma_cfg \<Rightarrow> u32 \<Rightarrow> u32 \<Rightarrow> ('a, unit res) uop" where
  "dma_finish_channel cb k channel st = do {
     dma_chn \<leftarrow> get_slot channel;
     if channel \<ge> all_channel_num k then retE ()
     else if dma_chn = 0 then stopE Undef
     else liftE (do {
       upd_chn dma_chn (\<lambda>c. c\<lparr>chn_status := st\<rparr>);
       c \<leftarrow> get_chn dma_chn;
       c_if (chn_callback c \<noteq> 0) (cb (chn_callback c) dma_chn)
     })
   }"

definition dmac_interrupt_completed_channel :: "'a dma_callback \<Rightarrow> udma_cfg \<Rightarrow> u32 \<Rightarrow> ('a, unit res) uop" where
  "dmac_interrupt_completed_channel cb k channel = (
     if channel \<ge> 32 then stopE Undef
     else bindE (liftE (do { dmac_irq_clear channel; dmac_disable_channel channel }))
       (\<lambda>_. dma_finish_channel cb k channel DMA_IDLE))"

definition dmac_interrupt_error_channel :: "'a dma_callback \<Rightarrow> udma_cfg \<Rightarrow> u32 \<Rightarrow> ('a, unit res) uop" where
  "dmac_interrupt_error_channel cb k channel = (
     if channel \<ge> 32 then stopE Undef
     else bindE (liftE (do { dmac_irq_clear channel; dmac_clear_error channel; dmac_disable_channel channel }))
       (\<lambda>_. dma_finish_channel cb k channel DMA_ERROR))"

text \<open>The loop of the single-interrupt handlers, from \<open>channel\<close> on with \<open>n\<close> channels to go.\<close>

primrec status_loop :: "nat \<Rightarrow> (u32 \<Rightarrow> ('a, unit res) uop) \<Rightarrow> u32 \<Rightarrow> u32 \<Rightarrow> ('a, unit res) uop" where
  "status_loop 0 serve status channel = retE ()"
| "status_loop (Suc n) serve status channel =
     bindE (c_ifE (status AND 0x1 \<noteq> 0) (serve channel)) (\<lambda>_. status_loop n serve (drop_bit 1 status) (channel + 1))"

definition dmac_interrupt_completed :: "plat \<Rightarrow> 'a dma_callback \<Rightarrow> udma_cfg \<Rightarrow> ('a, unit res) uop" where
  "dmac_interrupt_completed p cb k = (
     if multi_irq k then
       bindE (liftE (arc_aux_read p AUX_IRQ_CAUSE)) (\<lambda>cause. dmac_interrupt_completed_channel cb k (cause - irq_num_start k))
     else
       bindE (liftE (dmac_complete_status p)) (\<lambda>status.
       status_loop (unat (all_channel_num k)) (dmac_interrupt_completed_channel cb k) status 0))"

definition dmac_interrupt_error :: "plat \<Rightarrow> 'a dma_callback \<Rightarrow> udma_cfg \<Rightarrow> ('a, unit res) uop" where
  "dmac_interrupt_error p cb k = (
     if multi_irq k then
       bindE (liftE (arc_aux_read p AUX_IRQ_CAUSE)) (\<lambda>cause.
       dmac_interrupt_error_channel cb k (cause - irq_num_start k - all_channel_num k))
     else
       bindE (liftE (dmac_complete_status p)) (\<lambda>status.
       status_loop (unat (all_channel_num k)) (dmac_interrupt_error_channel cb k) (drop_bit 16 status) 0))"

subsection \<open>Controller\<close>

text \<open>The four calls for one vector of \<open>dmac_init\<close>; their results are dropped.\<close>

definition dma_install :: "plat \<Rightarrow> u32 \<Rightarrow> u32 \<Rightarrow> ('a, unit) op" where
  "dma_install p vector handler = do {
     _ \<leftarrow> int_level_config p vector 0;
     _ \<leftarrow> int_enable p vector;
     _ \<leftarrow> int_handler_install p vector handler;
     _ \<leftarrow> int_pri_set p vector (int_pri_min p);
     State_Monad.return ()
   }"

definition dma_install_channel :: "plat \<Rightarrow> udma_cfg \<Rightarrow> u32 \<Rightarrow> ('a, unit) op" where
  "dma_install_channel p k i = do {
     dma_install p (DMA_INT_OK_VECTOR k i) (completed_handler k);
     dma_install p (DMA_INT_ERR_VECTOR k i) (error_handler k)
   }"

primrec dma_install_loop :: "nat \<Rightarrow> plat \<Rightarrow> udma_cfg \<Rightarrow> u32 \<Rightarrow> ('a, unit) op" where
  "dma_install_loop 0 p k i = State_Monad.return ()"
| "dma_install_loop (Suc n) p k i = do { dma_install_channel p k i; dma_install_loop n p k (i + 1) }"

text \<open>The bytes of \<open>mem\<close> a state begins with, cleared by \<open>memset\<close> with its table.\<close>

definition state_bytes :: "udma_cfg \<Rightarrow> nat" where
  "state_bytes k = (if dmac_version k > 1 then 4 * unat (all_channel_num k)
     else if memory_header k then 16 * unat (memory_channel_num k) else 0)"

definition clear_dma_state :: "udma_cfg \<Rightarrow> u32 \<Rightarrow> ('a, unit) uop" where
  "clear_dma_state k st = State_Monad.update (\<lambda>s. s\<lparr>
     mem := (\<lambda>a. if unat (a - st) < state_bytes k then 0 else mem s a), dma_chns := (dma_chns s)(st := \<lambda>_. 0)\<rparr>)"

definition dmac_init :: "plat \<Rightarrow> udma_cfg \<Rightarrow> u32 \<Rightarrow> ('a, s32) uop" where
  "dmac_init p k st = (
     if st = 0 then State_Monad.return (- 1)
     else do {
       State_Monad.update (\<lambda>s. s\<lparr>g_dmac := st\<rparr>);
       clear_dma_state k st;
       dmac_disable;
       dmac_disable_all_channels;
       c_if (dmac_version k > 1) dmac_reset_all_channels;
       dmac_enable k;
       (if \<not> multi_irq k then dma_install_channel p k 0
        else dma_install_loop (unat (all_channel_num k)) p k 0);
       State_Monad.return 0
     })"

definition dmac_close :: "udma_cfg \<Rightarrow> ('a, unit) uop" where
  "dmac_close k = do {
     s \<leftarrow> State_Monad.get;
     c_if (g_dmac s \<noteq> 0) (do {
       dmac_disable_all_channels;
       c_if (dmac_version k > 1) dmac_reset_all_channels;
       dmac_disable
     })
   }"

subsection \<open>Descriptors and channels\<close>

definition dmac_config_desc :: "u32 \<Rightarrow> u32 \<Rightarrow> u32 \<Rightarrow> u32 \<Rightarrow> u32 \<Rightarrow> ('a, s32) uop" where
  "dmac_config_desc desc src dst sz ctrl = (
     if desc = 0 then State_Monad.return (- 1)
     else do { v \<leftarrow> ld32 ctrl; dmac_set_desc desc src dst sz v; State_Monad.return 0 })"

definition dmac_desc_add_linked :: "u32 \<Rightarrow> u32 \<Rightarrow> ('a, s32) uop" where
  "dmac_desc_add_linked head next_desc = (
     if head = 0 then State_Monad.return (- 1)
     else do { upd_desc head (\<lambda>d. d\<lparr>DMALLPx := next_desc\<rparr>); State_Monad.return 0 })"

definition dmac_init_channel :: "u32 \<Rightarrow> ('a, s32) uop" where
  "dmac_init_channel dma_chn = (
     if dma_chn = 0 then State_Monad.return (- 1)
     else do {
       upd_chn dma_chn (\<lambda>c. c\<lparr>chn_desc := 0, chn_source := DMA_REQ_SOFT, chn_callback := 0, chn_status := DMA_IDLE,
         chn_channel := DMA_CHN_INVALID\<rparr>);
       State_Monad.return 0
     })"

definition dmac_config_channel :: "u32 \<Rightarrow> u32 \<Rightarrow> ('a, s32) uop" where
  "dmac_config_channel dma_chn desc = (
     if dma_chn = 0 then State_Monad.return (- 1)
     else do { upd_chn dma_chn (\<lambda>c. c\<lparr>chn_desc := desc\<rparr>); State_Monad.return 0 })"

definition dma_claim_channel :: "u32 \<Rightarrow> u32 \<Rightarrow> u32 \<Rightarrow> ('a, unit) uop" where
  "dma_claim_channel channel dma_chn source = do {
     set_slot channel dma_chn;
     upd_chn dma_chn (\<lambda>c. c\<lparr>chn_source := source, chn_callback := 0, chn_status := DMA_IDLE, chn_channel := channel\<rparr>)
   }"

text \<open>The search for a free channel, from \<open>i\<close> on with \<open>n\<close> to go.\<close>

primrec reserve_any :: "nat \<Rightarrow> u32 \<Rightarrow> u32 \<Rightarrow> u32 \<Rightarrow> ('a, s32) uop" where
  "reserve_any 0 i dma_chn source = State_Monad.return DMA_CHN_INVALID"
| "reserve_any (Suc n) i dma_chn source = do {
     c \<leftarrow> get_slot i;
     if c = 0 then do { set_slot i dma_chn; dma_claim_channel i dma_chn source; State_Monad.return i }
     else reserve_any n (i + 1) dma_chn source
   }"

definition dmac_reserve_channel :: "udma_cfg \<Rightarrow> s32 \<Rightarrow> u32 \<Rightarrow> u32 \<Rightarrow> ('a, s32) uop" where
  "dmac_reserve_channel k channel dma_chn source = (
     if dma_chn = 0 then State_Monad.return DMA_CHN_INVALID
     else if channel = DMA_CHN_ANY then reserve_any (unat (all_channel_num k)) 0 dma_chn source
     else if channel \<ge> all_channel_num k then State_Monad.return DMA_CHN_INVALID
     else do {
       c \<leftarrow> get_slot channel;
       if c = 0 then do { dma_claim_channel channel dma_chn source; State_Monad.return channel }
       else State_Monad.return DMA_CHN_INVALID
     })"

text \<open>The checks the calls on a reserved channel begin with.\<close>

definition on_channel :: "udma_cfg \<Rightarrow> u32 \<Rightarrow> (u32 \<Rightarrow> ('a, s32 res) uop) \<Rightarrow> ('a, s32 res) uop" where
  "on_channel k dma_chn body = (
     if dma_chn = 0 then retE (- 1)
     else do {
       c \<leftarrow> get_chn dma_chn;
       if chn_desc c = 0 then retE (- 1)
       else if \<not> chn_channel c < all_channel_num k then retE (- 1)
       else body (chn_channel c)
     })"

definition dmac_start_channel :: "plat \<Rightarrow> nat \<Rightarrow> udma_cfg \<Rightarrow> u32 \<Rightarrow> u32 \<Rightarrow> u32 \<Rightarrow> ('a, s32 res) uop" where
  "dmac_start_channel p fuel k dma_chn callback priority = on_channel k dma_chn (\<lambda>channel. do {
     c \<leftarrow> get_chn dma_chn;
     v \<leftarrow> dmac_valid_channel k channel (chn_desc c);
     if chn_status c = DMA_BUSY then retE (- 1)
     else if v \<noteq> 0 then retE (- 2)
     else
       bindE (liftE (do {
         upd_chn dma_chn (\<lambda>c. c\<lparr>chn_callback := callback, chn_priority := ucast priority,
           chn_int_en := (if callback \<noteq> 0 then DMA_INT_ENABLE else DMA_INT_DISABLE)\<rparr>);
         (if priority = DMA_CHN_HIGH_PRIO then dmac_set_high_pri_channels (DMACHANNEL channel)
          else dmac_set_normal_pri_channels (DMACHANNEL channel))
       })) (\<lambda>_.
       bindE (dmac_process_desc fuel p fuel k (chn_desc c) (if callback \<noteq> 0 then 1 else 0)) (\<lambda>_.
       bindE (dmac_fill_descriptor p fuel k channel (chn_desc c)) (\<lambda>_.
       liftE (do {
         dmac_clear_error channel;
         c_if (dmac_version k > 1) (dmac_reset_channel channel);
         dmac_disable_channel channel;
         dmac_enable_channel channel;
         upd_chn dma_chn (\<lambda>c. c\<lparr>chn_status := DMA_BUSY\<rparr>);
         c \<leftarrow> get_chn dma_chn;
         c_if (chn_source c = DMA_REQ_SOFT) (dmac_start_trigger channel);
         State_Monad.return 0
       }))))
   })"

definition dmac_stop_channel :: "udma_cfg \<Rightarrow> u32 \<Rightarrow> ('a, s32 res) uop" where
  "dmac_stop_channel k dma_chn = on_channel k dma_chn (\<lambda>channel. liftE (do {
     dmac_disable_channel channel;
     dmac_clear_error channel;
     c \<leftarrow> get_chn dma_chn;
     c_if (chn_status c = DMA_BUSY) (upd_chn dma_chn (\<lambda>c. c\<lparr>chn_status := DMA_STOP\<rparr>));
     State_Monad.return 0
   }))"

definition dmac_clear_channel :: "udma_cfg \<Rightarrow> u32 \<Rightarrow> ('a, s32 res) uop" where
  "dmac_clear_channel k dma_chn = on_channel k dma_chn (\<lambda>channel. liftE (do {
     dmac_clear_error channel;
     dmac_disable_channel channel;
     dmac_enable_channel channel;
     upd_chn dma_chn (\<lambda>c. c\<lparr>chn_status := DMA_IDLE\<rparr>);
     State_Monad.return 0
   }))"

definition dmac_release_channel :: "udma_cfg \<Rightarrow> u32 \<Rightarrow> ('a, s32 res) uop" where
  "dmac_release_channel k dma_chn = on_channel k dma_chn (\<lambda>channel. liftE (do {
     dmac_clear_error channel;
     dmac_disable_channel channel;
     set_slot channel 0;
     upd_chn dma_chn (\<lambda>c. c\<lparr>chn_channel := DMA_CHN_INVALID\<rparr>);
     State_Monad.return 0
   }))"

text \<open>The wait; with the interrupt enabled only the interrupt routine can end it.\<close>

primrec dma_wait_loop :: "nat \<Rightarrow> plat \<Rightarrow> u32 \<Rightarrow> u32 \<Rightarrow> ('a, unit res) uop" where
  "dma_wait_loop 0 p dma_chn channel = stopE Hang"
| "dma_wait_loop (Suc n) p dma_chn channel = do {
     c \<leftarrow> get_chn dma_chn;
     if chn_status c \<noteq> DMA_BUSY then retE ()
     else bindE (liftE (c_if (chn_int_en c = DMA_INT_DISABLE) (do {
         st \<leftarrow> dmac_wait_channel_status p channel;
         upd_chn dma_chn (\<lambda>c. c\<lparr>chn_status := st\<rparr>)
       }))) (\<lambda>_. dma_wait_loop n p dma_chn channel)
   }"

definition dmac_wait_channel :: "plat \<Rightarrow> nat \<Rightarrow> udma_cfg \<Rightarrow> u32 \<Rightarrow> ('a, s32 res) uop" where
  "dmac_wait_channel p fuel k dma_chn = on_channel k dma_chn (\<lambda>channel.
     bindE (dma_wait_loop fuel p dma_chn channel) (\<lambda>_. liftE (do { c \<leftarrow> get_chn dma_chn; State_Monad.return (chn_status c) })))"

definition dmac_check_channel :: "plat \<Rightarrow> udma_cfg \<Rightarrow> u32 \<Rightarrow> ('a, s32 res) uop" where
  "dmac_check_channel p k dma_chn = on_channel k dma_chn (\<lambda>channel. liftE (do {
     c \<leftarrow> get_chn dma_chn;
     c_if (chn_int_en c = DMA_INT_DISABLE) (do {
       st \<leftarrow> dmac_wait_channel_status p channel;
       upd_chn dma_chn (\<lambda>c. c\<lparr>chn_status := st\<rparr>)
     });
     c \<leftarrow> get_chn dma_chn;
     State_Monad.return (chn_status c)
   }))"

end
