(* ===== verification/UdmaSpec.thy ===== *)
theory UdmaSpec
  imports ArcUdma
begin

section \<open>What the micro DMA driver promises\<close>

text \<open>
  A transfer is launched with its whole chain of descriptors written back from the data cache,
  each after it has its final contents, before the channel is enabled; a configured descriptor
  addresses the last item of the transfer; the table of channels stays consistent, hands out the
  lowest free channel and takes back the channel of a structure that has a descriptor.
\<close>

subsection \<open>Chains of descriptors\<close>

fun chain_of :: "(u32 \<Rightarrow> dma_desc) \<Rightarrow> u32 \<Rightarrow> u32 list \<Rightarrow> bool" where
  "chain_of U d [] \<longleftrightarrow> d = 0"
| "chain_of U d (x # xs) \<longleftrightarrow> d = x \<and> x \<noteq> 0 \<and> chain_of U (DMALLPx (U x)) xs"

text \<open>A descriptor as the launch leaves it.\<close>

definition linked_desc :: "u32 \<Rightarrow> dma_desc \<Rightarrow> dma_desc" where
  "linked_desc ien d = (
     if DMALLPx d \<noteq> 0 then
       (if DMACTRLx d AND DMACTRLx_OP_MASK = DMA_MANUAL_LINKED_TRANSFER then d
        else d\<lparr>DMACTRLx := (DMACTRLx d AND NOT DMACTRLx_OP_MASK) OR DMA_AUTO_LINKED_TRANSFER\<rparr>)
     else d\<lparr>DMACTRLx := (((DMACTRLx d AND NOT DMACTRLx_OP_MASK) OR DMA_SINGLE_TRANSFER) AND NOT DMACTRLx_INT_MASK) OR push_bit 29 ien\<rparr>)"

lemma linked_desc_link [simp]: "DMALLPx (linked_desc ien d) = DMALLPx d"
  by (simp add: linked_desc_def)

lemma set_field_idem: "((x :: u32) AND NOT a OR b) AND NOT a OR b = x AND NOT a OR b"
  "(((((x AND NOT a) OR b) AND NOT c OR e) AND NOT a) OR b) AND NOT c OR e = ((x AND NOT a) OR b) AND NOT c OR e"
  by (rule bit_word_eqI, auto simp: bit_and_iff bit_or_iff bit_not_iff)+

lemma masked_again: "((x :: u32) AND NOT a OR b) AND a = b AND a"
  by (rule bit_word_eqI) (auto simp: bit_and_iff bit_or_iff bit_not_iff)

lemma auto_not_manual: "((x :: u32) AND NOT 3 OR 2) AND 3 = 2"
  using masked_again [of x 3 2] by simp

lemma linked_desc_idem [simp]: "linked_desc ien (linked_desc ien d) = linked_desc ien d"
proof (cases "DMALLPx d = 0")
  case True
  then show ?thesis using set_field_idem(2) [of "DMACTRLx d" 3 1 DMACTRLx_INT_MASK "push_bit 29 ien"] by (simp add: linked_desc_def)
next
  case False
  then show ?thesis using set_field_idem(1) [of "DMACTRLx d" 3 2] auto_not_manual [of "DMACTRLx d"]
    by (simp add: linked_desc_def)
qed

definition link_all :: "u32 \<Rightarrow> u32 list \<Rightarrow> (u32 \<Rightarrow> dma_desc) \<Rightarrow> (u32 \<Rightarrow> dma_desc)" where
  "link_all ien ds U = (\<lambda>x. if x \<in> set ds then linked_desc ien (U x) else U x)"

lemma chain_of_links: "(\<And>x. DMALLPx (V x) = DMALLPx (U x)) \<Longrightarrow> chain_of V d ds = chain_of U d ds"
  by (induction ds arbitrary: d) auto

subsection \<open>Writing back\<close>

text \<open>What a write-back of \<open>sz\<close> bytes from \<open>a\<close> on needs of the cache and of the address.\<close>

definition flushable :: "nat \<Rightarrow> 'a cache_mach_scheme \<Rightarrow> nat \<Rightarrow> u32 \<Rightarrow> u32 \<Rightarrow> bool" where
  "flushable e s fuel a sz \<longleftrightarrow> line (dcache_config s) = 2 ^ e \<and> e < 16 \<and> sz \<noteq> 0 \<and> sz \<le> capacity (dcache_config s)
     \<and> unat a + unat sz + 2 ^ e \<le> 2 ^ 32 \<and> n_lines e a sz \<le> fuel"

lemma flushable_config: "dcache_config t = dcache_config s \<Longrightarrow> flushable e t fuel a sz = flushable e s fuel a sz"
  by (simp add: flushable_def)

text \<open>
  A write-back on any platform: it hands the lines of the range to the cache in order, and either comes to the end
  or is stuck waiting for one of them.
\<close>

lemma wait_any: "\<exists>r h. run_state (spin n (dc_flush_done p)) s = (r, s\<lparr>hist := h @ hist s\<rparr>) \<and> aux_stores h = [] \<and> (r = Inr () \<or> r = Inl Hang)"
proof -
  let ?I = "\<lambda>t. \<exists>h. t = s\<lparr>hist := h @ hist s\<rparr> \<and> aux_stores h = []"
  have "wp (spin n (dc_flush_done p)) (\<lambda>x t. ?I t \<and> (x = Inr () \<or> x = Inl Hang)) s"
  proof (rule wp_spin_invariant)
    show "?I s" by (intro exI [of _ "[]"]) simp
    fix t assume "?I t"
    then obtain h where h: "t = s\<lparr>hist := h @ hist s\<rparr>" "aux_stores h = []" by blast
    then show "wp (dc_flush_done p) (\<lambda>_. ?I) t"
      unfolding dc_flush_done_def wp_rules h(1) by (intro exI [of _ "Aux_rd AUX_DC_CTRL v # h" for v]) simp
  qed
  then show ?thesis by (cases "run_state (spin n (dc_flush_done p)) s") (auto simp: wp_def)
qed

lemma each_any:
  "\<exists>r h i. run_state (each (dc_line_op p fuel reg) ls) s = (r, s\<lparr>hist := h @ hist s\<rparr>) \<and> aux_stores h = map (Pair reg) (take i ls)
     \<and> (dc_responsive p fuel \<longrightarrow> r = Inr True) \<and> (r = Inr True \<and> length ls \<le> i \<or> r = Inl Hang \<and> 0 < i)"
proof (induction ls arbitrary: s)
  case Nil
  then show ?case by (intro exI [of _ "Inr True"] exI [of _ "[]"]) simp
next
  case (Cons a ls)
  let ?e = "[Nop, Nop, Nop, Aux_wr reg a]" let ?s = "s\<lparr>hist := ?e @ hist s\<rparr>"
  obtain r h where h: "run_state (spin fuel (dc_flush_done p)) ?s = (r, ?s\<lparr>hist := h @ hist ?s\<rparr>)" "aux_stores h = []" "r = Inr () \<or> r = Inl Hang"
    using wait_any [of fuel p ?s] by blast
  have w: "dc_responsive p fuel \<Longrightarrow> r = Inr ()" using dc_wait_returns [of p fuel ?s] h(1) by simp
  let ?u = "?s\<lparr>hist := h @ hist ?s\<rparr>"
  have op: "run_state (dc_line_op p fuel reg a) s = (if r = Inr () then (Inr True, ?u) else (Inl Hang, ?u))"
    using h(1,3) by (auto simp: dc_line_op_def)
  show ?case
  proof (cases "r = Inr ()")
    case True
    obtain q g i where g: "run_state (each (dc_line_op p fuel reg) ls) ?u = (q, ?u\<lparr>hist := g @ hist ?u\<rparr>)" "aux_stores g = map (Pair reg) (take i ls)"
      "dc_responsive p fuel \<longrightarrow> q = Inr True" "q = Inr True \<and> length ls \<le> i \<or> q = Inl Hang \<and> 0 < i" using Cons [of ?u] by blast
    then show ?thesis using True h
      by (intro exI [of _ q] exI [of _ "g @ h @ ?e"] exI [of _ "Suc i"]) (auto simp: op aux_stores_append)
  next
    case False
    then show ?thesis using h w
      by (intro exI [of _ "Inl Hang"] exI [of _ "h @ ?e"] exI [of _ 1]) (auto simp: op aux_stores_append)
  qed
qed

lemma flush_any:
  fixes s :: "'a cache_mach_scheme"
  assumes f: "flushable e s fuel a sz" and k: "has_dcache k"
  shows "\<exists>r h i. run_state (DCACHE_FLUSH_MLINES p fuel k a sz) s = (r, s\<lparr>hist := h @ hist s\<rparr>)
    \<and> aux_stores h = map (Pair AUX_DC_FLDL) (take i (lines_of e a sz)) \<and> (dc_responsive p fuel \<longrightarrow> r = Inr ())
    \<and> (r = Inr () \<and> length (lines_of e a sz) \<le> i \<or> r = Inl Hang \<and> 0 < i)"
proof -
  have c: "line (dcache_config s) = 2 ^ e" "e < 16" "sz \<noteq> 0" "sz \<le> capacity (dcache_config s)" "unat a + unat sz + 2 ^ e \<le> 2 ^ 32" "n_lines e a sz \<le> fuel"
    using f by (simp_all add: flushable_def)
  let ?key = "clri_in p (hist s)" let ?s = "s\<lparr>hist := Clri ?key # hist s\<rparr>"
  have e: "e < 32" using c(2) by simp
  obtain r h i where h: "run_state (each (dc_line_op p fuel AUX_DC_FLDL) (lines_of e a sz)) ?s = (r, ?s\<lparr>hist := h @ hist ?s\<rparr>)"
    "aux_stores h = map (Pair AUX_DC_FLDL) (take i (lines_of e a sz))" "dc_responsive p fuel \<longrightarrow> r = Inr True"
    "r = Inr True \<and> length (lines_of e a sz) \<le> i \<or> r = Inl Hang \<and> 0 < i" using each_any [of p fuel AUX_DC_FLDL "lines_of e a sz" ?s] by blast
  have run: "run_state (DCACHE_FLUSH_MLINES p fuel k a sz) s
      = (case r of Inr _ \<Rightarrow> (Inr (), s\<lparr>hist := (Seti ?key # h @ [Clri ?key]) @ hist s\<rparr>) | Inl x \<Rightarrow> (Inl x, s\<lparr>hist := (h @ [Clri ?key]) @ hist s\<rparr>))"
    using c h(1) by (simp add: DCACHE_FLUSH_MLINES_def k dcache_flush_mlines_def Let_def leD mlines_loop [OF e c(3,5,6)] split: sum.split)
  from h(4) show ?thesis
  proof
    assume "r = Inr True \<and> length (lines_of e a sz) \<le> i"
    then show ?thesis using run h(2)
      by (intro exI [of _ "Inr ()"] exI [of _ "Seti ?key # h @ [Clri ?key]"] exI [of _ i]) (simp add: aux_stores_append)
  next
    assume "r = Inl Hang \<and> 0 < i"
    then show ?thesis using run h(2,3)
      by (intro exI [of _ "Inl Hang"] exI [of _ "h @ [Clri ?key]"] exI [of _ i]) (simp add: aux_stores_append)
  qed
qed

text \<open>The walk over a chain: each descriptor gets its final form before any of its lines is written back.\<close>

lemma process_any:
  fixes s :: "'a udma_mach_scheme"
  assumes k: "has_dcache k"
  shows "chain_of (udesc s) d ds \<Longrightarrow> ds \<noteq> [] \<Longrightarrow> length ds \<le> n \<Longrightarrow> (\<And>x. x \<in> set ds \<Longrightarrow> flushable e s fuel x 16)
    \<Longrightarrow> \<exists>r h U. run_state (dmac_process_desc n p fuel k d ien) s = (r, s\<lparr>hist := h @ hist s, udesc := U\<rparr>)
      \<and> (dc_responsive p fuel \<longrightarrow> r = Inr ())
      \<and> (r = Inr () \<and> U = link_all ien ds (udesc s) \<and> aux_stores h = map (Pair AUX_DC_FLDL) (concat (map (\<lambda>x. lines_of e x 16) ds))
       \<or> r = Inl Hang \<and> (\<exists>pre x post i. ds = pre @ x # post \<and> 0 < i \<and> U = link_all ien (pre @ [x]) (udesc s)
           \<and> aux_stores h = map (Pair AUX_DC_FLDL) (concat (map (\<lambda>x. lines_of e x 16) pre) @ take i (lines_of e x 16))))"
proof (induction ds arbitrary: s d n)
  case Nil
  then show ?case by simp
next
  case (Cons x xs)
  then obtain m where n: "n = Suc m" and d: "d = x" and x: "chain_of (udesc s) (DMALLPx (udesc s x)) xs" by (cases n) auto
  let ?t = "s\<lparr>udesc := (udesc s)(x := linked_desc ien (udesc s x))\<rparr>"
  have st: "run_state (do {
       d \<leftarrow> get_desc x;
       (if DMALLPx d \<noteq> 0 then
          c_if (DMACTRLx d AND DMACTRLx_OP_MASK \<noteq> DMA_MANUAL_LINKED_TRANSFER)
            (upd_desc x (\<lambda>d. d\<lparr>DMACTRLx := (DMACTRLx d AND NOT DMACTRLx_OP_MASK) OR DMACTRLx_OP DMA_AUTO_LINKED_TRANSFER\<rparr>))
        else
          upd_desc x (\<lambda>d. d\<lparr>DMACTRLx := (((DMACTRLx d AND NOT DMACTRLx_OP_MASK) OR DMACTRLx_OP DMA_SINGLE_TRANSFER)
            AND NOT DMACTRLx_INT_MASK) OR DMACTRLx_INT ien\<rparr>))
     }) s = ((), ?t)"
    by (auto simp: linked_desc_def DMACTRLx_OP_def DMACTRLx_INT_def)
  have "flushable e ?t fuel x 16" using Cons.prems(4) [of x] by (simp add: flushable_def)
  from flush_any [OF this k, of p] obtain r h i where
    h: "run_state (DCACHE_FLUSH_MLINES p fuel k x 16) ?t = (r, ?t\<lparr>hist := h @ hist ?t\<rparr>)"
      "aux_stores h = map (Pair AUX_DC_FLDL) (take i (lines_of e x 16))" "dc_responsive p fuel \<longrightarrow> r = Inr ()"
      "r = Inr () \<and> length (lines_of e x 16) \<le> i \<or> r = Inl Hang \<and> 0 < i" by blast
  let ?u = "?t\<lparr>hist := h @ hist ?t\<rparr>"
  have one: "run_state (dmac_process_desc n p fuel k d ien) s
      = (case r of Inr _ \<Rightarrow> (if DMALLPx (udesc s x) \<noteq> 0 then run_state (dmac_process_desc m p fuel k (DMALLPx (udesc s x)) ien) ?u else (Inr (), ?u))
         | Inl w \<Rightarrow> (Inl w, ?u))"
    using st h(1) by (simp add: n d split: sum.split)
  have l1: "(udesc s)(x := linked_desc ien (udesc s x)) = link_all ien [x] (udesc s)" by (auto simp: link_all_def fun_eq_iff)
  show ?case
  proof (cases "r = Inr ()")
    case False
    then have r: "r = Inl Hang" "0 < i" using h(4) by auto
    have "\<exists>pre z post i. x # xs = pre @ z # post \<and> 0 < i \<and> link_all ien [x] (udesc s) = link_all ien (pre @ [z]) (udesc s)
        \<and> aux_stores h = map (Pair AUX_DC_FLDL) (concat (map (\<lambda>x. lines_of e x 16) pre) @ take i (lines_of e z 16))"
      using r h(2) by (intro exI [of _ "[]"] exI [of _ x] exI [of _ xs] exI [of _ i]) simp
    moreover have "run_state (dmac_process_desc n p fuel k d ien) s = (Inl Hang, s\<lparr>hist := h @ hist s, udesc := link_all ien [x] (udesc s)\<rparr>)"
      using one r by (simp add: l1)
    ultimately show ?thesis using r(1) h(3) by blast
  next
    case True
    then have full: "aux_stores h = map (Pair AUX_DC_FLDL) (lines_of e x 16)" using h by auto
    show ?thesis
    proof (cases xs)
      case Nil
      then show ?thesis using one x full True l1 by (intro exI [of _ "Inr ()"] exI [of _ h] exI [of _ "link_all ien [x] (udesc s)"]) simp
    next
      case (Cons y ys)
      then have nz: "DMALLPx (udesc s x) \<noteq> 0" using x by simp
      have this_chain: "chain_of (udesc ?u) (DMALLPx (udesc s x)) xs" using x chain_of_links [of "udesc ?u" "udesc s"] by simp
      have this_flush: "flushable e ?u fuel z 16" if "z \<in> set xs" for z using Cons.prems(4) [of z] that by (simp add: flushable_def)
      have "xs \<noteq> []" "length xs \<le> m" using Cons Cons.prems n by auto
      from Cons.IH [OF this_chain this this_flush] obtain q g U where g: "run_state (dmac_process_desc m p fuel k (DMALLPx (udesc s x)) ien) ?u
          = (q, ?u\<lparr>hist := g @ hist ?u, udesc := U\<rparr>)" "dc_responsive p fuel \<longrightarrow> q = Inr ()"
        "q = Inr () \<and> U = link_all ien xs (udesc ?u) \<and> aux_stores g = map (Pair AUX_DC_FLDL) (concat (map (\<lambda>x. lines_of e x 16) xs))
         \<or> q = Inl Hang \<and> (\<exists>pre y post i. xs = pre @ y # post \<and> 0 < i \<and> U = link_all ien (pre @ [y]) (udesc ?u)
           \<and> aux_stores g = map (Pair AUX_DC_FLDL) (concat (map (\<lambda>x. lines_of e x 16) pre) @ take i (lines_of e y 16)))"
        by blast
      have l: "link_all ien zs (udesc ?u) = link_all ien (x # zs) (udesc s)" for zs by (auto simp: link_all_def fun_eq_iff)
      have run: "run_state (dmac_process_desc n p fuel k d ien) s = (q, s\<lparr>hist := (g @ h) @ hist s, udesc := U\<rparr>)" using one nz g(1) True by simp
      from g(3) show ?thesis
      proof
        assume "q = Inr () \<and> U = link_all ien xs (udesc ?u) \<and> aux_stores g = map (Pair AUX_DC_FLDL) (concat (map (\<lambda>x. lines_of e x 16) xs))"
        then show ?thesis using run full unfolding l
          by (intro exI [of _ "Inr ()"] exI [of _ "g @ h"] exI [of _ U]) (simp add: aux_stores_append)
      next
        assume "q = Inl Hang \<and> (\<exists>pre y post i. xs = pre @ y # post \<and> 0 < i \<and> U = link_all ien (pre @ [y]) (udesc ?u)
           \<and> aux_stores g = map (Pair AUX_DC_FLDL) (concat (map (\<lambda>x. lines_of e x 16) pre) @ take i (lines_of e y 16)))"
        then obtain pre y post i where y: "q = Inl Hang" "xs = pre @ y # post" "0 < i" "U = link_all ien (x # pre @ [y]) (udesc s)"
          "aux_stores g = map (Pair AUX_DC_FLDL) (concat (map (\<lambda>x. lines_of e x 16) pre) @ take i (lines_of e y 16))" unfolding l by blast
        then have "\<exists>pre z post i. x # xs = pre @ z # post \<and> 0 < i \<and> U = link_all ien (pre @ [z]) (udesc s)
            \<and> aux_stores (g @ h) = map (Pair AUX_DC_FLDL) (concat (map (\<lambda>x. lines_of e x 16) pre) @ take i (lines_of e z 16))"
          using full by (intro exI [of _ "x # pre"] exI [of _ y] exI [of _ post] exI [of _ i]) (simp add: aux_stores_append)
        then show ?thesis using run y(1) g(2) by blast
      qed
    qed
  qed
qed

subsection \<open>Launching\<close>

text \<open>The stores that follow the write-backs of a launch, in order.\<close>

definition launch_stores :: "bool \<Rightarrow> u32 \<Rightarrow> (u32 \<times> u32) list" where
  "launch_stores soft channel =
     [(AUX_DMACSTAT1, push_bit 16 (DMACHANNEL channel)), (AUX_DMACRST, DMACHANNEL channel),
      (AUX_DMACDSB, DMACHANNEL channel), (AUX_DMACENB, DMACHANNEL channel)]
     @ (if soft then [(AUX_DMACREQ, DMACHANNEL channel)] else [])"

definition prepared :: "u32 \<Rightarrow> u32 \<Rightarrow> dma_channel \<Rightarrow> dma_channel" where
  "prepared callback priority c = c\<lparr>chn_callback := callback, chn_priority := ucast priority,
     chn_int_en := (if callback \<noteq> 0 then 1 else 0)\<rparr>"

lemma fill_any:
  fixes s :: "'a udma_mach_scheme"
  assumes v: "dmac_version k > 1" and m: "\<not> DMA_CHECK_REGISTER k ch" and k: "has_dcache k"
    and base: "\<And>h. aux_in p h AUX_DMACBASE = base"
    and f: "flushable e s fuel (base + 4 * ch) 4"
  shows "\<exists>r h i. run_state (dmac_fill_descriptor p fuel k ch d) s = (r, s\<lparr>hist := h @ hist s, mem := put32 (base + 4 * ch) d (mem s)\<rparr>)
    \<and> aux_stores h = map (Pair AUX_DC_FLDL) (take i (lines_of e (base + 4 * ch) 4)) \<and> (dc_responsive p fuel \<longrightarrow> r = Inr ())
    \<and> (r = Inr () \<and> length (lines_of e (base + 4 * ch) 4) \<le> i \<or> r = Inl Hang \<and> 0 < i)"
proof -
  let ?t = "s\<lparr>hist := Aux_rd AUX_DMACBASE base # hist s, mem := put32 (base + 4 * ch) d (mem s)\<rparr>"
  have "flushable e ?t fuel (base + 4 * ch) 4" using f by (simp add: flushable_def)
  from flush_any [OF this k, of p] obtain r h i where
    "run_state (DCACHE_FLUSH_MLINES p fuel k (base + 4 * ch) 4) ?t = (r, ?t\<lparr>hist := h @ hist ?t\<rparr>)"
    "aux_stores h = map (Pair AUX_DC_FLDL) (take i (lines_of e (base + 4 * ch) 4))" "dc_responsive p fuel \<longrightarrow> r = Inr ()"
    "r = Inr () \<and> length (lines_of e (base + 4 * ch) 4) \<le> i \<or> r = Inl Hang \<and> 0 < i" by blast
  then show ?thesis using v m base
    by (intro exI [of _ r] exI [of _ "h @ [Aux_rd AUX_DMACBASE base]"] exI [of _ i]) (simp add: dmac_fill_descriptor_def aux_stores_append)
qed

lemma launch_tail:
  fixes t :: "'a udma_mach_scheme" and ch c :: u32
  assumes v: "dmac_version k > 1"
  defines "E \<equiv> (if chn_source (uchn t c) = DMA_REQ_SOFT then [Aux_wr AUX_DMACREQ (DMACHANNEL ch)] else [])
      @ [Aux_wr AUX_DMACENB (DMACHANNEL ch), Aux_wr AUX_DMACDSB (DMACHANNEL ch), Aux_wr AUX_DMACRST (DMACHANNEL ch),
         Aux_wr AUX_DMACSTAT1 (push_bit 16 (DMACHANNEL ch))]"
  shows "\<exists>t'. run_state (do {
         dmac_clear_error ch;
         c_if (dmac_version k > 1) (dmac_reset_channel ch);
         dmac_disable_channel ch;
         dmac_enable_channel ch;
         upd_chn c (\<lambda>c. c\<lparr>chn_status := DMA_BUSY\<rparr>);
         c \<leftarrow> get_chn c;
         c_if (chn_source c = DMA_REQ_SOFT) (dmac_start_trigger ch);
         State_Monad.return (0 :: s32)
       }) t = (0, t') \<and> udesc t' = udesc t \<and> mem t' = mem t \<and> uchn t' = (uchn t)(c := (uchn t c)\<lparr>chn_status := DMA_BUSY\<rparr>)
       \<and> hist t' = E @ hist t"
    "aux_stores E = launch_stores (chn_source (uchn t c) = DMA_REQ_SOFT) ch"
  using v by (simp_all add: dmac_access_defs launch_stores_def c_if_def E_def)

text \<open>
  C10: starting a linked transfer on a memory channel of a version-2 controller with a data cache, from an accepted structure that is not busy,
  with the descriptors and the pointer table below the last cache line of memory and the table at a fixed address:
  on a cache whose flushes end it returns 0 and marks the channel busy. Every descriptor of the chain but the last is then auto-linked,
  except that one marked for manual linking is left as it was; the last is single, with its
  interrupt bit set exactly when there is a callback. After the priority the register stores are: every cache line of every
  descriptor in chain order, the line of the channel's pointer slot, and only then the error clear, the reset, the disable, the
  enable and, for a software request, the trigger. On any cache, one that never answers included, a launch that is
  stuck in the write-back of a descriptor has this descriptor and those before it already in their final
  form and the rest untouched, and one stuck in the write-back of the pointer has stored the pointer: nothing is written
  back before it is complete, and the channel is not enabled.
\<close>

theorem udma_start_launches:
  fixes s :: "'a udma_mach_scheme" and callback priority base :: u32
  assumes v: "dmac_version k > 1" and dc: "has_dcache k"
    and c: "c \<noteq> 0" "uchn s c = ch" "chn_channel ch < all_channel_num k" "chn_status ch \<noteq> DMA_BUSY"
    and m: "\<not> DMA_CHECK_REGISTER k (chn_channel ch)"
    and chain: "chain_of (udesc s) (chn_desc ch) ds" "ds \<noteq> []" "length ds \<le> fuel"
    and fl: "\<And>x. x \<in> set ds \<Longrightarrow> flushable e s fuel x 16" "flushable e s fuel (base + 4 * chn_channel ch) 4"
    and hw: "\<And>h. aux_in p h AUX_DMACBASE = base"
  defines "ien \<equiv> if callback \<noteq> 0 then 1 else 0" and "slot \<equiv> base + 4 * chn_channel ch"
    and "pri \<equiv> (if priority = DMA_CHN_HIGH_PRIO then AUX_DMACHPRI else AUX_DMACNPRI, DMACHANNEL (chn_channel ch))"
    and "lines \<equiv> \<lambda>ds. concat (map (\<lambda>x. lines_of e x 16) ds)"
  shows "\<exists>r t h. run_state (dmac_start_channel p fuel k c callback priority) s = (r, t) \<and> hist t = h @ hist s
    \<and> (dc_responsive p fuel \<longrightarrow> r = Inr 0)
    \<and> (r = Inr 0 \<and> udesc t = link_all ien ds (udesc s)
         \<and> uchn t = (uchn s)(c := (prepared callback priority ch)\<lparr>chn_status := DMA_BUSY\<rparr>)
         \<and> mem t = put32 slot (chn_desc ch) (mem s)
         \<and> aux_stores h = pri # map (Pair AUX_DC_FLDL) (lines ds @ lines_of e slot 4)
             @ launch_stores (chn_source ch = DMA_REQ_SOFT) (chn_channel ch)
       \<or> r = Inl Hang \<and> uchn t = (uchn s)(c := prepared callback priority ch)
         \<and> ((\<exists>pre x post i. ds = pre @ x # post \<and> 0 < i \<and> udesc t = link_all ien (pre @ [x]) (udesc s) \<and> mem t = mem s
               \<and> aux_stores h = pri # map (Pair AUX_DC_FLDL) (lines pre @ take i (lines_of e x 16)))
           \<or> udesc t = link_all ien ds (udesc s) \<and> mem t = put32 slot (chn_desc ch) (mem s)
               \<and> (\<exists>i>0. aux_stores h = pri # map (Pair AUX_DC_FLDL) (lines ds @ take i (lines_of e slot 4)))))"
proof -
  let ?ch = "chn_channel ch" let ?e = "Aux_wr (fst pri) (snd pri)"
  let ?a = "s\<lparr>uchn := (uchn s)(c := prepared callback priority ch), hist := ?e # hist s\<rparr>"
  let ?tail = "do {
         dmac_clear_error ?ch;
         c_if (dmac_version k > 1) (dmac_reset_channel ?ch);
         dmac_disable_channel ?ch;
         dmac_enable_channel ?ch;
         upd_chn c (\<lambda>c. c\<lparr>chn_status := DMA_BUSY\<rparr>);
         c \<leftarrow> get_chn c;
         c_if (chn_source c = DMA_REQ_SOFT) (dmac_start_trigger ?ch);
         State_Monad.return (0 :: s32)
       } :: ('a, s32) uop"
  have d: "chn_desc ch \<noteq> 0" using chain by (cases ds) auto
  have ud: "udesc ?a = udesc s" by simp
  have pri: "run_state (if priority = DMA_CHN_HIGH_PRIO then dmac_set_high_pri_channels (DMACHANNEL ?ch)
          else dmac_set_normal_pri_channels (DMACHANNEL ?ch)) t = ((), t\<lparr>hist := ?e # hist t\<rparr>)" for t :: "'a udma_mach_scheme"
    by (simp add: dmac_access_defs pri_def)
  have run: "run_state (dmac_start_channel p fuel k c callback priority) s
      = run_state (bindE (dmac_process_desc fuel p fuel k (chn_desc ch) ien) (\<lambda>_.
       bindE (dmac_fill_descriptor p fuel k ?ch (chn_desc ch)) (\<lambda>_. liftE ?tail))) ?a"
    using c d v unfolding dmac_start_channel_def on_channel_def dmac_valid_channel_def ien_def by (simp add: pri prepared_def)
  have "chain_of (udesc ?a) (chn_desc ch) ds" "\<And>x. x \<in> set ds \<Longrightarrow> flushable e ?a fuel x 16"
    using chain fl(1) by (simp_all add: flushable_def)
  from process_any [OF dc this(1) chain(2,3) this(2), of p ien] obtain r h U where
    h: "run_state (dmac_process_desc fuel p fuel k (chn_desc ch) ien) ?a = (r, ?a\<lparr>hist := h @ hist ?a, udesc := U\<rparr>)"
      "dc_responsive p fuel \<longrightarrow> r = Inr ()"
      "r = Inr () \<and> U = link_all ien ds (udesc s) \<and> aux_stores h = map (Pair AUX_DC_FLDL) (lines ds)
       \<or> r = Inl Hang \<and> (\<exists>pre x post i. ds = pre @ x # post \<and> 0 < i \<and> U = link_all ien (pre @ [x]) (udesc s)
           \<and> aux_stores h = map (Pair AUX_DC_FLDL) (lines pre @ take i (lines_of e x 16)))"
    unfolding ud lines_def by blast
  let ?b = "?a\<lparr>hist := h @ hist ?a, udesc := U\<rparr>"
  show ?thesis
  proof (cases "r = Inr ()")
    case False
    then have stuck: "r = Inl Hang" "\<exists>pre x post i. ds = pre @ x # post \<and> 0 < i \<and> U = link_all ien (pre @ [x]) (udesc s)
           \<and> aux_stores h = map (Pair AUX_DC_FLDL) (lines pre @ take i (lines_of e x 16))" using h(3) by blast+
    have "run_state (dmac_start_channel p fuel k c callback priority) s = (Inl Hang, ?b)" unfolding run using h(1) stuck(1) by simp
    moreover have "aux_stores (h @ [?e]) = pri # aux_stores h" by (simp add: aux_stores_append)
    ultimately show ?thesis using stuck h(2)
      by (intro exI [of _ "Inl Hang"] exI [of _ ?b] exI [of _ "h @ [?e]"]) auto
  next
    case True
    then have U: "U = link_all ien ds (udesc s)" "aux_stores h = map (Pair AUX_DC_FLDL) (lines ds)" using h(3) by auto
    have "flushable e ?b fuel (base + 4 * ?ch) 4" using fl(2) by (simp add: flushable_def)
    from fill_any [where p = p, OF v m dc hw this, of "chn_desc ch"] obtain q g i where
      g: "run_state (dmac_fill_descriptor p fuel k ?ch (chn_desc ch)) ?b = (q, ?b\<lparr>hist := g @ hist ?b, mem := put32 slot (chn_desc ch) (mem ?b)\<rparr>)"
        "aux_stores g = map (Pair AUX_DC_FLDL) (take i (lines_of e slot 4))" "dc_responsive p fuel \<longrightarrow> q = Inr ()"
        "q = Inr () \<and> length (lines_of e slot 4) \<le> i \<or> q = Inl Hang \<and> 0 < i" unfolding slot_def by blast
    let ?d = "?b\<lparr>hist := g @ hist ?b, mem := put32 slot (chn_desc ch) (mem ?b)\<rparr>"
    show ?thesis
    proof (cases "q = Inr ()")
      case False
      then have "run_state (dmac_start_channel p fuel k c callback priority) s = (Inl Hang, ?d)"
        unfolding run using h(1) True g(1,4) by simp
      moreover have "aux_stores (g @ h @ [?e]) = pri # map (Pair AUX_DC_FLDL) (lines ds @ take i (lines_of e slot 4))"
        using U(2) g(2) by (simp add: aux_stores_append)
      ultimately show ?thesis using False g(3,4) U(1)
        by (intro exI [of _ "Inl Hang"] exI [of _ ?d] exI [of _ "g @ h @ [?e]"]) auto
    next
      case fin: True
      obtain t' f where t': "run_state ?tail ?d = (0, t')" "udesc t' = udesc ?d" "mem t' = mem ?d"
        "uchn t' = (uchn ?d)(c := (uchn ?d c)\<lparr>chn_status := DMA_BUSY\<rparr>)" "hist t' = f @ hist ?d"
        "aux_stores f = launch_stores (chn_source (uchn ?d c) = DMA_REQ_SOFT) ?ch"
        using launch_tail [OF v, where ch = ?ch and c = c and t = ?d] by metis
      have "run_state (dmac_start_channel p fuel k c callback priority) s = (Inr 0, t')"
        unfolding run run_bindE h(1) g(1) True fin sum.case prod.case run_liftE t'(1) ..
      moreover have "aux_stores (f @ g @ h @ [?e]) = pri # map (Pair AUX_DC_FLDL) (lines ds @ lines_of e slot 4)
             @ launch_stores (chn_source ch = DMA_REQ_SOFT) ?ch"
        using U(2) g(2,4) fin t'(6) by (simp add: aux_stores_append prepared_def)
      moreover have "hist t' = (f @ g @ h @ [?e]) @ hist s" using t'(5) by simp
      ultimately show ?thesis using t'(2,3,4) U(1)
        by (intro exI [of _ "Inr 0"] exI [of _ t'] exI [of _ "f @ g @ h @ [?e]"]) simp
    qed
  qed
qed

text \<open>A controller with four memory channels, and a chain of two descriptors.\<close>

definition sample_udma_plat :: plat where
  "sample_udma_plat = sample_plat\<lparr>aux_in := \<lambda>h a. if a = AUX_DMACBASE then 0x2000 else 0\<rparr>"

definition sample_udma :: udma_cfg where
  "sample_udma = \<lparr>dmac_version = 2, multi_irq = False, all_channel_num = 4, register_channel_num = 0, irq_num_start = 20,
     has_dcache = True, completed_handler = 0x100, error_handler = 0x200\<rparr>"

definition sample_desc :: "u32 \<Rightarrow> dma_desc" where
  "sample_desc l = \<lparr>DMACTRLx = 0xC0000000, DMASARx = 0x4000, DMADARx = 0x5000, DMALLPx = l\<rparr>"

definition sample_chn :: dma_channel where
  "sample_chn = \<lparr>chn_channel = 1, chn_priority = 0, chn_int_en = 0, chn_source = 0, chn_desc = 0x1000, chn_status = 0, chn_callback = 0\<rparr>"

definition sample_udma_mach :: udma_mach where
  "sample_udma_mach = cache_mach.extend sample_cache_mach
     \<lparr>g_dmac = 0x2000, udesc = (\<lambda>_. sample_desc 0)(0x1000 := sample_desc 0x1040), uchn = \<lambda>_. sample_chn,
      dma_chns = \<lambda>_ i. if i = 1 then 0x3000 else 0\<rparr>"

lemma sample_udma_simps [simp]:
  "hist sample_udma_mach = []" "dcache_config sample_udma_mach = sample_cache" "g_dmac sample_udma_mach = 0x2000"
  "uchn sample_udma_mach = (\<lambda>_. sample_chn)" "udesc sample_udma_mach = (\<lambda>_. sample_desc 0)(0x1000 := sample_desc 0x1040)"
  "dma_chns sample_udma_mach = (\<lambda>_ i. if i = 1 then 0x3000 else 0)"
  "aux_in sample_udma_plat h a = (if a = AUX_DMACBASE then 0x2000 else 0)"
  "dmac_version sample_udma = 2" "\<not> multi_irq sample_udma" "all_channel_num sample_udma = 4" "has_dcache sample_udma"
  "register_channel_num sample_udma = 0" "chn_channel sample_chn = 1" "chn_status sample_chn = 0" "chn_desc sample_chn = 0x1000"
  "chn_source sample_chn = 0" "chn_callback sample_chn = 0" "chn_int_en sample_chn = 0" "DMALLPx (sample_desc l) = l"
  by (simp_all add: sample_udma_mach_def cache_mach.defs sample_cache_mach_def mach.defs sample_mach_def sample_udma_plat_def
      sample_udma_def sample_chn_def sample_desc_def)

lemma dc_responsive_udma: "dc_responsive sample_udma_plat 8"
  by (auto simp: dc_responsive_def intro: exI [of _ 0])

lemma udma_start_launches_witness:
  "\<exists>t. run_state (dmac_start_channel sample_udma_plat 8 sample_udma 0x3000 0x400 1) sample_udma_mach = (Inr 0, t)
    \<and> aux_stores (hist t) = [(AUX_DMACHPRI, 2), (AUX_DC_FLDL, 0x1000), (AUX_DC_FLDL, 0x1040), (AUX_DC_FLDL, 0x2000)] @ launch_stores True 1"
proof -
  have l: "lines_of 6 0x1000 16 = [0x1000]" "lines_of 6 0x1040 16 = [0x1040]" "lines_of 6 0x2004 4 = [0x2000]"
    by (simp_all add: n_lines_def lines_of_def lines_from_def)
  have f: "flushable 6 sample_udma_mach 8 0x1000 16" "flushable 6 sample_udma_mach 8 0x1040 16" "flushable 6 sample_udma_mach 8 0x2004 4"
    by (simp_all add: flushable_def n_lines_def)
  have fs: "flushable 6 sample_udma_mach 8 x 16" if "x \<in> set [0x1000, 0x1040]" for x using f that by auto
  have small: "dmac_version sample_udma > 1" "chn_channel sample_chn < all_channel_num sample_udma"
    "\<not> DMA_CHECK_REGISTER sample_udma (chn_channel sample_chn)"
    by (simp_all add: DMA_CHECK_REGISTER_def memory_channel_num_def word_le_nat_alt)
  from udma_start_launches [OF small(1) _ _ _ small(2) _ small(3) _ _ _ fs, where p = sample_udma_plat
      and c = "0x3000" and ds = "[0x1000, 0x1040]" and base = "0x2000" and callback = "0x400" and priority = 1]
  show ?thesis using l f dc_responsive_udma by (auto simp: DMACHANNEL_def)
qed

subsection \<open>Polling\<close>

text \<open>What a poll of the status makes of two steady status registers.\<close>

definition poll_result :: "u32 \<Rightarrow> u32 \<Rightarrow> u32 \<Rightarrow> u32" where
  "poll_result m stat1 stat0 = (if stat1 AND m = 0 then DMA_BUSY else if stat1 AND push_bit 16 m \<noteq> 0 then DMA_ERROR
     else if stat0 AND m \<noteq> 0 then DMA_BUSY else DMA_IDLE)"

lemma wait_status_steady:
  assumes "\<And>h. aux_in p h AUX_DMACSTAT1 = stat1" "\<And>h. aux_in p h AUX_DMACSTAT0 = stat0"
  shows "\<exists>h. run_state (dmac_wait_channel_status p ch) s = (poll_result (DMACHANNEL ch) stat1 stat0, s\<lparr>hist := h @ hist s\<rparr>)"
proof (cases "stat1 AND DMACHANNEL ch = 0 \<or> stat1 AND push_bit 16 (DMACHANNEL ch) \<noteq> 0")
  case True
  then show ?thesis using assms by (intro exI [of _ "[Aux_rd AUX_DMACSTAT1 stat1]"]) (auto simp: dmac_wait_channel_status_def poll_result_def)
next
  case False
  then show ?thesis using assms
    by (intro exI [of _ "[Aux_rd AUX_DMACSTAT0 stat0, Aux_rd AUX_DMACSTAT1 stat1]"]) (auto simp: dmac_wait_channel_status_def poll_result_def)
qed

lemma wait_loop_done: "chn_status (uchn s c) \<noteq> DMA_BUSY \<Longrightarrow> run_state (dma_wait_loop (Suc n) p c ch) s = (Inr (), s)"
  by simp

lemma wait_loop_steady:
  fixes s :: "'a udma_mach_scheme"
  assumes l: "\<And>h. aux_in p h AUX_DMACSTAT1 = stat1" "\<And>h. aux_in p h AUX_DMACSTAT0 = stat0"
    and b: "poll_result (DMACHANNEL ch) stat1 stat0 = DMA_BUSY"
  shows "chn_status (uchn s c) = DMA_BUSY \<Longrightarrow> chn_int_en (uchn s c) = DMA_INT_DISABLE
    \<Longrightarrow> fst (run_state (dma_wait_loop n p c ch) s) = Inl Hang"
proof (induction n arbitrary: s)
  case (Suc n)
  obtain h where h: "run_state (dmac_wait_channel_status p ch) s = (DMA_BUSY, s\<lparr>hist := h @ hist s\<rparr>)"
    using wait_status_steady [OF l, of ch s] b by auto
  let ?t = "s\<lparr>hist := h @ hist s, uchn := (uchn s)(c := (uchn s c)\<lparr>chn_status := DMA_BUSY\<rparr>)\<rparr>"
  have "fst (run_state (dma_wait_loop n p c ch) ?t) = Inl Hang" using Suc.prems by (intro Suc.IH) simp_all
  then show ?case using Suc.prems h by simp
qed simp

text \<open>
  C14: waiting for a busy polled channel of a structure with a descriptor and a channel is decided by the two status registers: with steady registers it
  returns the error status when the completion bit and the error bit are set, the idle status when the completion bit is set,
  the error bit is clear and the channel is no longer active, and otherwise never returns, whatever the
  fuel; in particular it never returns when a failing transfer sets the error bit alone.
\<close>

theorem udma_wait_decided:
  fixes s :: "'a udma_mach_scheme"
  assumes c: "c \<noteq> 0" "chn_desc (uchn s c) \<noteq> 0" "chn_channel (uchn s c) < all_channel_num k"
      "chn_status (uchn s c) = DMA_BUSY" "chn_int_en (uchn s c) = DMA_INT_DISABLE"
    and l: "\<And>h. aux_in p h AUX_DMACSTAT1 = stat1" "\<And>h. aux_in p h AUX_DMACSTAT0 = stat0"
  defines "m \<equiv> DMACHANNEL (chn_channel (uchn s c))"
  shows "fst (run_state (dmac_wait_channel p (Suc (Suc n)) k c) s) =
    (if stat1 AND m = 0 then Inl Hang
     else if stat1 AND push_bit 16 m \<noteq> 0 then Inr DMA_ERROR
     else if stat0 AND m \<noteq> 0 then Inl Hang else Inr DMA_IDLE)"
proof (cases "poll_result m stat1 stat0 = DMA_BUSY")
  case True
  then have "fst (run_state (dma_wait_loop (Suc (Suc n)) p c (chn_channel (uchn s c))) s) = Inl Hang"
    using wait_loop_steady [OF l, of "chn_channel (uchn s c)" s c "Suc (Suc n)"] c(4,5) by (simp only: m_def)
  then have "fst (run_state (dmac_wait_channel p (Suc (Suc n)) k c) s) = Inl Hang"
    using c by (cases "run_state (dma_wait_loop (Suc (Suc n)) p c (chn_channel (uchn s c))) s")
      (simp add: dmac_wait_channel_def on_channel_def del: dma_wait_loop.simps)
  then show ?thesis using True by (auto simp: poll_result_def split: if_splits)
next
  case False
  obtain h where h: "run_state (dmac_wait_channel_status p (chn_channel (uchn s c))) s = (poll_result m stat1 stat0, s\<lparr>hist := h @ hist s\<rparr>)"
    using wait_status_steady [OF l] m_def by blast
  have "fst (run_state (dmac_wait_channel p (Suc (Suc n)) k c) s) = Inr (poll_result m stat1 stat0)"
    using c h False by (simp add: dmac_wait_channel_def on_channel_def)
  then show ?thesis using False by (auto simp: poll_result_def split: if_splits)
qed

lemma udma_wait_decided_witness:
  "fst (run_state (dmac_wait_channel (sample_plat\<lparr>aux_in := \<lambda>h a. if a = AUX_DMACSTAT1 then 0x20000 else 0\<rparr>) (Suc (Suc 1)) sample_udma 0x3000)
     (sample_udma_mach\<lparr>uchn := \<lambda>_. sample_chn\<lparr>chn_status := DMA_BUSY\<rparr>\<rparr>)) = Inl Hang"
  using udma_wait_decided [of "0x3000" "sample_udma_mach\<lparr>uchn := \<lambda>_. sample_chn\<lparr>chn_status := DMA_BUSY\<rparr>\<rparr>" sample_udma
    "sample_plat\<lparr>aux_in := \<lambda>h a. if a = AUX_DMACSTAT1 then 0x20000 else 0\<rparr>" "0x20000" 0 1]
  by (simp add: DMACHANNEL_def)

subsection \<open>Descriptors\<close>

text \<open>The bytes of an item and the distance of two items in memory, for the \<open>DWINC\<close> codes that move data.\<close>

definition dw_width :: "u32 \<Rightarrow> nat" where
  "dw_width dw = (if dw \<le> 2 then 1 else if dw \<le> 4 then 2 else if dw = 5 then 4 else 8)"

definition dw_inc :: "u32 \<Rightarrow> nat" where
  "dw_inc dw = (if dw = 0 then 1 else if dw = 1 \<or> dw = 3 then 2 else if dw = 2 \<or> dw = 4 \<or> dw = 5 then 4 else 8)"

definition dwinc_of :: "u32 \<Rightarrow> u32" where "dwinc_of v = drop_bit 5 (v AND DMACTRLx_DWINC_MASK)"

lemma field_kept: "(y :: u32) AND mm = y \<Longrightarrow> c AND mm = 0 \<Longrightarrow> ((v AND NOT mm) OR y) AND c = v AND c"
  by (auto simp: bit_eq_iff bit_and_iff bit_or_iff bit_not_iff)

lemma field_set: "(y :: u32) AND mm = y \<Longrightarrow> ((v AND NOT mm) OR y) AND mm = y"
  by (auto simp: bit_eq_iff bit_and_iff bit_or_iff bit_not_iff)

lemma size_field_bound: "m < 8192 \<Longrightarrow> push_bit 8 (of_nat m :: u32) AND DMACTRLx_SIZE_MASK = push_bit 8 (of_nat m)"
proof -
  assume m: "m < 8192"
  have "take_bit 13 (of_nat m :: u32) = of_nat m" using m by (simp add: take_bit_of_nat take_bit_nat_eq_self)
  then have "\<And>i. bit (of_nat m :: u32) i \<Longrightarrow> i < 13" by (metis bit_take_bit_iff)
  moreover have "DMACTRLx_SIZE_MASK = push_bit 8 (mask 13)" by (simp add: mask_eq_exp_minus_1)
  ultimately show ?thesis by (auto simp: bit_eq_iff bit_and_iff bit_push_bit_iff bit_mask_iff)
qed

lemma drop_push_small: "m < 2 ^ 24 \<Longrightarrow> drop_bit 8 (push_bit 8 (of_nat m :: u32)) = of_nat m"
proof -
  assume m: "m < 2 ^ 24"
  have "take_bit 24 (of_nat m :: u32) = of_nat m" using m by (simp add: take_bit_of_nat take_bit_nat_eq_self)
  then have "\<And>i. bit (of_nat m :: u32) i \<Longrightarrow> i < 24" by (metis bit_take_bit_iff)
  then show ?thesis by (auto simp: bit_eq_iff bit_drop_bit_eq bit_push_bit_iff)
qed

lemma drop_bit_of_small:
  assumes m: "m < 2 ^ 32"
  shows "drop_bit j (of_nat m :: u32) = of_nat (m div 2 ^ j)"
proof -
  have "unat (drop_bit j (of_nat m :: u32)) = drop_bit j (unat (of_nat m :: u32))" by (rule unat_drop_bit_eq)
  also have "\<dots> = unat (of_nat (m div 2 ^ j) :: u32)"
    using m le_less_trans [OF div_le_dividend m] by (simp add: unat_of_nat drop_bit_eq_div [of j m])
  finally show ?thesis by (simp only: word_unat_eq_iff)
qed

lemma align_of_small: "m < 2 ^ 32 \<Longrightarrow> (of_nat m :: u32) AND NOT (mask j) = of_nat (2 ^ j * (m div 2 ^ j))"
proof -
  assume m: "m < 2 ^ 32"
  have "(of_nat m :: u32) AND NOT (mask j) = push_bit j (drop_bit j (of_nat m))"
    by (auto simp: bit_eq_iff bit_and_iff bit_not_iff bit_mask_iff bit_push_bit_iff bit_drop_bit_eq)
  then show ?thesis using m by (simp add: drop_bit_of_small push_bit_of_nat push_bit_eq_mult mult.commute)
qed

text \<open>The control word a descriptor gets for a size of \<open>m + 1\<close> bytes.\<close>

definition sized :: "u32 \<Rightarrow> nat \<Rightarrow> u32" where
  "sized v m = (v AND NOT DMACTRLx_SIZE_MASK) OR push_bit 8 (of_nat m)"

lemma sized_fields:
  assumes m: "m < 8192"
  shows "drop_bit 8 (sized v m AND DMACTRLx_SIZE_MASK) = of_nat m" "c AND DMACTRLx_SIZE_MASK = 0 \<Longrightarrow> sized v m AND c = v AND c"
  unfolding sized_def
  using m field_set [OF size_field_bound [OF m]] field_kept [OF size_field_bound [OF m]] drop_push_small [of m] by simp_all

lemma dwinc_lt: "dwinc_of v < 8"
proof -
  have "dwinc_of v = drop_bit 5 v AND mask 3" by (simp add: dwinc_of_def drop_bit_and mask_eq_exp_minus_1)
  then have "dwinc_of v = take_bit 3 (drop_bit 5 v)" by (simp only: take_bit_eq_mask)
  then have "unat (dwinc_of v) = take_bit 3 (unat (drop_bit 5 v))" by (simp only: unsigned_take_bit_eq)
  then show ?thesis using take_bit_nat_less_exp [of 3 "unat (drop_bit 5 v)"] by (simp add: word_less_nat_alt)
qed

lemma dwinc_cases:
  assumes n: "dwinc_of v \<noteq> 6"
  obtains "dwinc_of v = 0" | "dwinc_of v = 1" | "dwinc_of v = 2" | "dwinc_of v = 3" | "dwinc_of v = 4" | "dwinc_of v = 5" | "dwinc_of v = 7"
proof -
  have "unat (dwinc_of v) < 8" using dwinc_lt [of v] by (simp add: word_less_nat_alt)
  moreover have "dwinc_of v = of_nat (unat (dwinc_of v))" by simp
  ultimately obtain j where j: "dwinc_of v = of_nat j" "j < 8" by blast
  then have "j = 0 \<or> j = 1 \<or> j = 2 \<or> j = 3 \<or> j = 4 \<or> j = 5 \<or> j = 6 \<or> j = 7" by linarith
  then show thesis using that n unfolding j(1) by (elim disjE) simp_all
qed

lemma item_div: "0 < n \<Longrightarrow> 0 < (w :: nat) \<Longrightarrow> (n * w - 1) div w = n - 1"
proof -
  assume nw: "0 < n" "0 < w"
  then have e: "n * w - 1 = (w - 1) + (n - 1) * w" by (cases n) simp_all
  have "((w - 1) + (n - 1) * w) div w = n - 1 + (w - 1) div w" using nw by (intro div_mult_self1) simp
  then show ?thesis unfolding e using nw by simp
qed

lemma memory_gap:
  assumes n: "0 < n" "n * dw_width (dwinc_of v) \<le> 8192" and d: "dwinc_of v \<noteq> 6"
  shows "dmac_memory_addr_gap (sized v (n * dw_width (dwinc_of v) - 1)) = of_nat ((n - 1) * dw_inc (dwinc_of v))"
proof -
  let ?m = "n * dw_width (dwinc_of v) - 1"
  have m: "?m < 8192" "?m < 2 ^ 32" using n by (auto simp: dw_width_def split: if_splits)
  have f: "drop_bit 8 (sized v ?m AND DMACTRLx_SIZE_MASK) = of_nat ?m" "drop_bit 5 (sized v ?m AND DMACTRLx_DWINC_MASK) = dwinc_of v"
    using sized_fields [OF m(1)] by (simp_all add: dwinc_of_def)
  have al: "(of_nat ?m :: u32) AND NOT 1 = of_nat (2 * (?m div 2))" "(of_nat ?m :: u32) AND NOT 3 = of_nat (4 * (?m div 4))"
    "(of_nat ?m :: u32) AND NOT 7 = of_nat (8 * (?m div 8))"
    using align_of_small [OF m(2), of 1] align_of_small [OF m(2), of 2] align_of_small [OF m(2), of 3]
    by (simp_all add: mask_eq_exp_minus_1)
  from d show ?thesis
    by (rule dwinc_cases; unfold dmac_memory_addr_gap_def Let_def f al)
      (simp_all add: dw_width_def dw_inc_def item_div [OF n(1)] item_div [OF n(1), unfolded One_nat_def] push_bit_of_nat push_bit_eq_mult mult.commute)
qed

lemma aux_gap:
  assumes n: "0 < n" "n * dw_width (dwinc_of v) \<le> 8192" and d: "dwinc_of v \<notin> {6, 7}"
  shows "dmac_aux_addr_gap (sized v (n * dw_width (dwinc_of v) - 1)) = of_nat (n - 1)"
proof -
  let ?m = "n * dw_width (dwinc_of v) - 1"
  have m: "?m < 8192" "?m < 2 ^ 32" using n by (auto simp: dw_width_def split: if_splits)
  have f: "drop_bit 8 (sized v ?m AND DMACTRLx_SIZE_MASK) = of_nat ?m" "drop_bit 5 (sized v ?m AND DMACTRLx_DWINC_MASK) = dwinc_of v"
    using sized_fields [OF m(1)] by (simp_all add: dwinc_of_def)
  have dr: "drop_bit 1 (of_nat ?m :: u32) = of_nat (?m div 2)" "drop_bit 2 (of_nat ?m :: u32) = of_nat (?m div 4)"
    using drop_bit_of_small [OF m(2), of 1] drop_bit_of_small [OF m(2), of 2] by simp_all
  from d have "dwinc_of v \<noteq> 6" by simp
  then show ?thesis
    by (rule dwinc_cases; unfold dmac_aux_addr_gap_def Let_def f dr)
      (insert d, simp_all add: dw_width_def item_div [OF n(1)] item_div [OF n(1), unfolded One_nat_def])
qed

text \<open>Where the last of \<open>n\<close> items lies.\<close>

definition last_item :: "bool \<Rightarrow> bool \<Rightarrow> u32 \<Rightarrow> nat \<Rightarrow> u32 \<Rightarrow> u32" where
  "last_item inc aux dw n a = (if \<not> inc then a else if aux then a + of_nat (n - 1) else a + of_nat ((n - 1) * dw_inc dw))"

text \<open>
  C11: configuring a descriptor for \<open>n > 0\<close> items of a byte, half-word or word, at most 8192 bytes in all, with a mode other than clear and double word, returns 0 and stores the mode of the
  caller with the size field set to the number of bytes less one and every other field kept, the
  addresses of the last items of the source and of the destination (the addresses themselves when the
  mode does not increment them), and no link; other descriptors are kept.
\<close>

theorem udma_desc_addresses_last_item:
  fixes s :: "'a udma_mach_scheme"
  assumes d: "d \<noteq> 0" and v: "v = get32 (mem s) ctrl"
    and n: "0 < n" "n * dw_width (dwinc_of v) \<le> 8192" and w: "dwinc_of v \<notin> {6, 7}"
  shows "\<exists>t. run_state (dmac_config_desc d src dst (of_nat (n * dw_width (dwinc_of v))) ctrl) s = (0, t)
    \<and> (\<forall>y. y \<noteq> d \<longrightarrow> udesc t y = udesc s y) \<and> DMALLPx (udesc t d) = 0
    \<and> unat (drop_bit 8 (DMACTRLx (udesc t d) AND DMACTRLx_SIZE_MASK)) = n * dw_width (dwinc_of v) - 1
    \<and> (\<forall>c. c AND DMACTRLx_SIZE_MASK = 0 \<longrightarrow> DMACTRLx (udesc t d) AND c = v AND c)
    \<and> DMASARx (udesc t d) = last_item (bit v 30) (bit v 4) (dwinc_of v) n src
    \<and> DMADARx (udesc t d) = last_item (bit v 31) (bit v 3) (dwinc_of v) n dst"
proof -
  let ?m = "n * dw_width (dwinc_of v) - 1"
  have m: "?m < 8192" "?m < 2 ^ 32" using n by (auto simp: dw_width_def split: if_splits)
  have pos: "0 < n * dw_width (dwinc_of v)" using n(1) by (simp add: dw_width_def)
  then have sz: "(of_nat (n * dw_width (dwinc_of v)) :: u32) - 1 = of_nat ?m" by (simp add: of_nat_diff)
  have one: "((x :: u32) AND push_bit j 1 = 0) = (\<not> bit x j)" "(push_bit j 1 AND x = 0) = (\<not> bit x j)" if "j < 32" for x j
    using that by (auto simp: bit_iff_and_push_bit_not_eq_0 and.commute)
  have k: "sized v ?m AND c = v AND c" if "c AND DMACTRLx_SIZE_MASK = 0" for c using sized_fields(2) [OF m(1) that] .
  have bits: "(sized v ?m AND DMACTRLx_AM 1 = 0) = (\<not> bit v 30)" "(sized v ?m AND DMACTRLx_AM 2 = 0) = (\<not> bit v 31)"
    "(DMACTRLx_DTT 1 AND sized v ?m = 0) = (\<not> bit v 3)" "(DMACTRLx_DTT 2 AND sized v ?m = 0) = (\<not> bit v 4)"
    using one(1) [of 30 v] one(1) [of 31 v] one(1) [of 3 v] one(1) [of 4 v] k [of "push_bit 30 1"] k [of "push_bit 31 1"] k [of "push_bit 3 1"] k [of "push_bit 4 1"]
    by (simp_all add: DMACTRLx_AM_def DMACTRLx_DTT_def and.commute [of _ "sized v _"])
  have src: "dmac_calc_src_endaddr src (sized v ?m) = last_item (bit v 30) (bit v 4) (dwinc_of v) n src"
    using w memory_gap [OF n] aux_gap [OF n w] unfolding dmac_calc_src_endaddr_def bits last_item_def by simp
  have dst: "dmac_calc_dst_endaddr dst (sized v ?m) = last_item (bit v 31) (bit v 3) (dwinc_of v) n dst"
    using w memory_gap [OF n] aux_gap [OF n w] unfolding dmac_calc_dst_endaddr_def bits last_item_def by simp
  have set_d: "run_state (dmac_set_desc d src dst (of_nat (n * dw_width (dwinc_of v))) v) s = ((), s\<lparr>udesc := (udesc s)(d := \<lparr>DMACTRLx = sized v ?m,
      DMASARx = last_item (bit v 30) (bit v 4) (dwinc_of v) n src, DMADARx = last_item (bit v 31) (bit v 3) (dwinc_of v) n dst, DMALLPx = 0\<rparr>)\<rparr>)"
    unfolding dmac_set_desc_def Let_def sz DMACTRLx_SIZE_def src [symmetric] dst [symmetric] by (simp add: sized_def)
  have u: "unat (drop_bit 8 (sized v ?m AND DMACTRLx_SIZE_MASK)) = ?m" unfolding sized_fields(1) [OF m(1)] unat_of_nat using m by simp
  have "run_state (dmac_config_desc d src dst (of_nat (n * dw_width (dwinc_of v))) ctrl) s
      = (case run_state (dmac_set_desc d src dst (of_nat (n * dw_width (dwinc_of v))) v) s of (x, t) \<Rightarrow> (0, t))"
    using d unfolding dmac_config_desc_def v by simp
  then show ?thesis using u k unfolding set_d by simp
qed

lemma udma_desc_addresses_last_item_witness:
  "\<exists>t. run_state (dmac_config_desc 0x1000 0x4000 0x5000 8 0x6000)
       (sample_udma_mach\<lparr>mem := put32 0x6000 0xC00000A0 (mem sample_udma_mach)\<rparr>) = (0, t)
    \<and> DMASARx (udesc t 0x1000) = 0x4004 \<and> DMADARx (udesc t 0x1000) = 0x5004"
proof -
  have v: "0xC00000A0 = get32 (mem (sample_udma_mach\<lparr>mem := put32 0x6000 0xC00000A0 (mem sample_udma_mach)\<rparr>)) 0x6000"
    by simp
  have w: "dwinc_of 0xC00000A0 = 5" "dw_width 5 = 4" "dw_inc 5 = 4" by (simp_all add: dwinc_of_def dw_width_def dw_inc_def)
  from udma_desc_addresses_last_item [OF _ v, of "0x1000" 2 "0x4000" "0x5000"]
  show ?thesis by (auto simp: w last_item_def)
qed

subsection \<open>The table of channels\<close>

definition claimed :: "u32 \<Rightarrow> u32 \<Rightarrow> dma_channel \<Rightarrow> dma_channel" where
  "claimed ch source c = c\<lparr>chn_source := source, chn_callback := 0, chn_status := DMA_IDLE, chn_channel := ch\<rparr>"

definition claim :: "u32 \<Rightarrow> u32 \<Rightarrow> u32 \<Rightarrow> 'a udma_mach_scheme \<Rightarrow> 'a udma_mach_scheme" where
  "claim ch c source s = s\<lparr>dma_chns := (dma_chns s)(g_dmac s := (dma_chns s (g_dmac s))(ch := c)),
     uchn := (uchn s)(c := claimed ch source (uchn s c))\<rparr>"

lemma run_claim: "run_state (dma_claim_channel ch c source) s = ((), claim ch c source s)"
  by (simp add: dma_claim_channel_def claim_def claimed_def)

lemma claim_twice: "run_state (do { set_slot ch c; dma_claim_channel ch c source; State_Monad.return ch }) s = (ch, claim ch c source s)"
  by (simp add: run_claim) (simp add: claim_def)

text \<open>The channels free in the table, lowest first.\<close>

definition free_channels :: "udma_cfg \<Rightarrow> 'a udma_mach_scheme \<Rightarrow> u32 list" where
  "free_channels k s = [of_nat i. i \<leftarrow> [0..<unat (all_channel_num k)], dma_chns s (g_dmac s) (of_nat i) = 0]"

lemma reserve_any_first:
  "run_state (reserve_any n (of_nat i) c source) s =
    (case [of_nat j. j \<leftarrow> [i..<i + n], dma_chns s (g_dmac s) (of_nat j) = 0] of
       [] \<Rightarrow> (DMA_CHN_INVALID, s) | ch # _ \<Rightarrow> (ch, claim ch c source s))"
proof (induction n arbitrary: i)
  case (Suc n)
  have u: "[i..<i + Suc n] = i # [Suc i..<Suc i + n]" by (simp add: upt_conv_Cons)
  have i: "(of_nat i :: u32) + 1 = of_nat (Suc i)" by simp
  show ?case
  proof (cases "dma_chns s (g_dmac s) (of_nat i) = 0")
    case True
    then show ?thesis unfolding u reserve_any.simps using claim_twice [of "of_nat i" c source s] by simp
  next
    case False
    then show ?thesis unfolding u reserve_any.simps i using Suc.IH [of "Suc i"] by simp
  qed
qed simp

text \<open>
  C12: reserving any channel takes the lowest free one: it returns it, enters the channel structure in the table and
  marks the structure as the idle owner of that channel, nothing else changing; with no free channel it returns the
  invalid channel and changes nothing. Releasing a structure that has a descriptor gives the table back as it was and
  leaves the structure without a channel; one without a descriptor, as \<open>dmac_init_channel\<close> leaves it, is refused with \<open>-1\<close>
  and keeps its channel.
\<close>

theorem udma_reserve_lowest_free_roundtrip:
  fixes s :: "'a udma_mach_scheme"
  assumes c: "c \<noteq> 0"
  shows "case free_channels k s of
      [] \<Rightarrow> run_state (dmac_reserve_channel k DMA_CHN_ANY c source) s = (DMA_CHN_INVALID, s)
    | ch # _ \<Rightarrow> run_state (dmac_reserve_channel k DMA_CHN_ANY c source) s = (ch, claim ch c source s) \<and> ch < all_channel_num k
        \<and> (if chn_desc (uchn s c) = 0 then run_state (dmac_release_channel k c) (claim ch c source s) = (Inr (- 1), claim ch c source s)
           else \<exists>t. run_state (dmac_release_channel k c) (claim ch c source s) = (Inr 0, t)
             \<and> dma_chns t = dma_chns s \<and> free_channels k t = free_channels k s \<and> chn_channel (uchn t c) = DMA_CHN_INVALID)"
proof -
  have "run_state (dmac_reserve_channel k DMA_CHN_ANY c source) s = run_state (reserve_any (unat (all_channel_num k)) (of_nat 0) c source) s"
    using c by (simp add: dmac_reserve_channel_def)
  also have "\<dots> = (case free_channels k s of [] \<Rightarrow> (DMA_CHN_INVALID, s) | ch # _ \<Rightarrow> (ch, claim ch c source s))"
    by (simp only: reserve_any_first free_channels_def add_0)
  finally have r: "run_state (dmac_reserve_channel k DMA_CHN_ANY c source) s = (case free_channels k s of [] \<Rightarrow> (DMA_CHN_INVALID, s) | ch # _ \<Rightarrow> (ch, claim ch c source s))" .
  show ?thesis
  proof (cases "free_channels k s")
    case Nil
    then show ?thesis by (simp add: r)
  next
    case (Cons ch chs)
    then have ch: "ch \<in> set (free_channels k s)" by simp
    then have lt: "ch < all_channel_num k" and fr: "dma_chns s (g_dmac s) ch = 0"
      by (auto simp: free_channels_def word_less_nat_alt unat_of_nat take_bit_nat_less_eq_self le_less_trans [OF take_bit_nat_less_eq_self] split: if_splits)
    have upd: "(dma_chns s (g_dmac s))(ch := 0) = dma_chns s (g_dmac s)" using fr by (simp add: fun_upd_idem)
    have no: "run_state (dmac_release_channel k c) (claim ch c source s) = (Inr (- 1), claim ch c source s)" if "chn_desc (uchn s c) = 0"
      using c that by (simp add: dmac_release_channel_def on_channel_def claim_def claimed_def)
    have "\<exists>t. run_state (dmac_release_channel k c) (claim ch c source s) = (Inr 0, t) \<and> dma_chns t = dma_chns s
        \<and> g_dmac t = g_dmac s \<and> chn_channel (uchn t c) = DMA_CHN_INVALID" if "chn_desc (uchn s c) \<noteq> 0"
      using c that lt upd by (simp add: dmac_release_channel_def on_channel_def claim_def claimed_def dmac_access_defs fun_upd_idem)
    then have yes: "\<exists>t. run_state (dmac_release_channel k c) (claim ch c source s) = (Inr 0, t) \<and> dma_chns t = dma_chns s
        \<and> free_channels k t = free_channels k s \<and> chn_channel (uchn t c) = DMA_CHN_INVALID" if "chn_desc (uchn s c) \<noteq> 0"
      using that by (fastforce simp: free_channels_def)
    show ?thesis using Cons lt no yes by (simp add: r)
  qed
qed

subsection \<open>Completion\<close>

text \<open>The channels whose bit is set, from \<open>ch\<close> on.\<close>

fun set_channels :: "nat \<Rightarrow> u32 \<Rightarrow> u32 \<Rightarrow> u32 list" where
  "set_channels 0 status ch = []"
| "set_channels (Suc n) status ch = (if status AND 1 \<noteq> 0 then [ch] else []) @ set_channels n (drop_bit 1 status) (ch + 1)"

lemma set_channels_bits: "i + n \<le> 32 \<Longrightarrow> set_channels n (drop_bit i status) (of_nat i) = [of_nat j. j \<leftarrow> [i..<i + n], bit status j]"
proof (induction n arbitrary: i)
  case (Suc n)
  have u: "[i..<i + Suc n] = i # [Suc i..<Suc i + n]" by (simp add: upt_conv_Cons)
  have i: "(of_nat i :: u32) + 1 = of_nat (Suc i)" "drop_bit 1 (drop_bit i status) = drop_bit (Suc i) status" by simp_all
  have b: "(drop_bit i status AND 1 \<noteq> 0) = bit status i" by (simp add: and_one_eq bit_iff_odd_drop_bit odd_iff_mod_2_eq_one [symmetric])
  show ?case unfolding u set_channels.simps b i using Suc.IH [of "Suc i"] Suc.prems by simp
qed simp

lemma status_loop_run:
  fixes u :: "'a udma_mach_scheme"
  assumes serve: "\<And>ch u :: 'a udma_mach_scheme. ch \<in> C \<Longrightarrow> (\<And>i. dma_chns u (g_dmac u) i = sl i) \<Longrightarrow> (\<And>c. chn_callback (uchn u c) = cbs c)
      \<Longrightarrow> \<exists>t. run_state (serve ch) u = (Inr (), t) \<and> hist t = ev ch @ hist u \<and> uchn t = (uchn u)(sl ch := (uchn u (sl ch))\<lparr>chn_status := st\<rparr>)
           \<and> dma_chns t = dma_chns u \<and> g_dmac t = g_dmac u"
  shows "set (set_channels n status ch) \<subseteq> C \<Longrightarrow> (\<And>i. dma_chns u (g_dmac u) i = sl i) \<Longrightarrow> (\<And>c. chn_callback (uchn u c) = cbs c)
    \<Longrightarrow> \<exists>t. run_state (status_loop n serve status ch) u = (Inr (), t) \<and> hist t = concat (map ev (rev (set_channels n status ch))) @ hist u
      \<and> uchn t = (\<lambda>c. if c \<in> sl ` set (set_channels n status ch) then (uchn u c)\<lparr>chn_status := st\<rparr> else uchn u c)
      \<and> dma_chns t = dma_chns u \<and> g_dmac t = g_dmac u"
proof (induction n arbitrary: status ch u)
  case (Suc n)
  show ?case
  proof (cases "status AND 1 = 0")
    case True
    then show ?thesis using Suc.IH [of "drop_bit 1 status" "ch + 1" u] Suc.prems by (simp add: c_ifE_def)
  next
    case False
    from Suc.prems(1) False have "ch \<in> C" by simp
    from serve [OF this Suc.prems(2,3)] obtain t where t: "run_state (serve ch) u = (Inr (), t)" "hist t = ev ch @ hist u"
      "uchn t = (uchn u)(sl ch := (uchn u (sl ch))\<lparr>chn_status := st\<rparr>)" "dma_chns t = dma_chns u" "g_dmac t = g_dmac u" by blast
    have "set (set_channels n (drop_bit 1 status) (ch + 1)) \<subseteq> C" "\<And>i. dma_chns t (g_dmac t) i = sl i" "\<And>c. chn_callback (uchn t c) = cbs c"
      using Suc.prems t by (auto split: if_splits)
    from Suc.IH [OF this] obtain t' where t': "run_state (status_loop n serve (drop_bit 1 status) (ch + 1)) t = (Inr (), t')"
      "hist t' = concat (map ev (rev (set_channels n (drop_bit 1 status) (ch + 1)))) @ hist t"
      "uchn t' = (\<lambda>c. if c \<in> sl ` set (set_channels n (drop_bit 1 status) (ch + 1)) then (uchn t c)\<lparr>chn_status := st\<rparr> else uchn t c)"
      "dma_chns t' = dma_chns t" "g_dmac t' = g_dmac t" by blast
    show ?thesis using False t t' by (intro exI [of _ t']) (auto simp: c_ifE_def fun_eq_iff)
  qed
qed (simp add: fun_eq_iff)

text \<open>What the handlers do to the devices for one channel, newest first; \<open>E\<close> is what the callbacks do.\<close>

definition callback_events :: "(u32 \<Rightarrow> u32 \<Rightarrow> access list) \<Rightarrow> 'a udma_mach_scheme \<Rightarrow> u32 \<Rightarrow> access list" where
  "callback_events E s ch = (let c = dma_chns s (g_dmac s) ch in if chn_callback (uchn s c) \<noteq> 0 then E (chn_callback (uchn s c)) c else [])"

lemma finish_run:
  fixes u :: "'a udma_mach_scheme"
  assumes cb: "\<And>f c u. run_state (cb f c) u = ((), u\<lparr>hist := E f c @ hist u\<rparr>)" and ch: "ch < all_channel_num k" "dma_chns u (g_dmac u) ch \<noteq> 0"
  shows "\<exists>t. run_state (dma_finish_channel cb k ch st) u = (Inr (), t) \<and> hist t = callback_events E u ch @ hist u
    \<and> uchn t = (uchn u)(dma_chns u (g_dmac u) ch := (uchn u (dma_chns u (g_dmac u) ch))\<lparr>chn_status := st\<rparr>)
    \<and> dma_chns t = dma_chns u \<and> g_dmac t = g_dmac u"
proof -
  have "(all_channel_num k \<le> ch) = False" using ch(1) by (simp add: not_le)
  then show ?thesis using ch(2) cb by (simp add: dma_finish_channel_def callback_events_def c_if_def Let_def)
qed

text \<open>
  C13: with one interrupt line, at most 16 channels, every pending channel reserved, and callbacks that do no more than
  accesses of their own (any that depend on their arguments alone), the completion handler serves exactly the channels whose completion bit is
  set, lowest first, and the error handler
  exactly those whose error bit is set: each is acknowledged (an error is cleared as well), disabled, its
  structure gets the idle or the error status, and its callback, if any, is called once, after that; no other structure and no
  other register is touched. A pending channel that nobody reserved is outside this: the handler follows its null pointer.
\<close>

theorem udma_handlers_serve_pending:
  fixes s :: "'a udma_mach_scheme" and cb :: "'a dma_callback"
  assumes k: "\<not> multi_irq k" "all_channel_num k \<le> 16"
    and cb: "\<And>f c u. run_state (cb f c) u = ((), u\<lparr>hist := E f c @ hist u\<rparr>)"
    and stat: "aux_in p (hist s) AUX_DMACSTAT1 = status"
    and res: "\<And>j. j < unat (all_channel_num k) \<Longrightarrow> bit status j \<or> bit status (16 + j) \<Longrightarrow> dma_chns s (g_dmac s) (of_nat j) \<noteq> 0"
  defines "done \<equiv> [of_nat j. j \<leftarrow> [0..<unat (all_channel_num k)], bit status j]"
    and "failed \<equiv> [of_nat j. j \<leftarrow> [0..<unat (all_channel_num k)], bit status (16 + j)]"
    and "slot \<equiv> dma_chns s (g_dmac s)"
  shows "\<exists>t t'. run_state (dmac_interrupt_completed p cb k) s = (Inr (), t)
      \<and> hist t = concat (map (\<lambda>ch. callback_events E s ch @ [Aux_wr AUX_DMACDSB (DMACHANNEL ch), Aux_wr AUX_DMACIRQ (DMACHANNEL ch)]) (rev done))
          @ Aux_rd AUX_DMACSTAT1 status # hist s
      \<and> uchn t = (\<lambda>c. if c \<in> slot ` set done then (uchn s c)\<lparr>chn_status := DMA_IDLE\<rparr> else uchn s c)
      \<and> run_state (dmac_interrupt_error p cb k) s = (Inr (), t')
      \<and> hist t' = concat (map (\<lambda>ch. callback_events E s ch @ [Aux_wr AUX_DMACDSB (DMACHANNEL ch),
            Aux_wr AUX_DMACSTAT1 (push_bit 16 (DMACHANNEL ch)), Aux_wr AUX_DMACIRQ (DMACHANNEL ch)]) (rev failed))
          @ Aux_rd AUX_DMACSTAT1 status # hist s
      \<and> uchn t' = (\<lambda>c. if c \<in> slot ` set failed then (uchn s c)\<lparr>chn_status := DMA_ERROR\<rparr> else uchn s c)"
proof -
  let ?n = "unat (all_channel_num k)" and ?u = "s\<lparr>hist := Aux_rd AUX_DMACSTAT1 status # hist s\<rparr>"
  have n: "?n \<le> 16" using k(2) by (simp add: word_le_nat_alt)
  have d: "set_channels ?n status 0 = done" "set_channels ?n (drop_bit 16 status) 0 = failed"
    using set_channels_bits [of 0 ?n status] set_channels_bits [of 0 ?n "drop_bit 16 status"] n by (simp_all add: done_def failed_def bit_drop_bit_eq)
  let ?C = "{ch. ch < all_channel_num k \<and> ch < 32 \<and> slot ch \<noteq> 0}"
  have mem: "of_nat j \<in> ?C" if "j < ?n" "bit status j \<or> bit status (16 + j)" for j
    using that n res [OF that] by (simp add: slot_def word_less_nat_alt unat_of_nat take_bit_nat_eq_self)
  have sub: "set (set_channels ?n status 0) \<subseteq> ?C" "set (set_channels ?n (drop_bit 16 status) 0) \<subseteq> ?C"
    unfolding d done_def failed_def using mem by auto
  have ev: "callback_events E u ch = callback_events E s ch" if "\<And>i. dma_chns u (g_dmac u) i = slot i" "\<And>c. chn_callback (uchn u c) = chn_callback (uchn s c)"
    for u :: "'a udma_mach_scheme" and ch using that by (simp add: callback_events_def slot_def Let_def)
  have ok: "\<exists>t. run_state (dmac_interrupt_completed_channel cb k ch) u = (Inr (), t)
      \<and> hist t = (callback_events E s ch @ [Aux_wr AUX_DMACDSB (DMACHANNEL ch), Aux_wr AUX_DMACIRQ (DMACHANNEL ch)]) @ hist u
      \<and> uchn t = (uchn u)(slot ch := (uchn u (slot ch))\<lparr>chn_status := DMA_IDLE\<rparr>) \<and> dma_chns t = dma_chns u \<and> g_dmac t = g_dmac u"
    if "ch \<in> ?C" "\<And>i. dma_chns u (g_dmac u) i = slot i" "\<And>c. chn_callback (uchn u c) = chn_callback (uchn s c)" for ch and u :: "'a udma_mach_scheme"
    using that finish_run [where cb = cb, OF cb, of ch k "u\<lparr>hist := Aux_wr AUX_DMACDSB (DMACHANNEL ch) # Aux_wr AUX_DMACIRQ (DMACHANNEL ch) # hist u\<rparr>" DMA_IDLE]
      ev [of "u\<lparr>hist := Aux_wr AUX_DMACDSB (DMACHANNEL ch) # Aux_wr AUX_DMACIRQ (DMACHANNEL ch) # hist u\<rparr>" ch]
    by (auto simp: dmac_interrupt_completed_channel_def dmac_access_defs leD)
  have er: "\<exists>t. run_state (dmac_interrupt_error_channel cb k ch) u = (Inr (), t)
      \<and> hist t = (callback_events E s ch @ [Aux_wr AUX_DMACDSB (DMACHANNEL ch), Aux_wr AUX_DMACSTAT1 (push_bit 16 (DMACHANNEL ch)), Aux_wr AUX_DMACIRQ (DMACHANNEL ch)]) @ hist u
      \<and> uchn t = (uchn u)(slot ch := (uchn u (slot ch))\<lparr>chn_status := DMA_ERROR\<rparr>) \<and> dma_chns t = dma_chns u \<and> g_dmac t = g_dmac u"
    if "ch \<in> ?C" "\<And>i. dma_chns u (g_dmac u) i = slot i" "\<And>c. chn_callback (uchn u c) = chn_callback (uchn s c)" for ch and u :: "'a udma_mach_scheme"
    using that finish_run [where cb = cb, OF cb, of ch k "u\<lparr>hist := Aux_wr AUX_DMACDSB (DMACHANNEL ch) # Aux_wr AUX_DMACSTAT1 (push_bit 16 (DMACHANNEL ch)) # Aux_wr AUX_DMACIRQ (DMACHANNEL ch) # hist u\<rparr>" DMA_ERROR]
      ev [of "u\<lparr>hist := Aux_wr AUX_DMACDSB (DMACHANNEL ch) # Aux_wr AUX_DMACSTAT1 (push_bit 16 (DMACHANNEL ch)) # Aux_wr AUX_DMACIRQ (DMACHANNEL ch) # hist u\<rparr>" ch]
    by (auto simp: dmac_interrupt_error_channel_def dmac_access_defs leD)
  have u: "dma_chns ?u (g_dmac ?u) i = slot i" "chn_callback (uchn ?u c) = chn_callback (uchn s c)" for i c by (simp_all add: slot_def)
  have start: "run_state (dmac_interrupt_completed p cb k) s = run_state (status_loop ?n (dmac_interrupt_completed_channel cb k) status 0) ?u"
    "run_state (dmac_interrupt_error p cb k) s = run_state (status_loop ?n (dmac_interrupt_error_channel cb k) (drop_bit 16 status) 0) ?u"
    using k stat by (simp_all add: dmac_interrupt_completed_def dmac_interrupt_error_def dmac_complete_status_def)
  from status_loop_run [OF ok sub(1) u] obtain t where t: "run_state (dmac_interrupt_completed p cb k) s = (Inr (), t)"
      "hist t = concat (map (\<lambda>ch. callback_events E s ch @ [Aux_wr AUX_DMACDSB (DMACHANNEL ch), Aux_wr AUX_DMACIRQ (DMACHANNEL ch)]) (rev done)) @ hist ?u"
      "uchn t = (\<lambda>c. if c \<in> slot ` set done then (uchn ?u c)\<lparr>chn_status := DMA_IDLE\<rparr> else uchn ?u c)"
    unfolding d start(1) [symmetric] by blast
  from status_loop_run [OF er sub(2) u] obtain t' where t': "run_state (dmac_interrupt_error p cb k) s = (Inr (), t')"
      "hist t' = concat (map (\<lambda>ch. callback_events E s ch @ [Aux_wr AUX_DMACDSB (DMACHANNEL ch),
          Aux_wr AUX_DMACSTAT1 (push_bit 16 (DMACHANNEL ch)), Aux_wr AUX_DMACIRQ (DMACHANNEL ch)]) (rev failed)) @ hist ?u"
      "uchn t' = (\<lambda>c. if c \<in> slot ` set failed then (uchn ?u c)\<lparr>chn_status := DMA_ERROR\<rparr> else uchn ?u c)"
    unfolding d start(2) [symmetric] by blast
  show ?thesis by (rule exI [of _ t], rule exI [of _ t']) (simp add: t t' cong: if_cong)
qed

lemma udma_reserve_lowest_free_roundtrip_witness:
  "run_state (dmac_reserve_channel sample_udma DMA_CHN_ANY 0x3010 0) sample_udma_mach = (0, claim 0 0x3010 0 sample_udma_mach)"
proof -
  have "free_channels sample_udma sample_udma_mach = [0, 2, 3]" by (simp add: free_channels_def upt_rec)
  with udma_reserve_lowest_free_roundtrip [where c = "0x3010" and k = sample_udma and s = sample_udma_mach and source = 0] show ?thesis by simp
qed

lemma udma_handlers_serve_pending_witness:
  "\<exists>t. run_state (dmac_interrupt_completed (sample_plat\<lparr>aux_in := \<lambda>h a. 2\<rparr>) (\<lambda>f c. embarc_printf [] [f, c]) sample_udma)
     (sample_udma_mach\<lparr>uchn := \<lambda>_. sample_chn\<lparr>chn_callback := 7\<rparr>\<rparr>) = (Inr (), t)
    \<and> hist t = [Printf [] [7, 0x3000], Aux_wr AUX_DMACDSB 2, Aux_wr AUX_DMACIRQ 2, Aux_rd AUX_DMACSTAT1 2]"
proof -
  let ?p = "sample_plat\<lparr>aux_in := \<lambda>h a. 2\<rparr>" and ?s = "sample_udma_mach\<lparr>uchn := \<lambda>_. sample_chn\<lparr>chn_callback := 7\<rparr>\<rparr>"
  have cb: "\<And>f c u. run_state (embarc_printf [] [f, c]) u = ((), u\<lparr>hist := [Printf [] [f, c]] @ hist u\<rparr>)" by (simp add: embarc_printf_def)
  have b: "bit (2 :: u32) j \<longleftrightarrow> j = 1" for j :: nat using bit_exp_iff [where 'a = "32 word", of 1 j] by auto
  have st: "aux_in ?p (hist ?s) AUX_DMACSTAT1 = 2" by simp
  have sl: "dma_chns ?s (g_dmac ?s) (of_nat j) \<noteq> 0" if "j < unat (all_channel_num sample_udma)" "bit (2 :: u32) j \<or> bit (2 :: u32) (16 + j)" for j
    using that unfolding b by auto
  have k: "all_channel_num sample_udma \<le> 16" by (simp add: word_le_nat_alt)
  from udma_handlers_serve_pending [where cb = "\<lambda>f c. embarc_printf [] [f, c]" and E = "\<lambda>f c. [Printf [] [f, c]]" and p = ?p and s = ?s and k = sample_udma, OF _ k cb st sl]
  show ?thesis by (auto simp: b upt_rec callback_events_def DMACHANNEL_def)
qed

end
