(* ===== verification/ArcConnect.thy ===== *)
theory ArcConnect
  imports ArcIrq
begin

section \<open>ARConnect: commands to the inter-core unit (arc_connect.c, arc_mp.h)\<close>

text \<open>
  Every function of \<open>arc_connect.c\<close> is one command: a word of command and parameter, after a word of
  data where there is one, and a word read back, under the spin lock of the driver. On the HS family
  the lock is a word taken with \<open>llock\<close> and \<open>scond\<close>, here by a core nobody interferes with
  (\<open>ConnectMp\<close> interleaves the cores); on the others it disables the interrupts and keeps their key.
\<close>

subsection \<open>Spin locks (arc_mp.h)\<close>

record conn_mach = mach +
  slock :: "u32 \<Rightarrow> u32"

text \<open>\<open>ARC_FEATURE_ARC_FAMILY == ARC_FEATURE_ARC_HS\<close>, the address of \<open>arc_connect_lock\<close>, and the polls of a taken lock.\<close>

record conn_env =
  is_hs :: bool
  arc_connect_lock :: u32
  lock_fuel :: nat

type_synonym ('a, 'r) kop = "('a conn_mach_scheme, 'r) state"

abbreviation (input) ARC_SPIN_LOCK_LOCKED :: u32 where "ARC_SPIN_LOCK_LOCKED \<equiv> 1"
abbreviation (input) ARC_SPIN_LOCK_UNLOCKED :: u32 where "ARC_SPIN_LOCK_UNLOCKED \<equiv> 0"

definition get_slock :: "u32 \<Rightarrow> ('a, u32) kop" where
  "get_slock l = do { s \<leftarrow> State_Monad.get; State_Monad.return (slock s l) }"

definition set_slock :: "u32 \<Rightarrow> u32 \<Rightarrow> ('a, unit) kop" where
  "set_slock l v = State_Monad.update (\<lambda>s. s\<lparr>slock := (slock s)(l := v)\<rparr>)"

lemma run_slock [simp]:
  "run_state (get_slock l) s = (slock s l, s)"
  "run_state (set_slock l v) s = ((), s\<lparr>slock := (slock s)(l := v)\<rparr>)"
  by (simp_all add: get_slock_def set_slock_def)

definition arc_spinlock_get :: "plat \<Rightarrow> conn_env \<Rightarrow> u32 \<Rightarrow> ('a, unit res) kop" where
  "arc_spinlock_get p e l = (
     if is_hs e then
       spin (lock_fuel e) (do {
         v \<leftarrow> get_slock l;
         c_if (v \<noteq> ARC_SPIN_LOCK_LOCKED) (set_slock l ARC_SPIN_LOCK_LOCKED);
         State_Monad.return (v \<noteq> ARC_SPIN_LOCK_LOCKED)
       })
     else liftE (do { k \<leftarrow> arc_clri p; set_slock l k }))"

definition arc_spinlock_try :: "plat \<Rightarrow> conn_env \<Rightarrow> u32 \<Rightarrow> ('a, s32) kop" where
  "arc_spinlock_try p e l = (
     if is_hs e then do {
       v \<leftarrow> get_slock l;
       if v = ARC_SPIN_LOCK_LOCKED then State_Monad.return 0
       else do { set_slock l ARC_SPIN_LOCK_LOCKED; State_Monad.return 1 }
     } else do { k \<leftarrow> arc_clri p; set_slock l k; State_Monad.return 1 })"

definition arc_spinlock_release :: "conn_env \<Rightarrow> u32 \<Rightarrow> ('a, unit) kop" where
  "arc_spinlock_release e l = (
     if is_hs e then set_slock l ARC_SPIN_LOCK_UNLOCKED
     else do { k \<leftarrow> get_slock l; arc_seti k })"

subsection \<open>Commands\<close>

abbreviation (input) AUX_CONNECT_CMD :: u32 where "AUX_CONNECT_CMD \<equiv> 0x600"
abbreviation (input) AUX_CONNECT_WDATA :: u32 where "AUX_CONNECT_WDATA \<equiv> 0x601"
abbreviation (input) AUX_CONNECT_READBACK :: u32 where "AUX_CONNECT_READBACK \<equiv> 0x602"

abbreviation (input) ARC_CONNECT_CMD_CHECK_CORE_ID :: u32 where "ARC_CONNECT_CMD_CHECK_CORE_ID \<equiv> 0x0"
abbreviation (input) ARC_CONNECT_CMD_INTRPT_GENERATE_IRQ :: u32 where "ARC_CONNECT_CMD_INTRPT_GENERATE_IRQ \<equiv> 0x1"
abbreviation (input) ARC_CONNECT_CMD_INTRPT_GENERATE_ACK :: u32 where "ARC_CONNECT_CMD_INTRPT_GENERATE_ACK \<equiv> 0x2"
abbreviation (input) ARC_CONNECT_CMD_INTRPT_READ_STATUS :: u32 where "ARC_CONNECT_CMD_INTRPT_READ_STATUS \<equiv> 0x3"
abbreviation (input) ARC_CONNECT_CMD_INTRPT_CHECK_SOURCE :: u32 where "ARC_CONNECT_CMD_INTRPT_CHECK_SOURCE \<equiv> 0x4"
abbreviation (input) ARC_CONNECT_CMD_SEMA_CLAIM_AND_READ :: u32 where "ARC_CONNECT_CMD_SEMA_CLAIM_AND_READ \<equiv> 0x11"
abbreviation (input) ARC_CONNECT_CMD_SEMA_RELEASE :: u32 where "ARC_CONNECT_CMD_SEMA_RELEASE \<equiv> 0x12"
abbreviation (input) ARC_CONNECT_CMD_SEMA_FORCE_RELEASE :: u32 where "ARC_CONNECT_CMD_SEMA_FORCE_RELEASE \<equiv> 0x13"
abbreviation (input) ARC_CONNECT_CMD_MSG_SRAM_SET_ADDR :: u32 where "ARC_CONNECT_CMD_MSG_SRAM_SET_ADDR \<equiv> 0x21"
abbreviation (input) ARC_CONNECT_CMD_MSG_SRAM_READ_ADDR :: u32 where "ARC_CONNECT_CMD_MSG_SRAM_READ_ADDR \<equiv> 0x22"
abbreviation (input) ARC_CONNECT_CMD_MSG_SRAM_SET_ADDR_OFFSET :: u32 where "ARC_CONNECT_CMD_MSG_SRAM_SET_ADDR_OFFSET \<equiv> 0x23"
abbreviation (input) ARC_CONNECT_CMD_MSG_SRAM_READ_ADDR_OFFSET :: u32 where "ARC_CONNECT_CMD_MSG_SRAM_READ_ADDR_OFFSET \<equiv> 0x24"
abbreviation (input) ARC_CONNECT_CMD_MSG_SRAM_WRITE :: u32 where "ARC_CONNECT_CMD_MSG_SRAM_WRITE \<equiv> 0x25"
abbreviation (input) ARC_CONNECT_CMD_MSG_SRAM_WRITE_INC :: u32 where "ARC_CONNECT_CMD_MSG_SRAM_WRITE_INC \<equiv> 0x26"
abbreviation (input) ARC_CONNECT_CMD_MSG_SRAM_WRITE_IMM :: u32 where "ARC_CONNECT_CMD_MSG_SRAM_WRITE_IMM \<equiv> 0x27"
abbreviation (input) ARC_CONNECT_CMD_MSG_SRAM_READ :: u32 where "ARC_CONNECT_CMD_MSG_SRAM_READ \<equiv> 0x28"
abbreviation (input) ARC_CONNECT_CMD_MSG_SRAM_READ_INC :: u32 where "ARC_CONNECT_CMD_MSG_SRAM_READ_INC \<equiv> 0x29"
abbreviation (input) ARC_CONNECT_CMD_MSG_SRAM_READ_IMM :: u32 where "ARC_CONNECT_CMD_MSG_SRAM_READ_IMM \<equiv> 0x2a"
abbreviation (input) ARC_CONNECT_CMD_MSG_SRAM_SET_ECC_CTRL :: u32 where "ARC_CONNECT_CMD_MSG_SRAM_SET_ECC_CTRL \<equiv> 0x2b"
abbreviation (input) ARC_CONNECT_CMD_MSG_SRAM_READ_ECC_CTRL :: u32 where "ARC_CONNECT_CMD_MSG_SRAM_READ_ECC_CTRL \<equiv> 0x2c"
abbreviation (input) ARC_CONNECT_CMD_DEBUG_RESET :: u32 where "ARC_CONNECT_CMD_DEBUG_RESET \<equiv> 0x31"
abbreviation (input) ARC_CONNECT_CMD_DEBUG_HALT :: u32 where "ARC_CONNECT_CMD_DEBUG_HALT \<equiv> 0x32"
abbreviation (input) ARC_CONNECT_CMD_DEBUG_RUN :: u32 where "ARC_CONNECT_CMD_DEBUG_RUN \<equiv> 0x33"
abbreviation (input) ARC_CONNECT_CMD_DEBUG_SET_MASK :: u32 where "ARC_CONNECT_CMD_DEBUG_SET_MASK \<equiv> 0x34"
abbreviation (input) ARC_CONNECT_CMD_DEBUG_READ_MASK :: u32 where "ARC_CONNECT_CMD_DEBUG_READ_MASK \<equiv> 0x35"
abbreviation (input) ARC_CONNECT_CMD_DEBUG_SET_SELECT :: u32 where "ARC_CONNECT_CMD_DEBUG_SET_SELECT \<equiv> 0x36"
abbreviation (input) ARC_CONNECT_CMD_DEBUG_READ_SELECT :: u32 where "ARC_CONNECT_CMD_DEBUG_READ_SELECT \<equiv> 0x37"
abbreviation (input) ARC_CONNECT_CMD_DEBUG_READ_EN :: u32 where "ARC_CONNECT_CMD_DEBUG_READ_EN \<equiv> 0x38"
abbreviation (input) ARC_CONNECT_CMD_DEBUG_READ_CMD :: u32 where "ARC_CONNECT_CMD_DEBUG_READ_CMD \<equiv> 0x39"
abbreviation (input) ARC_CONNECT_CMD_DEBUG_READ_CORE :: u32 where "ARC_CONNECT_CMD_DEBUG_READ_CORE \<equiv> 0x3a"
abbreviation (input) ARC_CONNECT_CMD_GFRC_CLEAR :: u32 where "ARC_CONNECT_CMD_GFRC_CLEAR \<equiv> 0x41"
abbreviation (input) ARC_CONNECT_CMD_GFRC_READ_LO :: u32 where "ARC_CONNECT_CMD_GFRC_READ_LO \<equiv> 0x42"
abbreviation (input) ARC_CONNECT_CMD_GFRC_READ_HI :: u32 where "ARC_CONNECT_CMD_GFRC_READ_HI \<equiv> 0x43"
abbreviation (input) ARC_CONNECT_CMD_GFRC_ENABLE :: u32 where "ARC_CONNECT_CMD_GFRC_ENABLE \<equiv> 0x44"
abbreviation (input) ARC_CONNECT_CMD_GFRC_DISABLE :: u32 where "ARC_CONNECT_CMD_GFRC_DISABLE \<equiv> 0x45"
abbreviation (input) ARC_CONNECT_CMD_GFRC_READ_DISABLE :: u32 where "ARC_CONNECT_CMD_GFRC_READ_DISABLE \<equiv> 0x46"
abbreviation (input) ARC_CONNECT_CMD_GFRC_SET_CORE :: u32 where "ARC_CONNECT_CMD_GFRC_SET_CORE \<equiv> 0x47"
abbreviation (input) ARC_CONNECT_CMD_GFRC_READ_CORE :: u32 where "ARC_CONNECT_CMD_GFRC_READ_CORE \<equiv> 0x48"
abbreviation (input) ARC_CONNECT_CMD_GFRC_READ_HALT :: u32 where "ARC_CONNECT_CMD_GFRC_READ_HALT \<equiv> 0x49"
abbreviation (input) ARC_CONNECT_CMD_PDM_SET_PM :: u32 where "ARC_CONNECT_CMD_PDM_SET_PM \<equiv> 0x81"
abbreviation (input) ARC_CONNECT_CMD_PDM_READ_PSTATUS :: u32 where "ARC_CONNECT_CMD_PDM_READ_PSTATUS \<equiv> 0x82"
abbreviation (input) ARC_CONNECT_CMD_PMU_SET_PUCNT :: u32 where "ARC_CONNECT_CMD_PMU_SET_PUCNT \<equiv> 0x51"
abbreviation (input) ARC_CONNECT_CMD_PMU_READ_PUCNT :: u32 where "ARC_CONNECT_CMD_PMU_READ_PUCNT \<equiv> 0x52"
abbreviation (input) ARC_CONNECT_CMD_PMU_SET_RSTCNT :: u32 where "ARC_CONNECT_CMD_PMU_SET_RSTCNT \<equiv> 0x53"
abbreviation (input) ARC_CONNECT_CMD_PMU_READ_RSTCNT :: u32 where "ARC_CONNECT_CMD_PMU_READ_RSTCNT \<equiv> 0x54"
abbreviation (input) ARC_CONNECT_CMD_PMU_SET_PDCNT :: u32 where "ARC_CONNECT_CMD_PMU_SET_PDCNT \<equiv> 0x55"
abbreviation (input) ARC_CONNECT_CMD_PMU_READ_PDCNT :: u32 where "ARC_CONNECT_CMD_PMU_READ_PDCNT \<equiv> 0x56"
abbreviation (input) ARC_CONNECT_CMD_IDU_ENABLE :: u32 where "ARC_CONNECT_CMD_IDU_ENABLE \<equiv> 0x71"
abbreviation (input) ARC_CONNECT_CMD_IDU_DISABLE :: u32 where "ARC_CONNECT_CMD_IDU_DISABLE \<equiv> 0x72"
abbreviation (input) ARC_CONNECT_CMD_IDU_READ_ENABLE :: u32 where "ARC_CONNECT_CMD_IDU_READ_ENABLE \<equiv> 0x73"
abbreviation (input) ARC_CONNECT_CMD_IDU_SET_MODE :: u32 where "ARC_CONNECT_CMD_IDU_SET_MODE \<equiv> 0x74"
abbreviation (input) ARC_CONNECT_CMD_IDU_READ_MODE :: u32 where "ARC_CONNECT_CMD_IDU_READ_MODE \<equiv> 0x75"
abbreviation (input) ARC_CONNECT_CMD_IDU_SET_DEST :: u32 where "ARC_CONNECT_CMD_IDU_SET_DEST \<equiv> 0x76"
abbreviation (input) ARC_CONNECT_CMD_IDU_READ_DEST :: u32 where "ARC_CONNECT_CMD_IDU_READ_DEST \<equiv> 0x77"
abbreviation (input) ARC_CONNECT_CMD_IDU_GEN_CIRQ :: u32 where "ARC_CONNECT_CMD_IDU_GEN_CIRQ \<equiv> 0x78"
abbreviation (input) ARC_CONNECT_CMD_IDU_ACK_CIRQ :: u32 where "ARC_CONNECT_CMD_IDU_ACK_CIRQ \<equiv> 0x79"
abbreviation (input) ARC_CONNECT_CMD_IDU_CHECK_STATUS :: u32 where "ARC_CONNECT_CMD_IDU_CHECK_STATUS \<equiv> 0x7a"
abbreviation (input) ARC_CONNECT_CMD_IDU_CHECK_SOURCE :: u32 where "ARC_CONNECT_CMD_IDU_CHECK_SOURCE \<equiv> 0x7b"
abbreviation (input) ARC_CONNECT_CMD_IDU_SET_MASK :: u32 where "ARC_CONNECT_CMD_IDU_SET_MASK \<equiv> 0x7c"
abbreviation (input) ARC_CONNECT_CMD_IDU_READ_MASK :: u32 where "ARC_CONNECT_CMD_IDU_READ_MASK \<equiv> 0x7d"
abbreviation (input) ARC_CONNECT_CMD_IDU_CHECK_FIRST :: u32 where "ARC_CONNECT_CMD_IDU_CHECK_FIRST \<equiv> 0x7e"

datatype conn_type = CMD_ONLY | CMD_RETURN | CMD_WDATA | CMD_WDATA_RETURN

record conn_op =
  con_cmd :: u32
  con_type :: conn_type
  con_param :: u32
  con_wdata :: u32

text \<open>A null operation is answered with 0.\<close>

definition arc_connect_cmd_execute :: "plat \<Rightarrow> conn_env \<Rightarrow> conn_op option \<Rightarrow> ('a, u32 res) kop" where
  "arc_connect_cmd_execute p e opt = (case opt of
     None \<Rightarrow> retE 0
   | Some opr \<Rightarrow>
       let regval = con_cmd opr OR push_bit 8 (con_param opr) in
       bindE (arc_spinlock_get p e (arc_connect_lock e)) (\<lambda>_. liftE (do {
         (case con_type opr of
            CMD_ONLY \<Rightarrow> arc_aux_write AUX_CONNECT_CMD regval
          | CMD_RETURN \<Rightarrow> arc_aux_write AUX_CONNECT_CMD regval
          | CMD_WDATA \<Rightarrow> do { arc_aux_write AUX_CONNECT_WDATA (con_wdata opr); arc_aux_write AUX_CONNECT_CMD regval }
          | CMD_WDATA_RETURN \<Rightarrow> do { arc_aux_write AUX_CONNECT_WDATA (con_wdata opr); arc_aux_write AUX_CONNECT_CMD regval });
         regval \<leftarrow> arc_aux_read p AUX_CONNECT_READBACK;
         arc_spinlock_release e (arc_connect_lock e);
         State_Monad.return regval
       })))"

text \<open>
  The operations the macros of \<open>arc_connect.h\<close> fill in, executed; the data word they leave out
  is never read and is 0 here.
\<close>

definition connect_only :: "plat \<Rightarrow> conn_env \<Rightarrow> u32 \<Rightarrow> u32 \<Rightarrow> ('a, unit res) kop" where
  "connect_only p e cmd param = bindE (arc_connect_cmd_execute p e
     (Some \<lparr>con_cmd = cmd, con_type = CMD_ONLY, con_param = param, con_wdata = 0\<rparr>)) (\<lambda>_. retE ())"

definition connect_return :: "plat \<Rightarrow> conn_env \<Rightarrow> u32 \<Rightarrow> u32 \<Rightarrow> ('a, u32 res) kop" where
  "connect_return p e cmd param = arc_connect_cmd_execute p e
     (Some \<lparr>con_cmd = cmd, con_type = CMD_RETURN, con_param = param, con_wdata = 0\<rparr>)"

definition connect_wdata_read :: "plat \<Rightarrow> conn_env \<Rightarrow> u32 \<Rightarrow> u32 \<Rightarrow> u32 \<Rightarrow> ('a, u32 res) kop" where
  "connect_wdata_read p e cmd param data = arc_connect_cmd_execute p e
     (Some \<lparr>con_cmd = cmd, con_type = CMD_WDATA, con_param = param, con_wdata = data\<rparr>)"

definition connect_wdata :: "plat \<Rightarrow> conn_env \<Rightarrow> u32 \<Rightarrow> u32 \<Rightarrow> u32 \<Rightarrow> ('a, unit res) kop" where
  "connect_wdata p e cmd param data = bindE (connect_wdata_read p e cmd param data) (\<lambda>_. retE ())"

subsection \<open>The functions of arc_connect.c\<close>

definition arc_connect_check_core_id :: "plat \<Rightarrow> conn_env \<Rightarrow> ('a, u32 res) kop" where
  "arc_connect_check_core_id p e = connect_return p e ARC_CONNECT_CMD_CHECK_CORE_ID 0"

definition arc_connect_idu_enable :: "plat \<Rightarrow> conn_env \<Rightarrow> ('a, unit res) kop" where
  "arc_connect_idu_enable p e = connect_only p e ARC_CONNECT_CMD_IDU_ENABLE 0"

definition arc_connect_idu_disable :: "plat \<Rightarrow> conn_env \<Rightarrow> ('a, unit res) kop" where
  "arc_connect_idu_disable p e = connect_only p e ARC_CONNECT_CMD_IDU_DISABLE 0"

definition arc_connect_idu_read_enable :: "plat \<Rightarrow> conn_env \<Rightarrow> ('a, u32 res) kop" where
  "arc_connect_idu_read_enable p e = connect_return p e ARC_CONNECT_CMD_IDU_READ_ENABLE 0"

definition arc_connect_idu_set_mode :: "plat \<Rightarrow> conn_env \<Rightarrow> u32 \<Rightarrow> u16 \<Rightarrow> u16 \<Rightarrow> ('a, unit res) kop" where
  "arc_connect_idu_set_mode p e irq_num trigger_mode distri_mode = connect_wdata p e ARC_CONNECT_CMD_IDU_SET_MODE irq_num (ucast distri_mode OR push_bit 4 (ucast trigger_mode))"

definition arc_connect_idu_read_mode :: "plat \<Rightarrow> conn_env \<Rightarrow> u32 \<Rightarrow> ('a, u32 res) kop" where
  "arc_connect_idu_read_mode p e irq_num = connect_return p e ARC_CONNECT_CMD_IDU_READ_ENABLE irq_num"

definition arc_connect_idu_set_dest :: "plat \<Rightarrow> conn_env \<Rightarrow> u32 \<Rightarrow> u32 \<Rightarrow> ('a, unit res) kop" where
  "arc_connect_idu_set_dest p e irq_num target_core = connect_wdata p e ARC_CONNECT_CMD_IDU_SET_DEST irq_num target_core"

definition arc_connect_idu_read_dest :: "plat \<Rightarrow> conn_env \<Rightarrow> u32 \<Rightarrow> ('a, u32 res) kop" where
  "arc_connect_idu_read_dest p e irq_num = connect_return p e ARC_CONNECT_CMD_IDU_READ_DEST irq_num"

definition arc_connect_idu_gen_cirq :: "plat \<Rightarrow> conn_env \<Rightarrow> u32 \<Rightarrow> ('a, unit res) kop" where
  "arc_connect_idu_gen_cirq p e irq_num = connect_only p e ARC_CONNECT_CMD_IDU_GEN_CIRQ irq_num"

definition arc_connect_idu_ack_cirq :: "plat \<Rightarrow> conn_env \<Rightarrow> u32 \<Rightarrow> ('a, unit res) kop" where
  "arc_connect_idu_ack_cirq p e irq_num = connect_only p e ARC_CONNECT_CMD_IDU_ACK_CIRQ irq_num"

definition arc_connect_idu_check_status :: "plat \<Rightarrow> conn_env \<Rightarrow> u32 \<Rightarrow> ('a, u32 res) kop" where
  "arc_connect_idu_check_status p e irq_num = connect_return p e ARC_CONNECT_CMD_IDU_CHECK_STATUS irq_num"

definition arc_connect_idu_check_source :: "plat \<Rightarrow> conn_env \<Rightarrow> u32 \<Rightarrow> ('a, u32 res) kop" where
  "arc_connect_idu_check_source p e irq_num = connect_return p e ARC_CONNECT_CMD_IDU_CHECK_SOURCE irq_num"

definition arc_connect_idu_set_mask :: "plat \<Rightarrow> conn_env \<Rightarrow> u32 \<Rightarrow> u32 \<Rightarrow> ('a, unit res) kop" where
  "arc_connect_idu_set_mask p e irq_num mask_val = connect_wdata p e ARC_CONNECT_CMD_IDU_SET_MASK irq_num mask_val"

definition arc_connect_idu_read_mask :: "plat \<Rightarrow> conn_env \<Rightarrow> u32 \<Rightarrow> ('a, u32 res) kop" where
  "arc_connect_idu_read_mask p e irq_num = connect_return p e ARC_CONNECT_CMD_IDU_READ_MASK irq_num"

definition arc_connect_idu_check_first :: "plat \<Rightarrow> conn_env \<Rightarrow> u32 \<Rightarrow> ('a, u32 res) kop" where
  "arc_connect_idu_check_first p e irq_num = connect_return p e ARC_CONNECT_CMD_IDU_CHECK_FIRST irq_num"

definition arc_connect_ici_generate :: "plat \<Rightarrow> conn_env \<Rightarrow> u32 \<Rightarrow> ('a, unit res) kop" where
  "arc_connect_ici_generate p e core_id = connect_only p e ARC_CONNECT_CMD_INTRPT_GENERATE_IRQ core_id"

definition arc_connect_ici_ack :: "plat \<Rightarrow> conn_env \<Rightarrow> u32 \<Rightarrow> ('a, unit res) kop" where
  "arc_connect_ici_ack p e core_id = connect_only p e ARC_CONNECT_CMD_INTRPT_GENERATE_ACK core_id"

definition arc_connect_ici_read_status :: "plat \<Rightarrow> conn_env \<Rightarrow> u32 \<Rightarrow> ('a, u32 res) kop" where
  "arc_connect_ici_read_status p e core_id = connect_return p e ARC_CONNECT_CMD_INTRPT_READ_STATUS core_id"

definition arc_connect_ici_check_src :: "plat \<Rightarrow> conn_env \<Rightarrow> ('a, u32 res) kop" where
  "arc_connect_ici_check_src p e = connect_return p e ARC_CONNECT_CMD_INTRPT_CHECK_SOURCE 0"

definition arc_connect_ics_take :: "plat \<Rightarrow> conn_env \<Rightarrow> u32 \<Rightarrow> ('a, u32 res) kop" where
  "arc_connect_ics_take p e sem_id = connect_return p e ARC_CONNECT_CMD_SEMA_CLAIM_AND_READ sem_id"

definition arc_connect_ics_release :: "plat \<Rightarrow> conn_env \<Rightarrow> u32 \<Rightarrow> ('a, unit res) kop" where
  "arc_connect_ics_release p e sem_id = connect_only p e ARC_CONNECT_CMD_SEMA_RELEASE sem_id"

definition arc_connect_ics_force_release :: "plat \<Rightarrow> conn_env \<Rightarrow> u32 \<Rightarrow> ('a, unit res) kop" where
  "arc_connect_ics_force_release p e sem_id = connect_only p e ARC_CONNECT_CMD_SEMA_FORCE_RELEASE sem_id"

definition arc_connect_icm_addr_set :: "plat \<Rightarrow> conn_env \<Rightarrow> u32 \<Rightarrow> ('a, unit res) kop" where
  "arc_connect_icm_addr_set p e addr = connect_only p e ARC_CONNECT_CMD_MSG_SRAM_SET_ADDR addr"

definition arc_connect_icm_addr_read :: "plat \<Rightarrow> conn_env \<Rightarrow> ('a, u32 res) kop" where
  "arc_connect_icm_addr_read p e = connect_return p e ARC_CONNECT_CMD_MSG_SRAM_READ_ADDR 0"

definition arc_connect_icm_addr_offset_set :: "plat \<Rightarrow> conn_env \<Rightarrow> u32 \<Rightarrow> ('a, unit res) kop" where
  "arc_connect_icm_addr_offset_set p e offset = connect_only p e ARC_CONNECT_CMD_MSG_SRAM_SET_ADDR_OFFSET offset"

definition arc_connect_icm_addr_offset_read :: "plat \<Rightarrow> conn_env \<Rightarrow> ('a, u32 res) kop" where
  "arc_connect_icm_addr_offset_read p e = connect_return p e ARC_CONNECT_CMD_MSG_SRAM_READ_ADDR_OFFSET 0"

definition arc_connect_icm_msg_write :: "plat \<Rightarrow> conn_env \<Rightarrow> u32 \<Rightarrow> ('a, unit res) kop" where
  "arc_connect_icm_msg_write p e data = connect_wdata p e ARC_CONNECT_CMD_MSG_SRAM_WRITE 0 data"

definition arc_connect_icm_msg_inc_write :: "plat \<Rightarrow> conn_env \<Rightarrow> u32 \<Rightarrow> ('a, unit res) kop" where
  "arc_connect_icm_msg_inc_write p e data = connect_wdata p e ARC_CONNECT_CMD_MSG_SRAM_WRITE_INC 0 data"

definition arc_connect_icm_msg_imm_write :: "plat \<Rightarrow> conn_env \<Rightarrow> u32 \<Rightarrow> u32 \<Rightarrow> ('a, unit res) kop" where
  "arc_connect_icm_msg_imm_write p e addr data = connect_wdata p e ARC_CONNECT_CMD_MSG_SRAM_WRITE_IMM addr data"

definition arc_connect_icm_msg_read :: "plat \<Rightarrow> conn_env \<Rightarrow> ('a, u32 res) kop" where
  "arc_connect_icm_msg_read p e = connect_return p e ARC_CONNECT_CMD_MSG_SRAM_READ 0"

definition arc_connect_icm_msg_inc_read :: "plat \<Rightarrow> conn_env \<Rightarrow> ('a, u32 res) kop" where
  "arc_connect_icm_msg_inc_read p e = connect_return p e ARC_CONNECT_CMD_MSG_SRAM_READ_INC 0"

definition arc_connect_icm_msg_imm_read :: "plat \<Rightarrow> conn_env \<Rightarrow> u32 \<Rightarrow> ('a, u32 res) kop" where
  "arc_connect_icm_msg_imm_read p e addr = connect_return p e ARC_CONNECT_CMD_MSG_SRAM_READ_IMM addr"

definition arc_connect_icm_ecc_ctrl_set :: "plat \<Rightarrow> conn_env \<Rightarrow> u32 \<Rightarrow> ('a, unit res) kop" where
  "arc_connect_icm_ecc_ctrl_set p e val = connect_wdata p e ARC_CONNECT_CMD_MSG_SRAM_SET_ECC_CTRL 0 val"

definition arc_connect_icm_ecc_ctrl_read :: "plat \<Rightarrow> conn_env \<Rightarrow> ('a, u32 res) kop" where
  "arc_connect_icm_ecc_ctrl_read p e = connect_return p e ARC_CONNECT_CMD_MSG_SRAM_READ_ECC_CTRL 0"

definition arc_connect_debug_reset :: "plat \<Rightarrow> conn_env \<Rightarrow> u32 \<Rightarrow> ('a, unit res) kop" where
  "arc_connect_debug_reset p e cores = connect_wdata p e ARC_CONNECT_CMD_DEBUG_RESET 0 cores"

definition arc_connect_debug_halt :: "plat \<Rightarrow> conn_env \<Rightarrow> u32 \<Rightarrow> ('a, unit res) kop" where
  "arc_connect_debug_halt p e cores = connect_wdata p e ARC_CONNECT_CMD_DEBUG_HALT 0 cores"

definition arc_connect_debug_run :: "plat \<Rightarrow> conn_env \<Rightarrow> u32 \<Rightarrow> ('a, unit res) kop" where
  "arc_connect_debug_run p e cores = connect_wdata p e ARC_CONNECT_CMD_DEBUG_RUN 0 cores"

definition arc_connect_debug_mask_set :: "plat \<Rightarrow> conn_env \<Rightarrow> u32 \<Rightarrow> u32 \<Rightarrow> ('a, unit res) kop" where
  "arc_connect_debug_mask_set p e cores mask_val = connect_wdata p e ARC_CONNECT_CMD_DEBUG_SET_MASK mask_val cores"

definition arc_connect_debug_mask_read :: "plat \<Rightarrow> conn_env \<Rightarrow> u32 \<Rightarrow> ('a, u32 res) kop" where
  "arc_connect_debug_mask_read p e cores = connect_wdata_read p e ARC_CONNECT_CMD_DEBUG_RUN 0 cores"

definition arc_connect_debug_select_set :: "plat \<Rightarrow> conn_env \<Rightarrow> u32 \<Rightarrow> ('a, unit res) kop" where
  "arc_connect_debug_select_set p e cores = connect_wdata p e ARC_CONNECT_CMD_DEBUG_SET_SELECT 0 cores"

definition arc_connect_debug_select_read :: "plat \<Rightarrow> conn_env \<Rightarrow> ('a, u32 res) kop" where
  "arc_connect_debug_select_read p e = connect_return p e ARC_CONNECT_CMD_DEBUG_READ_SELECT 0"

definition arc_connect_debug_en_read :: "plat \<Rightarrow> conn_env \<Rightarrow> ('a, u32 res) kop" where
  "arc_connect_debug_en_read p e = connect_return p e ARC_CONNECT_CMD_DEBUG_READ_EN 0"

definition arc_connect_debug_cmd_read :: "plat \<Rightarrow> conn_env \<Rightarrow> ('a, u32 res) kop" where
  "arc_connect_debug_cmd_read p e = connect_return p e ARC_CONNECT_CMD_DEBUG_READ_CMD 0"

definition arc_connect_debug_core_read :: "plat \<Rightarrow> conn_env \<Rightarrow> ('a, u32 res) kop" where
  "arc_connect_debug_core_read p e = connect_return p e ARC_CONNECT_CMD_DEBUG_READ_CORE 0"

definition arc_connect_gfrc_clear :: "plat \<Rightarrow> conn_env \<Rightarrow> ('a, unit res) kop" where
  "arc_connect_gfrc_clear p e = connect_only p e ARC_CONNECT_CMD_GFRC_CLEAR 0"

definition arc_connect_gfrc_lo_read :: "plat \<Rightarrow> conn_env \<Rightarrow> ('a, u32 res) kop" where
  "arc_connect_gfrc_lo_read p e = connect_return p e ARC_CONNECT_CMD_GFRC_READ_LO 0"

definition arc_connect_gfrc_hi_read :: "plat \<Rightarrow> conn_env \<Rightarrow> ('a, u32 res) kop" where
  "arc_connect_gfrc_hi_read p e = connect_return p e ARC_CONNECT_CMD_GFRC_READ_HI 0"

definition arc_connect_gfrc_enable :: "plat \<Rightarrow> conn_env \<Rightarrow> ('a, unit res) kop" where
  "arc_connect_gfrc_enable p e = connect_only p e ARC_CONNECT_CMD_GFRC_ENABLE 0"

definition arc_connect_gfrc_disable :: "plat \<Rightarrow> conn_env \<Rightarrow> ('a, unit res) kop" where
  "arc_connect_gfrc_disable p e = connect_only p e ARC_CONNECT_CMD_GFRC_DISABLE 0"

definition arc_connect_gfrc_core_set :: "plat \<Rightarrow> conn_env \<Rightarrow> u32 \<Rightarrow> ('a, unit res) kop" where
  "arc_connect_gfrc_core_set p e cores = connect_wdata p e ARC_CONNECT_CMD_GFRC_SET_CORE 0 cores"

definition arc_connect_gfrc_halt_read :: "plat \<Rightarrow> conn_env \<Rightarrow> ('a, u32 res) kop" where
  "arc_connect_gfrc_halt_read p e = connect_return p e ARC_CONNECT_CMD_GFRC_READ_HALT 0"

definition arc_connect_gfrc_core_read :: "plat \<Rightarrow> conn_env \<Rightarrow> ('a, u32 res) kop" where
  "arc_connect_gfrc_core_read p e = connect_return p e ARC_CONNECT_CMD_GFRC_READ_CORE 0"

definition arc_connect_pdm_pm_set :: "plat \<Rightarrow> conn_env \<Rightarrow> u32 \<Rightarrow> u32 \<Rightarrow> ('a, unit res) kop" where
  "arc_connect_pdm_pm_set p e grp cmd = connect_wdata p e ARC_CONNECT_CMD_PDM_SET_PM grp cmd"

definition arc_connect_pdm_pdstatus_read :: "plat \<Rightarrow> conn_env \<Rightarrow> u32 \<Rightarrow> ('a, u32 res) kop" where
  "arc_connect_pdm_pdstatus_read p e grp = connect_return p e ARC_CONNECT_CMD_PDM_READ_PSTATUS grp"

definition arc_connect_pmu_pucnt_set :: "plat \<Rightarrow> conn_env \<Rightarrow> u32 \<Rightarrow> ('a, unit res) kop" where
  "arc_connect_pmu_pucnt_set p e cnt = connect_wdata p e ARC_CONNECT_CMD_PMU_SET_PUCNT 0 cnt"

definition arc_connect_pmu_pucnt_read :: "plat \<Rightarrow> conn_env \<Rightarrow> ('a, u32 res) kop" where
  "arc_connect_pmu_pucnt_read p e = connect_return p e ARC_CONNECT_CMD_PMU_READ_PUCNT 0"

definition arc_connect_pmu_rstcnt_set :: "plat \<Rightarrow> conn_env \<Rightarrow> u32 \<Rightarrow> ('a, unit res) kop" where
  "arc_connect_pmu_rstcnt_set p e cnt = connect_wdata p e ARC_CONNECT_CMD_PMU_SET_RSTCNT 0 cnt"

definition arc_connect_pmu_rstcnt_read :: "plat \<Rightarrow> conn_env \<Rightarrow> ('a, u32 res) kop" where
  "arc_connect_pmu_rstcnt_read p e = connect_return p e ARC_CONNECT_CMD_PMU_READ_RSTCNT 0"

definition arc_connect_pmu_pdccnt_set :: "plat \<Rightarrow> conn_env \<Rightarrow> u32 \<Rightarrow> ('a, unit res) kop" where
  "arc_connect_pmu_pdccnt_set p e cnt = connect_wdata p e ARC_CONNECT_CMD_PMU_SET_PDCNT 0 cnt"

definition arc_connect_pmu_pdccnt_read :: "plat \<Rightarrow> conn_env \<Rightarrow> ('a, u32 res) kop" where
  "arc_connect_pmu_pdccnt_read p e = connect_return p e ARC_CONNECT_CMD_PMU_READ_PDCNT 0"

definition arc_connect_idu_config_irq :: "plat \<Rightarrow> conn_env \<Rightarrow> u32 \<Rightarrow> u32 \<Rightarrow> u16 \<Rightarrow> u16 \<Rightarrow> ('a, unit res) kop" where
  "arc_connect_idu_config_irq p e core irq_num trigger_mode distri_mode =
     bindE (arc_connect_idu_disable p e) (\<lambda>_.
     bindE (arc_connect_idu_set_mode p e irq_num trigger_mode distri_mode) (\<lambda>_.
     bindE (arc_connect_idu_set_dest p e irq_num core) (\<lambda>_.
     bindE (arc_connect_idu_set_mask p e irq_num 0) (\<lambda>_.
     arc_connect_idu_enable p e))))"

end
