(* ===== verification/ConnectSpec.thy ===== *)
theory ConnectSpec
  imports ArcConnect
begin

section \<open>What the ARConnect driver promises\<close>

text \<open>
  One command is one transaction on the registers of the unit; on a unit that obeys its command words,
  the set-up of a common interrupt reads back as it was made, except through the two read functions
  that send another command.
\<close>

subsection \<open>One command\<close>

definition op_word :: "conn_op \<Rightarrow> u32" where
  "op_word opr = con_cmd opr OR push_bit 8 (con_param opr)"

text \<open>The registers a command stores, in order.\<close>

definition op_writes :: "conn_op \<Rightarrow> access list" where
  "op_writes opr = (if con_type opr \<in> {CMD_WDATA, CMD_WDATA_RETURN} then [Aux_wr AUX_CONNECT_WDATA (con_wdata opr)] else [])
     @ [Aux_wr AUX_CONNECT_CMD (op_word opr)]"

text \<open>The lock can be taken.\<close>

definition conn_ready :: "conn_env \<Rightarrow> 'a conn_mach_scheme \<Rightarrow> bool" where
  "conn_ready e s \<longleftrightarrow> (is_hs e \<longrightarrow> slock s (arc_connect_lock e) = ARC_SPIN_LOCK_UNLOCKED \<and> 0 < lock_fuel e)"

text \<open>The log of a whole command, newest first, with the lock around it.\<close>

definition op_log :: "plat \<Rightarrow> conn_env \<Rightarrow> conn_op \<Rightarrow> access list \<Rightarrow> access list" where
  "op_log p e opr h = (if is_hs e then
       (let g = rev (op_writes opr) @ h in Aux_rd AUX_CONNECT_READBACK (aux_in p g AUX_CONNECT_READBACK) # g)
     else (let k = clri_in p h; g = rev (op_writes opr) @ Clri k # h in
       Seti k # Aux_rd AUX_CONNECT_READBACK (aux_in p g AUX_CONNECT_READBACK) # g))"

definition op_answer :: "plat \<Rightarrow> conn_env \<Rightarrow> conn_op \<Rightarrow> access list \<Rightarrow> u32" where
  "op_answer p e opr h = (let g = rev (op_writes opr) @ (if is_hs e then h else Clri (clri_in p h) # h) in aux_in p g AUX_CONNECT_READBACK)"

lemma cmd_execute_run:
  fixes s :: "'a conn_mach_scheme"
  assumes "conn_ready e s"
  shows "\<exists>l. run_state (arc_connect_cmd_execute p e (Some opr)) s = (Inr (op_answer p e opr (hist s)),
      s\<lparr>hist := op_log p e opr (hist s), slock := l\<rparr>)
    \<and> (is_hs e \<longrightarrow> l = slock s)"
proof (cases "is_hs e")
  case True
  then obtain n where n: "lock_fuel e = Suc n" "slock s (arc_connect_lock e) = 0" using assms by (cases "lock_fuel e") (auto simp: conn_ready_def)
  then have "(slock s)(arc_connect_lock e := 0) = slock s" by auto
  then show ?thesis using True n
    by (intro exI [of _ "slock s"], cases "con_type opr")
      (simp_all add: arc_connect_cmd_execute_def arc_spinlock_get_def arc_spinlock_release_def c_if_def op_log_def op_answer_def op_writes_def op_word_def Let_def)
next
  case False
  then show ?thesis
    by (intro exI [of _ "(slock s)(arc_connect_lock e := clri_in p (hist s))"], cases "con_type opr")
      (simp_all add: arc_connect_cmd_execute_def arc_spinlock_get_def arc_spinlock_release_def op_log_def op_answer_def op_writes_def op_word_def Let_def)
qed

text \<open>A state reached by commands alone.\<close>

definition conn_after :: "plat \<Rightarrow> conn_env \<Rightarrow> conn_op list \<Rightarrow> 'a conn_mach_scheme \<Rightarrow> 'a conn_mach_scheme \<Rightarrow> bool" where
  "conn_after p e os s t \<longleftrightarrow> conn_ready e t \<and> (\<exists>l. t = s\<lparr>hist := fold (op_log p e) os (hist s), slock := l\<rparr>)"

lemma conn_after_nil: "conn_ready e s \<Longrightarrow> conn_after p e [] s s"
  unfolding conn_after_def by (intro conjI exI [of _ "slock s"]) simp_all

lemma conn_after_step:
  fixes s t :: "'a conn_mach_scheme"
  assumes "conn_after p e os s t"
  shows "\<exists>u. run_state (arc_connect_cmd_execute p e (Some opr)) t = (Inr (op_answer p e opr (hist t)), u) \<and> conn_after p e (os @ [opr]) s u"
proof -
  have r: "conn_ready e t" and t: "\<exists>l. t = s\<lparr>hist := fold (op_log p e) os (hist s), slock := l\<rparr>" using assms by (auto simp: conn_after_def)
  obtain l where l: "run_state (arc_connect_cmd_execute p e (Some opr)) t = (Inr (op_answer p e opr (hist t)), t\<lparr>hist := op_log p e opr (hist t), slock := l\<rparr>)"
    "is_hs e \<longrightarrow> l = slock t" using cmd_execute_run [OF r] by blast
  have "conn_after p e (os @ [opr]) s (t\<lparr>hist := op_log p e opr (hist t), slock := l\<rparr>)"
    unfolding conn_after_def using r t l(2) by (intro conjI exI [of _ l]) (auto simp: conn_ready_def)
  with l(1) show ?thesis by blast
qed

lemmas connect_defs = connect_only_def connect_return_def connect_wdata_def connect_wdata_read_def

subsection \<open>The unit\<close>

text \<open>
  The distribution unit and the debug unit as the command words describe them: whether distribution is
  on, mode, destination and mask of every common interrupt, and the cores that run.
\<close>

record arconnect =
  idu_on :: bool
  idu_mode :: "u32 \<Rightarrow> u32"
  idu_dest :: "u32 \<Rightarrow> u32"
  idu_mask :: "u32 \<Rightarrow> u32"
  running :: u32

definition word_cmd :: "u32 \<Rightarrow> u32" where "word_cmd w = take_bit 8 w"
definition word_param :: "u32 \<Rightarrow> u32" where "word_param w = take_bit 16 (drop_bit 8 w)"

definition conn_apply :: "u32 \<Rightarrow> u32 \<Rightarrow> arconnect \<Rightarrow> arconnect" where
  "conn_apply w d u = (
     if word_cmd w = ARC_CONNECT_CMD_IDU_ENABLE then u\<lparr>idu_on := True\<rparr>
     else if word_cmd w = ARC_CONNECT_CMD_IDU_DISABLE then u\<lparr>idu_on := False\<rparr>
     else if word_cmd w = ARC_CONNECT_CMD_IDU_SET_MODE then u\<lparr>idu_mode := (idu_mode u)(word_param w := d)\<rparr>
     else if word_cmd w = ARC_CONNECT_CMD_IDU_SET_DEST then u\<lparr>idu_dest := (idu_dest u)(word_param w := d)\<rparr>
     else if word_cmd w = ARC_CONNECT_CMD_IDU_SET_MASK then u\<lparr>idu_mask := (idu_mask u)(word_param w := d)\<rparr>
     else if word_cmd w = ARC_CONNECT_CMD_DEBUG_HALT then u\<lparr>running := running u AND NOT d\<rparr>
     else if word_cmd w = ARC_CONNECT_CMD_DEBUG_RUN then u\<lparr>running := running u OR d\<rparr>
     else u)"

text \<open>Its state, the last data word and the last answer, read off a history.\<close>

fun conn_data :: "access list \<Rightarrow> u32" where
  "conn_data [] = 0"
| "conn_data (Aux_wr a v # h) = (if a = AUX_CONNECT_WDATA then v else conn_data h)"
| "conn_data (ev # h) = conn_data h"

definition conn_reset :: arconnect where
  "conn_reset = \<lparr>idu_on = False, idu_mode = \<lambda>_. 0, idu_dest = \<lambda>_. 0, idu_mask = \<lambda>_. 0, running = 0xF\<rparr>"

fun conn_unit :: "access list \<Rightarrow> arconnect" where
  "conn_unit [] = conn_reset"
| "conn_unit (Aux_wr a v # h) = (if a = AUX_CONNECT_CMD then conn_apply v (conn_data h) (conn_unit h) else conn_unit h)"
| "conn_unit (ev # h) = conn_unit h"

definition conn_reply :: "u32 \<Rightarrow> arconnect \<Rightarrow> u32 option" where
  "conn_reply w u = (
     if word_cmd w = ARC_CONNECT_CMD_IDU_READ_ENABLE then Some (of_bool (idu_on u))
     else if word_cmd w = ARC_CONNECT_CMD_IDU_READ_MODE then Some (idu_mode u (word_param w))
     else if word_cmd w = ARC_CONNECT_CMD_IDU_READ_DEST then Some (idu_dest u (word_param w))
     else if word_cmd w = ARC_CONNECT_CMD_IDU_READ_MASK then Some (idu_mask u (word_param w))
     else None)"

text \<open>The law: right after the command word, the readback register holds the reply of a command that has one.\<close>

definition arconnect_unit :: "plat \<Rightarrow> bool" where
  "arconnect_unit p \<longleftrightarrow> (\<forall>w h v. conn_reply w (conn_unit h) = Some v \<longrightarrow> aux_in p (Aux_wr AUX_CONNECT_CMD w # h) AUX_CONNECT_READBACK = v)"

lemma word_decode:
  assumes "c < 0x100" "x < 0x10000"
  shows "word_cmd (c OR push_bit 8 x) = c" "word_param (c OR push_bit 8 x) = x"
proof -
  have "unat c < 2 ^ 8" using assms(1) by (simp add: word_less_nat_alt)
  then have c: "take_bit 8 c = c" by (metis take_bit_nat_eq_self_iff unsigned_take_bit_eq word_unat_eq_iff)
  have "unat x < 2 ^ 16" using assms(2) by (simp add: word_less_nat_alt)
  then have x: "take_bit 16 x = x" by (metis take_bit_nat_eq_self_iff unsigned_take_bit_eq word_unat_eq_iff)
  have cb: "bit c n \<Longrightarrow> n < 8" and xb: "bit x n \<Longrightarrow> n < 16" for n using c x by (metis bit_take_bit_iff)+
  show "word_cmd (c OR push_bit 8 x) = c"
    unfolding word_cmd_def by (rule bit_word_eqI) (auto simp: bit_take_bit_iff bit_or_iff bit_push_bit_iff dest: cb)
  show "word_param (c OR push_bit 8 x) = x"
    unfolding word_param_def by (rule bit_word_eqI) (auto simp: bit_take_bit_iff bit_drop_bit_eq bit_or_iff bit_push_bit_iff dest: cb xb)
qed

text \<open>The state of the unit after a command, and the answer of the command.\<close>

definition op_apply :: "conn_op \<Rightarrow> arconnect \<Rightarrow> arconnect" where
  "op_apply opr = conn_apply (op_word opr) (con_wdata opr)"

lemma unit_after_op:
  assumes "con_type opr = CMD_WDATA \<or> con_type opr = CMD_WDATA_RETURN \<or> conn_apply (op_word opr) = (\<lambda>d u. conn_apply (op_word opr) (con_wdata opr) u)"
  shows "conn_unit (op_log p e opr h) = op_apply opr (conn_unit h)"
  using assms by (cases "con_type opr") (auto simp: op_log_def op_writes_def op_apply_def Let_def fun_eq_iff)

lemma op_answer_reply:
  assumes "arconnect_unit p" "conn_reply (op_word opr) (conn_unit h) = Some v"
  shows "op_answer p e opr h = v"
proof -
  have "conn_unit (rev (butlast (op_writes opr)) @ (if is_hs e then h else Clri (clri_in p h) # h)) = conn_unit h" by (simp add: op_writes_def)
  with assms show ?thesis by (simp add: op_answer_def op_writes_def arconnect_unit_def Let_def split: if_splits)
qed

subsection \<open>Setting up a common interrupt\<close>

abbreviation (input) op_only :: "u32 \<Rightarrow> u32 \<Rightarrow> conn_op" where
  "op_only cmd param \<equiv> \<lparr>con_cmd = cmd, con_type = CMD_ONLY, con_param = param, con_wdata = 0\<rparr>"
abbreviation (input) op_return :: "u32 \<Rightarrow> u32 \<Rightarrow> conn_op" where
  "op_return cmd param \<equiv> \<lparr>con_cmd = cmd, con_type = CMD_RETURN, con_param = param, con_wdata = 0\<rparr>"
abbreviation (input) op_data :: "u32 \<Rightarrow> u32 \<Rightarrow> u32 \<Rightarrow> conn_op" where
  "op_data cmd param d \<equiv> \<lparr>con_cmd = cmd, con_type = CMD_WDATA, con_param = param, con_wdata = d\<rparr>"

lemma connect_only_after:
  "conn_after p e os s t \<Longrightarrow> \<exists>u. run_state (connect_only p e cmd param) t = (Inr (), u) \<and> conn_after p e (os @ [op_only cmd param]) s u"
  using conn_after_step [where opr = "op_only cmd param"] by (fastforce simp: connect_defs)

lemma connect_data_after:
  "conn_after p e os s t \<Longrightarrow> \<exists>u. run_state (connect_wdata p e cmd param d) t = (Inr (), u) \<and> conn_after p e (os @ [op_data cmd param d]) s u"
  using conn_after_step [where opr = "op_data cmd param d"] by (fastforce simp: connect_defs)

lemma connect_return_answer:
  "conn_after p e os s t \<Longrightarrow> fst (run_state (connect_return p e cmd param) t) = Inr (op_answer p e (op_return cmd param) (hist t))"
  using conn_after_step [where opr = "op_return cmd param"] by (fastforce simp: connect_defs)

definition config_ops :: "u32 \<Rightarrow> u32 \<Rightarrow> u16 \<Rightarrow> u16 \<Rightarrow> conn_op list" where
  "config_ops core irq trigger distri = [op_only ARC_CONNECT_CMD_IDU_DISABLE 0, op_data ARC_CONNECT_CMD_IDU_SET_MODE irq (ucast distri OR push_bit 4 (ucast trigger)),
     op_data ARC_CONNECT_CMD_IDU_SET_DEST irq core, op_data ARC_CONNECT_CMD_IDU_SET_MASK irq 0, op_only ARC_CONNECT_CMD_IDU_ENABLE 0]"

lemma idu_config_run:
  fixes s :: "'a conn_mach_scheme"
  assumes "conn_ready e s"
  shows "\<exists>t. run_state (arc_connect_idu_config_irq p e core irq trigger distri) s = (Inr (), t) \<and> conn_after p e (config_ops core irq trigger distri) s t"
proof -
  obtain t1 where t1: "run_state (arc_connect_idu_disable p e) s = (Inr (), t1)" "conn_after p e [op_only ARC_CONNECT_CMD_IDU_DISABLE 0] s t1"
    using connect_only_after [OF conn_after_nil [OF assms]] unfolding arc_connect_idu_disable_def by fastforce
  obtain t2 where t2: "run_state (arc_connect_idu_set_mode p e irq trigger distri) t1 = (Inr (), t2)"
    "conn_after p e ([op_only ARC_CONNECT_CMD_IDU_DISABLE 0] @ [op_data ARC_CONNECT_CMD_IDU_SET_MODE irq (ucast distri OR push_bit 4 (ucast trigger))]) s t2"
    using connect_data_after [OF t1(2)] unfolding arc_connect_idu_set_mode_def by blast
  obtain t3 where t3: "run_state (arc_connect_idu_set_dest p e irq core) t2 = (Inr (), t3)"
    "conn_after p e (([op_only ARC_CONNECT_CMD_IDU_DISABLE 0] @ [op_data ARC_CONNECT_CMD_IDU_SET_MODE irq (ucast distri OR push_bit 4 (ucast trigger))])
      @ [op_data ARC_CONNECT_CMD_IDU_SET_DEST irq core]) s t3"
    using connect_data_after [OF t2(2)] unfolding arc_connect_idu_set_dest_def by blast
  obtain t4 where t4: "run_state (arc_connect_idu_set_mask p e irq 0) t3 = (Inr (), t4)"
    "conn_after p e ((([op_only ARC_CONNECT_CMD_IDU_DISABLE 0] @ [op_data ARC_CONNECT_CMD_IDU_SET_MODE irq (ucast distri OR push_bit 4 (ucast trigger))])
      @ [op_data ARC_CONNECT_CMD_IDU_SET_DEST irq core]) @ [op_data ARC_CONNECT_CMD_IDU_SET_MASK irq 0]) s t4"
    using connect_data_after [OF t3(2)] unfolding arc_connect_idu_set_mask_def by blast
  obtain t5 where t5: "run_state (arc_connect_idu_enable p e) t4 = (Inr (), t5)" "conn_after p e (config_ops core irq trigger distri) s t5"
    using connect_only_after [OF t4(2)] unfolding arc_connect_idu_enable_def config_ops_def append_Cons append_Nil by blast
  show ?thesis using t1(1) t2(1) t3(1) t4(1) t5 by (intro exI [of _ t5]) (simp add: arc_connect_idu_config_irq_def)
qed

lemma op_word_fields:
  assumes "con_cmd opr < 0x100" "con_param opr < 0x10000"
  shows "word_cmd (op_word opr) = con_cmd opr" "word_param (op_word opr) = con_param opr"
  using word_decode [OF assms] by (simp_all add: op_word_def)

lemma unit_after_only:
  assumes "c \<in> {ARC_CONNECT_CMD_IDU_ENABLE, ARC_CONNECT_CMD_IDU_DISABLE}"
  shows "conn_unit (op_log p e (op_only c 0) h) = (conn_unit h)\<lparr>idu_on := c = ARC_CONNECT_CMD_IDU_ENABLE\<rparr>"
proof -
  have "word_cmd (op_word (op_only c 0)) = c" using op_word_fields(1) [of "op_only c 0"] assms by auto
  then have a: "conn_apply (op_word (op_only c 0)) d u = u\<lparr>idu_on := c = ARC_CONNECT_CMD_IDU_ENABLE\<rparr>" for d u
    using assms by (auto simp: conn_apply_def)
  show ?thesis by (subst unit_after_op) (simp_all add: a op_apply_def fun_eq_iff)
qed

lemma unit_after_data:
  assumes "irq < 0x10000"
  shows "conn_unit (op_log p e (op_data ARC_CONNECT_CMD_IDU_SET_MODE irq d) h) = (conn_unit h)\<lparr>idu_mode := (idu_mode (conn_unit h))(irq := d)\<rparr>"
    "conn_unit (op_log p e (op_data ARC_CONNECT_CMD_IDU_SET_DEST irq d) h) = (conn_unit h)\<lparr>idu_dest := (idu_dest (conn_unit h))(irq := d)\<rparr>"
    "conn_unit (op_log p e (op_data ARC_CONNECT_CMD_IDU_SET_MASK irq d) h) = (conn_unit h)\<lparr>idu_mask := (idu_mask (conn_unit h))(irq := d)\<rparr>"
  by (subst unit_after_op, simp, simp add: op_apply_def conn_apply_def op_word_fields assms)+

lemma answer_fields:
  assumes p: "arconnect_unit p" and irq: "irq < 0x10000"
  shows "op_answer p e (op_return ARC_CONNECT_CMD_IDU_READ_ENABLE irq) h = of_bool (idu_on (conn_unit h))"
    "op_answer p e (op_return ARC_CONNECT_CMD_IDU_READ_DEST irq) h = idu_dest (conn_unit h) irq"
    "op_answer p e (op_return ARC_CONNECT_CMD_IDU_READ_MASK irq) h = idu_mask (conn_unit h) irq"
  by (rule op_answer_reply [OF p], simp add: conn_reply_def op_word_fields irq)+

text \<open>
  C8: on a unit that obeys its command words, whose lock is free, and for an interrupt number of 16 bits, \<open>arc_connect_idu_config_irq\<close> returns with the common interrupt \<open>irq\<close> set up as asked
  (mode, destination, mask 0), every other interrupt as before and distribution on, and the destination and the mask read back so.
  \<open>arc_connect_idu_read_mode\<close>, which sends the command for the enable flag, answers 1 whatever the mode is.
\<close>

theorem connect_idu_config_reads_back:
  fixes s :: "'a conn_mach_scheme"
  assumes p: "arconnect_unit p" and e: "conn_ready e s" and irq: "irq < 0x10000"
  shows "\<exists>t. run_state (arc_connect_idu_config_irq p e core irq trigger distri) s = (Inr (), t)
    \<and> conn_unit (hist t) = (let u = conn_unit (hist s) in u\<lparr>idu_on := True, idu_mode := (idu_mode u)(irq := ucast distri OR push_bit 4 (ucast trigger)),
        idu_dest := (idu_dest u)(irq := core), idu_mask := (idu_mask u)(irq := 0)\<rparr>)
    \<and> fst (run_state (arc_connect_idu_read_dest p e irq) t) = Inr core \<and> fst (run_state (arc_connect_idu_read_mask p e irq) t) = Inr 0
    \<and> fst (run_state (arc_connect_idu_read_enable p e) t) = Inr 1 \<and> fst (run_state (arc_connect_idu_read_mode p e irq) t) = Inr 1"
proof -
  obtain t where t: "run_state (arc_connect_idu_config_irq p e core irq trigger distri) s = (Inr (), t)"
    "conn_after p e (config_ops core irq trigger distri) s t" using idu_config_run [OF e] by blast
  then have "hist t = fold (op_log p e) (config_ops core irq trigger distri) (hist s)" by (auto simp: conn_after_def)
  then have u: "conn_unit (hist t) = (let u = conn_unit (hist s) in u\<lparr>idu_on := True, idu_mode := (idu_mode u)(irq := ucast distri OR push_bit 4 (ucast trigger)),
      idu_dest := (idu_dest u)(irq := core), idu_mask := (idu_mask u)(irq := 0)\<rparr>)"
    by (simp add: config_ops_def unit_after_only unit_after_data irq Let_def)
  note answers = connect_return_answer [OF t(2)] answer_fields [OF p irq] answer_fields(1) [OF p, of 0] u
  show ?thesis using t(1) u
    by (simp add: arc_connect_idu_read_dest_def arc_connect_idu_read_mask_def arc_connect_idu_read_enable_def arc_connect_idu_read_mode_def answers Let_def)
qed

lemma unit_after_debug:
  "conn_unit (op_log p e (op_data ARC_CONNECT_CMD_DEBUG_HALT 0 d) h) = (conn_unit h)\<lparr>running := running (conn_unit h) AND NOT d\<rparr>"
  "conn_unit (op_log p e (op_data ARC_CONNECT_CMD_DEBUG_RUN 0 d) h) = (conn_unit h)\<lparr>running := running (conn_unit h) OR d\<rparr>"
  by (subst unit_after_op, simp, simp add: op_apply_def conn_apply_def op_word_fields)+

text \<open>
  C9: with the lock free, \<open>arc_connect_debug_halt\<close> stops exactly the cores of its mask, but \<open>arc_connect_debug_mask_read\<close>, which sends the command that runs
  cores, starts the cores it is asked about: after both the cores halted before run again.
\<close>

theorem connect_mask_read_runs_cores:
  fixes s :: "'a conn_mach_scheme"
  assumes e: "conn_ready e s"
  shows "\<exists>t u v. run_state (arc_connect_debug_halt p e cores) s = (Inr (), t) \<and> run_state (arc_connect_debug_mask_read p e cores) t = (Inr v, u)
    \<and> conn_unit (hist t) = (conn_unit (hist s))\<lparr>running := running (conn_unit (hist s)) AND NOT cores\<rparr>
    \<and> conn_unit (hist u) = (conn_unit (hist s))\<lparr>running := running (conn_unit (hist s)) OR cores\<rparr>"
proof -
  obtain t where t: "run_state (arc_connect_debug_halt p e cores) s = (Inr (), t)" "conn_after p e [op_data ARC_CONNECT_CMD_DEBUG_HALT 0 cores] s t"
    using connect_data_after [OF conn_after_nil [OF e]] unfolding arc_connect_debug_halt_def by fastforce
  obtain u where u: "run_state (arc_connect_debug_mask_read p e cores) t = (Inr (op_answer p e (op_data ARC_CONNECT_CMD_DEBUG_RUN 0 cores) (hist t)), u)"
    "conn_after p e ([op_data ARC_CONNECT_CMD_DEBUG_HALT 0 cores] @ [op_data ARC_CONNECT_CMD_DEBUG_RUN 0 cores]) s u"
    using conn_after_step [OF t(2), of "op_data ARC_CONNECT_CMD_DEBUG_RUN 0 cores"]
    unfolding arc_connect_debug_mask_read_def connect_wdata_read_def by blast
  have "conn_unit (hist t) = (conn_unit (hist s))\<lparr>running := running (conn_unit (hist s)) AND NOT cores\<rparr>"
    using t(2) by (auto simp: conn_after_def unit_after_debug)
  moreover have "(x AND NOT cores) OR cores = x OR cores" for x :: u32 by (rule bit_word_eqI) (auto simp: bit_simps)
  then have "conn_unit (hist u) = (conn_unit (hist s))\<lparr>running := running (conn_unit (hist s)) OR cores\<rparr>"
    using u(2) by (auto simp: conn_after_def unit_after_debug)
  ultimately show ?thesis using t(1) u(1) by blast
qed

subsection \<open>Samples\<close>

definition sample_conn_plat :: plat where
  "sample_conn_plat = sample_plat\<lparr>aux_in := \<lambda>h a. case h of Aux_wr b w # k \<Rightarrow>
     (if a = AUX_CONNECT_READBACK \<and> b = AUX_CONNECT_CMD then case_option 0 id (conn_reply w (conn_unit k)) else 0) | _ \<Rightarrow> 0\<rparr>"

definition sample_conn_env :: conn_env where
  "sample_conn_env = \<lparr>is_hs = True, arc_connect_lock = 0x9000, lock_fuel = 1\<rparr>"

definition sample_conn_mach :: conn_mach where
  "sample_conn_mach = mach.extend sample_mach \<lparr>slock = \<lambda>_. 0\<rparr>"

lemma sample_conn_unit: "arconnect_unit sample_conn_plat"
  by (simp add: arconnect_unit_def sample_conn_plat_def)

lemma sample_conn_ready: "conn_ready sample_conn_env sample_conn_mach"
  by (simp add: conn_ready_def sample_conn_env_def sample_conn_mach_def mach.defs)

lemma hist_sample_conn [simp]: "hist sample_conn_mach = []"
  by (simp add: sample_conn_mach_def mach.defs)

lemma connect_idu_config_reads_back_witness:
  "\<exists>t. run_state (arc_connect_idu_config_irq sample_conn_plat sample_conn_env 4 0x18 1 2) sample_conn_mach = (Inr (), t)
    \<and> idu_mode (conn_unit (hist t)) 0x18 = 0x12
    \<and> fst (run_state (arc_connect_idu_read_dest sample_conn_plat sample_conn_env 0x18) t) = Inr 4
    \<and> fst (run_state (arc_connect_idu_read_mode sample_conn_plat sample_conn_env 0x18) t) = Inr 1"
  using connect_idu_config_reads_back [OF sample_conn_unit sample_conn_ready, of "0x18" 4 1 2] by (auto simp: Let_def)

lemma connect_mask_read_runs_cores_witness:
  "\<exists>t u v. run_state (arc_connect_debug_halt sample_conn_plat sample_conn_env 2) sample_conn_mach = (Inr (), t)
    \<and> run_state (arc_connect_debug_mask_read sample_conn_plat sample_conn_env 2) t = (Inr v, u)
    \<and> running (conn_unit (hist t)) = 0xD \<and> running (conn_unit (hist u)) = 0xF"
  using connect_mask_read_runs_cores [OF sample_conn_ready, of sample_conn_plat 2] by (fastforce simp: conn_reset_def)

end
