(* ===== verification/ConnectMp.thy ===== *)
theory ConnectMp
  imports ConnectSpec
begin

section \<open>ARConnect commands of several cores\<close>

text \<open>
  The cores of an HS cluster run \<open>arc_connect_cmd_execute\<close> at the same time; they share the word of the
  spin lock, the reservations of \<open>llock\<close> and \<open>scond\<close>, and the registers of the unit. Every interleaving
  is a serial execution of the commands, with the same answers, in an order that keeps the order of each core.
\<close>

subsection \<open>The interleaving\<close>

text \<open>Where a core is in \<open>arc_connect_cmd_execute\<close>: in the loop of \<open>arc_spinlock_get\<close> before \<open>llock\<close> or
  before \<open>scond\<close>, in the critical section with so many stores made, or before \<open>arc_spinlock_release\<close>.\<close>

datatype core_pc = Idle | Spin conn_op | Loaded conn_op | Writing conn_op nat | Unlock

record cluster =
  lock :: u32
  resv :: "nat set"
  core :: "nat \<Rightarrow> core_pc"
  todo :: "nat \<Rightarrow> conn_op list"
  got :: "nat \<Rightarrow> u32 list"
  bus :: "access list"

text \<open>One step of one core; \<open>Lose\<close> is any event that takes reservations away.\<close>

inductive mp_step :: "plat \<Rightarrow> cluster \<Rightarrow> cluster \<Rightarrow> bool" for p where
  Start: "core s i = Idle \<Longrightarrow> todo s i = opr # os \<Longrightarrow> mp_step p s (s\<lparr>core := (core s)(i := Spin opr), todo := (todo s)(i := os)\<rparr>)"
| Llock: "core s i = Spin opr \<Longrightarrow>
    mp_step p s (s\<lparr>resv := insert i (resv s), core := (core s)(i := if lock s = ARC_SPIN_LOCK_LOCKED then Spin opr else Loaded opr)\<rparr>)"
| Scond: "core s i = Loaded opr \<Longrightarrow> i \<in> resv s \<Longrightarrow>
    mp_step p s (s\<lparr>lock := ARC_SPIN_LOCK_LOCKED, resv := {}, core := (core s)(i := Writing opr 0)\<rparr>)"
| Scond_fail: "core s i = Loaded opr \<Longrightarrow> i \<notin> resv s \<Longrightarrow> mp_step p s (s\<lparr>core := (core s)(i := Spin opr)\<rparr>)"
| Lose: "mp_step p s (s\<lparr>resv := resv s - lost\<rparr>)"
| Write: "core s i = Writing opr n \<Longrightarrow> n < length (op_writes opr) \<Longrightarrow>
    mp_step p s (s\<lparr>core := (core s)(i := Writing opr (Suc n)), bus := op_writes opr ! n # bus s\<rparr>)"
| Read: "core s i = Writing opr (length (op_writes opr)) \<Longrightarrow> v = aux_in p (bus s) AUX_CONNECT_READBACK \<Longrightarrow>
    mp_step p s (s\<lparr>core := (core s)(i := Unlock), got := (got s)(i := got s i @ [v]), bus := Aux_rd AUX_CONNECT_READBACK v # bus s\<rparr>)"
| Release: "core s i = Unlock \<Longrightarrow> mp_step p s (s\<lparr>lock := ARC_SPIN_LOCK_UNLOCKED, resv := {}, core := (core s)(i := Idle)\<rparr>)"

inductive_cases mp_stepE: "mp_step p s t"

definition mp_start :: "access list \<Rightarrow> (nat \<Rightarrow> conn_op list) \<Rightarrow> cluster" where
  "mp_start h prog = \<lparr>lock = ARC_SPIN_LOCK_UNLOCKED, resv = {}, core = \<lambda>_. Idle, todo = prog, got = \<lambda>_. [], bus = h\<rparr>"

text \<open>The same step as a function, of a given core.\<close>

definition mp_do :: "plat \<Rightarrow> nat \<Rightarrow> cluster \<Rightarrow> cluster" where
  "mp_do p i s = (case core s i of
     Idle \<Rightarrow> (case todo s i of [] \<Rightarrow> s | opr # os \<Rightarrow> s\<lparr>core := (core s)(i := Spin opr), todo := (todo s)(i := os)\<rparr>)
   | Spin opr \<Rightarrow> s\<lparr>resv := insert i (resv s), core := (core s)(i := if lock s = ARC_SPIN_LOCK_LOCKED then Spin opr else Loaded opr)\<rparr>
   | Loaded opr \<Rightarrow> (if i \<in> resv s then s\<lparr>lock := ARC_SPIN_LOCK_LOCKED, resv := {}, core := (core s)(i := Writing opr 0)\<rparr>
       else s\<lparr>core := (core s)(i := Spin opr)\<rparr>)
   | Writing opr n \<Rightarrow> (if n < length (op_writes opr) then s\<lparr>core := (core s)(i := Writing opr (Suc n)), bus := op_writes opr ! n # bus s\<rparr>
       else if n = length (op_writes opr) then (let v = aux_in p (bus s) AUX_CONNECT_READBACK in
         s\<lparr>core := (core s)(i := Unlock), got := (got s)(i := got s i @ [v]), bus := Aux_rd AUX_CONNECT_READBACK v # bus s\<rparr>)
       else s)
   | Unlock \<Rightarrow> s\<lparr>lock := ARC_SPIN_LOCK_UNLOCKED, resv := {}, core := (core s)(i := Idle)\<rparr>)"

lemma mp_do_step: "(mp_step p)\<^sup>*\<^sup>* s (mp_do p i s)"
proof (cases "core s i")
  case Idle
  then show ?thesis by (cases "todo s i") (auto simp: mp_do_def intro: mp_step.Start r_into_rtranclp)
next
  case (Spin opr)
  then show ?thesis using mp_step.Llock [OF Spin, of p] by (simp add: mp_do_def r_into_rtranclp)
next
  case (Loaded opr)
  then show ?thesis using mp_step.Scond [OF Loaded, of p] mp_step.Scond_fail [OF Loaded, of p] by (auto simp: mp_do_def)
next
  case (Writing opr n)
  then show ?thesis using mp_step.Write [OF Writing, of p] mp_step.Read [of s i opr] by (auto simp: mp_do_def Let_def)
next
  case Unlock
  then show ?thesis using mp_step.Release [OF Unlock, of p] by (simp add: mp_do_def r_into_rtranclp)
qed

lemma mp_do_all: "(mp_step p)\<^sup>*\<^sup>* s (fold (mp_do p) is s)"
  by (induction "is" arbitrary: s) (auto intro: rtranclp_trans mp_do_step)

subsection \<open>Serial executions\<close>

text \<open>The log of a list of served commands, each with its core and its answer.\<close>

type_synonym served = "(nat \<times> conn_op \<times> u32) list"

definition serial_log :: "plat \<Rightarrow> conn_env \<Rightarrow> served \<Rightarrow> access list \<Rightarrow> access list" where
  "serial_log p e ts h = fold (\<lambda>(i, opr, v). op_log p e opr) ts h"

fun answers_ok :: "plat \<Rightarrow> conn_env \<Rightarrow> served \<Rightarrow> access list \<Rightarrow> bool" where
  "answers_ok p e [] h = True"
| "answers_ok p e ((i, opr, v) # ts) h \<longleftrightarrow> v = op_answer p e opr h \<and> answers_ok p e ts (op_log p e opr h)"

definition of_core :: "nat \<Rightarrow> served \<Rightarrow> served" where
  "of_core i ts = filter (\<lambda>(j, opr, v). j = i) ts"

primrec exec_ops :: "plat \<Rightarrow> conn_env \<Rightarrow> conn_op list \<Rightarrow> ('a, u32 list res) kop" where
  "exec_ops p e [] = retE []"
| "exec_ops p e (opr # os) = bindE (arc_connect_cmd_execute p e (Some opr)) (\<lambda>v. bindE (exec_ops p e os) (\<lambda>vs. retE (v # vs)))"

lemma serial_snoc: "serial_log p e (ts @ [(i, opr, v)]) h = op_log p e opr (serial_log p e ts h)"
  by (simp add: serial_log_def)

lemma answers_snoc: "answers_ok p e (ts @ [(i, opr, v)]) h \<longleftrightarrow> answers_ok p e ts h \<and> v = op_answer p e opr (serial_log p e ts h)"
  by (induction p e ts h rule: answers_ok.induct) (simp_all add: serial_log_def)

lemma of_core_snoc [simp]: "of_core i (ts @ [(j, opr, v)]) = of_core i ts @ (if j = i then [(j, opr, v)] else [])"
  by (simp add: of_core_def)

lemma exec_ops_serial:
  fixes s :: "'a conn_mach_scheme"
  assumes "is_hs e"
  shows "conn_ready e s \<Longrightarrow> answers_ok p e ts (hist s) \<Longrightarrow>
    run_state (exec_ops p e (map (fst \<circ> snd) ts)) s = (Inr (map (snd \<circ> snd) ts), s\<lparr>hist := serial_log p e ts (hist s)\<rparr>)"
proof (induction ts arbitrary: s)
  case (Cons x ts)
  obtain i opr v where x: "x = (i, opr, v)" by (cases x) auto
  let ?t = "s\<lparr>hist := op_log p e opr (hist s)\<rparr>"
  from cmd_execute_run [OF Cons.prems(1), of p opr] assms
  have c: "run_state (arc_connect_cmd_execute p e (Some opr)) s = (Inr v, ?t)" using Cons.prems(2) x by auto
  have "conn_ready e ?t" "answers_ok p e ts (hist ?t)" using Cons.prems x by (simp_all add: conn_ready_def)
  from Cons.IH [OF this] show ?case using c x by (simp add: serial_log_def)
qed (simp add: serial_log_def)

subsection \<open>The invariant\<close>

definition inside :: "core_pc \<Rightarrow> bool" where
  "inside c \<longleftrightarrow> (case c of Writing _ _ \<Rightarrow> True | Unlock \<Rightarrow> True | _ \<Rightarrow> False)"

fun current :: "core_pc \<Rightarrow> conn_op list" where
  "current (Spin opr) = [opr]"
| "current (Loaded opr) = [opr]"
| "current (Writing opr n) = [opr]"
| "current c = []"

lemma inside_simps [simp]:
  "\<not> inside Idle" "\<not> inside (Spin opr)" "\<not> inside (Loaded opr)" "inside (Writing opr n)" "inside Unlock"
  by (simp_all add: inside_def)

text \<open>The lock is held exactly by the core inside, of which there is one at most, and a reservation is good only for a free lock.\<close>

definition lock_inv :: "cluster \<Rightarrow> bool" where
  "lock_inv s \<longleftrightarrow> (\<forall>i j. inside (core s i) \<longrightarrow> inside (core s j) \<longrightarrow> i = j)
     \<and> (lock s = ARC_SPIN_LOCK_LOCKED \<longleftrightarrow> (\<exists>i. inside (core s i)))
     \<and> (\<forall>i opr. core s i = Loaded opr \<longrightarrow> i \<in> resv s \<longrightarrow> lock s \<noteq> ARC_SPIN_LOCK_LOCKED)"

text \<open>The bus shows the commands served and the stores of the one that is being made.\<close>

definition bus_inv :: "plat \<Rightarrow> conn_env \<Rightarrow> access list \<Rightarrow> (nat \<Rightarrow> conn_op list) \<Rightarrow> served \<Rightarrow> cluster \<Rightarrow> bool" where
  "bus_inv p e h prog ts s \<longleftrightarrow> answers_ok p e ts h
     \<and> (\<forall>i. prog i = map (fst \<circ> snd) (of_core i ts) @ current (core s i) @ todo s i \<and> got s i = map (snd \<circ> snd) (of_core i ts))
     \<and> (\<forall>i opr n. core s i = Writing opr n \<longrightarrow> n \<le> length (op_writes opr) \<and> bus s = rev (take n (op_writes opr)) @ serial_log p e ts h)
     \<and> ((\<forall>i opr n. core s i \<noteq> Writing opr n) \<longrightarrow> bus s = serial_log p e ts h)"

lemma lock_inv_same:
  assumes "lock_inv s" "core t = (core s)(i := c)" "inside c = inside (core s i)" "lock t = lock s" "resv t - {i} \<subseteq> resv s"
    and "\<And>opr. c = Loaded opr \<Longrightarrow> i \<in> resv t \<Longrightarrow> lock s \<noteq> ARC_SPIN_LOCK_LOCKED"
  shows "lock_inv t"
proof -
  have in_eq: "inside (core t j) = inside (core s j)" for j using assms(2,3) by simp
  show ?thesis unfolding lock_inv_def
  proof (intro conjI allI impI)
    fix j opr
    assume a: "core t j = Loaded opr" "j \<in> resv t"
    show "lock t \<noteq> ARC_SPIN_LOCK_LOCKED"
    proof (cases "j = i")
      case True
      then show ?thesis using a assms(2,4,6) by auto
    next
      case False
      then have "core s j = Loaded opr" "j \<in> resv s" using a assms(2,5) by auto
      then show ?thesis using assms(1,4) by (auto simp: lock_inv_def)
    qed
  qed (use assms(1,4) in_eq in \<open>auto simp: lock_inv_def\<close>)
qed

lemma lock_inv_step:
  assumes "mp_step p s t" "lock_inv s"
  shows "lock_inv t"
  using assms(1)
proof cases
  case (Start i opr os)
  then show ?thesis by (intro lock_inv_same [OF assms(2), of t i "Spin opr"]) auto
next
  case (Llock i opr)
  then show ?thesis by (intro lock_inv_same [OF assms(2), of t i "if lock s = ARC_SPIN_LOCK_LOCKED then Spin opr else Loaded opr"]) auto
next
  case (Scond i opr)
  then have "lock s \<noteq> ARC_SPIN_LOCK_LOCKED" using assms(2) by (auto simp: lock_inv_def)
  then have out: "\<not> inside (core s j)" for j using assms(2) by (auto simp: lock_inv_def)
  have "inside (core t j) \<longleftrightarrow> j = i" for j using Scond(1) out by simp
  then show ?thesis using Scond(1) by (auto simp: lock_inv_def)
next
  case (Scond_fail i opr)
  then show ?thesis by (intro lock_inv_same [OF assms(2), of t i "Spin opr"]) auto
next
  case (Lose lost)
  then show ?thesis using assms(2) by (intro lock_inv_same [OF assms(2), of t 0 "core s 0"]) (auto simp: lock_inv_def)
next
  case (Write i opr n)
  then show ?thesis by (intro lock_inv_same [OF assms(2), of t i "Writing opr (Suc n)"]) auto
next
  case (Read i opr v)
  then show ?thesis by (intro lock_inv_same [OF assms(2), of t i Unlock]) auto
next
  case (Release i)
  have "\<not> inside (core s j)" if "j \<noteq> i" for j using assms(2) Release(2) that by (auto simp: lock_inv_def)
  then have "\<not> inside (core t j)" for j using Release(1) by simp
  then show ?thesis using Release(1) by (auto simp: lock_inv_def)
qed

text \<open>A step that leaves the bus alone.\<close>

lemma bus_inv_same:
  assumes b: "bus_inv p e h prog ts s" and t: "bus t = bus s" "got t = got s" "core t = (core s)(i := c)"
    and cur: "current c @ todo t i = current (core s i) @ todo s i" "\<And>j. j \<noteq> i \<Longrightarrow> todo t j = todo s j"
    and w: "\<And>opr n. core s i \<noteq> Writing opr n" "\<And>opr n. c \<noteq> Writing opr n"
  shows "bus_inv p e h prog ts t"
proof -
  have "current (core t j) @ todo t j = current (core s j) @ todo s j" for j using cur t(3) by (cases "j = i") auto
  moreover have "core t j = Writing opr n \<longleftrightarrow> core s j = Writing opr n" for j opr n using t(3) w by (cases "j = i") auto
  ultimately show ?thesis using b t(1,2) by (auto simp: bus_inv_def)
qed

lemma bus_inv_step:
  assumes e: "is_hs e" and st: "mp_step p s t" and l: "lock_inv s" and b: "bus_inv p e h prog ts s"
  shows "\<exists>us. bus_inv p e h prog us t"
  using st
proof cases
  case (Start i opr os)
  then show ?thesis by (intro exI [of _ ts] bus_inv_same [OF b, of t i "Spin opr"]) auto
next
  case (Llock i opr)
  then show ?thesis by (intro exI [of _ ts] bus_inv_same [OF b, of t i "if lock s = ARC_SPIN_LOCK_LOCKED then Spin opr else Loaded opr"]) auto
next
  case (Scond i opr)
  then have "lock s \<noteq> ARC_SPIN_LOCK_LOCKED" using l by (auto simp: lock_inv_def)
  then have out: "\<not> inside (core s j)" for j using l by (auto simp: lock_inv_def)
  have none: "core s j \<noteq> Writing o' n" for j o' n using out [of j] by auto
  then have bs: "bus s = serial_log p e ts h" using b by (auto simp: bus_inv_def)
  have cur: "current (core t j) = current (core s j)" for j using Scond by simp
  have wr: "core t j = Writing o' n \<longleftrightarrow> j = i \<and> o' = opr \<and> n = 0" for j o' n using Scond none [of j] by auto
  have "bus t = bus s" "got t = got s" "todo t = todo s" using Scond(1) by simp_all
  then have "bus_inv p e h prog ts t" using b bs cur wr by (simp add: bus_inv_def)
  then show ?thesis ..
next
  case (Scond_fail i opr)
  then show ?thesis by (intro exI [of _ ts] bus_inv_same [OF b, of t i "Spin opr"]) auto
next
  case (Lose lost)
  then show ?thesis using b by (intro exI [of _ ts]) (simp add: bus_inv_def)
next
  case (Write i opr n)
  have one: "core s j = Writing o' m \<Longrightarrow> j = i" for j o' m using l Write(2) by (force simp: lock_inv_def)
  have bs: "bus s = rev (take n (op_writes opr)) @ serial_log p e ts h" using b Write(2) by (auto simp: bus_inv_def)
  have cur: "current (core t j) = current (core s j)" for j using Write by simp
  have wr: "core t j = Writing o' m \<longleftrightarrow> j = i \<and> o' = opr \<and> m = Suc n" for j o' m
    using Write(1) one [of j o' m] by (cases "j = i") auto
  have "bus t = rev (take (Suc n) (op_writes opr)) @ serial_log p e ts h" using bs Write by (simp add: take_Suc_conv_app_nth)
  moreover have "answers_ok p e ts h" using b by (simp add: bus_inv_def)
  moreover have "prog j = map (fst \<circ> snd) (of_core j ts) @ current (core t j) @ todo t j \<and> got t j = map (snd \<circ> snd) (of_core j ts)" for j
  proof -
    have "got t = got s" "todo t = todo s" using Write(1) by simp_all
    then show ?thesis using b unfolding cur by (simp add: bus_inv_def)
  qed
  ultimately have "bus_inv p e h prog ts t" using Write(3) unfolding bus_inv_def wr by (intro conjI) auto
  then show ?thesis ..
next
  case (Read i opr v)
  let ?us = "ts @ [(i, opr, v)]"
  have one: "core s j = Writing o' m \<Longrightarrow> j = i" for j o' m using l Read(2) by (force simp: lock_inv_def)
  have bs: "bus s = rev (op_writes opr) @ serial_log p e ts h" using b Read(2) by (auto simp: bus_inv_def)
  have "v = op_answer p e opr (serial_log p e ts h)" using Read(3) bs e by (simp add: op_answer_def)
  then have "answers_ok p e ?us h" using b by (simp add: answers_snoc bus_inv_def)
  moreover have "bus t = serial_log p e ?us h" using Read(1,3) bs e by (simp add: serial_snoc op_log_def Let_def)
  moreover have "core t j \<noteq> Writing o' m" for j o' m using Read(1) one [of j] by auto
  moreover have "prog j = map (fst \<circ> snd) (of_core j ?us) @ current (core t j) @ todo t j \<and> got t j = map (snd \<circ> snd) (of_core j ?us)" for j
  proof -
    have "prog j = map (fst \<circ> snd) (of_core j ts) @ current (core s j) @ todo s j \<and> got s j = map (snd \<circ> snd) (of_core j ts)"
      using b by (simp add: bus_inv_def)
    then show ?thesis using Read(1,2) by (cases "j = i") simp_all
  qed
  ultimately have "bus_inv p e h prog ?us t" by (simp add: bus_inv_def)
  then show ?thesis ..
next
  case (Release i)
  then show ?thesis by (intro exI [of _ ts] bus_inv_same [OF b, of t i Idle]) auto
qed

lemma mp_reachable:
  assumes e: "is_hs e" and r: "(mp_step p)\<^sup>*\<^sup>* (mp_start h prog) s"
  shows "lock_inv s \<and> (\<exists>ts. bus_inv p e h prog ts s)"
  using r
proof (induction rule: rtranclp_induct)
  case base
  have "bus_inv p e h prog [] (mp_start h prog)" by (simp add: bus_inv_def mp_start_def serial_log_def of_core_def)
  then show ?case by (auto simp: lock_inv_def mp_start_def)
next
  case (step s t)
  then show ?case using lock_inv_step bus_inv_step [OF e] by blast
qed

text \<open>
  C7: for any number of HS cores that find the lock free, with any programs of commands, in every state their steps reach at most one core is in the critical
  section; and whenever no command is half stored, what the unit has seen is the log of the commands served so far run one after the
  other by \<open>arc_connect_cmd_execute\<close>, in some order that keeps the order of each core, and every core has got the answers of that run.
\<close>

theorem connect_commands_serialize:
  fixes s :: "'a conn_mach_scheme"
  assumes e: "is_hs e" "conn_ready e s" and r: "(mp_step p)\<^sup>*\<^sup>* (mp_start (hist s) prog) c"
  shows "(\<forall>i j. inside (core c i) \<longrightarrow> inside (core c j) \<longrightarrow> i = j)
    \<and> ((\<forall>i opr n. core c i \<noteq> Writing opr n) \<longrightarrow> (\<exists>ts.
        run_state (exec_ops p e (map (fst \<circ> snd) ts)) s = (Inr (map (snd \<circ> snd) ts), s\<lparr>hist := bus c\<rparr>)
      \<and> (\<forall>i. prog i = map (fst \<circ> snd) (of_core i ts) @ current (core c i) @ todo c i \<and> got c i = map (snd \<circ> snd) (of_core i ts))))"
proof -
  from mp_reachable [OF e(1) r] obtain ts where l: "lock_inv c" and b: "bus_inv p e (hist s) prog ts c" by blast
  have "run_state (exec_ops p e (map (fst \<circ> snd) ts)) s = (Inr (map (snd \<circ> snd) ts), s\<lparr>hist := serial_log p e ts (hist s)\<rparr>)"
    using exec_ops_serial [OF e] b by (simp add: bus_inv_def)
  then show ?thesis using l b by (auto simp: lock_inv_def bus_inv_def)
qed

text \<open>Two cores, one command each; the second finds its reservation gone.\<close>

definition sample_prog :: "nat \<Rightarrow> conn_op list" where
  "sample_prog i = (if i = 0 then [op_data ARC_CONNECT_CMD_IDU_SET_DEST 0x18 4] else if i = 1 then [op_return ARC_CONNECT_CMD_IDU_READ_DEST 0x18] else [])"

definition sample_cluster :: cluster where
  "sample_cluster = fold (mp_do sample_conn_plat) [0, 1, 0, 1, 0, 1, 0, 1, 0, 0, 0, 1, 1, 1, 1, 1] (mp_start [] sample_prog)"

lemma sample_cluster_bus:
  "core sample_cluster i = Idle" "got sample_cluster 1 = [4]"
  "bus sample_cluster = [Aux_rd 0x602 4, Aux_wr 0x600 0x1877, Aux_rd 0x602 0, Aux_wr 0x600 0x1876, Aux_wr 0x601 4]"
  by (simp_all add: sample_cluster_def mp_do_def mp_start_def sample_prog_def op_writes_def op_word_def sample_conn_plat_def conn_reply_def conn_apply_def
      word_cmd_def word_param_def)

lemma connect_commands_serialize_witness:
  "\<exists>ts. run_state (exec_ops sample_conn_plat sample_conn_env (map (fst \<circ> snd) ts)) sample_conn_mach
      = (Inr (map (snd \<circ> snd) ts), sample_conn_mach\<lparr>hist := [Aux_rd 0x602 4, Aux_wr 0x600 0x1877, Aux_rd 0x602 0, Aux_wr 0x600 0x1876, Aux_wr 0x601 4]\<rparr>)
    \<and> map (snd \<circ> snd) (of_core 1 ts) = [4]"
proof -
  have "(mp_step sample_conn_plat)\<^sup>*\<^sup>* (mp_start (hist sample_conn_mach) sample_prog) sample_cluster"
    unfolding sample_cluster_def hist_sample_conn by (rule mp_do_all)
  moreover have "is_hs sample_conn_env" by (simp add: sample_conn_env_def)
  ultimately show ?thesis using connect_commands_serialize [OF _ sample_conn_ready] sample_cluster_bus by fastforce
qed

text \<open>A core that finds its own lock held, as an interrupt routine does that breaks into a command, waits for ever.\<close>

lemma connect_reentry_hangs:
  fixes s :: "'a conn_mach_scheme"
  assumes "is_hs e" "slock s (arc_connect_lock e) = ARC_SPIN_LOCK_LOCKED"
  shows "run_state (arc_connect_cmd_execute p e (Some opr)) s = (Inl Hang, s)"
proof -
  have "run_state (spin n (do { v \<leftarrow> get_slock (arc_connect_lock e); c_if (v \<noteq> ARC_SPIN_LOCK_LOCKED) (set_slock (arc_connect_lock e) ARC_SPIN_LOCK_LOCKED);
      State_Monad.return (v \<noteq> ARC_SPIN_LOCK_LOCKED) })) s = (Inl Hang, s)" for n
    using assms(2) by (induction n) (simp_all add: c_if_def)
  then show ?thesis using assms by (simp add: arc_connect_cmd_execute_def arc_spinlock_get_def Let_def)
qed

subsection \<open>Starting the other cores (arc_mp.c)\<close>

text \<open>
  The table of entry functions, the wake flag and the initial stack pointer. What the other cores do
  while the master polls the flag is a parameter: their start-up code is assembly.
\<close>

record boot_mach = conn_mach +
  cpu_fn :: "u32 \<Rightarrow> u32"
  cpu_arg :: "u32 \<Rightarrow> u32"
  arc_cpu_wake_flag :: u32
  arc_cpu_sp :: u32

definition arc_start_slave_cpu :: "nat \<Rightarrow> u32 \<Rightarrow> ('a boot_mach_scheme, unit) state \<Rightarrow> u32 \<Rightarrow> u32 \<Rightarrow> u32 \<Rightarrow> u32 \<Rightarrow> u32
    \<Rightarrow> ('a boot_mach_scheme, unit res) state" where
  "arc_start_slave_cpu fuel num_cpus others cpu_num stack sz fn arg = (
     if \<not> cpu_num < num_cpus then stopE Undef
     else bindE (liftE (State_Monad.update (\<lambda>s. s\<lparr>cpu_fn := (cpu_fn s)(cpu_num := fn), cpu_arg := (cpu_arg s)(cpu_num := arg),
         arc_cpu_sp := stack + sz, arc_cpu_wake_flag := cpu_num\<rparr>))) (\<lambda>_.
       spin fuel (do { others; s \<leftarrow> State_Monad.get; State_Monad.return (arc_cpu_wake_flag s = 0) })))"

definition arc_slave_start :: "(u32 \<Rightarrow> u32 \<Rightarrow> u32 \<Rightarrow> ('a boot_mach_scheme, unit) state) \<Rightarrow> u32 \<Rightarrow> ('a boot_mach_scheme, unit) state" where
  "arc_slave_start call cpu_num = do {
     s \<leftarrow> State_Monad.get;
     call (cpu_fn s cpu_num) cpu_num (cpu_arg s cpu_num)
   }"

text \<open>
  A core that waits for its number and clears the flag once it sees it (\<open>arc_startup.s\<close>) lets the master return, finds its stack
  pointer, and enters the function it was given with its argument.
\<close>

lemma slave_enters:
  fixes s :: "'a boot_mach_scheme" and fn arg sz stack cpu_num :: u32
  assumes "cpu_num < num_cpus" "cpu_num \<noteq> 0" "0 < fuel"
    and "others = do { s \<leftarrow> State_Monad.get; c_if (arc_cpu_wake_flag s = cpu_num) (State_Monad.update (\<lambda>s. s\<lparr>arc_cpu_wake_flag := 0\<rparr>)) }"
  shows "\<exists>t. run_state (arc_start_slave_cpu fuel num_cpus others cpu_num stack sz fn arg) s = (Inr (), t) \<and> arc_cpu_sp t = stack + sz
    \<and> run_state (arc_slave_start call cpu_num) t = run_state (call fn cpu_num arg) t"
  using assms(1-3) unfolding assms(4)
  by (cases fuel) (simp_all add: arc_start_slave_cpu_def arc_slave_start_def c_if_def)

end
