(* ===== verification/Spec2Isabelle.thy ===== *)
theory Spec2Isabelle
  imports ArcException ArcTimer ArcMpu UartSpec XprintfSpec DwGpioSpec DwPwmSpec FlashSpec SpiLife IicIsr I2sInt UdmaSpec ConnectMp
begin

text \<open>
  A verification library of the embARC board support package: C code for ARC processors, in
  three layers. The processor layer (\<open>src/arc\<close>, \<open>src/include/arc\<close>) drives caches, interrupts,
  timers and the memory protection unit through auxiliary registers. The device layer
  (\<open>src/device\<close>, \<open>src/include/device\<close>) drives the peripherals of DesignWare and of the boards
  through memory-mapped registers, with interrupts installed through the processor layer. The
  console library (\<open>src/library/console\<close>) formats text. The boards (\<open>src/board\<close>) bind device
  objects to addresses.

  \<^bold>\<open>How the code is modelled.\<close> Every C function is a definition of the same name in the state
  monad, over a record of the state it can touch. \<open>Machine\<close> holds the part common to all:
  data memory \<open>mem\<close>, the table of handlers, and \<open>hist\<close>, the history of all accesses to
  hardware, newest first. The processor and the devices are not code of the repository: they
  are the parameter \<open>plat\<close>, whose fields say what an access answers as a function of the whole
  history; build constants of the repository are further fields. A theorem about hardware that
  behaves in some way states this as a law about \<open>plat\<close> (\<open>irq_unit\<close>, \<open>latched\<close>,
  \<open>responsive\<close>, \<open>spi_fifo\<close>, \<open>flash_bus\<close>), and its witness exhibits a platform that obeys the law.
  Driver objects (\<open>DEV_..._INFO\<close>, control structures, transfer descriptors) are records in
  typed heaps indexed by their addresses; the heaps are assumed not to overlap each other or
  \<open>mem\<close>. A \<open>uint32_t\<close> or \<open>int32_t\<close> is a 32-bit word, smaller fields keep their width.
  Functions that may not return have the type \<open>res\<close>: \<open>Inl Hang\<close> when a bound on a loop was
  used up, \<open>Inl Undef\<close> where C leaves the behaviour undefined (division by zero, shifts by
  the width or more, signed overflow). Application callbacks are parameters that may do
  anything to the state.

  \<^bold>\<open>Theories and the code they model.\<close>
  \<^item> \<open>Prelude\<close>: word types, programs that may stop, weakest preconditions, polling loops.
  \<^item> \<open>Machine\<close>: the platform, the access history, memory, and \<open>arc_builtin.h\<close>.
  \<^item> \<open>ArcIrq\<close>: the inline functions of \<open>arc_exception.h\<close>; critical sections and key balance.
  \<^item> \<open>ArcCache\<close>: \<open>arc_cache.h\<close> and \<open>arc_cache.c\<close>; line loops against the set of lines of a range.
  \<^item> \<open>ArcException\<close>: \<open>arc_exception.c\<close>; the vector and handler tables, priorities, start-up.
  \<^item> \<open>ArcTimer\<close>: \<open>arc_timer.c\<close>; timers, RTC, and the calibration of the delay loop.
  \<^item> \<open>ArcMpu\<close>: \<open>arc_mpu.h\<close> and \<open>arc_mpu.c\<close>, versions 2 and 4 of the unit.
  \<^item> \<open>ArcUdma\<close>, \<open>UdmaSpec\<close>: \<open>arc_udma.c\<close>; chains of descriptors and their launch (the
    order of stores and write-backs on any cache, answering or not), end addresses,
    the table of channels, interrupt handlers and polling.
  \<^item> \<open>ArcConnect\<close>, \<open>ConnectSpec\<close>, \<open>ConnectMp\<close>: \<open>arc_connect.c\<close>, the spin locks of \<open>arc_mp.h\<close>, \<open>arc_mp.c\<close>;
    set-up of common interrupts, and the interleaved commands of several cores, which are serial.
  \<^item> \<open>DevCommon\<close>: \<open>embARC_error.h\<close>, \<open>dev_common.h\<close>; the locale \<open>counted_device\<close> of open counts,
    the service of pending interrupt bits, registers that read back what was stored.
  \<^item> \<open>DwUart\<close>, \<open>UartProofs\<close>, \<open>UartLife\<close>, \<open>UartSpec\<close>: \<open>dw_uart.c\<close>; the invariant of the
    driver over all its operations, character transfer, interrupts, open and close.
  \<^item> \<open>DwGpio\<close>, \<open>DwGpioSpec\<close>: \<open>dw_gpio.c\<close>; refinement of a pair of words, interrupt service.
  \<^item> \<open>DwPwmTimer\<close>, \<open>DwPwmSpec\<close>: \<open>dw_pwm_timer.c\<close>; counts against frequency and duty cycle,
    with the loss of accuracy of short periods.
  \<^item> \<open>DwSpi\<close>, \<open>SpiEngine\<close>, \<open>SpiSpec\<close>, \<open>SpiProps\<close>, \<open>SpiLife\<close>: \<open>dw_spi.c\<close>; chains of
    descriptors as lists of slots, the polling transfer over a controller with FIFOs, open and close,
    FIFO depths, and the fate of an error interrupt.
  \<^item> \<open>DwIic\<close>, \<open>IicSpec\<close>, \<open>IicLive\<close>, \<open>IicLife\<close>, \<open>IicInv\<close>, \<open>IicIsr\<close>: \<open>dw_iic.c\<close>, master and slave;
    transfers over arbitrary hardware and over a controller that keeps up, clock counts against
    the bus specification, the enumerated fields over all operations, open and close, the
    transmit interrupt.
  \<^item> \<open>DwI2s\<close>, \<open>I2sSpec\<close>, \<open>I2sInt\<close>: \<open>dw_i2s.c\<close>; blocking transfers of stereo samples, a buffer sent
    by interrupts, the interrupt without a buffer, open and close.
  \<^item> \<open>SpiFlash\<close>, \<open>Fl256s\<close>, \<open>FlashChip\<close>, \<open>FlashSpec\<close>: \<open>spi_flash_w25qxx.c\<close>, \<open>spi_flash_fl256s.c\<close>
    over the SPI device; a model of the chip from its data sheet, and the locale \<open>nor_driver\<close>
    in which the loops of both drivers are correct.
  \<^item> \<open>Xprintf\<close>, \<open>XprintfSpec\<close>: \<open>xprintf.c\<close>; output is the text of an independent
    definition of the format language, number parsing inverts it, line input refines an editor on lists.
  \<^bold>\<open>Interfaces.\<close> \<open>counted_device\<close> (open and close of a device) is interpreted on the UART, GPIO, PWM,
  SPI and IIC drivers; the I2S driver breaks its law, since it does not count a second open
  (\<open>i2s_second_open_not_counted\<close>). \<open>nor_driver\<close> (the primitive steps of a flash driver) on the two flash drivers.

  \<^bold>\<open>Bounds.\<close> A loop that waits for hardware has a number of rounds, \<open>fuel\<close>, as an argument. Laws
  about the hardware bound its latency, and each theorem states the fuel that is enough:
  one more than the polls a \<open>responsive\<close> condition needs; \<open>2 * lat + 2\<close> for the status loops of
  the flash drivers and one round per page or sector for their outer loops; twice the frames
  plus one, times one more than the latency, plus the length of the chain, for an SPI transfer
  (\<open>spi_fuel\<close>); 60 doublings for the calibration of the delay loop. The IIC driver bounds its own
  waits by \<open>retry_cnt\<close>, which the model counts down; only a \<open>retry_cnt\<close> of \<open>2 ^ 32 - 1\<close> hangs. Line loops and channel
  loops need as many rounds as they have lines or channels. Where no bound is enough, this is
  a theorem (\<open>icache_invalidate_mlines_top_never_returns\<close>).

  \<^bold>\<open>Abstractions.\<close> Interrupts are calls of the interrupt routines between operations, never
  inside one; only \<open>ConnectMp\<close> interleaves single accesses. Memory barriers and compiler-level volatility are the order of the history.
  Console output of diagnostic functions is recorded as format and arguments. The flash
  drivers pass descriptor chains to the SPI device by value, as the parameter \<open>ctl\<close>, since the
  board decides which driver is behind the device object.

  \<^bold>\<open>Not modelled.\<close> Assembly (\<open>arc_exc_asm.s\<close>, start-up, \<open>arc_util.s\<close>), which has no C semantics;
  device object tables, pin multiplexing and clock tables of the boards, which are constants
  and glue; generated configuration headers; the third-party IMU driver under
  \<open>mpu9250\<close>; system call stubs of \<open>clib\<close>; examples and documents. The remaining drivers (SDIO,
  TRNG and the data fusion subsystem) have the same shape as
  the ones modelled and are left for further work.
\<close>

end
